(* ===== verification/Hub_Prelude.thy ===== *)
theory Hub_Prelude
  imports Main
begin

text \<open>
  Shared vocabulary of the OPNsense Hub development: Python exceptions as values, the ASCII
  fragment of Python's \<open>str\<close> methods, decimal printing and parsing, time spans, and the list
  facts that several components use.

  \<^item> A \<open>str\<close> is a \<^typ>\<open>string\<close>; the model ranges over ASCII text, so that \<open>strip\<close>, \<open>lower\<close>,
    \<open>upper\<close> and the character classes are those of Python on ASCII.
  \<^item> A \<open>datetime\<close> read from the database is an instant, an \<^typ>\<open>int\<close> counting microseconds; every
    timestamp column is \<open>DateTime(timezone=True)\<close>, so the values are time-zone aware and the
    helpers that attach UTC to a naive value are the identity on them.
  \<^item> A Python exception is a value of type \<open>exn\<close>; an operation that may raise returns a sum
    with the exception on the left.
\<close>

named_theorems hub_defs \<open>definitions unfolded by the component proofs\<close>
named_theorems hub_str \<open>string operations\<close>

subsection \<open>Exceptions\<close>

datatype exn =
    HTTPException int string
  | WireGuardError string
  | StartupHardeningError string
  | BrandingError string
  | RuntimeError string
  | ValueError
  | TypeError
  | KeyError
  | AssertionError
  | StructError
  | IntegrityError
  | OSError
  | TimeoutExpired
  | SystemExit string
  | ExternalError string

text \<open>\<open>exc.__class__.__name__\<close>; an \<open>ExternalError\<close> carries the name of the exception class that a
  library raised.\<close>

fun exn_class :: "exn \<Rightarrow> string" where
  "exn_class (HTTPException c d) = ''HTTPException''"
| "exn_class (WireGuardError m) = ''WireGuardError''"
| "exn_class (StartupHardeningError m) = ''StartupHardeningError''"
| "exn_class (BrandingError m) = ''BrandingError''"
| "exn_class (RuntimeError m) = ''RuntimeError''"
| "exn_class ValueError = ''ValueError''"
| "exn_class TypeError = ''TypeError''"
| "exn_class KeyError = ''KeyError''"
| "exn_class AssertionError = ''AssertionError''"
| "exn_class StructError = ''error''"
| "exn_class IntegrityError = ''IntegrityError''"
| "exn_class OSError = ''OSError''"
| "exn_class TimeoutExpired = ''TimeoutExpired''"
| "exn_class (SystemExit m) = ''SystemExit''"
| "exn_class (ExternalError c) = c"

type_synonym 'a res = "exn + 'a"

definition rbind :: "'a res \<Rightarrow> ('a \<Rightarrow> 'b res) \<Rightarrow> 'b res" where
  "rbind m f = (case m of Inl e \<Rightarrow> Inl e | Inr x \<Rightarrow> f x)"

lemma rbind_simps [simp]:
  "rbind (Inl e) f = Inl e"
  "rbind (Inr x) f = f x"
  by (simp_all add: rbind_def)

lemma rbind_Inr_iff: "rbind m f = Inr y \<longleftrightarrow> (\<exists>x. m = Inr x \<and> f x = Inr y)"
  by (cases m) auto

lemma rbind_Inl_iff: "rbind m f = Inl e \<longleftrightarrow> m = Inl e \<or> (\<exists>x. m = Inr x \<and> f x = Inl e)"
  by (cases m) auto

definition ensure :: "bool \<Rightarrow> exn \<Rightarrow> unit res" where
  "ensure b e = (if b then Inr () else Inl e)"

lemma ensure_iff [simp]: "ensure b e = Inr u \<longleftrightarrow> b"
  by (simp add: ensure_def)

fun rmap_list :: "('a \<Rightarrow> 'b res) \<Rightarrow> 'a list \<Rightarrow> 'b list res" where
  "rmap_list f [] = Inr []"
| "rmap_list f (x # xs) = rbind (f x) (\<lambda>y. rbind (rmap_list f xs) (\<lambda>ys. Inr (y # ys)))"

lemma rmap_list_length: "rmap_list f xs = Inr ys \<Longrightarrow> length ys = length xs"
  by (induction xs arbitrary: ys) (auto simp: rbind_Inr_iff)

lemma rmap_list_set:
  "rmap_list f xs = Inr ys \<Longrightarrow> set ys = {y. \<exists>x\<in>set xs. f x = Inr y}"
  by (induction xs arbitrary: ys) (auto simp: rbind_Inr_iff)

fun rfor_each :: "('a \<Rightarrow> unit res) \<Rightarrow> 'a list \<Rightarrow> unit res" where
  "rfor_each f [] = Inr ()"
| "rfor_each f (x # xs) = rbind (f x) (\<lambda>_. rfor_each f xs)"

lemma rfor_each_Inr_iff: "rfor_each f xs = Inr u \<longleftrightarrow> (\<forall>x\<in>set xs. f x = Inr ())"
  by (induction xs) (auto simp: rbind_Inr_iff)

text \<open>
  Stateful code: an action takes the state and returns its outcome with the state it leaves, also
  when it raises.
\<close>

type_synonym ('s, 'a) act = "'s \<Rightarrow> 'a res \<times> 's"

definition aret :: "'a \<Rightarrow> ('s, 'a) act" where
  "aret x = (\<lambda>s. (Inr x, s))"

definition araise :: "exn \<Rightarrow> ('s, 'a) act" where
  "araise e = (\<lambda>s. (Inl e, s))"

definition alift :: "'a res \<Rightarrow> ('s, 'a) act" where
  "alift r = (\<lambda>s. (r, s))"

definition abind :: "('s, 'a) act \<Rightarrow> ('a \<Rightarrow> ('s, 'b) act) \<Rightarrow> ('s, 'b) act" where
  "abind m f = (\<lambda>s. case m s of (Inl e, s') \<Rightarrow> (Inl e, s') | (Inr x, s') \<Rightarrow> f x s')"

definition aseq :: "('s, 'a) act \<Rightarrow> ('s, 'b) act \<Rightarrow> ('s, 'b) act" where
  "aseq m n = abind m (\<lambda>_. n)"

fun afor :: "('a \<Rightarrow> ('s, unit) act) \<Rightarrow> 'a list \<Rightarrow> ('s, unit) act" where
  "afor f [] = aret ()"
| "afor f (x # xs) = aseq (f x) (afor f xs)"

lemma act_simps [simp]:
  "aret x s = (Inr x, s)" "araise e s = (Inl e, s)" "alift r s = (r, s)"
  by (simp_all add: aret_def araise_def alift_def)

lemma abind_Inr_iff:
  "abind m f s = (Inr y, s') \<longleftrightarrow> (\<exists>x t. m s = (Inr x, t) \<and> f x t = (Inr y, s'))"
  by (auto simp: abind_def split: prod.splits sum.splits)

lemma abind_alift_Inr: "abind (alift (Inr x)) f = f x"
  by (rule ext) (simp add: abind_def)

lemma aseq_Inr_iff:
  "aseq m n s = (Inr y, s') \<longleftrightarrow> (\<exists>x t. m s = (Inr x, t) \<and> n t = (Inr y, s'))"
  by (simp add: aseq_def abind_Inr_iff)

text \<open>An action that keeps an invariant of the state, whatever its outcome.\<close>

definition pres :: "('s \<Rightarrow> bool) \<Rightarrow> ('s, 'a) act \<Rightarrow> bool" where
  "pres P m \<longleftrightarrow> (\<forall>s. P s \<longrightarrow> P (snd (m s)))"

named_theorems pres_rules \<open>preservation of an invariant, by the structure of the action\<close>

lemma abind_InrE:
  assumes "abind m f w = (Inr r, w')"
  obtains x w1 where "m w = (Inr x, w1)" "f x w1 = (Inr r, w')"
proof (cases "m w")
  case (Pair a w1)
  with assms that show thesis by (cases a) (simp_all add: abind_def)
qed

lemma pres_ret [pres_rules]: "pres P (aret x)" "pres P (araise e)" "pres P (alift r)"
  by (simp_all add: pres_def)

lemma pres_bind: "pres P m \<Longrightarrow> (\<And>x. pres P (f x)) \<Longrightarrow> pres P (abind m f)"
  unfolding pres_def abind_def by (force split: prod.splits sum.splits)

lemma pres_lift_bind: "(\<And>x. r = Inr x \<Longrightarrow> pres P (f x)) \<Longrightarrow> pres P (abind (alift r) f)"
  by (cases r) (auto simp: pres_def abind_def)

lemma pres_seq: "pres P m \<Longrightarrow> pres P n \<Longrightarrow> pres P (aseq m n)"
  by (simp add: aseq_def pres_bind)

lemma pres_for: "(\<And>x. x \<in> set xs \<Longrightarrow> pres P (f x)) \<Longrightarrow> pres P (afor f xs)"
  by (induction xs) (simp_all add: pres_seq pres_ret)

lemma pres_if: "(b \<Longrightarrow> pres P m) \<Longrightarrow> (\<not> b \<Longrightarrow> pres P n) \<Longrightarrow> pres P (if b then m else n)"
  by simp

text \<open>The exceptions an action can raise.\<close>

definition raises_only :: "(exn \<Rightarrow> bool) \<Rightarrow> ('s, 'a) act \<Rightarrow> bool" where
  "raises_only E m \<longleftrightarrow> (\<forall>s e s'. m s = (Inl e, s') \<longrightarrow> E e)"

lemma raises_ret: "raises_only E (aret x)"
  by (simp add: raises_only_def)

lemma raises_raise: "E e \<Longrightarrow> raises_only E (araise e)"
  by (simp add: raises_only_def)

lemma raises_lift: "(\<And>e. r = Inl e \<Longrightarrow> E e) \<Longrightarrow> raises_only E (alift r)"
  by (simp add: raises_only_def)

lemma raises_bind: "raises_only E m \<Longrightarrow> (\<And>x. raises_only E (f x)) \<Longrightarrow> raises_only E (abind m f)"
  unfolding raises_only_def abind_def by (auto split: prod.splits sum.splits)

lemma raises_seq: "raises_only E m \<Longrightarrow> raises_only E n \<Longrightarrow> raises_only E (aseq m n)"
  by (simp add: aseq_def raises_bind)

lemma raises_if: "(b \<Longrightarrow> raises_only E m) \<Longrightarrow> (\<not> b \<Longrightarrow> raises_only E n) \<Longrightarrow> raises_only E (if b then m else n)"
  by simp

text \<open>\<open>any(f(x) for x in xs)\<close>: it stops at the first true value and at the first exception.\<close>

fun rany :: "('a \<Rightarrow> bool res) \<Rightarrow> 'a list \<Rightarrow> bool res" where
  "rany f [] = Inr False"
| "rany f (x # xs) = rbind (f x) (\<lambda>b. if b then Inr True else rany f xs)"

lemma rany_total: "(\<And>x. x \<in> set xs \<Longrightarrow> f x = Inr (p x)) \<Longrightarrow> rany f xs = Inr (\<exists>x\<in>set xs. p x)"
  by (induction xs) auto

subsection \<open>Characters and strings\<close>

definition code_of :: "char \<Rightarrow> nat" where
  "code_of c = of_char c"

definition is_space :: "char \<Rightarrow> bool" where
  "is_space c = (let n = code_of c in (9 \<le> n \<and> n \<le> 13) \<or> (28 \<le> n \<and> n \<le> 32))"

definition is_digit :: "char \<Rightarrow> bool" where
  "is_digit c = (let n = code_of c in 48 \<le> n \<and> n \<le> 57)"

definition is_upper :: "char \<Rightarrow> bool" where
  "is_upper c = (let n = code_of c in 65 \<le> n \<and> n \<le> 90)"

definition is_lower :: "char \<Rightarrow> bool" where
  "is_lower c = (let n = code_of c in 97 \<le> n \<and> n \<le> 122)"

definition is_alpha :: "char \<Rightarrow> bool" where
  "is_alpha c = (is_upper c \<or> is_lower c)"

definition is_alnum :: "char \<Rightarrow> bool" where
  "is_alnum c = (is_alpha c \<or> is_digit c)"

definition lower_char :: "char \<Rightarrow> char" where
  "lower_char c = (if is_upper c then char_of (code_of c + 32) else c)"

definition upper_char :: "char \<Rightarrow> char" where
  "upper_char c = (if is_lower c then char_of (code_of c - 32) else c)"

definition lower :: "string \<Rightarrow> string" where
  "lower s = map lower_char s"

definition upper :: "string \<Rightarrow> string" where
  "upper s = map upper_char s"

definition lstrip :: "string \<Rightarrow> string" where
  "lstrip s = dropWhile is_space s"

definition rstrip :: "string \<Rightarrow> string" where
  "rstrip s = rev (dropWhile is_space (rev s))"

definition strip :: "string \<Rightarrow> string" where
  "strip s = rstrip (lstrip s)"

definition rstrip_chars :: "char list \<Rightarrow> string \<Rightarrow> string" where
  "rstrip_chars cs s = rev (dropWhile (\<lambda>c. c \<in> set cs) (rev s))"

definition strip_chars :: "char list \<Rightarrow> string \<Rightarrow> string" where
  "strip_chars cs s = rstrip_chars cs (dropWhile (\<lambda>c. c \<in> set cs) s)"

fun startswith :: "string \<Rightarrow> string \<Rightarrow> bool" where
  "startswith s [] = True"
| "startswith [] (p # ps) = False"
| "startswith (c # cs) (p # ps) = (c = p \<and> startswith cs ps)"

definition endswith :: "string \<Rightarrow> string \<Rightarrow> bool" where
  "endswith s suf = startswith (rev s) (rev suf)"

definition removeprefix :: "string \<Rightarrow> string \<Rightarrow> string" where
  "removeprefix s p = (if startswith s p then drop (length p) s else s)"

definition removesuffix :: "string \<Rightarrow> string \<Rightarrow> string" where
  "removesuffix s p = (if p \<noteq> [] \<and> endswith s p then take (length s - length p) s else s)"

fun contains_str :: "string \<Rightarrow> string \<Rightarrow> bool" where
  "contains_str [] p = (p = [])"
| "contains_str (c # cs) p = (startswith (c # cs) p \<or> contains_str cs p)"

fun split_on :: "char \<Rightarrow> string \<Rightarrow> string list" where
  "split_on c [] = [[]]"
| "split_on c (x # xs) =
     (if x = c then [] # split_on c xs
      else (case split_on c xs of [] \<Rightarrow> [[x]] | w # ws \<Rightarrow> (x # w) # ws))"

text \<open>\<open>s.split(c, n)\<close>: at most \<open>n\<close> splits.\<close>

fun split_max :: "char \<Rightarrow> nat \<Rightarrow> string \<Rightarrow> string list" where
  "split_max c 0 s = [s]"
| "split_max c (Suc n) s =
     (if c \<in> set s
      then takeWhile (\<lambda>x. x \<noteq> c) s # split_max c n (tl (dropWhile (\<lambda>x. x \<noteq> c) s))
      else [s])"

fun join :: "string \<Rightarrow> string list \<Rightarrow> string" where
  "join sep [] = []"
| "join sep [w] = w"
| "join sep (w # v # ws) = w @ sep @ join sep (v # ws)"

text \<open>\<open>s.splitlines()\<close>: \<open>\r\n\<close> is one boundary, and a trailing boundary adds no line.\<close>

definition is_line_break :: "char \<Rightarrow> bool" where
  "is_line_break c = (code_of c \<in> {10, 11, 12, 13, 28, 29, 30})"

fun splitlines_aux :: "string \<Rightarrow> string \<Rightarrow> string list" where
  "splitlines_aux acc [] = (if acc = [] then [] else [acc])"
| "splitlines_aux acc (c # cs) =
     (if code_of c = 13 \<and> cs \<noteq> [] \<and> code_of (hd cs) = 10 then splitlines_aux acc cs
      else if is_line_break c then acc # splitlines_aux [] cs
      else splitlines_aux (acc @ [c]) cs)"

definition splitlines :: "string \<Rightarrow> string list" where
  "splitlines s = splitlines_aux [] s"

text \<open>\<open>s.partition(c)\<close> and \<open>s.rpartition(c)\<close>, as \<open>(found, before, after)\<close>.\<close>

definition partition_at :: "char \<Rightarrow> string \<Rightarrow> bool \<times> string \<times> string" where
  "partition_at c s =
     (if c \<in> set s then (True, takeWhile (\<lambda>x. x \<noteq> c) s, tl (dropWhile (\<lambda>x. x \<noteq> c) s))
      else (False, s, []))"

definition rpartition_at :: "char \<Rightarrow> string \<Rightarrow> bool \<times> string \<times> string" where
  "rpartition_at c s =
     (if c \<in> set s
      then (True, rev (tl (dropWhile (\<lambda>x. x \<noteq> c) (rev s))), rev (takeWhile (\<lambda>x. x \<noteq> c) (rev s)))
      else (False, [], s))"

lemma startswith_append [simp]: "startswith (p @ s) p"
  by (induction p) auto

lemma startswith_iff: "startswith s p \<longleftrightarrow> (\<exists>t. s = p @ t)"
  by (induction s p rule: startswith.induct) auto

lemma split_on_not_Nil [simp]: "split_on c s \<noteq> []"
  by (induction s) (auto split: list.splits)

lemma split_on_no_sep: "c \<notin> set s \<Longrightarrow> split_on c s = [s]"
  by (induction s) auto

lemma split_on_append: "c \<notin> set w \<Longrightarrow> split_on c (w @ c # s) = w # split_on c s"
  by (induction w) auto

lemma takeWhile_neq_append: "c \<notin> set s \<Longrightarrow> takeWhile (\<lambda>x. x \<noteq> c) (s @ c # t) = s"
  by (induction s) auto

lemma dropWhile_neq_append: "c \<notin> set s \<Longrightarrow> dropWhile (\<lambda>x. x \<noteq> c) (s @ c # t) = c # t"
  by (induction s) auto

lemma split_max_append:
  "c \<notin> set w \<Longrightarrow> split_max c (Suc n) (w @ c # s) = w # split_max c n s"
  by (simp add: takeWhile_neq_append dropWhile_neq_append)

lemma rpartition_at_append:
  "c \<notin> set t \<Longrightarrow> rpartition_at c (s @ c # t) = (True, s, t)"
  by (simp add: rpartition_at_def takeWhile_neq_append dropWhile_neq_append)

subsection \<open>Encoders\<close>

text \<open>The contract of a printer or encoder with its parser: what was encoded decodes to itself.
  It is provided by base 64, dotted-quad addresses, decimal numbers and signed CSRF tokens.\<close>

locale codec =
  fixes enc :: "'a \<Rightarrow> string" and dec :: "string \<Rightarrow> 'a option"
  assumes dec_enc: "dec (enc x) = Some x"
begin

lemma enc_inj: "inj enc"
  by (rule injI) (metis dec_enc option.inject)

lemma enc_eq_iff: "enc x = enc y \<longleftrightarrow> x = y"
  using enc_inj by (auto dest: injD)

lemma distinct_map_enc: "distinct (map enc xs) \<longleftrightarrow> distinct xs"
  by (simp add: distinct_map inj_on_subset [OF enc_inj])

lemma enc_in_image: "enc x \<in> enc ` A \<longleftrightarrow> x \<in> A"
  using enc_inj by (auto dest: injD)

end

text \<open>\<open>hexdigest()\<close>: two lower-case hexadecimal digits per byte.\<close>

definition hex_char :: "nat \<Rightarrow> char" where
  "hex_char d = (if d < 10 then char_of (48 + d) else char_of (87 + d))"

definition hexdigest :: "string \<Rightarrow> string" where
  "hexdigest s = concat (map (\<lambda>c. [hex_char (code_of c div 16), hex_char (code_of c mod 16)]) s)"

lemma hex_char_neq_dot: "d < 16 \<Longrightarrow> hex_char d \<noteq> CHR ''.''"
proof
  assume "d < 16" and e: "hex_char d = CHR ''.''"
  then have "code_of (hex_char d) = 46" by (simp add: code_of_def)
  then show False using \<open>d < 16\<close> by (simp add: hex_char_def code_of_def split: if_splits)
qed

lemma hexdigest_no_dot: "CHR ''.'' \<notin> set (hexdigest s)"
proof -
  have "code_of c < 256" for c
    using of_char_mod_256 [of c, where 'a = nat] by (simp add: code_of_def)
  then have "code_of c div 16 < 16" for c by (simp add: less_mult_imp_div_less)
  then show ?thesis
    using hex_char_neq_dot by (auto simp: hexdigest_def) (metis mod_less_divisor zero_less_numeral)+
qed

subsection \<open>Decimal numbers\<close>

definition digit_char :: "nat \<Rightarrow> char" where
  "digit_char d = char_of (48 + d)"

fun nat_str :: "nat \<Rightarrow> string" where
  "nat_str n = (if n < 10 then [digit_char n] else nat_str (n div 10) @ [digit_char (n mod 10)])"

declare nat_str.simps [simp del]

definition int_str :: "int \<Rightarrow> string" where
  "int_str i = (if i < 0 then CHR ''-'' # nat_str (nat (- i)) else nat_str (nat i))"

definition digit_val :: "char \<Rightarrow> nat" where
  "digit_val c = code_of c - 48"

definition digits_val :: "string \<Rightarrow> nat" where
  "digits_val s = foldl (\<lambda>n c. 10 * n + digit_val c) 0 s"

lemma code_of_digit_char [simp]: "d < 10 \<Longrightarrow> code_of (digit_char d) = 48 + d"
  by (simp add: code_of_def digit_char_def)

lemma digit_char_props [simp]:
  "d < 10 \<Longrightarrow> is_digit (digit_char d)"
  "d < 10 \<Longrightarrow> digit_val (digit_char d) = d"
  by (simp_all add: is_digit_def digit_val_def)

lemma digits_val_snoc [simp]: "digits_val (s @ [c]) = 10 * digits_val s + digit_val c"
  by (simp add: digits_val_def)

lemma nat_str_digits: "\<forall>c\<in>set (nat_str n). is_digit c"
proof (induction n rule: nat_str.induct)
  case (1 n)
  then show ?case by (subst nat_str.simps) auto
qed

lemma digits_val_nat_str [simp]: "digits_val (nat_str n) = n"
proof (induction n rule: nat_str.induct)
  case (1 n)
  then show ?case
    by (subst nat_str.simps) (auto simp: digits_val_def)
qed

lemma nat_str_nonempty [simp]: "nat_str n \<noteq> []"
  by (subst nat_str.simps) simp

text \<open>Python's \<open>int(s)\<close> on ASCII text: surrounding whitespace, an optional sign, digits with
  single underscores between them.\<close>

fun int_digits :: "string \<Rightarrow> string option" where
  "int_digits [] = None"
| "int_digits [c] = (if is_digit c then Some [c] else None)"
| "int_digits (c # d # s) =
     (if \<not> is_digit c then None
      else if d = CHR ''_'' then map_option (\<lambda>r. c # r) (int_digits s)
      else map_option (\<lambda>r. c # r) (int_digits (d # s)))"

definition py_int :: "string \<Rightarrow> int option" where
  "py_int s =
     (case strip s of
        [] \<Rightarrow> None
      | c # r \<Rightarrow>
          if c = CHR ''-'' then map_option (\<lambda>ds. - int (digits_val ds)) (int_digits r)
          else if c = CHR ''+'' then map_option (\<lambda>ds. int (digits_val ds)) (int_digits r)
          else map_option (\<lambda>ds. int (digits_val ds)) (int_digits (c # r)))"

lemma is_digit_not_space: "is_digit c \<Longrightarrow> \<not> is_space c"
  by (auto simp: is_digit_def is_space_def Let_def)

lemma is_digit_neq:
  "is_digit c \<Longrightarrow> c \<noteq> CHR ''.''" "is_digit c \<Longrightarrow> c \<noteq> CHR '':''" "is_digit c \<Longrightarrow> c \<noteq> CHR ''/''"
  "is_digit c \<Longrightarrow> c \<noteq> CHR ''_''" "is_digit c \<Longrightarrow> c \<noteq> CHR ''-''" "is_digit c \<Longrightarrow> c \<noteq> CHR ''+''"
  "is_digit c \<Longrightarrow> c \<noteq> CHR ''%''" "is_digit c \<Longrightarrow> c \<noteq> CHR '',''"
  by (auto simp: is_digit_def code_of_def)

lemma dropWhile_none: "(\<forall>c\<in>set s. \<not> P c) \<Longrightarrow> dropWhile P s = s"
  by (cases s) auto

lemma strip_no_space: "(\<forall>c\<in>set s. \<not> is_space c) \<Longrightarrow> strip s = s"
  by (simp add: strip_def rstrip_def lstrip_def dropWhile_none)

lemma strip_strip: "strip (strip w) = strip w"
proof -
  let ?l = "lstrip w"
  have l: "?l = [] \<or> \<not> is_space (hd ?l)" by (metis hd_dropWhile lstrip_def)
  have "\<exists>t. ?l = rstrip ?l @ t"
    by (metis append_Nil2 rev_append rev_rev_ident rstrip_def takeWhile_dropWhile_id)
  then have "rstrip ?l = [] \<or> \<not> is_space (hd (rstrip ?l))" using l by (metis Nil_is_append_conv hd_append2)
  then have "lstrip (rstrip ?l) = rstrip ?l" by (cases "rstrip ?l") (auto simp: lstrip_def)
  moreover have "rstrip (rstrip ?l) = rstrip ?l" by (simp add: rstrip_def)
  ultimately show ?thesis by (simp add: strip_def)
qed

lemma int_digits_all: "s \<noteq> [] \<Longrightarrow> \<forall>c\<in>set s. is_digit c \<Longrightarrow> int_digits s = Some s"
  by (induction s rule: int_digits.induct) (auto dest: is_digit_neq)

lemma py_int_nat_str [simp]: "py_int (nat_str n) = Some (int n)"
proof -
  have d: "\<forall>c\<in>set (nat_str n). is_digit c" by (rule nat_str_digits)
  then have st: "strip (nat_str n) = nat_str n"
    by (intro strip_no_space) (auto dest: is_digit_not_space)
  obtain c r where cr: "nat_str n = c # r" by (cases "nat_str n") auto
  with d have "is_digit c" by simp
  then have "c \<noteq> CHR ''-''" "c \<noteq> CHR ''+''" by (auto dest: is_digit_neq)
  moreover have "int_digits (c # r) = Some (c # r)"
    using d cr by (intro int_digits_all) auto
  moreover have "digits_val (c # r) = n" using cr digits_val_nat_str [of n] by simp
  moreover have "strip (c # r) = c # r" using st cr by simp
  ultimately show ?thesis by (simp add: py_int_def cr)
qed

interpretation decimal: codec "\<lambda>n. nat_str n" "\<lambda>s. map_option nat (py_int s)"
  by unfold_locales simp

lemma nat_str_eval:
  "n < 10 \<Longrightarrow> nat_str n = [digit_char n]"
  "10 \<le> n \<Longrightarrow> nat_str n = nat_str (n div 10) @ [digit_char (n mod 10)]"
  by (simp_all add: nat_str.simps [of n])

text \<open>Evaluation of the string operations on literals by \<open>simp\<close>.\<close>

lemmas str_eval = code_of_def is_space_def is_digit_def is_upper_def is_lower_def is_alpha_def
  is_alnum_def lower_char_def upper_char_def lower_def upper_def lstrip_def rstrip_def strip_def
  rstrip_chars_def strip_chars_def endswith_def removeprefix_def removesuffix_def
  partition_at_def rpartition_at_def digit_val_def digits_val_def py_int_def char_of_def
  digit_char_def nat_str_eval bit_0 Let_def

subsection \<open>Time spans in microseconds\<close>

type_synonym instant = int

definition seconds :: "int \<Rightarrow> int" where "seconds n = n * 1000000"
definition minutes :: "int \<Rightarrow> int" where "minutes n = n * 60000000"
definition hours :: "int \<Rightarrow> int" where "hours n = n * 3600000000"
definition days :: "int \<Rightarrow> int" where "days n = n * 86400000000"

lemmas time_defs = seconds_def minutes_def hours_def days_def

text \<open>The UTC calendar day of an instant (days since the epoch) and the time of day.\<close>

definition utc_day :: "instant \<Rightarrow> int" where "utc_day t = t div 86400000000"

subsection \<open>Lists\<close>

definition first_match :: "('a \<Rightarrow> bool) \<Rightarrow> 'a list \<Rightarrow> 'a option" where
  "first_match p xs = find p xs"

lemma find_SomeD: "find p xs = Some x \<Longrightarrow> x \<in> set xs \<and> p x"
  by (induction xs) (auto split: if_splits)

lemma find_None_iff': "find p xs = None \<longleftrightarrow> (\<forall>x\<in>set xs. \<not> p x)"
  by (induction xs) auto

lemma filter_length_less: "x \<in> set xs \<Longrightarrow> \<not> p x \<Longrightarrow> length (filter p xs) < length xs"
  by (induction xs) (auto simp: le_imp_less_Suc)

end
