(* ===== verification/Py_Base64.thy ===== *)
theory Py_Base64
  imports Hub_Prelude
begin

text \<open>
  The parts of Python's \<open>base64\<close> module the Hub uses. Bytes are a \<^typ>\<open>string\<close> (a
  \<^typ>\<open>char\<close> is one of 256 values). \<open>b64decode\<close> is the lenient decoder (characters outside the
  alphabet are skipped); \<open>b64decode_strict\<close> is \<open>validate=True\<close>; \<open>b32decode\<close> is the base 32
  decoder on upper-case text. \<^const>\<open>None\<close> stands for \<open>binascii.Error\<close>.
\<close>

definition byte :: "nat \<Rightarrow> char" where
  "byte n = char_of (n mod 256)"

lemma code_of_byte [simp]: "code_of (byte n) = n mod 256"
  by (simp add: code_of_def byte_def)

lemma code_of_lt: "code_of c < 256"
  using of_char_mod_256 [of c, where 'a = nat] by (simp add: code_of_def)

lemma byte_code_of [simp]: "byte (code_of c) = c"
  using code_of_lt [of c] by (simp add: byte_def code_of_def)

definition b64_char :: "nat \<Rightarrow> char" where
  "b64_char n = char_of (if n < 26 then 65 + n else if n < 52 then 71 + n
     else if n < 62 then n - 4 else if n = 62 then 43 else (47 :: nat))"

definition b64_val :: "char \<Rightarrow> nat option" where
  "b64_val c = (let n = code_of c in
     if 65 \<le> n \<and> n \<le> 90 then Some (n - 65)
     else if 97 \<le> n \<and> n \<le> 122 then Some (n - 71)
     else if 48 \<le> n \<and> n \<le> 57 then Some (n + 4)
     else if n = 43 then Some 62
     else if n = 47 then Some 63
     else None)"

lemma b64_val_char [simp]: "n < 64 \<Longrightarrow> b64_val (b64_char n) = Some n"
  by (auto simp: b64_val_def b64_char_def code_of_def Let_def)

fun b64encode :: "string \<Rightarrow> string" where
  "b64encode [] = []"
| "b64encode [a] = (let n = code_of a * 65536 in
     [b64_char (n div 262144), b64_char (n div 4096 mod 64), CHR ''='', CHR ''=''])"
| "b64encode [a, b] = (let n = code_of a * 65536 + code_of b * 256 in
     [b64_char (n div 262144), b64_char (n div 4096 mod 64), b64_char (n div 64 mod 64), CHR ''=''])"
| "b64encode (a # b # c # rest) = (let n = code_of a * 65536 + code_of b * 256 + code_of c in
     [b64_char (n div 262144), b64_char (n div 4096 mod 64), b64_char (n div 64 mod 64),
      b64_char (n mod 64)] @ b64encode rest)"

text \<open>
  \<open>binascii.a2b_base64\<close> without strict mode: the position in the current quad, the bits carried
  over from the previous character, and the run of padding characters.
\<close>

fun a2b :: "nat \<Rightarrow> nat \<Rightarrow> nat \<Rightarrow> string \<Rightarrow> string \<Rightarrow> string option" where
  "a2b q left pads out [] = (if q = 0 then Some out else None)"
| "a2b q left pads out (c # cs) =
     (if c = CHR ''='' then
        (if q \<ge> 2 \<and> q + (pads + 1) \<ge> 4 then Some out
         else a2b q left (if q \<ge> 2 then pads + 1 else pads) out cs)
      else case b64_val c of
        None \<Rightarrow> a2b q left pads out cs
      | Some v \<Rightarrow>
          if q = 0 then a2b 1 v 0 out cs
          else if q = 1 then a2b 2 (v mod 16) 0 (out @ [byte (left * 4 + v div 16)]) cs
          else if q = 2 then a2b 3 (v mod 4) 0 (out @ [byte (left * 16 + v div 4)]) cs
          else a2b 0 0 0 (out @ [byte (left * 64 + v)]) cs)"

definition b64decode :: "string \<Rightarrow> string option" where
  "b64decode s = a2b 0 0 0 [] s"

text \<open>
  Strict mode: no leading padding, no character outside the alphabet, nothing after the padding
  and a padded length that is a multiple of four.
\<close>

definition b64decode_strict :: "string \<Rightarrow> string option" where
  "b64decode_strict s =
     (let body = rstrip_chars ''='' s; pads = length s - length body in
      if list_all (\<lambda>c. b64_val c \<noteq> None) body \<and> pads \<le> 2 \<and> length s mod 4 = 0
         \<and> (pads = 0 \<or> length body mod 4 \<ge> 2)
      then b64decode s else None)"

lemma b64_char_neq_eq [simp]: "n < 64 \<Longrightarrow> b64_char n \<noteq> CHR ''=''"
proof
  assume "n < 64" and e: "b64_char n = CHR ''=''"
  then have "b64_val CHR ''='' = Some n" by (simp flip: e)
  then show False by (simp add: b64_val_def code_of_def)
qed

lemma split4: "(a :: nat) * 16 + d = a div 4 * 64 + ((a mod 4) * 16 + d)"
proof -
  define q r where "q = a div 4" and "r = a mod 4"
  then have "a = q * 4 + r" by simp
  then have "a * 16 + d = q * 64 + (r * 16 + d)" by (simp add: algebra_simps)
  then show ?thesis by (simp only: q_def r_def)
qed

lemma split16: "(a :: nat) * 1024 + b * 4 + d = (a * 16 + b div 16) * 64 + ((b mod 16) * 4 + d)"
proof -
  define q r where "q = b div 16" and "r = b mod 16"
  then have "b = q * 16 + r" by simp
  then have "a * 1024 + b * 4 + d = (a * 16 + q) * 64 + (r * 4 + d)" by (simp add: algebra_simps)
  then show ?thesis by (simp only: q_def r_def)
qed

lemma triple_split:
  assumes "a < 256" "b < 256" "c < (256 :: nat)"
  defines "n \<equiv> a * 65536 + b * 256 + c"
  shows "n div 262144 < 64" "n div 262144 * 4 + n div 4096 mod 64 div 16 = a"
    "n div 4096 mod 64 mod 16 * 16 + n div 64 mod 64 div 4 = b"
    "n div 64 mod 64 mod 4 * 64 + n mod 64 = c"
proof -
  have n: "n = a * 65536 + b * 256 + c" by (simp add: n_def)
  have 1: "n div 262144 = a div 4" using assms(1-3) n by linarith
  have 2: "n div 4096 = a * 16 + b div 16" using assms(1-3) n by linarith
  have 3: "n div 64 = a * 1024 + b * 4 + c div 64" using assms(1-3) n by linarith
  have "n = c + 64 * (a * 1024 + b * 4)" unfolding n by simp
  then have 4: "n mod 64 = c mod 64" by (simp only: mod_mult_self2)
  show "n div 262144 < 64" using 1 assms(1) by linarith
  have x: "n div 4096 mod 64 = (a mod 4) * 16 + b div 16"
  proof -
    have "n div 4096 mod 64 = (a div 4 * 64 + ((a mod 4) * 16 + b div 16)) mod 64"
      unfolding 2 by (rule arg_cong [OF split4])
    also have "\<dots> = ((a mod 4) * 16 + b div 16) mod 64" by simp
    also have "\<dots> = (a mod 4) * 16 + b div 16" using assms(2) by (intro mod_less) linarith
    finally show ?thesis .
  qed
  have y: "n div 64 mod 64 = (b mod 16) * 4 + c div 64"
  proof -
    have "n div 64 mod 64 = ((a * 16 + b div 16) * 64 + ((b mod 16) * 4 + c div 64)) mod 64"
      unfolding 3 by (rule arg_cong [OF split16])
    also have "\<dots> = ((b mod 16) * 4 + c div 64) mod 64" by (simp only: mod_mult_self3)
    also have "\<dots> = (b mod 16) * 4 + c div 64" using assms(3) by (intro mod_less) linarith
    finally show ?thesis .
  qed
  have x16: "n div 4096 mod 64 div 16 = a mod 4" "n div 4096 mod 64 mod 16 = b div 16"
    using assms(2) by (simp_all add: x)
  have y4: "n div 64 mod 64 div 4 = b mod 16" "n div 64 mod 64 mod 4 = c div 64"
    using assms(3) by (simp_all add: y)
  show "n div 262144 * 4 + n div 4096 mod 64 div 16 = a" unfolding x16 1 by simp
  show "n div 4096 mod 64 mod 16 * 16 + n div 64 mod 64 div 4 = b" unfolding x16 y4 by simp
  show "n div 64 mod 64 mod 4 * 64 + n mod 64 = c" unfolding y4 4 by simp
qed

lemma a2b_quad:
  assumes "v1 < 64" "v2 < 64" "v3 < 64" "v4 < 64"
  shows "a2b 0 0 0 out (b64_char v1 # b64_char v2 # b64_char v3 # b64_char v4 # cs) =
     a2b 0 0 0 (out @ [byte (v1 * 4 + v2 div 16), byte (v2 mod 16 * 16 + v3 div 4),
       byte (v3 mod 4 * 64 + v4)]) cs"
  using assms by simp

lemma a2b_pad1:
  assumes "v1 < 64" "v2 < 64" "v3 < 64"
  shows "a2b 0 0 0 out [b64_char v1, b64_char v2, b64_char v3, CHR ''=''] =
     Some (out @ [byte (v1 * 4 + v2 div 16), byte (v2 mod 16 * 16 + v3 div 4)])"
  using assms by simp

lemma a2b_pad2:
  assumes "v1 < 64" "v2 < 64"
  shows "a2b 0 0 0 out [b64_char v1, b64_char v2, CHR ''='', CHR ''=''] =
     Some (out @ [byte (v1 * 4 + v2 div 16)])"
  using assms by simp

lemma mod_64_less: "(n :: nat) mod 64 < 64"
  by simp

lemma a2b_b64encode: "a2b 0 0 0 out (b64encode s) = Some (out @ s)"
proof (induction s arbitrary: out rule: b64encode.induct)
  case 1
  then show ?case by simp
next
  case (2 a)
  note t = triple_split [of "code_of a" 0 0, OF code_of_lt zero_less_numeral zero_less_numeral,
      unfolded mult_0 add_0_right]
  show ?case
    by (simp only: b64encode.simps Let_def a2b_pad2 [OF t(1) mod_64_less] t(2) byte_code_of)
next
  case (3 a b)
  note t = triple_split [of "code_of a" "code_of b" 0, OF code_of_lt code_of_lt zero_less_numeral,
      unfolded mult_0 add_0_right]
  show ?case
    by (simp only: b64encode.simps Let_def a2b_pad1 [OF t(1) mod_64_less mod_64_less] t(2,3)
        byte_code_of)
next
  case (4 a b c rest)
  note t = triple_split [OF code_of_lt [of a] code_of_lt [of b] code_of_lt [of c]]
  show ?case
    by (simp only: b64encode.simps Let_def append_Cons append_Nil append_assoc 4
        a2b_quad [OF t(1) mod_64_less mod_64_less mod_64_less] t(2-4) byte_code_of)
qed

theorem b64decode_b64encode [simp]: "b64decode (b64encode s) = Some s"
  by (simp add: b64decode_def a2b_b64encode)

interpretation base64: codec b64encode b64decode
  by unfold_locales simp

lemma b64_val_eq: "b64_val CHR ''='' = None"
  by (simp add: b64_val_def code_of_def)

lemma b64encode_shape:
  obtains body pads where "b64encode s = body @ replicate pads CHR ''=''" "\<forall>c\<in>set body. b64_val c \<noteq> None" "pads \<le> 2"
    "length (b64encode s) = 4 * ((length s + 2) div 3)" "pads = 0 \<or> length body mod 4 \<ge> 2"
proof -
  have "\<exists>body pads. b64encode s = body @ replicate pads CHR ''='' \<and> (\<forall>c\<in>set body. b64_val c \<noteq> None) \<and> pads \<le> 2
    \<and> length (b64encode s) = 4 * ((length s + 2) div 3) \<and> (pads = 0 \<or> length body mod 4 \<ge> 2)"
  proof (induction s rule: b64encode.induct)
    case (2 a)
    note t = triple_split(1) [of "code_of a" 0 0, OF code_of_lt zero_less_numeral zero_less_numeral,
        unfolded mult_0 add_0_right]
    define x y where "x = b64_char (code_of a * 65536 div 262144)" and "y = b64_char (code_of a * 65536 div 4096 mod 64)"
    have v: "b64_val x \<noteq> None" "b64_val y \<noteq> None"
      unfolding x_def y_def b64_val_char [OF t] b64_val_char [OF mod_64_less] by simp_all
    have "b64encode [a] = [x, y] @ replicate 2 CHR ''=''"
      by (simp only: b64encode.simps Let_def x_def y_def) (simp add: numeral_2_eq_2)
    then show ?case using v by (intro exI [of _ "[x, y]"] exI [of _ "2 :: nat"]) simp
  next
    case (3 a b)
    note t = triple_split(1) [of "code_of a" "code_of b" 0, OF code_of_lt code_of_lt zero_less_numeral,
        unfolded mult_0 add_0_right]
    let ?n = "code_of a * 65536 + code_of b * 256"
    define x y z where "x = b64_char (?n div 262144)" and "y = b64_char (?n div 4096 mod 64)" and "z = b64_char (?n div 64 mod 64)"
    have v: "b64_val x \<noteq> None" "b64_val y \<noteq> None" "b64_val z \<noteq> None"
      unfolding x_def y_def z_def b64_val_char [OF t] b64_val_char [OF mod_64_less] by simp_all
    have "b64encode [a, b] = [x, y, z] @ replicate 1 CHR ''=''"
      by (simp only: b64encode.simps Let_def x_def y_def z_def) simp
    then show ?case using v by (intro exI [of _ "[x, y, z]"] exI [of _ "1 :: nat"]) simp
  next
    case (4 a b c rest)
    note t = triple_split(1) [OF code_of_lt [of a] code_of_lt [of b] code_of_lt [of c]]
    let ?n = "code_of a * 65536 + code_of b * 256 + code_of c"
    from 4 obtain body pads where i: "b64encode rest = body @ replicate pads CHR ''=''" "\<forall>c\<in>set body. b64_val c \<noteq> None"
      "pads \<le> 2" "length (b64encode rest) = 4 * ((length rest + 2) div 3)" "pads = 0 \<or> length body mod 4 \<ge> 2" by blast
    define x y z u where "x = b64_char (?n div 262144)" and "y = b64_char (?n div 4096 mod 64)"
      and "z = b64_char (?n div 64 mod 64)" and "u = b64_char (?n mod 64)"
    have v: "b64_val x \<noteq> None" "b64_val y \<noteq> None" "b64_val z \<noteq> None" "b64_val u \<noteq> None"
      unfolding x_def y_def z_def u_def b64_val_char [OF t] b64_val_char [OF mod_64_less] by simp_all
    have "b64encode (a # b # c # rest) = ([x, y, z, u] @ body) @ replicate pads CHR ''=''"
      by (simp only: b64encode.simps Let_def x_def y_def z_def u_def i(1)) simp
    moreover have "length body + pads = 4 * ((length rest + 2) div 3)" using i(1,4) by simp
    moreover have "(length (a # b # c # rest) + 2) div 3 = Suc ((length rest + 2) div 3)" by simp
    ultimately show ?case using v i(2,3,5)
      by (intro exI [of _ "[x, y, z, u] @ body"] exI [of _ pads]) (simp del: b64encode.simps)
  qed simp
  with that show thesis by blast
qed

lemma rstrip_pads: "\<forall>c\<in>set body. b64_val c \<noteq> None \<Longrightarrow> rstrip_chars ''='' (body @ replicate n CHR ''='') = body"
proof -
  assume a: "\<forall>c\<in>set body. b64_val c \<noteq> None"
  have d: "dropWhile (\<lambda>c. c = CHR ''='') (replicate n CHR ''='' @ xs) = dropWhile (\<lambda>c. c = CHR ''='') xs" for xs
    by (induction n) auto
  have "dropWhile (\<lambda>c. c = CHR ''='') (rev body) = rev body"
    using a b64_val_eq by (cases body rule: rev_cases) auto
  then show ?thesis by (simp add: rstrip_chars_def d)
qed

lemma b64decode_strict_encode [simp]: "b64decode_strict (b64encode s) = Some s"
proof (rule b64encode_shape [of s])
  fix body pads
  assume s: "b64encode s = body @ replicate pads CHR ''=''" "\<forall>c\<in>set body. b64_val c \<noteq> None" "pads \<le> 2"
    "length (b64encode s) = 4 * ((length s + 2) div 3)" "pads = 0 \<or> length body mod 4 \<ge> 2"
  have "rstrip_chars ''='' (b64encode s) = body" unfolding s(1) by (rule rstrip_pads [OF s(2)])
  moreover have "length (b64encode s) - length body = pads" using s(1) by simp
  moreover have "list_all (\<lambda>c. b64_val c \<noteq> None) body" using s(2) by (simp add: list_all_iff)
  ultimately show ?thesis using s(3-5) by (auto simp: b64decode_strict_def)
qed

lemma length_b64encode: "length (b64encode s) = 4 * ((length s + 2) div 3)"
  by (rule b64encode_shape [of s]) simp

lemma b64_char_neq_dollar: "n < 64 \<Longrightarrow> CHR ''$'' \<noteq> b64_char n"
proof
  assume "n < 64" and e: "CHR ''$'' = b64_char n"
  then have "b64_val CHR ''$'' = Some n" by (simp only: b64_val_char)
  then show False by (simp add: b64_val_def code_of_def)
qed

lemma b64encode_no_dollar: "CHR ''$'' \<notin> set (b64encode s)"
proof (induction s rule: b64encode.induct)
  case (2 a)
  note t = triple_split(1) [of "code_of a" 0 0, OF code_of_lt zero_less_numeral zero_less_numeral,
      unfolded mult_0 add_0_right]
  show ?case using b64_char_neq_dollar [OF t] b64_char_neq_dollar [OF mod_64_less]
    by (simp only: b64encode.simps Let_def) simp
next
  case (3 a b)
  note t = triple_split(1) [of "code_of a" "code_of b" 0, OF code_of_lt code_of_lt zero_less_numeral,
      unfolded mult_0 add_0_right]
  show ?case using b64_char_neq_dollar [OF t] b64_char_neq_dollar [OF mod_64_less]
    by (simp only: b64encode.simps Let_def) simp
next
  case (4 a b c rest)
  note t = triple_split(1) [OF code_of_lt [of a] code_of_lt [of b] code_of_lt [of c]]
  show ?case using b64_char_neq_dollar [OF t] b64_char_neq_dollar [OF mod_64_less] 4
    by (simp only: b64encode.simps Let_def) simp
qed simp

subsection \<open>Base 32\<close>

definition b32_val :: "char \<Rightarrow> nat option" where
  "b32_val c = (let n = code_of c in
     if 65 \<le> n \<and> n \<le> 90 then Some (n - 65)
     else if 50 \<le> n \<and> n \<le> 55 then Some (n - 24)
     else None)"

fun b32_acc :: "nat \<Rightarrow> string \<Rightarrow> nat option" where
  "b32_acc acc [] = Some acc"
| "b32_acc acc (c # cs) = (case b32_val c of None \<Rightarrow> None | Some v \<Rightarrow> b32_acc (acc * 32 + v) cs)"

definition bytes5 :: "nat \<Rightarrow> string" where
  "bytes5 n = [byte (n div 4294967296), byte (n div 16777216), byte (n div 65536),
     byte (n div 256), byte n]"

text \<open>The quanta of eight characters; the last one may be short, by the number of padding
  characters that were stripped.\<close>

function b32_quanta :: "nat \<Rightarrow> string \<Rightarrow> string option" where
  "b32_quanta pads s =
     (if s = [] then Some []
      else if length s < 8 then
        map_option (\<lambda>acc. take ((43 - 5 * pads) div 8) (bytes5 (acc * 32 ^ pads))) (b32_acc 0 s)
      else case b32_acc 0 (take 8 s) of
        None \<Rightarrow> None
      | Some acc \<Rightarrow> map_option (\<lambda>r. bytes5 acc @ r) (b32_quanta pads (drop 8 s)))"
  by pat_completeness auto
termination
  by (relation "measure (\<lambda>(pads, s). length s)") auto

declare b32_quanta.simps [simp del]

definition b32decode :: "string \<Rightarrow> string option" where
  "b32decode s =
     (let body = rstrip_chars ''='' s; pads = length s - length body in
      if length s mod 8 \<noteq> 0 \<or> pads \<notin> {0, 1, 3, 4, 6} then None
      else b32_quanta pads body)"

end
