(* ===== verification/Security.thy ===== *)
theory Security
  imports Hub_Prelude Py_Base64
begin

unbundle bit_operations_syntax

text \<open>
  Secrets, one-time passwords and password strength: \<open>dashboard/app/security/__init__.py\<close> (the
  package shadows the module \<open>dashboard/app/security.py\<close>, which holds the same functions).
  The primitives of \<open>hashlib\<close> and \<open>hmac\<close> are the fields of a record the functions take; random
  bytes and choices are arguments.
\<close>

record crypto =
  pbkdf2_sha256 :: "string \<Rightarrow> string \<Rightarrow> nat \<Rightarrow> string"
  hmac_sha1 :: "string \<Rightarrow> string \<Rightarrow> string"
  hmac_sha256 :: "string \<Rightarrow> string \<Rightarrow> string"

subsection \<open>Random codes and stored secrets\<close>

definition otp_alphabet :: string where
  "otp_alphabet = ''ABCDEFGHJKLMNPQRSTUVWXYZ23456789''"

definition random_otp :: "(nat \<Rightarrow> nat) \<Rightarrow> string" where
  "random_otp choice = join ''-''
     (map (\<lambda>i. map (\<lambda>j. otp_alphabet ! (choice (4 * i + j) mod length otp_alphabet)) [0..<4]) [0..<2])"

definition hash_secret :: "crypto \<Rightarrow> string \<Rightarrow> string \<Rightarrow> string" where
  "hash_secret cr salt secret =
     ''pbkdf2_sha256$210000$'' @ b64encode salt @ ''$''
       @ b64encode (pbkdf2_sha256 cr secret salt 210000)"

definition verify_secret :: "crypto \<Rightarrow> string \<Rightarrow> string \<Rightarrow> bool" where
  "verify_secret cr secret encoded =
     (case split_max CHR ''$'' 3 encoded of
        [algorithm, rounds, salt_b64, digest_b64] \<Rightarrow>
          if algorithm \<noteq> ''pbkdf2_sha256'' then False
          else (case (b64decode salt_b64, b64decode digest_b64, py_int rounds) of
              (Some salt, Some expected, Some n) \<Rightarrow>
                1 \<le> n \<and> n \<le> 2147483647 \<and> pbkdf2_sha256 cr secret salt (nat n) = expected
            | _ \<Rightarrow> False)
      | _ \<Rightarrow> False)"

definition hash_session_token :: "crypto \<Rightarrow> string \<Rightarrow> string \<Rightarrow> string" where
  "hash_session_token cr secret_key token = hexdigest (hmac_sha256 cr secret_key token)"

subsection \<open>Time-based one-time passwords\<close>

definition normalize_totp_secret :: "string \<Rightarrow> string" where
  "normalize_totp_secret secret = filter is_alnum (upper secret)"

definition normalize_totp_code :: "string \<Rightarrow> string" where
  "normalize_totp_code code = filter is_digit code"

definition totp_secret_bytes :: "string \<Rightarrow> string res" where
  "totp_secret_bytes secret =
     (let normalized = normalize_totp_secret secret in
      if normalized = [] then Inl ValueError
      else
        let padding = replicate ((8 - length normalized mod 8) mod 8) CHR ''='' in
        case b32decode (upper (normalized @ padding)) of
          None \<Rightarrow> Inl ValueError
        | Some b \<Rightarrow> Inr b)"

definition struct_pack_Q :: "int \<Rightarrow> string res" where
  "struct_pack_Q n =
     (if 0 \<le> n \<and> n < 2 ^ 64
      then Inr (map (\<lambda>i. byte (nat n div 256 ^ (7 - i))) [0..<8])
      else Inl StructError)"

definition zfill :: "nat \<Rightarrow> string \<Rightarrow> string" where
  "zfill n s = replicate (n - length s) CHR ''0'' @ s"

definition dynamic_truncate :: "string \<Rightarrow> nat" where
  "dynamic_truncate digest =
     (let offset = code_of (last digest) AND 15
      in push_bit 24 (code_of (digest ! offset) AND 127)
         OR push_bit 16 (code_of (digest ! (offset + 1)))
         OR push_bit 8 (code_of (digest ! (offset + 2)))
         OR code_of (digest ! (offset + 3)))"

definition totp_code_for_counter :: "crypto \<Rightarrow> string \<Rightarrow> int \<Rightarrow> string res" where
  "totp_code_for_counter cr secret counter =
     rbind (totp_secret_bytes secret) (\<lambda>key.
     rbind (struct_pack_Q counter) (\<lambda>msg.
       Inr (zfill 6 (nat_str (dynamic_truncate (hmac_sha1 cr key msg) mod 10 ^ 6)))))"

definition totp_code :: "crypto \<Rightarrow> string \<Rightarrow> int \<Rightarrow> string res" where
  "totp_code cr secret for_time = totp_code_for_counter cr secret (for_time div 30)"

definition verify_totp_code :: "crypto \<Rightarrow> string \<Rightarrow> string \<Rightarrow> int \<Rightarrow> bool res" where
  "verify_totp_code cr secret code for_time =
     (let normalized = normalize_totp_code code in
      if length normalized \<noteq> 6 then Inr False
      else
        let counter = for_time div 30 in
        case rany (\<lambda>offset. rbind (totp_code_for_counter cr secret (counter + offset))
                     (\<lambda>c. Inr (c = normalized))) [-1, 0, 1] of
          Inl ValueError \<Rightarrow> Inr False
        | r \<Rightarrow> r)"

subsection \<open>The provisioning URI\<close>

definition hex_digit :: "nat \<Rightarrow> char" where
  "hex_digit n = ''0123456789ABCDEF'' ! n"

definition quote_with :: "char list \<Rightarrow> string \<Rightarrow> string" where
  "quote_with safe s = concat (map (\<lambda>c.
     if is_alnum c \<or> c \<in> set (''_.-~'' @ safe) then [c]
     else [CHR ''%'', hex_digit (code_of c div 16), hex_digit (code_of c mod 16)]) s)"

definition quote :: "string \<Rightarrow> string" where
  "quote s = quote_with ''/'' s"

definition quote_plus :: "string \<Rightarrow> string" where
  "quote_plus s = map (\<lambda>c. if c = CHR '' '' then CHR ''+'' else c) (quote_with '' '' s)"

definition urlencode :: "(string \<times> string) list \<Rightarrow> string" where
  "urlencode kvs = join ''&'' (map (\<lambda>(k, v). quote_plus k @ ''='' @ quote_plus v) kvs)"

definition totp_provisioning_uri :: "string \<Rightarrow> string \<Rightarrow> string \<Rightarrow> string" where
  "totp_provisioning_uri secret account_name issuer =
     ''otpauth://totp/'' @ quote (issuer @ '':'' @ account_name) @ ''?''
       @ urlencode [(''secret'', normalize_totp_secret secret), (''issuer'', issuer),
           (''algorithm'', ''SHA1''), (''digits'', ''6''), (''period'', ''30'')]"

definition password_is_strong_enough :: "string \<Rightarrow> bool" where
  "password_is_strong_enough password =
     (if length password < 12 then False
      else list_ex is_alpha password \<and> list_ex is_digit password)"

subsection \<open>Stored secrets verify\<close>

lemma split_hash_secret:
  "split_max CHR ''$'' 3 (hash_secret cr salt secret) =
     [''pbkdf2_sha256'', ''210000'', b64encode salt,
      b64encode (pbkdf2_sha256 cr secret salt 210000)]"
proof -
  let ?d = "b64encode (pbkdf2_sha256 cr secret salt 210000)"
  have e: "hash_secret cr salt secret =
      ''pbkdf2_sha256'' @ CHR ''$'' # (''210000'' @ CHR ''$'' # (b64encode salt @ CHR ''$'' # ?d))"
    by (simp add: hash_secret_def)
  have 3: "(3 :: nat) = Suc (Suc (Suc 0))" by simp
  have 1: "CHR ''$'' \<notin> set ''pbkdf2_sha256''" "CHR ''$'' \<notin> set ''210000''" by simp_all
  show ?thesis
    unfolding e 3
    by (simp only: split_max_append [OF 1(1)] split_max_append [OF 1(2)]
        split_max_append [OF b64encode_no_dollar] split_max.simps(1))
qed

lemma py_int_210000: "py_int ''210000'' = Some 210000"
  by (simp add: py_int_def strip_def rstrip_def lstrip_def is_space_def is_digit_def code_of_def
      digits_val_def digit_val_def Let_def)

lemma verify_hash_secret:
  "verify_secret cr s (hash_secret cr salt secret)
     \<longleftrightarrow> pbkdf2_sha256 cr s salt 210000 = pbkdf2_sha256 cr secret salt 210000"
  by (simp add: verify_secret_def split_hash_secret py_int_210000)

subsection \<open>Codes have six digits\<close>

lemma length_nat_str: "n < 10 ^ Suc k \<Longrightarrow> length (nat_str n) \<le> Suc k"
proof (induction k arbitrary: n)
  case 0
  then show ?case by (simp add: nat_str.simps)
next
  case (Suc k)
  then have "length (nat_str (n div 10)) \<le> Suc k" by (intro Suc.IH) auto
  then show ?case by (subst nat_str.simps) simp
qed

lemma zfill_length: "length s \<le> n \<Longrightarrow> length (zfill n s) = n"
  by (simp add: zfill_def)

lemma zfill_digits: "\<forall>c\<in>set s. is_digit c \<Longrightarrow> \<forall>c\<in>set (zfill n s). is_digit c"
  by (auto simp: zfill_def is_digit_def code_of_def)

lemma totp_code_for_counter_shape:
  assumes "totp_code_for_counter cr secret n = Inr c"
  shows "length c = 6" "\<forall>d\<in>set c. is_digit d"
proof -
  from assms obtain m where c: "c = zfill 6 (nat_str (m mod 10 ^ 6))"
    by (auto simp: totp_code_for_counter_def rbind_Inr_iff)
  have "length (nat_str (m mod 10 ^ 6)) \<le> Suc 5" by (rule length_nat_str) simp
  then show "length c = 6" unfolding c by (intro zfill_length) simp
  show "\<forall>d\<in>set c. is_digit d" unfolding c by (rule zfill_digits) (rule nat_str_digits)
qed

lemma normalize_totp_code_id: "\<forall>d\<in>set c. is_digit d \<Longrightarrow> normalize_totp_code c = c"
  by (simp add: normalize_totp_code_def)

lemma totp_code_for_counter_total:
  assumes "totp_secret_bytes secret = Inr key" and "0 \<le> n" and "n < 2 ^ 64"
  shows "\<exists>c. totp_code_for_counter cr secret n = Inr c"
  using assms by (simp add: totp_code_for_counter_def struct_pack_Q_def)

lemma verify_totp_code_iff:
  assumes "totp_secret_bytes secret = Inr key" and "30 \<le> t" and "t < 30 * (2 ^ 64 - 1)"
  shows "verify_totp_code cr secret code t =
     Inr (\<exists>k\<in>{-1, 0, 1}. totp_code_for_counter cr secret (t div 30 + k)
                           = Inr (normalize_totp_code code))"
proof -
  let ?n = "normalize_totp_code code"
  have r: "0 \<le> t div 30 + k \<and> t div 30 + k < 2 ^ 64" if "k \<in> {-1, 0, 1}" for k
    using assms(2,3) that by auto
  let ?c = "\<lambda>k. totp_code_for_counter cr secret (t div 30 + k)"
  have tot: "\<exists>c. ?c k = Inr c" if "k \<in> set [-1, 0, 1]" for k
    using totp_code_for_counter_total [OF assms(1), of "t div 30 + k" cr] r [of k] that by auto
  have any: "rany (\<lambda>k. rbind (?c k) (\<lambda>c. Inr (c = ?n))) [-1, 0, 1]
      = Inr (\<exists>k\<in>set [-1, 0, 1]. ?c k = Inr ?n)"
  proof (rule rany_total)
    fix k :: int
    assume "k \<in> set [-1, 0, 1]"
    with tot [OF this] show "rbind (?c k) (\<lambda>c. Inr (c = ?n)) = Inr (?c k = Inr ?n)" by auto
  qed
  show ?thesis
  proof (cases "length ?n = 6")
    case True
    then show ?thesis unfolding verify_totp_code_def Let_def any by simp
  next
    case False
    then have "?c k \<noteq> Inr ?n" for k using totp_code_for_counter_shape(1) by blast
    with False show ?thesis by (simp add: verify_totp_code_def)
  qed
qed

lemma verify_own_totp_code:
  assumes "totp_code cr secret s = Inr c" and "totp_secret_bytes secret = Inr key"
    and "30 \<le> t" and "t < 30 * (2 ^ 64 - 1)" and "\<bar>s div 30 - t div 30\<bar> \<le> 1"
  shows "verify_totp_code cr secret c t = Inr True"
proof -
  have c: "totp_code_for_counter cr secret (s div 30) = Inr c"
    using assms(1) by (simp add: totp_code_def)
  have n: "normalize_totp_code c = c"
    by (rule normalize_totp_code_id) (rule totp_code_for_counter_shape(2) [OF c])
  have "s div 30 - t div 30 \<in> {-1, 0, 1}" using assms(5) by auto
  then have "\<exists>k\<in>{-1, 0, 1}. totp_code_for_counter cr secret (t div 30 + k) = Inr c"
    using c by (metis add_diff_cancel_left' diff_add_cancel add.commute)
  then show ?thesis by (simp add: verify_totp_code_iff [OF assms(2-4)] n)
qed

subsection \<open>Properties\<close>

text \<open>Stored secrets: what \<open>hash_secret\<close> stores for a password, token or code verifies against exactly
  the secrets with the same PBKDF2 digest under the stored salt, so the secret itself is accepted
  with every salt; and a stored value without the four fields of the format verifies nothing.\<close>

theorem stored_secret_verifies:
  "verify_secret cr secret (hash_secret cr salt secret)
    \<and> (verify_secret cr other (hash_secret cr salt secret)
        \<longleftrightarrow> pbkdf2_sha256 cr other salt 210000 = pbkdf2_sha256 cr secret salt 210000)
    \<and> (\<forall>encoded. length (split_max CHR ''$'' 3 encoded) \<noteq> 4 \<longrightarrow> \<not> verify_secret cr other encoded)"
  by (auto simp: verify_hash_secret) (auto simp: verify_secret_def split: list.splits)

theorem stored_secret_verifies_witness: "\<forall>cr other. \<not> verify_secret cr other ''plain''"
proof (intro allI)
  fix cr other
  have "length (split_max CHR ''$'' 3 ''plain'') \<noteq> 4" by (simp add: numeral_3_eq_3)
  then show "\<not> verify_secret cr other ''plain''"
    using stored_secret_verifies [of cr _ _ other, THEN conjunct2, THEN conjunct2] by blast
qed

text \<open>One-time codes: for a secret that decodes and any time of this age, \<open>verify_totp_code\<close> accepts a
  text exactly when its digits are the code of the current step of 30 seconds or of one of its two
  neighbours; so a code is accepted for at most one step before and one after its own, and
  nothing with other than six digits ever is.\<close>

theorem totp_window:
  assumes "totp_secret_bytes secret = Inr key" and "30 \<le> t" and "t < 30 * (2 ^ 64 - 1)"
  shows "(verify_totp_code cr secret code t = Inr True
        \<longleftrightarrow> (\<exists>k\<in>{-1, 0, 1}. totp_code_for_counter cr secret (t div 30 + k) = Inr (normalize_totp_code code)))
    \<and> (verify_totp_code cr secret code t = Inr True \<longrightarrow> length (normalize_totp_code code) = 6)
    \<and> (\<forall>s c. totp_code cr secret s = Inr c \<and> \<bar>s - t\<bar> \<le> 30 \<longrightarrow> verify_totp_code cr secret c t = Inr True)"
proof (intro conjI allI impI)
  fix s c
  assume "totp_code cr secret s = Inr c \<and> \<bar>s - t\<bar> \<le> 30"
  then show "verify_totp_code cr secret c t = Inr True"
    using assms by (intro verify_own_totp_code [of cr secret s]) auto
next
  assume "verify_totp_code cr secret code t = Inr True"
  then show "length (normalize_totp_code code) = 6"
    by (auto simp: verify_totp_code_def Let_def split: if_splits)
qed (simp_all add: verify_totp_code_iff [OF assms])

theorem totp_window_witness:
  "\<forall>cr. \<exists>c. totp_code cr ''mfrggzdf'' 1000 = Inr c \<and> verify_totp_code cr ''mfrggzdf'' c 1020 = Inr True"
proof
  fix cr
  obtain key where key: "totp_secret_bytes ''mfrggzdf'' = Inr key"
    by (simp add: totp_secret_bytes_def normalize_totp_secret_def b32decode_def b32_quanta.simps bytes5_def
        b32_acc.simps b32_val_def str_eval upper_def upper_char_def)
  obtain c where "totp_code_for_counter cr ''mfrggzdf'' (1000 div 30) = Inr c"
    using totp_code_for_counter_total [OF key, of "1000 div 30" cr] by auto
  then have c: "totp_code cr ''mfrggzdf'' 1000 = Inr c" by (simp add: totp_code_def)
  have "verify_totp_code cr ''mfrggzdf'' c 1020 = Inr True"
    by (rule totp_window [OF key, THEN conjunct2, THEN conjunct2, rule_format, where s = 1000]) (simp_all add: c)
  with c show "\<exists>c. totp_code cr ''mfrggzdf'' 1000 = Inr c
      \<and> verify_totp_code cr ''mfrggzdf'' c 1020 = Inr True" by blast
qed

end
