(* ===== verification/Settings_Model.thy ===== *)
theory Settings_Model
  imports Hub_Prelude
begin

text \<open>
  \<open>class Settings\<close> of \<open>dashboard/app/config.py\<close>: one field per setting, under the Python name
  with the prefix \<open>cfg_\<close>, and the defaults the class declares. The values come from the
  environment at start-up (pydantic parses them into these types) and never change after.
\<close>

record settings =
  cfg_app_name :: string
  cfg_app_env :: string
  cfg_app_timezone :: string
  cfg_public_url :: string
  cfg_proxy_public_url :: string
  cfg_proxy_grant_ttl_seconds :: int
  cfg_proxy_session_ttl_minutes :: int
  cfg_proxy_session_cookie_prefix :: string
  cfg_firewall_access_mode :: string
  cfg_connector_session_ttl_minutes :: int
  cfg_connector_local_port :: int
  cfg_connector_max_connections :: int
  cfg_connector_upstream_connect_timeout_seconds :: int
  cfg_connector_connection_max_seconds :: int
  cfg_connector_authorization_recheck_seconds :: int
  cfg_public_l4_relay_enabled :: bool
  cfg_public_l4_relay_mtls_required :: bool
  cfg_public_l4_relay_bind_host :: string
  cfg_public_l4_relay_port_min :: int
  cfg_public_l4_relay_port_max :: int
  cfg_public_l4_relay_ttl_seconds :: int
  cfg_public_l4_relay_idle_timeout_seconds :: int
  cfg_public_l4_relay_max_connections :: int
  cfg_database_url :: string
  cfg_secret_key :: string
  cfg_secret_encryption_key :: "string option"
  cfg_csrf_cookie_name :: string
  cfg_initial_admin_email :: string
  cfg_initial_admin_password :: string
  cfg_session_cookie_name :: string
  cfg_session_secure :: bool
  cfg_session_ttl_hours :: int
  cfg_otp_ttl_minutes :: int
  cfg_allowed_hosts :: string
  cfg_trusted_proxy_cidrs :: string
  cfg_security_headers_enabled :: bool
  cfg_content_security_policy :: string
  cfg_referrer_policy :: string
  cfg_permissions_policy :: string
  cfg_rate_limit_backend :: string
  cfg_rate_limit_redis_url :: "string option"
  cfg_rate_limit_memory_max_buckets :: int
  cfg_rate_limit_mfa_attempts :: int
  cfg_rate_limit_mfa_window_seconds :: int
  cfg_security_alert_email_enabled :: bool
  cfg_max_proxy_request_bytes :: int
  cfg_max_proxy_response_bytes :: int
  cfg_max_backup_restore_bytes :: int
  cfg_max_backup_restore_entries :: int
  cfg_max_backup_restore_total_uncompressed_bytes :: int
  cfg_max_backup_restore_file_bytes :: int
  cfg_network_control_mode :: string
  cfg_hub_wg_endpoint :: string
  cfg_hub_wg_cidr :: string
  cfg_hub_wg_address :: string
  cfg_hub_wg_listen_port :: int
  cfg_allow_broad_wg_cidr :: bool
  cfg_wg_interface :: string
  cfg_wg_config_path :: string
  cfg_wg_server_private_key_path :: string
  cfg_wg_server_public_key :: string
  cfg_wg_dry_run :: bool
  cfg_wg_agent_url :: "string option"
  cfg_wg_agent_token :: "string option"
  cfg_wg_agent_mode :: bool
  cfg_hub_enable_ip_forwarding :: bool
  cfg_hub_manage_firewall_rules :: bool
  cfg_hub_control_plane_port :: int
  cfg_hub_external_isolation_policy_verified :: bool
  cfg_proxy_verify_tls :: bool
  cfg_allow_insecure_proxy_tls_in_production :: bool
  cfg_opnsense_gui_port :: int
  cfg_branding_upload_dir :: string
  cfg_branding_logo_max_bytes :: int
  cfg_firewall_health_check_interval_seconds :: int
  cfg_firewall_health_check_timeout_seconds :: int
  cfg_rate_limit_login_attempts :: int
  cfg_rate_limit_login_window_seconds :: int
  cfg_rate_limit_local_ad_login_attempts :: int
  cfg_rate_limit_local_ad_login_window_seconds :: int
  cfg_rate_limit_microsoft_login_attempts :: int
  cfg_rate_limit_microsoft_login_window_seconds :: int
  cfg_rate_limit_enrollment_attempts :: int
  cfg_rate_limit_enrollment_window_seconds :: int
  cfg_rate_limit_enrollment_code_attempts :: int
  cfg_rate_limit_enrollment_code_window_seconds :: int
  cfg_rate_limit_device_heartbeat_attempts :: int
  cfg_rate_limit_device_heartbeat_window_seconds :: int
  cfg_rate_limit_device_backup_attempts :: int
  cfg_rate_limit_device_backup_window_seconds :: int
  cfg_config_backup_mode :: string
  cfg_device_token_ttl_days :: int
  cfg_device_token_rotation_window_days :: int
  cfg_rate_limit_backup_restore_attempts :: int
  cfg_rate_limit_backup_restore_window_seconds :: int
  cfg_rate_limit_device_access_attempts :: int
  cfg_rate_limit_device_access_window_seconds :: int
  cfg_audit_log_retention_days :: int
  cfg_device_event_retention_days :: int
  cfg_log_retention_sweep_interval_hours :: int
  cfg_log_retention_delete_batch_size :: int
  cfg_audit_log_min_retention_days :: int
  cfg_device_event_min_retention_days :: int
  cfg_log_retention_run_on_startup :: bool
  cfg_log_retention_enabled :: bool
  cfg_scheduler_lock_poll_seconds :: int
  cfg_audit_device_view_throttle_minutes :: int
  cfg_run_db_migrations_on_startup :: bool
  cfg_allow_legacy_schema_bootstrap :: bool
  cfg_firewall_health_warning_misses :: int
  cfg_firewall_health_critical_misses :: int
  cfg_firewall_health_warning_recovery_successes :: int
  cfg_firewall_health_critical_recovery_successes :: int

definition default_settings :: settings where
  "default_settings = \<lparr>
     cfg_app_name = ''OPNsense Hub'',
     cfg_app_env = ''development'',
     cfg_app_timezone = ''UTC'',
     cfg_public_url = ''http://localhost:8083'',
     cfg_proxy_public_url = ''http://proxy.localhost:8083'',
     cfg_proxy_grant_ttl_seconds = 60,
     cfg_proxy_session_ttl_minutes = 15,
     cfg_proxy_session_cookie_prefix = ''opnsense_hub_proxy_'',
     cfg_firewall_access_mode = ''connector'',
     cfg_connector_session_ttl_minutes = 15,
     cfg_connector_local_port = 8443,
     cfg_connector_max_connections = 16,
     cfg_connector_upstream_connect_timeout_seconds = 15,
     cfg_connector_connection_max_seconds = 900,
     cfg_connector_authorization_recheck_seconds = 5,
     cfg_public_l4_relay_enabled = False,
     cfg_public_l4_relay_mtls_required = False,
     cfg_public_l4_relay_bind_host = ''0.0.0.0'',
     cfg_public_l4_relay_port_min = 55000,
     cfg_public_l4_relay_port_max = 55099,
     cfg_public_l4_relay_ttl_seconds = 600,
     cfg_public_l4_relay_idle_timeout_seconds = 120,
     cfg_public_l4_relay_max_connections = 16,
     cfg_database_url = ''postgresql+psycopg://opnsensehub:opnsensehub@db:5432/opnsensehub'',
     cfg_secret_key = ''change-me'',
     cfg_secret_encryption_key = None,
     cfg_csrf_cookie_name = ''opnsense_hub_csrf'',
     cfg_initial_admin_email = ''admin@example.com'',
     cfg_initial_admin_password = ''change-me'',
     cfg_session_cookie_name = ''opnsense_hub_session'',
     cfg_session_secure = False,
     cfg_session_ttl_hours = 12,
     cfg_otp_ttl_minutes = 10,
     cfg_allowed_hosts = ''localhost,127.0.0.1,testserver'',
     cfg_trusted_proxy_cidrs = '''',
     cfg_security_headers_enabled = True,
     cfg_content_security_policy = (''default-src '' @ [CHR 0x27] @ ''self'' @ [CHR 0x27] @ ''; img-src '' @ [CHR 0x27] @ ''self'' @ [CHR 0x27] @ '' data:; style-src '' @ [CHR 0x27] @ ''self'' @ [CHR 0x27] @ '' '' @ [CHR 0x27] @ ''unsafe-inline'' @ [CHR 0x27] @ ''; script-src '' @ [CHR 0x27] @ ''self'' @ [CHR 0x27] @ '' '' @ [CHR 0x27] @ ''unsafe-inline'' @ [CHR 0x27] @ ''; font-src '' @ [CHR 0x27] @ ''self'' @ [CHR 0x27] @ '' data:; connect-src '' @ [CHR 0x27] @ ''self'' @ [CHR 0x27] @ ''; frame-ancestors '' @ [CHR 0x27] @ ''none'' @ [CHR 0x27] @ ''; base-uri '' @ [CHR 0x27] @ ''self'' @ [CHR 0x27] @ ''; form-action '' @ [CHR 0x27] @ ''self'' @ [CHR 0x27] @ ''''),
     cfg_referrer_policy = ''strict-origin-when-cross-origin'',
     cfg_permissions_policy = ''geolocation=(), microphone=(), camera=()'',
     cfg_rate_limit_backend = ''memory'',
     cfg_rate_limit_redis_url = None,
     cfg_rate_limit_memory_max_buckets = 10000,
     cfg_rate_limit_mfa_attempts = 5,
     cfg_rate_limit_mfa_window_seconds = 300,
     cfg_security_alert_email_enabled = True,
     cfg_max_proxy_request_bytes = 2000000,
     cfg_max_proxy_response_bytes = 8000000,
     cfg_max_backup_restore_bytes = 20000000,
     cfg_max_backup_restore_entries = 16,
     cfg_max_backup_restore_total_uncompressed_bytes = 25000000,
     cfg_max_backup_restore_file_bytes = 20000000,
     cfg_network_control_mode = ''inline'',
     cfg_hub_wg_endpoint = ''localhost:51820'',
     cfg_hub_wg_cidr = ''100.96.0.0/16'',
     cfg_hub_wg_address = ''100.96.0.1/16'',
     cfg_hub_wg_listen_port = 51820,
     cfg_allow_broad_wg_cidr = False,
     cfg_wg_interface = ''wg0'',
     cfg_wg_config_path = ''/etc/wireguard/wg0.conf'',
     cfg_wg_server_private_key_path = ''/etc/wireguard/server.key'',
     cfg_wg_server_public_key = ''replace-with-server-public-key'',
     cfg_wg_dry_run = False,
     cfg_wg_agent_url = None,
     cfg_wg_agent_token = None,
     cfg_wg_agent_mode = False,
     cfg_hub_enable_ip_forwarding = False,
     cfg_hub_manage_firewall_rules = True,
     cfg_hub_control_plane_port = 8083,
     cfg_hub_external_isolation_policy_verified = False,
     cfg_proxy_verify_tls = True,
     cfg_allow_insecure_proxy_tls_in_production = False,
     cfg_opnsense_gui_port = 443,
     cfg_branding_upload_dir = ''/var/lib/opnsense-hub/branding'',
     cfg_branding_logo_max_bytes = 1000000,
     cfg_firewall_health_check_interval_seconds = 60,
     cfg_firewall_health_check_timeout_seconds = 15,
     cfg_rate_limit_login_attempts = 5,
     cfg_rate_limit_login_window_seconds = 300,
     cfg_rate_limit_local_ad_login_attempts = 5,
     cfg_rate_limit_local_ad_login_window_seconds = 300,
     cfg_rate_limit_microsoft_login_attempts = 10,
     cfg_rate_limit_microsoft_login_window_seconds = 300,
     cfg_rate_limit_enrollment_attempts = 10,
     cfg_rate_limit_enrollment_window_seconds = 300,
     cfg_rate_limit_enrollment_code_attempts = 10,
     cfg_rate_limit_enrollment_code_window_seconds = 300,
     cfg_rate_limit_device_heartbeat_attempts = 120,
     cfg_rate_limit_device_heartbeat_window_seconds = 60,
     cfg_rate_limit_device_backup_attempts = 20,
     cfg_rate_limit_device_backup_window_seconds = 300,
     cfg_config_backup_mode = ''encrypted'',
     cfg_device_token_ttl_days = 90,
     cfg_device_token_rotation_window_days = 14,
     cfg_rate_limit_backup_restore_attempts = 3,
     cfg_rate_limit_backup_restore_window_seconds = 900,
     cfg_rate_limit_device_access_attempts = 20,
     cfg_rate_limit_device_access_window_seconds = 300,
     cfg_audit_log_retention_days = 365,
     cfg_device_event_retention_days = 90,
     cfg_log_retention_sweep_interval_hours = 24,
     cfg_log_retention_delete_batch_size = 5000,
     cfg_audit_log_min_retention_days = 30,
     cfg_device_event_min_retention_days = 7,
     cfg_log_retention_run_on_startup = True,
     cfg_log_retention_enabled = True,
     cfg_scheduler_lock_poll_seconds = 30,
     cfg_audit_device_view_throttle_minutes = 15,
     cfg_run_db_migrations_on_startup = True,
     cfg_allow_legacy_schema_bootstrap = True,
     cfg_firewall_health_warning_misses = 3,
     cfg_firewall_health_critical_misses = 5,
     cfg_firewall_health_warning_recovery_successes = 1,
     cfg_firewall_health_critical_recovery_successes = 2\<rparr>"

definition is_production :: "settings \<Rightarrow> bool" where
  "is_production st \<longleftrightarrow> lower (strip (cfg_app_env st)) = ''production''"

end
