(* ===== verification/Py_Ipaddress.thy ===== *)
theory Py_Ipaddress
  imports Hub_Prelude "HOL-Library.Word"
begin

text \<open>
  The part of Python's \<open>ipaddress\<close> module the Hub uses: \<open>ip_address\<close>, \<open>ip_network(strict=False)\<close>,
  \<open>ip_interface\<close>, membership, host enumeration and printing. An IPv4 address is a
  \<^typ>\<open>32 word\<close>, an IPv6 address a \<^typ>\<open>128 word\<close> with its optional scope; the parsers return
  \<^const>\<open>None\<close> where Python raises \<open>ValueError\<close>.
\<close>

unbundle bit_operations_syntax

type_synonym ipv4 = "32 word"
type_synonym ipv6 = "128 word"

datatype ip_addr = V4 ipv4 | V6 ipv6 "string option"

record net4 =
  n4_addr :: ipv4
  n4_prefix :: nat

record net6 =
  n6_addr :: ipv6
  n6_prefix :: nat
  n6_scope :: "string option"

datatype ip_net = Net4 net4 | Net6 net6

subsection \<open>IPv4 parsing and printing\<close>

definition parse_octet :: "string \<Rightarrow> nat option" where
  "parse_octet s =
     (if s = [] then None
      else if \<not> list_all is_digit s then None
      else if length s > 3 then None
      else if s \<noteq> ''0'' \<and> hd s = CHR ''0'' then None
      else if digits_val s > 255 then None
      else Some (digits_val s))"

definition ipv4_of_octets :: "nat \<Rightarrow> nat \<Rightarrow> nat \<Rightarrow> nat \<Rightarrow> ipv4" where
  "ipv4_of_octets a b c d = of_nat (((a * 256 + b) * 256 + c) * 256 + d)"

definition parse_ipv4 :: "string \<Rightarrow> ipv4 option" where
  "parse_ipv4 s =
     (case split_on CHR ''.'' s of
        [a, b, c, d] \<Rightarrow>
          (case (parse_octet a, parse_octet b, parse_octet c, parse_octet d) of
             (Some a', Some b', Some c', Some d') \<Rightarrow> Some (ipv4_of_octets a' b' c' d')
           | _ \<Rightarrow> None)
      | _ \<Rightarrow> None)"

definition show_ipv4 :: "ipv4 \<Rightarrow> string" where
  "show_ipv4 w = (let n = unat w in
     join ''.'' [nat_str (n div 16777216 mod 256), nat_str (n div 65536 mod 256),
                 nat_str (n div 256 mod 256), nat_str (n mod 256)])"

subsection \<open>IPv6 parsing and printing\<close>

definition hex_val :: "char \<Rightarrow> nat option" where
  "hex_val c = (let n = code_of c in
     if is_digit c then Some (n - 48)
     else if 97 \<le> n \<and> n \<le> 102 then Some (n - 87)
     else if 65 \<le> n \<and> n \<le> 70 then Some (n - 55)
     else None)"

fun hex_str :: "nat \<Rightarrow> string" where
  "hex_str n = (if n < 16 then [hex_char n] else hex_str (n div 16) @ [hex_char (n mod 16)])"

declare hex_str.simps [simp del]

fun hextet_val :: "nat \<Rightarrow> string \<Rightarrow> nat option" where
  "hextet_val acc [] = Some acc"
| "hextet_val acc (c # cs) =
     (case hex_val c of None \<Rightarrow> None | Some v \<Rightarrow> hextet_val (16 * acc + v) cs)"

definition parse_hextet :: "string \<Rightarrow> nat option" where
  "parse_hextet s = (if s = [] \<or> length s > 4 then None else hextet_val 0 s)"

fun parse_hextets :: "string list \<Rightarrow> nat \<Rightarrow> nat option" where
  "parse_hextets [] acc = Some acc"
| "parse_hextets (p # ps) acc =
     (case parse_hextet p of None \<Rightarrow> None | Some v \<Rightarrow> parse_hextets ps (65536 * acc + v))"

definition ipv6_expand_v4 :: "string list \<Rightarrow> string list option" where
  "ipv6_expand_v4 parts =
     (if CHR ''.'' \<in> set (last parts) then
        (case parse_ipv4 (last parts) of
           None \<Rightarrow> None
         | Some w \<Rightarrow> Some (butlast parts @ [hex_str (unat w div 65536), hex_str (unat w mod 65536)]))
      else Some parts)"

definition ipv6_of_parts :: "string list \<Rightarrow> ipv6 option" where
  "ipv6_of_parts parts =
     (let n = length parts;
          empties = filter (\<lambda>i. parts ! i = []) [1..<n - 1]
      in if n > 9 then None
         else case empties of
           [] \<Rightarrow>
             (if n \<noteq> 8 \<or> hd parts = [] \<or> last parts = [] then None
              else map_option of_nat (parse_hextets parts 0))
         | [skip] \<Rightarrow>
             (let hi = (if hd parts = [] then skip - 1 else skip);
                  lo = (if last parts = [] then n - skip - 2 else n - skip - 1)
              in if (hd parts = [] \<and> hi \<noteq> 0) \<or> (last parts = [] \<and> lo \<noteq> 0) then None
                 else if hi + lo > 7 then None
                 else (case parse_hextets (take hi parts) 0 of
                         None \<Rightarrow> None
                       | Some h \<Rightarrow>
                           map_option of_nat
                             (parse_hextets (drop (n - lo) parts) (h * 65536 ^ (8 - (hi + lo))))))
         | _ \<Rightarrow> None)"

definition parse_ipv6_int :: "string \<Rightarrow> ipv6 option" where
  "parse_ipv6_int s =
     (let parts = split_on CHR '':'' s in
      if length parts < 3 then None
      else (case ipv6_expand_v4 parts of None \<Rightarrow> None | Some ps \<Rightarrow> ipv6_of_parts ps))"

definition parse_ipv6 :: "string \<Rightarrow> (ipv6 \<times> string option) option" where
  "parse_ipv6 s =
     (if CHR ''/'' \<in> set s then None
      else case partition_at CHR ''%'' s of
        (False, a, _) \<Rightarrow> map_option (\<lambda>w. (w, None)) (parse_ipv6_int a)
      | (True, a, scope) \<Rightarrow>
          (if scope = [] \<or> CHR ''%'' \<in> set scope then None
           else map_option (\<lambda>w. (w, Some scope)) (parse_ipv6_int a)))"

definition hextets_of :: "ipv6 \<Rightarrow> string list" where
  "hextets_of w = map (\<lambda>i. hex_str (unat w div 65536 ^ (7 - i) mod 65536)) [0..<8]"

text \<open>The first longest run of zero hextets, as \<open>(start, length)\<close>; the fold carries the best
  run so far and the run that ends at the current position.\<close>

fun best_run :: "string list \<Rightarrow> nat \<Rightarrow> nat \<times> nat \<Rightarrow> nat \<times> nat \<Rightarrow> nat \<times> nat" where
  "best_run [] i best cur = best"
| "best_run (h # hs) i best (cs, cl) =
     (if h = ''0'' then
        let cs' = (if cl = 0 then i else cs);
            cl' = cl + 1
        in best_run hs (i + 1) (if cl' > snd best then (cs', cl') else best) (cs', cl')
      else best_run hs (i + 1) best (cs, 0))"

definition compress_hextets :: "string list \<Rightarrow> string list" where
  "compress_hextets hs =
     (case best_run hs 0 (0, 0) (0, 0) of (start, len) \<Rightarrow>
        if len > 1 then
          (if start = 0 then [[]] else []) @ take start hs @ [[]]
            @ drop (start + len) hs @ (if start + len = length hs then [[]] else [])
        else hs)"

definition show_ipv6 :: "ipv6 \<Rightarrow> string option \<Rightarrow> string" where
  "show_ipv6 w scope = join '':'' (compress_hextets (hextets_of w))
     @ (case scope of None \<Rightarrow> [] | Some s \<Rightarrow> CHR ''%'' # s)"

subsection \<open>Addresses\<close>

definition ip_address :: "string \<Rightarrow> ip_addr option" where
  "ip_address s =
     (case (if CHR ''/'' \<in> set s then None else parse_ipv4 s) of
        Some w \<Rightarrow> Some (V4 w)
      | None \<Rightarrow> map_option (\<lambda>(w, sc). V6 w sc) (parse_ipv6 s))"

fun show_ip :: "ip_addr \<Rightarrow> string" where
  "show_ip (V4 w) = show_ipv4 w"
| "show_ip (V6 w sc) = show_ipv6 w sc"

subsection \<open>Networks and interfaces\<close>

definition netmask4 :: "nat \<Rightarrow> ipv4" where
  "netmask4 p = (- 1) XOR drop_bit p (- 1)"

definition netmask6 :: "nat \<Rightarrow> ipv6" where
  "netmask6 p = (- 1) XOR drop_bit p (- 1)"

definition prefix_of_string :: "nat \<Rightarrow> string \<Rightarrow> nat option" where
  "prefix_of_string m s =
     (if s \<noteq> [] \<and> list_all is_digit s \<and> digits_val s \<le> m then Some (digits_val s) else None)"

definition prefix_of_mask :: "ipv4 \<Rightarrow> nat option" where
  "prefix_of_mask w = find (\<lambda>p. netmask4 p = w) [0..<33]"

definition make_prefix4 :: "string \<Rightarrow> nat option" where
  "make_prefix4 s =
     (case prefix_of_string 32 s of
        Some p \<Rightarrow> Some p
      | None \<Rightarrow>
          (case parse_ipv4 s of
             None \<Rightarrow> None
           | Some w \<Rightarrow> (case prefix_of_mask w of Some p \<Rightarrow> Some p | None \<Rightarrow> prefix_of_mask (NOT w))))"

text \<open>\<open>addr/mask\<close> split at the slash; without one the prefix is the whole length.\<close>

definition parse_addr_prefix4 :: "string \<Rightarrow> (ipv4 \<times> nat) option" where
  "parse_addr_prefix4 s =
     (case split_on CHR ''/'' s of
        [a] \<Rightarrow> map_option (\<lambda>w. (w, 32)) (parse_ipv4 a)
      | [a, m] \<Rightarrow>
          (case (parse_ipv4 a, make_prefix4 m) of (Some w, Some p) \<Rightarrow> Some (w, p) | _ \<Rightarrow> None)
      | _ \<Rightarrow> None)"

definition parse_addr_prefix6 :: "string \<Rightarrow> (ipv6 \<times> string option \<times> nat) option" where
  "parse_addr_prefix6 s =
     (case split_on CHR ''/'' s of
        [a] \<Rightarrow> map_option (\<lambda>(w, sc). (w, sc, 128)) (parse_ipv6 a)
      | [a, m] \<Rightarrow>
          (case (parse_ipv6 a, prefix_of_string 128 m) of
             (Some (w, sc), Some p) \<Rightarrow> Some (w, sc, p)
           | _ \<Rightarrow> None)
      | _ \<Rightarrow> None)"

definition mk_net4 :: "ipv4 \<Rightarrow> nat \<Rightarrow> net4" where
  "mk_net4 w p = \<lparr>n4_addr = w AND netmask4 p, n4_prefix = p\<rparr>"

definition mk_net6 :: "ipv6 \<Rightarrow> string option \<Rightarrow> nat \<Rightarrow> net6" where
  "mk_net6 w sc p =
     (let masked = w AND netmask6 p in
      \<lparr>n6_addr = masked, n6_prefix = p, n6_scope = (if masked = w then sc else None)\<rparr>)"

definition ip_network :: "string \<Rightarrow> ip_net option" where
  "ip_network s =
     (case parse_addr_prefix4 s of
        Some (w, p) \<Rightarrow> Some (Net4 (mk_net4 w p))
      | None \<Rightarrow>
          (case parse_addr_prefix6 s of
             Some (w, sc, p) \<Rightarrow> Some (Net6 (mk_net6 w sc p))
           | None \<Rightarrow> None))"

datatype ip_iface = Iface4 ipv4 nat | Iface6 ipv6 "string option" nat

definition ip_interface :: "string \<Rightarrow> ip_iface option" where
  "ip_interface s =
     (case parse_addr_prefix4 s of
        Some (w, p) \<Rightarrow> Some (Iface4 w p)
      | None \<Rightarrow>
          (case parse_addr_prefix6 s of
             Some (w, sc, p) \<Rightarrow> Some (Iface6 w sc p)
           | None \<Rightarrow> None))"

fun iface_ip :: "ip_iface \<Rightarrow> ip_addr" where
  "iface_ip (Iface4 w p) = V4 w"
| "iface_ip (Iface6 w sc p) = V6 w sc"

fun show_iface :: "ip_iface \<Rightarrow> string" where
  "show_iface (Iface4 w p) = show_ipv4 w @ ''/'' @ nat_str p"
| "show_iface (Iface6 w sc p) = show_ipv6 w sc @ ''/'' @ nat_str p"

fun show_net :: "ip_net \<Rightarrow> string" where
  "show_net (Net4 n) = show_ipv4 (n4_addr n) @ ''/'' @ nat_str (n4_prefix n)"
| "show_net (Net6 n) = show_ipv6 (n6_addr n) (n6_scope n) @ ''/'' @ nat_str (n6_prefix n)"

definition in_net4 :: "ipv4 \<Rightarrow> net4 \<Rightarrow> bool" where
  "in_net4 w n \<longleftrightarrow> w AND netmask4 (n4_prefix n) = n4_addr n"

definition in_net6 :: "ipv6 \<Rightarrow> net6 \<Rightarrow> bool" where
  "in_net6 w n \<longleftrightarrow> w AND netmask6 (n6_prefix n) = n6_addr n"

fun in_net :: "ip_addr \<Rightarrow> ip_net \<Rightarrow> bool" where
  "in_net (V4 w) (Net4 n) = in_net4 w n"
| "in_net (V6 w sc) (Net6 n) = in_net6 w n"
| "in_net _ _ = False"

definition broadcast4 :: "net4 \<Rightarrow> ipv4" where
  "broadcast4 n = n4_addr n OR drop_bit (n4_prefix n) (- 1)"

text \<open>\<open>network.hosts()\<close> as the interval of candidate addresses it walks: a /31 yields both its
  addresses and a /32 its only one.\<close>

definition host_range4 :: "net4 \<Rightarrow> nat \<times> nat" where
  "host_range4 n =
     (if n4_prefix n \<ge> 31 then (unat (n4_addr n), unat (broadcast4 n) + 1)
      else (unat (n4_addr n) + 1, unat (broadcast4 n)))"

subsection \<open>Facts: printing and parsing IPv4\<close>

lemma nat_str_small: "n < 10 \<Longrightarrow> nat_str n = [digit_char n]"
  by (simp add: nat_str.simps)

lemma nat_str_len: "n < 1000 \<Longrightarrow> length (nat_str n) \<le> 3"
proof -
  assume "n < 1000"
  then have "n div 10 div 10 < 10" by linarith
  then show ?thesis
    by (simp add: nat_str.simps [of n] nat_str.simps [of "n div 10"] nat_str.simps [of "n div 10 div 10"])
qed

lemma hd_nat_str: "n \<noteq> 0 \<Longrightarrow> hd (nat_str n) \<noteq> CHR ''0''"
proof (induction n rule: nat_str.induct)
  case (1 n)
  show ?case
  proof (cases "n < 10")
    case True
    then have "code_of (digit_char n) = 48 + n" by simp
    moreover have "code_of CHR ''0'' = 48" by (simp add: code_of_def)
    ultimately have "digit_char n \<noteq> CHR ''0''" using "1.prems" by auto
    then show ?thesis using True by (simp add: nat_str_small)
  next
    case False
    then have "n div 10 \<noteq> 0" by auto
    with "1.IH" False have "hd (nat_str (n div 10)) \<noteq> CHR ''0''" by simp
    with False show ?thesis by (subst nat_str.simps) simp
  qed
qed

lemma char_of_48: "char_of (48 :: nat) = CHR ''0''"
  by code_simp

lemma parse_octet_nat_str: "n \<le> 255 \<Longrightarrow> parse_octet (nat_str n) = Some n"
proof -
  assume n: "n \<le> 255"
  have "nat_str n = ''0''" if "n = 0"
    using that char_of_48 by (simp add: nat_str_small digit_char_def)
  moreover have "length (nat_str n) \<le> 3" using n by (intro nat_str_len) simp
  ultimately show ?thesis
    using n hd_nat_str [of n] nat_str_digits [of n] digits_val_nat_str [of n]
    by (cases "n = 0") (auto simp: parse_octet_def list_all_iff simp del: digits_val_nat_str)
qed

lemma dot_notin_nat_str: "CHR ''.'' \<notin> set (nat_str n)"
  using nat_str_digits [of n] by (auto dest: is_digit_neq)

lemma slash_notin_nat_str: "CHR ''/'' \<notin> set (nat_str n)"
  using nat_str_digits [of n] by (auto dest: is_digit_neq)

lemma colon_notin_nat_str: "CHR '':'' \<notin> set (nat_str n)"
  using nat_str_digits [of n] by (auto dest: is_digit_neq)

lemma split_show_ipv4:
  "split_on CHR ''.'' (show_ipv4 w) =
     [nat_str (unat w div 16777216 mod 256), nat_str (unat w div 65536 mod 256),
      nat_str (unat w div 256 mod 256), nat_str (unat w mod 256)]"
  by (simp add: show_ipv4_def Let_def split_on_append split_on_no_sep dot_notin_nat_str)

lemma ipv4_of_octets_unat:
  "ipv4_of_octets (unat w div 16777216 mod 256) (unat w div 65536 mod 256)
     (unat w div 256 mod 256) (unat w mod 256) = w"
proof -
  let ?n = "unat w"
  have "?n < 4294967296" using unsigned_less [of w] by simp
  then have a: "?n div 16777216 mod 256 = ?n div 16777216" by simp
  have d: "?n div 16777216 = ?n div 65536 div 256" "?n div 65536 = ?n div 256 div 256"
    by (simp_all add: div_mult2_eq [symmetric])
  have "((?n div 16777216 mod 256 * 256 + ?n div 65536 mod 256) * 256
      + ?n div 256 mod 256) * 256 + ?n mod 256 = ?n"
    unfolding a by (simp only: d div_mult_mod_eq)
  then have "ipv4_of_octets (?n div 16777216 mod 256) (?n div 65536 mod 256)
      (?n div 256 mod 256) (?n mod 256) = of_nat ?n"
    unfolding ipv4_of_octets_def by (rule arg_cong)
  then show ?thesis by simp
qed

theorem parse_show_ipv4 [simp]: "parse_ipv4 (show_ipv4 w) = Some w"
  by (simp add: parse_ipv4_def split_show_ipv4 parse_octet_nat_str ipv4_of_octets_unat)

interpretation dotted: codec show_ipv4 parse_ipv4
  by unfold_locales simp

lemma show_ipv4_inj: "show_ipv4 v = show_ipv4 w \<longleftrightarrow> v = w"
  by (rule dotted.enc_eq_iff)

lemma slash_notin_show_ipv4 [simp]: "CHR ''/'' \<notin> set (show_ipv4 w)"
  by (simp add: show_ipv4_def Let_def slash_notin_nat_str)

lemma colon_notin_show_ipv4 [simp]: "CHR '':'' \<notin> set (show_ipv4 w)"
  by (simp add: show_ipv4_def Let_def colon_notin_nat_str)

lemma ip_address_show_ipv4 [simp]: "ip_address (show_ipv4 w) = Some (V4 w)"
  by (simp add: ip_address_def)

lemma parse_ipv4_no_slash: "parse_ipv4 s = Some w \<Longrightarrow> CHR ''/'' \<notin> set s"
proof
  assume p: "parse_ipv4 s = Some w" and "CHR ''/'' \<in> set s"
  have mem: "\<exists>t\<in>set (split_on CHR ''.'' u). CHR ''/'' \<in> set t" if "CHR ''/'' \<in> set u" for u
    using that by (induction u) (auto split: list.splits)
  with \<open>CHR ''/'' \<in> set s\<close> obtain t where
    "t \<in> set (split_on CHR ''.'' s)" "CHR ''/'' \<in> set t" by blast
  moreover have "\<forall>t\<in>set (split_on CHR ''.'' s). parse_octet t \<noteq> None"
    using p by (auto simp: parse_ipv4_def split: list.splits option.splits)
  ultimately have "list_all is_digit t" by (auto simp: parse_octet_def split: if_splits)
  then show False using \<open>CHR ''/'' \<in> set t\<close> by (auto simp: list_all_iff dest: is_digit_neq)
qed

lemma ip_address_V4_iff: "ip_address s = Some (V4 w) \<longleftrightarrow> parse_ipv4 s = Some w"
  by (auto simp: ip_address_def dest: parse_ipv4_no_slash split: option.splits if_splits)

lemma prefix_of_string_nat_str: "p \<le> m \<Longrightarrow> prefix_of_string m (nat_str p) = Some p"
  using nat_str_digits [of p] by (auto simp: prefix_of_string_def list_all_iff)

theorem ip_network_show_net4:
  "n4_prefix n \<le> 32 \<Longrightarrow> n4_addr n AND netmask4 (n4_prefix n) = n4_addr n
     \<Longrightarrow> ip_network (show_net (Net4 n)) = Some (Net4 n)"
  by (simp add: ip_network_def parse_addr_prefix4_def split_on_append split_on_no_sep
      slash_notin_nat_str make_prefix4_def prefix_of_string_nat_str mk_net4_def)

lemma ip_interface_show_iface4:
  "p \<le> 32 \<Longrightarrow> ip_interface (show_iface (Iface4 w p)) = Some (Iface4 w p)"
  by (simp add: ip_interface_def parse_addr_prefix4_def split_on_append split_on_no_sep
      slash_notin_nat_str make_prefix4_def prefix_of_string_nat_str)

subsection \<open>Facts: masks, membership and host ranges\<close>

lemma netmask4_not_mask: "p \<le> 32 \<Longrightarrow> netmask4 p = NOT (mask (32 - p))"
  unfolding netmask4_def
  by (rule bit_word_eqI) (auto simp: bit_simps)

lemma hostmask4: "p \<le> 32 \<Longrightarrow> (drop_bit p (- 1) :: ipv4) = mask (32 - p)"
  by (rule bit_word_eqI) (auto simp: bit_simps)

lemma and_not_mask_unat: "unat (w AND NOT (mask n) :: ipv4) = unat w - unat w mod 2 ^ n"
proof -
  have "w AND NOT (mask n) = w AND NOT (take_bit n w)"
    by (rule bit_word_eqI) (auto simp: bit_simps)
  also have "\<dots> = w - take_bit n w"
    by (rule disjunctive_diff_eq_and_not [symmetric]) (rule bit_word_eqI, auto simp: bit_simps)
  finally have "w AND NOT (mask n) = w - take_bit n w" .
  moreover have "take_bit n w \<le> w"
    by (simp only: word_le_nat_alt unsigned_take_bit_eq take_bit_nat_less_eq_self)
  ultimately have "unat (w AND NOT (mask n)) = unat w - unat (take_bit n w)"
    by (simp add: unat_sub)
  also have "unat (take_bit n w) = unat w mod 2 ^ n"
    by (simp only: unsigned_take_bit_eq) (rule take_bit_eq_mod)
  finally show ?thesis .
qed

definition wf_net4 :: "net4 \<Rightarrow> bool" where
  "wf_net4 n \<longleftrightarrow> n4_prefix n \<le> 32 \<and> n4_addr n AND netmask4 (n4_prefix n) = n4_addr n"

abbreviation net4_size :: "net4 \<Rightarrow> nat" where
  "net4_size n \<equiv> 2 ^ (32 - n4_prefix n)"

lemma make_prefix4_le: "make_prefix4 s = Some p \<Longrightarrow> p \<le> 32"
  by (auto simp: make_prefix4_def prefix_of_string_def prefix_of_mask_def
      dest!: find_SomeD split: option.splits if_splits)

lemma parse_addr_prefix4_le: "parse_addr_prefix4 s = Some (w, p) \<Longrightarrow> p \<le> 32"
  by (auto simp: parse_addr_prefix4_def dest: make_prefix4_le split: list.splits option.splits)

lemma ip_network_wf: "ip_network s = Some (Net4 n) \<Longrightarrow> wf_net4 n"
  by (auto simp: ip_network_def wf_net4_def mk_net4_def and.assoc
      dest: parse_addr_prefix4_le split: option.splits)

lemma in_net4_unat:
  assumes "wf_net4 n"
  shows "in_net4 w n \<longleftrightarrow> unat w - unat w mod net4_size n = unat (n4_addr n)"
proof -
  have "in_net4 w n \<longleftrightarrow> w AND NOT (mask (32 - n4_prefix n)) = n4_addr n"
    using assms by (simp add: in_net4_def wf_net4_def netmask4_not_mask)
  also have "\<dots> \<longleftrightarrow> unat (w AND NOT (mask (32 - n4_prefix n))) = unat (n4_addr n)"
    by (rule word_eq_iff_unsigned)
  finally show ?thesis by (simp only: and_not_mask_unat)
qed

lemma net4_base_mod: "wf_net4 n \<Longrightarrow> unat (n4_addr n) mod net4_size n = 0"
proof -
  assume "wf_net4 n"
  then have "unat (n4_addr n) - unat (n4_addr n) mod net4_size n = unat (n4_addr n)"
    using in_net4_unat [of n "n4_addr n"] by (simp add: in_net4_def wf_net4_def)
  then show ?thesis
    by (metis diff_diff_cancel diff_self_eq_0 mod_less_eq_dividend)
qed

lemma unat_broadcast4:
  assumes "wf_net4 n"
  shows "unat (broadcast4 n) = unat (n4_addr n) + (net4_size n - 1)"
proof -
  let ?h = "32 - n4_prefix n"
  have le: "n4_prefix n \<le> 32" using assms by (simp add: wf_net4_def)
  have m: "n4_addr n = n4_addr n AND NOT (mask ?h)"
    using assms le by (simp add: wf_net4_def netmask4_not_mask)
  have disj: "n4_addr n AND mask ?h = 0"
    by (subst m) (rule bit_word_eqI, auto simp: bit_simps)
  have "broadcast4 n = n4_addr n OR mask ?h" using le by (simp add: broadcast4_def hostmask4)
  also have "\<dots> = n4_addr n + mask ?h"
    using disj by (rule disjunctive_add_eq_or [symmetric])
  finally have b: "broadcast4 n = n4_addr n + mask ?h" .
  have um: "unat (mask ?h :: ipv4) = net4_size n - 1"
  proof -
    have "(mask ?h :: ipv4) = take_bit ?h (- 1)" by (simp add: take_bit_minus_one_eq_mask)
    then have "unat (mask ?h :: ipv4) = take_bit ?h (mask 32)"
      by (simp only: unsigned_take_bit_eq unsigned_minus_1_eq_mask) simp
    also have "\<dots> = mask ?h" by (simp add: take_bit_of_mask)
    finally show ?thesis by (simp add: mask_eq_exp_minus_1)
  qed
  have k: "unat (n4_addr n) mod 2 ^ ?h = 0" by (rule net4_base_mod [OF assms])
  have lt: "unat (n4_addr n) < 2 ^ n4_prefix n * 2 ^ ?h"
    using unsigned_less [of "n4_addr n"] le by (simp flip: power_add)
  obtain q where q: "unat (n4_addr n) = q * 2 ^ ?h" using k by (auto elim: dvdE)
  with lt have "q < 2 ^ n4_prefix n" by simp
  then have "Suc q * 2 ^ ?h \<le> 2 ^ n4_prefix n * 2 ^ ?h" by (intro mult_le_mono1) simp
  then have "q * 2 ^ ?h + 2 ^ ?h \<le> 2 ^ 32" using le by (simp flip: power_add add: add.commute)
  then have "unat (n4_addr n) + unat (mask ?h :: ipv4) < 2 ^ 32"
    using q um by simp
  then show ?thesis using b um by (simp add: unat_word_ariths)
qed

lemma in_net4_range:
  assumes "wf_net4 n"
  shows "in_net4 w n \<longleftrightarrow> unat (n4_addr n) \<le> unat w \<and> unat w \<le> unat (broadcast4 n)"
proof -
  let ?s = "net4_size n" and ?b = "unat (n4_addr n)" and ?w = "unat w"
  have bm: "?b mod ?s = 0" by (rule net4_base_mod [OF assms])
  have s0: "0 < ?s" by simp
  have "?w - ?w mod ?s = ?b \<longleftrightarrow> ?b \<le> ?w \<and> ?w \<le> ?b + (?s - 1)"
  proof
    assume a: "?w - ?w mod ?s = ?b"
    have "?w mod ?s < ?s" using s0 by (rule mod_less_divisor)
    moreover have "?w mod ?s \<le> ?w" by (rule mod_less_eq_dividend)
    ultimately show "?b \<le> ?w \<and> ?w \<le> ?b + (?s - 1)" using a by linarith
  next
    assume a: "?b \<le> ?w \<and> ?w \<le> ?b + (?s - 1)"
    then have "?w = ?b + (?w - ?b)" and lt: "?w - ?b < ?s" using s0 by linarith+
    then have "?w mod ?s = (?b + (?w - ?b)) mod ?s" by simp
    also have "\<dots> = (?b mod ?s + (?w - ?b)) mod ?s" by (simp only: mod_add_left_eq)
    also have "\<dots> = ?w - ?b" using bm lt by simp
    finally have "?w mod ?s = ?w - ?b" .
    with a show "?w - ?w mod ?s = ?b" by simp
  qed
  then show ?thesis using assms by (simp add: in_net4_unat unat_broadcast4)
qed

lemma host_range4_in_net:
  assumes "wf_net4 n" and "host_range4 n = (lo, hi)" and "lo \<le> i" and "i < hi"
  shows "in_net4 (of_nat i) n" and "unat (of_nat i :: ipv4) = i"
    and "n4_prefix n < 31 \<Longrightarrow> of_nat i \<noteq> n4_addr n \<and> of_nat i \<noteq> broadcast4 n"
proof -
  have "unat (broadcast4 n) < 2 ^ 32" using unsigned_less [of "broadcast4 n"] by simp
  moreover have "i \<le> unat (broadcast4 n)" and b: "unat (n4_addr n) \<le> i"
    using assms by (auto simp: host_range4_def split: if_splits)
  ultimately show u: "unat (of_nat i :: ipv4) = i" by (simp add: unat_of_nat)
  show "in_net4 (of_nat i) n"
    using assms(1) u b \<open>i \<le> unat (broadcast4 n)\<close> by (simp add: in_net4_range)
  assume "n4_prefix n < 31"
  then have "unat (n4_addr n) < i" "i < unat (broadcast4 n)"
    using assms by (auto simp: host_range4_def)
  with u show "of_nat i \<noteq> n4_addr n \<and> of_nat i \<noteq> broadcast4 n" by auto
qed

lemma in_net4_host_range:
  assumes "wf_net4 n" and "in_net4 w n" and "w \<noteq> n4_addr n" and "w \<noteq> broadcast4 n"
    and "host_range4 n = (lo, hi)"
  shows "lo \<le> unat w \<and> unat w < hi"
proof -
  have "unat (n4_addr n) \<le> unat w" "unat w \<le> unat (broadcast4 n)"
    using assms(1,2) by (simp_all add: in_net4_range)
  moreover have "unat w \<noteq> unat (n4_addr n)" "unat w \<noteq> unat (broadcast4 n)"
    using assms(3,4) by (auto simp: word_eq_iff_unsigned [where ?'a = nat])
  ultimately show ?thesis using assms(5) by (auto simp: host_range4_def split: if_splits)
qed

end
