(* ===== verification/Py_Url.thy ===== *)
theory Py_Url
  imports Py_Ipaddress
begin

text \<open>
  \<open>urllib.parse.urlparse\<close> on ASCII text, as far as the Hub reads its result: the components, the
  host name and the port. \<^const>\<open>None\<close> stands for \<open>ValueError\<close>.
\<close>

record url =
  url_scheme :: string
  url_netloc :: string
  url_path :: string
  url_params :: string
  url_query :: string
  url_fragment :: string

definition is_c0_or_space :: "char \<Rightarrow> bool" where
  "is_c0_or_space c = (code_of c \<le> 32)"

definition url_sanitize :: "string \<Rightarrow> string" where
  "url_sanitize s = filter (\<lambda>c. code_of c \<notin> {9, 10, 13}) (dropWhile is_c0_or_space s)"

definition is_scheme_char :: "char \<Rightarrow> bool" where
  "is_scheme_char c = (is_alnum c \<or> c \<in> set ''+-.'')"

definition split_scheme :: "string \<Rightarrow> string \<times> string" where
  "split_scheme s =
     (case partition_at CHR '':'' s of
        (True, pre, rest) \<Rightarrow>
          if pre \<noteq> [] \<and> is_alpha (hd pre) \<and> list_all is_scheme_char pre then (lower pre, rest)
          else ([], s)
      | _ \<Rightarrow> ([], s))"

definition is_host_delim :: "char \<Rightarrow> bool" where
  "is_host_delim c = (c \<in> set ''/?#'')"

fun all_hex :: "string \<Rightarrow> bool" where
  "all_hex s = list_all (\<lambda>c. hex_val c \<noteq> None) s"

text \<open>\<open>_check_bracketed_host\<close>: an IPvFuture literal or an IPv6 address.\<close>

definition bracketed_host_ok :: "string \<Rightarrow> bool" where
  "bracketed_host_ok h =
     (case h of
        CHR ''v'' # r \<Rightarrow>
          (case partition_at CHR ''.'' r of
             (True, a, b) \<Rightarrow> a \<noteq> [] \<and> all_hex a \<and> b \<noteq> [] \<and> CHR 0x0A \<notin> set b
           | _ \<Rightarrow> False)
      | _ \<Rightarrow> (case ip_address h of Some (V6 w sc) \<Rightarrow> True | _ \<Rightarrow> False))"

definition host_part :: "string \<Rightarrow> string" where
  "host_part netloc = (case rpartition_at CHR ''@'' netloc of (_, _, h) \<Rightarrow> h)"

definition bracketed_netloc_ok :: "string \<Rightarrow> bool" where
  "bracketed_netloc_ok netloc =
     (let hp = host_part netloc in
      case partition_at CHR ''['' hp of
        (True, before, bracketed) \<Rightarrow>
          before = []
          \<and> (case partition_at CHR '']'' bracketed of (_, h, port) \<Rightarrow>
               (port = [] \<or> hd port = CHR '':'') \<and> bracketed_host_ok h)
      | _ \<Rightarrow> bracketed_host_ok (case partition_at CHR '':'' hp of (_, h, _) \<Rightarrow> h))"

definition netloc_ok :: "string \<Rightarrow> bool" where
  "netloc_ok n =
     (let o' = (CHR ''['' \<in> set n); c' = (CHR '']'' \<in> set n)
      in o' = c' \<and> (o' \<longrightarrow> bracketed_netloc_ok n))"

definition uses_params :: "string list" where
  "uses_params = [[], ''ftp'', ''hdl'', ''prospero'', ''http'', ''imap'', ''https'', ''shttp'',
     ''rtsp'', ''rtsps'', ''rtspu'', ''sip'', ''sips'', ''mms'', ''sftp'', ''tel'']"

text \<open>\<open>_splitparams\<close>: the parameters follow the first semicolon after the last slash.\<close>

definition split_params :: "string \<Rightarrow> string \<times> string" where
  "split_params p =
     (case rpartition_at CHR ''/'' p of (found, pre, seg) \<Rightarrow>
        (case partition_at CHR '';'' seg of
           (True, a, b) \<Rightarrow> ((if found then pre @ ''/'' else []) @ a, b)
         | _ \<Rightarrow> (p, [])))"

definition urlparse :: "string \<Rightarrow> url option" where
  "urlparse s0 =
     (case split_scheme (url_sanitize s0) of (scheme, s1) \<Rightarrow>
      let has_netloc = startswith s1 ''//'';
          netloc = (if has_netloc then takeWhile (\<lambda>c. \<not> is_host_delim c) (drop 2 s1) else []);
          s2 = (if has_netloc then dropWhile (\<lambda>c. \<not> is_host_delim c) (drop 2 s1) else s1)
      in if has_netloc \<and> \<not> netloc_ok netloc then None
         else case partition_at CHR ''#'' s2 of (_, s3, fragment) \<Rightarrow>
           (case partition_at CHR ''?'' s3 of (_, path, query) \<Rightarrow>
              (case (if scheme \<in> set uses_params \<and> CHR '';'' \<in> set path then split_params path
                     else (path, [])) of
                 (path', params) \<Rightarrow>
                   Some \<lparr>url_scheme = scheme, url_netloc = netloc, url_path = path',
                     url_params = params, url_query = query, url_fragment = fragment\<rparr>)))"

text \<open>\<open>_hostinfo\<close>, \<open>.hostname\<close> and \<open>.port\<close>.\<close>

definition hostinfo :: "string \<Rightarrow> string \<times> string option" where
  "hostinfo netloc =
     (let hp = host_part netloc;
          (h, port) =
            (case partition_at CHR ''['' hp of
               (True, _, bracketed) \<Rightarrow>
                 (case partition_at CHR '']'' bracketed of (_, h, rest) \<Rightarrow>
                    (h, case partition_at CHR '':'' rest of (_, _, p) \<Rightarrow> p))
             | _ \<Rightarrow> (case partition_at CHR '':'' hp of (_, h, p) \<Rightarrow> (h, p)))
      in (h, if port = [] then None else Some port))"

definition url_hostname :: "url \<Rightarrow> string option" where
  "url_hostname u =
     (let h = fst (hostinfo (url_netloc u)) in
      if h = [] then None
      else case partition_at CHR ''%'' h of
        (True, a, zone) \<Rightarrow> Some (lower a @ ''%'' @ zone)
      | _ \<Rightarrow> Some (lower h))"

text \<open>The outer option is \<open>ValueError\<close>, the inner one \<open>None\<close>.\<close>

definition url_port :: "url \<Rightarrow> nat option option" where
  "url_port u =
     (case snd (hostinfo (url_netloc u)) of
        None \<Rightarrow> Some None
      | Some p \<Rightarrow>
          if list_all is_digit p \<and> digits_val p \<le> 65535 then Some (Some (digits_val p)) else None)"

lemmas url_eval = urlparse_def url_sanitize_def is_c0_or_space_def split_scheme_def
  is_scheme_char_def is_host_delim_def netloc_ok_def host_part_def uses_params_def
  split_params_def url_hostname_def url_port_def hostinfo_def

lemma urlparse_example:
  "map_option (\<lambda>u. (url_scheme u, url_hostname u, url_port u, url_path u))
     (urlparse ''https://Hub.example:8443/a;b?c#d'')
   = Some (''https'', Some ''hub.example'', Some (Some 8443), ''/a'')"
  by (simp add: str_eval url_eval)

end
