(* ===== verification/Request_Context.thy ===== *)
theory Request_Context
  imports Settings_Model Py_Url
begin

text \<open>
  Which client and which host a request counts as: \<open>dashboard/app/security/request_context.py\<close>.
  A request is the record of what these functions and the CSRF check read from it; header names
  are lower case, and \<open>rq_hostname\<close> is \<open>request.url.hostname\<close>.
\<close>

record request =
  rq_method :: string
  rq_path :: string
  rq_client :: "string option"
  rq_headers :: "string \<Rightarrow> string option"
  rq_cookies :: "string \<Rightarrow> string option"
  rq_hostname :: "string option"

text \<open>Truthiness of an optional string, \<open>a or b\<close> and \<open>value or ""\<close>.\<close>

fun nonempty :: "string option \<Rightarrow> bool" where
  "nonempty None = False"
| "nonempty (Some s) = (s \<noteq> [])"

definition str_or :: "string option \<Rightarrow> string option \<Rightarrow> string option" where
  "str_or a b = (if nonempty a then a else b)"

definition or_empty :: "string option \<Rightarrow> string" where
  "or_empty a = (case a of None \<Rightarrow> [] | Some s \<Rightarrow> s)"

definition normalized_hostname :: "string option \<Rightarrow> string" where
  "normalized_hostname host =
     (if \<not> nonempty host then []
      else case urlparse (''//'' @ strip (the host)) of
        None \<Rightarrow> []
      | Some parsed \<Rightarrow>
          if url_port parsed = None then []
          else if url_path parsed \<noteq> [] \<or> url_params parsed \<noteq> [] \<or> url_query parsed \<noteq> []
             \<or> url_fragment parsed \<noteq> [] then []
          else lower (strip (or_empty (url_hostname parsed))))"

text \<open>The host of a configured URL; a URL that does not parse has none.\<close>

definition configured_hostname :: "string \<Rightarrow> string" where
  "configured_hostname u =
     (case urlparse u of None \<Rightarrow> [] | Some p \<Rightarrow> lower (strip (or_empty (url_hostname p))))"

definition proxy_hostname :: "settings \<Rightarrow> string" where
  "proxy_hostname cfg = configured_hostname (cfg_proxy_public_url cfg)"

definition add_host :: "string \<Rightarrow> string list \<Rightarrow> string list" where
  "add_host u hosts =
     (let h = configured_hostname u in if h \<noteq> [] \<and> h \<notin> set hosts then hosts @ [h] else hosts)"

definition allowed_hosts :: "settings \<Rightarrow> string list" where
  "allowed_hosts cfg =
     (let configured = map (\<lambda>i. lower (strip i)) (split_on CHR '','' (cfg_allowed_hosts cfg));
          hosts = filter (\<lambda>i. i \<noteq> []) configured
      in add_host (cfg_proxy_public_url cfg) (add_host (cfg_public_url cfg) hosts))"

definition trusted_proxy_networks :: "settings \<Rightarrow> ip_net list" where
  "trusted_proxy_networks cfg =
     List.map_filter ip_network
       (filter (\<lambda>v. v \<noteq> []) (map strip (split_on CHR '','' (cfg_trusted_proxy_cidrs cfg))))"

definition host_is_allowed :: "settings \<Rightarrow> string option \<Rightarrow> bool" where
  "host_is_allowed cfg host =
     (let normalized = normalized_hostname host; hosts = allowed_hosts cfg in
      if normalized = [] then False
      else if hosts = [] then True
      else if ''*'' \<in> set hosts then True
      else normalized \<in> set hosts)"

definition is_proxy_path :: "string \<Rightarrow> bool" where
  "is_proxy_path path = (path = ''/proxy'' \<or> startswith path ''/proxy/'')"

definition is_hub_proxy_device_path :: "settings \<Rightarrow> string \<Rightarrow> bool" where
  "is_hub_proxy_device_path cfg path =
     (lower (strip (cfg_firewall_access_mode cfg)) = ''hub_proxy''
      \<and> (path = ''/proxy/devices'' \<or> startswith path ''/proxy/devices/''))"

definition ensure_host_path_boundary :: "settings \<Rightarrow> request \<Rightarrow> unit res" where
  "ensure_host_path_boundary cfg rq =
     (let host = normalized_hostname (str_or (rq_headers rq ''host'') (rq_hostname rq)) in
      if host = proxy_hostname cfg
         \<or> (is_proxy_path (rq_path rq) \<and> \<not> is_hub_proxy_device_path cfg (rq_path rq))
      then Inl (HTTPException 404 ''Not Found'') else Inr ())"

definition ensure_allowed_host :: "settings \<Rightarrow> request \<Rightarrow> unit res" where
  "ensure_allowed_host cfg rq =
     (if host_is_allowed cfg (str_or (rq_headers rq ''host'') (rq_hostname rq)) then Inr ()
      else Inl (HTTPException 400 ''host header is not allowed''))"

definition request_ip :: "request \<Rightarrow> string option" where
  "request_ip rq = (if nonempty (rq_client rq) then rq_client rq else None)"

definition is_trusted_proxy :: "settings \<Rightarrow> string option \<Rightarrow> bool" where
  "is_trusted_proxy cfg host =
     (if \<not> nonempty host then False
      else case ip_address (the host) of
        None \<Rightarrow> False
      | Some address \<Rightarrow> list_ex (in_net address) (trusted_proxy_networks cfg))"

definition forwarded_hops :: "request \<Rightarrow> string list" where
  "forwarded_hops rq =
     filter (\<lambda>c. c \<noteq> [] \<and> ip_address c \<noteq> None)
       (map strip (split_on CHR '','' (or_empty (rq_headers rq ''x-forwarded-for''))))"

definition client_ip :: "settings \<Rightarrow> request \<Rightarrow> string" where
  "client_ip cfg rq =
     (case request_ip rq of
        None \<Rightarrow> ''unknown''
      | Some direct_ip \<Rightarrow>
          if \<not> is_trusted_proxy cfg (Some direct_ip) then direct_ip
          else if forwarded_hops rq = [] then direct_ip
          else case find (\<lambda>c. \<not> is_trusted_proxy cfg (Some c)) (rev (forwarded_hops rq)) of
            Some candidate \<Rightarrow> candidate
          | None \<Rightarrow> direct_ip)"

subsection \<open>Facts\<close>

lemma str_or_simps [simp]: "str_or (Some (c # s)) b = Some (c # s)" "str_or None b = b"
  "str_or (Some []) b = b"
  by (simp_all add: str_or_def)

lemma client_ip_untrusted:
  "rq_client rq = Some ip \<Longrightarrow> ip \<noteq> [] \<Longrightarrow> \<not> is_trusted_proxy cfg (Some ip) \<Longrightarrow> client_ip cfg rq = ip"
  by (simp add: client_ip_def request_ip_def)

lemma split_on_last:
  "c \<notin> set t \<Longrightarrow> split_on c (s @ c # t) = split_on c s @ [t]"
  by (induction s) (auto simp: split_on_no_sep split: list.splits)

lemma forwarded_hops_append:
  assumes "rq_headers rq ''x-forwarded-for'' = Some (spoof @ '','' @ hop)"
    and "CHR '','' \<notin> set hop" and "strip hop \<noteq> []" and "ip_address (strip hop) \<noteq> None"
  shows "\<exists>hops. forwarded_hops rq = hops @ [strip hop]"
  using assms by (auto simp: forwarded_hops_def or_empty_def split_on_last)

lemma client_ip_via_proxy:
  assumes "rq_client rq = Some proxy" and "is_trusted_proxy cfg (Some proxy)"
    and "rq_headers rq ''x-forwarded-for'' = Some (spoof @ '','' @ hop)"
    and "CHR '','' \<notin> set hop" and "ip_address (strip hop) \<noteq> None"
    and "\<not> is_trusted_proxy cfg (Some (strip hop))" and "strip hop \<noteq> []"
  shows "client_ip cfg rq = strip hop"
proof -
  from forwarded_hops_append [OF assms(3,4,7,5)] obtain hops
    where "forwarded_hops rq = hops @ [strip hop]" by blast
  moreover have "proxy \<noteq> []" using assms(2) by (auto simp: is_trusted_proxy_def)
  ultimately show ?thesis using assms by (simp add: client_ip_def request_ip_def)
qed

lemma client_ip_cases:
  "client_ip cfg rq = ''unknown'' \<and> request_ip rq = None
   \<or> rq_client rq = Some (client_ip cfg rq)
   \<or> client_ip cfg rq \<in> set (forwarded_hops rq) \<and> \<not> is_trusted_proxy cfg (Some (client_ip cfg rq))"
  by (auto simp: client_ip_def request_ip_def dest!: find_SomeD split: option.splits)

lemma ensure_allowed_host_Inr:
  "ensure_allowed_host cfg rq = Inr () \<Longrightarrow>
     normalized_hostname (str_or (rq_headers rq ''host'') (rq_hostname rq)) \<noteq> []"
  by (auto simp: ensure_allowed_host_def host_is_allowed_def Let_def split: if_splits)

subsection \<open>Properties\<close>

text \<open>C13. The client address cannot be forged: a request from an address that is no trusted proxy is
  attributed to that address whatever headers it carries; and one that comes through a trusted
  proxy, which appends the address it saw to \<open>X-Forwarded-For\<close>, is attributed to that address
  whatever the client put before it. Rate limits and audit entries use this address.\<close>

theorem client_ip_unforgeable:
  assumes "rq_client rq = Some peer" and "peer \<noteq> []"
  shows "(\<not> is_trusted_proxy cfg (Some peer) \<longrightarrow> client_ip cfg rq = peer)
    \<and> (is_trusted_proxy cfg (Some peer) \<and> CHR '','' \<notin> set hop \<and> ip_address (strip hop) \<noteq> None
        \<and> strip hop \<noteq> [] \<and> \<not> is_trusted_proxy cfg (Some (strip hop))
        \<and> (rq_headers rq ''x-forwarded-for'' = Some hop
            \<or> rq_headers rq ''x-forwarded-for'' = Some (forged @ '','' @ hop))
      \<longrightarrow> client_ip cfg rq = strip hop)"
proof (intro conjI impI, goal_cases)
  case 2
  then have "\<exists>hops. forwarded_hops rq = hops @ [strip hop]"
    using forwarded_hops_append [of rq forged hop]
    by (auto simp: forwarded_hops_def or_empty_def split_on_no_sep)
  then show ?case using 2 assms by (auto simp: client_ip_def request_ip_def)
qed (use assms client_ip_untrusted in auto)

theorem client_ip_unforgeable_witness:
  "client_ip (default_settings\<lparr>cfg_trusted_proxy_cidrs := ''10.0.0.0/8''\<rparr>)
     \<lparr>rq_method = ''GET'', rq_path = ''/'', rq_client = Some ''10.0.0.1'',
      rq_headers = (\<lambda>h. if h = ''x-forwarded-for'' then Some ''1.1.1.1, 192.0.2.7'' else None),
      rq_cookies = (\<lambda>_. None), rq_hostname = None\<rparr> = ''192.0.2.7''"
proof -
  let ?cfg = "default_settings\<lparr>cfg_trusted_proxy_cidrs := ''10.0.0.0/8''\<rparr>"
  note eval = str_eval parse_ipv4_def parse_octet_def ipv4_of_octets_def ip_address_def parse_addr_prefix4_def
    make_prefix4_def prefix_of_string_def mk_net4_def in_net4_def netmask4_def mask_eq_exp_minus_1 ip_network_def
  have n: "trusted_proxy_networks ?cfg = [Net4 \<lparr>n4_addr = 167772160, n4_prefix = 8\<rparr>]"
    by (simp add: trusted_proxy_networks_def List.map_filter_def eval)
  have t: "is_trusted_proxy ?cfg (Some ''10.0.0.1'')" "\<not> is_trusted_proxy ?cfg (Some ''192.0.2.7'')"
    "ip_address ''192.0.2.7'' \<noteq> None"
    unfolding is_trusted_proxy_def n by (simp_all add: eval)
  have s: "strip '' 192.0.2.7'' = ''192.0.2.7''" by (simp add: str_eval)
  show ?thesis
    using client_ip_unforgeable [of _ "''10.0.0.1''" ?cfg "'' 192.0.2.7''" "''1.1.1.1''", THEN conjunct2] t s
    by simp
qed

end
