(* ===== verification/Csrf.thy ===== *)
theory Csrf
  imports Security Request_Context
begin

text \<open>
  The signed double-submit token: \<open>dashboard/app/security/csrf.py\<close>. \<open>request.state\<close> is a record
  that the token factory returns updated; a fresh random token is an argument, as is the value
  of the form field of the request body.
\<close>

record csrf_state =
  st_csrf_token :: "string option"
  st_cookie_needs_set :: bool

definition csrf_signature :: "crypto \<Rightarrow> settings \<Rightarrow> string \<Rightarrow> string" where
  "csrf_signature cr cfg token = hexdigest (hmac_sha256 cr (cfg_secret_key cfg) token)"

definition sign_csrf_token :: "crypto \<Rightarrow> settings \<Rightarrow> string \<Rightarrow> string" where
  "sign_csrf_token cr cfg token = token @ ''.'' @ csrf_signature cr cfg token"

definition unsign_csrf_token :: "crypto \<Rightarrow> settings \<Rightarrow> string option \<Rightarrow> string option" where
  "unsign_csrf_token cr cfg signed_token =
     (case signed_token of
        None \<Rightarrow> None
      | Some s \<Rightarrow>
          if CHR ''.'' \<notin> set s then None
          else case rpartition_at CHR ''.'' s of (_, token, signature) \<Rightarrow>
            if signature \<noteq> csrf_signature cr cfg token then None else Some token)"

definition get_or_create_csrf_token ::
  "crypto \<Rightarrow> settings \<Rightarrow> request \<Rightarrow> csrf_state \<Rightarrow> string \<Rightarrow> string \<times> csrf_state" where
  "get_or_create_csrf_token cr cfg rq st fresh =
     (let existing = unsign_csrf_token cr cfg (rq_cookies rq (cfg_csrf_cookie_name cfg)) in
      if nonempty existing then (the existing, st)
      else if nonempty (st_csrf_token st) then (the (st_csrf_token st), st)
      else (fresh, \<lparr>st_csrf_token = Some fresh, st_cookie_needs_set = True\<rparr>))"

definition csrf_cookie_value_for_request ::
  "crypto \<Rightarrow> settings \<Rightarrow> request \<Rightarrow> csrf_state \<Rightarrow> string \<Rightarrow> string \<times> csrf_state" where
  "csrf_cookie_value_for_request cr cfg rq st fresh =
     (case get_or_create_csrf_token cr cfg rq st fresh of
        (token, st') \<Rightarrow> (sign_csrf_token cr cfg token, st'))"

definition should_enforce_csrf :: "settings \<Rightarrow> request \<Rightarrow> bool" where
  "should_enforce_csrf cfg rq =
     (let path = rq_path rq in
      if upper (rq_method rq) \<notin> {''POST'', ''PUT'', ''PATCH'', ''DELETE''} then False
      else if path \<in> {''/api/v1/enroll'', ''/auth/microsoft/callback''} then False
      else if is_hub_proxy_device_path cfg path then False
      else if startswith path ''/api/v1/devices/''
          \<and> (endswith path ''/heartbeat'' \<or> endswith path ''/backups'') then False
      else True)"

definition csrf_error :: exn where
  "csrf_error = HTTPException 403 ''missing or invalid CSRF token''"

definition validate_csrf_request ::
  "crypto \<Rightarrow> settings \<Rightarrow> request \<Rightarrow> string option \<Rightarrow> unit res" where
  "validate_csrf_request cr cfg rq form_field =
     (let expected = unsign_csrf_token cr cfg (rq_cookies rq (cfg_csrf_cookie_name cfg));
          header = rq_headers rq ''x-csrf-token'';
          provided = (if nonempty header then header else form_field)
      in if \<not> nonempty expected then Inl csrf_error
         else if \<not> nonempty provided \<or> provided \<noteq> expected then Inl csrf_error
         else Inr ())"

subsection \<open>Facts\<close>

lemma unsign_sign: "unsign_csrf_token cr cfg (Some (sign_csrf_token cr cfg t)) = Some t"
proof -
  have "rpartition_at CHR ''.'' (sign_csrf_token cr cfg t) = (True, t, csrf_signature cr cfg t)"
    using rpartition_at_append [of "CHR ''.''" "csrf_signature cr cfg t" t] hexdigest_no_dot
    by (simp add: sign_csrf_token_def csrf_signature_def)
  moreover have "CHR ''.'' \<in> set (sign_csrf_token cr cfg t)" by (simp add: sign_csrf_token_def)
  ultimately show ?thesis by (simp add: unsign_csrf_token_def)
qed

interpretation csrf: codec "sign_csrf_token cr cfg" "\<lambda>s. unsign_csrf_token cr cfg (Some s)"
  for cr :: crypto and cfg :: settings
  by unfold_locales (rule unsign_sign)

lemma rpartition_at_join:
  "rpartition_at c s = (True, a, b) \<Longrightarrow> s = a @ c # b"
proof -
  assume r: "rpartition_at c s = (True, a, b)"
  let ?d = "dropWhile (\<lambda>x. x \<noteq> c) (rev s)" and ?t = "takeWhile (\<lambda>x. x \<noteq> c) (rev s)"
  from r have c: "c \<in> set s" and a: "a = rev (tl ?d)" and b: "b = rev ?t"
    by (auto simp: rpartition_at_def split: if_splits)
  have d: "?d \<noteq> []" "hd ?d = c" using c hd_dropWhile [of "\<lambda>x. x \<noteq> c" "rev s"] by auto
  then have "?d = c # tl ?d" by (metis list.collapse)
  then have "rev s = ?t @ c # tl ?d" by (metis takeWhile_dropWhile_id)
  then have "s = rev (?t @ c # tl ?d)" by (metis rev_rev_ident)
  then show ?thesis by (simp add: a b)
qed

lemma unsign_only_signed:
  "unsign_csrf_token cr cfg (Some s) = Some t \<Longrightarrow> s = sign_csrf_token cr cfg t"
  by (auto simp: unsign_csrf_token_def sign_csrf_token_def rpartition_at_def
      intro!: rpartition_at_join split: if_splits prod.splits)

lemma validate_csrf_Inr:
  assumes "validate_csrf_request cr cfg rq form_field = Inr ()"
  obtains t where "t \<noteq> []" "rq_cookies rq (cfg_csrf_cookie_name cfg) = Some (sign_csrf_token cr cfg t)"
    "rq_headers rq ''x-csrf-token'' = Some t \<or> form_field = Some t"
proof -
  let ?c = "rq_cookies rq (cfg_csrf_cookie_name cfg)"
  from assms obtain t where t: "unsign_csrf_token cr cfg ?c = Some t" "t \<noteq> []"
    by (cases "unsign_csrf_token cr cfg ?c") (auto simp: validate_csrf_request_def Let_def split: if_splits)
  then obtain s where s: "?c = Some s" by (auto simp: unsign_csrf_token_def split: option.splits)
  have "s = sign_csrf_token cr cfg t" using t(1) s by (intro unsign_only_signed) simp
  moreover have "rq_headers rq ''x-csrf-token'' = Some t \<or> form_field = Some t"
    using assms t by (auto simp: validate_csrf_request_def Let_def split: if_splits)
  ultimately show thesis using that t(2) s by blast
qed

lemma issued_token_validates:
  assumes "get_or_create_csrf_token cr cfg rq st fresh = (t, st')" and "t \<noteq> []"
    and "rq_cookies rq2 (cfg_csrf_cookie_name cfg) = Some (sign_csrf_token cr cfg t)"
    and "rq_headers rq2 ''x-csrf-token'' = Some t"
  shows "validate_csrf_request cr cfg rq2 form_field = Inr ()"
proof -
  have "nonempty (Some t)" using assms(2) by simp
  then show ?thesis using assms by (simp add: validate_csrf_request_def unsign_sign)
qed

subsection \<open>Properties\<close>

text \<open>C14. CSRF protection: a request passes exactly when it presents, in the header or (without one) in
  the form field, a non-empty token whose signature is in its cookie. A cookie that the server
  did not sign never yields a token, and a token that was handed out with its cookie passes.\<close>

theorem csrf_double_submit:
  "(validate_csrf_request cr cfg rq form_field = Inr ()
     \<longleftrightarrow> (\<exists>t. t \<noteq> [] \<and> rq_cookies rq (cfg_csrf_cookie_name cfg) = Some (sign_csrf_token cr cfg t)
           \<and> (if nonempty (rq_headers rq ''x-csrf-token'') then rq_headers rq ''x-csrf-token'' = Some t
              else form_field = Some t)))
    \<and> (validate_csrf_request cr cfg rq form_field = Inr ()
        \<or> validate_csrf_request cr cfg rq form_field = Inl csrf_error)"
proof
  let ?c = "rq_cookies rq (cfg_csrf_cookie_name cfg)"
  show "validate_csrf_request cr cfg rq form_field = Inr ()
     \<longleftrightarrow> (\<exists>t. t \<noteq> [] \<and> ?c = Some (sign_csrf_token cr cfg t)
           \<and> (if nonempty (rq_headers rq ''x-csrf-token'') then rq_headers rq ''x-csrf-token'' = Some t
              else form_field = Some t))" (is "?v = Inr () \<longleftrightarrow> ?r")
  proof
    assume v: "?v = Inr ()"
    from validate_csrf_Inr [OF v] obtain t where t: "t \<noteq> []" "?c = Some (sign_csrf_token cr cfg t)" by blast
    with v show ?r by (auto simp: validate_csrf_request_def unsign_sign Let_def split: if_splits)
  next
    assume ?r
    then obtain t where t: "t \<noteq> []" "?c = Some (sign_csrf_token cr cfg t)"
      "if nonempty (rq_headers rq ''x-csrf-token'') then rq_headers rq ''x-csrf-token'' = Some t
              else form_field = Some t" by blast
    then have "nonempty (Some t)" by (cases t) simp_all
    with t show "?v = Inr ()" by (simp add: validate_csrf_request_def unsign_sign Let_def split: if_splits)
  qed
qed (simp add: validate_csrf_request_def Let_def)

end
