(* ===== verification/Models.thy ===== *)
theory Models
  imports Hub_Prelude
begin

text \<open>
  The database rows, \<open>dashboard/app/models.py\<close>: one record per mapped class, one field per
  column, under the column's name with a prefix for its table. A nullable column is an
  \<^typ>\<open>'a option\<close>; \<open>relationship\<close> attributes are lookups, not columns. A UUID is a number.

  A session (\<open>sessionmaker(autocommit=False, autoflush=False)\<close>) is a record of the committed
  tables, the tables as the open transaction sees them, the rows added but not yet flushed
  being in the latter only where the code has flushed them, and the supply of fresh UUIDs.
\<close>

type_synonym uuid = nat

text \<open>\<open>uuid.hex\<close> and \<open>str(uuid)\<close> of a 128-bit number.\<close>

definition uuid_hex :: "uuid \<Rightarrow> string" where
  "uuid_hex i = map (\<lambda>k. hex_char (i div 16 ^ (31 - k) mod 16)) [0..<32]"

definition uuid_str :: "uuid \<Rightarrow> string" where
  "uuid_str i = (let h = uuid_hex i in
     take 8 h @ ''-'' @ take 4 (drop 8 h) @ ''-'' @ take 4 (drop 12 h) @ ''-''
       @ take 4 (drop 16 h) @ ''-'' @ drop 20 h)"

lemma code_of_hex_char: "d < 16 \<Longrightarrow> code_of (hex_char d) = (if d < 10 then 48 + d else 87 + d)"
  by (simp add: hex_char_def code_of_def)

lemma hex_char_inject: "a < 16 \<Longrightarrow> b < 16 \<Longrightarrow> hex_char a = hex_char b \<longleftrightarrow> a = b"
proof
  assume ab: "a < 16" "b < 16" and "hex_char a = hex_char b"
  then have "code_of (hex_char a) = code_of (hex_char b)" by simp
  then show "a = b" unfolding code_of_hex_char [OF ab(1)] code_of_hex_char [OF ab(2)]
    by (simp split: if_splits)
qed simp

lemma same_hex_digits:
  "\<forall>j<k. (m :: nat) div 16 ^ j mod 16 = n div 16 ^ j mod 16 \<Longrightarrow> m mod 16 ^ k = n mod 16 ^ k"
proof (induction k)
  case (Suc k)
  have "x mod 16 ^ Suc k = 16 ^ k * (x div 16 ^ k mod 16) + x mod 16 ^ k" for x :: nat
    using mod_mult2_eq [of x "16 ^ k" 16] by (simp add: mult.commute)
  then show ?case using Suc by (metis less_Suc_eq)
qed simp

lemma uuid_hex_inject: "i < 16 ^ 32 \<Longrightarrow> j < 16 ^ 32 \<Longrightarrow> uuid_hex i = uuid_hex j \<longleftrightarrow> i = j"
proof (rule iffI)
  assume ij: "i < 16 ^ 32" "j < 16 ^ 32" and e: "uuid_hex i = uuid_hex j"
  have "i div 16 ^ k mod 16 = j div 16 ^ k mod 16" if "k < 32" for k
  proof -
    have "uuid_hex i ! (31 - k) = uuid_hex j ! (31 - k)" using e by simp
    moreover have "[0..<32] ! (31 - k) = 31 - k" by (subst nth_upt) simp_all
    ultimately show ?thesis using that by (simp add: uuid_hex_def hex_char_inject)
  qed
  then have "i mod 16 ^ 32 = j mod 16 ^ 32" by (intro same_hex_digits) auto
  with ij show "i = j" by simp
qed simp

lemma length_uuid_hex [simp]: "length (uuid_hex i) = 32"
  by (simp add: uuid_hex_def)

record user =
  usr_id :: uuid
  usr_email :: string
  usr_password_hash :: string
  usr_first_name :: "string option"
  usr_last_name :: "string option"
  usr_auth_provider :: "string option"
  usr_role :: string
  usr_mfa_enabled :: bool
  usr_mfa_secret :: "string option"
  usr_created_at :: instant

record pending_mfa_login =
  pml_id :: uuid
  pml_user_id :: uuid
  pml_nonce_hash :: string
  pml_failed_attempts :: int
  pml_created_at :: instant
  pml_expires_at :: instant
  pml_consumed_at :: "instant option"

record session_token =
  ses_id :: uuid
  ses_user_id :: uuid
  ses_token_hash :: string
  ses_ip_address :: "string option"
  ses_user_agent :: "string option"
  ses_created_at :: instant
  ses_expires_at :: instant
  ses_revoked_at :: "instant option"

record integration_settings =
  ints_id :: int
  ints_smtp_enabled :: bool
  ints_smtp_host :: "string option"
  ints_smtp_port :: "int option"
  ints_smtp_username :: "string option"
  ints_smtp_password :: "string option"
  ints_smtp_from :: "string option"
  ints_graph_enabled :: bool
  ints_graph_tenant_id :: "string option"
  ints_graph_client_id :: "string option"
  ints_graph_client_secret :: "string option"
  ints_graph_sender :: "string option"
  ints_microsoft_enabled :: bool
  ints_microsoft_tenant_id :: "string option"
  ints_microsoft_client_id :: "string option"
  ints_microsoft_client_secret :: "string option"
  ints_microsoft_audience :: "string option"
  ints_microsoft_authority :: "string option"
  ints_microsoft_admin_group_name :: "string option"
  ints_microsoft_admin_group_id :: "string option"
  ints_microsoft_user_group_name :: "string option"
  ints_microsoft_user_group_id :: "string option"
  ints_ad_enabled :: bool
  ints_ad_host :: "string option"
  ints_ad_base_dn :: "string option"
  ints_ad_bind_dn :: "string option"
  ints_admin_login_allowlist :: "string option"
  ints_branding_logo_url :: "string option"
  ints_notify_on_offline :: bool
  ints_notify_on_backup_overdue :: bool
  ints_notify_on_license_expiring :: bool
  ints_notify_on_firmware_available :: bool
  ints_notify_on_repeated_auth_failures :: bool
  ints_updated_at :: instant

record company =
  com_id :: uuid
  com_name :: string
  com_created_at :: instant

record company_user =
  cu_company_id :: uuid
  cu_user_id :: uuid
  cu_role :: string
  cu_created_at :: instant

record user_dashboard_filter =
  udf_id :: uuid
  udf_user_id :: uuid
  udf_name :: string
  udf_company_id :: "uuid option"
  udf_status :: "string option"
  udf_created_at :: instant

record user_attention_ack =
  uaa_id :: uuid
  uaa_user_id :: uuid
  uaa_attention_key :: string
  uaa_created_at :: instant

record enrollment_code =
  ec_id :: uuid
  ec_company_id :: uuid
  ec_code_hash :: string
  ec_expires_at :: instant
  ec_used_at :: "instant option"
  ec_created_by :: "uuid option"
  ec_created_at :: instant

record device =
  dev_id :: uuid
  dev_company_id :: uuid
  dev_name :: "string option"
  dev_hostname :: string
  dev_opnsense_version :: "string option"
  dev_plugin_version :: "string option"
  dev_license_type :: "string option"
  dev_license_expires_at :: "instant option"
  dev_wg_public_key :: string
  dev_wg_tunnel_ip :: string
  dev_device_token_hash :: string
  dev_device_token_issued_at :: instant
  dev_device_token_expires_at :: instant
  dev_status :: string
  dev_health_missed_checks :: int
  dev_health_success_checks :: int
  dev_firmware_status :: string
  dev_firmware_update_available :: bool
  dev_firmware_update_type :: "string option"
  dev_firmware_current_version :: "string option"
  dev_firmware_available_version :: "string option"
  dev_firmware_update_count :: int
  dev_firmware_reboot_required :: bool
  dev_firmware_status_message :: "string option"
  dev_firmware_checked_at :: "instant option"
  dev_firmware_check_requested_at :: "instant option"
  dev_firmware_check_request_reason :: "string option"
  dev_backup_enabled :: bool
  dev_backup_retention_count :: int
  dev_backup_interval_value :: int
  dev_backup_interval_unit :: string
  dev_backup_interval_hours :: int
  dev_backup_last_requested_at :: "instant option"
  dev_backup_last_uploaded_at :: "instant option"
  dev_email_notifications_enabled :: bool
  dev_email_notification_recipient :: "string option"
  dev_email_notify_on_warning :: bool
  dev_email_notify_on_critical :: bool
  dev_email_notify_on_backup_overdue :: bool
  dev_email_notify_on_license_expiring :: bool
  dev_email_notify_on_firmware_available :: bool
  dev_email_last_notified_status :: "string option"
  dev_email_last_notified_at :: "instant option"
  dev_backup_overdue_notified_at :: "instant option"
  dev_license_expiring_notified_at :: "instant option"
  dev_firmware_available_notified_at :: "instant option"
  dev_runbook_notes :: "string option"
  dev_runbook_owner :: "string option"
  dev_runbook_contact :: "string option"
  dev_runbook_site :: "string option"
  dev_support_contract_expires_at :: "instant option"
  dev_escalation_hint :: "string option"
  dev_maintenance_until :: "instant option"
  dev_health_acknowledged_at :: "instant option"
  dev_health_acknowledged_note :: "string option"
  dev_health_acknowledged_by :: "uuid option"
  dev_last_seen_at :: "instant option"
  dev_revoked_at :: "instant option"
  dev_created_at :: instant

record device_proxy_session =
  dps_id :: uuid
  dps_user_id :: uuid
  dps_device_id :: uuid
  dps_dashboard_session_id :: "uuid option"
  dps_token_hash :: string
  dps_phase :: string
  dps_created_at :: instant
  dps_expires_at :: instant
  dps_consumed_at :: "instant option"

record device_backup =
  dbk_id :: uuid
  dbk_device_id :: uuid
  dbk_filename :: string
  dbk_backup_format :: string
  dbk_encrypted_payload :: string
  dbk_created_at :: instant

record device_event =
  ev_id :: uuid
  ev_device_id :: uuid
  ev_event_type :: string
  ev_message :: "string option"
  ev_created_at :: instant

record audit_log =
  al_id :: uuid
  al_user_id :: "uuid option"
  al_company_id :: "uuid option"
  al_device_id :: "uuid option"
  al_action :: string
  al_ip_address :: "string option"
  al_user_agent :: "string option"
  al_created_at :: instant

subsection \<open>The tables and the transaction\<close>

record hub_db =
  users :: "user list"
  pending_mfa_logins :: "pending_mfa_login list"
  sessions :: "session_token list"
  integration_rows :: "integration_settings list"
  companies :: "company list"
  company_users :: "company_user list"
  dashboard_filters :: "user_dashboard_filter list"
  attention_acks :: "user_attention_ack list"
  enrollment_codes :: "enrollment_code list"
  devices :: "device list"
  proxy_sessions :: "device_proxy_session list"
  device_backups :: "device_backup list"
  device_events :: "device_event list"
  audit_logs :: "audit_log list"

definition empty_db :: hub_db where
  "empty_db = \<lparr>users = [], pending_mfa_logins = [], sessions = [], integration_rows = [],
     companies = [], company_users = [], dashboard_filters = [], attention_acks = [],
     enrollment_codes = [], devices = [], proxy_sessions = [], device_backups = [],
     device_events = [], audit_logs = []\<rparr>"

record db_session =
  committed :: hub_db
  work :: hub_db
  uuid_supply :: nat

definition commit :: "db_session \<Rightarrow> db_session" where
  "commit s = s\<lparr>committed := work s\<rparr>"

definition rollback :: "db_session \<Rightarrow> db_session" where
  "rollback s = s\<lparr>work := committed s\<rparr>"

definition fresh_uuid :: "db_session \<Rightarrow> uuid \<times> db_session" where
  "fresh_uuid s = (uuid_supply s, s\<lparr>uuid_supply := uuid_supply s + 1\<rparr>)"

definition open_session :: "hub_db \<Rightarrow> nat \<Rightarrow> db_session" where
  "open_session d n = \<lparr>committed = d, work = d, uuid_supply = n\<rparr>"

lemma commit_simps [simp]:
  "committed (commit s) = work s" "work (commit s) = work s" "uuid_supply (commit s) = uuid_supply s"
  by (simp_all add: commit_def)

lemma rollback_simps [simp]:
  "committed (rollback s) = committed s" "work (rollback s) = committed s"
  "uuid_supply (rollback s) = uuid_supply s"
  by (simp_all add: rollback_def)

text \<open>\<open>db.get(Model, id)\<close> and updating the row with a given id.\<close>

definition get_user :: "hub_db \<Rightarrow> uuid \<Rightarrow> user option" where
  "get_user d i = find (\<lambda>r. usr_id r = i) (users d)"

definition get_device :: "hub_db \<Rightarrow> uuid \<Rightarrow> device option" where
  "get_device d i = find (\<lambda>r. dev_id r = i) (devices d)"

definition get_company :: "hub_db \<Rightarrow> uuid \<Rightarrow> company option" where
  "get_company d i = find (\<lambda>r. com_id r = i) (companies d)"

definition get_session_token :: "hub_db \<Rightarrow> uuid \<Rightarrow> session_token option" where
  "get_session_token d i = find (\<lambda>r. ses_id r = i) (sessions d)"

definition get_proxy_session :: "hub_db \<Rightarrow> uuid \<Rightarrow> device_proxy_session option" where
  "get_proxy_session d i = find (\<lambda>r. dps_id r = i) (proxy_sessions d)"

definition get_integration :: "hub_db \<Rightarrow> integration_settings option" where
  "get_integration d = find (\<lambda>r. ints_id r = 1) (integration_rows d)"

definition update_where :: "('a \<Rightarrow> bool) \<Rightarrow> ('a \<Rightarrow> 'a) \<Rightarrow> 'a list \<Rightarrow> 'a list" where
  "update_where p f xs = map (\<lambda>x. if p x then f x else x) xs"

lemma length_update_where [simp]: "length (update_where p f xs) = length xs"
  by (simp add: update_where_def)

lemma set_update_where: "set (update_where p f xs) = (\<lambda>x. if p x then f x else x) ` set xs"
  by (simp add: update_where_def)

definition put_device :: "device \<Rightarrow> hub_db \<Rightarrow> hub_db" where
  "put_device r d = d\<lparr>devices := update_where (\<lambda>x. dev_id x = dev_id r) (\<lambda>_. r) (devices d)\<rparr>"

definition add_device_event :: "instant \<Rightarrow> uuid \<Rightarrow> string \<Rightarrow> string \<Rightarrow> db_session \<Rightarrow> db_session" where
  "add_device_event now i event_type message s0 =
     (case fresh_uuid s0 of (e, s) \<Rightarrow>
       s\<lparr>work := (work s)\<lparr>device_events := device_events (work s) @
         [\<lparr>ev_id = e, ev_device_id = i, ev_event_type = event_type, ev_message = Some message,
           ev_created_at = now\<rparr>]\<rparr>\<rparr>)"

definition save_device :: "device \<Rightarrow> db_session \<Rightarrow> db_session" where
  "save_device r s = s\<lparr>work := put_device r (work s)\<rparr>"

subsection \<open>Rows with the column defaults\<close>

text \<open>The values the \<open>default=\<close> arguments give a row whose constructor omits the column.\<close>

definition default_device :: "uuid \<Rightarrow> instant \<Rightarrow> device" where
  "default_device i now = \<lparr>
     dev_id = i,
     dev_company_id = 0,
     dev_name = None,
     dev_hostname = [],
     dev_opnsense_version = None,
     dev_plugin_version = None,
     dev_license_type = None,
     dev_license_expires_at = None,
     dev_wg_public_key = [],
     dev_wg_tunnel_ip = [],
     dev_device_token_hash = [],
     dev_device_token_issued_at = now,
     dev_device_token_expires_at = now + days 90,
     dev_status = ''pending'',
     dev_health_missed_checks = 0,
     dev_health_success_checks = 0,
     dev_firmware_status = ''unknown'',
     dev_firmware_update_available = False,
     dev_firmware_update_type = None,
     dev_firmware_current_version = None,
     dev_firmware_available_version = None,
     dev_firmware_update_count = 0,
     dev_firmware_reboot_required = False,
     dev_firmware_status_message = None,
     dev_firmware_checked_at = None,
     dev_firmware_check_requested_at = None,
     dev_firmware_check_request_reason = None,
     dev_backup_enabled = False,
     dev_backup_retention_count = 3,
     dev_backup_interval_value = 24,
     dev_backup_interval_unit = ''hours'',
     dev_backup_interval_hours = 24,
     dev_backup_last_requested_at = None,
     dev_backup_last_uploaded_at = None,
     dev_email_notifications_enabled = False,
     dev_email_notification_recipient = None,
     dev_email_notify_on_warning = True,
     dev_email_notify_on_critical = True,
     dev_email_notify_on_backup_overdue = True,
     dev_email_notify_on_license_expiring = True,
     dev_email_notify_on_firmware_available = True,
     dev_email_last_notified_status = None,
     dev_email_last_notified_at = None,
     dev_backup_overdue_notified_at = None,
     dev_license_expiring_notified_at = None,
     dev_firmware_available_notified_at = None,
     dev_runbook_notes = None,
     dev_runbook_owner = None,
     dev_runbook_contact = None,
     dev_runbook_site = None,
     dev_support_contract_expires_at = None,
     dev_escalation_hint = None,
     dev_maintenance_until = None,
     dev_health_acknowledged_at = None,
     dev_health_acknowledged_note = None,
     dev_health_acknowledged_by = None,
     dev_last_seen_at = None,
     dev_revoked_at = None,
     dev_created_at = now\<rparr>"

definition default_integration :: "instant \<Rightarrow> integration_settings" where
  "default_integration now = \<lparr>
     ints_id = 1,
     ints_smtp_enabled = False,
     ints_smtp_host = None,
     ints_smtp_port = None,
     ints_smtp_username = None,
     ints_smtp_password = None,
     ints_smtp_from = None,
     ints_graph_enabled = False,
     ints_graph_tenant_id = None,
     ints_graph_client_id = None,
     ints_graph_client_secret = None,
     ints_graph_sender = None,
     ints_microsoft_enabled = False,
     ints_microsoft_tenant_id = None,
     ints_microsoft_client_id = None,
     ints_microsoft_client_secret = None,
     ints_microsoft_audience = None,
     ints_microsoft_authority = None,
     ints_microsoft_admin_group_name = None,
     ints_microsoft_admin_group_id = None,
     ints_microsoft_user_group_name = None,
     ints_microsoft_user_group_id = None,
     ints_ad_enabled = False,
     ints_ad_host = None,
     ints_ad_base_dn = None,
     ints_ad_bind_dn = None,
     ints_admin_login_allowlist = None,
     ints_branding_logo_url = None,
     ints_notify_on_offline = True,
     ints_notify_on_backup_overdue = True,
     ints_notify_on_license_expiring = True,
     ints_notify_on_firmware_available = True,
     ints_notify_on_repeated_auth_failures = True,
     ints_updated_at = now\<rparr>"

end
