(* ===== verification/Py_Json.thy ===== *)
theory Py_Json
  imports Hub_Prelude
begin

text \<open>
  Decoded JSON values and what Python does with them: truth, \<open>dict.get\<close>, \<open>str\<close> and \<open>int\<close>. A float
  is kept as its \<open>repr\<close> and its integer part (the Hub only prints or truncates floats); the
  numbers are finite.
\<close>

datatype json =
    JNull
  | JBool bool
  | JInt int
  | JFloat string int
  | JStr string
  | JList "json list"
  | JObj "(string \<times> json) list"

fun json_true :: "json \<Rightarrow> bool" where
  "json_true JNull = False"
| "json_true (JBool b) = b"
| "json_true (JInt i) = (i \<noteq> 0)"
| "json_true (JFloat r t) = (r \<noteq> ''0.0'' \<and> r \<noteq> ''-0.0'')"
| "json_true (JStr s) = (s \<noteq> [])"
| "json_true (JList xs) = (xs \<noteq> [])"
| "json_true (JObj kvs) = (kvs \<noteq> [])"

text \<open>\<open>body.get(key)\<close>; on a value that is not an object Python raises an \<open>AttributeError\<close>.\<close>

definition json_get :: "json option \<Rightarrow> string \<Rightarrow> json option res" where
  "json_get body key =
     (case body of Some (JObj kvs) \<Rightarrow> Inr (map_of kvs key) | _ \<Rightarrow> Inl TypeError)"

text \<open>\<open>repr\<close> of an ASCII string: single quotes unless the text has single but no double ones.\<close>

definition repr_char :: "char \<Rightarrow> char \<Rightarrow> string" where
  "repr_char q c =
     (let n = code_of c in
      if c = q \<or> n = 92 then [CHR 0x5C, c]
      else if n = 9 then [CHR 0x5C, CHR ''t'']
      else if n = 10 then [CHR 0x5C, CHR ''n'']
      else if n = 13 then [CHR 0x5C, CHR ''r'']
      else if n < 32 \<or> n = 127 then [CHR 0x5C, CHR ''x'', hex_char (n div 16), hex_char (n mod 16)]
      else [c])"

definition repr_str :: "string \<Rightarrow> string" where
  "repr_str s =
     (let q = (if CHR 0x27 \<in> set s \<and> CHR 0x22 \<notin> set s then CHR 0x22 else CHR 0x27)
      in [q] @ concat (map (repr_char q) s) @ [q])"

fun py_repr :: "json \<Rightarrow> string" where
  "py_repr JNull = ''None''"
| "py_repr (JBool b) = (if b then ''True'' else ''False'')"
| "py_repr (JInt i) = int_str i"
| "py_repr (JFloat r t) = r"
| "py_repr (JStr s) = repr_str s"
| "py_repr (JList xs) = ''['' @ join '', '' (map py_repr xs) @ '']''"
| "py_repr (JObj kvs) = ''{'' @ join '', '' (map (\<lambda>(k, v). repr_str k @ '': '' @ py_repr v) kvs) @ ''}''"

fun py_str :: "json \<Rightarrow> string" where
  "py_str (JStr s) = s"
| "py_str j = py_repr j"

text \<open>\<open>str(payload.get(key, default))\<close>.\<close>

definition str_field :: "(string \<times> json) list \<Rightarrow> string \<Rightarrow> string \<Rightarrow> string" where
  "str_field payload key alt = (case map_of payload key of None \<Rightarrow> alt | Some v \<Rightarrow> py_str v)"

text \<open>\<open>int(value)\<close>: \<open>None\<close> and containers raise a \<open>TypeError\<close>, other text a \<open>ValueError\<close>.\<close>

fun json_int :: "json \<Rightarrow> int res" where
  "json_int (JBool b) = Inr (if b then 1 else 0)"
| "json_int (JInt i) = Inr i"
| "json_int (JFloat r t) = Inr t"
| "json_int (JStr s) = (case py_int s of None \<Rightarrow> Inl ValueError | Some i \<Rightarrow> Inr i)"
| "json_int _ = Inl TypeError"

end
