(* ===== verification/Wireguard.thy ===== *)
theory Wireguard
  imports Models Settings_Model Request_Context Py_Json
begin

text \<open>
  The management overlay: \<open>dashboard/app/wireguard.py\<close>. Two services are outside the program: the
  commands \<open>wg\<close> and \<open>wg-quick\<close>, and the WireGuard agent reached over HTTP. They are the two
  functions of a record \<open>wg_env\<close> on a state the model does not look into; the reply of the agent
  is the outcome of the HTTP exchange with its JSON body decoded. The key file and the
  configuration file are fields of the world. Where the source quotes the text of an
  \<open>ipaddress\<close> error in its own message, the model keeps the prefix.
\<close>

datatype run_result = Exited int string string | NotFound | TimedOut

datatype agent_reply =
    AgentHttpError int string string
  | AgentUrlError string
  | AgentTimeout
  | AgentEmpty
  | AgentNotJson
  | AgentJson json

record 'w wg_env =
  we_run :: "string list \<Rightarrow> string option \<Rightarrow> 'w \<Rightarrow> run_result \<times> 'w"
  we_agent :: "string \<Rightarrow> string \<Rightarrow> (string \<times> string) list \<Rightarrow> json option \<Rightarrow> 'w \<Rightarrow> agent_reply \<times> 'w"

record 'w wg_world =
  wg_key_file :: "string option"
  wg_key_mode :: "int option"
  wg_config_file :: "string option"
  wg_config_mode :: "int option"
  wg_ext :: 'w

definition wg_run :: "'w wg_env \<Rightarrow> string list \<Rightarrow> string option \<Rightarrow> ('w wg_world, string) act" where
  "wg_run env args input_text = (\<lambda>s.
     case we_run env args input_text (wg_ext s) of (r, w) \<Rightarrow>
       ((case r of
           NotFound \<Rightarrow> Inl (WireGuardError (''required command not found: '' @ hd args))
         | TimedOut \<Rightarrow> Inl TimeoutExpired
         | Exited rc out err \<Rightarrow>
             if rc = 0 then Inr (strip out)
             else Inl (WireGuardError
               (if strip err \<noteq> [] then strip err else ''command failed: '' @ hd args))),
        s\<lparr>wg_ext := w\<rparr>))"

subsection \<open>Validation\<close>

definition is_key_char :: "char \<Rightarrow> bool" where
  "is_key_char c = (is_alnum c \<or> c = CHR ''+'' \<or> c = CHR ''/'')"

text \<open>\<open>^[A-Za-z0-9+/]{43}=$\<close> with \<open>match\<close>: the dollar also matches before a final newline.\<close>

definition wg_key_re :: "string \<Rightarrow> bool" where
  "wg_key_re s =
     (list_all is_key_char (take 43 s) \<and> length (take 43 s) = 43
      \<and> (drop 43 s = ''='' \<or> drop 43 s = [CHR ''='', CHR 0x0A]))"

definition validate_public_key :: "string \<Rightarrow> unit res" where
  "validate_public_key public_key =
     (if \<not> wg_key_re public_key then Inl (WireGuardError ''invalid WireGuard public key format'')
      else Inr ())"

record validated_config =
  vc_network :: net4
  vc_hub_ip :: ipv4
  vc_hub_prefix :: nat

definition validate_hub_wireguard_config :: "string \<Rightarrow> string \<Rightarrow> bool \<Rightarrow> validated_config res" where
  "validate_hub_wireguard_config hub_wg_cidr hub_wg_address allow_broad =
     (case ip_network hub_wg_cidr of
        None \<Rightarrow> Inl (WireGuardError ''invalid HUB_WG_CIDR: '')
      | Some (Net6 n) \<Rightarrow> Inl (WireGuardError ''HUB_WG_CIDR must be an IPv4 network'')
      | Some (Net4 network) \<Rightarrow>
          if n4_prefix network = 0 then Inl (WireGuardError ''HUB_WG_CIDR must not be 0.0.0.0/0'')
          else if n4_prefix network < 12 \<and> \<not> allow_broad then
            Inl (WireGuardError ''HUB_WG_CIDR is too broad for a management overlay; use /12 or narrower or set ALLOW_BROAD_WG_CIDR=true'')
          else (case ip_interface hub_wg_address of
              None \<Rightarrow> Inl (WireGuardError ''invalid HUB_WG_ADDRESS: '')
            | Some (Iface6 w sc p) \<Rightarrow> Inl (WireGuardError ''HUB_WG_ADDRESS must be an IPv4 interface'')
            | Some (Iface4 ip p) \<Rightarrow>
                if \<not> in_net4 ip network
                then Inl (WireGuardError ''HUB_WG_ADDRESS must be inside HUB_WG_CIDR'')
                else if ip = n4_addr network
                then Inl (WireGuardError ''HUB_WG_ADDRESS must not be the network address'')
                else if ip = broadcast4 network
                then Inl (WireGuardError ''HUB_WG_ADDRESS must not be the broadcast address'')
                else Inr \<lparr>vc_network = network, vc_hub_ip = ip, vc_hub_prefix = p\<rparr>))"

definition get_validated_hub_wireguard_config :: "settings \<Rightarrow> validated_config res" where
  "get_validated_hub_wireguard_config cfg =
     validate_hub_wireguard_config (cfg_hub_wg_cidr cfg) (cfg_hub_wg_address cfg)
       (cfg_allow_broad_wg_cidr cfg)"

subsection \<open>The agent\<close>

definition agent_enabled :: "settings \<Rightarrow> bool" where
  "agent_enabled cfg = (nonempty (cfg_wg_agent_url cfg) \<and> \<not> cfg_wg_agent_mode cfg)"

definition agent_headers :: "settings \<Rightarrow> (string \<times> string) list res" where
  "agent_headers cfg =
     (if \<not> nonempty (cfg_wg_agent_token cfg)
      then Inl (WireGuardError ''WG_AGENT_TOKEN is required when WG_AGENT_URL is set'')
      else Inr [(''Content-Type'', ''application/json''),
                (''Authorization'', ''Bearer '' @ the (cfg_wg_agent_token cfg))])"

definition agent_request ::
  "'w wg_env \<Rightarrow> settings \<Rightarrow> string \<Rightarrow> string \<Rightarrow> json option \<Rightarrow> ('w wg_world, json option) act" where
  "agent_request env cfg http_method path payload =
     (if \<not> nonempty (cfg_wg_agent_url cfg)
      then araise (WireGuardError ''WG_AGENT_URL is not configured'')
      else abind (alift (agent_headers cfg)) (\<lambda>headers s.
        case we_agent env http_method (rstrip_chars ''/'' (the (cfg_wg_agent_url cfg)) @ path)
               headers payload (wg_ext s) of
          (reply, w) \<Rightarrow>
            ((case reply of
                AgentHttpError code detail reason \<Rightarrow>
                  Inl (WireGuardError (''WireGuard agent request failed with HTTP '' @ int_str code
                    @ '': '' @ (if detail \<noteq> [] then detail else reason)))
              | AgentUrlError reason \<Rightarrow>
                  Inl (WireGuardError (''WireGuard agent is unavailable: '' @ reason))
              | AgentTimeout \<Rightarrow> Inl TimeoutExpired
              | AgentEmpty \<Rightarrow> Inr None
              | AgentNotJson \<Rightarrow> Inl (WireGuardError ''WireGuard agent returned invalid JSON'')
              | AgentJson j \<Rightarrow> Inr (Some j)),
             s\<lparr>wg_ext := w\<rparr>)))"

subsection \<open>The server key, the configuration file and the interface\<close>

definition ensure_server_keypair_local :: "'w wg_env \<Rightarrow> settings \<Rightarrow> ('w wg_world, string) act" where
  "ensure_server_keypair_local env cfg =
     abind (alift (get_validated_hub_wireguard_config cfg)) (\<lambda>_.
     if cfg_wg_dry_run cfg then aret (cfg_wg_server_public_key cfg)
     else
       abind (\<lambda>s. case wg_key_file s of
                Some text \<Rightarrow> (Inr (strip text), s)
              | None \<Rightarrow> abind (wg_run env [''wg'', ''genkey''] None) (\<lambda>private_key s'.
                  (Inr private_key, s'\<lparr>wg_key_file := Some (private_key @ [CHR 0x0A]),
                                       wg_key_mode := Some 384\<rparr>)) s) (\<lambda>private_key.
       abind (wg_run env [''wg'', ''pubkey''] (Some (private_key @ [CHR 0x0A]))) (\<lambda>public_key.
       aseq (alift (validate_public_key public_key))
         (aret public_key))))"

definition ensure_server_keypair :: "'w wg_env \<Rightarrow> settings \<Rightarrow> ('w wg_world, string) act" where
  "ensure_server_keypair env cfg =
     (if cfg_wg_dry_run cfg then aret (cfg_wg_server_public_key cfg)
      else if agent_enabled cfg then
        abind (agent_request env cfg ''GET'' ''/server-public-key'' None) (\<lambda>body.
        abind (alift (json_get body ''public_key'')) (\<lambda>v.
        let public_key = (case v of Some (JStr s) \<Rightarrow> s | _ \<Rightarrow> []) in
        aseq (alift (validate_public_key public_key)) (aret public_key)))
      else ensure_server_keypair_local env cfg)"

definition get_server_public_key :: "'w wg_env \<Rightarrow> settings \<Rightarrow> ('w wg_world, string) act" where
  "get_server_public_key env cfg =
     (if cfg_wg_dry_run cfg then aret (cfg_wg_server_public_key cfg)
      else ensure_server_keypair env cfg)"

definition server_config_text :: "string \<Rightarrow> validated_config \<Rightarrow> settings \<Rightarrow> string" where
  "server_config_text private_key vc cfg =
     ''[Interface]'' @ [CHR 0x0A]
     @ ''PrivateKey = '' @ private_key @ [CHR 0x0A]
     @ ''Address = '' @ show_iface (Iface4 (vc_hub_ip vc) (vc_hub_prefix vc)) @ [CHR 0x0A]
     @ ''ListenPort = '' @ int_str (cfg_hub_wg_listen_port cfg) @ [CHR 0x0A]
     @ ''SaveConfig = false'' @ [CHR 0x0A]"

definition render_server_config_local :: "'w wg_env \<Rightarrow> settings \<Rightarrow> ('w wg_world, unit) act" where
  "render_server_config_local env cfg =
     abind (alift (get_validated_hub_wireguard_config cfg)) (\<lambda>vc.
     if cfg_wg_dry_run cfg then aret ()
     else aseq (abind (ensure_server_keypair_local env cfg) (\<lambda>_. aret ()))
       (\<lambda>s. case wg_key_file s of
              None \<Rightarrow> (Inl OSError, s)
            | Some text \<Rightarrow>
                (Inr (), s\<lparr>wg_config_file := Some (server_config_text (strip text) vc cfg),
                           wg_config_mode := Some 384\<rparr>)))"

definition render_server_config :: "'w wg_env \<Rightarrow> settings \<Rightarrow> ('w wg_world, unit) act" where
  "render_server_config env cfg =
     (if cfg_wg_dry_run cfg then aret ()
      else if agent_enabled cfg then
        abind (agent_request env cfg ''POST'' ''/render-config'' (Some (JObj []))) (\<lambda>_. aret ())
      else render_server_config_local env cfg)"

text \<open>\<open>subprocess.run(..., check=False)\<close>: only a missing command or a timeout raises.\<close>

definition interface_exists_local :: "'w wg_env \<Rightarrow> settings \<Rightarrow> ('w wg_world, bool) act" where
  "interface_exists_local env cfg =
     (if cfg_wg_dry_run cfg then aret True
      else (\<lambda>s. case we_run env [''wg'', ''show'', cfg_wg_interface cfg] None (wg_ext s) of
        (r, w) \<Rightarrow>
          ((case r of Exited rc out err \<Rightarrow> Inr (rc = 0) | NotFound \<Rightarrow> Inl OSError
              | TimedOut \<Rightarrow> Inl TimeoutExpired), s\<lparr>wg_ext := w\<rparr>)))"

definition interface_exists :: "'w wg_env \<Rightarrow> settings \<Rightarrow> ('w wg_world, bool) act" where
  "interface_exists env cfg =
     (if cfg_wg_dry_run cfg then aret True
      else if agent_enabled cfg then
        abind (agent_request env cfg ''GET'' ''/interface'' None) (\<lambda>body.
        abind (alift (json_get body ''exists'')) (\<lambda>v.
          aret (case v of None \<Rightarrow> False | Some j \<Rightarrow> json_true j)))
      else interface_exists_local env cfg)"

definition ensure_server_interface_local :: "'w wg_env \<Rightarrow> settings \<Rightarrow> ('w wg_world, unit) act" where
  "ensure_server_interface_local env cfg =
     (if cfg_wg_dry_run cfg then aret ()
      else
        aseq (render_server_config_local env cfg)
       (abind (interface_exists_local env cfg) (\<lambda>up.
        aseq (if \<not> up then abind (wg_run env [''wg-quick'', ''up'', cfg_wg_config_path cfg] None) (\<lambda>_. aret ())
              else aret ())
       (abind (wg_run env [''wg'', ''set'', cfg_wg_interface cfg, ''private-key'',
                 cfg_wg_server_private_key_path cfg, ''listen-port'',
                 int_str (cfg_hub_wg_listen_port cfg)] None) (\<lambda>_. aret ())))))"

definition ensure_server_interface :: "'w wg_env \<Rightarrow> settings \<Rightarrow> ('w wg_world, unit) act" where
  "ensure_server_interface env cfg =
     (if cfg_wg_dry_run cfg then aret ()
      else if agent_enabled cfg then
        abind (agent_request env cfg ''POST'' ''/interface'' (Some (JObj []))) (\<lambda>_. aret ())
      else ensure_server_interface_local env cfg)"

subsection \<open>Peers\<close>

definition peer_allowed_ips :: "string \<Rightarrow> string res" where
  "peer_allowed_ips tunnel_ip =
     (case ip_address tunnel_ip of None \<Rightarrow> Inl ValueError | Some ip \<Rightarrow> Inr (show_ip ip @ ''/32''))"

definition client_allowed_ips :: "settings \<Rightarrow> string res" where
  "client_allowed_ips cfg =
     rbind (get_validated_hub_wireguard_config cfg) (\<lambda>vc. Inr (show_ipv4 (vc_hub_ip vc) @ ''/32''))"

text \<open>The checks that \<open>add_peer\<close> and \<open>_add_peer_local\<close> repeat.\<close>

definition check_peer :: "settings \<Rightarrow> string \<Rightarrow> string \<Rightarrow> ipv4 res" where
  "check_peer cfg public_key tunnel_ip =
     rbind (get_validated_hub_wireguard_config cfg) (\<lambda>vc.
     rbind (validate_public_key public_key) (\<lambda>_.
       case ip_address tunnel_ip of
         None \<Rightarrow> Inl ValueError
       | Some (V6 w sc) \<Rightarrow> Inl (WireGuardError ''tunnel_ip must be IPv4'')
       | Some (V4 ip) \<Rightarrow>
           if \<not> in_net4 ip (vc_network vc)
           then Inl (WireGuardError (''tunnel_ip '' @ show_ipv4 ip @ '' is outside HUB_WG_CIDR ''
                  @ show_net (Net4 (vc_network vc))))
           else if ip = vc_hub_ip vc
           then Inl (WireGuardError ''tunnel_ip must not equal HUB_WG_ADDRESS'')
           else Inr ip))"

definition add_peer_local ::
  "'w wg_env \<Rightarrow> settings \<Rightarrow> string \<Rightarrow> string \<Rightarrow> ('w wg_world, unit) act" where
  "add_peer_local env cfg public_key tunnel_ip =
     abind (alift (check_peer cfg public_key tunnel_ip)) (\<lambda>ip.
     if cfg_wg_dry_run cfg then aret ()
     else
       aseq (ensure_server_interface_local env cfg)
      (abind (alift (peer_allowed_ips (show_ipv4 ip))) (\<lambda>allowed.
       abind (wg_run env [''wg'', ''set'', cfg_wg_interface cfg, ''peer'', public_key,
                ''allowed-ips'', allowed] None) (\<lambda>_. aret ()))))"

definition add_peer ::
  "'w wg_env \<Rightarrow> settings \<Rightarrow> string \<Rightarrow> string \<Rightarrow> ('w wg_world, unit) act" where
  "add_peer env cfg public_key tunnel_ip =
     abind (alift (check_peer cfg public_key tunnel_ip)) (\<lambda>ip.
     if cfg_wg_dry_run cfg then aret ()
     else if agent_enabled cfg then
       abind (agent_request env cfg ''POST'' ''/peers''
         (Some (JObj [(''public_key'', JStr public_key), (''tunnel_ip'', JStr (show_ipv4 ip))])))
         (\<lambda>_. aret ())
     else add_peer_local env cfg public_key (show_ipv4 ip))"

definition remove_peer_local :: "'w wg_env \<Rightarrow> settings \<Rightarrow> string \<Rightarrow> ('w wg_world, unit) act" where
  "remove_peer_local env cfg public_key =
     aseq (alift (validate_public_key public_key))
     (if cfg_wg_dry_run cfg then aret ()
      else aseq (ensure_server_interface_local env cfg)
        (abind (wg_run env [''wg'', ''set'', cfg_wg_interface cfg, ''peer'', public_key, ''remove''] None)
          (\<lambda>_. aret ())))"

definition remove_peer :: "'w wg_env \<Rightarrow> settings \<Rightarrow> string \<Rightarrow> ('w wg_world, unit) act" where
  "remove_peer env cfg public_key =
     aseq (alift (validate_public_key public_key))
     (if cfg_wg_dry_run cfg then aret ()
      else if agent_enabled cfg then
        abind (agent_request env cfg ''POST'' ''/peers/remove''
          (Some (JObj [(''public_key'', JStr public_key)]))) (\<lambda>_. aret ())
      else remove_peer_local env cfg public_key)"

text \<open>The peers of the devices that have not been revoked, as \<open>(public key, tunnel address)\<close>.\<close>

definition active_peers :: "hub_db \<Rightarrow> (string \<times> string) list" where
  "active_peers db = map (\<lambda>d. (dev_wg_public_key d, dev_wg_tunnel_ip d))
     (filter (\<lambda>d. dev_revoked_at d = None) (devices db))"

definition peers_payload :: "(string \<times> string) list \<Rightarrow> json" where
  "peers_payload peers = JObj [(''peers'', JList (map (\<lambda>(k, ip).
     JObj [(''public_key'', JStr k), (''tunnel_ip'', JStr ip)]) peers))]"

definition sync_peer_payloads_local ::
  "'w wg_env \<Rightarrow> settings \<Rightarrow> (string \<times> string) list \<Rightarrow> ('w wg_world, unit) act" where
  "sync_peer_payloads_local env cfg peers =
     (if cfg_wg_dry_run cfg then aret ()
      else aseq (ensure_server_interface_local env cfg)
        (afor (\<lambda>(k, ip). add_peer_local env cfg k ip) peers))"

definition sync_existing_peers :: "'w wg_env \<Rightarrow> settings \<Rightarrow> hub_db \<Rightarrow> ('w wg_world, unit) act" where
  "sync_existing_peers env cfg db =
     (if cfg_wg_dry_run cfg then aret ()
      else if agent_enabled cfg then
        abind (agent_request env cfg ''POST'' ''/sync-peers'' (Some (peers_payload (active_peers db))))
          (\<lambda>_. aret ())
      else sync_peer_payloads_local env cfg (active_peers db))"

definition bootstrap_wireguard :: "'w wg_env \<Rightarrow> settings \<Rightarrow> hub_db \<Rightarrow> ('w wg_world, unit) act" where
  "bootstrap_wireguard env cfg db =
     abind (alift (get_validated_hub_wireguard_config cfg)) (\<lambda>_.
     if cfg_wg_dry_run cfg then aret ()
     else if agent_enabled cfg then
       abind (agent_request env cfg ''POST'' ''/bootstrap'' (Some (peers_payload (active_peers db))))
         (\<lambda>_. aret ())
     else aseq (ensure_server_interface_local env cfg)
       (sync_peer_payloads_local env cfg (active_peers db)))"

subsection \<open>Address allocation\<close>

definition used_tunnel_ip :: "validated_config \<Rightarrow> string \<Rightarrow> string res" where
  "used_tunnel_ip vc value =
     (case ip_address value of
        None \<Rightarrow> Inl (WireGuardError (''stored device tunnel IP is invalid: '' @ value))
      | Some (V6 w sc) \<Rightarrow> Inl (WireGuardError
          (''stored device tunnel IP is not IPv4 and cannot be allocated safely: '' @ value))
      | Some (V4 ip) \<Rightarrow>
          if \<not> in_net4 ip (vc_network vc)
          then Inl (WireGuardError (''stored device tunnel IP '' @ value @ '' is outside HUB_WG_CIDR ''
                 @ show_net (Net4 (vc_network vc))))
          else if ip = n4_addr (vc_network vc) \<or> ip = broadcast4 (vc_network vc)
          then Inl (WireGuardError (''stored device tunnel IP '' @ value
                 @ '' is not a usable host address inside HUB_WG_CIDR''))
          else Inr (show_ipv4 ip))"

definition hosts4 :: "net4 \<Rightarrow> ipv4 list" where
  "hosts4 n = (case host_range4 n of (lo, hi) \<Rightarrow> map of_nat [lo..<hi])"

definition next_tunnel_ip :: "settings \<Rightarrow> hub_db \<Rightarrow> string res" where
  "next_tunnel_ip cfg db =
     rbind (get_validated_hub_wireguard_config cfg) (\<lambda>vc.
     rbind (rmap_list (used_tunnel_ip vc) (map dev_wg_tunnel_ip (devices db))) (\<lambda>ips.
       let used = show_ipv4 (vc_hub_ip vc) # ips in
       case find (\<lambda>value. value \<notin> set used) (map show_ipv4 (hosts4 (vc_network vc))) of
         Some value \<Rightarrow> Inr value
       | None \<Rightarrow> Inl (WireGuardError ''no available WireGuard tunnel IPs'')))"

subsection \<open>The runtime state of the interface\<close>

record runtime_peer =
  rp_public_key :: string
  rp_preshared_key :: string
  rp_endpoint :: "string option"
  rp_allowed_ips :: "string list"
  rp_last_handshake_at :: "instant option"
  rp_rx_bytes :: int
  rp_tx_bytes :: int
  rp_persistent_keepalive :: int

text \<open>\<open>datetime.fromtimestamp\<close> raises beyond the end of the year 9999.\<close>

definition parse_unix_timestamp :: "string \<Rightarrow> instant option res" where
  "parse_unix_timestamp value =
     (if value = [] \<or> value = ''0'' \<or> value = ''off'' then Inr None
      else case py_int value of
        None \<Rightarrow> Inl (WireGuardError (''invalid handshake timestamp in wg output: '' @ value))
      | Some timestamp \<Rightarrow>
          if timestamp \<le> 0 then Inr None
          else if timestamp > 253402300799 then Inl ValueError
          else Inr (Some (seconds timestamp)))"

definition parse_wg_integer :: "string \<Rightarrow> string \<Rightarrow> int res" where
  "parse_wg_integer value field_name =
     (let normalized = lower (strip value) in
      if normalized = [] \<or> normalized = ''off'' then Inr 0
      else case py_int normalized of
        None \<Rightarrow> Inl (WireGuardError (''invalid '' @ field_name @ '' value in wg output: '' @ value))
      | Some n \<Rightarrow> Inr n)"

definition parse_peer_line :: "string \<Rightarrow> runtime_peer res" where
  "parse_peer_line line =
     (let fields = split_on (CHR 0x09) line in
      if length fields < 8 then Inl (WireGuardError ''unexpected wg show dump output'')
      else
        let allowed = filter (\<lambda>i. i \<noteq> []) (map strip (split_on CHR '','' (fields ! 3)));
            endpoint = strip (fields ! 2)
        in rbind (parse_unix_timestamp (strip (fields ! 4))) (\<lambda>handshake.
           rbind (parse_wg_integer (fields ! 5) ''rx bytes'') (\<lambda>rx.
           rbind (parse_wg_integer (fields ! 6) ''tx bytes'') (\<lambda>tx.
           rbind (parse_wg_integer (fields ! 7) ''persistent keepalive'') (\<lambda>keepalive.
             Inr \<lparr>rp_public_key = strip (fields ! 0), rp_preshared_key = strip (fields ! 1),
               rp_endpoint = (if endpoint = [] then None else Some endpoint),
               rp_allowed_ips = allowed, rp_last_handshake_at = handshake,
               rp_rx_bytes = rx, rp_tx_bytes = tx, rp_persistent_keepalive = keepalive\<rparr>)))))"

definition parse_wg_show_dump :: "string \<Rightarrow> runtime_peer list res" where
  "parse_wg_show_dump output =
     (let lines = filter (\<lambda>l. l \<noteq> []) (map strip (splitlines output))
      in rmap_list parse_peer_line (drop 1 lines))"

definition get_runtime_peers_local :: "'w wg_env \<Rightarrow> settings \<Rightarrow> ('w wg_world, runtime_peer list) act" where
  "get_runtime_peers_local env cfg =
     (if cfg_wg_dry_run cfg then aret []
      else abind (wg_run env [''wg'', ''show'', cfg_wg_interface cfg, ''dump''] None) (\<lambda>output.
        alift (parse_wg_show_dump output)))"

subsection \<open>Facts: the validated configuration\<close>

lemma validate_hub_Inr:
  assumes "validate_hub_wireguard_config cidr addr broad = Inr vc"
  shows "wf_net4 (vc_network vc)" "in_net4 (vc_hub_ip vc) (vc_network vc)"
    "vc_hub_ip vc \<noteq> n4_addr (vc_network vc)" "vc_hub_ip vc \<noteq> broadcast4 (vc_network vc)"
    "n4_prefix (vc_network vc) \<noteq> 0" "12 \<le> n4_prefix (vc_network vc) \<or> broad"
  using assms
  by (auto simp: validate_hub_wireguard_config_def intro: ip_network_wf
      split: option.splits ip_net.splits ip_iface.splits if_splits)

lemma validated_prefix_lt_31:
  assumes "validate_hub_wireguard_config cidr addr broad = Inr vc"
  shows "n4_prefix (vc_network vc) < 31"
proof (rule ccontr)
  let ?n = "vc_network vc"
  assume "\<not> n4_prefix ?n < 31"
  moreover have "n4_prefix ?n \<le> 32" using validate_hub_Inr(1) [OF assms] by (simp add: wf_net4_def)
  ultimately have "n4_prefix ?n = 31 \<or> n4_prefix ?n = 32" by linarith
  then have "net4_size ?n \<le> 2" by auto
  then have "unat (broadcast4 ?n) \<le> unat (n4_addr ?n) + 1"
    using unat_broadcast4 [OF validate_hub_Inr(1) [OF assms]] by simp
  moreover have "unat (n4_addr ?n) \<le> unat (vc_hub_ip vc)" "unat (vc_hub_ip vc) \<le> unat (broadcast4 ?n)"
    using in_net4_range [OF validate_hub_Inr(1) [OF assms]] validate_hub_Inr(2) [OF assms] by auto
  ultimately have "unat (vc_hub_ip vc) = unat (n4_addr ?n) \<or> unat (vc_hub_ip vc) = unat (broadcast4 ?n)"
    by linarith
  then show False using validate_hub_Inr(3,4) [OF assms] by (auto simp: word_eq_iff_unsigned [where ?'a = nat])
qed

lemma set_hosts4:
  assumes "wf_net4 n" and "n4_prefix n < 31"
  shows "set (hosts4 n) = {w. in_net4 w n \<and> w \<noteq> n4_addr n \<and> w \<noteq> broadcast4 n}"
proof -
  obtain lo hi where r: "host_range4 n = (lo, hi)" by (cases "host_range4 n")
  have "set (hosts4 n) = of_nat ` {lo..<hi}" by (simp add: hosts4_def r)
  also have "\<dots> = {w. in_net4 w n \<and> w \<noteq> n4_addr n \<and> w \<noteq> broadcast4 n}"
  proof (intro set_eqI iffI)
    fix w :: ipv4
    assume "w \<in> of_nat ` {lo..<hi}"
    then show "w \<in> {w. in_net4 w n \<and> w \<noteq> n4_addr n \<and> w \<noteq> broadcast4 n}"
      using host_range4_in_net [OF assms(1) r] assms(2) by auto
  next
    fix w
    assume "w \<in> {w. in_net4 w n \<and> w \<noteq> n4_addr n \<and> w \<noteq> broadcast4 n}"
    then have "unat w \<in> {lo..<hi}" using in_net4_host_range [OF assms(1) _ _ _ r] by simp
    moreover have "w = of_nat (unat w)" by simp
    ultimately show "w \<in> of_nat ` {lo..<hi}" by blast
  qed
  finally show ?thesis .
qed

subsection \<open>Facts: allocation\<close>

lemma used_tunnel_ip_Inr:
  "used_tunnel_ip vc value = Inr u \<longleftrightarrow>
     (\<exists>w. parse_ipv4 value = Some w \<and> in_net4 w (vc_network vc) \<and> w \<noteq> n4_addr (vc_network vc)
        \<and> w \<noteq> broadcast4 (vc_network vc) \<and> u = show_ipv4 w)"
  by (auto simp: used_tunnel_ip_def ip_address_V4_iff [symmetric] split: option.splits ip_addr.splits)

lemma rmap_list_all: "(\<exists>ys. rmap_list f xs = Inr ys) \<longleftrightarrow> (\<forall>x\<in>set xs. \<exists>y. f x = Inr y)"
  by (induction xs) (auto simp: rbind_Inr_iff)

text \<open>An address that the allocator may hand out, and the stored addresses it must not.\<close>

definition usable_host :: "validated_config \<Rightarrow> ipv4 \<Rightarrow> bool" where
  "usable_host vc w \<longleftrightarrow> in_net4 w (vc_network vc) \<and> w \<noteq> n4_addr (vc_network vc)
     \<and> w \<noteq> broadcast4 (vc_network vc)"

definition assigned :: "hub_db \<Rightarrow> ipv4 set" where
  "assigned db = {w. \<exists>d\<in>set (devices db). parse_ipv4 (dev_wg_tunnel_ip d) = Some w}"

lemma used_set:
  assumes "rmap_list (used_tunnel_ip vc) (map dev_wg_tunnel_ip (devices db)) = Inr ips"
  shows "set ips = show_ipv4 ` assigned db"
proof -
  have ok: "\<exists>u. used_tunnel_ip vc (dev_wg_tunnel_ip d) = Inr u" if "d \<in> set (devices db)" for d
    using assms that rmap_list_all [of "used_tunnel_ip vc" "map dev_wg_tunnel_ip (devices db)"] by auto
  have "set ips = {y. \<exists>x\<in>set (map dev_wg_tunnel_ip (devices db)). used_tunnel_ip vc x = Inr y}"
    by (rule rmap_list_set [OF assms])
  also have "\<dots> = show_ipv4 ` assigned db"
    using ok by (force simp: assigned_def used_tunnel_ip_Inr)
  finally show ?thesis .
qed

lemma next_tunnel_ip_Inr:
  assumes "next_tunnel_ip cfg db = Inr s" and "get_validated_hub_wireguard_config cfg = Inr vc"
  shows "\<exists>w. s = show_ipv4 w \<and> usable_host vc w \<and> w \<noteq> vc_hub_ip vc \<and> w \<notin> assigned db
     \<and> (\<forall>v. usable_host vc v \<and> unat v < unat w \<longrightarrow> v = vc_hub_ip vc \<or> v \<in> assigned db)"
proof -
  let ?n = "vc_network vc"
  have val: "validate_hub_wireguard_config (cfg_hub_wg_cidr cfg) (cfg_hub_wg_address cfg)
      (cfg_allow_broad_wg_cidr cfg) = Inr vc"
    using assms(2) by (simp add: get_validated_hub_wireguard_config_def)
  have hosts: "set (hosts4 ?n) = {w. usable_host vc w}"
    using set_hosts4 [OF validate_hub_Inr(1) [OF val] validated_prefix_lt_31 [OF val]]
    by (simp add: usable_host_def)
  obtain lo hi where r: "host_range4 ?n = (lo, hi)" by (cases "host_range4 ?n")
  have nth: "i < hi - lo \<Longrightarrow> unat (hosts4 ?n ! i) = lo + i" for i
    using host_range4_in_net(2) [OF validate_hub_Inr(1) [OF val] r, of "lo + i"]
    by (simp add: hosts4_def r)
  from assms obtain ips where ips:
    "rmap_list (used_tunnel_ip vc) (map dev_wg_tunnel_ip (devices db)) = Inr ips"
    and f: "find (\<lambda>v. v \<notin> set (show_ipv4 (vc_hub_ip vc) # ips)) (map show_ipv4 (hosts4 ?n)) = Some s"
    by (auto simp: next_tunnel_ip_def rbind_Inr_iff Let_def split: option.splits)
  have used: "show_ipv4 v \<in> set (show_ipv4 (vc_hub_ip vc) # ips) \<longleftrightarrow> v = vc_hub_ip vc \<or> v \<in> assigned db"
    for v by (simp add: used_set [OF ips] show_ipv4_inj dotted.enc_in_image)
  from f obtain i where i: "i < length (hosts4 ?n)" "s = show_ipv4 (hosts4 ?n ! i)"
    "s \<notin> set (show_ipv4 (vc_hub_ip vc) # ips)"
    "\<forall>j<i. show_ipv4 (hosts4 ?n ! j) \<in> set (show_ipv4 (vc_hub_ip vc) # ips)"
    by (auto simp: find_Some_iff)
  have l: "length (hosts4 ?n) = hi - lo" by (simp add: hosts4_def r)
  have first: "v = vc_hub_ip vc \<or> v \<in> assigned db"
    if v: "usable_host vc v" "unat v < unat (hosts4 ?n ! i)" for v
  proof -
    from v(1) hosts obtain j where j: "j < length (hosts4 ?n)" "v = hosts4 ?n ! j"
      by (auto simp: set_conv_nth)
    then have "j < i" using v(2) nth i(1) l by simp
    then show ?thesis using i(4) j(2) used by auto
  qed
  have "usable_host vc (hosts4 ?n ! i)" using hosts i(1) nth_mem by blast
  with i first used show ?thesis by auto
qed

lemma next_tunnel_ip_complete:
  assumes "get_validated_hub_wireguard_config cfg = Inr vc"
    and "\<forall>d\<in>set (devices db). \<exists>w. parse_ipv4 (dev_wg_tunnel_ip d) = Some w \<and> usable_host vc w"
    and "usable_host vc v" and "v \<noteq> vc_hub_ip vc" and "v \<notin> assigned db"
  shows "\<exists>s. next_tunnel_ip cfg db = Inr s"
proof -
  let ?n = "vc_network vc"
  have val: "validate_hub_wireguard_config (cfg_hub_wg_cidr cfg) (cfg_hub_wg_address cfg)
      (cfg_allow_broad_wg_cidr cfg) = Inr vc"
    using assms(1) by (simp add: get_validated_hub_wireguard_config_def)
  have "\<forall>x\<in>set (map dev_wg_tunnel_ip (devices db)). \<exists>u. used_tunnel_ip vc x = Inr u"
    using assms(2) by (auto simp: used_tunnel_ip_Inr usable_host_def)
  then obtain ips where ips: "rmap_list (used_tunnel_ip vc) (map dev_wg_tunnel_ip (devices db)) = Inr ips"
    using rmap_list_all by blast
  have "v \<in> set (hosts4 ?n)"
    using assms(3) set_hosts4 [OF validate_hub_Inr(1) [OF val] validated_prefix_lt_31 [OF val]]
    by (simp add: usable_host_def)
  moreover have "show_ipv4 v \<notin> set (show_ipv4 (vc_hub_ip vc) # ips)"
    using assms(4,5) by (simp add: used_set [OF ips] show_ipv4_inj dotted.enc_in_image)
  ultimately have "find (\<lambda>v. v \<notin> set (show_ipv4 (vc_hub_ip vc) # ips)) (map show_ipv4 (hosts4 ?n)) \<noteq> None"
    by (auto simp: find_None_iff')
  then show ?thesis
    by (auto simp: next_tunnel_ip_def assms(1) ips Let_def split: option.splits)
qed

lemma check_peer_allocated:
  assumes "next_tunnel_ip cfg db = Inr s" and "wg_key_re key"
  shows "\<exists>w. s = show_ipv4 w \<and> check_peer cfg key s = Inr w"
proof -
  from assms(1) obtain vc where vc: "get_validated_hub_wireguard_config cfg = Inr vc"
    by (auto simp: next_tunnel_ip_def rbind_Inr_iff)
  from next_tunnel_ip_Inr [OF assms(1) vc] obtain w where
    "s = show_ipv4 w" "usable_host vc w" "w \<noteq> vc_hub_ip vc" by blast
  then show ?thesis
    using assms(2) by (auto simp: check_peer_def vc validate_public_key_def usable_host_def)
qed

lemma check_peer_Inr:
  assumes "check_peer cfg key ip = Inr w"
  shows "\<exists>vc. get_validated_hub_wireguard_config cfg = Inr vc \<and> wg_key_re key \<and> parse_ipv4 ip = Some w
       \<and> in_net4 w (vc_network vc) \<and> w \<noteq> vc_hub_ip vc"
proof -
  from assms obtain vc where vc: "get_validated_hub_wireguard_config cfg = Inr vc"
    by (auto simp: check_peer_def rbind_Inr_iff)
  moreover from assms have k: "wg_key_re key"
    by (auto simp: check_peer_def rbind_Inr_iff validate_public_key_def split: if_splits)
  moreover from assms vc k obtain a where a: "ip_address ip = Some a"
    by (cases "ip_address ip") (auto simp: check_peer_def validate_public_key_def)
  moreover from assms vc k a have "a = V4 w" "in_net4 w (vc_network vc)" "w \<noteq> vc_hub_ip vc"
    by (cases a; simp add: check_peer_def validate_public_key_def split: if_splits)+
  ultimately show ?thesis by (simp add: ip_address_V4_iff [symmetric])
qed

subsection \<open>Facts: what the Hub asks of the commands\<close>

text \<open>An environment that records the commands it is asked to run.\<close>

definition logging :: "'w wg_env \<Rightarrow> ('w \<times> string list list) wg_env" where
  "logging env = \<lparr>we_run = (\<lambda>args inp (w, l). case we_run env args inp w of (r, w') \<Rightarrow> (r, w', l @ [args])),
     we_agent = (\<lambda>m p h j (w, l). case we_agent env m p h j w of (r, w') \<Rightarrow> (r, w', l))\<rparr>"

definition logged :: "('w \<times> string list list) wg_world \<Rightarrow> string list list" where
  "logged s = snd (wg_ext s)"

text \<open>A command that gives a peer a route gives it one address inside the overlay, which is not the
  Hub's own, and a well-formed key.\<close>

definition safe_command :: "settings \<Rightarrow> string list \<Rightarrow> bool" where
  "safe_command cfg args \<longleftrightarrow>
     (''allowed-ips'' \<in> set args \<longrightarrow>
       (\<exists>vc key w. get_validated_hub_wireguard_config cfg = Inr vc \<and> wg_key_re key
          \<and> in_net4 w (vc_network vc) \<and> w \<noteq> vc_hub_ip vc
          \<and> args = [''wg'', ''set'', cfg_wg_interface cfg, ''peer'', key, ''allowed-ips'',
                     show_ipv4 w @ ''/32'']))"

definition log_inv :: "settings \<Rightarrow> ('w \<times> string list list) wg_world \<Rightarrow> bool" where
  "log_inv cfg s \<longleftrightarrow> list_all (safe_command cfg) (logged s)"

lemma pres_log_run:
  "safe_command cfg args \<Longrightarrow> pres (log_inv cfg) (wg_run (logging env) args inp)"
  by (auto simp: pres_def wg_run_def logging_def log_inv_def logged_def split: prod.splits)

lemma pres_log_agent: "pres (log_inv cfg) (agent_request (logging env) cfg m p j)"
  unfolding agent_request_def
  by (intro pres_if pres_bind pres_rules)
    (auto simp: pres_def logging_def log_inv_def logged_def split: prod.splits)

lemma safe_other: "''allowed-ips'' \<notin> set args \<Longrightarrow> safe_command cfg args"
  by (simp add: safe_command_def)

definition plain_names :: "settings \<Rightarrow> bool" where
  "plain_names cfg \<longleftrightarrow> cfg_wg_interface cfg \<noteq> ''allowed-ips'' \<and> cfg_wg_config_path cfg \<noteq> ''allowed-ips''
     \<and> cfg_wg_server_private_key_path cfg \<noteq> ''allowed-ips''"

lemma int_str_neq_allowed: "int_str i \<noteq> ''allowed-ips''" "''allowed-ips'' \<noteq> int_str i"
proof -
  have "\<not> is_digit CHR ''a''" by (simp add: is_digit_def code_of_def)
  then have "CHR ''a'' \<notin> set (nat_str n)" for n using nat_str_digits by blast
  then have "CHR ''a'' \<notin> set (int_str i)" by (simp add: int_str_def)
  moreover have "CHR ''a'' \<in> set ''allowed-ips''" by simp
  ultimately show "int_str i \<noteq> ''allowed-ips''" by metis
  then show "''allowed-ips'' \<noteq> int_str i" by simp
qed

lemma wg_key_re_neq_allowed: "wg_key_re k \<Longrightarrow> k \<noteq> ''allowed-ips''"
  by (auto simp: wg_key_re_def)

lemma pres_log_keypair: "pres (log_inv cfg) (ensure_server_keypair_local (logging env) cfg')"
proof -
  have g: "pres (log_inv cfg) (wg_run (logging env) [''wg'', ''genkey''] None)"
    by (rule pres_log_run) (simp add: safe_other)
  have "pres (log_inv cfg) (\<lambda>s. case wg_key_file s of
                Some text \<Rightarrow> (Inr (strip text), s)
              | None \<Rightarrow> abind (wg_run (logging env) [''wg'', ''genkey''] None) (\<lambda>private_key s'.
                  (Inr private_key, s'\<lparr>wg_key_file := Some (private_key @ [CHR 0x0A]),
                                       wg_key_mode := Some 384\<rparr>)) s)"
    unfolding pres_def
  proof (intro allI impI)
    fix s :: "('a \<times> string list list) wg_world"
    assume "log_inv cfg s"
    moreover have "pres (log_inv cfg) (abind (wg_run (logging env) [''wg'', ''genkey''] None) (\<lambda>private_key s'.
                  (Inr private_key, s'\<lparr>wg_key_file := Some (private_key @ [CHR 0x0A]),
                                       wg_key_mode := Some 384\<rparr>)))"
      by (rule pres_bind [OF g]) (simp add: pres_def log_inv_def logged_def)
    ultimately show "log_inv cfg (snd (case wg_key_file s of
                Some text \<Rightarrow> (Inr (strip text), s)
              | None \<Rightarrow> abind (wg_run (logging env) [''wg'', ''genkey''] None) (\<lambda>private_key s'.
                  (Inr private_key, s'\<lparr>wg_key_file := Some (private_key @ [CHR 0x0A]),
                                       wg_key_mode := Some 384\<rparr>)) s))"
      by (simp add: pres_def split: option.split)
  qed
  then show ?thesis
    unfolding ensure_server_keypair_local_def
    by (intro pres_bind pres_seq pres_if pres_ret pres_log_run) (simp_all add: safe_other)
qed

lemma pres_log_interface:
  assumes "plain_names cfg"
  shows "pres (log_inv cfg) (ensure_server_interface_local (logging env) cfg)"
proof -
  have r: "pres (log_inv cfg) (render_server_config_local (logging env) cfg)"
    unfolding render_server_config_local_def
    by (intro pres_bind pres_seq pres_if pres_ret pres_log_keypair)
      (auto simp: pres_def log_inv_def logged_def split: option.splits)
  have i: "pres (log_inv cfg) (interface_exists_local (logging env) cfg)"
    unfolding interface_exists_local_def using assms
    by (intro pres_if pres_ret)
      (auto simp: pres_def logging_def log_inv_def logged_def safe_other plain_names_def split: prod.splits)
  show ?thesis
    unfolding ensure_server_interface_local_def using assms
    by (intro pres_bind pres_seq pres_if pres_ret r i pres_log_run)
      (auto simp: plain_names_def int_str_neq_allowed intro!: safe_other)
qed

lemma pres_log_add_local:
  assumes "plain_names cfg"
  shows "pres (log_inv cfg) (add_peer_local (logging env) cfg key ip)"
  unfolding add_peer_local_def
proof (rule pres_lift_bind)
  fix w
  assume "check_peer cfg key ip = Inr w"
  from check_peer_Inr [OF this] have "safe_command cfg [''wg'', ''set'', cfg_wg_interface cfg, ''peer'',
      key, ''allowed-ips'', show_ipv4 w @ ''/32'']" by (auto simp: safe_command_def)
  then have run: "pres (log_inv cfg) (wg_run (logging env) [''wg'', ''set'', cfg_wg_interface cfg, ''peer'',
      key, ''allowed-ips'', show_ipv4 w @ ''/32''] None)" by (rule pres_log_run)
  have a: "peer_allowed_ips (show_ipv4 w) = Inr (show_ipv4 w @ ''/32'')"
    by (simp add: peer_allowed_ips_def)
  show "pres (log_inv cfg) (if cfg_wg_dry_run cfg then aret ()
     else aseq (ensure_server_interface_local (logging env) cfg)
      (abind (alift (peer_allowed_ips (show_ipv4 w))) (\<lambda>allowed.
       abind (wg_run (logging env) [''wg'', ''set'', cfg_wg_interface cfg, ''peer'', key,
                ''allowed-ips'', allowed] None) (\<lambda>_. aret ()))))"
    by (intro pres_if pres_ret pres_seq pres_log_interface [OF assms] pres_lift_bind pres_bind)
      (use a run in auto)
qed

lemma pres_log_remove_local:
  assumes "plain_names cfg"
  shows "pres (log_inv cfg) (remove_peer_local (logging env) cfg key)"
proof (cases "wg_key_re key")
  case True
  then show ?thesis unfolding remove_peer_local_def using assms
    by (intro pres_if pres_ret pres_seq pres_log_interface [OF assms] pres_bind pres_log_run)
      (auto simp: plain_names_def dest: wg_key_re_neq_allowed intro!: safe_other)
next
  case False
  then show ?thesis
    by (simp add: remove_peer_local_def validate_public_key_def pres_def aseq_def abind_def)
qed

subsection \<open>The interface to enrollment\<close>

text \<open>What enrollment relies on: the allocator hands out an address that no stored device has, and
  the driver accepts that address for every well-formed key.\<close>

locale peer_admission =
  fixes allocate :: "hub_db \<Rightarrow> string res"
    and admit :: "string \<Rightarrow> string \<Rightarrow> ipv4 res"
    and key_ok :: "string \<Rightarrow> bool"
    and addr_of :: "string \<Rightarrow> ipv4 option"
  assumes allocate_fresh:
      "allocate db = Inr s \<Longrightarrow> \<exists>w. addr_of s = Some w \<and> (\<forall>d\<in>set (devices db). addr_of (dev_wg_tunnel_ip d) \<noteq> Some w)"
    and allocate_admitted: "allocate db = Inr s \<Longrightarrow> key_ok k \<Longrightarrow> \<exists>w. admit k s = Inr w"
begin

definition addresses_ok :: "hub_db \<Rightarrow> bool" where
  "addresses_ok db \<longleftrightarrow> distinct (map (\<lambda>d. addr_of (dev_wg_tunnel_ip d)) (devices db))
     \<and> (\<forall>d\<in>set (devices db). addr_of (dev_wg_tunnel_ip d) \<noteq> None)"

lemma addresses_ok_insert:
  assumes "addresses_ok db" and "allocate db = Inr s" and "dev_wg_tunnel_ip d = s"
    and "devices db' = devices db @ [d]"
  shows "addresses_ok db'"
  using assms allocate_fresh [OF assms(2)] by (auto simp: addresses_ok_def)

lemma addresses_ok_filter:
  assumes "addresses_ok db" and "devices db' = filter p (devices db)"
  shows "addresses_ok db'"
proof -
  have "distinct (map f xs) \<Longrightarrow> distinct (map f (filter p xs))" for f :: "device \<Rightarrow> ipv4 option" and xs
    by (induction xs) auto
  then show ?thesis using assms by (auto simp: addresses_ok_def)
qed

lemma admit_not_rejected: "allocate db = Inr s \<Longrightarrow> key_ok k \<Longrightarrow> admit k s \<noteq> Inl e"
  using allocate_admitted by fastforce

end

interpretation overlay: peer_admission "next_tunnel_ip cfg" "check_peer cfg" wg_key_re parse_ipv4
  for cfg :: settings
proof
  fix db s
  assume a: "next_tunnel_ip cfg db = Inr s"
  then obtain vc where "get_validated_hub_wireguard_config cfg = Inr vc"
    by (auto simp: next_tunnel_ip_def rbind_Inr_iff)
  from next_tunnel_ip_Inr [OF a this]
  show "\<exists>w. parse_ipv4 s = Some w \<and> (\<forall>d\<in>set (devices db). parse_ipv4 (dev_wg_tunnel_ip d) \<noteq> Some w)"
    by (auto simp: assigned_def)
qed (use check_peer_allocated in blast)

subsection \<open>Facts: what the driver raises\<close>

definition driver_error :: "exn \<Rightarrow> bool" where
  "driver_error e \<longleftrightarrow> (\<forall>c d. e \<noteq> HTTPException c d)"

lemma driver_error_simps [simp]:
  "driver_error (WireGuardError m)" "driver_error TimeoutExpired" "driver_error OSError"
  "driver_error ValueError" "driver_error TypeError"
  by (simp_all add: driver_error_def)

lemma raises_run: "raises_only driver_error (wg_run env args inp)"
  by (auto simp: raises_only_def wg_run_def split: prod.splits run_result.splits if_splits)

lemma raises_key: "raises_only driver_error (alift (validate_public_key k))"
  by (rule raises_lift) (auto simp: validate_public_key_def split: if_splits)

lemma config_error: "get_validated_hub_wireguard_config cfg = Inl e \<Longrightarrow> driver_error e"
  by (auto simp: get_validated_hub_wireguard_config_def validate_hub_wireguard_config_def
      split: option.splits ip_net.splits ip_iface.splits if_splits)

lemma raises_config: "raises_only driver_error (alift (get_validated_hub_wireguard_config cfg))"
  by (rule raises_lift) (rule config_error)

lemma raises_agent: "raises_only driver_error (agent_request env cfg m p j)"
  unfolding agent_request_def
  by (intro raises_if raises_raise raises_bind raises_lift)
    (auto simp: agent_headers_def raises_only_def split: if_splits prod.splits agent_reply.splits)

lemma raises_keypair: "raises_only driver_error (ensure_server_keypair_local env cfg)"
proof -
  have k: "raises_only driver_error (\<lambda>s. case wg_key_file s of
                Some text \<Rightarrow> (Inr (strip text), s)
              | None \<Rightarrow> abind (wg_run env [''wg'', ''genkey''] None) (\<lambda>private_key s'.
                  (Inr private_key, s'\<lparr>wg_key_file := Some (private_key @ [CHR 0x0A]),
                                       wg_key_mode := Some 384\<rparr>)) s)"
    using raises_run [of env "[''wg'', ''genkey'']" None]
    by (auto simp: raises_only_def abind_def split: option.splits prod.splits sum.splits)
  show ?thesis
    unfolding ensure_server_keypair_local_def
    by (intro raises_bind raises_seq raises_if raises_ret raises_run raises_key raises_config k)
qed

lemma raises_interface: "raises_only driver_error (ensure_server_interface_local env cfg)"
proof -
  have r: "raises_only driver_error (render_server_config_local env cfg)"
    unfolding render_server_config_local_def
    by (intro raises_bind raises_seq raises_if raises_ret raises_config raises_keypair)
      (auto simp: raises_only_def split: option.splits)
  have i: "raises_only driver_error (interface_exists_local env cfg)"
    unfolding interface_exists_local_def
    by (intro raises_if raises_ret) (auto simp: raises_only_def split: prod.splits run_result.splits)
  show ?thesis
    unfolding ensure_server_interface_local_def
    by (intro raises_bind raises_seq raises_if raises_ret r i raises_run)
qed

lemma check_peer_error: "check_peer cfg key ip = Inl e \<Longrightarrow> driver_error e"
proof (cases "get_validated_hub_wireguard_config cfg")
  case (Inl e')
  then show "check_peer cfg key ip = Inl e \<Longrightarrow> driver_error e"
    using config_error [OF Inl] by (simp add: check_peer_def)
next
  case (Inr vc)
  show "driver_error e" if c: "check_peer cfg key ip = Inl e"
  proof (cases "ip_address ip")
    case None
    with c Inr show ?thesis by (auto simp: check_peer_def validate_public_key_def split: if_splits)
  next
    case (Some a)
    with c Inr show ?thesis
      by (cases a) (auto simp: check_peer_def validate_public_key_def split: if_splits)
  qed
qed

lemma raises_add_peer: "raises_only driver_error (add_peer env cfg key ip)"
proof -
  have c: "raises_only driver_error (alift (check_peer cfg key ip'))" for ip'
    by (rule raises_lift) (rule check_peer_error)
  have a: "raises_only driver_error (alift (peer_allowed_ips ip'))" for ip'
    by (rule raises_lift) (auto simp: peer_allowed_ips_def split: option.splits)
  have l: "raises_only driver_error (add_peer_local env cfg key ip')" for ip'
    unfolding add_peer_local_def
    by (intro raises_bind raises_seq raises_if raises_ret raises_run raises_interface a)
      (rule raises_lift, rule check_peer_error)
  show ?thesis
    unfolding add_peer_def
    by (intro raises_bind raises_if raises_ret raises_agent l c)
qed

subsection \<open>Facts: the dump\<close>

text \<open>The lines of \<open>wg show <interface> dump\<close>: the interface first, then one line per peer.\<close>

definition show_peer :: "runtime_peer \<Rightarrow> string" where
  "show_peer p = join [CHR 0x09]
     [rp_public_key p, rp_preshared_key p, (case rp_endpoint p of None \<Rightarrow> [] | Some e \<Rightarrow> e),
      join '','' (rp_allowed_ips p),
      (case rp_last_handshake_at p of None \<Rightarrow> ''0'' | Some t \<Rightarrow> nat_str (nat (t div 1000000))),
      nat_str (nat (rp_rx_bytes p)), nat_str (nat (rp_tx_bytes p)),
      nat_str (nat (rp_persistent_keepalive p))]"

definition solid :: "string \<Rightarrow> bool" where
  "solid s \<longleftrightarrow> s \<noteq> [] \<and> (\<forall>c\<in>set s. \<not> is_space c)"

definition wf_peer :: "runtime_peer \<Rightarrow> bool" where
  "wf_peer p \<longleftrightarrow> solid (rp_public_key p) \<and> solid (rp_preshared_key p)
     \<and> (\<forall>e. rp_endpoint p = Some e \<longrightarrow> solid e)
     \<and> rp_allowed_ips p \<noteq> [] \<and> (\<forall>a\<in>set (rp_allowed_ips p). solid a \<and> CHR '','' \<notin> set a)
     \<and> (\<forall>t. rp_last_handshake_at p = Some t \<longrightarrow>
          (\<exists>n. 0 < n \<and> n \<le> 253402300799 \<and> t = seconds n))
     \<and> 0 \<le> rp_rx_bytes p \<and> 0 \<le> rp_tx_bytes p \<and> 0 \<le> rp_persistent_keepalive p"

lemma solid_strip [simp]: "solid s \<Longrightarrow> strip s = s"
  by (simp add: solid_def strip_no_space)

lemma solid_tab: "solid s \<Longrightarrow> CHR 0x09 \<notin> set s"
  by (auto simp: solid_def is_space_def code_of_def)

lemma solid_nat_str [simp]: "solid (nat_str n)"
  using nat_str_digits [of n] is_digit_not_space by (auto simp: solid_def)

lemma split_join:
  "ws \<noteq> [] \<Longrightarrow> \<forall>w\<in>set ws. c \<notin> set w \<Longrightarrow> split_on c (join [c] ws) = ws"
proof (induction ws rule: induct_list012)
  case (3 w v ws)
  then show ?case by (simp add: split_on_append)
qed (simp_all add: split_on_no_sep)

lemma lower_nat_str: "lower (nat_str n) = nat_str n"
proof -
  have "lower_char c = c" if "is_digit c" for c
    using that by (auto simp: lower_char_def is_digit_def is_upper_def Let_def)
  then show ?thesis using nat_str_digits [of n] by (simp add: lower_def map_idI)
qed

lemma nat_str_neq_off: "nat_str n \<noteq> ''off''"
proof
  assume "nat_str n = ''off''"
  then have "is_digit CHR ''o''" using nat_str_digits [of n] by simp
  then show False by (simp add: is_digit_def code_of_def)
qed

lemma parse_wg_integer_nat_str: "parse_wg_integer (nat_str n) f = Inr (int n)"
  by (simp add: parse_wg_integer_def Let_def lower_nat_str nat_str_neq_off)

lemma nat_str_0_iff: "nat_str n = ''0'' \<longleftrightarrow> n = 0"
proof -
  have "nat_str 0 = ''0''" by (simp add: nat_str.simps digit_char_def char_of_48)
  then show ?thesis by (metis decimal.enc_eq_iff)
qed

lemma parse_unix_timestamp_nat_str:
  "0 < n \<Longrightarrow> n \<le> 253402300799 \<Longrightarrow> parse_unix_timestamp (nat_str (nat n)) = Inr (Some (seconds n))"
  by (simp add: parse_unix_timestamp_def nat_str_neq_off nat_str_0_iff)

lemma solid_comma: "solid a \<Longrightarrow> solid b \<Longrightarrow> solid (a @ CHR '','' # b)"
proof -
  have "\<not> is_space CHR '',''" by (simp add: is_space_def code_of_def)
  then show "solid a \<Longrightarrow> solid b \<Longrightarrow> solid (a @ CHR '','' # b)" by (auto simp: solid_def)
qed

lemma solid_join_commas: "\<forall>a\<in>set ws. solid a \<Longrightarrow> ws \<noteq> [] \<Longrightarrow> solid (join '','' ws)"
proof (induction ws rule: induct_list012)
  case (3 a b ws)
  then have "solid a" "solid (join '','' (b # ws))" by simp_all
  then have "solid (a @ CHR '','' # join '','' (b # ws))" by (rule solid_comma)
  then show ?case by simp
qed simp_all

lemma parse_show_peer:
  assumes "wf_peer p"
  shows "parse_peer_line (show_peer p) = Inr p"
proof -
  let ?e = "case rp_endpoint p of None \<Rightarrow> [] | Some e \<Rightarrow> e"
  let ?h = "case rp_last_handshake_at p of None \<Rightarrow> ''0'' | Some t \<Rightarrow> nat_str (nat (t div 1000000))"
  let ?ws = "[rp_public_key p, rp_preshared_key p, ?e, join '','' (rp_allowed_ips p), ?h,
      nat_str (nat (rp_rx_bytes p)), nat_str (nat (rp_tx_bytes p)),
      nat_str (nat (rp_persistent_keepalive p))]"
  have solid_0: "solid ''0''" by (simp add: solid_def is_space_def code_of_def)
  then have solid_h: "solid ?h" by (simp split: option.split)
  have solid_e: "?e = [] \<or> solid ?e" using assms by (auto simp: wf_peer_def split: option.split)
  have al: "solid (join '','' (rp_allowed_ips p))"
    using assms by (intro solid_join_commas) (auto simp: wf_peer_def)
  have kp: "solid (rp_public_key p)" "solid (rp_preshared_key p)" using assms by (simp_all add: wf_peer_def)
  have "CHR 0x09 \<notin> set ?e" using solid_e
  proof
    assume "?e = []"
    then show ?thesis by (simp only: list.set empty_iff not_False_eq_True)
  qed (rule solid_tab)
  then have "\<forall>w\<in>set ?ws. CHR 0x09 \<notin> set w"
    by (simp only: list.set ball_simps solid_tab [OF kp(1)] solid_tab [OF kp(2)] solid_tab [OF al]
        solid_tab [OF solid_h] solid_tab [OF solid_nat_str] simp_thms not_False_eq_True)
  then have split: "split_on (CHR 0x09) (show_peer p) = ?ws"
    unfolding show_peer_def by (intro split_join) simp_all
  have allowed: "filter (\<lambda>i. i \<noteq> []) (map strip (split_on CHR '','' (join '','' (rp_allowed_ips p)))) = rp_allowed_ips p"
  proof -
    have "split_on CHR '','' (join '','' (rp_allowed_ips p)) = rp_allowed_ips p"
      using assms by (intro split_join) (auto simp: wf_peer_def)
    moreover have "map strip (rp_allowed_ips p) = rp_allowed_ips p"
      using assms by (intro map_idI) (auto simp: wf_peer_def)
    moreover have "filter (\<lambda>i. i \<noteq> []) (rp_allowed_ips p) = rp_allowed_ips p"
      using assms by (intro filter_True) (auto simp: wf_peer_def solid_def)
    ultimately show ?thesis by simp
  qed
  have hs: "parse_unix_timestamp ?h = Inr (rp_last_handshake_at p)"
  proof (cases "rp_last_handshake_at p")
    case None
    then show ?thesis by (simp add: parse_unix_timestamp_def)
  next
    case (Some t)
    with assms obtain n where n: "0 < n" "n \<le> 253402300799" "t = seconds n"
      by (auto simp: wf_peer_def)
    then have "nat (t div 1000000) = nat n" by (simp add: seconds_def)
    with Some n show ?thesis by (simp only: option.case parse_unix_timestamp_nat_str)
  qed
  have ep: "(if strip ?e = [] then None else Some (strip ?e)) = rp_endpoint p"
  proof (cases "rp_endpoint p")
    case None
    then show ?thesis by (simp add: strip_def lstrip_def rstrip_def)
  next
    case (Some e)
    then have "solid e" using assms by (simp add: wf_peer_def)
    with Some show ?thesis by (simp add: strip_no_space solid_def)
  qed
  have nn: "0 \<le> rp_rx_bytes p" "0 \<le> rp_tx_bytes p" "0 \<le> rp_persistent_keepalive p"
    using assms by (simp_all add: wf_peer_def)
  have "parse_peer_line (show_peer p) = Inr \<lparr>rp_public_key = rp_public_key p,
      rp_preshared_key = rp_preshared_key p,
      rp_endpoint = (if strip ?e = [] then None else Some (strip ?e)),
      rp_allowed_ips = rp_allowed_ips p, rp_last_handshake_at = rp_last_handshake_at p,
      rp_rx_bytes = rp_rx_bytes p, rp_tx_bytes = rp_tx_bytes p,
      rp_persistent_keepalive = rp_persistent_keepalive p\<rparr>"
    using nn kp solid_h
    by (simp add: parse_peer_line_def split allowed hs parse_wg_integer_nat_str Let_def)
  then show ?thesis unfolding ep by simp
qed

text \<open>The dump of an interface: its own line, then the peers, each ended by a newline.\<close>

definition show_dump :: "string \<Rightarrow> runtime_peer list \<Rightarrow> string" where
  "show_dump interface_line peers =
     concat (map (\<lambda>l. l @ [CHR 0x0A]) (interface_line # map show_peer peers))"

definition plain_line :: "string \<Rightarrow> bool" where
  "plain_line l \<longleftrightarrow> l \<noteq> [] \<and> list_all (\<lambda>c. \<not> is_line_break c) l \<and> \<not> is_space (hd l) \<and> \<not> is_space (last l)"

lemma splitlines_line:
  "list_all (\<lambda>c. \<not> is_line_break c) l \<Longrightarrow>
     splitlines_aux acc (l @ CHR 0x0A # rest) = (acc @ l) # splitlines_aux [] rest"
proof (induction l arbitrary: acc)
  case Nil
  then show ?case by (simp add: is_line_break_def code_of_def)
next
  case (Cons c l)
  then show ?case by (auto simp: is_line_break_def)
qed

lemma splitlines_lines:
  "\<forall>l\<in>set ls. list_all (\<lambda>c. \<not> is_line_break c) l \<Longrightarrow>
     splitlines (concat (map (\<lambda>l. l @ [CHR 0x0A]) ls)) = ls"
  by (induction ls) (simp_all add: splitlines_def splitlines_line)

lemma plain_line_strip: "plain_line l \<Longrightarrow> strip l = l"
proof -
  assume p: "plain_line l"
  then obtain c r where "l = c # r" by (cases l) (auto simp: plain_line_def)
  with p have "dropWhile is_space l = l" by (simp add: plain_line_def)
  moreover have "dropWhile is_space (rev l) = rev l"
    using p by (cases l rule: rev_cases) (auto simp: plain_line_def)
  ultimately show ?thesis by (simp add: strip_def lstrip_def rstrip_def)
qed

lemma line_break_space: "is_line_break c \<Longrightarrow> is_space c"
  by (auto simp: is_line_break_def is_space_def Let_def)

lemma set_join: "set (join sep ws) \<subseteq> set sep \<union> \<Union> (set ` set ws)"
  by (induction sep ws rule: join.induct) auto

lemma plain_show_peer:
  assumes "wf_peer p"
  shows "plain_line (show_peer p)"
proof -
  let ?e = "case rp_endpoint p of None \<Rightarrow> [] | Some e \<Rightarrow> e"
  let ?h = "case rp_last_handshake_at p of None \<Rightarrow> ''0'' | Some t \<Rightarrow> nat_str (nat (t div 1000000))"
  let ?k = "nat_str (nat (rp_persistent_keepalive p))"
  have tab: "\<not> is_line_break CHR 0x09" by (simp add: is_line_break_def code_of_def)
  have sb: "\<forall>c\<in>set s. \<not> is_line_break c" if "solid s" for s
    using that line_break_space by (auto simp: solid_def)
  have "solid ''0''" by (simp add: solid_def is_space_def code_of_def)
  then have h: "solid ?h" by (simp split: option.split)
  have e: "\<forall>c\<in>set ?e. \<not> is_line_break c"
  proof (cases "rp_endpoint p")
    case (Some e)
    then have "solid e" using assms by (simp add: wf_peer_def)
    with Some show ?thesis using sb [of e] by simp
  qed simp
  have al: "solid (join '','' (rp_allowed_ips p))"
    using assms by (intro solid_join_commas) (auto simp: wf_peer_def)
  have kp: "solid (rp_public_key p)" "solid (rp_preshared_key p)" using assms by (simp_all add: wf_peer_def)
  have all: "\<forall>c\<in>set (show_peer p). \<not> is_line_break c"
    unfolding show_peer_def using sb [OF h] e sb [OF al] sb [OF kp(1)] sb [OF kp(2)] tab sb [OF solid_nat_str]
    by (simp add: ball_Un)
  have hd: "show_peer p \<noteq> []" "hd (show_peer p) = hd (rp_public_key p)"
    using kp(1) by (auto simp: show_peer_def solid_def)
  have "last (show_peer p) = last ?k" by (simp add: show_peer_def)
  moreover have "\<not> is_space (last ?k)" using solid_nat_str [of "nat (rp_persistent_keepalive p)"]
    by (auto simp: solid_def)
  moreover have "\<not> is_space (hd (rp_public_key p))" using kp(1) by (auto simp: solid_def)
  ultimately show ?thesis using hd all by (simp add: plain_line_def list_all_iff)
qed

lemma rmap_list_map: "(\<And>x. x \<in> set xs \<Longrightarrow> f (g x) = Inr x) \<Longrightarrow> rmap_list f (map g xs) = Inr xs"
  by (induction xs) simp_all

lemma parse_show_dump:
  assumes "plain_line l" and "\<forall>p\<in>set peers. wf_peer p"
  shows "parse_wg_show_dump (show_dump l peers) = Inr peers"
proof -
  let ?ls = "l # map show_peer peers"
  have pl: "\<forall>x\<in>set ?ls. plain_line x" using assms plain_show_peer by auto
  have "splitlines (show_dump l peers) = ?ls"
    unfolding show_dump_def by (rule splitlines_lines) (use pl in \<open>auto simp: plain_line_def\<close>)
  moreover have "map strip ?ls = ?ls" using pl by (intro map_idI plain_line_strip) blast
  moreover have "filter (\<lambda>x. x \<noteq> []) ?ls = ?ls" using pl by (intro filter_True) (auto simp: plain_line_def)
  ultimately have "parse_wg_show_dump (show_dump l peers) = rmap_list parse_peer_line (map show_peer peers)"
    by (simp only: parse_wg_show_dump_def Let_def drop_Suc_Cons drop_0 One_nat_def)
  then show ?thesis using assms(2) parse_show_peer by (simp add: rmap_list_map)
qed

subsection \<open>Properties\<close>

text \<open>C1. Tunnel address allocation: with a valid overlay configuration, \<open>next_tunnel_ip\<close> returns the
  printed form of the lowest host address of the overlay that is neither the Hub's own nor held
  by a stored device, so that the driver's own checks accept it; and when every stored address
  is a usable host address and some host is still free, it does return one.\<close>

theorem next_tunnel_ip_correct:
  assumes "get_validated_hub_wireguard_config cfg = Inr vc"
  shows "(next_tunnel_ip cfg db = Inr s \<longrightarrow>
      (\<exists>w. s = show_ipv4 w \<and> usable_host vc w \<and> w \<noteq> vc_hub_ip vc \<and> w \<notin> assigned db
         \<and> (\<forall>v. usable_host vc v \<and> unat v < unat w \<longrightarrow> v = vc_hub_ip vc \<or> v \<in> assigned db)
         \<and> (wg_key_re key \<longrightarrow> check_peer cfg key s = Inr w)))
    \<and> ((\<forall>d\<in>set (devices db). \<exists>w. parse_ipv4 (dev_wg_tunnel_ip d) = Some w \<and> usable_host vc w)
        \<and> (\<exists>v. usable_host vc v \<and> v \<noteq> vc_hub_ip vc \<and> v \<notin> assigned db)
      \<longrightarrow> (\<exists>s. next_tunnel_ip cfg db = Inr s))"
proof (intro conjI impI)
  assume n: "next_tunnel_ip cfg db = Inr s"
  from next_tunnel_ip_Inr [OF n assms] obtain w where w: "s = show_ipv4 w" "usable_host vc w"
    "w \<noteq> vc_hub_ip vc" "w \<notin> assigned db"
    "\<forall>v. usable_host vc v \<and> unat v < unat w \<longrightarrow> v = vc_hub_ip vc \<or> v \<in> assigned db" by blast
  moreover have "check_peer cfg key s = Inr w" if "wg_key_re key"
    using check_peer_allocated [OF n that] w(1) by (auto simp: show_ipv4_inj)
  ultimately show "\<exists>w. s = show_ipv4 w \<and> usable_host vc w \<and> w \<noteq> vc_hub_ip vc \<and> w \<notin> assigned db
         \<and> (\<forall>v. usable_host vc v \<and> unat v < unat w \<longrightarrow> v = vc_hub_ip vc \<or> v \<in> assigned db)
         \<and> (wg_key_re key \<longrightarrow> check_peer cfg key s = Inr w)" by blast
qed (use next_tunnel_ip_complete [OF assms] in blast)

theorem next_tunnel_ip_correct_witness:
  "\<exists>s. next_tunnel_ip (default_settings\<lparr>cfg_hub_wg_cidr := ''10.0.0.0/29'', cfg_hub_wg_address := ''10.0.0.1/29'',
       cfg_allow_broad_wg_cidr := False\<rparr>) empty_db = Inr s"
proof -
  let ?cfg = "default_settings\<lparr>cfg_hub_wg_cidr := ''10.0.0.0/29'', cfg_hub_wg_address := ''10.0.0.1/29'',
       cfg_allow_broad_wg_cidr := False\<rparr>"
  let ?vc = "\<lparr>vc_network = \<lparr>n4_addr = 167772160, n4_prefix = 29\<rparr>, vc_hub_ip = 167772161, vc_hub_prefix = 29\<rparr>"
  have "get_validated_hub_wireguard_config ?cfg = Inr ?vc"
    by (simp add: get_validated_hub_wireguard_config_def validate_hub_wireguard_config_def ip_network_def
        ip_interface_def parse_addr_prefix4_def parse_ipv4_def parse_octet_def ipv4_of_octets_def
        make_prefix4_def prefix_of_string_def mk_net4_def in_net4_def netmask4_def broadcast4_def str_eval mask_eq_exp_minus_1)
  moreover have "usable_host ?vc 167772162"
    by (simp add: usable_host_def in_net4_def netmask4_def broadcast4_def mask_eq_exp_minus_1)
  moreover have "167772162 \<notin> assigned empty_db" by (simp add: assigned_def empty_db_def)
  ultimately show ?thesis
    using next_tunnel_ip_correct [of ?cfg ?vc empty_db, THEN conjunct2]
    by (auto simp: empty_db_def intro: exI [of _ 167772162])
qed

text \<open>C2. Peer routes are /32: whatever the commands answer, every command the local driver runs to add,
  remove or restore peers that names allowed addresses has exactly one, a /32 of an address
  inside the overlay other than the Hub's own, for a well-formed key. So a stored device never
  gets a route into a customer network.\<close>

theorem peer_routes_are_host_routes:
  assumes "plain_names cfg" and "log_inv cfg s"
  shows "log_inv cfg (snd (sync_peer_payloads_local (logging env) cfg peers s))
    \<and> log_inv cfg (snd (add_peer_local (logging env) cfg key ip s))
    \<and> log_inv cfg (snd (remove_peer_local (logging env) cfg key s))"
proof -
  have "pres (log_inv cfg) (sync_peer_payloads_local (logging env) cfg peers)"
    unfolding sync_peer_payloads_local_def
    by (intro pres_if pres_ret pres_seq pres_for pres_log_interface [OF assms(1)])
      (auto intro: pres_log_add_local [OF assms(1)])
  then show ?thesis
    using assms(2) pres_log_add_local [OF assms(1), of env key ip]
      pres_log_remove_local [OF assms(1), of env key]
    by (simp add: pres_def)
qed

definition quiet_env :: "unit wg_env" where
  "quiet_env = \<lparr>we_run = (\<lambda>args inp w. (Exited 0 [] [], w)), we_agent = (\<lambda>m p h j w. (AgentEmpty, w))\<rparr>"

theorem peer_routes_are_host_routes_witness:
  "log_inv default_settings (snd (add_peer_local (logging quiet_env) default_settings
     ''AAAAAAAAAAAAAAAAAAAAAAAAAAAAAAAAAAAAAAAAAAA='' ''100.96.0.2''
     \<lparr>wg_key_file = None, wg_key_mode = None, wg_config_file = None, wg_config_mode = None,
      wg_ext = ((), [])\<rparr>))"
  by (rule peer_routes_are_host_routes [THEN conjunct2, THEN conjunct1])
    (simp_all add: plain_names_def default_settings_def log_inv_def logged_def)

text \<open>The dump round trip: the output of \<open>wg show <interface> dump\<close> for any list of peers whose
  fields are well formed parses back to exactly those peers, in order, with the interface line
  skipped.\<close>

theorem wg_dump_roundtrip:
  assumes "plain_line l" and "\<forall>p\<in>set peers. wf_peer p"
  shows "parse_wg_show_dump (show_dump l peers) = Inr peers"
  by (rule parse_show_dump [OF assms])

theorem wg_dump_roundtrip_witness:
  "parse_wg_show_dump (show_dump ''wg0''
     [\<lparr>rp_public_key = ''k'', rp_preshared_key = ''(none)'', rp_endpoint = Some ''192.0.2.1:51820'',
       rp_allowed_ips = [''100.96.0.2/32''], rp_last_handshake_at = Some (seconds 1700000000),
       rp_rx_bytes = 10, rp_tx_bytes = 20, rp_persistent_keepalive = 25\<rparr>])
   = Inr [\<lparr>rp_public_key = ''k'', rp_preshared_key = ''(none)'', rp_endpoint = Some ''192.0.2.1:51820'',
       rp_allowed_ips = [''100.96.0.2/32''], rp_last_handshake_at = Some (seconds 1700000000),
       rp_rx_bytes = 10, rp_tx_bytes = 20, rp_persistent_keepalive = 25\<rparr>]"
proof (rule wg_dump_roundtrip)
  show "plain_line ''wg0''" by (simp add: plain_line_def is_line_break_def is_space_def code_of_def)
  have "\<exists>n. 0 < n \<and> n \<le> 253402300799 \<and> seconds 1700000000 = seconds n"
    by (rule exI [of _ 1700000000]) simp
  then show "\<forall>p\<in>set [\<lparr>rp_public_key = ''k'', rp_preshared_key = ''(none)'',
       rp_endpoint = Some ''192.0.2.1:51820'', rp_allowed_ips = [''100.96.0.2/32''],
       rp_last_handshake_at = Some (seconds 1700000000), rp_rx_bytes = 10, rp_tx_bytes = 20,
       rp_persistent_keepalive = 25\<rparr>]. wf_peer p"
    by (simp add: wf_peer_def solid_def is_space_def code_of_def)
qed

end
