(* ===== verification/Common.thy ===== *)
theory Common
  imports Models Request_Context Py_Base64 Security
begin

text \<open>
  The helpers every router uses: \<open>dashboard/app/services/common.py\<close>, \<open>integration.py\<close>,
  \<open>security/secrets.py\<close> and \<open>branding.py\<close>. Fernet is a record of functions; an upload is read
  through a function argument; the branding directory is a list of entries.
\<close>

subsection \<open>services/common.py\<close>

definition clean_optional :: "string option \<Rightarrow> string option" where
  "clean_optional value =
     (case value of
        None \<Rightarrow> None
      | Some s \<Rightarrow> (let stripped = strip s in if stripped = [] then None else Some stripped))"

text \<open>The regular expression \<open>[^@\s]+@[^@\s]+\.[^@\s]+\<close>, matched against the whole value.\<close>

definition is_valid_email_address :: "string option \<Rightarrow> bool" where
  "is_valid_email_address value =
     (case value of
        None \<Rightarrow> False
      | Some s \<Rightarrow>
          (case split_on CHR ''@'' s of
             [local, domain] \<Rightarrow>
               list_all (\<lambda>c. \<not> is_space c) s \<and> local \<noteq> []
               \<and> CHR ''.'' \<in> set (butlast (tl domain))
           | _ \<Rightarrow> False))"

text \<open>
  \<open>read_upload_limited\<close>: \<open>rd n u\<close> is \<open>await upload.read(n)\<close>, the bytes it returns and the
  upload after it. Every non-empty chunk raises the total, and a total above the limit ends
  the loop with an error, so the loop ends whatever the reader does.
\<close>

function read_upload_loop ::
  "(nat \<Rightarrow> 'u \<Rightarrow> string \<times> 'u) \<Rightarrow> string \<Rightarrow> int \<Rightarrow> string \<Rightarrow> int \<Rightarrow> 'u \<Rightarrow> string res" where
  "read_upload_loop rd field_name limit_bytes chunks total_bytes u =
     (let (chunk, u') = rd (nat (min 1048576 (max (limit_bytes - total_bytes + 1) 1))) u in
      if chunk = [] then Inr chunks
      else
        let total_bytes' = total_bytes + int (length chunk) in
        if total_bytes' > limit_bytes then
          Inl (HTTPException 400 (field_name @ '' exceeds the maximum allowed size of ''
                 @ int_str limit_bytes @ '' bytes''))
        else read_upload_loop rd field_name limit_bytes (chunks @ chunk) total_bytes' u')"
  by pat_completeness auto
termination
  by (relation "measure (\<lambda>(rd, f, limit_bytes, c, total_bytes, u). nat (limit_bytes + 1 - total_bytes))") auto

declare read_upload_loop.simps [simp del]

definition read_upload_limited ::
  "(nat \<Rightarrow> 'u \<Rightarrow> string \<times> 'u) \<Rightarrow> 'u \<Rightarrow> int \<Rightarrow> string \<Rightarrow> string res" where
  "read_upload_limited rd u limit_bytes field_name = read_upload_loop rd field_name limit_bytes [] 0 u"

text \<open>\<open>re.sub(r"[^A-Za-z0-9._-]+", "-", filename)\<close>: each run of other characters is one dash.\<close>

fun dash_runs :: "bool \<Rightarrow> string \<Rightarrow> string" where
  "dash_runs in_run [] = []"
| "dash_runs in_run (c # cs) =
     (if is_alnum c \<or> c \<in> set ''._-'' then c # dash_runs False cs
      else (if in_run then [] else ''-'') @ dash_runs True cs)"

definition safe_filename :: "string \<Rightarrow> string \<Rightarrow> string" where
  "safe_filename filename fallback =
     (let s = strip_chars ''.-'' (dash_runs False filename) in if s = [] then fallback else s)"

definition content_disposition_attachment :: "string \<Rightarrow> string \<Rightarrow> string" where
  "content_disposition_attachment filename fallback =
     (let safe = safe_filename filename fallback
      in ''attachment; filename='' @ [CHR 0x22] @ safe @ [CHR 0x22] @ ''; filename*=UTF-8''
           @ [CHR 0x27, CHR 0x27] @ quote safe)"

definition get_or_create_integration_settings ::
  "instant \<Rightarrow> db_session \<Rightarrow> integration_settings \<times> db_session" where
  "get_or_create_integration_settings now s =
     (case get_integration (work s) of
        Some i \<Rightarrow> (i, s)
      | None \<Rightarrow>
          (default_integration now,
           commit (s\<lparr>work := (work s)\<lparr>integration_rows :=
             integration_rows (work s) @ [default_integration now]\<rparr>\<rparr>)))"

subsection \<open>integration.py\<close>

definition smtp_email_configured :: "integration_settings option \<Rightarrow> bool" where
  "smtp_email_configured i =
     (case i of
        None \<Rightarrow> False
      | Some r \<Rightarrow> ints_smtp_enabled r \<and> nonempty (ints_smtp_host r)
          \<and> (case ints_smtp_port r of None \<Rightarrow> False | Some p \<Rightarrow> p \<noteq> 0) \<and> nonempty (ints_smtp_from r))"

definition graph_email_configured :: "integration_settings option \<Rightarrow> bool" where
  "graph_email_configured i =
     (case i of
        None \<Rightarrow> False
      | Some r \<Rightarrow> ints_graph_enabled r \<and> nonempty (ints_graph_tenant_id r)
          \<and> nonempty (ints_graph_client_id r) \<and> nonempty (ints_graph_client_secret r)
          \<and> nonempty (ints_graph_sender r))"

definition email_settings_configured :: "integration_settings option \<Rightarrow> bool" where
  "email_settings_configured i = (smtp_email_configured i \<or> graph_email_configured i)"

definition microsoft_login_configured :: "integration_settings option \<Rightarrow> bool" where
  "microsoft_login_configured i =
     (case i of
        None \<Rightarrow> False
      | Some r \<Rightarrow> ints_microsoft_enabled r \<and> nonempty (ints_microsoft_tenant_id r)
          \<and> nonempty (ints_microsoft_client_id r) \<and> nonempty (ints_microsoft_client_secret r)
          \<and> nonempty (ints_microsoft_audience r))"

definition local_ad_login_configured :: "integration_settings option \<Rightarrow> bool" where
  "local_ad_login_configured i =
     (case i of
        None \<Rightarrow> False
      | Some r \<Rightarrow> ints_ad_enabled r \<and> nonempty (ints_ad_host r) \<and> nonempty (ints_ad_base_dn r))"

subsection \<open>security/secrets.py\<close>

text \<open>The primitives of \<open>cryptography.fernet\<close> and \<open>hashlib\<close>; the nonce that Fernet draws is an
  argument, and \<^const>\<open>None\<close> is \<open>InvalidToken\<close>.\<close>

record fernet =
  f_sha256 :: "string \<Rightarrow> string"
  f_encrypt :: "string \<Rightarrow> nat \<Rightarrow> string \<Rightarrow> string"
  f_decrypt :: "string \<Rightarrow> string \<Rightarrow> string option"

definition urlsafe_b64encode :: "string \<Rightarrow> string" where
  "urlsafe_b64encode s =
     map (\<lambda>c. if c = CHR ''+'' then CHR ''-'' else if c = CHR ''/'' then CHR ''_'' else c) (b64encode s)"

definition normalized_master_key :: "fernet \<Rightarrow> settings \<Rightarrow> string" where
  "normalized_master_key fe cfg =
     urlsafe_b64encode (f_sha256 fe
       (if nonempty (cfg_secret_encryption_key cfg) then the (cfg_secret_encryption_key cfg)
        else cfg_secret_key cfg))"

definition is_encrypted_secret :: "string option \<Rightarrow> bool" where
  "is_encrypted_secret value = (case value of None \<Rightarrow> False | Some s \<Rightarrow> startswith s ''enc:v1:'')"

definition encrypt_secret :: "fernet \<Rightarrow> settings \<Rightarrow> nat \<Rightarrow> string option \<Rightarrow> string option" where
  "encrypt_secret fe cfg nonce value =
     (case value of
        None \<Rightarrow> None
      | Some s \<Rightarrow>
          if is_encrypted_secret value then value
          else Some (''enc:v1:'' @ f_encrypt fe (normalized_master_key fe cfg) nonce s))"

definition decrypt_secret :: "fernet \<Rightarrow> settings \<Rightarrow> string option \<Rightarrow> string option res" where
  "decrypt_secret fe cfg value =
     (case value of
        None \<Rightarrow> Inr None
      | Some s \<Rightarrow>
          if \<not> is_encrypted_secret value then Inr value
          else case f_decrypt fe (normalized_master_key fe cfg) (drop (length ''enc:v1:'') s) of
            None \<Rightarrow> Inl (RuntimeError ''stored secret could not be decrypted'')
          | Some m \<Rightarrow> Inr (Some m))"

definition store_secret ::
  "fernet \<Rightarrow> settings \<Rightarrow> nat \<Rightarrow> string option \<Rightarrow> string option \<Rightarrow> string option" where
  "store_secret fe cfg nonce existing_value new_value =
     (case new_value of
        None \<Rightarrow> existing_value
      | Some v \<Rightarrow>
          let stripped = strip v in
          if stripped = [] then existing_value else encrypt_secret fe cfg nonce (Some stripped))"

subsection \<open>branding.py\<close>

datatype dir_entry = File string | Subdir

type_synonym directory = "(string \<times> dir_entry) list option"

definition allowed_branding_types :: "(string \<times> string) list" where
  "allowed_branding_types =
     [(''image/png'', ''.png''), (''image/jpeg'', ''.jpg''), (''image/webp'', ''.webp'')]"

definition detect_image_extension :: "string \<Rightarrow> string res" where
  "detect_image_extension content =
     (if startswith content [CHR 0x89, CHR 0x50, CHR 0x4E, CHR 0x47, CHR 0x0D, CHR 0x0A, CHR 0x1A, CHR 0x0A]
      then Inr ''.png''
      else if startswith content [CHR 0xFF, CHR 0xD8, CHR 0xFF] then Inr ''.jpg''
      else if length content \<ge> 12 \<and> take 4 content = ''RIFF'' \<and> take 4 (drop 8 content) = ''WEBP''
      then Inr ''.webp''
      else Inl (BrandingError ''Only PNG, JPEG, and WebP logo uploads are allowed''))"

definition validate_branding_upload ::
  "string \<Rightarrow> string \<Rightarrow> int \<Rightarrow> (string \<times> string) res" where
  "validate_branding_upload content_type content max_bytes =
     (if content = [] then Inl (BrandingError ''Uploaded logo file is empty'')
      else if int (length content) > max_bytes
      then Inl (BrandingError (''Uploaded logo exceeds '' @ int_str max_bytes @ '' bytes''))
      else case map_of allowed_branding_types content_type of
        None \<Rightarrow> Inl (BrandingError ''Logo content type must be PNG, JPEG, or WebP'')
      | Some expected_extension \<Rightarrow>
          rbind (detect_image_extension content) (\<lambda>extension.
            if extension \<noteq> expected_extension
            then Inl (BrandingError ''Uploaded logo file content does not match the declared content type'')
            else Inr (extension, content_type)))"

definition is_logo_file :: "string \<times> dir_entry \<Rightarrow> bool" where
  "is_logo_file e = (startswith (fst e) ''logo.'' \<and> snd e \<noteq> Subdir)"

definition clear_uploaded_logo :: "directory \<Rightarrow> directory" where
  "clear_uploaded_logo d =
     (case d of None \<Rightarrow> None | Some es \<Rightarrow> Some (filter (\<lambda>e. \<not> is_logo_file e) es))"

definition save_uploaded_logo :: "directory \<Rightarrow> string \<Rightarrow> string \<Rightarrow> string \<times> directory" where
  "save_uploaded_logo d extension content =
     (let made = (case d of None \<Rightarrow> Some [] | Some es \<Rightarrow> Some es);
          name = ''logo'' @ extension
      in (name, case clear_uploaded_logo made of
                  None \<Rightarrow> None
                | Some es \<Rightarrow> Some (es @ [(name, File content)])))"

definition uploaded_logo_path :: "directory \<Rightarrow> string option" where
  "uploaded_logo_path d =
     (case d of
        None \<Rightarrow> None
      | Some es \<Rightarrow>
          find (\<lambda>n. n \<in> set (map fst es)) (map (\<lambda>x. ''logo'' @ x) [''.png'', ''.jpg'', ''.webp'']))"

subsection \<open>Facts\<close>

lemma clean_optional_nonempty: "clean_optional v = Some s \<Longrightarrow> s \<noteq> []"
  by (auto simp: clean_optional_def Let_def split: option.splits if_splits)

lemma read_upload_loop_bound:
  "read_upload_loop rd f limit chunks total_bytes u = Inr out \<Longrightarrow> total_bytes = int (length chunks)
     \<Longrightarrow> int (length out) \<le> max limit total_bytes"
proof (induction rd f limit chunks total_bytes u rule: read_upload_loop.induct)
  case (1 rd f limit chunks total_bytes u)
  obtain chunk u' where c: "rd (nat (min 1048576 (max (limit - total_bytes + 1) 1))) u = (chunk, u')"
    by (cases "rd (nat (min 1048576 (max (limit - total_bytes + 1) 1))) u")
  have e: "read_upload_loop rd f limit chunks total_bytes u =
     (if chunk = [] then Inr chunks
      else if total_bytes + int (length chunk) > limit then
        Inl (HTTPException 400 (f @ '' exceeds the maximum allowed size of '' @ int_str limit @ '' bytes''))
      else read_upload_loop rd f limit (chunks @ chunk) (total_bytes + int (length chunk)) u')"
    by (subst read_upload_loop.simps) (simp only: c prod.case Let_def)
  show ?case
  proof (cases "chunk = []")
    case True
    then show ?thesis using 1 e by simp
  next
    case False
    with e 1(2) have n: "\<not> total_bytes + int (length chunk) > limit" by (auto split: if_splits)
    then have "int (length out) \<le> max limit (total_bytes + int (length chunk))"
      using False e 1(2,3) by (intro 1(1) [OF c [symmetric] refl False refl n]) simp_all
    then show ?thesis using n by linarith
  qed
qed

text \<open>A reader that hands out the rest of the content in chunks of its own choosing, empty only
  at the end.\<close>

definition faithful_reader :: "(nat \<Rightarrow> string \<Rightarrow> string \<times> string) \<Rightarrow> bool" where
  "faithful_reader rd \<longleftrightarrow> (\<forall>n u. 0 < n \<longrightarrow>
     fst (rd n u) @ snd (rd n u) = u \<and> length (fst (rd n u)) \<le> n \<and> (fst (rd n u) = [] \<longrightarrow> u = []))"

lemma read_upload_loop_faithful:
  assumes "faithful_reader rd" and "total_bytes = int (length chunks)"
  shows "read_upload_loop rd f limit chunks total_bytes u =
     (if u = [] \<or> int (length (chunks @ u)) \<le> limit then Inr (chunks @ u)
      else Inl (HTTPException 400 (f @ '' exceeds the maximum allowed size of ''
                 @ int_str limit @ '' bytes'')))"
  using assms
proof (induction rd f limit chunks total_bytes u rule: read_upload_loop.induct)
  case (1 rd f limit chunks total_bytes u)
  let ?n = "nat (min 1048576 (max (limit - total_bytes + 1) 1))"
  obtain chunk u' where c: "rd ?n u = (chunk, u')" by (cases "rd ?n u")
  have "0 < ?n" by simp
  from 1(2)[unfolded faithful_reader_def, rule_format, OF this, of u, unfolded c fst_conv snd_conv]
  have r: "chunk @ u' = u" "chunk = [] \<longrightarrow> u = []" by blast+
  have e: "read_upload_loop rd f limit chunks total_bytes u =
     (if chunk = [] then Inr chunks
      else if total_bytes + int (length chunk) > limit then
        Inl (HTTPException 400 (f @ '' exceeds the maximum allowed size of '' @ int_str limit @ '' bytes''))
      else read_upload_loop rd f limit (chunks @ chunk) (total_bytes + int (length chunk)) u')"
    by (subst read_upload_loop.simps) (simp only: c prod.case Let_def)
  show ?case
  proof (cases "chunk = [] \<or> total_bytes + int (length chunk) > limit")
    case True
    then show ?thesis using e r 1(3) by auto
  next
    case False
    then have n: "chunk \<noteq> []" "\<not> total_bytes + int (length chunk) > limit" by auto
    have "read_upload_loop rd f limit (chunks @ chunk) (total_bytes + int (length chunk)) u' =
     (if u' = [] \<or> int (length ((chunks @ chunk) @ u')) \<le> limit then Inr ((chunks @ chunk) @ u')
      else Inl (HTTPException 400 (f @ '' exceeds the maximum allowed size of ''
                 @ int_str limit @ '' bytes'')))"
      using 1(2,3) by (intro 1(1) [OF c [symmetric] refl n(1) refl n(2)]) simp_all
    then show ?thesis using e n r 1(3) by auto
  qed
qed

text \<open>The laws of Fernet a round trip relies on.\<close>

definition fernet_ok :: "fernet \<Rightarrow> bool" where
  "fernet_ok fe \<longleftrightarrow> (\<forall>k n m. f_decrypt fe k (f_encrypt fe k n m) = Some m)"

lemma decrypt_encrypt_secret:
  assumes "fernet_ok fe" and "\<not> startswith s ''enc:v1:''"
  shows "decrypt_secret fe cfg (encrypt_secret fe cfg nonce (Some s)) = Inr (Some s)"
proof -
  have "startswith (''enc:v1:'' @ t) ''enc:v1:''" for t by (rule startswith_append)
  then show ?thesis using assms
    by (simp add: encrypt_secret_def decrypt_secret_def is_encrypted_secret_def fernet_ok_def)
qed

lemma detect_image_extension_Inr:
  "detect_image_extension content = Inr e \<Longrightarrow> e \<in> {''.png'', ''.jpg'', ''.webp''}"
  by (auto simp: detect_image_extension_def split: if_splits)

subsection \<open>Properties\<close>

text \<open>Bounded uploads: reading an upload ends for every reader, even one that never reports its end,
  and what it returns is never longer than the limit; for a reader that hands out the content in
  chunks of any size it returns exactly that content when it fits, and an error otherwise.\<close>

theorem upload_limited:
  "(read_upload_limited rd u limit field_name = Inr content \<longrightarrow> int (length content) \<le> max limit 0)
    \<and> (faithful_reader chunked \<longrightarrow>
        read_upload_limited chunked body limit field_name =
          (if body = [] \<or> int (length body) \<le> limit then Inr body
           else Inl (HTTPException 400 (field_name @ '' exceeds the maximum allowed size of ''
                  @ int_str limit @ '' bytes''))))"
  by (auto simp: read_upload_limited_def read_upload_loop_faithful dest: read_upload_loop_bound)

theorem upload_limited_witness:
  "\<forall>f. read_upload_limited (\<lambda>n u. (take n u, drop n u)) ''abcdef'' 10 f = Inr ''abcdef''"
proof
  fix f
  have "faithful_reader (\<lambda>n u. (take n u, drop n u))" by (auto simp: faithful_reader_def)
  with upload_limited [where chunked = "\<lambda>n u. (take n u, drop n u)" and body = "''abcdef''" and limit = 10
      and field_name = f, THEN conjunct2]
  show "read_upload_limited (\<lambda>n u. (take n u, drop n u)) ''abcdef'' 10 f = Inr ''abcdef''" by simp
qed

text \<open>Integration secrets at rest: a secret that is stored through a settings form reads back as the
  text that was entered, without the blanks around it, and a blank entry keeps the stored one.
  The prefix that marks encrypted values is the exception: an entered text that begins with it
  is stored as it is, not encrypted, and can not be read when it is no token of the server's key.\<close>

theorem stored_secret_roundtrip:
  assumes "fernet_ok fe"
  shows "(strip v \<noteq> [] \<and> \<not> startswith (strip v) ''enc:v1:'' \<longrightarrow>
        decrypt_secret fe cfg (store_secret fe cfg nonce old (Some v)) = Inr (Some (strip v)))
    \<and> (strip v = [] \<longrightarrow> store_secret fe cfg nonce old (Some v) = old)
    \<and> (strip v = ''enc:v1:'' @ t \<and> f_decrypt fe (normalized_master_key fe cfg) t = None \<longrightarrow>
        store_secret fe cfg nonce old (Some v) = Some (strip v)
        \<and> decrypt_secret fe cfg (store_secret fe cfg nonce old (Some v))
            = Inl (RuntimeError ''stored secret could not be decrypted''))"
proof (intro conjI impI, goal_cases)
  case 1
  then show ?case
    using decrypt_encrypt_secret [OF assms, of "strip v"] by (simp add: store_secret_def Let_def)
next
  case 3
  have "startswith (''enc:v1:'' @ t) ''enc:v1:''" by (rule startswith_append)
  with 3 show ?case by (simp add: store_secret_def encrypt_secret_def is_encrypted_secret_def Let_def)
next
  case 4
  have "startswith (''enc:v1:'' @ t) ''enc:v1:''" by (rule startswith_append)
  with 4 show ?case
    by (simp add: store_secret_def encrypt_secret_def decrypt_secret_def is_encrypted_secret_def Let_def)
qed (simp add: store_secret_def Let_def)

definition example_fernet :: fernet where
  "example_fernet = \<lparr>f_sha256 = (\<lambda>s. s), f_encrypt = (\<lambda>k n m. CHR ''g'' # m),
     f_decrypt = (\<lambda>k t. case t of [] \<Rightarrow> None | c # m \<Rightarrow> if c = CHR ''g'' then Some m else None)\<rparr>"

theorem stored_secret_roundtrip_witness:
  "decrypt_secret example_fernet default_settings
     (store_secret example_fernet default_settings 0 None (Some '' pw '')) = Inr (Some ''pw'')"
proof -
  have "fernet_ok example_fernet" by (simp add: fernet_ok_def example_fernet_def)
  from stored_secret_roundtrip [OF this, where v = "'' pw ''" and cfg = default_settings and nonce = 0
      and old = None, THEN conjunct1]
  show ?thesis by (simp add: str_eval)
qed

text \<open>Logo uploads: a validated upload is stored under a name that the page finds again, it is the
  only logo file afterwards whatever logos were there before, its content begins like an image of
  the declared type, and no other file of the directory is touched.\<close>

theorem logo_upload_replaces:
  assumes "validate_branding_upload content_type content max_bytes = Inr (extension, ct)"
    and "\<forall>n. (n, Subdir) \<in> set es \<longrightarrow> \<not> startswith n ''logo.''"
    and "save_uploaded_logo (Some es) extension content = (name, d)"
  shows "uploaded_logo_path d = Some name
    \<and> map_of allowed_branding_types content_type = Some extension
    \<and> int (length content) \<le> max_bytes \<and> detect_image_extension content = Inr extension
    \<and> (\<exists>es'. d = Some es' \<and> filter (\<lambda>e. startswith (fst e) ''logo.'') es' = [(name, File content)]
        \<and> filter (\<lambda>e. \<not> startswith (fst e) ''logo.'') es' = filter (\<lambda>e. \<not> startswith (fst e) ''logo.'') es)"
proof -
  from assms(1) have v: "map_of allowed_branding_types content_type = Some extension"
    "int (length content) \<le> max_bytes" "detect_image_extension content = Inr extension"
    by (auto simp: validate_branding_upload_def rbind_Inr_iff split: if_splits option.splits)
  have e: "extension \<in> {''.png'', ''.jpg'', ''.webp''}" by (rule detect_image_extension_Inr [OF v(3)])
  let ?rest = "filter (\<lambda>e. \<not> is_logo_file e) es"
  have d: "name = ''logo'' @ extension" "d = Some (?rest @ [(name, File content)])"
    using assms(3) by (auto simp: save_uploaded_logo_def clear_uploaded_logo_def Let_def)
  have rest: "\<not> startswith (fst x) ''logo.''" if "x \<in> set ?rest" for x
    using that assms(2) unfolding set_filter is_logo_file_def by (cases x) auto
  have n: "startswith name ''logo.''" using e d(1) by auto
  have "\<not> (''logo'' @ x) \<in> fst ` set ?rest" if "x \<in> {''.png'', ''.jpg'', ''.webp''}" for x
    using rest that by force
  then have "uploaded_logo_path d = Some name"
    using e d by (auto simp: uploaded_logo_path_def)
  moreover have "filter (\<lambda>e. startswith (fst e) ''logo.'') ?rest = []"
    using rest by (auto simp: filter_empty_conv)
  moreover have "filter (\<lambda>e. \<not> startswith (fst e) ''logo.'') ?rest
      = filter (\<lambda>e. \<not> startswith (fst e) ''logo.'') es"
    by (auto simp: is_logo_file_def intro!: filter_cong)
  ultimately show ?thesis using v d(2) n by auto
qed

theorem logo_upload_replaces_witness:
  "\<exists>name d. save_uploaded_logo (Some [(''logo.webp'', File ''x''), (''readme'', File ''y'')]) ''.jpg''
      [CHR 0xFF, CHR 0xD8, CHR 0xFF] = (name, d) \<and> uploaded_logo_path d = Some name"
proof -
  let ?c = "[CHR 0xFF, CHR 0xD8, CHR 0xFF]" and ?es = "[(''logo.webp'', File ''x''), (''readme'', File ''y'')]"
  have v: "validate_branding_upload ''image/jpeg'' ?c 100 = Inr (''.jpg'', ''image/jpeg'')"
    by (simp add: validate_branding_upload_def detect_image_extension_def allowed_branding_types_def)
  obtain name d where s: "save_uploaded_logo (Some ?es) ''.jpg'' ?c = (name, d)" by fastforce
  from logo_upload_replaces [OF v _ s] show ?thesis using s by auto
qed

end
