(* ===== verification/Device_Tokens.thy ===== *)
theory Device_Tokens
  imports Models Security Settings_Model
begin

text \<open>
  Device credentials and the backup schedule of a firewall: \<open>dashboard/app/services/device_tokens.py\<close>
  and \<open>dashboard/app/backups.py\<close>. Both work on one device row and the current instant; the
  random token and salt of a new credential are arguments.
\<close>

subsection \<open>services/device_tokens.py\<close>

definition device_token_expiry :: "settings \<Rightarrow> instant \<Rightarrow> instant" where
  "device_token_expiry cfg now = now + days (cfg_device_token_ttl_days cfg)"

definition issue_device_token ::
  "crypto \<Rightarrow> settings \<Rightarrow> string \<Rightarrow> string \<Rightarrow> instant \<Rightarrow> device \<Rightarrow> string \<times> device" where
  "issue_device_token cr cfg salt token now d =
     (token, d\<lparr>dev_device_token_hash := hash_secret cr salt token,
               dev_device_token_issued_at := now,
               dev_device_token_expires_at := device_token_expiry cfg now\<rparr>)"

definition device_token_is_expired :: "instant \<Rightarrow> device \<Rightarrow> bool" where
  "device_token_is_expired now d = (dev_device_token_expires_at d \<le> now)"

definition device_token_rotation_due :: "settings \<Rightarrow> instant \<Rightarrow> device \<Rightarrow> bool" where
  "device_token_rotation_due cfg now d =
     (let threshold = now + days (cfg_device_token_rotation_window_days cfg)
      in dev_device_token_expires_at d \<le> threshold)"

lemma issued_token_verifies:
  "issue_device_token cr cfg salt token now d = (t, d') \<Longrightarrow>
     t = token \<and> verify_secret cr t (dev_device_token_hash d')
     \<and> dev_device_token_issued_at d' = now
     \<and> dev_device_token_expires_at d' = now + days (cfg_device_token_ttl_days cfg)"
  by (auto simp: issue_device_token_def verify_hash_secret device_token_expiry_def)

lemma expired_rotation_due:
  "0 \<le> cfg_device_token_rotation_window_days cfg \<Longrightarrow> device_token_is_expired now d
     \<Longrightarrow> device_token_rotation_due cfg now d"
  by (simp add: device_token_is_expired_def device_token_rotation_due_def days_def)

subsection \<open>backups.py\<close>

definition backup_interval_delta :: "device \<Rightarrow> int" where
  "backup_interval_delta d =
     (let unit = lower (if dev_backup_interval_unit d = [] then ''hours'' else dev_backup_interval_unit d);
          value = max 1 (if dev_backup_interval_value d = 0 then 1 else dev_backup_interval_value d)
      in if unit = ''days'' then days value
         else if unit = ''months'' then days (value * 30)
         else hours value)"

definition backup_request_pending :: "device \<Rightarrow> bool" where
  "backup_request_pending d =
     (case dev_backup_last_requested_at d of
        None \<Rightarrow> False
      | Some requested_at \<Rightarrow>
          (case dev_backup_last_uploaded_at d of
             None \<Rightarrow> True
           | Some uploaded_at \<Rightarrow> uploaded_at < requested_at))"

definition backup_due :: "instant \<Rightarrow> device \<Rightarrow> bool" where
  "backup_due now d =
     (if \<not> dev_backup_enabled d then False
      else if backup_request_pending d then True
      else case dev_backup_last_uploaded_at d of
        None \<Rightarrow> True
      | Some uploaded_at \<Rightarrow> uploaded_at + backup_interval_delta d \<le> now)"

definition mark_device_backup_requested :: "instant \<Rightarrow> device \<Rightarrow> bool \<times> device" where
  "mark_device_backup_requested now d =
     (if backup_request_pending d then (True, d)
      else if \<not> backup_due now d then (False, d)
      else (True, d\<lparr>dev_backup_last_requested_at := Some now\<rparr>))"

lemma backup_interval_delta_pos: "hours 1 \<le> backup_interval_delta d"
  by (auto simp: backup_interval_delta_def Let_def time_defs)

lemma backup_due_mono: "backup_due now d \<Longrightarrow> now \<le> later \<Longrightarrow> backup_due later d"
  by (auto simp: backup_due_def split: option.splits if_splits)

lemma marked_pending:
  assumes "mark_device_backup_requested now d = (True, d')"
    and "\<forall>u. dev_backup_last_uploaded_at d = Some u \<longrightarrow> u < now"
  shows "backup_request_pending d'"
  using assms
  by (auto simp: mark_device_backup_requested_def backup_request_pending_def
      split: if_splits option.splits)

lemma mark_idempotent:
  assumes "mark_device_backup_requested now d = (True, d')"
    and "\<forall>u. dev_backup_last_uploaded_at d = Some u \<longrightarrow> u < now"
  shows "mark_device_backup_requested later d' = (True, d')"
  using marked_pending [OF assms] by (simp add: mark_device_backup_requested_def)

lemma mark_not_due:
  "mark_device_backup_requested now d = (False, d') \<Longrightarrow> d' = d \<and> \<not> backup_due now d"
  by (auto simp: mark_device_backup_requested_def split: if_splits)

lemma uploaded_clears_pending:
  assumes "dev_backup_last_requested_at d = Some r" and "r \<le> t"
  shows "\<not> backup_request_pending (d\<lparr>dev_backup_last_uploaded_at := Some t\<rparr>)"
  using assms by (simp add: backup_request_pending_def)

text \<open>The firewall that uploads at \<open>t\<close> is not asked again before its interval has passed.\<close>

lemma next_backup_after_interval:
  assumes "\<forall>r. dev_backup_last_requested_at d = Some r \<longrightarrow> r \<le> t" and "dev_backup_enabled d"
  shows "fst (mark_device_backup_requested now (d\<lparr>dev_backup_last_uploaded_at := Some t\<rparr>))
     \<longleftrightarrow> t + backup_interval_delta d \<le> now"
  using assms
  by (auto simp: mark_device_backup_requested_def backup_due_def backup_request_pending_def
      backup_interval_delta_def split: option.splits)

text \<open>The backup schedule: once a backup has been uploaded at \<open>t\<close> (after any pending request),
  a heartbeat at \<open>now\<close> asks the firewall for a new backup exactly when its interval, never less
  than an hour, has passed since \<open>t\<close>; and until that request is answered every further
  heartbeat asks again and leaves the row as it is.\<close>

theorem backup_schedule:
  assumes "dev_backup_enabled d" and "\<forall>r. dev_backup_last_requested_at d = Some r \<longrightarrow> r \<le> t"
  defines "u \<equiv> d\<lparr>dev_backup_last_uploaded_at := Some t\<rparr>"
  shows "hours 1 \<le> backup_interval_delta d
    \<and> (fst (mark_device_backup_requested now u) \<longleftrightarrow> t + backup_interval_delta d \<le> now)
    \<and> (fst (mark_device_backup_requested now u) \<longrightarrow>
        mark_device_backup_requested later (snd (mark_device_backup_requested now u))
          = (True, snd (mark_device_backup_requested now u)))"
proof (intro conjI impI)
  show pos: "hours 1 \<le> backup_interval_delta d" by (rule backup_interval_delta_pos)
  show due: "fst (mark_device_backup_requested now u) \<longleftrightarrow> t + backup_interval_delta d \<le> now"
    unfolding u_def by (rule next_backup_after_interval [OF assms(2,1)])
  show "mark_device_backup_requested later (snd (mark_device_backup_requested now u))
        = (True, snd (mark_device_backup_requested now u))"
    if "fst (mark_device_backup_requested now u)"
  proof (rule mark_idempotent)
    show "mark_device_backup_requested now u = (True, snd (mark_device_backup_requested now u))"
      using that by (metis prod.collapse)
    show "\<forall>v. dev_backup_last_uploaded_at u = Some v \<longrightarrow> v < now"
      using that due pos by (simp add: u_def hours_def)
  qed
qed

theorem backup_schedule_witness:
  "fst (mark_device_backup_requested (hours 24)
     ((default_device 1 0)\<lparr>dev_backup_enabled := True, dev_backup_last_uploaded_at := Some 0\<rparr>))"
  using backup_schedule [of "(default_device 1 0)\<lparr>dev_backup_enabled := True\<rparr>" 0 "hours 24" 0]
  by (simp add: default_device_def backup_interval_delta_def str_eval time_defs)

end
