(* ===== verification/Access.thy ===== *)
theory Access
  imports Common Device_Tokens
begin

text \<open>
  Who may do what: dashboard sessions (\<open>dashboard/app/services/auth_service.py\<close>), company roles
  (\<open>rbac.py\<close>), the audit log (\<open>audit.py\<close>) and the dependencies of the routers (\<open>deps.py\<close>). The
  current instant and fresh tokens are arguments; a database operation takes and returns the
  session.
\<close>

subsection \<open>rbac.py\<close>

definition role_order :: "(string \<times> int) list" where
  "role_order = [(''viewer'', 1), (''admin'', 2), (''owner'', 3)]"

definition is_global_admin :: "user \<Rightarrow> bool" where
  "is_global_admin u = (usr_role u = ''administrator'')"

definition get_company_role :: "hub_db \<Rightarrow> user \<Rightarrow> uuid \<Rightarrow> string option" where
  "get_company_role db u company_id =
     map_option cu_role
       (find (\<lambda>r. cu_user_id r = usr_id u \<and> cu_company_id r = company_id) (company_users db))"

definition has_company_role :: "hub_db \<Rightarrow> user \<Rightarrow> uuid \<Rightarrow> string \<Rightarrow> bool res" where
  "has_company_role db u company_id minimum =
     (case get_company_role db u company_id of
        None \<Rightarrow> Inr False
      | Some role \<Rightarrow>
          (case map_of role_order minimum of
             None \<Rightarrow> Inl KeyError
           | Some m \<Rightarrow>
               Inr ((case map_of role_order role of None \<Rightarrow> 0 | Some r \<Rightarrow> r) \<ge> m)))"

definition has_company_access :: "hub_db \<Rightarrow> user \<Rightarrow> uuid \<Rightarrow> string \<Rightarrow> bool res" where
  "has_company_access db u company_id minimum =
     (if is_global_admin u then Inr True else has_company_role db u company_id minimum)"

subsection \<open>services/auth_service.py\<close>

record cookie =
  ck_name :: string
  ck_value :: string
  ck_httponly :: bool
  ck_secure :: bool
  ck_samesite :: string
  ck_max_age :: int

definition set_session_cookie :: "settings \<Rightarrow> string \<Rightarrow> cookie" where
  "set_session_cookie cfg token =
     \<lparr>ck_name = cfg_session_cookie_name cfg, ck_value = token, ck_httponly = True,
      ck_secure = cfg_session_secure cfg, ck_samesite = ''lax'',
      ck_max_age = cfg_session_ttl_hours cfg * 3600\<rparr>"

definition create_user_session ::
  "crypto \<Rightarrow> settings \<Rightarrow> instant \<Rightarrow> string \<Rightarrow> user \<Rightarrow> request option \<Rightarrow> db_session
     \<Rightarrow> string \<times> db_session" where
  "create_user_session cr cfg now token u rq s0 =
     (case fresh_uuid s0 of (i, s) \<Rightarrow>
       (token, s\<lparr>work := (work s)\<lparr>sessions := sessions (work s) @
          [\<lparr>ses_id = i, ses_user_id = usr_id u,
            ses_token_hash = hash_session_token cr (cfg_secret_key cfg) token,
            ses_ip_address = map_option (client_ip cfg) rq,
            ses_user_agent = map_option (\<lambda>r. take 500 (or_empty (rq_headers r ''user-agent''))) rq,
            ses_created_at = now,
            ses_expires_at = now + hours (cfg_session_ttl_hours cfg),
            ses_revoked_at = None\<rparr>]\<rparr>\<rparr>))"

definition http_401 :: exn where
  "http_401 = HTTPException 401 ''Unauthorized''"

definition session_from_request ::
  "crypto \<Rightarrow> settings \<Rightarrow> instant \<Rightarrow> request \<Rightarrow> hub_db \<Rightarrow> session_token res" where
  "session_from_request cr cfg now rq db =
     (let token = rq_cookies rq (cfg_session_cookie_name cfg) in
      if \<not> nonempty token then Inl http_401
      else
        let token_hash = hash_session_token cr (cfg_secret_key cfg) (the token) in
        case find (\<lambda>r. ses_token_hash r = token_hash) (sessions db) of
          None \<Rightarrow> Inl http_401
        | Some session \<Rightarrow>
            if ses_revoked_at session \<noteq> None \<or> ses_expires_at session \<le> now then Inl http_401
            else Inr session)"

definition revoke_session_token :: "instant \<Rightarrow> session_token \<Rightarrow> hub_db \<Rightarrow> hub_db" where
  "revoke_session_token now session db =
     db\<lparr>sessions := update_where (\<lambda>r. ses_id r = ses_id session)
          (\<lambda>r. r\<lparr>ses_revoked_at := Some now\<rparr>) (sessions db)\<rparr>"

definition revoke_all_user_sessions :: "uuid \<Rightarrow> hub_db \<Rightarrow> hub_db" where
  "revoke_all_user_sessions user_id db =
     db\<lparr>sessions := filter (\<lambda>r. ses_user_id r \<noteq> user_id) (sessions db)\<rparr>"

definition linked_elsewhere :: exn where
  "linked_elsewhere = RuntimeError
     ''An account with this email is already linked to a different identity provider.''"

definition needs_linking :: exn where
  "needs_linking = RuntimeError
     ''An account with this email already exists and must be explicitly linked by an administrator.''"

definition upsert_external_user ::
  "crypto \<Rightarrow> instant \<Rightarrow> string \<Rightarrow> string \<Rightarrow> string \<Rightarrow> string option \<Rightarrow> string option
     \<Rightarrow> string option \<Rightarrow> string \<Rightarrow> db_session \<Rightarrow> (user \<times> db_session) res" where
  "upsert_external_user cr now salt random email first_name last_name role auth_provider s =
     (let normalized_email = lower (strip email) in
      case find (\<lambda>r. usr_email r = normalized_email) (users (work s)) of
        Some existing \<Rightarrow>
          if nonempty (usr_auth_provider existing) \<and> usr_auth_provider existing \<noteq> Some auth_provider
          then Inl linked_elsewhere
          else if usr_auth_provider existing = None then Inl needs_linking
          else
            let u = existing\<lparr>
                  usr_first_name := str_or (clean_optional first_name) (usr_first_name existing),
                  usr_last_name := str_or (clean_optional last_name) (usr_last_name existing),
                  usr_auth_provider := Some auth_provider,
                  usr_role := (if nonempty role then the role else usr_role existing)\<rparr>
            in Inr (u, s\<lparr>work := (work s)\<lparr>users :=
                 update_where (\<lambda>r. usr_id r = usr_id existing) (\<lambda>_. u) (users (work s))\<rparr>\<rparr>)
      | None \<Rightarrow>
          (case fresh_uuid s of (i, s') \<Rightarrow>
            let u = \<lparr>usr_id = i, usr_email = normalized_email,
                  usr_password_hash = hash_secret cr salt random,
                  usr_first_name = clean_optional first_name,
                  usr_last_name = clean_optional last_name,
                  usr_auth_provider = Some auth_provider,
                  usr_role = (if nonempty role then the role else ''user''),
                  usr_mfa_enabled = False, usr_mfa_secret = None, usr_created_at = now\<rparr>
            in Inr (u, s'\<lparr>work := (work s')\<lparr>users := users (work s') @ [u]\<rparr>\<rparr>)))"

subsection \<open>audit.py\<close>

definition should_write_audit ::
  "settings \<Rightarrow> instant \<Rightarrow> hub_db \<Rightarrow> string \<Rightarrow> uuid option \<Rightarrow> uuid option \<Rightarrow> bool" where
  "should_write_audit cfg now db action user_id device_id =
     (if action \<noteq> ''device.view'' then True
      else if user_id = None \<or> device_id = None \<or> cfg_audit_device_view_throttle_minutes cfg \<le> 0
      then True
      else
        let cutoff = now - minutes (cfg_audit_device_view_throttle_minutes cfg)
        in find (\<lambda>r. al_action r = action \<and> al_user_id r = user_id \<and> al_device_id r = device_id
                   \<and> al_created_at r \<ge> cutoff) (audit_logs db) = None)"

definition write_audit ::
  "settings \<Rightarrow> instant \<Rightarrow> request option \<Rightarrow> string \<Rightarrow> uuid option \<Rightarrow> uuid option \<Rightarrow> uuid option
     \<Rightarrow> db_session \<Rightarrow> bool \<times> db_session" where
  "write_audit cfg now rq action user_id company_id device_id s0 =
     (if \<not> should_write_audit cfg now (work s0) action user_id device_id then (False, s0)
      else case fresh_uuid s0 of (i, s) \<Rightarrow>
        (True, s\<lparr>work := (work s)\<lparr>audit_logs := audit_logs (work s) @
           [\<lparr>al_id = i, al_user_id = user_id, al_company_id = company_id,
             al_device_id = device_id, al_action = action,
             al_ip_address = map_option (client_ip cfg) rq,
             al_user_agent = (case rq of None \<Rightarrow> None | Some r \<Rightarrow> rq_headers r ''user-agent''),
             al_created_at = now\<rparr>]\<rparr>\<rparr>))"

subsection \<open>deps.py\<close>

definition current_user :: "crypto \<Rightarrow> settings \<Rightarrow> instant \<Rightarrow> request \<Rightarrow> hub_db \<Rightarrow> user res" where
  "current_user cr cfg now rq db =
     rbind (session_from_request cr cfg now rq db) (\<lambda>session.
       case get_user db (ses_user_id session) of
         None \<Rightarrow> Inl http_401
       | Some u \<Rightarrow> Inr u)"

definition ui_user :: "crypto \<Rightarrow> settings \<Rightarrow> instant \<Rightarrow> request \<Rightarrow> hub_db \<Rightarrow> user option res" where
  "ui_user cr cfg now rq db =
     (case current_user cr cfg now rq db of
        Inr u \<Rightarrow> Inr (Some u)
      | Inl (HTTPException c d) \<Rightarrow> Inr None
      | Inl e \<Rightarrow> Inl e)"

definition company_not_found :: exn where
  "company_not_found = HTTPException 404 ''company not found''"

definition require_company :: "hub_db \<Rightarrow> user \<Rightarrow> uuid \<Rightarrow> string \<Rightarrow> company res" where
  "require_company db u company_id minimum =
     (case get_company db company_id of
        None \<Rightarrow> Inl company_not_found
      | Some company \<Rightarrow>
          rbind (has_company_access db u company_id minimum) (\<lambda>ok.
            if \<not> ok then Inl company_not_found else Inr company))"

definition require_admin :: "user \<Rightarrow> unit res" where
  "require_admin u =
     (if usr_role u \<noteq> ''administrator''
      then Inl (HTTPException 403 ''administrator access required'') else Inr ())"

definition device_from_token ::
  "crypto \<Rightarrow> instant \<Rightarrow> hub_db \<Rightarrow> uuid \<Rightarrow> string option \<Rightarrow> device res" where
  "device_from_token cr now db device_id authorization =
     (if \<not> nonempty authorization \<or> \<not> startswith (the authorization) ''Bearer '' then Inl http_401
      else
        let token = strip (removeprefix (the authorization) ''Bearer '') in
        case get_device db device_id of
          None \<Rightarrow> Inl http_401
        | Some device \<Rightarrow>
            if dev_revoked_at device \<noteq> None then Inl (HTTPException 410 ''device revoked'')
            else if \<not> verify_secret cr token (dev_device_token_hash device) then Inl http_401
            else if device_token_is_expired now device
            then Inl (HTTPException 401 ''device token expired'')
            else Inr device)"

subsection \<open>Facts\<close>

definition role_rank :: "string \<Rightarrow> int" where
  "role_rank r = (case map_of role_order r of None \<Rightarrow> 0 | Some n \<Rightarrow> n)"

lemma has_company_access_known:
  assumes "minimum \<in> fst ` set role_order"
  shows "has_company_access db u c minimum = Inr (is_global_admin u
     \<or> (\<exists>role. get_company_role db u c = Some role \<and> role_rank minimum \<le> role_rank role))"
proof -
  obtain m where m: "map_of role_order minimum = Some m"
    using assms by (cases "map_of role_order minimum") (auto simp: map_of_eq_None_iff)
  show ?thesis
    by (cases "get_company_role db u c")
      (simp_all add: has_company_access_def has_company_role_def role_rank_def m)
qed

lemma require_company_cases:
  assumes "minimum \<in> fst ` set role_order"
  shows "require_company db u c minimum =
     (case get_company db c of
        Some company \<Rightarrow>
          if is_global_admin u \<or> (\<exists>role. get_company_role db u c = Some role
               \<and> role_rank minimum \<le> role_rank role)
          then Inr company else Inl company_not_found
      | None \<Rightarrow> Inl company_not_found)"
  by (auto simp: require_company_def has_company_access_known [OF assms] split: option.split)

lemma get_company_role_member:
  "get_company_role db u c = Some role \<Longrightarrow>
     \<exists>r\<in>set (company_users db). cu_user_id r = usr_id u \<and> cu_company_id r = c \<and> cu_role r = role"
  by (auto simp: get_company_role_def dest!: find_SomeD)

lemma session_from_request_Inr:
  "session_from_request cr cfg now rq db = Inr ses \<longleftrightarrow>
     (\<exists>token. token \<noteq> [] \<and> rq_cookies rq (cfg_session_cookie_name cfg) = Some token
        \<and> find (\<lambda>r. ses_token_hash r = hash_session_token cr (cfg_secret_key cfg) token) (sessions db)
            = Some ses
        \<and> ses_revoked_at ses = None \<and> now < ses_expires_at ses)"
proof (cases "rq_cookies rq (cfg_session_cookie_name cfg)")
  case None
  then show ?thesis by (simp add: session_from_request_def)
next
  case (Some token)
  then show ?thesis
    by (cases "find (\<lambda>r. ses_token_hash r = hash_session_token cr (cfg_secret_key cfg) token) (sessions db)")
      (auto simp: session_from_request_def not_le)
qed

lemma find_append: "find p (xs @ ys) = (case find p xs of None \<Rightarrow> find p ys | Some x \<Rightarrow> Some x)"
  by (induction xs) auto

lemma find_update_where:
  "(\<And>x. p (if q x then f x else x) = p x) \<Longrightarrow>
     find p (update_where q f xs) = map_option (\<lambda>x. if q x then f x else x) (find p xs)"
  by (induction xs) (auto simp: update_where_def)

lemma device_from_token_Inr:
  "device_from_token cr now db i authorization = Inr d \<longleftrightarrow>
     (\<exists>raw. authorization = Some (''Bearer '' @ raw) \<and> get_device db i = Some d
        \<and> dev_revoked_at d = None \<and> verify_secret cr (strip raw) (dev_device_token_hash d)
        \<and> now < dev_device_token_expires_at d)"
proof (cases authorization)
  case None
  then show ?thesis by (simp add: device_from_token_def)
next
  case (Some a)
  show ?thesis
  proof (cases "startswith a ''Bearer ''")
    case False
    then show ?thesis using Some by (auto simp: device_from_token_def startswith_iff)
  next
    case True
    then obtain raw where a: "a = ''Bearer '' @ raw" by (auto simp: startswith_iff)
    then have r: "removeprefix a ''Bearer '' = raw" using True by (simp add: removeprefix_def)
    show ?thesis using Some True a r
      by (cases "get_device db i") (auto simp: device_from_token_def device_token_is_expired_def not_le)
  qed
qed

lemma create_user_session_row:
  assumes "create_user_session cr cfg now token u rq s = (t, s')"
  shows "t = token" "\<exists>row. sessions (work s') = sessions (work s) @ [row]
     \<and> ses_id row = uuid_supply s \<and> ses_user_id row = usr_id u \<and> ses_revoked_at row = None
     \<and> ses_token_hash row = hash_session_token cr (cfg_secret_key cfg) token
     \<and> ses_expires_at row = now + hours (cfg_session_ttl_hours cfg)"
  using assms by (auto simp: create_user_session_def fresh_uuid_def)

lemma write_audit_view_again:
  assumes "write_audit cfg t rq ''device.view'' (Some u) c (Some d) s = (True, s')"
    and "0 < cfg_audit_device_view_throttle_minutes cfg"
    and "t \<le> t'" "t' \<le> t + minutes (cfg_audit_device_view_throttle_minutes cfg)"
  shows "write_audit cfg t' rq' ''device.view'' (Some u) c' (Some d) s' = (False, s')"
proof -
  have "\<exists>r\<in>set (audit_logs (work s')). al_action r = ''device.view'' \<and> al_user_id r = Some u
      \<and> al_device_id r = Some d \<and> al_created_at r = t"
    using assms(1) by (auto simp: write_audit_def fresh_uuid_def split: if_splits)
  then have "\<not> should_write_audit cfg t' (work s') ''device.view'' (Some u) (Some d)"
    using assms(2-4) by (auto simp: should_write_audit_def find_None_iff' Let_def)
  then show ?thesis by (simp add: write_audit_def)
qed

subsection \<open>Properties\<close>

text \<open>C3. Company authorization: access to a company at one of the three known roles is granted to a
  global administrator and to exactly those users who have a membership row for that company with
  a role of at least that rank; access at a role implies access at every lower one, and a refusal
  is the same 404 as for a company that does not exist.\<close>

theorem require_company_sound_complete:
  assumes "minimum \<in> {''viewer'', ''admin'', ''owner''}"
  shows "(require_company db u c minimum = Inr company \<longleftrightarrow>
      get_company db c = Some company
      \<and> (is_global_admin u
         \<or> (\<exists>role. get_company_role db u c = Some role \<and> role_rank minimum \<le> role_rank role)))
    \<and> (require_company db u c minimum = Inl e \<longrightarrow> e = HTTPException 404 ''company not found'')
    \<and> (has_company_access db u c ''owner'' = Inr True \<longrightarrow> has_company_access db u c minimum = Inr True)
    \<and> (has_company_access db u c minimum = Inr True \<longrightarrow> has_company_access db u c ''viewer'' = Inr True)"
proof (intro conjI impI)
  have m: "minimum \<in> fst ` set role_order" using assms by (auto simp: role_order_def)
  have o: "''owner'' \<in> fst ` set role_order" "''viewer'' \<in> fst ` set role_order"
    by (simp_all add: role_order_def)
  have r: "role_rank ''viewer'' \<le> role_rank minimum" "role_rank minimum \<le> role_rank ''owner''"
    using assms by (auto simp: role_rank_def role_order_def)
  show "require_company db u c minimum = Inr company \<longleftrightarrow>
      get_company db c = Some company
      \<and> (is_global_admin u
         \<or> (\<exists>role. get_company_role db u c = Some role \<and> role_rank minimum \<le> role_rank role))"
    by (auto simp: require_company_cases [OF m] split: option.splits if_splits)
  show "require_company db u c minimum = Inl e \<Longrightarrow> e = HTTPException 404 ''company not found''"
    by (auto simp: require_company_cases [OF m] company_not_found_def split: option.splits if_splits)
  show "has_company_access db u c ''owner'' = Inr True \<Longrightarrow> has_company_access db u c minimum = Inr True"
    using r(2) by (auto simp: has_company_access_known [OF m] has_company_access_known [OF o(1)])
  show "has_company_access db u c minimum = Inr True \<Longrightarrow> has_company_access db u c ''viewer'' = Inr True"
    using r(1) by (auto simp: has_company_access_known [OF m] has_company_access_known [OF o(2)])
qed

theorem require_company_sound_complete_witness:
  "require_company (empty_db\<lparr>companies := [\<lparr>com_id = 7, com_name = ''acme'', com_created_at = 0\<rparr>],
       company_users := [\<lparr>cu_company_id = 7, cu_user_id = 1, cu_role = ''admin'', cu_created_at = 0\<rparr>]\<rparr>)
     \<lparr>usr_id = 1, usr_email = ''a@b.c'', usr_password_hash = [], usr_first_name = None,
       usr_last_name = None, usr_auth_provider = None, usr_role = ''user'', usr_mfa_enabled = False,
       usr_mfa_secret = None, usr_created_at = 0\<rparr> 7 ''admin''
   = Inr \<lparr>com_id = 7, com_name = ''acme'', com_created_at = 0\<rparr>"
  by (subst require_company_sound_complete [THEN conjunct1])
    (simp_all add: get_company_def get_company_role_def role_rank_def role_order_def empty_db_def)

text \<open>C4. Device authentication: a heartbeat or backup request is served for a device row exactly
  when its \<open>Authorization\<close> header is a bearer token that verifies against the stored hash of that
  device, the device has not been revoked and its token has not expired. A token issued at \<open>t\<close>
  authenticates its device at every instant before \<open>t\<close> plus the configured number of days, and
  at none after.\<close>

theorem device_authentication:
  shows "(device_from_token cr now db i authorization = Inr d \<longleftrightarrow>
     (\<exists>raw. authorization = Some (''Bearer '' @ raw) \<and> get_device db i = Some d
        \<and> dev_revoked_at d = None \<and> verify_secret cr (strip raw) (dev_device_token_hash d)
        \<and> now < dev_device_token_expires_at d))
    \<and> (issue_device_token cr cfg salt token t d0 = (tok, d) \<and> strip token = token
        \<and> get_device db i = Some d \<and> dev_revoked_at d0 = None \<longrightarrow>
      (device_from_token cr now db i (Some (''Bearer '' @ tok)) = Inr d
        \<longleftrightarrow> now < t + days (cfg_device_token_ttl_days cfg)))"
proof (rule conjI [OF device_from_token_Inr], intro impI)
  assume a: "issue_device_token cr cfg salt token t d0 = (tok, d) \<and> strip token = token
      \<and> get_device db i = Some d \<and> dev_revoked_at d0 = None"
  then have i: "issue_device_token cr cfg salt token t d0 = (tok, d)" by simp
  have "dev_revoked_at d = dev_revoked_at d0" using i by (auto simp: issue_device_token_def)
  then show "device_from_token cr now db i (Some (''Bearer '' @ tok)) = Inr d
        \<longleftrightarrow> now < t + days (cfg_device_token_ttl_days cfg)"
    using a issued_token_verifies [OF i] by (auto simp: device_from_token_Inr)
qed

definition example_crypto :: crypto where
  "example_crypto = \<lparr>pbkdf2_sha256 = (\<lambda>s salt n. s @ salt), hmac_sha1 = (\<lambda>k m. k @ m),
     hmac_sha256 = (\<lambda>k m. k @ m)\<rparr>"

theorem device_authentication_witness:
  "\<exists>d. device_from_token example_crypto 5 (empty_db\<lparr>devices := [d]\<rparr>) 1 (Some ''Bearer tok'') = Inr d"
proof -
  obtain tok d where i: "issue_device_token example_crypto default_settings ''salt'' ''tok'' 0
      (default_device 1 0) = (tok, d)" by (cases "issue_device_token example_crypto default_settings
      ''salt'' ''tok'' 0 (default_device 1 0)")
  then have d: "dev_id d = 1" "tok = ''tok''" by (auto simp: issue_device_token_def default_device_def)
  have revoked: "dev_revoked_at (default_device i n) = None" for i n
    by (simp add: default_device_def)
  have "device_from_token example_crypto 5 (empty_db\<lparr>devices := [d]\<rparr>) 1 (Some (''Bearer '' @ tok)) = Inr d
      \<longleftrightarrow> 5 < 0 + days (cfg_device_token_ttl_days default_settings)"
    by (rule device_authentication [where salt = "''salt''" and token = "''tok''"
        and ?d0.0 = "default_device 1 0", THEN conjunct2, rule_format])
      (use i d(2) in \<open>simp add: str_eval get_device_def d(1) revoked\<close>)
  then show ?thesis using d by (auto simp: default_settings_def days_def)
qed

text \<open>C5. Dashboard sessions: after a login at \<open>t\<close> the returned cookie authenticates as that user at
  every instant before the session's time to live has passed and at none after; a session revoked
  or a user whose sessions were all revoked is refused. The hypothesis says that the new
  session's token hash is not in the table yet (48 random bytes).\<close>

theorem session_lifecycle:
  assumes create: "create_user_session cr cfg t token u from s = (tok, s')"
    and fresh: "\<forall>r\<in>set (sessions (work s)). ses_token_hash r \<noteq> hash_session_token cr (cfg_secret_key cfg) token"
    and cookie: "rq_cookies rq (cfg_session_cookie_name cfg) = Some tok" "tok \<noteq> []"
  shows "((\<exists>ses. session_from_request cr cfg now rq (work s') = Inr ses \<and> ses_user_id ses = usr_id u)
        \<longleftrightarrow> now < t + hours (cfg_session_ttl_hours cfg))
    \<and> (session_from_request cr cfg now rq (work s') = Inr ses \<longrightarrow>
      session_from_request cr cfg later rq (revoke_session_token now ses (work s')) = Inl http_401)
    \<and> session_from_request cr cfg now rq (revoke_all_user_sessions (usr_id u) (work s')) = Inl http_401"
proof (intro conjI impI)
  from create_user_session_row [OF create] obtain row where t: "tok = token"
    and row: "sessions (work s') = sessions (work s) @ [row]" "ses_user_id row = usr_id u"
      "ses_revoked_at row = None" "ses_token_hash row = hash_session_token cr (cfg_secret_key cfg) token"
      "ses_expires_at row = t + hours (cfg_session_ttl_hours cfg)" by blast
  let ?p = "\<lambda>r. ses_token_hash r = hash_session_token cr (cfg_secret_key cfg) token"
  have none: "find ?p (sessions (work s)) = None" using fresh by (simp add: find_None_iff')
  then have found: "find ?p (sessions (work s')) = Some row" by (simp add: row find_append)
  show "(\<exists>ses. session_from_request cr cfg now rq (work s') = Inr ses \<and> ses_user_id ses = usr_id u)
      \<longleftrightarrow> now < t + hours (cfg_session_ttl_hours cfg)"
    using cookie found row by (auto simp: session_from_request_Inr t)
  show "session_from_request cr cfg later rq (revoke_session_token now ses (work s')) = Inl http_401"
    if "session_from_request cr cfg now rq (work s') = Inr ses"
  proof -
    have "ses = row" using that found cookie by (auto simp: session_from_request_Inr t)
    moreover have "find ?p (sessions (revoke_session_token now ses (work s')))
        = map_option (\<lambda>r. if ses_id r = ses_id ses then r\<lparr>ses_revoked_at := Some now\<rparr> else r)
            (find ?p (sessions (work s')))"
      by (simp add: revoke_session_token_def find_update_where)
    ultimately show ?thesis using cookie found by (simp add: session_from_request_def t Let_def)
  qed
  have "find ?p (sessions (revoke_all_user_sessions (usr_id u) (work s'))) = None"
    using fresh by (auto simp: find_None_iff' revoke_all_user_sessions_def row)
  then show "session_from_request cr cfg now rq (revoke_all_user_sessions (usr_id u) (work s')) = Inl http_401"
    using cookie by (simp add: session_from_request_def t Let_def)
qed

theorem session_lifecycle_witness:
  "\<exists>s' ses. session_from_request example_crypto default_settings 5
      \<lparr>rq_method = ''GET'', rq_path = ''/'', rq_client = None, rq_headers = (\<lambda>_. None),
        rq_cookies = (\<lambda>_. Some ''tok''), rq_hostname = None\<rparr> s' = Inr ses \<and> ses_user_id ses = 3"
proof -
  let ?rq = "\<lparr>rq_method = ''GET'', rq_path = ''/'', rq_client = None, rq_headers = (\<lambda>_. None),
        rq_cookies = (\<lambda>_. Some ''tok''), rq_hostname = None\<rparr>"
  let ?u = "\<lparr>usr_id = 3, usr_email = ''a@b.c'', usr_password_hash = [], usr_first_name = None,
       usr_last_name = None, usr_auth_provider = None, usr_role = ''user'', usr_mfa_enabled = False,
       usr_mfa_secret = None, usr_created_at = 0\<rparr>"
  obtain tok s' where c: "create_user_session example_crypto default_settings 0 ''tok'' ?u None
      (open_session empty_db 1) = (tok, s')"
    by (cases "create_user_session example_crypto default_settings 0 ''tok'' ?u None
      (open_session empty_db 1)")
  have "tok = ''tok''" using c by (auto simp: create_user_session_def fresh_uuid_def)
  then have "(\<exists>ses. session_from_request example_crypto default_settings 5 ?rq (work s') = Inr ses
      \<and> ses_user_id ses = usr_id ?u) \<longleftrightarrow> 5 < 0 + hours (cfg_session_ttl_hours default_settings)"
    by (intro session_lifecycle [OF c, THEN conjunct1])
      (simp_all add: open_session_def empty_db_def)
  then show ?thesis by (auto simp: default_settings_def hours_def)
qed

text \<open>The audit throttle: a device view that was audited at \<open>t\<close> is not audited again for the same
  user and device until the configured number of minutes has passed, and the transaction is
  left as it was; every other action is always audited.\<close>

theorem audit_throttle:
  assumes "write_audit cfg t rq ''device.view'' (Some u) c (Some d) s = (True, s')"
    and "0 < cfg_audit_device_view_throttle_minutes cfg"
    and "t \<le> t'" "t' \<le> t + minutes (cfg_audit_device_view_throttle_minutes cfg)"
  shows "write_audit cfg t' rq' ''device.view'' (Some u) c' (Some d) s' = (False, s')
    \<and> (action \<noteq> ''device.view'' \<longrightarrow> fst (write_audit cfg t' rq' action u' c' d' s'))"
  using write_audit_view_again [OF assms]
  by (auto simp: write_audit_def should_write_audit_def split: prod.splits)

theorem audit_throttle_witness:
  "\<exists>s'. write_audit default_settings (minutes 1) None ''device.view'' (Some 1) None (Some 2) s' = (False, s')"
proof -
  obtain b s' where w: "write_audit default_settings 0 None ''device.view'' (Some 1) None (Some 2)
      (open_session empty_db 1) = (b, s')"
    by (cases "write_audit default_settings 0 None ''device.view'' (Some 1) None (Some 2)
      (open_session empty_db 1)")
  then have "b" by (auto simp: write_audit_def should_write_audit_def open_session_def empty_db_def
        fresh_uuid_def Let_def split: if_splits)
  with w have "write_audit default_settings 0 None ''device.view'' (Some 1) None (Some 2)
      (open_session empty_db 1) = (True, s')" by simp
  from audit_throttle [OF this, of "minutes 1", THEN conjunct1]
  show ?thesis by (auto simp: default_settings_def minutes_def)
qed

end
