(* ===== verification/Py_Datetime.thy ===== *)
theory Py_Datetime
  imports Hub_Prelude
begin

text \<open>
  Calendar dates and their printing. An instant is a number of microseconds since the epoch; the
  date of a day number is found by the 400-year cycle of the Gregorian calendar, counted from the
  first of March of the year 0. The application's time zone is a record of the offset and the
  abbreviation at each instant (\<open>zoneinfo\<close> reads them from the time zone database).
\<close>

record time_zone =
  tz_offset :: "instant \<Rightarrow> int"
  tz_name :: "instant \<Rightarrow> string"

definition utc_zone :: time_zone where
  "utc_zone = \<lparr>tz_offset = (\<lambda>_. 0), tz_name = (\<lambda>_. ''UTC'')\<rparr>"

definition local_time :: "time_zone \<Rightarrow> instant \<Rightarrow> int" where
  "local_time tz t = t + tz_offset tz t"

definition local_day :: "time_zone \<Rightarrow> instant \<Rightarrow> int" where
  "local_day tz t = utc_day (local_time tz t)"

definition local_hour :: "time_zone \<Rightarrow> instant \<Rightarrow> int" where
  "local_hour tz t = local_time tz t div 3600000000 mod 24"

definition local_minute :: "time_zone \<Rightarrow> instant \<Rightarrow> int" where
  "local_minute tz t = local_time tz t div 60000000 mod 60"

definition civil_from_days :: "int \<Rightarrow> int \<times> int \<times> int" where
  "civil_from_days day =
     (let z = day + 719468;
          era = z div 146097;
          doe = z mod 146097;
          yoe = (doe - doe div 1460 + doe div 36524 - doe div 146096) div 365;
          doy = doe - (365 * yoe + yoe div 4 - yoe div 100);
          mp = (5 * doy + 2) div 153;
          d = doy - (153 * mp + 2) div 5 + 1;
          m = (if mp < 10 then mp + 3 else mp - 9)
      in (yoe + era * 400 + (if m \<le> 2 then 1 else 0), m, d))"

definition pad2 :: "int \<Rightarrow> string" where
  "pad2 n = (if n < 10 then ''0'' @ int_str n else int_str n)"

text \<open>\<open>%m-%d-%Y\<close> of a day, and \<open>%Y-%m-%d %H:%M\<close> of an instant.\<close>

definition date_mdy :: "int \<Rightarrow> string" where
  "date_mdy day = (case civil_from_days day of (y, m, d) \<Rightarrow>
     pad2 m @ ''-'' @ pad2 d @ ''-'' @ int_str y)"

definition date_ymd :: "int \<Rightarrow> string" where
  "date_ymd day = (case civil_from_days day of (y, m, d) \<Rightarrow>
     int_str y @ ''-'' @ pad2 m @ ''-'' @ pad2 d)"

definition format_datetime :: "time_zone \<Rightarrow> instant option \<Rightarrow> bool \<Rightarrow> string" where
  "format_datetime tz value include_tz =
     (case value of
        None \<Rightarrow> []
      | Some t \<Rightarrow>
          date_ymd (local_day tz t) @ '' '' @ pad2 (local_hour tz t) @ '':'' @ pad2 (local_minute tz t)
            @ (if include_tz then '' '' @ tz_name tz t else []))"

definition format_datetime_local_input :: "time_zone \<Rightarrow> instant option \<Rightarrow> string" where
  "format_datetime_local_input tz value =
     (case value of
        None \<Rightarrow> []
      | Some t \<Rightarrow>
          date_ymd (local_day tz t) @ ''T'' @ pad2 (local_hour tz t) @ '':'' @ pad2 (local_minute tz t))"

lemma civil_leap_day: "civil_from_days 19782 = (2024, 2, 29)" "civil_from_days 0 = (1970, 1, 1)"
  unfolding civil_from_days_def Let_def by simp_all

end
