(* ===== verification/Notifications.thy ===== *)
theory Notifications
  imports Access Py_Datetime
begin

text \<open>
  E-mail notifications: \<open>dashboard/app/services/notification_service.py\<close>. The mail transports
  (\<open>smtplib\<close>, the Microsoft Graph API over \<open>httpx\<close>) are the functions of a record on a state the
  model does not look into; \<^const>\<open>None\<close> is success and \<^term>\<open>Some e\<close> the exception they
  raise. An operation on a device takes and returns the row; its caller stores it.
\<close>

record 'm mail_env =
  smtp_connect :: "string \<Rightarrow> int \<Rightarrow> 'm \<Rightarrow> exn option \<times> 'm"
  smtp_deliver :: "(string \<times> string) option \<Rightarrow> string \<Rightarrow> string \<Rightarrow> string \<Rightarrow> string \<Rightarrow> 'm \<Rightarrow> exn option \<times> 'm"
  graph_token :: "string \<Rightarrow> (string \<times> string option) list \<Rightarrow> 'm \<Rightarrow> string res \<times> 'm"
  graph_send :: "string \<Rightarrow> string \<Rightarrow> string \<Rightarrow> string \<Rightarrow> string \<Rightarrow> 'm \<Rightarrow> exn option \<times> 'm"

record notify_ctx =
  nc_cfg :: settings
  nc_fernet :: fernet
  nc_tz :: time_zone

definition unit_of :: "exn option \<Rightarrow> unit res" where
  "unit_of r = (case r of None \<Rightarrow> Inr () | Some e \<Rightarrow> Inl e)"

text \<open>A header value with a line break is refused by \<open>EmailMessage\<close>.\<close>

definition header_ok :: "string \<Rightarrow> bool" where
  "header_ok s = (CHR 0x0A \<notin> set s \<and> CHR 0x0D \<notin> set s)"

definition send_smtp_email ::
  "'m mail_env \<Rightarrow> notify_ctx \<Rightarrow> integration_settings \<Rightarrow> string \<Rightarrow> string \<Rightarrow> string \<Rightarrow> ('m, unit) act" where
  "send_smtp_email me nc i to_email subject body =
     (if \<not> nonempty (ints_smtp_host i) \<or> ints_smtp_port i = None \<or> \<not> nonempty (ints_smtp_from i)
      then araise (RuntimeError ''SMTP settings are incomplete'')
      else if \<not> (header_ok (the (ints_smtp_from i)) \<and> header_ok to_email \<and> header_ok subject)
      then araise ValueError
      else
        aseq (\<lambda>m. case smtp_connect me (the (ints_smtp_host i)) (the (ints_smtp_port i)) m of
                (r, m') \<Rightarrow> (unit_of r, m'))
       (abind (alift (decrypt_secret (nc_fernet nc) (nc_cfg nc) (ints_smtp_password i))) (\<lambda>pw m.
          case smtp_deliver me
              (if nonempty (ints_smtp_username i) \<and> nonempty pw
               then Some (the (ints_smtp_username i), the pw) else None)
              (the (ints_smtp_from i)) to_email subject body m of
            (r, m') \<Rightarrow> (unit_of r, m'))))"

definition send_graph_email ::
  "'m mail_env \<Rightarrow> notify_ctx \<Rightarrow> integration_settings \<Rightarrow> string \<Rightarrow> string \<Rightarrow> string \<Rightarrow> ('m, unit) act" where
  "send_graph_email me nc i to_email subject body =
     (let token_url = ''https://login.microsoftonline.com/''
            @ (case ints_graph_tenant_id i of None \<Rightarrow> ''None'' | Some t \<Rightarrow> t) @ ''/oauth2/v2.0/token'' in
      abind (alift (decrypt_secret (nc_fernet nc) (nc_cfg nc) (ints_graph_client_secret i))) (\<lambda>secret.
      abind (\<lambda>m. graph_token me token_url
          [(''grant_type'', Some ''client_credentials''), (''client_id'', ints_graph_client_id i),
           (''client_secret'', secret), (''scope'', Some ''https://graph.microsoft.com/.default'')] m)
        (\<lambda>access_token m.
          case graph_send me (''https://graph.microsoft.com/v1.0/users/''
              @ quote_with [] (case ints_graph_sender i of None \<Rightarrow> ''None'' | Some t \<Rightarrow> t) @ ''/sendMail'')
              (''Bearer '' @ access_token) to_email subject body m of
            (r, m') \<Rightarrow> (unit_of r, m'))))"

type_synonym 'm mail_state = "db_session \<times> 'm"

definition send_notification_email ::
  "'m mail_env \<Rightarrow> notify_ctx \<Rightarrow> instant \<Rightarrow> string \<Rightarrow> string \<Rightarrow> string \<Rightarrow> ('m mail_state, unit) act" where
  "send_notification_email me nc now to_email subject body = (\<lambda>(s, m).
     case get_or_create_integration_settings now s of (i, s') \<Rightarrow>
       if smtp_email_configured (Some i) then
         (case send_smtp_email me nc i to_email subject body m of (r, m') \<Rightarrow> (r, s', m'))
       else if graph_email_configured (Some i) then
         (case send_graph_email me nc i to_email subject body m of (r, m') \<Rightarrow> (r, s', m'))
       else (Inl (RuntimeError ''email settings are not configured''), s', m))"

definition send_security_alert_email ::
  "'m mail_env \<Rightarrow> notify_ctx \<Rightarrow> instant \<Rightarrow> string \<Rightarrow> string \<Rightarrow> 'm mail_state \<Rightarrow> bool \<times> 'm mail_state" where
  "send_security_alert_email me nc now subject body st =
     (if \<not> cfg_security_alert_email_enabled (nc_cfg nc) then (False, st)
      else case clean_optional (Some (cfg_initial_admin_email (nc_cfg nc))) of
        None \<Rightarrow> (False, st)
      | Some target \<Rightarrow>
          (case send_notification_email me nc now target subject body st of
             (Inl e, st') \<Rightarrow> (False, st')
           | (Inr _, st') \<Rightarrow> (True, st')))"

definition maintenance_window_active :: "instant \<Rightarrow> device \<Rightarrow> bool" where
  "maintenance_window_active now d =
     (case dev_maintenance_until d of None \<Rightarrow> False | Some t \<Rightarrow> t > now)"

definition health_notification_status_label :: "string \<Rightarrow> string" where
  "health_notification_status_label status = (if status = ''offline'' then ''critical'' else status)"

definition should_notify_for_health_status :: "device \<Rightarrow> string \<Rightarrow> bool" where
  "should_notify_for_health_status d new_status =
     (if new_status = ''warning'' then dev_email_notify_on_warning d
      else if new_status = ''offline'' then dev_email_notify_on_critical d
      else False)"

definition text_lines :: "string list \<Rightarrow> string" where
  "text_lines ls = join [CHR 0x0A] ls"

definition company_name_or_unknown :: "company option \<Rightarrow> string" where
  "company_name_or_unknown c = (case c of None \<Rightarrow> ''Unknown'' | Some r \<Rightarrow> com_name r)"

definition time_or :: "time_zone \<Rightarrow> instant option \<Rightarrow> string \<Rightarrow> string" where
  "time_or tz t alt = (case t of None \<Rightarrow> alt | Some _ \<Rightarrow> format_datetime tz t True)"

definition build_health_notification_email ::
  "time_zone \<Rightarrow> device \<Rightarrow> company option \<Rightarrow> string \<Rightarrow> string \<Rightarrow> instant \<Rightarrow> string \<times> string" where
  "build_health_notification_email tz d company previous_status new_status current_time =
     (let display_status = health_notification_status_label new_status in
      (''[OPNsense Hub] Firewall status '' @ display_status @ '': '' @ dev_hostname d,
       text_lines
         [''Firewall: '' @ dev_hostname d,
          ''Company: '' @ company_name_or_unknown company,
          ''Status: '' @ display_status,
          ''Previous status: '' @ previous_status,
          ''Tunnel IP: '' @ dev_wg_tunnel_ip d,
          ''Last seen: '' @ time_or tz (dev_last_seen_at d) ''Never'',
          ''Time: '' @ format_datetime tz (Some current_time) True,
          [],
          ''This alert was sent because email notifications are enabled for this firewall in OPNsense Hub.'']))"

text \<open>\<open>email_sender or send_notification_email\<close>: the caller passes the sender it uses.\<close>

type_synonym 'm sender = "string \<Rightarrow> string \<Rightarrow> string \<Rightarrow> ('m mail_state, unit) act"

definition maybe_send_health_notification ::
  "notify_ctx \<Rightarrow> 'm sender \<Rightarrow> string \<Rightarrow> string \<Rightarrow> instant \<Rightarrow> device \<Rightarrow> 'm mail_state
     \<Rightarrow> bool \<times> device \<times> 'm mail_state" where
  "maybe_send_health_notification nc sender previous_status new_status current_time d st =
     (if dev_revoked_at d \<noteq> None \<or> previous_status = new_status then (False, d, st)
      else if \<not> dev_email_notifications_enabled d then (False, d, st)
      else if maintenance_window_active current_time d then (False, d, st)
      else case clean_optional (dev_email_notification_recipient d) of
        None \<Rightarrow> (False, d, st)
      | Some recipient \<Rightarrow>
          (case get_or_create_integration_settings current_time (fst st) of (i, s1) \<Rightarrow>
             let st1 = (s1, snd st) in
             if \<not> email_settings_configured (Some i) then (False, d, st1)
             else if \<not> should_notify_for_health_status d new_status then (False, d, st1)
             else
               (case build_health_notification_email (nc_tz nc) d
                       (get_company (work s1) (dev_company_id d)) previous_status new_status current_time of
                  (subject, body) \<Rightarrow>
                    (case sender recipient subject body st1 of
                       (Inl e, s2, m2) \<Rightarrow>
                         (False, d, add_device_event current_time (dev_id d) ''email_notification_failed''
                            (take 1000 (''Could not send health status email notification: '' @ exn_class e)) s2, m2)
                     | (Inr _, s2, m2) \<Rightarrow>
                         (True, d\<lparr>dev_email_last_notified_status := Some new_status,
                                  dev_email_last_notified_at := Some current_time\<rparr>,
                          add_device_event current_time (dev_id d) ''email_notification_sent''
                            (take 1000 (''Health status notification sent for ''
                               @ health_notification_status_label new_status)) s2, m2)))))"

definition device_rule_recipient :: "device \<Rightarrow> integration_settings \<Rightarrow> string option" where
  "device_rule_recipient d i =
     (if \<not> dev_email_notifications_enabled d then None
      else if \<not> email_settings_configured (Some i) then None
      else clean_optional (dev_email_notification_recipient d))"

definition send_device_rule_notification ::
  "'m sender \<Rightarrow> instant \<Rightarrow> string \<Rightarrow> string \<Rightarrow> string \<Rightarrow> string \<Rightarrow> device \<Rightarrow> 'm mail_state
     \<Rightarrow> bool \<times> device \<times> 'm mail_state" where
  "send_device_rule_notification sender current_time subject body event_message failure_context d st =
     (case clean_optional (dev_email_notification_recipient d) of
        None \<Rightarrow> (False, d, st)
      | Some recipient \<Rightarrow>
          (case sender recipient subject body st of
             (Inl e, s2, m2) \<Rightarrow>
               (False, d, add_device_event current_time (dev_id d) ''email_notification_failed''
                  (take 1000 (''Could not send '' @ failure_context @ '' notification: '' @ exn_class e)) s2, m2)
           | (Inr _, s2, m2) \<Rightarrow>
               (True, d\<lparr>dev_email_last_notified_status := Some (take 30 event_message),
                        dev_email_last_notified_at := Some current_time\<rparr>,
                add_device_event current_time (dev_id d) ''email_notification_sent''
                  (take 1000 event_message) s2, m2)))"

text \<open>
  The three rules of \<open>maybe_send_phase2_device_notifications\<close>: a rule that applies sends a mail
  unless it was already sent, and remembers when; a rule that does not apply forgets.
\<close>

definition backup_overdue_rule ::
  "notify_ctx \<Rightarrow> 'm sender \<Rightarrow> company option \<Rightarrow> bool \<Rightarrow> instant \<Rightarrow> device \<times> 'm mail_state
     \<Rightarrow> device \<times> 'm mail_state" where
  "backup_overdue_rule nc sender company backup_overdue current_time = (\<lambda>(d, st).
     if backup_overdue then
       if dev_email_notify_on_backup_overdue d \<and> dev_backup_overdue_notified_at d = None then
         (case send_device_rule_notification sender current_time
             (''[OPNsense Hub] Backup overdue: '' @ dev_hostname d)
             (text_lines
               [''Firewall: '' @ dev_hostname d,
                ''Company: '' @ company_name_or_unknown company,
                ''Backup status: overdue'',
                ''Last backup: '' @ time_or (nc_tz nc) (dev_backup_last_uploaded_at d) ''Never'',
                ''Time: '' @ format_datetime (nc_tz nc) (Some current_time) True])
             ''Backup overdue notification sent'' ''backup overdue'' d st of
           (sent, d', st') \<Rightarrow>
             (if sent then d'\<lparr>dev_backup_overdue_notified_at := Some current_time\<rparr> else d', st'))
       else (d, st)
     else (d\<lparr>dev_backup_overdue_notified_at := None\<rparr>, st))"

definition license_expiring_rule ::
  "notify_ctx \<Rightarrow> 'm sender \<Rightarrow> company option \<Rightarrow> bool \<Rightarrow> instant \<Rightarrow> device \<times> 'm mail_state
     \<Rightarrow> device \<times> 'm mail_state" where
  "license_expiring_rule nc sender company license_expiring current_time = (\<lambda>(d, st).
     if license_expiring then
       let should_send_license =
         dev_email_notify_on_license_expiring d
         \<and> (case dev_license_expiring_notified_at d of
              None \<Rightarrow> True
            | Some n \<Rightarrow> (case dev_license_expires_at d of None \<Rightarrow> False | Some e \<Rightarrow> n < e)) in
       if should_send_license then
         (case send_device_rule_notification sender current_time
             (''[OPNsense Hub] License expiring: '' @ dev_hostname d)
             (text_lines
               [''Firewall: '' @ dev_hostname d,
                ''Company: '' @ company_name_or_unknown company,
                ''License expiration: '' @ time_or (nc_tz nc) (dev_license_expires_at d) ''Unknown'',
                ''Time: '' @ format_datetime (nc_tz nc) (Some current_time) True])
             ''License expiring notification sent'' ''license expiring'' d st of
           (sent, d', st') \<Rightarrow>
             (if sent then d'\<lparr>dev_license_expiring_notified_at := Some current_time\<rparr> else d', st'))
       else (d, st)
     else (d\<lparr>dev_license_expiring_notified_at := None\<rparr>, st))"

definition or_unknown :: "string option \<Rightarrow> string" where
  "or_unknown v = (if nonempty v then the v else ''Unknown'')"

definition firmware_available_rule ::
  "notify_ctx \<Rightarrow> 'm sender \<Rightarrow> company option \<Rightarrow> bool \<Rightarrow> instant \<Rightarrow> device \<times> 'm mail_state
     \<Rightarrow> device \<times> 'm mail_state" where
  "firmware_available_rule nc sender company firmware_available current_time = (\<lambda>(d, st).
     if firmware_available then
       let should_send_firmware =
         dev_email_notify_on_firmware_available d
         \<and> (case dev_firmware_available_notified_at d of
              None \<Rightarrow> True
            | Some n \<Rightarrow> (case dev_firmware_checked_at d of None \<Rightarrow> False | Some c \<Rightarrow> n < c)) in
       if should_send_firmware then
         (case send_device_rule_notification sender current_time
             (''[OPNsense Hub] Firmware available: '' @ dev_hostname d)
             (text_lines
               [''Firewall: '' @ dev_hostname d,
                ''Company: '' @ company_name_or_unknown company,
                ''Firmware status: '' @ dev_firmware_status d,
                ''Current version: '' @ or_unknown (dev_firmware_current_version d),
                ''Available version: '' @ or_unknown (dev_firmware_available_version d),
                ''Time: '' @ format_datetime (nc_tz nc) (Some current_time) True])
             ''Firmware available notification sent'' ''firmware available'' d st of
           (sent, d', st') \<Rightarrow>
             (if sent then d'\<lparr>dev_firmware_available_notified_at := Some current_time\<rparr> else d', st'))
       else (d, st)
     else (d\<lparr>dev_firmware_available_notified_at := None\<rparr>, st))"

definition maybe_send_phase2_device_notifications ::
  "notify_ctx \<Rightarrow> 'm sender \<Rightarrow> bool \<Rightarrow> bool \<Rightarrow> bool \<Rightarrow> instant \<Rightarrow> device \<times> 'm mail_state
     \<Rightarrow> device \<times> 'm mail_state" where
  "maybe_send_phase2_device_notifications nc sender backup_overdue license_expiring
      firmware_available current_time = (\<lambda>(d, st).
     if dev_revoked_at d \<noteq> None \<or> maintenance_window_active current_time d then (d, st)
     else case get_or_create_integration_settings current_time (fst st) of (i, s1) \<Rightarrow>
       (case device_rule_recipient d i of
          None \<Rightarrow> (d, s1, snd st)
        | Some recipient \<Rightarrow>
            let company = get_company (work s1) (dev_company_id d) in
            firmware_available_rule nc sender company firmware_available current_time
             (license_expiring_rule nc sender company license_expiring current_time
               (backup_overdue_rule nc sender company backup_overdue current_time (d, s1, snd st)))))"

definition maybe_notify_for_repeated_auth_failures ::
  "'m mail_env \<Rightarrow> notify_ctx \<Rightarrow> instant \<Rightarrow> string \<Rightarrow> string option \<Rightarrow> 'm mail_state
     \<Rightarrow> bool \<times> 'm mail_state" where
  "maybe_notify_for_repeated_auth_failures me nc now action detail st =
     (case get_or_create_integration_settings now (fst st) of (i, s1) \<Rightarrow>
      let st1 = (s1, snd st) in
      if \<not> ints_notify_on_repeated_auth_failures i then (False, st1)
      else if \<not> startswith action ''auth.'' \<or> \<not> endswith action ''.failed'' then (False, st1)
      else
        let cutoff = now - minutes 15;
            count = length (filter (\<lambda>r. al_action r = action \<and> al_created_at r \<ge> cutoff)
                              (audit_logs (work s1)))
        in if count < 5 \<or> count mod 5 \<noteq> 0 then (False, st1)
           else send_security_alert_email me nc now
             (''[OPNsense Hub] Repeated auth failures: '' @ action)
             (text_lines
               [''Action: '' @ action,
                ''Recent failures in the last 15 minutes: '' @ nat_str count,
                ''Latest detail: '' @ (if nonempty detail then the detail else action),
                ''Time: '' @ format_datetime (nc_tz nc) (Some now) True]) st1)"

subsection \<open>Facts\<close>

text \<open>A sender that only records what it is asked to send.\<close>

type_synonym outbox = "(string \<times> string) list"

definition recording_sender :: "outbox sender" where
  "recording_sender recipient subject body = (\<lambda>(s, out). (Inr (), s, out @ [(recipient, subject)]))"

lemma clean_optional_Some_strip:
  "clean_optional v = Some r \<Longrightarrow> \<exists>s. v = Some s \<and> r = strip s \<and> r \<noteq> []"
  by (auto simp: clean_optional_def Let_def split: option.splits if_splits)

lemma send_rule_recording:
  "clean_optional (dev_email_notification_recipient d) = Some r \<Longrightarrow>
   send_device_rule_notification recording_sender t subject body msg ctx d (s, out) =
     (True, d\<lparr>dev_email_last_notified_status := Some (take 30 msg), dev_email_last_notified_at := Some t\<rparr>,
      add_device_event t (dev_id d) ''email_notification_sent'' (take 1000 msg) s, out @ [(r, subject)])"
  by (simp add: send_device_rule_notification_def recording_sender_def)

lemma health_mail_silent:
  assumes "dev_revoked_at d \<noteq> None \<or> maintenance_window_active now d
     \<or> \<not> dev_email_notifications_enabled d \<or> previous_status = new_status"
  shows "maybe_send_health_notification nc sender previous_status new_status now d st = (False, d, st)"
  using assms by (auto simp: maybe_send_health_notification_def)

lemma phase2_mail_silent:
  assumes "dev_revoked_at d \<noteq> None \<or> maintenance_window_active now d"
  shows "maybe_send_phase2_device_notifications nc sender b l f now (d, st) = (d, st)"
  using assms by (auto simp: maybe_send_phase2_device_notifications_def)

lemma get_or_create_existing:
  "get_integration (work s) = Some i \<Longrightarrow> get_or_create_integration_settings now s = (i, s)"
  by (simp add: get_or_create_integration_settings_def)

lemma add_device_event_integration [simp]:
  "get_integration (work (add_device_event t i a b s)) = get_integration (work s)"
  by (simp add: add_device_event_def get_integration_def fresh_uuid_def)

text \<open>What a firewall needs for a rule mail to go out: notifications on, no maintenance, a recipient,
  and configured transport.\<close>

definition mailable :: "integration_settings \<Rightarrow> instant \<Rightarrow> device \<Rightarrow> bool" where
  "mailable i t d \<longleftrightarrow> dev_revoked_at d = None \<and> \<not> maintenance_window_active t d
     \<and> dev_email_notifications_enabled d \<and> email_settings_configured (Some i)
     \<and> clean_optional (dev_email_notification_recipient d) \<noteq> None"

lemma phase2_license_only:
  assumes "mailable i t d" and "get_integration (work s) = Some i"
    and "dev_email_notify_on_license_expiring d" and "dev_license_expires_at d = Some e"
    and "\<forall>n. dev_license_expiring_notified_at d = Some n \<longrightarrow> n < e"
  shows "\<exists>d' s' r. maybe_send_phase2_device_notifications nc recording_sender False True False t (d, s, out)
      = (d', s', out @ [(r, ''[OPNsense Hub] License expiring: '' @ dev_hostname d)])
     \<and> get_integration (work s') = Some i \<and> dev_license_expiring_notified_at d' = Some t
     \<and> dev_license_expires_at d' = Some e \<and> dev_email_notify_on_license_expiring d'
     \<and> dev_hostname d' = dev_hostname d \<and> (mailable i u d \<longrightarrow> mailable i u d')"
proof -
  obtain r where r: "clean_optional (dev_email_notification_recipient d) = Some r"
    using assms(1) by (auto simp: mailable_def)
  let ?d = "d\<lparr>dev_backup_overdue_notified_at := None\<rparr>"
  have r': "clean_optional (dev_email_notification_recipient ?d) = Some r" using r by simp
  have rec: "device_rule_recipient d i = Some r"
    using assms(1) r by (simp add: device_rule_recipient_def mailable_def)
  have send: "case dev_license_expiring_notified_at d of None \<Rightarrow> True | Some n \<Rightarrow> n < e"
    using assms(5) by (simp split: option.split)
  show ?thesis
    using assms(1-4) rec send
    by (cases "dev_license_expiring_notified_at d") (simp_all add: maybe_send_phase2_device_notifications_def get_or_create_existing Let_def
        backup_overdue_rule_def license_expiring_rule_def firmware_available_rule_def
        send_rule_recording [OF r'] mailable_def maintenance_window_active_def)
qed

lemma phase2_backup_once:
  assumes "mailable i t d" and "get_integration (work s) = Some i"
    and "dev_email_notify_on_backup_overdue d" and "dev_backup_overdue_notified_at d = None"
  shows "\<exists>d' s' r. maybe_send_phase2_device_notifications nc recording_sender True False False t (d, s, out)
      = (d', s', out @ [(r, ''[OPNsense Hub] Backup overdue: '' @ dev_hostname d)])
     \<and> dev_backup_overdue_notified_at d' = Some t \<and> get_integration (work s') = Some i"
proof -
  obtain r where r: "clean_optional (dev_email_notification_recipient d) = Some r"
    using assms(1) by (auto simp: mailable_def)
  have rec: "device_rule_recipient d i = Some r"
    using assms(1) r by (simp add: device_rule_recipient_def mailable_def)
  show ?thesis
    using assms(1-4) rec
    by (simp add: maybe_send_phase2_device_notifications_def get_or_create_existing Let_def
        backup_overdue_rule_def license_expiring_rule_def firmware_available_rule_def
        send_rule_recording [OF r] mailable_def)
qed

lemma phase2_backup_already:
  assumes "get_integration (work s) = Some i" and "dev_backup_overdue_notified_at d = Some t0"
  shows "\<exists>d' s'. maybe_send_phase2_device_notifications nc recording_sender True False False t (d, s, out)
      = (d', s', out) \<and> dev_backup_overdue_notified_at d' = Some t0"
  using assms
  by (auto simp: maybe_send_phase2_device_notifications_def get_or_create_existing Let_def
      backup_overdue_rule_def license_expiring_rule_def firmware_available_rule_def split: option.split)

text \<open>Successive health checks of one firewall, each with the conditions it found and its time.\<close>

fun phase2_run :: "notify_ctx \<Rightarrow> (bool \<times> bool \<times> bool \<times> instant) list \<Rightarrow> device \<times> outbox mail_state
    \<Rightarrow> device \<times> outbox mail_state" where
  "phase2_run nc [] x = x"
| "phase2_run nc ((b, l, f, t) # cs) x =
     phase2_run nc cs (maybe_send_phase2_device_notifications nc recording_sender b l f t x)"

lemma license_run:
  "\<forall>t\<in>set ts. mailable i t d \<and> t < e \<Longrightarrow> get_integration (work s) = Some i
     \<Longrightarrow> dev_email_notify_on_license_expiring d \<Longrightarrow> dev_license_expires_at d = Some e
     \<Longrightarrow> \<forall>n. dev_license_expiring_notified_at d = Some n \<longrightarrow> n < e
     \<Longrightarrow> length (snd (snd (phase2_run nc (map (\<lambda>t. (False, True, False, t)) ts) (d, s, out))))
        = length out + length ts"
proof (induction ts arbitrary: d s out)
  case (Cons t ts)
  have m: "mailable i t d" using Cons.prems(1) by simp
  from phase2_license_only [OF m Cons.prems(2-5), of nc out] obtain d' s' r where
    st: "maybe_send_phase2_device_notifications nc recording_sender False True False t (d, s, out)
      = (d', s', out @ [(r, ''[OPNsense Hub] License expiring: '' @ dev_hostname d)])"
    "get_integration (work s') = Some i" "dev_license_expiring_notified_at d' = Some t"
    "dev_license_expires_at d' = Some e" "dev_email_notify_on_license_expiring d'" by blast
  have mm: "mailable i u d'" if "mailable i u d" for u
  proof -
    from phase2_license_only [OF m Cons.prems(2-5), of nc out u] st(1) show ?thesis
      using that by auto
  qed
  have "\<forall>t\<in>set ts. mailable i t d' \<and> t < e" using Cons.prems(1) mm by simp
  moreover have "\<forall>n. dev_license_expiring_notified_at d' = Some n \<longrightarrow> n < e"
    using st(3) Cons.prems(1) by simp
  ultimately show ?case using Cons.IH [of d' s'] st by simp
qed simp

lemma overdue_run_silent:
  "get_integration (work s) = Some i \<Longrightarrow> dev_backup_overdue_notified_at d = Some t0 \<Longrightarrow>
     snd (snd (phase2_run nc (map (\<lambda>t. (True, False, False, t)) ts) (d, s, out))) = out"
proof (induction ts arbitrary: d s)
  case (Cons t ts)
  from phase2_backup_already [OF Cons.prems(1,2), of nc t out] obtain d' s' where
    st: "maybe_send_phase2_device_notifications nc recording_sender True False False t (d, s, out)
      = (d', s', out)" "dev_backup_overdue_notified_at d' = Some t0" by blast
  have "get_integration (work s') = Some i"
  proof -
    have "s' = s" using st(1) Cons.prems
      by (auto simp: maybe_send_phase2_device_notifications_def get_or_create_existing Let_def
          backup_overdue_rule_def license_expiring_rule_def firmware_available_rule_def
          split: option.splits if_splits)
    then show ?thesis using Cons.prems(1) by simp
  qed
  then show ?case using Cons.IH [of s' d'] st by simp
qed simp

subsection \<open>Properties\<close>

text \<open>Maintenance silences a firewall: while its maintenance window is open, or once it has been
  revoked, neither a change of its health nor any of the three rules sends a mail, writes an event
  or changes the row, whatever sender is configured.\<close>

theorem maintenance_silences:
  assumes "dev_revoked_at d \<noteq> None \<or> maintenance_window_active now d"
  shows "maybe_send_health_notification nc sender previous_status new_status now d st = (False, d, st)
    \<and> maybe_send_phase2_device_notifications nc sender b l f now (d, st) = (d, st)"
proof
  show "maybe_send_health_notification nc sender previous_status new_status now d st = (False, d, st)"
    by (rule health_mail_silent) (use assms in blast)
  show "maybe_send_phase2_device_notifications nc sender b l f now (d, st) = (d, st)"
    by (cases st) (simp add: phase2_mail_silent [OF assms])
qed

definition example_ctx :: notify_ctx where
  "example_ctx = \<lparr>nc_cfg = default_settings,
     nc_fernet = \<lparr>f_sha256 = id, f_encrypt = (\<lambda>k n m. m), f_decrypt = (\<lambda>k t. Some t)\<rparr>,
     nc_tz = utc_zone\<rparr>"

theorem maintenance_silences_witness:
  "maybe_send_phase2_device_notifications example_ctx recording_sender True True True 0
     ((default_device 2 0)\<lparr>dev_maintenance_until := Some 5\<rparr>, open_session empty_db 2, [])
   = ((default_device 2 0)\<lparr>dev_maintenance_until := Some 5\<rparr>, open_session empty_db 2, [])"
  by (rule maintenance_silences [THEN conjunct2]) (simp add: maintenance_window_active_def)

text \<open>One mail per overdue backup: with mail set up, the first health check that finds a firewall's
  backup overdue sends one mail, and however many later checks find it still overdue, no
  further one is sent.\<close>

theorem backup_overdue_mailed_once:
  assumes "mailable i t d" and "get_integration (work s) = Some i"
    and "dev_email_notify_on_backup_overdue d" and "dev_backup_overdue_notified_at d = None"
  shows "length (snd (snd (phase2_run nc (map (\<lambda>t. (True, False, False, t)) (t # ts)) (d, s, out))))
    = length out + 1"
proof -
  from phase2_backup_once [OF assms, of nc out] obtain d' s' r where
    "maybe_send_phase2_device_notifications nc recording_sender True False False t (d, s, out)
      = (d', s', out @ [(r, ''[OPNsense Hub] Backup overdue: '' @ dev_hostname d)])"
    "dev_backup_overdue_notified_at d' = Some t" "get_integration (work s') = Some i" by blast
  then show ?thesis using overdue_run_silent [of s' i d' t nc ts] by simp
qed

definition mail_integration :: integration_settings where
  "mail_integration = (default_integration 0)\<lparr>ints_smtp_enabled := True,
     ints_smtp_host := Some ''mail'', ints_smtp_port := Some 25, ints_smtp_from := Some ''hub@x.y''\<rparr>"

definition mail_device :: device where
  "mail_device = (default_device 2 0)\<lparr>dev_email_notifications_enabled := True,
     dev_email_notification_recipient := Some ''a@b.c''\<rparr>"

lemma mail_device_mailable: "mailable mail_integration t mail_device"
  by (simp add: mailable_def mail_device_def mail_integration_def default_device_def
      default_integration_def maintenance_window_active_def email_settings_configured_def
      smtp_email_configured_def clean_optional_def str_eval)

theorem backup_overdue_mailed_once_witness:
  "length (snd (snd (phase2_run example_ctx (map (\<lambda>t. (True, False, False, t)) [0, 1, 2])
     (mail_device, open_session (empty_db\<lparr>integration_rows := [mail_integration]\<rparr>) 2, [])))) = 0 + 1"
  using backup_overdue_mailed_once [OF mail_device_mailable [of 0],
      of "open_session (empty_db\<lparr>integration_rows := [mail_integration]\<rparr>) 2" example_ctx "[1, 2]" "[]"]
  by (simp add: open_session_def get_integration_def mail_integration_def default_integration_def
      mail_device_def default_device_def)

text \<open>Every health check mails about an expiring license: with mail set up, each of any number of
  health checks before the expiry date sends another mail, because the rule compares the time of
  the last mail with the expiry date, which lies after it.\<close>

theorem license_expiring_mailed_every_check:
  assumes "\<forall>t\<in>set ts. mailable i t d \<and> t < e" and "get_integration (work s) = Some i"
    and "dev_email_notify_on_license_expiring d" and "dev_license_expires_at d = Some e"
    and "dev_license_expiring_notified_at d = None"
  shows "length (snd (snd (phase2_run nc (map (\<lambda>t. (False, True, False, t)) ts) (d, s, out))))
    = length out + length ts"
  by (rule license_run [OF assms(1-4)]) (simp add: assms(5))

theorem license_expiring_mailed_every_check_witness:
  "length (snd (snd (phase2_run example_ctx (map (\<lambda>t. (False, True, False, t)) [0, 1, 2])
     (mail_device\<lparr>dev_license_expires_at := Some 9\<rparr>,
      open_session (empty_db\<lparr>integration_rows := [mail_integration]\<rparr>) 2, [])))) = 0 + 3"
proof -
  have "mailable mail_integration t (mail_device\<lparr>dev_license_expires_at := Some 9\<rparr>)" for t
    using mail_device_mailable [of t] by (simp add: mailable_def maintenance_window_active_def)
  then have "length (snd (snd (phase2_run example_ctx (map (\<lambda>t. (False, True, False, t)) [0, 1, 2])
     (mail_device\<lparr>dev_license_expires_at := Some 9\<rparr>,
      open_session (empty_db\<lparr>integration_rows := [mail_integration]\<rparr>) 2, []))))
    = length ([] :: outbox) + length [0 :: instant, 1, 2]"
    by (intro license_expiring_mailed_every_check [where e = 9 and i = mail_integration])
      (simp_all add: open_session_def get_integration_def mail_integration_def default_integration_def
        mail_device_def default_device_def)
  then show ?thesis by simp
qed

end
