(* ===== verification/Health.thy ===== *)
theory Health
  imports Hub_Prelude
begin

text \<open>
  The firewall health state machine, \<open>dashboard/app/health.py\<close>: one record per dataclass and
  the transition \<open>next_health_state\<close>.
\<close>

record health_thresholds =
  warning_misses :: int
  critical_misses :: int
  warning_recovery_successes :: int
  critical_recovery_successes :: int

record health_state =
  hs_status :: string
  missed_checks :: int
  success_checks :: int

definition next_health_state ::
  "health_state \<Rightarrow> bool \<Rightarrow> health_thresholds \<Rightarrow> health_state" where
  "next_health_state st healthy th =
     (if healthy then
        let successes = success_checks st + 1;
            required = (if hs_status st = ''offline'' then critical_recovery_successes th
                        else warning_recovery_successes th);
            status = (if successes \<ge> required then ''online'' else hs_status st)
        in \<lparr>hs_status = status, missed_checks = 0, success_checks = successes\<rparr>
      else
        let missed = missed_checks st + 1;
            status = (if missed \<ge> critical_misses th then ''offline''
                      else if missed \<ge> warning_misses th then ''warning''
                      else hs_status st)
        in \<lparr>hs_status = status, missed_checks = missed, success_checks = 0\<rparr>)"

fun health_run :: "health_thresholds \<Rightarrow> health_state \<Rightarrow> bool list \<Rightarrow> health_state" where
  "health_run th st [] = st"
| "health_run th st (h # hs) = health_run th (next_health_state st h th) hs"

lemma health_run_append: "health_run th st (xs @ ys) = health_run th (health_run th st xs) ys"
  by (induction xs arbitrary: st) auto

lemma next_health_miss [simp]:
  "missed_checks (next_health_state st False th) = missed_checks st + 1"
  "success_checks (next_health_state st False th) = 0"
  by (simp_all add: next_health_state_def Let_def)

lemma next_health_hit [simp]:
  "missed_checks (next_health_state st True th) = 0"
  "success_checks (next_health_state st True th) = success_checks st + 1"
  by (simp_all add: next_health_state_def Let_def)

lemma health_run_misses:
  "missed_checks (health_run th st (replicate n False)) = missed_checks st + int n"
  by (induction n arbitrary: st) auto

lemma health_run_misses_offline:
  assumes "critical_misses th \<le> missed_checks st + int (Suc n)"
  shows "hs_status (health_run th st (replicate (Suc n) False)) = ''offline''"
proof -
  have "replicate (Suc n) False = replicate n False @ [False]"
    by (simp add: replicate_append_same)
  then have "health_run th st (replicate (Suc n) False)
      = next_health_state (health_run th st (replicate n False)) False th"
    by (simp only: health_run_append health_run.simps)
  then show ?thesis
    using assms by (simp add: next_health_state_def Let_def health_run_misses)
qed

lemma health_run_hits:
  "success_checks (health_run th st (replicate n True)) = success_checks st + int n"
  by (induction n arbitrary: st) auto

lemma health_run_hits_online:
  assumes "warning_recovery_successes th \<le> success_checks st + int (Suc n)"
    and "critical_recovery_successes th \<le> success_checks st + int (Suc n)"
  shows "hs_status (health_run th st (replicate (Suc n) True)) = ''online''"
proof -
  have "replicate (Suc n) True = replicate n True @ [True]"
    by (simp add: replicate_append_same)
  then have "health_run th st (replicate (Suc n) True)
      = next_health_state (health_run th st (replicate n True)) True th"
    by (simp only: health_run_append health_run.simps)
  then show ?thesis
    using assms by (simp add: next_health_state_def Let_def health_run_hits)
qed

definition health_inv :: "health_state \<Rightarrow> bool" where
  "health_inv st \<longleftrightarrow> 0 \<le> missed_checks st \<and> 0 \<le> success_checks st
     \<and> (missed_checks st = 0 \<or> success_checks st = 0)"

lemma next_health_inv: "health_inv st \<Longrightarrow> health_inv (next_health_state st h th)"
  by (cases h) (auto simp: health_inv_def)

lemma health_run_inv: "health_inv st \<Longrightarrow> health_inv (health_run th st hs)"
  by (induction hs arbitrary: st) (auto intro: next_health_inv)

lemma next_health_status_cases:
  "hs_status (next_health_state st h th) \<in> {hs_status st, ''online'', ''warning'', ''offline''}"
  by (cases h) (auto simp: next_health_state_def Let_def)

subsection \<open>Properties\<close>

text \<open>C7. Health converges: starting from any state with sane counters, a run of failed checks as long as
  the critical threshold ends offline, a run of successful checks as long as both recovery
  thresholds ends online, and in between the two counters are never negative and never both
  positive.\<close>

theorem health_converges:
  assumes "health_inv st"
  shows "(critical_misses th \<le> int (Suc n) \<longrightarrow>
        hs_status (health_run th st (replicate (Suc n) False)) = ''offline'')
    \<and> (warning_recovery_successes th \<le> int (Suc n) \<and> critical_recovery_successes th \<le> int (Suc n) \<longrightarrow>
        hs_status (health_run th st (replicate (Suc n) True)) = ''online'')
    \<and> health_inv (health_run th st hs)"
proof (intro conjI impI)
  assume "critical_misses th \<le> int (Suc n)"
  then show "hs_status (health_run th st (replicate (Suc n) False)) = ''offline''"
    using assms by (intro health_run_misses_offline) (simp add: health_inv_def)
next
  assume "warning_recovery_successes th \<le> int (Suc n) \<and> critical_recovery_successes th \<le> int (Suc n)"
  then show "hs_status (health_run th st (replicate (Suc n) True)) = ''online''"
    using assms by (intro health_run_hits_online) (simp_all add: health_inv_def)
qed (rule health_run_inv [OF assms])

theorem health_converges_witness:
  "hs_status (health_run \<lparr>warning_misses = 2, critical_misses = 3, warning_recovery_successes = 1,
      critical_recovery_successes = 2\<rparr> \<lparr>hs_status = ''online'', missed_checks = 0, success_checks = 4\<rparr>
      (replicate (Suc 2) False)) = ''offline''"
  by (rule health_converges [THEN conjunct1, rule_format]) (simp_all add: health_inv_def)

text \<open>A failed check can improve the status: a firewall that is offline and has one successful check
  (not enough to recover) is shown as \<open>warning\<close> by the failed checks that follow it, since the
  successful one reset the count of misses and the warning branch does not look at the status.\<close>

theorem failed_checks_demote_offline:
  assumes "hs_status st = ''offline''" and "success_checks st + 1 < critical_recovery_successes th"
    and "1 \<le> warning_misses th" and "warning_misses th < critical_misses th"
  shows "hs_status (health_run th st (True # replicate (nat (warning_misses th)) False)) = ''warning''"
proof -
  obtain n where n: "warning_misses th = int (Suc n)"
    using assms(3) that [of "nat (warning_misses th - 1)"] by simp
  let ?st = "next_health_state st True th"
  have "replicate (Suc n) False = replicate n False @ [False]" by (simp add: replicate_append_same)
  then have "health_run th st (True # replicate (nat (warning_misses th)) False)
      = next_health_state (health_run th ?st (replicate n False)) False th"
    by (simp only: n nat_int health_run.simps health_run_append)
  moreover have "missed_checks (health_run th ?st (replicate n False)) = int n"
    by (simp add: health_run_misses)
  ultimately show ?thesis using assms(4) n by (simp add: next_health_state_def Let_def)
qed

theorem failed_checks_demote_offline_witness:
  "hs_status (health_run \<lparr>warning_misses = 2, critical_misses = 5, warning_recovery_successes = 1,
      critical_recovery_successes = 3\<rparr> \<lparr>hs_status = ''offline'', missed_checks = 9, success_checks = 0\<rparr>
      (True # replicate (nat 2) False)) = ''warning''"
  using failed_checks_demote_offline [of "\<lparr>hs_status = ''offline'', missed_checks = 9, success_checks = 0\<rparr>"
      "\<lparr>warning_misses = 2, critical_misses = 5, warning_recovery_successes = 1,
      critical_recovery_successes = 3\<rparr>"] by simp

end
