(* ===== verification/Firmware.thy ===== *)
theory Firmware
  imports Notifications Health Py_Ipaddress Py_Json "HOL-Library.List_Lexorder"
begin

text \<open>
  The schedulers of \<open>dashboard/app/services/firmware_scheduler.py\<close>: health checks, the daily firmware
  check, and the normalisation of what a firewall reports about its license and firmware. The
  probe of a firewall's web interface is an argument, as is \<open>datetime.fromisoformat\<close> with the
  attachment of UTC to a naive result (\<^const>\<open>None\<close> for \<open>ValueError\<close>).
\<close>

subsection \<open>Addresses of the web interface\<close>

definition tunnel_proxy_host :: "string \<Rightarrow> string res" where
  "tunnel_proxy_host value =
     (if CHR ''/'' \<in> set value then
        (case ip_interface value of None \<Rightarrow> Inl ValueError | Some i \<Rightarrow> Inr (show_ip (iface_ip i)))
      else (case ip_address value of None \<Rightarrow> Inl ValueError | Some a \<Rightarrow> Inr (show_ip a)))"

definition device_webgui_url :: "settings \<Rightarrow> device \<Rightarrow> string res" where
  "device_webgui_url cfg d =
     rbind (tunnel_proxy_host (dev_wg_tunnel_ip d)) (\<lambda>proxy_host.
       Inr (''https://'' @ proxy_host @ '':'' @ int_str (cfg_opnsense_gui_port cfg) @ ''/''))"

subsection \<open>Health checks\<close>

definition health_thresholds_of :: "settings \<Rightarrow> health_thresholds" where
  "health_thresholds_of cfg =
     \<lparr>warning_misses = cfg_firewall_health_warning_misses cfg,
      critical_misses = cfg_firewall_health_critical_misses cfg,
      warning_recovery_successes = cfg_firewall_health_warning_recovery_successes cfg,
      critical_recovery_successes = cfg_firewall_health_critical_recovery_successes cfg\<rparr>"

definition device_health :: "device \<Rightarrow> health_state" where
  "device_health d = \<lparr>hs_status = dev_status d, missed_checks = dev_health_missed_checks d,
     success_checks = dev_health_success_checks d\<rparr>"

definition device_health_status :: "settings \<Rightarrow> device \<Rightarrow> bool \<Rightarrow> string \<times> device" where
  "device_health_status cfg d healthy =
     (let new_state = next_health_state (device_health d) healthy (health_thresholds_of cfg)
      in (hs_status new_state,
          d\<lparr>dev_health_missed_checks := missed_checks new_state,
            dev_health_success_checks := success_checks new_state\<rparr>))"

definition license_expiring_soon :: "instant \<Rightarrow> device \<Rightarrow> bool" where
  "license_expiring_soon now d =
     (dev_license_type d = Some ''business''
      \<and> (case dev_license_expires_at d of
           None \<Rightarrow> False
         | Some e \<Rightarrow> utc_day e \<ge> utc_day now \<and> utc_day e - utc_day now \<le> 30))"

text \<open>One turn of the loop over the devices, on the row of a device: first the outcome of the probe,
  then the rules. The row is stored before the mail code runs, which may commit.\<close>

definition health_event_message :: "string \<Rightarrow> device \<Rightarrow> string" where
  "health_event_message message d =
     take 1000 (message @ ''; missed='' @ int_str (dev_health_missed_checks d)
       @ ''; successes='' @ int_str (dev_health_success_checks d))"

definition apply_probe_result ::
  "notify_ctx \<Rightarrow> 'm sender \<Rightarrow> bool \<Rightarrow> string \<Rightarrow> instant \<Rightarrow> device \<Rightarrow> 'm mail_state
     \<Rightarrow> device \<times> 'm mail_state" where
  "apply_probe_result nc sender healthy message now d0 st0 =
     (case device_health_status (nc_cfg nc) d0 healthy of (new_status, d1) \<Rightarrow>
      case (if dev_status d0 \<noteq> new_status then
              (let d = d1\<lparr>dev_status := new_status\<rparr> in
               snd (maybe_send_health_notification nc sender (dev_status d0) new_status now d
                 (add_device_event now (dev_id d) ''health_check'' (health_event_message message d)
                    (save_device d (fst st0)), snd st0)))
            else (d1, save_device d1 (fst st0), snd st0)) of (d2, s2, m2) \<Rightarrow>
      let d3 = (if healthy then d2\<lparr>dev_last_seen_at := Some now\<rparr> else d2)
      in (d3, save_device d3 s2, m2))"

definition apply_rules ::
  "notify_ctx \<Rightarrow> 'm sender \<Rightarrow> instant \<Rightarrow> device \<Rightarrow> 'm mail_state \<Rightarrow> 'm mail_state" where
  "apply_rules nc sender now d st =
     (if maintenance_window_active now d then st
      else
        let backup_overdue = (dev_backup_enabled d \<and> dev_backup_last_uploaded_at d \<noteq> None
              \<and> backup_due now d);
            firmware_available = (lower (dev_firmware_status d) \<in> {''update'', ''upgrade''})
        in case maybe_send_phase2_device_notifications nc sender backup_overdue
                  (license_expiring_soon now d) firmware_available now (d, st) of
             (d', s', m') \<Rightarrow> (save_device d' s', m'))"

definition check_device ::
  "notify_ctx \<Rightarrow> 'm sender \<Rightarrow> (device \<Rightarrow> bool \<times> string) \<Rightarrow> instant \<Rightarrow> device \<Rightarrow> 'm mail_state
     \<Rightarrow> 'm mail_state" where
  "check_device nc sender probe now d st =
     (case probe d of (healthy, message) \<Rightarrow>
      case apply_probe_result nc sender healthy message now d st of
        (d', st') \<Rightarrow> apply_rules nc sender now d' st')"

text \<open>\<open>select(Device).where(revoked_at is null).order_by(hostname)\<close>, by identity.\<close>

definition active_devices :: "hub_db \<Rightarrow> device list" where
  "active_devices db = sort_key (\<lambda>d. map code_of (dev_hostname d))
     (filter (\<lambda>d. dev_revoked_at d = None) (devices db))"

fun check_devices ::
  "notify_ctx \<Rightarrow> 'm sender \<Rightarrow> (device \<Rightarrow> bool \<times> string) \<Rightarrow> instant \<Rightarrow> uuid list \<Rightarrow> 'm mail_state
     \<Rightarrow> 'm mail_state" where
  "check_devices nc sender probe now [] st = st"
| "check_devices nc sender probe now (i # is) st =
     check_devices nc sender probe now is
       (case get_device (work (fst st)) i of
          None \<Rightarrow> st
        | Some d \<Rightarrow> check_device nc sender probe now d st)"

definition run_device_health_checks_once ::
  "notify_ctx \<Rightarrow> 'm sender \<Rightarrow> (device \<Rightarrow> bool \<times> string) \<Rightarrow> instant \<Rightarrow> 'm mail_state \<Rightarrow> 'm mail_state" where
  "run_device_health_checks_once nc sender probe now st =
     (let ds = active_devices (work (fst st)) in
      if ds = [] then st
      else case check_devices nc sender probe now (map dev_id ds) st of (s, m) \<Rightarrow> (commit s, m))"

subsection \<open>Numbers and units of the backup schedule\<close>

definition parse_bounded_int :: "string \<Rightarrow> string \<Rightarrow> int \<Rightarrow> int \<Rightarrow> int res" where
  "parse_bounded_int value field_name minimum maximum =
     (case py_int (strip value) of
        None \<Rightarrow> Inl (HTTPException 400 (field_name @ '' must be a number''))
      | Some parsed \<Rightarrow>
          if parsed < minimum \<or> parsed > maximum
          then Inl (HTTPException 400 (field_name @ '' must be between '' @ int_str minimum
                 @ '' and '' @ int_str maximum))
          else Inr parsed)"

definition parse_backup_interval_unit :: "string \<Rightarrow> string res" where
  "parse_backup_interval_unit value =
     (let normalized = lower (strip value) in
      if normalized \<notin> {''hours'', ''days'', ''months''}
      then Inl (HTTPException 400 ''backup interval unit must be hours, days, or months'')
      else Inr normalized)"

subsection \<open>What a firewall reports: its license\<close>

type_synonym iso_parser = "string \<Rightarrow> instant option"

definition replace_Z :: "string \<Rightarrow> string" where
  "replace_Z s = concat (map (\<lambda>c. if c = CHR ''Z'' then ''+00:00'' else [c]) s)"

definition parse_license_expires_at :: "iso_parser \<Rightarrow> json option \<Rightarrow> instant option" where
  "parse_license_expires_at parse_iso value =
     (case value of
        None \<Rightarrow> None
      | Some JNull \<Rightarrow> None
      | Some v \<Rightarrow>
          (let text_value = strip (py_str v) in
           if text_value = [] then None else parse_iso (replace_Z text_value)))"

definition normalize_device_license_payload ::
  "iso_parser \<Rightarrow> (string \<times> json) list \<Rightarrow> string option \<times> instant option" where
  "normalize_device_license_payload parse_iso payload =
     (let raw_license_type =
        clean_optional (case map_of payload ''license_type'' of
          None \<Rightarrow> None | Some JNull \<Rightarrow> None | Some v \<Rightarrow> Some (py_str v)) in
      case raw_license_type of
        None \<Rightarrow> (None, None)
      | Some raw \<Rightarrow>
          let normalized_type = lower raw in
          if normalized_type \<notin> {''business'', ''community''} then (None, None)
          else if normalized_type = ''community'' then (Some ''community'', None)
          else (Some ''business'', parse_license_expires_at parse_iso (map_of payload ''license_expires_at'')))"

definition apply_device_license_payload ::
  "iso_parser \<Rightarrow> (string \<times> json) list \<Rightarrow> device \<Rightarrow> device" where
  "apply_device_license_payload parse_iso payload d =
     (case normalize_device_license_payload parse_iso payload of
        (None, _) \<Rightarrow> d
      | (Some t, e) \<Rightarrow> d\<lparr>dev_license_type := Some t, dev_license_expires_at := e\<rparr>)"

definition device_license_label :: "device \<Rightarrow> string" where
  "device_license_label d = (if dev_license_type d = Some ''business'' then ''Business'' else ''Community'')"

definition device_license_expiration :: "instant \<Rightarrow> device \<Rightarrow> string" where
  "device_license_expiration now d =
     (if dev_license_type d \<noteq> Some ''business'' then ''-''
      else case dev_license_expires_at d of
        None \<Rightarrow> ''-''
      | Some e \<Rightarrow> if utc_day e < utc_day now then ''Expired'' else date_mdy (utc_day e))"

subsection \<open>What a firewall reports: its firmware\<close>

definition truncate_optional_text :: "json option \<Rightarrow> nat \<Rightarrow> string option" where
  "truncate_optional_text value max_length =
     (case value of
        None \<Rightarrow> None
      | Some JNull \<Rightarrow> None
      | Some v \<Rightarrow>
          (let text_value = strip (py_str v) in
           if text_value = [] then None else Some (take max_length text_value)))"

record firmware_report =
  fr_status :: string
  fr_update_available :: bool
  fr_update_type :: "string option"
  fr_current_version :: "string option"
  fr_available_version :: "string option"
  fr_update_count :: int
  fr_reboot_required :: bool
  fr_message :: "string option"
  fr_checked_at :: instant

definition invalid_firmware_report :: "instant \<Rightarrow> firmware_report" where
  "invalid_firmware_report now =
     \<lparr>fr_status = ''error'', fr_update_available = False, fr_update_type = None,
      fr_current_version = None, fr_available_version = None, fr_update_count = 0,
      fr_reboot_required = False,
      fr_message = Some ''Invalid firmware status payload reported by firewall'',
      fr_checked_at = now\<rparr>"

definition truthy_field :: "(string \<times> json) list \<Rightarrow> string \<Rightarrow> bool" where
  "truthy_field kvs key = (case map_of kvs key of None \<Rightarrow> False | Some v \<Rightarrow> json_true v)"

definition reported_update_count :: "(string \<times> json) list \<Rightarrow> int" where
  "reported_update_count kvs =
     (if \<not> truthy_field kvs ''update_count'' then 0
      else case json_int (the (map_of kvs ''update_count'')) of Inl e \<Rightarrow> 0 | Inr n \<Rightarrow> max 0 n)"

definition normalize_device_firmware_payload ::
  "iso_parser \<Rightarrow> instant \<Rightarrow> (string \<times> json) list \<Rightarrow> firmware_report option" where
  "normalize_device_firmware_payload parse_iso now payload =
     (case map_of payload ''firmware'' of
        None \<Rightarrow> None
      | Some JNull \<Rightarrow> None
      | Some (JObj raw) \<Rightarrow>
          let raw_status = truncate_optional_text (map_of raw ''status'') 30;
              reported_status = lower (case raw_status of None \<Rightarrow> ''error'' | Some s \<Rightarrow> s);
              reported_message = truncate_optional_text (map_of raw ''message'') 500;
              known = reported_status \<in> {''none'', ''update'', ''upgrade'', ''error''};
              status = (if known then reported_status else ''error'');
              message = (if \<not> known \<and> reported_message = None
                then Some ''Invalid firmware status reported by firewall'' else reported_message);
              update_type = map_option lower (truncate_optional_text (map_of raw ''update_type'') 30);
              checked_at = (case parse_license_expires_at parse_iso (map_of raw ''checked_at'') of
                None \<Rightarrow> now | Some t \<Rightarrow> t)
          in Some
            \<lparr>fr_status = status,
             fr_update_available =
               (if status \<in> {''update'', ''upgrade''} then True
                else if status = ''none'' then False
                else truthy_field raw ''update_available''),
             fr_update_type =
               (if update_type \<in> {Some ''none'', Some ''update'', Some ''upgrade'', Some ''error''}
                then update_type else None),
             fr_current_version = truncate_optional_text (map_of raw ''current_version'') 80,
             fr_available_version = truncate_optional_text (map_of raw ''available_version'') 80,
             fr_update_count = reported_update_count raw,
             fr_reboot_required = truthy_field raw ''reboot_required'',
             fr_message = message,
             fr_checked_at = checked_at\<rparr>
      | Some other \<Rightarrow> Some (invalid_firmware_report now))"

definition apply_device_firmware_payload ::
  "iso_parser \<Rightarrow> instant \<Rightarrow> (string \<times> json) list \<Rightarrow> device \<Rightarrow> bool \<times> device" where
  "apply_device_firmware_payload parse_iso now payload d =
     (case normalize_device_firmware_payload parse_iso now payload of
        None \<Rightarrow> (False, d)
      | Some f \<Rightarrow>
          (True, d\<lparr>
             dev_firmware_status := fr_status f,
             dev_firmware_update_available := fr_update_available f,
             dev_firmware_update_type := fr_update_type f,
             dev_firmware_current_version := fr_current_version f,
             dev_firmware_available_version := fr_available_version f,
             dev_firmware_update_count := fr_update_count f,
             dev_firmware_reboot_required := fr_reboot_required f,
             dev_firmware_status_message := fr_message f,
             dev_firmware_checked_at := Some (fr_checked_at f),
             dev_firmware_check_requested_at := None,
             dev_firmware_check_request_reason := None\<rparr>))"

subsection \<open>The daily firmware check\<close>

definition firmware_status_local_date :: "time_zone \<Rightarrow> instant option \<Rightarrow> int option" where
  "firmware_status_local_date tz value = map_option (local_day tz) value"

definition device_has_firmware_check_for_day :: "time_zone \<Rightarrow> device \<Rightarrow> int \<Rightarrow> bool" where
  "device_has_firmware_check_for_day tz d scheduled_day =
     (firmware_status_local_date tz (dev_firmware_checked_at d) = Some scheduled_day)"

definition device_has_pending_firmware_request_for_day :: "time_zone \<Rightarrow> device \<Rightarrow> int \<Rightarrow> bool" where
  "device_has_pending_firmware_request_for_day tz d scheduled_day =
     (dev_firmware_check_request_reason d = Some ''scheduled''
      \<and> firmware_status_local_date tz (dev_firmware_check_requested_at d) = Some scheduled_day)"

definition needs_firmware_check :: "time_zone \<Rightarrow> int \<Rightarrow> device \<Rightarrow> bool" where
  "needs_firmware_check tz scheduled_day d =
     (dev_revoked_at d = None \<and> \<not> device_has_firmware_check_for_day tz d scheduled_day
      \<and> \<not> device_has_pending_firmware_request_for_day tz d scheduled_day)"

definition request_firmware_check :: "string \<Rightarrow> instant \<Rightarrow> device \<Rightarrow> device" where
  "request_firmware_check reason now d =
     d\<lparr>dev_firmware_check_requested_at := Some now,
       dev_firmware_check_request_reason := Some (take 30 reason)\<rparr>"

definition mark_devices_for_firmware_check ::
  "time_zone \<Rightarrow> string \<Rightarrow> instant \<Rightarrow> db_session \<Rightarrow> nat \<times> db_session" where
  "mark_devices_for_firmware_check tz reason now s =
     (let scheduled_day = local_day tz now;
          p = needs_firmware_check tz scheduled_day
      in (length (filter p (devices (work s))),
          s\<lparr>work := (work s)\<lparr>devices :=
            update_where p (request_firmware_check reason now) (devices (work s))\<rparr>\<rparr>))"

definition run_firmware_schedule_once :: "time_zone \<Rightarrow> instant \<Rightarrow> db_session \<Rightarrow> nat \<times> db_session" where
  "run_firmware_schedule_once tz now s =
     (if local_hour tz now \<noteq> 23 then (0, s)
      else case mark_devices_for_firmware_check tz ''scheduled'' now s of
        (marked, s') \<Rightarrow> (marked, if marked \<noteq> 0 then commit s' else s'))"

subsection \<open>What the dashboard shows\<close>

record firmware_ui =
  fu_label :: string
  fu_class :: string
  fu_icon :: string
  fu_tooltip :: string

definition firmware_status_ui :: "time_zone \<Rightarrow> device \<Rightarrow> firmware_ui" where
  "firmware_status_ui tz d =
     (let reported = lower (if dev_firmware_status d = [] then ''unknown'' else dev_firmware_status d);
          status = (if reported \<in> {''unknown'', ''none'', ''update'', ''upgrade'', ''error''}
                    then reported else ''unknown'');
          result =
            (if status = ''unknown'' then
               \<lparr>fu_label = ''Unknown'', fu_class = ''text-muted'',
                fu_icon = ''fa-solid fa-circle-question'', fu_tooltip = ''Firmware status unknown''\<rparr>
             else if status = ''none'' then
               \<lparr>fu_label = ''Up to date'', fu_class = ''text-success'',
                fu_icon = ''fa-solid fa-circle-check'',
                fu_tooltip = ''Up to date: ''
                  @ or_unknown (str_or (dev_firmware_current_version d) (dev_opnsense_version d))\<rparr>
             else if status = ''update'' then
               \<lparr>fu_label = ''Updates available'', fu_class = ''text-info'',
                fu_icon = ''fa-solid fa-circle-exclamation'',
                fu_tooltip = ''Updates available: ''
                  @ or_unknown (str_or (dev_firmware_available_version d) (dev_firmware_current_version d))\<rparr>
             else if status = ''upgrade'' then
               \<lparr>fu_label = ''Upgrade available'', fu_class = ''text-warning'',
                fu_icon = ''fa-solid fa-triangle-exclamation'',
                fu_tooltip = ''Upgrade available: '' @ or_unknown (dev_firmware_available_version d)\<rparr>
             else
               \<lparr>fu_label = ''Check failed'', fu_class = ''text-danger'',
                fu_icon = ''fa-solid fa-circle-xmark'',
                fu_tooltip = ''Update check failed: ''
                  @ (if nonempty (dev_firmware_status_message d) then the (dev_firmware_status_message d)
                     else ''Unknown error'')\<rparr>)
      in case dev_firmware_checked_at d of
           None \<Rightarrow> result
         | Some t \<Rightarrow> result\<lparr>fu_tooltip := fu_tooltip result @ [CHR 0x0A] @ ''Last checked: ''
                        @ format_datetime tz (Some t) False\<rparr>)"

subsection \<open>Facts: reports\<close>

lemma truncate_optional_text_length: "truncate_optional_text v n = Some s \<Longrightarrow> length s \<le> n"
  by (auto simp: truncate_optional_text_def Let_def split: option.splits json.splits if_splits)

definition wf_report :: "firmware_report \<Rightarrow> bool" where
  "wf_report f \<longleftrightarrow> fr_status f \<in> {''none'', ''update'', ''upgrade'', ''error''}
     \<and> (fr_status f \<in> {''update'', ''upgrade''} \<longrightarrow> fr_update_available f)
     \<and> (fr_status f = ''none'' \<longrightarrow> \<not> fr_update_available f)
     \<and> fr_update_type f \<in> {None, Some ''none'', Some ''update'', Some ''upgrade'', Some ''error''}
     \<and> 0 \<le> fr_update_count f
     \<and> (\<forall>v. fr_current_version f = Some v \<longrightarrow> length v \<le> 80)
     \<and> (\<forall>v. fr_available_version f = Some v \<longrightarrow> length v \<le> 80)
     \<and> (\<forall>v. fr_message f = Some v \<longrightarrow> length v \<le> 500)"

lemma reported_update_count_nonneg: "0 \<le> reported_update_count kvs"
  by (simp add: reported_update_count_def split: sum.split)

lemma wf_report_intro:
  assumes "status \<in> {''none'', ''update'', ''upgrade'', ''error''}"
    and "\<forall>v. m = Some v \<longrightarrow> length v \<le> 500"
  shows "wf_report \<lparr>fr_status = status,
     fr_update_available = (if status \<in> {''update'', ''upgrade''} then True
        else if status = ''none'' then False else a),
     fr_update_type = (if u \<in> {Some ''none'', Some ''update'', Some ''upgrade'', Some ''error''}
        then u else None),
     fr_current_version = truncate_optional_text c 80,
     fr_available_version = truncate_optional_text v 80,
     fr_update_count = reported_update_count kvs, fr_reboot_required = r, fr_message = m,
     fr_checked_at = t\<rparr>"
  using assms reported_update_count_nonneg [of kvs]
  by (auto simp: wf_report_def dest: truncate_optional_text_length)

lemma normalize_firmware_wf:
  assumes "normalize_device_firmware_payload parse_iso now payload = Some f"
  shows "wf_report f"
proof -
  obtain v where v: "map_of payload ''firmware'' = Some v" "v \<noteq> JNull"
  proof (cases "map_of payload ''firmware''")
    case (Some v)
    with assms have "v \<noteq> JNull" by (auto simp: normalize_device_firmware_payload_def)
    with Some that show ?thesis by blast
  qed (use assms in \<open>simp add: normalize_device_firmware_payload_def\<close>)
  show ?thesis
  proof (cases "\<exists>raw. v = JObj raw")
    case False
    then have "f = invalid_firmware_report now"
      using assms v by (cases v) (simp_all add: normalize_device_firmware_payload_def)
    then show ?thesis by (simp add: invalid_firmware_report_def wf_report_def)
  next
    case True
    then obtain raw where raw: "v = JObj raw" by blast
    have "length ''Invalid firmware status reported by firewall'' \<le> 500" by simp
    then have m: "\<forall>x. (if b \<and> truncate_optional_text w 500 = None
        then Some ''Invalid firmware status reported by firewall'' else truncate_optional_text w 500) = Some x
        \<longrightarrow> length x \<le> 500" for b w
      using truncate_optional_text_length [of w 500] by (metis option.inject)
    have st: "(if x \<in> {''none'', ''update'', ''upgrade'', ''error''} then x else ''error'')
        \<in> {''none'', ''update'', ''upgrade'', ''error''}" for x :: string by simp
    show ?thesis
      using assms v raw
      by (simp only: normalize_device_firmware_payload_def option.case json.case Let_def option.inject)
        (use wf_report_intro [OF st m] in blast)
  qed
qed

subsection \<open>Facts: the schedule\<close>

lemma marked_has_request:
  "\<not> needs_firmware_check tz (local_day tz now) (request_firmware_check ''scheduled'' now d)"
  by (simp add: needs_firmware_check_def request_firmware_check_def
      device_has_pending_firmware_request_for_day_def firmware_status_local_date_def)

lemma mark_leaves_none:
  assumes "mark_devices_for_firmware_check tz ''scheduled'' now s = (n, s')"
    and "d \<in> set (devices (work s'))"
  shows "\<not> needs_firmware_check tz (local_day tz now) d"
  using assms marked_has_request
  by (auto simp: mark_devices_for_firmware_check_def set_update_where Let_def)

lemma update_where_none: "\<forall>x\<in>set xs. \<not> p x \<Longrightarrow> update_where p f xs = xs"
  by (induction xs) (auto simp: update_where_def)

lemma mark_nothing:
  assumes "\<forall>d\<in>set (devices (work s)). \<not> needs_firmware_check tz (local_day tz now) d"
  shows "mark_devices_for_firmware_check tz reason now s = (0, s)"
  using assms by (simp add: mark_devices_for_firmware_check_def Let_def update_where_none)

subsection \<open>Facts: a health check\<close>

text \<open>A sender that does not touch the device table.\<close>

definition keeps_devices :: "'m sender \<Rightarrow> bool" where
  "keeps_devices sender \<longleftrightarrow> (\<forall>r sub body s m.
     devices (work (fst (snd (sender r sub body (s, m))))) = devices (work s))"

lemma get_or_create_devices:
  "devices (work (snd (get_or_create_integration_settings now s))) = devices (work s)"
  by (simp add: get_or_create_integration_settings_def split: option.split)

lemma add_device_event_devices [simp]: "devices (work (add_device_event t i a b s)) = devices (work s)"
  by (simp add: add_device_event_def fresh_uuid_def)

definition same_health :: "device \<Rightarrow> device \<Rightarrow> bool" where
  "same_health d d' \<longleftrightarrow> dev_id d' = dev_id d \<and> device_health d' = device_health d
     \<and> dev_last_seen_at d' = dev_last_seen_at d"

lemma send_rule_keeps:
  assumes "keeps_devices sender"
    and "send_device_rule_notification sender t sub body msg ctx d (s, m) = (b, d', s', m')"
  shows "same_health d d' \<and> devices (work s') = devices (work s)"
proof (cases "clean_optional (dev_email_notification_recipient d)")
  case None
  then show ?thesis using assms(2) by (simp add: send_device_rule_notification_def same_health_def)
next
  case (Some r)
  obtain res s2 m2 where q: "sender r sub body (s, m) = (res, s2, m2)" by (cases "sender r sub body (s, m)")
  have "devices (work s2) = devices (work s)" using assms(1) q unfolding keeps_devices_def by (metis fst_conv snd_conv)
  then show ?thesis using assms(2) Some q
    by (cases res) (auto simp: send_device_rule_notification_def same_health_def device_health_def)
qed

lemma health_mail_keeps:
  assumes "keeps_devices sender"
    and "maybe_send_health_notification nc sender p n t d (s, m) = (b, d', s', m')"
  shows "same_health d d' \<and> devices (work s') = devices (work s)"
proof (cases "dev_revoked_at d \<noteq> None \<or> p = n \<or> \<not> dev_email_notifications_enabled d
    \<or> maintenance_window_active t d \<or> clean_optional (dev_email_notification_recipient d) = None")
  case True
  then show ?thesis using assms(2)
    by (auto simp: maybe_send_health_notification_def same_health_def split: if_splits)
next
  case False
  then obtain r where r: "clean_optional (dev_email_notification_recipient d) = Some r" by auto
  obtain i s1 where c: "get_or_create_integration_settings t s = (i, s1)"
    by (cases "get_or_create_integration_settings t s")
  then have s1: "devices (work s1) = devices (work s)" using get_or_create_devices [of t s] by simp
  obtain subj body where e: "build_health_notification_email (nc_tz nc) d
      (get_company (work s1) (dev_company_id d)) p n t = (subj, body)"
    by (cases "build_health_notification_email (nc_tz nc) d (get_company (work s1) (dev_company_id d)) p n t")
  obtain res s2 m2 where q: "sender r subj body (s1, m) = (res, s2, m2)"
    by (cases "sender r subj body (s1, m)")
  have "devices (work s2) = devices (work s1)"
    using assms(1) q unfolding keeps_devices_def by (metis fst_conv snd_conv)
  then show ?thesis using assms(2) False r c e q s1
    by (cases res) (auto simp: maybe_send_health_notification_def same_health_def device_health_def
        Let_def split: if_splits)
qed

lemma same_health_refl [simp]: "same_health d d"
  by (simp add: same_health_def)

lemma same_health_trans: "same_health a b \<Longrightarrow> same_health b c \<Longrightarrow> same_health a c"
  by (simp add: same_health_def)

lemma same_health_notified:
  "same_health d (d'\<lparr>dev_backup_overdue_notified_at := x\<rparr>) = same_health d d'"
  "same_health d (d'\<lparr>dev_license_expiring_notified_at := x\<rparr>) = same_health d d'"
  "same_health d (d'\<lparr>dev_firmware_available_notified_at := x\<rparr>) = same_health d d'"
  by (simp_all add: same_health_def device_health_def)

text \<open>What the three rules share: they keep the health of the row and the device table.\<close>

definition rule_keeps :: "(device \<times> 'm mail_state \<Rightarrow> device \<times> 'm mail_state) \<Rightarrow> bool" where
  "rule_keeps r \<longleftrightarrow> (\<forall>d s m. case r (d, s, m) of (d', s', m') \<Rightarrow>
     same_health d d' \<and> devices (work s') = devices (work s))"

lemma rule_keepsD:
  assumes "rule_keeps r" and "r (d, s, m) = (d', s', m')"
  shows "same_health d d' \<and> devices (work s') = devices (work s)"
  using assms(1)[unfolded rule_keeps_def, rule_format, of d s m] assms(2) by simp

lemma rule_keeps_comp: "rule_keeps r \<Longrightarrow> rule_keeps q \<Longrightarrow> rule_keeps (\<lambda>x. r (q x))"
proof -
  assume r: "rule_keeps r" and q: "rule_keeps q"
  show ?thesis
    unfolding rule_keeps_def
  proof (intro allI)
    fix d s m
    obtain d1 s1 m1 where 1: "q (d, s, m) = (d1, s1, m1)" by (cases "q (d, s, m)")
    obtain d2 s2 m2 where 2: "r (d1, s1, m1) = (d2, s2, m2)" by (cases "r (d1, s1, m1)")
    note rule_keepsD [OF q 1] rule_keepsD [OF r 2]
    then show "case r (q (d, s, m)) of (d', s', m') \<Rightarrow>
        same_health d d' \<and> devices (work s') = devices (work s)"
      using 1 2 by (auto intro: same_health_trans)
  qed
qed

lemma backup_rule_keeps:
  assumes "keeps_devices sender"
  shows "rule_keeps (backup_overdue_rule nc sender c b t)"
  unfolding rule_keeps_def
proof (intro allI)
  fix d s m
  show "case backup_overdue_rule nc sender c b t (d, s, m) of (d', s', m') \<Rightarrow>
      same_health d d' \<and> devices (work s') = devices (work s)"
    by (auto simp: backup_overdue_rule_def same_health_notified split: prod.splits
        dest!: send_rule_keeps [OF assms])
qed

lemma license_rule_keeps:
  assumes "keeps_devices sender"
  shows "rule_keeps (license_expiring_rule nc sender c b t)"
  unfolding rule_keeps_def
proof (intro allI)
  fix d s m
  show "case license_expiring_rule nc sender c b t (d, s, m) of (d', s', m') \<Rightarrow>
      same_health d d' \<and> devices (work s') = devices (work s)"
    by (auto simp: license_expiring_rule_def Let_def same_health_notified split: prod.splits
        dest!: send_rule_keeps [OF assms])
qed

lemma firmware_rule_keeps:
  assumes "keeps_devices sender"
  shows "rule_keeps (firmware_available_rule nc sender c b t)"
  unfolding rule_keeps_def
proof (intro allI)
  fix d s m
  show "case firmware_available_rule nc sender c b t (d, s, m) of (d', s', m') \<Rightarrow>
      same_health d d' \<and> devices (work s') = devices (work s)"
    by (auto simp: firmware_available_rule_def Let_def same_health_notified split: prod.splits
        dest!: send_rule_keeps [OF assms])
qed

lemma phase2_keeps:
  assumes "keeps_devices sender"
  shows "rule_keeps (maybe_send_phase2_device_notifications nc sender b l f t)"
  unfolding rule_keeps_def
proof (intro allI)
  fix d :: device and s :: db_session and m
  obtain i s1 where c: "get_or_create_integration_settings t s = (i, s1)"
    by (cases "get_or_create_integration_settings t s")
  then have s1: "devices (work s1) = devices (work s)" using get_or_create_devices [of t s] by simp
  let ?c = "get_company (work s1) (dev_company_id d)"
  have "rule_keeps (\<lambda>x. firmware_available_rule nc sender ?c f t
      (license_expiring_rule nc sender ?c l t (backup_overdue_rule nc sender ?c b t x)))"
    by (rule rule_keeps_comp [OF firmware_rule_keeps [OF assms]
          rule_keeps_comp [OF license_rule_keeps [OF assms] backup_rule_keeps [OF assms]]])
  from this [unfolded rule_keeps_def, rule_format, of d s1 m] have r: "case firmware_available_rule nc sender ?c f t
      (license_expiring_rule nc sender ?c l t (backup_overdue_rule nc sender ?c b t (d, s1, m))) of
      (d', s', m') \<Rightarrow> same_health d d' \<and> devices (work s') = devices (work s1)"
    by (simp only:)
  show "case maybe_send_phase2_device_notifications nc sender b l f t (d, s, m) of (d', s', m') \<Rightarrow>
      same_health d d' \<and> devices (work s') = devices (work s)"
    using r by (simp add: maybe_send_phase2_device_notifications_def c s1 Let_def split: option.split)
qed

lemma save_device_get:
  "get_device (work s) i = Some d0 \<Longrightarrow> dev_id d = i \<Longrightarrow> get_device (work (save_device d s)) i = Some d"
proof -
  assume g: "get_device (work s) i = Some d0" and d: "dev_id d = i"
  have "find (\<lambda>r. dev_id r = i) (update_where (\<lambda>x. dev_id x = i) (\<lambda>_. d) xs) =
      map_option (\<lambda>_. d) (find (\<lambda>r. dev_id r = i) xs)" for xs
    using d by (induction xs) (auto simp: update_where_def)
  then show ?thesis using g d by (simp add: get_device_def save_device_def put_device_def)
qed

lemma get_device_cong: "devices a = devices b \<Longrightarrow> get_device a i = get_device b i"
  by (simp add: get_device_def)

lemma apply_probe_result_refines:
  assumes keep: "keeps_devices sender" and g: "get_device (work s) i = Some d"
    and r: "apply_probe_result nc sender healthy message now d (s, m) = (d', s', m')"
  shows "get_device (work s') i = Some d' \<and> dev_id d' = i
     \<and> device_health d' = next_health_state (device_health d) healthy (health_thresholds_of (nc_cfg nc))
     \<and> dev_last_seen_at d' = (if healthy then Some now else dev_last_seen_at d)"
proof -
  obtain ns d1 where h: "device_health_status (nc_cfg nc) d healthy = (ns, d1)"
    by (cases "device_health_status (nc_cfg nc) d healthy")
  let ?h = "next_health_state (device_health d) healthy (health_thresholds_of (nc_cfg nc))"
  let ?d = "d1\<lparr>dev_status := ns\<rparr>"
  let ?s = "add_device_event now (dev_id ?d) ''health_check'' (health_event_message message ?d) (save_device ?d s)"
  have i: "dev_id d = i" using g by (auto simp: get_device_def dest: find_SomeD)
  have d1: "dev_id ?d = i" "device_health ?d = ?h" "dev_last_seen_at ?d = dev_last_seen_at d"
    "dev_status d1 = dev_status d"
    using h i by (auto simp: device_health_status_def device_health_def Let_def)
  obtain b d2 s2 m2 where mail: "maybe_send_health_notification nc sender (dev_status d) ns now ?d (?s, m) = (b, d2, s2, m2)"
    by (cases "maybe_send_health_notification nc sender (dev_status d) ns now ?d (?s, m)")
  from health_mail_keeps [OF keep mail] have k: "same_health ?d d2" "devices (work s2) = devices (work ?s)"
    by blast+
  have gs: "get_device (work (save_device ?d s)) i = Some ?d" by (rule save_device_get [OF g d1(1)])
  have g2: "get_device (work s2) i = Some ?d"
    using get_device_cong [OF k(2), of i] gs get_device_cong [of "work ?s" "work (save_device ?d s)" i]
    by simp
  have fin: "get_device (work (save_device d'' s'')) i = Some d''"
    if "get_device (work s'') i = Some x" "dev_id d'' = i" for d'' s'' x
    using save_device_get that by blast
  have up: "device_health (x\<lparr>dev_last_seen_at := y\<rparr>) = device_health x" "dev_id (x\<lparr>dev_last_seen_at := y\<rparr>) = dev_id x"
    for x y by (simp_all add: device_health_def)
  show ?thesis
  proof (cases "dev_status d = ns")
    case True
    have 1: "dev_id d1 = i" "device_health d1 = ?h" "dev_last_seen_at d1 = dev_last_seen_at d"
      using d1 True by (simp_all add: device_health_def)
    have "d' = (if healthy then d1\<lparr>dev_last_seen_at := Some now\<rparr> else d1)"
      "s' = save_device d' (save_device d1 s)"
      using r h True by (auto simp: apply_probe_result_def Let_def)
    then show ?thesis using fin [OF save_device_get [OF g 1(1)], of d'] 1 up by auto
  next
    case False
    then have "d' = (if healthy then d2\<lparr>dev_last_seen_at := Some now\<rparr> else d2)" "s' = save_device d' s2"
      using r h mail by (auto simp: apply_probe_result_def Let_def)
    then show ?thesis using fin [OF g2, of d'] d1 up k(1) by (auto simp: same_health_def)
  qed
qed

lemma apply_rules_refines:
  assumes keep: "keeps_devices sender" and g: "get_device (work s) i = Some d" and i: "dev_id d = i"
  shows "\<exists>d'. get_device (work (fst (apply_rules nc sender now d (s, m)))) i = Some d' \<and> same_health d d'"
proof (cases "maintenance_window_active now d")
  case True
  then show ?thesis using g by (auto simp: apply_rules_def)
next
  case False
  let ?b = "dev_backup_enabled d \<and> dev_backup_last_uploaded_at d \<noteq> None \<and> backup_due now d"
  let ?f = "lower (dev_firmware_status d) \<in> {''update'', ''upgrade''}"
  obtain d' s' m' where q: "maybe_send_phase2_device_notifications nc sender ?b
      (license_expiring_soon now d) ?f now (d, s, m) = (d', s', m')"
    by (cases "maybe_send_phase2_device_notifications nc sender ?b (license_expiring_soon now d) ?f now (d, s, m)")
  have k: "same_health d d'" "devices (work s') = devices (work s)"
    using rule_keepsD [OF phase2_keeps [OF keep] q] by simp_all
  then have "get_device (work s') i = Some d" using get_device_cong [of "work s'" "work s" i] g by simp
  then have "get_device (work (save_device d' s')) i = Some d'"
    using k(1) i by (intro save_device_get) (simp_all add: same_health_def)
  then show ?thesis using k(1) False q by (simp add: apply_rules_def Let_def)
qed

lemma check_device_refines:
  assumes keep: "keeps_devices sender" and g: "get_device (work s) i = Some d"
  shows "\<exists>d'. get_device (work (fst (check_device nc sender probe now d (s, m)))) i = Some d'
     \<and> device_health d' = next_health_state (device_health d) (fst (probe d)) (health_thresholds_of (nc_cfg nc))
     \<and> dev_last_seen_at d' = (if fst (probe d) then Some now else dev_last_seen_at d)"
proof -
  obtain healthy msg where p: "probe d = (healthy, msg)" by (cases "probe d")
  obtain d1 s1 m1 where q: "apply_probe_result nc sender healthy msg now d (s, m) = (d1, s1, m1)"
    by (cases "apply_probe_result nc sender healthy msg now d (s, m)")
  note one = apply_probe_result_refines [OF keep g q]
  obtain d' where "get_device (work (fst (apply_rules nc sender now d1 (s1, m1)))) i = Some d'" "same_health d1 d'"
    using apply_rules_refines [OF keep, of s1 i d1 nc now m1] one by blast
  then show ?thesis using one p q by (auto simp: check_device_def same_health_def)
qed

lemma recording_keeps_devices: "keeps_devices recording_sender"
  by (simp add: keeps_devices_def recording_sender_def)

subsection \<open>Properties\<close>

text \<open>C6. A health check of a stored firewall refines the health state machine: whatever mails are sent
  or fail, as long as the sender leaves the device table alone, the stored row afterwards has the
  status and counters that \<open>next_health_state\<close> gives for the row before and the outcome of the
  probe, and its last contact is updated exactly when the probe succeeded.\<close>

theorem health_check_refines:
  assumes "keeps_devices sender" and "get_device (work s) i = Some d"
  shows "\<exists>d'. get_device (work (fst (check_device nc sender probe now d (s, m)))) i = Some d'
     \<and> device_health d' = next_health_state (device_health d) (fst (probe d)) (health_thresholds_of (nc_cfg nc))
     \<and> dev_last_seen_at d' = (if fst (probe d) then Some now else dev_last_seen_at d)"
  by (rule check_device_refines [OF assms])

theorem health_check_refines_witness:
  "\<exists>d'. get_device (work (fst (check_device example_ctx recording_sender (\<lambda>_. (True, ''ok'')) 7
      (default_device 2 0) (open_session (empty_db\<lparr>devices := [default_device 2 0]\<rparr>) 3, [])))) 2 = Some d'
     \<and> dev_last_seen_at d' = Some 7"
proof -
  have "get_device (work (open_session (empty_db\<lparr>devices := [default_device 2 0]\<rparr>) 3)) 2
      = Some (default_device 2 0)"
    by (simp add: open_session_def get_device_def default_device_def)
  from health_check_refines [OF recording_keeps_devices this, of example_ctx "\<lambda>_. (True, ''ok'')" 7 "[]"]
  show ?thesis by auto
qed


text \<open>The daily firmware check asks once: after a scheduled run no device needs a request for that
  local day any more, so a second run at any time of the same local day marks nothing and leaves
  the transaction as it is; and outside the hour from 23:00 nothing is marked at all.\<close>

theorem firmware_schedule_once_per_day:
  assumes "mark_devices_for_firmware_check tz ''scheduled'' now s = (n, s')"
    and "local_day tz later = local_day tz now"
  shows "mark_devices_for_firmware_check tz ''scheduled'' later s' = (0, s')
    \<and> run_firmware_schedule_once tz later s' = (0, s')
    \<and> (local_hour tz now \<noteq> 23 \<longrightarrow> run_firmware_schedule_once tz now s = (0, s))"
proof -
  have "\<forall>d\<in>set (devices (work s')). \<not> needs_firmware_check tz (local_day tz later) d"
    using mark_leaves_none [OF assms(1)] assms(2) by auto
  from mark_nothing [OF this]
  have m: "mark_devices_for_firmware_check tz ''scheduled'' later s' = (0, s')" .
  then show ?thesis by (simp add: run_firmware_schedule_once_def)
qed

theorem firmware_schedule_once_per_day_witness:
  "\<exists>s'. mark_devices_for_firmware_check utc_zone ''scheduled'' (hours 23 + 1) s' = (0, s')"
proof -
  obtain n s' where "mark_devices_for_firmware_check utc_zone ''scheduled'' (hours 23)
      (open_session (empty_db\<lparr>devices := [default_device 2 0]\<rparr>) 3) = (n, s')"
    by (cases "mark_devices_for_firmware_check utc_zone ''scheduled'' (hours 23)
      (open_session (empty_db\<lparr>devices := [default_device 2 0]\<rparr>) 3)")
  from firmware_schedule_once_per_day [OF this, of "hours 23 + 1"]
  show ?thesis by (auto simp: local_day_def local_time_def utc_zone_def utc_day_def hours_def)
qed

end
