(* ===== verification/Rate_Limit.thy ===== *)
theory Rate_Limit
  imports Request_Context
begin

text \<open>
  Rate limiting: \<open>dashboard/app/security/rate_limit.py\<close>. The in-memory backend is a list of
  buckets in the order of the \<open>OrderedDict\<close>, each with the times of its accepted hits. A hit
  returns its outcome with the new state, since a rejected hit also moves and prunes buckets.
  The Redis client is a record of functions on a state the model does not look into;
  \<^const>\<open>None\<close> stands for an exception of the client.
\<close>

type_synonym buckets = "(string \<times> instant list) list"

definition http_429 :: exn where
  "http_429 = HTTPException 429 ''rate limit exceeded''"

definition max_buckets_of :: "settings \<Rightarrow> int option \<Rightarrow> nat" where
  "max_buckets_of cfg m =
     (let v = (case m of Some n \<Rightarrow> if n \<noteq> 0 then n else cfg_rate_limit_memory_max_buckets cfg
                | None \<Rightarrow> cfg_rate_limit_memory_max_buckets cfg)
      in nat (max 1 v))"

definition bucket_window :: "string \<Rightarrow> int" where
  "bucket_window k =
     (case rpartition_at CHR '':'' k of (_, _, w) \<Rightarrow> case py_int w of Some n \<Rightarrow> n | None \<Rightarrow> 0)"

definition drop_expired :: "instant \<Rightarrow> instant list \<Rightarrow> instant list" where
  "drop_expired cutoff entries = dropWhile (\<lambda>t. t \<le> cutoff) entries"

definition prune_expired :: "instant \<Rightarrow> buckets \<Rightarrow> buckets" where
  "prune_expired now bs =
     filter (\<lambda>(k, es). es \<noteq> [])
       (map (\<lambda>(k, es). (k, drop_expired (now - seconds (bucket_window k)) es)) bs)"

definition bucket_key :: "string \<Rightarrow> string \<Rightarrow> int \<Rightarrow> string" where
  "bucket_key bucket key window_seconds = bucket @ '':'' @ key @ '':'' @ int_str window_seconds"

fun pop_oldest :: "nat \<Rightarrow> buckets \<Rightarrow> buckets" where
  "pop_oldest m [] = []"
| "pop_oldest m (b # bs) = (if length (b # bs) \<ge> m then pop_oldest m bs else b # bs)"

definition memory_hit ::
  "nat \<Rightarrow> instant \<Rightarrow> string \<Rightarrow> string \<Rightarrow> int \<Rightarrow> int \<Rightarrow> buckets \<Rightarrow> unit res \<times> buckets" where
  "memory_hit max_buckets now bucket key limit window_seconds bs0 =
     (let k = bucket_key bucket key window_seconds;
          cutoff = now - seconds window_seconds;
          bs = prune_expired now bs0;
          (rest, entries) =
            (case map_of bs k of
               None \<Rightarrow> (pop_oldest max_buckets bs, [])
             | Some es \<Rightarrow> (filter (\<lambda>(k', _). k' \<noteq> k) bs, es));
          entries' = drop_expired cutoff entries
      in if int (length entries') \<ge> limit then (Inl http_429, rest @ [(k, entries')])
         else (Inr (), rest @ [(k, entries' @ [now])]))"

definition memory_clear :: "buckets \<Rightarrow> buckets" where
  "memory_clear bs = []"

subsection \<open>The other backends and the front end\<close>

record 'r redis_client =
  redis_incr :: "string \<Rightarrow> 'r \<Rightarrow> int option \<times> 'r"
  redis_expire :: "string \<Rightarrow> int \<Rightarrow> 'r \<Rightarrow> unit option \<times> 'r"

definition http_503 :: exn where
  "http_503 = HTTPException 503 ''rate limiting unavailable''"

definition redis_hit ::
  "'r redis_client \<Rightarrow> string \<Rightarrow> string \<Rightarrow> int \<Rightarrow> int \<Rightarrow> 'r \<Rightarrow> unit res \<times> 'r" where
  "redis_hit cl bucket key limit window_seconds r0 =
     (let k = ''opnhub:ratelimit:'' @ bucket @ '':'' @ key in
      case redis_incr cl k r0 of
        (None, r1) \<Rightarrow> (Inl http_503, r1)
      | (Some count, r1) \<Rightarrow>
          (case (if count = 1 then redis_expire cl k window_seconds r1 else (Some (), r1)) of
             (None, r2) \<Rightarrow> (Inl http_503, r2)
           | (Some _, r2) \<Rightarrow> (if count > limit then Inl http_429 else Inr (), r2)))"

datatype backend = Memory | Redis string | Edge

definition build_backend :: "settings \<Rightarrow> backend res" where
  "build_backend cfg =
     (let backend = lower (strip (cfg_rate_limit_backend cfg)) in
      if backend = ''redis'' then
        (if \<not> nonempty (cfg_rate_limit_redis_url cfg)
         then Inl (RuntimeError ''RATE_LIMIT_REDIS_URL is required when RATE_LIMIT_BACKEND=redis'')
         else Inr (Redis (the (cfg_rate_limit_redis_url cfg))))
      else if backend = ''edge'' then Inr Edge
      else Inr Memory)"

fun limiter_hit ::
  "settings \<Rightarrow> 'r redis_client \<Rightarrow> backend \<Rightarrow> instant \<Rightarrow> string \<Rightarrow> string \<Rightarrow> int \<Rightarrow> int
     \<Rightarrow> buckets \<times> 'r \<Rightarrow> unit res \<times> buckets \<times> 'r" where
  "limiter_hit cfg cl Memory now bucket key limit w (bs, r) =
     (case memory_hit (max_buckets_of cfg None) now bucket key limit w bs of
        (res, bs') \<Rightarrow> (res, bs', r))"
| "limiter_hit cfg cl (Redis u) now bucket key limit w (bs, r) =
     (case redis_hit cl bucket key limit w r of (res, r') \<Rightarrow> (res, bs, r'))"
| "limiter_hit cfg cl Edge now bucket key limit w (bs, r) = (Inr (), bs, r)"

definition apply_rate_limit ::
  "settings \<Rightarrow> 'r redis_client \<Rightarrow> backend \<Rightarrow> instant \<Rightarrow> request \<Rightarrow> string \<Rightarrow> string \<Rightarrow> int \<Rightarrow> int
     \<Rightarrow> buckets \<times> 'r \<Rightarrow> unit res \<times> buckets \<times> 'r" where
  "apply_rate_limit cfg cl b now rq bucket identifier limit w st =
     limiter_hit cfg cl b now bucket (client_ip cfg rq @ '':'' @ identifier) limit w st"

subsection \<open>Keys and windows\<close>

lemma py_int_int_str: "py_int (int_str i) = Some i"
proof (cases "i < 0")
  case False
  then show ?thesis by (simp add: int_str_def)
next
  case True
  let ?d = "nat_str (nat (- i))"
  have d: "\<forall>c\<in>set ?d. is_digit c" by (rule nat_str_digits)
  then have "\<forall>c\<in>set (CHR ''-'' # ?d). \<not> is_space c"
    using is_digit_not_space by (auto simp: is_space_def code_of_def)
  then have "strip (CHR ''-'' # ?d) = CHR ''-'' # ?d" by (rule strip_no_space)
  moreover have "int_digits ?d = Some ?d" using d by (intro int_digits_all) auto
  ultimately show ?thesis using True by (simp add: py_int_def int_str_def)
qed

interpretation decimal_int: codec int_str py_int
  by unfold_locales (rule py_int_int_str)

lemma colon_notin_int_str: "CHR '':'' \<notin> set (int_str i)"
  using nat_str_digits by (auto simp: int_str_def dest: is_digit_neq)

lemma bucket_window_key: "bucket_window (bucket_key b k w) = w"
proof -
  have "rpartition_at CHR '':'' ((b @ '':'' @ k) @ CHR '':'' # int_str w) = (True, b @ '':'' @ k, int_str w)"
    by (rule rpartition_at_append) (rule colon_notin_int_str)
  then show ?thesis by (simp add: bucket_window_def bucket_key_def py_int_int_str)
qed

subsection \<open>The buckets stay bounded and distinct\<close>

lemma map_fst_prune: "map fst (prune_expired now bs) = map fst
    (filter (\<lambda>(k, es). drop_expired (now - seconds (bucket_window k)) es \<noteq> []) bs)"
  by (induction bs) (auto simp: prune_expired_def)

lemma distinct_map_filter': "distinct (map f xs) \<Longrightarrow> distinct (map f (filter p xs))"
  by (induction xs) auto

lemma length_prune: "length (prune_expired now bs) \<le> length bs"
  unfolding prune_expired_def by (rule order_trans [OF length_filter_le]) simp

lemma set_fst_prune: "fst ` set (prune_expired now bs) \<subseteq> fst ` set bs"
  by (force simp: prune_expired_def)

lemma distinct_prune: "distinct (map fst bs) \<Longrightarrow> distinct (map fst (prune_expired now bs))"
  by (simp only: map_fst_prune distinct_map_filter')

lemma pop_oldest_length: "0 < m \<Longrightarrow> length (pop_oldest m bs) < m"
  by (induction m bs rule: pop_oldest.induct) auto

lemma pop_oldest_suffix: "\<exists>n. pop_oldest m bs = drop n bs"
proof (induction bs)
  case (Cons b bs)
  then obtain n where "pop_oldest m bs = drop n bs" by blast
  then have "pop_oldest m bs = drop (Suc n) (b # bs)" by simp
  moreover have "b # bs = drop 0 (b # bs)" by simp
  ultimately show ?case by (metis pop_oldest.simps(2))
qed simp

lemma pop_oldest_id: "length bs < m \<Longrightarrow> pop_oldest m bs = bs"
  by (cases bs) auto

lemma map_of_filter_neq: "map_of (filter (\<lambda>(k', _). k' \<noteq> k) bs) j = (if j = k then None else map_of bs j)"
  by (induction bs) auto

lemma length_filter_key:
  "map_of bs k = Some es \<Longrightarrow> length (filter (\<lambda>(k', _). k' \<noteq> k) bs) < length bs"
  by (rule filter_length_less [of "(k, es)"]) (auto dest: map_of_SomeD)

definition rl_inv :: "nat \<Rightarrow> buckets \<Rightarrow> bool" where
  "rl_inv m bs \<longleftrightarrow> length bs \<le> m \<and> distinct (map fst bs)"

lemma memory_hit_inv:
  assumes "rl_inv m bs" and "0 < m"
  shows "rl_inv m (snd (memory_hit m now b key limit w bs))"
proof -
  let ?k = "bucket_key b key w" and ?p = "prune_expired now bs"
  have p: "length ?p \<le> m" "distinct (map fst ?p)"
    using assms length_prune [of now bs] distinct_prune by (auto simp: rl_inv_def)
  show ?thesis
  proof (cases "map_of ?p ?k")
    case None
    then have "?k \<notin> fst ` set ?p" by (simp add: map_of_eq_None_iff)
    moreover obtain n where n: "pop_oldest m ?p = drop n ?p" using pop_oldest_suffix by blast
    ultimately have "?k \<notin> fst ` set (drop n ?p)" by (meson image_mono set_drop_subset subsetD)
    moreover have "length (drop n ?p) < m" using pop_oldest_length [OF assms(2), of ?p] n by simp
    moreover have "distinct (map fst (drop n ?p))" using p(2) by (metis distinct_drop drop_map)
    ultimately show ?thesis using None n
      by (auto simp: memory_hit_def rl_inv_def Let_def)
  next
    case (Some es)
    have "length (filter (\<lambda>(k', _). k' \<noteq> ?k) ?p) < m"
      using length_filter_key [OF Some] p(1) by linarith
    moreover have "distinct (map fst (filter (\<lambda>(k', _). k' \<noteq> ?k) ?p))"
      using p(2) by (rule distinct_map_filter')
    ultimately show ?thesis using Some
      by (auto simp: memory_hit_def rl_inv_def Let_def)
  qed
qed

subsection \<open>The sliding window\<close>

definition view :: "string \<Rightarrow> buckets \<Rightarrow> instant list" where
  "view k bs = (case map_of bs k of None \<Rightarrow> [] | Some es \<Rightarrow> es)"

text \<open>A sequence of hits, each with its time, bucket, key, limit and window, and the times at
  which the hits on one bucket key were accepted.\<close>

type_synonym hit = "instant \<times> string \<times> string \<times> int \<times> int"

definition hit_key :: "hit \<Rightarrow> string" where
  "hit_key h = (case h of (now, b, key, limit, w) \<Rightarrow> bucket_key b key w)"

definition hit_step :: "nat \<Rightarrow> hit \<Rightarrow> buckets \<Rightarrow> unit res \<times> buckets" where
  "hit_step m h bs = (case h of (now, b, key, limit, w) \<Rightarrow> memory_hit m now b key limit w bs)"

fun accepted :: "nat \<Rightarrow> string \<Rightarrow> hit list \<Rightarrow> buckets \<Rightarrow> instant list" where
  "accepted m k [] bs = []"
| "accepted m k (h # hs) bs =
     (case hit_step m h bs of (r, bs') \<Rightarrow>
        (if hit_key h = k \<and> r = Inr () then [fst h] else []) @ accepted m k hs bs')"

definition hit_limit :: "hit \<Rightarrow> int" where
  "hit_limit h = fst (snd (snd (snd h)))"

lemma view_prune:
  "distinct (map fst bs) \<Longrightarrow>
     view k (prune_expired now bs) = drop_expired (now - seconds (bucket_window k)) (view k bs)"
proof (induction bs)
  case Nil
  then show ?case by (simp add: view_def prune_expired_def drop_expired_def)
next
  case (Cons b bs)
  obtain j es where b: "b = (j, es)" by (cases b)
  have "map_of (prune_expired now bs) k = None" if "j = k"
    using Cons.prems that set_fst_prune [of now bs] by (auto simp: map_of_eq_None_iff b)
  moreover have "prune_expired now (b # bs) =
      (if drop_expired (now - seconds (bucket_window j)) es = [] then [] else
        [(j, drop_expired (now - seconds (bucket_window j)) es)]) @ prune_expired now bs"
    by (simp add: prune_expired_def b)
  ultimately show ?case using Cons b by (auto simp: view_def)
qed

lemma view_step:
  fixes K :: "string set" and k :: string and h :: hit and bs :: buckets
  assumes inv: "rl_inv m bs" and K: "fst ` set bs \<subseteq> K" "finite K" "card K \<le> m" "hit_key h \<in> K"
  defines "W \<equiv> seconds (bucket_window k)"
  defines "es \<equiv> drop_expired (fst h - W) (view k bs)"
  shows "view k (snd (hit_step m h bs)) =
      (if hit_key h = k then (if int (length es) \<ge> hit_limit h then es else es @ [fst h]) else es)"
    and "hit_key h = k \<Longrightarrow> fst (hit_step m h bs) = Inr () \<longleftrightarrow> int (length es) < hit_limit h"
    and "fst ` set (snd (hit_step m h bs)) \<subseteq> K"
proof -
  obtain now b key limit w where h: "h = (now, b, key, limit, w)" by (cases h)
  let ?k = "bucket_key b key w" and ?p = "prune_expired now bs"
  have d: "distinct (map fst ?p)" using inv distinct_prune by (simp add: rl_inv_def)
  have vp: "view k ?p = es"
    using view_prune inv by (simp add: es_def W_def rl_inv_def h)
  have idem: "drop_expired c (drop_expired c xs) = drop_expired c xs" for c xs
    by (simp add: drop_expired_def)
  have w: "bucket_window ?k = w" by (rule bucket_window_key)
  have small: "length ?p < m" if "map_of ?p ?k = None"
  proof -
    have "fst ` set ?p \<subseteq> K - {?k}"
      using set_fst_prune [of now bs] K(1) that by (force simp: map_of_eq_None_iff)
    then have "card (fst ` set ?p) \<le> card (K - {?k})" using K(2) by (intro card_mono) auto
    moreover have "card (fst ` set ?p) = length ?p" using d by (metis distinct_card length_map set_map)
    moreover have "card (K - {?k}) < card K"
      using K(2,4) by (intro card_Diff1_less) (simp_all add: hit_key_def h)
    ultimately show ?thesis using K(3) by linarith
  qed
  have notin: "map_of (filter (\<lambda>(k', _). k' \<noteq> ?k) ?p) ?k = None" by (simp add: map_of_filter_neq)
  have "view ?k ?p = drop_expired (now - seconds w) (view ?k bs)"
    using view_prune [of bs ?k now] inv w by (simp add: rl_inv_def)
  then have idem': "drop_expired (now - seconds w) (view ?k ?p) = view ?k ?p" by (simp add: idem)
  show "view k (snd (hit_step m h bs)) =
      (if hit_key h = k then (if int (length es) \<ge> hit_limit h then es else es @ [fst h]) else es)"
    using small notin idem' vp
    by (auto simp: hit_step_def h memory_hit_def hit_key_def hit_limit_def view_def Let_def
        map_add_def map_of_filter_neq pop_oldest_id drop_expired_def split: option.splits)
  show "fst (hit_step m h bs) = Inr () \<longleftrightarrow> int (length es) < hit_limit h" if "hit_key h = k"
    using small notin idem' vp that
    by (auto simp: hit_step_def h memory_hit_def hit_key_def hit_limit_def view_def Let_def
        pop_oldest_id drop_expired_def split: option.splits)
  have "fst ` set ?p \<subseteq> K" "?k \<in> K" using set_fst_prune [of now bs] K by (auto simp: hit_key_def h)
  then show "fst ` set (snd (hit_step m h bs)) \<subseteq> K"
    using small
    by (auto simp: hit_step_def h memory_hit_def Let_def pop_oldest_id split: option.splits)
qed

definition spaced :: "nat \<Rightarrow> int \<Rightarrow> instant list \<Rightarrow> bool" where
  "spaced n w ts \<longleftrightarrow> (\<forall>i. i + n < length ts \<longrightarrow> ts ! i + w \<le> ts ! (i + n))"

lemma drop_expired_drop:
  "\<exists>n'\<ge>n. drop_expired c (drop n ts) = drop n' ts \<and> n' \<le> max n (length ts) \<and>
     (\<forall>i. n \<le> i \<and> i < n' \<longrightarrow> ts ! i \<le> c)"
proof -
  let ?q = "length (takeWhile (\<lambda>t. t \<le> c) (drop n ts))"
  have q: "?q \<le> length (drop n ts)" by (rule length_takeWhile_le)
  have "drop_expired c (drop n ts) = drop (n + ?q) ts"
    by (simp add: drop_expired_def dropWhile_eq_drop add.commute)
  moreover have "ts ! i \<le> c" if "n \<le> i" "i < n + ?q" for i
  proof -
    have j: "i - n < ?q" using that by linarith
    then have "takeWhile (\<lambda>t. t \<le> c) (drop n ts) ! (i - n) \<le> c"
      by (metis nth_mem set_takeWhileD)
    then show ?thesis using j that q by (simp add: takeWhile_nth)
  qed
  moreover have "n + ?q \<le> max n (length ts)" using q by auto
  ultimately show ?thesis by (intro exI [of _ "n + ?q"]) auto
qed

lemma spaced_snoc:
  assumes "spaced l w ts" and "\<And>i. i < n \<Longrightarrow> ts ! i \<le> now - w" and "length ts < n + l"
    and "n \<le> length ts" and "l > 0"
  shows "spaced l w (ts @ [now])"
  unfolding spaced_def
proof (intro allI impI)
  fix i
  assume i: "i + l < length (ts @ [now])"
  show "(ts @ [now]) ! i + w \<le> (ts @ [now]) ! (i + l)"
  proof (cases "i + l < length ts")
    case True
    then show ?thesis using assms(1) by (simp add: spaced_def nth_append)
  next
    case False
    with i have "i + l = length ts" by simp
    moreover from this have "i < n" "i < length ts" using assms(3,5) by linarith+
    ultimately show ?thesis using assms(2) [of i] by (simp add: nth_append)
  qed
qed

lemma accepted_spaced_gen:
  assumes "rl_inv m bs" and "0 < m" and "fst ` set bs \<subseteq> K" "finite K" "card K \<le> m"
    and "set (map hit_key hs) \<subseteq> K" and "sorted (t # map fst hs)"
    and "\<forall>h\<in>set hs. hit_key h = k \<longrightarrow> hit_limit h = int l" and "0 < l"
    and "view k bs = drop n ts" and "n \<le> length ts"
    and "\<forall>i<n. ts ! i \<le> t - seconds (bucket_window k)"
    and "spaced l (seconds (bucket_window k)) ts"
  shows "spaced l (seconds (bucket_window k)) (ts @ accepted m k hs bs)"
  using assms(1,3,6,7,8,10-13)
proof (induction hs arbitrary: bs ts n t)
  case (Cons h hs)
  let ?W = "seconds (bucket_window k)"
  let ?es = "drop_expired (fst h - ?W) (view k bs)" and ?bs = "snd (hit_step m h bs)"
  have hk: "hit_key h \<in> K" using Cons.prems(3) by simp
  note step = view_step(1,2) [OF Cons.prems(1,2) assms(4,5) hk, of k]
    and keys = view_step(3) [OF Cons.prems(1,2) assms(4,5) hk]
  obtain n' where n': "?es = drop n' ts" "n' \<le> max n (length ts)" "n \<le> n'"
      "\<And>i. n \<le> i \<Longrightarrow> i < n' \<Longrightarrow> ts ! i \<le> fst h - ?W"
    using drop_expired_drop [of n "fst h - ?W" ts] Cons.prems(6) by auto
  have n'l: "n' \<le> length ts" using n'(2) Cons.prems(7) by simp
  have th: "t \<le> fst h" "sorted (fst h # map fst hs)" using Cons.prems(4) by simp_all
  have old: "ts ! i \<le> fst h - ?W" if "i < n'" for i
  proof (cases "n \<le> i")
    case False
    then have "ts ! i \<le> t - ?W" using Cons.prems(8) by simp
    with th(1) show ?thesis by linarith
  qed (use that n'(4) in simp)
  have inv: "rl_inv m ?bs"
    using memory_hit_inv [OF Cons.prems(1) assms(2)] by (auto simp: hit_step_def split: prod.splits)
  have lim: "\<forall>h\<in>set hs. hit_key h = k \<longrightarrow> hit_limit h = int l" "set (map hit_key hs) \<subseteq> K"
    using Cons.prems(3,5) by auto
  show ?case
  proof (cases "hit_key h = k \<and> int (length ?es) < int l")
    case True
    then have acc: "fst (hit_step m h bs) = Inr ()"
      using step(2) Cons.prems(5) by simp
    have v: "view k ?bs = drop n' (ts @ [fst h])"
      using step(1) True Cons.prems(5) n'(1) n'l by simp
    have "length ts < n' + l" using True n'(1) n'l by simp
    then have sp: "spaced l ?W (ts @ [fst h])"
      using spaced_snoc [OF Cons.prems(9) old _ n'l assms(9)] by simp
    have "\<forall>i<n'. (ts @ [fst h]) ! i \<le> fst h - ?W" using old n'l by (auto simp: nth_append)
    from Cons.IH [OF inv keys lim(2) th(2) lim(1) v _ this sp] n'l
    show ?thesis using acc True by (simp add: case_prod_beta)
  next
    case False
    then have rej: "\<not> (hit_key h = k \<and> fst (hit_step m h bs) = Inr ())"
      using step(2) Cons.prems(5) by auto
    have v: "view k ?bs = drop n' ts"
      using step(1) False Cons.prems(5) n'(1) by auto
    have "\<forall>i<n'. ts ! i \<le> fst h - ?W" using old by simp
    from Cons.IH [OF inv keys lim(2) th(2) lim(1) v n'l this Cons.prems(9)]
    show ?thesis using rej by (auto simp: case_prod_beta)
  qed
qed simp

lemma accepted_spaced:
  assumes "card (set (map hit_key hs)) \<le> m" and "0 < m" and "sorted (map fst hs)"
    and "\<forall>h\<in>set hs. hit_key h = k \<longrightarrow> hit_limit h = int l" and "0 < l"
  shows "spaced l (seconds (bucket_window k)) (accepted m k hs [])"
proof (cases hs)
  case Nil
  then show ?thesis by (simp add: spaced_def)
next
  case (Cons h hs')
  have "spaced l (seconds (bucket_window k)) ([] @ accepted m k hs [])"
    by (rule accepted_spaced_gen [where K = "set (map hit_key hs)" and t = "fst h" and n = 0 and l = l])
      (use assms Cons in \<open>auto simp: rl_inv_def view_def spaced_def\<close>)
  then show ?thesis by simp
qed

subsection \<open>Properties\<close>

text \<open>C15. The rate limit holds over every window: for any sequence of hits in the order of time on at
  most as many bucket keys as the limiter keeps, of the hits on one key with limit \<open>l\<close> no more than
  \<open>l\<close> are accepted in any window of the configured length: the accepted hit \<open>l\<close> places later comes
  at least a whole window later.\<close>

theorem rate_limit_sliding_window:
  assumes "card (set (map hit_key hs)) \<le> m" and "0 < m" and "sorted (map fst hs)"
    and "\<forall>h\<in>set hs. hit_key h = bucket_key b key w \<longrightarrow> hit_limit h = int l" and "0 < l"
    and "i + l < length (accepted m (bucket_key b key w) hs [])"
  shows "accepted m (bucket_key b key w) hs [] ! i + seconds w
     \<le> accepted m (bucket_key b key w) hs [] ! (i + l)"
  using accepted_spaced [OF assms(1-5)] assms(6) by (simp add: spaced_def bucket_window_key)

theorem rate_limit_sliding_window_witness:
  "accepted 10 (bucket_key ''b'' ''k'' 60) [(0, ''b'', ''k'', 1, 60), (5, ''b'', ''k'', 1, 60),
     (60000000, ''b'', ''k'', 1, 60)] [] = [0, 60000000] \<and> (0 :: int) + seconds 60 \<le> 60000000"
proof -
  let ?k = "bucket_key ''b'' ''k'' 60"
  let ?hs = "[(0, ''b'', ''k'', 1, 60), (5, ''b'', ''k'', 1, 60), (60000000, ''b'', ''k'', 1, 60)] :: hit list"
  have a: "accepted 10 ?k ?hs [] = [0, 60000000]"
    by (simp add: hit_step_def memory_hit_def prune_expired_def drop_expired_def bucket_window_key hit_key_def
        seconds_def http_429_def Let_def)
  have "set (map hit_key ?hs) = {?k}" by (auto simp: hit_key_def)
  then have c: "card (set (map hit_key ?hs)) \<le> 10" by simp
  have "0 + 1 < length (accepted 10 ?k ?hs [])" unfolding a by simp
  then have "accepted 10 ?k ?hs [] ! 0 + seconds 60 \<le> accepted 10 ?k ?hs [] ! (0 + 1)"
    by (intro rate_limit_sliding_window [OF c, of "''b''" "''k''" 60 1 0]) (simp_all add: hit_limit_def)
  then show ?thesis unfolding a by simp
qed

text \<open>The limiter's memory stays bounded: with a positive bound, any run of hits from the empty
  limiter keeps at most that many buckets, with distinct keys.\<close>

theorem rate_limit_memory_bounded:
  assumes "0 < m"
  shows "length (fold (\<lambda>h bs. snd (hit_step m h bs)) hs []) \<le> m
    \<and> distinct (map fst (fold (\<lambda>h bs. snd (hit_step m h bs)) hs []))"
proof -
  have step: "rl_inv m (snd (hit_step m h bs))" if "rl_inv m bs" for h bs
    using memory_hit_inv [OF that assms] by (auto simp: hit_step_def split: prod.splits)
  have "rl_inv m (fold (\<lambda>h bs. snd (hit_step m h bs)) hs bs)" if "rl_inv m bs" for bs
    using that step by (induction hs arbitrary: bs) auto
  from this [of "[]"] show ?thesis by (simp add: rl_inv_def)
qed

theorem rate_limit_memory_bounded_witness:
  "length (fold (\<lambda>h bs. snd (hit_step 1 h bs)) [(0, ''b'', ''k'', 1, 60), (5, ''b'', ''x'', 1, 60)] []) \<le> 1"
  using rate_limit_memory_bounded [of 1 "[(0, ''b'', ''k'', 1, 60), (5, ''b'', ''x'', 1, 60)]"] by simp

end
