(* ===== verification/Enrollment.thy ===== *)
theory Enrollment
  imports Wireguard Firmware Rate_Limit
begin

text \<open>
  Enrollment of a firewall: \<open>dashboard/app/routers/enrollment.py\<close>. The handler works on the database
  session, the WireGuard world and the state of the rate limiter. The unique constraints of the
  device table are what makes a flush raise an \<open>IntegrityError\<close>. A handler that raises leaves
  its transaction to the dependency that opened it, which closes the session.
\<close>

record ('w, 'r) enroll_world =
  en_db :: db_session
  en_wg :: "'w wg_world"
  en_limits :: "buckets \<times> 'r"

definition log_enrollment_failure ::
  "settings \<Rightarrow> instant \<Rightarrow> request \<Rightarrow> string \<Rightarrow> uuid option \<Rightarrow> db_session \<Rightarrow> db_session" where
  "log_enrollment_failure cfg now rq action company_id s =
     commit (snd (write_audit cfg now (Some rq) action None company_id None s))"

definition claimable :: "instant \<Rightarrow> uuid \<Rightarrow> enrollment_code \<Rightarrow> bool" where
  "claimable now i c = (ec_id c = i \<and> ec_used_at c = None \<and> ec_expires_at c > now)"

definition claim_enrollment_code :: "instant \<Rightarrow> uuid \<Rightarrow> db_session \<Rightarrow> bool \<times> db_session" where
  "claim_enrollment_code now i s =
     (let p = claimable now i; codes = enrollment_codes (work s) in
      (length (filter p codes) = 1,
       s\<lparr>work := (work s)\<lparr>enrollment_codes :=
         update_where p (\<lambda>c. c\<lparr>ec_used_at := Some now\<rparr>) codes\<rparr>\<rparr>))"

definition compensate_failed_peer_add :: "uuid \<Rightarrow> uuid \<Rightarrow> db_session \<Rightarrow> db_session" where
  "compensate_failed_peer_add device_id enrollment_code_id s0 =
     (let s = rollback s0; d = work s in
      commit (s\<lparr>work := d\<lparr>
        audit_logs := filter (\<lambda>r. al_device_id r \<noteq> Some device_id) (audit_logs d),
        device_events := filter (\<lambda>r. ev_device_id r \<noteq> device_id) (device_events d),
        devices := filter (\<lambda>r. dev_id r \<noteq> device_id) (devices d),
        enrollment_codes := update_where (\<lambda>c. ec_id c = enrollment_code_id)
          (\<lambda>c. c\<lparr>ec_used_at := None\<rparr>) (enrollment_codes d)\<rparr>\<rparr>))"

text \<open>The unique columns of the device table: the public key and the tunnel address.\<close>

definition device_conflict :: "hub_db \<Rightarrow> device \<Rightarrow> bool" where
  "device_conflict db d =
     list_ex (\<lambda>r. dev_wg_public_key r = dev_wg_public_key d \<or> dev_wg_tunnel_ip r = dev_wg_tunnel_ip d)
       (devices db)"

definition flush_device :: "device \<Rightarrow> db_session \<Rightarrow> unit res \<times> db_session" where
  "flush_device d s =
     (if device_conflict (work s) d then (Inl IntegrityError, s)
      else (Inr (), s\<lparr>work := (work s)\<lparr>devices := devices (work s) @ [d]\<rparr>\<rparr>))"

record enroll_reply =
  er_device_id :: uuid
  er_device_token :: string
  er_issued_at :: instant
  er_expires_at :: instant
  er_interface_address :: string
  er_server_public_key :: string
  er_endpoint :: string
  er_allowed_ips :: string
  er_persistent_keepalive :: int

record enroll_input =
  in_now :: instant
  in_salt :: string
  in_token :: string
  in_payload :: "(string \<times> json) list"
  in_request :: request

definition find_code :: "crypto \<Rightarrow> instant \<Rightarrow> string \<Rightarrow> hub_db \<Rightarrow> enrollment_code option" where
  "find_code cr now otp db =
     find (\<lambda>c. verify_secret cr otp (ec_code_hash c))
       (filter (\<lambda>c. ec_used_at c = None \<and> ec_expires_at c > now) (enrollment_codes db))"

definition optional_json_text :: "(string \<times> json) list \<Rightarrow> string \<Rightarrow> string option" where
  "optional_json_text payload key =
     (case map_of payload key of None \<Rightarrow> None | Some JNull \<Rightarrow> None | Some v \<Rightarrow> Some (py_str v))"

definition new_device ::
  "crypto \<Rightarrow> settings \<Rightarrow> iso_parser \<Rightarrow> enroll_input \<Rightarrow> uuid \<Rightarrow> uuid \<Rightarrow> string \<Rightarrow> string \<Rightarrow> string
     \<Rightarrow> string \<times> device" where
  "new_device cr cfg parse_iso inp i company_id hostname key tunnel_ip =
     (let d0 = (default_device i (in_now inp))\<lparr>
            dev_company_id := company_id,
            dev_hostname := hostname,
            dev_opnsense_version := optional_json_text (in_payload inp) ''opnsense_version'',
            dev_plugin_version := optional_json_text (in_payload inp) ''plugin_version'',
            dev_wg_public_key := key,
            dev_wg_tunnel_ip := tunnel_ip,
            dev_device_token_hash := ''pending'',
            dev_status := ''online'',
            dev_last_seen_at := Some (in_now inp)\<rparr>
      in case issue_device_token cr cfg (in_salt inp) (in_token inp) (in_now inp) d0 of
        (token, d1) \<Rightarrow> (token, apply_device_license_payload parse_iso (in_payload inp) d1))"

text \<open>After the commit: the peer is added, and a \<open>WireGuardError\<close> undoes the enrollment.\<close>

definition enroll_peer ::
  "settings \<Rightarrow> 'w wg_env \<Rightarrow> enroll_input \<Rightarrow> uuid \<Rightarrow> uuid \<Rightarrow> uuid \<Rightarrow> string \<Rightarrow> string \<Rightarrow> enroll_reply
     \<Rightarrow> (('w, 'r) enroll_world, enroll_reply) act" where
  "enroll_peer cfg env inp device_id code_id company_id key tunnel_ip reply = (\<lambda>w.
     case add_peer env cfg key tunnel_ip (en_wg w) of (r, g) \<Rightarrow>
       (case r of
          Inr _ \<Rightarrow> (Inr reply, w\<lparr>en_wg := g\<rparr>)
        | Inl (WireGuardError m) \<Rightarrow>
            (Inl (HTTPException 400 m),
             w\<lparr>en_wg := g,
               en_db := log_enrollment_failure cfg (in_now inp) (in_request inp)
                 ''enrollment.peer_add_failed'' (Some company_id)
                 (compensate_failed_peer_add device_id code_id (en_db w))\<rparr>)
        | Inl e \<Rightarrow> (Inl e, w\<lparr>en_wg := g\<rparr>)))"

text \<open>After the claim: the device row, its event and audit entry, and the commit.\<close>

definition enroll_store ::
  "crypto \<Rightarrow> settings \<Rightarrow> 'w wg_env \<Rightarrow> iso_parser \<Rightarrow> enroll_input \<Rightarrow> enrollment_code \<Rightarrow> string \<Rightarrow> string
     \<Rightarrow> string \<Rightarrow> string \<Rightarrow> string \<Rightarrow> (('w, 'r) enroll_world, enroll_reply) act" where
  "enroll_store cr cfg env parse_iso inp code hostname key server_public_key allowed_ips tunnel_ip = (\<lambda>w.
     case fresh_uuid (en_db w) of (device_id, s1) \<Rightarrow>
     case new_device cr cfg parse_iso inp device_id (ec_company_id code) hostname key tunnel_ip of
       (token, device) \<Rightarrow>
     (case flush_device device s1 of
        (Inl e, s2) \<Rightarrow>
          (Inl (HTTPException 409 ''device WireGuard public key or tunnel address is already enrolled''),
           w\<lparr>en_db := log_enrollment_failure cfg (in_now inp) (in_request inp)
              ''enrollment.device_conflict'' (Some (ec_company_id code)) (rollback s2)\<rparr>)
      | (Inr _, s2) \<Rightarrow>
          let s3 = add_device_event (in_now inp) device_id ''enrolled'' ''Device enrolled'' s2;
              s4 = commit (snd (write_audit cfg (in_now inp) (Some (in_request inp)) ''device.enroll''
                     None (Some (ec_company_id code)) (Some device_id) s3))
          in enroll_peer cfg env inp device_id (ec_id code) (ec_company_id code) key tunnel_ip
               \<lparr>er_device_id = device_id, er_device_token = token,
                er_issued_at = dev_device_token_issued_at device,
                er_expires_at = dev_device_token_expires_at device,
                er_interface_address = tunnel_ip @ ''/32'',
                er_server_public_key = server_public_key,
                er_endpoint = cfg_hub_wg_endpoint cfg,
                er_allowed_ips = allowed_ips,
                er_persistent_keepalive = 25\<rparr> (w\<lparr>en_db := s4\<rparr>)))"

text \<open>After the checks of the payload: the code is claimed and an address allocated.\<close>

definition enroll_claim ::
  "crypto \<Rightarrow> settings \<Rightarrow> 'w wg_env \<Rightarrow> iso_parser \<Rightarrow> enroll_input \<Rightarrow> enrollment_code \<Rightarrow> string \<Rightarrow> string
     \<Rightarrow> (('w, 'r) enroll_world, enroll_reply) act" where
  "enroll_claim cr cfg env parse_iso inp code hostname key = (\<lambda>w0.
     case get_server_public_key env cfg (en_wg w0) of
       (Inl e, g) \<Rightarrow> (Inl e, w0\<lparr>en_wg := g\<rparr>)
     | (Inr server_public_key, g) \<Rightarrow>
         let w = w0\<lparr>en_wg := g\<rparr> in
         (case client_allowed_ips cfg of
            Inl e \<Rightarrow> (Inl e, w)
          | Inr allowed_ips \<Rightarrow>
              (case claim_enrollment_code (in_now inp) (ec_id code) (en_db w) of (claimed, s1) \<Rightarrow>
                 if \<not> claimed then
                   (Inl (HTTPException 409 ''enrollment code has already been used''),
                    w\<lparr>en_db := log_enrollment_failure cfg (in_now inp) (in_request inp)
                       ''enrollment.otp_already_used'' (Some (ec_company_id code)) (rollback s1)\<rparr>)
                 else
                   (case next_tunnel_ip cfg (work s1) of
                      Inl e \<Rightarrow> (Inl e, w\<lparr>en_db := s1\<rparr>)
                    | Inr tunnel_ip \<Rightarrow>
                        enroll_store cr cfg env parse_iso inp code hostname key server_public_key
                          allowed_ips tunnel_ip (w\<lparr>en_db := s1\<rparr>)))))"

definition enroll ::
  "crypto \<Rightarrow> settings \<Rightarrow> 'w wg_env \<Rightarrow> 'r redis_client \<Rightarrow> backend \<Rightarrow> iso_parser \<Rightarrow> enroll_input
     \<Rightarrow> (('w, 'r) enroll_world, enroll_reply) act" where
  "enroll cr cfg env cl backend parse_iso inp = (\<lambda>w0.
     let otp = upper (strip (str_field (in_payload inp) ''otp'' []));
         key = strip (str_field (in_payload inp) ''wg_public_key'' []);
         hostname = take 255 (strip (str_field (in_payload inp) ''hostname'' []));
         now = in_now inp
     in case apply_rate_limit cfg cl backend now (in_request inp) ''enroll''
               (if take 8 otp = [] then ''unknown'' else take 8 otp)
               (cfg_rate_limit_enrollment_attempts cfg)
               (cfg_rate_limit_enrollment_window_seconds cfg) (en_limits w0) of (limited, l) \<Rightarrow>
        let w = w0\<lparr>en_limits := l\<rparr>;
            failed = (\<lambda>action company_id. w\<lparr>en_db :=
              log_enrollment_failure cfg now (in_request inp) action company_id (en_db w)\<rparr>)
        in (case limited of
              Inl e \<Rightarrow> (Inl e, w)
            | Inr _ \<Rightarrow>
                if otp = [] \<or> hostname = [] \<or> key = [] then
                  (Inl (HTTPException 400 ''otp, hostname and wg_public_key are required''),
                   failed ''enrollment.invalid_payload'' None)
                else (case find_code cr now otp (work (en_db w)) of
                    None \<Rightarrow>
                      (Inl (HTTPException 401 ''invalid or expired enrollment code''),
                       failed ''enrollment.invalid_otp'' None)
                  | Some code \<Rightarrow>
                      if \<not> wg_key_re key then
                        (Inl (HTTPException 400 ''invalid WireGuard public key format''),
                         failed ''enrollment.invalid_public_key'' (Some (ec_company_id code)))
                      else enroll_claim cr cfg env parse_iso inp code hostname key w)))"

subsection \<open>Facts: the database of an enrollment\<close>

lemma write_audit_tables [simp]:
  "devices (work (snd (write_audit cfg t rq a u c d s))) = devices (work s)"
  "enrollment_codes (work (snd (write_audit cfg t rq a u c d s))) = enrollment_codes (work s)"
  "device_events (work (snd (write_audit cfg t rq a u c d s))) = device_events (work s)"
  by (simp_all add: write_audit_def fresh_uuid_def)

lemma add_device_event_tables [simp]:
  "enrollment_codes (work (add_device_event t i a b s)) = enrollment_codes (work s)"
  by (simp add: add_device_event_def fresh_uuid_def)

lemma log_failure_tables [simp]:
  "devices (committed (log_enrollment_failure cfg t rq a c s)) = devices (work s)"
  "enrollment_codes (committed (log_enrollment_failure cfg t rq a c s)) = enrollment_codes (work s)"
  "work (log_enrollment_failure cfg t rq a c s) = committed (log_enrollment_failure cfg t rq a c s)"
  by (simp_all add: log_enrollment_failure_def)

lemma compensate_tables [simp]:
  "devices (work (compensate_failed_peer_add i c s)) = filter (\<lambda>r. dev_id r \<noteq> i) (devices (committed s))"
  "enrollment_codes (work (compensate_failed_peer_add i c s)) =
     update_where (\<lambda>x. ec_id x = c) (\<lambda>x. x\<lparr>ec_used_at := None\<rparr>) (enrollment_codes (committed s))"
  by (simp_all add: compensate_failed_peer_add_def Let_def)

lemma new_device_fields:
  assumes "new_device cr cfg parse_iso inp i c h k ip = (token, d)"
  shows "token = in_token inp" "dev_id d = i" "dev_company_id d = c" "dev_wg_public_key d = k"
    "dev_wg_tunnel_ip d = ip" "dev_revoked_at d = None" "verify_secret cr token (dev_device_token_hash d)"
    "dev_device_token_expires_at d = in_now inp + days (cfg_device_token_ttl_days cfg)"
    "dev_hostname d = h"
  using assms
  by (auto simp: new_device_def issue_device_token_def apply_device_license_payload_def Let_def
      default_device_def verify_hash_secret device_token_expiry_def split: prod.splits option.splits)

lemma find_code_props:
  "find_code cr now otp db = Some c \<Longrightarrow> c \<in> set (enrollment_codes db) \<and> claimable now (ec_id c) c
     \<and> verify_secret cr otp (ec_code_hash c)"
  by (auto simp: find_code_def claimable_def dest!: find_SomeD)

lemma claim_tables:
  assumes "claim_enrollment_code now i s = (b, s')"
  shows "devices (work s') = devices (work s)" "committed s' = committed s"
    "enrollment_codes (work s') = update_where (claimable now i) (\<lambda>c. c\<lparr>ec_used_at := Some now\<rparr>)
       (enrollment_codes (work s))" "uuid_supply s' = uuid_supply s"
  using assms by (auto simp: claim_enrollment_code_def Let_def)

subsection \<open>Facts: the outcomes of an enrollment\<close>

definition enroll_ready :: "db_session \<Rightarrow> bool" where
  "enroll_ready s \<longleftrightarrow> work s = committed s \<and> (\<forall>d\<in>set (devices (committed s)). dev_id d < uuid_supply s)
     \<and> distinct (map ec_id (enrollment_codes (committed s)))"

text \<open>The tables that matter, as a pair.\<close>

definition fleet :: "hub_db \<Rightarrow> device list \<times> enrollment_code list" where
  "fleet db = (devices db, enrollment_codes db)"

definition use_code :: "instant \<Rightarrow> uuid \<Rightarrow> enrollment_code list \<Rightarrow> enrollment_code list" where
  "use_code now i = update_where (\<lambda>c. ec_id c = i) (\<lambda>c. c\<lparr>ec_used_at := Some now\<rparr>)"

lemma fleet_simps [simp]:
  "fleet (committed (log_enrollment_failure cfg t rq a c s)) = fleet (work s)"
  by (simp add: fleet_def)

lemma claim_is_use_code:
  assumes "distinct (map ec_id codes)" and "c \<in> set codes" and "claimable now (ec_id c) c"
  shows "update_where (claimable now (ec_id c)) (\<lambda>c. c\<lparr>ec_used_at := Some now\<rparr>) codes
      = use_code now (ec_id c) codes"
proof -
  have "claimable now (ec_id c) x \<longleftrightarrow> ec_id x = ec_id c" if "x \<in> set codes" for x
    using assms that by (auto simp: claimable_def distinct_map inj_on_def)
  then show ?thesis by (auto simp: use_code_def update_where_def)
qed

lemma release_code:
  assumes "distinct (map ec_id codes)" and "c \<in> set codes" and "ec_used_at c = None"
  shows "update_where (\<lambda>x. ec_id x = ec_id c) (\<lambda>x. x\<lparr>ec_used_at := None\<rparr>) (use_code now (ec_id c) codes) = codes"
proof -
  have "x\<lparr>ec_used_at := None\<rparr> = x" if "x \<in> set codes" "ec_id x = ec_id c" for x
  proof -
    from assms(1,2) that have "x = c" by (auto simp: distinct_map inj_on_def)
    with assms(3) show ?thesis by simp
  qed
  then show ?thesis by (auto simp: use_code_def update_where_def intro!: map_idI)
qed

lemma enroll_peer_cases:
  assumes "enroll_peer cfg env inp i code_id c key ip reply w = (r, w')"
  obtains (added) "r = Inr reply" "en_db w' = en_db w" "fst (add_peer env cfg key ip (en_wg w)) = Inr ()"
  | (undone) m where "r = Inl (HTTPException 400 m)"
      "fleet (committed (en_db w')) =
         (filter (\<lambda>d. dev_id d \<noteq> i) (devices (committed (en_db w))),
          update_where (\<lambda>x. ec_id x = code_id) (\<lambda>x. x\<lparr>ec_used_at := None\<rparr>) (enrollment_codes (committed (en_db w))))"
  | (escaped) e where "r = Inl e" "driver_error e" "en_db w' = en_db w"
proof -
  obtain a g where a: "add_peer env cfg key ip (en_wg w) = (a, g)" by (cases "add_peer env cfg key ip (en_wg w)")
  have e: "driver_error e" if "a = Inl e" for e
    using raises_add_peer [of env cfg key ip] a that by (auto simp: raises_only_def)
  show thesis
  proof (cases a)
    case (Inl x)
    show thesis
    proof (cases "\<exists>m. x = WireGuardError m")
      case True
      then obtain m where "x = WireGuardError m" by blast
      with assms a Inl show thesis by (intro undone [of m]) (auto simp: enroll_peer_def fleet_def)
    next
      case False
      with assms a Inl e show thesis
        by (intro escaped [of x]) (auto simp: enroll_peer_def split: exn.splits)
    qed
  qed (use assms a in \<open>auto intro: added simp: enroll_peer_def\<close>)
qed

text \<open>What a successful enrollment has done to the database, for the code it claimed.\<close>

definition enrolled ::
  "crypto \<Rightarrow> settings \<Rightarrow> enroll_input \<Rightarrow> enrollment_code \<Rightarrow> string \<Rightarrow> string \<Rightarrow> string \<Rightarrow> enroll_reply
     \<Rightarrow> hub_db \<Rightarrow> hub_db \<Rightarrow> bool" where
  "enrolled cr cfg inp c hostname key ip reply db db' \<longleftrightarrow>
     next_tunnel_ip cfg db = Inr ip
     \<and> er_interface_address reply = ip @ ''/32''
     \<and> enrollment_codes db' = use_code (in_now inp) (ec_id c) (enrollment_codes db)
     \<and> (\<exists>d. devices db' = devices db @ [d] \<and> dev_id d = er_device_id reply
          \<and> dev_company_id d = ec_company_id c \<and> dev_hostname d = hostname
          \<and> dev_wg_public_key d = key \<and> dev_wg_tunnel_ip d = ip \<and> dev_revoked_at d = None
          \<and> (\<forall>r\<in>set (devices db). dev_wg_public_key r \<noteq> key \<and> dev_wg_tunnel_ip r \<noteq> ip)
          \<and> verify_secret cr (er_device_token reply) (dev_device_token_hash d)
          \<and> dev_device_token_expires_at d = in_now inp + days (cfg_device_token_ttl_days cfg))"

lemma next_tunnel_ip_cong: "devices db = devices db' \<Longrightarrow> next_tunnel_ip cfg db = next_tunnel_ip cfg db'"
  by (simp add: next_tunnel_ip_def)

text \<open>The transaction between the claim and the commit: its committed part is a ready database, and
  its working part differs from it by the claimed code only.\<close>

definition claimed_in :: "instant \<Rightarrow> enrollment_code \<Rightarrow> db_session \<Rightarrow> bool" where
  "claimed_in now c s \<longleftrightarrow> enroll_ready (rollback s)
     \<and> c \<in> set (enrollment_codes (committed s)) \<and> ec_used_at c = None
     \<and> devices (work s) = devices (committed s)
     \<and> enrollment_codes (work s) = use_code now (ec_id c) (enrollment_codes (committed s))"

lemma claimed_inD:
  assumes "claimed_in now c s"
  shows "d \<in> set (devices (committed s)) \<Longrightarrow> dev_id d < uuid_supply s"
    and "distinct (map ec_id (enrollment_codes (committed s)))"
  using assms by (auto simp: claimed_in_def enroll_ready_def)

lemma map_ec_id_use_code [simp]: "map ec_id (use_code now i codes) = map ec_id codes"
  by (auto simp: use_code_def update_where_def)

lemma undo_fleet:
  assumes "claimed_in now c s" and "devices db = devices (committed s) @ [d]" and "dev_id d = uuid_supply s"
    and "enrollment_codes db = use_code now (ec_id c) (enrollment_codes (committed s))"
  shows "(filter (\<lambda>x. dev_id x \<noteq> uuid_supply s) (devices db),
      update_where (\<lambda>x. ec_id x = ec_id c) (\<lambda>x. x\<lparr>ec_used_at := None\<rparr>) (enrollment_codes db)) = fleet (committed s)"
proof -
  have "filter (\<lambda>x. dev_id x \<noteq> uuid_supply s) (devices (committed s)) = devices (committed s)"
    using claimed_inD(1) [OF assms(1)] by (fastforce intro!: filter_True)
  then show ?thesis
    using assms release_code [OF claimed_inD(2) [OF assms(1)], of c now]
    by (simp add: fleet_def claimed_in_def)
qed

lemma enroll_store_cases:
  assumes "enroll_store cr cfg env parse_iso inp c hostname key server allowed ip w = (r, w')"
    and cl: "claimed_in (in_now inp) c (en_db w)"
    and ip: "next_tunnel_ip cfg (committed (en_db w)) = Inr ip"
  obtains (success) reply where "r = Inr reply"
      "enrolled cr cfg inp c hostname key ip reply (committed (en_db w)) (committed (en_db w'))"
      "enroll_ready (en_db w')"
  | (refused) e where "r = Inl e" "fleet (committed (en_db w')) = fleet (committed (en_db w))"
  | (escaped) e reply where "r = Inl e" "driver_error e"
      "enrolled cr cfg inp c hostname key ip reply (committed (en_db w)) (committed (en_db w'))"
proof -
  let ?s = "en_db w" and ?now = "in_now inp"
  let ?i = "uuid_supply ?s"
  obtain s2 where u: "fresh_uuid ?s = (?i, s2)" "work s2 = work ?s" "committed s2 = committed ?s"
    "uuid_supply s2 = Suc ?i"
    by (rule that [of "?s\<lparr>uuid_supply := Suc ?i\<rparr>"]) (simp_all add: fresh_uuid_def)
  obtain token d where nd: "new_device cr cfg parse_iso inp ?i (ec_company_id c) hostname key ip = (token, d)"
    by (cases "new_device cr cfg parse_iso inp ?i (ec_company_id c) hostname key ip")
  note f = new_device_fields [OF nd]
  show thesis
  proof (cases "device_conflict (work s2) d")
    case True
    with assms(1) u nd show thesis
      by (intro refused) (auto simp: enroll_store_def flush_device_def)
  next
    case fresh: False
    define s4 where "s4 = commit (snd (write_audit cfg ?now (Some (in_request inp)) ''device.enroll''
        None (Some (ec_company_id c)) (Some ?i) (add_device_event ?now ?i ''enrolled'' ''Device enrolled''
          (s2\<lparr>work := (work s2)\<lparr>devices := devices (work s2) @ [d]\<rparr>\<rparr>))))"
    define reply where "reply = \<lparr>er_device_id = ?i, er_device_token = token,
        er_issued_at = dev_device_token_issued_at d, er_expires_at = dev_device_token_expires_at d,
        er_interface_address = ip @ ''/32'', er_server_public_key = server,
        er_endpoint = cfg_hub_wg_endpoint cfg, er_allowed_ips = allowed, er_persistent_keepalive = 25\<rparr>"
    have peer: "enroll_peer cfg env inp ?i (ec_id c) (ec_company_id c) key ip reply (w\<lparr>en_db := s4\<rparr>) = (r, w')"
      using assms(1) u nd fresh
      by (simp add: enroll_store_def flush_device_def Let_def s4_def reply_def)
    have dev: "devices (committed s4) = devices (committed ?s) @ [d]"
      and cod: "enrollment_codes (committed s4) = use_code ?now (ec_id c) (enrollment_codes (committed ?s))"
      and sup: "Suc ?i \<le> uuid_supply s4" "work s4 = committed s4"
      using u cl by (simp_all add: s4_def claimed_in_def add_device_event_def write_audit_def fresh_uuid_def)
    have en: "enrolled cr cfg inp c hostname key ip reply (committed ?s) (committed s4)"
      using dev cod f fresh ip u cl
      by (auto simp: enrolled_def device_conflict_def list_ex_iff reply_def claimed_in_def)
    have ready: "enroll_ready s4"
      using claimed_inD [OF cl] f(2) sup by (fastforce simp: enroll_ready_def dev cod)
    from peer show thesis
    proof (cases rule: enroll_peer_cases)
      case (undone m)
      with undo_fleet [OF cl dev f(2) cod] show thesis by (intro refused) auto
    qed (use en ready in \<open>auto intro: success escaped\<close>)
  qed
qed

lemma enroll_claim_cases:
  assumes "enroll_claim cr cfg env parse_iso inp c hostname key w = (r, w')"
    and ready: "enroll_ready (en_db w)"
    and c: "c \<in> set (enrollment_codes (committed (en_db w)))" "claimable (in_now inp) (ec_id c) c"
  obtains (success) ip reply where "r = Inr reply"
      "enrolled cr cfg inp c hostname key ip reply (committed (en_db w)) (committed (en_db w'))"
      "enroll_ready (en_db w')"
  | (refused) e where "r = Inl e" "fleet (committed (en_db w')) = fleet (committed (en_db w))"
  | (escaped) e ip reply where "r = Inl e" "driver_error e"
      "enrolled cr cfg inp c hostname key ip reply (committed (en_db w)) (committed (en_db w'))"
proof -
  let ?s = "en_db w" and ?now = "in_now inp"
  obtain pk g where pk: "get_server_public_key env cfg (en_wg w) = (pk, g)"
    by (cases "get_server_public_key env cfg (en_wg w)")
  obtain b s1 where cl: "claim_enrollment_code ?now (ec_id c) ?s = (b, s1)"
    by (cases "claim_enrollment_code ?now (ec_id c) ?s")
  note t = claim_tables [OF cl]
  have in1: "claimed_in ?now c s1"
    using ready c t claim_is_use_code [of "enrollment_codes (committed ?s)" c ?now]
    by (auto simp: claimed_in_def enroll_ready_def claimable_def)
  show thesis
  proof (cases "\<exists>server allowed ip. pk = Inr server \<and> client_allowed_ips cfg = Inr allowed \<and> b
      \<and> next_tunnel_ip cfg (work s1) = Inr ip")
    case False
    with assms(1) pk cl t(2) show thesis
      by (intro refused [of "projl r"])
        (auto simp: enroll_claim_def Let_def split: sum.splits if_splits)
  next
    case True
    then obtain server allowed ip where ok: "pk = Inr server" "client_allowed_ips cfg = Inr allowed" b
      "next_tunnel_ip cfg (work s1) = Inr ip" by blast
    let ?w = "w\<lparr>en_wg := g, en_db := s1\<rparr>"
    have "enroll_store cr cfg env parse_iso inp c hostname key server allowed ip ?w = (r, w')"
      using assms(1) pk cl ok by (simp add: enroll_claim_def)
    moreover have "claimed_in ?now c (en_db ?w)" "committed (en_db ?w) = committed ?s"
      using in1 t(2) by simp_all
    moreover have "next_tunnel_ip cfg (committed (en_db ?w)) = Inr ip"
      using ok(4) in1 next_tunnel_ip_cong [of "work s1" "committed s1" cfg] by (simp add: claimed_in_def)
    ultimately show thesis
      by (elim enroll_store_cases) (auto intro: success refused escaped)
  qed
qed

text \<open>The fields of the payload, as \<open>enroll\<close> reads them.\<close>

definition sent_otp :: "enroll_input \<Rightarrow> string" where
  "sent_otp inp = upper (strip (str_field (in_payload inp) ''otp'' []))"

definition sent_key :: "enroll_input \<Rightarrow> string" where
  "sent_key inp = strip (str_field (in_payload inp) ''wg_public_key'' [])"

definition sent_hostname :: "enroll_input \<Rightarrow> string" where
  "sent_hostname inp = take 255 (strip (str_field (in_payload inp) ''hostname'' []))"

lemma enroll_early:
  assumes "enroll cr cfg env cl backend parse_iso inp w = (r, w')"
  obtains (early) e where "r = Inl e" "fleet (committed (en_db w')) = fleet (work (en_db w))
      \<or> en_db w' = en_db w"
  | (claim) c l where "find_code cr (in_now inp) (sent_otp inp) (work (en_db w)) = Some c"
      "wg_key_re (sent_key inp)" "sent_hostname inp \<noteq> []"
      "enroll_claim cr cfg env parse_iso inp c (sent_hostname inp) (sent_key inp) (w\<lparr>en_limits := l\<rparr>) = (r, w')"
      "\<And>env'. enroll cr cfg env' cl backend parse_iso inp w
         = enroll_claim cr cfg env' parse_iso inp c (sent_hostname inp) (sent_key inp) (w\<lparr>en_limits := l\<rparr>)"
proof -
  obtain limited l where l: "apply_rate_limit cfg cl backend (in_now inp) (in_request inp) ''enroll''
      (if take 8 (sent_otp inp) = [] then ''unknown'' else take 8 (sent_otp inp))
      (cfg_rate_limit_enrollment_attempts cfg) (cfg_rate_limit_enrollment_window_seconds cfg)
      (en_limits w) = (limited, l)" by (rule prod.exhaust)
  note e = assms [unfolded enroll_def Let_def, folded sent_otp_def sent_key_def sent_hostname_def]
  show thesis
  proof (cases "\<exists>c. limited = Inr () \<and> sent_otp inp \<noteq> [] \<and> sent_hostname inp \<noteq> [] \<and> sent_key inp \<noteq> []
      \<and> find_code cr (in_now inp) (sent_otp inp) (work (en_db w)) = Some c \<and> wg_key_re (sent_key inp)")
    case True
    then obtain c where ok: "limited = Inr ()" "sent_otp inp \<noteq> []" "sent_hostname inp \<noteq> []"
      "sent_key inp \<noteq> []" "find_code cr (in_now inp) (sent_otp inp) (work (en_db w)) = Some c"
      "wg_key_re (sent_key inp)" by blast
    have "enroll cr cfg env' cl backend parse_iso inp w
        = enroll_claim cr cfg env' parse_iso inp c (sent_hostname inp) (sent_key inp) (w\<lparr>en_limits := l\<rparr>)" for env'
      unfolding enroll_def Let_def sent_otp_def [symmetric] sent_key_def [symmetric] sent_hostname_def [symmetric]
      using l ok by simp
    with assms ok show thesis by (intro claim [of c l]) auto
  next
    case False
    with e l show thesis
      by (intro early [of "projl r"]) (auto split: sum.splits if_splits option.splits)
  qed
qed

lemma enroll_cases:
  assumes "enroll cr cfg env cl backend parse_iso inp w = (r, w')" and ready: "enroll_ready (en_db w)"
  obtains (success) c ip reply where "r = Inr reply"
      "find_code cr (in_now inp) (sent_otp inp) (committed (en_db w)) = Some c" "wg_key_re (sent_key inp)"
      "enrolled cr cfg inp c (sent_hostname inp) (sent_key inp) ip reply
         (committed (en_db w)) (committed (en_db w'))" "enroll_ready (en_db w')"
  | (refused) e where "r = Inl e" "fleet (committed (en_db w')) = fleet (committed (en_db w))"
  | (escaped) e c ip reply where "r = Inl e" "driver_error e"
      "enrolled cr cfg inp c (sent_hostname inp) (sent_key inp) ip reply
         (committed (en_db w)) (committed (en_db w'))"
proof (use assms(1) in \<open>cases rule: enroll_early\<close>)
  case (early e)
  then show thesis using ready by (intro refused) (auto simp: enroll_ready_def)
next
  case (claim c l)
  let ?w = "w\<lparr>en_limits := l\<rparr>"
  have w: "work (en_db w) = committed (en_db w)" using ready by (simp add: enroll_ready_def)
  have "enroll_ready (en_db ?w)" "c \<in> set (enrollment_codes (committed (en_db ?w)))"
    "claimable (in_now inp) (ec_id c) c"
    using ready find_code_props [OF claim(1)] w by simp_all
  from enroll_claim_cases [OF claim(4) this] show thesis
    by (cases) (use claim w in \<open>auto intro: success refused escaped\<close>)
qed

lemma enrolled_code_spent:
  assumes "enrolled cr cfg inp c h k ip reply db db'"
  shows "x \<in> set (enrollment_codes db') \<Longrightarrow> \<not> claimable t (ec_id c) x"
    and "filter (\<lambda>x. ec_id x \<noteq> ec_id c) (enrollment_codes db') = filter (\<lambda>x. ec_id x \<noteq> ec_id c) (enrollment_codes db)"
proof -
  have u: "enrollment_codes db' = use_code (in_now inp) (ec_id c) (enrollment_codes db)"
    using assms by (simp add: enrolled_def)
  show "x \<in> set (enrollment_codes db') \<Longrightarrow> \<not> claimable t (ec_id c) x"
    by (auto simp: u use_code_def set_update_where claimable_def)
  have "filter (\<lambda>x. ec_id x \<noteq> i) (use_code n i codes) = filter (\<lambda>x. ec_id x \<noteq> i) codes" for n i codes
    by (induction codes) (auto simp: use_code_def update_where_def)
  then show "filter (\<lambda>x. ec_id x \<noteq> ec_id c) (enrollment_codes db') = filter (\<lambda>x. ec_id x \<noteq> ec_id c) (enrollment_codes db)"
    by (simp add: u)
qed

lemma overlay_fleet:
  "fleet db' = fleet db \<Longrightarrow> overlay.addresses_ok db' = overlay.addresses_ok db"
  by (simp add: fleet_def overlay.addresses_ok_def)

lemma enrolled_addresses:
  assumes "overlay.addresses_ok db" and "enrolled cr cfg inp c h k ip reply db db'"
  shows "overlay.addresses_ok db'"
  using assms(2) overlay.addresses_ok_insert [OF assms(1), of cfg ip _ db']
  by (auto simp: enrolled_def)

subsection \<open>Facts: a driver that times out\<close>

text \<open>The second environment gives the same server key, and its \<open>add_peer\<close> times out wherever the one
  of the first succeeds.\<close>

definition times_out :: "settings \<Rightarrow> 'w wg_env \<Rightarrow> 'w wg_env \<Rightarrow> 'w wg_world \<Rightarrow> bool" where
  "times_out cfg env env' g \<longleftrightarrow>
     get_server_public_key env' cfg g = get_server_public_key env cfg g
     \<and> (\<forall>key ip g. fst (add_peer env cfg key ip g) = Inr () \<longrightarrow> fst (add_peer env' cfg key ip g) = Inl TimeoutExpired)"

lemma enroll_peer_times_out:
  assumes "enroll_peer cfg env inp i ci co key ip reply w = (Inr rep, w')" and "times_out cfg env env' g0"
  shows "\<exists>g. enroll_peer cfg env' inp i ci co key ip reply w = (Inl TimeoutExpired, w'\<lparr>en_wg := g\<rparr>)"
proof -
  obtain a g b g' where a: "add_peer env cfg key ip (en_wg w) = (a, g)" "add_peer env' cfg key ip (en_wg w) = (b, g')"
    by fastforce
  with assms(1) have "a = Inr ()" by (auto simp: enroll_peer_def split: sum.splits exn.splits)
  with a assms(2) have b: "b = Inl TimeoutExpired" unfolding times_out_def by (metis fst_conv)
  with a assms(1) \<open>a = Inr ()\<close> show ?thesis by (auto simp: enroll_peer_def)
qed

lemma enroll_store_times_out:
  assumes "enroll_store cr cfg env parse_iso inp c h key pk al ip w = (Inr rep, w')" and "times_out cfg env env' g0"
  shows "\<exists>g. enroll_store cr cfg env' parse_iso inp c h key pk al ip w = (Inl TimeoutExpired, w'\<lparr>en_wg := g\<rparr>)"
  using assms(1) enroll_peer_times_out [OF _ assms(2)]
  by (auto simp: enroll_store_def Let_def split: prod.splits sum.splits)

lemma enroll_claim_times_out:
  assumes "enroll_claim cr cfg env parse_iso inp c h key w = (Inr rep, w')"
    and "times_out cfg env env' (en_wg w)"
  shows "\<exists>g. enroll_claim cr cfg env' parse_iso inp c h key w = (Inl TimeoutExpired, w'\<lparr>en_wg := g\<rparr>)"
proof -
  have "get_server_public_key env' cfg (en_wg w) = get_server_public_key env cfg (en_wg w)"
    using assms(2) by (simp add: times_out_def)
  then show ?thesis
    using assms(1) enroll_store_times_out [OF _ assms(2)]
    by (auto simp: enroll_claim_def Let_def split: prod.splits sum.splits if_splits)
qed

subsection \<open>An example: one code, an agent that answers, and one that does not\<close>

definition example_key :: string where
  "example_key = replicate 43 CHR ''A'' @ ''=''"

definition example_cfg :: settings where
  "example_cfg = default_settings\<lparr>cfg_hub_wg_cidr := ''10.0.0.0/29'', cfg_hub_wg_address := ''10.0.0.1/29'',
     cfg_allow_broad_wg_cidr := False, cfg_wg_dry_run := False, cfg_wg_agent_url := Some ''http://a'',
     cfg_wg_agent_token := Some ''t'', cfg_wg_agent_mode := False\<rparr>"

definition example_agent :: "agent_reply \<Rightarrow> unit wg_env" where
  "example_agent on_peer = \<lparr>we_run = (\<lambda>args inp w. (TimedOut, w)),
     we_agent = (\<lambda>m p h j w.
       (if m = ''GET'' then AgentJson (JObj [(''public_key'', JStr example_key)]) else on_peer, w))\<rparr>"

definition example_code :: enrollment_code where
  "example_code = \<lparr>ec_id = 2, ec_company_id = 3, ec_code_hash = hash_secret example_crypto ''salt'' ''ABCD-EFGH'',
     ec_expires_at = 100, ec_used_at = None, ec_created_by = None, ec_created_at = 0\<rparr>"

definition example_world :: "(unit, unit) enroll_world" where
  "example_world = \<lparr>en_db = open_session (empty_db\<lparr>enrollment_codes := [example_code]\<rparr>) 10,
     en_wg = \<lparr>wg_key_file = None, wg_key_mode = None, wg_config_file = None, wg_config_mode = None, wg_ext = ()\<rparr>,
     en_limits = ([], ())\<rparr>"

definition example_input :: "string \<Rightarrow> enroll_input" where
  "example_input otp = \<lparr>in_now = 50, in_salt = ''salt'', in_token = ''tok'',
     in_payload = [(''otp'', JStr otp), (''wg_public_key'', JStr example_key), (''hostname'', JStr ''fw'')],
     in_request = \<lparr>rq_method = ''POST'', rq_path = ''/api/v1/enroll'', rq_client = Some ''192.0.2.1'',
       rq_headers = (\<lambda>_. None), rq_cookies = (\<lambda>_. None), rq_hostname = Some ''hub''\<rparr>\<rparr>"

abbreviation example_redis :: "unit redis_client" where
  "example_redis \<equiv> \<lparr>redis_incr = (\<lambda>_ r. (None, r)), redis_expire = (\<lambda>_ _ r. (None, r))\<rparr>"

abbreviation example_enroll where
  "example_enroll on_peer otp \<equiv> enroll example_crypto example_cfg (example_agent on_peer) example_redis Edge
     (\<lambda>_. None) (example_input otp) example_world"

lemma example_ready: "enroll_ready (en_db example_world)"
  by (simp add: enroll_ready_def example_world_def open_session_def empty_db_def)

lemma example_key_ok: "wg_key_re example_key" "strip example_key = example_key" "example_key \<noteq> []"
proof -
  have "\<not> is_space c" if "c \<in> set example_key" for c
    using that by (auto simp: example_key_def is_space_def code_of_def)
  then show "strip example_key = example_key" by (intro strip_no_space) auto
qed (simp_all add: example_key_def wg_key_re_def is_key_char_def list_all_iff is_alnum_def is_alpha_def
      is_upper_def code_of_def)

lemma example_sent:
  "sent_otp (example_input ''abcd-efgh'') = ''ABCD-EFGH''" "sent_key (example_input otp) = example_key"
  "sent_hostname (example_input otp) = ''fw''"
  "str_field (in_payload (example_input otp)) ''hostname'' [] = ''fw''"
  by (simp_all add: sent_otp_def sent_hostname_def example_input_def str_field_def str_eval upper_char_def upper_def)
    (simp add: sent_key_def str_field_def example_input_def example_key_ok)

lemma example_limits: "apply_rate_limit cfg cl Edge now rq b i l w (bs, r) = (Inr (), bs, r)"
  by (simp add: apply_rate_limit_def)

lemma example_config:
  "get_validated_hub_wireguard_config example_cfg = Inr \<lparr>vc_network = \<lparr>n4_addr = 167772160, n4_prefix = 29\<rparr>,
     vc_hub_ip = 167772161, vc_hub_prefix = 29\<rparr>"
  by (simp add: example_cfg_def get_validated_hub_wireguard_config_def validate_hub_wireguard_config_def
      ip_network_def ip_interface_def parse_addr_prefix4_def parse_ipv4_def parse_octet_def ipv4_of_octets_def
      make_prefix4_def prefix_of_string_def mk_net4_def in_net4_def netmask4_def broadcast4_def str_eval
      mask_eq_exp_minus_1)

lemma example_allocation: "devices db = [] \<Longrightarrow> \<exists>s. next_tunnel_ip example_cfg db = Inr s"
  by (rule next_tunnel_ip_complete [OF example_config, of _ 167772162])
    (simp_all add: usable_host_def in_net4_def netmask4_def broadcast4_def mask_eq_exp_minus_1 assigned_def)

lemma example_find: "find_code example_crypto 50 ''ABCD-EFGH'' (work (en_db example_world)) = Some example_code"
  by (simp add: find_code_def example_world_def open_session_def empty_db_def example_code_def verify_hash_secret)

lemma example_add_peer:
  assumes "check_peer example_cfg key ip = Inr a"
  shows "add_peer (example_agent r) example_cfg key ip g =
    (case r of AgentEmpty \<Rightarrow> Inr () | AgentTimeout \<Rightarrow> Inl TimeoutExpired
       | _ \<Rightarrow> fst (add_peer (example_agent r) example_cfg key ip g), g)"
  using assms
  by (auto simp: add_peer_def abind_def alift_def example_cfg_def agent_enabled_def agent_request_def
      agent_headers_def example_agent_def aret_def split: agent_reply.splits)

lemma example_server_key:
  "get_server_public_key (example_agent r) example_cfg g = (Inr example_key, g)"
  by (simp add: get_server_public_key_def ensure_server_keypair_def example_cfg_def agent_enabled_def
      agent_request_def agent_headers_def example_agent_def abind_def alift_def aseq_def aret_def json_get_def
      validate_public_key_def example_key_ok)

lemma example_claims:
  "example_enroll r ''abcd-efgh'' = enroll_claim example_crypto example_cfg (example_agent r) (\<lambda>_. None)
     (example_input ''abcd-efgh'') example_code ''fw'' example_key example_world"
proof -
  have l: "en_limits example_world = ([], ())" "example_world\<lparr>en_limits := ([], ())\<rparr> = example_world"
    by (simp_all add: example_world_def)
  have n: "in_now (example_input otp) = 50" for otp by (simp add: example_input_def)
  show ?thesis
    unfolding enroll_def Let_def sent_otp_def [symmetric] sent_key_def [symmetric] sent_hostname_def [symmetric]
    by (simp add: example_sent example_limits l n example_find example_key_ok)
qed

lemma example_peer:
  assumes "next_tunnel_ip example_cfg db = Inr ip"
  shows "add_peer (example_agent AgentEmpty) example_cfg example_key ip g = (Inr (), g)"
  using check_peer_allocated [OF assms example_key_ok(1)] example_add_peer [of example_key ip _ AgentEmpty g] by auto

lemma example_enrolls: "\<exists>reply w'. example_enroll AgentEmpty ''abcd-efgh'' = (Inr reply, w')"
proof -
  have n: "in_now (example_input otp) = 50" "ec_id example_code = 2" for otp
    by (simp_all add: example_input_def example_code_def)
  obtain s where cl: "claim_enrollment_code 50 2 (en_db example_world) = (True, s)" and d: "devices (work s) = []"
    by (simp add: claim_enrollment_code_def example_world_def open_session_def empty_db_def claimable_def
        example_code_def Let_def)
  have g: "example_world\<lparr>en_wg := en_wg example_world\<rparr> = example_world" by simp
  obtain ip where ip: "next_tunnel_ip example_cfg (work s) = Inr ip" using example_allocation [OF d] by blast
  have a: "client_allowed_ips example_cfg = Inr (show_ipv4 167772161 @ ''/32'')"
    by (simp add: client_allowed_ips_def example_config)
  have "enroll_claim example_crypto example_cfg (example_agent AgentEmpty) (\<lambda>_. None)
     (example_input ''abcd-efgh'') example_code ''fw'' example_key example_world
    = enroll_store example_crypto example_cfg (example_agent AgentEmpty) (\<lambda>_. None) (example_input ''abcd-efgh'')
        example_code ''fw'' example_key example_key (show_ipv4 167772161 @ ''/32'') ip (example_world\<lparr>en_db := s\<rparr>)"
    using ip by (simp add: enroll_claim_def example_server_key a n Let_def cl g)
  moreover obtain t d' where "new_device example_crypto example_cfg (\<lambda>_. None) (example_input ''abcd-efgh'')
      (uuid_supply s) (ec_company_id example_code) ''fw'' example_key ip = (t, d')" by fastforce
  ultimately show ?thesis unfolding example_claims
    by (simp add: enroll_store_def flush_device_def fresh_uuid_def device_conflict_def d Let_def enroll_peer_def
        example_peer [OF ip])
qed

lemma example_times_out: "times_out example_cfg (example_agent AgentEmpty) (example_agent AgentTimeout) g"
proof -
  have "fst (add_peer (example_agent AgentTimeout) example_cfg key ip g) = Inl TimeoutExpired"
    if "fst (add_peer (example_agent AgentEmpty) example_cfg key ip g) = Inr ()" for key ip g
  proof (cases "check_peer example_cfg key ip")
    case (Inl e)
    with that show ?thesis by (simp add: add_peer_def abind_def alift_def)
  next
    case (Inr a)
    then show ?thesis by (simp add: example_add_peer)
  qed
  then show ?thesis by (auto simp: times_out_def example_server_key)
qed

subsection \<open>Properties\<close>

text \<open>C9. A successful enrollment: the one-time code that was sent verifies against a stored code that
  was unused and unexpired; exactly one device is appended, in the company of that code, with the
  key that was sent, the allocated tunnel address and a token that verifies; the code can never be
  claimed again and every other code is as it was; and the database is ready for the next one.\<close>

theorem enroll_success:
  assumes "enroll_ready (en_db w)"
    and "enroll cr cfg env cl backend parse_iso inp w = (Inr reply, w')"
  shows "\<exists>c d. c \<in> set (enrollment_codes (committed (en_db w)))
      \<and> claimable (in_now inp) (ec_id c) c \<and> verify_secret cr (sent_otp inp) (ec_code_hash c)
      \<and> devices (committed (en_db w')) = devices (committed (en_db w)) @ [d]
      \<and> dev_id d = er_device_id reply \<and> dev_company_id d = ec_company_id c
      \<and> dev_wg_public_key d = sent_key inp \<and> wg_key_re (sent_key inp)
      \<and> next_tunnel_ip cfg (committed (en_db w)) = Inr (dev_wg_tunnel_ip d)
      \<and> er_interface_address reply = dev_wg_tunnel_ip d @ ''/32''
      \<and> verify_secret cr (er_device_token reply) (dev_device_token_hash d)
      \<and> (\<forall>t x. x \<in> set (enrollment_codes (committed (en_db w'))) \<longrightarrow> \<not> claimable t (ec_id c) x)
      \<and> filter (\<lambda>x. ec_id x \<noteq> ec_id c) (enrollment_codes (committed (en_db w')))
          = filter (\<lambda>x. ec_id x \<noteq> ec_id c) (enrollment_codes (committed (en_db w)))
      \<and> enroll_ready (en_db w')"
  using assms(2,1)
proof (cases rule: enroll_cases)
  case (success c ip r)
  then obtain d where d: "devices (committed (en_db w')) = devices (committed (en_db w)) @ [d]"
    "dev_id d = er_device_id reply" "dev_company_id d = ec_company_id c" "dev_wg_public_key d = sent_key inp"
    "dev_wg_tunnel_ip d = ip" "verify_secret cr (er_device_token reply) (dev_device_token_hash d)"
    "next_tunnel_ip cfg (committed (en_db w)) = Inr ip" "er_interface_address reply = ip @ ''/32''"
    by (auto simp: enrolled_def)
  with success find_code_props [OF success(2)] enrolled_code_spent [OF success(4)] show ?thesis
    by (intro exI [of _ c] exI [of _ d]) auto
qed simp_all

theorem enroll_success_witness:
  "\<exists>reply w'. example_enroll AgentEmpty ''abcd-efgh'' = (Inr reply, w')
    \<and> length (devices (committed (en_db w'))) = 1 \<and> enroll_ready (en_db w')"
proof -
  obtain reply w' where e: "example_enroll AgentEmpty ''abcd-efgh'' = (Inr reply, w')"
    using example_enrolls by blast
  from enroll_success [OF example_ready e] show ?thesis
    using e by (auto simp: example_world_def open_session_def empty_db_def)
qed

text \<open>C10. A refused enrollment changes nothing: whatever is wrong with the payload, the code, the key,
  the address or the peer, when the firewall gets an HTTP error the committed devices and
  enrollment codes are those from before, so the same code can be used for another try. The
  compensation after a failed peer restores exactly the state before the claim.\<close>

theorem enroll_refusal_atomic:
  assumes "enroll_ready (en_db w)"
    and "enroll cr cfg env cl backend parse_iso inp w = (Inl (HTTPException code detail), w')"
  shows "devices (committed (en_db w')) = devices (committed (en_db w))
    \<and> enrollment_codes (committed (en_db w')) = enrollment_codes (committed (en_db w))"
  using assms(2,1)
  by (cases rule: enroll_cases) (auto simp: fleet_def driver_error_def)

theorem enroll_refusal_atomic_witness:
  "\<exists>w'. example_enroll AgentEmpty [] = (Inl (HTTPException 400 ''otp, hostname and wg_public_key are required''), w')
    \<and> devices (committed (en_db w')) = [] \<and> enrollment_codes (committed (en_db w')) = [example_code]"
proof -
  have o: "sent_otp (example_input []) = []"
    by (simp add: sent_otp_def example_input_def str_field_def str_eval upper_def)
  have "\<exists>w'. example_enroll AgentEmpty [] = (Inl (HTTPException 400 ''otp, hostname and wg_public_key are required''), w')"
    unfolding enroll_def Let_def sent_otp_def [symmetric]
    by (simp add: o example_limits example_world_def)
  then obtain w' where w: "example_enroll AgentEmpty [] =
      (Inl (HTTPException 400 ''otp, hostname and wg_public_key are required''), w')" by blast
  from enroll_refusal_atomic [OF example_ready w] show ?thesis
    using w by (auto simp: example_world_def open_session_def empty_db_def)
qed

text \<open>C11. Tunnel addresses stay unique: when every stored device has an IPv4 tunnel address of its own,
  so it is after any enrollment, whether it succeeds, is refused or ends with an error of the
  WireGuard driver.\<close>

theorem enroll_addresses_unique:
  assumes "enroll_ready (en_db w)" and "overlay.addresses_ok (committed (en_db w))"
    and "enroll cr cfg env cl backend parse_iso inp w = (r, w')"
  shows "overlay.addresses_ok (committed (en_db w'))"
  using assms(3,1)
  by (cases rule: enroll_cases) (use assms(2) in \<open>auto dest: enrolled_addresses overlay_fleet\<close>)

theorem enroll_addresses_unique_witness:
  "\<exists>reply w'. example_enroll AgentEmpty ''abcd-efgh'' = (Inr reply, w')
    \<and> overlay.addresses_ok (committed (en_db w'))"
proof -
  obtain reply w' where e: "example_enroll AgentEmpty ''abcd-efgh'' = (Inr reply, w')"
    using example_enrolls by blast
  have "overlay.addresses_ok (committed (en_db example_world))"
    by (simp add: overlay.addresses_ok_def example_world_def open_session_def empty_db_def)
  from enroll_addresses_unique [OF example_ready this e] e show ?thesis by auto
qed

text \<open>C12. A timeout of the driver is not compensated: \<open>enroll\<close> only catches \<open>WireGuardError\<close>, and the
  timeout of a command or of the agent is another exception. So where an enrollment would succeed
  but the driver times out adding the peer, the firewall gets a server error while the database
  is the one of the successful enrollment: the code is used up and the device is stored.\<close>

theorem enroll_timeout_not_compensated:
  assumes "enroll cr cfg env cl backend parse_iso inp w = (Inr reply, w')"
    and "times_out cfg env env' (en_wg w)"
  shows "\<exists>g. enroll cr cfg env' cl backend parse_iso inp w = (Inl TimeoutExpired, w'\<lparr>en_wg := g\<rparr>)"
  using assms(1)
proof (cases rule: enroll_early)
  case (claim c l)
  with enroll_claim_times_out [OF claim(4)] assms(2) show ?thesis by simp
qed simp_all

theorem enroll_timeout_not_compensated_witness:
  "\<exists>w'. example_enroll AgentTimeout ''abcd-efgh'' = (Inl TimeoutExpired, w')"
proof -
  obtain reply w' where "example_enroll AgentEmpty ''abcd-efgh'' = (Inr reply, w')"
    using example_enrolls by blast
  from enroll_timeout_not_compensated [OF this example_times_out] show ?thesis by blast
qed

end
