(* ===== verification/Py_Uuid.thy ===== *)
theory Py_Uuid
  imports Models Py_Ipaddress
begin

text \<open>
  \<open>UUID(text)\<close>: the prefixes \<open>urn:\<close> and \<open>uuid:\<close>, braces and hyphens are dropped, and what is left must
  be 32 characters that \<open>int(_, 16)\<close> reads. Reading what \<open>str(uuid)\<close> prints gives the number back.
\<close>

function remove_all :: "string \<Rightarrow> string \<Rightarrow> string" where
  "remove_all p [] = []"
| "remove_all p (c # cs) =
     (if p \<noteq> [] \<and> startswith (c # cs) p then remove_all p (drop (length p) (c # cs)) else c # remove_all p cs)"
  by pat_completeness auto
termination
  by (relation "measure (\<lambda>(p, s). length s)") auto

text \<open>Digits to the base 16 with single underscores between them.\<close>

fun hex_digits :: "nat \<Rightarrow> string \<Rightarrow> nat option" where
  "hex_digits acc [] = None"
| "hex_digits acc [c] = map_option (\<lambda>v. 16 * acc + v) (hex_val c)"
| "hex_digits acc (c # d # s) =
     (case hex_val c of
        None \<Rightarrow> None
      | Some v \<Rightarrow> hex_digits (16 * acc + v) (if d = CHR ''_'' then s else d # s))"

definition py_int16 :: "string \<Rightarrow> nat option" where
  "py_int16 s =
     (let t = strip s;
          u = (if startswith t ''+'' then drop 1 t else t);
          v = (if startswith u ''0x'' \<or> startswith u ''0X''
               then (if startswith (drop 2 u) ''_'' then drop 3 u else drop 2 u) else u)
      in hex_digits 0 v)"

definition parse_uuid :: "string \<Rightarrow> uuid option" where
  "parse_uuid s =
     (let h = filter (\<lambda>c. c \<noteq> CHR ''-'') (strip_chars ''{}'' (remove_all ''uuid:'' (remove_all ''urn:'' s)))
      in if length h \<noteq> 32 then None else py_int16 h)"

subsection \<open>Facts\<close>

lemma remove_all_id: "CHR '':'' \<notin> set s \<Longrightarrow> CHR '':'' \<in> set p \<Longrightarrow> remove_all p s = s"
proof (induction p s rule: remove_all.induct)
  case (2 p c cs)
  have "\<not> startswith (c # cs) p"
  proof
    assume "startswith (c # cs) p"
    then obtain t where "c # cs = p @ t" by (auto simp: startswith_iff)
    then have "CHR '':'' \<in> set (c # cs)" using 2 by simp
    with 2 show False by simp
  qed
  with 2 show ?case by auto
qed simp

lemma hex_val_hex_char: "d < 16 \<Longrightarrow> hex_val (hex_char d) = Some d"
  by (auto simp: hex_val_def code_of_hex_char is_digit_def Let_def)

lemma hex_char_plain:
  assumes "d < 16" and "code_of c \<notin> {48..57} \<union> {97..102}"
  shows "hex_char d \<noteq> c"
  using assms code_of_hex_char [OF assms(1)] by (auto split: if_splits)

lemma hex_digits_map:
  "ds \<noteq> [] \<Longrightarrow> \<forall>d\<in>set ds. d < 16 \<Longrightarrow>
     hex_digits acc (map hex_char ds) = Some (foldl (\<lambda>a d. 16 * a + d) acc ds)"
proof (induction ds arbitrary: acc)
  case (Cons d ds)
  show ?case
  proof (cases ds)
    case (Cons e es)
    have "hex_char e \<noteq> CHR ''_''" using Cons.prems Cons by (intro hex_char_plain) (auto simp: code_of_def)
    with Cons Cons.prems Cons.IH [of "16 * acc + d"] show ?thesis by (simp add: hex_val_hex_char)
  qed (use Cons.prems in \<open>simp add: hex_val_hex_char\<close>)
qed simp

lemma foldl_hex_digits:
  "foldl (\<lambda>a d. 16 * a + d) 0 (map (\<lambda>k. i div 16 ^ (n - Suc k) mod 16) [0..<n]) = (i :: nat) mod 16 ^ n"
proof (induction n arbitrary: i)
  case (Suc n)
  have e: "map (\<lambda>k. i div 16 ^ (n - k) mod 16) [0..<n] = map (\<lambda>k. (i div 16) div 16 ^ (n - Suc k) mod 16) [0..<n]"
  proof (rule map_cong [OF refl])
    fix k assume "k \<in> set [0..<n]"
    then have "n - k = Suc (n - Suc k)" by auto
    then show "i div 16 ^ (n - k) mod 16 = (i div 16) div 16 ^ (n - Suc k) mod 16"
      by (simp add: div_mult2_eq)
  qed
  have "16 * ((i div 16) mod 16 ^ n) + i mod 16 = i mod 16 ^ Suc n"
    using mod_mult2_eq [of i 16 "16 ^ n"] by simp
  then show ?case using Suc.IH [of "i div 16"] by (simp add: e del: map_eq_conv)
qed simp

text \<open>What \<open>uuid_hex\<close> prints has none of the characters that the parser treats specially.\<close>

lemma uuid_hex_plain:
  "code_of c \<notin> {48..57} \<union> {97..102} \<Longrightarrow> c \<notin> set (uuid_hex i)"
proof -
  assume "code_of c \<notin> {48..57} \<union> {97..102}"
  then have "hex_char (i div 16 ^ (31 - k) mod 16) \<noteq> c" for k by (intro hex_char_plain) simp
  then show ?thesis by (auto simp: uuid_hex_def)
qed

lemma uuid_str_hyphens: "filter (\<lambda>c. c \<noteq> CHR ''-'') (uuid_str i) = uuid_hex i"
proof -
  let ?h = "uuid_hex i"
  have n: "filter (\<lambda>c. c \<noteq> CHR ''-'') xs = xs" if "set xs \<subseteq> set ?h" for xs
    using that uuid_hex_plain [of "CHR ''-''" i] by (intro filter_True) (auto simp: code_of_def)
  have s: "set (take k (drop j ?h)) \<subseteq> set ?h" "set (take k ?h) \<subseteq> set ?h" "set (drop j ?h) \<subseteq> set ?h" for k j
    by (auto dest: in_set_takeD in_set_dropD)
  have "?h = take 8 ?h @ take 4 (drop 8 ?h) @ take 4 (drop 12 ?h) @ take 4 (drop 16 ?h) @ drop 20 ?h"
    using append_take_drop_id [of 8 ?h] append_take_drop_id [of 4 "drop 8 ?h"]
      append_take_drop_id [of 4 "drop 12 ?h"] append_take_drop_id [of 4 "drop 16 ?h"] by simp
  then show ?thesis by (simp add: uuid_str_def Let_def n s)
qed

lemma strip_chars_id: "\<forall>c\<in>set s. c \<notin> set cs \<Longrightarrow> strip_chars cs s = s"
proof -
  assume "\<forall>c\<in>set s. c \<notin> set cs"
  then have "dropWhile (\<lambda>c. c \<in> set cs) s = s" "dropWhile (\<lambda>c. c \<in> set cs) (rev s) = rev s"
    by (cases s; simp) (cases "rev s"; use \<open>\<forall>c\<in>set s. c \<notin> set cs\<close> in \<open>auto simp: rev_eq_Cons_iff\<close>)
  then show ?thesis by (simp add: strip_chars_def rstrip_chars_def)
qed

lemma parse_uuid_str:
  assumes "i < 16 ^ 32"
  shows "parse_uuid (uuid_str i) = Some i"
proof -
  let ?h = "uuid_hex i" and ?ds = "map (\<lambda>k. i div 16 ^ (31 - k) mod 16) [0..<32]"
  have set_str: "set (uuid_str i) \<subseteq> insert (CHR ''-'') (set ?h)"
    by (auto simp: uuid_str_def Let_def dest: in_set_takeD in_set_dropD)
  have plain: "c \<notin> set (uuid_str i)" if "code_of c \<notin> {45} \<union> {48..57} \<union> {97..102}" for c
    using that set_str uuid_hex_plain [of c i] by (auto simp: code_of_def)
  have "remove_all p (uuid_str i) = uuid_str i" if "CHR '':'' \<in> set p" for p
    using plain [of "CHR '':''"] that by (intro remove_all_id) (simp_all add: code_of_def)
  moreover have "strip_chars ''{}'' (uuid_str i) = uuid_str i"
    using plain [of "CHR ''{''"] plain [of "CHR ''}''"] by (intro strip_chars_id) (auto simp: code_of_def)
  ultimately have p: "parse_uuid (uuid_str i) = py_int16 ?h"
    by (simp add: parse_uuid_def uuid_str_hyphens Let_def)
  have "\<forall>c\<in>set ?h. \<not> is_space c"
    using uuid_hex_plain [where i = i] by (auto simp: is_space_def Let_def)
  then have st: "strip ?h = ?h" by (rule strip_no_space)
  have "CHR ''+'' \<notin> set ?h" "CHR ''x'' \<notin> set ?h" "CHR ''X'' \<notin> set ?h"
    by (rule uuid_hex_plain, simp add: code_of_def)+
  then have "\<not> startswith ?h ''+''" "\<not> startswith ?h ''0x''" "\<not> startswith ?h ''0X''"
    by (auto simp: startswith_iff)
  with st have "py_int16 ?h = hex_digits 0 ?h" by (simp add: py_int16_def Let_def)
  moreover have "?h = map hex_char ?ds" by (simp add: uuid_hex_def)
  moreover have "hex_digits 0 (map hex_char ?ds) = Some (foldl (\<lambda>a d. 16 * a + d) 0 ?ds)"
    by (rule hex_digits_map) auto
  moreover have "foldl (\<lambda>a d. 16 * a + d) 0 ?ds = i"
  proof -
    have "?ds = map (\<lambda>k. i div 16 ^ (32 - Suc k) mod 16) [0..<32]" by simp
    then show ?thesis using foldl_hex_digits [of i 32] assms by (simp only: mod_less)
  qed
  ultimately show ?thesis using p by metis
qed

end
