(* ===== verification/Mfa.thy ===== *)
theory Mfa
  imports Access Common Py_Json Py_Uuid
begin

text \<open>
  The state between the password and the one-time code: \<open>dashboard/app/services/mfa_service.py\<close>. The
  cookie is a signed token that names the user and a nonce; the row of that nonce counts the wrong
  codes and is consumed by the first right one. The JWT library is a record of two functions; the
  random nonce is an argument. All clock readings of a request are one instant.
\<close>

record jwt_lib =
  jwt_encode :: "(string \<times> json) list \<Rightarrow> string \<Rightarrow> string"
  jwt_decode :: "instant \<Rightarrow> string \<Rightarrow> string \<Rightarrow> (string \<times> json) list option"

definition jwt_ok :: "jwt_lib \<Rightarrow> bool" where
  "jwt_ok jl \<longleftrightarrow> (\<forall>payload key now t. map_of payload ''exp'' = Some (JInt t) \<longrightarrow> now < seconds t
     \<longrightarrow> jwt_decode jl now (jwt_encode jl payload key) key = Some payload)"

definition mfa_pending_cookie_name :: string where
  "mfa_pending_cookie_name = ''opnhub_mfa_pending''"

definition mfa_pending_purpose :: string where
  "mfa_pending_purpose = ''login-mfa''"

record pending_mfa_state =
  pms_user_id :: uuid
  pms_nonce :: string
  pms_login :: pending_mfa_login

definition attempts :: "pending_mfa_state \<Rightarrow> int" where
  "attempts st = pml_failed_attempts (pms_login st)"

definition local_user_supports_hub_mfa :: "user \<Rightarrow> bool" where
  "local_user_supports_hub_mfa u = (clean_optional (usr_auth_provider u) = None)"

text \<open>The SVG renderer of \<open>qrcode\<close> is an argument.\<close>

definition totp_qr_code_data_url :: "(string \<Rightarrow> string) \<Rightarrow> string \<Rightarrow> string \<Rightarrow> string" where
  "totp_qr_code_data_url qr_svg secret account_name =
     ''data:image/svg+xml;base64,'' @ b64encode (qr_svg (totp_provisioning_uri secret account_name ''OPNsense Hub''))"

definition nonce_hash :: "crypto \<Rightarrow> settings \<Rightarrow> string \<Rightarrow> string" where
  "nonce_hash cr cfg nonce = hash_session_token cr (cfg_secret_key cfg) nonce"

definition pending_mfa_cookie ::
  "settings \<Rightarrow> jwt_lib \<Rightarrow> instant \<Rightarrow> uuid \<Rightarrow> instant \<Rightarrow> string \<Rightarrow> cookie" where
  "pending_mfa_cookie cfg jl now user_id expires_at nonce =
     \<lparr>ck_name = mfa_pending_cookie_name,
      ck_value = jwt_encode jl
        [(''sub'', JStr (uuid_str user_id)), (''purpose'', JStr mfa_pending_purpose), (''nonce'', JStr nonce),
         (''exp'', JInt (expires_at div 1000000))] (cfg_secret_key cfg),
      ck_httponly = True, ck_secure = cfg_session_secure cfg, ck_samesite = ''lax'',
      ck_max_age = max 0 ((expires_at - now) div 1000000)\<rparr>"

definition set_pending_mfa_cookie ::
  "crypto \<Rightarrow> settings \<Rightarrow> jwt_lib \<Rightarrow> instant \<Rightarrow> string \<Rightarrow> user \<Rightarrow> db_session \<Rightarrow> cookie \<times> db_session" where
  "set_pending_mfa_cookie cr cfg jl now nonce u s0 =
     (case fresh_uuid s0 of (i, s) \<Rightarrow>
      let expires_at = now + minutes (cfg_otp_ttl_minutes cfg) in
      (pending_mfa_cookie cfg jl now (usr_id u) expires_at nonce,
       s\<lparr>work := (work s)\<lparr>pending_mfa_logins := pending_mfa_logins (work s) @
         [\<lparr>pml_id = i, pml_user_id = usr_id u, pml_nonce_hash = nonce_hash cr cfg nonce,
           pml_failed_attempts = 0, pml_created_at = now, pml_expires_at = expires_at,
           pml_consumed_at = None\<rparr>]\<rparr>\<rparr>))"

definition invalid_mfa_state :: exn where
  "invalid_mfa_state = HTTPException 401 ''invalid MFA sign-in state''"

definition update_pending :: "uuid \<Rightarrow> (pending_mfa_login \<Rightarrow> pending_mfa_login) \<Rightarrow> hub_db \<Rightarrow> hub_db" where
  "update_pending i f db =
     db\<lparr>pending_mfa_logins := update_where (\<lambda>r. pml_id r = i) f (pending_mfa_logins db)\<rparr>"

definition find_pending :: "hub_db \<Rightarrow> string \<Rightarrow> pending_mfa_login option" where
  "find_pending db h = find (\<lambda>r. pml_nonce_hash r = h) (pending_mfa_logins db)"

text \<open>What the token of the cookie says: the user and the nonce.\<close>

definition mfa_token_claims :: "settings \<Rightarrow> jwt_lib \<Rightarrow> instant \<Rightarrow> request \<Rightarrow> (uuid \<times> string) res" where
  "mfa_token_claims cfg jl now rq =
     (let token = rq_cookies rq mfa_pending_cookie_name in
      if \<not> nonempty token then Inl (HTTPException 401 ''missing MFA sign-in state'')
      else case jwt_decode jl now (the token) (cfg_secret_key cfg) of
        None \<Rightarrow> Inl invalid_mfa_state
      | Some payload \<Rightarrow>
          if map_of payload ''purpose'' \<noteq> Some (JStr mfa_pending_purpose) then Inl invalid_mfa_state
          else (case (map_of payload ''sub'', map_of payload ''nonce'') of
              (Some subject, Some nonce) \<Rightarrow>
                if \<not> json_true subject \<or> \<not> json_true nonce then Inl invalid_mfa_state
                else (case parse_uuid (py_str subject) of
                    None \<Rightarrow> Inl invalid_mfa_state
                  | Some user_id \<Rightarrow> Inr (user_id, py_str nonce))
            | _ \<Rightarrow> Inl invalid_mfa_state))"

definition pending_mfa_state_from_request ::
  "crypto \<Rightarrow> settings \<Rightarrow> jwt_lib \<Rightarrow> instant \<Rightarrow> request \<Rightarrow> (db_session, pending_mfa_state) act" where
  "pending_mfa_state_from_request cr cfg jl now rq = (\<lambda>s.
     case mfa_token_claims cfg jl now rq of
       Inl e \<Rightarrow> (Inl e, s)
     | Inr (user_id, nonce) \<Rightarrow>
         (case find_pending (work s) (nonce_hash cr cfg nonce) of
            None \<Rightarrow> (Inl invalid_mfa_state, s)
          | Some login \<Rightarrow>
              if pml_user_id login \<noteq> user_id \<or> pml_consumed_at login \<noteq> None then (Inl invalid_mfa_state, s)
              else if pml_expires_at login \<le> now then
                (Inl invalid_mfa_state,
                 commit (s\<lparr>work := update_pending (pml_id login) (\<lambda>r. r\<lparr>pml_consumed_at := Some now\<rparr>) (work s)\<rparr>))
              else (Inr \<lparr>pms_user_id = user_id, pms_nonce = nonce, pms_login = login\<rparr>, s)))"

definition pending_mfa_user_id_from_request ::
  "crypto \<Rightarrow> settings \<Rightarrow> jwt_lib \<Rightarrow> instant \<Rightarrow> request \<Rightarrow> (db_session, uuid) act" where
  "pending_mfa_user_id_from_request cr cfg jl now rq =
     abind (pending_mfa_state_from_request cr cfg jl now rq) (\<lambda>st. aret (pms_user_id st))"

definition record_pending_mfa_failure :: "pending_mfa_state \<Rightarrow> db_session \<Rightarrow> int \<times> db_session" where
  "record_pending_mfa_failure st s =
     (let n = attempts st + 1 in
      (n, s\<lparr>work := update_pending (pml_id (pms_login st)) (\<lambda>r. r\<lparr>pml_failed_attempts := n\<rparr>) (work s)\<rparr>))"

definition consume_pending_mfa_login :: "instant \<Rightarrow> pending_mfa_state \<Rightarrow> db_session \<Rightarrow> db_session" where
  "consume_pending_mfa_login now st s =
     s\<lparr>work := update_pending (pml_id (pms_login st)) (\<lambda>r. r\<lparr>pml_consumed_at := Some now\<rparr>) (work s)\<rparr>"

end
