(* ===== verification/Identity.thy ===== *)
theory Identity
  imports Access Common Py_Json Py_Ipaddress
begin

text \<open>
  Who may sign in: \<open>dashboard/app/services/admin_security.py\<close> (the allow list of administrator
  addresses, active sessions), \<open>services/local_ad_auth.py\<close> and \<open>services/microsoft_auth.py\<close>. The
  LDAP library, the HTTP client and the JWT library are the fields of records that the functions
  take; what they raise is an \<open>ExternalError\<close> with the name of the class.
\<close>

subsection \<open>services/admin\_security.py\<close>

definition allowlist_entries :: "string option \<Rightarrow> string list" where
  "allowlist_entries raw_value =
     filter (\<lambda>e. e \<noteq> [])
       (map strip (split_on (CHR 0x0A)
         (map (\<lambda>c. if c = CHR 0x0D \<or> c = CHR '','' then CHR 0x0A else c) (or_empty raw_value))))"

definition parse_allowlist_entries :: "string option \<Rightarrow> string list \<times> string list" where
  "parse_allowlist_entries raw_value =
     (filter (\<lambda>e. ip_network e \<noteq> None) (allowlist_entries raw_value),
      filter (\<lambda>e. ip_network e = None) (allowlist_entries raw_value))"

definition admin_login_networks :: "string option \<Rightarrow> ip_net list" where
  "admin_login_networks raw_value = map (\<lambda>e. the (ip_network e)) (fst (parse_allowlist_entries raw_value))"

definition admin_login_ip_allowed ::
  "settings \<Rightarrow> integration_settings option \<Rightarrow> request \<Rightarrow> user \<Rightarrow> bool" where
  "admin_login_ip_allowed cfg i rq u =
     (if usr_role u \<noteq> ''administrator'' then True
      else
        let networks = admin_login_networks (Option.bind i ints_admin_login_allowlist) in
        if networks = [] then True
        else case ip_address (client_ip cfg rq) of
          None \<Rightarrow> False
        | Some address \<Rightarrow> list_ex (in_net address) networks)"

definition session_is_active :: "instant \<Rightarrow> session_token \<Rightarrow> bool" where
  "session_is_active now r = (ses_revoked_at r = None \<and> ses_expires_at r > now)"

definition active_sessions_for_user :: "instant \<Rightarrow> hub_db \<Rightarrow> uuid \<Rightarrow> session_token list" where
  "active_sessions_for_user now db user_id =
     sort_key (\<lambda>r. - ses_created_at r)
       (filter (\<lambda>r. ses_user_id r = user_id \<and> session_is_active now r) (sessions db))"

definition active_sessions_for_admin :: "instant \<Rightarrow> hub_db \<Rightarrow> session_token list" where
  "active_sessions_for_admin now db =
     sort_key (\<lambda>r. - ses_created_at r) (filter (session_is_active now) (sessions db))"

subsection \<open>services/local\_ad\_auth.py\<close>

definition split_display_name :: "string option \<Rightarrow> string option \<times> string option" where
  "split_display_name name =
     (case clean_optional name of
        None \<Rightarrow> (None, None)
      | Some s \<Rightarrow>
          (let first = takeWhile (\<lambda>c. \<not> is_space c) s; rest = lstrip (drop (length first) s)
           in (Some first, if rest = [] then None else Some rest)))"

definition dn_label :: "string \<Rightarrow> string list" where
  "dn_label part =
     (case partition_at CHR ''='' (strip part) of
        (_, key, v) \<Rightarrow> if lower key = ''dc'' \<and> strip v \<noteq> [] then [strip v] else [])"

definition base_dn_domain :: "string option \<Rightarrow> string option" where
  "base_dn_domain base_dn =
     (if \<not> nonempty base_dn then None
      else
        let labels = concat (map dn_label (split_on CHR '','' (the base_dn)))
        in if labels = [] then None else Some (join ''.'' labels))"

record ldap_server =
  ls_host :: string
  ls_port :: nat
  ls_use_ssl :: bool

definition ldap_server_from_host :: "string \<Rightarrow> ldap_server res" where
  "ldap_server_from_host host_value =
     (case urlparse (if contains_str host_value ''://'' then host_value else ''ldaps://'' @ host_value) of
        None \<Rightarrow> Inl ValueError
      | Some parsed \<Rightarrow>
          let use_ssl = (lower (url_scheme parsed) = ''ldaps'') in
          case url_port parsed of
            None \<Rightarrow> Inl ValueError
          | Some port \<Rightarrow>
              Inr \<lparr>ls_host = (case url_hostname parsed of None \<Rightarrow> host_value | Some h \<Rightarrow> h),
                   ls_port = (case port of Some p \<Rightarrow> if p \<noteq> 0 then p else if use_ssl then 636 else 389
                              | None \<Rightarrow> if use_ssl then 636 else 389),
                   ls_use_ssl = use_ssl\<rparr>)"

text \<open>The candidates in order, the first of equal ones kept.\<close>

definition local_ad_bind_candidates :: "string \<Rightarrow> string option \<Rightarrow> string list" where
  "local_ad_bind_candidates identifier base_dn =
     (let stripped = strip identifier;
          own = (if stripped \<noteq> [] then [stripped] else []);
          qualified =
            (if stripped \<noteq> [] \<and> CHR ''@'' \<notin> set stripped \<and> CHR 0x5C \<notin> set stripped then
               (case base_dn_domain base_dn of None \<Rightarrow> [] | Some domain \<Rightarrow> [stripped @ ''@'' @ domain])
             else [])
      in fold (\<lambda>c ordered. if c \<in> set ordered then ordered else ordered @ [c]) (own @ qualified) [])"

text \<open>\<open>ldap3\<close>: escaping of a filter value, and a bind followed by the search of at most one entry,
  whose attributes are lists. The left result is the text of an \<open>LDAPException\<close>.\<close>

type_synonym ad_entry = "string \<Rightarrow> string option list option"

record ldap_client =
  ldap_escape :: "string \<Rightarrow> string"
  ldap_search :: "ldap_server \<Rightarrow> string \<Rightarrow> string \<Rightarrow> string \<Rightarrow> string \<Rightarrow> string + ad_entry option"

definition first_attribute :: "ad_entry \<Rightarrow> string \<Rightarrow> string option" where
  "first_attribute entry key = (case entry key of Some (v # vs) \<Rightarrow> v | _ \<Rightarrow> None)"

definition ad_filter :: "ldap_client \<Rightarrow> string \<Rightarrow> string" where
  "ad_filter lc login_value =
     (let escaped = ldap_escape lc login_value;
          localpart = ldap_escape lc (hd (split_on CHR ''@'' login_value))
      in ''(|(mail='' @ escaped @ '')(userPrincipalName='' @ escaped @ '')(sAMAccountName='' @ localpart
           @ '')(cn='' @ escaped @ ''))'')"

type_synonym identity = "string \<times> string option \<times> string option"

definition ad_identity :: "string \<Rightarrow> string \<Rightarrow> ad_entry option \<Rightarrow> identity res" where
  "ad_identity bind_user login_value entry =
     (let email = (case entry of
            None \<Rightarrow> None
          | Some e \<Rightarrow> clean_optional (str_or (first_attribute e ''mail'') (first_attribute e ''userPrincipalName'')));
          (first_name, last_name) = (case entry of
            None \<Rightarrow> (None, None)
          | Some e \<Rightarrow>
              (let f = clean_optional (first_attribute e ''givenName''); l = clean_optional (first_attribute e ''sn'')
               in if \<not> nonempty f \<and> \<not> nonempty l
                  then split_display_name (first_attribute e ''displayName'') else (f, l)))
      in case email of
           Some m \<Rightarrow> Inr (m, first_name, last_name)
         | None \<Rightarrow>
             (let candidate = (if is_valid_email_address (Some bind_user) then bind_user else login_value)
              in if is_valid_email_address (Some candidate) then Inr (candidate, first_name, last_name)
                 else Inl (RuntimeError ''Local AD sign-in succeeded, but no usable email address was found for this account'')))"

fun ad_try :: "ldap_client \<Rightarrow> ldap_server \<Rightarrow> string \<Rightarrow> string \<Rightarrow> string \<Rightarrow> exn \<Rightarrow> string list \<Rightarrow> identity res" where
  "ad_try lc server base_dn login_value password last_error [] = Inl last_error"
| "ad_try lc server base_dn login_value password last_error (bind_user # rest) =
     (case ldap_search lc server bind_user password base_dn (ad_filter lc login_value) of
        Inr entry \<Rightarrow> ad_identity bind_user login_value entry
      | Inl m \<Rightarrow> ad_try lc server base_dn login_value password
                   (RuntimeError (''Local AD authentication failed: '' @ m)) rest)"

definition authenticate_local_ad_user ::
  "ldap_client \<Rightarrow> integration_settings \<Rightarrow> string \<Rightarrow> string \<Rightarrow> identity res" where
  "authenticate_local_ad_user lc i identifier password =
     (if \<not> nonempty (ints_ad_host i) \<or> \<not> nonempty (ints_ad_base_dn i)
      then Inl (RuntimeError ''Local AD sign-in is not configured'')
      else rbind (ldap_server_from_host (the (ints_ad_host i))) (\<lambda>server.
        let login_value = strip identifier in
        if login_value = [] \<or> password = [] then Inl (RuntimeError ''Username and password are required'')
        else ad_try lc server (the (ints_ad_base_dn i)) login_value password
               (RuntimeError ''Local AD sign-in failed'')
               (local_ad_bind_candidates login_value (ints_ad_base_dn i))))"

subsection \<open>services/microsoft\_auth.py\<close>

definition microsoft_authority_url :: "integration_settings option \<Rightarrow> string option" where
  "microsoft_authority_url i =
     (case i of
        None \<Rightarrow> None
      | Some r \<Rightarrow>
          if \<not> nonempty (ints_microsoft_tenant_id r) then None
          else if nonempty (ints_microsoft_authority r)
          then Some (rstrip_chars ''/'' (the (ints_microsoft_authority r)))
          else Some (''https://login.microsoftonline.com/'' @ strip (the (ints_microsoft_tenant_id r))))"

definition bare_audience :: "string \<Rightarrow> string" where
  "bare_audience audience = removesuffix (removeprefix (strip audience) ''api://'') ''/access_as_user''"

definition microsoft_access_scope :: "integration_settings option \<Rightarrow> string option" where
  "microsoft_access_scope i =
     (case i of
        None \<Rightarrow> None
      | Some r \<Rightarrow>
          if \<not> nonempty (ints_microsoft_audience r) then None
          else
            let audience = bare_audience (the (ints_microsoft_audience r))
            in if audience = [] then None else Some (''api://'' @ audience @ ''/access_as_user''))"

definition microsoft_redirect_uri :: "settings \<Rightarrow> string \<Rightarrow> string" where
  "microsoft_redirect_uri cfg callback_path = rstrip_chars ''/'' (cfg_public_url cfg) @ callback_path"

definition microsoft_pkce_challenge :: "(string \<Rightarrow> string) \<Rightarrow> string \<Rightarrow> string" where
  "microsoft_pkce_challenge sha256 verifier = rstrip_chars ''='' (urlsafe_b64encode (sha256 verifier))"

definition microsoft_unconfigured :: exn where
  "microsoft_unconfigured = RuntimeError ''Microsoft sign-in is not configured''"

definition microsoft_login_authorize_url ::
  "settings \<Rightarrow> (string \<Rightarrow> string) \<Rightarrow> integration_settings \<Rightarrow> string \<Rightarrow> string \<Rightarrow> string \<Rightarrow> string option \<Rightarrow> string res" where
  "microsoft_login_authorize_url cfg sha256 i callback_path state verifier login_hint =
     (let authority = microsoft_authority_url (Some i); scope = microsoft_access_scope (Some i) in
      if \<not> nonempty authority \<or> \<not> nonempty scope then Inl microsoft_unconfigured
      else
        Inr (rstrip_chars ''/'' (the authority) @ ''/oauth2/v2.0/authorize?'' @ urlencode
          ([(''client_id'', or_empty (ints_microsoft_client_id i)),
            (''response_type'', ''code''),
            (''redirect_uri'', microsoft_redirect_uri cfg callback_path),
            (''response_mode'', ''query''),
            (''scope'', ''openid profile email '' @ the scope),
            (''state'', state),
            (''code_challenge'', microsoft_pkce_challenge sha256 verifier),
            (''code_challenge_method'', ''S256'')]
           @ (case clean_optional login_hint of None \<Rightarrow> [] | Some h \<Rightarrow> [(''login_hint'', h)]))))"

text \<open>\<open>httpx\<close> and \<open>jwt\<close>: a posted form whose checked reply is a JSON object, the key that the key
  set of an authority holds for a token, and the claims of a token under a key. \<open>ms_handled\<close> is the
  set of the classes below \<open>httpx.HTTPError\<close> and \<open>jwt.PyJWTError\<close>.\<close>

record ms_client =
  ms_post :: "string \<Rightarrow> (string \<times> string option) list \<Rightarrow> (string \<times> json) list res"
  ms_signing_key :: "string \<Rightarrow> string \<Rightarrow> string res"
  ms_decode :: "string \<Rightarrow> string \<Rightarrow> instant \<Rightarrow> (string \<times> json) list res"
  ms_handled :: "string \<Rightarrow> bool"

definition payload_get :: "(string \<times> json) list \<Rightarrow> string \<Rightarrow> json" where
  "payload_get payload key = (case map_of payload key of None \<Rightarrow> JNull | Some v \<Rightarrow> v)"

definition exchange_microsoft_authorization_code ::
  "settings \<Rightarrow> ms_client \<Rightarrow> integration_settings \<Rightarrow> string \<Rightarrow> string \<Rightarrow> string \<Rightarrow> string option
     \<Rightarrow> (string \<times> json) list res" where
  "exchange_microsoft_authorization_code cfg mc i callback_path code verifier client_secret =
     (let authority = microsoft_authority_url (Some i); scope = microsoft_access_scope (Some i) in
      if \<not> nonempty authority \<or> \<not> nonempty scope then Inl microsoft_unconfigured
      else rbind (ms_post mc (rstrip_chars ''/'' (the authority) @ ''/oauth2/v2.0/token'')
          [(''grant_type'', Some ''authorization_code''),
           (''client_id'', ints_microsoft_client_id i),
           (''client_secret'', client_secret),
           (''code'', Some code),
           (''redirect_uri'', Some (microsoft_redirect_uri cfg callback_path)),
           (''code_verifier'', Some verifier),
           (''scope'', Some (''openid profile email '' @ the scope))]) (\<lambda>payload.
        if \<not> json_true (payload_get payload ''access_token'')
        then Inl (RuntimeError ''Microsoft sign-in did not return an access token'')
        else Inr payload))"

definition microsoft_group_matches :: "string list \<Rightarrow> string option list \<Rightarrow> bool" where
  "microsoft_group_matches groups candidates =
     (let normalized_groups = map (\<lambda>g. lower (strip g)) (filter (\<lambda>g. strip g \<noteq> []) groups)
      in list_ex (\<lambda>c. let normalized = lower (strip (or_empty c))
           in normalized \<noteq> [] \<and> normalized \<in> set normalized_groups) candidates)"

definition microsoft_role_from_groups ::
  "integration_settings \<Rightarrow> string list \<Rightarrow> string option \<Rightarrow> string \<times> bool" where
  "microsoft_role_from_groups i groups existing_role =
     (let admin_mapped = nonempty (ints_microsoft_admin_group_name i) \<or> nonempty (ints_microsoft_admin_group_id i);
          user_mapped = nonempty (ints_microsoft_user_group_name i) \<or> nonempty (ints_microsoft_user_group_id i);
          kept = (if nonempty existing_role then the existing_role else ''user'')
      in if microsoft_group_matches groups [ints_microsoft_admin_group_name i, ints_microsoft_admin_group_id i]
         then (''administrator'', True)
         else if microsoft_group_matches groups [ints_microsoft_user_group_name i, ints_microsoft_user_group_id i]
         then (''user'', True)
         else if admin_mapped \<or> user_mapped then (kept, False)
         else (kept, True))"

definition expected_issuers :: "string \<Rightarrow> string \<Rightarrow> string list" where
  "expected_issuers authority tenant_id =
     [''https://login.microsoftonline.com/'' @ tenant_id @ ''/v2.0'',
      ''https://sts.windows.net/'' @ tenant_id @ ''/'',
      rstrip_chars ''/'' authority @ ''/v2.0'']"

definition validate_microsoft_access_token ::
  "ms_client \<Rightarrow> instant \<Rightarrow> integration_settings \<Rightarrow> string \<Rightarrow> (string \<times> json) list res" where
  "validate_microsoft_access_token mc now i token =
     (let authority = microsoft_authority_url (Some i) in
      if \<not> nonempty authority \<or> \<not> nonempty (ints_microsoft_tenant_id i) then Inl microsoft_unconfigured
      else rbind (ms_signing_key mc (rstrip_chars ''/'' (the authority) @ ''/discovery/v2.0/keys'') token) (\<lambda>key.
        rbind (ms_decode mc token key now) (\<lambda>claims.
          if str_field claims ''iss'' [] \<notin> set (expected_issuers (the authority) (strip (the (ints_microsoft_tenant_id i))))
          then Inl (RuntimeError ''Microsoft token has an invalid issuer'')
          else
            let audience = bare_audience (or_empty (ints_microsoft_audience i)) in
            if py_str (payload_get claims ''aud'') \<notin> {audience, ''api://'' @ audience}
            then Inl (RuntimeError ''Microsoft token has an invalid audience'')
            else case payload_get claims ''_claim_names'' of
                JObj names \<Rightarrow>
                  if map_of names ''groups'' \<noteq> None
                  then Inl (RuntimeError ''Microsoft token uses group overage claims. Configure the app registration to emit groups for the API token or reduce group memberships before login.'')
                  else Inr claims
              | _ \<Rightarrow> Inr claims)))"

text \<open>\<open>str(claims.get(a) or claims.get(b) or ...)\<close>, and what iterating over a JSON value yields.\<close>

fun first_claim :: "(string \<times> json) list \<Rightarrow> string list \<Rightarrow> string" where
  "first_claim claims [] = []"
| "first_claim claims (k # ks) =
     (if json_true (payload_get claims k) then py_str (payload_get claims k) else first_claim claims ks)"

fun iterated :: "json \<Rightarrow> string list res" where
  "iterated (JList xs) = Inr (map py_str xs)"
| "iterated (JObj kvs) = Inr (map fst kvs)"
| "iterated (JStr s) = Inr (map (\<lambda>c. [c]) s)"
| "iterated _ = Inl TypeError"

fun display_name_claim :: "json \<Rightarrow> (string option \<times> string option) res" where
  "display_name_claim JNull = Inr (None, None)"
| "display_name_claim (JStr s) = Inr (split_display_name (Some s))"
| "display_name_claim _ = Inl (ExternalError ''AttributeError'')"

definition microsoft_user_identity ::
  "(string \<times> json) list \<Rightarrow> (string \<times> string option \<times> string option \<times> string list) res" where
  "microsoft_user_identity claims =
     (let email = clean_optional (Some (first_claim claims [''preferred_username'', ''email'', ''upn''])) in
      if \<not> nonempty email \<or> \<not> is_valid_email_address email
      then Inl (RuntimeError ''Microsoft token does not contain a usable email address'')
      else rbind (display_name_claim (payload_get claims ''name'')) (\<lambda>(first_name, last_name).
        let groups = payload_get claims ''groups'' in
        rbind (if json_true groups then iterated groups else Inr []) (\<lambda>gs.
          Inr (the email, first_name, last_name, gs))))"

end
