(* ===== verification/Auth_Router.thy ===== *)
theory Auth_Router
  imports Mfa Identity Notifications Rate_Limit
begin

text \<open>
  Signing in and out: \<open>dashboard/app/routers/auth.py\<close>. A handler takes the environment (configuration,
  libraries), what it draws at random and the request, and runs on the database session, the mail
  world and the state of the rate limiter. Pages are values: which page, with which message and
  status, and which cookies it sets and clears. \<open>served\<close> adds what \<open>get_db\<close> does when the request is
  over: uncommitted work is dropped.
\<close>

record ('m, 'r) auth_world =
  au_db :: db_session
  au_mail :: 'm
  au_limits :: "buckets \<times> 'r"

record ('m, 'r) auth_env =
  ae_crypto :: crypto
  ae_notify :: notify_ctx
  ae_mail :: "'m mail_env"
  ae_redis :: "'r redis_client"
  ae_backend :: backend
  ae_jwt :: jwt_lib
  ae_ms :: ms_client
  ae_ldap :: ldap_client
  ae_exn_text :: "string \<Rightarrow> string"

record auth_input =
  ai_now :: instant
  ai_request :: request
  ai_token :: string
  ai_nonce :: string
  ai_verifier :: string
  ai_salt :: string
  ai_random :: string
  ai_fernet_nonce :: nat

abbreviation env_cfg :: "('m, 'r) auth_env \<Rightarrow> settings" where
  "env_cfg env \<equiv> nc_cfg (ae_notify env)"

abbreviation env_fernet :: "('m, 'r) auth_env \<Rightarrow> fernet" where
  "env_fernet env \<equiv> nc_fernet (ae_notify env)"

datatype page =
    LoginPage "string option" int
  | MfaPage uuid "string option" int
  | SecurityPage uuid "string option" int "string option"
  | RedirectTo string
  | JsonOk string

record auth_reply =
  rp_page :: page
  rp_cookies :: "cookie list"
  rp_deleted :: "string list"

definition show_page :: "page \<Rightarrow> auth_reply" where
  "show_page p = \<lparr>rp_page = p, rp_cookies = [], rp_deleted = []\<rparr>"

definition served :: "(('m, 'r) auth_world, 'a) act \<Rightarrow> (('m, 'r) auth_world, 'a) act" where
  "served handler = (\<lambda>w. case handler w of (r, w') \<Rightarrow> (r, w'\<lparr>au_db := rollback (au_db w')\<rparr>))"

text \<open>The new audit row is in the transaction but not flushed while the alert counts the earlier
  failures, unless the settings row has to be created, which commits.\<close>

definition audit_failure ::
  "('m, 'r) auth_env \<Rightarrow> auth_input \<Rightarrow> string \<Rightarrow> user option \<Rightarrow> string option \<Rightarrow> bool
     \<Rightarrow> ('m, 'r) auth_world \<Rightarrow> ('m, 'r) auth_world" where
  "audit_failure env inp action u detail notify w =
     (let audit = (\<lambda>s. snd (write_audit (env_cfg env) (ai_now inp) (Some (ai_request inp)) action
                         (map_option usr_id u) None None s));
          repeated = maybe_notify_for_repeated_auth_failures (ae_mail env) (ae_notify env) (ai_now inp) action detail;
          (s, m) =
            (if notify then
               snd (send_security_alert_email (ae_mail env) (ae_notify env) (ai_now inp)
                 (''[OPNsense Hub] Security event: '' @ action)
                 (if nonempty detail then the detail else action) (audit (au_db w), au_mail w))
             else if get_integration (work (au_db w)) = None
             then snd (repeated (audit (au_db w), au_mail w))
             else (case repeated (au_db w, au_mail w) of (_, s, m) \<Rightarrow> (audit s, m)))
      in w\<lparr>au_db := commit s, au_mail := m\<rparr>)"

definition limited ::
  "('m, 'r) auth_env \<Rightarrow> auth_input \<Rightarrow> string \<Rightarrow> string \<Rightarrow> int \<Rightarrow> int \<Rightarrow> string \<Rightarrow> user option \<Rightarrow> string
     \<Rightarrow> (('m, 'r) auth_world, unit) act" where
  "limited env inp bucket key limit window action u detail = (\<lambda>w.
     case apply_rate_limit (env_cfg env) (ae_redis env) (ae_backend env) (ai_now inp) (ai_request inp)
            bucket key limit window (au_limits w) of
       (Inr _, l) \<Rightarrow> (Inr (), w\<lparr>au_limits := l\<rparr>)
     | (Inl (HTTPException c d), l) \<Rightarrow>
         (Inl (HTTPException c d), audit_failure env inp action u (Some detail) True (w\<lparr>au_limits := l\<rparr>))
     | (Inl e, l) \<Rightarrow> (Inl e, w\<lparr>au_limits := l\<rparr>))"

text \<open>\<open>create_user_session\<close>, the audit row, the commit and the redirect with the session cookie.\<close>

definition signed_in ::
  "('m, 'r) auth_env \<Rightarrow> auth_input \<Rightarrow> user \<Rightarrow> string \<Rightarrow> page \<Rightarrow> string list
     \<Rightarrow> (('m, 'r) auth_world, auth_reply) act" where
  "signed_in env inp u action p deleted = (\<lambda>w.
     case create_user_session (ae_crypto env) (env_cfg env) (ai_now inp) (ai_token inp) u
            (Some (ai_request inp)) (au_db w) of
       (token, s) \<Rightarrow>
         (Inr \<lparr>rp_page = p, rp_cookies = [set_session_cookie (env_cfg env) token], rp_deleted = deleted\<rparr>,
          w\<lparr>au_db := commit (snd (write_audit (env_cfg env) (ai_now inp) (Some (ai_request inp)) action
             (Some (usr_id u)) None None s))\<rparr>))"

subsection \<open>The second factor\<close>

definition mfa_user :: "hub_db \<Rightarrow> uuid \<Rightarrow> user res" where
  "mfa_user db i =
     (case get_user db i of
        None \<Rightarrow> Inl invalid_mfa_state
      | Some u \<Rightarrow>
          if \<not> local_user_supports_hub_mfa u \<or> \<not> usr_mfa_enabled u then Inl invalid_mfa_state else Inr u)"

definition mfa_expired_page :: auth_reply where
  "mfa_expired_page =
     \<lparr>rp_page = LoginPage (Some ''Your MFA sign-in session is invalid or has expired. Please sign in again.'') 401,
      rp_cookies = [], rp_deleted = [mfa_pending_cookie_name]\<rparr>"

definition mfa_locked_page :: auth_reply where
  "mfa_locked_page =
     \<lparr>rp_page = LoginPage (Some ''Too many invalid MFA attempts. Please sign in again.'') 401,
      rp_cookies = [], rp_deleted = [mfa_pending_cookie_name]\<rparr>"

definition mfa_login_page ::
  "('m, 'r) auth_env \<Rightarrow> auth_input \<Rightarrow> (('m, 'r) auth_world, auth_reply) act" where
  "mfa_login_page env inp = (\<lambda>w.
     case pending_mfa_state_from_request (ae_crypto env) (env_cfg env) (ae_jwt env) (ai_now inp)
            (ai_request inp) (au_db w) of
       (r, s) \<Rightarrow>
         (case rbind r (\<lambda>st. mfa_user (work s) (pms_user_id st)) of
            Inr u \<Rightarrow> (Inr (show_page (MfaPage (usr_id u) None 200)), w\<lparr>au_db := s\<rparr>)
          | Inl (HTTPException c d) \<Rightarrow> (Inr mfa_expired_page, w\<lparr>au_db := s\<rparr>)
          | Inl e \<Rightarrow> (Inl e, w\<lparr>au_db := s\<rparr>)))"

text \<open>The answer to a code that was checked.\<close>

definition mfa_answer ::
  "('m, 'r) auth_env \<Rightarrow> auth_input \<Rightarrow> pending_mfa_state \<Rightarrow> user \<Rightarrow> bool
     \<Rightarrow> (('m, 'r) auth_world, auth_reply) act" where
  "mfa_answer env inp st u ok = (\<lambda>w.
     if ok then
       signed_in env inp u ''auth.login'' (RedirectTo ''/dashboard'') [mfa_pending_cookie_name]
         (w\<lparr>au_db := consume_pending_mfa_login (ai_now inp) st (au_db w)\<rparr>)
     else (case record_pending_mfa_failure st (au_db w) of (next_attempts, s) \<Rightarrow>
       if next_attempts \<ge> cfg_rate_limit_mfa_attempts (env_cfg env) then
         (Inr mfa_locked_page,
          audit_failure env inp ''auth.mfa.locked'' (Some u)
            (Some ''pending MFA sign-in exceeded the attempt limit'') True
            (w\<lparr>au_db := consume_pending_mfa_login (ai_now inp) st s\<rparr>))
       else
         (Inr (show_page (MfaPage (usr_id u) (Some ''Invalid authenticator code'') 401)),
          audit_failure env inp ''auth.mfa.failed'' (Some u) (Some ''invalid authenticator code'') False
            (w\<lparr>au_db := s\<rparr>))))"

definition code_matches :: "('m, 'r) auth_env \<Rightarrow> instant \<Rightarrow> string option \<Rightarrow> string \<Rightarrow> bool res" where
  "code_matches env now stored code =
     rbind (decrypt_secret (env_fernet env) (env_cfg env) stored) (\<lambda>secret.
       if \<not> nonempty secret then Inr False
       else verify_totp_code (ae_crypto env) (the secret) code (now div 1000000))"

definition complete_mfa_login ::
  "('m, 'r) auth_env \<Rightarrow> auth_input \<Rightarrow> string \<Rightarrow> (('m, 'r) auth_world, auth_reply) act" where
  "complete_mfa_login env inp code = (\<lambda>w0.
     case pending_mfa_state_from_request (ae_crypto env) (env_cfg env) (ae_jwt env) (ai_now inp)
            (ai_request inp) (au_db w0) of
       (r, s) \<Rightarrow>
       (let w = w0\<lparr>au_db := s\<rparr>; cfg = env_cfg env in
        case rbind r (\<lambda>st. rbind (mfa_user (work s) (pms_user_id st)) (\<lambda>u. Inr (st, u))) of
          Inl (HTTPException c d) \<Rightarrow> (Inr mfa_expired_page, w)
        | Inl e \<Rightarrow> (Inl e, w)
        | Inr (st, u) \<Rightarrow>
            if attempts st \<ge> cfg_rate_limit_mfa_attempts cfg then
              (Inr mfa_locked_page,
               audit_failure env inp ''auth.mfa.locked'' (Some u)
                 (Some ''pending MFA sign-in exceeded the attempt limit'') True
                 (w\<lparr>au_db := consume_pending_mfa_login (ai_now inp) st (au_db w)\<rparr>))
            else
              abind (limited env inp ''mfa-login'' (uuid_str (usr_id u)) (cfg_rate_limit_mfa_attempts cfg)
                  (cfg_rate_limit_mfa_window_seconds cfg) ''auth.mfa.rate_limited'' (Some u)
                  ''too many MFA attempts'') (\<lambda>_.
              abind (alift (code_matches env (ai_now inp) (usr_mfa_secret u) code)) (\<lambda>ok.
                mfa_answer env inp st u ok)) w))"

subsection \<open>Passwords and the account page\<close>

definition find_email :: "hub_db \<Rightarrow> string \<Rightarrow> user option" where
  "find_email db email = find (\<lambda>r. usr_email r = email) (users db)"

definition denied_ip_page :: page where
  "denied_ip_page = LoginPage (Some ''Administrator login is not allowed from this IP address.'') 403"

definition login ::
  "('m, 'r) auth_env \<Rightarrow> auth_input \<Rightarrow> string \<Rightarrow> string \<Rightarrow> (('m, 'r) auth_world, auth_reply) act" where
  "login env inp email password =
     (let cfg = env_cfg env; normalized_email = strip (lower email) in
      abind (limited env inp ''login'' normalized_email (cfg_rate_limit_login_attempts cfg)
          (cfg_rate_limit_login_window_seconds cfg) ''auth.login.rate_limited'' None
          (''too many login attempts for '' @ normalized_email)) (\<lambda>_ w.
        case find (\<lambda>u. verify_secret (ae_crypto env) password (usr_password_hash u))
               (case find_email (work (au_db w)) normalized_email of None \<Rightarrow> [] | Some u \<Rightarrow> [u]) of
          None \<Rightarrow>
            (Inr (show_page (LoginPage (Some ''Invalid email or password'') 401)),
             audit_failure env inp ''auth.login.failed'' (find_email (work (au_db w)) normalized_email)
               (Some (''invalid password for '' @ normalized_email)) False w)
        | Some u \<Rightarrow>
            if \<not> admin_login_ip_allowed cfg (get_integration (work (au_db w))) (ai_request inp) u then
              (Inr (show_page denied_ip_page),
               audit_failure env inp ''auth.login.denied_ip'' (Some u)
                 (Some ''administrator login blocked by IP allowlist'') True w)
            else if usr_mfa_enabled u then
              (if \<not> local_user_supports_hub_mfa u then
                 (Inr (show_page (LoginPage (Some ''This account uses MFA through its external identity provider.'') 400)), w)
               else case decrypt_secret (env_fernet env) cfg (usr_mfa_secret u) of
                   Inl e \<Rightarrow> (Inl e, w)
                 | Inr secret \<Rightarrow>
                     if \<not> nonempty secret then
                       (Inr (show_page (LoginPage (Some ''MFA is enabled for this account but is not configured correctly.'') 401)), w)
                     else (case set_pending_mfa_cookie (ae_crypto env) cfg (ae_jwt env) (ai_now inp)
                             (ai_nonce inp) u (au_db w) of
                         (c, s) \<Rightarrow>
                           (Inr \<lparr>rp_page = RedirectTo ''/auth/mfa'', rp_cookies = [c], rp_deleted = []\<rparr>,
                            w\<lparr>au_db := commit s\<rparr>)))
            else signed_in env inp u ''auth.login'' (RedirectTo ''/dashboard'') [] w))"

definition account_security_page ::
  "('m, 'r) auth_env \<Rightarrow> user \<Rightarrow> string option \<Rightarrow> int \<Rightarrow> string option \<Rightarrow> auth_reply res" where
  "account_security_page env u err status setup_secret =
     rbind (if setup_secret = None \<and> \<not> usr_mfa_enabled u
            then decrypt_secret (env_fernet env) (env_cfg env) (usr_mfa_secret u) else Inr setup_secret)
       (\<lambda>effective. Inr (show_page (SecurityPage (usr_id u) err status effective)))"

definition externally_managed :: exn where
  "externally_managed =
     HTTPException 400 ''externally managed users must configure MFA with their identity provider''"

definition put_user :: "user \<Rightarrow> db_session \<Rightarrow> db_session" where
  "put_user u s = s\<lparr>work := (work s)\<lparr>users := update_where (\<lambda>r. usr_id r = usr_id u) (\<lambda>_. u) (users (work s))\<rparr>\<rparr>"

definition begin_account_mfa_setup ::
  "('m, 'r) auth_env \<Rightarrow> string \<Rightarrow> user \<Rightarrow> (('m, 'r) auth_world, auth_reply) act" where
  "begin_account_mfa_setup env generated u =
     (if \<not> local_user_supports_hub_mfa u then araise externally_managed
      else if usr_mfa_enabled u then aret (show_page (RedirectTo ''/account/security''))
      else alift (account_security_page env u None 200 (Some generated)))"

definition store_mfa ::
  "('m, 'r) auth_env \<Rightarrow> auth_input \<Rightarrow> user \<Rightarrow> string \<Rightarrow> string \<Rightarrow> (('m, 'r) auth_world, auth_reply) act" where
  "store_mfa env inp u action status = (\<lambda>w.
     (Inr (show_page (RedirectTo (''/account/security?status='' @ status))),
      w\<lparr>au_db := commit (snd (write_audit (env_cfg env) (ai_now inp) (Some (ai_request inp)) action
         (Some (usr_id u)) None None (put_user u (au_db w))))\<rparr>))"

definition enable_account_mfa ::
  "('m, 'r) auth_env \<Rightarrow> auth_input \<Rightarrow> user \<Rightarrow> string \<Rightarrow> string \<Rightarrow> (('m, 'r) auth_world, auth_reply) act" where
  "enable_account_mfa env inp u secret code =
     (if \<not> local_user_supports_hub_mfa u then araise externally_managed
      else if usr_mfa_enabled u then aret (show_page (RedirectTo ''/account/security''))
      else
        let normalized_secret = clean_optional (Some secret) in
        abind (alift (if normalized_secret = None then Inr False
                      else verify_totp_code (ae_crypto env) (the normalized_secret) code (ai_now inp div 1000000)))
          (\<lambda>ok. if \<not> ok then alift (account_security_page env u (Some ''Invalid authenticator code'') 400 normalized_secret)
                else store_mfa env inp
                  (u\<lparr>usr_mfa_secret := encrypt_secret (env_fernet env) (env_cfg env) (ai_fernet_nonce inp) normalized_secret,
                     usr_mfa_enabled := True\<rparr>) ''auth.mfa.enable'' ''mfa-enabled''))"

definition disable_account_mfa ::
  "('m, 'r) auth_env \<Rightarrow> auth_input \<Rightarrow> user \<Rightarrow> string \<Rightarrow> string \<Rightarrow> (('m, 'r) auth_world, auth_reply) act" where
  "disable_account_mfa env inp u password code =
     (if \<not> local_user_supports_hub_mfa u then araise externally_managed
      else abind (alift (rbind (decrypt_secret (env_fernet env) (env_cfg env) (usr_mfa_secret u)) (\<lambda>secret.
             if \<not> usr_mfa_enabled u \<or> \<not> nonempty secret
                \<or> \<not> verify_secret (ae_crypto env) password (usr_password_hash u)
             then Inr False
             else verify_totp_code (ae_crypto env) (the secret) code (ai_now inp div 1000000))))
        (\<lambda>ok. if \<not> ok then alift (account_security_page env u (Some ''Password or authenticator code was invalid'') 400 None)
              else store_mfa env inp (u\<lparr>usr_mfa_secret := None, usr_mfa_enabled := False\<rparr>)
                     ''auth.mfa.disable'' ''mfa-disabled''))"

subsection \<open>Signing out\<close>

definition logout ::
  "('m, 'r) auth_env \<Rightarrow> auth_input \<Rightarrow> user \<Rightarrow> (('m, 'r) auth_world, auth_reply) act" where
  "logout env inp u = (\<lambda>w.
     case session_from_request (ae_crypto env) (env_cfg env) (ai_now inp) (ai_request inp) (work (au_db w)) of
       Inl e \<Rightarrow> (Inl e, w)
     | Inr session \<Rightarrow>
         (let s = (au_db w)\<lparr>work := revoke_session_token (ai_now inp) session (work (au_db w))\<rparr> in
          (Inr \<lparr>rp_page = RedirectTo ''/login'', rp_cookies = [],
             rp_deleted = [cfg_session_cookie_name (env_cfg env), mfa_pending_cookie_name]\<rparr>,
           w\<lparr>au_db := commit (snd (write_audit (env_cfg env) (ai_now inp) (Some (ai_request inp)) ''auth.logout''
              (Some (usr_id u)) None None s))\<rparr>)))"

definition revoke_own_session ::
  "('m, 'r) auth_env \<Rightarrow> auth_input \<Rightarrow> user \<Rightarrow> uuid \<Rightarrow> (('m, 'r) auth_world, auth_reply) act" where
  "revoke_own_session env inp u session_id = (\<lambda>w.
     case get_session_token (work (au_db w)) session_id of
       None \<Rightarrow> (Inl (HTTPException 404 ''Not Found''), w)
     | Some target \<Rightarrow>
         if ses_user_id target \<noteq> usr_id u \<or> ses_revoked_at target \<noteq> None
         then (Inl (HTTPException 404 ''Not Found''), w)
         else (case session_from_request (ae_crypto env) (env_cfg env) (ai_now inp) (ai_request inp) (work (au_db w)) of
             Inl e \<Rightarrow> (Inl e, w)
           | Inr current \<Rightarrow>
               (let s = (au_db w)\<lparr>work := revoke_session_token (ai_now inp) target (work (au_db w))\<rparr> in
                (Inr (if ses_id target = ses_id current
                      then \<lparr>rp_page = RedirectTo ''/login'', rp_cookies = [],
                         rp_deleted = [cfg_session_cookie_name (env_cfg env), mfa_pending_cookie_name]\<rparr>
                      else show_page (RedirectTo ''/account/security?status=session-revoked'')),
                 w\<lparr>au_db := commit (snd (write_audit (env_cfg env) (ai_now inp) (Some (ai_request inp))
                    ''auth.session.revoke'' (Some (usr_id u)) None None s))\<rparr>))))"

subsection \<open>External identities\<close>

definition ms_cookies :: "string list" where
  "ms_cookies = [''opnhub_ms_state'', ''opnhub_ms_verifier'']"

definition ms_cookie :: "settings \<Rightarrow> string \<Rightarrow> string \<Rightarrow> cookie" where
  "ms_cookie cfg name v =
     \<lparr>ck_name = name, ck_value = v, ck_httponly = True, ck_secure = cfg_session_secure cfg,
      ck_samesite = ''lax'', ck_max_age = 600\<rparr>"

definition ms_not_configured :: exn where
  "ms_not_configured = HTTPException 501 ''Microsoft sign-in is not configured''"

definition microsoft_login_start ::
  "('m, 'r) auth_env \<Rightarrow> auth_input \<Rightarrow> string \<Rightarrow> string option \<Rightarrow> (('m, 'r) auth_world, auth_reply) act" where
  "microsoft_login_start env inp callback_path login_hint = (\<lambda>w.
     case get_integration (work (au_db w)) of
       None \<Rightarrow> (Inl ms_not_configured, w)
     | Some i \<Rightarrow>
         if \<not> microsoft_login_configured (Some i) then (Inl ms_not_configured, w)
         else
           let cfg = env_cfg env;
               key = (case clean_optional login_hint of None \<Rightarrow> ''start'' | Some h \<Rightarrow> h)
           in abind (limited env inp ''microsoft-login-start'' key (cfg_rate_limit_microsoft_login_attempts cfg)
                (cfg_rate_limit_microsoft_login_window_seconds cfg) ''auth.microsoft.rate_limited'' None
                ''too many Microsoft login start attempts'') (\<lambda>_.
              abind (alift (microsoft_login_authorize_url cfg (f_sha256 (env_fernet env)) i callback_path
                (ai_token inp) (ai_verifier inp) login_hint)) (\<lambda>url.
              aret \<lparr>rp_page = RedirectTo url,
                rp_cookies = [ms_cookie cfg ''opnhub_ms_state'' (ai_token inp),
                              ms_cookie cfg ''opnhub_ms_verifier'' (ai_verifier inp)],
                rp_deleted = []\<rparr>)) w)"

text \<open>The user of an external identity: role from the groups, the linked account, the allow list. The
  left result is a refusal: the action it is logged under, the user it concerns, its text, and
  whether it comes from the allow list.\<close>

datatype refusal = NotMapped | NotLinked string | DeniedIp user

definition not_mapped_text :: string where
  "not_mapped_text = ''Microsoft account is not mapped to an allowed Entra group''"

definition admit_external ::
  "('m, 'r) auth_env \<Rightarrow> auth_input \<Rightarrow> integration_settings \<Rightarrow> string \<Rightarrow> identity \<Rightarrow> string
     \<Rightarrow> ('m, 'r) auth_world \<Rightarrow> (refusal + user) res \<times> ('m, 'r) auth_world" where
  "admit_external env inp i provider who role w =
     (case who of (email, first_name, last_name) \<Rightarrow>
       case upsert_external_user (ae_crypto env) (ai_now inp) (ai_salt inp) (ai_random inp) email
              first_name last_name (Some role) provider (au_db w) of
         Inl (RuntimeError m) \<Rightarrow> (Inr (Inl (NotLinked m)), w)
       | Inl e \<Rightarrow> (Inl e, w)
       | Inr (u, s) \<Rightarrow>
           (Inr (if admin_login_ip_allowed (env_cfg env) (Some i) (ai_request inp) u then Inr u
                 else Inl (DeniedIp u)), w\<lparr>au_db := s\<rparr>))"

definition admit_microsoft ::
  "('m, 'r) auth_env \<Rightarrow> auth_input \<Rightarrow> integration_settings \<Rightarrow> (string \<times> json) list
     \<Rightarrow> ('m, 'r) auth_world \<Rightarrow> (refusal + user) res \<times> ('m, 'r) auth_world" where
  "admit_microsoft env inp i claims w =
     (case microsoft_user_identity claims of
        Inl e \<Rightarrow> (Inl e, w)
      | Inr (email, first_name, last_name, groups) \<Rightarrow>
          (case microsoft_role_from_groups i groups
                  (map_option usr_role (find_email (work (au_db w)) (lower email))) of
             (role, True) \<Rightarrow> admit_external env inp i ''microsoft'' (email, first_name, last_name) role w
           | (role, False) \<Rightarrow> (Inr (Inl NotMapped), w)))"

definition log_refusal ::
  "('m, 'r) auth_env \<Rightarrow> auth_input \<Rightarrow> string \<Rightarrow> refusal \<Rightarrow> ('m, 'r) auth_world \<Rightarrow> ('m, 'r) auth_world" where
  "log_refusal env inp provider r w =
     (case r of
        NotMapped \<Rightarrow> audit_failure env inp (''auth.'' @ provider @ ''.failed'') None (Some not_mapped_text) False w
      | NotLinked m \<Rightarrow> audit_failure env inp (''auth.'' @ provider @ ''.failed'') None (Some m) False w
      | DeniedIp u \<Rightarrow> audit_failure env inp (''auth.'' @ provider @ ''.denied_ip'') (Some u)
                        (Some ''administrator login blocked by IP allowlist'') True w)"

definition refusal_text :: "refusal \<Rightarrow> string" where
  "refusal_text r =
     (case r of NotMapped \<Rightarrow> not_mapped_text | NotLinked m \<Rightarrow> m
      | DeniedIp u \<Rightarrow> ''Administrator login is not allowed from this IP address.'')"

definition ms_failed_page :: "string \<Rightarrow> int \<Rightarrow> auth_reply" where
  "ms_failed_page message status =
     \<lparr>rp_page = LoginPage (Some message) status, rp_cookies = [], rp_deleted = ms_cookies\<rparr>"

definition exn_text :: "('m, 'r) auth_env \<Rightarrow> exn \<Rightarrow> string" where
  "exn_text env e = (case e of RuntimeError m \<Rightarrow> m | ExternalError c \<Rightarrow> ae_exn_text env c | _ \<Rightarrow> [])"

definition ms_error_handled :: "('m, 'r) auth_env \<Rightarrow> exn \<Rightarrow> bool" where
  "ms_error_handled env e =
     (case e of RuntimeError m \<Rightarrow> True | ExternalError c \<Rightarrow> ms_handled (ae_ms env) c | _ \<Rightarrow> False)"

text \<open>The exchange of the code and the validation of the access token it gives.\<close>

definition ms_claims ::
  "('m, 'r) auth_env \<Rightarrow> auth_input \<Rightarrow> integration_settings \<Rightarrow> string \<Rightarrow> string \<Rightarrow> string
     \<Rightarrow> (string \<times> json) list res" where
  "ms_claims env inp i callback_path code verifier =
     rbind (decrypt_secret (env_fernet env) (env_cfg env) (ints_microsoft_client_secret i)) (\<lambda>client_secret.
     rbind (exchange_microsoft_authorization_code (env_cfg env) (ae_ms env) i callback_path code verifier client_secret) (\<lambda>payload.
     case payload_get payload ''access_token'' of
       JStr t \<Rightarrow>
         (case clean_optional (Some t) of
            None \<Rightarrow> Inl (RuntimeError ''Microsoft sign-in did not return an access token'')
          | Some access_token \<Rightarrow> validate_microsoft_access_token (ae_ms env) (ai_now inp) i access_token)
     | JNull \<Rightarrow> Inl (RuntimeError ''Microsoft sign-in did not return an access token'')
     | _ \<Rightarrow> Inl (ExternalError ''AttributeError'')))"

definition microsoft_admitted ::
  "('m, 'r) auth_env \<Rightarrow> auth_input \<Rightarrow> integration_settings \<Rightarrow> (string \<times> json) list
     \<Rightarrow> (('m, 'r) auth_world, auth_reply) act" where
  "microsoft_admitted env inp i claims = (\<lambda>w.
     case admit_microsoft env inp i claims w of
       (Inl e, w') \<Rightarrow> (Inl e, w')
     | (Inr (Inl r), w') \<Rightarrow> (Inr (ms_failed_page (refusal_text r) 403), log_refusal env inp ''microsoft'' r w')
     | (Inr (Inr u), w') \<Rightarrow>
         signed_in env inp u ''auth.microsoft.login'' (RedirectTo ''/dashboard'') ms_cookies w')"

text \<open>The callback after the rate limit: refused by Microsoft, not of this browser, or with a code.\<close>

definition microsoft_returned ::
  "('m, 'r) auth_env \<Rightarrow> auth_input \<Rightarrow> integration_settings \<Rightarrow> string \<Rightarrow> string option \<Rightarrow> string option
     \<Rightarrow> string option \<Rightarrow> string option \<Rightarrow> (('m, 'r) auth_world, auth_reply) act" where
  "microsoft_returned env inp i callback_path code state error_param error_description = (\<lambda>w.
     if nonempty error_param then
       let message = (case clean_optional error_description of Some m \<Rightarrow> m
              | None \<Rightarrow> (case clean_optional error_param of Some m \<Rightarrow> m | None \<Rightarrow> ''Microsoft sign-in failed''))
       in (Inr (show_page (LoginPage (Some message) 401)),
           audit_failure env inp ''auth.microsoft.failed'' None (Some message) False w)
     else
       let expected_state = rq_cookies (ai_request inp) ''opnhub_ms_state'';
           verifier = rq_cookies (ai_request inp) ''opnhub_ms_verifier''
       in if \<not> nonempty code \<or> \<not> nonempty state \<or> \<not> nonempty expected_state \<or> state \<noteq> expected_state
             \<or> \<not> nonempty verifier
          then (Inr (ms_failed_page ''Microsoft sign-in session is invalid or has expired. Please try again.'' 401),
                audit_failure env inp ''auth.microsoft.failed'' None
                  (Some ''invalid or expired Microsoft sign-in state'') False w)
          else case ms_claims env inp i callback_path (the code) (the verifier) of
            Inl e \<Rightarrow>
              if ms_error_handled env e then
                (Inr (ms_failed_page (''Microsoft sign-in failed: '' @ exn_text env e) 401),
                 audit_failure env inp ''auth.microsoft.failed'' None
                   (Some (''Microsoft sign-in failed: '' @ exn_class e)) True w)
              else (Inl e, w)
          | Inr claims \<Rightarrow> microsoft_admitted env inp i claims w)"

definition microsoft_callback ::
  "('m, 'r) auth_env \<Rightarrow> auth_input \<Rightarrow> string \<Rightarrow> string option \<Rightarrow> string option \<Rightarrow> string option
     \<Rightarrow> string option \<Rightarrow> (('m, 'r) auth_world, auth_reply) act" where
  "microsoft_callback env inp callback_path code state error_param error_description =
     (let cfg = env_cfg env in
      abind (limited env inp ''microsoft-callback'' ''callback'' (cfg_rate_limit_microsoft_login_attempts cfg)
          (cfg_rate_limit_microsoft_login_window_seconds cfg) ''auth.microsoft.rate_limited'' None
          ''too many Microsoft callback attempts'') (\<lambda>_ w.
        case get_integration (work (au_db w)) of
          None \<Rightarrow> (Inl ms_not_configured, w)
        | Some i \<Rightarrow>
            if \<not> microsoft_login_configured (Some i) then (Inl ms_not_configured, w)
            else microsoft_returned env inp i callback_path code state error_param error_description w))"

text \<open>The token endpoint: here a token that does not validate is not caught.\<close>

definition microsoft_login ::
  "('m, 'r) auth_env \<Rightarrow> auth_input \<Rightarrow> string \<Rightarrow> (('m, 'r) auth_world, auth_reply) act" where
  "microsoft_login env inp token =
     (let cfg = env_cfg env in
      abind (limited env inp ''microsoft-login'' ''token'' (cfg_rate_limit_microsoft_login_attempts cfg)
          (cfg_rate_limit_microsoft_login_window_seconds cfg) ''auth.microsoft.rate_limited'' None
          ''too many Microsoft token login attempts'') (\<lambda>_ w.
        case get_integration (work (au_db w)) of
          None \<Rightarrow> (Inl ms_not_configured, w)
        | Some i \<Rightarrow>
            if \<not> microsoft_login_configured (Some i) then (Inl ms_not_configured, w)
            else (case validate_microsoft_access_token (ae_ms env) (ai_now inp) i token of
                Inl e \<Rightarrow> (Inl e, w)
              | Inr claims \<Rightarrow>
                  (case admit_microsoft env inp i claims w of
                     (Inl e, w') \<Rightarrow> (Inl e, w')
                   | (Inr (Inl r), w') \<Rightarrow>
                       (Inl (HTTPException 403 (refusal_text r)), log_refusal env inp ''microsoft'' r w')
                   | (Inr (Inr u), w') \<Rightarrow>
                       signed_in env inp u ''auth.microsoft.login'' (JsonOk ''/dashboard'') [] w'))))"

definition local_ad_login ::
  "('m, 'r) auth_env \<Rightarrow> auth_input \<Rightarrow> string \<Rightarrow> string \<Rightarrow> (('m, 'r) auth_world, auth_reply) act" where
  "local_ad_login env inp email password =
     (let cfg = env_cfg env; normalized_email = strip (lower email) in
      abind (limited env inp ''local-ad-login'' normalized_email (cfg_rate_limit_local_ad_login_attempts cfg)
          (cfg_rate_limit_local_ad_login_window_seconds cfg) ''auth.local_ad.rate_limited'' None
          (''too many Local AD login attempts for '' @ normalized_email)) (\<lambda>_ w.
        case get_integration (work (au_db w)) of
          None \<Rightarrow> (Inl (HTTPException 501 ''Local AD sign-in is not configured''), w)
        | Some i \<Rightarrow>
            if \<not> local_ad_login_configured (Some i)
            then (Inl (HTTPException 501 ''Local AD sign-in is not configured''), w)
            else (case authenticate_local_ad_user (ae_ldap env) i email password of
                Inl (RuntimeError m) \<Rightarrow>
                  (Inr (show_page (LoginPage (Some m) 401)),
                   audit_failure env inp ''auth.local_ad.failed'' None
                     (Some (''Local AD authentication failed for '' @ normalized_email @ '': '' @ m)) False w)
              | Inl e \<Rightarrow> (Inl e, w)
              | Inr who \<Rightarrow>
                  (let existing = find_email (work (au_db w)) (lower (fst who));
                       role = (case existing of None \<Rightarrow> ''user'' | Some u \<Rightarrow> usr_role u)
                   in case admit_external env inp i ''local_ad'' who role w of
                        (Inl e, w') \<Rightarrow> (Inl e, w')
                      | (Inr (Inl r), w') \<Rightarrow>
                          (Inr (show_page (LoginPage (Some (refusal_text r)) 403)),
                           log_refusal env inp ''local_ad'' r w')
                      | (Inr (Inr u), w') \<Rightarrow>
                          signed_in env inp u ''auth.local_ad.login'' (RedirectTo ''/dashboard'') [] w'))))"

end
