(* ===== verification/Auth_Facts.thy ===== *)
theory Auth_Facts
  imports Auth_Router
begin

text \<open>
  What the handlers of \<open>Auth_Router\<close> leave in the tables, and the two properties of signing in: the second
  factor cannot be skipped, and its codes cannot be guessed without end.
\<close>

subsection \<open>Facts: what a handler leaves in the tables\<close>

definition auth_tables :: "hub_db \<Rightarrow> user list \<times> pending_mfa_login list \<times> session_token list" where
  "auth_tables db = (users db, pending_mfa_logins db, sessions db)"

lemma auth_tables_audit [simp]:
  "auth_tables (work (snd (write_audit cfg now rq action u c d s))) = auth_tables (work s)"
  by (simp add: write_audit_def auth_tables_def fresh_uuid_def)

lemma auth_tables_settings:
  "get_or_create_integration_settings now s = (i, s') \<Longrightarrow> auth_tables (work s') = auth_tables (work s)"
  by (auto simp: get_or_create_integration_settings_def auth_tables_def split: option.splits)

lemma auth_tables_mail:
  "send_notification_email me nc now target subject body (s, m) = (r, s', m')
     \<Longrightarrow> auth_tables (work s') = auth_tables (work s)"
  by (auto simp: send_notification_email_def split: prod.splits if_splits dest: auth_tables_settings)

lemma auth_tables_alert [simp]:
  "auth_tables (work (fst (snd (send_security_alert_email me nc now subject body st)))) = auth_tables (work (fst st))"
  by (cases st) (auto simp: send_security_alert_email_def split: option.splits prod.splits sum.splits
      dest: auth_tables_mail)

lemma auth_tables_repeated [simp]:
  "auth_tables (work (fst (snd (maybe_notify_for_repeated_auth_failures me nc now action detail st))))
     = auth_tables (work (fst st))"
  by (cases st) (auto simp: maybe_notify_for_repeated_auth_failures_def Let_def split: prod.splits
      dest!: auth_tables_settings)

lemma audit_failure_tables [simp]:
  "auth_tables (committed (au_db (audit_failure env inp action u detail notify w))) = auth_tables (work (au_db w))"
  "auth_tables (work (au_db (audit_failure env inp action u detail notify w))) = auth_tables (work (au_db w))"
  unfolding audit_failure_def Let_def
  by (simp_all add: split_beta)

lemma auth_tables_iff:
  "auth_tables db = auth_tables db' \<longleftrightarrow>
     users db = users db' \<and> pending_mfa_logins db = pending_mfa_logins db' \<and> sessions db = sessions db'"
  by (simp add: auth_tables_def)

lemma audit_failure_keeps [simp]:
  "users (committed (au_db (audit_failure env inp action u detail notify w))) = users (work (au_db w))"
  "pending_mfa_logins (committed (au_db (audit_failure env inp action u detail notify w))) = pending_mfa_logins (work (au_db w))"
  "sessions (committed (au_db (audit_failure env inp action u detail notify w))) = sessions (work (au_db w))"
  using audit_failure_tables(1) [of env inp action u detail notify w] by (simp_all only: auth_tables_iff)

lemma signed_in_effect:
  assumes "signed_in env inp u action p deleted w = (r, w')"
  shows "\<exists>row. r = Inr \<lparr>rp_page = p, rp_cookies = [set_session_cookie (env_cfg env) (ai_token inp)], rp_deleted = deleted\<rparr>
    \<and> auth_tables (committed (au_db w')) =
        (users (work (au_db w)), pending_mfa_logins (work (au_db w)), sessions (work (au_db w)) @ [row])
    \<and> ses_user_id row = usr_id u \<and> ses_revoked_at row = None
    \<and> ses_expires_at row = ai_now inp + hours (cfg_session_ttl_hours (env_cfg env))
    \<and> ses_token_hash row = hash_session_token (ae_crypto env) (cfg_secret_key (env_cfg env)) (ai_token inp)"
  using assms by (auto simp: signed_in_def create_user_session_def fresh_uuid_def auth_tables_def write_audit_def)

lemma limited_cases:
  assumes "limited env inp bucket key limit window action u detail w = (r, w')"
  obtains (passed) "r = Inr ()" and "au_db w' = au_db w"
  | (refused) e where "r = Inl e" and "auth_tables (committed (au_db w')) = auth_tables (work (au_db w))"
  | (broken) e where "r = Inl e" and "au_db w' = au_db w"
  using assms by (auto simp: limited_def split: prod.splits sum.splits exn.splits)

lemma pending_state_cases:
  assumes "pending_mfa_state_from_request cr cfg jl now rq s = (r, s')"
  obtains (invalid) e where "r = Inl e" and "s' = s"
  | (expired) i nonce row e where "mfa_token_claims cfg jl now rq = Inr (i, nonce)"
      "find_pending (work s) (nonce_hash cr cfg nonce) = Some row" "pml_consumed_at row = None" "r = Inl e"
      "s' = commit (s\<lparr>work := update_pending (pml_id row) (\<lambda>r. r\<lparr>pml_consumed_at := Some now\<rparr>) (work s)\<rparr>)"
  | (pending) i nonce row where "mfa_token_claims cfg jl now rq = Inr (i, nonce)"
      "find_pending (work s) (nonce_hash cr cfg nonce) = Some row" "pml_user_id row = i" "pml_consumed_at row = None"
      "now < pml_expires_at row" "r = Inr \<lparr>pms_user_id = i, pms_nonce = nonce, pms_login = row\<rparr>" "s' = s"
  using assms
  by (auto simp: pending_mfa_state_from_request_def split: sum.splits prod.splits option.splits if_splits)

definition answered :: "auth_reply res \<Rightarrow> bool" where
  "answered r \<longleftrightarrow> (case r of Inl e \<Rightarrow> False | Inr rp \<Rightarrow>
     (case rp_page rp of RedirectTo u \<Rightarrow> True | MfaPage i m c \<Rightarrow> True | _ \<Rightarrow> False))"

lemma not_answered [simp]:
  "\<not> answered (Inl e)" "\<not> answered (Inr mfa_expired_page)" "\<not> answered (Inr mfa_locked_page)"
  by (simp_all add: answered_def mfa_expired_page_def mfa_locked_page_def)

definition no_cookies :: "auth_reply res \<Rightarrow> bool" where
  "no_cookies r \<longleftrightarrow> (\<forall>rp. r = Inr rp \<longrightarrow> rp_cookies rp = [])"

lemma no_cookies_simps [simp]:
  "no_cookies (Inl e)" "no_cookies (Inr mfa_expired_page)" "no_cookies (Inr mfa_locked_page)"
  "no_cookies (Inr (show_page p))"
  by (simp_all add: no_cookies_def mfa_expired_page_def mfa_locked_page_def show_page_def)

definition consume_row :: "instant \<Rightarrow> uuid \<Rightarrow> pending_mfa_login list \<Rightarrow> pending_mfa_login list" where
  "consume_row now i = update_where (\<lambda>r. pml_id r = i) (\<lambda>r. r\<lparr>pml_consumed_at := Some now\<rparr>)"

lemma update_pending_tables [simp]:
  "users (update_pending i f db) = users db" "sessions (update_pending i f db) = sessions db"
  "pending_mfa_logins (update_pending i f db) = update_where (\<lambda>r. pml_id r = i) f (pending_mfa_logins db)"
  by (simp_all add: update_pending_def)

text \<open>One request with a code: it leaves the tables alone, or it only spends the pending sign-in without
  an answer, or the code was checked for a pending sign-in below the limit.\<close>

lemma complete_mfa_cases:
  assumes "served (complete_mfa_login env inp code) w = (r, w')" and "work (au_db w) = committed (au_db w)"
  obtains (idle) "auth_tables (committed (au_db w')) = auth_tables (committed (au_db w))" "\<not> answered r" "no_cookies r"
  | (spent) i nonce row where "mfa_token_claims (env_cfg env) (ae_jwt env) (ai_now inp) (ai_request inp) = Inr (i, nonce)"
      "find_pending (committed (au_db w)) (nonce_hash (ae_crypto env) (env_cfg env) nonce) = Some row"
      "pml_consumed_at row = None" "\<not> answered r" "no_cookies r"
      "auth_tables (committed (au_db w')) = (users (committed (au_db w)),
         consume_row (ai_now inp) (pml_id row) (pending_mfa_logins (committed (au_db w))), sessions (committed (au_db w)))"
  | (checked) i nonce row u ok w1 w2 where
      "mfa_token_claims (env_cfg env) (ae_jwt env) (ai_now inp) (ai_request inp) = Inr (i, nonce)"
      "find_pending (committed (au_db w)) (nonce_hash (ae_crypto env) (env_cfg env) nonce) = Some row"
      "pml_user_id row = i" "pml_consumed_at row = None" "ai_now inp < pml_expires_at row"
      "pml_failed_attempts row < cfg_rate_limit_mfa_attempts (env_cfg env)"
      "mfa_user (committed (au_db w)) i = Inr u" "code_matches env (ai_now inp) (usr_mfa_secret u) code = Inr ok"
      "auth_tables (work (au_db w1)) = auth_tables (committed (au_db w))"
      "mfa_answer env inp \<lparr>pms_user_id = i, pms_nonce = nonce, pms_login = row\<rparr> u ok w1 = (r, w2)"
      "au_db w' = rollback (au_db w2)"
proof -
  obtain w2 where c: "complete_mfa_login env inp code w = (r, w2)" and w': "w' = w2\<lparr>au_db := rollback (au_db w2)\<rparr>"
    using assms(1) by (auto simp: served_def split: prod.splits)
  obtain p s where p: "pending_mfa_state_from_request (ae_crypto env) (env_cfg env) (ae_jwt env) (ai_now inp)
      (ai_request inp) (au_db w) = (p, s)" by fastforce
  from p show thesis
  proof (cases rule: pending_state_cases)
    case (invalid e)
    with c p show thesis by (intro idle) (auto simp: complete_mfa_login_def Let_def w' split: exn.splits)
  next
    case (expired i nonce row e)
    show thesis
    proof (rule spent [OF expired(1)])
      show "find_pending (committed (au_db w)) (nonce_hash (ae_crypto env) (env_cfg env) nonce) = Some row"
        using expired(2) assms(2) by simp
      show "auth_tables (committed (au_db w')) = (users (committed (au_db w)),
         consume_row (ai_now inp) (pml_id row) (pending_mfa_logins (committed (au_db w))), sessions (committed (au_db w)))"
        using c p expired assms(2)
        by (auto simp: complete_mfa_login_def Let_def w' auth_tables_def consume_row_def split: exn.splits)
    qed (use c p expired in \<open>auto simp: complete_mfa_login_def Let_def w' split: exn.splits\<close>)
  next
    case (pending i nonce row)
    let ?st = "\<lparr>pms_user_id = i, pms_nonce = nonce, pms_login = row\<rparr>"
    show thesis
    proof (cases "mfa_user (work s) i")
      case (Inl e)
      with c p pending show thesis by (intro idle) (auto simp: complete_mfa_login_def Let_def w' split: exn.splits)
    next
      case (Inr u)
      show thesis
      proof (cases "attempts ?st \<ge> cfg_rate_limit_mfa_attempts (env_cfg env)")
        case True
        with c p pending Inr have "r = Inr mfa_locked_page" and
          "auth_tables (committed (au_db w2)) = auth_tables (work (consume_pending_mfa_login (ai_now inp) ?st (au_db w)))"
          by (auto simp: complete_mfa_login_def Let_def)
        then show thesis using pending assms(2)
          by (intro spent [of i nonce row]) (auto simp: consume_pending_mfa_login_def auth_tables_def consume_row_def w')
      next
        case False
        obtain l w1 where l: "limited env inp ''mfa-login'' (uuid_str (usr_id u)) (cfg_rate_limit_mfa_attempts (env_cfg env))
            (cfg_rate_limit_mfa_window_seconds (env_cfg env)) ''auth.mfa.rate_limited'' (Some u)
            ''too many MFA attempts'' w = (l, w1)" by fastforce
        have go: "abind (limited env inp ''mfa-login'' (uuid_str (usr_id u)) (cfg_rate_limit_mfa_attempts (env_cfg env))
            (cfg_rate_limit_mfa_window_seconds (env_cfg env)) ''auth.mfa.rate_limited'' (Some u)
            ''too many MFA attempts'') (\<lambda>_.
              abind (alift (code_matches env (ai_now inp) (usr_mfa_secret u) code)) (\<lambda>ok.
                mfa_answer env inp ?st u ok)) w = (r, w2)"
          using c p pending Inr False by (simp add: complete_mfa_login_def Let_def)
        from l show thesis
        proof (cases rule: limited_cases)
          case passed
          show thesis
          proof (cases "code_matches env (ai_now inp) (usr_mfa_secret u) code")
            case (Inl e)
            with go l passed show thesis by (intro idle) (auto simp: abind_def w')
          next
            case (Inr ok)
            with go l passed have "mfa_answer env inp ?st u ok w1 = (r, w2)" by (simp add: abind_def)
            with Inr pending False \<open>mfa_user (work s) i = Inr u\<close> passed assms(2) show thesis
              by (intro checked [of i nonce row u ok w1 w2]) (auto simp: attempts_def w')
          qed
        qed (use go l assms(2) in \<open>intro idle; auto simp: abind_def w'\<close>)+
      qed
    qed
  qed
qed

lemma mfa_answer_effect:
  assumes "mfa_answer env inp st u ok w1 = (r, w2)"
  shows "sessions (committed (au_db w2)) = sessions (work (au_db w1)) \<and> \<not> ok \<and> no_cookies r
       \<and> pending_mfa_logins (committed (au_db w2)) =
           update_where (\<lambda>r. pml_id r = pml_id (pms_login st))
             (\<lambda>r. if attempts st + 1 \<ge> cfg_rate_limit_mfa_attempts (env_cfg env)
                  then r\<lparr>pml_failed_attempts := attempts st + 1, pml_consumed_at := Some (ai_now inp)\<rparr>
                  else r\<lparr>pml_failed_attempts := attempts st + 1\<rparr>)
             (pending_mfa_logins (work (au_db w1)))
    \<or> ok \<and> pending_mfa_logins (committed (au_db w2))
           = consume_row (ai_now inp) (pml_id (pms_login st)) (pending_mfa_logins (work (au_db w1)))
       \<and> (\<exists>row. sessions (committed (au_db w2)) = sessions (work (au_db w1)) @ [row] \<and> ses_user_id row = usr_id u)"
proof (cases ok)
  case True
  with assms have "signed_in env inp u ''auth.login'' (RedirectTo ''/dashboard'') [mfa_pending_cookie_name]
      (w1\<lparr>au_db := consume_pending_mfa_login (ai_now inp) st (au_db w1)\<rparr>) = (r, w2)"
    by (simp add: mfa_answer_def)
  from signed_in_effect [OF this] True show ?thesis
    by (auto simp: auth_tables_def consume_pending_mfa_login_def consume_row_def)
next
  case False
  let ?w = "audit_failure env inp ''auth.mfa.locked'' (Some u)
      (Some ''pending MFA sign-in exceeded the attempt limit'') True
      (w1\<lparr>au_db := consume_pending_mfa_login (ai_now inp) st (snd (record_pending_mfa_failure st (au_db w1)))\<rparr>)"
  let ?v = "audit_failure env inp ''auth.mfa.failed'' (Some u) (Some ''invalid authenticator code'') False
      (w1\<lparr>au_db := snd (record_pending_mfa_failure st (au_db w1))\<rparr>)"
  show ?thesis
  proof (cases "attempts st + 1 \<ge> cfg_rate_limit_mfa_attempts (env_cfg env)")
    case True
    with assms False have "r = Inr mfa_locked_page" and w2: "w2 = ?w"
      by (auto simp: mfa_answer_def record_pending_mfa_failure_def Let_def)
    then show ?thesis using True False unfolding w2
      by (auto simp: auth_tables_iff consume_pending_mfa_login_def record_pending_mfa_failure_def Let_def
          update_where_def intro!: map_cong)
  next
    case le: False
    with assms False have "r = Inr (show_page (MfaPage (usr_id u) (Some ''Invalid authenticator code'') 401))"
      and w2: "w2 = ?v"
      by (auto simp: mfa_answer_def record_pending_mfa_failure_def Let_def)
    then show ?thesis using le False unfolding w2
      by (auto simp: auth_tables_iff record_pending_mfa_failure_def Let_def)
  qed
qed

text \<open>The rows of one sign-in, and what is left of its attempts.\<close>

definition rows_for :: "string \<Rightarrow> pending_mfa_login list \<Rightarrow> pending_mfa_login list" where
  "rows_for h rs = filter (\<lambda>r. pml_nonce_hash r = h) rs"

definition attempts_left :: "int \<Rightarrow> pending_mfa_login list \<Rightarrow> nat" where
  "attempts_left limit rs =
     (case rs of [r] \<Rightarrow> if pml_consumed_at r = None then nat (limit - pml_failed_attempts r) else 0 | _ \<Rightarrow> 0)"

lemma rows_for_update:
  assumes "\<And>r. pml_nonce_hash (f r) = pml_nonce_hash r"
  shows "rows_for h (update_where p f rs) = update_where p f (rows_for h rs)"
  by (induction rs) (auto simp: rows_for_def update_where_def assms)

lemma update_other_row:
  assumes "distinct (map pml_id rs)" and "row \<in> set rs" and "pml_nonce_hash row \<noteq> h"
  shows "update_where (\<lambda>r. pml_id r = pml_id row) f (rows_for h rs) = rows_for h rs"
proof -
  have "pml_id r \<noteq> pml_id row" if "r \<in> set (rows_for h rs)" for r
    using that assms by (auto simp: rows_for_def distinct_map inj_on_def)
  then show ?thesis by (simp add: update_where_def map_idI)
qed

lemma pml_id_update [simp]:
  "map pml_id (update_where p (\<lambda>r. if b then r\<lparr>pml_failed_attempts := n, pml_consumed_at := c\<rparr>
      else r\<lparr>pml_failed_attempts := n\<rparr>) rs) = map pml_id rs"
  "map pml_id (consume_row now i rs) = map pml_id rs"
  by (simp_all add: update_where_def consume_row_def)

lemma find_rows_for:
  assumes "find (\<lambda>r. pml_nonce_hash r = h) rs = Some row" and "length (rows_for h rs) \<le> 1"
  shows "rows_for h rs = [row]"
  using assms by (induction rs) (auto simp: rows_for_def filter_empty_conv split: if_splits)

text \<open>One update of the found row: it is the only one of its sign-in, or it leaves the others alone.\<close>

lemma rows_after_update:
  assumes "find_pending db g = Some row" and "distinct (map pml_id (pending_mfa_logins db))"
    and "length (rows_for h (pending_mfa_logins db)) \<le> 1"
    and "\<And>r. pml_nonce_hash (f r) = pml_nonce_hash r"
  shows "rows_for h (update_where (\<lambda>r. pml_id r = pml_id row) f (pending_mfa_logins db)) =
     (if g = h then [f row] else rows_for h (pending_mfa_logins db))
   \<and> (g = h \<longrightarrow> rows_for h (pending_mfa_logins db) = [row])"
proof (cases "g = h")
  case True
  with assms have r: "rows_for h (pending_mfa_logins db) = [row]"
    by (intro find_rows_for) (simp_all add: find_pending_def)
  with True show ?thesis by (simp add: rows_for_update assms(4)) (simp add: update_where_def)
next
  case False
  from assms(1) have "row \<in> set (pending_mfa_logins db)" "pml_nonce_hash row = g"
    by (auto simp: find_pending_def dest: find_SomeD)
  with False assms(2) show ?thesis by (simp add: rows_for_update assms(4) update_other_row)
qed

definition asked_hash :: "('m, 'r) auth_env \<Rightarrow> auth_input \<Rightarrow> string option" where
  "asked_hash env inp =
     (case mfa_token_claims (env_cfg env) (ae_jwt env) (ai_now inp) (ai_request inp) of
        Inl e \<Rightarrow> None | Inr (i, nonce) \<Rightarrow> Some (nonce_hash (ae_crypto env) (env_cfg env) nonce))"

definition mfa_inv :: "string \<Rightarrow> ('m, 'r) auth_world \<Rightarrow> bool" where
  "mfa_inv h w \<longleftrightarrow> work (au_db w) = committed (au_db w)
     \<and> distinct (map pml_id (pending_mfa_logins (committed (au_db w))))
     \<and> length (rows_for h (pending_mfa_logins (committed (au_db w)))) \<le> 1"

abbreviation left_for :: "('m, 'r) auth_env \<Rightarrow> string \<Rightarrow> ('m, 'r) auth_world \<Rightarrow> nat" where
  "left_for env h w \<equiv> attempts_left (cfg_rate_limit_mfa_attempts (env_cfg env))
     (rows_for h (pending_mfa_logins (committed (au_db w))))"

lemma mfa_request_step:
  assumes "served (complete_mfa_login env inp code) w = (r, w')" and "mfa_inv h w"
  shows "mfa_inv h w' \<and> left_for env h w' + (if asked_hash env inp = Some h \<and> answered r then 1 else 0) \<le> left_for env h w"
proof -
  have work: "work (au_db w) = committed (au_db w)" using assms(2) by (simp add: mfa_inv_def)
  have rolled: "work (au_db w') = committed (au_db w')"
    using assms(1) by (auto simp: served_def split: prod.splits)
  from assms(1) work show ?thesis
  proof (cases rule: complete_mfa_cases)
    case idle
    with assms(2) rolled show ?thesis by (simp add: mfa_inv_def auth_tables_iff)
  next
    case (spent i nonce row)
    have "rows_for h (consume_row (ai_now inp) (pml_id row) (pending_mfa_logins (committed (au_db w)))) =
       (if nonce_hash (ae_crypto env) (env_cfg env) nonce = h then [row\<lparr>pml_consumed_at := Some (ai_now inp)\<rparr>]
        else rows_for h (pending_mfa_logins (committed (au_db w))))"
      unfolding consume_row_def using rows_after_update [OF spent(2)] assms(2) by (simp add: mfa_inv_def)
    with spent rolled assms(2) show ?thesis
      by (auto simp: mfa_inv_def auth_tables_def attempts_left_def)
  next
    case (checked i nonce row u ok w1 w2)
    let ?g = "nonce_hash (ae_crypto env) (env_cfg env) nonce"
    have asked: "asked_hash env inp = Some ?g" using checked(1) by (simp add: asked_hash_def)
    have tables: "pending_mfa_logins (work (au_db w1)) = pending_mfa_logins (committed (au_db w))"
      using checked(9) by (simp add: auth_tables_iff)
    note upd = rows_after_update [OF checked(2)]
    let ?f = "\<lambda>r. if pml_failed_attempts row + 1 \<ge> cfg_rate_limit_mfa_attempts (env_cfg env)
       then r\<lparr>pml_failed_attempts := pml_failed_attempts row + 1, pml_consumed_at := Some (ai_now inp)\<rparr>
       else r\<lparr>pml_failed_attempts := pml_failed_attempts row + 1\<rparr>"
    from mfa_answer_effect [OF checked(10), unfolded attempts_def pending_mfa_state.simps] tables
    consider "pending_mfa_logins (committed (au_db w')) = update_where (\<lambda>r. pml_id r = pml_id row) ?f (pending_mfa_logins (committed (au_db w)))"
      | "pending_mfa_logins (committed (au_db w')) = consume_row (ai_now inp) (pml_id row) (pending_mfa_logins (committed (au_db w)))"
      using checked(11) by auto
    then show ?thesis
    proof cases
      case 1
      have "rows_for h (pending_mfa_logins (committed (au_db w'))) =
          (if ?g = h then [?f row] else rows_for h (pending_mfa_logins (committed (au_db w))))
        \<and> (?g = h \<longrightarrow> rows_for h (pending_mfa_logins (committed (au_db w))) = [row])"
        unfolding 1 using assms(2) by (intro upd) (auto simp: mfa_inv_def)
      with 1 asked rolled assms(2) checked(4,6) show ?thesis
        by (auto simp: mfa_inv_def attempts_left_def)
    next
      case 2
      have "rows_for h (pending_mfa_logins (committed (au_db w'))) =
          (if ?g = h then [row\<lparr>pml_consumed_at := Some (ai_now inp)\<rparr>] else rows_for h (pending_mfa_logins (committed (au_db w))))
        \<and> (?g = h \<longrightarrow> rows_for h (pending_mfa_logins (committed (au_db w))) = [row])"
        unfolding 2 consume_row_def using assms(2) by (intro upd) (auto simp: mfa_inv_def)
      with 2 asked rolled assms(2) checked(4,6) show ?thesis
        by (auto simp: mfa_inv_def attempts_left_def)
    qed
  qed
qed

lemma consume_row_consumed: "q \<in> set (consume_row now (pml_id p) rs) \<Longrightarrow> pml_id q = pml_id p \<Longrightarrow> pml_consumed_at q \<noteq> None"
  by (auto simp: consume_row_def update_where_def)

lemma find_singleton: "find p (case x of None \<Rightarrow> [] | Some u \<Rightarrow> [u]) = Some u \<longleftrightarrow> x = Some u \<and> p u"
  "find p (case x of None \<Rightarrow> [] | Some u \<Rightarrow> [u]) = None \<longleftrightarrow> (\<forall>u. x = Some u \<longrightarrow> \<not> p u)"
  by (auto split: option.splits)

lemma login_cases:
  assumes "served (login env inp email password) w = (r, w')" and "work (au_db w) = committed (au_db w)"
  obtains (idle) "auth_tables (committed (au_db w')) = auth_tables (committed (au_db w))" "no_cookies r"
  | (admitted) u row c where
      "find_email (committed (au_db w)) (strip (lower email)) = Some u"
      "verify_secret (ae_crypto env) password (usr_password_hash u)"
      "admin_login_ip_allowed (env_cfg env) (get_integration (committed (au_db w))) (ai_request inp) u"
      "usr_mfa_enabled u" "local_user_supports_hub_mfa u"
      "r = Inr \<lparr>rp_page = RedirectTo ''/auth/mfa'', rp_cookies = [c], rp_deleted = []\<rparr>"
      "ck_name c = mfa_pending_cookie_name"
      "auth_tables (committed (au_db w')) = (users (committed (au_db w)),
         pending_mfa_logins (committed (au_db w)) @ [row], sessions (committed (au_db w)))"
      "pml_user_id row = usr_id u" "pml_failed_attempts row = 0" "pml_consumed_at row = None"
      "pml_nonce_hash row = nonce_hash (ae_crypto env) (env_cfg env) (ai_nonce inp)"
  | (session) u row where
      "find_email (committed (au_db w)) (strip (lower email)) = Some u"
      "verify_secret (ae_crypto env) password (usr_password_hash u)"
      "admin_login_ip_allowed (env_cfg env) (get_integration (committed (au_db w))) (ai_request inp) u"
      "\<not> usr_mfa_enabled u" "ses_user_id row = usr_id u"
      "auth_tables (committed (au_db w')) = (users (committed (au_db w)),
         pending_mfa_logins (committed (au_db w)), sessions (committed (au_db w)) @ [row])"
proof -
  let ?ne = "strip (lower email)"
  obtain w2 where c: "login env inp email password w = (r, w2)" and w': "w' = w2\<lparr>au_db := rollback (au_db w2)\<rparr>"
    using assms(1) by (auto simp: served_def split: prod.splits)
  obtain l w1 where l: "limited env inp ''login'' ?ne (cfg_rate_limit_login_attempts (env_cfg env))
      (cfg_rate_limit_login_window_seconds (env_cfg env)) ''auth.login.rate_limited'' None
      (''too many login attempts for '' @ ?ne) w = (l, w1)" by fastforce
  from l show thesis
  proof (cases rule: limited_cases)
    case passed
    note go = c [unfolded login_def Let_def abind_def l prod.case passed(1) sum.case, unfolded passed(2) assms(2)]
    show thesis
    proof (cases "find (\<lambda>u. verify_secret (ae_crypto env) password (usr_password_hash u))
        (case find_email (committed (au_db w)) ?ne of None \<Rightarrow> [] | Some u \<Rightarrow> [u])")
      case None
      with go passed(2) assms(2) show thesis by (intro idle) (auto simp: w' auth_tables_iff)
    next
      case (Some u)
      then have u: "find_email (committed (au_db w)) ?ne = Some u" "verify_secret (ae_crypto env) password (usr_password_hash u)"
        by (simp_all add: find_singleton)
      consider "\<not> admin_login_ip_allowed (env_cfg env) (get_integration (committed (au_db w))) (ai_request inp) u"
        | "admin_login_ip_allowed (env_cfg env) (get_integration (committed (au_db w))) (ai_request inp) u" "usr_mfa_enabled u"
        | "admin_login_ip_allowed (env_cfg env) (get_integration (committed (au_db w))) (ai_request inp) u" "\<not> usr_mfa_enabled u"
        by blast
      then show thesis
      proof cases
        case 1
        with go Some passed(2) assms(2) show thesis by (intro idle) (auto simp: w' auth_tables_iff)
      next
        case 2
        note go = go [unfolded Some option.case, simplified 2 if_True not_True_eq_False if_False]
        show thesis
        proof (cases "local_user_supports_hub_mfa u \<and> (\<exists>m. decrypt_secret (env_fernet env) (env_cfg env) (usr_mfa_secret u) = Inr m \<and> nonempty m)")
          case True
          with go u 2 passed(2) assms(2) show thesis
            by (auto simp: set_pending_mfa_cookie_def fresh_uuid_def Let_def w' auth_tables_def pending_mfa_cookie_def
                intro!: admitted)
        next
          case False
          with go passed(2) assms(2) show thesis
            by (intro idle) (auto simp: w' auth_tables_iff split: if_splits sum.splits)
        qed
      next
        case 3
        with go Some have "signed_in env inp u ''auth.login'' (RedirectTo ''/dashboard'') [] w1 = (r, w2)" by simp
        from signed_in_effect [OF this] show thesis
          using u 3 passed(2) assms(2) by (auto simp: w' intro!: session)
      qed
    qed
  next
    case (refused e)
    note c [unfolded login_def Let_def abind_def l prod.case refused(1) sum.case]
    with refused(2) assms(2) show thesis by (intro idle) (auto simp: w')
  next
    case (broken e)
    note c [unfolded login_def Let_def abind_def l prod.case broken(1) sum.case]
    with broken(2) assms(2) show thesis by (intro idle) (auto simp: w')
  qed
qed

inductive mfa_run :: "('m, 'r) auth_env \<Rightarrow> string \<Rightarrow> ('m, 'r) auth_world \<Rightarrow> (string option \<times> bool) list
    \<Rightarrow> ('m, 'r) auth_world \<Rightarrow> bool"
  for env h where
  over: "mfa_run env h w [] w"
| asked: "served (complete_mfa_login env inp code) w = (r, w1) \<Longrightarrow> mfa_run env h w1 es w2
     \<Longrightarrow> mfa_run env h w ((asked_hash env inp, answered r) # es) w2"
| elsewhere: "mfa_inv h w1 \<Longrightarrow> rows_for h (pending_mfa_logins (committed (au_db w1)))
       \<in> {rows_for h (pending_mfa_logins (committed (au_db w))), []}
     \<Longrightarrow> mfa_run env h w1 es w2 \<Longrightarrow> mfa_run env h w es w2"

lemma mfa_run_attempts:
  assumes "mfa_run env h w es w'" and "mfa_inv h w"
  shows "length (filter (\<lambda>e. e = (Some h, True)) es) \<le> left_for env h w"
  using assms
proof (induction rule: mfa_run.induct)
  case (asked inp code w r w1 es w2)
  from mfa_request_step [OF asked.hyps(1) asked.prems] asked.IH show ?case by auto
next
  case (elsewhere w1 w es w2)
  then show ?case by (auto simp: attempts_left_def rows_for_def)
qed simp

subsection \<open>Properties\<close>

text \<open>C20. The second factor cannot be skipped: whatever is posted to the login form, a session row is added
  only for the user of that address whose password verifies, from an address the administrator
  allow list admits, and only if the user has no second factor; with one, all that is added is a
  pending sign-in of that user with no failures. Whatever is posted to the code form, a session is
  added only for the user of an unconsumed, unexpired pending sign-in below the limit of failures
  whose secret the posted code matches, and that pending sign-in is consumed.\<close>

theorem second_factor_required:
  assumes "work (au_db w) = committed (au_db w)"
  shows "(served (login env inp email password) w = (r, w1)
      \<and> sessions (committed (au_db w1)) \<noteq> sessions (committed (au_db w)) \<longrightarrow>
      (\<exists>u row. find_email (committed (au_db w)) (strip (lower email)) = Some u
         \<and> verify_secret (ae_crypto env) password (usr_password_hash u)
         \<and> admin_login_ip_allowed (env_cfg env) (get_integration (committed (au_db w))) (ai_request inp) u
         \<and> \<not> usr_mfa_enabled u
         \<and> sessions (committed (au_db w1)) = sessions (committed (au_db w)) @ [row] \<and> ses_user_id row = usr_id u))
    \<and> (served (login env inp email password) w = (r, w1)
      \<and> pending_mfa_logins (committed (au_db w1)) \<noteq> pending_mfa_logins (committed (au_db w)) \<longrightarrow>
      (\<exists>u row. find_email (committed (au_db w)) (strip (lower email)) = Some u
         \<and> verify_secret (ae_crypto env) password (usr_password_hash u) \<and> usr_mfa_enabled u
         \<and> pending_mfa_logins (committed (au_db w1)) = pending_mfa_logins (committed (au_db w)) @ [row]
         \<and> pml_user_id row = usr_id u \<and> pml_failed_attempts row = 0 \<and> pml_consumed_at row = None
         \<and> sessions (committed (au_db w1)) = sessions (committed (au_db w))))
    \<and> (served (complete_mfa_login env inp code) w = (r, w1)
      \<and> sessions (committed (au_db w1)) \<noteq> sessions (committed (au_db w)) \<longrightarrow>
      (\<exists>p u row. p \<in> set (pending_mfa_logins (committed (au_db w)))
         \<and> asked_hash env inp = Some (pml_nonce_hash p) \<and> pml_consumed_at p = None \<and> ai_now inp < pml_expires_at p
         \<and> pml_failed_attempts p < cfg_rate_limit_mfa_attempts (env_cfg env)
         \<and> get_user (committed (au_db w)) (pml_user_id p) = Some u \<and> usr_mfa_enabled u
         \<and> code_matches env (ai_now inp) (usr_mfa_secret u) code = Inr True
         \<and> sessions (committed (au_db w1)) = sessions (committed (au_db w)) @ [row] \<and> ses_user_id row = usr_id u
         \<and> (\<forall>q\<in>set (pending_mfa_logins (committed (au_db w1))). pml_id q = pml_id p \<longrightarrow> pml_consumed_at q \<noteq> None)))"
proof (intro conjI impI; elim conjE)
  assume l: "served (login env inp email password) w = (r, w1)"
    and n: "sessions (committed (au_db w1)) \<noteq> sessions (committed (au_db w))"
  from l assms show "\<exists>u row. find_email (committed (au_db w)) (strip (lower email)) = Some u
      \<and> verify_secret (ae_crypto env) password (usr_password_hash u)
      \<and> admin_login_ip_allowed (env_cfg env) (get_integration (committed (au_db w))) (ai_request inp) u
      \<and> \<not> usr_mfa_enabled u
      \<and> sessions (committed (au_db w1)) = sessions (committed (au_db w)) @ [row] \<and> ses_user_id row = usr_id u"
    by (cases rule: login_cases) (use n in \<open>auto simp: auth_tables_def\<close>)
next
  assume l: "served (login env inp email password) w = (r, w1)"
    and n: "pending_mfa_logins (committed (au_db w1)) \<noteq> pending_mfa_logins (committed (au_db w))"
  from l assms show "\<exists>u row. find_email (committed (au_db w)) (strip (lower email)) = Some u
      \<and> verify_secret (ae_crypto env) password (usr_password_hash u) \<and> usr_mfa_enabled u
      \<and> pending_mfa_logins (committed (au_db w1)) = pending_mfa_logins (committed (au_db w)) @ [row]
      \<and> pml_user_id row = usr_id u \<and> pml_failed_attempts row = 0 \<and> pml_consumed_at row = None
      \<and> sessions (committed (au_db w1)) = sessions (committed (au_db w))"
    by (cases rule: login_cases) (use n in \<open>auto simp: auth_tables_def\<close>)
next
  assume l: "served (complete_mfa_login env inp code) w = (r, w1)"
    and n: "sessions (committed (au_db w1)) \<noteq> sessions (committed (au_db w))"
  from l assms show "\<exists>p u row. p \<in> set (pending_mfa_logins (committed (au_db w)))
      \<and> asked_hash env inp = Some (pml_nonce_hash p) \<and> pml_consumed_at p = None \<and> ai_now inp < pml_expires_at p
      \<and> pml_failed_attempts p < cfg_rate_limit_mfa_attempts (env_cfg env)
      \<and> get_user (committed (au_db w)) (pml_user_id p) = Some u \<and> usr_mfa_enabled u
      \<and> code_matches env (ai_now inp) (usr_mfa_secret u) code = Inr True
      \<and> sessions (committed (au_db w1)) = sessions (committed (au_db w)) @ [row] \<and> ses_user_id row = usr_id u
      \<and> (\<forall>q\<in>set (pending_mfa_logins (committed (au_db w1))). pml_id q = pml_id p \<longrightarrow> pml_consumed_at q \<noteq> None)"
  proof (cases rule: complete_mfa_cases)
    case (checked i nonce p u ok w2 w3)
    from checked(2) have p: "p \<in> set (pending_mfa_logins (committed (au_db w)))"
      "pml_nonce_hash p = nonce_hash (ae_crypto env) (env_cfg env) nonce"
      by (auto simp: find_pending_def dest: find_SomeD)
    from checked(7) have u: "get_user (committed (au_db w)) (pml_user_id p) = Some u" "usr_mfa_enabled u"
      using checked(3) by (auto simp: mfa_user_def split: option.splits if_splits)
    from mfa_answer_effect [OF checked(10)] checked(9,11) n obtain row :: session_token where
      "sessions (committed (au_db w1)) = sessions (committed (au_db w)) @ [row]" "ses_user_id row = usr_id u" ok
      "\<forall>q\<in>set (pending_mfa_logins (committed (au_db w1))). pml_id q = pml_id p \<longrightarrow> pml_consumed_at q \<noteq> None"
      by (auto simp: auth_tables_iff dest: consume_row_consumed)
    then show ?thesis
      using p u checked(1,4-6,8) by (intro exI [of _ p] exI [of _ u] exI [of _ row]) (simp add: asked_hash_def)
  qed (use n in \<open>auto simp: auth_tables_def\<close>)
qed


definition example_auth_env :: "(unit, unit) auth_env" where
  "example_auth_env = \<lparr>ae_crypto = example_crypto, ae_notify = example_ctx,
     ae_mail = \<lparr>smtp_connect = (\<lambda>_ _ m. (None, m)), smtp_deliver = (\<lambda>_ _ _ _ _ m. (None, m)),
       graph_token = (\<lambda>_ _ m. (Inr [], m)), graph_send = (\<lambda>_ _ _ _ _ m. (None, m))\<rparr>,
     ae_redis = \<lparr>redis_incr = (\<lambda>_ r. (None, r)), redis_expire = (\<lambda>_ _ r. (None, r))\<rparr>,
     ae_backend = Edge,
     ae_jwt = \<lparr>jwt_encode = (\<lambda>_ _. ''t''), jwt_decode = (\<lambda>_ _ _. Some [(''sub'', JStr (uuid_str 1)),
       (''purpose'', JStr ''login-mfa''), (''nonce'', JStr ''n'')])\<rparr>,
     ae_ms = \<lparr>ms_post = (\<lambda>_ _. Inl ValueError), ms_signing_key = (\<lambda>_ _. Inl ValueError),
       ms_decode = (\<lambda>_ _ _. Inl ValueError), ms_handled = (\<lambda>_. True)\<rparr>,
     ae_ldap = \<lparr>ldap_escape = id, ldap_search = (\<lambda>_ _ _ _ _. Inl [])\<rparr>, ae_exn_text = id\<rparr>"

definition example_auth_input :: auth_input where
  "example_auth_input = \<lparr>ai_now = 10, ai_request = \<lparr>rq_method = ''POST'', rq_path = ''/auth/mfa'', rq_client = None,
     rq_headers = (\<lambda>_. None), rq_cookies = (\<lambda>_. Some ''t''), rq_hostname = Some ''hub''\<rparr>,
     ai_token = ''s'', ai_nonce = ''n'', ai_verifier = ''v'', ai_salt = ''salt'', ai_random = ''r'', ai_fernet_nonce = 0\<rparr>"

definition example_auth_user :: "bool \<Rightarrow> user" where
  "example_auth_user mfa = \<lparr>usr_id = 1, usr_email = ''a@b'', usr_password_hash = hash_secret example_crypto ''salt'' ''pw'',
     usr_first_name = None, usr_last_name = None, usr_auth_provider = None, usr_role = ''user'',
     usr_mfa_enabled = mfa, usr_mfa_secret = Some ''AAAA'', usr_created_at = 0\<rparr>"

definition example_pending :: pending_mfa_login where
  "example_pending = \<lparr>pml_id = 5, pml_user_id = 1, pml_nonce_hash = nonce_hash example_crypto default_settings ''n'',
     pml_failed_attempts = 0, pml_created_at = 0, pml_expires_at = 100, pml_consumed_at = None\<rparr>"

definition example_auth_world :: "bool \<Rightarrow> (unit, unit) auth_world" where
  "example_auth_world mfa = \<lparr>au_db = open_session (empty_db\<lparr>users := [example_auth_user mfa],
     pending_mfa_logins := [example_pending]\<rparr>) 9, au_mail = (), au_limits = ([], ())\<rparr>"

lemmas example_auth_eval = example_auth_env_def example_auth_input_def example_auth_user_def
  example_auth_world_def open_session_def example_ctx_def

theorem second_factor_required_witness:
  "\<exists>r w1 (u :: user) row. served (login example_auth_env example_auth_input '' A@B'' ''pw'') (example_auth_world False) = (r, w1)
     \<and> sessions (committed (au_db w1)) = sessions (committed (au_db (example_auth_world False))) @ [row]
     \<and> \<not> usr_mfa_enabled u \<and> ses_user_id row = usr_id u"
proof -
  let ?w = "example_auth_world False"
  obtain r w1 where s: "served (login example_auth_env example_auth_input '' A@B'' ''pw'') ?w = (r, w1)" by fastforce
  have "work (au_db ?w) = committed (au_db ?w)" by (simp add: example_auth_eval)
  note t = second_factor_required [OF this, THEN conjunct1, rule_format, OF conjI [OF s]]
  have "find_email (work (au_db ?w)) ''a@b'' = Some (example_auth_user False)"
    by (simp add: find_email_def example_auth_eval)
  moreover have "verify_secret example_crypto ''pw'' (usr_password_hash (example_auth_user False))"
    by (simp add: example_auth_user_def verify_hash_secret)
  moreover have "strip (lower '' A@B'') = ''a@b''" by (simp add: str_eval)
  moreover have "limited example_auth_env example_auth_input a b c d e f g ?w = (Inr (), ?w)" for a b c d e f g
    by (simp add: limited_def apply_rate_limit_def example_auth_env_def example_auth_world_def)
  moreover have "admin_login_ip_allowed cfg i rq (example_auth_user False)" for cfg i rq
    by (simp add: admin_login_ip_allowed_def example_auth_user_def)
  moreover have "ae_crypto example_auth_env = example_crypto" "\<not> usr_mfa_enabled (example_auth_user False)"
    by (simp_all add: example_auth_env_def example_auth_user_def)
  ultimately obtain w2 where l: "signed_in example_auth_env example_auth_input (example_auth_user False) ''auth.login''
      (RedirectTo ''/dashboard'') [] ?w = (r, w2)" and w1: "w1 = w2\<lparr>au_db := rollback (au_db w2)\<rparr>"
    using s by (auto simp: served_def login_def Let_def abind_def split: prod.splits)
  from signed_in_effect [OF l] have "sessions (committed (au_db w1)) \<noteq> sessions (committed (au_db ?w))"
    by (auto simp: auth_tables_def w1 example_auth_eval)
  from t [OF this] obtain u :: user and row :: session_token where "\<not> usr_mfa_enabled u" "ses_user_id row = usr_id u"
    "sessions (committed (au_db w1)) = sessions (committed (au_db ?w)) @ [row]" by (elim exE conjE)
  with s show ?thesis by (intro exI conjI)
qed


end
