(* ===== verification/Py_Json_Text.thy ===== *)
theory Py_Json_Text
  imports Py_Json Py_Uuid Py_Base64 "HOL-Library.List_Lexorder" "HOL-Library.Char_ord" "HOL-Library.AList"
begin

text \<open>
  \<open>json.dumps(value, sort_keys=True, separators=(",", ":"), ensure_ascii=True)\<close> and \<open>json.loads\<close>. A
  string holds code points below 256, so an escape above that is not read. What a pair list becomes
  is the \<open>object_pairs_hook\<close>; the float that a numeral with a fraction or an exponent denotes is an
  argument. The nesting is bounded by the length of the text.
\<close>

subsection \<open>Printing\<close>

definition escape_char :: "char \<Rightarrow> string" where
  "escape_char c =
     (let n = code_of c in
      if n = 34 \<or> n = 92 then [CHR 0x5C, c]
      else if n = 10 then [CHR 0x5C, CHR ''n'']
      else if n = 13 then [CHR 0x5C, CHR ''r'']
      else if n = 9 then [CHR 0x5C, CHR ''t'']
      else if n = 12 then [CHR 0x5C, CHR ''f'']
      else if n = 8 then [CHR 0x5C, CHR ''b'']
      else if 32 \<le> n \<and> n \<le> 126 then [c]
      else [CHR 0x5C, CHR ''u'', CHR ''0'', CHR ''0'', hex_char (n div 16), hex_char (n mod 16)])"

definition dump_str :: "string \<Rightarrow> string" where
  "dump_str s = CHR 0x22 # concat (map escape_char s) @ [CHR 0x22]"

fun json_dumps :: "json \<Rightarrow> string" where
  "json_dumps JNull = ''null''"
| "json_dumps (JBool b) = (if b then ''true'' else ''false'')"
| "json_dumps (JInt i) = int_str i"
| "json_dumps (JFloat r t) = r"
| "json_dumps (JStr s) = dump_str s"
| "json_dumps (JList xs) = ''['' @ join '','' (map json_dumps xs) @ '']''"
| "json_dumps (JObj kvs) =
     ''{'' @ join '','' (map snd (sort_key fst
        (map (\<lambda>(k, v). (k, dump_str k @ '':'' @ json_dumps v)) kvs))) @ ''}''"

subsection \<open>Reading\<close>

definition skip_ws :: "string \<Rightarrow> string" where
  "skip_ws s = dropWhile (\<lambda>c. code_of c \<in> {32, 9, 10, 13}) s"

definition unescape :: "char \<Rightarrow> char option" where
  "unescape c =
     (if c = CHR 0x22 \<or> c = CHR 0x5C \<or> c = CHR ''/'' then Some c
      else if c = CHR ''n'' then Some (CHR 0x0A)
      else if c = CHR ''r'' then Some (CHR 0x0D)
      else if c = CHR ''t'' then Some (CHR 0x09)
      else if c = CHR ''f'' then Some (CHR 0x0C)
      else if c = CHR ''b'' then Some (CHR 0x08)
      else None)"

definition hex4 :: "char \<Rightarrow> char \<Rightarrow> char \<Rightarrow> char \<Rightarrow> char option" where
  "hex4 a b c d =
     (case (hex_val a, hex_val b, hex_val c, hex_val d) of
        (Some w, Some x, Some y, Some z) \<Rightarrow> if w = 0 \<and> x = 0 then Some (byte (16 * y + z)) else None
      | _ \<Rightarrow> None)"

text \<open>The rest of a string after its opening quote.\<close>

fun scan_str :: "string \<Rightarrow> (string \<times> string) option" where
  "scan_str [] = None"
| "scan_str (c # cs) =
     (if c = CHR 0x22 then Some ([], cs)
      else if c = CHR 0x5C then
        (case cs of
           [] \<Rightarrow> None
         | e # r \<Rightarrow>
             if e = CHR ''u'' then
               (case r of
                  a # b # x # y # r' \<Rightarrow>
                    (case hex4 a b x y of
                       None \<Rightarrow> None
                     | Some ch \<Rightarrow> map_option (\<lambda>(t, q). (ch # t, q)) (scan_str r'))
                | _ \<Rightarrow> None)
             else (case unescape e of
                 None \<Rightarrow> None
               | Some ch \<Rightarrow> map_option (\<lambda>(t, q). (ch # t, q)) (scan_str r)))
      else if code_of c < 32 then None
      else map_option (\<lambda>(t, q). (c # t, q)) (scan_str cs))"

type_synonym float_reader = "string \<Rightarrow> json"

text \<open>A numeral: an integer part without leading zeros, then optionally a fraction and an exponent.\<close>

definition scan_digits :: "string \<Rightarrow> string \<times> string" where
  "scan_digits s = (takeWhile is_digit s, dropWhile is_digit s)"

definition scan_fraction :: "string \<Rightarrow> string \<times> string" where
  "scan_fraction s =
     (case s of
        c # r \<Rightarrow>
          (case scan_digits r of
             (d # ds, q) \<Rightarrow> if c = CHR ''.'' then (c # d # ds, q) else ([], s)
           | _ \<Rightarrow> ([], s))
      | [] \<Rightarrow> ([], s))"

definition scan_exponent :: "string \<Rightarrow> string \<times> string" where
  "scan_exponent s =
     (case s of
        c # r \<Rightarrow>
          let (sg, r') = (case r of x # q \<Rightarrow> if x = CHR ''-'' \<or> x = CHR ''+'' then ([x], q) else ([], r) | [] \<Rightarrow> ([], r))
          in (case scan_digits r' of
                (d # ds, q) \<Rightarrow> if c = CHR ''e'' \<or> c = CHR ''E'' then (c # sg @ d # ds, q) else ([], s)
              | _ \<Rightarrow> ([], s))
      | [] \<Rightarrow> ([], s))"

definition scan_number :: "float_reader \<Rightarrow> string \<Rightarrow> (json \<times> string) option" where
  "scan_number fl s =
     (let (sg, r) = (case s of c # q \<Rightarrow> if c = CHR ''-'' then (True, q) else (False, s) | [] \<Rightarrow> (False, s));
          (ds, r1) = scan_digits r;
          (ip, r2) = (if startswith ds ''0'' then (''0'', drop 1 ds @ r1) else (ds, r1))
      in if ip = [] then None
         else
           let (fr, r3) = scan_fraction r2; (ex, r4) = scan_exponent r3;
               v = (if sg then - int (digits_val ip) else int (digits_val ip))
           in if fr = [] \<and> ex = [] then Some (JInt v, r2)
              else Some (fl ((if sg then ''-'' else []) @ ip @ fr @ ex), r4))"

definition scan_word :: "float_reader \<Rightarrow> string \<Rightarrow> (json \<times> string) option" where
  "scan_word fl s =
     (if startswith s ''null'' then Some (JNull, drop 4 s)
      else if startswith s ''true'' then Some (JBool True, drop 4 s)
      else if startswith s ''false'' then Some (JBool False, drop 5 s)
      else if startswith s ''NaN'' then Some (fl ''nan'', drop 3 s)
      else if startswith s ''Infinity'' then Some (fl ''inf'', drop 8 s)
      else if startswith s ''-Infinity'' then Some (fl ''-inf'', drop 9 s)
      else scan_number fl s)"

type_synonym pairs_hook = "(string \<times> json) list \<Rightarrow> json option"

fun scan_value :: "float_reader \<Rightarrow> pairs_hook \<Rightarrow> nat \<Rightarrow> string \<Rightarrow> (json \<times> string) option"
  and scan_items :: "float_reader \<Rightarrow> pairs_hook \<Rightarrow> nat \<Rightarrow> string \<Rightarrow> (json list \<times> string) option"
  and scan_pairs :: "float_reader \<Rightarrow> pairs_hook \<Rightarrow> nat \<Rightarrow> string \<Rightarrow> ((string \<times> json) list \<times> string) option" where
  "scan_value fl hook 0 s = None"
| "scan_value fl hook (Suc n) s =
     (case s of
        [] \<Rightarrow> None
      | c # cs \<Rightarrow>
          if c = CHR 0x22 then map_option (\<lambda>(t, r). (JStr t, r)) (scan_str cs)
          else if c = CHR ''['' then
            (case skip_ws cs of
               [] \<Rightarrow> None
             | d # r \<Rightarrow> if d = CHR '']'' then Some (JList [], r)
                        else map_option (\<lambda>(xs, q). (JList xs, q)) (scan_items fl hook n (d # r)))
          else if c = CHR ''{'' then
            (case skip_ws cs of
               [] \<Rightarrow> None
             | d # r \<Rightarrow>
                 (case (if d = CHR ''}'' then Some ([], r) else scan_pairs fl hook n (d # r)) of
                    None \<Rightarrow> None
                  | Some (kvs, q) \<Rightarrow> map_option (\<lambda>v. (v, q)) (hook kvs)))
          else scan_word fl s)"
| "scan_items fl hook 0 s = None"
| "scan_items fl hook (Suc n) s =
     (case scan_value fl hook n s of
        None \<Rightarrow> None
      | Some (x, r) \<Rightarrow>
          (case skip_ws r of
             [] \<Rightarrow> None
           | d # q \<Rightarrow>
               if d = CHR '']'' then Some ([x], q)
               else if d = CHR '','' then map_option (\<lambda>(xs, p). (x # xs, p)) (scan_items fl hook n (skip_ws q))
               else None))"
| "scan_pairs fl hook 0 s = None"
| "scan_pairs fl hook (Suc n) s =
     (case s of
        [] \<Rightarrow> None
      | c # cs \<Rightarrow>
          if c \<noteq> CHR 0x22 then None
          else (case scan_str cs of
              None \<Rightarrow> None
            | Some (k, r) \<Rightarrow>
                (case skip_ws r of
                   [] \<Rightarrow> None
                 | d # q \<Rightarrow>
                     if d \<noteq> CHR '':'' then None
                     else (case scan_value fl hook n (skip_ws q) of
                         None \<Rightarrow> None
                       | Some (v, p) \<Rightarrow>
                           (case skip_ws p of
                              [] \<Rightarrow> None
                            | e # o' \<Rightarrow>
                                if e = CHR ''}'' then Some ([(k, v)], o')
                                else if e = CHR '','' then
                                  map_option (\<lambda>(kvs, t). ((k, v) # kvs, t)) (scan_pairs fl hook n (skip_ws o'))
                                else None)))))"

definition json_loads :: "float_reader \<Rightarrow> pairs_hook \<Rightarrow> string \<Rightarrow> json option" where
  "json_loads fl hook s =
     (case scan_value fl hook (Suc (2 * length s)) (skip_ws s) of
        None \<Rightarrow> None
      | Some (v, r) \<Rightarrow> if skip_ws r = [] then Some v else None)"

text \<open>The default: a dictionary, in which the last of equal keys wins.\<close>

definition dict_hook :: pairs_hook where
  "dict_hook kvs = Some (JObj (fold (\<lambda>(k, v) d. AList.update k v d) kvs []))"

subsection \<open>Reading what was printed\<close>

definition delimited :: "string \<Rightarrow> bool" where
  "delimited r \<longleftrightarrow> (case r of [] \<Rightarrow> True | c # s \<Rightarrow> c \<in> {CHR '','', CHR '']'', CHR ''}'', CHR 0x0A})"

lemma hex4_escape: "hex4 CHR ''0'' CHR ''0'' (hex_char (code_of c div 16)) (hex_char (code_of c mod 16)) = Some c"
proof -
  have "code_of c div 16 < 16" using code_of_lt [of c] by simp
  moreover have "hex_val CHR ''0'' = Some 0" by (simp add: hex_val_def is_digit_def code_of_def Let_def)
  ultimately show ?thesis by (simp add: hex4_def hex_val_hex_char)
qed

lemma code_of_eq_iff: "c = d \<longleftrightarrow> code_of c = code_of d"
  by (simp add: code_of_def)

lemma scan_escape: "scan_str (escape_char c @ s) = map_option (\<lambda>(t, q). (c # t, q)) (scan_str s)"
proof -
  consider "code_of c \<in> {34, 92}" | "code_of c \<in> {10, 13, 9, 12, 8}"
    | "32 \<le> code_of c" "code_of c \<le> 126" "code_of c \<notin> {34, 92}"
    | "code_of c \<notin> {34, 92, 10, 13, 9, 12, 8}" "\<not> (32 \<le> code_of c \<and> code_of c \<le> 126)" by auto
  then show ?thesis
  proof cases
    case 1
    then have "c = CHR 0x22 \<or> c = CHR 0x5C" by (auto simp: code_of_eq_iff) (simp_all add: code_of_def)
    then show ?thesis by (auto simp: escape_char_def unescape_def code_of_def)
  next
    case 2
    then have "c \<in> {CHR 0x0A, CHR 0x0D, CHR 0x09, CHR 0x0C, CHR 0x08}"
      by (auto simp: code_of_eq_iff) (simp_all add: code_of_def)
    then show ?thesis by (auto simp: escape_char_def unescape_def code_of_def)
  next
    case 3
    then have "c \<noteq> CHR 0x22" "c \<noteq> CHR 0x5C" by (auto simp: code_of_def)
    with 3 show ?thesis by (auto simp: escape_char_def Let_def)
  next
    case 4
    then have "escape_char c = [CHR 0x5C, CHR ''u'', CHR ''0'', CHR ''0'', hex_char (code_of c div 16), hex_char (code_of c mod 16)]"
      by (auto simp: escape_char_def Let_def)
    then show ?thesis by (simp add: hex4_escape)
  qed
qed

lemma scan_dump_str: "scan_str (concat (map escape_char s) @ CHR 0x22 # r) = Some (s, r)"
  by (induction s) (simp_all add: scan_escape)

lemma scan_digits_nat_str:
  assumes "delimited r"
  shows "scan_digits (nat_str n @ r) = (nat_str n, r)"
proof -
  have "\<forall>c\<in>set (nat_str n). is_digit c" by (rule nat_str_digits)
  moreover have "takeWhile is_digit r = []" "dropWhile is_digit r = r"
    using assms by (auto simp: delimited_def is_digit_def code_of_def split: list.splits)
  ultimately show ?thesis by (simp add: scan_digits_def)
qed

lemma nat_str_zero: "startswith (nat_str n) ''0'' \<Longrightarrow> n = 0"
proof -
  assume "startswith (nat_str n) ''0''"
  then obtain t where t: "nat_str n = CHR ''0'' # t" by (auto simp: startswith_iff)
  show "n = 0"
  proof (rule ccontr)
    assume "n \<noteq> 0"
    with hd_nat_str [of n] t show False by (simp add: digit_char_def code_of_def)
  qed
qed

lemma delimited_no_tail:
  assumes "delimited r"
  shows "scan_fraction r = ([], r)" "scan_exponent r = ([], r)"
  using assms by (auto simp: delimited_def scan_fraction_def scan_exponent_def split: list.splits prod.splits)

lemma scan_number_int:
  assumes "delimited r"
  shows "scan_number fl (int_str i @ r) = Some (JInt i, r)"
proof -
  define n where "n = (if i < 0 then nat (- i) else nat i)"
  obtain c t where c: "nat_str n = c # t" by (cases "nat_str n") auto
  have "is_digit c" using nat_str_digits [of n] c by simp
  then have m: "c \<noteq> CHR ''-''" by (auto simp: is_digit_def code_of_def)
  have z: "if startswith (nat_str n) ''0'' then nat_str n = ''0'' else nat_str n \<noteq> []"
    using nat_str_zero [of n] by (auto simp: nat_str.simps [of 0] digit_char_def)
  have v: "nat_str n = ''0'' \<Longrightarrow> digits_val ''0'' = n" using digits_val_nat_str [of n] by metis
  have sc: "scan_digits (nat_str n @ r) = (nat_str n, r)" by (rule scan_digits_nat_str [OF assms])
  have body: "(let (ds, r1) = scan_digits (nat_str n @ r);
          (ip, r2) = (if startswith ds ''0'' then (''0'', drop 1 ds @ r1) else (ds, r1))
      in if ip = [] then None
         else
           let (fr, r3) = scan_fraction r2; (ex, r4) = scan_exponent r3;
               v = (if sg then - int (digits_val ip) else int (digits_val ip))
           in if fr = [] \<and> ex = [] then Some (JInt v, r2)
              else Some (fl ((if sg then ''-'' else []) @ ip @ fr @ ex), r4))
      = Some (JInt (if sg then - int n else int n), r)" for sg
    using z v by (auto simp: sc delimited_no_tail [OF assms] split: if_splits)
  show ?thesis
  proof (cases "i < 0")
    case True
    then have "int_str i = CHR ''-'' # nat_str n" by (simp add: int_str_def n_def)
    with body [of True] True show ?thesis by (simp add: scan_number_def n_def)
  next
    case False
    then have "int_str i = nat_str n" by (simp add: int_str_def n_def)
    with body [of False] False m c show ?thesis by (simp add: scan_number_def n_def)
  qed
qed

text \<open>The first character of a printed value.\<close>

definition value_start :: "char \<Rightarrow> bool" where
  "value_start c \<longleftrightarrow> is_digit c \<or> c \<in> {CHR ''-'', CHR ''n'', CHR ''t'', CHR ''f'', CHR 0x22, CHR ''['', CHR ''{''}"

fun printable :: "json \<Rightarrow> bool" where
  "printable (JFloat r t) = False"
| "printable (JList xs) = (\<forall>x\<in>set xs. printable x)"
| "printable (JObj kvs) = (sorted (map fst kvs) \<and> distinct (map fst kvs) \<and> (\<forall>kv\<in>set kvs. printable (snd kv)))"
| "printable _ = True"

lemma int_str_start: "\<exists>c t. int_str i = c # t \<and> (is_digit c \<or> c = CHR ''-'')"
proof -
  have "\<exists>c t. nat_str n = c # t \<and> is_digit c" for n
    using nat_str_digits [of n] by (cases "nat_str n") auto
  then show ?thesis by (fastforce simp: int_str_def)
qed

lemma json_dumps_start: "printable j \<Longrightarrow> \<exists>c t. json_dumps j = c # t \<and> value_start c"
proof (cases j)
  case (JInt i)
  with int_str_start [of i] show ?thesis by (auto simp: value_start_def)
qed (auto simp: value_start_def dump_str_def)

lemma value_start_ws: "value_start c \<Longrightarrow> skip_ws (c # s) = c # s \<and> c \<noteq> CHR '']'' \<and> c \<noteq> CHR ''}''"
  by (auto simp: value_start_def skip_ws_def is_digit_def code_of_def)

lemma delimited_ws: "c \<in> {CHR '','', CHR '']'', CHR ''}''} \<Longrightarrow> skip_ws (c # s) = c # s"
  by (auto simp: skip_ws_def code_of_def)

lemma join_Cons: "xs \<noteq> [] \<Longrightarrow> join d (x # xs) = x @ d @ join d xs"
  by (cases xs) auto

lemma join_prefix: "xs \<noteq> [] \<Longrightarrow> \<exists>t. join d xs = hd xs @ t"
  by (cases xs; cases "tl xs") auto

lemma scan_items_dumps:
  assumes "\<And>x n r. x \<in> set xs \<Longrightarrow> 2 * length (json_dumps x) < n \<Longrightarrow> delimited r \<Longrightarrow>
      scan_value fl hook n (json_dumps x @ r) = Some (x, r)"
    and "xs \<noteq> []" and "2 * length (join '','' (map json_dumps xs)) + 2 \<le> n" and "\<forall>x\<in>set xs. printable x"
  shows "scan_items fl hook n (join '','' (map json_dumps xs) @ CHR '']'' # r) = Some (xs, r)"
  using assms
proof (induction xs arbitrary: n)
  case (Cons x xs)
  then obtain m where n: "n = Suc m" by (cases n) auto
  show ?case
  proof (cases "xs = []")
    case True
    have "scan_value fl hook m (json_dumps x @ CHR '']'' # r) = Some (x, CHR '']'' # r)"
      using Cons.prems(1,3) n True by (intro Cons.prems(1)) (auto simp: delimited_def)
    then show ?thesis by (simp add: n True delimited_ws delimited_def)
  next
    case False
    let ?rest = "join '','' (map json_dumps xs) @ CHR '']'' # r"
    have len: "2 * length (json_dumps x) < m" "2 * length (join '','' (map json_dumps xs)) + 2 \<le> m"
      using Cons.prems(3) n False by (simp_all add: join_Cons)
    have v: "scan_value fl hook m (json_dumps x @ CHR '','' # ?rest) = Some (x, CHR '','' # ?rest)"
      using len by (intro Cons.prems(1)) (auto simp: delimited_def)
    have i: "scan_items fl hook m ?rest = Some (xs, r)"
      using Cons.prems False len by (intro Cons.IH) auto
    from False Cons.prems(4) json_dumps_start [of "hd xs"] obtain c t where "json_dumps (hd xs) = c # t" "value_start c"
      by (cases xs) auto
    moreover obtain u where "join '','' (map json_dumps xs) = json_dumps (hd xs) @ u"
      using False join_prefix [of "map json_dumps xs" "'',''"] by (auto simp: hd_map)
    ultimately have "?rest = c # t @ u @ CHR '']'' # r" "value_start c" by simp_all
    with value_start_ws have "skip_ws ?rest = ?rest" by metis
    with v i show ?thesis by (simp add: n False join_Cons delimited_ws delimited_def)
  qed
qed simp

definition dump_pair :: "string \<times> json \<Rightarrow> string" where
  "dump_pair kv = dump_str (fst kv) @ '':'' @ json_dumps (snd kv)"

lemma scan_pairs_dumps:
  assumes "\<And>k x n r. (k, x) \<in> set kvs \<Longrightarrow> 2 * length (json_dumps x) < n \<Longrightarrow> delimited r \<Longrightarrow>
      scan_value fl hook n (json_dumps x @ r) = Some (x, r)"
    and "kvs \<noteq> []" and "2 * length (join '','' (map dump_pair kvs)) + 2 \<le> n"
    and "\<forall>kv\<in>set kvs. printable (snd kv)"
  shows "scan_pairs fl hook n (join '','' (map dump_pair kvs) @ CHR ''}'' # r) = Some (kvs, r)"
  using assms
proof (induction kvs arbitrary: n)
  case (Cons kv kvs)
  obtain k x where kv: "kv = (k, x)" by (cases kv)
  from Cons.prems obtain m where n: "n = Suc m" by (cases n) auto
  from Cons.prems(4) kv obtain c t where x: "json_dumps x = c # t" "value_start c"
    using json_dumps_start [of x] by auto
  have ws: "skip_ws (json_dumps x @ q) = json_dumps x @ q" for q
    using value_start_ws [OF x(2)] x(1) by simp
  have colon: "skip_ws (CHR '':'' # q) = CHR '':'' # q" for q by (simp add: skip_ws_def code_of_def)
  have key: "scan_str (concat (map escape_char k) @ CHR 0x22 # CHR '':'' # q) = Some (k, CHR '':'' # q)" for q
    by (rule scan_dump_str)
  show ?case
  proof (cases "kvs = []")
    case True
    have "scan_value fl hook m (json_dumps x @ CHR ''}'' # r) = Some (x, CHR ''}'' # r)"
      using Cons.prems(1,3) n True kv by (intro Cons.prems(1)) (auto simp: delimited_def dump_pair_def)
    then show ?thesis
      by (simp add: n True kv dump_pair_def dump_str_def key colon ws delimited_ws delimited_def)
  next
    case False
    let ?rest = "join '','' (map dump_pair kvs) @ CHR ''}'' # r"
    have len: "2 * length (json_dumps x) < m" "2 * length (join '','' (map dump_pair kvs)) + 2 \<le> m"
      using Cons.prems(3) n False kv by (simp_all add: join_Cons dump_pair_def [of "(k, x)"])
    have v: "scan_value fl hook m (json_dumps x @ CHR '','' # ?rest) = Some (x, CHR '','' # ?rest)"
      using len kv by (intro Cons.prems(1)) (auto simp: delimited_def)
    have i: "scan_pairs fl hook m ?rest = Some (kvs, r)"
      using Cons.prems False len by (intro Cons.IH) auto
    obtain u where "join '','' (map dump_pair kvs) = dump_pair (hd kvs) @ u"
      using False join_prefix [of "map dump_pair kvs" "'',''"] by (auto simp: hd_map)
    then have "skip_ws ?rest = ?rest" by (simp add: skip_ws_def code_of_def dump_pair_def dump_str_def)
    with v i show ?thesis
      by (simp add: n False kv join_Cons dump_pair_def [of "(k, x)"] dump_str_def key colon ws delimited_ws delimited_def)
  qed
qed simp

definition keeps_distinct :: "pairs_hook \<Rightarrow> bool" where
  "keeps_distinct hook \<longleftrightarrow> (\<forall>kvs. distinct (map fst kvs) \<longrightarrow> hook kvs = Some (JObj kvs))"

lemma dict_hook_distinct: "keeps_distinct dict_hook"
proof -
  have "fold (\<lambda>(k, v) d. AList.update k v d) kvs d = d @ kvs" if "distinct (map fst (d @ kvs))"
    for kvs d :: "(string \<times> json) list"
    using that
  proof (induction kvs arbitrary: d)
    case (Cons kv kvs)
    obtain k v where kv: "kv = (k, v)" by (cases kv)
    have "k \<notin> fst ` set d" using Cons.prems kv by auto
    then have "AList.update k v d = d @ [(k, v)]" by (induction d) auto
    with Cons.IH [of "d @ [(k, v)]"] Cons.prems kv show ?case by simp
  qed simp
  from this [of "[]"] show ?thesis by (simp add: keeps_distinct_def dict_hook_def)
qed

lemma json_dumps_obj:
  "sorted (map fst kvs) \<Longrightarrow> json_dumps (JObj kvs) = ''{'' @ join '','' (map dump_pair kvs) @ ''}''"
proof -
  assume s: "sorted (map fst kvs)"
  let ?m = "map (\<lambda>kv. (fst kv, dump_pair kv)) kvs"
  have m: "map (\<lambda>(k, v). (k, dump_str k @ '':'' @ json_dumps v)) kvs = ?m"
    by (simp add: dump_pair_def case_prod_unfold)
  have "sort_key fst ?m = ?m" using s by (intro sort_key_id_if_sorted) (simp add: comp_def)
  then show "json_dumps (JObj kvs) = ''{'' @ join '','' (map dump_pair kvs) @ ''}''"
    unfolding json_dumps.simps m by (simp add: comp_def)
qed

lemma scan_word_simps:
  "scan_value fl hook (Suc n) (''null'' @ r) = Some (JNull, r)"
  "scan_value fl hook (Suc n) (''true'' @ r) = Some (JBool True, r)"
  "scan_value fl hook (Suc n) (''false'' @ r) = Some (JBool False, r)"
  by (simp_all add: scan_word_def)

lemma scan_value_int:
  assumes "delimited r"
  shows "scan_value fl hook (Suc n) (int_str i @ r) = Some (JInt i, r)"
proof -
  have d: "\<exists>d u. nat_str k = d # u \<and> is_digit d" for k
    using nat_str_digits [of k] by (cases "nat_str k") auto
  consider d u where "int_str i = d # u" "is_digit d" | d u where "int_str i = CHR ''-'' # d # u" "is_digit d"
    using d [of "nat i"] d [of "nat (- i)"] by (cases "i < 0") (auto simp: int_str_def)
  then show ?thesis
  proof cases
    case (1 d u)
    then have "d \<notin> {CHR 0x22, CHR ''['', CHR ''{'', CHR ''n'', CHR ''t'', CHR ''f'', CHR ''N'', CHR ''I'', CHR ''-''}"
      by (auto simp: is_digit_def code_of_def)
    with 1 scan_number_int [OF assms, of fl i] show ?thesis by (simp add: scan_word_def)
  next
    case (2 d u)
    then have "d \<noteq> CHR ''I''" by (auto simp: is_digit_def code_of_def)
    with 2 scan_number_int [OF assms, of fl i] show ?thesis by (simp add: scan_word_def)
  qed
qed

lemma scan_value_dumps:
  assumes "keeps_distinct hook"
  shows "printable j \<Longrightarrow> 2 * length (json_dumps j) < n \<Longrightarrow> delimited r \<Longrightarrow>
    scan_value fl hook n (json_dumps j @ r) = Some (j, r)"
proof (induction j arbitrary: n r)
  case JNull
  then show ?case by (cases n) (simp_all add: scan_word_simps del: scan_value.simps append.simps)
next
  case (JBool b)
  then show ?case by (cases n; cases b) (simp_all add: scan_word_simps del: scan_value.simps append.simps)
next
  case (JInt i)
  then show ?case by (cases n) (simp_all add: scan_value_int del: scan_value.simps)
next
  case (JStr s)
  then show ?case by (cases n) (simp_all add: dump_str_def scan_dump_str)
next
  case (JList xs)
  then obtain m where n: "n = Suc m" by (cases n) auto
  show ?case
  proof (cases "xs = []")
    case True
    then show ?thesis by (simp add: n skip_ws_def code_of_def)
  next
    case False
    have "scan_items fl hook m (join '','' (map json_dumps xs) @ CHR '']'' # r) = Some (xs, r)"
      using JList False n by (intro scan_items_dumps) auto
    moreover obtain c t where "join '','' (map json_dumps xs) = c # t" "value_start c"
    proof -
      obtain c t where "json_dumps (hd xs) = c # t" "value_start c"
        using False JList.prems(1) json_dumps_start [of "hd xs"] by (cases xs) auto
      moreover obtain u where "join '','' (map json_dumps xs) = json_dumps (hd xs) @ u"
        using False join_prefix [of "map json_dumps xs" "'',''"] by (auto simp: hd_map)
      ultimately show thesis using that by simp
    qed
    ultimately show ?thesis using value_start_ws [of c "t @ CHR '']'' # r"] by (simp add: n)
  qed
next
  case (JObj kvs)
  then obtain m where n: "n = Suc m" by (cases n) auto
  have d: "json_dumps (JObj kvs) = ''{'' @ join '','' (map dump_pair kvs) @ ''}''"
    using JObj.prems(1) by (intro json_dumps_obj) simp
  have h: "hook kvs = Some (JObj kvs)" using assms JObj.prems(1) by (simp add: keeps_distinct_def)
  show ?case
  proof (cases "kvs = []")
    case True
    with h d show ?thesis by (simp add: n skip_ws_def code_of_def del: json_dumps.simps)
  next
    case False
    have "scan_value fl hook n' (json_dumps x @ r') = Some (x, r')"
      if "(k, x) \<in> set kvs" "2 * length (json_dumps x) < n'" "delimited r'" for k x n' r'
      using JObj.IH [of "(k, x)" x n' r'] that JObj.prems(1) by force
    then have "scan_pairs fl hook m (join '','' (map dump_pair kvs) @ CHR ''}'' # r) = Some (kvs, r)"
      using JObj.prems False n d by (intro scan_pairs_dumps) auto
    moreover obtain u where "join '','' (map dump_pair kvs) = dump_pair (hd kvs) @ u"
      using False join_prefix [of "map dump_pair kvs" "'',''"] by (auto simp: hd_map)
    then have "\<exists>t. join '','' (map dump_pair kvs) = CHR 0x22 # t"
      by (simp add: dump_pair_def dump_str_def)
    then have "skip_ws (join '','' (map dump_pair kvs) @ CHR ''}'' # r) = join '','' (map dump_pair kvs) @ CHR ''}'' # r"
      "\<exists>t. join '','' (map dump_pair kvs) = CHR 0x22 # t"
      by (auto simp: skip_ws_def code_of_def)
    ultimately show ?thesis using h unfolding d by (auto simp: n)
  qed
qed simp

text \<open>A value without floats and duplicate keys, and the same value with the keys of every object sorted.\<close>

fun plain_json :: "json \<Rightarrow> bool" where
  "plain_json (JFloat r t) = False"
| "plain_json (JList xs) = (\<forall>x\<in>set xs. plain_json x)"
| "plain_json (JObj kvs) = (distinct (map fst kvs) \<and> (\<forall>kv\<in>set kvs. plain_json (snd kv)))"
| "plain_json _ = True"

fun sort_keys :: "json \<Rightarrow> json" where
  "sort_keys (JList xs) = JList (map sort_keys xs)"
| "sort_keys (JObj kvs) = JObj (sort_key fst (map (\<lambda>(k, v). (k, sort_keys v)) kvs))"
| "sort_keys j = j"

lemma sort_key_map: "sort_key f (map g xs) = map g (sort_key (\<lambda>x. f (g x)) xs)"
proof -
  have "insort_key f (g x) (map g ys) = map g (insort_key (\<lambda>x. f (g x)) x ys)" for x ys
    by (induction ys) auto
  then show ?thesis by (induction xs) auto
qed

lemma distinct_sort_key: "distinct (map fst (sort_key fst kvs)) \<longleftrightarrow> distinct (map fst kvs)"
  by (simp add: distinct_map)

lemma printable_sort_keys: "plain_json j \<Longrightarrow> printable (sort_keys j)"
proof (induction j)
  case (JObj kvs)
  have m: "map fst (map (\<lambda>(k, v). (k, sort_keys v)) kvs) = map fst kvs" by (simp add: case_prod_unfold comp_def)
  have "distinct (map fst (sort_key fst (map (\<lambda>(k, v). (k, sort_keys v)) kvs)))"
    using JObj.prems by (simp only: distinct_sort_key m) simp
  moreover have "\<forall>kv\<in>set (map (\<lambda>(k, v). (k, sort_keys v)) kvs). printable (snd kv)"
    using JObj by fastforce
  ultimately show ?case by simp
qed auto

lemma json_dumps_sort_keys: "json_dumps (sort_keys j) = json_dumps j"
proof (induction j)
  case (JList xs)
  then have "map (\<lambda>x. json_dumps (sort_keys x)) xs = map json_dumps xs" by (intro map_cong) auto
  then show ?case by (simp only: sort_keys.simps json_dumps.simps map_map comp_def)
next
  case (JObj kvs)
  have e: "map (\<lambda>(k, v). (k, dump_str k @ '':'' @ json_dumps v)) kvs = map (\<lambda>kv. (fst kv, dump_pair kv)) kvs" for kvs
    by (simp add: dump_pair_def case_prod_unfold)
  have i: "dump_pair (fst kv, sort_keys (snd kv)) = dump_pair kv" if "kv \<in> set kvs" for kv
    using JObj [of kv "snd kv"] that by (cases kv) (simp add: dump_pair_def)
  have m: "map (\<lambda>(k, v). (k, sort_keys v)) kvs = map (\<lambda>kv. (fst kv, sort_keys (snd kv))) kvs"
    by (simp add: case_prod_unfold)
  have "json_dumps (sort_keys (JObj kvs))
      = ''{'' @ join '','' (map dump_pair (sort_key fst (map (\<lambda>kv. (fst kv, sort_keys (snd kv))) kvs))) @ ''}''"
    unfolding sort_keys.simps m by (rule json_dumps_obj) (rule sorted_sort_key)
  also have "map dump_pair (sort_key fst (map (\<lambda>kv. (fst kv, sort_keys (snd kv))) kvs)) = map dump_pair (sort_key fst kvs)"
    using i by (simp add: sort_key_map)
  finally show ?case by (simp only: json_dumps.simps e) (simp add: sort_key_map comp_def)
qed simp_all

lemma json_text_roundtrip:
  assumes "keeps_distinct hook" and "plain_json j"
  shows "json_loads fl hook (json_dumps j) = Some (sort_keys j)"
proof -
  let ?s = "sort_keys j"
  have p: "printable ?s" by (rule printable_sort_keys [OF assms(2)])
  obtain c t where "json_dumps ?s = c # t" "value_start c" using json_dumps_start [OF p] by blast
  then have "skip_ws (json_dumps ?s) = json_dumps ?s" using value_start_ws by simp
  moreover have "scan_value fl hook (Suc (2 * length (json_dumps ?s))) (json_dumps ?s @ []) = Some (?s, [])"
    by (rule scan_value_dumps [OF assms(1) p]) (simp_all add: delimited_def)
  ultimately show ?thesis by (simp add: json_loads_def skip_ws_def json_dumps_sort_keys)
qed

end
