(* ===== verification/Device_Backup.thy ===== *)
theory Device_Backup
  imports Py_Json_Text Py_Datetime Common Security
begin

text \<open>
  The backups that firewalls upload: \<open>dashboard/app/services/device_backup_crypto.py\<close>. An envelope is
  a JSON object with exactly the fields of its format; it is stored as canonical JSON text. The
  parser of ISO timestamps (\<open>datetime.fromisoformat\<close>) is an argument that says whether a text is a
  timestamp and whether it has a time zone.
\<close>

type_synonym iso_aware = "string \<Rightarrow> bool option"

definition encrypted_format :: string where
  "encrypted_format = ''opnsense-config-encrypted-v1''"

definition plaintext_format :: string where
  "plaintext_format = ''opnsense-config-plaintext-v1''"

definition max_ciphertext_bytes :: nat where "max_ciphertext_bytes = 2100000"
definition max_encoded_ciphertext_chars :: nat where "max_encoded_ciphertext_chars = 2800000"
definition max_envelope_chars :: nat where "max_envelope_chars = 2900000"
definition max_request_bytes :: nat where "max_request_bytes = 2910000"

definition encrypted_envelope_fields :: "string set" where
  "encrypted_envelope_fields =
     {''format'', ''version'', ''cipher'', ''kdf'', ''iterations'', ''key_id'', ''device_id'', ''source_hostname'',
      ''captured_at'', ''ciphertext'', ''mac''}"

definition plaintext_envelope_fields :: "string set" where
  "plaintext_envelope_fields =
     {''format'', ''version'', ''device_id'', ''source_hostname'', ''captured_at'', ''content''}"

definition invalid_device_backup :: "string \<Rightarrow> exn" where
  "invalid_device_backup detail = HTTPException 400 detail"

definition require :: "bool \<Rightarrow> string \<Rightarrow> unit res" where
  "require b detail = ensure b (invalid_device_backup detail)"

definition is_hex_text :: "nat \<Rightarrow> json \<Rightarrow> bool" where
  "is_hex_text n v =
     (case v of JStr s \<Rightarrow> length s = n \<and> list_all (\<lambda>c. is_digit c \<or> c \<in> set ''abcdef'') s | _ \<Rightarrow> False)"

text \<open>\<open>value.get(key)\<close> of an object that has the key.\<close>

definition field :: "(string \<times> json) list \<Rightarrow> string \<Rightarrow> json" where
  "field kvs key = (case map_of kvs key of None \<Rightarrow> JNull | Some v \<Rightarrow> v)"

definition is_json_int :: "json \<Rightarrow> bool" where
  "is_json_int v = (case v of JInt i \<Rightarrow> True | _ \<Rightarrow> False)"

text \<open>Python compares numbers across types: \<open>True\<close> and \<open>1.0\<close> equal 1.\<close>

fun equals_one :: "json \<Rightarrow> bool" where
  "equals_one (JInt i) = (i = 1)"
| "equals_one (JBool b) = b"
| "equals_one (JFloat r t) = (r = ''1.0'')"
| "equals_one _ = False"

definition check_envelope_device :: "string \<Rightarrow> (string \<times> json) list \<Rightarrow> uuid \<Rightarrow> unit res" where
  "check_envelope_device kind kvs expected_device_id =
     (case parse_uuid (py_str (field kvs ''device_id'')) of
        None \<Rightarrow> Inl (invalid_device_backup (kind @ '' backup device ID is invalid''))
      | Some i \<Rightarrow> require (i = expected_device_id) (kind @ '' backup is for another firewall''))"

definition check_hostname :: "string \<Rightarrow> (string \<times> json) list \<Rightarrow> unit res" where
  "check_hostname kind kvs =
     require (case field kvs ''source_hostname'' of
          JStr h \<Rightarrow> strip h \<noteq> [] \<and> length h \<le> 255 \<and> list_all (\<lambda>c. 32 \<le> code_of c) h
        | _ \<Rightarrow> False) (kind @ '' backup hostname is invalid'')"

definition iso_zulu :: "string \<Rightarrow> string" where
  "iso_zulu s = concat (map (\<lambda>c. if c = CHR ''Z'' then ''+00:00'' else [c]) s)"

definition check_timestamp :: "iso_aware \<Rightarrow> string \<Rightarrow> (string \<times> json) list \<Rightarrow> unit res" where
  "check_timestamp aware_of kind kvs =
     (case field kvs ''captured_at'' of
        JStr t \<Rightarrow>
          (case (if length t > 64 then None else aware_of (iso_zulu t)) of
             None \<Rightarrow> Inl (invalid_device_backup (kind @ '' backup timestamp is invalid''))
           | Some aware \<Rightarrow> require aware (kind @ '' backup timestamp must include a timezone''))
      | _ \<Rightarrow> Inl (invalid_device_backup (kind @ '' backup timestamp is invalid'')))"

definition check_ciphertext :: "(string \<times> json) list \<Rightarrow> unit res" where
  "check_ciphertext kvs =
     (case field kvs ''ciphertext'' of
        JStr (c # cs) \<Rightarrow>
          rbind (require (length (c # cs) \<le> max_encoded_ciphertext_chars) ''encrypted backup ciphertext is too large'') (\<lambda>_.
          case b64decode_strict (c # cs) of
            None \<Rightarrow> Inl (invalid_device_backup ''encrypted backup ciphertext is invalid'')
          | Some ciphertext \<Rightarrow>
              rbind (require (startswith ciphertext ''Salted__'') ''encrypted backup salt header is invalid'') (\<lambda>_.
              let encrypted_body = drop 16 ciphertext in
              rbind (require (encrypted_body \<noteq> [] \<and> length encrypted_body mod 16 = 0)
                ''encrypted backup ciphertext length is invalid'') (\<lambda>_.
              require (length ciphertext \<le> max_ciphertext_bytes) ''encrypted backup ciphertext is too large'')))
      | _ \<Rightarrow> Inl (invalid_device_backup ''encrypted backup ciphertext is invalid''))"

definition canonical_payload :: "string \<Rightarrow> (string \<times> json) list \<Rightarrow> string res" where
  "canonical_payload kind kvs =
     (let payload = json_dumps (JObj kvs) in
      rbind (require (length payload \<le> max_envelope_chars) (kind @ '' backup envelope is too large''))
        (\<lambda>_. Inr payload))"

definition validate_encrypted_device_backup :: "iso_aware \<Rightarrow> json \<Rightarrow> uuid \<Rightarrow> string res" where
  "validate_encrypted_device_backup aware_of v expected_device_id =
     (case v of
        JObj kvs \<Rightarrow>
          rbind (require (set (map fst kvs) = encrypted_envelope_fields) ''encrypted backup envelope fields are invalid'') (\<lambda>_.
          rbind (require (field kvs ''format'' = JStr encrypted_format) ''encrypted backup format is not supported'') (\<lambda>_.
          rbind (require (is_json_int (field kvs ''version'')) ''encrypted backup version is invalid'') (\<lambda>_.
          rbind (require (is_json_int (field kvs ''iterations'')) ''encrypted backup KDF parameters are invalid'') (\<lambda>_.
          rbind (require (field kvs ''version'' = JInt 1 \<and> field kvs ''cipher'' = JStr ''AES-256-CBC+HMAC-SHA256''
              \<and> field kvs ''kdf'' = JStr ''PBKDF2-HMAC-SHA256'' \<and> field kvs ''iterations'' = JInt 200000)
            ''encrypted backup algorithms are not supported'') (\<lambda>_.
          rbind (check_envelope_device ''encrypted'' kvs expected_device_id) (\<lambda>_.
          rbind (require (is_hex_text 24 (field kvs ''key_id'')) ''encrypted backup key fingerprint is invalid'') (\<lambda>_.
          rbind (require (is_hex_text 64 (field kvs ''mac'')) ''encrypted backup authentication code is invalid'') (\<lambda>_.
          rbind (check_hostname ''encrypted'' kvs) (\<lambda>_.
          rbind (check_timestamp aware_of ''encrypted'' kvs) (\<lambda>_.
          rbind (check_ciphertext kvs) (\<lambda>_.
          canonical_payload ''encrypted'' kvs)))))))))))
      | _ \<Rightarrow> Inl (invalid_device_backup ''encrypted backup envelope fields are invalid''))"

definition check_content :: "(string \<times> json) list \<Rightarrow> unit res" where
  "check_content kvs =
     (case field kvs ''content'' of
        JStr content \<Rightarrow>
          rbind (require (strip content \<noteq> []) ''plaintext backup content is invalid'') (\<lambda>_.
          rbind (require (length content \<le> max_ciphertext_bytes) ''plaintext backup content is too large'') (\<lambda>_.
          let content_prefix = take 512 (lower content) in
          require (CHR ''<'' \<in> set content
              \<and> (contains_str content_prefix ''<opnsense'' \<or> contains_str content_prefix ''<config''))
            ''plaintext backup content is not an OPNsense XML config''))
      | _ \<Rightarrow> Inl (invalid_device_backup ''plaintext backup content is invalid''))"

definition validate_plaintext_device_backup :: "iso_aware \<Rightarrow> json \<Rightarrow> uuid \<Rightarrow> string res" where
  "validate_plaintext_device_backup aware_of v expected_device_id =
     (case v of
        JObj kvs \<Rightarrow>
          rbind (require (set (map fst kvs) = plaintext_envelope_fields) ''plaintext backup envelope fields are invalid'') (\<lambda>_.
          rbind (require (field kvs ''format'' = JStr plaintext_format) ''plaintext backup format is not supported'') (\<lambda>_.
          rbind (require (equals_one (field kvs ''version'')) ''plaintext backup version is invalid'') (\<lambda>_.
          rbind (check_envelope_device ''plaintext'' kvs expected_device_id) (\<lambda>_.
          rbind (check_hostname ''plaintext'' kvs) (\<lambda>_.
          rbind (check_timestamp aware_of ''plaintext'' kvs) (\<lambda>_.
          rbind (check_content kvs) (\<lambda>_.
          canonical_payload ''plaintext'' kvs)))))))
      | _ \<Rightarrow> Inl (invalid_device_backup ''plaintext backup envelope fields are invalid''))"

text \<open>\<open>strftime("%Y%m%d%H%M%S")\<close> of an instant in UTC.\<close>

definition compact_timestamp :: "instant \<Rightarrow> string" where
  "compact_timestamp t =
     (case civil_from_days (utc_day t) of (y, m, d) \<Rightarrow>
        zfill 4 (int_str y) @ pad2 m @ pad2 d @ pad2 (t div 3600000000 mod 24) @ pad2 (t div 60000000 mod 60)
          @ pad2 (t div 1000000 mod 60))"

definition device_backup_filename :: "string \<Rightarrow> instant \<Rightarrow> string \<Rightarrow> string" where
  "device_backup_filename hostname received_at backup_format =
     (let safe_hostname = strip_chars ''-'' (dash_runs False hostname);
          extension = (if backup_format = plaintext_format then ''.xml'' else ''.opnenc'')
      in (if safe_hostname = [] then ''firewall'' else safe_hostname) @ ''-backup-''
           @ compact_timestamp received_at @ extension)"

end
