(* ===== verification/Proxy_Auth.thy ===== *)
theory Proxy_Auth
  imports Access
begin

text \<open>
  Authorizations of the firewall proxy: \<open>dashboard/app/services/proxy_auth.py\<close>. A grant is handed out
  by the dashboard and exchanged once for a session of the proxy name; a connector session belongs
  to the dashboard session that opened it. The random tokens are arguments. The operations are put
  together as a step relation, in which everything else the Hub does may happen in between.
\<close>

definition proxy_unauthorized :: exn where
  "proxy_unauthorized = HTTPException 401 ''invalid proxy authorization''"

definition delete_expired_proxy_sessions :: "instant \<Rightarrow> hub_db \<Rightarrow> hub_db" where
  "delete_expired_proxy_sessions now db =
     db\<lparr>proxy_sessions := filter (\<lambda>r. \<not> dps_expires_at r \<le> now) (proxy_sessions db)\<rparr>"

definition require_proxy_access :: "hub_db \<Rightarrow> uuid \<Rightarrow> uuid \<Rightarrow> (user \<times> device) res" where
  "require_proxy_access db user_id device_id =
     (case (get_user db user_id, get_device db device_id) of
        (Some u, Some d) \<Rightarrow>
          if dev_revoked_at d \<noteq> None \<or> lower (dev_status d) = ''revoked'' then Inl proxy_unauthorized
          else rbind (has_company_access db u (dev_company_id d) ''viewer'') (\<lambda>ok.
            if ok then Inr (u, d) else Inl proxy_unauthorized)
      | _ \<Rightarrow> Inl proxy_unauthorized)"

definition proxy_session_cookie_name :: "settings \<Rightarrow> uuid \<Rightarrow> string" where
  "proxy_session_cookie_name cfg device_id = cfg_proxy_session_cookie_prefix cfg @ uuid_hex device_id"

definition add_proxy_session :: "device_proxy_session \<Rightarrow> hub_db \<Rightarrow> hub_db" where
  "add_proxy_session r db = db\<lparr>proxy_sessions := proxy_sessions db @ [r]\<rparr>"

definition create_proxy_grant ::
  "crypto \<Rightarrow> settings \<Rightarrow> instant \<Rightarrow> string \<Rightarrow> user \<Rightarrow> device \<Rightarrow> (db_session, string) act" where
  "create_proxy_grant cr cfg now token u d = (\<lambda>s0.
     let s = s0\<lparr>work := delete_expired_proxy_sessions now (work s0)\<rparr> in
     case require_proxy_access (work s) (usr_id u) (dev_id d) of
       Inl e \<Rightarrow> (Inl e, s)
     | Inr _ \<Rightarrow>
         (case fresh_uuid s of (i, s1) \<Rightarrow>
           (Inr token, s1\<lparr>work := add_proxy_session
             \<lparr>dps_id = i, dps_user_id = usr_id u, dps_device_id = dev_id d,
              dps_dashboard_session_id = None,
              dps_token_hash = hash_session_token cr (cfg_secret_key cfg) token,
              dps_phase = ''grant'', dps_created_at = now,
              dps_expires_at = now + seconds (cfg_proxy_grant_ttl_seconds cfg),
              dps_consumed_at = None\<rparr> (work s1)\<rparr>)))"

definition dashboard_session_gone :: exn where
  "dashboard_session_gone = HTTPException 401 ''dashboard session is no longer active''"

definition require_active_dashboard_session ::
  "hub_db \<Rightarrow> uuid option \<Rightarrow> uuid \<Rightarrow> instant \<Rightarrow> session_token res" where
  "require_active_dashboard_session db dashboard_session_id user_id now =
     (case Option.bind dashboard_session_id (get_session_token db) of
        None \<Rightarrow> Inl dashboard_session_gone
      | Some r \<Rightarrow>
          if ses_user_id r \<noteq> user_id \<or> ses_revoked_at r \<noteq> None \<or> ses_expires_at r \<le> now
          then Inl dashboard_session_gone else Inr r)"

definition create_connector_session ::
  "crypto \<Rightarrow> settings \<Rightarrow> instant \<Rightarrow> string \<Rightarrow> user \<Rightarrow> device \<Rightarrow> session_token \<Rightarrow> (db_session, string) act" where
  "create_connector_session cr cfg now token u d dashboard = (\<lambda>s0.
     let s = s0\<lparr>work := delete_expired_proxy_sessions now (work s0)\<rparr> in
     case rbind (require_proxy_access (work s) (usr_id u) (dev_id d)) (\<lambda>_.
          require_active_dashboard_session (work s) (Some (ses_id dashboard)) (usr_id u) now) of
       Inl e \<Rightarrow> (Inl e, s)
     | Inr _ \<Rightarrow>
         (case fresh_uuid s of (i, s1) \<Rightarrow>
           (Inr token, s1\<lparr>work := add_proxy_session
             \<lparr>dps_id = i, dps_user_id = usr_id u, dps_device_id = dev_id d,
              dps_dashboard_session_id = Some (ses_id dashboard),
              dps_token_hash = hash_session_token cr (cfg_secret_key cfg) token,
              dps_phase = ''connector'', dps_created_at = now,
              dps_expires_at = now + minutes (cfg_connector_session_ttl_minutes cfg),
              dps_consumed_at = None\<rparr> (work s1)\<rparr>)))"

definition find_hash :: "hub_db \<Rightarrow> string \<Rightarrow> device_proxy_session option" where
  "find_hash db h = find (\<lambda>r. dps_token_hash r = h) (proxy_sessions db)"

definition grant_usable :: "instant \<Rightarrow> device_proxy_session \<Rightarrow> bool" where
  "grant_usable now r = (dps_phase r = ''grant'' \<and> dps_consumed_at r = None \<and> \<not> dps_expires_at r \<le> now)"

definition exchange_proxy_grant ::
  "crypto \<Rightarrow> settings \<Rightarrow> instant \<Rightarrow> string \<Rightarrow> string
     \<Rightarrow> (db_session, string \<times> device_proxy_session) act" where
  "exchange_proxy_grant cr cfg now session_token grant_token = (\<lambda>s0.
     let s = s0\<lparr>work := delete_expired_proxy_sessions now (work s0)\<rparr>;
         h = hash_session_token cr (cfg_secret_key cfg) grant_token
     in case find_hash (work s) h of
          None \<Rightarrow> (Inl (HTTPException 401 ''invalid or expired proxy grant''), s)
        | Some grant \<Rightarrow>
            if \<not> grant_usable now grant
            then (Inl (HTTPException 401 ''invalid or expired proxy grant''), s)
            else (case require_proxy_access (work s) (dps_user_id grant) (dps_device_id grant) of
                Inl e \<Rightarrow> (Inl e, s)
              | Inr _ \<Rightarrow>
                  (case fresh_uuid s of (i, s1) \<Rightarrow>
                    let row = \<lparr>dps_id = i, dps_user_id = dps_user_id grant,
                          dps_device_id = dps_device_id grant, dps_dashboard_session_id = None,
                          dps_token_hash = hash_session_token cr (cfg_secret_key cfg) session_token,
                          dps_phase = ''session'', dps_created_at = now,
                          dps_expires_at = now + minutes (cfg_proxy_session_ttl_minutes cfg),
                          dps_consumed_at = None\<rparr>;
                        consumed = (work s1)\<lparr>proxy_sessions :=
                          update_where (\<lambda>r. dps_id r = dps_id grant)
                            (\<lambda>r. r\<lparr>dps_consumed_at := Some now\<rparr>) (proxy_sessions (work s1))\<rparr>
                    in (Inr (session_token, row), s1\<lparr>work := add_proxy_session row consumed\<rparr>))))"

definition validate_connector_session_record ::
  "hub_db \<Rightarrow> device_proxy_session option \<Rightarrow> uuid \<Rightarrow> instant
     \<Rightarrow> (device_proxy_session \<times> user \<times> device) res" where
  "validate_connector_session_record db row device_id now =
     (case row of
        None \<Rightarrow> Inl (HTTPException 401 ''invalid or expired connector session'')
      | Some r \<Rightarrow>
          if dps_phase r \<noteq> ''connector'' \<or> dps_device_id r \<noteq> device_id
             \<or> dps_consumed_at r \<noteq> None \<or> dps_expires_at r \<le> now
          then Inl (HTTPException 401 ''invalid or expired connector session'')
          else
            rbind (require_active_dashboard_session db (dps_dashboard_session_id r) (dps_user_id r) now) (\<lambda>_.
            rbind (require_proxy_access db (dps_user_id r) (dps_device_id r)) (\<lambda>(u, d).
              Inr (r, u, d))))"

text \<open>The row of a token in a phase, for a device.\<close>

definition find_phase ::
  "hub_db \<Rightarrow> string \<Rightarrow> string \<Rightarrow> uuid \<Rightarrow> device_proxy_session option" where
  "find_phase db h phase device_id =
     find (\<lambda>r. dps_token_hash r = h \<and> dps_phase r = phase \<and> dps_device_id r = device_id) (proxy_sessions db)"

definition validate_connector_session ::
  "crypto \<Rightarrow> settings \<Rightarrow> instant \<Rightarrow> string \<Rightarrow> uuid
     \<Rightarrow> (db_session, device_proxy_session \<times> user \<times> device) act" where
  "validate_connector_session cr cfg now token device_id = (\<lambda>s0.
     let s = s0\<lparr>work := delete_expired_proxy_sessions now (work s0)\<rparr>;
         h = hash_session_token cr (cfg_secret_key cfg) token
     in (validate_connector_session_record (work s) (find_phase (work s) h ''connector'' device_id)
           device_id now, s))"

definition validate_connector_session_id ::
  "instant \<Rightarrow> uuid \<Rightarrow> uuid \<Rightarrow> hub_db \<Rightarrow> (device_proxy_session \<times> user \<times> device) res" where
  "validate_connector_session_id now connector_session_id device_id db =
     validate_connector_session_record db (get_proxy_session db connector_session_id) device_id now"

definition validate_proxy_session ::
  "crypto \<Rightarrow> settings \<Rightarrow> instant \<Rightarrow> string \<Rightarrow> uuid
     \<Rightarrow> (db_session, device_proxy_session \<times> user \<times> device) act" where
  "validate_proxy_session cr cfg now session_token device_id = (\<lambda>s0.
     let s = s0\<lparr>work := delete_expired_proxy_sessions now (work s0)\<rparr>;
         h = hash_session_token cr (cfg_secret_key cfg) session_token
     in (case find_phase (work s) h ''session'' device_id of
           None \<Rightarrow> Inl (HTTPException 401 ''invalid or expired proxy session'')
         | Some r \<Rightarrow>
             if dps_consumed_at r \<noteq> None \<or> dps_expires_at r \<le> now
             then Inl (HTTPException 401 ''invalid or expired proxy session'')
             else rbind (require_proxy_access (work s) (dps_user_id r) (dps_device_id r)) (\<lambda>(u, d).
               Inr (r, u, d)), s))"

subsection \<open>Any interleaving of the operations\<close>

datatype proxy_event =
    Granted string
  | Connected string
  | Exchanged string string
  | Rejected
  | Elsewhere

inductive proxy_step :: "crypto \<Rightarrow> settings \<Rightarrow> db_session \<Rightarrow> proxy_event \<Rightarrow> db_session \<Rightarrow> bool"
  for cr cfg where
  grant: "create_proxy_grant cr cfg now token u d s = (Inr t, s')
     \<Longrightarrow> proxy_step cr cfg s (Granted token) s'"
| grant_refused: "create_proxy_grant cr cfg now token u d s = (Inl e, s') \<Longrightarrow> proxy_step cr cfg s Rejected s'"
| connector: "create_connector_session cr cfg now token u d ds s = (Inr t, s')
     \<Longrightarrow> proxy_step cr cfg s (Connected token) s'"
| connector_refused: "create_connector_session cr cfg now token u d ds s = (Inl e, s')
     \<Longrightarrow> proxy_step cr cfg s Rejected s'"
| exchange: "exchange_proxy_grant cr cfg now session_token g s = (Inr r, s')
     \<Longrightarrow> proxy_step cr cfg s (Exchanged g session_token) s'"
| exchange_refused: "exchange_proxy_grant cr cfg now session_token g s = (Inl e, s')
     \<Longrightarrow> proxy_step cr cfg s Rejected s'"
| validate_connector: "validate_connector_session cr cfg now token i s = (v, s')
     \<Longrightarrow> proxy_step cr cfg s Elsewhere s'"
| validate_session: "validate_proxy_session cr cfg now token i s = (v, s')
     \<Longrightarrow> proxy_step cr cfg s Elsewhere s'"
| elsewhere: "proxy_sessions (work s') = proxy_sessions (work s) \<Longrightarrow> proxy_step cr cfg s Elsewhere s'"

inductive proxy_run :: "crypto \<Rightarrow> settings \<Rightarrow> db_session \<Rightarrow> proxy_event list \<Rightarrow> db_session \<Rightarrow> bool"
  for cr cfg where
  run_nil: "proxy_run cr cfg s [] s"
| run_cons: "proxy_step cr cfg s e s1 \<Longrightarrow> proxy_run cr cfg s1 es s2 \<Longrightarrow> proxy_run cr cfg s (e # es) s2"

inductive_cases proxy_run_nilE: "proxy_run cr cfg s [] s'"
inductive_cases proxy_run_consE: "proxy_run cr cfg s (e # es) s'"

subsection \<open>Facts: the rows of one token\<close>

definition rows_of :: "string \<Rightarrow> hub_db \<Rightarrow> device_proxy_session list" where
  "rows_of h db = filter (\<lambda>r. dps_token_hash r = h) (proxy_sessions db)"

definition open_grant :: "device_proxy_session \<Rightarrow> bool" where
  "open_grant r = (dps_phase r = ''grant'' \<and> dps_consumed_at r = None)"

lemma rows_of_add: "rows_of h (add_proxy_session r db) =
    rows_of h db @ (if dps_token_hash r = h then [r] else [])"
  by (simp add: rows_of_def add_proxy_session_def)

lemma rows_of_expired: "rows_of h (delete_expired_proxy_sessions now db)
    = filter (\<lambda>r. \<not> dps_expires_at r \<le> now) (rows_of h db)"
  by (simp add: rows_of_def delete_expired_proxy_sessions_def conj_commute)

lemma rows_of_consume:
  "rows_of h (db\<lparr>proxy_sessions := update_where (\<lambda>r. dps_id r = i)
       (\<lambda>r. r\<lparr>dps_consumed_at := t\<rparr>) (proxy_sessions db)\<rparr>)
    = update_where (\<lambda>r. dps_id r = i) (\<lambda>r. r\<lparr>dps_consumed_at := t\<rparr>) (rows_of h db)"
proof -
  have "filter (\<lambda>r. dps_token_hash r = h) (update_where (\<lambda>r. dps_id r = i) (\<lambda>r. r\<lparr>dps_consumed_at := t\<rparr>) xs)
      = update_where (\<lambda>r. dps_id r = i) (\<lambda>r. r\<lparr>dps_consumed_at := t\<rparr>) (filter (\<lambda>r. dps_token_hash r = h) xs)" for xs
    by (induction xs) (auto simp: update_where_def)
  then show ?thesis by (simp add: rows_of_def)
qed

lemma find_hash_Some: "find_hash db h = Some r \<Longrightarrow> r \<in> set (rows_of h db)"
  by (auto simp: find_hash_def rows_of_def dest!: find_SomeD)

text \<open>What a step does to the rows of a token that it does not draw.\<close>

definition drawn :: "proxy_event \<Rightarrow> string list" where
  "drawn e = (case e of Granted t \<Rightarrow> [t] | Connected t \<Rightarrow> [t] | Exchanged g t \<Rightarrow> [t] | _ \<Rightarrow> [])"

definition spent :: "string \<Rightarrow> hub_db \<Rightarrow> bool" where
  "spent h db \<longleftrightarrow> (\<forall>r\<in>set (rows_of h db). \<not> open_grant r)"

definition unique_rows :: "string \<Rightarrow> hub_db \<Rightarrow> bool" where
  "unique_rows h db \<longleftrightarrow> length (rows_of h db) \<le> 1"

lemma exchange_Inr:
  assumes "exchange_proxy_grant cr cfg now session_token g s = (Inr r, s')"
  obtains grant row where "grant \<in> set (rows_of (hash_session_token cr (cfg_secret_key cfg) g) (work s))"
    "open_grant grant" "dps_token_hash row = hash_session_token cr (cfg_secret_key cfg) session_token"
    "proxy_sessions (work s') = update_where (\<lambda>r. dps_id r = dps_id grant) (\<lambda>r. r\<lparr>dps_consumed_at := Some now\<rparr>)
       (proxy_sessions (delete_expired_proxy_sessions now (work s))) @ [row]"
proof -
  let ?h = "hash_session_token cr (cfg_secret_key cfg) g" and ?d = "delete_expired_proxy_sessions now (work s)"
  from assms obtain grant where f: "find_hash ?d ?h = Some grant" and u: "grant_usable now grant"
    by (auto simp: exchange_proxy_grant_def Let_def split: option.splits if_splits)
  from find_hash_Some [OF f] have "grant \<in> set (rows_of ?h (work s))" by (auto simp: rows_of_expired)
  with assms f u that show thesis
    by (auto simp: exchange_proxy_grant_def Let_def fresh_uuid_def add_proxy_session_def grant_usable_def
        open_grant_def split: sum.splits)
qed

lemma proxy_step_rows:
  assumes "proxy_step cr cfg s e s'"
    and new: "\<And>t. t \<in> set (drawn e) \<Longrightarrow> hash_session_token cr (cfg_secret_key cfg) t \<noteq> h"
  obtains (rows) p q f where
    "rows_of h (work s') = map (\<lambda>r. if q r then r\<lparr>dps_consumed_at := Some f\<rparr> else r) (filter p (rows_of h (work s)))"
proof -
  have del: thesis if "rows_of h (work s') = rows_of h (delete_expired_proxy_sessions now (work s))" for now
    using that by (intro rows [of "\<lambda>_. False" _ "\<lambda>r. \<not> dps_expires_at r \<le> now"]) (simp add: rows_of_expired)
  show thesis using assms(1)
  proof (cases rule: proxy_step.cases)
    case (grant now token u d t)
    then show ?thesis using new
      by (intro del [of now])
        (auto simp: create_proxy_grant_def Let_def fresh_uuid_def rows_of_add drawn_def split: sum.splits)
  next
    case (grant_refused now token u d e)
    then show ?thesis
      by (intro del [of now]) (auto simp: create_proxy_grant_def Let_def fresh_uuid_def split: sum.splits)
  next
    case (connector now token u d ds t)
    then show ?thesis using new
      by (intro del [of now])
        (auto simp: create_connector_session_def Let_def fresh_uuid_def rows_of_add drawn_def split: sum.splits)
  next
    case (connector_refused now token u d ds e)
    then show ?thesis
      by (intro del [of now]) (auto simp: create_connector_session_def Let_def fresh_uuid_def split: sum.splits)
  next
    case (exchange now session_token g r)
    from exchange_Inr [OF exchange(2)] obtain grant row where
      "grant \<in> set (rows_of (hash_session_token cr (cfg_secret_key cfg) g) (work s))" "open_grant grant" and
      row: "dps_token_hash row = hash_session_token cr (cfg_secret_key cfg) session_token" and
      w: "proxy_sessions (work s') = update_where (\<lambda>r. dps_id r = dps_id grant) (\<lambda>r. r\<lparr>dps_consumed_at := Some now\<rparr>)
         (proxy_sessions (delete_expired_proxy_sessions now (work s))) @ [row]" .
    have "rows_of h (work s') = update_where (\<lambda>r. dps_id r = dps_id grant) (\<lambda>r. r\<lparr>dps_consumed_at := Some now\<rparr>)
        (rows_of h (delete_expired_proxy_sessions now (work s)))"
      using row new exchange(1) w
        rows_of_consume [where h = h and db = "delete_expired_proxy_sessions now (work s)"
          and i = "dps_id grant" and t = "Some now"]
      by (simp add: rows_of_def drawn_def)
    then show ?thesis
      by (intro rows [of "\<lambda>r. dps_id r = dps_id grant" now "\<lambda>r. \<not> dps_expires_at r \<le> now"])
        (simp add: update_where_def rows_of_expired)
  next
    case (exchange_refused now session_token g e)
    then show ?thesis
      by (intro del [of now])
        (auto simp: exchange_proxy_grant_def Let_def fresh_uuid_def split: sum.splits option.splits if_splits)
  next
    case (validate_connector now token i v)
    then show ?thesis by (intro del [of now]) (auto simp: validate_connector_session_def Let_def)
  next
    case (validate_session now token i v)
    then show ?thesis by (intro del [of now]) (auto simp: validate_proxy_session_def Let_def)
  next
    case elsewhere
    then show ?thesis by (intro rows [of "\<lambda>_. False" 0 "\<lambda>_. True"]) (simp add: rows_of_def)
  qed
qed

lemma proxy_step_spent:
  assumes "proxy_step cr cfg s e s'" and "\<And>t. t \<in> set (drawn e) \<Longrightarrow> hash_session_token cr (cfg_secret_key cfg) t \<noteq> h"
  shows "spent h (work s) \<Longrightarrow> spent h (work s')" "unique_rows h (work s) \<Longrightarrow> unique_rows h (work s')"
proof -
  from proxy_step_rows [OF assms] obtain p q f where
    w: "rows_of h (work s') = map (\<lambda>r. if q r then r\<lparr>dps_consumed_at := Some f\<rparr> else r) (filter p (rows_of h (work s)))" .
  then show "spent h (work s) \<Longrightarrow> spent h (work s')" by (auto simp: spent_def open_grant_def)
  from w have "length (rows_of h (work s')) \<le> length (rows_of h (work s))" by simp
  then show "unique_rows h (work s) \<Longrightarrow> unique_rows h (work s')" unfolding unique_rows_def by linarith
qed

lemma exchange_spends:
  assumes "proxy_step cr cfg s (Exchanged g t) s'" and "unique_rows h (work s)"
    and h: "h = hash_session_token cr (cfg_secret_key cfg) g"
    and "hash_session_token cr (cfg_secret_key cfg) t \<noteq> h"
  shows "\<not> spent h (work s)" "spent h (work s')"
proof -
  from assms(1) obtain now r where "exchange_proxy_grant cr cfg now t g s = (Inr r, s')"
    by (auto elim: proxy_step.cases)
  from exchange_Inr [OF this, folded h] obtain grant row where
    g: "grant \<in> set (rows_of h (work s))" "open_grant grant" and
    row: "dps_token_hash row = hash_session_token cr (cfg_secret_key cfg) t" and
    w: "proxy_sessions (work s') = update_where (\<lambda>r. dps_id r = dps_id grant) (\<lambda>r. r\<lparr>dps_consumed_at := Some now\<rparr>)
         (proxy_sessions (delete_expired_proxy_sessions now (work s))) @ [row]" .
  show "\<not> spent h (work s)" using g by (auto simp: spent_def)
  have one: "rows_of h (work s) = [grant]"
    using g(1) assms(2) by (cases "rows_of h (work s)") (auto simp: unique_rows_def)
  have "rows_of h (work s') = update_where (\<lambda>r. dps_id r = dps_id grant) (\<lambda>r. r\<lparr>dps_consumed_at := Some now\<rparr>)
      (rows_of h (delete_expired_proxy_sessions now (work s)))"
    using row assms(4) w
      rows_of_consume [where h = h and db = "delete_expired_proxy_sessions now (work s)"
          and i = "dps_id grant" and t = "Some now"]
    by (simp add: rows_of_def)
  then show "spent h (work s')"
    by (auto simp: spent_def open_grant_def rows_of_expired one update_where_def)
qed

lemma no_exchange_when_spent:
  assumes "proxy_run cr cfg s es s'" and "spent (hash_session_token cr (cfg_secret_key cfg) g) (work s)"
    and "unique_rows (hash_session_token cr (cfg_secret_key cfg) g) (work s)"
    and "\<forall>e\<in>set es. \<forall>t\<in>set (drawn e). hash_session_token cr (cfg_secret_key cfg) t
          \<noteq> hash_session_token cr (cfg_secret_key cfg) g"
  shows "Exchanged g t \<notin> set es"
  using assms
proof (induction rule: proxy_run.induct)
  case (run_cons s e s1 es s2)
  have "e \<noteq> Exchanged g t"
    using exchange_spends(1) [OF _ run_cons.prems(2) refl, of t s1] run_cons.hyps(1) run_cons.prems(1,3)
    by (auto simp: drawn_def)
  moreover have "Exchanged g t \<notin> set es"
    using run_cons.IH proxy_step_spent [OF run_cons.hyps(1)] run_cons.prems by simp
  ultimately show ?case by simp
qed simp

subsection \<open>Properties\<close>

definition exchange_of :: "string \<Rightarrow> proxy_event \<Rightarrow> bool" where
  "exchange_of g e = (case e of Exchanged g' t \<Rightarrow> g' = g | _ \<Rightarrow> False)"


definition example_proxy :: "string \<Rightarrow> uuid option \<Rightarrow> db_session" where
  "example_proxy phase dashboard = open_session
     (empty_db\<lparr>users := [\<lparr>usr_id = 1, usr_email = ''a@b'', usr_password_hash = [], usr_first_name = None,
            usr_last_name = None, usr_auth_provider = None, usr_role = ''administrator'',
            usr_mfa_enabled = False, usr_mfa_secret = None, usr_created_at = 0\<rparr>],
        devices := [default_device 2 0],
        sessions := [\<lparr>ses_id = 3, ses_user_id = 1, ses_token_hash = [], ses_ip_address = None,
            ses_user_agent = None, ses_created_at = 0, ses_expires_at = 100, ses_revoked_at = None\<rparr>],
        proxy_sessions := [\<lparr>dps_id = 4, dps_user_id = 1, dps_device_id = 2, dps_dashboard_session_id = dashboard,
            dps_token_hash = hash_session_token example_crypto ''k'' ''g'', dps_phase = phase, dps_created_at = 0,
            dps_expires_at = 50, dps_consumed_at = None\<rparr>]\<rparr>) 9"

definition example_proxy_cfg :: settings where
  "example_proxy_cfg = default_settings\<lparr>cfg_secret_key := ''k''\<rparr>"

lemmas example_proxy_eval = example_proxy_def example_proxy_cfg_def open_session_def empty_db_def get_user_def
  get_device_def get_session_token_def default_device_def has_company_access_def is_global_admin_def
  delete_expired_proxy_sessions_def require_proxy_access_def find_hash_def find_phase_def grant_usable_def
  fresh_uuid_def


lemma validate_connector_Inr:
  assumes "validate_connector_session cr cfg now token i s = (Inr (r, u, d), s')"
  obtains ds where "r \<in> set (proxy_sessions (work s))" "dps_phase r = ''connector''" "now < dps_expires_at r"
    "dps_token_hash r = hash_session_token cr (cfg_secret_key cfg) token"
    "get_device (work s) i = Some d" "dev_revoked_at d = None"
    "has_company_access (work s) u (dev_company_id d) ''viewer'' = Inr True"
    "dps_dashboard_session_id r = Some (ses_id ds)" "get_session_token (work s) (ses_id ds) = Some ds"
    "ses_user_id ds = dps_user_id r" "get_user (work s) (dps_user_id r) = Some u"
    "ses_revoked_at ds = None" "now < ses_expires_at ds"
proof -
  let ?w = "delete_expired_proxy_sessions now (work s)"
  let ?h = "hash_session_token cr (cfg_secret_key cfg) token"
  have tables [simp]: "get_user ?w = get_user (work s)" "get_device ?w = get_device (work s)"
    "get_session_token ?w = get_session_token (work s)"
    "has_company_access ?w = has_company_access (work s)"
    by (auto simp: delete_expired_proxy_sessions_def get_user_def get_device_def get_session_token_def
        has_company_access_def has_company_role_def get_company_role_def fun_eq_iff)
  from assms have v: "validate_connector_session_record ?w (find_phase ?w ?h ''connector'' i) i now = Inr (r, u, d)"
    by (auto simp: validate_connector_session_def Let_def)
  then have f: "find_phase ?w ?h ''connector'' i = Some r"
    by (auto simp: validate_connector_session_record_def rbind_Inr_iff split: option.splits if_splits)
  from f have r: "r \<in> set (proxy_sessions (work s))" "dps_phase r = ''connector''" "dps_device_id r = i"
    "dps_token_hash r = ?h"
    by (auto simp: find_phase_def delete_expired_proxy_sessions_def dest!: find_SomeD)
  from v f obtain ds where
    a: "require_active_dashboard_session ?w (dps_dashboard_session_id r) (dps_user_id r) now = Inr ds" and
    p: "require_proxy_access ?w (dps_user_id r) (dps_device_id r) = Inr (u, d)" and x: "\<not> dps_expires_at r \<le> now"
    by (auto simp: validate_connector_session_record_def rbind_Inr_iff split: if_splits)
  from a have ds: "dps_dashboard_session_id r = Some (ses_id ds)" "get_session_token (work s) (ses_id ds) = Some ds"
    "ses_user_id ds = dps_user_id r" "ses_revoked_at ds = None" "now < ses_expires_at ds"
    by (auto simp: require_active_dashboard_session_def get_session_token_def bind_eq_Some_conv
        split: option.splits if_splits dest: find_SomeD)
  from p r(3) have d: "get_device (work s) i = Some d" "get_user (work s) (dps_user_id r) = Some u"
    "dev_revoked_at d = None" "has_company_access (work s) u (dev_company_id d) ''viewer'' = Inr True"
    by (auto simp: require_proxy_access_def rbind_Inr_iff split: option.splits if_splits)
  from r ds d x show thesis by (intro that) auto
qed

lemma connector_record_gone:
  assumes "dps_dashboard_session_id r = Some i"
    and "\<And>ds. get_session_token db i = Some ds \<Longrightarrow> ses_revoked_at ds \<noteq> None \<or> ses_user_id ds \<noteq> dps_user_id r"
  shows "\<exists>e. validate_connector_session_record db (Some r) device_id later = Inl e"
  using assms
  by (cases "get_session_token db i")
    (auto simp: validate_connector_session_record_def require_active_dashboard_session_def rbind_def)

lemma get_proxy_session_mem:
  "r \<in> set (proxy_sessions db) \<Longrightarrow> distinct (map dps_id (proxy_sessions db))
     \<Longrightarrow> get_proxy_session db (dps_id r) = Some r"
proof -
  have "r \<in> set xs \<Longrightarrow> distinct (map dps_id xs) \<Longrightarrow> find (\<lambda>y. dps_id y = dps_id r) xs = Some r" for xs
    by (induction xs) auto
  then show "r \<in> set (proxy_sessions db) \<Longrightarrow> distinct (map dps_id (proxy_sessions db))
     \<Longrightarrow> get_proxy_session db (dps_id r) = Some r" by (simp add: get_proxy_session_def)
qed



end
