(* ===== verification/Proxy_Router.thy ===== *)
theory Proxy_Router
  imports Proxy_Auth Wireguard Rate_Limit Firmware "HOL-Library.AList"
begin

text \<open>
  The firewall access endpoints: \<open>dashboard/app/routers/proxy.py\<close>. Opening a connector or Hub proxy
  session, the tunnel of the connector with its count of connections, and the request headers that
  the Hub proxy sends on to a firewall. The sockets are outcomes in the tunnel's input: what the
  connection attempt and the relay end with. The rewriting of response bodies by regular
  expressions is not modelled.
\<close>

subsection \<open>Targets and devices\<close>

definition validate_proxy_device_target :: "settings \<Rightarrow> device \<Rightarrow> string res" where
  "validate_proxy_device_target cfg d =
     rbind (tunnel_proxy_host (dev_wg_tunnel_ip d)) (\<lambda>proxy_host.
       case ip_address proxy_host of
         None \<Rightarrow> Inl ValueError
       | Some target \<Rightarrow>
           rbind (get_validated_hub_wireguard_config cfg) (\<lambda>vc.
             case target of
               V6 w sc \<Rightarrow> Inl ValueError
             | V4 ip \<Rightarrow>
                 if \<not> in_net4 ip (vc_network vc) then Inl ValueError
                 else if ip \<in> {vc_hub_ip vc, n4_addr (vc_network vc), broadcast4 (vc_network vc)}
                 then Inl ValueError
                 else Inr (show_ipv4 ip)))"

definition not_found :: exn where
  "not_found = HTTPException 404 ''Not Found''"

definition require_dashboard_device :: "hub_db \<Rightarrow> user \<Rightarrow> uuid \<Rightarrow> device res" where
  "require_dashboard_device db u device_id =
     (case get_device db device_id of
        None \<Rightarrow> Inl not_found
      | Some d \<Rightarrow>
          if dev_revoked_at d \<noteq> None \<or> lower (dev_status d) = ''revoked'' then Inl not_found
          else rbind (has_company_access db u (dev_company_id d) ''viewer'') (\<lambda>ok.
            if ok then Inr d else Inl not_found))"

definition bad_proxy_url :: exn where
  "bad_proxy_url = HTTPException 500 ''PROXY_PUBLIC_URL is invalid''"

text \<open>\<open>username\<close> and \<open>password\<close> of a URL are both \<open>None\<close> exactly when its netloc has no at sign.\<close>

definition proxy_base_hostname :: "settings \<Rightarrow> string res" where
  "proxy_base_hostname cfg =
     (case urlparse (cfg_proxy_public_url cfg) of
        None \<Rightarrow> Inl bad_proxy_url
      | Some parsed \<Rightarrow>
          if url_port parsed = None then Inl bad_proxy_url
          else if url_scheme parsed \<noteq> ''https'' \<or> \<not> nonempty (url_hostname parsed)
            \<or> CHR ''@'' \<in> set (url_netloc parsed)
          then Inl bad_proxy_url
          else Inr (lower (the (url_hostname parsed))))"

definition firewall_access_mode :: "settings \<Rightarrow> string" where
  "firewall_access_mode cfg = lower (strip (cfg_firewall_access_mode cfg))"

subsection \<open>Opening a connector\<close>

datatype opened = Redirected string | Handoff string

record 'r proxy_world =
  px_db :: db_session
  px_limits :: "buckets \<times> 'r"

definition open_device_connector ::
  "crypto \<Rightarrow> settings \<Rightarrow> 'r redis_client \<Rightarrow> backend \<Rightarrow> instant \<Rightarrow> string \<Rightarrow> request \<Rightarrow> user \<Rightarrow> uuid
     \<Rightarrow> ('r proxy_world, opened) act" where
  "open_device_connector cr cfg cl backend now token rq u device_id = (\<lambda>w0.
     case require_dashboard_device (work (px_db w0)) u device_id of
       Inl e \<Rightarrow> (Inl e, w0)
     | Inr device \<Rightarrow>
       (case apply_rate_limit cfg cl backend now rq ''device-connector-open'' (uuid_str (usr_id u))
               (cfg_rate_limit_device_access_attempts cfg) (cfg_rate_limit_device_access_window_seconds cfg)
               (px_limits w0) of
          (Inl e, l) \<Rightarrow> (Inl e, w0\<lparr>px_limits := l\<rparr>)
        | (Inr _, l) \<Rightarrow>
          (let w = w0\<lparr>px_limits := l\<rparr> in
           case validate_proxy_device_target cfg device of
             Inl e \<Rightarrow> (Inl e, w)
           | Inr _ \<Rightarrow>
             if firewall_access_mode cfg = ''hub_proxy'' then
               (Inr (Redirected (''/proxy/devices/'' @ uuid_str (dev_id device) @ ''/'')),
                w\<lparr>px_db := commit (snd (write_audit cfg now (Some rq) ''device.hub_proxy.open''
                   (Some (usr_id u)) (Some (dev_company_id device)) (Some (dev_id device)) (px_db w)))\<rparr>)
             else
               (case session_from_request cr cfg now rq (work (px_db w)) of
                  Inl e \<Rightarrow> (Inl e, w)
                | Inr dashboard \<Rightarrow>
                  (case create_connector_session cr cfg now token u device dashboard (px_db w) of
                     (Inl e, s) \<Rightarrow> (Inl e, w\<lparr>px_db := s\<rparr>)
                   | (Inr t, s) \<Rightarrow>
                       (Inr (Handoff t),
                        w\<lparr>px_db := commit (snd (write_audit cfg now (Some rq) ''device.connector.open''
                           (Some (usr_id u)) (Some (dev_company_id device)) (Some (dev_id device)) s))\<rparr>))))))"

subsection \<open>Connections of a connector\<close>

definition bearer_token :: "string option \<Rightarrow> string option" where
  "bearer_token authorization =
     (if \<not> nonempty authorization \<or> \<not> startswith (the authorization) ''Bearer '' then None
      else let token = strip (removeprefix (the authorization) ''Bearer '') in
           if token = [] then None else Some token)"

record tunnels =
  tn_counts :: "uuid \<rightharpoonup> int"
  tn_websockets :: "uuid \<rightharpoonup> nat set"
  tn_tasks :: "uuid \<rightharpoonup> nat set"

definition connection_count :: "tunnels \<Rightarrow> uuid \<Rightarrow> int" where
  "connection_count t i = (case tn_counts t i of None \<Rightarrow> 0 | Some n \<Rightarrow> n)"

definition reserve_connector_connection :: "settings \<Rightarrow> uuid \<Rightarrow> tunnels \<Rightarrow> bool \<times> tunnels" where
  "reserve_connector_connection cfg session_id t =
     (let current = connection_count t session_id in
      if current \<ge> cfg_connector_max_connections cfg then (False, t)
      else (True, t\<lparr>tn_counts := (tn_counts t)(session_id \<mapsto> current + 1)\<rparr>))"

definition add_to :: "uuid \<Rightarrow> nat \<Rightarrow> (uuid \<rightharpoonup> nat set) \<Rightarrow> (uuid \<rightharpoonup> nat set)" where
  "add_to i x m = m(i \<mapsto> insert x (case m i of None \<Rightarrow> {} | Some s \<Rightarrow> s))"

definition remove_from :: "uuid \<Rightarrow> nat \<Rightarrow> (uuid \<rightharpoonup> nat set) \<Rightarrow> (uuid \<rightharpoonup> nat set)" where
  "remove_from i x m =
     (case m i of None \<Rightarrow> m | Some s \<Rightarrow> if s - {x} = {} then m(i := None) else m(i \<mapsto> s - {x}))"

definition track_connector_connection :: "uuid \<Rightarrow> nat \<Rightarrow> nat \<Rightarrow> tunnels \<Rightarrow> tunnels" where
  "track_connector_connection device_id websocket task t =
     t\<lparr>tn_websockets := add_to device_id websocket (tn_websockets t),
       tn_tasks := add_to device_id task (tn_tasks t)\<rparr>"

definition release_connector_connection :: "uuid \<Rightarrow> uuid \<Rightarrow> nat \<Rightarrow> nat \<Rightarrow> tunnels \<Rightarrow> tunnels" where
  "release_connector_connection session_id device_id websocket task t =
     (let current = connection_count t session_id in
      t\<lparr>tn_counts := (if current \<le> 1 then (tn_counts t)(session_id := None)
                      else (tn_counts t)(session_id \<mapsto> current - 1)),
        tn_websockets := remove_from device_id websocket (tn_websockets t),
        tn_tasks := remove_from device_id task (tn_tasks t)\<rparr>)"

text \<open>\<open>close_device_access\<close>: the sockets and tasks of a device, which are then cancelled and closed.\<close>

definition close_device_access :: "uuid \<Rightarrow> tunnels \<Rightarrow> (nat set \<times> nat set) \<times> tunnels" where
  "close_device_access device_id t =
     ((case tn_websockets t device_id of None \<Rightarrow> {} | Some s \<Rightarrow> s,
       case tn_tasks t device_id of None \<Rightarrow> {} | Some s \<Rightarrow> s),
      t\<lparr>tn_websockets := (tn_websockets t)(device_id := None),
        tn_tasks := (tn_tasks t)(device_id := None)\<rparr>)"

definition connector_session_is_authorized :: "instant \<Rightarrow> uuid \<Rightarrow> uuid \<Rightarrow> hub_db \<Rightarrow> bool res" where
  "connector_session_is_authorized now connector_session_id device_id db =
     (case validate_connector_session_id now connector_session_id device_id db of
        Inr _ \<Rightarrow> Inr True
      | Inl (HTTPException c m) \<Rightarrow> Inr False
      | Inl ValueError \<Rightarrow> Inr False
      | Inl e \<Rightarrow> Inl e)"

definition wireguard_agent_connect_url :: "settings \<Rightarrow> string \<Rightarrow> int \<Rightarrow> string res" where
  "wireguard_agent_connect_url cfg target_host target_port =
     (if \<not> nonempty (cfg_wg_agent_url cfg) then Inl (RuntimeError ''WG_AGENT_URL is not configured'')
      else
        let base = rstrip_chars ''/'' (the (cfg_wg_agent_url cfg));
            rest = ''/connect?host='' @ quote_with [] target_host @ ''&port='' @ int_str target_port
        in if startswith base ''https://'' then Inr (''wss://'' @ removeprefix base ''https://'' @ rest)
           else if startswith base ''http://'' then Inr (''ws://'' @ removeprefix base ''http://'' @ rest)
           else Inl (RuntimeError ''WG_AGENT_URL must start with http:// or https://''))"

subsection \<open>The tunnel of a connector\<close>

datatype connect_outcome = ConnectOpened | ConnectFailed | ConnectRaised exn

datatype relay_outcome = RelayFinished | RelayTimedOut | AuthorizationEnded | RelayRaised exn

text \<open>What the world outside gives the handler: the sockets' identities, the times of its steps, the
  committed tables that its two rechecks see, and how the connection and the relay end.\<close>

record tunnel_input =
  ti_authorization :: "string option"
  ti_websocket :: nat
  ti_task :: nat
  ti_now :: instant
  ti_first_check :: "instant \<times> hub_db"
  ti_connect :: connect_outcome
  ti_second_check :: "instant \<times> hub_db"
  ti_accepted :: instant
  ti_relay :: relay_outcome

datatype tunnel_end = Closed int string | Finished | Raised exn

definition swallowed :: "exn \<Rightarrow> bool" where
  "swallowed e = (case e of RuntimeError m \<Rightarrow> True | WireGuardError m \<Rightarrow> True
     | ExternalError c \<Rightarrow> c = ''WebSocketDisconnect'' | _ \<Rightarrow> False)"

definition swallow :: "exn \<Rightarrow> tunnel_end" where
  "swallow e = (if swallowed e then Finished else Raised e)"

text \<open>\<open>remaining\<close> is a maximum with zero, so it is positive exactly when the session has not expired.\<close>

definition relay_tunnel :: "settings \<Rightarrow> instant \<Rightarrow> tunnel_input \<Rightarrow> tunnel_end" where
  "relay_tunnel cfg expires_at ti =
     (if expires_at - ti_accepted ti \<le> 0 then Closed 4401 ''connector session expired''
      else case ti_relay ti of
          RelayFinished \<Rightarrow> Finished
        | RelayTimedOut \<Rightarrow> Closed 1000 ''connector session ended''
        | AuthorizationEnded \<Rightarrow> Closed 4403 ''connector authorization ended''
        | RelayRaised e \<Rightarrow> swallow e)"

text \<open>From \<open>agent = None\<close> on.\<close>

definition connect_tunnel :: "settings \<Rightarrow> string \<Rightarrow> uuid \<Rightarrow> instant \<Rightarrow> uuid \<Rightarrow> tunnel_input \<Rightarrow> tunnel_end" where
  "connect_tunnel cfg target_host session_id expires_at device_id ti =
     (let dialled =
          (if nonempty (cfg_wg_agent_url cfg) then
             (if \<not> nonempty (cfg_wg_agent_token cfg) then Inr ConnectFailed
              else rbind (wireguard_agent_connect_url cfg target_host (cfg_opnsense_gui_port cfg))
                     (\<lambda>_. Inr (ti_connect ti)))
           else Inr (ti_connect ti))
      in case dialled of
           Inl e \<Rightarrow> swallow e
         | Inr (ConnectRaised e) \<Rightarrow> swallow e
         | Inr ConnectFailed \<Rightarrow> Closed 4502 ''firewall connection failed''
         | Inr ConnectOpened \<Rightarrow>
             (case connector_session_is_authorized (fst (ti_second_check ti)) session_id device_id
                     (snd (ti_second_check ti)) of
                Inl e \<Rightarrow> swallow e
              | Inr False \<Rightarrow> Closed 4401 ''invalid connector authorization''
              | Inr True \<Rightarrow> relay_tunnel cfg expires_at ti))"

text \<open>The reserved part of the handler. When the first recheck does not return True, the \<open>finally\<close>
  block reads \<open>agent\<close> before it was assigned, and the connection is not released.\<close>

definition reserved_tunnel ::
  "settings \<Rightarrow> string \<Rightarrow> uuid \<Rightarrow> instant \<Rightarrow> uuid \<Rightarrow> tunnel_input \<Rightarrow> tunnels \<Rightarrow> tunnel_end \<times> tunnels" where
  "reserved_tunnel cfg target_host session_id expires_at device_id ti t =
     (case connector_session_is_authorized (fst (ti_first_check ti)) session_id device_id
             (snd (ti_first_check ti)) of
        Inr True \<Rightarrow>
          (connect_tunnel cfg target_host session_id expires_at device_id ti,
           release_connector_connection session_id device_id (ti_websocket ti) (ti_task ti) t)
      | _ \<Rightarrow> (Raised (ExternalError ''UnboundLocalError''), t))"

definition connector_device_tunnel ::
  "crypto \<Rightarrow> settings \<Rightarrow> uuid \<Rightarrow> tunnel_input \<Rightarrow> db_session \<times> tunnels \<Rightarrow> tunnel_end \<times> db_session \<times> tunnels" where
  "connector_device_tunnel cr cfg device_id ti = (\<lambda>(s0, t).
     case bearer_token (ti_authorization ti) of
       None \<Rightarrow> (Closed 4401 ''connector authorization required'', s0, t)
     | Some token \<Rightarrow>
       (case validate_connector_session cr cfg (ti_now ti) token device_id s0 of (v, s) \<Rightarrow>
          (case rbind v (\<lambda>(row, u, d). rbind (validate_proxy_device_target cfg d) (\<lambda>host. Inr (row, host))) of
             Inl e \<Rightarrow>
               ((case e of HTTPException c m \<Rightarrow> Closed 4401 ''invalid connector authorization''
                  | ValueError \<Rightarrow> Closed 4401 ''invalid connector authorization''
                  | _ \<Rightarrow> Raised e), rollback s, t)
           | Inr (row, host) \<Rightarrow>
               (case reserve_connector_connection cfg (dps_id row) t of
                  (False, t1) \<Rightarrow> (Closed 4429 ''connector connection limit reached'', commit s, t1)
                | (True, t1) \<Rightarrow>
                    (case reserved_tunnel cfg host (dps_id row) (dps_expires_at row) device_id ti
                            (track_connector_connection device_id (ti_websocket ti) (ti_task ti) t1) of
                       (r, t2) \<Rightarrow> (r, commit s, t2))))))"

subsection \<open>The Hub proxy: headers of a request\<close>

record proxied_request =
  pr_headers :: "(string \<times> string) list"
  pr_cookies :: "(string \<times> string) list"

definition hub_proxy_cookie_prefix :: "uuid \<Rightarrow> string" where
  "hub_proxy_cookie_prefix device_id = ''opnhub_fw_'' @ uuid_hex device_id @ ''_''"

definition excluded_request_headers :: "string set" where
  "excluded_request_headers =
     {''connection'', ''content-length'', ''host'', ''proxy-authorization'', ''proxy-connection'', ''te'',
      ''trailer'', ''transfer-encoding'', ''upgrade''}"

definition firewall_origin :: "settings \<Rightarrow> string \<Rightarrow> string" where
  "firewall_origin cfg target_host =
     ''https://'' @ target_host @ '':'' @ int_str (cfg_opnsense_gui_port cfg)"

definition rewrite_firewall_request_referer :: "settings \<Rightarrow> string \<Rightarrow> uuid \<Rightarrow> string \<Rightarrow> string res" where
  "rewrite_firewall_request_referer cfg v device_id target_host =
     (case urlparse v of
        None \<Rightarrow> Inl ValueError
      | Some parsed \<Rightarrow>
          let proxy_prefix = ''/proxy/devices/'' @ uuid_str device_id in
          if url_scheme parsed \<in> {''http'', ''https''} \<and> startswith (url_path parsed) proxy_prefix then
            let rest = removeprefix (url_path parsed) proxy_prefix;
                firewall_path = (if rest = [] then ''/'' else rest)
            in Inr (firewall_origin cfg target_host @ firewall_path
                 @ (if url_query parsed \<noteq> [] then ''?'' @ url_query parsed else []))
          else Inr v)"

text \<open>A Python dictionary in insertion order, filled from the pairs of the request.\<close>

definition dict_of :: "(string \<times> string) list \<Rightarrow> (string \<times> string) list" where
  "dict_of kvs = fold (\<lambda>(k, v) d. AList.update k v d) kvs []"

definition forwarded_header :: "settings \<Rightarrow> uuid \<Rightarrow> string \<Rightarrow> string \<times> string \<Rightarrow> (string \<times> string) res" where
  "forwarded_header cfg device_id target_host kv =
     (if lower (fst kv) = ''referer'' then
        rbind (rewrite_firewall_request_referer cfg (snd kv) device_id target_host) (\<lambda>v. Inr (fst kv, v))
      else if lower (fst kv) = ''origin'' then Inr (fst kv, firewall_origin cfg target_host)
      else Inr kv)"

definition upstream_cookies :: "uuid \<Rightarrow> (string \<times> string) list \<Rightarrow> string list" where
  "upstream_cookies device_id cookies =
     map (\<lambda>(n, v). removeprefix n (hub_proxy_cookie_prefix device_id) @ ''='' @ v)
       (filter (\<lambda>(n, v). startswith n (hub_proxy_cookie_prefix device_id)) cookies)"

definition request_headers_for_firewall ::
  "settings \<Rightarrow> proxied_request \<Rightarrow> uuid \<Rightarrow> string \<Rightarrow> (string \<times> string) list res" where
  "request_headers_for_firewall cfg rq device_id target_host =
     rbind (rmap_list (forwarded_header cfg device_id target_host)
        (dict_of (filter (\<lambda>(k, v). lower k \<notin> excluded_request_headers \<and> lower k \<noteq> ''cookie'')
           (pr_headers rq)))) (\<lambda>headers.
       let cookies = upstream_cookies device_id (pr_cookies rq)
       in Inr (if cookies \<noteq> [] then AList.update ''cookie'' (join ''; '' cookies) headers else headers))"

definition rewrite_firewall_location :: "string \<Rightarrow> uuid \<Rightarrow> string \<Rightarrow> string res" where
  "rewrite_firewall_location location device_id target_host =
     (case urlparse location of
        None \<Rightarrow> Inl ValueError
      | Some parsed \<Rightarrow>
          let proxy_base = ''/proxy/devices/'' @ uuid_str device_id in
          if url_scheme parsed \<in> {''http'', ''https''} \<and> url_hostname parsed = Some target_host then
            Inr (proxy_base @ (if url_path parsed = [] then ''/'' else url_path parsed)
              @ (if url_query parsed \<noteq> [] then ''?'' @ url_query parsed else []))
          else if startswith location ''/'' then Inr (proxy_base @ location)
          else Inr location)"

subsection \<open>The Hub proxy: replies of the agent\<close>

definition invalid_proxy_response :: exn where
  "invalid_proxy_response = HTTPException 502 ''invalid firewall proxy response''"

fun header_pair :: "json \<Rightarrow> (string \<times> string) res" where
  "header_pair (JList [k, v]) = Inr (py_str k, py_str v)"
| "header_pair _ = Inl invalid_proxy_response"

definition agent_header_pairs :: "(string \<times> json) list \<Rightarrow> (string \<times> string) list res" where
  "agent_header_pairs payload =
     (case map_of payload ''headers'' of
        None \<Rightarrow> Inr []
      | Some j \<Rightarrow>
          if \<not> json_true j then Inr []
          else (case j of JList xs \<Rightarrow> rmap_list header_pair xs | _ \<Rightarrow> Inl invalid_proxy_response))"

text \<open>The reply's status code and its body, \<^const>\<open>None\<close> when it is not JSON.\<close>

definition agent_failure_detail :: "int \<Rightarrow> json option \<Rightarrow> string" where
  "agent_failure_detail status_code body =
     (let detail = (case body of Some (JObj payload) \<Rightarrow> map_of payload ''detail'' | _ \<Rightarrow> None) in
      case (case detail of Some (JStr s) \<Rightarrow> strip s | _ \<Rightarrow> []) of
        c # s \<Rightarrow> c # s
      | [] \<Rightarrow>
          if status_code = 401 then ''WireGuard agent rejected the proxy request; check WG_AGENT_TOKEN''
          else if status_code = 400 then ''WireGuard agent rejected the firewall target; check HUB_WG_CIDR and OPNSENSE_GUI_PORT''
          else if status_code = 502 then ''WireGuard agent could not reach the firewall WebGUI''
          else ''firewall proxy request failed'')"

subsection \<open>Facts: the accounting of connections\<close>

text \<open>Counts are positive and the sets of sockets are not empty, as reserving and releasing keep them.\<close>

definition tunnels_ok :: "tunnels \<Rightarrow> bool" where
  "tunnels_ok t \<longleftrightarrow> (\<forall>i n. tn_counts t i = Some n \<longrightarrow> 0 < n)
     \<and> (\<forall>i. tn_websockets t i \<noteq> Some {}) \<and> (\<forall>i. tn_tasks t i \<noteq> Some {})"

definition untracked :: "nat \<Rightarrow> (uuid \<rightharpoonup> nat set) \<Rightarrow> bool" where
  "untracked x m \<longleftrightarrow> (\<forall>i s. m i = Some s \<longrightarrow> x \<notin> s)"

lemma remove_add:
  assumes "untracked x m" and "m i \<noteq> Some {}"
  shows "remove_from i x (add_to i x m) = m"
proof (cases "m i")
  case None
  then show ?thesis by (auto simp: remove_from_def add_to_def fun_eq_iff)
next
  case (Some s)
  with assms have "insert x s - {x} = s" "s \<noteq> {}" by (auto simp: untracked_def)
  with Some show ?thesis by (auto simp: remove_from_def add_to_def fun_eq_iff)
qed

lemma release_reserved:
  assumes "tunnels_ok t" and "untracked ws (tn_websockets t)" and "untracked tk (tn_tasks t)"
    and "reserve_connector_connection cfg i t = (True, t1)"
  shows "release_connector_connection i d ws tk (track_connector_connection d ws tk t1) = t"
proof -
  have r: "t1 = t\<lparr>tn_counts := (tn_counts t)(i \<mapsto> connection_count t i + 1)\<rparr>"
    using assms(4) by (auto simp: reserve_connector_connection_def Let_def split: if_splits)
  have c: "tn_counts t i = None \<and> connection_count t i = 0 \<or> tn_counts t i = Some (connection_count t i)
      \<and> 0 < connection_count t i"
    using assms(1) by (cases "tn_counts t i") (auto simp: tunnels_ok_def connection_count_def)
  let ?n = "connection_count t i"
  have n: "connection_count (track_connector_connection d ws tk t1) i = ?n + 1"
    by (simp add: r track_connector_connection_def connection_count_def)
  have "(tn_counts t)(i := None) = tn_counts t" if "tn_counts t i = None" using that by (simp add: fun_upd_idem)
  moreover have "(tn_counts t)(i \<mapsto> ?n) = tn_counts t" if "tn_counts t i = Some ?n"
    using that by (simp add: fun_upd_idem)
  ultimately show ?thesis
    using assms(1-3) c unfolding release_connector_connection_def Let_def n
    by (auto simp: track_connector_connection_def remove_add tunnels_ok_def r)
qed

lemma reserve_cases:
  "reserve_connector_connection cfg i t = (b, t1) \<Longrightarrow>
     (b \<longleftrightarrow> connection_count t i < cfg_connector_max_connections cfg)
     \<and> connection_count t1 i = connection_count t i + (if b then 1 else 0)
     \<and> (\<not> b \<longrightarrow> t1 = t)"
  by (auto simp: reserve_connector_connection_def connection_count_def Let_def split: if_splits)

lemma track_count [simp]:
  "connection_count (track_connector_connection d ws tk t) i = connection_count t i"
  by (simp add: track_connector_connection_def connection_count_def)

lemma tunnel_cases:
  assumes "connector_device_tunnel cr cfg device_id ti (s, t) = (r, s', t')"
  obtains (unreserved) "t' = t"
  | (reserved) row :: device_proxy_session and t1 where "reserve_connector_connection cfg (dps_id row) t = (True, t1)"
      "\<exists>host. reserved_tunnel cfg host (dps_id row) (dps_expires_at row) device_id ti
         (track_connector_connection device_id (ti_websocket ti) (ti_task ti) t1) = (r, t')"
proof (cases "bearer_token (ti_authorization ti)")
  case None
  with assms unreserved show thesis by (simp add: connector_device_tunnel_def)
next
  case (Some token)
  obtain v s1 where v: "validate_connector_session cr cfg (ti_now ti) token device_id s = (v, s1)"
    by fastforce
  show thesis
  proof (cases "rbind v (\<lambda>(row, u, d). rbind (validate_proxy_device_target cfg d) (\<lambda>host. Inr (row, host)))")
    case (Inl e)
    with assms Some v show thesis by (intro unreserved) (simp add: connector_device_tunnel_def)
  next
    case (Inr a)
    obtain row host where a: "a = (row, host)" by fastforce
    obtain b t1 where b: "reserve_connector_connection cfg (dps_id row) t = (b, t1)" by fastforce
    show thesis
    proof (cases b)
      case True
      with assms Some v Inr a b show thesis
        by (intro reserved [of row t1]) (auto simp: connector_device_tunnel_def split: prod.splits)
    next
      case False
      with assms Some v Inr a b reserve_cases [OF b] show thesis
        by (intro unreserved) (auto simp: connector_device_tunnel_def)
    qed
  qed
qed

subsection \<open>Facts: forwarded headers\<close>

lemma set_alist_update: "kv \<in> set (AList.update k v al) \<Longrightarrow> kv = (k, v) \<or> kv \<in> set al"
  by (induction al) (auto split: if_splits)

lemma dict_of_keys: "kv \<in> set (dict_of kvs) \<Longrightarrow> kv \<in> set kvs"
proof -
  have "kv \<in> set (fold (\<lambda>(k, v) d. AList.update k v d) kvs d) \<Longrightarrow> kv \<in> set kvs \<or> kv \<in> set d" for d
    by (induction kvs arbitrary: d) (auto dest: set_alist_update)
  then show "kv \<in> set (dict_of kvs) \<Longrightarrow> kv \<in> set kvs" by (force simp: dict_of_def)
qed

lemma forwarded_header_Inr:
  "forwarded_header cfg i host kv = Inr kv' \<Longrightarrow> fst kv' = fst kv
     \<and> (lower (fst kv') = ''origin'' \<longrightarrow> snd kv' = firewall_origin cfg host)"
  by (auto simp: forwarded_header_def rbind_Inr_iff split: if_splits)

lemma removeprefix_append [simp]: "removeprefix (p @ s) p = s"
  by (simp add: removeprefix_def)

lemma upstream_cookies_origin:
  "c \<in> set (upstream_cookies i cookies) \<Longrightarrow>
     \<exists>m v. c = m @ ''='' @ v \<and> (hub_proxy_cookie_prefix i @ m, v) \<in> set cookies"
  by (auto simp: upstream_cookies_def startswith_iff) blast

lemma other_prefix:
  assumes "i < 16 ^ 32" and "j < 16 ^ 32" and "j \<noteq> i"
  shows "\<not> startswith (hub_proxy_cookie_prefix j @ m) (hub_proxy_cookie_prefix i)"
proof
  assume "startswith (hub_proxy_cookie_prefix j @ m) (hub_proxy_cookie_prefix i)"
  then obtain t where "uuid_hex j @ ''_'' @ m = uuid_hex i @ ''_'' @ t"
    by (auto simp: startswith_iff hub_proxy_cookie_prefix_def)
  then have "uuid_hex j = uuid_hex i" by (metis append_eq_append_conv length_uuid_hex)
  with assms show False by (simp add: uuid_hex_inject)
qed

lemma request_headers_cases:
  assumes "request_headers_for_firewall cfg rq i host = Inr hs" and "kv \<in> set hs"
  shows "kv = (''cookie'', join ''; '' (upstream_cookies i (pr_cookies rq)))
    \<or> lower (fst kv) \<notin> excluded_request_headers \<and> lower (fst kv) \<noteq> ''cookie''
      \<and> (lower (fst kv) = ''origin'' \<longrightarrow> snd kv = firewall_origin cfg host)"
proof -
  let ?kvs = "dict_of (filter (\<lambda>(k, v). lower k \<notin> excluded_request_headers \<and> lower k \<noteq> ''cookie'') (pr_headers rq))"
  from assms obtain headers where h: "rmap_list (forwarded_header cfg i host) ?kvs = Inr headers"
    and kv: "kv = (''cookie'', join ''; '' (upstream_cookies i (pr_cookies rq))) \<or> kv \<in> set headers"
    by (auto simp: request_headers_for_firewall_def rbind_Inr_iff Let_def dest!: set_alist_update split: if_splits)
  from kv show ?thesis
  proof
    assume "kv \<in> set headers"
    with rmap_list_set [OF h] obtain kv' where k: "kv' \<in> set ?kvs" "forwarded_header cfg i host kv' = Inr kv" by blast
    from forwarded_header_Inr [OF k(2)] dict_of_keys [OF k(1)] show ?thesis by auto
  qed simp
qed

subsection \<open>Properties\<close>


definition leak_cfg :: settings where
  "leak_cfg = default_settings\<lparr>cfg_secret_key := ''k'', cfg_hub_wg_cidr := ''10.0.0.0/29'',
     cfg_hub_wg_address := ''10.0.0.1/29'', cfg_allow_broad_wg_cidr := False\<rparr>"

definition leak_session :: db_session where
  "leak_session = (let s = example_proxy ''connector'' (Some 3) in
     s\<lparr>work := (work s)\<lparr>devices := [(default_device 2 0)\<lparr>dev_wg_tunnel_ip := ''10.0.0.2''\<rparr>]\<rparr>\<rparr>)"

definition leak_input :: tunnel_input where
  "leak_input = \<lparr>ti_authorization = Some ''Bearer g'', ti_websocket = 7, ti_task = 8, ti_now = 10,
     ti_first_check = (11, empty_db), ti_connect = ConnectOpened, ti_second_check = (12, empty_db),
     ti_accepted = 12, ti_relay = RelayFinished\<rparr>"

definition no_tunnels :: tunnels where
  "no_tunnels = \<lparr>tn_counts = Map.empty, tn_websockets = Map.empty, tn_tasks = Map.empty\<rparr>"

lemma leak_target:
  "validate_proxy_device_target leak_cfg ((default_device 2 0)\<lparr>dev_wg_tunnel_ip := ''10.0.0.2''\<rparr>) = Inr ''10.0.0.2''"
proof -
  note eval = str_eval parse_ipv4_def parse_octet_def ipv4_of_octets_def ip_address_def parse_addr_prefix4_def
    make_prefix4_def prefix_of_string_def mk_net4_def in_net4_def netmask4_def mask_eq_exp_minus_1 ip_network_def
    broadcast4_def ip_interface_def
  have c: "get_validated_hub_wireguard_config leak_cfg = Inr \<lparr>vc_network = \<lparr>n4_addr = 167772160, n4_prefix = 29\<rparr>,
     vc_hub_ip = 167772161, vc_hub_prefix = 29\<rparr>"
    by (simp add: leak_cfg_def get_validated_hub_wireguard_config_def validate_hub_wireguard_config_def eval)
  have p: "parse_ipv4 ''10.0.0.2'' = Some 167772162" by (simp add: eval)
  then have a: "ip_address ''10.0.0.2'' = Some (V4 167772162)" by (simp add: ip_address_def)
  have s: "show_ipv4 167772162 = ''10.0.0.2''" by (simp add: show_ipv4_def str_eval)
  show ?thesis
    by (simp add: validate_proxy_device_target_def tunnel_proxy_host_def c a s)
      (simp add: in_net4_def netmask4_def mask_eq_exp_minus_1 broadcast4_def)
qed




end
