(* ===== verification/Device_Api.thy ===== *)
theory Device_Api
  imports Device_Backup Proxy_Router
begin

text \<open>
  The endpoints of a firewall and its administration: \<open>dashboard/app/routers/devices.py\<close>. The world of
  a handler is the database session, the WireGuard world, the rate limiter and the open tunnels.
  The handlers of the dashboard take the signed-in user. Replies are records of what the JSON
  reply or the redirect says; instants are not printed.
\<close>

record ('w, 'r) device_world =
  dw_db :: db_session
  dw_wg :: "'w wg_world"
  dw_limits :: "buckets \<times> 'r"
  dw_tunnels :: tunnels

record ('w, 'r) device_env =
  de_crypto :: crypto
  de_cfg :: settings
  de_redis :: "'r redis_client"
  de_backend :: backend
  de_wg :: "'w wg_env"
  de_iso :: iso_parser
  de_aware :: iso_aware
  de_float :: float_reader

definition on_db :: "(db_session \<Rightarrow> db_session) \<Rightarrow> ('w, 'r) device_world \<Rightarrow> ('w, 'r) device_world" where
  "on_db f w = w\<lparr>dw_db := f (dw_db w)\<rparr>"

definition device_limit ::
  "('w, 'r) device_env \<Rightarrow> instant \<Rightarrow> request \<Rightarrow> string \<Rightarrow> uuid \<Rightarrow> int \<Rightarrow> int \<Rightarrow> (('w, 'r) device_world, unit) act" where
  "device_limit env now rq bucket i limit window = (\<lambda>w.
     case apply_rate_limit (de_cfg env) (de_redis env) (de_backend env) now rq bucket (uuid_str i) limit window (dw_limits w) of
       (r, l) \<Rightarrow> (r, w\<lparr>dw_limits := l\<rparr>))"

definition authenticate ::
  "('w, 'r) device_env \<Rightarrow> instant \<Rightarrow> uuid \<Rightarrow> string option \<Rightarrow> (('w, 'r) device_world, device) act" where
  "authenticate env now i authorization = (\<lambda>w.
     (device_from_token (de_crypto env) now (work (dw_db w)) i authorization, w))"

definition backup_format_required :: "settings \<Rightarrow> string" where
  "backup_format_required cfg =
     (if lower (strip (cfg_config_backup_mode cfg)) = ''plaintext'' then plaintext_format else encrypted_format)"

subsection \<open>Heartbeat and token rotation\<close>

record heartbeat_reply =
  hb_firmware_check_requested_at :: "instant option"
  hb_firmware_check_request_reason :: "string option"
  hb_backup_requested :: bool
  hb_backup_format_required :: string
  hb_backup_requested_at :: "instant option"
  hb_backup_retention_count :: "int option"
  hb_backup_interval_hours :: "int option"
  hb_device_token_expires_at :: instant
  hb_device_token_rotation_required :: bool
  hb_device_token_rotation_url :: string

definition reported_version :: "(string \<times> json) list \<Rightarrow> string \<Rightarrow> string option \<Rightarrow> string option" where
  "reported_version payload key old =
     (case map_of payload key of None \<Rightarrow> old | Some JNull \<Rightarrow> old | Some v \<Rightarrow> Some (take 80 (py_str v)))"

definition advertises :: "(string \<times> json) list \<Rightarrow> string \<Rightarrow> bool" where
  "advertises payload fmt =
     (case map_of payload ''backup_formats'' of Some (JList xs) \<Rightarrow> JStr fmt \<in> set xs | _ \<Rightarrow> False)"

text \<open>What the payload changes of the row, and the message of the event, if there is one.\<close>

definition heartbeat_row ::
  "iso_parser \<Rightarrow> instant \<Rightarrow> (string \<times> json) list \<Rightarrow> device \<Rightarrow> string option \<times> device" where
  "heartbeat_row parse_iso now payload d0 =
     (let reported_status = lower (strip (take 30 (str_field payload ''status'' ''online'')));
          d1 = d0\<lparr>dev_hostname := take 255 (str_field payload ''hostname'' (dev_hostname d0)),
                  dev_opnsense_version := reported_version payload ''opnsense_version'' (dev_opnsense_version d0),
                  dev_plugin_version := reported_version payload ''plugin_version'' (dev_plugin_version d0)\<rparr>;
          (firmware_applied, d2) = apply_device_firmware_payload parse_iso now payload
             (apply_device_license_payload parse_iso payload d1);
          d3 = d2\<lparr>dev_last_seen_at := Some now\<rparr>;
          base = (if reported_status \<noteq> [] then reported_status else dev_status d0);
          message = (if firmware_applied
             then take 1000 (base @ ''; firmware='' @ dev_firmware_status d3 @ ''; updates=''
                    @ int_str (dev_firmware_update_count d3))
             else base)
      in (if firmware_applied \<or> reported_status \<notin> {[], ''online''} then Some message else None, d3))"

definition heartbeat_answer :: "settings \<Rightarrow> instant \<Rightarrow> bool \<Rightarrow> device \<Rightarrow> heartbeat_reply" where
  "heartbeat_answer cfg now pending_backup d =
     \<lparr>hb_firmware_check_requested_at = dev_firmware_check_requested_at d,
      hb_firmware_check_request_reason = dev_firmware_check_request_reason d,
      hb_backup_requested = pending_backup,
      hb_backup_format_required = backup_format_required cfg,
      hb_backup_requested_at = (if pending_backup then dev_backup_last_requested_at d else None),
      hb_backup_retention_count =
        (if dev_backup_enabled d \<or> pending_backup then Some (dev_backup_retention_count d) else None),
      hb_backup_interval_hours =
        (if dev_backup_enabled d \<or> pending_backup then Some (dev_backup_interval_hours d) else None),
      hb_device_token_expires_at = dev_device_token_expires_at d,
      hb_device_token_rotation_required = device_token_rotation_due cfg now d,
      hb_device_token_rotation_url = ''/api/v1/devices/'' @ uuid_str (dev_id d) @ ''/token/rotate''\<rparr>"

definition heartbeat ::
  "('w, 'r) device_env \<Rightarrow> instant \<Rightarrow> request \<Rightarrow> uuid \<Rightarrow> string option \<Rightarrow> (string \<times> json) list
     \<Rightarrow> (('w, 'r) device_world, heartbeat_reply) act" where
  "heartbeat env now rq i authorization payload =
     (let cfg = de_cfg env in
      aseq (device_limit env now rq ''device-heartbeat'' i (cfg_rate_limit_device_heartbeat_attempts cfg)
        (cfg_rate_limit_device_heartbeat_window_seconds cfg))
      (abind (authenticate env now i authorization) (\<lambda>d0 w.
        case heartbeat_row (de_iso env) now payload d0 of (event, d1) \<Rightarrow>
        case (if advertises payload (backup_format_required cfg) then mark_device_backup_requested now d1
              else (False, d1)) of (pending_backup, d2) \<Rightarrow>
          (Inr (heartbeat_answer cfg now pending_backup d2),
           on_db (\<lambda>s. commit (case event of
                None \<Rightarrow> save_device d2 s
              | Some m \<Rightarrow> add_device_event now i ''heartbeat'' m (save_device d2 s))) w))))"

definition rotate_device_token ::
  "('w, 'r) device_env \<Rightarrow> instant \<Rightarrow> string \<Rightarrow> string \<Rightarrow> request \<Rightarrow> uuid \<Rightarrow> string option
     \<Rightarrow> (('w, 'r) device_world, string \<times> instant \<times> instant) act" where
  "rotate_device_token env now salt random rq i authorization =
     (let cfg = de_cfg env in
      aseq (device_limit env now rq ''device-token-rotate'' i (cfg_rate_limit_device_heartbeat_attempts cfg)
        (cfg_rate_limit_device_heartbeat_window_seconds cfg))
      (abind (authenticate env now i authorization) (\<lambda>d0 w.
        case issue_device_token (de_crypto env) cfg salt random now d0 of (token, d) \<Rightarrow>
          (Inr (token, dev_device_token_issued_at d, dev_device_token_expires_at d),
           on_db (\<lambda>s. commit (add_device_event now i ''device_token_rotated'' ''Device token rotated''
             (save_device d s))) w))))"

subsection \<open>Backups\<close>

definition authorize_device_backup_upload ::
  "('w, 'r) device_env \<Rightarrow> instant \<Rightarrow> request \<Rightarrow> uuid \<Rightarrow> string option \<Rightarrow> (('w, 'r) device_world, device) act" where
  "authorize_device_backup_upload env now rq i authorization =
     aseq (device_limit env now rq ''device-backup'' i (cfg_rate_limit_device_backup_attempts (de_cfg env))
        (cfg_rate_limit_device_backup_window_seconds (de_cfg env)))
      (abind (authenticate env now i authorization) (\<lambda>d.
        if \<not> backup_request_pending d then araise (HTTPException 400 ''no configuration backup is pending'')
        else aret d))"

text \<open>The rows of a device, newest first; a slice from a negative index counts from the end.\<close>

definition device_backups_of :: "uuid \<Rightarrow> hub_db \<Rightarrow> device_backup list" where
  "device_backups_of i db =
     sort_key (\<lambda>b. - dbk_created_at b)
       (sort_key (\<lambda>b. - int (dbk_id b)) (filter (\<lambda>b. dbk_device_id b = i) (device_backups db)))"

definition slice_from :: "int \<Rightarrow> 'a list \<Rightarrow> 'a list" where
  "slice_from n xs = drop (if 0 \<le> n then nat n else length xs - nat (- n)) xs"

definition validated_backup ::
  "('w, 'r) device_env \<Rightarrow> (string \<times> json) list \<Rightarrow> uuid \<Rightarrow> string res" where
  "validated_backup env payload i =
     (let required = backup_format_required (de_cfg env) in
      if map_of payload ''content'' \<noteq> None
      then Inl (HTTPException 400 ''legacy plaintext configuration backups are not accepted'')
      else if map_of payload ''format'' \<noteq> Some (JStr required)
      then Inl (HTTPException 400 ''required backup format was not used'')
      else if required = plaintext_format then
        (if set (map fst payload) \<noteq> {''format'', ''plaintext_backup''}
         then Inl (HTTPException 400 ''plaintext backup request fields are invalid'')
         else validate_plaintext_device_backup (de_aware env) (field payload ''plaintext_backup'') i)
      else
        (if set (map fst payload) \<noteq> {''format'', ''encrypted_backup''}
         then Inl (HTTPException 400 ''encrypted backup request fields are invalid'')
         else validate_encrypted_device_backup (de_aware env) (field payload ''encrypted_backup'') i))"

record backup_reply =
  br_backup_id :: uuid
  br_filename :: string
  br_created_at :: instant
  br_retained_count :: int

definition store_backup ::
  "instant \<Rightarrow> string \<Rightarrow> string \<Rightarrow> device \<Rightarrow> db_session \<Rightarrow> backup_reply \<times> db_session" where
  "store_backup now fmt payload d0 s0 =
     (case fresh_uuid s0 of (b, s1) \<Rightarrow>
      let backup = \<lparr>dbk_id = b, dbk_device_id = dev_id d0,
            dbk_filename = device_backup_filename (dev_hostname d0) now fmt, dbk_backup_format = fmt,
            dbk_encrypted_payload = payload, dbk_created_at = now\<rparr>;
          d = d0\<lparr>dev_backup_last_uploaded_at := Some now, dev_backup_last_requested_at := None\<rparr>;
          s2 = save_device d (s1\<lparr>work := (work s1)\<lparr>device_backups := device_backups (work s1) @ [backup]\<rparr>\<rparr>);
          backups = device_backups_of (dev_id d) (work s2);
          stale = map dbk_id (slice_from (dev_backup_retention_count d) backups);
          s3 = s2\<lparr>work := (work s2)\<lparr>device_backups := filter (\<lambda>r. dbk_id r \<notin> set stale) (device_backups (work s2))\<rparr>\<rparr>
      in (\<lparr>br_backup_id = b, br_filename = dbk_filename backup, br_created_at = now,
           br_retained_count = min (int (length backups)) (dev_backup_retention_count d)\<rparr>,
          commit (add_device_event now (dev_id d) ''backup_uploaded''
            (take 1000 (''Configuration backup uploaded: '' @ dbk_filename backup)) s3)))"

definition store_device_backup_payload ::
  "('w, 'r) device_env \<Rightarrow> instant \<Rightarrow> (string \<times> json) list \<Rightarrow> device \<Rightarrow> (('w, 'r) device_world, backup_reply) act" where
  "store_device_backup_payload env now payload d = (\<lambda>w.
     case validated_backup env payload (dev_id d) of
       Inl e \<Rightarrow> (Inl e, w)
     | Inr text \<Rightarrow>
         (case store_backup now (backup_format_required (de_cfg env)) text d (dw_db w) of
            (reply, s) \<Rightarrow> (Inr reply, w\<lparr>dw_db := s\<rparr>)))"

definition reject_duplicate_json_keys :: pairs_hook where
  "reject_duplicate_json_keys kvs = (if distinct (map fst kvs) then Some (JObj kvs) else None)"

definition too_large :: exn where
  "too_large = HTTPException 413 ''backup request is too large''"

fun read_stream :: "string \<Rightarrow> string list \<Rightarrow> string res" where
  "read_stream body [] = Inr body"
| "read_stream body (chunk # chunks) =
     (if length (body @ chunk) > max_request_bytes then Inl too_large else read_stream (body @ chunk) chunks)"

definition read_device_backup_request ::
  "float_reader \<Rightarrow> request \<Rightarrow> string list \<Rightarrow> (string \<times> json) list res" where
  "read_device_backup_request fl rq chunks =
     rbind (if \<not> nonempty (rq_headers rq ''content-length'') then Inr ()
            else case py_int (the (rq_headers rq ''content-length'')) of
              None \<Rightarrow> Inl (HTTPException 400 ''invalid Content-Length'')
            | Some declared_length \<Rightarrow>
                if declared_length > int max_request_bytes then Inl too_large else Inr ()) (\<lambda>_.
     rbind (read_stream [] chunks) (\<lambda>body.
     case json_loads fl reject_duplicate_json_keys body of
       None \<Rightarrow> Inl (HTTPException 400 ''backup request is invalid'')
     | Some (JObj payload) \<Rightarrow> Inr payload
     | Some _ \<Rightarrow> Inl (HTTPException 400 ''backup request must be an object'')))"

definition upload_device_backup ::
  "('w, 'r) device_env \<Rightarrow> instant \<Rightarrow> request \<Rightarrow> string list \<Rightarrow> uuid \<Rightarrow> string option
     \<Rightarrow> (('w, 'r) device_world, backup_reply) act" where
  "upload_device_backup env now rq chunks i authorization =
     abind (authorize_device_backup_upload env now rq i authorization) (\<lambda>d.
     abind (alift (read_device_backup_request (de_float env) rq chunks)) (\<lambda>payload.
       store_device_backup_payload env now payload d))"

subsection \<open>Administration from the dashboard\<close>

definition visible_device :: "hub_db \<Rightarrow> user \<Rightarrow> string \<Rightarrow> uuid \<Rightarrow> device res" where
  "visible_device db u minimum i =
     (case get_device db i of
        None \<Rightarrow> Inl not_found
      | Some d \<Rightarrow> rbind (has_company_access db u (dev_company_id d) minimum) (\<lambda>ok.
          if ok then Inr d else Inl not_found))"

definition device_audit ::
  "settings \<Rightarrow> instant \<Rightarrow> request \<Rightarrow> string \<Rightarrow> user \<Rightarrow> device \<Rightarrow> db_session \<Rightarrow> db_session" where
  "device_audit cfg now rq action u d s =
     snd (write_audit cfg now (Some rq) action (Some (usr_id u)) (Some (dev_company_id d)) (Some (dev_id d)) s)"

definition to_device :: "device \<Rightarrow> string \<Rightarrow> string" where
  "to_device d status = ''/devices/'' @ uuid_str (dev_id d) @ ''?status='' @ status"

text \<open>A form of a device: the row is changed or the form refused, then audited and committed.\<close>

definition device_form ::
  "settings \<Rightarrow> instant \<Rightarrow> request \<Rightarrow> user \<Rightarrow> uuid \<Rightarrow> string \<Rightarrow> string \<Rightarrow> (device \<Rightarrow> device res)
     \<Rightarrow> (db_session, string) act" where
  "device_form cfg now rq u i action status change = (\<lambda>s.
     case rbind (visible_device (work s) u ''admin'' i) change of
       Inl e \<Rightarrow> (Inl e, s)
     | Inr d \<Rightarrow> (Inr (to_device d status), commit (device_audit cfg now rq action u d (save_device d s))))"

definition form_datetime :: "(string \<Rightarrow> instant option) \<Rightarrow> string \<Rightarrow> string \<Rightarrow> instant option res" where
  "form_datetime parse_local v field_name =
     (case clean_optional (Some v) of
        None \<Rightarrow> Inr None
      | Some t \<Rightarrow>
          (case parse_local t of
             None \<Rightarrow> Inl (HTTPException 400 (''invalid '' @ field_name))
           | Some x \<Rightarrow> Inr (Some x)))"

record runbook_form =
  rf_owner :: string
  rf_contact :: string
  rf_site :: string
  rf_support_contract_expires_at :: string
  rf_maintenance_until :: string
  rf_escalation_hint :: string
  rf_notes :: string

definition runbook_row :: "(string \<Rightarrow> instant option) \<Rightarrow> runbook_form \<Rightarrow> device \<Rightarrow> device res" where
  "runbook_row parse_local f d =
     rbind (form_datetime parse_local (rf_support_contract_expires_at f) ''support contract expiration'') (\<lambda>support.
     rbind (form_datetime parse_local (rf_maintenance_until f) ''maintenance window'') (\<lambda>maintenance.
       Inr (d\<lparr>dev_runbook_owner := clean_optional (Some (rf_owner f)),
              dev_runbook_contact := clean_optional (Some (rf_contact f)),
              dev_runbook_site := clean_optional (Some (rf_site f)),
              dev_support_contract_expires_at := support,
              dev_maintenance_until := maintenance,
              dev_escalation_hint := clean_optional (Some (rf_escalation_hint f)),
              dev_runbook_notes := clean_optional (Some (rf_notes f))\<rparr>)))"

definition update_device_runbook ::
  "settings \<Rightarrow> (string \<Rightarrow> instant option) \<Rightarrow> instant \<Rightarrow> request \<Rightarrow> user \<Rightarrow> uuid \<Rightarrow> runbook_form \<Rightarrow> (db_session, string) act" where
  "update_device_runbook cfg parse_local now rq u i f =
     device_form cfg now rq u i ''device.runbook.update'' ''runbook-saved'' (runbook_row parse_local f)"

definition acknowledge_device_health ::
  "settings \<Rightarrow> instant \<Rightarrow> request \<Rightarrow> user \<Rightarrow> uuid \<Rightarrow> string \<Rightarrow> (db_session, string) act" where
  "acknowledge_device_health cfg now rq u i note =
     device_form cfg now rq u i ''device.health_acknowledge'' ''health-acknowledged'' (\<lambda>d.
       Inr (d\<lparr>dev_health_acknowledged_at := Some now,
              dev_health_acknowledged_note := clean_optional (Some note),
              dev_health_acknowledged_by := Some (usr_id u)\<rparr>))"

definition clear_device_health_acknowledgement ::
  "settings \<Rightarrow> instant \<Rightarrow> request \<Rightarrow> user \<Rightarrow> uuid \<Rightarrow> (db_session, string) act" where
  "clear_device_health_acknowledgement cfg now rq u i =
     device_form cfg now rq u i ''device.health_acknowledge.clear'' ''health-acknowledgement-cleared'' (\<lambda>d.
       Inr (d\<lparr>dev_health_acknowledged_at := None, dev_health_acknowledged_note := None,
              dev_health_acknowledged_by := None\<rparr>))"

definition backup_settings_row ::
  "instant \<Rightarrow> string option \<Rightarrow> string \<Rightarrow> string \<Rightarrow> string \<Rightarrow> device \<Rightarrow> device res" where
  "backup_settings_row now backup_enabled retention_count interval_value interval_unit d =
     rbind (parse_bounded_int retention_count ''backup retention count'' 1 10) (\<lambda>retention.
     rbind (parse_bounded_int interval_value ''backup interval value'' 1 999) (\<lambda>interval.
     rbind (parse_backup_interval_unit interval_unit) (\<lambda>unit.
       let d1 = d\<lparr>dev_backup_enabled := (backup_enabled = Some ''on''),
                  dev_backup_retention_count := retention,
                  dev_backup_interval_value := interval,
                  dev_backup_interval_unit := unit\<rparr>;
           d2 = d1\<lparr>dev_backup_interval_hours := max 1 (backup_interval_delta d1 div 3600000000)\<rparr>
       in Inr (if dev_backup_enabled d2 then snd (mark_device_backup_requested now d2)
               else d2\<lparr>dev_backup_last_requested_at := None\<rparr>))))"

definition update_device_backup_settings ::
  "settings \<Rightarrow> instant \<Rightarrow> request \<Rightarrow> user \<Rightarrow> uuid \<Rightarrow> string option \<Rightarrow> string \<Rightarrow> string \<Rightarrow> string
     \<Rightarrow> (db_session, string) act" where
  "update_device_backup_settings cfg now rq u i backup_enabled retention_count interval_value interval_unit =
     device_form cfg now rq u i ''device.backup_settings.update'' ''backup-settings-saved''
       (backup_settings_row now backup_enabled retention_count interval_value interval_unit)"

record email_form =
  ef_enabled :: "string option"
  ef_recipient :: string
  ef_on_warning :: "string option"
  ef_on_offline :: "string option"
  ef_on_backup_overdue :: "string option"
  ef_on_license_expiring :: "string option"
  ef_on_firmware_available :: "string option"

definition email_settings_row :: "integration_settings \<Rightarrow> email_form \<Rightarrow> device \<Rightarrow> device res" where
  "email_settings_row ints f d =
     (let enabled = (ef_enabled f = Some ''on''); recipient = clean_optional (Some (ef_recipient f)) in
      if enabled \<and> \<not> email_settings_configured (Some ints)
      then Inl (HTTPException 400 ''email settings are not configured'')
      else if enabled \<and> \<not> is_valid_email_address recipient
      then Inl (HTTPException 400 ''a valid recipient email address is required'')
      else
        let d1 = d\<lparr>dev_email_notifications_enabled := enabled,
              dev_email_notification_recipient := (if enabled then recipient else None),
              dev_email_notify_on_warning := (ef_on_warning f = Some ''on''),
              dev_email_notify_on_critical := (ef_on_offline f = Some ''on''),
              dev_email_notify_on_backup_overdue := (ef_on_backup_overdue f = Some ''on''),
              dev_email_notify_on_license_expiring := (ef_on_license_expiring f = Some ''on''),
              dev_email_notify_on_firmware_available := (ef_on_firmware_available f = Some ''on'')\<rparr>
        in Inr (if enabled then d1
                else d1\<lparr>dev_email_last_notified_status := None, dev_email_last_notified_at := None\<rparr>))"

definition update_device_email_notification_settings ::
  "settings \<Rightarrow> instant \<Rightarrow> request \<Rightarrow> user \<Rightarrow> uuid \<Rightarrow> email_form \<Rightarrow> (db_session, string) act" where
  "update_device_email_notification_settings cfg now rq u i f = (\<lambda>s.
     case visible_device (work s) u ''admin'' i of
       Inl e \<Rightarrow> (Inl e, s)
     | Inr _ \<Rightarrow>
         (case get_or_create_integration_settings now s of (ints, s') \<Rightarrow>
            device_form cfg now rq u i ''device.email_notification_settings.update''
              ''email-notification-settings-saved'' (email_settings_row ints f) s'))"

definition request_device_backup_now ::
  "settings \<Rightarrow> instant \<Rightarrow> request \<Rightarrow> user \<Rightarrow> uuid \<Rightarrow> (db_session, string) act" where
  "request_device_backup_now cfg now rq u i =
     device_form cfg now rq u i ''device.backup.request_now'' ''backup-requested'' (\<lambda>d.
       Inr (d\<lparr>dev_backup_last_requested_at := Some now\<rparr>))"

definition get_backup :: "hub_db \<Rightarrow> uuid \<Rightarrow> device_backup option" where
  "get_backup db i = find (\<lambda>b. dbk_id b = i) (device_backups db)"

definition backup_of_device :: "hub_db \<Rightarrow> device \<Rightarrow> uuid \<Rightarrow> device_backup res" where
  "backup_of_device db d b =
     (case get_backup db b of
        None \<Rightarrow> Inl not_found
      | Some r \<Rightarrow> if dbk_device_id r \<noteq> dev_id d then Inl not_found else Inr r)"

record download =
  dl_content :: string
  dl_media_type :: string
  dl_headers :: "(string \<times> string) list"

text \<open>\<open>str(payload.get("content") or "")\<close> of the stored envelope.\<close>

definition stored_content :: "float_reader \<Rightarrow> string \<Rightarrow> string res" where
  "stored_content fl payload =
     (case json_loads fl dict_hook payload of
        None \<Rightarrow> Inl (HTTPException 500 ''stored backup is invalid'')
      | Some (JObj kvs) \<Rightarrow> Inr (if json_true (field kvs ''content'') then py_str (field kvs ''content'') else [])
      | Some _ \<Rightarrow> Inl (ExternalError ''AttributeError''))"

definition download_device_backup ::
  "float_reader \<Rightarrow> hub_db \<Rightarrow> user \<Rightarrow> uuid \<Rightarrow> uuid \<Rightarrow> download res" where
  "download_device_backup fl db u i b =
     rbind (visible_device db u ''viewer'' i) (\<lambda>d.
     rbind (backup_of_device db d b) (\<lambda>r.
     rbind (if dbk_backup_format r = plaintext_format
            then rbind (stored_content fl (dbk_encrypted_payload r)) (\<lambda>c.
                   Inr (c, ''application/xml'', ''firewall-backup.xml''))
            else Inr (dbk_encrypted_payload r, ''application/vnd.opnsense-hub.encrypted-config+json'',
                   ''firewall-backup.opnenc'')) (\<lambda>(content, media_type, alt).
     Inr \<lparr>dl_content = content, dl_media_type = media_type,
       dl_headers = [(''Content-Disposition'', content_disposition_attachment (dbk_filename r) alt),
                     (''Cache-Control'', ''no-store''), (''X-Content-Type-Options'', ''nosniff'')]\<rparr>)))"

definition delete_device_backup ::
  "settings \<Rightarrow> instant \<Rightarrow> request \<Rightarrow> user \<Rightarrow> uuid \<Rightarrow> uuid \<Rightarrow> (db_session, string) act" where
  "delete_device_backup cfg now rq u i b = (\<lambda>s.
     case rbind (visible_device (work s) u ''admin'' i) (\<lambda>d.
          rbind (backup_of_device (work s) d b) (\<lambda>r. Inr (d, r))) of
       Inl e \<Rightarrow> (Inl e, s)
     | Inr (d, r) \<Rightarrow>
         (Inr (to_device d ''backup-deleted''),
          commit (device_audit cfg now rq ''device.backup.delete'' u d
            (s\<lparr>work := (work s)\<lparr>device_backups := filter (\<lambda>x. dbk_id x \<noteq> dbk_id r) (device_backups (work s))\<rparr>\<rparr>))))"

text \<open>Revocation: the peer is removed first; then the row, whose token becomes the hash of a random one
  that nobody gets, and after the commit the tunnels.\<close>

definition revoke_device ::
  "('w, 'r) device_env \<Rightarrow> instant \<Rightarrow> string \<Rightarrow> string \<Rightarrow> request \<Rightarrow> user \<Rightarrow> uuid \<Rightarrow> (('w, 'r) device_world, string) act" where
  "revoke_device env now salt random rq u i = (\<lambda>w.
     case visible_device (work (dw_db w)) u ''admin'' i of
       Inl e \<Rightarrow> (Inl e, w)
     | Inr d0 \<Rightarrow>
         (let target = ''/companies/'' @ uuid_str (dev_company_id d0) in
          if dev_revoked_at d0 \<noteq> None then (Inr target, w)
          else (case remove_peer (de_wg env) (de_cfg env) (dev_wg_public_key d0) (dw_wg w) of
              (Inl e, g) \<Rightarrow> (Inl e, w\<lparr>dw_wg := g\<rparr>)
            | (Inr _, g) \<Rightarrow>
                (let d = d0\<lparr>dev_revoked_at := Some now, dev_status := ''revoked'',
                           dev_device_token_hash := hash_secret (de_crypto env) salt random\<rparr>;
                     s = add_device_event now (dev_id d) ''revoked'' ''Device revoked'' (save_device d (dw_db w))
                 in (Inr target,
                     w\<lparr>dw_wg := g,
                       dw_db := commit (device_audit (de_cfg env) now rq ''device.revoke'' u d s),
                       dw_tunnels := snd (close_device_access (dev_id d) (dw_tunnels w))\<rparr>)))))"

text \<open>Deleting the row: the foreign keys delete its backups and proxy sessions and leave its audit rows
  without a device.\<close>

definition delete_device_row :: "uuid \<Rightarrow> hub_db \<Rightarrow> hub_db" where
  "delete_device_row i db = db\<lparr>
     devices := filter (\<lambda>d. dev_id d \<noteq> i) (devices db),
     proxy_sessions := filter (\<lambda>r. dps_device_id r \<noteq> i) (proxy_sessions db),
     device_backups := filter (\<lambda>r. dbk_device_id r \<noteq> i) (device_backups db),
     device_events := filter (\<lambda>r. ev_device_id r \<noteq> i) (device_events db),
     audit_logs := update_where (\<lambda>r. al_device_id r = Some i) (\<lambda>r. r\<lparr>al_device_id := None\<rparr>) (audit_logs db)\<rparr>"

definition safe_redirect :: "string \<Rightarrow> string" where
  "safe_redirect target =
     (if \<not> startswith target ''/'' \<or> startswith target ''//'' then ''/companies'' else target)"

definition delete_revoked_device ::
  "('w, 'r) device_env \<Rightarrow> instant \<Rightarrow> request \<Rightarrow> user \<Rightarrow> uuid \<Rightarrow> string \<Rightarrow> (('w, 'r) device_world, string) act" where
  "delete_revoked_device env now rq u i redirect_to = (\<lambda>w.
     case visible_device (work (dw_db w)) u ''admin'' i of
       Inl e \<Rightarrow> (Inl e, w)
     | Inr d \<Rightarrow>
         (if dev_revoked_at d = None then (Inl (HTTPException 400 ''only revoked firewalls can be removed''), w)
          else
            (let s0 = dw_db w;
                 s1 = s0\<lparr>work := (work s0)\<lparr>device_events := filter (\<lambda>r. ev_device_id r \<noteq> i) (device_events (work s0))\<rparr>\<rparr>;
                 s2 = device_audit (de_cfg env) now rq ''device.delete_revoked'' u d s1
             in (Inr (safe_redirect redirect_to),
                 w\<lparr>dw_db := commit (s2\<lparr>work := delete_device_row (dev_id d) (work s2)\<rparr>),
                   dw_tunnels := snd (close_device_access (dev_id d) (dw_tunnels w))\<rparr>))))"

end
