(* ===== verification/Device_Facts.thy ===== *)
theory Device_Facts
  imports Device_Api "HOL-Library.Multiset"
begin

text \<open>
  Facts and properties of the firewall endpoints: what an upload keeps, that a stored plaintext
  backup is downloaded as it was sent, and what a revocation closes.
\<close>

subsection \<open>Facts\<close>

lemma get_device_id: "get_device db i = Some d \<Longrightarrow> dev_id d = i"
  by (auto simp: get_device_def dest: find_SomeD)

lemma get_device_put: "get_device db i = Some d \<Longrightarrow> dev_id r = i \<Longrightarrow> get_device (put_device r db) i = Some r"
proof -
  have "find (\<lambda>x. dev_id x = i) (update_where (\<lambda>x. dev_id x = i) (\<lambda>_. r) ds) = Some r"
    if "find (\<lambda>x. dev_id x = i) ds = Some d" "dev_id r = i" for ds
    using that by (induction ds) (auto simp: update_where_def)
  then show "get_device db i = Some d \<Longrightarrow> dev_id r = i \<Longrightarrow> get_device (put_device r db) i = Some r"
    by (simp add: get_device_def put_device_def)
qed

lemma audit_event_devices [simp]:
  "get_device (work (snd (write_audit cfg now rq a u c d s))) = get_device (work s)"
  "get_device (work (add_device_event now i a m s)) = get_device (work s)"
  "device_backups (work (snd (write_audit cfg now rq a u c d s))) = device_backups (work s)"
  "device_backups (work (add_device_event now i a m s)) = device_backups (work s)"
  by (simp_all add: write_audit_def add_device_event_def fresh_uuid_def get_device_def fun_eq_iff)

lemma device_audit_devices [simp]: "get_device (work (device_audit cfg now rq a u d s)) = get_device (work s)"
  by (simp add: device_audit_def)

lemma save_device_work [simp]: "work (save_device d s) = put_device d (work s)"
  by (simp add: save_device_def)

lemma revoked_refused:
  assumes "get_device db i = Some d" and "dev_revoked_at d \<noteq> None"
  shows "\<exists>e. device_from_token cr t db i auth = Inl e"
    and "require_proxy_access db user_id i = Inl proxy_unauthorized"
    and "\<exists>e. validate_connector_session_id t session_id i db = Inl e"
proof -
  show "\<exists>e. device_from_token cr t db i auth = Inl e"
    using assms by (auto simp: device_from_token_def Let_def)
  show p: "require_proxy_access db user_id i = Inl proxy_unauthorized" for user_id
    using assms by (auto simp: require_proxy_access_def split: option.splits)
  show "\<exists>e. validate_connector_session_id t session_id i db = Inl e"
    unfolding validate_connector_session_id_def validate_connector_session_record_def
    using p by (auto simp: rbind_def split: option.splits sum.splits)
qed

text \<open>The newest of a sorted list of rows, and what is left when the others are dropped by their ids.\<close>

lemma filter_not_dropped:
  assumes "distinct (map f xs)"
  shows "filter (\<lambda>x. f x \<notin> f ` set (drop n xs)) xs = take n xs"
proof -
  have a: "filter (\<lambda>x. f x \<notin> f ` set (drop n xs)) (take n xs) = take n xs"
    using assms by (intro filter_True) (metis (no_types, lifting) append_take_drop_id distinct_append
        disjoint_iff image_eqI imageE list.set_map map_append)
  have b: "filter (\<lambda>x. f x \<notin> f ` set (drop n xs)) (drop n xs) = []"
    by (intro filter_False) auto
  have "filter (\<lambda>x. f x \<notin> f ` set (drop n xs)) (take n xs @ drop n xs) = take n xs"
    by (simp only: filter_append a b append_Nil2)
  then show ?thesis by simp
qed

lemma mset_device_backups_of:
  "mset (device_backups_of i db) = mset (filter (\<lambda>b. dbk_device_id b = i) (device_backups db))"
  by (simp add: device_backups_of_def)

lemma device_backups_of_props:
  assumes "distinct (map dbk_id (device_backups db))"
  shows "distinct (map dbk_id (device_backups_of i db))"
    and "sorted (map (\<lambda>b. - dbk_created_at b) (device_backups_of i db))"
    and "set (device_backups_of i db) = {b \<in> set (device_backups db). dbk_device_id b = i}"
proof -
  have "distinct (map dbk_id (filter (\<lambda>b. dbk_device_id b = i) (device_backups db)))"
    using assms by (simp add: distinct_map inj_on_def)
  then show "distinct (map dbk_id (device_backups_of i db))"
    by (simp add: device_backups_of_def distinct_map)
qed (auto simp: device_backups_of_def)

lemma kept_backups:
  fixes db :: hub_db and i :: uuid and n :: int
  assumes "distinct (map dbk_id (device_backups db))" and "0 \<le> n"
  defines "stale \<equiv> map dbk_id (slice_from n (device_backups_of i db))"
  defines "kept \<equiv> filter (\<lambda>r. dbk_id r \<notin> set stale) (device_backups db)"
  shows "mset (filter (\<lambda>b. dbk_device_id b = i) kept) = mset (take (nat n) (device_backups_of i db))"
    and "filter (\<lambda>b. dbk_device_id b \<noteq> i) kept = filter (\<lambda>b. dbk_device_id b \<noteq> i) (device_backups db)"
proof -
  let ?bs = "device_backups_of i db" and ?P = "\<lambda>r. dbk_id r \<notin> set stale"
  have stale: "set stale = dbk_id ` set (drop (nat n) ?bs)" using assms(2) by (simp add: stale_def slice_from_def)
  have "mset (filter (\<lambda>b. dbk_device_id b = i) kept) = mset (filter ?P (filter (\<lambda>b. dbk_device_id b = i) (device_backups db)))"
    by (simp add: kept_def conj_commute)
  also have "\<dots> = mset (filter ?P ?bs)" by (simp only: mset_filter mset_device_backups_of)
  also have "filter ?P ?bs = take (nat n) ?bs"
    unfolding stale by (rule filter_not_dropped) (rule device_backups_of_props(1) [OF assms(1)])
  finally show "mset (filter (\<lambda>b. dbk_device_id b = i) kept) = mset (take (nat n) ?bs)" .
  have "?P r" if "r \<in> set (device_backups db)" "dbk_device_id r \<noteq> i" for r
  proof
    assume "dbk_id r \<in> set stale"
    then obtain q where "q \<in> set ?bs" "dbk_id q = dbk_id r" unfolding stale using set_drop_subset by fastforce
    then have "q \<in> set (device_backups db)" "dbk_device_id q = i" "dbk_id q = dbk_id r"
      using device_backups_of_props(3) [OF assms(1), of i] by auto
    with that assms(1) show False by (auto simp: distinct_map inj_on_def)
  qed
  then show "filter (\<lambda>b. dbk_device_id b \<noteq> i) kept = filter (\<lambda>b. dbk_device_id b \<noteq> i) (device_backups db)"
    by (auto simp: kept_def intro!: filter_cong)
qed

lemma newest_taken:
  assumes "sorted (map (\<lambda>b. - dbk_created_at b) bs)" and "b \<in> set bs" and "distinct bs" and "0 < n"
    and "\<And>x. x \<in> set bs \<Longrightarrow> x \<noteq> b \<Longrightarrow> dbk_created_at x < dbk_created_at b"
  shows "b \<in> set (take n bs)"
proof -
  obtain c cs where bs: "bs = c # cs" using assms(2) by (cases bs) auto
  have "c = b"
  proof (rule ccontr)
    assume "c \<noteq> b"
    then have "b \<in> set cs" using assms(2) bs by auto
    then have "- dbk_created_at c \<le> - dbk_created_at b" using assms(1) bs by auto
    moreover have "dbk_created_at c < dbk_created_at b" using assms(5) [of c] \<open>c \<noteq> b\<close> bs by simp
    ultimately show False by simp
  qed
  then show ?thesis using bs assms(4) by (cases n) auto
qed

lemma upload_Inr:
  assumes "upload_device_backup env now rq chunks i auth w = (Inr reply, w')"
  obtains d payload stored where "device_from_token (de_crypto env) now (work (dw_db w)) i auth = Inr d"
    "backup_request_pending d" "read_device_backup_request (de_float env) rq chunks = Inr payload"
    "validated_backup env payload (dev_id d) = Inr stored"
    "store_backup now (backup_format_required (de_cfg env)) stored d (dw_db w) = (reply, dw_db w')"
  using assms
  by (auto simp: upload_device_backup_def authorize_device_backup_upload_def abind_def aseq_def device_limit_def
      authenticate_def store_device_backup_payload_def split: prod.splits sum.splits if_splits)


lemma taken_are_newest:
  assumes "distinct (map dbk_id (device_backups db))" and "x \<in> set (drop n (device_backups_of i db))"
    and "y \<in> set (take n (device_backups_of i db))"
  shows "dbk_created_at x \<le> dbk_created_at y"
proof -
  have "sorted (map (\<lambda>b. - dbk_created_at b) (take n (device_backups_of i db) @ drop n (device_backups_of i db)))"
    using device_backups_of_props(2) [OF assms(1)] by simp
  with assms(2,3) show ?thesis unfolding map_append sorted_append by auto
qed

lemma add_device_event_committed_backups:
  "device_backups (committed (commit (add_device_event now i a m s))) = device_backups (work s)"
  "get_device (committed (commit (add_device_event now i a m s))) = get_device (work s)"
  by simp_all

lemma store_backup_effect:
  assumes "store_backup now fmt text d s = (reply, s')"
  obtains b s2 where "dbk_id b = uuid_supply s" "dbk_device_id b = dev_id d" "dbk_created_at b = now"
    "dbk_encrypted_payload b = text" "dbk_backup_format b = fmt"
    "device_backups s2 = device_backups (work s) @ [b]"
    "device_backups (committed s') = filter (\<lambda>r. dbk_id r \<notin> set (map dbk_id
        (slice_from (dev_backup_retention_count d) (device_backups_of (dev_id d) s2)))) (device_backups s2)"
    "br_backup_id reply = uuid_supply s"
    "br_retained_count reply = min (int (length (device_backups_of (dev_id d) s2))) (dev_backup_retention_count d)"
    "get_device (committed s') = get_device (put_device
        (d\<lparr>dev_backup_last_uploaded_at := Some now, dev_backup_last_requested_at := None\<rparr>) (work s))"
proof -
  have g: "get_device (x\<lparr>device_backups := y\<rparr>) = get_device x" for x y by (simp add: get_device_def fun_eq_iff)
  have p: "put_device r (x\<lparr>device_backups := y\<rparr>) = (put_device r x)\<lparr>device_backups := y\<rparr>" for r x y
    by (simp add: put_device_def)
  show thesis
    using assms unfolding store_backup_def fresh_uuid_def Let_def
    by (intro that) (auto simp: add_device_event_committed_backups g p save_device_def put_device_def)
qed

lemma retained_backups:
  fixes db :: hub_db and i :: uuid and n :: int
  assumes "distinct (map dbk_id (device_backups db))" and "0 \<le> n"
  defines "kept \<equiv> filter (\<lambda>r. dbk_id r \<notin> set (map dbk_id (slice_from n (device_backups_of i db)))) (device_backups db)"
  shows "y \<in> set kept \<and> dbk_device_id y = i \<longleftrightarrow> y \<in> set (take (nat n) (device_backups_of i db))"
    and "int (length (filter (\<lambda>b. dbk_device_id b = i) kept)) = min (int (length (device_backups_of i db))) n"
    and "x \<in> set (device_backups db) - set kept \<Longrightarrow> dbk_device_id x = i \<and>
           (\<forall>y\<in>set kept. dbk_device_id y = i \<longrightarrow> dbk_created_at x \<le> dbk_created_at y)"
proof -
  note kept = kept_backups [OF assms(1,2), of i, folded kept_def]
  show y: "y \<in> set kept \<and> dbk_device_id y = i \<longleftrightarrow> y \<in> set (take (nat n) (device_backups_of i db))" for y
    using mset_eq_setD [OF kept(1)] by auto
  show "int (length (filter (\<lambda>b. dbk_device_id b = i) kept)) = min (int (length (device_backups_of i db))) n"
    using mset_eq_length [OF kept(1)] assms(2) by simp
  assume x: "x \<in> set (device_backups db) - set kept"
  have xi: "dbk_device_id x = i" using x arg_cong [OF kept(2), of set] by auto
  with x device_backups_of_props(3) [OF assms(1), of i]
  have "x \<in> set (take (nat n) (device_backups_of i db) @ drop (nat n) (device_backups_of i db))" by simp
  with x xi y have "x \<in> set (drop (nat n) (device_backups_of i db))" unfolding set_append by blast
  then show "dbk_device_id x = i \<and> (\<forall>y\<in>set kept. dbk_device_id y = i \<longrightarrow> dbk_created_at x \<le> dbk_created_at y)"
    using xi y taken_are_newest [OF assms(1)] by blast
qed

subsection \<open>An example\<close>

definition example_device_cfg :: settings where
  "example_device_cfg = default_settings\<lparr>cfg_config_backup_mode := ''plaintext'', cfg_wg_dry_run := True\<rparr>"

definition example_device_env :: "(unit, unit) device_env" where
  "example_device_env = \<lparr>de_crypto = example_crypto, de_cfg = example_device_cfg,
     de_redis = \<lparr>redis_incr = (\<lambda>_ r. (None, r)), redis_expire = (\<lambda>_ _ r. (None, r))\<rparr>, de_backend = Edge,
     de_wg = \<lparr>we_run = (\<lambda>_ _ w. (TimedOut, w)), we_agent = (\<lambda>_ _ _ _ w. (AgentTimeout, w))\<rparr>,
     de_iso = (\<lambda>_. None), de_aware = (\<lambda>t. Some True), de_float = (\<lambda>t. JFloat t 0)\<rparr>"

definition example_fw :: device where
  "example_fw = (default_device 1 7)\<lparr>dev_hostname := ''fw'', dev_company_id := 3,
     dev_wg_public_key := replicate 43 CHR ''A'' @ ''='',
     dev_device_token_hash := hash_secret example_crypto ''salt'' ''tok'', dev_device_token_expires_at := 1000,
     dev_backup_last_requested_at := Some 5, dev_backup_retention_count := 1\<rparr>"

definition example_old_backup :: device_backup where
  "example_old_backup = \<lparr>dbk_id = 4, dbk_device_id = 1, dbk_filename = ''f'', dbk_backup_format = plaintext_format,
     dbk_encrypted_payload = ''{}'', dbk_created_at = 2\<rparr>"

definition example_device_world :: "(unit, unit) device_world" where
  "example_device_world = \<lparr>dw_db = open_session (empty_db\<lparr>devices := [example_fw],
       device_backups := [example_old_backup]\<rparr>) 9,
     dw_wg = \<lparr>wg_key_file = None, wg_key_mode = None, wg_config_file = None, wg_config_mode = None, wg_ext = ()\<rparr>,
     dw_limits = ([], ()), dw_tunnels = \<lparr>tn_counts = Map.empty, tn_websockets = Map.empty, tn_tasks = Map.empty\<rparr>\<rparr>"


definition example_fields :: "(string \<times> json) list" where
  "example_fields = [(''captured_at'', JStr ''t''), (''content'', JStr ''<opnsense/>''), (''device_id'', JStr (uuid_str 1)),
     (''format'', JStr plaintext_format), (''source_hostname'', JStr ''fw''), (''version'', JInt 1)]"

definition example_payload :: "(string \<times> json) list" where
  "example_payload = [(''format'', JStr plaintext_format), (''plaintext_backup'', JObj example_fields)]"

definition example_device_request :: request where
  "example_device_request = \<lparr>rq_method = ''POST'', rq_path = ''/'', rq_client = None,
     rq_headers = (\<lambda>_. None), rq_cookies = (\<lambda>_. None), rq_hostname = Some ''hub''\<rparr>"

lemma upt_32: "[0..<32] = [0,1,2,3,4,5,6,7,8,9,10,11,12,13,14,15,16,17,18,19,20,21,22,23,24,25,26,27,28,29,30,31::nat]"
  by (simp add: upt_rec)

lemma uuid_str_1: "uuid_str (Suc 0) = ''00000000-0000-0000-0000-000000000001''"
  unfolding uuid_str_def uuid_hex_def upt_32 by (simp add: hex_char_def str_eval)

lemma example_plain: "plain_json (JObj example_fields)" "plain_json (JObj example_payload)"
  by (simp_all add: example_fields_def example_payload_def)

lemma example_sort_keys: "sort_keys (JObj example_fields) = JObj example_fields"
  "sort_keys (JObj example_payload) = JObj example_payload"
  by (simp_all add: example_fields_def example_payload_def less_char_def of_char_def)

lemma example_dump: "json_dumps (JObj example_fields) = ''{\"captured_at\":\"t\",\"content\":\"<opnsense/>\",\"device_id\":\"'' @ uuid_str (Suc 0)
   @ ''\",\"format\":\"'' @ plaintext_format @ ''\",\"source_hostname\":\"fw\",\"version\":1}''"
  by (simp add: example_fields_def less_char_def of_char_def uuid_str_1 plaintext_format_def dump_str_def
      escape_char_def str_eval int_str_def)

lemma example_dump_length: "length (json_dumps (JObj example_payload)) < 1000" "length (json_dumps (JObj example_fields)) < 1000"
  using example_dump by (simp_all add: example_payload_def less_char_def of_char_def plaintext_format_def dump_str_def
      escape_char_def str_eval uuid_str_1 del: json_dumps.simps(7) add: json_dumps.simps(7) [of "[a, b]" for a b])

lemma example_read: "read_device_backup_request fl example_device_request [json_dumps (JObj example_payload)] = Inr example_payload"
proof -
  have "keeps_distinct reject_duplicate_json_keys" by (simp add: keeps_distinct_def reject_duplicate_json_keys_def)
  from json_text_roundtrip [OF this example_plain(2)]
  have "json_loads fl reject_duplicate_json_keys (json_dumps (JObj example_payload)) = Some (JObj example_payload)" 
    by (simp only: example_sort_keys)
  then show ?thesis using example_dump_length(1)
    by (simp add: read_device_backup_request_def example_device_request_def max_request_bytes_def rbind_def)
qed


lemma example_field:
  "field example_fields ''format'' = JStr plaintext_format" "field example_fields ''version'' = JInt 1"
  "field example_fields ''device_id'' = JStr (uuid_str 1)" "field example_fields ''source_hostname'' = JStr ''fw''"
  "field example_fields ''captured_at'' = JStr ''t''" "field example_fields ''content'' = JStr ''<opnsense/>''"
  "set (map fst example_fields) = plaintext_envelope_fields"
  by (auto simp: example_fields_def field_def plaintext_envelope_fields_def)

lemma example_valid: "validate_plaintext_device_backup (\<lambda>t. Some True) (JObj example_fields) 1 = Inr (json_dumps (JObj example_fields))"
proof -
  have "canonical_payload ''plaintext'' example_fields = Inr (json_dumps (JObj example_fields))"
    using example_dump_length(2) by (simp add: canonical_payload_def Let_def require_def ensure_def rbind_def max_envelope_chars_def)
  moreover have "check_envelope_device ''plaintext'' example_fields 1 = Inr ()"
    by (simp only: check_envelope_device_def example_field py_str.simps) (simp add: parse_uuid_str require_def ensure_def)
  moreover have "check_hostname ''plaintext'' example_fields = Inr ()"
     "check_timestamp (\<lambda>t. Some True) ''plaintext'' example_fields = Inr ()"
    "check_content example_fields = Inr ()"
    by (simp_all add: check_hostname_def check_timestamp_def check_content_def example_field require_def ensure_def 
         rbind_def max_ciphertext_bytes_def str_eval)
  ultimately show ?thesis
    by (simp add: validate_plaintext_device_backup_def example_field(1,2,7) [unfolded set_map] require_def ensure_def rbind_def
        del: json_dumps.simps)
qed

lemma example_device_from_token:
  "device_from_token example_crypto 10 (work (dw_db example_device_world)) 1 (Some ''Bearer tok'') = Inr example_fw"
  by (simp add: device_from_token_def example_device_world_def open_session_def get_device_def example_fw_def default_device_def
      str_eval verify_hash_secret device_token_is_expired_def)

lemma example_accepted:
  "\<exists>reply w. upload_device_backup example_device_env 10 example_device_request [json_dumps (JObj example_payload)] 1
     (Some ''Bearer tok'') example_device_world = (Inr reply, w)"
proof -
  have "validated_backup example_device_env example_payload 1 = Inr (json_dumps (JObj example_fields))"
    using example_valid
    by (simp add: validated_backup_def backup_format_required_def example_device_env_def example_device_cfg_def
        example_payload_def plaintext_format_def field_def str_eval insert_commute del: json_dumps.simps)
  moreover have "backup_request_pending example_fw" "dev_id example_fw = 1"
    by (simp_all add: backup_request_pending_def example_fw_def default_device_def)
  moreover have "device_limit example_device_env now rq b i l n w = (Inr (), w)" for now rq b i l n w
    by (cases "dw_limits w") (simp add: device_limit_def apply_rate_limit_def example_device_env_def)
  moreover have "de_crypto example_device_env = example_crypto" by (simp add: example_device_env_def)
  ultimately show ?thesis
    using example_device_from_token example_read [of "de_float example_device_env"]
    by (simp add: upload_device_backup_def authorize_device_backup_upload_def abind_def aseq_def alift_def aret_def
        authenticate_def store_device_backup_payload_def del: json_dumps.simps split: prod.splits)
qed

subsection \<open>An upload\<close>

lemma upload_stored:
  assumes "upload_device_backup env now rq chunks i auth w = (Inr reply, w')"
    and "distinct (map dbk_id (device_backups (work (dw_db w))))"
    and "\<forall>b\<in>set (device_backups (work (dw_db w))). dbk_id b < uuid_supply (dw_db w)"
    and "\<forall>d\<in>set (devices (work (dw_db w))). 1 \<le> dev_backup_retention_count d"
    and "\<forall>b\<in>set (device_backups (work (dw_db w))). dbk_device_id b = i \<longrightarrow> dbk_created_at b < now"
  obtains d payload b s2 where "device_from_token (de_crypto env) now (work (dw_db w)) i auth = Inr d"
    "backup_request_pending d" "read_device_backup_request (de_float env) rq chunks = Inr payload"
    "validated_backup env payload i = Inr (dbk_encrypted_payload b)"
    "dbk_backup_format b = backup_format_required (de_cfg env)"
    "dbk_id b = br_backup_id reply" "dbk_device_id b = i" "dbk_created_at b = now"
    "device_backups s2 = device_backups (work (dw_db w)) @ [b]" "distinct (map dbk_id (device_backups s2))"
    "0 \<le> dev_backup_retention_count d"
    "device_backups (committed (dw_db w')) = filter (\<lambda>r. dbk_id r \<notin> set (map dbk_id
        (slice_from (dev_backup_retention_count d) (device_backups_of i s2)))) (device_backups s2)"
    "br_retained_count reply = min (int (length (device_backups_of i s2))) (dev_backup_retention_count d)"
    "b \<in> set (device_backups (committed (dw_db w')))"
    "\<exists>d'. get_device (committed (dw_db w')) i = Some d' \<and> \<not> backup_request_pending d'"
proof -
  let ?old = "device_backups (work (dw_db w))" and ?new = "device_backups (committed (dw_db w'))"
  from assms(1) obtain d payload stored where auth: "device_from_token (de_crypto env) now (work (dw_db w)) i auth = Inr d"
    and pend: "backup_request_pending d" and read: "read_device_backup_request (de_float env) rq chunks = Inr payload"
    and val: "validated_backup env payload (dev_id d) = Inr stored"
    and st: "store_backup now (backup_format_required (de_cfg env)) stored d (dw_db w) = (reply, dw_db w')"
    by (rule upload_Inr)
  from auth have dev: "get_device (work (dw_db w)) i = Some d"
    by (auto simp: device_from_token_def Let_def split: if_splits option.splits)
  from dev have di: "dev_id d = i" by (rule get_device_id)
  from dev assms(4) have ret: "1 \<le> dev_backup_retention_count d" by (auto simp: get_device_def dest: find_SomeD)
  from st [unfolded di] obtain b s2 where b: "dbk_id b = uuid_supply (dw_db w)" "dbk_device_id b = i" "dbk_created_at b = now"
      "dbk_encrypted_payload b = stored" "dbk_backup_format b = backup_format_required (de_cfg env)"
    and s2: "device_backups s2 = ?old @ [b]"
    and new: "?new = filter (\<lambda>r. dbk_id r \<notin> set (map dbk_id
        (slice_from (dev_backup_retention_count d) (device_backups_of i s2)))) (device_backups s2)"
    and reply: "br_backup_id reply = uuid_supply (dw_db w)"
      "br_retained_count reply = min (int (length (device_backups_of i s2))) (dev_backup_retention_count d)"
    and gd: "get_device (committed (dw_db w')) = get_device (put_device
        (d\<lparr>dev_backup_last_uploaded_at := Some now, dev_backup_last_requested_at := None\<rparr>) (work (dw_db w)))"
    by (rule store_backup_effect) (simp only: di)
  have dist: "distinct (map dbk_id (device_backups s2))" using assms(2,3) b(1) s2 by auto
  have ret0: "0 \<le> dev_backup_retention_count d" using ret by simp
  have "b \<in> set (take (nat (dev_backup_retention_count d)) (device_backups_of i s2))"
    using device_backups_of_props [OF dist, of i] ret assms(5) b s2
    by (intro newest_taken) (auto simp: distinct_map)
  with retained_backups(1) [OF dist ret0, where i = i, folded new] have bin: "b \<in> set ?new" by blast
  have "\<exists>d'. get_device (committed (dw_db w')) i = Some d' \<and> \<not> backup_request_pending d'"
    using get_device_put [OF dev] di by (simp add: gd backup_request_pending_def)
  moreover have "validated_backup env payload i = Inr (dbk_encrypted_payload b)" using val b(4) di by simp
  moreover have "dbk_id b = br_backup_id reply" using b(1) reply(1) by simp
  ultimately show thesis
    by - (rule that [OF auth pend read _ b(5) _ b(2,3) s2 dist ret0 new reply(2) bin])
qed

text \<open>C22. An accepted upload comes from an authenticated firewall with a pending request. Afterwards the
  uploaded text is stored as a backup of that firewall (when none of its backups lies in the future);
  the firewall has as many backups as the reply says, at most the retention count, and none that
  was dropped is newer than one that was kept; the backups of the other firewalls are as before,
  and no request is pending.\<close>

theorem device_backup_upload:
  assumes "upload_device_backup env now rq chunks i auth w = (Inr reply, w')"
    and "distinct (map dbk_id (device_backups (work (dw_db w))))"
    and "\<forall>b\<in>set (device_backups (work (dw_db w))). dbk_id b < uuid_supply (dw_db w)"
    and "\<forall>d\<in>set (devices (work (dw_db w))). 1 \<le> dev_backup_retention_count d"
    and "\<forall>b\<in>set (device_backups (work (dw_db w))). dbk_device_id b = i \<longrightarrow> dbk_created_at b < now"
  shows "\<exists>d. device_from_token (de_crypto env) now (work (dw_db w)) i auth = Inr d \<and> backup_request_pending d
    \<and> (\<exists>b\<in>set (device_backups (committed (dw_db w'))). dbk_id b = br_backup_id reply \<and> dbk_device_id b = i
         \<and> dbk_created_at b = now
         \<and> (\<exists>payload. read_device_backup_request (de_float env) rq chunks = Inr payload
              \<and> validated_backup env payload i = Inr (dbk_encrypted_payload b)))
    \<and> int (length (filter (\<lambda>b. dbk_device_id b = i) (device_backups (committed (dw_db w'))))) = br_retained_count reply
    \<and> br_retained_count reply \<le> dev_backup_retention_count d
    \<and> (\<forall>x\<in>set (device_backups (work (dw_db w))) - set (device_backups (committed (dw_db w'))).
         dbk_device_id x = i \<and> (\<forall>y\<in>set (device_backups (committed (dw_db w'))).
           dbk_device_id y = i \<longrightarrow> dbk_created_at x \<le> dbk_created_at y))
    \<and> filter (\<lambda>b. dbk_device_id b \<noteq> i) (device_backups (committed (dw_db w')))
        = filter (\<lambda>b. dbk_device_id b \<noteq> i) (device_backups (work (dw_db w)))
    \<and> (\<exists>d'. get_device (committed (dw_db w')) i = Some d' \<and> \<not> backup_request_pending d')"
proof -
  from upload_stored [OF assms] obtain d payload b s2 where
    auth: "device_from_token (de_crypto env) now (work (dw_db w)) i auth = Inr d" "backup_request_pending d"
      "read_device_backup_request (de_float env) rq chunks = Inr payload"
      "validated_backup env payload i = Inr (dbk_encrypted_payload b)"
    and b: "dbk_id b = br_backup_id reply" "dbk_device_id b = i" "dbk_created_at b = now"
    and s2: "device_backups s2 = device_backups (work (dw_db w)) @ [b]" "distinct (map dbk_id (device_backups s2))"
      "0 \<le> dev_backup_retention_count d"
    and new: "device_backups (committed (dw_db w')) = filter (\<lambda>r. dbk_id r \<notin> set (map dbk_id
        (slice_from (dev_backup_retention_count d) (device_backups_of i s2)))) (device_backups s2)"
      "br_retained_count reply = min (int (length (device_backups_of i s2))) (dev_backup_retention_count d)"
      "b \<in> set (device_backups (committed (dw_db w')))"
      "\<exists>d'. get_device (committed (dw_db w')) i = Some d' \<and> \<not> backup_request_pending d'" .
  note kept = retained_backups [OF s2(2,3), where i = i, folded new(1)]
    and others = kept_backups(2) [OF s2(2,3), where i = i, folded new(1)]
  show ?thesis
    using auth b new(2-) others kept(2,3) s2(1) by - (rule exI [of _ d], intro conjI bexI [of _ b], auto)
qed

theorem device_backup_upload_witness:
  "\<exists>reply w' b. upload_device_backup example_device_env 10 example_device_request [json_dumps (JObj example_payload)] 1
       (Some ''Bearer tok'') example_device_world = (Inr reply, w')
     \<and> b \<in> set (device_backups (committed (dw_db w'))) \<and> dbk_id b = br_backup_id reply \<and> br_retained_count reply \<le> 1"
proof -
  obtain reply w' where u: "upload_device_backup example_device_env 10 example_device_request
      [json_dumps (JObj example_payload)] 1 (Some ''Bearer tok'') example_device_world = (Inr reply, w')"
    using example_accepted by blast
  obtain d where d: "device_from_token example_crypto 10 (work (dw_db example_device_world)) 1 (Some ''Bearer tok'') = Inr d"
    and b: "\<exists>b\<in>set (device_backups (committed (dw_db w'))). dbk_id b = br_backup_id reply"
    and r: "br_retained_count reply \<le> dev_backup_retention_count d"
    using device_backup_upload [OF u]
    by (fastforce simp: example_device_world_def open_session_def example_old_backup_def example_fw_def
        example_device_env_def)
  from d have "d = example_fw" by (simp only: example_device_from_token sum.inject)
  then show ?thesis using u b r by (auto simp: example_fw_def simp del: json_dumps.simps)
qed


subsection \<open>A stored plaintext backup\<close>

lemma validated_plaintext:
  assumes "validated_backup env payload i = Inr stored" and "backup_format_required (de_cfg env) = plaintext_format"
  obtains kvs content where "map_of payload ''plaintext_backup'' = Some (JObj kvs)" "stored = json_dumps (JObj kvs)"
    "field kvs ''content'' = JStr content" "content \<noteq> []"
proof -
  from assms obtain v where v: "map_of payload ''plaintext_backup'' = Some v"
    and val: "validate_plaintext_device_backup (de_aware env) v i = Inr stored"
    by (cases "map_of payload ''plaintext_backup''")
      (auto simp: validated_backup_def field_def validate_plaintext_device_backup_def split: if_splits)
  show thesis
  proof (cases v)
    case (JObj kvs)
    with val have c: "check_content kvs = Inr ()" "canonical_payload ''plaintext'' kvs = Inr stored"
      by (auto simp: validate_plaintext_device_backup_def rbind_def split: sum.splits)
    from c(1) obtain content where "field kvs ''content'' = JStr content" "content \<noteq> []"
      by (fastforce simp: check_content_def rbind_def require_def ensure_def Let_def split: json.splits if_splits)
    moreover from c(2) have "stored = json_dumps (JObj kvs)"
      by (auto simp: canonical_payload_def Let_def rbind_def split: sum.splits)
    ultimately show thesis using that v JObj by blast
  qed (use val in \<open>simp_all add: validate_plaintext_device_backup_def\<close>)
qed

lemma field_sorted:
  assumes "distinct (map fst kvs)" and "field kvs k = JStr s"
  shows "field (sort_key fst (map (\<lambda>(k, v). (k, sort_keys v)) kvs)) k = JStr s"
proof -
  let ?g = "map (\<lambda>(k, v). (k, sort_keys v)) kvs"
  have m: "map fst ?g = map fst kvs" by (simp add: case_prod_unfold comp_def)
  from assms(2) have "(k, JStr s) \<in> set kvs" by (auto simp: field_def split: option.splits dest: map_of_SomeD)
  then have "(k, JStr s) \<in> set (sort_key fst ?g)" by force
  moreover have "distinct (map fst (sort_key fst ?g))" using assms(1) by (simp only: distinct_sort_key m)
  ultimately show ?thesis by (simp add: field_def)
qed

lemma stored_content_dumps:
  assumes "plain_json (JObj kvs)" and "field kvs ''content'' = JStr content" and "content \<noteq> []"
  shows "stored_content fl (json_dumps (JObj kvs)) = Inr content"
proof -
  have "json_loads fl dict_hook (json_dumps (JObj kvs)) = Some (sort_keys (JObj kvs))"
    by (rule json_text_roundtrip [OF dict_hook_distinct assms(1)])
  moreover have "field (sort_key fst (map (\<lambda>(k, v). (k, sort_keys v)) kvs)) ''content'' = JStr content"
    using assms by (intro field_sorted) auto
  ultimately show ?thesis using assms(3)
    by (simp add: stored_content_def del: json_dumps.simps)
qed

lemma get_backup_in: "distinct (map dbk_id (device_backups db)) \<Longrightarrow> b \<in> set (device_backups db) \<Longrightarrow> get_backup db (dbk_id b) = Some b"
proof -
  have "find (\<lambda>x. dbk_id x = dbk_id b) bs = Some b" if "distinct (map dbk_id bs)" "b \<in> set bs" for bs
    using that by (induction bs) (auto simp: rev_image_eqI)
  then show "distinct (map dbk_id (device_backups db)) \<Longrightarrow> b \<in> set (device_backups db) \<Longrightarrow> ?thesis"
    by (simp add: get_backup_def)
qed

text \<open>Where plaintext backups are configured, the content of an accepted upload (a JSON value without
  floating-point numbers) is downloaded character for character by every user who may view the firewall.\<close>

theorem plaintext_backup_roundtrip:
  assumes "upload_device_backup env now rq chunks i auth w = (Inr reply, w')"
    and "backup_format_required (de_cfg env) = plaintext_format"
    and "read_device_backup_request (de_float env) rq chunks = Inr payload" and "plain_json (JObj payload)"
    and "distinct (map dbk_id (device_backups (work (dw_db w))))"
    and "\<forall>b\<in>set (device_backups (work (dw_db w))). dbk_id b < uuid_supply (dw_db w)"
    and "\<forall>d\<in>set (devices (work (dw_db w))). 1 \<le> dev_backup_retention_count d"
    and "\<forall>b\<in>set (device_backups (work (dw_db w))). dbk_device_id b = i \<longrightarrow> dbk_created_at b < now"
    and "visible_device (committed (dw_db w')) u ''viewer'' i = Inr d"
  shows "\<exists>kvs content dl. map_of payload ''plaintext_backup'' = Some (JObj kvs) \<and> map_of kvs ''content'' = Some (JStr content)
    \<and> download_device_backup fl (committed (dw_db w')) u i (br_backup_id reply) = Inr dl \<and> dl_content dl = content"
proof (rule upload_stored [OF assms(1,5-8)])
  fix d0 :: device and payload' and b :: device_backup and s2 :: hub_db
  assume "read_device_backup_request (de_float env) rq chunks = Inr payload'"
    "validated_backup env payload' i = Inr (dbk_encrypted_payload b)"
  then have val: "validated_backup env payload i = Inr (dbk_encrypted_payload b)" using assms(3) by simp
  assume b: "dbk_backup_format b = backup_format_required (de_cfg env)" "dbk_id b = br_backup_id reply" "dbk_device_id b = i"
      "b \<in> set (device_backups (committed (dw_db w')))"
    and d: "distinct (map dbk_id (device_backups s2))"
      "device_backups (committed (dw_db w')) = filter (\<lambda>r. dbk_id r \<notin> set (map dbk_id
        (slice_from (dev_backup_retention_count d0) (device_backups_of i s2)))) (device_backups s2)"
  from validated_plaintext [OF val assms(2)] obtain kvs content where
    v: "map_of payload ''plaintext_backup'' = Some (JObj kvs)" "dbk_encrypted_payload b = json_dumps (JObj kvs)"
      "field kvs ''content'' = JStr content" "content \<noteq> []" .
  from v(1) assms(4) have "plain_json (JObj kvs)" by (force dest: map_of_SomeD)
  note st = stored_content_dumps [OF this v(3,4), of fl, folded v(2)]
  have g: "get_backup (committed (dw_db w')) (br_backup_id reply) = Some b"
    using get_backup_in [OF _ b(4)] b(2) d by (simp add: distinct_map inj_on_def)
  have "dev_id d = i"
    using assms(9) by (auto simp: visible_device_def rbind_def dest: get_device_id split: option.splits sum.splits if_splits)
  then have "backup_of_device (committed (dw_db w')) d (br_backup_id reply) = Inr b"
    using b(3) by (simp add: backup_of_device_def g)
  then have "\<exists>dl. download_device_backup fl (committed (dw_db w')) u i (br_backup_id reply) = Inr dl \<and> dl_content dl = content"
    by (simp add: download_device_backup_def assms(9) b(1) assms(2) st rbind_def)
  moreover have "map_of kvs ''content'' = Some (JStr content)" using v(3) by (auto simp: field_def split: option.splits)
  ultimately show ?thesis using v(1) by blast
qed

definition example_admin :: user where
  "example_admin = \<lparr>usr_id = 1, usr_email = ''a@b'', usr_password_hash = [], usr_first_name = None,
     usr_last_name = None, usr_auth_provider = None, usr_role = ''administrator'', usr_mfa_enabled = False,
     usr_mfa_secret = None, usr_created_at = 0\<rparr>"

lemma example_visible:
  "get_device db i = Some d \<Longrightarrow> visible_device db example_admin role i = Inr d"
  by (simp add: visible_device_def has_company_access_def is_global_admin_def example_admin_def rbind_def)

lemma example_backup_facts:
  "distinct (map dbk_id (device_backups (work (dw_db example_device_world))))"
  "\<forall>b\<in>set (device_backups (work (dw_db example_device_world))). dbk_id b < uuid_supply (dw_db example_device_world)"
  "\<forall>d\<in>set (devices (work (dw_db example_device_world))). 1 \<le> dev_backup_retention_count d"
  "\<forall>b\<in>set (device_backups (work (dw_db example_device_world))). dbk_device_id b = 1 \<longrightarrow> dbk_created_at b < 10"
  by (simp_all add: example_device_world_def open_session_def example_old_backup_def example_fw_def)

theorem plaintext_backup_roundtrip_witness:
  "\<exists>reply w' dl. upload_device_backup example_device_env 10 example_device_request [json_dumps (JObj example_payload)] 1
       (Some ''Bearer tok'') example_device_world = (Inr reply, w')
     \<and> download_device_backup (\<lambda>t. JNull) (committed (dw_db w')) example_admin 1 (br_backup_id reply) = Inr dl
     \<and> dl_content dl = ''<opnsense/>''"
proof -
  obtain reply w' where u: "upload_device_backup example_device_env 10 example_device_request
      [json_dumps (JObj example_payload)] 1 (Some ''Bearer tok'') example_device_world = (Inr reply, w')"
    using example_accepted by blast
  obtain d where d: "get_device (committed (dw_db w')) 1 = Some d"
    by (rule upload_stored [OF u example_backup_facts]) blast
  have "backup_format_required (de_cfg example_device_env) = plaintext_format"
    by (simp add: backup_format_required_def example_device_env_def example_device_cfg_def str_eval)
  from plaintext_backup_roundtrip [OF u this example_read example_plain(2) example_backup_facts example_visible [OF d]]
  obtain kvs content dl where r: "map_of example_payload ''plaintext_backup'' = Some (JObj kvs)"
      "map_of kvs ''content'' = Some (JStr content)"
      "download_device_backup (\<lambda>t. JNull) (committed (dw_db w')) example_admin 1 (br_backup_id reply) = Inr dl"
      "dl_content dl = content"
    by blast
  then have "content = ''<opnsense/>''" by (auto simp: example_payload_def example_fields_def)
  then show ?thesis using u r(3,4) by blast
qed

subsection \<open>Revocation\<close>

lemma revoke_device_Inr:
  assumes "revoke_device env now salt random rq u i w = (Inr target, w')"
    and "get_device (work (dw_db w)) i = Some d0" and "dev_revoked_at d0 = None"
  obtains d where "d = d0\<lparr>dev_revoked_at := Some now, dev_status := ''revoked'',
      dev_device_token_hash := hash_secret (de_crypto env) salt random\<rparr>"
    "fst (remove_peer (de_wg env) (de_cfg env) (dev_wg_public_key d0) (dw_wg w)) = Inr ()"
    "devices (committed (dw_db w')) = devices (put_device d (work (dw_db w)))"
    "dw_tunnels w' = snd (close_device_access i (dw_tunnels w))"
proof -
  have v: "visible_device (work (dw_db w)) u ''admin'' i = Inr d0"
    using assms by (auto simp: visible_device_def rbind_def revoke_device_def split: option.splits sum.splits if_splits)
  obtain p g where p: "remove_peer (de_wg env) (de_cfg env) (dev_wg_public_key d0) (dw_wg w) = (p, g)" by fastforce
  show thesis
    using assms(1,3) get_device_id [OF assms(2)]
    by (intro that [OF refl]; cases p) (auto simp: revoke_device_def v p Let_def device_audit_def write_audit_def
        add_device_event_def fresh_uuid_def save_device_def)
qed

lemma revoke_device_Inl:
  "revoke_device env now salt random rq u i w = (Inl e, w') \<Longrightarrow> dw_db w' = dw_db w \<and> dw_tunnels w' = dw_tunnels w"
  by (auto simp: revoke_device_def Let_def split: sum.splits prod.splits if_splits)

lemma put_device_peers:
  assumes "get_device db i = Some d0" and "dev_id r = i" and "dev_revoked_at r \<noteq> None"
  shows "set (active_peers (db\<lparr>devices := devices (put_device r db)\<rparr>)) \<subseteq>
    {(dev_wg_public_key d, dev_wg_tunnel_ip d) | d. d \<in> set (devices db) \<and> dev_id d \<noteq> i \<and> dev_revoked_at d = None}"
  using assms by (auto simp: active_peers_def put_device_def update_where_def split: if_splits)



end
