(* ===== verification/Plugin_Config.thy ===== *)
theory Plugin_Config
  imports Wireguard
begin

text \<open>
  The firewall plugin's edits of \<open>/conf/config.xml\<close>:
  \<open>src/net-mgmt/os-opnsensehub/src/opnsense/scripts/OPNsense/OPNsenseHub/connect.py\<close>. An element of
  \<open>xml.etree.ElementTree\<close> is its tag, its text and its children; attributes and the white space
  between elements play no part. A function that changes an element in place returns whether it
  changed anything, and the changed element.
\<close>

subsection \<open>Elements\<close>

datatype xml = Xml (xml_tag: string) (xml_text: "string option") (xml_kids: "xml list")

type_synonym edit = "xml \<Rightarrow> bool \<times> xml"

definition element :: "string \<Rightarrow> xml" where
  "element tag = Xml tag None []"

definition with_kids :: "xml \<Rightarrow> xml list \<Rightarrow> xml" where
  "with_kids e ks = Xml (xml_tag e) (xml_text e) ks"

definition with_text :: "xml \<Rightarrow> string \<Rightarrow> xml" where
  "with_text e t = Xml (xml_tag e) (Some t) (xml_kids e)"

text \<open>\<open>find\<close> of one tag and of a path of tags, \<open>findall\<close> and \<open>findtext\<close>.\<close>

definition child :: "string \<Rightarrow> xml \<Rightarrow> xml option" where
  "child tag e = find (\<lambda>c. xml_tag c = tag) (xml_kids e)"

definition findall :: "string \<Rightarrow> xml \<Rightarrow> xml list" where
  "findall tag e = filter (\<lambda>c. xml_tag c = tag) (xml_kids e)"

fun first_some :: "('a \<Rightarrow> 'b option) \<Rightarrow> 'a list \<Rightarrow> 'b option" where
  "first_some f [] = None"
| "first_some f (x # xs) = (case f x of None \<Rightarrow> first_some f xs | Some y \<Rightarrow> Some y)"

fun find_path :: "string list \<Rightarrow> xml \<Rightarrow> xml option" where
  "find_path [] e = Some e"
| "find_path (t # ts) e = first_some (find_path ts) (findall t e)"

definition text_of :: "xml \<Rightarrow> string" where
  "text_of e = (case xml_text e of None \<Rightarrow> [] | Some t \<Rightarrow> t)"

definition findtext :: "string list \<Rightarrow> xml \<Rightarrow> string option" where
  "findtext path e = map_option text_of (find_path path e)"

text \<open>The first child that satisfies a condition, replaced; the element that a path finds, replaced.\<close>

fun put_first :: "('a \<Rightarrow> bool) \<Rightarrow> 'a \<Rightarrow> 'a list \<Rightarrow> 'a list" where
  "put_first p y [] = []"
| "put_first p y (x # xs) = (if p x then y # xs else x # put_first p y xs)"

fun put_path :: "string list \<Rightarrow> xml \<Rightarrow> xml \<Rightarrow> xml" where
  "put_path [] v e = v"
| "put_path (t # ts) v e =
     (case find (\<lambda>c. xml_tag c = t \<and> find_path ts c \<noteq> None) (xml_kids e) of
        None \<Rightarrow> e
      | Some c \<Rightarrow> with_kids e
          (put_first (\<lambda>c. xml_tag c = t \<and> find_path ts c \<noteq> None) (put_path ts v c) (xml_kids e)))"

text \<open>\<open>node = find_or_create(parent, tag)\<close> and an edit of the node.\<close>

definition in_child :: "string \<Rightarrow> edit \<Rightarrow> edit" where
  "in_child tag f e =
     (case child tag e of
        None \<Rightarrow> (case f (element tag) of (b, c) \<Rightarrow> (b, with_kids e (xml_kids e @ [c])))
      | Some k \<Rightarrow> (case f k of (b, c) \<Rightarrow> (b, with_kids e (put_first (\<lambda>x. xml_tag x = tag) c (xml_kids e)))))"

definition set_text :: "string \<Rightarrow> edit" where
  "set_text v c = (if xml_text c = Some v then (False, c) else (True, with_text c v))"

definition set_child_text :: "string \<Rightarrow> string \<Rightarrow> edit" where
  "set_child_text tag v = in_child tag (set_text v)"

fun remove_first :: "('a \<Rightarrow> bool) \<Rightarrow> 'a list \<Rightarrow> 'a list" where
  "remove_first p [] = []"
| "remove_first p (x # xs) = (if p x then xs else x # remove_first p xs)"

definition remove_child :: "string \<Rightarrow> edit" where
  "remove_child tag e =
     (case child tag e of
        None \<Rightarrow> (False, e)
      | Some _ \<Rightarrow> (True, with_kids e (remove_first (\<lambda>c. xml_tag c = tag) (xml_kids e))))"

text \<open>\<open>changed |= ...\<close>: edits one after the other.\<close>

fun edits :: "edit list \<Rightarrow> edit" where
  "edits [] e = (False, e)"
| "edits (f # fs) e = (case f e of (b, e') \<Rightarrow> case edits fs e' of (b', e'') \<Rightarrow> (b \<or> b', e''))"

subsection \<open>The interface\<close>

definition wg_iface :: string where "wg_iface = ''wgopnhub''"
definition assigned_if_descr :: string where "assigned_if_descr = ''OPNHUB''"
definition rule_descr :: string where "rule_descr = ''Allow OPNsense Hub WebGUI proxy''"
definition floating_rule_descr :: string where
  "floating_rule_descr = ''Allow OPNsense Hub WebGUI proxy (floating)''"

definition is_hub_interface :: "xml \<Rightarrow> bool" where
  "is_hub_interface c =
     (findtext [''if''] c = Some wg_iface \<or> findtext [''descr''] c = Some assigned_if_descr)"

definition opt_name :: "nat \<Rightarrow> string" where
  "opt_name i = ''opt'' @ nat_str i"

lemma opt_name_inj: "opt_name i = opt_name j \<longleftrightarrow> i = j"
proof
  assume "opt_name i = opt_name j"
  then have "nat_str i = nat_str j" by (simp add: opt_name_def)
  then have "map_option nat (py_int (nat_str i)) = map_option nat (py_int (nat_str j))" by simp
  then show "i = j" by simp
qed simp

function free_opt :: "string list \<Rightarrow> nat \<Rightarrow> nat" where
  "free_opt used i = (if opt_name i \<in> set used then free_opt used (Suc i) else i)"
  by auto
termination
proof (relation "measure (\<lambda>(used, i). card {j. i \<le> j \<and> opt_name j \<in> set used})")
  fix used :: "string list" and i :: nat
  assume i: "opt_name i \<in> set used"
  have "finite {j. opt_name j \<in> set used}"
    using finite_vimageI [of "set used" opt_name] by (simp add: vimage_def inj_def opt_name_inj)
  then have f: "finite {j. i \<le> j \<and> opt_name j \<in> set used}" by (rule rev_finite_subset) auto
  have "{j. Suc i \<le> j \<and> opt_name j \<in> set used} \<subset> {j. i \<le> j \<and> opt_name j \<in> set used}"
  proof
    show "{j. Suc i \<le> j \<and> opt_name j \<in> set used} \<noteq> {j. i \<le> j \<and> opt_name j \<in> set used}"
    proof
      assume "{j. Suc i \<le> j \<and> opt_name j \<in> set used} = {j. i \<le> j \<and> opt_name j \<in> set used}"
      moreover have "i \<in> {j. i \<le> j \<and> opt_name j \<in> set used}" using i by simp
      ultimately have "i \<in> {j. Suc i \<le> j \<and> opt_name j \<in> set used}" by blast
      then show False by simp
    qed
  qed auto
  with f show "((used, Suc i), (used, i)) \<in> measure (\<lambda>(used, i). card {j. i \<le> j \<and> opt_name j \<in> set used})"
    by (simp add: psubset_card_mono)
qed simp

declare free_opt.simps [simp del]

lemma free_opt_unused: "opt_name (free_opt used i) \<notin> set used"
  by (induction used i rule: free_opt.induct) (subst free_opt.simps, auto)

definition set_interface :: "string \<Rightarrow> string \<Rightarrow> edit" where
  "set_interface interface_ip prefix_len = edits
     [set_child_text ''enable'' ''1'',
      set_child_text ''if'' wg_iface,
      set_child_text ''descr'' assigned_if_descr,
      set_child_text ''ipaddr'' interface_ip,
      set_child_text ''subnet'' prefix_len,
      set_child_text ''ipaddrv6'' ''none'',
      remove_child ''type'']"

definition assign_interface :: "string \<Rightarrow> string \<Rightarrow> xml \<Rightarrow> (string \<times> bool) \<times> xml" where
  "assign_interface interface_ip prefix_len interfaces =
     (case find is_hub_interface (xml_kids interfaces) of
        None \<Rightarrow>
          (let key = opt_name (free_opt (map xml_tag (xml_kids interfaces)) 1) in
           case set_interface interface_ip prefix_len (element key) of (b, c) \<Rightarrow>
             ((key, True), with_kids interfaces (xml_kids interfaces @ [c])))
      | Some existing \<Rightarrow>
          (case in_child (xml_tag existing) (set_interface interface_ip prefix_len) interfaces of
             (b, interfaces') \<Rightarrow> ((xml_tag existing, b), interfaces')))"

definition or_element :: "string \<Rightarrow> xml option \<Rightarrow> xml" where
  "or_element tag c = (case c of None \<Rightarrow> element tag | Some k \<Rightarrow> k)"

text \<open>\<open>root.find(tag)\<close> replaced, or appended where \<open>find_or_create\<close> made it.\<close>

definition put_child :: "string \<Rightarrow> xml \<Rightarrow> xml \<Rightarrow> xml" where
  "put_child tag c e = snd (in_child tag (\<lambda>_. (True, c)) e)"

definition iface_prefix :: "ip_iface \<Rightarrow> nat" where
  "iface_prefix i = (case i of Iface4 _ p \<Rightarrow> p | Iface6 _ _ p \<Rightarrow> p)"

definition ensure_assigned_interface :: "string \<Rightarrow> xml \<Rightarrow> ((string \<times> bool) \<times> xml) res" where
  "ensure_assigned_interface tunnel_ip root =
     (case ip_interface tunnel_ip of
        None \<Rightarrow> Inl ValueError
      | Some i \<Rightarrow>
          (case assign_interface (show_ip (iface_ip i)) (nat_str (iface_prefix i))
                  (or_element ''interfaces'' (child ''interfaces'' root)) of
             (r, interfaces) \<Rightarrow> Inr (r, put_child ''interfaces'' interfaces root)))"

subsection \<open>The web interface\<close>

definition webgui_path :: "string list" where "webgui_path = [''system'', ''webgui'']"

definition or_text :: "string option \<Rightarrow> string \<Rightarrow> string" where
  "or_text t d = (case t of None \<Rightarrow> d | Some s \<Rightarrow> if s = [] then d else s)"

definition webgui_port :: "xml \<Rightarrow> string" where
  "webgui_port root =
     (case find_path webgui_path root of
        None \<Rightarrow> ''443''
      | Some webgui \<Rightarrow>
          let port = strip (or_text (findtext [''port''] webgui) []) in
          if port \<noteq> [] then port
          else if lower (strip (or_text (findtext [''protocol''] webgui) ''https'')) = ''http'' then ''80''
          else ''443'')"

definition split_items :: "string \<Rightarrow> string list" where
  "split_items s = map strip (split_on CHR '','' s)"

definition listen_values_of :: "xml \<Rightarrow> string list" where
  "listen_values_of node =
     (if xml_kids node \<noteq> [] then map (\<lambda>c. strip (text_of c)) (xml_kids node)
      else split_items (text_of node))"

definition listen_values :: "xml list \<Rightarrow> string list" where
  "listen_values nodes = filter (\<lambda>v. v \<noteq> []) (concat (map listen_values_of nodes))"

definition add_listen :: "string \<Rightarrow> edit" where
  "add_listen key webgui =
     (let nodes = findall ''interfaces'' webgui; vals = listen_values nodes in
      if nodes = [] \<or> vals = [] \<or> key \<in> set vals then (False, webgui)
      else
        let first = hd nodes;
            put = (\<lambda>c. with_kids webgui (put_first (\<lambda>x. xml_tag x = ''interfaces'') c (xml_kids webgui)))
        in (True,
            if xml_kids first \<noteq> [] then put (with_kids first (xml_kids first @ [with_text (element ''interface'') key]))
            else if length nodes = 1 \<and> CHR '','' \<in> set (text_of first)
            then put (with_text first (join '','' (vals @ [key])))
            else with_kids webgui (xml_kids webgui @ [with_text (element ''interfaces'') key])))"

definition ensure_webgui_listen_interface :: "string \<Rightarrow> edit" where
  "ensure_webgui_listen_interface key root =
     (case find_path webgui_path root of
        None \<Rightarrow> (False, root)
      | Some webgui \<Rightarrow>
          (case add_listen key webgui of (b, w) \<Rightarrow> (b, put_path webgui_path w root)))"

subsection \<open>The firewall rules\<close>

definition host_route :: "string \<Rightarrow> string" where
  "host_route ip = ip @ ''/32''"

definition rule_matches :: "string \<Rightarrow> string \<Rightarrow> string \<Rightarrow> string \<Rightarrow> string \<Rightarrow> xml \<Rightarrow> bool" where
  "rule_matches interface_key hub_ip firewall_ip port descr rule =
     (findtext [''descr''] rule = Some descr
      \<or> (findtext [''type''] rule = Some ''pass''
          \<and> findtext [''interface''] rule = Some interface_key
          \<and> findtext [''ipprotocol''] rule = Some ''inet''
          \<and> findtext [''protocol''] rule = Some ''tcp''
          \<and> findtext [''source'', ''address''] rule = Some (host_route hub_ip)
          \<and> findtext [''destination'', ''address''] rule = Some (host_route firewall_ip)
          \<and> findtext [''destination'', ''port''] rule = Some port))"

definition configure_firewall_rule :: "string \<Rightarrow> string \<Rightarrow> string \<Rightarrow> string \<Rightarrow> string \<Rightarrow> bool \<Rightarrow> edit" where
  "configure_firewall_rule interface_key hub_ip firewall_ip port descr floating = edits
     [set_child_text ''type'' ''pass'',
      set_child_text ''interface'' interface_key,
      set_child_text ''ipprotocol'' ''inet'',
      set_child_text ''direction'' ''in'',
      set_child_text ''quick'' ''1'',
      set_child_text ''statetype'' ''keep state'',
      set_child_text ''protocol'' ''tcp'',
      (if floating then set_child_text ''floating'' ''yes'' else remove_child ''floating''),
      in_child ''source'' (set_child_text ''address'' (host_route hub_ip)),
      in_child ''destination'' (edits
        [remove_child ''network'',
         set_child_text ''address'' (host_route firewall_ip),
         set_child_text ''port'' port]),
      set_child_text ''descr'' descr]"

text \<open>The first rule that matches is configured; otherwise a new one is appended, with the time of its creation.\<close>

definition created_by_hub :: "string \<Rightarrow> edit" where
  "created_by_hub now = in_child ''created''
     (edits [set_child_text ''time'' now, set_child_text ''username'' ''OPNsense Hub''])"

definition ensure_rule :: "string \<Rightarrow> string \<Rightarrow> string \<Rightarrow> string \<Rightarrow> string \<Rightarrow> string \<Rightarrow> bool \<Rightarrow> edit" where
  "ensure_rule now interface_key hub_ip firewall_ip port descr floating filter_node =
     (let wanted = (\<lambda>c. xml_tag c = ''rule'' \<and> rule_matches interface_key hub_ip firewall_ip port descr c);
          configure = configure_firewall_rule interface_key hub_ip firewall_ip port descr floating in
      case find wanted (xml_kids filter_node) of
        Some rule \<Rightarrow>
          (case configure rule of (b, r) \<Rightarrow> (b, with_kids filter_node (put_first wanted r (xml_kids filter_node))))
      | None \<Rightarrow>
          (True, with_kids filter_node (xml_kids filter_node @
             [snd (created_by_hub now (snd (configure (element ''rule''))))])))"

definition ensure_firewall_rule ::
  "string \<Rightarrow> string \<Rightarrow> string \<Rightarrow> string \<Rightarrow> string \<Rightarrow> string \<Rightarrow> bool \<Rightarrow> edit" where
  "ensure_firewall_rule now interface_key hub_ip firewall_ip port descr floating =
     in_child ''filter'' (ensure_rule now interface_key hub_ip firewall_ip port descr floating)"

subsection \<open>Integration and its removal\<close>

record integration =
  ig_interface :: string
  ig_port :: string
  ig_changed :: bool
  ig_listen_changed :: bool

definition integrate_config ::
  "string \<Rightarrow> string \<Rightarrow> string \<Rightarrow> string \<Rightarrow> xml \<Rightarrow> (integration \<times> xml) res" where
  "integrate_config now hub_ip firewall_ip interface_address root0 =
     rbind (ensure_assigned_interface interface_address root0) (\<lambda>((key, changed), root1).
       let port = webgui_port root1 in
       case edits [ensure_firewall_rule now key hub_ip firewall_ip port rule_descr False,
                   ensure_firewall_rule now key hub_ip firewall_ip port floating_rule_descr True] root1 of
         (b, root2) \<Rightarrow>
           (case ensure_webgui_listen_interface key root2 of
              (listen, root3) \<Rightarrow>
                Inr (\<lparr>ig_interface = key, ig_port = port, ig_changed = changed \<or> b \<or> listen,
                  ig_listen_changed = listen\<rparr>, root3)))"

definition remove_matching_firewall_rules :: "string list \<Rightarrow> edit" where
  "remove_matching_firewall_rules descriptions root =
     (case child ''filter'' root of
        None \<Rightarrow> (False, root)
      | Some filter_node \<Rightarrow>
          (let ours = (\<lambda>c. xml_tag c = ''rule'' \<and> (\<exists>d\<in>set descriptions. findtext [''descr''] c = Some d)) in
           (list_ex ours (xml_kids filter_node),
            put_child ''filter'' (with_kids filter_node (filter (\<lambda>c. \<not> ours c) (xml_kids filter_node))) root)))"

text \<open>One list of listen interfaces without the key: \<open>None\<close> when the element is removed.\<close>

definition drop_listen :: "string \<Rightarrow> xml \<Rightarrow> bool \<times> xml option" where
  "drop_listen key node =
     (if xml_kids node \<noteq> [] then
        (let ks = filter (\<lambda>c. strip (text_of c) \<noteq> key) (xml_kids node) in
         if ks = [] \<and> strip (text_of node) = [] then (True, None)
         else (length ks \<noteq> length (xml_kids node), Some (with_kids node ks)))
      else
        (let vals = filter (\<lambda>v. v \<noteq> []) (split_items (text_of node)) in
         if key \<notin> set vals then (False, Some node)
         else
           (let rest = filter (\<lambda>v. v \<noteq> key) vals in
            if rest \<noteq> [] then (True, Some (with_text node (join '','' rest))) else (True, None))))"

fun drop_listens :: "string \<Rightarrow> xml list \<Rightarrow> bool \<times> xml list" where
  "drop_listens key [] = (False, [])"
| "drop_listens key (c # cs) =
     (case drop_listens key cs of (b, cs') \<Rightarrow>
        if xml_tag c \<noteq> ''interfaces'' then (b, c # cs')
        else (case drop_listen key c of
            (b', None) \<Rightarrow> (b' \<or> b, cs')
          | (b', Some c') \<Rightarrow> (b' \<or> b, c' # cs')))"

definition remove_webgui_listen_interface :: "string \<Rightarrow> edit" where
  "remove_webgui_listen_interface key root =
     (case find_path webgui_path root of
        None \<Rightarrow> (False, root)
      | Some webgui \<Rightarrow>
          if key = [] then (False, root)
          else (case drop_listens key (xml_kids webgui) of
              (b, ks) \<Rightarrow> (b, put_path webgui_path (with_kids webgui ks) root)))"

definition assigned_interface_key :: "xml \<Rightarrow> string option" where
  "assigned_interface_key root =
     (case child ''interfaces'' root of
        None \<Rightarrow> None
      | Some interfaces \<Rightarrow> map_option xml_tag (find is_hub_interface (xml_kids interfaces)))"

definition remove_assigned_interface :: "xml \<Rightarrow> (string option \<times> bool) \<times> xml" where
  "remove_assigned_interface root =
     (case child ''interfaces'' root of
        None \<Rightarrow> ((None, False), root)
      | Some interfaces \<Rightarrow>
          (case find is_hub_interface (xml_kids interfaces) of
             None \<Rightarrow> ((None, False), root)
           | Some c \<Rightarrow>
               ((Some (xml_tag c), True),
                put_child ''interfaces'' (with_kids interfaces (remove_first is_hub_interface (xml_kids interfaces))) root)))"

definition cleanup_config :: "xml \<Rightarrow> (string option \<times> bool) \<times> xml" where
  "cleanup_config root0 =
     (let assigned = assigned_interface_key root0;
          (listen, root1) = (case assigned of None \<Rightarrow> (False, root0)
            | Some key \<Rightarrow> if key = [] then (False, root0) else remove_webgui_listen_interface key root0);
          (rules, root2) = remove_matching_firewall_rules [rule_descr, floating_rule_descr] root1;
          ((key, removed), root3) = remove_assigned_interface root2
      in ((case key of None \<Rightarrow> assigned | Some k \<Rightarrow> if k = [] then assigned else key, listen \<or> rules \<or> removed), root3))"

subsection \<open>What the status page reports of the file (status.py)\<close>

definition webgui_listen_status :: "xml option \<Rightarrow> string option \<Rightarrow> string" where
  "webgui_listen_status root key =
     (case Option.bind root (find_path webgui_path) of
        None \<Rightarrow> ''default''
      | Some webgui \<Rightarrow>
          let nodes = findall ''interfaces'' webgui in
          if nodes = [] then ''all''
          else if listen_values nodes = [] then ''all''
          else if nonempty key \<and> the key \<in> set (listen_values nodes) then ''includes_opnhub''
          else ''restricted_missing_opnhub'')"

definition firewall_rule_present :: "xml option \<Rightarrow> bool" where
  "firewall_rule_present root =
     (case Option.bind root (child ''filter'') of
        None \<Rightarrow> False
      | Some filter_node \<Rightarrow>
          (\<exists>rule\<in>set (findall ''rule'' filter_node). findtext [''descr''] rule = Some rule_descr))"

end
