(* ===== verification/Plugin_Connect.thy ===== *)
theory Plugin_Connect
  imports Plugin_Config Py_Json_Text Py_Url Py_Uuid
begin

text \<open>
  Enrollment on the firewall:
  \<open>src/net-mgmt/os-opnsensehub/src/opnsense/scripts/OPNsense/OPNsenseHub/connect.py\<close> without the edits of
  \<open>config.xml\<close> (in \<open>Plugin_Config\<close>). The world holds the files of the script: the state (the last object
  saved, an empty one for an unreadable file; none when the file is missing), the private key, the WireGuard configuration and
  \<open>config.xml\<close>, and the lines printed. Commands and HTTP requests are parameters. \<open>fail\<close> records the
  message in the state, prints it and exits. Copies of \<open>config.xml\<close>, file modes and locks are left out.
\<close>

type_synonym json_dict = "(string \<times> json) list"

record 'w plugin_world =
  pw_state :: "json_dict option"
  pw_key :: "string option"
  pw_wg_conf :: "string option"
  pw_config :: "xml option"
  pw_out :: "json_dict list"
  pw_ext :: 'w

datatype post_result = Posted json | PostHttpError int string | PostFailed string

record 'w plugin_env =
  pe_run :: "string list \<Rightarrow> string option \<Rightarrow> 'w \<Rightarrow> run_result \<times> 'w"
  pe_post :: "string \<Rightarrow> json_dict \<Rightarrow> 'w \<Rightarrow> post_result \<times> 'w"
  pe_float :: float_reader
  pe_hostname :: string
  pe_time :: string

type_synonym ('w, 'a) script = "('w plugin_world, 'a) act"

definition dict_put :: "string \<Rightarrow> json \<Rightarrow> json_dict \<Rightarrow> json_dict" where
  "dict_put k v d = AList.update k v d"

definition dict_get :: "json_dict \<Rightarrow> string \<Rightarrow> json" where
  "dict_get d k = (case map_of d k of None \<Rightarrow> JNull | Some v \<Rightarrow> v)"

definition dict_item :: "json_dict \<Rightarrow> string \<Rightarrow> json res" where
  "dict_item d k = (case map_of d k of None \<Rightarrow> Inl KeyError | Some v \<Rightarrow> Inr v)"

definition load_state :: "('w, json_dict) script" where
  "load_state = (\<lambda>w. (Inr (case pw_state w of None \<Rightarrow> [] | Some d \<Rightarrow> d), w))"

definition save_state :: "json_dict \<Rightarrow> ('w, unit) script" where
  "save_state d = (\<lambda>w. (Inr (), w\<lparr>pw_state := Some d\<rparr>))"

definition print_out :: "json_dict \<Rightarrow> ('w, unit) script" where
  "print_out d = (\<lambda>w. (Inr (), w\<lparr>pw_out := pw_out w @ [d]\<rparr>))"

definition plugin_fail :: "string \<Rightarrow> ('w, 'a) script" where
  "plugin_fail message =
     aseq (abind load_state (\<lambda>d. save_state (dict_put ''last_error'' (JStr message) d)))
    (aseq (print_out [(''status'', JStr ''error''), (''message'', JStr message)])
      (araise (SystemExit message)))"

subsection \<open>Errors of the Hub\<close>

text \<open>\<open>"; ".join\<close> of the messages of a list of validation errors.\<close>

definition detail_message :: "json \<Rightarrow> string" where
  "detail_message item =
     (case item of
        JObj kvs \<Rightarrow> if json_true (dict_get kvs ''msg'') then py_str (dict_get kvs ''msg'') else py_str item
      | _ \<Rightarrow> py_str item)"

definition hub_error_message :: "float_reader \<Rightarrow> string \<Rightarrow> string res" where
  "hub_error_message fl body =
     (let raw = (if strip body \<noteq> [] then strip body else ''HTTP enrollment failed'') in
      case json_loads fl dict_hook body of
        None \<Rightarrow> Inr raw
      | Some (JObj payload) \<Rightarrow>
          (case dict_get payload ''detail'' of
             JStr s \<Rightarrow> Inr s
           | JList items \<Rightarrow> Inr (join ''; '' (map detail_message items))
           | _ \<Rightarrow>
               if json_true (dict_get payload ''message'') then Inr (py_str (dict_get payload ''message''))
               else Inr raw)
      | Some _ \<Rightarrow> Inl (ExternalError ''AttributeError''))"

subsection \<open>Settings, commands and keys\<close>

definition load_config_root :: "('w, xml) script" where
  "load_config_root = (\<lambda>w. case pw_config w of
     None \<Rightarrow> plugin_fail ''OPNsense config.xml not found'' w | Some root \<Rightarrow> (Inr root, w))"

definition write_config_root :: "xml \<Rightarrow> ('w, unit) script" where
  "write_config_root root = (\<lambda>w. (Inr (), w\<lparr>pw_config := Some root\<rparr>))"

definition settings_path :: "string list" where
  "settings_path = [''OPNsense'', ''OPNsenseHub'']"

definition load_settings :: "('w, (string \<times> string) list) script" where
  "load_settings = abind load_config_root (\<lambda>root.
     case find_path settings_path root of
       None \<Rightarrow> plugin_fail ''OPNsense Hub settings not found''
     | Some node \<Rightarrow> aret (fold (\<lambda>c d. AList.update (xml_tag c) (strip (text_of c)) d) (xml_kids node) []))"

definition setting :: "(string \<times> string) list \<Rightarrow> string \<Rightarrow> string" where
  "setting d k = (case map_of d k of None \<Rightarrow> [] | Some v \<Rightarrow> v)"

definition validate_hub_url :: "string \<Rightarrow> ('w, string) script" where
  "validate_hub_url v =
     (case urlparse v of
        None \<Rightarrow> araise ValueError
      | Some u \<Rightarrow>
          if url_scheme u \<noteq> ''https'' \<or> url_netloc u = [] then plugin_fail ''Hub URL must be HTTPS''
          else aret (rstrip_chars ''/'' v))"

definition run_cmd :: "'w plugin_env \<Rightarrow> string list \<Rightarrow> string option \<Rightarrow> bool \<Rightarrow> ('w, string) script" where
  "run_cmd env args input_text check = (\<lambda>w.
     case pe_run env args input_text (pw_ext w) of (r, x) \<Rightarrow>
       (case r of
          NotFound \<Rightarrow> plugin_fail (''required command not found: '' @ hd args)
        | TimedOut \<Rightarrow> plugin_fail (''command timed out: '' @ hd args)
        | Exited rc out err \<Rightarrow>
            (let detail = strip (if err \<noteq> [] then err else out) in
             if check \<and> rc \<noteq> 0
             then plugin_fail (''command failed: '' @ join '' '' args @ (if detail \<noteq> [] then '': '' @ detail else []))
             else aret (strip out))) (w\<lparr>pw_ext := x\<rparr>))"

text \<open>\<open>subprocess.run\<close> without a handler.\<close>

definition run_plain :: "'w plugin_env \<Rightarrow> string list \<Rightarrow> string option \<Rightarrow> ('w, int \<times> string) script" where
  "run_plain env args input_text = (\<lambda>w.
     case pe_run env args input_text (pw_ext w) of (r, x) \<Rightarrow>
       (case r of
          NotFound \<Rightarrow> Inl OSError
        | TimedOut \<Rightarrow> Inl TimeoutExpired
        | Exited rc out err \<Rightarrow> Inr (rc, out), w\<lparr>pw_ext := x\<rparr>))"

definition ensure_private_key :: "'w plugin_env \<Rightarrow> ('w, string) script" where
  "ensure_private_key env = (\<lambda>w.
     case pw_key w of
       Some t \<Rightarrow> (Inr (strip t), w)
     | None \<Rightarrow> abind (run_cmd env [''wg'', ''genkey''] None True) (\<lambda>k w.
         (Inr k, w\<lparr>pw_key := Some (k @ [CHR 0x0A])\<rparr>)) w)"

definition public_key :: "'w plugin_env \<Rightarrow> string \<Rightarrow> ('w, string) script" where
  "public_key env private_key = run_cmd env [''wg'', ''pubkey''] (Some (private_key @ [CHR 0x0A])) True"

definition opnsense_version :: "'w plugin_env \<Rightarrow> ('w, string) script" where
  "opnsense_version env = abind (run_plain env [''opnsense-version''] None) (\<lambda>(rc, out).
     aret (if rc = 0 then strip out else ''unknown''))"

definition firmware_product :: "'w plugin_env \<Rightarrow> ('w, json_dict) script" where
  "firmware_product env = (\<lambda>w.
     case run_plain env [''/usr/local/opnsense/scripts/firmware/product.php''] None w of
       (Inl e, w') \<Rightarrow> (Inr [], w')
     | (Inr (rc, out), w') \<Rightarrow>
         (Inr (if rc \<noteq> 0 then []
               else case json_loads (pe_float env) dict_hook out of Some (JObj d) \<Rightarrow> d | _ \<Rightarrow> []), w'))"

definition license_metadata :: "'w plugin_env \<Rightarrow> ('w, json_dict) script" where
  "license_metadata env = abind (firmware_product env) (\<lambda>product.
     aret (case dict_get product ''product_license'' of
        JObj (kv # kvs) \<Rightarrow>
          (let valid_to = strip (str_field (kv # kvs) ''valid_to'' []) in
           [(''license_type'', JStr ''Business''),
            (''license_expires_at'', if valid_to \<noteq> [] then JStr valid_to else JNull)])
      | _ \<Rightarrow> [(''license_type'', JStr ''Community''), (''license_expires_at'', JNull)]))"

definition post_json :: "'w plugin_env \<Rightarrow> string \<Rightarrow> json_dict \<Rightarrow> ('w, json) script" where
  "post_json env url payload = (\<lambda>w.
     case pe_post env url payload (pw_ext w) of (r, x) \<Rightarrow>
       (case r of
          Posted j \<Rightarrow> aret j
        | PostHttpError code body \<Rightarrow>
            abind (alift (hub_error_message (pe_float env) body)) (\<lambda>m.
              plugin_fail (''Hub enrollment failed with HTTP '' @ int_str code @ '': '' @ m))
        | PostFailed m \<Rightarrow> plugin_fail (''Could not reach OPNsense Hub: '' @ m)) (w\<lparr>pw_ext := x\<rparr>))"

subsection \<open>The WireGuard configuration\<close>

definition nl :: string where "nl = [CHR 0x0A]"

definition wg_text :: "string \<Rightarrow> string \<Rightarrow> string \<Rightarrow> string \<Rightarrow> string \<Rightarrow> string \<Rightarrow> string" where
  "wg_text private_key interface_address server_public_key endpoint allowed_ips persistent_keepalive =
     ''[Interface]'' @ nl
     @ ''PrivateKey = '' @ private_key @ nl
     @ ''Address = '' @ interface_address @ nl
     @ nl
     @ ''[Peer]'' @ nl
     @ ''PublicKey = '' @ server_public_key @ nl
     @ ''Endpoint = '' @ endpoint @ nl
     @ ''# OPNsense Hub is management-only. This must remain the Hub tunnel /32,'' @ nl
     @ ''# never a customer LAN subnet.'' @ nl
     @ ''AllowedIPs = '' @ allowed_ips @ nl
     @ ''PersistentKeepalive = '' @ persistent_keepalive @ nl"

definition str_item :: "json_dict \<Rightarrow> string \<Rightarrow> string res" where
  "str_item d k = rbind (dict_item d k) (\<lambda>v. Inr (py_str v))"

definition render_wg :: "string \<Rightarrow> json_dict \<Rightarrow> ('w, unit) script" where
  "render_wg private_key wg = abind (alift
     (if map_of wg ''private_key'' \<noteq> None then Inl TypeError else
      rbind (str_item wg ''interface_address'') (\<lambda>a.
      rbind (str_item wg ''server_public_key'') (\<lambda>k.
      rbind (str_item wg ''endpoint'') (\<lambda>e.
      rbind (str_item wg ''allowed_ips'') (\<lambda>i.
      rbind (str_item wg ''persistent_keepalive'') (\<lambda>p. Inr (wg_text private_key a k e i p))))))))
     (\<lambda>t w. (Inr (), w\<lparr>pw_wg_conf := Some t\<rparr>))"

text \<open>\<open>key, value = line.split("=", 1)\<close> of the lines with an equals sign; the last of equal keys wins.\<close>

definition conf_line :: "string \<Rightarrow> (string \<times> string) option" where
  "conf_line line =
     (if CHR ''='' \<notin> set line then None
      else case partition_at CHR ''='' line of (_, key, v) \<Rightarrow> Some (lower (strip key), strip v))"

definition conf_values :: "string \<Rightarrow> (string \<times> string) list" where
  "conf_values t = rev (List.map_filter conf_line (splitlines t))"

definition load_wireguard_config :: "string option \<Rightarrow> json_dict option res" where
  "load_wireguard_config conf =
     (case conf of
        None \<Rightarrow> Inr None
      | Some t \<Rightarrow>
          (let vals = conf_values t; get = setting vals in
           if get ''address'' = [] \<or> get ''publickey'' = [] \<or> get ''endpoint'' = [] \<or> get ''allowedips'' = []
           then Inr None
           else
             (case py_int (case map_of vals ''persistentkeepalive'' of None \<Rightarrow> ''25'' | Some v \<Rightarrow> v) of
                None \<Rightarrow> Inl ValueError
              | Some n \<Rightarrow> Inr (Some
                  [(''interface_address'', JStr (get ''address'')),
                   (''server_public_key'', JStr (get ''publickey'')),
                   (''endpoint'', JStr (get ''endpoint'')),
                   (''allowed_ips'', JStr (get ''allowedips'')),
                   (''persistent_keepalive'', JInt n)]))))"

definition is_loopback_host :: "string \<Rightarrow> bool" where
  "is_loopback_host host = (host \<in> {''localhost'', ''127.0.0.1'', ''::1'', ''[::1]''})"

definition endpoint_host_port :: "string \<Rightarrow> string \<times> string" where
  "endpoint_host_port endpoint =
     (case rpartition_at CHR '':'' endpoint of (found, host, port) \<Rightarrow>
        if startswith endpoint ''['' \<and> contains_str endpoint '']:'' then (strip_chars ''[]'' host, port)
        else if found then (host, port)
        else (endpoint, ''51820''))"

definition normalize_wireguard_endpoint :: "json \<Rightarrow> string \<Rightarrow> json res" where
  "normalize_wireguard_endpoint j hub_url =
     (case j of
        JObj wg \<Rightarrow>
          (case (case map_of wg ''endpoint'' of None \<Rightarrow> JStr [] | Some v \<Rightarrow> v) of
             JStr endpoint \<Rightarrow>
               (case endpoint_host_port endpoint of (endpoint_host, endpoint_port) \<Rightarrow>
                  (case urlparse hub_url of
                     None \<Rightarrow> Inl ValueError
                   | Some u \<Rightarrow>
                       (case url_hostname u of
                          None \<Rightarrow> Inr j
                        | Some hub_host \<Rightarrow>
                            if is_loopback_host endpoint_host \<and> \<not> is_loopback_host hub_host
                            then Inr (JObj (dict_put ''endpoint'' (JStr (hub_host @ '':'' @ endpoint_port)) wg))
                            else Inr j)))
           | _ \<Rightarrow> Inl (ExternalError ''AttributeError''))
      | _ \<Rightarrow> Inl (ExternalError ''AttributeError''))"

text \<open>The checks of what the Hub sent. A message that ends in the text of a library error keeps its own part.\<close>

definition comma_items :: "string \<Rightarrow> string list" where
  "comma_items s = filter (\<lambda>v. v \<noteq> []) (map strip (split_on CHR '','' s))"

definition check_interface_address :: "string \<Rightarrow> string + ipv4" where
  "check_interface_address s =
     (case ip_interface s of
        None \<Rightarrow> Inl ''Hub returned an invalid WireGuard interface_address: ''
      | Some (Iface6 _ _ _) \<Rightarrow> Inl ''Hub returned a non-IPv4 WireGuard interface_address; expected an IPv4 /32''
      | Some (Iface4 ip p) \<Rightarrow>
          if p \<noteq> 32
          then Inl ''Hub returned an unsafe WireGuard interface_address; expected the firewall tunnel IP as an IPv4 /32''
          else Inr ip)"

definition check_allowed_ips :: "ipv4 \<Rightarrow> string \<Rightarrow> string + ipv4" where
  "check_allowed_ips own s =
     (case comma_items s of
        [item] \<Rightarrow>
          (case ip_network item of
             None \<Rightarrow> Inl ''Hub returned an invalid WireGuard allowed_ips CIDR: ''
           | Some (Net6 _) \<Rightarrow> Inl ''Hub returned a non-IPv4 allowed_ips value; expected the Hub tunnel IPv4 /32''
           | Some (Net4 n) \<Rightarrow>
               if n4_prefix n \<noteq> 32
               then Inl ''Hub returned an unsafe WireGuard allowed_ips route; expected only the Hub tunnel IPv4 /32, not a LAN or Hub network''
               else if n4_addr n = 0
               then Inl ''Hub returned 0.0.0.0/0 for allowed_ips; only the Hub tunnel IP /32 is permitted''
               else if n4_addr n = own
               then Inl ''Hub returned the firewall's own WireGuard interface_address in allowed_ips; expected only the Hub tunnel IP /32''
               else Inr (n4_addr n))
      | _ \<Rightarrow> Inl ''Hub returned an unsafe WireGuard allowed_ips value; expected exactly one IPv4 /32 for the Hub tunnel IP'')"

definition or_fail :: "string + 'a \<Rightarrow> ('w, 'a) script" where
  "or_fail r = (case r of Inl m \<Rightarrow> plugin_fail m | Inr x \<Rightarrow> aret x)"

definition validate_wireguard_payload :: "json \<Rightarrow> ('w, json_dict) script" where
  "validate_wireguard_payload j =
     (case j of
        JObj wg \<Rightarrow>
          abind (or_fail (check_interface_address (strip (str_field wg ''interface_address'' [])))) (\<lambda>ip.
          abind (or_fail (check_allowed_ips ip (str_field wg ''allowed_ips'' []))) (\<lambda>hub.
            let normalized = dict_put ''allowed_ips'' (JStr (show_ipv4 hub @ ''/32''))
                  (dict_put ''interface_address'' (JStr (show_ipv4 ip @ ''/32'')) wg)
            in case map_of normalized ''persistent_keepalive'' of
                 None \<Rightarrow> aret normalized
               | Some v \<Rightarrow> abind (alift (json_int v)) (\<lambda>n.
                   aret (dict_put ''persistent_keepalive'' (JInt n) normalized))))
      | _ \<Rightarrow> plugin_fail ''Hub returned an invalid WireGuard payload'')"

subsection \<open>The crontab\<close>

definition heartbeat_script :: string where
  "heartbeat_script = ''/usr/local/opnsense/scripts/OPNsense/OPNsenseHub/heartbeat.py''"
definition heartbeat_cron_marker :: string where
  "heartbeat_cron_marker = ''# OPNsense Hub heartbeat''"
definition heartbeat_cron_line :: string where
  "heartbeat_cron_line = ''* * * * * '' @ heartbeat_script @ '' >/dev/null 2>&1 '' @ heartbeat_cron_marker"

definition run_crontab :: "'w plugin_env \<Rightarrow> string list \<Rightarrow> string option \<Rightarrow> ('w, int \<times> string \<times> string) script" where
  "run_crontab env args input_text = (\<lambda>w.
     case pe_run env args input_text (pw_ext w) of (r, x) \<Rightarrow>
       (case r of
          NotFound \<Rightarrow> plugin_fail ''required command not found: crontab''
        | TimedOut \<Rightarrow> plugin_fail ''command timed out: crontab''
        | Exited rc out err \<Rightarrow> aret (rc, out, err)) (w\<lparr>pw_ext := x\<rparr>))"

definition current_crontab_lines :: "'w plugin_env \<Rightarrow> ('w, string list) script" where
  "current_crontab_lines env = abind (run_crontab env [''crontab'', ''-l''] None) (\<lambda>(rc, out, err).
     aret (if rc \<noteq> 0 then [] else map rstrip (splitlines out)))"

definition crontab_text :: "string list \<Rightarrow> string" where
  "crontab_text lines = (let payload = strip (join nl lines) in if payload \<noteq> [] then payload @ nl else payload)"

definition write_crontab_lines :: "'w plugin_env \<Rightarrow> string list \<Rightarrow> ('w, unit) script" where
  "write_crontab_lines env lines =
     abind (run_crontab env [''crontab'', ''-''] (Some (crontab_text lines))) (\<lambda>(rc, out, err).
       if rc \<noteq> 0 then
         (let detail = strip (if err \<noteq> [] then err else out) in
          plugin_fail (''could not update crontab'' @ (if detail \<noteq> [] then '': '' @ detail else [])))
       else aret ())"

definition foreign_cron :: "string list \<Rightarrow> string list" where
  "foreign_cron = filter (\<lambda>line. \<not> contains_str line heartbeat_cron_marker)"

definition ensure_heartbeat_cron :: "'w plugin_env \<Rightarrow> ('w, unit) script" where
  "ensure_heartbeat_cron env = abind (current_crontab_lines env) (\<lambda>lines.
     write_crontab_lines env (foreign_cron lines @ [heartbeat_cron_line]))"

definition remove_heartbeat_cron :: "'w plugin_env \<Rightarrow> ('w, unit) script" where
  "remove_heartbeat_cron env = abind (current_crontab_lines env) (\<lambda>lines.
     write_crontab_lines env (foreign_cron lines))"

subsection \<open>Integration and tunnel\<close>

definition run_each :: "'w plugin_env \<Rightarrow> string list list \<Rightarrow> ('w, unit) script" where
  "run_each env cmds = afor (\<lambda>c. abind (run_cmd env c None False) (\<lambda>_. aret ())) cmds"

definition cleanup_opnsense_integration :: "'w plugin_env \<Rightarrow> ('w, string option \<times> bool) script" where
  "cleanup_opnsense_integration env = abind load_config_root (\<lambda>root0.
     case cleanup_config root0 of ((key, changed), root) \<Rightarrow>
       if changed then
         aseq (write_config_root root) (aseq
           (run_each env [[''configctl'', ''filter'', ''reload''], [''service'', ''lighttpd'', ''onerestart'']])
           (aret (key, changed)))
       else aret (key, changed))"

definition first_allowed_network :: "json_dict \<Rightarrow> ('w, ip_net) script" where
  "first_allowed_network wg = abind (alift (dict_item wg ''allowed_ips'')) (\<lambda>v.
     case v of
       JStr s \<Rightarrow>
         (case comma_items s of
            [] \<Rightarrow> plugin_fail ''WireGuard allowed_ips is empty''
          | item # _ \<Rightarrow>
              (case ip_network item of None \<Rightarrow> araise ValueError | Some n \<Rightarrow> aret n))
     | _ \<Rightarrow> araise (ExternalError ''AttributeError''))"

definition network_address :: "ip_net \<Rightarrow> string" where
  "network_address n = (case n of Net4 m \<Rightarrow> show_ipv4 (n4_addr m) | Net6 m \<Rightarrow> show_ipv6 (n6_addr m) (n6_scope m))"

definition hub_route_for :: "json_dict \<Rightarrow> ('w, string) script" where
  "hub_route_for wg = abind (first_allowed_network wg) (\<lambda>n. aret (network_address n))"

definition interface_of :: "json_dict \<Rightarrow> (string \<times> ip_iface) res" where
  "interface_of wg = rbind (dict_item wg ''interface_address'') (\<lambda>v.
     case ip_interface (py_str v) of None \<Rightarrow> Inl ValueError | Some i \<Rightarrow> Inr (py_str v, i))"

definition ensure_opnsense_integration :: "'w plugin_env \<Rightarrow> json_dict \<Rightarrow> ('w, json_dict) script" where
  "ensure_opnsense_integration env wg =
     abind (hub_route_for wg) (\<lambda>hub_ip.
     abind (alift (interface_of wg)) (\<lambda>(addr, i).
     abind load_config_root (\<lambda>root0.
     abind (alift (integrate_config (pe_time env) hub_ip (show_ip (iface_ip i)) addr root0)) (\<lambda>(ig, root).
     aseq (if ig_changed ig then
             aseq (write_config_root root) (run_each env
               ([[''configctl'', ''interface'', ''reconfigure'', ig_interface ig],
                 [''configctl'', ''filter'', ''reload'']]
                @ (if ig_listen_changed ig then [[''service'', ''lighttpd'', ''onerestart'']] else [])))
           else aret ())
       (aret [(''interface'', JStr (ig_interface ig)), (''description'', JStr assigned_if_descr),
              (''webgui_port'', JStr (ig_port ig))])))))"

definition destroy_tunnel :: "'w plugin_env \<Rightarrow> ('w, unit) script" where
  "destroy_tunnel env = abind (run_plain env [''ifconfig'', wg_iface, ''destroy''] None) (\<lambda>_. aret ())"

definition ensure_hub_route :: "'w plugin_env \<Rightarrow> json_dict \<Rightarrow> ('w, unit) script" where
  "ensure_hub_route env wg = abind (hub_route_for wg) (\<lambda>hub_route.
     abind (run_plain env [''route'', ''delete'', ''-host'', hub_route] None) (\<lambda>_.
     abind (run_cmd env [''route'', ''add'', ''-host'', hub_route, ''-interface'', wg_iface] None True) (\<lambda>_. aret ())))"

definition key_path :: string where "key_path = ''/var/db/opnsensehub/wg_private.key''"

text \<open>\<open>except Exception: destroy_tunnel(); raise\<close>, which a \<open>SystemExit\<close> passes.\<close>

definition configure_tunnel :: "'w plugin_env \<Rightarrow> json_dict \<Rightarrow> ip_iface \<Rightarrow> ('w, unit) script" where
  "configure_tunnel env wg i =
     abind (run_cmd env [''ifconfig'', wg_iface, ''inet'', show_ip (iface_ip i), ''netmask'', ''255.255.255.255'', ''up'']
       None True) (\<lambda>_.
     abind (alift (str_item wg ''server_public_key'')) (\<lambda>k.
     abind (alift (str_item wg ''allowed_ips'')) (\<lambda>a.
     abind (alift (str_item wg ''endpoint'')) (\<lambda>e.
     abind (run_cmd env [''wg'', ''set'', wg_iface, ''private-key'', key_path, ''peer'', k, ''allowed-ips'', a,
         ''endpoint'', e, ''persistent-keepalive'', str_field wg ''persistent_keepalive'' ''25''] None True) (\<lambda>_.
     ensure_hub_route env wg)))))"

definition start_tunnel :: "'w plugin_env \<Rightarrow> json_dict \<Rightarrow> ('w, unit) script" where
  "start_tunnel env wg =
     abind (alift (interface_of wg)) (\<lambda>(_, i).
     aseq (destroy_tunnel env)
    (abind (run_cmd env [''ifconfig'', ''wg'', ''create'', ''name'', wg_iface] None True) (\<lambda>_ w.
       case configure_tunnel env wg i w of
         (Inl (SystemExit m), w') \<Rightarrow> (Inl (SystemExit m), w')
       | (Inl e, w') \<Rightarrow> aseq (destroy_tunnel env) (araise e) w'
       | (Inr u, w') \<Rightarrow> (Inr u, w'))))"

subsection \<open>The script\<close>

definition settle :: "'w plugin_env \<Rightarrow> json_dict \<Rightarrow> ('w, json_dict) script" where
  "settle env wg = abind (ensure_opnsense_integration env wg) (\<lambda>opnsense.
     aseq (ensure_hub_route env wg) (aret opnsense))"

definition connected_report :: "json \<Rightarrow> json \<Rightarrow> json_dict \<Rightarrow> json_dict" where
  "connected_report device_id tunnel_ip opnsense =
     [(''status'', JStr ''connected''), (''device_id'', device_id), (''tunnel_ip'', tunnel_ip),
      (''interface'', dict_get opnsense ''description''), (''webgui_port'', dict_get opnsense ''webgui_port'')]"

definition reconnect :: "'w plugin_env \<Rightarrow> string \<Rightarrow> string \<Rightarrow> json_dict \<Rightarrow> ('w, unit) script" where
  "reconnect env hub_url private_key state =
     abind (alift (normalize_wireguard_endpoint (dict_get state ''wireguard'') hub_url)) (\<lambda>j.
     abind (validate_wireguard_payload j) (\<lambda>wg.
     aseq (render_wg private_key wg)
    (aseq (start_tunnel env wg)
    (abind (settle env wg) (\<lambda>opnsense.
     aseq (save_state (dict_put ''last_error'' (JStr []) (dict_put ''status'' (JStr ''connected'')
            (dict_put ''opnsense'' (JObj opnsense) (dict_put ''wireguard'' (JObj wg) state)))))
    (aseq (ensure_heartbeat_cron env)
      (print_out (connected_report (dict_get state ''device_id'') (dict_get state ''tunnel_ip'') opnsense))))))))"

definition response_item :: "json \<Rightarrow> string \<Rightarrow> json res" where
  "response_item j k = (case j of JObj d \<Rightarrow> dict_item d k | _ \<Rightarrow> Inl TypeError)"

definition response_get :: "json \<Rightarrow> string \<Rightarrow> json" where
  "response_get j k = (case j of JObj d \<Rightarrow> dict_get d k | _ \<Rightarrow> JNull)"

definition enroll_payload :: "string \<Rightarrow> string \<Rightarrow> string \<Rightarrow> string \<Rightarrow> json_dict \<Rightarrow> json_dict" where
  "enroll_payload otp hostname version pub license =
     [(''otp'', JStr otp), (''hostname'', JStr hostname), (''opnsense_version'', JStr version),
      (''plugin_version'', JStr ''0.2.0''), (''wg_public_key'', JStr pub)] @ license"

definition enroll_plugin :: "'w plugin_env \<Rightarrow> string \<Rightarrow> string \<Rightarrow> string \<Rightarrow> ('w, unit) script" where
  "enroll_plugin env hub_url otp private_key =
     abind (public_key env private_key) (\<lambda>pub.
     abind (opnsense_version env) (\<lambda>version.
     abind (license_metadata env) (\<lambda>license.
     abind (post_json env (hub_url @ ''/api/v1/enroll'')
       (enroll_payload otp (pe_hostname env) version pub license)) (\<lambda>response.
     abind (alift (rbind (response_item response ''wireguard'') (\<lambda>j. normalize_wireguard_endpoint j hub_url))) (\<lambda>j.
     abind (validate_wireguard_payload j) (\<lambda>wg.
     aseq (render_wg private_key wg)
    (abind (alift (response_item response ''device_id'')) (\<lambda>device_id.
     abind (alift (response_item response ''device_token'')) (\<lambda>token.
     let state = [(''hub_url'', JStr hub_url), (''device_id'', device_id), (''device_token'', token),
           (''device_token_issued_at'', response_get response ''device_token_issued_at''),
           (''device_token_expires_at'', response_get response ''device_token_expires_at''),
           (''tunnel_ip'', dict_get wg ''interface_address''), (''wireguard'', JObj wg),
           (''status'', JStr ''connected''), (''last_error'', JStr [])]
     in aseq (save_state state)
       (aseq (start_tunnel env wg)
       (abind (settle env wg) (\<lambda>opnsense.
        aseq (save_state (dict_put ''opnsense'' (JObj opnsense) state))
       (aseq (ensure_heartbeat_cron env)
       (abind (alift (rbind (response_item response ''wireguard'') (\<lambda>j. response_item j ''interface_address''))) (\<lambda>ip.
         print_out (connected_report device_id ip opnsense))))))))))))))))"

definition connect_main :: "'w plugin_env \<Rightarrow> ('w, unit) script" where
  "connect_main env =
     abind load_settings (\<lambda>cfg.
     abind (validate_hub_url (setting cfg ''hub_url'')) (\<lambda>hub_url.
     abind (ensure_private_key env) (\<lambda>private_key.
     abind load_state (\<lambda>state0.
     abind (\<lambda>w. (if json_true (dict_get state0 ''device_id'') \<and> \<not> json_true (dict_get state0 ''wireguard'')
             then rbind (load_wireguard_config (pw_wg_conf w)) (\<lambda>c.
               Inr (case c of None \<Rightarrow> state0 | Some wg \<Rightarrow> dict_put ''wireguard'' (JObj wg) state0))
             else Inr state0, w)) (\<lambda>state.
     if json_true (dict_get state ''device_id'') \<and> json_true (dict_get state ''wireguard'')
     then reconnect env hub_url private_key state
     else if setting cfg ''otp'' = [] then plugin_fail ''OTP enrollment code is required''
     else enroll_plugin env hub_url (setting cfg ''otp'') private_key)))))"

text \<open>The script as it is run: an exit passes, another exception is reported.\<close>

definition connect_script :: "(exn \<Rightarrow> string) \<Rightarrow> 'w plugin_env \<Rightarrow> ('w, unit) script" where
  "connect_script exn_text env = (\<lambda>w.
     case connect_main env w of
       (Inl (SystemExit m), w') \<Rightarrow> (Inl (SystemExit m), w')
     | (Inl e, w') \<Rightarrow> plugin_fail (''Unexpected enrollment error: '' @ exn_text e) w'
     | (Inr u, w') \<Rightarrow> (Inr u, w'))"

end
