(* ===== verification/Plugin_Connect_Facts.thy ===== *)
theory Plugin_Connect_Facts
  imports Plugin_Connect Enrollment
begin

text \<open>
  Properties of the enrollment script together with the Hub: the script accepts what the Hub's enrollment
  answers and restricts the route to the Hub's own address, and the WireGuard file it writes is read back.
\<close>

subsection \<open>The answer of the Hub\<close>

definition reply_wireguard :: "enroll_reply \<Rightarrow> json_dict" where
  "reply_wireguard r =
     [(''interface_address'', JStr (er_interface_address r)),
      (''server_public_key'', JStr (er_server_public_key r)),
      (''endpoint'', JStr (er_endpoint r)),
      (''allowed_ips'', JStr (er_allowed_ips r)),
      (''persistent_keepalive'', JInt (er_persistent_keepalive r))]"

lemma enroll_peer_reply: "enroll_peer cfg env inp i c co k ip reply w = (Inr r, w') \<Longrightarrow> r = reply"
  by (auto simp: enroll_peer_def split: prod.splits sum.splits exn.splits)

lemma enroll_claim_reply:
  assumes "enroll_claim cr cfg env parse_iso inp c hostname key w = (Inr reply, w')"
    and "devices (work (en_db w)) = devices (committed (en_db w))"
  shows "client_allowed_ips cfg = Inr (er_allowed_ips reply)" and "er_persistent_keepalive reply = 25"
    and "\<exists>ip. next_tunnel_ip cfg (committed (en_db w)) = Inr ip \<and> er_interface_address reply = ip @ ''/32''"
proof -
  from assms(1) obtain k g s1 ip allowed where a: "client_allowed_ips cfg = Inr allowed"
    and c: "claim_enrollment_code (in_now inp) (ec_id c) (en_db w) = (True, s1)" and ip: "next_tunnel_ip cfg (work s1) = Inr ip"
    and st: "enroll_store cr cfg env parse_iso inp c hostname key k allowed ip (w\<lparr>en_wg := g, en_db := s1\<rparr>) = (Inr reply, w')"
    by (auto simp: enroll_claim_def Let_def split: prod.splits sum.splits if_splits)
  from st have r: "er_allowed_ips reply = allowed" "er_persistent_keepalive reply = 25" "er_interface_address reply = ip @ ''/32''"
    by (auto simp: enroll_store_def Let_def split: prod.splits sum.splits dest!: enroll_peer_reply)
  have "devices (work s1) = devices (work (en_db w))"
    using c by (auto simp: claim_enrollment_code_def Let_def split: if_splits)
  with r a ip assms(2) show "client_allowed_ips cfg = Inr (er_allowed_ips reply)" "er_persistent_keepalive reply = 25"
    "\<exists>ip. next_tunnel_ip cfg (committed (en_db w)) = Inr ip \<and> er_interface_address reply = ip @ ''/32''"
    using next_tunnel_ip_cong [of "work s1" "committed (en_db w)" cfg] by auto
qed

lemma enroll_reply_addresses:
  assumes "enroll cr cfg env cl backend parse_iso inp w = (Inr reply, w')" and "enroll_ready (en_db w)"
  obtains vc ip where "get_validated_hub_wireguard_config cfg = Inr vc" "er_persistent_keepalive reply = 25"
    "er_allowed_ips reply = show_ipv4 (vc_hub_ip vc) @ ''/32''" "er_interface_address reply = show_ipv4 ip @ ''/32''"
    "usable_host vc ip" "ip \<noteq> vc_hub_ip vc" "next_tunnel_ip cfg (committed (en_db w)) = Inr (show_ipv4 ip)"
proof (use assms(1) in \<open>cases rule: enroll_early\<close>)
  case (claim c l)
  have "devices (work (en_db (w\<lparr>en_limits := l\<rparr>))) = devices (committed (en_db (w\<lparr>en_limits := l\<rparr>)))"
    using assms(2) by (simp add: enroll_ready_def)
  note r = enroll_claim_reply [OF claim(4) this]
  from r(1) obtain vc where vc: "get_validated_hub_wireguard_config cfg = Inr vc"
    "er_allowed_ips reply = show_ipv4 (vc_hub_ip vc) @ ''/32''"
    by (auto simp: client_allowed_ips_def rbind_Inr_iff)
  from r(3) obtain s where s: "next_tunnel_ip cfg (committed (en_db w)) = Inr s" "er_interface_address reply = s @ ''/32''"
    by auto
  from next_tunnel_ip_Inr [OF s(1) vc(1)] obtain ip where "s = show_ipv4 ip" "usable_host vc ip" "ip \<noteq> vc_hub_ip vc" by blast
  with vc s r(2) show thesis by (intro that) auto
qed simp

lemma hub_ip_nonzero:
  assumes "get_validated_hub_wireguard_config cfg = Inr vc" shows "vc_hub_ip vc \<noteq> 0"
proof
  assume z: "vc_hub_ip vc = 0"
  have v: "validate_hub_wireguard_config (cfg_hub_wg_cidr cfg) (cfg_hub_wg_address cfg) (cfg_allow_broad_wg_cidr cfg) = Inr vc"
    using assms by (simp add: get_validated_hub_wireguard_config_def)
  have "unat (n4_addr (vc_network vc)) \<le> unat (vc_hub_ip vc)"
    using in_net4_range [OF validate_hub_Inr(1) [OF v]] validate_hub_Inr(2) [OF v] by simp
  with z have "n4_addr (vc_network vc) = 0" by (simp add: unat_eq_zero)
  with z validate_hub_Inr(3) [OF v] show False by simp
qed

subsection \<open>The checks of the script\<close>

lemma solid_show: "solid (show_ipv4 w @ ''/32'')" "CHR '','' \<notin> set (show_ipv4 w @ ''/32'')"
proof -
  have "\<not> is_space c \<and> c \<noteq> CHR '',''" if "c \<in> set (show_ipv4 w)" for c
  proof -
    have "is_digit c \<or> c = CHR ''.''" using that nat_str_digits by (auto simp: show_ipv4_def Let_def)
    then show ?thesis using is_digit_not_space by (auto simp: is_space_def is_digit_def code_of_def)
  qed
  then show "solid (show_ipv4 w @ ''/32'')" "CHR '','' \<notin> set (show_ipv4 w @ ''/32'')"
    by (auto simp: solid_def is_space_def code_of_def)
qed

lemma show_32: "show_ipv4 w @ ''/32'' = show_iface (Iface4 w 32)"
  "show_ipv4 w @ ''/32'' = show_net (Net4 \<lparr>n4_addr = w, n4_prefix = 32\<rparr>)"
  by (simp_all add: str_eval)

lemma check_interface_show: "check_interface_address (show_ipv4 w @ ''/32'') = Inr w"
  unfolding check_interface_address_def show_32(1) by (subst ip_interface_show_iface4) simp_all

lemma check_allowed_show:
  assumes "h \<noteq> 0" "h \<noteq> w" shows "check_allowed_ips w (show_ipv4 h @ ''/32'') = Inr h"
proof -
  have "comma_items (show_ipv4 h @ ''/32'') = [show_ipv4 h @ ''/32'']"
    using solid_show [of h] by (simp add: comma_items_def split_on_no_sep)
  moreover have "ip_network (show_ipv4 h @ ''/32'') = Some (Net4 \<lparr>n4_addr = h, n4_prefix = 32\<rparr>)"
    unfolding show_32(2) by (rule ip_network_show_net4) (simp_all add: netmask4_def)
  ultimately show ?thesis using assms by (simp add: check_allowed_ips_def)
qed



subsection \<open>The WireGuard file\<close>

lemma conf_line_pair:
  assumes "plain_line v" and "CHR ''='' \<notin> set k" and "strip (k @ '' '') = k"
  shows "conf_line (k @ '' = '' @ v) = Some (lower k, v)"
proof -
  have "CHR ''='' \<notin> set (k @ '' '')" using assms(2) by simp
  from takeWhile_neq_append [OF this, of "CHR '' '' # v"] dropWhile_neq_append [OF this, of "CHR '' '' # v"]
  have "takeWhile (\<lambda>x. x \<noteq> CHR ''='') (k @ '' = '' @ v) = k @ '' ''"
    "dropWhile (\<lambda>x. x \<noteq> CHR ''='') (k @ '' = '' @ v) = CHR ''='' # CHR '' '' # v" by simp_all
  moreover have "strip (CHR '' '' # v) = v"
    using plain_line_strip [OF assms(1)] by (simp add: strip_def lstrip_def is_space_def code_of_def)
  ultimately show ?thesis using assms(3) by (simp add: conf_line_def partition_at_def)
qed

definition wg_lines :: "string \<Rightarrow> string \<Rightarrow> string \<Rightarrow> string \<Rightarrow> string \<Rightarrow> string \<Rightarrow> string list" where
  "wg_lines pk a k e i p =
     [''[Interface]'', ''PrivateKey'' @ '' = '' @ pk, ''Address'' @ '' = '' @ a, [], ''[Peer]'', ''PublicKey'' @ '' = '' @ k,
      ''Endpoint'' @ '' = '' @ e,
      ''# OPNsense Hub is management-only. This must remain the Hub tunnel /32,'', ''# never a customer LAN subnet.'',
      ''AllowedIPs'' @ '' = '' @ i, ''PersistentKeepalive'' @ '' = '' @ p]"

lemma wg_text_lines: "wg_text pk a k e i p = concat (map (\<lambda>l. l @ [CHR 0x0A]) (wg_lines pk a k e i p))"
  by (simp add: wg_text_def wg_lines_def nl_def)

lemma wg_text_splitlines:
  assumes "plain_line pk" "plain_line a" "plain_line k" "plain_line e" "plain_line i" "plain_line p"
  shows "splitlines (wg_text pk a k e i p) = wg_lines pk a k e i p"
  unfolding wg_text_lines using assms
  by (intro splitlines_lines) (simp add: wg_lines_def plain_line_def is_line_break_def code_of_def)

lemma wg_conf_values:
  assumes "plain_line pk" "plain_line a" "plain_line k" "plain_line e" "plain_line i" "plain_line p"
  shows "conf_values (wg_text pk a k e i p) =
    [(''persistentkeepalive'', p), (''allowedips'', i), (''endpoint'', e), (''publickey'', k), (''address'', a),
     (''privatekey'', pk)]"
proof -
  have "conf_line ''[Interface]'' = None" "conf_line [] = None" "conf_line ''[Peer]'' = None"
    "conf_line ''# OPNsense Hub is management-only. This must remain the Hub tunnel /32,'' = None"
    "conf_line ''# never a customer LAN subnet.'' = None" by (simp_all add: conf_line_def)
  moreover have "conf_line (''PrivateKey'' @ '' = '' @ pk) = Some (''privatekey'', pk)"
    "conf_line (''Address'' @ '' = '' @ a) = Some (''address'', a)"
    "conf_line (''PublicKey'' @ '' = '' @ k) = Some (''publickey'', k)"
    "conf_line (''Endpoint'' @ '' = '' @ e) = Some (''endpoint'', e)"
    "conf_line (''AllowedIPs'' @ '' = '' @ i) = Some (''allowedips'', i)"
    "conf_line (''PersistentKeepalive'' @ '' = '' @ p) = Some (''persistentkeepalive'', p)"
    using assms by (subst conf_line_pair; simp add: str_eval)+
  ultimately show ?thesis
    unfolding conf_values_def wg_text_splitlines [OF assms] wg_lines_def by (simp del: append.simps add: map_filter_simps)
qed

lemma plain_int_str: "plain_line (int_str n)"
proof -
  have "\<not> is_space c" if "c \<in> set (int_str n)" for c
  proof -
    have "is_digit c \<or> c = CHR ''-''" using that nat_str_digits by (auto simp: int_str_def split: if_splits)
    then show ?thesis using is_digit_not_space by (auto simp: is_space_def is_digit_def code_of_def)
  qed
  moreover have "int_str n \<noteq> []" by (simp add: int_str_def)
  ultimately have "solid (int_str n)" by (simp add: solid_def)
  then show ?thesis using line_break_space by (auto simp: plain_line_def solid_def list_all_iff)
qed

text \<open>What the script writes as the WireGuard configuration it reads back: the interface address, the key of
  the Hub, the endpoint, the allowed addresses and the keepalive interval, for every private key.\<close>

theorem wireguard_file_roundtrip:
  fixes n :: int and private_key a k e i :: string
  assumes "plain_line private_key" and "plain_line a" and "plain_line k" and "plain_line e" and "plain_line i"
  defines "wg \<equiv> [(''interface_address'', JStr a), (''server_public_key'', JStr k), (''endpoint'', JStr e),
      (''allowed_ips'', JStr i), (''persistent_keepalive'', JInt n)]"
  shows "\<exists>w'. render_wg private_key wg w = (Inr (), w') \<and> load_wireguard_config (pw_wg_conf w') = Inr (Some wg)"
proof -
  have r: "render_wg private_key wg w = (Inr (), w\<lparr>pw_wg_conf := Some (wg_text private_key a k e i (int_str n))\<rparr>)"
    by (simp add: render_wg_def wg_def str_item_def dict_item_def abind_def)
  have ne: "a \<noteq> []" "k \<noteq> []" "e \<noteq> []" "i \<noteq> []" using assms(2-5) by (auto simp: plain_line_def)
  have "load_wireguard_config (Some (wg_text private_key a k e i (int_str n))) = Inr (Some wg)"
    using ne wg_conf_values [OF assms(1-5) plain_int_str]
    by (simp add: load_wireguard_config_def setting_def wg_def py_int_int_str)
  with r show ?thesis by simp
qed

theorem wireguard_file_roundtrip_witness:
  "\<exists>w'. let wg = [(''interface_address'', JStr ''10.0.0.2/32''), (''server_public_key'', JStr ''p=''),
        (''endpoint'', JStr ''hub:51820''), (''allowed_ips'', JStr ''10.0.0.1/32''), (''persistent_keepalive'', JInt 25)];
      w0 = \<lparr>pw_state = None, pw_key = None, pw_wg_conf = None, pw_config = None, pw_out = [], pw_ext = ()\<rparr> in
    render_wg ''k='' wg w0 = (Inr (), w') \<and> load_wireguard_config (pw_wg_conf w') = Inr (Some wg)"
  unfolding Let_def
  by (rule wireguard_file_roundtrip) (simp_all add: plain_line_def is_line_break_def is_space_def code_of_def)

end
