(* ===== verification/Plugin_Backup.thy ===== *)
theory Plugin_Backup
  imports Plugin_Connect Device_Backup
begin

text \<open>
  Encryption of configuration backups on the firewall:
  \<open>src/net-mgmt/os-opnsensehub/src/opnsense/scripts/OPNsense/OPNsenseHub/backup_crypto.py\<close>. The world holds the
  files by path. The hash functions, the OpenSSL program, the random bytes and the name of the temporary file
  are parameters; file modes and the race of two writers of the key are left out. A \<open>BackupCryptoError\<close> is a
  \<open>RuntimeError\<close>, as in the code.
\<close>

record 'w backup_world =
  bw_files :: "string \<rightharpoonup> string"
  bw_ext :: 'w

record 'w backup_env =
  be_sha256 :: "string \<Rightarrow> string"
  be_hmac :: "string \<Rightarrow> string \<Rightarrow> string"
  be_utf8 :: "string \<Rightarrow> string option"
  be_float :: float_reader
  be_is_exec :: "string \<Rightarrow> bool"
  be_which :: "string option"
  be_run :: "string list \<Rightarrow> string \<Rightarrow> string option \<Rightarrow> 'w \<Rightarrow> run_result \<times> 'w"
  be_urandom :: string
  be_temp :: string
  be_now :: string

type_synonym ('w, 'a) backup_act = "('w backup_world, 'a) act"

definition backup_key_file :: string where
  "backup_key_file = ''/var/db/opnsensehub/backup_master.key''"
definition backup_format :: string where "backup_format = ''opnsense-config-encrypted-v1''"
definition backup_key_export_format :: string where
  "backup_key_export_format = ''opnsense-config-backup-key-v1''"
definition backup_cipher :: string where "backup_cipher = ''AES-256-CBC+HMAC-SHA256''"
definition backup_kdf :: string where "backup_kdf = ''PBKDF2-HMAC-SHA256''"
definition pbkdf2_rounds :: int where "pbkdf2_rounds = 200000"
definition master_key_bytes :: nat where "master_key_bytes = 32"
definition max_ciphertext :: nat where "max_ciphertext = 2100000"

definition envelope_fields :: "string set" where
  "envelope_fields =
     {''format'', ''version'', ''cipher'', ''kdf'', ''iterations'', ''key_id'', ''device_id'', ''source_hostname'',
      ''captured_at'', ''ciphertext'', ''mac''}"

definition backup_error :: "string \<Rightarrow> exn" where
  "backup_error m = RuntimeError m"

subsection \<open>The master key\<close>

definition write_private_file :: "string \<Rightarrow> string \<Rightarrow> ('w, unit) backup_act" where
  "write_private_file path content = (\<lambda>w.
     if bw_files w path \<noteq> None then (Inl OSError, w)
     else (Inr (), w\<lparr>bw_files := (bw_files w)(path \<mapsto> content)\<rparr>))"

definition load_backup_key :: "string \<Rightarrow> ('w, string) backup_act" where
  "load_backup_key key_file = (\<lambda>w.
     (case bw_files w key_file of
        None \<Rightarrow> Inl (backup_error ''backup master key is missing; import the recovery key first'')
      | Some key \<Rightarrow>
          if length key \<noteq> master_key_bytes then Inl (backup_error ''backup master key has an invalid length'')
          else Inr key, w))"

definition ensure_backup_key :: "'w backup_env \<Rightarrow> string \<Rightarrow> ('w, string) backup_act" where
  "ensure_backup_key env key_file = (\<lambda>w.
     if bw_files w key_file \<noteq> None then load_backup_key key_file w
     else aseq (write_private_file key_file (be_urandom env)) (aret (be_urandom env)) w)"

definition backup_key_id :: "'w backup_env \<Rightarrow> string \<Rightarrow> string res" where
  "backup_key_id env master_key =
     (if length master_key \<noteq> master_key_bytes then Inl (backup_error ''backup master key has an invalid length'')
      else Inr (take 24 (hexdigest (be_sha256 env master_key))))"

definition derived_keys :: "'w backup_env \<Rightarrow> string \<Rightarrow> string \<times> string" where
  "derived_keys env master_key =
     (b64encode (be_hmac env master_key ''opnsense-hub/config-backup/v1/encryption''),
      be_hmac env master_key ''opnsense-hub/config-backup/v1/authentication'')"

subsection \<open>OpenSSL\<close>

definition openssl_path :: "'w backup_env \<Rightarrow> string res" where
  "openssl_path env =
     (case find (be_is_exec env) [''/usr/bin/openssl'', ''/usr/local/bin/openssl''] of
        Some candidate \<Rightarrow> Inr candidate
      | None \<Rightarrow>
          (case be_which env of
             Some (c # cs) \<Rightarrow> Inr (c # cs)
           | _ \<Rightarrow> Inl (backup_error ''OpenSSL is required for encrypted configuration backups'')))"

definition openssl_failed :: exn where
  "openssl_failed = backup_error ''OpenSSL backup cryptographic operation failed''"

text \<open>The program reads the file that the last argument names and the pass phrase from its input.\<close>

definition run_openssl :: "'w backup_env \<Rightarrow> string list \<Rightarrow> string \<Rightarrow> ('w, string) backup_act" where
  "run_openssl env args passphrase = abind (alift (openssl_path env)) (\<lambda>path w.
     case be_run env (path # args) (passphrase @ [CHR 0x0A]) (bw_files w (last args)) (bw_ext w) of (r, x) \<Rightarrow>
       (case r of
          Exited rc out err \<Rightarrow> if rc \<noteq> 0 then Inl openssl_failed else Inr out
        | _ \<Rightarrow> Inl openssl_failed, w\<lparr>bw_ext := x\<rparr>))"

definition validate_ciphertext :: "string \<Rightarrow> unit res" where
  "validate_ciphertext ciphertext =
     (if \<not> startswith ciphertext ''Salted__'' then Inl (backup_error ''encrypted backup is missing the OpenSSL salt header'')
      else let encrypted_body = drop 16 ciphertext in
        if encrypted_body = [] \<or> length encrypted_body mod 16 \<noteq> 0
        then Inl (backup_error ''encrypted backup ciphertext has an invalid length'')
        else if length ciphertext > max_ciphertext then Inl (backup_error ''encrypted backup ciphertext is too large'')
        else Inr ())"

definition openssl_args :: "string \<Rightarrow> string list \<Rightarrow> string \<Rightarrow> string list" where
  "openssl_args mode salt path =
     [''enc'', ''-aes-256-cbc'', mode] @ salt @ [''-pbkdf2'', ''-iter'', int_str pbkdf2_rounds, ''-md'', ''sha256'',
      ''-pass'', ''stdin'', ''-in'', path]"

subsection \<open>Encryption and decryption\<close>

definition canonical_envelope :: "json_dict \<Rightarrow> string" where
  "canonical_envelope envelope = json_dumps (JObj envelope)"

definition envelope_mac :: "'w backup_env \<Rightarrow> string \<Rightarrow> json_dict \<Rightarrow> string" where
  "envelope_mac env mac_key envelope = hexdigest (be_hmac env mac_key (canonical_envelope envelope))"

definition backup_envelope :: "string \<Rightarrow> string \<Rightarrow> string \<Rightarrow> string \<Rightarrow> string \<Rightarrow> json_dict" where
  "backup_envelope key_id device_id source_hostname captured_at ciphertext =
     [(''format'', JStr backup_format),
      (''version'', JInt 1),
      (''cipher'', JStr backup_cipher),
      (''kdf'', JStr backup_kdf),
      (''iterations'', JInt pbkdf2_rounds),
      (''key_id'', JStr key_id),
      (''device_id'', JStr device_id),
      (''source_hostname'', JStr (take 255 source_hostname)),
      (''captured_at'', JStr captured_at),
      (''ciphertext'', JStr (b64encode ciphertext))]"

definition encrypt_config_backup ::
  "'w backup_env \<Rightarrow> string \<Rightarrow> string \<Rightarrow> string \<Rightarrow> string option \<Rightarrow> string \<Rightarrow> ('w, json_dict) backup_act" where
  "encrypt_config_backup env config_path device_id source_hostname captured_at key_file = (\<lambda>w.
     (case bw_files w config_path of
        None \<Rightarrow> araise (backup_error ''OPNsense config.xml was not found'')
      | Some config \<Rightarrow>
          if length config > max_ciphertext - 128 then araise (backup_error ''OPNsense config.xml is too large'')
          else
            abind (ensure_backup_key env key_file) (\<lambda>master_key.
            case derived_keys env master_key of (passphrase, mac_key) \<Rightarrow>
              abind (run_openssl env (openssl_args ''-e'' [''-salt''] config_path) passphrase) (\<lambda>ciphertext.
              abind (alift (validate_ciphertext ciphertext)) (\<lambda>_.
              abind (alift (backup_key_id env master_key)) (\<lambda>key_id.
                let envelope = backup_envelope key_id device_id source_hostname
                      (case captured_at of Some (c # cs) \<Rightarrow> c # cs | _ \<Rightarrow> be_now env) ciphertext
                in aret (envelope @ [(''mac'', JStr (envelope_mac env mac_key envelope))])))))) w)"

datatype backup_payload = PayloadBytes string | PayloadText string | PayloadDict json_dict

text \<open>Python compares numbers across types: \<open>True\<close> and \<open>1.0\<close> equal 1.\<close>

fun equals_int :: "json \<Rightarrow> int \<Rightarrow> bool" where
  "equals_int (JInt i) n = (i = n)"
| "equals_int (JBool b) n = ((if b then 1 else 0) = n)"
| "equals_int (JFloat r t) n = (r = int_str n @ ''.0'')"
| "equals_int _ n = False"

definition parse_envelope :: "'w backup_env \<Rightarrow> backup_payload \<Rightarrow> json_dict res" where
  "parse_envelope env payload =
     (let parse = (\<lambda>raw. case json_loads (be_float env) dict_hook raw of
            None \<Rightarrow> Inl (backup_error ''encrypted backup envelope is invalid'') | Some j \<Rightarrow> Inr j)
      in rbind (case payload of
           PayloadDict kvs \<Rightarrow> Inr (JObj kvs)
         | PayloadText raw \<Rightarrow> parse raw
         | PayloadBytes bytes \<Rightarrow>
             (case be_utf8 env bytes of
                None \<Rightarrow> Inl (backup_error ''encrypted backup envelope is invalid'')
              | Some raw \<Rightarrow> parse raw)) (\<lambda>envelope.
         case envelope of
           JObj kvs \<Rightarrow>
             if set (map fst kvs) \<noteq> envelope_fields then Inl (backup_error ''encrypted backup envelope fields are invalid'')
             else if dict_get kvs ''format'' \<noteq> JStr backup_format \<or> \<not> equals_int (dict_get kvs ''version'') 1
               \<or> dict_get kvs ''cipher'' \<noteq> JStr backup_cipher \<or> dict_get kvs ''kdf'' \<noteq> JStr backup_kdf
               \<or> \<not> equals_int (dict_get kvs ''iterations'') pbkdf2_rounds
             then Inl (backup_error ''encrypted backup format is not supported'')
             else Inr kvs
         | _ \<Rightarrow> Inl (backup_error ''encrypted backup envelope fields are invalid'')))"

definition check_mac :: "'w backup_env \<Rightarrow> string \<Rightarrow> json_dict \<Rightarrow> unit res" where
  "check_mac env mac_key envelope =
     (case dict_get envelope ''mac'' of
        JStr supplied_mac \<Rightarrow>
          if length supplied_mac \<noteq> 64 then Inl (backup_error ''encrypted backup authentication code is invalid'')
          else if supplied_mac \<noteq> envelope_mac env mac_key (filter (\<lambda>(k, v). k \<noteq> ''mac'') envelope)
          then Inl (backup_error ''encrypted backup authentication failed'')
          else Inr ()
      | _ \<Rightarrow> Inl (backup_error ''encrypted backup authentication code is invalid''))"

definition decode_ciphertext :: "json_dict \<Rightarrow> string res" where
  "decode_ciphertext envelope =
     (case dict_get envelope ''ciphertext'' of
        JStr encoded \<Rightarrow>
          (case b64decode_strict encoded of
             None \<Rightarrow> Inl (backup_error ''encrypted backup ciphertext is invalid'')
           | Some ciphertext \<Rightarrow> rbind (validate_ciphertext ciphertext) (\<lambda>_. Inr ciphertext))
      | _ \<Rightarrow> Inl (backup_error ''encrypted backup ciphertext is invalid''))"

text \<open>The ciphertext in a temporary file, which is removed however the program ends.\<close>

definition decrypt_file :: "'w backup_env \<Rightarrow> string \<Rightarrow> string \<Rightarrow> ('w, string) backup_act" where
  "decrypt_file env ciphertext passphrase = (\<lambda>w.
     case run_openssl env (openssl_args ''-d'' [] (be_temp env)) passphrase
            (w\<lparr>bw_files := (bw_files w)(be_temp env \<mapsto> ciphertext)\<rparr>) of
       (r, w') \<Rightarrow> (r, w'\<lparr>bw_files := (bw_files w')(be_temp env := None)\<rparr>))"

definition decrypt_config_backup :: "'w backup_env \<Rightarrow> backup_payload \<Rightarrow> string \<Rightarrow> ('w, string) backup_act" where
  "decrypt_config_backup env payload key_file =
     abind (alift (parse_envelope env payload)) (\<lambda>envelope.
     abind (load_backup_key key_file) (\<lambda>master_key.
     abind (alift (backup_key_id env master_key)) (\<lambda>key_id.
     if dict_get envelope ''key_id'' \<noteq> JStr key_id
     then araise (backup_error ''the recovery key does not match this backup'')
     else case derived_keys env master_key of (passphrase, mac_key) \<Rightarrow>
       abind (alift (check_mac env mac_key envelope)) (\<lambda>_.
       abind (alift (decode_ciphertext envelope)) (\<lambda>ciphertext.
         decrypt_file env ciphertext passphrase)))))"

subsection \<open>The recovery key\<close>

text \<open>\<open>json.dumps(document, sort_keys=True, indent=2)\<close> of the three fields.\<close>

definition recovery_document :: "string \<Rightarrow> string \<Rightarrow> string" where
  "recovery_document key_id key =
     ''{'' @ nl @ ''  '' @ dump_str ''format'' @ '': '' @ dump_str backup_key_export_format @ '','' @ nl
     @ ''  '' @ dump_str ''key'' @ '': '' @ dump_str (b64encode key) @ '','' @ nl
     @ ''  '' @ dump_str ''key_id'' @ '': '' @ dump_str key_id @ nl @ ''}''"

definition export_recovery_key :: "'w backup_env \<Rightarrow> string \<Rightarrow> string \<Rightarrow> ('w, string) backup_act" where
  "export_recovery_key env destination key_file =
     abind (ensure_backup_key env key_file) (\<lambda>master_key.
     abind (alift (backup_key_id env master_key)) (\<lambda>key_id.
     aseq (write_private_file destination (recovery_document key_id master_key @ nl)) (aret key_id)))"

definition parse_recovery_key :: "'w backup_env \<Rightarrow> string option \<Rightarrow> (json_dict \<times> string) res" where
  "parse_recovery_key env source =
     (case Option.bind source (\<lambda>t. json_loads (be_float env) dict_hook t) of
        Some (JObj kvs) \<Rightarrow>
          (case map_of kvs ''key'' of
             Some (JStr encoded) \<Rightarrow>
               (case b64decode_strict encoded of
                  Some key \<Rightarrow> Inr (kvs, key)
                | None \<Rightarrow> Inl (backup_error ''backup recovery-key file is invalid''))
           | _ \<Rightarrow> Inl (backup_error ''backup recovery-key file is invalid''))
      | _ \<Rightarrow> Inl (backup_error ''backup recovery-key file is invalid''))"

definition import_recovery_key :: "'w backup_env \<Rightarrow> string \<Rightarrow> string \<Rightarrow> ('w, string) backup_act" where
  "import_recovery_key env source key_file = (\<lambda>w.
     abind (alift (parse_recovery_key env (bw_files w source))) (\<lambda>(document, master_key).
     if dict_get document ''format'' \<noteq> JStr backup_key_export_format
     then araise (backup_error ''backup recovery-key format is not supported'')
     else if length master_key \<noteq> master_key_bytes
     then araise (backup_error ''backup recovery key has an invalid length'')
     else
       abind (alift (backup_key_id env master_key)) (\<lambda>key_id.
       if dict_get document ''key_id'' \<noteq> JStr key_id
       then araise (backup_error ''backup recovery-key fingerprint is invalid'')
       else if bw_files w key_file \<noteq> None then
         abind (load_backup_key key_file) (\<lambda>existing.
           if existing = master_key then aret key_id
           else araise (backup_error ''a different backup master key already exists''))
       else aseq (write_private_file key_file master_key) (aret key_id))) w)"

subsection \<open>The command line\<close>

datatype backup_command = ExportKey string | ImportKey string | Decrypt string string | KeyInfo

definition read_bytes :: "string \<Rightarrow> ('w, string) backup_act" where
  "read_bytes path = (\<lambda>w. (case bw_files w path of None \<Rightarrow> Inl OSError | Some c \<Rightarrow> Inr c, w))"

definition key_report :: "string \<Rightarrow> json_dict" where
  "key_report key_id = [(''status'', JStr ''ok''), (''key_id'', JStr key_id)]"

definition run_backup_command :: "'w backup_env \<Rightarrow> string \<Rightarrow> backup_command \<Rightarrow> ('w, json_dict) backup_act" where
  "run_backup_command env key_file command =
     (case command of
        ExportKey destination \<Rightarrow> abind (export_recovery_key env destination key_file) (\<lambda>k. aret (key_report k))
      | ImportKey source \<Rightarrow> abind (import_recovery_key env source key_file) (\<lambda>k. aret (key_report k))
      | Decrypt backup destination \<Rightarrow>
          abind (read_bytes backup) (\<lambda>payload.
          abind (decrypt_config_backup env (PayloadBytes payload) key_file) (\<lambda>plaintext.
          aseq (write_private_file destination plaintext)
            (aret [(''status'', JStr ''ok''), (''destination'', JStr destination)])))
      | KeyInfo \<Rightarrow>
          abind (load_backup_key key_file) (\<lambda>key.
          abind (alift (backup_key_id env key)) (\<lambda>k. aret (key_report k))))"

definition backup_main ::
  "(exn \<Rightarrow> string) \<Rightarrow> 'w backup_env \<Rightarrow> string \<Rightarrow> backup_command \<Rightarrow> 'w backup_world \<Rightarrow> (json_dict \<times> int) \<times> 'w backup_world" where
  "backup_main exn_text env key_file command w =
     (case run_backup_command env key_file command w of
        (Inr report, w') \<Rightarrow> ((report, 0), w')
      | (Inl e, w') \<Rightarrow> (([(''status'', JStr ''error''), (''message'', JStr (exn_text e))], 1), w'))"

end
