(* ===== verification/Plugin_Backup_Facts.thy ===== *)
theory Plugin_Backup_Facts
  imports Plugin_Backup "HOL-Library.Multiset"
begin

text \<open>
  An encrypted backup from end to end: the Hub accepts the envelope that the firewall makes, and what the Hub
  stores of it decrypts to the configuration under the same master key.
\<close>

subsection \<open>Base 64\<close>

lemma b64_val_plain: "b64_val c \<noteq> None \<or> c = CHR ''='' \<Longrightarrow> escape_char c = [c]"
proof -
  assume a: "b64_val c \<noteq> None \<or> c = CHR ''=''"
  have "43 \<le> code_of c \<and> code_of c \<le> 122 \<and> code_of c \<noteq> 92"
  proof (cases "c = CHR ''=''")
    case False
    with a have "b64_val c \<noteq> None" by simp
    then show ?thesis by (cases "b64_val c") (auto simp: b64_val_def Let_def split: if_splits)
  qed (simp add: code_of_def)
  then show ?thesis by (simp add: escape_char_def Let_def)
qed

lemma concat_plain: "\<forall>c\<in>set s. f c = [c] \<Longrightarrow> concat (map f s) = s"
  by (induction s) auto

lemma length_dump_b64: "length (dump_str (b64encode s)) = length (b64encode s) + 2"
proof (rule b64encode_shape [of s])
  fix body pads
  assume s: "b64encode s = body @ replicate pads CHR ''=''" "\<forall>c\<in>set body. b64_val c \<noteq> None"
  have "escape_char c = [c]" if "c \<in> set (b64encode s)" for c
  proof (rule b64_val_plain)
    from that have "c \<in> set body \<or> c = CHR ''=''" unfolding s(1) by auto
    with s(2) show "b64_val c \<noteq> None \<or> c = CHR ''=''" by blast
  qed
  then have "\<forall>c\<in>set (b64encode s). escape_char c = [c]" by blast
  then have "concat (map escape_char (b64encode s)) = b64encode s" by (rule concat_plain)
  then show ?thesis by (simp add: dump_str_def)
qed

subsection \<open>The size of the canonical text\<close>

lemma length_escape: "length (escape_char c) \<le> 6"
  by (simp add: escape_char_def Let_def)

lemma length_dump_str: "length (dump_str s) \<le> 6 * length s + 2"
proof -
  have "length (concat (map escape_char s)) \<le> 6 * length s"
  proof (induction s)
    case (Cons c s)
    then show ?case using length_escape [of c] by simp
  qed simp
  then show ?thesis by (simp add: dump_str_def)
qed

lemma length_join: "length (join [d] xs) \<le> sum_list (map (\<lambda>x. length x + 1) xs)"
  by (induction "[d]" xs rule: join.induct) auto

lemma length_dumps_obj:
  "length (json_dumps (JObj kvs)) \<le> 2 + sum_list (map (\<lambda>(k, v). length (dump_str k) + length (json_dumps v) + 2) kvs)"
proof -
  let ?m = "map (\<lambda>(k, v). (k, dump_str k @ '':'' @ json_dumps v)) kvs"
  let ?h = "\<lambda>kv. length (snd kv) + 1"
  have "mset (map ?h (sort_key fst ?m)) = mset (map ?h ?m)" by (simp only: mset_map mset_sort)
  then have "sum_list (map ?h (sort_key fst ?m)) = sum_list (map ?h ?m)" by (simp only: sum_mset_sum_list [symmetric])
  also have "\<dots> = sum_list (map (\<lambda>(k, v). length (dump_str k) + length (json_dumps v) + 2) kvs)"
    by (simp add: comp_def case_prod_unfold)
  finally show ?thesis using length_join [of "CHR '',''" "map snd (sort_key fst ?m)"] by (simp add: comp_def)
qed

subsection \<open>What encryption makes\<close>

lemma ensure_backup_key_files:
  assumes "ensure_backup_key env key_file w = (Inr key, w1)"
  shows "bw_files w1 key_file = Some key" and "p \<noteq> key_file \<or> bw_files w p \<noteq> None \<Longrightarrow> bw_files w1 p = bw_files w p"
  using assms
  by (auto simp: ensure_backup_key_def load_backup_key_def write_private_file_def aseq_def abind_def aret_def split: option.splits if_splits)

lemma run_openssl_Inr:
  assumes "run_openssl env args passphrase w = (Inr out, w')"
  obtains path err x where "openssl_path env = Inr path"
    "be_run env (path # args) (passphrase @ [CHR 0x0A]) (bw_files w (last args)) (bw_ext w) = (Exited 0 out err, x)"
    "bw_files w' = bw_files w"
  using assms
  by (auto simp: run_openssl_def abind_def act_simps split: sum.splits prod.splits run_result.splits if_splits)

lemma encrypt_Inr:
  assumes "encrypt_config_backup env config_path device_id hostname captured_at key_file w = (Inr envelope, w')"
  obtains config key ciphertext err path x x' where
    "bw_files w config_path = Some config" "bw_files w' key_file = Some key" "length key = master_key_bytes"
    "openssl_path env = Inr path"
    "be_run env (path # openssl_args ''-e'' [''-salt''] config_path) (fst (derived_keys env key) @ [CHR 0x0A]) (Some config) x
       = (Exited 0 ciphertext err, x')"
    "validate_ciphertext ciphertext = Inr ()"
    "envelope = (let e = backup_envelope (take 24 (hexdigest (be_sha256 env key))) device_id hostname
        (case captured_at of Some (c # cs) \<Rightarrow> c # cs | _ \<Rightarrow> be_now env) ciphertext
      in e @ [(''mac'', JStr (envelope_mac env (snd (derived_keys env key)) e))])"
proof -
  from assms obtain config where c: "bw_files w config_path = Some config" "\<not> length config > max_ciphertext - 128"
    by (auto simp: encrypt_config_backup_def act_simps split: option.splits if_splits)
  from assms c obtain key w1 ct w2 where k: "ensure_backup_key env key_file w = (Inr key, w1)"
    and o: "run_openssl env (openssl_args ''-e'' [''-salt''] config_path) (fst (derived_keys env key)) w1 = (Inr ct, w2)"
    and v: "validate_ciphertext ct = Inr ()" and i: "length key = master_key_bytes" and w': "w' = w2"
    and e: "envelope = (let e = backup_envelope (take 24 (hexdigest (be_sha256 env key))) device_id hostname
        (case captured_at of Some (c # cs) \<Rightarrow> c # cs | _ \<Rightarrow> be_now env) ct
      in e @ [(''mac'', JStr (envelope_mac env (snd (derived_keys env key)) e))])"
    by (auto simp: encrypt_config_backup_def abind_Inr_iff case_prod_unfold Let_def backup_key_id_def split: if_splits)
  have f: "bw_files w1 config_path = Some config" using ensure_backup_key_files(2) [OF k, of config_path] c(1) by auto
  have "last (openssl_args ''-e'' [''-salt''] config_path) = config_path" by (simp add: openssl_args_def)
  with o f obtain path err x where "openssl_path env = Inr path"
    "be_run env (path # openssl_args ''-e'' [''-salt''] config_path) (fst (derived_keys env key) @ [CHR 0x0A]) (Some config) (bw_ext w1)
       = (Exited 0 ct err, x)" "bw_files w2 = bw_files w1"
    by (auto elim!: run_openssl_Inr)
  with c(1) ensure_backup_key_files(1) [OF k] i v e w' show thesis by (intro that) auto
qed

subsection \<open>What the Hub accepts\<close>

lemma length_uuid_str: "length (uuid_str i) \<le> 40"
proof -
  have "length (uuid_hex i) = 32" by (simp add: uuid_hex_def)
  then show ?thesis by (simp add: uuid_str_def Let_def)
qed

lemma envelope_fields_of:
  defines "e \<equiv> \<lambda>kid i hostname cap ct mac. backup_envelope kid i hostname cap ct @ [(''mac'', mac)]"
  shows "field (e kid i hostname cap ct mac) ''format'' = JStr backup_format"
    "field (e kid i hostname cap ct mac) ''version'' = JInt 1"
    "field (e kid i hostname cap ct mac) ''cipher'' = JStr backup_cipher"
    "field (e kid i hostname cap ct mac) ''kdf'' = JStr backup_kdf"
    "field (e kid i hostname cap ct mac) ''iterations'' = JInt pbkdf2_rounds"
    "field (e kid i hostname cap ct mac) ''key_id'' = JStr kid"
    "field (e kid i hostname cap ct mac) ''device_id'' = JStr i"
    "field (e kid i hostname cap ct mac) ''source_hostname'' = JStr (take 255 hostname)"
    "field (e kid i hostname cap ct mac) ''captured_at'' = JStr cap"
    "field (e kid i hostname cap ct mac) ''ciphertext'' = JStr (b64encode ct)"
    "field (e kid i hostname cap ct mac) ''mac'' = mac"
    "set (map fst (e kid i hostname cap ct mac)) = encrypted_envelope_fields"
    "distinct (map fst (e kid i hostname cap ct mac))"
  by (auto simp: e_def backup_envelope_def field_def encrypted_envelope_fields_def)

lemma envelope_size:
  assumes "length kid \<le> 24" "length mac \<le> 64" "length cap \<le> 64" "length ct \<le> 2100000" "length i \<le> 40"
  shows "length (json_dumps (JObj (backup_envelope kid i hostname cap ct @ [(''mac'', JStr mac)]))) \<le> 2900000"
proof -
  let ?kvs = "backup_envelope kid i hostname cap ct @ [(''mac'', JStr mac)]"
  have b: "length (dump_str (b64encode ct)) \<le> 2800002"
    unfolding length_dump_b64 length_b64encode using assms(4) by simp
  have s: "length (dump_str x) \<le> 6 * n + 2" if "length x \<le> n" for x n
    using length_dump_str [of x] that by simp
  have n: "length (int_str 1) \<le> 1" "length (int_str 200000) \<le> 6"
    by (simp_all add: int_str_def nat_str.simps)
  have "length (dump_str kid) \<le> 146" "length (dump_str mac) \<le> 386" "length (dump_str cap) \<le> 386" "length (dump_str i) \<le> 242"
    "length (dump_str (take 255 hostname)) \<le> 1532"
    using s [of kid 24] s [of mac 64] s [of cap 64] s [of i 40] s [of "take 255 hostname" 255] assms by simp_all
  note l = this
  have k: "length (dump_str k) \<le> 200" if "length k \<le> 33" for k
    using that s [of k 33] by simp
  have "length backup_format \<le> 33" "length backup_cipher \<le> 33" "length backup_kdf \<le> 33"
    by (simp_all add: backup_format_def backup_cipher_def backup_kdf_def)
  moreover note k [OF this(1)] k [OF this(2)] k [OF this(3)]
    k [of "''format''", simplified]
    k [of "''version''", simplified]
    k [of "''cipher''", simplified]
    k [of "''kdf''", simplified]
    k [of "''iterations''", simplified]
    k [of "''key_id''", simplified]
    k [of "''device_id''", simplified]
    k [of "''source_hostname''", simplified]
    k [of "''captured_at''", simplified]
    k [of "''ciphertext''", simplified]
    k [of "''mac''", simplified]
  ultimately have "sum_list (map (\<lambda>(k, v). length (dump_str k) + length (json_dumps v) + 2) ?kvs) \<le> 2899998"
    using b n l by (simp add: backup_envelope_def pbkdf2_rounds_def)
  with length_dumps_obj [of ?kvs] show ?thesis by simp
qed

lemma hexdigest_text:
  "is_hex_text (2 * length d) (JStr (hexdigest d))" "n \<le> 2 * length d \<Longrightarrow> is_hex_text n (JStr (take n (hexdigest d)))"
proof -
  have h: "is_digit (hex_char m) \<or> hex_char m \<in> set ''abcdef''" if "m < 16" for m
  proof (cases "m < 10")
    case True
    then show ?thesis using code_of_hex_char [OF that] by (simp add: is_digit_def)
  next
    case False
    with that have "m \<in> {10, 11, 12, 13, 14, 15}" by auto
    then show ?thesis by (elim insertE emptyE) (simp_all add: hex_char_def code_of_eq_iff code_of_def)
  qed
  have "\<forall>c\<in>set (hexdigest d). is_digit c \<or> c \<in> set ''abcdef''"
    using h code_of_lt by (auto simp: hexdigest_def less_mult_imp_div_less)
  moreover have l: "length (hexdigest d) = 2 * length d" by (induction d) (simp_all add: hexdigest_def)
  ultimately show "is_hex_text (2 * length d) (JStr (hexdigest d))"
    "n \<le> 2 * length d \<Longrightarrow> is_hex_text n (JStr (take n (hexdigest d)))"
    by (auto simp: is_hex_text_def list_all_iff dest: in_set_takeD)
qed

lemma envelope_accepted:
  assumes "validate_ciphertext ct = Inr ()" and "length kd = 32" "length md = 32" and "i < 16 ^ 32"
    and "strip (take 255 h) \<noteq> []" "list_all (\<lambda>c. 32 \<le> code_of c) (take 255 h)"
    and "length cap \<le> 64" and "aware_of (iso_zulu cap) = Some True"
  defines "e \<equiv> backup_envelope (take 24 (hexdigest kd)) (uuid_str i) h cap ct @ [(''mac'', JStr (hexdigest md))]"
  shows "validate_encrypted_device_backup aware_of (JObj e) i = Inr (json_dumps (JObj e))"
proof -
  note f = envelope_fields_of [where mac = "JStr (hexdigest md)", of "take 24 (hexdigest kd)" "uuid_str i" h cap ct, folded e_def]
  from assms(1) have ct: "startswith ct ''Salted__''" "drop 16 ct \<noteq> []" "length (drop 16 ct) mod 16 = 0" "length ct \<le> 2100000"
    by (simp_all add: validate_ciphertext_def Let_def max_ciphertext_def split: if_splits)
  from ct(2) have "0 < length (b64encode ct)" unfolding length_b64encode by simp
  then obtain x xs where b: "b64encode ct = x # xs" by (cases "b64encode ct") auto
  have lb: "length (x # xs) \<le> 2800000" unfolding b [symmetric] length_b64encode using ct(4) by simp
  have "check_envelope_device ''encrypted'' e i = Inr ()"
    unfolding check_envelope_device_def f py_str.simps parse_uuid_str [OF assms(4)] by (simp add: require_def)
  moreover have "check_hostname ''encrypted'' e = Inr ()" using assms(5,6) by (simp add: check_hostname_def f require_def)
  moreover have "check_timestamp aware_of ''encrypted'' e = Inr ()" using assms(7,8) by (simp add: check_timestamp_def f require_def)
  moreover have "check_ciphertext e = Inr ()"
    unfolding check_ciphertext_def f b json.case list.case using lb ct b64decode_strict_encode [of ct, unfolded b]
    by (simp add: require_def rbind_Inr_iff max_encoded_ciphertext_chars_def max_ciphertext_bytes_def)
  moreover have "canonical_payload ''encrypted'' e = Inr (json_dumps (JObj e))"
    using envelope_size [of "take 24 (hexdigest kd)" "hexdigest md" cap ct "uuid_str i" h] assms(2,3,7) ct(4) length_uuid_str [of i]
      hexdigest_text(1) [of md]
    by (simp add: canonical_payload_def Let_def require_def rbind_Inr_iff max_envelope_chars_def e_def is_hex_text_def
        del: json_dumps.simps)
  moreover have "is_hex_text 24 (field e ''key_id'')" "is_hex_text 64 (field e ''mac'')"
    unfolding f using hexdigest_text(2) [of 24 kd] hexdigest_text(1) [of md] assms(2,3) by simp_all
  ultimately show ?thesis
    by (simp add: validate_encrypted_device_backup_def f(1-5) f(12) [unfolded set_map] require_def rbind_Inr_iff
        is_json_int_def backup_format_def encrypted_format_def backup_cipher_def backup_kdf_def pbkdf2_rounds_def
        del: json_dumps.simps)
qed

subsection \<open>Decryption\<close>

text \<open>What OpenSSL writes with \<open>-e\<close> it reads back with \<open>-d\<close> and the same pass phrase.\<close>

definition openssl_inverts :: "'w backup_env \<Rightarrow> bool" where
  "openssl_inverts env \<longleftrightarrow> (\<forall>path p1 p2 pass content x out err x' y.
     be_run env (path # openssl_args ''-e'' [''-salt''] p1) pass (Some content) x = (Exited 0 out err, x') \<longrightarrow>
     (\<exists>err2 y'. be_run env (path # openssl_args ''-d'' [] p2) pass (Some out) y = (Exited 0 content err2, y')))"

lemma dict_get_sorted:
  assumes "distinct (map fst kvs)"
  shows "dict_get (sort_key fst (map (\<lambda>(k, v). (k, sort_keys v)) kvs)) k = sort_keys (dict_get kvs k)"
proof -
  let ?g = "map (\<lambda>(k, v). (k, sort_keys v)) kvs"
  have m: "map fst ?g = map fst kvs" by (simp add: case_prod_unfold comp_def)
  have d: "distinct (map fst (sort_key fst ?g))" using assms by (simp only: distinct_sort_key m)
  have "map_of (sort_key fst ?g) k = map_option sort_keys (map_of kvs k)"
  proof (cases "map_of kvs k")
    case None
    then have "map_of (sort_key fst ?g) k = None" by (auto simp: map_of_eq_None_iff image_image case_prod_unfold)
    with None show ?thesis by simp
  next
    case (Some v)
    then have "(k, v) \<in> set kvs" by (rule map_of_SomeD)
    then have "(k, sort_keys v) \<in> set (sort_key fst ?g)" by force
    with d Some show ?thesis by simp
  qed
  then show ?thesis by (simp add: dict_get_def split: option.split)
qed

lemma dict_get_field: "dict_get kvs k = field kvs k"
  by (simp add: dict_get_def field_def)

lemma sorted_envelope:
  assumes "distinct (map fst e)" and "\<forall>kv\<in>set e. sort_keys (snd kv) = snd kv"
  shows "sort_keys (JObj e) = JObj (sort_key fst e)"
    and "json_dumps (JObj (filter (\<lambda>(k, v). k \<noteq> m) (sort_key fst e))) = json_dumps (JObj (filter (\<lambda>(k, v). k \<noteq> m) e))"
proof -
  have id: "map (\<lambda>(k, v). (k, sort_keys v)) xs = xs" if "\<forall>kv\<in>set xs. sort_keys (snd kv) = snd kv" for xs
    using that by (intro map_idI) auto
  show "sort_keys (JObj e) = JObj (sort_key fst e)" by (simp only: sort_keys.simps id [OF assms(2)])
  have "filter (\<lambda>(k, v). k \<noteq> m) (sort_key fst e) = sort_key fst (filter (\<lambda>(k, v). k \<noteq> m) e)" by (rule filter_sort)
  moreover have "sort_keys (JObj (filter (\<lambda>(k, v). k \<noteq> m) e)) = JObj (sort_key fst (filter (\<lambda>(k, v). k \<noteq> m) e))"
    using assms(2) by (simp only: sort_keys.simps) (subst id, auto)
  ultimately show "json_dumps (JObj (filter (\<lambda>(k, v). k \<noteq> m) (sort_key fst e))) = json_dumps (JObj (filter (\<lambda>(k, v). k \<noteq> m) e))"
    by (metis json_dumps_sort_keys)
qed

lemma decrypt_stored:
  fixes i h cap :: string
  assumes "validate_ciphertext ct = Inr ()" and "length key = 32" and "bw_files w key_file = Some key"
    and "\<forall>k m. length (be_hmac env k m) = 32" and "openssl_path env = Inr path"
    and dec: "\<forall>y. \<exists>err y'. be_run env (path # openssl_args ''-d'' [] (be_temp env)) (fst (derived_keys env key) @ [CHR 0x0A]) (Some ct) y
       = (Exited 0 config err, y')"
  defines "e \<equiv> backup_envelope (take 24 (hexdigest (be_sha256 env key))) i h cap ct"
  defines "envelope \<equiv> e @ [(''mac'', JStr (envelope_mac env (snd (derived_keys env key)) e))]"
  shows "\<exists>w'. decrypt_config_backup env (PayloadText (json_dumps (JObj envelope))) key_file w = (Inr config, w')"
proof -
  let ?mac = "envelope_mac env (snd (derived_keys env key)) e" and ?s = "sort_key fst envelope"
  note f = envelope_fields_of [where mac = "JStr ?mac", of "take 24 (hexdigest (be_sha256 env key))" i h cap ct,
      folded e_def, folded envelope_def]
  have p: "\<forall>kv\<in>set envelope. sort_keys (snd kv) = snd kv \<and> plain_json (snd kv)"
    by (simp add: envelope_def e_def backup_envelope_def)
  then have so: "sort_keys (JObj envelope) = JObj ?s" using f(13) by (intro sorted_envelope(1)) auto
  have ld: "json_loads (be_float env) dict_hook (json_dumps (JObj envelope)) = Some (JObj ?s)"
    unfolding so [symmetric] using p f(13) by (intro json_text_roundtrip [OF dict_hook_distinct]) simp
  have g: "dict_get ?s k = field envelope k" if "sort_keys (field envelope k) = field envelope k" for k
    using dict_get_sorted [OF f(13), of k] so that by (simp add: dict_get_field)
  have pe: "parse_envelope env (PayloadText (json_dumps (JObj envelope))) = Inr ?s"
    using f(12) by (simp add: parse_envelope_def ld g f encrypted_envelope_fields_def envelope_fields_def Let_def
        del: json_dumps.simps)
  have "length (hexdigest d) = 2 * length d" for d by (induction d) (simp_all add: hexdigest_def)
  then have lm: "length ?mac = 64" using assms(4) by (simp add: envelope_mac_def)
  have "filter (\<lambda>(k, v). k \<noteq> ''mac'') envelope = e" by (simp add: envelope_def e_def backup_envelope_def)
  then have "json_dumps (JObj (filter (\<lambda>(k, v). k \<noteq> ''mac'') ?s)) = json_dumps (JObj e)"
    using sorted_envelope(2) [of envelope "''mac''"] p f(13) by (simp del: json_dumps.simps)
  then have mac: "check_mac env (snd (derived_keys env key)) ?s = Inr ()"
    using lm by (simp add: check_mac_def g f envelope_mac_def canonical_envelope_def del: json_dumps.simps)
  have ct: "decode_ciphertext ?s = Inr ct" using assms(1) by (simp add: decode_ciphertext_def g f rbind_def)
  have id: "backup_key_id env key = Inr (take 24 (hexdigest (be_sha256 env key)))"
    using assms(2) by (simp add: backup_key_id_def master_key_bytes_def)
  have run: "\<exists>w'. decrypt_file env ct (fst (derived_keys env key)) w = (Inr config, w')"
  proof -
    obtain err y' where "be_run env (path # openssl_args ''-d'' [] (be_temp env)) (fst (derived_keys env key) @ [CHR 0x0A]) (Some ct) (bw_ext w)
       = (Exited 0 config err, y')" using dec by blast
    moreover have "last (openssl_args ''-d'' [] (be_temp env)) = be_temp env" by (simp add: openssl_args_def)
    ultimately show ?thesis using assms(5) by (simp add: decrypt_file_def run_openssl_def abind_def)
  qed
  have "load_backup_key key_file w = (Inr key, w)"
    using assms(2,3) by (simp add: load_backup_key_def master_key_bytes_def)
  then show ?thesis using run
    by (simp add: decrypt_config_backup_def abind_def pe id g f mac ct case_prod_unfold del: json_dumps.simps)
qed

text \<open>C26. A backup that the firewall encrypts is accepted by the Hub as it is, and the text that the Hub stores
  decrypts, under the same master key and wherever it is read again, to the configuration that was encrypted;
  given that OpenSSL decrypts what it encrypted and that the digests have 32 bytes.\<close>

theorem encrypted_backup_end_to_end:
  assumes "encrypt_config_backup env config_path (uuid_str i) h (Some cap) key_file w = (Inr envelope, w')"
    and "openssl_inverts env" and "\<forall>k m. length (be_hmac env k m) = 32 \<and> length (be_sha256 env m) = 32"
    and "i < 16 ^ 32" and "strip (take 255 h) \<noteq> []" "list_all (\<lambda>c. 32 \<le> code_of c) (take 255 h)"
    and "cap \<noteq> []" "length cap \<le> 64" "aware_of (iso_zulu cap) = Some True"
    and "bw_files v key_file = bw_files w' key_file"
  shows "\<exists>config payload v'. bw_files w config_path = Some config
    \<and> validate_encrypted_device_backup aware_of (JObj envelope) i = Inr payload
    \<and> decrypt_config_backup env (PayloadText payload) key_file v = (Inr config, v')"
proof (rule encrypt_Inr [OF assms(1)])
  fix config key ct err path x x'
  assume c: "bw_files w config_path = Some config" "bw_files w' key_file = Some key" "length key = master_key_bytes"
    "openssl_path env = Inr path" and v: "validate_ciphertext ct = Inr ()"
    and run: "be_run env (path # openssl_args ''-e'' [''-salt''] config_path) (fst (derived_keys env key) @ [CHR 0x0A]) (Some config) x
       = (Exited 0 ct err, x')"
    and e: "envelope = (let e = backup_envelope (take 24 (hexdigest (be_sha256 env key))) (uuid_str i) h
        (case Some cap of Some (c # cs) \<Rightarrow> c # cs | _ \<Rightarrow> be_now env) ct
      in e @ [(''mac'', JStr (envelope_mac env (snd (derived_keys env key)) e))])"
  have cap: "(case Some cap of Some (c # cs) \<Rightarrow> c # cs | _ \<Rightarrow> be_now env) = cap" using assms(7) by (cases cap) simp_all
  have "validate_encrypted_device_backup aware_of (JObj envelope) i = Inr (json_dumps (JObj envelope))"
    unfolding e Let_def cap envelope_mac_def using assms(3-6,8,9) v by (intro envelope_accepted) simp_all
  moreover have "\<forall>y. \<exists>err y'. be_run env (path # openssl_args ''-d'' [] (be_temp env)) (fst (derived_keys env key) @ [CHR 0x0A]) (Some ct) y
       = (Exited 0 config err, y')"
    using assms(2) run unfolding openssl_inverts_def by blast
  moreover have "bw_files v key_file = Some key" "length key = 32" using assms(10) c by (simp_all add: master_key_bytes_def)
  ultimately show ?thesis
    using c v assms(3) decrypt_stored [of ct key v key_file env path config "uuid_str i" h cap]
    unfolding e Let_def cap by blast
qed

definition example_seal :: "string \<Rightarrow> string" where
  "example_seal c = ''Salted__01234567'' @ c @ [CHR ''!''] @ replicate (15 - length c mod 16) CHR ''.''"

definition example_open :: "string \<Rightarrow> string" where
  "example_open s = rev (tl (dropWhile (\<lambda>c. c = CHR ''.'') (rev (drop 16 s))))"

definition example_openssl :: "unit backup_env" where
  "example_openssl = \<lparr>be_sha256 = (\<lambda>m. replicate 32 CHR ''s''), be_hmac = (\<lambda>k m. replicate 32 CHR ''h''),
     be_utf8 = Some, be_float = (\<lambda>s. JFloat s 0), be_is_exec = (\<lambda>p. True), be_which = None,
     be_run = (\<lambda>args pass content x. (if args ! 3 = ''-e'' then Exited 0 (example_seal (the content)) []
        else Exited 0 (example_open (the content)) [], x)),
     be_urandom = replicate 32 CHR ''k'', be_temp = ''/tmp/x'', be_now = ''now''\<rparr>"

lemma example_open_seal: "example_open (example_seal c) = c"
proof -
  have "dropWhile (\<lambda>c. c = CHR ''.'') (replicate n CHR ''.'' @ xs) = dropWhile (\<lambda>c. c = CHR ''.'') xs" for n xs
    by (induction n) auto
  then show ?thesis by (simp add: example_open_def example_seal_def)
qed

theorem encrypted_backup_end_to_end_witness:
  "\<exists>envelope w' payload v'. encrypt_config_backup example_openssl ''c'' (uuid_str 1) ''fw'' (Some ''t'') ''k''
       \<lparr>bw_files = [''c'' \<mapsto> ''<opnsense/>''], bw_ext = ()\<rparr> = (Inr envelope, w')
     \<and> validate_encrypted_device_backup (\<lambda>t. Some True) (JObj envelope) 1 = Inr payload
     \<and> decrypt_config_backup example_openssl (PayloadText payload) ''k'' w' = (Inr ''<opnsense/>'', v')"
proof -
  let ?w = "\<lparr>bw_files = [''c'' \<mapsto> ''<opnsense/>''], bw_ext = ()\<rparr> :: unit backup_world"
  have "openssl_inverts example_openssl"
    by (auto simp: openssl_inverts_def example_openssl_def openssl_args_def example_open_seal)
  moreover have "\<exists>envelope w'. encrypt_config_backup example_openssl ''c'' (uuid_str 1) ''fw'' (Some ''t'') ''k'' ?w = (Inr envelope, w')"
    by (simp add: encrypt_config_backup_def ensure_backup_key_def write_private_file_def aseq_def abind_def example_openssl_def
        derived_keys_def run_openssl_def openssl_path_def openssl_args_def example_seal_def validate_ciphertext_def
        backup_key_id_def max_ciphertext_def master_key_bytes_def Let_def)
  then obtain envelope w' where e: "encrypt_config_backup example_openssl ''c'' (uuid_str 1) ''fw'' (Some ''t'') ''k'' ?w = (Inr envelope, w')"
    by blast
  have "strip (take 255 ''fw'') \<noteq> []" "list_all (\<lambda>c. 32 \<le> code_of c) (take 255 ''fw'')"
    by (simp_all add: str_eval)
  moreover have "\<forall>k m. length (be_hmac example_openssl k m) = 32 \<and> length (be_sha256 example_openssl m) = 32"
    by (simp add: example_openssl_def)
  ultimately show ?thesis
    using encrypted_backup_end_to_end [OF e, of "\<lambda>t. Some True" w'] e by (auto simp del: One_nat_def)
qed

end
