(* ===== verification/Plugin_Firmware.thy ===== *)
theory Plugin_Firmware
  imports Plugin_Connect Firmware
begin

text \<open>
  The firmware status that a firewall collects and reports:
  \<open>src/net-mgmt/os-opnsensehub/src/opnsense/scripts/OPNsense/OPNsenseHub/firmware_status.py\<close>. The report is
  the record that the Hub keeps of it; \<open>report_json\<close> is the object on the wire. At the end, what the Hub's
  normalisation makes of every report.
\<close>

subsection \<open>Values of the product file\<close>

definition version_max_length :: nat where "version_max_length = 80"
definition message_max_length :: nat where "message_max_length = 500"

definition optional_text :: "json \<Rightarrow> nat \<Rightarrow> string option" where
  "optional_text v max_length =
     (if v = JNull then None
      else let text_value = strip (py_str v) in
        if text_value = [] then None else Some (take max_length text_value))"

fun as_bool :: "json \<Rightarrow> bool" where
  "as_bool (JBool b) = b"
| "as_bool (JInt i) = json_true (JInt i)"
| "as_bool (JFloat r t) = json_true (JFloat r t)"
| "as_bool (JStr s) = (lower (strip s) \<in> {''1'', ''true'', ''yes'', ''on''})"
| "as_bool _ = False"

text \<open>\<open>a or b\<close>.\<close>

definition json_or :: "json \<Rightarrow> json \<Rightarrow> json" where
  "json_or a b = (if json_true a then a else b)"

fun list_value :: "json_dict \<Rightarrow> string list \<Rightarrow> json list" where
  "list_value payload [] = []"
| "list_value payload (key # keys) =
     (case dict_get payload key of JList xs \<Rightarrow> xs | _ \<Rightarrow> list_value payload keys)"

fun first_text :: "nat \<Rightarrow> json_dict \<Rightarrow> string list \<Rightarrow> string option" where
  "first_text n payload [] = None"
| "first_text n payload (key # keys) =
     (case optional_text (dict_get payload key) n of
        Some (c # cs) \<Rightarrow> Some (c # cs)
      | _ \<Rightarrow> first_text n payload keys)"

definition text_value :: "json_dict \<Rightarrow> string list \<Rightarrow> string option" where
  "text_value = first_text version_max_length"

definition message_value :: "json_dict \<Rightarrow> string option" where
  "message_value payload =
     first_text message_max_length payload [''status_msg'', ''message'', ''notice'', ''error'', ''status'']"

definition package_version :: "string list \<Rightarrow> json \<Rightarrow> string option" where
  "package_version keys package =
     (case package of
        JObj kvs \<Rightarrow> optional_text (foldr json_or (map (dict_get kvs) (butlast keys)) (dict_get kvs (last keys)))
                     version_max_length
      | _ \<Rightarrow> None)"

definition highest_package_version :: "json list \<Rightarrow> string option" where
  "highest_package_version packages =
     (let versions = List.map_filter (package_version [''new_version'', ''version'', ''target'']) packages in
      if versions \<noteq> [] then Some (last versions) else None)"

fun upgrade_set_version :: "json list \<Rightarrow> string option" where
  "upgrade_set_version [] = None"
| "upgrade_set_version (item # items) =
     (case package_version [''new_version'', ''version'', ''name''] item of
        Some v \<Rightarrow> Some v
      | None \<Rightarrow> upgrade_set_version items)"

definition text_or :: "string option \<Rightarrow> string option \<Rightarrow> string option" where
  "text_or a b = (case a of Some (c # cs) \<Rightarrow> a | _ \<Rightarrow> b)"

subsection \<open>The report\<close>

definition firmware_error :: "instant \<Rightarrow> string option \<Rightarrow> string option \<Rightarrow> firmware_report" where
  "firmware_error now current message =
     \<lparr>fr_status = ''error'', fr_update_available = False, fr_update_type = Some ''error'',
      fr_current_version = current, fr_available_version = None, fr_update_count = 0,
      fr_reboot_required = False, fr_message = message, fr_checked_at = now\<rparr>"

definition reported_count :: "json_dict \<Rightarrow> json list \<Rightarrow> json list \<Rightarrow> int res" where
  "reported_count payload all_packages upgrade_packages =
     rbind (json_int (json_or (dict_get payload ''update_count'') (JInt 0))) (\<lambda>n.
       Inr (max (max (int (length all_packages)) (int (length upgrade_packages))) n))"

definition classify_firmware ::
  "instant \<Rightarrow> string option \<Rightarrow> string option \<Rightarrow> string option \<Rightarrow> bool \<Rightarrow> int \<Rightarrow> bool \<Rightarrow> string option \<Rightarrow> firmware_report" where
  "classify_firmware now current upgrade_version update_version has_upgrade update_count reboot message =
     (let has_update = (update_count > 0 \<or> (update_version \<noteq> None \<and> update_version \<noteq> current));
          status = (if has_upgrade then ''upgrade'' else if has_update then ''update'' else ''none'');
          available = (if has_upgrade then text_or upgrade_version update_version
            else if has_update then update_version else text_or update_version current);
          message' = text_or message (Some
            (if has_upgrade then ''Upgrade available''
             else if has_update then ''There are '' @ int_str update_count @ '' updates available.''
             else ''System is up to date''))
      in \<lparr>fr_status = status, fr_update_available = (has_upgrade \<or> has_update), fr_update_type = Some status,
          fr_current_version = Option.bind current (\<lambda>v. optional_text (JStr v) version_max_length),
          fr_available_version = Option.bind available (\<lambda>v. optional_text (JStr v) version_max_length),
          fr_update_count = max 0 update_count, fr_reboot_required = reboot,
          fr_message = Option.bind message' (\<lambda>v. optional_text (JStr v) message_max_length),
          fr_checked_at = now\<rparr>)"

definition parse_firmware_product :: "instant \<Rightarrow> json \<Rightarrow> firmware_report res" where
  "parse_firmware_product now product =
     (case product of
        JObj payload \<Rightarrow>
          if lower (strip (str_field payload ''status'' [])) = ''error'' then
            Inr (firmware_error now (text_value payload [''product_version'', ''version''])
              (text_or (message_value payload) (Some ''Firmware check failed'')))
          else
            let current = text_value payload [''product_version'', ''product_series'', ''version''];
                latest = text_value payload [''product_latest'', ''product_target_version''];
                upgrade_sets = list_value payload [''upgrade_sets'', ''major_upgrade_sets''];
                upgrade_packages = list_value payload [''upgrade_packages''];
                all_packages = list_value payload [''all_packages'', ''new_packages'', ''package_updates'', ''packages''];
                reboot = as_bool (json_or (json_or (dict_get payload ''needs_reboot'') (dict_get payload ''reboot_required''))
                  (dict_get payload ''upgrade_needs_reboot''));
                upgrade_version = text_or (text_value payload [''upgrade_major_version'', ''upgrade_series''])
                  (upgrade_set_version upgrade_sets);
                update_version = text_or (text_or latest (highest_package_version all_packages))
                  (highest_package_version upgrade_packages);
                has_upgrade = (upgrade_version \<noteq> None \<or> upgrade_sets \<noteq> []
                  \<or> as_bool (dict_get payload ''major_upgrade_available''))
            in rbind (reported_count payload all_packages upgrade_packages) (\<lambda>update_count.
                 Inr (classify_firmware now current upgrade_version update_version has_upgrade update_count reboot
                   (message_value payload)))
      | _ \<Rightarrow> Inr (firmware_error now None (Some ''Invalid firmware product payload'')))"

subsection \<open>Collecting it\<close>

definition run_output :: "'w plugin_env \<Rightarrow> string list \<Rightarrow> ('w, int \<times> string \<times> string) script" where
  "run_output env args = (\<lambda>w.
     case pe_run env args None (pw_ext w) of (r, x) \<Rightarrow>
       (case r of
          NotFound \<Rightarrow> Inl OSError
        | TimedOut \<Rightarrow> Inl TimeoutExpired
        | Exited rc out err \<Rightarrow> Inr (rc, out, err), w\<lparr>pw_ext := x\<rparr>))"

text \<open>The message of a parse error ends in the text of the JSON library, which is left out.\<close>

definition run_json_command :: "'w plugin_env \<Rightarrow> string list \<Rightarrow> bool \<Rightarrow> ('w, json option) script" where
  "run_json_command env args check = abind (run_output env args) (\<lambda>(rc, out, err).
     if check \<and> rc \<noteq> 0 then
       (let detail = strip (if err \<noteq> [] then err else out) in
        araise (RuntimeError (if detail \<noteq> [] then detail else ''command failed: '' @ join '' '' args)))
     else if rc \<noteq> 0 then aret None
     else (case json_loads (pe_float env) dict_hook out of
         None \<Rightarrow> araise (RuntimeError (''invalid JSON from '' @ join '' '' args @ '': ''))
       | Some (JObj payload) \<Rightarrow> aret (Some (JObj payload))
       | Some _ \<Rightarrow> araise (RuntimeError (''invalid JSON object from '' @ join '' '' args))))"

definition collect_firmware_status ::
  "(exn \<Rightarrow> string) \<Rightarrow> 'w plugin_env \<Rightarrow> instant \<Rightarrow> ('w, firmware_report) script" where
  "collect_firmware_status exn_text env now = (\<lambda>w.
     case abind (run_output env [''configctl'', ''firmware'', ''probe'']) (\<lambda>_.
          abind (run_json_command env [''configctl'', ''firmware'', ''product''] True) (\<lambda>product.
            alift (parse_firmware_product now (case product of None \<Rightarrow> JNull | Some j \<Rightarrow> j)))) w of
       (Inr r, w') \<Rightarrow> (Inr r, w')
     | (Inl e, w') \<Rightarrow> (Inr (firmware_error now None
          (text_or (optional_text (JStr (exn_text e)) message_max_length) (Some ''Firmware check failed''))), w'))"

subsection \<open>On the wire\<close>

definition opt_text :: "string option \<Rightarrow> json" where
  "opt_text v = (case v of None \<Rightarrow> JNull | Some s \<Rightarrow> JStr s)"

text \<open>\<open>datetime.isoformat\<close> of an instant in UTC.\<close>

definition utc_isoformat :: "instant \<Rightarrow> string" where
  "utc_isoformat t =
     (case civil_from_days (utc_day t) of (y, m, d) \<Rightarrow>
        zfill 4 (int_str y) @ ''-'' @ pad2 m @ ''-'' @ pad2 d @ ''T'' @ pad2 (t div 3600000000 mod 24)
        @ '':'' @ pad2 (t div 60000000 mod 60) @ '':'' @ pad2 (t div 1000000 mod 60)
        @ (if t mod 1000000 = 0 then [] else ''.'' @ zfill 6 (int_str (t mod 1000000))) @ ''+00:00'')"

definition report_json :: "firmware_report \<Rightarrow> json_dict" where
  "report_json r =
     [(''status'', JStr (fr_status r)),
      (''update_available'', JBool (fr_update_available r)),
      (''update_type'', opt_text (fr_update_type r)),
      (''current_version'', opt_text (fr_current_version r)),
      (''available_version'', opt_text (fr_available_version r)),
      (''update_count'', JInt (fr_update_count r)),
      (''reboot_required'', JBool (fr_reboot_required r)),
      (''message'', opt_text (fr_message r)),
      (''checked_at'', JStr (utc_isoformat (fr_checked_at r)))]"

subsection \<open>Facts\<close>

lemma truncate_json: "truncate_optional_text (Some v) n = optional_text v n"
  by (cases v) (simp_all add: truncate_optional_text_def optional_text_def)

lemma truncate_opt_text: "truncate_optional_text (Some (opt_text v)) n = Option.bind v (\<lambda>s. optional_text (JStr s) n)"
  by (cases v) (simp_all add: truncate_json opt_text_def optional_text_def)

definition from_text :: "nat \<Rightarrow> string option \<Rightarrow> bool" where
  "from_text n v \<longleftrightarrow> v = None \<or> (\<exists>j. v = optional_text j n)"

lemma from_text_optional [simp]: "from_text n (optional_text j n)" "from_text n None"
  by (auto simp: from_text_def)

lemma from_text_or: "from_text n a \<Longrightarrow> from_text n b \<Longrightarrow> from_text n (text_or a b)"
  by (auto simp: text_or_def split: option.splits list.splits)

lemma first_text_or: "first_text n p (k # ks) = text_or (optional_text (dict_get p k) n) (first_text n p ks)"
  by (simp add: text_or_def split: option.split list.split)

lemma from_text_first: "from_text n (first_text n p ks)"
  by (induction ks) (simp_all add: first_text_or from_text_or del: first_text.simps(2))

lemma from_text_package: "from_text 80 (package_version ks j)"
  by (cases j) (simp_all add: package_version_def version_max_length_def)

lemma from_text_highest: "from_text 80 (highest_package_version ps)"
proof (cases "List.map_filter (package_version [''new_version'', ''version'', ''target'']) ps = []")
  case False
  let ?vs = "List.map_filter (package_version [''new_version'', ''version'', ''target'']) ps"
  from False have "last ?vs \<in> set ?vs" by (rule last_in_set)
  then obtain p where p: "package_version [''new_version'', ''version'', ''target''] p = Some (last ?vs)"
    by (auto simp: List.map_filter_def)
  have "from_text 80 (Some (last ?vs))" unfolding p [symmetric] by (rule from_text_package)
  with False show ?thesis by (simp add: highest_package_version_def)
qed (simp add: highest_package_version_def)

lemma from_text_set: "from_text 80 (upgrade_set_version items)"
proof (induction items)
  case (Cons item items)
  then show ?case using from_text_package [of "[''new_version'', ''version'', ''name'']" item]
    by (cases "package_version [''new_version'', ''version'', ''name''] item") simp_all
qed simp

lemma from_text_bind: "from_text n (Option.bind v (\<lambda>s. optional_text (JStr s) n))"
  by (cases v) simp_all

text \<open>A text that was cut twice is not changed by a third cut; one shorter than the limit not by the second.\<close>

lemma optional_text_stable:
  assumes "from_text n v"
  defines "u \<equiv> Option.bind v (\<lambda>s. optional_text (JStr s) n)"
  shows "Option.bind u (\<lambda>s. optional_text (JStr s) n) = u"
proof (cases u)
  case (Some t)
  then obtain s where v: "v = Some s" and t: "optional_text (JStr s) n = Some t" by (auto simp: u_def split: bind_splits)
  from assms(1) v obtain j where "optional_text j n = Some s" by (auto simp: from_text_def)
  then have "length s \<le> n" by (auto simp: optional_text_def Let_def split: if_splits)
  then have "length (strip s) \<le> n"
    using length_dropWhile_le [of is_space s] length_dropWhile_le [of is_space "rev (dropWhile is_space s)"]
    by (simp add: strip_def rstrip_def lstrip_def)
  with t have "t = strip s" "t \<noteq> []" by (auto simp: optional_text_def Let_def split: if_splits)
  with \<open>length (strip s) \<le> n\<close> have "optional_text (JStr t) n = Some t" by (simp add: optional_text_def strip_strip)
  with Some show ?thesis by simp
qed simp

lemma optional_text_short:
  assumes "from_text n (Some m)" and "length m < n" shows "optional_text (JStr m) n = Some m"
proof -
  from assms(1) obtain j where j: "optional_text j n = Some m" by (auto simp: from_text_def)
  then have "m = take n (strip (py_str j))" "strip (py_str j) \<noteq> []" by (auto simp: optional_text_def Let_def split: if_splits)
  with assms(2) have "m = strip (py_str j)" "m \<noteq> []" by (auto simp: min_def split: if_splits)
  with assms(2) show ?thesis by (simp add: optional_text_def strip_strip)
qed

lemma text_const: "strip m = m \<Longrightarrow> m \<noteq> [] \<Longrightarrow> length m \<le> n \<Longrightarrow> from_text n (Some m)"
  by (auto simp: from_text_def optional_text_def intro!: exI [of _ "JStr m"])

text \<open>What every report satisfies.\<close>

definition stable_text :: "string option \<Rightarrow> bool" where
  "stable_text v \<longleftrightarrow> Option.bind v (\<lambda>s. optional_text (JStr s) 80) = v"

definition sound_report :: "firmware_report \<Rightarrow> bool" where
  "sound_report r \<longleftrightarrow> fr_status r \<in> {''none'', ''update'', ''upgrade'', ''error''}
     \<and> fr_update_available r = (fr_status r \<in> {''update'', ''upgrade''})
     \<and> fr_update_type r = Some (fr_status r) \<and> 0 \<le> fr_update_count r \<and> from_text 500 (fr_message r)
     \<and> (fr_status r \<noteq> ''error'' \<longrightarrow> stable_text (fr_current_version r) \<and> stable_text (fr_available_version r))"

lemma sound_error: "from_text 500 m \<Longrightarrow> sound_report (firmware_error now c m)"
  by (simp add: sound_report_def firmware_error_def)

lemma sound_classify:
  assumes "from_text 80 c" "from_text 80 u" "from_text 80 v"
  shows "sound_report (classify_firmware now c u v hu n rb m)"
proof -
  have b: "from_text 500 (Option.bind w (\<lambda>v. optional_text (JStr v) message_max_length))" for w
    unfolding message_max_length_def by (rule from_text_bind)
  have s: "stable_text (Option.bind w (\<lambda>v. optional_text (JStr v) version_max_length))" if "from_text 80 w" for w
    unfolding stable_text_def version_max_length_def using that by (rule optional_text_stable)
  show ?thesis
    using b s [OF from_text_optional(2)] s [OF assms(1)] s [OF assms(3)] s [OF from_text_or [OF assms(2,3)]] s [OF from_text_or [OF assms(3,1)]]
    by (simp add: sound_report_def classify_firmware_def Let_def del: bind_eq_None_conv)
qed

lemma checked_now [simp]: "fr_checked_at (firmware_error now c m) = now"
  "fr_checked_at (classify_firmware now c u v hu n rb m) = now"
  by (simp_all add: firmware_error_def classify_firmware_def Let_def)

lemma parse_sound:
  assumes "parse_firmware_product now j = Inr r" shows "sound_report r \<and> fr_checked_at r = now"
proof (cases "\<exists>p. j = JObj p")
  case False
  have "from_text 500 (Some ''Invalid firmware product payload'')" by (rule text_const) (simp_all add: str_eval)
  moreover from False assms have "r = firmware_error now None (Some ''Invalid firmware product payload'')"
    by (cases j) (simp_all add: parse_firmware_product_def)
  ultimately show ?thesis by (simp add: sound_error)
next
  case True
  then obtain p where p: "j = JObj p" by blast
  have t: "from_text 80 (text_value p ks)" for ks
    unfolding text_value_def version_max_length_def by (rule from_text_first)
  have m: "from_text 500 (text_or (message_value p) (Some ''Firmware check failed''))"
    unfolding message_value_def message_max_length_def
    by (intro from_text_or from_text_first text_const) (simp_all add: str_eval)
  show ?thesis
  proof (cases "lower (strip (str_field p ''status'' [])) = ''error''")
    case True
    with assms p have "r = firmware_error now (text_value p [''product_version'', ''version''])
        (text_or (message_value p) (Some ''Firmware check failed''))"
      by (simp add: parse_firmware_product_def)
    with sound_error [OF m] show ?thesis by simp
  next
    case False
    note S = sound_classify [OF t from_text_or [OF t from_text_set]
        from_text_or [OF from_text_or [OF t from_text_highest] from_text_highest]]
    show ?thesis
      using assms unfolding p parse_firmware_product_def Let_def json.case if_not_P [OF False] rbind_Inr_iff
      by - (elim exE conjE, drule Inr_inject, hypsubst, intro conjI S checked_now)
  qed
qed

lemma collect_sound:
  "\<exists>r w'. collect_firmware_status exn_text env now w = (Inr r, w') \<and> sound_report r \<and> fr_checked_at r = now"
proof -
  have m: "from_text 500 (text_or (optional_text (JStr t) message_max_length) (Some ''Firmware check failed''))" for t
    unfolding message_max_length_def by (intro from_text_or from_text_optional text_const) (simp_all add: str_eval)
  have pj: "sound_report r \<and> fr_checked_at r = now"
    if "abind (run_output env a) (\<lambda>_. abind (run_json_command env b True)
          (\<lambda>j. alift (parse_firmware_product now (case j of None \<Rightarrow> JNull | Some x \<Rightarrow> x)))) w = (Inr r, w')" for a b r w'
    using that by (elim abind_InrE) (simp add: act_simps parse_sound)
  show ?thesis
    unfolding collect_firmware_status_def using sound_error [OF m]
    by (auto split: prod.split sum.split dest: pj)
qed

lemma solid_int: "solid (int_str n)" "CHR ''Z'' \<notin> set (int_str n)"
proof -
  have "\<not> is_space c \<and> c \<noteq> CHR ''Z''" if "c \<in> set (int_str n)" for c
  proof -
    have "is_digit c \<or> c = CHR ''-''" using that nat_str_digits by (auto simp: int_str_def split: if_splits)
    then show ?thesis using is_digit_not_space by (auto simp: is_space_def is_digit_def code_of_def)
  qed
  moreover have "int_str n \<noteq> []" by (simp add: int_str_def)
  ultimately show "solid (int_str n)" "CHR ''Z'' \<notin> set (int_str n)" by (auto simp: solid_def)
qed

definition iso_char :: "char \<Rightarrow> bool" where
  "iso_char c \<longleftrightarrow> \<not> is_space c \<and> c \<noteq> CHR ''Z''"

lemma utc_isoformat_chars: "\<forall>c\<in>set (utc_isoformat t). iso_char c"
proof -
  have n: "\<forall>c\<in>set (int_str i). iso_char c" for i
    using solid_int [of i] by (auto simp: solid_def iso_char_def)
  have z: "iso_char CHR ''0''" "iso_char CHR ''-''" "iso_char CHR ''T''" "iso_char CHR '':''" "iso_char CHR ''.''" "iso_char CHR ''+''"
    by (simp_all add: iso_char_def is_space_def code_of_def)
  have p: "\<forall>c\<in>set (pad2 i). iso_char c" "\<forall>c\<in>set (zfill k (int_str i)). iso_char c" for i k
    using n z by (auto simp: pad2_def zfill_def)
  show ?thesis
    unfolding utc_isoformat_def using p z
    by (cases "civil_from_days (utc_day t)") (simp only: prod.case set_append ball_Un split: if_split, simp)
qed

lemma utc_isoformat_text:
  "strip (utc_isoformat t) = utc_isoformat t" "utc_isoformat t \<noteq> []" "replace_Z (utc_isoformat t) = utc_isoformat t"
proof -
  have a: "\<forall>c\<in>set (utc_isoformat t). \<not> is_space c \<and> c \<noteq> CHR ''Z''"
    using utc_isoformat_chars [of t] unfolding iso_char_def .
  then show "strip (utc_isoformat t) = utc_isoformat t" by (intro strip_no_space) blast
  have "concat (map (\<lambda>c. if c = CHR ''Z'' then ''+00:00'' else [c]) s) = s" if "\<forall>c\<in>set s. c \<noteq> CHR ''Z''" for s
    using that by (induction s) auto
  with a show "replace_Z (utc_isoformat t) = utc_isoformat t" by (simp add: replace_Z_def)
  show "utc_isoformat t \<noteq> []" by (simp add: utc_isoformat_def split: prod.split)
qed

lemma normalize_known:
  assumes "map_of raw ''status'' = Some (JStr st)" and "optional_text (JStr st) 30 = Some st" and "lower st = st"
    and "st \<in> {''none'', ''update'', ''upgrade'', ''error''}"
  shows "normalize_device_firmware_payload parse_iso t [(''firmware'', JObj raw)] = Some
    \<lparr>fr_status = st,
     fr_update_available = (if st \<in> {''update'', ''upgrade''} then True else if st = ''none'' then False
        else truthy_field raw ''update_available''),
     fr_update_type = (let u = map_option lower (truncate_optional_text (map_of raw ''update_type'') 30) in
        if u \<in> {Some ''none'', Some ''update'', Some ''upgrade'', Some ''error''} then u else None),
     fr_current_version = truncate_optional_text (map_of raw ''current_version'') 80,
     fr_available_version = truncate_optional_text (map_of raw ''available_version'') 80,
     fr_update_count = reported_update_count raw,
     fr_reboot_required = truthy_field raw ''reboot_required'',
     fr_message = truncate_optional_text (map_of raw ''message'') 500,
     fr_checked_at = (case parse_license_expires_at parse_iso (map_of raw ''checked_at'') of None \<Rightarrow> t | Some x \<Rightarrow> x)\<rparr>"
  using assms by (simp add: normalize_device_firmware_payload_def truncate_json Let_def del: insert_iff)

lemma report_json_fields:
  "map_of (report_json r) ''status'' = Some (JStr (fr_status r))"
  "map_of (report_json r) ''update_available'' = Some (JBool (fr_update_available r))"
  "map_of (report_json r) ''update_type'' = Some (opt_text (fr_update_type r))"
  "map_of (report_json r) ''current_version'' = Some (opt_text (fr_current_version r))"
  "map_of (report_json r) ''available_version'' = Some (opt_text (fr_available_version r))"
  "map_of (report_json r) ''update_count'' = Some (JInt (fr_update_count r))"
  "map_of (report_json r) ''reboot_required'' = Some (JBool (fr_reboot_required r))"
  "map_of (report_json r) ''message'' = Some (opt_text (fr_message r))"
  "map_of (report_json r) ''checked_at'' = Some (JStr (utc_isoformat (fr_checked_at r)))"
  by (simp_all add: report_json_def)

text \<open>Whatever the commands of the firewall answer, collecting the firmware status gives a report, and the
  Hub stores that report as it is: status, kind, count and time, both versions unless the report is an error,
  and every message shorter than the limit of 500 characters.\<close>

theorem firmware_report_stored:
  assumes "parse_iso (utc_isoformat now) = Some now"
  shows "\<exists>r w' f. collect_firmware_status exn_text env now w = (Inr r, w')
    \<and> normalize_device_firmware_payload parse_iso t [(''firmware'', JObj (report_json r))] = Some f
    \<and> f = r\<lparr>fr_current_version := fr_current_version f, fr_available_version := fr_available_version f,
          fr_message := fr_message f\<rparr>
    \<and> (fr_status r \<noteq> ''error'' \<longrightarrow> fr_current_version f = fr_current_version r
          \<and> fr_available_version f = fr_available_version r)
    \<and> (\<forall>m. fr_message r = Some m \<and> length m < 500 \<longrightarrow> fr_message f = Some m)"
proof -
  obtain r w' where r: "collect_firmware_status exn_text env now w = (Inr r, w')" "sound_report r" "fr_checked_at r = now"
    using collect_sound by blast
  let ?cut = "\<lambda>n v. Option.bind v (\<lambda>s. optional_text (JStr s) n)"
  define f where "f = r\<lparr>fr_current_version := ?cut 80 (fr_current_version r),
    fr_available_version := ?cut 80 (fr_available_version r), fr_message := ?cut 500 (fr_message r)\<rparr>"
  from r(2) have st: "fr_status r \<in> {''none'', ''update'', ''upgrade'', ''error''}" and ut: "fr_update_type r = Some (fr_status r)"
    by (simp_all add: sound_report_def)
  have tr: "optional_text (JStr (fr_status r)) 30 = Some (fr_status r)" "lower (fr_status r) = fr_status r"
    using st by (auto simp: optional_text_def str_eval)
  have av: "fr_update_available r = (fr_status r \<in> {''update'', ''upgrade''})" and count: "0 \<le> fr_update_count r"
    using r(2) by (simp_all add: sound_report_def)
  have ck: "parse_license_expires_at parse_iso (Some (JStr (utc_isoformat now))) = Some now"
    using assms utc_isoformat_text [of now] by (simp add: parse_license_expires_at_def)
  have u: "(if fr_status r \<in> {''update'', ''upgrade''} then True else if fr_status r = ''none'' then False
      else truthy_field (report_json r) ''update_available'') = fr_update_available r"
    using st av by (simp add: truthy_field_def report_json_fields del: insert_iff)
  have k: "(let u = map_option lower (truncate_optional_text (map_of (report_json r) ''update_type'') 30) in
      if u \<in> {Some ''none'', Some ''update'', Some ''upgrade'', Some ''error''} then u else None) = fr_update_type r"
    unfolding report_json_fields truncate_opt_text ut using tr st by (auto simp: Let_def)
  have c: "reported_update_count (report_json r) = fr_update_count r"
    using count by (simp add: reported_update_count_def truthy_field_def report_json_fields)
  have n: "normalize_device_firmware_payload parse_iso t [(''firmware'', JObj (report_json r))] = Some f"
    unfolding normalize_known [OF report_json_fields(1) tr st] u k c
    unfolding report_json_fields truncate_opt_text truthy_field_def
    using ck r(3) by (simp add: f_def)
  have m: "\<forall>m. fr_message r = Some m \<and> length m < 500 \<longrightarrow> fr_message f = Some m"
  proof (intro allI impI)
    fix m assume a: "fr_message r = Some m \<and> length m < 500"
    have "from_text 500 (fr_message r)" using r(2) by (simp add: sound_report_def)
    with a have "optional_text (JStr m) 500 = Some m" by (intro optional_text_short) simp_all
    with a show "fr_message f = Some m" by (simp add: f_def)
  qed
  have e: "f = r\<lparr>fr_current_version := fr_current_version f, fr_available_version := fr_available_version f,
          fr_message := fr_message f\<rparr>" by (simp add: f_def)
  have v: "fr_status r \<noteq> ''error'' \<longrightarrow> fr_current_version f = fr_current_version r
      \<and> fr_available_version f = fr_available_version r"
    using r(2) by (simp add: f_def sound_report_def stable_text_def)
  show ?thesis
    by (rule exI [of _ r], rule exI [of _ w'], rule exI [of _ f]) (intro conjI r(1) n e v m)
qed


definition example_plugin :: "(string list \<Rightarrow> run_result) \<Rightarrow> unit plugin_env" where
  "example_plugin run = \<lparr>pe_run = (\<lambda>args inp w. (run args, w)), pe_post = (\<lambda>u p w. (PostFailed [], w)),
     pe_float = (\<lambda>s. JFloat s 0), pe_hostname = ''fw'', pe_time = ''0''\<rparr>"

definition example_world :: "unit plugin_world" where
  "example_world = \<lparr>pw_state = None, pw_key = None, pw_wg_conf = None, pw_config = None, pw_out = [], pw_ext = ()\<rparr>"

theorem firmware_report_stored_witness:
  "\<exists>r w' f. collect_firmware_status exn_class (example_plugin (\<lambda>_. NotFound)) 0 example_world = (Inr r, w')
     \<and> normalize_device_firmware_payload (\<lambda>s. if s = utc_isoformat 0 then Some 0 else None) 5
         [(''firmware'', JObj (report_json r))] = Some f \<and> fr_message f = Some ''OSError''"
proof -
  let ?p = "\<lambda>s. if s = utc_isoformat 0 then Some (0 :: instant) else None"
  from firmware_report_stored [of ?p 0 exn_class "example_plugin (\<lambda>_. NotFound)" example_world 5]
  obtain r w' f where r: "collect_firmware_status exn_class (example_plugin (\<lambda>_. NotFound)) 0 example_world = (Inr r, w')"
    and f: "normalize_device_firmware_payload ?p 5 [(''firmware'', JObj (report_json r))] = Some f"
    and m: "\<forall>m. fr_message r = Some m \<and> length m < 500 \<longrightarrow> fr_message f = Some m" by auto
  have "fr_message r = Some ''OSError''"
    using r by (auto simp: collect_firmware_status_def abind_def run_output_def example_plugin_def example_world_def
        firmware_error_def optional_text_def message_max_length_def text_or_def str_eval)
  with r f m show ?thesis by (intro exI conjI) auto
qed

end
