(* ===== verification/Plugin_Heartbeat.thy ===== *)
theory Plugin_Heartbeat
  imports Plugin_Firmware Plugin_Backup
begin

text \<open>
  The scripts that run after enrollment, in
  \<open>src/net-mgmt/os-opnsensehub/src/opnsense/scripts/OPNsense/OPNsenseHub/\<close>: \<open>remove.py\<close>, \<open>disconnect.py\<close>,
  \<open>status.py\<close> and \<open>heartbeat.py\<close>. The files of the backup script are kept in \<open>pw_ext\<close>, with the bytes of
  \<open>config.xml\<close> beside its tree. Every change of the state object is saved at once, so a function reads the saved
  state where the code holds the object. Deleting a file does not fail.
\<close>

subsection \<open>Removal (remove.py)\<close>

definition command_result :: "(exn \<Rightarrow> string) \<Rightarrow> 'w plugin_env \<Rightarrow> string list \<Rightarrow> int list \<Rightarrow> ('w, json_dict) script" where
  "command_result exn_text env args ok_codes = (\<lambda>w.
     case run_output env args w of
       (Inl e, w') \<Rightarrow> (Inr [(''command'', JStr (join '' '' args)), (''ok'', JBool False), (''error'', JStr (exn_text e))], w')
     | (Inr (rc, out, err), w') \<Rightarrow>
         (Inr [(''command'', JStr (join '' '' args)), (''ok'', JBool (rc \<in> set ok_codes)), (''returncode'', JInt rc),
               (''stdout'', JStr (strip out)), (''stderr'', JStr (strip err))], w'))"

definition deleted :: "string \<Rightarrow> bool \<Rightarrow> json" where
  "deleted path existed =
     JObj [(''path'', JStr path), (''ok'', JBool True), (''existed'', JBool existed), (''removed'', JBool existed)]"

definition set_existing_child :: "string \<Rightarrow> string \<Rightarrow> edit" where
  "set_existing_child tag v parent =
     (case child tag parent of
        None \<Rightarrow> (False, parent)
      | Some c \<Rightarrow> if text_of c = v then (False, parent) else (True, put_child tag (with_text c v) parent))"

definition clear_settings_node :: edit where
  "clear_settings_node = edits
     [set_existing_child ''enabled'' ''0'', set_existing_child ''hub_url'' [], set_existing_child ''otp'' [],
      set_existing_child ''last_heartbeat'' [], set_existing_child ''last_error'' []]"

definition clear_plugin_settings :: "('w, bool) script" where
  "clear_plugin_settings = abind load_config_root (\<lambda>root.
     case find_path settings_path root of
       None \<Rightarrow> aret False
     | Some node \<Rightarrow>
         (case clear_settings_node node of (changed, node') \<Rightarrow>
            if changed then aseq (write_config_root (put_path settings_path node' root)) (aret True) else aret False))"

text \<open>The state, the key and the WireGuard configuration are deleted.\<close>

definition delete_files :: "('w, json) script" where
  "delete_files = (\<lambda>w.
     (Inr (JObj
        [(''wireguard_config'', deleted ''/usr/local/etc/wireguard/opnsensehub.conf'' (pw_wg_conf w \<noteq> None)),
         (''private_key'', deleted key_path (pw_key w \<noteq> None)),
         (''state'', deleted ''/var/db/opnsensehub/state.json'' (pw_state w \<noteq> None))]),
      w\<lparr>pw_wg_conf := None, pw_key := None, pw_state := None\<rparr>))"

definition remove_cron :: "'w plugin_env \<Rightarrow> ('w, bool) script" where
  "remove_cron env = (\<lambda>w.
     case remove_heartbeat_cron env w of
       (Inr u, w') \<Rightarrow> (Inr True, w')
     | (Inl (SystemExit m), w') \<Rightarrow> (Inl (SystemExit m), w')
     | (Inl e, w') \<Rightarrow> (Inr False, w'))"

definition remove_local_artifacts ::
  "(exn \<Rightarrow> string) \<Rightarrow> 'w plugin_env \<Rightarrow> string option \<Rightarrow> bool \<Rightarrow> ('w, json_dict) script" where
  "remove_local_artifacts exn_text env reason clear_settings =
     abind load_state (\<lambda>state.
     abind (case dict_get state ''wireguard'' of
         JObj (kv # kvs) \<Rightarrow>
           abind (hub_route_for (kv # kvs)) (\<lambda>route.
           abind (command_result exn_text env [''route'', ''delete'', ''-host'', route] [0, 1]) (\<lambda>r. aret [JObj r]))
       | _ \<Rightarrow> aret []) (\<lambda>commands.
     abind (command_result exn_text env [''ifconfig'', wg_iface, ''destroy''] [0, 1]) (\<lambda>r.
     abind (remove_cron env) (\<lambda>cron_removed.
     abind (cleanup_opnsense_integration env) (\<lambda>(key, changed).
     abind (if clear_settings then clear_plugin_settings else aret False) (\<lambda>settings_cleared.
     abind delete_files (\<lambda>removed_files.
     aret [(''status'', JStr ''removed''),
           (''message'', JStr ''Removed local OPNsense Hub tunnel, interface assignment, saved settings, and state''),
           (''reason'', opt_text reason),
           (''interface'', opt_text key),
           (''config_changed'', JBool changed),
           (''commands'', JList (commands @ [JObj r])),
           (''cron_removed'', JBool cron_removed),
           (''settings_cleared'', JBool settings_cleared),
           (''removed_files'', removed_files),
           (''device_id'', dict_get state ''device_id'')])))))))"

definition remove_main :: "(exn \<Rightarrow> string) \<Rightarrow> 'w plugin_env \<Rightarrow> ('w, unit) script" where
  "remove_main exn_text env = abind (remove_local_artifacts exn_text env None True) print_out"

subsection \<open>Stopping the tunnel (disconnect.py)\<close>

definition disconnect_main :: "'w plugin_env \<Rightarrow> bool \<Rightarrow> ('w, unit) script" where
  "disconnect_main env state_dir_exists = abind load_state (\<lambda>state.
     aseq (destroy_tunnel env)
    (aseq (remove_heartbeat_cron env)
    (aseq (if state_dir_exists then save_state (dict_put ''status'' (JStr ''disconnected'') state) else aret ())
      (print_out [(''status'', JStr ''disconnected''), (''device_id'', dict_get state ''device_id'')]))))"

subsection \<open>The status page (status.py)\<close>

definition tunnel_host :: "string \<Rightarrow> string" where
  "tunnel_host v = takeWhile (\<lambda>c. c \<noteq> CHR ''/'') v"

definition assigned_interface :: "xml option \<Rightarrow> string option" where
  "assigned_interface root = Option.bind root assigned_interface_key"

definition status_webgui_port :: "xml option \<Rightarrow> string" where
  "status_webgui_port root = (case root of None \<Rightarrow> ''443'' | Some r \<Rightarrow> webgui_port r)"

definition tcp_reachable :: "(string \<Rightarrow> int \<Rightarrow> bool) \<Rightarrow> string option \<Rightarrow> string \<Rightarrow> bool" where
  "tcp_reachable connects host port =
     (if \<not> nonempty host \<or> port = [] then False
      else case py_int port of None \<Rightarrow> False | Some p \<Rightarrow> connects (the host) p)"

definition tunnel_running :: "'w plugin_env \<Rightarrow> ('w, bool) script" where
  "tunnel_running env = (\<lambda>w.
     case run_plain env [''wg'', ''show'', wg_iface] None w of
       (Inl e, w') \<Rightarrow> (Inr False, w')
     | (Inr (rc, out), w') \<Rightarrow> (Inr (rc = 0), w'))"

definition status_main :: "(string \<Rightarrow> int \<Rightarrow> bool) \<Rightarrow> 'w plugin_env \<Rightarrow> ('w, unit) script" where
  "status_main connects env =
     abind load_state (\<lambda>state.
     abind (tunnel_running env) (\<lambda>tunnel.
     abind (\<lambda>w. (Inr (pw_config w), w)) (\<lambda>root.
       let interface_key = assigned_interface root;
           port = status_webgui_port root;
           tunnel_ip = dict_get state ''tunnel_ip'';
           host = (if json_true tunnel_ip then Some (tunnel_host (py_str tunnel_ip)) else None);
           reported = (case map_of state ''status'' of None \<Rightarrow> JStr ''disconnected'' | Some s \<Rightarrow> s);
           status = (if tunnel \<and> reported \<noteq> JStr ''revoked'' then JStr ''connected'' else reported)
       in print_out
         [(''status'', status),
          (''device_id'', dict_get state ''device_id''),
          (''tunnel_ip'', tunnel_ip),
          (''wireguard_config'', JStr ''/usr/local/etc/wireguard/opnsensehub.conf''),
          (''tunnel_running'', JBool tunnel),
          (''interface'', if nonempty interface_key then JStr assigned_if_descr else JNull),
          (''interface_key'', opt_text interface_key),
          (''webgui_port'', JStr port),
          (''webgui_listen'', JStr (webgui_listen_status root interface_key)),
          (''firewall_rule_present'', JBool (firewall_rule_present root)),
          (''local_webgui_tcp_reachable'', JBool (tcp_reachable connects host port)),
          (''last_heartbeat'', dict_get state ''last_heartbeat''),
          (''last_error'', dict_get state ''last_error'')])))"

subsection \<open>The heartbeat (heartbeat.py)\<close>

text \<open>\<open>HTTPError\<close> has the code and the URL that answered, which is another one after a redirect; another exception
  has the name of its class.\<close>

datatype hub_response = Answered json | Refused int string | NoAnswer string

record 'w heartbeat_env =
  hb_plugin :: "'w backup_world plugin_env"
  hb_backup :: "'w backup_env"
  hb_post :: "string \<Rightarrow> string \<Rightarrow> json \<Rightarrow> 'w backup_world \<Rightarrow> hub_response \<times> 'w backup_world"
  hb_now :: instant
  hb_exn_text :: "exn \<Rightarrow> string"

type_synonym ('w, 'a) hb_script = "('w backup_world, 'a) script"

definition plaintext_backup_format :: string where
  "plaintext_backup_format = ''opnsense-config-plaintext-v1''"
definition plaintext_backup_max_bytes :: nat where "plaintext_backup_max_bytes = 2100000"
definition config_xml :: string where "config_xml = ''/conf/config.xml''"

definition heartbeat_revoked :: exn where
  "heartbeat_revoked = RuntimeError ''heartbeat revoked by Hub''"

text \<open>An \<open>HTTPError\<close> of \<open>urllib\<close>.\<close>

definition http_error :: "int \<Rightarrow> exn" where "http_error code = HTTPException code []"

definition on_files :: "('w, 'a) backup_act \<Rightarrow> ('w, 'a) hb_script" where
  "on_files m = (\<lambda>w. case m (pw_ext w) of (r, x) \<Rightarrow> (r, w\<lparr>pw_ext := x\<rparr>))"

definition change_state :: "(json_dict \<Rightarrow> json_dict) \<Rightarrow> ('w, unit) script" where
  "change_state f = abind load_state (\<lambda>state. save_state (f state))"

definition reported_opnsense_version :: "'w plugin_env \<Rightarrow> ('w, string) script" where
  "reported_opnsense_version env = (\<lambda>w.
     case run_plain env [''opnsense-version''] None w of
       (Inl e, w') \<Rightarrow> (Inr ''unknown'', w')
     | (Inr (rc, out), w') \<Rightarrow> (Inr (if rc = 0 then strip out else ''unknown''), w'))"

definition heartbeat_payload :: "'w heartbeat_env \<Rightarrow> firmware_report option \<Rightarrow> ('w, json_dict) hb_script" where
  "heartbeat_payload env firmware =
     abind (reported_opnsense_version (hb_plugin env)) (\<lambda>version.
     abind (license_metadata (hb_plugin env)) (\<lambda>license.
     aret ([(''status'', JStr ''online''),
            (''hostname'', JStr (pe_hostname (hb_plugin env))),
            (''opnsense_version'', JStr version),
            (''plugin_version'', JStr ''0.2.0''),
            (''timestamp'', JStr (utc_isoformat (hb_now env))),
            (''backup_formats'', JList [JStr backup_format, JStr plaintext_backup_format])]
           @ license
           @ (case firmware of None \<Rightarrow> [] | Some r \<Rightarrow> [(''firmware'', JObj (report_json r))]))))"

definition text_item :: "json_dict \<Rightarrow> string \<Rightarrow> string res" where
  "text_item state key = rbind (dict_item state key) (\<lambda>v. case v of JStr s \<Rightarrow> Inr s | _ \<Rightarrow> Inl TypeError)"

definition device_url :: "json_dict \<Rightarrow> string \<Rightarrow> string res" where
  "device_url state path =
     rbind (text_item state ''hub_url'') (\<lambda>hub.
     rbind (text_item state ''device_id'') (\<lambda>device_id.
       Inr (rstrip_chars ''/'' hub @ ''/api/v1/devices/'' @ device_id @ path)))"

definition heartbeat_url :: "json_dict \<Rightarrow> string res" where
  "heartbeat_url state = device_url state ''/heartbeat''"

text \<open>A request with the token of the device; the answer is a JSON text.\<close>

definition post_as_device :: "'w heartbeat_env \<Rightarrow> string \<Rightarrow> json \<Rightarrow> ('w, hub_response) hb_script" where
  "post_as_device env url payload = abind load_state (\<lambda>state.
     abind (alift (text_item state ''device_token'')) (\<lambda>token w.
       case hb_post env url token payload (pw_ext w) of (r, x) \<Rightarrow> (Inr r, w\<lparr>pw_ext := x\<rparr>)))"

definition answered :: "hub_response \<Rightarrow> json res" where
  "answered r = (case r of Answered j \<Rightarrow> Inr j | Refused code url \<Rightarrow> Inl (http_error code) | NoAnswer e \<Rightarrow> Inl (ExternalError e))"

definition send_heartbeat :: "'w heartbeat_env \<Rightarrow> json_dict \<Rightarrow> ('w, json) hb_script" where
  "send_heartbeat env payload =
     abind load_state (\<lambda>state.
     abind (alift (heartbeat_url state)) (\<lambda>url.
     abind (post_as_device env url (JObj payload)) (\<lambda>r.
     case r of
       Refused code answered_by \<Rightarrow>
         araise (if code = 410 \<and> answered_by = url then heartbeat_revoked else http_error code)
     | NoAnswer e \<Rightarrow> araise (ExternalError e)
     | Answered body \<Rightarrow>
         aseq (change_state (\<lambda>state. dict_put ''last_error'' (JStr [])
             (dict_put ''last_heartbeat'' (dict_get payload ''timestamp'') (dict_put ''status'' (JStr ''online'') state))))
           (aret body))))"

text \<open>\<open>body.get(key)\<close>, and whether it is true.\<close>

definition body_get :: "json \<Rightarrow> string \<Rightarrow> json res" where
  "body_get body key = (case body of JObj kvs \<Rightarrow> Inr (dict_get kvs key) | _ \<Rightarrow> Inl (ExternalError ''AttributeError''))"

definition pending :: "json \<Rightarrow> string \<Rightarrow> bool res" where
  "pending body key = rbind (body_get body key) (\<lambda>v. Inr (json_true v))"

definition rotate_url :: "json_dict \<Rightarrow> json \<Rightarrow> string res" where
  "rotate_url state body =
     rbind (body_get body ''device_token_rotation_url'') (\<lambda>v.
     rbind (case v of
         JStr s \<Rightarrow> if strip s \<noteq> [] then Inr s
           else rbind (text_item state ''device_id'') (\<lambda>i. Inr (''/api/v1/devices/'' @ i @ ''/token/rotate''))
       | _ \<Rightarrow> rbind (text_item state ''device_id'') (\<lambda>i. Inr (''/api/v1/devices/'' @ i @ ''/token/rotate''))) (\<lambda>url.
     if startswith url ''/'' then rbind (text_item state ''hub_url'') (\<lambda>hub. Inr (rstrip_chars ''/'' hub @ url))
     else Inr url))"

definition rotate_plugin_token :: "'w heartbeat_env \<Rightarrow> json \<Rightarrow> ('w, unit) hb_script" where
  "rotate_plugin_token env body =
     abind load_state (\<lambda>state.
     abind (alift (rotate_url state body)) (\<lambda>url.
     abind (post_as_device env url (JObj [])) (\<lambda>r.
     abind (alift (answered r)) (\<lambda>payload.
     abind (alift (body_get payload ''device_token'')) (\<lambda>token.
     case token of
       JStr (c # cs) \<Rightarrow>
         change_state (\<lambda>state. dict_put ''device_token_expires_at'' (response_get payload ''device_token_expires_at'')
           (dict_put ''device_token_issued_at'' (response_get payload ''device_token_issued_at'')
             (dict_put ''device_token'' token state)))
     | _ \<Rightarrow> araise (RuntimeError ''Hub token rotation response did not include a device token''))))))"

definition read_config :: "('w, string) hb_script" where
  "read_config = on_files (read_bytes config_xml)"

definition backup_upload_payload ::
  "'w heartbeat_env \<Rightarrow> json \<Rightarrow> string \<Rightarrow> ('w, json_dict \<times> json option) hb_script" where
  "backup_upload_payload env required_format captured_at =
     abind load_state (\<lambda>state.
     if required_format = JStr plaintext_backup_format then
       abind read_config (\<lambda>content.
       if length content > plaintext_backup_max_bytes then araise (RuntimeError ''configuration backup is too large'')
       else
         abind (alift (dict_item state ''device_id'')) (\<lambda>device_id.
         abind (alift (case be_utf8 (hb_backup env) content of None \<Rightarrow> Inl ValueError | Some t \<Rightarrow> Inr t)) (\<lambda>t.
         aret ([(''format'', JStr plaintext_backup_format),
                (''plaintext_backup'', JObj
                  [(''format'', JStr plaintext_backup_format),
                   (''version'', JInt 1),
                   (''device_id'', device_id),
                   (''source_hostname'', JStr (pe_hostname (hb_plugin env))),
                   (''captured_at'', JStr captured_at),
                   (''content'', JStr t)])], None))))
     else
       let expected_key_id = dict_get state ''backup_key_id'' in
       abind (\<lambda>w. (Inr (bw_files (pw_ext w) backup_key_file \<noteq> None), w)) (\<lambda>has_key.
       if json_true expected_key_id \<and> \<not> has_key
       then araise (backup_error ''backup master key is missing; import the matching recovery key'')
       else
         abind (alift (dict_item state ''device_id'')) (\<lambda>device_id.
         abind (on_files (encrypt_config_backup (hb_backup env) config_xml (py_str device_id)
             (pe_hostname (hb_plugin env)) (Some captured_at) backup_key_file)) (\<lambda>encrypted_backup.
         let actual_key_id = dict_get encrypted_backup ''key_id'' in
         if json_true expected_key_id \<and> actual_key_id \<noteq> expected_key_id
         then araise (backup_error ''backup master key does not match the established recovery key'')
         else aret ([(''format'', JStr backup_format), (''encrypted_backup'', JObj encrypted_backup)], Some actual_key_id)))))"

definition upload_backup :: "'w heartbeat_env \<Rightarrow> json \<Rightarrow> ('w, unit) hb_script" where
  "upload_backup env required_format =
     (let captured_at = utc_isoformat (hb_now env) in
      abind (backup_upload_payload env required_format captured_at) (\<lambda>(payload, key_id).
      abind load_state (\<lambda>state.
      abind (alift (device_url state ''/backups'')) (\<lambda>url.
      abind (post_as_device env url (JObj payload)) (\<lambda>r.
      abind (alift (answered r)) (\<lambda>_.
      change_state (\<lambda>state.
        let state' = dict_put ''last_backup_at'' (JStr captured_at) state in
        case key_id of Some k \<Rightarrow> if json_true k then dict_put ''backup_key_id'' k state' else state' | None \<Rightarrow> state')))))))"

definition answer_rotation :: "'w heartbeat_env \<Rightarrow> json \<Rightarrow> ('w, unit) hb_script" where
  "answer_rotation env body = abind (alift (pending body ''device_token_rotation_required'')) (\<lambda>b.
     if b then rotate_plugin_token env body else aret ())"

definition answer_firmware :: "'w heartbeat_env \<Rightarrow> json \<Rightarrow> ('w, json) hb_script" where
  "answer_firmware env body = abind (alift (pending body ''firmware_check_requested'')) (\<lambda>b.
     if b then
       abind (collect_firmware_status (hb_exn_text env) (hb_plugin env) (hb_now env)) (\<lambda>firmware.
       aseq (change_state (dict_put ''firmware'' (JObj (report_json firmware))))
      (abind (heartbeat_payload env (Some firmware)) (\<lambda>payload.
       abind (send_heartbeat env payload) (\<lambda>body'.
       aseq (answer_rotation env body') (aret body')))))
     else aret body)"

text \<open>A failed upload is recorded and does not fail the heartbeat.\<close>

definition try_upload :: "'w heartbeat_env \<Rightarrow> json \<Rightarrow> ('w, bool) hb_script" where
  "try_upload env required_format = (\<lambda>w.
     case upload_backup env required_format w of
       (Inr u, w') \<Rightarrow> (Inr False, w')
     | (Inl (SystemExit m), w') \<Rightarrow> (Inl (SystemExit m), w')
     | (Inl e, w') \<Rightarrow>
         aseq (change_state (dict_put ''last_error'' (JStr ''configuration backup upload failed''))) (aret True) w')"

definition answer_backup :: "'w heartbeat_env \<Rightarrow> json \<Rightarrow> ('w, bool) hb_script" where
  "answer_backup env body = abind (alift (pending body ''backup_requested'')) (\<lambda>b.
     if b then abind (alift (body_get body ''backup_format_required'')) (try_upload env) else aret False)"

definition run_heartbeat :: "'w heartbeat_env \<Rightarrow> ('w, unit) hb_script" where
  "run_heartbeat env =
     abind (heartbeat_payload env None) (\<lambda>payload.
     abind (send_heartbeat env payload) (\<lambda>body0.
     aseq (answer_rotation env body0)
    (abind (answer_firmware env body0) (\<lambda>body.
     abind (answer_backup env body) (\<lambda>backup_error.
     print_out [(''status'', JStr (if backup_error then ''warning'' else ''ok'')), (''hub_response'', body),
       (''backup_error'', JBool backup_error)])))))"

definition report_failure :: "string \<Rightarrow> ('w, int) script" where
  "report_failure message =
     aseq (change_state (dict_put ''last_error'' (JStr message)))
    (aseq (print_out [(''status'', JStr ''error''), (''message'', JStr message)]) (aret 1))"

definition revoked_message :: string where
  "revoked_message = ''Hub explicitly revoked this device; removed local OPNsense Hub tunnel and state''"

text \<open>The script; its value is the exit code.\<close>

definition heartbeat_main :: "'w heartbeat_env \<Rightarrow> ('w, int) hb_script" where
  "heartbeat_main env = (\<lambda>w.
     if pw_state w = None then
       aseq (print_out [(''status'', JStr ''error''), (''message'', JStr ''not enrolled'')]) (aret 1) w
     else
       case run_heartbeat env w of
         (Inr u, w') \<Rightarrow> (Inr 0, w')
       | (Inl (SystemExit m), w') \<Rightarrow> (Inl (SystemExit m), w')
       | (Inl e, w') \<Rightarrow>
           if e = heartbeat_revoked then
             aseq (change_state (dict_put ''last_error'' (JStr ''heartbeat revoked by Hub'')))
            (abind (remove_local_artifacts (hb_exn_text env) (hb_plugin env) (Some ''heartbeat revoked by Hub'') True) (\<lambda>result.
             aseq (print_out (dict_put ''message'' (JStr revoked_message) (dict_put ''status'' (JStr ''revoked'') result)))
               (aret 1))) w'
           else (case e of
               HTTPException code d \<Rightarrow> report_failure (''heartbeat failed with HTTP '' @ int_str code)
             | _ \<Rightarrow> report_failure ''heartbeat failed'') w')"

end
