(* ===== verification/Plugin_Config_Facts.thy ===== *)
theory Plugin_Config_Facts
  imports Plugin_Config
begin

text \<open>
  Facts and properties of the plugin's edits of \<open>config.xml\<close>: what the edits leave alone, that the removal
  undoes the integration, and what a second integration does to the firewall rules.
\<close>

subsection \<open>Children\<close>

lemma sel_simps [simp]:
  "xml_tag (with_kids e ks) = xml_tag e" "xml_text (with_kids e ks) = xml_text e" "xml_kids (with_kids e ks) = ks"
  "xml_tag (with_text e t) = xml_tag e" "xml_text (with_text e t) = Some t" "xml_kids (with_text e t) = xml_kids e"
  "xml_tag (element tag) = tag" "xml_text (element tag) = None" "xml_kids (element tag) = []"
  "with_kids e (xml_kids e) = e" "with_kids (with_kids e ks) ks' = with_kids e ks'"
  by (simp_all add: with_kids_def with_text_def element_def)

lemma put_first_same: "find p xs = Some x \<Longrightarrow> put_first p x xs = xs"
  by (induction xs) (auto split: if_splits)

lemma find_put_first: "find p xs = Some x \<Longrightarrow> p y \<Longrightarrow> find p (put_first p y xs) = Some y"
  by (induction xs) (auto split: if_splits)

lemma find_put_other:
  "\<not> (\<exists>z. p z \<and> q z) \<Longrightarrow> \<not> q y \<Longrightarrow> find q (put_first p y xs) = find q xs"
  by (induction xs) auto

lemma put_first_append_last: "\<forall>x\<in>set xs. \<not> p x \<Longrightarrow> p y \<Longrightarrow> put_first p z (xs @ [y]) = xs @ [z]"
  by (induction xs) auto

lemma find_append_last: "\<forall>x\<in>set xs. \<not> p x \<Longrightarrow> p y \<Longrightarrow> find p (xs @ [y]) = Some y"
  by (induction xs) auto

lemma remove_first_append_last: "\<forall>x\<in>set xs. \<not> p x \<Longrightarrow> p y \<Longrightarrow> remove_first p (xs @ [y]) = xs"
  by (induction xs) auto

lemma child_tag: "child tag e = Some c \<Longrightarrow> xml_tag c = tag"
  by (auto simp: child_def dest: find_SomeD)

lemma find_append_None: "find p xs = None \<Longrightarrow> find p (xs @ ys) = find p ys"
  by (induction xs) (auto split: if_splits)

lemma find_append_Some: "find p xs = Some x \<Longrightarrow> find p (xs @ ys) = Some x"
  by (induction xs) (auto split: if_splits)

lemma child_put_child:
  assumes "xml_tag c = tag"
  shows "child tag (put_child tag c e) = Some c"
    and "t \<noteq> tag \<Longrightarrow> child t (put_child tag c e) = child t e"
    and "put_child tag d (put_child tag c e) = put_child tag d e"
proof -
  have "put_first p d (put_first p c xs) = put_first p d xs" if "p c" for p :: "xml \<Rightarrow> bool" and xs
    using that by (induction xs) auto
  moreover have "put_first p d (xs @ [c]) = xs @ [d]" if "find p xs = None" "p c" for p :: "xml \<Rightarrow> bool" and xs
    using that by (induction xs) (auto split: if_splits)
  ultimately show "put_child tag d (put_child tag c e) = put_child tag d e"
    using assms
    by (auto simp: put_child_def in_child_def child_def find_put_first find_append_None split: option.splits)
  show "child tag (put_child tag c e) = Some c"
    using assms by (auto simp: put_child_def in_child_def child_def find_put_first find_append_None split: option.splits)
  have "find (\<lambda>x. xml_tag x = t) (xs @ [c]) = find (\<lambda>x. xml_tag x = t) xs" if "t \<noteq> tag" for xs
    using that assms by (induction xs) auto
  then show "t \<noteq> tag \<Longrightarrow> child t (put_child tag c e) = child t e"
    using assms by (auto simp: put_child_def in_child_def child_def find_put_other split: option.splits)
qed

lemma put_child_same: "child tag e = Some c \<Longrightarrow> put_child tag c e = e"
  by (simp add: put_child_def in_child_def put_first_same child_def)

lemma or_element_simps [simp]: "or_element tag (Some c) = c" "or_element tag None = element tag"
  by (simp_all add: or_element_def)

lemma in_child_put_child:
  "in_child tag f e = (fst (f (or_element tag (child tag e))), put_child tag (snd (f (or_element tag (child tag e)))) e)"
  by (simp add: in_child_def put_child_def or_element_def split: option.split prod.split)

lemma findall_put_child:
  assumes "xml_tag c = tag" and "t \<noteq> tag"
  shows "findall t (put_child tag c e) = findall t e"
proof -
  have "filter (\<lambda>x. xml_tag x = t) (put_first (\<lambda>x. xml_tag x = tag) c xs) = filter (\<lambda>x. xml_tag x = t) xs" for xs
    using assms by (induction xs) auto
  then show ?thesis using assms by (simp add: put_child_def in_child_def findall_def split: option.split)
qed

lemma find_path_put_child: "xml_tag c = tag \<Longrightarrow> t \<noteq> tag \<Longrightarrow> find_path (t # ts) (put_child tag c e) = find_path (t # ts) e"
  by (simp add: findall_put_child)

lemma put_child_tag [simp]: "xml_tag (put_child tag c e) = xml_tag e"
  by (simp add: put_child_def in_child_def split: option.split)

subsection \<open>Paths\<close>

lemma first_some_find:
  "first_some (find_path ts) (filter P xs) =
     Option.bind (find (\<lambda>c. P c \<and> find_path ts c \<noteq> None) xs) (find_path ts)"
  by (induction xs) (auto split: option.splits)

lemma find_path_Cons:
  "find_path (t # ts) e = Option.bind (find (\<lambda>c. xml_tag c = t \<and> find_path ts c \<noteq> None) (xml_kids e)) (find_path ts)"
  by (simp add: findall_def first_some_find)

lemma put_path_tag [simp]: "ts \<noteq> [] \<Longrightarrow> xml_tag (put_path ts v e) = xml_tag e"
  by (cases ts) (auto split: option.split)

lemma find_path_put_path:
  "find_path ts e \<noteq> None \<Longrightarrow> xml_tag v = last (xml_tag e # ts) \<Longrightarrow> find_path ts (put_path ts v e) = Some v
     \<and> xml_tag (put_path ts v e) = xml_tag e"
proof (induction ts arbitrary: e)
  case (Cons t ts)
  let ?p = "\<lambda>c. xml_tag c = t \<and> find_path ts c \<noteq> None"
  from Cons.prems(1) obtain c where c: "find ?p (xml_kids e) = Some c" unfolding find_path_Cons by (auto split: bind_splits)
  then have pc: "xml_tag c = t" "find_path ts c \<noteq> None" by (auto dest: find_SomeD)
  have "xml_tag v = last (xml_tag c # ts)" using Cons.prems(2) pc(1) by simp
  from Cons.IH [OF pc(2) this] have "find_path ts (put_path ts v c) = Some v" "xml_tag (put_path ts v c) = t"
    using pc(1) by auto
  then have "find ?p (put_first ?p (put_path ts v c) (xml_kids e)) = Some (put_path ts v c)"
    by (intro find_put_first [OF c]) simp
  then show ?case unfolding find_path_Cons using c \<open>find_path ts (put_path ts v c) = Some v\<close> by simp
qed simp

lemma put_path_same: "find_path ts e = Some v \<Longrightarrow> put_path ts v e = e"
proof (induction ts arbitrary: e)
  case (Cons t ts)
  let ?p = "\<lambda>c. xml_tag c = t \<and> find_path ts c \<noteq> None"
  from Cons.prems obtain c where c: "find ?p (xml_kids e) = Some c" "find_path ts c = Some v"
    unfolding find_path_Cons by (auto split: bind_splits)
  from Cons.IH [OF c(2)] put_first_same [OF c(1)] c(1) show ?case by simp
qed simp

lemma child_put_path: "t \<noteq> t' \<Longrightarrow> ts \<noteq> [] \<Longrightarrow> child t (put_path (t' # ts) v e) = child t e"
proof -
  assume a: "t \<noteq> t'" "ts \<noteq> []"
  have "find (\<lambda>c. xml_tag c = t) (put_first (\<lambda>c. xml_tag c = t' \<and> find_path ts c \<noteq> None) y xs)
      = find (\<lambda>c. xml_tag c = t) xs" if "xml_tag y \<noteq> t" for y xs
    using that a by (intro find_put_other) auto
  then show ?thesis using a
    by (cases ts) (auto simp: child_def split: option.split dest!: find_SomeD)
qed

subsection \<open>The rules\<close>

abbreviation leaf :: "string \<Rightarrow> string \<Rightarrow> xml" where
  "leaf tag v \<equiv> Xml tag (Some v) []"

text \<open>The one rule that an integration leaves: the floating one.\<close>

definition hub_rule :: "string \<Rightarrow> string \<Rightarrow> string \<Rightarrow> string \<Rightarrow> string \<Rightarrow> bool \<Rightarrow> xml" where
  "hub_rule now key hub_ip firewall_ip port floating = Xml ''rule'' None
     ([leaf ''type'' ''pass'', leaf ''interface'' key, leaf ''ipprotocol'' ''inet'', leaf ''direction'' ''in'',
       leaf ''quick'' ''1'', leaf ''statetype'' ''keep state'', leaf ''protocol'' ''tcp'',
       Xml ''source'' None [leaf ''address'' (host_route hub_ip)],
       Xml ''destination'' None [leaf ''address'' (host_route firewall_ip), leaf ''port'' port],
       leaf ''descr'' (if floating then floating_rule_descr else rule_descr),
       Xml ''created'' None [leaf ''time'' now, leaf ''username'' ''OPNsense Hub'']]
      @ (if floating then [leaf ''floating'' ''yes''] else []))"

lemma descr_neq [simp]: "rule_descr \<noteq> floating_rule_descr" "floating_rule_descr \<noteq> rule_descr"
  by (simp_all add: rule_descr_def floating_rule_descr_def)

lemmas edit_defs = in_child_def set_child_text_def set_text_def remove_child_def child_def element_def with_kids_def
  with_text_def

lemma configure_new:
  "snd (created_by_hub now (snd (configure_firewall_rule key hub_ip firewall_ip port rule_descr False (element ''rule''))))
     = hub_rule now key hub_ip firewall_ip port False"
  by (simp add: configure_firewall_rule_def created_by_hub_def edit_defs hub_rule_def)

lemma configure_again:
  "configure_firewall_rule key hub_ip firewall_ip port floating_rule_descr True (hub_rule now key hub_ip firewall_ip port False)
     = (True, hub_rule now key hub_ip firewall_ip port True)"
  "configure_firewall_rule key hub_ip firewall_ip port rule_descr False (hub_rule now key hub_ip firewall_ip port True)
     = (True, hub_rule now key hub_ip firewall_ip port False)"
  by (simp_all add: configure_firewall_rule_def edit_defs hub_rule_def)

lemma hub_rule_matches: "rule_matches key hub_ip firewall_ip port descr (hub_rule now key hub_ip firewall_ip port fl)"
  by (simp add: rule_matches_def hub_rule_def findtext_def findall_def text_of_def)

lemma hub_rule_facts [simp]:
  "xml_tag (hub_rule now key hub_ip firewall_ip port fl) = ''rule''"
  "findtext [''descr''] (hub_rule now key hub_ip firewall_ip port fl)
     = Some (if fl then floating_rule_descr else rule_descr)"
  by (simp_all add: hub_rule_def findtext_def findall_def text_of_def)

text \<open>A firewall without rules of the Hub: none with its descriptions and none from its address.\<close>

definition foreign_rules :: "string \<Rightarrow> xml \<Rightarrow> bool" where
  "foreign_rules hub_ip filter_node \<longleftrightarrow> (\<forall>r\<in>set (findall ''rule'' filter_node).
     findtext [''descr''] r \<notin> {Some rule_descr, Some floating_rule_descr}
     \<and> findtext [''source'', ''address''] r \<noteq> Some (host_route hub_ip))"

lemma foreign_not_wanted:
  assumes "foreign_rules hub_ip filter_node" and "descr \<in> {rule_descr, floating_rule_descr}"
  shows "\<forall>c\<in>set (xml_kids filter_node). \<not> (xml_tag c = ''rule'' \<and> rule_matches key hub_ip firewall_ip port descr c)"
  using assms by (auto simp: foreign_rules_def findall_def rule_matches_def)

lemma ensure_rule_new:
  assumes "foreign_rules hub_ip f"
  shows "ensure_rule now key hub_ip firewall_ip port rule_descr False f
    = (True, with_kids f (xml_kids f @ [hub_rule now key hub_ip firewall_ip port False]))"
proof -
  have "find (\<lambda>c. xml_tag c = ''rule'' \<and> rule_matches key hub_ip firewall_ip port rule_descr c) (xml_kids f) = None"
    using foreign_not_wanted [OF assms, of rule_descr] by (auto simp: find_None_iff)
  then show ?thesis by (simp add: ensure_rule_def configure_new)
qed

lemma ensure_rule_again:
  assumes "foreign_rules hub_ip f" and "descr = (if fl then floating_rule_descr else rule_descr)"
  shows "ensure_rule now key hub_ip firewall_ip port descr fl
      (with_kids f (xml_kids f @ [hub_rule t key hub_ip firewall_ip port (\<not> fl)]))
    = (True, with_kids f (xml_kids f @ [hub_rule t key hub_ip firewall_ip port fl]))"
proof -
  let ?p = "\<lambda>c. xml_tag c = ''rule'' \<and> rule_matches key hub_ip firewall_ip port descr c"
  have n: "\<forall>c\<in>set (xml_kids f). \<not> ?p c" using foreign_not_wanted [OF assms(1)] assms(2) by auto
  have y: "?p (hub_rule t key hub_ip firewall_ip port (\<not> fl))" by (simp add: hub_rule_matches)
  note e = find_append_last [of _ ?p, OF n y] put_first_append_last [of _ ?p, OF n y]
  have "configure_firewall_rule key hub_ip firewall_ip port descr fl (hub_rule t key hub_ip firewall_ip port (\<not> fl))
      = (True, hub_rule t key hub_ip firewall_ip port fl)"
    using assms(2) by (cases fl) (simp_all add: configure_again)
  then show ?thesis unfolding ensure_rule_def Let_def sel_simps e by simp
qed

lemma ensure_rules:
  assumes "foreign_rules hub_ip (or_element ''filter'' (child ''filter'' root))"
  defines "f \<equiv> or_element ''filter'' (child ''filter'' root)"
  shows "edits [ensure_firewall_rule now key hub_ip firewall_ip port rule_descr False,
      ensure_firewall_rule now key hub_ip firewall_ip port floating_rule_descr True] root
    = (True, put_child ''filter'' (with_kids f (xml_kids f @ [hub_rule now key hub_ip firewall_ip port True])) root)"
proof -
  have t: "xml_tag f = ''filter''" by (auto simp: f_def or_element_def dest: child_tag split: option.splits)
  show ?thesis
    using ensure_rule_new [OF assms(1), folded f_def, of now key firewall_ip port] t
      ensure_rule_again [OF assms(1), folded f_def, of floating_rule_descr True now key firewall_ip port now]
    by (simp add: ensure_firewall_rule_def in_child_put_child child_put_child f_def [symmetric])
qed

lemma ensure_rules_again:
  assumes "foreign_rules hub_ip f" and "xml_tag f = ''filter''"
    and "child ''filter'' root = Some (with_kids f (xml_kids f @ [hub_rule t key hub_ip firewall_ip port True]))"
  shows "edits [ensure_firewall_rule now key hub_ip firewall_ip port rule_descr False,
      ensure_firewall_rule now key hub_ip firewall_ip port floating_rule_descr True] root = (True, root)"
  using ensure_rule_again [OF assms(1), of rule_descr False now key firewall_ip port t]
    ensure_rule_again [OF assms(1), of floating_rule_descr True now key firewall_ip port t] assms(2,3)
  by (simp add: ensure_firewall_rule_def in_child_put_child child_put_child put_child_same)

lemma remove_rules:
  assumes "foreign_rules hub_ip f" and "xml_tag f = ''filter''"
    and "child ''filter'' root = Some (with_kids f (xml_kids f @ [hub_rule t key hub_ip firewall_ip port True]))"
  shows "remove_matching_firewall_rules [rule_descr, floating_rule_descr] root = (True, put_child ''filter'' f root)"
proof -
  have "filter (\<lambda>c. \<not> (xml_tag c = ''rule'' \<and> (findtext [''descr''] c = Some rule_descr
      \<or> findtext [''descr''] c = Some floating_rule_descr))) (xml_kids f) = xml_kids f"
    using assms(1) by (intro filter_True) (auto simp: foreign_rules_def findall_def)
  then show ?thesis using assms(3) by (simp add: remove_matching_firewall_rules_def Let_def)
qed

subsection \<open>The interface\<close>

definition hub_interface :: "string \<Rightarrow> string \<Rightarrow> string \<Rightarrow> xml" where
  "hub_interface key interface_ip prefix_len = Xml key None
     [leaf ''enable'' ''1'', leaf ''if'' wg_iface, leaf ''descr'' assigned_if_descr, leaf ''ipaddr'' interface_ip,
      leaf ''subnet'' prefix_len, leaf ''ipaddrv6'' ''none'']"

lemma set_interface_new: "set_interface ip p (element key) = (True, hub_interface key ip p)"
  and set_interface_again: "set_interface ip p (hub_interface key ip p) = (False, hub_interface key ip p)"
  by (simp_all add: set_interface_def edit_defs hub_interface_def)

lemma hub_interface_facts [simp]: "is_hub_interface (hub_interface key ip p)" "xml_tag (hub_interface key ip p) = key"
  by (simp_all add: is_hub_interface_def hub_interface_def findtext_def findall_def text_of_def)

definition new_key :: "xml \<Rightarrow> string" where
  "new_key interfaces = opt_name (free_opt (map xml_tag (xml_kids interfaces)) 1)"

lemma new_key_unused: "c \<in> set (xml_kids i) \<Longrightarrow> xml_tag c \<noteq> new_key i"
  using free_opt_unused [of "map xml_tag (xml_kids i)" 1] by (metis new_key_def image_eqI list.set_map)

lemma new_key_notin: "new_key i \<notin> xml_tag ` set (xml_kids i)"
  using free_opt_unused [of "map xml_tag (xml_kids i)" 1] unfolding new_key_def list.set_map .

lemma new_key_solid: "new_key i \<noteq> []" "strip (new_key i) = new_key i" "CHR '','' \<notin> set (new_key i)"
proof -
  have "\<not> is_space c \<and> c \<noteq> CHR '',''" if "c \<in> set (new_key i)" for c
  proof -
    have "\<not> is_digit CHR '',''" by (simp add: is_digit_def code_of_def)
    then show ?thesis using that nat_str_digits is_digit_not_space
      by (auto simp: new_key_def opt_name_def is_space_def code_of_def)
  qed
  then show "strip (new_key i) = new_key i" "CHR '','' \<notin> set (new_key i)" by (auto intro: strip_no_space)
qed (simp add: new_key_def opt_name_def)

lemma assign_new:
  assumes "\<forall>c\<in>set (xml_kids i). \<not> is_hub_interface c"
  shows "assign_interface ip p i = ((new_key i, True), with_kids i (xml_kids i @ [hub_interface (new_key i) ip p]))"
proof -
  have "find is_hub_interface (xml_kids i) = None" using assms by (simp add: find_None_iff)
  then show ?thesis by (simp add: assign_interface_def Let_def set_interface_new new_key_def)
qed

lemma assign_again:
  fixes ip p :: string and i :: xml
  assumes "\<forall>c\<in>set (xml_kids i). \<not> is_hub_interface c"
  defines "j \<equiv> with_kids i (xml_kids i @ [hub_interface (new_key i) ip p])"
  shows "assign_interface ip p j = ((new_key i, False), j)"
proof -
  let ?p = "\<lambda>c. xml_tag c = new_key i"
  have n: "\<forall>c\<in>set (xml_kids i). \<not> ?p c" using new_key_unused by auto
  have y: "?p (hub_interface (new_key i) ip p)" by simp
  have "find is_hub_interface (xml_kids j) = Some (hub_interface (new_key i) ip p)"
    unfolding j_def sel_simps by (rule find_append_last [OF assms(1)]) simp
  moreover have "in_child (new_key i) (set_interface ip p) j = (False, j)"
    unfolding j_def in_child_def child_def sel_simps find_append_last [of _ ?p, OF n y]
    by (simp add: set_interface_again put_first_append_last [of _ ?p, OF n y])
  ultimately show ?thesis by (simp add: assign_interface_def)
qed

lemma remove_assigned:
  assumes "\<forall>c\<in>set (xml_kids i). \<not> is_hub_interface c" and "xml_tag i = ''interfaces''"
    and "child ''interfaces'' root = Some (with_kids i (xml_kids i @ [hub_interface key ip p]))"
  shows "remove_assigned_interface root = ((Some key, True), put_child ''interfaces'' i root)"
    and "assigned_interface_key root = Some key"
  using find_append_last [OF assms(1), of "hub_interface key ip p"] assms(3)
    remove_first_append_last [OF assms(1), of "hub_interface key ip p"]
  by (simp_all add: remove_assigned_interface_def assigned_interface_key_def)

subsection \<open>The listen interfaces\<close>

definition solid_values :: "string list \<Rightarrow> bool" where
  "solid_values vs \<longleftrightarrow> (\<forall>v\<in>set vs. v \<noteq> [] \<and> strip v = v \<and> CHR '','' \<notin> set v)"

lemma strip_no_comma: "CHR '','' \<notin> set w \<Longrightarrow> CHR '','' \<notin> set (strip w)"
  by (auto simp: strip_def lstrip_def rstrip_def dest!: set_dropWhileD)

lemma split_on_parts: "w \<in> set (split_on c s) \<Longrightarrow> c \<notin> set w"
  by (induction s arbitrary: w) (auto split: list.splits if_splits)

lemma split_items_solid: "solid_values (filter (\<lambda>v. v \<noteq> []) (split_items t))"
proof -
  have "strip (strip w) = strip w" for w by (rule strip_strip)
  then show ?thesis by (auto simp: solid_values_def split_items_def strip_no_comma dest: split_on_parts)
qed

lemma split_items_join: "solid_values vs \<Longrightarrow> vs \<noteq> [] \<Longrightarrow> split_items (join '','' vs) = vs"
  using split_join [of vs "CHR '',''"] by (simp add: split_items_def solid_values_def map_idI)

definition node_values :: "xml \<Rightarrow> string list" where
  "node_values n = filter (\<lambda>v. v \<noteq> []) (listen_values_of n)"

lemma listen_values_concat: "listen_values ns = concat (map node_values ns)"
  unfolding listen_values_def node_values_def filter_concat map_map comp_def ..

definition unmixed :: "xml \<Rightarrow> bool" where
  "unmixed w \<longleftrightarrow> (\<forall>n\<in>set (findall ''interfaces'' w). xml_kids n \<noteq> [] \<longrightarrow> strip (text_of n) = [])"

lemma drop_listen_values:
  assumes "key \<noteq> []" and "xml_kids n \<noteq> [] \<longrightarrow> strip (text_of n) = []"
  shows "(case snd (drop_listen key n) of None \<Rightarrow> [] | Some n' \<Rightarrow> node_values n') = filter (\<lambda>v. v \<noteq> key) (node_values n)"
proof (cases "xml_kids n = []")
  case False
  let ?f = "\<lambda>c. strip (text_of c)" and ?ks = "filter (\<lambda>c. strip (text_of c) \<noteq> key) (xml_kids n)"
  have v: "filter (\<lambda>v. v \<noteq> key) (node_values n) = filter (\<lambda>v. v \<noteq> []) (map ?f ?ks)"
    using False by (simp add: node_values_def listen_values_of_def filter_map comp_def conj_commute)
  show ?thesis
  proof (cases "?ks = []")
    case True
    then show ?thesis using False assms(2) by (simp add: v drop_listen_def Let_def)
  next
    case nonempty: False
    then have "snd (drop_listen key n) = Some (with_kids n ?ks)"
      unfolding drop_listen_def Let_def using False by (simp only: not_False_eq_True if_True if_False simp_thms snd_conv)
    then show ?thesis unfolding v using nonempty by (simp add: node_values_def listen_values_of_def)
  qed
next
  case True
  let ?vs = "filter (\<lambda>v. v \<noteq> []) (split_items (text_of n))" and ?rest = "filter (\<lambda>v. v \<noteq> key) (node_values n)"
  have nv: "node_values n = ?vs" using True by (simp add: node_values_def listen_values_of_def)
  have "solid_values ?rest" using split_items_solid [of "text_of n"] nv by (auto simp: solid_values_def)
  then have "?rest \<noteq> [] \<Longrightarrow> node_values (with_text n (join '','' ?rest)) = ?rest"
    using True split_items_join [of ?rest] filter_True [of ?rest "\<lambda>v. v \<noteq> []"]
    unfolding node_values_def listen_values_of_def by (simp add: text_of_def solid_values_def)
  moreover have "key \<notin> set ?vs \<Longrightarrow> ?rest = node_values n" using nv by (auto intro!: filter_cong)
  ultimately show ?thesis using True nv by (simp add: drop_listen_def Let_def)
qed

lemma drop_listens_values:
  assumes "key \<noteq> []" and "\<forall>n\<in>set ks. xml_tag n = ''interfaces'' \<longrightarrow> xml_kids n \<noteq> [] \<longrightarrow> strip (text_of n) = []"
  shows "listen_values (filter (\<lambda>c. xml_tag c = ''interfaces'') (snd (drop_listens key ks)))
    = filter (\<lambda>v. v \<noteq> key) (listen_values (filter (\<lambda>c. xml_tag c = ''interfaces'') ks))"
  using assms(2)
proof (induction ks)
  case (Cons c cs)
  have tag: "snd (drop_listen key c) = Some c' \<Longrightarrow> xml_tag c' = xml_tag c" for c'
    by (auto simp: drop_listen_def Let_def split: if_splits)
  show ?case
    using Cons drop_listen_values [OF assms(1), of c] tag
    by (cases "drop_listen key c"; cases "snd (drop_listen key c)")
      (auto simp: listen_values_concat split: prod.split)
qed (simp add: listen_values_def)

lemma filter_put_first: "filter p xs = y # ys \<Longrightarrow> p c \<Longrightarrow> filter p (put_first p c xs) = c # ys"
  by (induction xs) (auto split: if_splits)

lemma filter_put_first_other: "(\<And>x. p x \<Longrightarrow> \<not> q x) \<Longrightarrow> \<not> q c \<Longrightarrow> filter q (put_first p c xs) = filter q xs"
  by (induction xs) auto

definition solid_key :: "string \<Rightarrow> bool" where
  "solid_key key \<longleftrightarrow> key \<noteq> [] \<and> strip key = key \<and> CHR '','' \<notin> set key"

lemma node_values_leaf: "solid_key key \<Longrightarrow> node_values (with_text (element t) key) = [key]"
  by (simp add: node_values_def listen_values_of_def text_of_def split_items_def split_on_no_sep solid_key_def)

text \<open>What an addition does to the list of listen elements.\<close>

lemma add_listen_nodes:
  assumes "solid_key key" and "add_listen key w = (b, w')"
  obtains (same) "\<not> b" "w' = w" "findall ''interfaces'' w = [] \<or> listen_values (findall ''interfaces'' w) = []
      \<or> key \<in> set (listen_values (findall ''interfaces'' w))"
  | (nested) n ns n' where "b" "findall ''interfaces'' w = n # ns" "findall ''interfaces'' w' = n' # ns"
      "node_values n' = node_values n @ [key]" "xml_text n' = xml_text n" "xml_kids n \<noteq> []"
  | (joined) n n' where "b" "findall ''interfaces'' w = [n]" "findall ''interfaces'' w' = [n']"
      "node_values n' = node_values n @ [key]" "xml_kids n' = []"
  | (appended) n' where "b" "findall ''interfaces'' w' = findall ''interfaces'' w @ [n']" "node_values n' = [key]"
      "xml_kids n' = []"
proof -
  let ?ns = "findall ''interfaces'' w" and ?vs = "listen_values (findall ''interfaces'' w)"
  let ?put = "\<lambda>c. with_kids w (put_first (\<lambda>x. xml_tag x = ''interfaces'') c (xml_kids w))"
  show thesis
  proof (cases "?ns = [] \<or> ?vs = [] \<or> key \<in> set ?vs")
    case True
    then show thesis using assms(2) by (intro same) (auto simp: add_listen_def Let_def)
  next
    case False
    then obtain n ns where n: "?ns = n # ns" by (cases ?ns) auto
    then have tag: "xml_tag n = ''interfaces''" by (auto simp: findall_def filter_eq_Cons_iff)
    have put: "findall ''interfaces'' (?put c) = c # ns" if "xml_tag c = ''interfaces''" for c
      using filter_put_first [of "\<lambda>x. xml_tag x = ''interfaces''"] n that by (simp add: findall_def)
    consider "xml_kids n \<noteq> []" | "xml_kids n = []" "ns = []" "CHR '','' \<in> set (text_of n)"
      | "xml_kids n = []" "\<not> (ns = [] \<and> CHR '','' \<in> set (text_of n))" by blast
    then show thesis
    proof cases
      case 1
      let ?n = "with_kids n (xml_kids n @ [with_text (element ''interface'') key])"
      have "b" "w' = ?put ?n" using False assms(2) n 1 by (auto simp: add_listen_def Let_def)
      then show thesis using put [of ?n] tag n 1 assms(1)
        by (intro nested [of n ns ?n]) (auto simp: node_values_def listen_values_of_def text_of_def solid_key_def)
    next
      case 2
      let ?n = "with_text n (join '','' (?vs @ [key]))"
      have w: "b" "w' = ?put ?n" using False assms(2) n 2 by (auto simp: add_listen_def Let_def)
      have vs: "?vs = node_values n" using n 2 by (simp add: listen_values_concat)
      have "solid_values (node_values n)" using split_items_solid 2(1) by (simp add: node_values_def listen_values_of_def)
      then have solid: "solid_values (?vs @ [key])" using assms(1) vs by (auto simp: solid_values_def solid_key_def)
      then have "filter (\<lambda>v. v \<noteq> []) (?vs @ [key]) = ?vs @ [key]" by (intro filter_True) (simp add: solid_values_def)
      then have "node_values ?n = ?vs @ [key]" using split_items_join [OF solid] 2(1)
        unfolding node_values_def [of ?n] listen_values_of_def text_of_def by (simp del: filter_append)
      then have "node_values ?n = node_values n @ [key]" by (simp only: vs)
      then show thesis using put [of ?n] tag n 2 w by (intro joined [of n ?n]) auto
    next
      case 3
      then have "b" "w' = with_kids w (xml_kids w @ [with_text (element ''interfaces'') key])"
        using False assms(2) n by (auto simp: add_listen_def Let_def)
      then show thesis using node_values_leaf [OF assms(1)] by (intro appended [of "with_text (element ''interfaces'') key"]) (auto simp: findall_def)
    qed
  qed
qed

lemma add_listen_facts:
  assumes "solid_key key" and "add_listen key w = (b, w')"
  shows "add_listen key w' = (False, w')"
    and "filter (\<lambda>v. v \<noteq> key) (listen_values (findall ''interfaces'' w'))
      = filter (\<lambda>v. v \<noteq> key) (listen_values (findall ''interfaces'' w))"
    and "unmixed w \<Longrightarrow> unmixed w'"
proof -
  have "add_listen key w' = (False, w')
    \<and> filter (\<lambda>v. v \<noteq> key) (listen_values (findall ''interfaces'' w'))
      = filter (\<lambda>v. v \<noteq> key) (listen_values (findall ''interfaces'' w))
    \<and> (unmixed w \<longrightarrow> unmixed w')"
  proof (cases rule: add_listen_nodes [OF assms])
    case 1
    then show ?thesis by (auto simp: add_listen_def Let_def)
  qed (auto simp: add_listen_def Let_def listen_values_concat unmixed_def text_of_def)
  then show "add_listen key w' = (False, w')"
    and "filter (\<lambda>v. v \<noteq> key) (listen_values (findall ''interfaces'' w'))
      = filter (\<lambda>v. v \<noteq> key) (listen_values (findall ''interfaces'' w))"
    and "unmixed w \<Longrightarrow> unmixed w'" by blast+
qed

lemma add_listen_cases:
  obtains "snd (add_listen key w) = w"
  | c where "xml_tag c = ''interfaces''"
      "snd (add_listen key w) = with_kids w (put_first (\<lambda>x. xml_tag x = ''interfaces'') c (xml_kids w))"
  | "snd (add_listen key w) = with_kids w (xml_kids w @ [with_text (element ''interfaces'') key])"
proof -
  let ?ns = "findall ''interfaces'' w"
  have h: "?ns \<noteq> [] \<Longrightarrow> xml_tag (hd ?ns) = ''interfaces''"
    by (cases ?ns) (auto simp: findall_def filter_eq_Cons_iff)
  show thesis
  proof (cases "?ns = [] \<or> listen_values ?ns = [] \<or> key \<in> set (listen_values ?ns)")
    case True
    then show thesis by (intro that(1)) (simp only: add_listen_def Let_def if_True snd_conv)
  next
    case False
    then have e: "snd (add_listen key w) = (let first = hd ?ns;
            put = (\<lambda>c. with_kids w (put_first (\<lambda>x. xml_tag x = ''interfaces'') c (xml_kids w)))
        in if xml_kids first \<noteq> [] then put (with_kids first (xml_kids first @ [with_text (element ''interface'') key]))
            else if length ?ns = 1 \<and> CHR '','' \<in> set (text_of first)
            then put (with_text first (join '','' (listen_values ?ns @ [key])))
            else with_kids w (xml_kids w @ [with_text (element ''interfaces'') key]))"
      by (simp only: add_listen_def Let_def if_False snd_conv)
    show thesis
    proof (cases "xml_kids (hd ?ns) \<noteq> []")
      case True
      then show thesis using h False by (intro that(2)) (simp_all add: e Let_def)
    next
      case nokids: False
      show thesis
      proof (cases "length ?ns = 1 \<and> CHR '','' \<in> set (text_of (hd ?ns))")
        case True
        then show thesis using h False nokids by (intro that(2)) (simp_all add: e Let_def)
      next
        case False
        then show thesis using nokids by (intro that(3)) (simp only: e Let_def if_False)
      qed
    qed
  qed
qed

lemma add_listen_other: "t \<noteq> ''interfaces'' \<Longrightarrow> findall t (snd (add_listen key w)) = findall t w"
  by (cases rule: add_listen_cases [of key w]) (auto simp: findall_def intro!: filter_put_first_other)

lemma add_listen_tag: "xml_tag (snd (add_listen key w)) = xml_tag w"
  by (cases rule: add_listen_cases [of key w]) simp_all

subsection \<open>Integration and removal\<close>

text \<open>A configuration without anything of the Hub.\<close>

definition not_integrated :: "string \<Rightarrow> xml \<Rightarrow> bool" where
  "not_integrated hub_ip root \<longleftrightarrow>
     (\<forall>c\<in>set (xml_kids (or_element ''interfaces'' (child ''interfaces'' root))). \<not> is_hub_interface c)
     \<and> foreign_rules hub_ip (or_element ''filter'' (child ''filter'' root))"

definition same_port :: "xml option \<Rightarrow> xml option \<Rightarrow> bool" where
  "same_port w w' \<longleftrightarrow> (w = None \<longleftrightarrow> w' = None) \<and> (\<forall>v v'. w = Some v \<longrightarrow> w' = Some v' \<longrightarrow>
     findtext [''port''] v = findtext [''port''] v' \<and> findtext [''protocol''] v = findtext [''protocol''] v')"

lemma webgui_port_same: "same_port (find_path webgui_path r) (find_path webgui_path r') \<Longrightarrow> webgui_port r = webgui_port r'"
  by (auto simp: webgui_port_def same_port_def split: option.split)

lemma listen_shape:
  assumes "ensure_webgui_listen_interface key root = (l, root')"
  shows "t \<noteq> ''system'' \<Longrightarrow> child t root' = child t root"
    and "same_port (find_path webgui_path root) (find_path webgui_path root')"
    and "find_path webgui_path root' = map_option (\<lambda>w. snd (add_listen key w)) (find_path webgui_path root)"
proof -
  have "(t \<noteq> ''system'' \<longrightarrow> child t root' = child t root)
    \<and> find_path webgui_path root' = map_option (\<lambda>w. snd (add_listen key w)) (find_path webgui_path root)"
  proof (cases "find_path webgui_path root")
    case None
    then show ?thesis using assms by (auto simp: ensure_webgui_listen_interface_def)
  next
    case (Some w)
    obtain w' where w': "add_listen key w = (l, w')" "root' = put_path webgui_path w' root"
      using assms Some by (auto simp: ensure_webgui_listen_interface_def split: prod.splits)
    have "xml_tag w = ''webgui''"
      using Some unfolding webgui_path_def find_path_Cons find_path.simps(1) by (auto split: bind_splits dest: find_SomeD)
    then have "xml_tag w' = last (xml_tag root # webgui_path)"
      using add_listen_tag [of key w] w'(1) by (simp add: webgui_path_def)
    then have "find_path webgui_path root' = Some w'" using find_path_put_path [of webgui_path root w'] Some w'(2) by simp
    moreover have "t \<noteq> ''system'' \<longrightarrow> child t root' = child t root"
      unfolding w'(2) webgui_path_def by (intro impI child_put_path) auto
    ultimately show ?thesis using Some w'(1) by simp
  qed
  then show "t \<noteq> ''system'' \<Longrightarrow> child t root' = child t root"
    and m: "find_path webgui_path root' = map_option (\<lambda>w. snd (add_listen key w)) (find_path webgui_path root)" by auto
  show "same_port (find_path webgui_path root) (find_path webgui_path root')"
    unfolding m same_port_def by (auto simp: findtext_def add_listen_other)
qed

lemma integrate_shape:
  assumes "not_integrated hub_ip root" and "integrate_config now hub_ip firewall_ip addr root = Inr (ig, root3)"
  defines "i \<equiv> or_element ''interfaces'' (child ''interfaces'' root)" and "f \<equiv> or_element ''filter'' (child ''filter'' root)"
  obtains iface where "ip_interface addr = Some iface"
    "ig_interface ig = new_key i" "ig_port ig = webgui_port root" "ig_changed ig"
    "child ''interfaces'' root3 = Some (with_kids i (xml_kids i @
       [hub_interface (new_key i) (show_ip (iface_ip iface)) (nat_str (iface_prefix iface))]))"
    "child ''filter'' root3 = Some (with_kids f (xml_kids f @
       [hub_rule now (new_key i) hub_ip firewall_ip (webgui_port root) True]))"
    "same_port (find_path webgui_path root) (find_path webgui_path root3)"
    "find_path webgui_path root3 = map_option (\<lambda>w. snd (add_listen (new_key i) w)) (find_path webgui_path root)"
proof -
  have ti: "xml_tag i = ''interfaces''" and tf: "xml_tag f = ''filter''"
    by (auto simp: i_def f_def or_element_def dest: child_tag split: option.splits)
  from assms(2) obtain iface where iface: "ip_interface addr = Some iface"
    by (auto simp: integrate_config_def ensure_assigned_interface_def rbind_def split: option.splits)
  let ?i = "with_kids i (xml_kids i @ [hub_interface (new_key i) (show_ip (iface_ip iface)) (nat_str (iface_prefix iface))])"
  let ?r1 = "put_child ''interfaces'' ?i root"
  have fi: "\<forall>c\<in>set (xml_kids i). \<not> is_hub_interface c" and fr: "foreign_rules hub_ip f"
    using assms(1) by (auto simp: not_integrated_def i_def f_def)
  have e: "ensure_assigned_interface addr root = Inr ((new_key i, True), ?r1)"
    unfolding ensure_assigned_interface_def iface option.case i_def [symmetric] assign_new [OF fi] by simp
  have path: "find_path webgui_path ?r1 = find_path webgui_path root"
    unfolding webgui_path_def using ti by (intro find_path_put_child) auto
  have cf: "child ''filter'' ?r1 = child ''filter'' root" using ti by (intro child_put_child(2)) auto
  let ?f = "with_kids f (xml_kids f @ [hub_rule now (new_key i) hub_ip firewall_ip (webgui_port root) True])"
  let ?r2 = "put_child ''filter'' ?f ?r1"
  have p: "webgui_port ?r1 = webgui_port root" using path by (simp add: webgui_port_def)
  have "edits [ensure_firewall_rule now (new_key i) hub_ip firewall_ip (webgui_port root) rule_descr False,
      ensure_firewall_rule now (new_key i) hub_ip firewall_ip (webgui_port root) floating_rule_descr True] ?r1 = (True, ?r2)"
    using ensure_rules [of hub_ip ?r1] fr unfolding cf f_def by simp
  with assms(2) e p obtain l where ig: "ig = \<lparr>ig_interface = new_key i, ig_port = webgui_port root, ig_changed = True, ig_listen_changed = l\<rparr>"
    and l: "ensure_webgui_listen_interface (new_key i) ?r2 = (l, root3)"
    by (auto simp: integrate_config_def Let_def simp del: edits.simps split: prod.splits)
  have path2: "find_path webgui_path ?r2 = find_path webgui_path root"
    unfolding path [symmetric] unfolding webgui_path_def using tf by (intro find_path_put_child) auto
  have c: "child ''interfaces'' ?r2 = Some ?i" "child ''filter'' ?r2 = Some ?f"
    using ti tf by (simp_all add: child_put_child)
  show thesis
    using listen_shape [OF l] unfolding path2 c
    by (intro that [OF iface]) (simp_all add: ig c)
qed

lemma integrate_again:
  assumes "not_integrated hub_ip root" and "integrate_config now hub_ip firewall_ip addr root = Inr (ig, root1)"
  shows "integrate_config now' hub_ip firewall_ip addr root1 = Inr (ig\<lparr>ig_changed := True, ig_listen_changed := False\<rparr>, root1)"
proof -
  let ?i = "or_element ''interfaces'' (child ''interfaces'' root)" and ?f = "or_element ''filter'' (child ''filter'' root)"
  have fi: "\<forall>c\<in>set (xml_kids ?i). \<not> is_hub_interface c" and fr: "foreign_rules hub_ip ?f" and tf: "xml_tag ?f = ''filter''"
    using assms(1) by (auto simp: not_integrated_def or_element_def dest: child_tag split: option.splits)
  from integrate_shape [OF assms] obtain iface where iface: "ip_interface addr = Some iface"
    and ig: "ig_interface ig = new_key ?i" "ig_port ig = webgui_port root" "ig_changed ig"
    and ci: "child ''interfaces'' root1 = Some (with_kids ?i (xml_kids ?i @
       [hub_interface (new_key ?i) (show_ip (iface_ip iface)) (nat_str (iface_prefix iface))]))"
    and cf: "child ''filter'' root1 = Some (with_kids ?f (xml_kids ?f @
       [hub_rule now (new_key ?i) hub_ip firewall_ip (webgui_port root) True]))"
    and port: "same_port (find_path webgui_path root) (find_path webgui_path root1)"
    and listen: "find_path webgui_path root1 = map_option (\<lambda>w. snd (add_listen (new_key ?i) w)) (find_path webgui_path root)" .
  have e: "ensure_assigned_interface addr root1 = Inr ((new_key ?i, False), root1)"
    unfolding ensure_assigned_interface_def iface option.case ci or_element_simps assign_again [OF fi] prod.case
    by (simp only: put_child_same [OF ci])
  have p: "webgui_port root1 = webgui_port root" by (rule webgui_port_same [OF port, symmetric])
  have l: "ensure_webgui_listen_interface (new_key ?i) root1 = (False, root1)"
  proof (cases "find_path webgui_path root")
    case (Some w)
    have k: "solid_key (new_key ?i)" using new_key_solid by (simp add: solid_key_def)
    obtain b w' where a: "add_listen (new_key ?i) w = (b, w')" by fastforce
    then have w': "find_path webgui_path root1 = Some w'" using listen Some by simp
    show ?thesis unfolding ensure_webgui_listen_interface_def w' option.case add_listen_facts(1) [OF k a] prod.case
      by (simp only: put_path_same [OF w'])
  qed (simp add: ensure_webgui_listen_interface_def listen)
  show ?thesis unfolding integrate_config_def e rbind_simps prod.case Let_def p ensure_rules_again [OF fr tf cf] l
    using ig by (cases ig) simp
qed

subsection \<open>An example\<close>

definition example_config :: xml where
  "example_config = Xml ''opnsense'' None
     [Xml ''interfaces'' None [Xml ''lan'' None [leaf ''if'' ''em0'']],
      Xml ''filter'' None [Xml ''rule'' None [leaf ''descr'' ''LAN'']],
      Xml ''system'' None [Xml ''webgui'' None [leaf ''interfaces'' ''lan, wan'']]]"

definition example_address :: string where
  "example_address = show_ipv4 10 @ ''/'' @ nat_str 32"

lemma example_config_facts:
  "not_integrated ip example_config"
  "\<forall>w. find_path webgui_path example_config = Some w \<longrightarrow> unmixed w"
  by (simp_all add: example_config_def not_integrated_def or_element_def child_def is_hub_interface_def findtext_def
      findall_def text_of_def foreign_rules_def wg_iface_def assigned_if_descr_def rule_descr_def floating_rule_descr_def
      webgui_path_def unmixed_def)

lemma integrate_total: "ip_interface addr = Some i \<Longrightarrow> \<exists>r. integrate_config now hub_ip firewall_ip addr root = Inr r"
  by (simp add: integrate_config_def ensure_assigned_interface_def rbind_def Let_def del: edits.simps split: prod.split)

lemma example_integration: "\<exists>ig root1. integrate_config ''0'' ip ip' example_address example_config = Inr (ig, root1)"
proof -
  have "ip_interface example_address = Some (Iface4 10 32)"
    using ip_interface_show_iface4 [of 32 10] by (simp add: example_address_def)
  from integrate_total [OF this] show ?thesis by (metis surj_pair)
qed

text \<open>On a firewall without anything of the Hub, the integration assigns the tunnel interface under a free
  name and leaves one new rule, which passes TCP from the Hub's address to the web interface; but the rule that
  is meant for the interface has been overwritten by the floating one, so the status page reports no rule,
  and every further integration writes the same configuration again and reports a change.\<close>

theorem reintegration_rewrites_rules:
  assumes "not_integrated hub_ip root" and "integrate_config now hub_ip firewall_ip addr root = Inr (ig, root1)"
  shows "(\<exists>f r. child ''filter'' root1 = Some f
        \<and> findall ''rule'' f = findall ''rule'' (or_element ''filter'' (child ''filter'' root)) @ [r]
        \<and> rule_matches (ig_interface ig) hub_ip firewall_ip (ig_port ig) [] r
        \<and> findtext [''descr''] r = Some floating_rule_descr)
    \<and> assigned_interface_key root1 = Some (ig_interface ig)
    \<and> ig_interface ig \<notin> xml_tag ` set (xml_kids (or_element ''interfaces'' (child ''interfaces'' root)))
    \<and> \<not> firewall_rule_present (Some root1)
    \<and> integrate_config now' hub_ip firewall_ip addr root1 =
        Inr (ig\<lparr>ig_changed := True, ig_listen_changed := False\<rparr>, root1)"
proof -
  let ?i = "or_element ''interfaces'' (child ''interfaces'' root)" and ?f = "or_element ''filter'' (child ''filter'' root)"
  have fi: "\<forall>c\<in>set (xml_kids ?i). \<not> is_hub_interface c" and fr: "foreign_rules hub_ip ?f" and ti: "xml_tag ?i = ''interfaces''"
    using assms(1) by (auto simp: not_integrated_def or_element_def dest: child_tag split: option.splits)
  from integrate_shape [OF assms] obtain iface where
    ig: "ig_interface ig = new_key ?i" "ig_port ig = webgui_port root" "ig_changed ig"
    and ci: "child ''interfaces'' root1 = Some (with_kids ?i (xml_kids ?i @
       [hub_interface (new_key ?i) (show_ip (iface_ip iface)) (nat_str (iface_prefix iface))]))"
    and cf: "child ''filter'' root1 = Some (with_kids ?f (xml_kids ?f @
       [hub_rule now (new_key ?i) hub_ip firewall_ip (webgui_port root) True]))" by metis
  let ?r = "hub_rule now (new_key ?i) hub_ip firewall_ip (webgui_port root) True"
  have a: "findall ''rule'' (with_kids ?f (xml_kids ?f @ [?r])) = findall ''rule'' ?f @ [?r]" by (simp add: findall_def)
  have d: "findtext [''descr''] ?r = Some floating_rule_descr" by simp
  have "\<exists>f r. child ''filter'' root1 = Some f \<and> findall ''rule'' f = findall ''rule'' ?f @ [r]
      \<and> rule_matches (ig_interface ig) hub_ip firewall_ip (ig_port ig) [] r \<and> findtext [''descr''] r = Some floating_rule_descr"
    unfolding ig by (intro exI conjI) (rule cf, rule a, rule hub_rule_matches, rule d)
  moreover have "\<not> firewall_rule_present (Some root1)"
    using fr cf by (auto simp: firewall_rule_present_def findall_def foreign_rules_def)
  moreover have "ig_interface ig \<notin> xml_tag ` set (xml_kids ?i)" unfolding ig(1) by (rule new_key_notin)
  ultimately show ?thesis using integrate_again [OF assms] remove_assigned(2) [OF fi ti ci] ig(1) by simp
qed

theorem reintegration_rewrites_rules_witness:
  "\<exists>ig root1. integrate_config ''0'' ''10.0.0.1'' ''10.0.0.10'' example_address example_config = Inr (ig, root1)
     \<and> \<not> firewall_rule_present (Some root1)"
proof -
  obtain ig root1 where i: "integrate_config ''0'' ''10.0.0.1'' ''10.0.0.10'' example_address example_config = Inr (ig, root1)"
    using example_integration by blast
  from reintegration_rewrites_rules [OF example_config_facts(1) this] i show ?thesis by blast
qed

lemma drop_listens_other:
  assumes "t \<noteq> ''interfaces''"
  shows "filter (\<lambda>c. xml_tag c = t) (snd (drop_listens key ks)) = filter (\<lambda>c. xml_tag c = t) ks"
proof (induction ks)
  case (Cons c cs)
  have "snd (drop_listen key c) = Some c' \<Longrightarrow> xml_tag c' = xml_tag c" for c'
    by (auto simp: drop_listen_def Let_def split: if_splits)
  then show ?case using Cons assms
    by (cases "drop_listen key c"; cases "snd (drop_listen key c)") (auto split: prod.split)
qed simp

lemma remove_listen_shape:
  assumes "remove_webgui_listen_interface key root = (b, root')" and "solid_key key"
    and "\<forall>w. find_path webgui_path root = Some w \<longrightarrow> unmixed w"
  shows "t \<noteq> ''system'' \<Longrightarrow> child t root' = child t root"
    and "case find_path webgui_path root of
        None \<Rightarrow> find_path webgui_path root' = None
      | Some w \<Rightarrow> \<exists>w2. find_path webgui_path root' = Some w2
          \<and> listen_values (findall ''interfaces'' w2) = filter (\<lambda>v. v \<noteq> key) (listen_values (findall ''interfaces'' w))
          \<and> (\<forall>t. t \<noteq> ''interfaces'' \<longrightarrow> findall t w2 = findall t w)"
proof -
  have "(t \<noteq> ''system'' \<longrightarrow> child t root' = child t root) \<and> (case find_path webgui_path root of
        None \<Rightarrow> find_path webgui_path root' = None
      | Some w \<Rightarrow> \<exists>w2. find_path webgui_path root' = Some w2
          \<and> listen_values (findall ''interfaces'' w2) = filter (\<lambda>v. v \<noteq> key) (listen_values (findall ''interfaces'' w))
          \<and> (\<forall>t. t \<noteq> ''interfaces'' \<longrightarrow> findall t w2 = findall t w))"
  proof (cases "find_path webgui_path root")
    case None
    then show ?thesis using assms(1) by (auto simp: remove_webgui_listen_interface_def)
  next
    case (Some w)
    let ?w = "with_kids w (snd (drop_listens key (xml_kids w)))"
    have k: "key \<noteq> []" using assms(2) by (simp add: solid_key_def)
    have r: "root' = put_path webgui_path ?w root"
      using assms(1) Some k by (auto simp: remove_webgui_listen_interface_def split: prod.splits)
    have "xml_tag w = ''webgui''"
      using Some unfolding webgui_path_def find_path_Cons find_path.simps(1) by (auto split: bind_splits dest: find_SomeD)
    then have "find_path webgui_path root' = Some ?w"
      using find_path_put_path [of webgui_path root ?w] Some r by (simp add: webgui_path_def)
    moreover have "listen_values (findall ''interfaces'' ?w) = filter (\<lambda>v. v \<noteq> key) (listen_values (findall ''interfaces'' w))"
      using drop_listens_values [OF k, of "xml_kids w"] assms(3) Some by (simp add: findall_def unmixed_def)
    moreover have "findall t ?w = findall t w" if "t \<noteq> ''interfaces''" for t
      using drop_listens_other [OF that] by (simp add: findall_def)
    moreover have "t \<noteq> ''system'' \<longrightarrow> child t root' = child t root"
      unfolding r webgui_path_def by (intro impI child_put_path) auto
    ultimately show ?thesis using Some by auto
  qed
  then show "t \<noteq> ''system'' \<Longrightarrow> child t root' = child t root"
    and "case find_path webgui_path root of
        None \<Rightarrow> find_path webgui_path root' = None
      | Some w \<Rightarrow> \<exists>w2. find_path webgui_path root' = Some w2
          \<and> listen_values (findall ''interfaces'' w2) = filter (\<lambda>v. v \<noteq> key) (listen_values (findall ''interfaces'' w))
          \<and> (\<forall>t. t \<noteq> ''interfaces'' \<longrightarrow> findall t w2 = findall t w)" by auto
qed



end
