(* ===== verification/Plugin_Heartbeat_Facts.thy ===== *)
theory Plugin_Heartbeat_Facts
  imports Plugin_Heartbeat Plugin_Config_Facts
begin

text \<open>
  When the scripts take the tunnel down: only after the Hub has answered a heartbeat with 410 at the address the
  heartbeat was sent to.
\<close>

subsection \<open>What a script keeps and raises\<close>

definition safe :: "('s \<Rightarrow> bool) \<Rightarrow> (exn \<Rightarrow> bool) \<Rightarrow> ('s, 'a) act \<Rightarrow> bool" where
  "safe P E m \<longleftrightarrow> (\<forall>w. P w \<longrightarrow> P (snd (m w)) \<and> (\<forall>e. fst (m w) = Inl e \<longrightarrow> E e))"

lemma safeD: "safe P E m \<Longrightarrow> P w \<Longrightarrow> P (snd (m w)) \<and> (\<forall>e. fst (m w) = Inl e \<longrightarrow> E e)"
  by (simp add: safe_def)

named_theorems safe_rules \<open>what a script keeps and raises, by its structure\<close>

lemma safe_ret [safe_rules]: "safe P E (aret x)"
  by (simp add: safe_def)

lemma safe_raise: "E e \<Longrightarrow> safe P E (araise e)"
  by (simp add: safe_def)

lemma safe_lift: "(\<And>e. r = Inl e \<Longrightarrow> E e) \<Longrightarrow> safe P E (alift r)"
  by (simp add: safe_def)

lemma safe_bind [safe_rules]: "safe P E m \<Longrightarrow> (\<And>x. safe P E (f x)) \<Longrightarrow> safe P E (abind m f)"
  unfolding safe_def abind_def by (fastforce split: prod.splits sum.splits)

lemma safe_seq [safe_rules]: "safe P E m \<Longrightarrow> safe P E n \<Longrightarrow> safe P E (aseq m n)"
  by (simp add: aseq_def safe_bind)

lemma safe_if: "(b \<Longrightarrow> safe P E m) \<Longrightarrow> (\<not> b \<Longrightarrow> safe P E n) \<Longrightarrow> safe P E (if b then m else n)"
  by simp

lemma safe_prod [safe_rules]: "(\<And>a b. safe P E (f a b)) \<Longrightarrow> safe P E (case x of (a, b) \<Rightarrow> f a b)"
  by (cases x) simp

subsection \<open>The steps of a heartbeat\<close>

definition saved_state :: "'w plugin_world \<Rightarrow> json_dict" where
  "saved_state w = (case pw_state w of None \<Rightarrow> [] | Some d \<Rightarrow> d)"

definition tunnel_files :: "'w plugin_world \<Rightarrow> string option \<times> string option \<times> xml option" where
  "tunnel_files w = (pw_key w, pw_wg_conf w, pw_config w)"

definition keeps :: "string option \<times> string option \<times> xml option \<Rightarrow> string res \<Rightarrow> 'w plugin_world \<Rightarrow> bool" where
  "keeps files url w \<longleftrightarrow> tunnel_files w = files \<and> heartbeat_url (saved_state w) = url"

definition revoked_by_hub :: "'w heartbeat_env \<Rightarrow> string res \<Rightarrow> bool" where
  "revoked_by_hub env u \<longleftrightarrow> (\<exists>url token payload x x'. u = Inr url \<and> hb_post env url token payload x = (Refused 410 url, x'))"

definition other_errors :: "'w heartbeat_env \<Rightarrow> string res \<Rightarrow> exn \<Rightarrow> bool" where
  "other_errors env u e \<longleftrightarrow> (e = heartbeat_revoked \<longrightarrow> revoked_by_hub env u)"

lemma heartbeat_url_put:
  "k \<noteq> ''hub_url'' \<Longrightarrow> k \<noteq> ''device_id'' \<Longrightarrow> heartbeat_url (dict_put k v d) = heartbeat_url d"
  by (simp add: heartbeat_url_def device_url_def text_item_def dict_item_def dict_put_def update_conv)

lemma safe_change [safe_rules]:
  "(\<And>d. heartbeat_url (f d) = heartbeat_url d) \<Longrightarrow> safe (keeps a u) E (change_state f)"
  by (auto simp: safe_def keeps_def change_state_def abind_def load_state_def save_state_def saved_state_def tunnel_files_def
      split: option.splits)

lemma safe_steps [safe_rules]:
  "safe (keeps a u) E load_state" "safe (keeps a u) E (print_out d)"
  "safe (keeps a u) E (\<lambda>w. (Inr (g w), w))"
  "safe (keeps a u) (other_errors env u) (run_plain p args inp)"
  "safe (keeps a u) (other_errors env u) (run_output p args)"
  by (auto simp: safe_def keeps_def load_state_def print_out_def run_plain_def run_output_def saved_state_def tunnel_files_def
      other_errors_def heartbeat_revoked_def split: prod.splits run_result.splits)

lemma other_error_simps [simp]:
  "other_errors env u TypeError" "other_errors env u KeyError" "other_errors env u ValueError" "other_errors env u (ExternalError m)"
  "other_errors env u (http_error c)"
  "m \<noteq> ''heartbeat revoked by Hub'' \<Longrightarrow> other_errors env u (RuntimeError m)"
  by (simp_all add: other_errors_def heartbeat_revoked_def http_error_def)

definition fails_with :: "(exn \<Rightarrow> bool) \<Rightarrow> 'a res \<Rightarrow> bool" where
  "fails_with E r \<longleftrightarrow> (\<forall>e. r = Inl e \<longrightarrow> E e)"

lemma fails_bind: "fails_with E r \<Longrightarrow> (\<And>x. fails_with E (f x)) \<Longrightarrow> fails_with E (rbind r f)"
  by (cases r) (auto simp: fails_with_def)

lemma fails_Inr: "fails_with E (Inr x)" "E e \<Longrightarrow> fails_with E (Inl e)"
  by (simp_all add: fails_with_def)

lemma safe_lifts [safe_rules]: "fails_with E r \<Longrightarrow> safe P E (alift r)"
  by (simp add: fails_with_def safe_def)

lemma fails_items: "fails_with (other_errors env u) (text_item d k)" "fails_with (other_errors env u) (body_get j k)"
  "fails_with (other_errors env u) (answered r)"
  by (auto simp: fails_with_def text_item_def dict_item_def body_get_def answered_def rbind_Inl_iff
      split: option.splits json.splits hub_response.splits)

lemma fails_results: "fails_with (other_errors env u) (pending j k)" "fails_with (other_errors env u) (device_url d p)"
  "fails_with (other_errors env u) (rotate_url d j)"
  unfolding pending_def device_url_def rotate_url_def
  by (intro fails_bind fails_Inr fails_items; simp split: json.split; intro conjI allI impI fails_bind fails_Inr fails_items)+

lemmas fails_rules [safe_rules] = fails_items fails_results

lemma safe_post [safe_rules]: "safe (keeps a u) (other_errors env' u) (post_as_device env url payload)"
  unfolding post_as_device_def
  by (intro safe_rules) (auto simp: safe_def keeps_def saved_state_def tunnel_files_def split: prod.splits)

lemma safe_license [safe_rules]: "safe (keeps a u) (other_errors env u) (license_metadata p)"
proof -
  have "safe (keeps a u) (other_errors env u) (firmware_product p)"
    using safe_steps(4) [of a u env p "[''/usr/local/opnsense/scripts/firmware/product.php'']" None]
    by (fastforce simp: safe_def firmware_product_def split: prod.splits sum.splits)
  then show ?thesis unfolding license_metadata_def by (intro safe_rules)
qed

lemma safe_version [safe_rules]: "safe (keeps a u) (other_errors env u) (reported_opnsense_version p)"
  using safe_steps(4) [of a u env p "[''opnsense-version'']" None]
  by (fastforce simp: safe_def reported_opnsense_version_def split: prod.splits sum.splits)

lemma safe_payload [safe_rules]: "safe (keeps a u) (other_errors env' u) (heartbeat_payload env r)"
  unfolding heartbeat_payload_def by (intro safe_rules)

lemma safe_weaken: "safe P E m \<Longrightarrow> safe P (\<lambda>_. True) m"
  by (simp add: safe_def)

lemma safe_returns: "safe P (\<lambda>_. True) m \<Longrightarrow> (\<And>w. \<exists>r. fst (m w) = Inr r) \<Longrightarrow> safe P E m"
proof -
  assume a: "safe P (\<lambda>_. True) m" and b: "\<And>w. \<exists>r. fst (m w) = Inr r"
  have "fst (m w) \<noteq> Inl e" for w e using b [of w] by auto
  with a show "safe P E m" by (simp add: safe_def)
qed

lemma safe_any: "safe P (\<lambda>_. True) (alift r)" "safe P (\<lambda>_. True) (araise e)"
  "safe (keeps a u) (\<lambda>_. True) (on_files m)" "safe (keeps a u) (\<lambda>_. True) (run_output p args)"
  by (auto simp: safe_def keeps_def on_files_def run_output_def saved_state_def tunnel_files_def
      split: prod.splits run_result.splits)

lemma safe_collect [safe_rules]: "safe (keeps a u) E (collect_firmware_status t p now)"
proof (rule safe_returns)
  let ?m = "abind (run_output p [''configctl'', ''firmware'', ''probe'']) (\<lambda>_.
      abind (run_json_command p [''configctl'', ''firmware'', ''product''] True) (\<lambda>product.
        alift (parse_firmware_product now (case product of None \<Rightarrow> JNull | Some j \<Rightarrow> j))))"
  have "safe (keeps a u) (\<lambda>_. True) (run_json_command p args b)" for args b
    unfolding run_json_command_def Let_def
    by (intro safe_rules safe_if safe_any) (auto split: option.split json.split intro: safe_any safe_ret)
  then have "safe (keeps a u) (\<lambda>_. True) ?m" by (intro safe_bind safe_any)
  moreover have "snd (collect_firmware_status t p now w) = snd (?m w)" for w
    by (simp add: collect_firmware_status_def split: prod.split sum.split)
  ultimately show "safe (keeps a u) (\<lambda>_. True) (collect_firmware_status t p now)" by (simp add: safe_def)
qed (simp add: collect_firmware_status_def split: prod.split sum.split)

lemma safe_send:
  fixes env :: "'w heartbeat_env"
  shows "safe (keeps a u) (other_errors env u) (send_heartbeat env payload)"
  unfolding safe_def
proof (intro allI impI)
  fix w :: "'w backup_world plugin_world" assume k: "keeps a u w"
  let ?rest = "\<lambda>url. abind (post_as_device env url (JObj payload)) (\<lambda>r. case r of
       Refused code answered_by \<Rightarrow> araise (if code = 410 \<and> answered_by = url then heartbeat_revoked else http_error code)
     | NoAnswer e \<Rightarrow> araise (ExternalError e)
     | Answered body \<Rightarrow>
         aseq (change_state (\<lambda>state. dict_put ''last_error'' (JStr [])
             (dict_put ''last_heartbeat'' (dict_get payload ''timestamp'') (dict_put ''status'' (JStr ''online'') state))))
           (aret body))"
  have e: "send_heartbeat env payload w = abind (alift u) ?rest w"
    using k by (simp add: send_heartbeat_def abind_def load_state_def keeps_def saved_state_def)
  have "safe (keeps a u) (other_errors env u) (?rest url)" if u: "u = Inr url" for url
    unfolding safe_def
  proof (intro allI impI)
    fix w :: "'w backup_world plugin_world" assume k: "keeps a u w"
    show "keeps a u (snd (?rest url w)) \<and> (\<forall>e. fst (?rest url w) = Inl e \<longrightarrow> other_errors env u e)"
    proof (cases "post_as_device env url (JObj payload) w")
      case (Pair r w1)
      have k1: "keeps a u w1" "\<forall>e. r = Inl e \<longrightarrow> other_errors env u e"
        using safe_post [of a u env env url "JObj payload"] k Pair by (auto simp: safe_def)
      have p: "\<exists>token x x'. hb_post env url token (JObj payload) x = (q, x')" if "r = Inr q" for q
        using Pair that by (auto simp: post_as_device_def abind_def split: prod.splits sum.splits)
      show ?thesis
      proof (cases r)
        case (Inr q)
        show ?thesis
        proof (cases q)
          case (Answered body)
          let ?n = "aseq (change_state (\<lambda>state. dict_put ''last_error'' (JStr [])
             (dict_put ''last_heartbeat'' (dict_get payload ''timestamp'') (dict_put ''status'' (JStr ''online'') state))))
             (aret body)"
          have "keeps a u (snd (?n w1)) \<and> (\<forall>e. fst (?n w1) = Inl e \<longrightarrow> other_errors env u e)"
            by (rule safeD [where P = "keeps a u", OF _ k1(1)]) (intro safe_rules, simp add: heartbeat_url_put)
          with Answered Inr Pair show ?thesis by (simp add: abind_def)
        next
          case (Refused code by_url)
          have "other_errors env u heartbeat_revoked" if "code = 410" "by_url = url"
            using p [OF Inr] Refused u that unfolding other_errors_def revoked_by_hub_def by blast
          with Refused Inr Pair k1 show ?thesis by (simp add: abind_def)
        qed (use Inr Pair k1 in \<open>simp add: abind_def\<close>)
      qed (use Pair k1 in \<open>simp add: abind_def\<close>)
    qed
  qed
  moreover have "fails_with (other_errors env u) (heartbeat_url d)" for d
    unfolding heartbeat_url_def by (rule fails_results)
  ultimately show "keeps a u (snd (send_heartbeat env payload w))
      \<and> (\<forall>e. fst (send_heartbeat env payload w) = Inl e \<longrightarrow> other_errors env u e)"
    unfolding e using k by (cases u) (auto simp: abind_def safe_def keeps_def fails_with_def)
qed

lemma safe_rotate [safe_rules]: "safe (keeps a u) (other_errors env' u) (rotate_plugin_token env body)"
  unfolding rotate_plugin_token_def
  by (intro safe_rules) (auto split: json.split list.split intro!: safe_raise safe_change simp: heartbeat_url_put)

lemma safe_upload: "safe (keeps a u) (\<lambda>_. True) (upload_backup env f)"
proof -
  have s: "heartbeat_url (case k of Some k \<Rightarrow> if json_true k then dict_put ''backup_key_id'' k (dict_put ''last_backup_at'' v d)
      else dict_put ''last_backup_at'' v d | None \<Rightarrow> dict_put ''last_backup_at'' v d) = heartbeat_url d" for k v d
    by (simp add: heartbeat_url_put split: option.split)
  have p: "safe (keeps a u) (\<lambda>_. True) (backup_upload_payload env f t)" for t
    unfolding backup_upload_payload_def read_config_def Let_def by (intro safe_rules safe_if safe_any)
  show ?thesis
    unfolding upload_backup_def Let_def
    by (intro safe_rules safe_any p s safe_weaken [OF safe_post])
qed

lemma safe_try [safe_rules]:
  fixes env :: "'w heartbeat_env"
  shows "safe (keeps a u) (other_errors env' u) (try_upload env f)"
  unfolding safe_def
proof (intro allI impI)
  fix w :: "'w backup_world plugin_world" assume k: "keeps a u w"
  obtain r w1 where r: "upload_backup env f w = (r, w1)" by fastforce
  with k safe_upload [of a u env f] have k1: "keeps a u w1" by (fastforce simp: safe_def)
  let ?n = "aseq (change_state (dict_put ''last_error'' (JStr ''configuration backup upload failed''))) (aret True)"
  have "keeps a u (snd (?n w1)) \<and> (\<forall>e. fst (?n w1) = Inl e \<longrightarrow> other_errors env' u e)"
    by (rule safeD [where P = "keeps a u", OF _ k1]) (intro safe_rules, simp add: heartbeat_url_put)
  with r k1 show "keeps a u (snd (try_upload env f w)) \<and> (\<forall>e. fst (try_upload env f w) = Inl e \<longrightarrow> other_errors env' u e)"
    by (auto simp: try_upload_def other_errors_def heartbeat_revoked_def split: sum.split exn.split)
qed

lemma safe_answers [safe_rules]: "safe (keeps a u) (other_errors env' u) (answer_rotation env body)"
  "safe (keeps a u) (other_errors env u) (answer_firmware env body)"
  "safe (keeps a u) (other_errors env' u) (answer_backup env body)"
  unfolding answer_rotation_def answer_firmware_def answer_backup_def
  by (intro safe_rules safe_if safe_send; simp add: heartbeat_url_put)+

lemma safe_run: "safe (keeps a u) (other_errors env u) (run_heartbeat env)"
  unfolding run_heartbeat_def by (intro safe_rules safe_send)

subsection \<open>Taking the tunnel down\<close>

lemma removed_files:
  assumes "remove_local_artifacts t p reason b w = (Inr r, w')"
  shows "pw_state w' = None" "pw_key w' = None" "pw_wg_conf w' = None"
  using assms by (auto simp: remove_local_artifacts_def abind_Inr_iff delete_files_def split: prod.splits)

lemma report_failure_keeps: "\<exists>w'. report_failure m w = (Inr 1, w') \<and> tunnel_files w' = tunnel_files w"
  by (auto simp: report_failure_def change_state_def aseq_def abind_def load_state_def save_state_def print_out_def tunnel_files_def)


definition example_heartbeat :: "unit heartbeat_env" where
  "example_heartbeat =
     \<lparr>hb_plugin = \<lparr>pe_run = (\<lambda>args inp x. (if hd args = ''crontab'' then Exited 0 [] [] else NotFound, x)),
        pe_post = (\<lambda>u p x. (PostFailed [], x)), pe_float = (\<lambda>s. JFloat s 0), pe_hostname = ''fw'', pe_time = ''0''\<rparr>,
      hb_backup = \<lparr>be_sha256 = id, be_hmac = (\<lambda>k m. m), be_utf8 = Some, be_float = (\<lambda>s. JFloat s 0), be_is_exec = (\<lambda>p. True),
        be_which = None, be_run = (\<lambda>args pass content x. (NotFound, x)), be_urandom = [], be_temp = [], be_now = []\<rparr>,
      hb_post = (\<lambda>url token payload x. (Refused 410 url, x)), hb_now = 0, hb_exn_text = exn_class\<rparr>"

definition example_enrolled :: "unit backup_world plugin_world" where
  "example_enrolled =
     \<lparr>pw_state = Some [(''hub_url'', JStr ''https://h''), (''device_id'', JStr ''d''), (''device_token'', JStr ''t'')],
      pw_key = Some ''k'', pw_wg_conf = Some ''c'', pw_config = Some (element ''opnsense''), pw_out = [],
      pw_ext = \<lparr>bw_files = Map.empty, bw_ext = ()\<rparr>\<rparr>"

lemma example_revoked: "\<exists>w'. heartbeat_main example_heartbeat example_enrolled = (Inr 1, w') \<and> pw_key w' = None"
  by (simp add: heartbeat_main_def run_heartbeat_def heartbeat_payload_def reported_opnsense_version_def run_plain_def
      license_metadata_def firmware_product_def send_heartbeat_def heartbeat_url_def device_url_def text_item_def dict_item_def
      post_as_device_def abind_def aseq_def load_state_def save_state_def change_state_def heartbeat_revoked_def
      example_heartbeat_def example_enrolled_def dict_get_def dict_put_def rbind_def
      remove_local_artifacts_def command_result_def run_output_def remove_cron_def remove_heartbeat_cron_def
      current_crontab_lines_def run_crontab_def write_crontab_lines_def cleanup_opnsense_integration_def load_config_root_def
      cleanup_config_def assigned_interface_key_def remove_matching_firewall_rules_def remove_assigned_interface_def
      clear_plugin_settings_def delete_files_def print_out_def element_def child_def find_path.simps settings_path_def findall_def)


end
