(* ===== verification/Hardening.thy ===== *)
theory Hardening
  imports Request_Context Security
begin

text \<open>
  \<open>dashboard/app/hardening.py\<close>: the checks of the settings at start-up, the switch that turns IP forwarding
  off, and the packet filter rules that isolate the tunnel interface, for nftables and for iptables.
  Commands are run by an argument \<open>runner\<close>, as in the source; it gives a result or raises. \<open>which\<close> is
  \<open>shutil.which\<close> and \<open>exn_text\<close> is \<open>str\<close> of an exception. Log lines are left out.
\<close>

definition MAX_LOG_RETENTION_DELETE_BATCH_SIZE :: int where "MAX_LOG_RETENTION_DELETE_BATCH_SIZE = 20000"
definition MAX_LOG_RETENTION_SWEEP_INTERVAL_HOURS :: int where "MAX_LOG_RETENTION_SWEEP_INTERVAL_HOURS = 720"
definition MAX_PROXY_GRANT_TTL_SECONDS :: int where "MAX_PROXY_GRANT_TTL_SECONDS = 300"
definition MAX_PROXY_SESSION_TTL_MINUTES :: int where "MAX_PROXY_SESSION_TTL_MINUTES = 60"
definition MAX_CONNECTOR_SESSION_TTL_MINUTES :: int where "MAX_CONNECTOR_SESSION_TTL_MINUTES = 60"
definition MAX_CONNECTOR_CONNECTION_SECONDS :: int where "MAX_CONNECTOR_CONNECTION_SECONDS = 3600"
definition MAX_PUBLIC_L4_RELAY_TTL_SECONDS :: int where "MAX_PUBLIC_L4_RELAY_TTL_SECONDS = 900"

lemmas max_defs = MAX_LOG_RETENTION_DELETE_BATCH_SIZE_def MAX_LOG_RETENTION_SWEEP_INTERVAL_HOURS_def
  MAX_PROXY_GRANT_TTL_SECONDS_def MAX_PROXY_SESSION_TTL_MINUTES_def MAX_CONNECTOR_SESSION_TTL_MINUTES_def
  MAX_CONNECTOR_CONNECTION_SECONDS_def MAX_PUBLIC_L4_RELAY_TTL_SECONDS_def

subsection \<open>Checks of the settings\<close>

text \<open>\<open>.username\<close> and \<open>.password\<close> of a parsed URL (\<open>_userinfo\<close>).\<close>

definition url_userinfo :: "url \<Rightarrow> string option \<times> string option" where
  "url_userinfo u =
     (case rpartition_at CHR ''@'' (url_netloc u) of
        (True, userinfo, _) \<Rightarrow>
          (case partition_at CHR '':'' userinfo of
             (have_password, username, password) \<Rightarrow>
               (Some username, if have_password then Some password else None))
      | _ \<Rightarrow> (None, None))"

definition configured_allowed_hosts :: "settings \<Rightarrow> string list" where
  "configured_allowed_hosts st =
     map (\<lambda>i. lower (strip i)) (filter (\<lambda>i. strip i \<noteq> []) (split_on CHR '','' (cfg_allowed_hosts st)))
     @ filter (\<lambda>h. h \<noteq> []) (map configured_hostname [cfg_public_url st, cfg_proxy_public_url st])"

fun parse_networks :: "string list \<Rightarrow> ip_net list \<Rightarrow> ip_net list" where
  "parse_networks [] acc = acc"
| "parse_networks (i # is) acc =
     (let v = strip i in
      if v = [] then parse_networks is acc
      else case ip_network v of None \<Rightarrow> [] | Some n \<Rightarrow> parse_networks is (acc @ [n]))"

definition trusted_proxy_networks_checked :: "settings \<Rightarrow> ip_net list" where
  "trusted_proxy_networks_checked st = parse_networks (split_on CHR '','' (cfg_trusted_proxy_cidrs st)) []"

definition err :: "bool \<Rightarrow> string \<Rightarrow> string list" where
  "err b m = (if b then [m] else [])"

lemma err_Nil [simp]: "err b m = [] \<longleftrightarrow> \<not> b"
  by (simp add: err_def)

definition control_mode :: "settings \<Rightarrow> string" where
  "control_mode st = lower (strip (cfg_network_control_mode st))"

definition isolation_invariant_errors :: "settings \<Rightarrow> string list" where
  "isolation_invariant_errors st =
     (let app_manages_isolation = control_mode st = ''inline'' \<and> cfg_hub_manage_firewall_rules st in
      err (\<not> app_manages_isolation \<and> \<not> cfg_hub_external_isolation_policy_verified st)
        (''Set HUB_EXTERNAL_ISOLATION_POLICY_VERIFIED=true only after an external policy has been verified ''
         @ ''to default-drop forwarding from the WireGuard interface and restrict tunnel input to the Hub control plane'')
      @ err (\<not> (1 \<le> cfg_hub_control_plane_port st \<and> cfg_hub_control_plane_port st \<le> 65535))
          ''Set HUB_CONTROL_PLANE_PORT to a valid TCP port'')"

definition empty_url :: url where
  "empty_url = \<lparr>url_scheme = [], url_netloc = [], url_path = [], url_params = [], url_query = [], url_fragment = []\<rparr>"

text \<open>A URL that does not parse, or whose port is no port, counts as the empty one.\<close>

definition url_or_empty :: "string \<Rightarrow> url" where
  "url_or_empty s =
     (case urlparse s of None \<Rightarrow> empty_url | Some u \<Rightarrow> if url_port u = None then empty_url else u)"

definition token_too_weak :: "string \<Rightarrow> bool" where
  "token_too_weak t \<longleftrightarrow>
     length t < 32 \<or> contains_str (lower t) ''change-me'' \<or> contains_str (lower t) ''development-only''"

definition identity_errors :: "settings \<Rightarrow> string list" where
  "identity_errors st =
     err (cfg_secret_key st = ''change-me'' \<or> length (cfg_secret_key st) < 32)
       ''Set SECRET_KEY to a random value at least 32 characters long''
     @ err (lower (cfg_initial_admin_email st) = ''admin@example.com'')
       ''Set INITIAL_ADMIN_EMAIL to a real administrator email address''
     @ err (cfg_initial_admin_password st = ''change-me''
            \<or> \<not> password_is_strong_enough (cfg_initial_admin_password st))
       ''Set INITIAL_ADMIN_PASSWORD to a strong password with at least 12 characters including letters and numbers''
     @ err (\<not> cfg_session_secure st) ''Set SESSION_SECURE=true in production''"

definition public_url_errors :: "settings \<Rightarrow> string list" where
  "public_url_errors st =
     (let public_url = url_or_empty (cfg_public_url st);
          proxy_public_url = url_or_empty (cfg_proxy_public_url st);
          host = url_hostname public_url;
          proxy_host = url_hostname proxy_public_url in
      err (url_scheme public_url \<noteq> ''https'' \<or> url_netloc public_url = []
           \<or> host \<in> {Some ''localhost'', Some ''127.0.0.1''})
        ''Set PUBLIC_URL to an HTTPS URL reachable by users in production''
      @ err (url_scheme proxy_public_url \<noteq> ''https'' \<or> url_netloc proxy_public_url = [] \<or> \<not> nonempty proxy_host)
        ''Set PROXY_PUBLIC_URL to a valid HTTPS URL in production''
      @ err (nonempty proxy_host \<and> nonempty host \<and> lower (the proxy_host) = lower (the host))
        ''Set PROXY_PUBLIC_URL to a hostname distinct from PUBLIC_URL''
      @ err (fst (url_userinfo proxy_public_url) \<noteq> None \<or> snd (url_userinfo proxy_public_url) \<noteq> None)
        ''Remove credentials from PROXY_PUBLIC_URL''
      @ err (url_path proxy_public_url \<notin> {'''', ''/''} \<or> url_params proxy_public_url \<noteq> [])
        ''Remove the path from PROXY_PUBLIC_URL''
      @ err (url_query proxy_public_url \<noteq> []) ''Remove the query string from PROXY_PUBLIC_URL''
      @ err (url_fragment proxy_public_url \<noteq> []) ''Remove the fragment from PROXY_PUBLIC_URL'')"

text \<open>\<open>if v <= 0 ... elif v > m\<close>\<close>

definition err_span :: "int \<Rightarrow> int \<Rightarrow> string \<Rightarrow> string list" where
  "err_span v m name =
     (if v \<le> 0 then [''Set '' @ name @ '' to a positive value'']
      else if v > m then [''Set '' @ name @ '' to '' @ int_str m @ '' or less''] else [])"

lemma err_span_Nil [simp]: "err_span v m name = [] \<longleftrightarrow> 0 < v \<and> v \<le> m"
  by (auto simp: err_span_def)

definition access_errors :: "settings \<Rightarrow> string list" where
  "access_errors st =
     err_span (cfg_proxy_grant_ttl_seconds st) MAX_PROXY_GRANT_TTL_SECONDS ''PROXY_GRANT_TTL_SECONDS''
     @ err_span (cfg_proxy_session_ttl_minutes st) MAX_PROXY_SESSION_TTL_MINUTES ''PROXY_SESSION_TTL_MINUTES''
     @ err (lower (strip (cfg_firewall_access_mode st)) \<notin> {''connector'', ''hub_proxy''})
       ''Set FIREWALL_ACCESS_MODE to connector or hub_proxy''
     @ err (lower (strip (cfg_config_backup_mode st)) \<notin> {''encrypted'', ''plaintext''})
       ''Set CONFIG_BACKUP_MODE to encrypted or plaintext''
     @ err_span (cfg_connector_session_ttl_minutes st) MAX_CONNECTOR_SESSION_TTL_MINUTES ''CONNECTOR_SESSION_TTL_MINUTES''
     @ err (\<not> (1 \<le> cfg_connector_local_port st \<and> cfg_connector_local_port st \<le> 65535))
       ''Set CONNECTOR_LOCAL_PORT to a valid TCP port''
     @ err (\<not> (1 \<le> cfg_connector_max_connections st \<and> cfg_connector_max_connections st \<le> 64))
       ''Set CONNECTOR_MAX_CONNECTIONS between 1 and 64''
     @ err (\<not> (1 \<le> cfg_connector_upstream_connect_timeout_seconds st
               \<and> cfg_connector_upstream_connect_timeout_seconds st \<le> 60))
       ''Set CONNECTOR_UPSTREAM_CONNECT_TIMEOUT_SECONDS between 1 and 60''
     @ err (\<not> (1 \<le> cfg_connector_connection_max_seconds st
               \<and> cfg_connector_connection_max_seconds st \<le> MAX_CONNECTOR_CONNECTION_SECONDS))
       (''Set CONNECTOR_CONNECTION_MAX_SECONDS between 1 and '' @ int_str MAX_CONNECTOR_CONNECTION_SECONDS)
     @ err (\<not> (1 \<le> cfg_connector_authorization_recheck_seconds st
               \<and> cfg_connector_authorization_recheck_seconds st \<le> 60))
       ''Set CONNECTOR_AUTHORIZATION_RECHECK_SECONDS between 1 and 60''"

definition relay_errors :: "settings \<Rightarrow> string list" where
  "relay_errors st =
     (if \<not> cfg_public_l4_relay_enabled st then []
      else
        err (\<not> cfg_public_l4_relay_mtls_required st)
          ''Set PUBLIC_L4_RELAY_MTLS_REQUIRED=true only after every OPNsense WebGUI enforces client certificates''
        @ err (strip (cfg_public_l4_relay_bind_host st) = []) ''Set PUBLIC_L4_RELAY_BIND_HOST''
        @ err (\<not> (1024 \<le> cfg_public_l4_relay_port_min st \<and> cfg_public_l4_relay_port_min st \<le> 65535))
          ''Set PUBLIC_L4_RELAY_PORT_MIN to an unprivileged TCP port''
        @ err (\<not> (1024 \<le> cfg_public_l4_relay_port_max st \<and> cfg_public_l4_relay_port_max st \<le> 65535))
          ''Set PUBLIC_L4_RELAY_PORT_MAX to an unprivileged TCP port''
        @ err (cfg_public_l4_relay_port_min st > cfg_public_l4_relay_port_max st)
          ''Set PUBLIC_L4_RELAY_PORT_MIN no higher than the maximum''
        @ err (\<not> (1 \<le> cfg_public_l4_relay_ttl_seconds st
                  \<and> cfg_public_l4_relay_ttl_seconds st \<le> MAX_PUBLIC_L4_RELAY_TTL_SECONDS))
          (''Set PUBLIC_L4_RELAY_TTL_SECONDS between 1 and '' @ int_str MAX_PUBLIC_L4_RELAY_TTL_SECONDS)
        @ err (\<not> (1 \<le> cfg_public_l4_relay_idle_timeout_seconds st
                  \<and> cfg_public_l4_relay_idle_timeout_seconds st \<le> cfg_public_l4_relay_ttl_seconds st))
          ''Set PUBLIC_L4_RELAY_IDLE_TIMEOUT_SECONDS between 1 and the relay TTL''
        @ err (\<not> (1 \<le> cfg_public_l4_relay_max_connections st \<and> cfg_public_l4_relay_max_connections st \<le> 64))
          ''Set PUBLIC_L4_RELAY_MAX_CONNECTIONS between 1 and 64'')"

definition deployment_errors :: "settings \<Rightarrow> string list" where
  "deployment_errors st =
     (let host = url_hostname (url_or_empty (cfg_public_url st));
          proxy_host = url_hostname (url_or_empty (cfg_proxy_public_url st));
          backend = lower (strip (cfg_rate_limit_backend st));
          token = or_empty (cfg_wg_agent_token st) in
      err (nonempty proxy_host \<and> lower (the proxy_host) \<notin> set (configured_allowed_hosts st))
        ''Add the PROXY_PUBLIC_URL host to ALLOWED_HOSTS''
      @ err (\<not> cfg_proxy_verify_tls st \<and> \<not> cfg_allow_insecure_proxy_tls_in_production st)
        ''Set PROXY_VERIFY_TLS=true in production or explicitly set ALLOW_INSECURE_PROXY_TLS_IN_PRODUCTION=true''
      @ err (backend \<notin> {''memory'', ''redis'', ''edge''}) ''Set RATE_LIMIT_BACKEND to memory, redis, or edge''
      @ err (cfg_rate_limit_memory_max_buckets st \<le> 0)
        ''Set RATE_LIMIT_MEMORY_MAX_BUCKETS to a positive value''
      @ err (control_mode st \<notin> {''inline'', ''external''}) ''Set NETWORK_CONTROL_MODE to inline or external''
      @ err (nonempty (cfg_wg_agent_url st) \<and> token = []) ''Set WG_AGENT_TOKEN when WG_AGENT_URL is configured''
      @ err (token \<noteq> [] \<and> token_too_weak token)
        ''Set WG_AGENT_TOKEN to a random value at least 32 characters long''
      @ err (nonempty (cfg_wg_agent_url st) \<and> cfg_wg_agent_mode st)
        ''Do not set WG_AGENT_URL inside the WireGuard agent process''
      @ err (backend = ''memory'') ''Set RATE_LIMIT_BACKEND to redis or edge in production''
      @ err (backend = ''redis'' \<and> \<not> nonempty (cfg_rate_limit_redis_url st))
        ''Set RATE_LIMIT_REDIS_URL when RATE_LIMIT_BACKEND=redis''
      @ err (nonempty host \<and> lower (the host) \<notin> set (configured_allowed_hosts st))
        ''Add the PUBLIC_URL host to ALLOWED_HOSTS''
      @ err (strip (cfg_trusted_proxy_cidrs st) \<noteq> [] \<and> trusted_proxy_networks_checked st = [])
        ''TRUSTED_PROXY_CIDRS contains no valid proxy networks'')"

definition retention_errors :: "settings \<Rightarrow> string list" where
  "retention_errors st =
     err (cfg_device_token_ttl_days st \<le> 0) ''Set DEVICE_TOKEN_TTL_DAYS to a positive value''
     @ err (\<not> (0 \<le> cfg_device_token_rotation_window_days st
               \<and> cfg_device_token_rotation_window_days st < cfg_device_token_ttl_days st))
       ''Set DEVICE_TOKEN_ROTATION_WINDOW_DAYS to zero or more and less than DEVICE_TOKEN_TTL_DAYS''
     @ err_span (cfg_log_retention_sweep_interval_hours st) MAX_LOG_RETENTION_SWEEP_INTERVAL_HOURS
         ''LOG_RETENTION_SWEEP_INTERVAL_HOURS''
     @ err_span (cfg_log_retention_delete_batch_size st) MAX_LOG_RETENTION_DELETE_BATCH_SIZE
         ''LOG_RETENTION_DELETE_BATCH_SIZE''
     @ err (cfg_scheduler_lock_poll_seconds st \<le> 0) ''Set SCHEDULER_LOCK_POLL_SECONDS to a positive value''
     @ err (cfg_audit_device_view_throttle_minutes st \<le> 0)
       ''Set AUDIT_DEVICE_VIEW_THROTTLE_MINUTES to a positive value''
     @ err (cfg_audit_log_min_retention_days st \<le> 0) ''Set AUDIT_LOG_MIN_RETENTION_DAYS to a positive value''
     @ err (cfg_device_event_min_retention_days st \<le> 0) ''Set DEVICE_EVENT_MIN_RETENTION_DAYS to a positive value''
     @ err (cfg_log_retention_enabled st \<and> cfg_audit_log_retention_days st < cfg_audit_log_min_retention_days st)
       (''Set AUDIT_LOG_RETENTION_DAYS to at least '' @ int_str (cfg_audit_log_min_retention_days st))
     @ err (cfg_log_retention_enabled st
            \<and> cfg_device_event_retention_days st < cfg_device_event_min_retention_days st)
       (''Set DEVICE_EVENT_RETENTION_DAYS to at least '' @ int_str (cfg_device_event_min_retention_days st))"

definition runtime_validation_errors :: "settings \<Rightarrow> string list" where
  "runtime_validation_errors st =
     identity_errors st @ public_url_errors st @ access_errors st @ relay_errors st @ deployment_errors st
     @ retention_errors st @ isolation_invariant_errors st"

definition validate_runtime_settings :: "settings \<Rightarrow> unit res" where
  "validate_runtime_settings st =
     (let errors = runtime_validation_errors st in
      if errors = [] then Inr ()
      else if is_production st then Inl (StartupHardeningError (join ''; '' errors))
      else Inr ())"

definition should_fail_closed :: "settings \<Rightarrow> bool" where
  "should_fail_closed st \<longleftrightarrow> is_production st \<and> \<not> cfg_wg_dry_run st"

subsection \<open>Commands\<close>

record command_status =
  rr_returncode :: int
  rr_stdout :: string
  rr_stderr :: string

type_synonym 'w runner = "string list \<Rightarrow> ('w, command_status) act"

text \<open>\<open>subprocess.run\<close> with a timeout of 15 seconds is the argument \<open>sub\<close>: return code and the two outputs.\<close>

definition run_command :: "(string list \<Rightarrow> ('w, int \<times> string \<times> string) act) \<Rightarrow> 'w runner" where
  "run_command sub args =
     abind (sub args) (\<lambda>(rc, out, errs).
       aret \<lparr>rr_returncode = rc, rr_stdout = strip out, rr_stderr = strip errs\<rparr>)"

definition ensure_command_ok :: "command_status \<Rightarrow> string list \<Rightarrow> unit res" where
  "ensure_command_ok r args =
     (if rr_returncode r = 0 then Inr ()
      else
        let detail = (if rr_stderr r \<noteq> [] then rr_stderr r
                      else if rr_stdout r \<noteq> [] then rr_stdout r else ''unknown error'')
        in Inl (StartupHardeningError (join '' '' args @ '' failed: '' @ detail)))"

definition run_ok :: "'w runner \<Rightarrow> string list \<Rightarrow> ('w, unit) act" where
  "run_ok rn args = abind (rn args) (\<lambda>r. alift (ensure_command_ok r args))"

definition sysctl_is_already_disabled :: "'w runner \<Rightarrow> string \<Rightarrow> ('w, bool) act" where
  "sysctl_is_already_disabled rn key =
     abind (rn [''sysctl'', ''-n'', key]) (\<lambda>r. aret (rr_returncode r = 0 \<and> strip (rr_stdout r) = ''0''))"

definition forwarding_commands :: "(string \<times> string list) list" where
  "forwarding_commands =
     [(''net.ipv4.ip_forward'', [''sysctl'', ''-w'', ''net.ipv4.ip_forward=0'']),
      (''net.ipv6.conf.all.forwarding'', [''sysctl'', ''-w'', ''net.ipv6.conf.all.forwarding=0''])]"

text \<open>A failure is forgiven when the switch is off already; otherwise it ends the loop, with an error in production.\<close>

fun disable_forwarding ::
  "(exn \<Rightarrow> string) \<Rightarrow> 'w runner \<Rightarrow> settings \<Rightarrow> (string \<times> string list) list \<Rightarrow> ('w, unit) act" where
  "disable_forwarding exn_text rn st [] = aret ()"
| "disable_forwarding exn_text rn st ((key, args) # rest) = (\<lambda>w.
     case run_ok rn args w of
       (Inr _, w1) \<Rightarrow> disable_forwarding exn_text rn st rest w1
     | (Inl e, w1) \<Rightarrow>
         (case sysctl_is_already_disabled rn key w1 of
            (Inr True, w2) \<Rightarrow> disable_forwarding exn_text rn st rest w2
          | (_, w2) \<Rightarrow>
              if should_fail_closed st
              then (Inl (StartupHardeningError (''Failed to disable IP forwarding: '' @ exn_text e)), w2)
              else (Inr (), w2)))"

definition configure_ip_forwarding ::
  "(exn \<Rightarrow> string) \<Rightarrow> 'w runner \<Rightarrow> settings \<Rightarrow> ('w, unit) act" where
  "configure_ip_forwarding exn_text rn st =
     (if control_mode st = ''external'' then aret ()
      else if cfg_hub_enable_ip_forwarding st then aret ()
      else disable_forwarding exn_text rn st forwarding_commands)"

subsection \<open>The rules\<close>

definition wireguard_rule_context :: "settings \<Rightarrow> (string \<times> net4 \<times> ipv4 \<times> int) res" where
  "wireguard_rule_context st =
     (case (ip_network (cfg_hub_wg_cidr st), ip_interface (cfg_hub_wg_address st)) of
        (Some (Net4 network), Some (Iface4 ip plen)) \<Rightarrow>
          if \<not> in_net4 ip network
          then Inl (StartupHardeningError ''HUB_WG_ADDRESS must be inside HUB_WG_CIDR'')
          else if \<not> (1 \<le> cfg_hub_control_plane_port st \<and> cfg_hub_control_plane_port st \<le> 65535)
          then Inl (StartupHardeningError ''HUB_CONTROL_PLANE_PORT must be a valid TCP port'')
          else Inr (cfg_wg_interface st, network, ip, cfg_hub_control_plane_port st)
      | (Some _, Some _) \<Rightarrow> Inl (StartupHardeningError ''Hub WireGuard isolation currently requires IPv4'')
      | _ \<Rightarrow> Inl (StartupHardeningError
               ''HUB_WG_CIDR and HUB_WG_ADDRESS must be valid before installing isolation rules''))"

definition quoted :: "string \<Rightarrow> string" where
  "quoted s = [CHR 0x22] @ s @ [CHR 0x22]"

definition nft_forward_drop_rule :: "string \<Rightarrow> string" where
  "nft_forward_drop_rule iface = ''iifname '' @ quoted iface @ '' counter drop''"

definition nft_input_established_rule :: "string \<Rightarrow> string" where
  "nft_input_established_rule iface =
     ''iifname '' @ quoted iface @ '' ct state established,related counter accept''"

definition nft_input_control_rule :: "string \<Rightarrow> net4 \<Rightarrow> ipv4 \<Rightarrow> int \<Rightarrow> string" where
  "nft_input_control_rule iface network hub_ip port =
     ''iifname '' @ quoted iface @ '' ip saddr '' @ show_net (Net4 network) @ '' ip daddr '' @ show_ipv4 hub_ip
     @ '' tcp dport '' @ int_str port @ '' ct state new counter accept''"

definition nft_input_drop_rule :: "string \<Rightarrow> string" where
  "nft_input_drop_rule iface = ''iifname '' @ quoted iface @ '' counter drop''"

text \<open>\<open>_normalized_nft_rule_output\<close>: the packet and byte counts after the word \<open>counter\<close> are dropped.\<close>

definition drop_counts :: "string \<Rightarrow> string" where
  "drop_counts s =
     (if startswith s '' packets '' then
        let s1 = drop 9 s; s2 = dropWhile is_digit s1 in
        if takeWhile is_digit s1 \<noteq> [] \<and> startswith s2 '' bytes '' then
          let s3 = drop 7 s2 in if takeWhile is_digit s3 \<noteq> [] then dropWhile is_digit s3 else s
        else s
      else s)"

lemma drop_counts_length: "length (drop_counts s) \<le> length s"
proof -
  have d: "length (dropWhile is_digit (drop n t)) \<le> length t" for n t
    using length_dropWhile_le [of is_digit "drop n t"] by simp
  show ?thesis
    using d [of 7 "dropWhile is_digit (drop 9 s)"] d [of 9 s]
    by (simp add: drop_counts_def Let_def)
qed

function normalized_nft_rule_output :: "string \<Rightarrow> string" where
  "normalized_nft_rule_output [] = []"
| "normalized_nft_rule_output (c # cs) =
     (if startswith (c # cs) ''counter''
      then ''counter'' @ normalized_nft_rule_output (drop_counts (drop 6 cs))
      else c # normalized_nft_rule_output cs)"
  by pat_completeness auto
termination
proof (relation "measure length")
  fix c :: char and cs
  show "(drop_counts (drop 6 cs), c # cs) \<in> measure length"
    using drop_counts_length [of "drop 6 cs"] by simp
qed simp_all

definition verify_nftables_rule_present :: "'w runner \<Rightarrow> settings \<Rightarrow> ('w, unit) act" where
  "verify_nftables_rule_present rn st =
     abind (alift (wireguard_rule_context st)) (\<lambda>(iface, network, hub_ip, port).
       let input_args = [''nft'', ''list'', ''chain'', ''inet'', ''opnsense_hub'', ''input''];
           forward_args = [''nft'', ''list'', ''chain'', ''inet'', ''opnsense_hub'', ''forward'']
       in abind (rn input_args) (\<lambda>ri. abind (rn forward_args) (\<lambda>rf.
            alift (rbind (ensure_command_ok ri input_args) (\<lambda>_.
              rbind (ensure_command_ok rf forward_args) (\<lambda>_.
                let input_text = normalized_nft_rule_output (rr_stdout ri @ [CHR 0x0A] @ rr_stderr ri);
                    forward_text = normalized_nft_rule_output (rr_stdout rf @ [CHR 0x0A] @ rr_stderr rf);
                    required_input_rules = [nft_input_established_rule iface,
                      nft_input_control_rule iface network hub_ip port, nft_input_drop_rule iface]
                in if list_ex (\<lambda>r. \<not> contains_str input_text r) required_input_rules
                   then Inl (StartupHardeningError
                     (''Hub tunnel input policy for '' @ iface @ '' is incomplete after installation''))
                   else if \<not> contains_str forward_text (nft_forward_drop_rule iface)
                   then Inl (StartupHardeningError
                     (''Hub forwarding default-drop rule for '' @ iface @ '' is missing after installation''))
                   else Inr ()))))))"

definition IPTABLES_INPUT_CHAIN :: string where "IPTABLES_INPUT_CHAIN = ''OPNHUB_INPUT''"
definition IPTABLES_INPUT6_CHAIN :: string where "IPTABLES_INPUT6_CHAIN = ''OPNHUB_INPUT6''"
definition IPTABLES_FORWARD_CHAIN :: string where "IPTABLES_FORWARD_CHAIN = ''OPNHUB_FORWARD''"

lemmas chain_defs = IPTABLES_INPUT_CHAIN_def IPTABLES_INPUT6_CHAIN_def IPTABLES_FORWARD_CHAIN_def

definition established_rule :: "string \<Rightarrow> string list" where
  "established_rule iface =
     [''-i'', iface, ''-m'', ''conntrack'', ''--ctstate'', ''ESTABLISHED,RELATED'', ''-j'', ''ACCEPT'']"

definition control_rule :: "string \<Rightarrow> net4 \<Rightarrow> ipv4 \<Rightarrow> int \<Rightarrow> string list" where
  "control_rule iface network hub_ip port =
     [''-i'', iface, ''-s'', show_net (Net4 network), ''-d'', show_ipv4 hub_ip @ ''/32'', ''-p'', ''tcp'',
      ''--dport'', int_str port, ''-m'', ''conntrack'', ''--ctstate'', ''NEW'', ''-j'', ''ACCEPT'']"

definition drop_rule :: "string \<Rightarrow> string list" where
  "drop_rule iface = [''-i'', iface, ''-j'', ''DROP'']"

definition jump_rule :: "string \<Rightarrow> string \<Rightarrow> string list" where
  "jump_rule iface target = [''-i'', iface, ''-j'', target]"

definition iptables_input_rules :: "settings \<Rightarrow> string list list res" where
  "iptables_input_rules st =
     rbind (wireguard_rule_context st) (\<lambda>(iface, network, hub_ip, port).
       Inr [established_rule iface, control_rule iface network hub_ip port, drop_rule iface])"

definition ip6tables_input_rules :: "string \<Rightarrow> string list list" where
  "ip6tables_input_rules iface = [established_rule iface, drop_rule iface]"

definition iptables_checks :: "string \<Rightarrow> string list list \<Rightarrow> string list list" where
  "iptables_checks iface input_rules =
     [''iptables'' # ''-C'' # ''INPUT'' # jump_rule iface IPTABLES_INPUT_CHAIN]
     @ map (\<lambda>r. ''iptables'' # ''-C'' # IPTABLES_INPUT_CHAIN # r) input_rules
     @ [''iptables'' # ''-C'' # ''FORWARD'' # jump_rule iface IPTABLES_FORWARD_CHAIN,
        [''iptables'', ''-C'', IPTABLES_FORWARD_CHAIN, ''-j'', ''DROP''],
        ''ip6tables'' # ''-C'' # ''INPUT'' # jump_rule iface IPTABLES_INPUT6_CHAIN]
     @ map (\<lambda>r. ''ip6tables'' # ''-C'' # IPTABLES_INPUT6_CHAIN # r) (ip6tables_input_rules iface)
     @ [''ip6tables'' # ''-C'' # ''FORWARD'' # drop_rule iface]"

definition verify_iptables_rule_present :: "'w runner \<Rightarrow> settings \<Rightarrow> ('w, unit) act" where
  "verify_iptables_rule_present rn st =
     abind (alift (wireguard_rule_context st)) (\<lambda>(iface, _, _, _).
       abind (alift (iptables_input_rules st)) (\<lambda>rules.
         afor (run_ok rn) (iptables_checks iface rules)))"

definition nft_chain_args :: "string \<Rightarrow> string \<Rightarrow> string list" where
  "nft_chain_args chain hook =
     [''nft'', ''add'', ''chain'', ''inet'', ''opnsense_hub'', chain, ''{'', ''type'', ''filter'', ''hook'', hook,
      ''priority'', ''-100'', '';'', ''policy'', ''accept'', '';'', ''}'']"

definition nft_add_rule :: "string \<Rightarrow> string \<Rightarrow> string list \<Rightarrow> string list" where
  "nft_add_rule chain iface r = [''nft'', ''add'', ''rule'', ''inet'', ''opnsense_hub'', chain, ''iifname'', iface] @ r"

definition nft_rules :: "string \<Rightarrow> net4 \<Rightarrow> ipv4 \<Rightarrow> int \<Rightarrow> string list list" where
  "nft_rules iface network hub_ip port =
     [nft_add_rule ''input'' iface [''ct'', ''state'', ''established,related'', ''counter'', ''accept''],
      nft_add_rule ''input'' iface [''ip'', ''saddr'', show_net (Net4 network), ''ip'', ''daddr'', show_ipv4 hub_ip,
        ''tcp'', ''dport'', int_str port, ''ct'', ''state'', ''new'', ''counter'', ''accept''],
      nft_add_rule ''input'' iface [''counter'', ''drop''],
      nft_add_rule ''forward'' iface [''counter'', ''drop'']]"

definition install_nftables_rules :: "'w runner \<Rightarrow> settings \<Rightarrow> ('w, unit) act" where
  "install_nftables_rules rn st =
     abind (alift (wireguard_rule_context st)) (\<lambda>(iface, network, hub_ip, port).
       abind (rn [''nft'', ''list'', ''table'', ''inet'', ''opnsense_hub'']) (\<lambda>r.
         aseq (if rr_returncode r = 0 then run_ok rn [''nft'', ''delete'', ''table'', ''inet'', ''opnsense_hub'']
               else aret ())
         (aseq (run_ok rn [''nft'', ''add'', ''table'', ''inet'', ''opnsense_hub''])
         (aseq (afor (run_ok rn) [nft_chain_args ''input'' ''input'', nft_chain_args ''forward'' ''forward''])
           (afor (run_ok rn) (nft_rules iface network hub_ip port))))))"

definition ensure_iptables_chain :: "'w runner \<Rightarrow> string \<Rightarrow> string \<Rightarrow> ('w, unit) act" where
  "ensure_iptables_chain rn command chain =
     abind (rn [command, ''-L'', chain, ''-n'']) (\<lambda>r.
       aseq (if rr_returncode r \<noteq> 0 then run_ok rn [command, ''-N'', chain] else aret ())
         (run_ok rn [command, ''-F'', chain]))"

definition install_iptables_jump :: "'w runner \<Rightarrow> string \<Rightarrow> string \<Rightarrow> string \<Rightarrow> string \<Rightarrow> ('w, unit) act" where
  "install_iptables_jump rn parent_chain iface target_chain command =
     abind (rn (command # ''-C'' # parent_chain # jump_rule iface target_chain)) (\<lambda>r.
       aseq (if rr_returncode r = 0 then run_ok rn (command # ''-D'' # parent_chain # jump_rule iface target_chain)
             else aret ())
         (run_ok rn (command # ''-I'' # parent_chain # ''1'' # jump_rule iface target_chain)))"

definition install_iptables_rules :: "'w runner \<Rightarrow> settings \<Rightarrow> ('w, unit) act" where
  "install_iptables_rules rn st =
     abind (alift (wireguard_rule_context st)) (\<lambda>(iface, _, _, _).
       aseq (ensure_iptables_chain rn ''iptables'' IPTABLES_INPUT_CHAIN)
      (aseq (ensure_iptables_chain rn ''iptables'' IPTABLES_FORWARD_CHAIN)
      (aseq (ensure_iptables_chain rn ''ip6tables'' IPTABLES_INPUT6_CHAIN)
      (abind (alift (iptables_input_rules st)) (\<lambda>rules.
       aseq (afor (\<lambda>r. run_ok rn (''iptables'' # ''-A'' # IPTABLES_INPUT_CHAIN # r)) rules)
      (aseq (afor (\<lambda>r. run_ok rn (''ip6tables'' # ''-A'' # IPTABLES_INPUT6_CHAIN # r)) (ip6tables_input_rules iface))
      (aseq (run_ok rn [''iptables'', ''-A'', IPTABLES_FORWARD_CHAIN, ''-j'', ''DROP''])
      (aseq (install_iptables_jump rn ''INPUT'' iface IPTABLES_INPUT_CHAIN ''iptables'')
      (aseq (install_iptables_jump rn ''FORWARD'' iface IPTABLES_FORWARD_CHAIN ''iptables'')
      (aseq (install_iptables_jump rn ''INPUT'' iface IPTABLES_INPUT6_CHAIN ''ip6tables'')
        (abind (rn (''ip6tables'' # ''-C'' # ''FORWARD'' # drop_rule iface)) (\<lambda>r.
          if rr_returncode r \<noteq> 0 then run_ok rn (''ip6tables'' # ''-I'' # ''FORWARD'' # ''1'' # drop_rule iface)
          else aret ()))))))))))))"

definition verify_firewall_rules_present :: "'w runner \<Rightarrow> (string \<Rightarrow> bool) \<Rightarrow> settings \<Rightarrow> ('w, unit) act" where
  "verify_firewall_rules_present rn which st =
     (if which ''nft'' then verify_nftables_rule_present rn st
      else if which ''iptables'' \<and> which ''ip6tables'' then verify_iptables_rule_present rn st
      else araise (StartupHardeningError
        (''Neither nftables nor the complete iptables/ip6tables toolset is available to verify '' @ ''Hub isolation rules'')))"

definition install_firewall_rules ::
  "(exn \<Rightarrow> string) \<Rightarrow> 'w runner \<Rightarrow> (string \<Rightarrow> bool) \<Rightarrow> settings \<Rightarrow> ('w, unit) act" where
  "install_firewall_rules exn_text rn which st =
     (if control_mode st = ''external'' then aret ()
      else if \<not> cfg_hub_manage_firewall_rules st then aret ()
      else if cfg_wg_dry_run st then aret ()
      else (\<lambda>w.
        case (if which ''nft''
              then aseq (install_nftables_rules rn st) (verify_firewall_rules_present rn which st)
              else if which ''iptables'' \<and> which ''ip6tables''
              then aseq (install_iptables_rules rn st) (verify_firewall_rules_present rn which st)
              else araise (StartupHardeningError
                (''Neither nftables nor the complete iptables/ip6tables toolset is available to install ''
                 @ ''Hub isolation rules''))) w of
          (Inr _, w1) \<Rightarrow> (Inr (), w1)
        | (Inl e, w1) \<Rightarrow>
            if should_fail_closed st
            then (Inl (StartupHardeningError (''Failed to install Hub firewall rules: '' @ exn_text e)), w1)
            else (Inr (), w1)))"

definition apply_startup_hardening ::
  "(exn \<Rightarrow> string) \<Rightarrow> (string list \<Rightarrow> ('w, int \<times> string \<times> string) act) \<Rightarrow> (string \<Rightarrow> bool) \<Rightarrow> settings
     \<Rightarrow> ('w, unit) act" where
  "apply_startup_hardening exn_text sub which st =
     aseq (alift (validate_runtime_settings st))
       (if nonempty (cfg_wg_agent_url st) \<and> \<not> cfg_wg_agent_mode st then aret ()
        else aseq (configure_ip_forwarding exn_text (run_command sub) st)
               (install_firewall_rules exn_text (run_command sub) which st))"

end
