(* ===== verification/Hardening_Facts.thy ===== *)
theory Hardening_Facts
  imports Hardening
begin

text \<open>
  What the start-up of the Hub guarantees. The packet filters are programs outside the repository: their
  chains, the meaning of a rule and the way a packet takes through the chains are a parameter, and what their manuals say of
  them are the hypotheses \<open>iptables_commands\<close>, \<open>rule_matching\<close> and \<open>rule_traversal\<close>.
\<close>

subsection \<open>Packet filters\<close>

record packet =
  pkt_iface :: string
  pkt_src :: ip_addr
  pkt_dst :: ip_addr
  pkt_proto :: string
  pkt_dport :: "int option"
  pkt_state :: string

text \<open>The rules of the chains of a tool, the rule that a specification stands for, whether it matches,
  its target, and the verdict on a packet that is sent through a list of rules.\<close>

record ('w, 'r) packet_filter =
  pf_chain :: "'w \<Rightarrow> string \<times> string \<Rightarrow> 'r list option"
  pf_spec :: "string list \<Rightarrow> 'r"
  pf_match :: "'r \<Rightarrow> packet \<Rightarrow> bool"
  pf_target :: "'r \<Rightarrow> string"
  pf_verdict :: "'w \<Rightarrow> string \<Rightarrow> 'r list \<Rightarrow> packet \<Rightarrow> bool option"

definition iptables_tools :: "string set" where
  "iptables_tools = {''iptables'', ''ip6tables''}"

definition iptables_commands :: "'w runner \<Rightarrow> ('w, 'r) packet_filter \<Rightarrow> bool" where
  "iptables_commands rn pf \<longleftrightarrow>
     (\<forall>c\<in>iptables_tools. \<forall>ch spec w r w'.
        (rn [c, ''-L'', ch, ''-n''] w = (Inr r, w') \<longrightarrow> pf_chain pf w' = pf_chain pf w)
      \<and> (rn (c # ''-C'' # ch # spec) w = (Inr r, w') \<longrightarrow>
           pf_chain pf w' = pf_chain pf w
           \<and> (rr_returncode r = 0 \<longleftrightarrow> (\<exists>rs. pf_chain pf w (c, ch) = Some rs \<and> pf_spec pf spec \<in> set rs)))
      \<and> (rn [c, ''-N'', ch] w = (Inr r, w') \<longrightarrow> rr_returncode r = 0 \<longrightarrow>
           pf_chain pf w' = (pf_chain pf w)((c, ch) := Some []))
      \<and> (rn [c, ''-F'', ch] w = (Inr r, w') \<longrightarrow> rr_returncode r = 0 \<longrightarrow>
           pf_chain pf w' = (pf_chain pf w)((c, ch) := Some []))
      \<and> (rn (c # ''-A'' # ch # spec) w = (Inr r, w') \<longrightarrow> rr_returncode r = 0 \<longrightarrow>
           (\<exists>rs. pf_chain pf w (c, ch) = Some rs
               \<and> pf_chain pf w' = (pf_chain pf w)((c, ch) := Some (rs @ [pf_spec pf spec]))))
      \<and> (rn (c # ''-D'' # ch # spec) w = (Inr r, w') \<longrightarrow> rr_returncode r = 0 \<longrightarrow>
           (\<exists>rs. pf_chain pf w (c, ch) = Some rs
               \<and> pf_chain pf w' = (pf_chain pf w)((c, ch) := Some (remove1 (pf_spec pf spec) rs))))
      \<and> (rn (c # ''-I'' # ch # ''1'' # spec) w = (Inr r, w') \<longrightarrow> rr_returncode r = 0 \<longrightarrow>
           (\<exists>rs. pf_chain pf w (c, ch) = Some rs
               \<and> pf_chain pf w' = (pf_chain pf w)((c, ch) := Some (pf_spec pf spec # rs)))))"

text \<open>The options the Hub uses; a trailing \<open>+\<close> would make an interface name a prefix.\<close>

definition rule_matching :: "('w, 'r) packet_filter \<Rightarrow> bool" where
  "rule_matching pf \<longleftrightarrow>
     (\<forall>p x spec net port.
        pf_match pf (pf_spec pf [''-j'', x]) p
      \<and> pf_target pf (pf_spec pf [''-j'', x]) = x
      \<and> (\<not> endswith x ''+'' \<longrightarrow>
           pf_match pf (pf_spec pf (''-i'' # x # spec)) p = (pkt_iface p = x \<and> pf_match pf (pf_spec pf spec) p))
      \<and> pf_target pf (pf_spec pf (''-i'' # x # spec)) = pf_target pf (pf_spec pf spec)
      \<and> (ip_network x = Some net \<longrightarrow>
           pf_match pf (pf_spec pf (''-s'' # x # spec)) p = (in_net (pkt_src p) net \<and> pf_match pf (pf_spec pf spec) p))
      \<and> pf_target pf (pf_spec pf (''-s'' # x # spec)) = pf_target pf (pf_spec pf spec)
      \<and> (ip_network x = Some net \<longrightarrow>
           pf_match pf (pf_spec pf (''-d'' # x # spec)) p = (in_net (pkt_dst p) net \<and> pf_match pf (pf_spec pf spec) p))
      \<and> pf_target pf (pf_spec pf (''-d'' # x # spec)) = pf_target pf (pf_spec pf spec)
      \<and> pf_match pf (pf_spec pf (''-p'' # x # spec)) p = (pkt_proto p = x \<and> pf_match pf (pf_spec pf spec) p)
      \<and> pf_target pf (pf_spec pf (''-p'' # x # spec)) = pf_target pf (pf_spec pf spec)
      \<and> (py_int x = Some port \<longrightarrow>
           pf_match pf (pf_spec pf (''--dport'' # x # spec)) p
             = (pkt_dport p = Some port \<and> pf_match pf (pf_spec pf spec) p))
      \<and> pf_target pf (pf_spec pf (''--dport'' # x # spec)) = pf_target pf (pf_spec pf spec)
      \<and> pf_match pf (pf_spec pf (''-m'' # ''conntrack'' # ''--ctstate'' # x # spec)) p
          = (pkt_state p \<in> set (split_on CHR '','' x) \<and> pf_match pf (pf_spec pf spec) p)
      \<and> pf_target pf (pf_spec pf (''-m'' # ''conntrack'' # ''--ctstate'' # x # spec)) = pf_target pf (pf_spec pf spec))"

text \<open>The verdict of a chain whose rules all accept or drop is that of the first rule that matches.\<close>

definition terminal :: "('w, 'r) packet_filter \<Rightarrow> 'r \<Rightarrow> bool" where
  "terminal pf r \<longleftrightarrow> pf_target pf r \<in> {''ACCEPT'', ''DROP''}"

fun first_verdict :: "('w, 'r) packet_filter \<Rightarrow> 'r list \<Rightarrow> packet \<Rightarrow> bool option" where
  "first_verdict pf [] p = None"
| "first_verdict pf (r # rs) p =
     (if pf_match pf r p then Some (pf_target pf r = ''ACCEPT'') else first_verdict pf rs p)"

definition rule_traversal :: "('w, 'r) packet_filter \<Rightarrow> bool" where
  "rule_traversal pf \<longleftrightarrow>
     (\<forall>w c r rs p.
        (\<not> pf_match pf r p \<longrightarrow> pf_verdict pf w c (r # rs) p = pf_verdict pf w c rs p)
      \<and> (pf_match pf r p \<and> terminal pf r \<longrightarrow> pf_verdict pf w c (r # rs) p = Some (pf_target pf r = ''ACCEPT''))
      \<and> (\<forall>rs'. pf_match pf r p \<and> \<not> terminal pf r \<and> pf_chain pf w (c, pf_target pf r) = Some rs'
           \<and> list_all (terminal pf) rs' \<longrightarrow>
           pf_verdict pf w c (r # rs) p
             = (case first_verdict pf rs' p of Some v \<Rightarrow> Some v | None \<Rightarrow> pf_verdict pf w c rs p)))"

text \<open>The policy: what the Hub lets in from the tunnel.\<close>

definition established :: "packet \<Rightarrow> bool" where
  "established p \<longleftrightarrow> pkt_state p \<in> {''ESTABLISHED'', ''RELATED''}"

definition control_traffic :: "net4 \<Rightarrow> ipv4 \<Rightarrow> int \<Rightarrow> packet \<Rightarrow> bool" where
  "control_traffic network hub_ip port p \<longleftrightarrow>
     in_net (pkt_src p) (Net4 network) \<and> pkt_dst p = V4 hub_ip \<and> pkt_proto p = ''tcp''
     \<and> pkt_dport p = Some port \<and> pkt_state p = ''NEW''"

subsection \<open>The commands\<close>

lemma run_ok_InrE:
  assumes "run_ok rn args w = (Inr u, w')"
  obtains r where "rn args w = (Inr r, w')" "rr_returncode r = 0"
  using assms by (auto simp: run_ok_def abind_Inr_iff ensure_command_ok_def Let_def split: if_splits)

lemma iptables_commandsD:
  assumes "iptables_commands rn pf" "c \<in> iptables_tools"
  shows
    "rn [c, ''-L'', ch, ''-n''] w = (Inr r, w') \<Longrightarrow> pf_chain pf w' = pf_chain pf w"
    "rn (c # ''-C'' # ch # spec) w = (Inr r, w') \<Longrightarrow> pf_chain pf w' = pf_chain pf w"
    "rn (c # ''-C'' # ch # spec) w = (Inr r, w') \<Longrightarrow> rr_returncode r = 0 \<longleftrightarrow>
       (\<exists>rs. pf_chain pf w (c, ch) = Some rs \<and> pf_spec pf spec \<in> set rs)"
    "rn [c, ''-N'', ch] w = (Inr r, w') \<Longrightarrow> rr_returncode r = 0 \<Longrightarrow>
       pf_chain pf w' = (pf_chain pf w)((c, ch) := Some [])"
    "rn [c, ''-F'', ch] w = (Inr r, w') \<Longrightarrow> rr_returncode r = 0 \<Longrightarrow>
       pf_chain pf w' = (pf_chain pf w)((c, ch) := Some [])"
    "rn (c # ''-A'' # ch # spec) w = (Inr r, w') \<Longrightarrow> rr_returncode r = 0 \<Longrightarrow>
       \<exists>rs. pf_chain pf w (c, ch) = Some rs
         \<and> pf_chain pf w' = (pf_chain pf w)((c, ch) := Some (rs @ [pf_spec pf spec]))"
    "rn (c # ''-D'' # ch # spec) w = (Inr r, w') \<Longrightarrow> rr_returncode r = 0 \<Longrightarrow>
       \<exists>rs. pf_chain pf w (c, ch) = Some rs
         \<and> pf_chain pf w' = (pf_chain pf w)((c, ch) := Some (remove1 (pf_spec pf spec) rs))"
    "rn (c # ''-I'' # ch # ''1'' # spec) w = (Inr r, w') \<Longrightarrow> rr_returncode r = 0 \<Longrightarrow>
       \<exists>rs. pf_chain pf w (c, ch) = Some rs
         \<and> pf_chain pf w' = (pf_chain pf w)((c, ch) := Some (pf_spec pf spec # rs))"
  using assms unfolding iptables_commands_def by blast+

lemma ensure_chain_empties:
  assumes "iptables_commands rn pf" "c \<in> iptables_tools"
    and "ensure_iptables_chain rn c ch w = (Inr u, w')"
  shows "pf_chain pf w' = (pf_chain pf w)((c, ch) := Some [])"
proof -
  note laws = iptables_commandsD [OF assms(1,2)]
  obtain r w1 w2 where a: "rn [c, ''-L'', ch, ''-n''] w = (Inr r, w1)"
    and b: "(if rr_returncode r \<noteq> 0 then run_ok rn [c, ''-N'', ch] else aret ()) w1 = (Inr (), w2)"
    and f: "run_ok rn [c, ''-F'', ch] w2 = (Inr u, w')"
    using assms(3) by (auto simp: ensure_iptables_chain_def abind_Inr_iff aseq_Inr_iff)
  have "pf_chain pf w2 = pf_chain pf w1 \<or> pf_chain pf w2 = (pf_chain pf w1)((c, ch) := Some [])"
    using b by (auto elim!: run_ok_InrE dest: laws(4) split: if_splits)
  moreover have "pf_chain pf w' = (pf_chain pf w2)((c, ch) := Some [])"
    using f by (auto elim!: run_ok_InrE dest: laws(5))
  ultimately show ?thesis using laws(1) [OF a] by auto
qed

lemma append_rules:
  assumes "iptables_commands rn pf" "c \<in> iptables_tools"
    and "afor (\<lambda>r. run_ok rn (c # ''-A'' # ch # r)) specs w = (Inr u, w')" "pf_chain pf w (c, ch) = Some rs"
  shows "pf_chain pf w' = (pf_chain pf w)((c, ch) := Some (rs @ map (pf_spec pf) specs))"
  using assms(3,4)
proof (induction specs arbitrary: w rs)
  case Nil
  then show ?case by (simp add: fun_upd_idem)
next
  case (Cons s specs)
  then obtain w1 where s: "run_ok rn (c # ''-A'' # ch # s) w = (Inr (), w1)"
    and rest: "afor (\<lambda>r. run_ok rn (c # ''-A'' # ch # r)) specs w1 = (Inr u, w')"
    by (auto simp: aseq_Inr_iff)
  have "pf_chain pf w1 = (pf_chain pf w)((c, ch) := Some (rs @ [pf_spec pf s]))"
    using s Cons.prems(2) by (auto elim!: run_ok_InrE dest!: iptables_commandsD(6) [OF assms(1,2)])
  with Cons.IH [OF rest, of "rs @ [pf_spec pf s]"] show ?case by (auto simp: fun_eq_iff)
qed

text \<open>After the jump is installed it is the first rule of its chain, whether or not it was there before.\<close>

lemma jump_is_first:
  assumes "iptables_commands rn pf" "c \<in> iptables_tools"
    and "install_iptables_jump rn parent iface target c w = (Inr u, w')"
  shows "\<exists>rs. pf_chain pf w' = (pf_chain pf w)((c, parent) := Some (pf_spec pf (jump_rule iface target) # rs))"
proof -
  note laws = iptables_commandsD [OF assms(1,2)]
  obtain r w1 w2 where a: "rn (c # ''-C'' # parent # jump_rule iface target) w = (Inr r, w1)"
    and b: "(if rr_returncode r = 0 then run_ok rn (c # ''-D'' # parent # jump_rule iface target)
             else aret ()) w1 = (Inr (), w2)"
    and f: "run_ok rn (c # ''-I'' # parent # ''1'' # jump_rule iface target) w2 = (Inr u, w')"
    using assms(3) by (auto simp: install_iptables_jump_def abind_Inr_iff aseq_Inr_iff)
  have "pf_chain pf w2 = pf_chain pf w1 \<or> (\<exists>rs. pf_chain pf w2 = (pf_chain pf w1)((c, parent) := Some rs))"
    using b by (auto elim!: run_ok_InrE dest!: laws(7) split: if_splits)
  moreover obtain rs where
    "pf_chain pf w' = (pf_chain pf w2)((c, parent) := Some (pf_spec pf (jump_rule iface target) # rs))"
    using f by (auto elim!: run_ok_InrE dest!: laws(8))
  ultimately show ?thesis using laws(2) [OF a] by auto
qed

lemma checks_keep_chains:
  assumes "iptables_commands rn pf" "\<forall>a\<in>set checks. \<exists>c\<in>iptables_tools. \<exists>ch spec. a = c # ''-C'' # ch # spec"
    and "afor (run_ok rn) checks w = (Inr u, w')"
  shows "pf_chain pf w' = pf_chain pf w"
  using assms(2,3)
proof (induction checks arbitrary: w)
  case (Cons a checks)
  then obtain w1 where s: "run_ok rn a w = (Inr (), w1)" and rest: "afor (run_ok rn) checks w1 = (Inr u, w')"
    by (auto simp: aseq_Inr_iff)
  have "pf_chain pf w1 = pf_chain pf w"
    using s Cons.prems(1) by (auto elim!: run_ok_InrE dest!: iptables_commandsD(2) [OF assms(1)])
  with Cons.IH [OF _ rest] Cons.prems(1) show ?case by simp
qed simp

lemma iptables_checks_form:
  "a \<in> set (iptables_checks iface rules) \<Longrightarrow> \<exists>c\<in>iptables_tools. \<exists>ch spec. a = c # ''-C'' # ch # spec"
  by (auto simp: iptables_checks_def iptables_tools_def)

subsection \<open>The chains after installation\<close>

text \<open>What the chains of both tools hold for an interface.\<close>

definition isolation_installed ::
  "('w, 'r) packet_filter \<Rightarrow> string \<Rightarrow> net4 \<Rightarrow> ipv4 \<Rightarrow> int \<Rightarrow> 'w \<Rightarrow> bool" where
  "isolation_installed pf iface network hub_ip port w \<longleftrightarrow>
     (\<exists>rs. pf_chain pf w (''iptables'', ''INPUT'')
             = Some (pf_spec pf (jump_rule iface IPTABLES_INPUT_CHAIN) # rs))
   \<and> pf_chain pf w (''iptables'', IPTABLES_INPUT_CHAIN)
       = Some (map (pf_spec pf) [established_rule iface, control_rule iface network hub_ip port, drop_rule iface])
   \<and> (\<exists>rs. pf_chain pf w (''iptables'', ''FORWARD'')
             = Some (pf_spec pf (jump_rule iface IPTABLES_FORWARD_CHAIN) # rs))
   \<and> pf_chain pf w (''iptables'', IPTABLES_FORWARD_CHAIN) = Some [pf_spec pf [''-j'', ''DROP'']]
   \<and> (\<exists>rs. pf_chain pf w (''ip6tables'', ''INPUT'')
             = Some (pf_spec pf (jump_rule iface IPTABLES_INPUT6_CHAIN) # rs))
   \<and> pf_chain pf w (''ip6tables'', IPTABLES_INPUT6_CHAIN)
       = Some (map (pf_spec pf) [established_rule iface, drop_rule iface])
   \<and> (\<exists>rs. pf_chain pf w (''ip6tables'', ''FORWARD'') = Some rs \<and> pf_spec pf (drop_rule iface) \<in> set rs)"

lemma iptables_install:
  fixes rn :: "'w runner" and pf :: "('w, 'r) packet_filter"
  assumes cmds: "iptables_commands rn pf"
    and ctx: "wireguard_rule_context st = Inr (iface, network, hub_ip, port)"
    and run: "install_iptables_rules rn st w = (Inr u, w')"
  shows "isolation_installed pf iface network hub_ip port w'"
proof -
  have t: "''iptables'' \<in> iptables_tools" "''ip6tables'' \<in> iptables_tools" by (simp_all add: iptables_tools_def)
  have rules: "iptables_input_rules st
      = Inr [established_rule iface, control_rule iface network hub_ip port, drop_rule iface]"
    by (simp add: iptables_input_rules_def ctx)
  obtain w1 w2 w3 w4 w5 w6 w7 w8 w9 w10 r u' where
    a1: "ensure_iptables_chain rn ''iptables'' IPTABLES_INPUT_CHAIN w = (Inr (), w1)" and
    a2: "ensure_iptables_chain rn ''iptables'' IPTABLES_FORWARD_CHAIN w1 = (Inr (), w2)" and
    a3: "ensure_iptables_chain rn ''ip6tables'' IPTABLES_INPUT6_CHAIN w2 = (Inr (), w3)" and
    a4: "afor (\<lambda>r. run_ok rn (''iptables'' # ''-A'' # IPTABLES_INPUT_CHAIN # r))
           [established_rule iface, control_rule iface network hub_ip port, drop_rule iface] w3 = (Inr (), w4)" and
    a5: "afor (\<lambda>r. run_ok rn (''ip6tables'' # ''-A'' # IPTABLES_INPUT6_CHAIN # r))
           (ip6tables_input_rules iface) w4 = (Inr (), w5)" and
    a6: "run_ok rn [''iptables'', ''-A'', IPTABLES_FORWARD_CHAIN, ''-j'', ''DROP''] w5 = (Inr (), w6)" and
    a7: "install_iptables_jump rn ''INPUT'' iface IPTABLES_INPUT_CHAIN ''iptables'' w6 = (Inr (), w7)" and
    a8: "install_iptables_jump rn ''FORWARD'' iface IPTABLES_FORWARD_CHAIN ''iptables'' w7 = (Inr (), w8)" and
    a9: "install_iptables_jump rn ''INPUT'' iface IPTABLES_INPUT6_CHAIN ''ip6tables'' w8 = (Inr (), w9)" and
    a10: "rn (''ip6tables'' # ''-C'' # ''FORWARD'' # drop_rule iface) w9 = (Inr r, w10)" and
    a11: "(if rr_returncode r \<noteq> 0 then run_ok rn (''ip6tables'' # ''-I'' # ''FORWARD'' # ''1'' # drop_rule iface)
           else aret ()) w10 = (Inr u', w')"
    using run unfolding install_iptables_rules_def ctx rules abind_alift_Inr prod.case
    by (auto simp: aseq_Inr_iff abind_Inr_iff simp del: afor.simps act_simps)
  let ?ch = "pf_chain pf" and ?sp = "pf_spec pf"
  have c3: "?ch w3 = (?ch w)((''iptables'', IPTABLES_INPUT_CHAIN) := Some [],
      (''iptables'', IPTABLES_FORWARD_CHAIN) := Some [], (''ip6tables'', IPTABLES_INPUT6_CHAIN) := Some [])"
    using ensure_chain_empties [OF cmds t(1) a1] ensure_chain_empties [OF cmds t(1) a2]
      ensure_chain_empties [OF cmds t(2) a3] by simp
  have c4: "?ch w4 = (?ch w3)((''iptables'', IPTABLES_INPUT_CHAIN) := Some
      (map ?sp [established_rule iface, control_rule iface network hub_ip port, drop_rule iface]))"
    using append_rules [OF cmds t(1) a4, of "[]"] by (simp add: c3 chain_defs)
  have c5: "?ch w5 = (?ch w4)((''ip6tables'', IPTABLES_INPUT6_CHAIN) := Some
      (map ?sp [established_rule iface, drop_rule iface]))"
    using append_rules [OF cmds t(2) a5, of "[]"] by (simp add: c4 c3 chain_defs ip6tables_input_rules_def)
  have c6: "?ch w6 = (?ch w5)((''iptables'', IPTABLES_FORWARD_CHAIN) := Some [?sp [''-j'', ''DROP'']])"
    using a6 by (auto elim!: run_ok_InrE dest!: iptables_commandsD(6) [OF cmds t(1)] simp: c5 c4 c3 chain_defs)
  obtain r1 r2 r3 where
    c7: "?ch w7 = (?ch w6)((''iptables'', ''INPUT'') := Some (?sp (jump_rule iface IPTABLES_INPUT_CHAIN) # r1))" and
    c8: "?ch w8 = (?ch w7)((''iptables'', ''FORWARD'') := Some (?sp (jump_rule iface IPTABLES_FORWARD_CHAIN) # r2))" and
    c9: "?ch w9 = (?ch w8)((''ip6tables'', ''INPUT'') := Some (?sp (jump_rule iface IPTABLES_INPUT6_CHAIN) # r3))"
    using jump_is_first [OF cmds t(1) a7] jump_is_first [OF cmds t(1) a8] jump_is_first [OF cmds t(2) a9] by blast
  have c10: "?ch w10 = ?ch w9" by (rule iptables_commandsD(2) [OF cmds t(2) a10])
  obtain r4 where c11: "?ch w' = (?ch w9)((''ip6tables'', ''FORWARD'') := Some r4)" "?sp (drop_rule iface) \<in> set r4"
  proof (cases "rr_returncode r = 0")
    case True
    then obtain r4 where "?ch w9 (''ip6tables'', ''FORWARD'') = Some r4" "?sp (drop_rule iface) \<in> set r4"
      using iptables_commandsD(3) [OF cmds t(2) a10] by blast
    with True a11 c10 show ?thesis by (intro that [of r4]) (auto simp: fun_upd_idem)
  next
    case False
    with a11 show ?thesis
      by (auto elim!: run_ok_InrE dest!: iptables_commandsD(8) [OF cmds t(2)] simp: c10 intro: that)
  qed
  show ?thesis unfolding isolation_installed_def c11(1) c9 c8 c7 c6 c5 c4 c3 using c11(2) by (simp add: chain_defs)
qed

subsection \<open>The verdict on a packet of the tunnel\<close>

lemma rule_matchingD:
  assumes "rule_matching pf"
  shows
    "pf_match pf (pf_spec pf [''-j'', x]) p"
    "pf_target pf (pf_spec pf [''-j'', x]) = x"
    "\<not> endswith x ''+'' \<Longrightarrow>
       pf_match pf (pf_spec pf (''-i'' # x # spec)) p = (pkt_iface p = x \<and> pf_match pf (pf_spec pf spec) p)"
    "pf_target pf (pf_spec pf (''-i'' # x # spec)) = pf_target pf (pf_spec pf spec)"
    "ip_network x = Some net \<Longrightarrow>
       pf_match pf (pf_spec pf (''-s'' # x # spec)) p = (in_net (pkt_src p) net \<and> pf_match pf (pf_spec pf spec) p)"
    "pf_target pf (pf_spec pf (''-s'' # x # spec)) = pf_target pf (pf_spec pf spec)"
    "ip_network x = Some net \<Longrightarrow>
       pf_match pf (pf_spec pf (''-d'' # x # spec)) p = (in_net (pkt_dst p) net \<and> pf_match pf (pf_spec pf spec) p)"
    "pf_target pf (pf_spec pf (''-d'' # x # spec)) = pf_target pf (pf_spec pf spec)"
    "pf_match pf (pf_spec pf (''-p'' # x # spec)) p = (pkt_proto p = x \<and> pf_match pf (pf_spec pf spec) p)"
    "pf_target pf (pf_spec pf (''-p'' # x # spec)) = pf_target pf (pf_spec pf spec)"
    "py_int x = Some port \<Longrightarrow> pf_match pf (pf_spec pf (''--dport'' # x # spec)) p
       = (pkt_dport p = Some port \<and> pf_match pf (pf_spec pf spec) p)"
    "pf_target pf (pf_spec pf (''--dport'' # x # spec)) = pf_target pf (pf_spec pf spec)"
    "pf_match pf (pf_spec pf (''-m'' # ''conntrack'' # ''--ctstate'' # x # spec)) p
       = (pkt_state p \<in> set (split_on CHR '','' x) \<and> pf_match pf (pf_spec pf spec) p)"
    "pf_target pf (pf_spec pf (''-m'' # ''conntrack'' # ''--ctstate'' # x # spec)) = pf_target pf (pf_spec pf spec)"
  using assms unfolding rule_matching_def by blast+

lemma rule_traversalD:
  assumes "rule_traversal pf" "pf_match pf r p" "\<not> terminal pf r" "pf_chain pf w (c, pf_target pf r) = Some rs'"
    and "list_all (terminal pf) rs'" "first_verdict pf rs' p = Some v"
  shows "pf_verdict pf w c (r # rs) p = Some v"
  using assms unfolding rule_traversal_def by fastforce

lemma in_net_host: "in_net a (Net4 \<lparr>n4_addr = h, n4_prefix = 32\<rparr>) \<longleftrightarrow> a = V4 h"
  by (cases a) (auto simp: in_net4_def netmask4_def)

lemma ip_network_host: "ip_network (show_ipv4 h @ ''/32'') = Some (Net4 \<lparr>n4_addr = h, n4_prefix = 32\<rparr>)"
proof -
  have "show_ipv4 h @ ''/32'' = show_net (Net4 \<lparr>n4_addr = h, n4_prefix = 32\<rparr>)" by (simp add: str_eval)
  then show ?thesis by (simp only:) (rule ip_network_show_net4, simp_all add: netmask4_def)
qed

lemma rule_context_facts:
  assumes "wireguard_rule_context st = Inr (iface, network, hub_ip, port)"
  shows "iface = cfg_wg_interface st" "wf_net4 network" "in_net4 hub_ip network" "1 \<le> port" "port \<le> 65535"
    "ip_network (cfg_hub_wg_cidr st) = Some (Net4 network)" "port = cfg_hub_control_plane_port st"
  using assms by (auto simp: wireguard_rule_context_def dest: ip_network_wf
      split: option.splits ip_net.splits ip_iface.splits if_splits)

text \<open>The rules as the tool understands them.\<close>

lemma input_rules_meaning:
  assumes m: "rule_matching pf" and ctx: "wireguard_rule_context st = Inr (iface, network, hub_ip, port)"
    and i: "\<not> endswith iface ''+''" "pkt_iface p = iface"
  shows "pf_match pf (pf_spec pf (established_rule iface)) p = established p"
    "pf_match pf (pf_spec pf (control_rule iface network hub_ip port)) p = control_traffic network hub_ip port p"
    "pf_match pf (pf_spec pf (drop_rule iface)) p" "pf_match pf (pf_spec pf (jump_rule iface t)) p"
    "pf_target pf (pf_spec pf (established_rule iface)) = ''ACCEPT''"
    "pf_target pf (pf_spec pf (control_rule iface network hub_ip port)) = ''ACCEPT''"
    "pf_target pf (pf_spec pf (drop_rule iface)) = ''DROP''" "pf_target pf (pf_spec pf (jump_rule iface t)) = t"
proof -
  note d = rule_matchingD [OF m]
  have w: "n4_prefix network \<le> 32" "n4_addr network AND netmask4 (n4_prefix network) = n4_addr network"
    using rule_context_facts(2) [OF ctx] by (simp_all add: wf_net4_def)
  note net = ip_network_show_net4 [OF w]
  have port: "py_int (int_str port) = Some port"
    using rule_context_facts(4) [OF ctx] by (simp add: int_str_def)
  have s: "split_on CHR '','' ''ESTABLISHED,RELATED'' = [''ESTABLISHED'', ''RELATED'']"
    "split_on CHR '','' ''NEW'' = [''NEW'']" by simp_all
  show "pf_match pf (pf_spec pf (established_rule iface)) p = established p"
    unfolding established_rule_def d(3) [OF i(1)] d(13) s established_def by (simp add: d(1) i(2))
  show "pf_match pf (pf_spec pf (control_rule iface network hub_ip port)) p = control_traffic network hub_ip port p"
    unfolding control_rule_def d(3) [OF i(1)] d(5) [OF net] d(7) [OF ip_network_host] d(9) d(11) [OF port] d(13) s
      control_traffic_def in_net_host by (simp add: d(1) i(2))
  show "pf_match pf (pf_spec pf (drop_rule iface)) p" "pf_match pf (pf_spec pf (jump_rule iface t)) p"
    unfolding drop_rule_def jump_rule_def d(3) [OF i(1)] by (simp_all add: d(1) i(2))
  show "pf_target pf (pf_spec pf (established_rule iface)) = ''ACCEPT''"
    "pf_target pf (pf_spec pf (control_rule iface network hub_ip port)) = ''ACCEPT''"
    "pf_target pf (pf_spec pf (drop_rule iface)) = ''DROP''" "pf_target pf (pf_spec pf (jump_rule iface t)) = t"
    unfolding established_rule_def control_rule_def drop_rule_def jump_rule_def d(2,4,6,8,10,12,14) by simp_all
qed

lemma isolation_verdict:
  assumes m: "rule_matching pf" and t: "rule_traversal pf"
    and ctx: "wireguard_rule_context st = Inr (iface, network, hub_ip, port)"
    and inst: "isolation_installed pf iface network hub_ip port w"
    and i: "\<not> endswith iface ''+''" "pkt_iface p = iface"
  shows "pf_verdict pf w ''iptables'' (the (pf_chain pf w (''iptables'', ''INPUT''))) p
      = Some (established p \<or> control_traffic network hub_ip port p)"
    "pf_verdict pf w ''iptables'' (the (pf_chain pf w (''iptables'', ''FORWARD''))) p = Some False"
    "pf_verdict pf w ''ip6tables'' (the (pf_chain pf w (''ip6tables'', ''INPUT''))) p = Some (established p)"
proof -
  note r = input_rules_meaning [OF m ctx i]
  note st = rule_traversalD [OF t r(4), unfolded terminal_def r(8)]
  obtain r1 r2 r3 where c: "pf_chain pf w (''iptables'', ''INPUT'')
        = Some (pf_spec pf (jump_rule iface IPTABLES_INPUT_CHAIN) # r1)"
      "pf_chain pf w (''iptables'', ''FORWARD'') = Some (pf_spec pf (jump_rule iface IPTABLES_FORWARD_CHAIN) # r2)"
      "pf_chain pf w (''ip6tables'', ''INPUT'') = Some (pf_spec pf (jump_rule iface IPTABLES_INPUT6_CHAIN) # r3)"
    and u: "pf_chain pf w (''iptables'', IPTABLES_INPUT_CHAIN)
       = Some (map (pf_spec pf) [established_rule iface, control_rule iface network hub_ip port, drop_rule iface])"
      "pf_chain pf w (''iptables'', IPTABLES_FORWARD_CHAIN) = Some [pf_spec pf [''-j'', ''DROP'']]"
      "pf_chain pf w (''ip6tables'', IPTABLES_INPUT6_CHAIN)
       = Some (map (pf_spec pf) [established_rule iface, drop_rule iface])"
    using inst unfolding isolation_installed_def by blast
  show "pf_verdict pf w ''iptables'' (the (pf_chain pf w (''iptables'', ''INPUT''))) p
      = Some (established p \<or> control_traffic network hub_ip port p)"
    unfolding c option.sel by (rule st [OF _ u(1)]) (simp_all add: r terminal_def chain_defs)
  show "pf_verdict pf w ''iptables'' (the (pf_chain pf w (''iptables'', ''FORWARD''))) p = Some False"
    unfolding c option.sel
    by (rule st [OF _ u(2)]) (simp_all add: terminal_def chain_defs rule_matchingD(1,2) [OF m])
  show "pf_verdict pf w ''ip6tables'' (the (pf_chain pf w (''ip6tables'', ''INPUT''))) p = Some (established p)"
    unfolding c option.sel by (rule st [OF _ u(3)]) (simp_all add: r terminal_def chain_defs)
qed

lemma production_install:
  assumes "should_fail_closed st" "control_mode st = ''inline''" "cfg_hub_manage_firewall_rules st"
    and "\<not> which ''nft''" and run: "install_firewall_rules exn_text rn which st w = (Inr (), w')"
  obtains w1 where "install_iptables_rules rn st w = (Inr (), w1)" "verify_iptables_rule_present rn st w1 = (Inr (), w')"
proof -
  have "\<not> cfg_wg_dry_run st" using assms(1) by (simp add: should_fail_closed_def)
  then have "which ''iptables'' \<and> which ''ip6tables''"
    "aseq (install_iptables_rules rn st) (verify_iptables_rule_present rn st) w = (Inr (), w')"
    using assms by (auto simp: install_firewall_rules_def verify_firewall_rules_present_def
        split: prod.splits sum.splits if_splits)
  with that show thesis by (auto simp: aseq_Inr_iff)
qed

lemma verify_context: "verify_iptables_rule_present rn st w = (Inr u, w') \<Longrightarrow>
   \<exists>iface network hub_ip port. wireguard_rule_context st = Inr (iface, network, hub_ip, port)
     \<and> afor (run_ok rn) (iptables_checks iface
         [established_rule iface, control_rule iface network hub_ip port, drop_rule iface]) w = (Inr u, w')"
  by (auto simp: verify_iptables_rule_present_def abind_Inr_iff iptables_input_rules_def rbind_Inr_iff
      simp del: afor.simps)

subsection \<open>A packet filter\<close>

text \<open>A tool that does what the hypotheses say: the world is the map of its chains, a rule is its specification.\<close>

type_synonym chains = "string \<times> string \<Rightarrow> string list list option"

definition example_sub :: "string list \<Rightarrow> (chains, int \<times> string \<times> string) act" where
  "example_sub args w =
     (case args of
        c # op # ch # spec \<Rightarrow>
          if c \<notin> iptables_tools then (Inr (0, [], []), w)
          else if op = ''-N'' then
            (if w (c, ch) = None then (Inr (0, [], []), w((c, ch) := Some [])) else (Inr (1, [], []), w))
          else
            (case w (c, ch) of
               None \<Rightarrow> (Inr (1, [], []), w)
             | Some rs \<Rightarrow>
                 if op = ''-L'' then (Inr (0, [], []), w)
                 else if op = ''-C'' then (Inr (if spec \<in> set rs then 0 else 1, [], []), w)
                 else if op = ''-F'' then (Inr (0, [], []), w((c, ch) := Some []))
                 else if op = ''-A'' then (Inr (0, [], []), w((c, ch) := Some (rs @ [spec])))
                 else if op = ''-D'' then
                   (if spec \<in> set rs then (Inr (0, [], []), w((c, ch) := Some (remove1 spec rs)))
                    else (Inr (1, [], []), w))
                 else if op = ''-I'' then (Inr (0, [], []), w((c, ch) := Some (tl spec # rs)))
                 else (Inr (2, [], []), w))
      | _ \<Rightarrow> (Inr (0, [], []), w))"

fun example_match :: "string list \<Rightarrow> packet \<Rightarrow> bool" where
  "example_match (a # x # spec) p =
     ((if a = ''-i'' then pkt_iface p = x
       else if a = ''-s'' then (case ip_network x of Some n \<Rightarrow> in_net (pkt_src p) n | None \<Rightarrow> False)
       else if a = ''-d'' then (case ip_network x of Some n \<Rightarrow> in_net (pkt_dst p) n | None \<Rightarrow> False)
       else if a = ''-p'' then pkt_proto p = x
       else if a = ''--dport'' then (case py_int x of Some n \<Rightarrow> pkt_dport p = Some n | None \<Rightarrow> False)
       else if a = ''--ctstate'' then pkt_state p \<in> set (split_on CHR '','' x)
       else True)
      \<and> example_match spec p)"
| "example_match _ p = True"

fun example_target :: "string list \<Rightarrow> string" where
  "example_target (a # x # spec) = (if a = ''-j'' then x else example_target spec)"
| "example_target _ = []"

definition example_rules :: "(chains, string list) packet_filter" where
  "example_rules = \<lparr>pf_chain = id, pf_spec = id, pf_match = example_match, pf_target = example_target,
     pf_verdict = (\<lambda>_ _ _ _. None)\<rparr>"

fun example_verdict :: "chains \<Rightarrow> string \<Rightarrow> string list list \<Rightarrow> packet \<Rightarrow> bool option" where
  "example_verdict w c [] p = None"
| "example_verdict w c (r # rs) p =
     (if \<not> example_match r p then example_verdict w c rs p
      else if terminal example_rules r then Some (example_target r = ''ACCEPT'')
      else case w (c, example_target r) of
        Some rs' \<Rightarrow>
          (case first_verdict example_rules rs' p of Some v \<Rightarrow> Some v | None \<Rightarrow> example_verdict w c rs p)
      | None \<Rightarrow> None)"

definition example_filter :: "(chains, string list) packet_filter" where
  "example_filter = example_rules\<lparr>pf_verdict := example_verdict\<rparr>"

lemma example_filter_sel:
  "pf_chain example_filter = id" "pf_spec example_filter = id" "pf_match example_filter = example_match"
  "pf_target example_filter = example_target" "pf_verdict example_filter = example_verdict"
  "terminal example_filter = terminal example_rules"
  "first_verdict example_filter = first_verdict example_rules"
proof -
  show "pf_chain example_filter = id" "pf_spec example_filter = id" "pf_match example_filter = example_match"
    "pf_target example_filter = example_target" "pf_verdict example_filter = example_verdict"
    by (simp_all add: example_filter_def example_rules_def)
  show "terminal example_filter = terminal example_rules"
    by (rule ext) (simp add: terminal_def example_filter_def)
  have "first_verdict example_filter rs p = first_verdict example_rules rs p" for rs p
    by (induction rs) (simp_all add: example_filter_def)
  then show "first_verdict example_filter = first_verdict example_rules" by (intro ext)
qed

lemma example_matching: "rule_matching example_filter"
  unfolding rule_matching_def by (intro allI) (simp add: example_filter_sel)

lemma example_traversal: "rule_traversal example_filter"
  unfolding rule_traversal_def by (auto simp: example_filter_sel split: option.split)

lemma example_commands: "iptables_commands (run_command example_sub) example_filter"
  unfolding iptables_commands_def example_filter_sel
  by (intro ballI allI conjI)
    (auto simp: run_command_def abind_def example_sub_def split: option.splits if_splits)

lemma afor_stays: "(\<And>x. x \<in> set xs \<Longrightarrow> f x w = (Inr (), w)) \<Longrightarrow> afor f xs w = (Inr (), w)"
  by (induction xs) (simp_all add: aseq_def abind_def)

lemma example_steps:
  assumes "c \<in> iptables_tools"
  shows "w (c, ch) = None \<Longrightarrow>
      ensure_iptables_chain (run_command example_sub) c ch w = (Inr (), w((c, ch) := Some []))"
    and "w (c, ch) = Some rs \<Longrightarrow>
      run_ok (run_command example_sub) (c # ''-A'' # ch # spec) w = (Inr (), w((c, ch) := Some (rs @ [spec])))"
    and "w (c, ch) = Some rs \<Longrightarrow> jump_rule iface t \<notin> set rs \<Longrightarrow>
      install_iptables_jump (run_command example_sub) ch iface t c w
        = (Inr (), w((c, ch) := Some (jump_rule iface t # rs)))"
    and "w (c, ch) = Some rs \<Longrightarrow> spec \<in> set rs \<Longrightarrow>
      run_ok (run_command example_sub) (c # ''-C'' # ch # spec) w = (Inr (), w)"
  using assms by (simp_all add: ensure_iptables_chain_def install_iptables_jump_def run_ok_def run_command_def aseq_def
      abind_def example_sub_def ensure_command_ok_def)


definition production_settings :: settings where
  "production_settings = default_settings
     \<lparr>cfg_app_env := ''production'', cfg_secret_key := ''0123456789abcdef0123456789abcdef'',
      cfg_initial_admin_email := ''root@hub.example'', cfg_initial_admin_password := ''correct-horse-42'',
      cfg_session_secure := True, cfg_public_url := ''https://hub.example'',
      cfg_proxy_public_url := ''https://proxy.example'', cfg_rate_limit_backend := ''edge''\<rparr>"

lemma production_urls:
  "url_or_empty (cfg_public_url production_settings) = \<lparr>url_scheme = ''https'', url_netloc = ''hub.example'',
     url_path = [], url_params = [], url_query = [], url_fragment = []\<rparr>"
  "url_or_empty (cfg_proxy_public_url production_settings) = \<lparr>url_scheme = ''https'', url_netloc = ''proxy.example'',
     url_path = [], url_params = [], url_query = [], url_fragment = []\<rparr>"
  by (simp_all add: production_settings_def url_or_empty_def str_eval url_eval)

lemma production_hosts:
  "set (configured_allowed_hosts production_settings)
     = {''localhost'', ''127.0.0.1'', ''testserver'', ''hub.example'', ''proxy.example''}"
  unfolding configured_allowed_hosts_def configured_hostname_def
  by (simp add: production_settings_def default_settings_def str_eval url_eval or_empty_def)

lemma production_valid: "validate_runtime_settings production_settings = Inr ()"
proof -
  have h: "url_hostname \<lparr>url_scheme = ''https'', url_netloc = ''hub.example'',
     url_path = [], url_params = [], url_query = [], url_fragment = []\<rparr> = Some ''hub.example''"
    "url_hostname \<lparr>url_scheme = ''https'', url_netloc = ''proxy.example'',
     url_path = [], url_params = [], url_query = [], url_fragment = []\<rparr> = Some ''proxy.example''"
    "lower ''hub.example'' = ''hub.example''" "lower ''proxy.example'' = ''proxy.example''"
    by (simp_all add: str_eval url_eval)
  have "identity_errors production_settings = []"
    by (simp add: identity_errors_def production_settings_def default_settings_def password_is_strong_enough_def
        str_eval)
  moreover have "public_url_errors production_settings = []"
    unfolding public_url_errors_def production_urls Let_def h by (simp add: h url_userinfo_def str_eval)
  moreover have "access_errors production_settings = []" "relay_errors production_settings = []"
    "retention_errors production_settings = []" "isolation_invariant_errors production_settings = []"
    by (simp_all add: access_errors_def relay_errors_def retention_errors_def isolation_invariant_errors_def
        control_mode_def production_settings_def default_settings_def max_defs str_eval)
  moreover have "deployment_errors production_settings = []"
    unfolding deployment_errors_def production_urls Let_def h production_hosts
    by (simp add: h production_settings_def default_settings_def control_mode_def or_empty_def str_eval)
  ultimately show ?thesis by (simp add: validate_runtime_settings_def runtime_validation_errors_def)
qed

text \<open>The chains of a fresh host, but for the rules that IPv6 forwarding has already.\<close>

definition chains_with :: "string list list \<Rightarrow> chains" where
  "chains_with rules6 = (\<lambda>(c, ch).
     if (c, ch) = (''ip6tables'', ''FORWARD'') then Some rules6
     else if ch = ''INPUT'' \<or> ch = ''FORWARD'' then Some [] else None)"

definition bare_chains :: chains where
  "bare_chains = chains_with []"

lemma production_context:
  "wireguard_rule_context production_settings
     = Inr (''wg0'', \<lparr>n4_addr = 1684013056, n4_prefix = 16\<rparr>, 1684013057, 8083)"
proof -
  note eval = str_eval parse_ipv4_def parse_octet_def ipv4_of_octets_def parse_addr_prefix4_def
    make_prefix4_def prefix_of_string_def mk_net4_def in_net4_def netmask4_def mask_eq_exp_minus_1
  have "ip_network ''100.96.0.0/16'' = Some (Net4 \<lparr>n4_addr = 1684013056, n4_prefix = 16\<rparr>)"
    by (simp add: ip_network_def eval)
  moreover have "ip_interface ''100.96.0.1/16'' = Some (Iface4 1684013057 16)"
    by (simp add: ip_interface_def eval)
  moreover have "in_net4 1684013057 \<lparr>n4_addr = 1684013056, n4_prefix = 16\<rparr>"
    by (simp add: eval)
  ultimately show ?thesis
    by (simp add: wireguard_rule_context_def production_settings_def default_settings_def)
qed

lemma production_modes:
  "control_mode production_settings = ''inline''" "cfg_hub_manage_firewall_rules production_settings"
  "\<not> cfg_wg_dry_run production_settings" "\<not> nonempty (cfg_wg_agent_url production_settings)"
  "should_fail_closed production_settings" "cfg_wg_interface production_settings = ''wg0''"
  "\<not> endswith ''wg0'' ''+''" "cfg_hub_control_plane_port production_settings = 8083"
  by (simp_all add: control_mode_def should_fail_closed_def is_production_def production_settings_def
      default_settings_def str_eval)

lemma production_install_runs:
  "\<exists>w'. apply_startup_hardening exn_text example_sub (\<lambda>t. t \<noteq> ''nft'') production_settings (chains_with rules6) = (Inr (), w')
     \<and> w' (''ip6tables'', ''FORWARD'')
         = Some (if drop_rule ''wg0'' \<in> set rules6 then rules6 else drop_rule ''wg0'' # rules6)"
proof -
  let ?rn = "run_command example_sub"
  have t: "''iptables'' \<in> iptables_tools" "''ip6tables'' \<in> iptables_tools" by (simp_all add: iptables_tools_def)
  note s = example_steps [OF t(1)] example_steps [OF t(2)]
  have rules: "iptables_input_rules production_settings = Inr [established_rule ''wg0'',
      control_rule ''wg0'' \<lparr>n4_addr = 1684013056, n4_prefix = 16\<rparr> 1684013057 8083, drop_rule ''wg0'']"
    by (simp add: iptables_input_rules_def production_context)
  have c6: "?rn (''ip6tables'' # ''-C'' # ''FORWARD'' # spec) w
      = (Inr \<lparr>rr_returncode = if \<exists>rs. w (''ip6tables'', ''FORWARD'') = Some rs \<and> spec \<in> set rs then 0 else 1,
           rr_stdout = [], rr_stderr = []\<rparr>, w)" for spec w
    using t by (auto simp: run_command_def abind_def example_sub_def str_eval split: option.split)
  have i6: "w (''ip6tables'', ''FORWARD'') = Some rs \<Longrightarrow> run_ok ?rn (''ip6tables'' # ''-I'' # ''FORWARD'' # ''1'' # spec) w
      = (Inr (), w((''ip6tables'', ''FORWARD'') := Some (spec # rs)))" for spec w rs
    using t by (simp add: run_ok_def run_command_def abind_def example_sub_def ensure_command_ok_def)
  obtain w1 where inst: "install_iptables_rules ?rn production_settings (chains_with rules6) = (Inr (), w1)"
    and fwd: "w1 (''ip6tables'', ''FORWARD'')
        = Some (if drop_rule ''wg0'' \<in> set rules6 then rules6 else drop_rule ''wg0'' # rules6)"
    and iso: "isolation_installed example_filter ''wg0'' \<lparr>n4_addr = 1684013056, n4_prefix = 16\<rparr> 1684013057 8083 w1"
  proof -
    have "\<exists>w1. install_iptables_rules ?rn production_settings (chains_with rules6) = (Inr (), w1)
        \<and> w1 (''ip6tables'', ''FORWARD'')
            = Some (if drop_rule ''wg0'' \<in> set rules6 then rules6 else drop_rule ''wg0'' # rules6)"
      unfolding install_iptables_rules_def production_context rules abind_alift_Inr prod.case ip6tables_input_rules_def
      by (simp add: s c6 i6 aseq_def abind_def chains_with_def chain_defs)
    with that show thesis using iptables_install [OF example_commands production_context] by blast
  qed
  have "afor (run_ok ?rn) (iptables_checks ''wg0'' [established_rule ''wg0'',
      control_rule ''wg0'' \<lparr>n4_addr = 1684013056, n4_prefix = 16\<rparr> 1684013057 8083, drop_rule ''wg0'']) w1 = (Inr (), w1)"
    using iso unfolding isolation_installed_def example_filter_sel id_apply
    by (intro afor_stays) (auto simp: iptables_checks_def ip6tables_input_rules_def intro!: s(4) s(8))
  then have ver: "verify_iptables_rule_present ?rn production_settings w1 = (Inr (), w1)"
    unfolding verify_iptables_rule_present_def production_context rules abind_alift_Inr prod.case .
  have sysctl: "run_ok ?rn (''sysctl'' # args) w = (Inr (), w)" for args w
    by (cases args rule: remdups_adj.cases)
      (simp_all add: run_ok_def run_command_def abind_def example_sub_def ensure_command_ok_def iptables_tools_def)
  have "configure_ip_forwarding exn_text ?rn production_settings (chains_with rules6) = (Inr (), (chains_with rules6))"
    by (simp add: configure_ip_forwarding_def forwarding_commands_def sysctl production_settings_def default_settings_def)
  moreover have "install_firewall_rules exn_text ?rn (\<lambda>t. t \<noteq> ''nft'') production_settings (chains_with rules6) = (Inr (), w1)"
    using inst ver by (simp add: install_firewall_rules_def verify_firewall_rules_present_def aseq_def abind_def
        production_modes)
  ultimately have "apply_startup_hardening exn_text example_sub (\<lambda>t. t \<noteq> ''nft'') production_settings (chains_with rules6)
      = (Inr (), w1)"
    by (simp add: apply_startup_hardening_def production_valid production_modes aseq_def abind_def)
  then show ?thesis using fwd by blast
qed

subsection \<open>The start-up\<close>




text \<open>A drop rule for forwarded IPv6 packets that is there already is left where it is, also behind
  a rule that accepts them: the start-up succeeds and the packets are forwarded.\<close>

theorem ipv6_drop_rule_not_moved:
  "\<exists>w' :: chains.
     apply_startup_hardening (\<lambda>_. []) example_sub (\<lambda>t. t \<noteq> ''nft'') production_settings
       (chains_with [[''-j'', ''ACCEPT''], drop_rule ''wg0'']) = (Inr (), w')
   \<and> (\<forall>p. pkt_iface p = ''wg0'' \<longrightarrow>
        example_verdict w' ''ip6tables'' (the (w' (''ip6tables'', ''FORWARD''))) p = Some True)"
proof -
  obtain w' where "apply_startup_hardening (\<lambda>_. []) example_sub (\<lambda>t. t \<noteq> ''nft'') production_settings
       (chains_with [[''-j'', ''ACCEPT''], drop_rule ''wg0'']) = (Inr (), w')"
    "w' (''ip6tables'', ''FORWARD'') = Some [[''-j'', ''ACCEPT''], drop_rule ''wg0'']"
    using production_install_runs [of "\<lambda>_. []" "[[''-j'', ''ACCEPT''], drop_rule ''wg0'']"] by auto
  then show ?thesis by (intro exI [of _ w']) (simp add: terminal_def example_rules_def)
qed

end
