(* ===== verification/Hardening_Nft.thy ===== *)
theory Hardening_Nft
  imports Hardening_Facts
begin

text \<open>
  The same guarantee for nftables, which the Hub prefers. The chains of its table \<open>inet opnsense_hub\<close>
  are those of the tool \<open>nft\<close>; \<open>nft_commands\<close> and \<open>nft_matching\<close> are what the manual says of it.
\<close>

subsection \<open>nftables\<close>

definition nft_commands :: "'w runner \<Rightarrow> ('w, 'r) packet_filter \<Rightarrow> bool" where
  "nft_commands rn pf \<longleftrightarrow>
     (\<forall>ch hook spec w r w'.
        (rn [''nft'', ''list'', ''table'', ''inet'', ''opnsense_hub''] w = (Inr r, w') \<longrightarrow>
           pf_chain pf w' = pf_chain pf w
           \<and> (rr_returncode r \<noteq> 0 \<longrightarrow> pf_chain pf w (''nft'', ch) = None))
      \<and> (rn [''nft'', ''delete'', ''table'', ''inet'', ''opnsense_hub''] w = (Inr r, w') \<longrightarrow> rr_returncode r = 0 \<longrightarrow>
           pf_chain pf w' (''nft'', ch) = None)
      \<and> (rn [''nft'', ''add'', ''table'', ''inet'', ''opnsense_hub''] w = (Inr r, w') \<longrightarrow> rr_returncode r = 0 \<longrightarrow>
           pf_chain pf w' = pf_chain pf w)
      \<and> (rn (nft_chain_args ch hook) w = (Inr r, w') \<longrightarrow> rr_returncode r = 0 \<longrightarrow>
           pf_chain pf w (''nft'', ch) = None \<longrightarrow>
           pf_chain pf w' = (pf_chain pf w)((''nft'', ch) := Some []))
      \<and> (rn ([''nft'', ''add'', ''rule'', ''inet'', ''opnsense_hub'', ch] @ spec) w = (Inr r, w') \<longrightarrow> rr_returncode r = 0 \<longrightarrow>
           (\<exists>rs. pf_chain pf w (''nft'', ch) = Some rs
              \<and> pf_chain pf w' = (pf_chain pf w)((''nft'', ch) := Some (rs @ [pf_spec pf spec]))))
      \<and> (rn [''nft'', ''list'', ''chain'', ''inet'', ''opnsense_hub'', ch] w = (Inr r, w') \<longrightarrow>
           pf_chain pf w' = pf_chain pf w))"

text \<open>The expressions the Hub uses; a trailing \<open>*\<close> would make an interface name a prefix.\<close>

definition nft_matching :: "('w, 'r) packet_filter \<Rightarrow> bool" where
  "nft_matching pf \<longleftrightarrow>
     (\<forall>p x spec net a port.
        pf_match pf (pf_spec pf [''accept'']) p \<and> pf_target pf (pf_spec pf [''accept'']) = ''ACCEPT''
      \<and> pf_match pf (pf_spec pf [''drop'']) p \<and> pf_target pf (pf_spec pf [''drop'']) = ''DROP''
      \<and> pf_match pf (pf_spec pf (''counter'' # spec)) p = pf_match pf (pf_spec pf spec) p
      \<and> pf_target pf (pf_spec pf (''counter'' # spec)) = pf_target pf (pf_spec pf spec)
      \<and> (\<not> endswith x ''*'' \<longrightarrow>
           pf_match pf (pf_spec pf (''iifname'' # x # spec)) p = (pkt_iface p = x \<and> pf_match pf (pf_spec pf spec) p))
      \<and> pf_target pf (pf_spec pf (''iifname'' # x # spec)) = pf_target pf (pf_spec pf spec)
      \<and> pf_match pf (pf_spec pf (''ct'' # ''state'' # x # spec)) p
          = (pkt_state p \<in> set (map upper (split_on CHR '','' x)) \<and> pf_match pf (pf_spec pf spec) p)
      \<and> pf_target pf (pf_spec pf (''ct'' # ''state'' # x # spec)) = pf_target pf (pf_spec pf spec)
      \<and> (ip_network x = Some net \<longrightarrow>
           pf_match pf (pf_spec pf (''ip'' # ''saddr'' # x # spec)) p
             = (in_net (pkt_src p) net \<and> pf_match pf (pf_spec pf spec) p))
      \<and> pf_target pf (pf_spec pf (''ip'' # ''saddr'' # x # spec)) = pf_target pf (pf_spec pf spec)
      \<and> (ip_address x = Some a \<longrightarrow>
           pf_match pf (pf_spec pf (''ip'' # ''daddr'' # x # spec)) p = (pkt_dst p = a \<and> pf_match pf (pf_spec pf spec) p))
      \<and> pf_target pf (pf_spec pf (''ip'' # ''daddr'' # x # spec)) = pf_target pf (pf_spec pf spec)
      \<and> (py_int x = Some port \<longrightarrow>
           pf_match pf (pf_spec pf (''tcp'' # ''dport'' # x # spec)) p
             = (pkt_proto p = ''tcp'' \<and> pkt_dport p = Some port \<and> pf_match pf (pf_spec pf spec) p))
      \<and> pf_target pf (pf_spec pf (''tcp'' # ''dport'' # x # spec)) = pf_target pf (pf_spec pf spec))"

lemma nft_commandsD:
  assumes "nft_commands rn pf"
  shows
    "rn [''nft'', ''list'', ''table'', ''inet'', ''opnsense_hub''] w = (Inr r, w') \<Longrightarrow> pf_chain pf w' = pf_chain pf w"
    "rn [''nft'', ''list'', ''table'', ''inet'', ''opnsense_hub''] w = (Inr r, w') \<Longrightarrow> rr_returncode r \<noteq> 0 \<Longrightarrow>
       pf_chain pf w (''nft'', ch) = None"
    "rn [''nft'', ''delete'', ''table'', ''inet'', ''opnsense_hub''] w = (Inr r, w') \<Longrightarrow> rr_returncode r = 0 \<Longrightarrow>
       pf_chain pf w' (''nft'', ch) = None"
    "rn [''nft'', ''add'', ''table'', ''inet'', ''opnsense_hub''] w = (Inr r, w') \<Longrightarrow> rr_returncode r = 0 \<Longrightarrow>
       pf_chain pf w' = pf_chain pf w"
    "rn (nft_chain_args ch hook) w = (Inr r, w') \<Longrightarrow> rr_returncode r = 0 \<Longrightarrow> pf_chain pf w (''nft'', ch) = None \<Longrightarrow>
       pf_chain pf w' = (pf_chain pf w)((''nft'', ch) := Some [])"
    "rn ([''nft'', ''add'', ''rule'', ''inet'', ''opnsense_hub'', ch] @ spec) w = (Inr r, w') \<Longrightarrow> rr_returncode r = 0 \<Longrightarrow>
       \<exists>rs. pf_chain pf w (''nft'', ch) = Some rs
         \<and> pf_chain pf w' = (pf_chain pf w)((''nft'', ch) := Some (rs @ [pf_spec pf spec]))"
    "rn [''nft'', ''list'', ''chain'', ''inet'', ''opnsense_hub'', ch] w = (Inr r, w') \<Longrightarrow> pf_chain pf w' = pf_chain pf w"
  using assms unfolding nft_commands_def by blast+

lemma nft_matchingD:
  assumes "nft_matching pf"
  shows
    "pf_match pf (pf_spec pf [''accept'']) p" "pf_target pf (pf_spec pf [''accept'']) = ''ACCEPT''"
    "pf_match pf (pf_spec pf [''drop'']) p" "pf_target pf (pf_spec pf [''drop'']) = ''DROP''"
    "pf_match pf (pf_spec pf (''counter'' # spec)) p = pf_match pf (pf_spec pf spec) p"
    "pf_target pf (pf_spec pf (''counter'' # spec)) = pf_target pf (pf_spec pf spec)"
    "\<not> endswith x ''*'' \<Longrightarrow>
       pf_match pf (pf_spec pf (''iifname'' # x # spec)) p = (pkt_iface p = x \<and> pf_match pf (pf_spec pf spec) p)"
    "pf_target pf (pf_spec pf (''iifname'' # x # spec)) = pf_target pf (pf_spec pf spec)"
    "pf_match pf (pf_spec pf (''ct'' # ''state'' # x # spec)) p
       = (pkt_state p \<in> set (map upper (split_on CHR '','' x)) \<and> pf_match pf (pf_spec pf spec) p)"
    "pf_target pf (pf_spec pf (''ct'' # ''state'' # x # spec)) = pf_target pf (pf_spec pf spec)"
    "ip_network x = Some net \<Longrightarrow>
       pf_match pf (pf_spec pf (''ip'' # ''saddr'' # x # spec)) p
         = (in_net (pkt_src p) net \<and> pf_match pf (pf_spec pf spec) p)"
    "pf_target pf (pf_spec pf (''ip'' # ''saddr'' # x # spec)) = pf_target pf (pf_spec pf spec)"
    "ip_address x = Some a \<Longrightarrow>
       pf_match pf (pf_spec pf (''ip'' # ''daddr'' # x # spec)) p = (pkt_dst p = a \<and> pf_match pf (pf_spec pf spec) p)"
    "pf_target pf (pf_spec pf (''ip'' # ''daddr'' # x # spec)) = pf_target pf (pf_spec pf spec)"
    "py_int x = Some port \<Longrightarrow>
       pf_match pf (pf_spec pf (''tcp'' # ''dport'' # x # spec)) p
         = (pkt_proto p = ''tcp'' \<and> pkt_dport p = Some port \<and> pf_match pf (pf_spec pf spec) p)"
    "pf_target pf (pf_spec pf (''tcp'' # ''dport'' # x # spec)) = pf_target pf (pf_spec pf spec)"
  using assms unfolding nft_matching_def by blast+

subsection \<open>Installation and verdict\<close>

lemma nft_append:
  assumes "nft_commands rn pf" "run_ok rn (nft_add_rule ch iface spec) w = (Inr u, w')"
  shows "\<exists>rs. pf_chain pf w (''nft'', ch) = Some rs
    \<and> pf_chain pf w' = (pf_chain pf w)((''nft'', ch) := Some (rs @ [pf_spec pf (''iifname'' # iface # spec)]))"
proof -
  obtain r where "rn ([''nft'', ''add'', ''rule'', ''inet'', ''opnsense_hub'', ch] @ ''iifname'' # iface # spec) w = (Inr r, w')"
    "rr_returncode r = 0"
    using assms(2) by (auto simp: nft_add_rule_def elim: run_ok_InrE)
  then show ?thesis by (rule nft_commandsD(6) [OF assms(1)])
qed

lemma nft_install:
  fixes rn :: "'w runner" and pf :: "('w, 'r) packet_filter"
  assumes cmds: "nft_commands rn pf"
    and ctx: "wireguard_rule_context st = Inr (iface, network, hub_ip, port)"
    and run: "install_nftables_rules rn st w = (Inr u, w')"
  shows "pf_chain pf w' (''nft'', ''input'') = Some (map (\<lambda>r. pf_spec pf (''iifname'' # iface # r))
           [[''ct'', ''state'', ''established,related'', ''counter'', ''accept''],
            [''ip'', ''saddr'', show_net (Net4 network), ''ip'', ''daddr'', show_ipv4 hub_ip,
             ''tcp'', ''dport'', int_str port, ''ct'', ''state'', ''new'', ''counter'', ''accept''],
            [''counter'', ''drop'']])"
    "pf_chain pf w' (''nft'', ''forward'') = Some [pf_spec pf (''iifname'' # iface # [''counter'', ''drop''])]"
proof -
  obtain r w1 w2 w3 w4 w5 w6 w7 w8 u' where
    a1: "rn [''nft'', ''list'', ''table'', ''inet'', ''opnsense_hub''] w = (Inr r, w1)" and
    a2: "(if rr_returncode r = 0 then run_ok rn [''nft'', ''delete'', ''table'', ''inet'', ''opnsense_hub'']
          else aret ()) w1 = (Inr (), w2)" and
    a3: "run_ok rn [''nft'', ''add'', ''table'', ''inet'', ''opnsense_hub''] w2 = (Inr (), w3)" and
    a4: "run_ok rn (nft_chain_args ''input'' ''input'') w3 = (Inr (), w4)" and
    a5: "run_ok rn (nft_chain_args ''forward'' ''forward'') w4 = (Inr (), w5)" and
    a6: "run_ok rn (nft_add_rule ''input'' iface [''ct'', ''state'', ''established,related'', ''counter'', ''accept'']) w5
           = (Inr (), w6)" and
    a7: "run_ok rn (nft_add_rule ''input'' iface [''ip'', ''saddr'', show_net (Net4 network), ''ip'', ''daddr'',
           show_ipv4 hub_ip, ''tcp'', ''dport'', int_str port, ''ct'', ''state'', ''new'', ''counter'', ''accept'']) w6
           = (Inr (), w7)" and
    a8: "run_ok rn (nft_add_rule ''input'' iface [''counter'', ''drop'']) w7 = (Inr (), w8)" and
    a9: "run_ok rn (nft_add_rule ''forward'' iface [''counter'', ''drop'']) w8 = (Inr u', w')"
    using run unfolding install_nftables_rules_def ctx abind_alift_Inr prod.case nft_rules_def
    by (auto simp: aseq_Inr_iff abind_Inr_iff simp del: show_net.simps)
  have none: "pf_chain pf w2 (''nft'', ch) = None" for ch
    using a1 a2 nft_commandsD(1-3) [OF cmds] by (cases "rr_returncode r = 0") (auto elim!: run_ok_InrE)
  have c3: "pf_chain pf w3 (''nft'', ch) = None" for ch
    using a3 none by (auto elim!: run_ok_InrE dest: nft_commandsD(4) [OF cmds])
  have c4: "pf_chain pf w4 = (pf_chain pf w3)((''nft'', ''input'') := Some [])"
    using a4 by (auto elim!: run_ok_InrE dest: nft_commandsD(5) [OF cmds _ _ c3])
  have "pf_chain pf w4 (''nft'', ''forward'') = None" by (simp add: c4 c3)
  then have c5: "pf_chain pf w5 = (pf_chain pf w4)((''nft'', ''forward'') := Some [])"
    using a5 by (auto elim!: run_ok_InrE dest: nft_commandsD(5) [OF cmds])
  note rules = nft_append [OF cmds a6] nft_append [OF cmds a7] nft_append [OF cmds a8] nft_append [OF cmds a9]
  show "pf_chain pf w' (''nft'', ''input'') = Some (map (\<lambda>r. pf_spec pf (''iifname'' # iface # r))
           [[''ct'', ''state'', ''established,related'', ''counter'', ''accept''],
            [''ip'', ''saddr'', show_net (Net4 network), ''ip'', ''daddr'', show_ipv4 hub_ip,
             ''tcp'', ''dport'', int_str port, ''ct'', ''state'', ''new'', ''counter'', ''accept''],
            [''counter'', ''drop'']])"
    "pf_chain pf w' (''nft'', ''forward'') = Some [pf_spec pf (''iifname'' # iface # [''counter'', ''drop''])]"
    using rules by (auto simp: c5 c4 simp del: show_net.simps)
qed

lemma nft_verdict:
  assumes m: "nft_matching pf" and ctx: "wireguard_rule_context st = Inr (iface, network, hub_ip, port)"
    and i: "\<not> endswith iface ''*''" "pkt_iface p = iface"
  shows "first_verdict pf (map (\<lambda>r. pf_spec pf (''iifname'' # iface # r))
           [[''ct'', ''state'', ''established,related'', ''counter'', ''accept''],
            [''ip'', ''saddr'', show_net (Net4 network), ''ip'', ''daddr'', show_ipv4 hub_ip,
             ''tcp'', ''dport'', int_str port, ''ct'', ''state'', ''new'', ''counter'', ''accept''],
            [''counter'', ''drop'']]) p = Some (established p \<or> control_traffic network hub_ip port p)"
    "first_verdict pf [pf_spec pf (''iifname'' # iface # [''counter'', ''drop''])] p = Some False"
proof -
  note d = nft_matchingD [OF m]
  have w: "n4_prefix network \<le> 32" "n4_addr network AND netmask4 (n4_prefix network) = n4_addr network"
    using rule_context_facts(2) [OF ctx] by (simp_all add: wf_net4_def)
  have port: "py_int (int_str port) = Some port"
    using rule_context_facts(4) [OF ctx] by (simp add: int_str_def)
  have s: "map upper (split_on CHR '','' ''established,related'') = [''ESTABLISHED'', ''RELATED'']"
    "map upper (split_on CHR '','' ''new'') = [''NEW'']" by (simp_all add: str_eval)
  have e: "pf_match pf (pf_spec pf [''iifname'', iface, ''ct'', ''state'', ''established,related'', ''counter'', ''accept'']) p
      = established p"
    unfolding d(7) [OF i(1)] d(5,9) s established_def by (simp add: d(1) i(2))
  have c: "pf_match pf (pf_spec pf [''iifname'', iface, ''ip'', ''saddr'', show_net (Net4 network), ''ip'', ''daddr'',
      show_ipv4 hub_ip, ''tcp'', ''dport'', int_str port, ''ct'', ''state'', ''new'', ''counter'', ''accept'']) p
      = control_traffic network hub_ip port p"
    unfolding d(7) [OF i(1)] d(11) [OF ip_network_show_net4 [OF w]] d(13) [OF ip_address_show_ipv4] d(15) [OF port]
      d(5,9) s control_traffic_def by (simp add: d(1) i(2))
  have dr: "pf_match pf (pf_spec pf [''iifname'', iface, ''counter'', ''drop'']) p"
    unfolding d(7) [OF i(1)] d(5) by (simp add: d(3) i(2))
  show "first_verdict pf (map (\<lambda>r. pf_spec pf (''iifname'' # iface # r))
           [[''ct'', ''state'', ''established,related'', ''counter'', ''accept''],
            [''ip'', ''saddr'', show_net (Net4 network), ''ip'', ''daddr'', show_ipv4 hub_ip,
             ''tcp'', ''dport'', int_str port, ''ct'', ''state'', ''new'', ''counter'', ''accept''],
            [''counter'', ''drop'']]) p = Some (established p \<or> control_traffic network hub_ip port p)"
    "first_verdict pf [pf_spec pf (''iifname'' # iface # [''counter'', ''drop''])] p = Some False"
    unfolding list.map first_verdict.simps e c using dr by (simp_all add: d(2,4,6,8,10,12,14,16) del: show_net.simps)
qed

lemma verify_nft_keeps:
  assumes "nft_commands rn pf" "verify_nftables_rule_present rn st w = (Inr u, w')"
  shows "pf_chain pf w' = pf_chain pf w"
proof -
  obtain ri rf w1 where "rn [''nft'', ''list'', ''chain'', ''inet'', ''opnsense_hub'', ''input''] w = (Inr ri, w1)"
    "rn [''nft'', ''list'', ''chain'', ''inet'', ''opnsense_hub'', ''forward''] w1 = (Inr rf, w')"
    using assms(2) by (auto simp: verify_nftables_rule_present_def abind_Inr_iff Let_def)
  then show ?thesis using nft_commandsD(7) [OF assms(1)] by metis
qed

lemma production_install_nft:
  assumes "should_fail_closed st" "control_mode st = ''inline''" "cfg_hub_manage_firewall_rules st"
    and "which ''nft''" and run: "install_firewall_rules exn_text rn which st w = (Inr (), w')"
  obtains w1 where "install_nftables_rules rn st w = (Inr (), w1)" "verify_nftables_rule_present rn st w1 = (Inr (), w')"
proof -
  have "\<not> cfg_wg_dry_run st" using assms(1) by (simp add: should_fail_closed_def)
  then have "aseq (install_nftables_rules rn st) (verify_nftables_rule_present rn st) w = (Inr (), w')"
    using assms by (auto simp: install_firewall_rules_def verify_firewall_rules_present_def
        split: prod.splits sum.splits if_splits)
  with that show thesis by (auto simp: aseq_Inr_iff)
qed


subsection \<open>A table\<close>

text \<open>A tool that does what the hypotheses say; it lists a chain as nft does, with counters at zero.\<close>

definition nft_listing :: "string list \<Rightarrow> string" where
  "nft_listing r = (case r of
     a # i # spec \<Rightarrow> a @ '' '' @ quoted i @ '' ''
       @ join '' '' (map (\<lambda>t. if t = ''counter'' then ''counter packets 0 bytes 0'' else t) spec)
   | _ \<Rightarrow> [])"

definition example_nft :: "string list \<Rightarrow> (chains, int \<times> string \<times> string) act" where
  "example_nft args w =
     (case args of
        [a, b, c, d, e] \<Rightarrow>
          if b = ''delete'' then (Inr (0, [], []), (\<lambda>k. if fst k = ''nft'' then None else w k))
          else if b = ''list'' \<and> (\<forall>ch. w (''nft'', ch) = None) then (Inr (1, [], ''No such file or directory''), w)
          else (Inr (0, [], []), w)
      | a # b # c # d # e # ch # spec \<Rightarrow>
          if c = ''chain'' \<and> b = ''add'' then (Inr (0, [], []), w((''nft'', ch) := Some (case w (''nft'', ch) of Some rs \<Rightarrow> rs | None \<Rightarrow> [])))
          else (case w (''nft'', ch) of
              None \<Rightarrow> (Inr (1, [], ''No such file or directory''), w)
            | Some rs \<Rightarrow>
                if c = ''chain'' then (Inr (0, join [CHR 0x0A] (map nft_listing rs), []), w)
                else if c = ''rule'' then (Inr (0, [], []), w((''nft'', ch) := Some (rs @ [spec])))
                else (Inr (0, [], []), w))
      | _ \<Rightarrow> (Inr (0, [], []), w))"

fun example_nft_match :: "string list \<Rightarrow> packet \<Rightarrow> bool" where
  "example_nft_match (a # spec) p =
     (if a = ''iifname'' then
        (case spec of x # rest \<Rightarrow> pkt_iface p = x \<and> example_nft_match rest p | _ \<Rightarrow> True)
      else if a = ''ct'' then
        (case spec of b # x # rest \<Rightarrow>
           pkt_state p \<in> set (map upper (split_on CHR '','' x)) \<and> example_nft_match rest p | _ \<Rightarrow> True)
      else if a = ''ip'' then
        (case spec of b # x # rest \<Rightarrow>
           (if b = ''saddr'' then (case ip_network x of Some n \<Rightarrow> in_net (pkt_src p) n | None \<Rightarrow> False)
            else ip_address x = Some (pkt_dst p)) \<and> example_nft_match rest p | _ \<Rightarrow> True)
      else if a = ''tcp'' then
        (case spec of b # x # rest \<Rightarrow>
           pkt_proto p = ''tcp'' \<and> (case py_int x of Some n \<Rightarrow> pkt_dport p = Some n | None \<Rightarrow> False)
           \<and> example_nft_match rest p | _ \<Rightarrow> True)
      else example_nft_match spec p)"
| "example_nft_match [] p = True"

fun example_nft_target :: "string list \<Rightarrow> string" where
  "example_nft_target (a # spec) =
     (if a = ''iifname'' then (case spec of x # rest \<Rightarrow> example_nft_target rest | _ \<Rightarrow> [])
      else if a \<in> {''ct'', ''ip'', ''tcp''} then (case spec of b # x # rest \<Rightarrow> example_nft_target rest | _ \<Rightarrow> [])
      else if a = ''accept'' then ''ACCEPT'' else if a = ''drop'' then ''DROP'' else example_nft_target spec)"
| "example_nft_target [] = []"

definition example_table :: "(chains, string list) packet_filter" where
  "example_table = \<lparr>pf_chain = id, pf_spec = id, pf_match = example_nft_match, pf_target = example_nft_target,
     pf_verdict = (\<lambda>_ _ _ _. None)\<rparr>"

lemma example_table_sel:
  "pf_chain example_table = id" "pf_spec example_table = id" "pf_match example_table = example_nft_match"
  "pf_target example_table = example_nft_target"
  by (simp_all add: example_table_def)

lemma example_nft_matching: "nft_matching example_table"
  unfolding nft_matching_def by (intro allI) (auto simp: example_table_sel)

lemma example_nft_commands: "nft_commands (run_command example_nft) example_table"
  unfolding nft_commands_def example_table_sel
  by (intro allI conjI)
    (auto simp: run_command_def abind_def example_nft_def nft_chain_args_def split: option.splits if_splits)

lemma example_nft_steps:
  "run_ok (run_command example_nft) (nft_chain_args ch hook) w
     = (Inr (), w((''nft'', ch) := Some (case w (''nft'', ch) of Some rs \<Rightarrow> rs | None \<Rightarrow> [])))"
  "w (''nft'', ch) = Some rs \<Longrightarrow> run_ok (run_command example_nft) (nft_add_rule ch iface spec) w
     = (Inr (), w((''nft'', ch) := Some (rs @ [''iifname'' # iface # spec])))"
  by (simp_all add: run_ok_def run_command_def abind_def example_nft_def ensure_command_ok_def nft_chain_args_def
      nft_add_rule_def)

definition production_control_spec :: "string list" where
  "production_control_spec = [''ip'', ''saddr'', ''100.96.0.0/16'', ''ip'', ''daddr'', ''100.96.0.1'', ''tcp'', ''dport'',
     ''8083'', ''ct'', ''state'', ''new'', ''counter'', ''accept'']"

definition production_table :: chains where
  "production_table = (\<lambda>_. None)((''nft'', ''input'') := Some (map (\<lambda>r. ''iifname'' # ''wg0'' # r)
       [[''ct'', ''state'', ''established,related'', ''counter'', ''accept''], production_control_spec,
        [''counter'', ''drop'']]),
     (''nft'', ''forward'') := Some [[''iifname'', ''wg0'', ''counter'', ''drop'']])"

lemma production_strings:
  "show_net (Net4 \<lparr>n4_addr = 1684013056, n4_prefix = 16\<rparr>) = ''100.96.0.0/16''"
  "show_ipv4 1684013057 = ''100.96.0.1''" "int_str 8083 = ''8083''"
  by (simp_all add: show_ipv4_def int_str_def str_eval)

lemma production_nft_install:
  "install_nftables_rules (run_command example_nft) production_settings (\<lambda>_. None) = (Inr (), production_table)"
proof -
  have t: "run_command example_nft [''nft'', ''list'', ''table'', ''inet'', ''opnsense_hub''] (\<lambda>_. None)
      = (Inr \<lparr>rr_returncode = 1, rr_stdout = [], rr_stderr = ''No such file or directory''\<rparr>, \<lambda>_. None)"
    "run_ok (run_command example_nft) [''nft'', ''add'', ''table'', ''inet'', ''opnsense_hub''] w = (Inr (), w)" for w
    by (simp_all add: run_ok_def run_command_def abind_def example_nft_def ensure_command_ok_def str_eval)
  show ?thesis
    unfolding install_nftables_rules_def production_context abind_alift_Inr prod.case nft_rules_def production_strings
    by (simp add: aseq_def abind_def t example_nft_steps production_table_def production_control_spec_def
        fun_upd_twist)
qed

lemma strip_Nil: "strip [] = []"
  by (simp add: str_eval)

lemma example_nft_list:
  "w (''nft'', ch) = Some rs \<Longrightarrow>
     run_command example_nft [''nft'', ''list'', ''chain'', ''inet'', ''opnsense_hub'', ch] w
      = (Inr \<lparr>rr_returncode = 0, rr_stdout = strip (join [CHR 0x0A] (map nft_listing rs)), rr_stderr = []\<rparr>, w)"
  by (simp add: run_command_def abind_def example_nft_def strip_Nil)

lemma production_nft_verify:
  "verify_nftables_rule_present (run_command example_nft) production_settings production_table
     = (Inr (), production_table)"
proof -
  have t: "run_command example_nft [''nft'', ''list'', ''chain'', ''inet'', ''opnsense_hub'', ch] production_table
      = (Inr \<lparr>rr_returncode = 0,
           rr_stdout = strip (join [CHR 0x0A] (map nft_listing (the (production_table (''nft'', ch))))), rr_stderr = []\<rparr>,
         production_table)" if "ch = ''input'' \<or> ch = ''forward''" for ch
    using that by (intro example_nft_list) (auto simp: production_table_def)
  have i: "normalized_nft_rule_output
      (strip (join [CHR 0x0A] (map nft_listing (the (production_table (''nft'', ''input''))))) @ [CHR 0x0A])
    = nft_input_established_rule ''wg0'' @ [CHR 0x0A]
      @ nft_input_control_rule ''wg0'' \<lparr>n4_addr = 1684013056, n4_prefix = 16\<rparr> 1684013057 8083 @ [CHR 0x0A]
      @ nft_input_drop_rule ''wg0'' @ [CHR 0x0A]"
    unfolding nft_input_control_rule_def production_strings by code_simp
  have f: "normalized_nft_rule_output
      (strip (join [CHR 0x0A] (map nft_listing (the (production_table (''nft'', ''forward''))))) @ [CHR 0x0A])
    = nft_forward_drop_rule ''wg0'' @ [CHR 0x0A]"
    by code_simp
  have c: "contains_str (p @ q @ r) q" for p q r :: string
  proof (induction p)
    case Nil
    have "startswith (q @ r) q" by simp
    then show ?case by (cases "q @ r") auto
  qed simp
  have a: "contains_str (nft_input_established_rule ''wg0'' @ [CHR 0x0A] @ e @ [CHR 0x0A] @ d @ [CHR 0x0A])
       (nft_input_established_rule ''wg0'')"
    "contains_str (nft_input_established_rule ''wg0'' @ [CHR 0x0A] @ e @ [CHR 0x0A] @ d @ [CHR 0x0A]) e"
    "contains_str (nft_input_established_rule ''wg0'' @ [CHR 0x0A] @ e @ [CHR 0x0A] @ d @ [CHR 0x0A]) d" for e d
    using c [of "[]"] c [of "nft_input_established_rule ''wg0'' @ [CHR 0x0A]" e]
      c [of "nft_input_established_rule ''wg0'' @ [CHR 0x0A] @ e @ [CHR 0x0A]" d] by simp_all
  show ?thesis
    unfolding verify_nftables_rule_present_def production_context abind_alift_Inr prod.case Let_def
    by (simp add: abind_def t ensure_command_ok_def i f a [simplified] c [of "[]", simplified])
qed


end
