(* ===== verification/Wg_Agent.thy ===== *)
theory Wg_Agent
  imports Wireguard Hardening Py_Base64
begin

text \<open>
  The privileged process beside the Hub: \<open>dashboard/app/wireguard_agent.py\<close>, and the part of
  \<open>wireguard.py\<close> that moves runtime peers over its JSON interface. A handler acts on the agent's own WireGuard world. The
  HTTP client of the agent is a function on a state that the model does not look into; \<open>isof\<close> prints an instant and
  \<open>iso_parse\<close> is \<open>datetime.fromisoformat\<close>; \<open>exn_text\<close> is \<open>str\<close> of an exception without a text of its own.
\<close>

subsection \<open>Runtime peers as JSON\<close>

definition runtime_peer_to_payload :: "(instant \<Rightarrow> string) \<Rightarrow> runtime_peer \<Rightarrow> json" where
  "runtime_peer_to_payload isof p = JObj
     [(''public_key'', JStr (rp_public_key p)), (''preshared_key'', JStr (rp_preshared_key p)),
      (''endpoint'', case rp_endpoint p of None \<Rightarrow> JNull | Some e \<Rightarrow> JStr e),
      (''allowed_ips'', JList (map JStr (rp_allowed_ips p))),
      (''last_handshake_at'', case rp_last_handshake_at p of None \<Rightarrow> JNull | Some t \<Rightarrow> JStr (isof t)),
      (''rx_bytes'', JInt (rp_rx_bytes p)), (''tx_bytes'', JInt (rp_tx_bytes p)),
      (''persistent_keepalive'', JInt (rp_persistent_keepalive p))]"

text \<open>\<open>[str(value) for value in x]\<close>\<close>

fun str_items :: "json \<Rightarrow> string list res" where
  "str_items (JList xs) = Inr (map py_str xs)"
| "str_items (JStr s) = Inr (map (\<lambda>c. [c]) s)"
| "str_items (JObj kvs) = Inr (map fst kvs)"
| "str_items _ = Inl TypeError"

definition int_field :: "(string \<times> json) list \<Rightarrow> string \<Rightarrow> int res" where
  "int_field kvs key = (case map_of kvs key of None \<Rightarrow> Inr 0 | Some v \<Rightarrow> json_int v)"

text \<open>An endpoint that is neither text nor null, which the agent never sends, is kept as its text.\<close>

definition runtime_peer_from_payload :: "(string \<Rightarrow> instant option) \<Rightarrow> json \<Rightarrow> runtime_peer res" where
  "runtime_peer_from_payload iso_parse payload =
     (case payload of
        JObj kvs \<Rightarrow>
          rbind (case map_of kvs ''last_handshake_at'' of
                   Some v \<Rightarrow> if json_true v then
                       (case iso_parse (py_str v) of None \<Rightarrow> Inl ValueError | Some t \<Rightarrow> Inr (Some t))
                     else Inr None
                 | None \<Rightarrow> Inr None) (\<lambda>handshake.
          rbind (case map_of kvs ''public_key'' of None \<Rightarrow> Inl KeyError | Some v \<Rightarrow> Inr (py_str v)) (\<lambda>public_key.
          rbind (case map_of kvs ''allowed_ips'' of None \<Rightarrow> Inr [] | Some v \<Rightarrow> str_items v) (\<lambda>allowed.
          rbind (int_field kvs ''rx_bytes'') (\<lambda>rx.
          rbind (int_field kvs ''tx_bytes'') (\<lambda>tx.
          rbind (int_field kvs ''persistent_keepalive'') (\<lambda>keepalive.
            Inr \<lparr>rp_public_key = public_key, rp_preshared_key = str_field kvs ''preshared_key'' [],
              rp_endpoint = (case map_of kvs ''endpoint'' of None \<Rightarrow> None | Some JNull \<Rightarrow> None
                             | Some v \<Rightarrow> Some (py_str v)),
              rp_allowed_ips = allowed, rp_last_handshake_at = handshake,
              rp_rx_bytes = rx, rp_tx_bytes = tx, rp_persistent_keepalive = keepalive\<rparr>))))))
      | _ \<Rightarrow> Inl TypeError)"

definition get_runtime_peers ::
  "(string \<Rightarrow> instant option) \<Rightarrow> 'w wg_env \<Rightarrow> settings \<Rightarrow> ('w wg_world, runtime_peer list) act" where
  "get_runtime_peers iso_parse env cfg =
     (if cfg_wg_dry_run cfg then aret []
      else if agent_enabled cfg then
        abind (agent_request env cfg ''GET'' ''/peers'' None) (\<lambda>body.
        abind (alift (json_get body ''peers'')) (\<lambda>v.
          alift (case v of
              None \<Rightarrow> Inr []
            | Some (JList ps) \<Rightarrow> rmap_list (runtime_peer_from_payload iso_parse) ps
            | Some _ \<Rightarrow> Inl TypeError)))
      else get_runtime_peers_local env cfg)"

subsection \<open>Endpoints\<close>

definition require_agent_auth :: "settings \<Rightarrow> string option \<Rightarrow> unit res" where
  "require_agent_auth cfg authorization =
     (let expected = or_empty (cfg_wg_agent_token cfg) in
      if expected = [] then Inl (HTTPException 503 ''WG_AGENT_TOKEN is not configured'')
      else if authorization \<noteq> Some (''Bearer '' @ expected) then Inl (HTTPException 401 ''Unauthorized'')
      else Inr ())"

definition agent_lifespan ::
  "(exn \<Rightarrow> string) \<Rightarrow> (string list \<Rightarrow> ('w, int \<times> string \<times> string) act) \<Rightarrow> (string \<Rightarrow> bool) \<Rightarrow> settings
     \<Rightarrow> ('w, unit) act" where
  "agent_lifespan exn_text sub which cfg =
     (if \<not> cfg_wg_agent_mode cfg
      then araise (RuntimeError ''wireguard_agent must run with WG_AGENT_MODE=true'')
      else apply_startup_hardening exn_text sub which cfg)"

text \<open>\<open>except ... as exc: raise HTTPException(code, detail=str(exc))\<close>\<close>

definition error_detail :: "(exn \<Rightarrow> string) \<Rightarrow> exn \<Rightarrow> string" where
  "error_detail exn_text e = (case e of WireGuardError m \<Rightarrow> m | _ \<Rightarrow> exn_text e)"

definition http_errors :: "(exn \<Rightarrow> string) \<Rightarrow> int \<Rightarrow> (exn \<Rightarrow> bool) \<Rightarrow> ('s, 'a) act \<Rightarrow> ('s, 'a) act" where
  "http_errors exn_text code caught m = (\<lambda>s.
     case m s of
       (Inl e, s') \<Rightarrow> (Inl (if caught e then HTTPException code (error_detail exn_text e) else e), s')
     | r \<Rightarrow> r)"

fun is_wireguard_error :: "exn \<Rightarrow> bool" where
  "is_wireguard_error (WireGuardError m) = True"
| "is_wireguard_error _ = False"

definition status_ok :: json where "status_ok = JObj [(''status'', JStr ''ok'')]"

definition server_public_key_endpoint :: "(exn \<Rightarrow> string) \<Rightarrow> 'w wg_env \<Rightarrow> settings \<Rightarrow> ('w wg_world, json) act" where
  "server_public_key_endpoint exn_text env cfg = http_errors exn_text 500 is_wireguard_error
     (abind (ensure_server_keypair_local env cfg) (\<lambda>k. aret (JObj [(''public_key'', JStr k)])))"

definition render_config_endpoint :: "(exn \<Rightarrow> string) \<Rightarrow> 'w wg_env \<Rightarrow> settings \<Rightarrow> ('w wg_world, json) act" where
  "render_config_endpoint exn_text env cfg = http_errors exn_text 500 is_wireguard_error
     (aseq (render_server_config_local env cfg) (aret status_ok))"

definition interface_endpoint :: "(exn \<Rightarrow> string) \<Rightarrow> 'w wg_env \<Rightarrow> settings \<Rightarrow> ('w wg_world, json) act" where
  "interface_endpoint exn_text env cfg = http_errors exn_text 500 is_wireguard_error
     (aseq (ensure_server_interface_local env cfg) (aret (JObj [(''exists'', JBool True)])))"

definition ensure_interface_endpoint :: "(exn \<Rightarrow> string) \<Rightarrow> 'w wg_env \<Rightarrow> settings \<Rightarrow> ('w wg_world, json) act" where
  "ensure_interface_endpoint exn_text env cfg = http_errors exn_text 500 is_wireguard_error
     (aseq (ensure_server_interface_local env cfg) (aret status_ok))"

definition bootstrap_endpoint ::
  "(exn \<Rightarrow> string) \<Rightarrow> 'w wg_env \<Rightarrow> settings \<Rightarrow> (string \<times> string) list \<Rightarrow> ('w wg_world, json) act" where
  "bootstrap_endpoint exn_text env cfg peers = http_errors exn_text 500 is_wireguard_error
     (aseq (ensure_server_interface_local env cfg)
       (aseq (sync_peer_payloads_local env cfg peers) (aret status_ok)))"

definition sync_peers_endpoint ::
  "(exn \<Rightarrow> string) \<Rightarrow> 'w wg_env \<Rightarrow> settings \<Rightarrow> (string \<times> string) list \<Rightarrow> ('w wg_world, json) act" where
  "sync_peers_endpoint exn_text env cfg peers = http_errors exn_text 500 is_wireguard_error
     (aseq (sync_peer_payloads_local env cfg peers) (aret status_ok))"

definition peers_endpoint ::
  "(instant \<Rightarrow> string) \<Rightarrow> (exn \<Rightarrow> string) \<Rightarrow> 'w wg_env \<Rightarrow> settings \<Rightarrow> ('w wg_world, json) act" where
  "peers_endpoint isof exn_text env cfg = http_errors exn_text 500 is_wireguard_error
     (abind (get_runtime_peers_local env cfg) (\<lambda>ps.
       aret (JObj [(''peers'', JList (map (runtime_peer_to_payload isof) ps))])))"

definition add_peer_endpoint ::
  "(exn \<Rightarrow> string) \<Rightarrow> 'w wg_env \<Rightarrow> settings \<Rightarrow> string \<Rightarrow> string \<Rightarrow> ('w wg_world, json) act" where
  "add_peer_endpoint exn_text env cfg public_key tunnel_ip =
     http_errors exn_text 400 (\<lambda>e. e = ValueError \<or> is_wireguard_error e)
       (aseq (add_peer_local env cfg public_key tunnel_ip) (aret status_ok))"

definition remove_peer_endpoint ::
  "(exn \<Rightarrow> string) \<Rightarrow> 'w wg_env \<Rightarrow> settings \<Rightarrow> string \<Rightarrow> ('w wg_world, json) act" where
  "remove_peer_endpoint exn_text env cfg public_key = http_errors exn_text 400 is_wireguard_error
     (aseq (alift (validate_public_key public_key))
       (aseq (remove_peer_local env cfg public_key) (aret status_ok)))"

text \<open>The request models: their fields must be there and be text.\<close>

definition peer_request :: "json \<Rightarrow> (string \<times> string) option" where
  "peer_request j =
     (case j of
        JObj kvs \<Rightarrow>
          (case (map_of kvs ''public_key'', map_of kvs ''tunnel_ip'') of
             (Some (JStr k), Some (JStr ip)) \<Rightarrow> Some (k, ip)
           | _ \<Rightarrow> None)
      | _ \<Rightarrow> None)"

definition remove_peer_request :: "json \<Rightarrow> string option" where
  "remove_peer_request j =
     (case j of JObj kvs \<Rightarrow> (case map_of kvs ''public_key'' of Some (JStr k) \<Rightarrow> Some k | _ \<Rightarrow> None) | _ \<Rightarrow> None)"

definition peer_sync_request :: "json \<Rightarrow> (string \<times> string) list option" where
  "peer_sync_request j =
     (case j of
        JObj kvs \<Rightarrow>
          (case map_of kvs ''peers'' of
             Some (JList ps) \<Rightarrow>
               if list_all (\<lambda>p. peer_request p \<noteq> None) ps then Some (map (the \<circ> peer_request) ps) else None
           | _ \<Rightarrow> None)
      | _ \<Rightarrow> None)"

definition with_body :: "('b option) \<Rightarrow> ('b \<Rightarrow> ('s, json) act) \<Rightarrow> ('s, json) act" where
  "with_body b f = (case b of None \<Rightarrow> araise (HTTPException 422 ''invalid body'') | Some x \<Rightarrow> f x)"

text \<open>The routes; the dependency on the token runs before the body is looked at.\<close>

definition agent_route ::
  "(instant \<Rightarrow> string) \<Rightarrow> (exn \<Rightarrow> string) \<Rightarrow> 'w wg_env \<Rightarrow> settings \<Rightarrow> string \<Rightarrow> string \<Rightarrow> json option
     \<Rightarrow> ('w wg_world, json) act option" where
  "agent_route isof exn_text env cfg http_method path payload =
     (let body = (case payload of None \<Rightarrow> JNull | Some j \<Rightarrow> j) in
      if (http_method, path) = (''GET'', ''/health'') then Some (aret status_ok)
      else if (http_method, path) = (''GET'', ''/server-public-key'') then Some (server_public_key_endpoint exn_text env cfg)
      else if (http_method, path) = (''POST'', ''/render-config'') then Some (render_config_endpoint exn_text env cfg)
      else if (http_method, path) = (''GET'', ''/interface'') then Some (interface_endpoint exn_text env cfg)
      else if (http_method, path) = (''POST'', ''/interface'') then Some (ensure_interface_endpoint exn_text env cfg)
      else if (http_method, path) = (''POST'', ''/bootstrap'')
        then Some (with_body (peer_sync_request body) (bootstrap_endpoint exn_text env cfg))
      else if (http_method, path) = (''POST'', ''/sync-peers'')
        then Some (with_body (peer_sync_request body) (sync_peers_endpoint exn_text env cfg))
      else if (http_method, path) = (''GET'', ''/peers'') then Some (peers_endpoint isof exn_text env cfg)
      else if (http_method, path) = (''POST'', ''/peers'')
        then Some (with_body (peer_request body) (\<lambda>(k, ip). add_peer_endpoint exn_text env cfg k ip))
      else if (http_method, path) = (''POST'', ''/peers/remove'')
        then Some (with_body (remove_peer_request body) (remove_peer_endpoint exn_text env cfg))
      else None)"

text \<open>The reply on the wire: an \<open>HTTPException\<close> carries its detail as JSON, which \<open>render\<close> prints; any other exception is
  answered with a plain 500.\<close>

definition serve_agent ::
  "(instant \<Rightarrow> string) \<Rightarrow> (exn \<Rightarrow> string) \<Rightarrow> (json \<Rightarrow> string) \<Rightarrow> (int \<Rightarrow> string) \<Rightarrow> 'w wg_env \<Rightarrow> settings
     \<Rightarrow> string \<Rightarrow> string \<Rightarrow> (string \<times> string) list \<Rightarrow> json option \<Rightarrow> 'w wg_world \<Rightarrow> agent_reply \<times> 'w wg_world" where
  "serve_agent isof exn_text render reason env cfg http_method path headers payload w =
     (case agent_route isof exn_text env cfg http_method path payload of
        None \<Rightarrow> (AgentHttpError 404 (render (JObj [(''detail'', JStr ''Not Found'')])) (reason 404), w)
      | Some handler \<Rightarrow>
          (case aseq (alift (require_agent_auth cfg (map_of headers ''Authorization''))) handler w of
             (Inr j, w') \<Rightarrow> (AgentJson j, w')
           | (Inl (HTTPException code detail), w') \<Rightarrow>
               (AgentHttpError code (render (JObj [(''detail'', JStr detail)])) (reason code), w')
           | (Inl e, w') \<Rightarrow> (AgentHttpError 500 ''Internal Server Error'' (reason 500), w')))"

subsection \<open>Requests to a firewall\<close>

definition validate_connect_target :: "settings \<Rightarrow> string \<Rightarrow> int \<Rightarrow> unit res" where
  "validate_connect_target cfg host port =
     (case (ip_address host, ip_network (cfg_hub_wg_cidr cfg)) of
        (Some (V4 ip), Some (Net4 network)) \<Rightarrow>
          if \<not> in_net4 ip network then Inl (WireGuardError ''WireGuard connect target is outside HUB_WG_CIDR'')
          else if port \<noteq> cfg_opnsense_gui_port cfg
          then Inl (WireGuardError ''WireGuard connect target port is not permitted'')
          else Inr ()
      | (Some _, Some _) \<Rightarrow> Inl (WireGuardError ''WireGuard connect target must be IPv4'')
      | _ \<Rightarrow> Inl (WireGuardError ''invalid WireGuard connect target''))"

definition connect_target :: "settings \<Rightarrow> string \<Rightarrow> int \<Rightarrow> unit res" where
  "connect_target cfg host port =
     (case validate_connect_target cfg host port of
        Inl (WireGuardError m) \<Rightarrow> Inl (HTTPException 400 m) | r \<Rightarrow> r)"

datatype http_result =
    RequestError string string
  | HttpResponse int "(string \<times> string) list" string

type_synonym 'w http_client =
  "string \<Rightarrow> string \<Rightarrow> (string \<times> string) list \<Rightarrow> string \<Rightarrow> 'w \<Rightarrow> http_result \<times> 'w"

definition firewall_url :: "string \<Rightarrow> int \<Rightarrow> string \<Rightarrow> string" where
  "firewall_url host port path = ''https://'' @ host @ '':'' @ int_str port @ path"

record probe_response =
  pr_reachable :: bool
  pr_message :: string

definition probe_webgui :: "'w http_client \<Rightarrow> settings \<Rightarrow> string \<Rightarrow> int \<Rightarrow> ('w, probe_response) act" where
  "probe_webgui client cfg host port =
     abind (alift (connect_target cfg host port)) (\<lambda>_ w.
       let url = firewall_url host port ''/'' in
       case client ''GET'' url [] [] w of
         (RequestError cls detail, w') \<Rightarrow>
           (Inr \<lparr>pr_reachable = False,
              pr_message = ''WebGUI unreachable at '' @ url @ '': '' @ cls @ '': '' @ detail\<rparr>, w')
       | (HttpResponse _ _ _, w') \<Rightarrow>
           (Inr \<lparr>pr_reachable = True, pr_message = ''WebGUI reachable at '' @ url\<rparr>, w'))"

record proxy_payload =
  pp_host :: string
  pp_port :: int
  pp_method :: string
  pp_path :: string
  pp_query :: string
  pp_headers :: "(string \<times> string) list"
  pp_body_b64 :: string

record proxy_reply =
  pr_status_code :: int
  pr_headers :: "(string \<times> string) list"
  pr_body_b64 :: string

definition proxy_methods :: "string list" where
  "proxy_methods = [''GET'', ''POST'', ''PUT'', ''PATCH'', ''DELETE'', ''OPTIONS'']"

definition proxy_path :: "string \<Rightarrow> string" where
  "proxy_path path = (if startswith path ''/'' then path else ''/'' @ path)"

definition proxy_request :: "'w http_client \<Rightarrow> settings \<Rightarrow> proxy_payload \<Rightarrow> ('w, proxy_reply) act" where
  "proxy_request client cfg payload =
     abind (alift (connect_target cfg (pp_host payload) (pp_port payload))) (\<lambda>_.
       let http_method = upper (pp_method payload); path = proxy_path (pp_path payload) in
       if http_method \<notin> set proxy_methods then araise (HTTPException 405 ''method is not supported'')
       else if ''..'' \<in> set (split_on CHR ''/'' path) then araise (HTTPException 400 ''invalid proxy path'')
       else
         let target = firewall_url (pp_host payload) (pp_port payload) path;
             url = (if pp_query payload \<noteq> [] then target @ ''?'' @ pp_query payload else target)
         in case b64decode_strict (pp_body_b64 payload) of
           None \<Rightarrow> araise (HTTPException 400 ''invalid request body'')
         | Some body \<Rightarrow>
             if int (length body) > cfg_max_proxy_request_bytes cfg
             then araise (HTTPException 413 ''proxy request body is too large'')
             else (\<lambda>w.
               case client http_method url (pp_headers payload) body w of
                 (RequestError cls detail, w') \<Rightarrow>
                   (Inl (HTTPException 502 (''WebGUI unreachable at '' @ target @ '': '' @ cls @ '': '' @ detail)), w')
               | (HttpResponse status headers content, w') \<Rightarrow>
                   if int (length content) > cfg_max_proxy_response_bytes cfg
                   then (Inl (HTTPException 502 ''firewall proxy response is too large''), w')
                   else (Inr \<lparr>pr_status_code = status, pr_headers = headers,
                           pr_body_b64 = b64encode content\<rparr>, w')))"

text \<open>The WebSocket handler up to the pumps: how it ends, or that it connects.\<close>

datatype ws_outcome = WsClose int string | WsConnected

definition connect_to_wireguard_peer ::
  "(string \<Rightarrow> int \<Rightarrow> 'w \<Rightarrow> bool \<times> 'w) \<Rightarrow> settings \<Rightarrow> string option \<Rightarrow> string \<Rightarrow> int \<Rightarrow> 'w \<Rightarrow> ws_outcome \<times> 'w" where
  "connect_to_wireguard_peer open_connection cfg authorization host port w =
     (let expected = or_empty (cfg_wg_agent_token cfg) in
      if expected = [] \<or> authorization \<noteq> Some (''Bearer '' @ expected)
      then (WsClose 4401 ''wireguard agent authorization required'', w)
      else case validate_connect_target cfg host port of
        Inl e \<Rightarrow> (WsClose 4502 ''firewall connection failed'', w)
      | Inr _ \<Rightarrow>
          (case open_connection host port w of
             (True, w') \<Rightarrow> (WsConnected, w')
           | (False, w') \<Rightarrow> (WsClose 4502 ''firewall connection failed'', w')))"

end
