(* ===== verification/Wg_Agent_Facts.thy ===== *)
theory Wg_Agent_Facts
  imports Wg_Agent
begin

text \<open>
  What the WireGuard agent lets through: requests to firewalls of the overlay only; and that the driver of the Hub does
  through the agent what it would have done itself.
\<close>

subsection \<open>Addresses of requests\<close>

lemma parse_ipv4_chars:
  assumes "parse_ipv4 s = Some w" "c \<in> set s" shows "is_digit c \<or> c = CHR ''.''"
proof -
  have sub: "c \<in> set u \<Longrightarrow> c = CHR ''.'' \<or> (\<exists>t\<in>set (split_on CHR ''.'' u). c \<in> set t)" for u
    by (induction u) (auto split: list.splits)
  have "list_all is_digit t" if "t \<in> set (split_on CHR ''.'' s)" for t
  proof -
    have "parse_octet t \<noteq> None"
      using assms(1) that by (auto simp: parse_ipv4_def split: list.splits option.splits)
    then show ?thesis by (simp add: parse_octet_def split: if_splits)
  qed
  then show ?thesis using sub [of s] assms(2) by (auto simp: list_all_iff)
qed

lemma plain_char: "is_digit c \<or> c = CHR ''.'' \<Longrightarrow>
    code_of c \<notin> {9, 10, 13} \<and> \<not> is_host_delim c \<and> c \<noteq> CHR ''@'' \<and> c \<noteq> CHR ''['' \<and> c \<noteq> CHR '']''
      \<and> c \<noteq> CHR '':'' \<and> c \<noteq> CHR ''%'' \<and> \<not> is_upper c"
  by (auto simp: is_digit_def is_host_delim_def code_of_def is_upper_def Let_def)

lemma lower_plain: "\<forall>c\<in>set s. \<not> is_upper c \<Longrightarrow> lower s = s"
  by (induction s) (simp_all add: lower_def lower_char_def)

text \<open>A URL made of an IPv4 address, a port and an absolute path names that host and port, whatever the path is.\<close>

lemma firewall_url_target:
  assumes ip: "ip_address host = Some (V4 ip)" and port: "0 \<le> port" "port \<le> 65535"
  shows "\<exists>u. urlparse (firewall_url host port (CHR ''/'' # rest)) = Some u \<and> url_scheme u = ''https''
    \<and> url_hostname u = Some host \<and> url_port u = Some (Some (nat port))"
proof -
  have h: "parse_ipv4 host = Some ip" using ip by (simp add: ip_address_V4_iff)
  have p: "\<forall>c\<in>set host. is_digit c \<or> c = CHR ''.''" using parse_ipv4_chars [OF h] by blast
  have d: "\<forall>c\<in>set (int_str port). is_digit c" using port nat_str_digits by (simp add: int_str_def)
  have ne: "host \<noteq> []" using h by (auto simp: parse_ipv4_def)
  define n where "n = host @ '':'' @ int_str port"
  define r where "r = CHR ''/'' # filter (\<lambda>c. code_of c \<notin> {9, 10, 13}) rest"
  have n_plain: "\<forall>c\<in>set n. code_of c \<notin> {9, 10, 13} \<and> \<not> is_host_delim c \<and> c \<noteq> CHR ''@'' \<and> c \<noteq> CHR ''[''
      \<and> c \<noteq> CHR '']''"
    using p d plain_char by (auto simp: n_def is_host_delim_def code_of_def)
  have san: "url_sanitize (firewall_url host port (CHR ''/'' # rest)) = ''https:'' @ ''//'' @ n @ r"
  proof -
    have "filter (\<lambda>c. code_of c \<notin> {9, 10, 13}) n = n" using n_plain by (simp add: filter_id_conv)
    then show ?thesis
      by (simp add: url_sanitize_def firewall_url_def is_c0_or_space_def code_of_def n_def [symmetric] r_def
          flip: append_assoc) (simp add: n_def r_def code_of_def)
  qed
  have sch: "split_scheme (''https:'' @ ''//'' @ n @ r) = (''https'', ''//'' @ n @ r)"
    by (simp add: split_scheme_def partition_at_def str_eval is_scheme_char_def)
  have nl: "takeWhile (\<lambda>c. \<not> is_host_delim c) (n @ r) = n" "dropWhile (\<lambda>c. \<not> is_host_delim c) (n @ r) = r"
    using n_plain by (simp_all add: r_def is_host_delim_def takeWhile_append2 dropWhile_append2)
  have "CHR ''['' \<notin> set n" "CHR '']'' \<notin> set n" using n_plain by blast+
  then have ok: "netloc_ok n" by (simp add: netloc_ok_def)
  have dr: "startswith (''//'' @ n @ r) ''//''" "drop 2 (''//'' @ n @ r) = n @ r" by simp_all
  have "\<exists>u. urlparse (firewall_url host port (CHR ''/'' # rest)) = Some u \<and> url_scheme u = ''https'' \<and> url_netloc u = n"
    unfolding urlparse_def san sch prod.case Let_def dr nl if_True using ok
    by (simp split: prod.split)
  then obtain u where u: "urlparse (firewall_url host port (CHR ''/'' # rest)) = Some u" "url_scheme u = ''https''"
    "url_netloc u = n" by blast
  have hp: "host_part n = n" using n_plain by (auto simp: host_part_def rpartition_at_def)
  have hi: "hostinfo n = (host, Some (int_str port))"
  proof -
    have "CHR '':'' \<notin> set host" "CHR ''['' \<notin> set n" using p plain_char n_plain by blast+
    then have "partition_at CHR '':'' n = (True, host, int_str port)" "partition_at CHR ''['' n = (False, n, [])"
      by (simp_all add: n_def partition_at_def takeWhile_neq_append dropWhile_neq_append)
    moreover have "int_str port \<noteq> []" using port by (simp add: int_str_def)
    ultimately show ?thesis unfolding hostinfo_def Let_def hp by simp
  qed
  have "url_hostname u = Some host"
    using p plain_char ne lower_plain [of host] by (auto simp: url_hostname_def u hi partition_at_def)
  moreover have "url_port u = Some (Some (nat port))"
    using d port by (simp add: url_port_def u hi list_all_iff int_str_def)
  ultimately show ?thesis using u by blast
qed

subsection \<open>Requests are confined to firewalls\<close>

text \<open>A client that keeps a list of the requests it was asked for.\<close>

definition logged_client :: "'w http_client \<Rightarrow> ('w \<times> (string \<times> string \<times> string) list) http_client" where
  "logged_client client http_method url headers body = (\<lambda>(w, log).
     case client http_method url headers body w of (r, w') \<Rightarrow> (r, (w', log @ [(http_method, url, body)])))"

definition confined :: "settings \<Rightarrow> string \<times> string \<times> string \<Rightarrow> bool" where
  "confined cfg = (\<lambda>(http_method, url, body).
     http_method \<in> set proxy_methods
   \<and> (body = [] \<or> int (length body) \<le> cfg_max_proxy_request_bytes cfg)
   \<and> (\<exists>u host ip network. urlparse url = Some u \<and> url_scheme u = ''https''
        \<and> url_hostname u = Some host \<and> url_port u = Some (Some (nat (cfg_opnsense_gui_port cfg)))
        \<and> ip_address host = Some (V4 ip) \<and> ip_network (cfg_hub_wg_cidr cfg) = Some (Net4 network) \<and> in_net4 ip network))"

lemma connect_target_Inr:
  "connect_target cfg host port = Inr () \<Longrightarrow>
     \<exists>ip network. ip_address host = Some (V4 ip) \<and> ip_network (cfg_hub_wg_cidr cfg) = Some (Net4 network)
       \<and> in_net4 ip network \<and> port = cfg_opnsense_gui_port cfg"
  "validate_connect_target cfg host port = Inr () \<Longrightarrow> connect_target cfg host port = Inr ()"
  by (auto simp: connect_target_def validate_connect_target_def split: option.splits ip_addr.splits ip_net.splits
      if_splits exn.splits sum.splits)

lemma confined_url:
  assumes "connect_target cfg host port = Inr ()" "0 \<le> cfg_opnsense_gui_port cfg" "cfg_opnsense_gui_port cfg \<le> 65535"
    and "http_method \<in> set proxy_methods" "body = [] \<or> int (length body) \<le> cfg_max_proxy_request_bytes cfg"
  shows "confined cfg (http_method, firewall_url host port (CHR ''/'' # rest), body)"
  using connect_target_Inr(1) [OF assms(1)] firewall_url_target [of host _ port rest] assms(2-5)
  unfolding confined_def by fastforce

lemma proxy_path_absolute: "\<exists>rest. proxy_path path = CHR ''/'' # rest"
  by (cases path) (auto simp: proxy_path_def)

lemma url_suffix: "firewall_url host port path @ q = firewall_url host port (path @ q)"
  by (simp add: firewall_url_def)

lemma proxy_request_confined:
  assumes port: "0 \<le> cfg_opnsense_gui_port cfg" "cfg_opnsense_gui_port cfg \<le> 65535" and log: "list_all (confined cfg) log"
  shows "list_all (confined cfg) (snd (snd (proxy_request (logged_client client) cfg payload (w, log))))"
proof (cases "connect_target cfg (pp_host payload) (pp_port payload)")
  case (Inl e)
  then show ?thesis using log by (simp add: proxy_request_def abind_def)
next
  case (Inr x)
  obtain rest where rest: "proxy_path (pp_path payload) = CHR ''/'' # rest" using proxy_path_absolute by blast
  have c: "m \<in> set proxy_methods \<Longrightarrow> int (length b) \<le> cfg_max_proxy_request_bytes cfg \<Longrightarrow>
      confined cfg (m, firewall_url (pp_host payload) (pp_port payload) (CHR ''/'' # t), b)" for m b t
    using confined_url [OF _ port] Inr by simp
  show ?thesis
    unfolding proxy_request_def rest abind_def
    using log Inr c
    by (auto simp: Let_def logged_client_def url_suffix split: prod.split http_result.split option.split)
qed


definition example_payload :: proxy_payload where
  "example_payload = \<lparr>pp_host = ''100.96.0.7'', pp_port = 443, pp_method = ''get'', pp_path = ''index.php'', pp_query = ''a=1'',
     pp_headers = [], pp_body_b64 = []\<rparr>"


subsection \<open>The driver through the agent\<close>

text \<open>The agent runs with the settings of the Hub in agent mode.\<close>

definition agent_settings :: "settings \<Rightarrow> settings" where
  "agent_settings cfg = cfg\<lparr>cfg_wg_agent_mode := True, cfg_wg_agent_url := None\<rparr>"

text \<open>The environment of a Hub whose agent is this one: the world beyond the Hub is the world of the agent.\<close>

definition through_agent ::
  "(instant \<Rightarrow> string) \<Rightarrow> (exn \<Rightarrow> string) \<Rightarrow> (json \<Rightarrow> string) \<Rightarrow> (int \<Rightarrow> string) \<Rightarrow> 'a wg_env \<Rightarrow> settings
     \<Rightarrow> 'a wg_world wg_env" where
  "through_agent isof exn_text render reason env cfg =
     \<lparr>we_run = (\<lambda>_ _ w. (NotFound, w)),
      we_agent = (\<lambda>http_method url headers payload w.
        let base = rstrip_chars ''/'' (or_empty (cfg_wg_agent_url cfg)) in
        if startswith url base
        then serve_agent isof exn_text render reason env (agent_settings cfg) http_method (drop (length base) url)
               headers payload w
        else (AgentUrlError ''connection refused'', w))\<rparr>"

definition driver_refuses :: "exn \<Rightarrow> bool" where
  "driver_refuses e \<longleftrightarrow> e = ValueError \<or> is_wireguard_error e"

text \<open>An operation of the Hub that has the effect and the result of an operation on the agent's world; whatever is raised there
  is an error that the callers of the driver handle.\<close>

definition as_local :: "('a wg_world wg_world, 'x) act \<Rightarrow> ('a wg_world, 'x) act \<Rightarrow> bool" where
  "as_local hub loc \<longleftrightarrow>
     (\<forall>w. snd (hub w) = w\<lparr>wg_ext := snd (loc (wg_ext w))\<rparr>
        \<and> (\<forall>x. fst (loc (wg_ext w)) = Inr x \<longrightarrow> fst (hub w) = Inr x)
        \<and> (\<forall>e. fst (loc (wg_ext w)) = Inl e \<longrightarrow> (\<exists>e'. fst (hub w) = Inl e' \<and> driver_refuses e')))"

lemma local_agent_settings:
  "ensure_server_keypair_local env (agent_settings cfg) = ensure_server_keypair_local env cfg"
  "render_server_config_local env (agent_settings cfg) = render_server_config_local env cfg"
  "ensure_server_interface_local env (agent_settings cfg) = ensure_server_interface_local env cfg"
  "add_peer_local env (agent_settings cfg) = add_peer_local env cfg"
  "remove_peer_local env (agent_settings cfg) = remove_peer_local env cfg"
  "sync_peer_payloads_local env (agent_settings cfg) = sync_peer_payloads_local env cfg"
  "get_runtime_peers_local env (agent_settings cfg) = get_runtime_peers_local env cfg"
proof -
  have v: "get_validated_hub_wireguard_config (agent_settings cfg) = get_validated_hub_wireguard_config cfg"
    by (simp add: get_validated_hub_wireguard_config_def agent_settings_def)
  have s: "cfg_wg_dry_run (agent_settings cfg) = cfg_wg_dry_run cfg"
    "cfg_wg_server_public_key (agent_settings cfg) = cfg_wg_server_public_key cfg"
    "cfg_wg_interface (agent_settings cfg) = cfg_wg_interface cfg"
    "cfg_wg_config_path (agent_settings cfg) = cfg_wg_config_path cfg"
    "cfg_wg_server_private_key_path (agent_settings cfg) = cfg_wg_server_private_key_path cfg"
    "cfg_hub_wg_listen_port (agent_settings cfg) = cfg_hub_wg_listen_port cfg"
    by (simp_all add: agent_settings_def)
  show k: "ensure_server_keypair_local env (agent_settings cfg) = ensure_server_keypair_local env cfg"
    unfolding ensure_server_keypair_local_def v s ..
  show r: "render_server_config_local env (agent_settings cfg) = render_server_config_local env cfg"
    unfolding render_server_config_local_def v s k server_config_text_def ..
  show i: "ensure_server_interface_local env (agent_settings cfg) = ensure_server_interface_local env cfg"
    unfolding ensure_server_interface_local_def interface_exists_local_def r s ..
  show a: "add_peer_local env (agent_settings cfg) = add_peer_local env cfg"
    unfolding fun_eq_iff add_peer_local_def check_peer_def v s i by simp
  show "remove_peer_local env (agent_settings cfg) = remove_peer_local env cfg"
    unfolding fun_eq_iff remove_peer_local_def s i by simp
  show "sync_peer_payloads_local env (agent_settings cfg) = sync_peer_payloads_local env cfg"
    unfolding fun_eq_iff sync_peer_payloads_local_def s i a by simp
  show "get_runtime_peers_local env (agent_settings cfg) = get_runtime_peers_local env cfg"
    unfolding get_runtime_peers_local_def s ..
qed

fun answer :: "(json \<Rightarrow> string) \<Rightarrow> (int \<Rightarrow> string) \<Rightarrow> json res \<Rightarrow> agent_reply" where
  "answer render reason (Inr j) = AgentJson j"
| "answer render reason (Inl (HTTPException code detail)) =
     AgentHttpError code (render (JObj [(''detail'', JStr detail)])) (reason code)"
| "answer render reason (Inl e) = AgentHttpError 500 ''Internal Server Error'' (reason 500)"

lemma serve_authorised:
  assumes "agent_route isof exn_text env cfg http_method path payload = Some handler"
    and "require_agent_auth cfg (map_of headers ''Authorization'') = Inr ()" and "handler w = (r, a)"
  shows "serve_agent isof exn_text render reason env cfg http_method path headers payload w = (answer render reason r, a)"
proof -
  have "aseq (alift (require_agent_auth cfg (map_of headers ''Authorization''))) handler w = (r, a)"
    using assms(2,3) by (simp add: aseq_def abind_def)
  then show ?thesis
    by (cases "(render, reason, r)" rule: answer.cases) (simp_all add: serve_agent_def assms(1))
qed

lemma request_through:
  assumes en: "agent_enabled cfg" and tok: "nonempty (cfg_wg_agent_token cfg)"
    and route: "agent_route isof exn_text env (agent_settings cfg) http_method path payload = Some handler"
    and eff: "handler (wg_ext w) = (r, a)"
  shows "snd (agent_request (through_agent isof exn_text render reason env cfg) cfg http_method path payload w)
      = w\<lparr>wg_ext := a\<rparr>"
    and "r = Inr j \<Longrightarrow>
      fst (agent_request (through_agent isof exn_text render reason env cfg) cfg http_method path payload w) = Inr (Some j)"
    and "r = Inl e \<Longrightarrow> \<exists>m.
      fst (agent_request (through_agent isof exn_text render reason env cfg) cfg http_method path payload w)
        = Inl (WireGuardError m)"
proof -
  obtain u where u: "cfg_wg_agent_url cfg = Some u" "nonempty (Some u)"
    using en by (cases "cfg_wg_agent_url cfg") (auto simp: agent_enabled_def)
  obtain t where t: "cfg_wg_agent_token cfg = Some t" "nonempty (Some t)"
    using tok by (cases "cfg_wg_agent_token cfg") auto
  define hs where "hs = [(''Content-Type'', ''application/json''), (''Authorization'', ''Bearer '' @ t)]"
  have auth: "require_agent_auth (agent_settings cfg) (map_of hs ''Authorization'') = Inr ()"
    using t by (cases t) (simp_all add: hs_def require_agent_auth_def agent_settings_def or_empty_def)
  have hdr: "agent_headers cfg = Inr hs" using t by (simp add: agent_headers_def hs_def)
  have srv: "we_agent (through_agent isof exn_text render reason env cfg) http_method (rstrip_chars ''/'' u @ path) hs payload
      (wg_ext w) = (answer render reason r, a)"
    by (simp add: through_agent_def u(1) or_empty_def serve_authorised [OF route auth eff])
  have req: "agent_request (through_agent isof exn_text render reason env cfg) cfg http_method path payload w
      = ((case answer render reason r of AgentJson j \<Rightarrow> Inr (Some j)
          | AgentHttpError code detail rs \<Rightarrow> Inl (WireGuardError (''WireGuard agent request failed with HTTP '' @ int_str code
                    @ '': '' @ (if detail \<noteq> [] then detail else rs)))
          | _ \<Rightarrow> Inr None), w\<lparr>wg_ext := a\<rparr>)"
    unfolding agent_request_def hdr u(1) abind_alift_Inr option.sel srv
    by (cases "(render, reason, r)" rule: answer.cases) (use u(2) srv in simp_all)
  show "snd (agent_request (through_agent isof exn_text render reason env cfg) cfg http_method path payload w)
      = w\<lparr>wg_ext := a\<rparr>" by (simp add: req)
  show "r = Inr j \<Longrightarrow>
      fst (agent_request (through_agent isof exn_text render reason env cfg) cfg http_method path payload w) = Inr (Some j)"
    by (simp add: req)
  show "r = Inl e \<Longrightarrow> \<exists>m.
      fst (agent_request (through_agent isof exn_text render reason env cfg) cfg http_method path payload w)
        = Inl (WireGuardError m)"
    unfolding req by (cases e) simp_all
qed

text \<open>An operation that sends one request and drops the answer.\<close>

lemma as_local_request:
  assumes "agent_enabled cfg" "nonempty (cfg_wg_agent_token cfg)"
    and "agent_route isof exn_text env (agent_settings cfg) http_method path payload
      = Some (http_errors exn_text code caught (aseq loc (aret j)))"
  shows "as_local (abind (agent_request (through_agent isof exn_text render reason env cfg) cfg http_method path payload)
      (\<lambda>_. aret ())) loc"
  unfolding as_local_def
proof
  fix w :: "'a wg_world wg_world"
  obtain r a where l: "loc (wg_ext w) = (r, a)" by (cases "loc (wg_ext w)")
  let ?r = "case r of Inr _ \<Rightarrow> Inr j
    | Inl e \<Rightarrow> Inl (if caught e then HTTPException code (error_detail exn_text e) else e)"
  have e: "http_errors exn_text code caught (aseq loc (aret j)) (wg_ext w) = (?r, a)"
    by (cases r) (simp_all add: http_errors_def aseq_def abind_def l)
  note req = request_through [where render = render and reason = reason, OF assms e]
  let ?req = "agent_request (through_agent isof exn_text render reason env cfg) cfg http_method path payload w"
  show "snd (abind (agent_request (through_agent isof exn_text render reason env cfg) cfg http_method path payload)
        (\<lambda>_. aret ()) w) = w\<lparr>wg_ext := snd (loc (wg_ext w))\<rparr>
      \<and> (\<forall>x. fst (loc (wg_ext w)) = Inr x \<longrightarrow>
           fst (abind (agent_request (through_agent isof exn_text render reason env cfg) cfg http_method path payload)
             (\<lambda>_. aret ()) w) = Inr x)
      \<and> (\<forall>e. fst (loc (wg_ext w)) = Inl e \<longrightarrow> (\<exists>e'.
           fst (abind (agent_request (through_agent isof exn_text render reason env cfg) cfg http_method path payload)
             (\<lambda>_. aret ()) w) = Inl e' \<and> driver_refuses e'))"
  proof (cases r)
    case (Inl e)
    then obtain m where "fst ?req = Inl (WireGuardError m)" using req(3) by fastforce
    then show ?thesis using req(1) Inl l
      by (cases ?req) (simp add: abind_def driver_refuses_def)
  next
    case (Inr x)
    then have "fst ?req = Inr (Some j)" using req(2) by simp
    then show ?thesis using req(1) Inr l by (cases ?req) (simp add: abind_def)
  qed
qed

text \<open>A check that both sides make first.\<close>

lemma as_local_checked:
  assumes "\<And>e. r = Inl e \<Longrightarrow> driver_refuses e \<and> (\<forall>s. \<exists>e'. loc s = (Inl e', s))"
    and "\<And>x. r = Inr x \<Longrightarrow> as_local (f x) loc"
  shows "as_local (abind (alift r) f) loc"
proof (cases r)
  case (Inl e)
  then have d: "driver_refuses e" and "\<forall>s. \<exists>e'. loc s = (Inl e', s)" using assms(1) by auto
  then obtain E where "loc s = (Inl (E s), s)" for s by metis
  then show ?thesis using d Inl by (simp add: as_local_def abind_def)
next
  case (Inr x)
  then show ?thesis using assms(2) by (simp add: abind_alift_Inr)
qed

lemma config_refuses: "get_validated_hub_wireguard_config cfg = Inl e \<Longrightarrow> driver_refuses e"
  by (auto simp: get_validated_hub_wireguard_config_def validate_hub_wireguard_config_def driver_refuses_def
      split: option.splits ip_net.splits ip_iface.splits if_splits)

lemma check_peer_refuses:
  assumes "check_peer cfg k ip = Inl e" shows "driver_refuses e"
proof (cases "get_validated_hub_wireguard_config cfg")
  case (Inl e')
  then show ?thesis using assms config_refuses by (simp add: check_peer_def)
next
  case (Inr vc)
  show ?thesis
  proof (cases "ip_address ip")
    case None
    with Inr assms show ?thesis
      by (auto simp: check_peer_def driver_refuses_def validate_public_key_def split: if_splits)
  next
    case (Some x)
    with Inr assms show ?thesis
      by (cases x) (auto simp: check_peer_def driver_refuses_def validate_public_key_def split: if_splits)
  qed
qed

lemma check_peer_show:
  assumes "check_peer cfg k ip = Inr w" shows "check_peer cfg k (show_ipv4 w) = Inr w"
proof (cases "ip_address ip")
  case None
  then show ?thesis using assms by (auto simp: check_peer_def rbind_Inr_iff)
next
  case (Some x)
  with assms show ?thesis by (cases x) (auto simp: check_peer_def rbind_Inr_iff split: if_splits)
qed

lemma add_peer_through:
  assumes "agent_enabled cfg" "nonempty (cfg_wg_agent_token cfg)" "\<not> cfg_wg_dry_run cfg"
  shows "as_local (add_peer (through_agent isof exn_text render reason env cfg) cfg public_key tunnel_ip)
    (add_peer_local env cfg public_key tunnel_ip)"
proof -
  have loc: "add_peer_local env cfg public_key tunnel_ip = add_peer_local env cfg public_key (show_ipv4 ip)"
    if "check_peer cfg public_key tunnel_ip = Inr ip" for ip
    using that check_peer_show [OF that] by (simp add: add_peer_local_def)
  have rt: "agent_route isof exn_text env (agent_settings cfg) ''POST'' ''/peers''
      (Some (JObj [(''public_key'', JStr public_key), (''tunnel_ip'', JStr (show_ipv4 ip))]))
    = Some (http_errors exn_text 400 (\<lambda>e. e = ValueError \<or> is_wireguard_error e)
        (aseq (add_peer_local env cfg public_key (show_ipv4 ip)) (aret status_ok)))" for ip
    by (simp add: agent_route_def with_body_def peer_request_def add_peer_endpoint_def local_agent_settings)
  show ?thesis
    unfolding add_peer_def
  proof (rule as_local_checked)
    fix e assume e: "check_peer cfg public_key tunnel_ip = Inl e"
    then show "driver_refuses e \<and> (\<forall>s. \<exists>e'. add_peer_local env cfg public_key tunnel_ip s = (Inl e', s))"
      by (simp add: check_peer_refuses add_peer_local_def abind_def)
  next
    fix ip assume "check_peer cfg public_key tunnel_ip = Inr ip"
    then show "as_local (if cfg_wg_dry_run cfg then aret () else if agent_enabled cfg
        then abind (agent_request (through_agent isof exn_text render reason env cfg) cfg ''POST'' ''/peers''
               (Some (JObj [(''public_key'', JStr public_key), (''tunnel_ip'', JStr (show_ipv4 ip))]))) (\<lambda>_. aret ())
        else add_peer_local (through_agent isof exn_text render reason env cfg) cfg public_key (show_ipv4 ip))
      (add_peer_local env cfg public_key tunnel_ip)"
      using as_local_request [OF assms(1,2) rt] assms loc by simp
  qed
qed

lemma peer_sync_payload: "peer_sync_request (peers_payload ps) = Some ps"
proof -
  have "list_all (\<lambda>p. peer_request p \<noteq> None) (map (\<lambda>(k, ip). JObj [(''public_key'', JStr k), (''tunnel_ip'', JStr ip)]) ps)
    \<and> map (the \<circ> peer_request) (map (\<lambda>(k, ip). JObj [(''public_key'', JStr k), (''tunnel_ip'', JStr ip)]) ps) = ps"
    by (induction ps) (auto simp: peer_request_def)
  then show ?thesis by (simp add: peer_sync_request_def peers_payload_def)
qed

lemma remove_peer_through:
  assumes "agent_enabled cfg" "nonempty (cfg_wg_agent_token cfg)" "\<not> cfg_wg_dry_run cfg"
  shows "as_local (remove_peer (through_agent isof exn_text render reason env cfg) cfg public_key)
    (remove_peer_local env cfg public_key)"
proof -
  have loc: "aseq (alift (validate_public_key public_key)) (aseq (remove_peer_local env cfg public_key) n)
      = aseq (remove_peer_local env cfg public_key) n" for n :: "('a wg_world, json) act"
    by (cases "validate_public_key public_key") (simp_all add: remove_peer_local_def aseq_def abind_def fun_eq_iff)
  have rt: "agent_route isof exn_text env (agent_settings cfg) ''POST'' ''/peers/remove''
      (Some (JObj [(''public_key'', JStr public_key)]))
    = Some (http_errors exn_text 400 is_wireguard_error (aseq (remove_peer_local env cfg public_key) (aret status_ok)))"
    by (simp add: agent_route_def with_body_def remove_peer_request_def remove_peer_endpoint_def local_agent_settings loc)
  show ?thesis
    unfolding remove_peer_def aseq_def [of "alift (validate_public_key public_key)"]
  proof (rule as_local_checked)
    fix e assume e: "validate_public_key public_key = Inl e"
    then show "driver_refuses e \<and> (\<forall>s. \<exists>e'. remove_peer_local env cfg public_key s = (Inl e', s))"
      by (auto simp: validate_public_key_def driver_refuses_def remove_peer_local_def aseq_def abind_def split: if_splits)
  next
    show "as_local (if cfg_wg_dry_run cfg then aret () else if agent_enabled cfg
        then abind (agent_request (through_agent isof exn_text render reason env cfg) cfg ''POST'' ''/peers/remove''
               (Some (JObj [(''public_key'', JStr public_key)]))) (\<lambda>_. aret ())
        else remove_peer_local (through_agent isof exn_text render reason env cfg) cfg public_key)
      (remove_peer_local env cfg public_key)"
      using as_local_request [OF assms(1,2) rt] assms by simp
  qed
qed

lemma interface_through:
  assumes "agent_enabled cfg" "nonempty (cfg_wg_agent_token cfg)" "\<not> cfg_wg_dry_run cfg"
  shows "as_local (ensure_server_interface (through_agent isof exn_text render reason env cfg) cfg)
      (ensure_server_interface_local env cfg)"
    "as_local (render_server_config (through_agent isof exn_text render reason env cfg) cfg)
      (render_server_config_local env cfg)"
proof -
  have "agent_route isof exn_text env (agent_settings cfg) ''POST'' ''/interface'' (Some (JObj []))
    = Some (http_errors exn_text 500 is_wireguard_error (aseq (ensure_server_interface_local env cfg) (aret status_ok)))"
    "agent_route isof exn_text env (agent_settings cfg) ''POST'' ''/render-config'' (Some (JObj []))
    = Some (http_errors exn_text 500 is_wireguard_error (aseq (render_server_config_local env cfg) (aret status_ok)))"
    by (simp_all add: agent_route_def ensure_interface_endpoint_def render_config_endpoint_def local_agent_settings)
  note r = this [THEN as_local_request [OF assms(1,2)]]
  show "as_local (ensure_server_interface (through_agent isof exn_text render reason env cfg) cfg)
      (ensure_server_interface_local env cfg)"
    "as_local (render_server_config (through_agent isof exn_text render reason env cfg) cfg)
      (render_server_config_local env cfg)"
    using r assms by (simp_all add: ensure_server_interface_def render_server_config_def)
qed

definition bootstrap_local :: "'w wg_env \<Rightarrow> settings \<Rightarrow> (string \<times> string) list \<Rightarrow> ('w wg_world, unit) act" where
  "bootstrap_local env cfg peers =
     abind (alift (get_validated_hub_wireguard_config cfg)) (\<lambda>_.
       aseq (ensure_server_interface_local env cfg) (sync_peer_payloads_local env cfg peers))"

lemma aseq_assoc: "aseq (aseq m n) k = aseq m (aseq n k)"
  by (rule ext) (simp add: aseq_def abind_def split: prod.split sum.split)

lemma sync_through:
  assumes "agent_enabled cfg" "nonempty (cfg_wg_agent_token cfg)" "\<not> cfg_wg_dry_run cfg"
  shows "as_local (sync_existing_peers (through_agent isof exn_text render reason env cfg) cfg db)
      (sync_peer_payloads_local env cfg (active_peers db))"
    "as_local (bootstrap_wireguard (through_agent isof exn_text render reason env cfg) cfg db)
      (bootstrap_local env cfg (active_peers db))"
proof -
  let ?p = "active_peers db"
  have "agent_route isof exn_text env (agent_settings cfg) ''POST'' ''/sync-peers'' (Some (peers_payload ?p))
    = Some (http_errors exn_text 500 is_wireguard_error (aseq (sync_peer_payloads_local env cfg ?p) (aret status_ok)))"
    "agent_route isof exn_text env (agent_settings cfg) ''POST'' ''/bootstrap'' (Some (peers_payload ?p))
    = Some (http_errors exn_text 500 is_wireguard_error
        (aseq (aseq (ensure_server_interface_local env cfg) (sync_peer_payloads_local env cfg ?p)) (aret status_ok)))"
    by (simp_all add: agent_route_def with_body_def peer_sync_payload sync_peers_endpoint_def bootstrap_endpoint_def
        local_agent_settings aseq_assoc)
  note r = this [THEN as_local_request [OF assms(1,2)]]
  show "as_local (sync_existing_peers (through_agent isof exn_text render reason env cfg) cfg db)
      (sync_peer_payloads_local env cfg ?p)"
    using r(1) assms by (simp add: sync_existing_peers_def)
  show "as_local (bootstrap_wireguard (through_agent isof exn_text render reason env cfg) cfg db)
      (bootstrap_local env cfg ?p)"
    unfolding bootstrap_wireguard_def
  proof (rule as_local_checked)
    fix e assume "get_validated_hub_wireguard_config cfg = Inl e"
    then show "driver_refuses e \<and> (\<forall>s. \<exists>e'. bootstrap_local env cfg ?p s = (Inl e', s))"
      by (simp add: config_refuses bootstrap_local_def abind_def)
  next
    fix vc assume "get_validated_hub_wireguard_config cfg = Inr vc"
    then show "as_local (if cfg_wg_dry_run cfg then aret () else if agent_enabled cfg
        then abind (agent_request (through_agent isof exn_text render reason env cfg) cfg ''POST'' ''/bootstrap''
          (Some (peers_payload ?p))) (\<lambda>_. aret ())
        else aseq (ensure_server_interface_local (through_agent isof exn_text render reason env cfg) cfg)
          (sync_peer_payloads_local (through_agent isof exn_text render reason env cfg) cfg ?p))
      (bootstrap_local env cfg ?p)"
      using r(2) assms by (simp add: bootstrap_local_def abind_alift_Inr)
  qed
qed

text \<open>An operation that decodes the answer.\<close>

lemma as_local_decode:
  fixes loc :: "('a wg_world, 'x) act"
  assumes "agent_enabled cfg" "nonempty (cfg_wg_agent_token cfg)"
    and "agent_route isof exn_text env (agent_settings cfg) http_method path payload
      = Some (http_errors exn_text code caught (abind loc (\<lambda>x. aret (enc x))))"
    and dec: "\<And>s x s'. loc s = (Inr x, s') \<Longrightarrow> dec (Some (enc x)) = Inr x"
  shows "as_local (abind (agent_request (through_agent isof exn_text render reason env cfg) cfg http_method path payload)
      (\<lambda>body. alift (dec body))) loc"
proof -
  let ?act = "abind (agent_request (through_agent isof exn_text render reason env cfg) cfg http_method path payload)
      (\<lambda>body. alift (dec body))"
  have "snd (?act w) = w\<lparr>wg_ext := snd (loc (wg_ext w))\<rparr>
      \<and> (\<forall>x. fst (loc (wg_ext w)) = Inr x \<longrightarrow> fst (?act w) = Inr x)
      \<and> (\<forall>e. fst (loc (wg_ext w)) = Inl e \<longrightarrow> (\<exists>e'. fst (?act w) = Inl e' \<and> driver_refuses e'))" for w
  proof -
    obtain r a where l: "loc (wg_ext w) = (r, a)" by (cases "loc (wg_ext w)")
    let ?r = "case r of Inr x \<Rightarrow> Inr (enc x)
      | Inl e \<Rightarrow> Inl (if caught e then HTTPException code (error_detail exn_text e) else e)"
    have e: "http_errors exn_text code caught (abind loc (\<lambda>x. aret (enc x))) (wg_ext w) = (?r, a)"
      by (cases r) (simp_all add: http_errors_def abind_def l)
    note req = request_through [where render = render and reason = reason, OF assms(1-3) e]
    let ?req = "agent_request (through_agent isof exn_text render reason env cfg) cfg http_method path payload w"
    show ?thesis
    proof (cases r)
      case (Inl e)
      then obtain m where "fst ?req = Inl (WireGuardError m)" using req(3) by fastforce
      then show ?thesis using req(1) Inl l by (cases ?req) (simp add: abind_def driver_refuses_def)
    next
      case (Inr x)
      then have "fst ?req = Inr (Some (enc x))" using req(2) by simp
      then show ?thesis using req(1) Inr l dec by (cases ?req) (simp add: abind_def)
    qed
  qed
  then show ?thesis unfolding as_local_def by blast
qed

lemma local_key_valid:
  "\<not> cfg_wg_dry_run cfg \<Longrightarrow> ensure_server_keypair_local env cfg s = (Inr k, s') \<Longrightarrow> validate_public_key k = Inr ()"
  by (auto simp: ensure_server_keypair_local_def abind_Inr_iff aseq_Inr_iff)

lemma keypair_through:
  assumes "agent_enabled cfg" "nonempty (cfg_wg_agent_token cfg)" "\<not> cfg_wg_dry_run cfg"
  shows "as_local (ensure_server_keypair (through_agent isof exn_text render reason env cfg) cfg)
      (ensure_server_keypair_local env cfg)"
proof -
  define dec where "dec body = rbind (json_get body ''public_key'') (\<lambda>v.
      let public_key = (case v of Some (JStr s) \<Rightarrow> s | _ \<Rightarrow> []) in
      rbind (validate_public_key public_key) (\<lambda>_. Inr public_key))" for body
  have split: "abind (alift r) (\<lambda>v. let k = g v in aseq (alift (validate_public_key k)) (aret k))
      = alift (rbind r (\<lambda>v. let k = g v in rbind (validate_public_key k) (\<lambda>_. Inr k)))"
    for r :: "json option res" and g :: "json option \<Rightarrow> string"
  proof (cases r)
    case (Inr v)
    then show ?thesis
      by (cases "validate_public_key (g v)") (simp_all add: fun_eq_iff abind_def aseq_def Let_def)
  qed (simp add: fun_eq_iff abind_def)
  have "agent_route isof exn_text env (agent_settings cfg) ''GET'' ''/server-public-key'' None
    = Some (http_errors exn_text 500 is_wireguard_error
        (abind (ensure_server_keypair_local env cfg) (\<lambda>k. aret (JObj [(''public_key'', JStr k)]))))"
    by (simp add: agent_route_def server_public_key_endpoint_def local_agent_settings)
  then have "as_local (abind (agent_request (through_agent isof exn_text render reason env cfg) cfg ''GET''
      ''/server-public-key'' None) (\<lambda>body. alift (dec body))) (ensure_server_keypair_local env cfg)"
    by (rule as_local_decode [OF assms(1,2)])
      (frule local_key_valid [OF assms(3)], simp add: dec_def json_get_def)
  then show ?thesis using assms by (simp add: ensure_server_keypair_def split dec_def)
qed

lemma runtime_peer_payload:
  assumes "\<forall>t. iso_parse (isof t) = Some t \<and> isof t \<noteq> []"
  shows "runtime_peer_from_payload iso_parse (runtime_peer_to_payload isof p) = Inr p"
proof -
  have "map (py_str \<circ> JStr) ips = ips" for ips by (induction ips) simp_all
  then show ?thesis using assms by (cases p)
    (auto simp: runtime_peer_from_payload_def runtime_peer_to_payload_def int_field_def str_field_def
      split: option.split)
qed

lemma peers_through:
  assumes "agent_enabled cfg" "nonempty (cfg_wg_agent_token cfg)" "\<not> cfg_wg_dry_run cfg"
    and codec: "\<forall>t. iso_parse (isof t) = Some t \<and> isof t \<noteq> []"
  shows "as_local (get_runtime_peers iso_parse (through_agent isof exn_text render reason env cfg) cfg)
      (get_runtime_peers_local env cfg)"
proof -
  define dec where "dec body = rbind (json_get body ''peers'') (\<lambda>v. case v of
        None \<Rightarrow> Inr []
      | Some (JList ps) \<Rightarrow> rmap_list (runtime_peer_from_payload iso_parse) ps
      | Some _ \<Rightarrow> Inl TypeError)" for body
  have split: "abind (alift r) (\<lambda>v. alift (g v)) = alift (rbind r g)"
    for r :: "json option res" and g :: "json option \<Rightarrow> runtime_peer list res"
    by (cases r) (simp_all add: fun_eq_iff abind_def)
  have all: "rmap_list (runtime_peer_from_payload iso_parse) (map (runtime_peer_to_payload isof) ps) = Inr ps" for ps
    by (induction ps) (simp_all add: runtime_peer_payload [OF codec])
  have "agent_route isof exn_text env (agent_settings cfg) ''GET'' ''/peers'' None
    = Some (http_errors exn_text 500 is_wireguard_error
        (abind (get_runtime_peers_local env cfg) (\<lambda>ps. aret (JObj [(''peers'', JList (map (runtime_peer_to_payload isof) ps))]))))"
    by (simp add: agent_route_def peers_endpoint_def local_agent_settings)
  then have "as_local (abind (agent_request (through_agent isof exn_text render reason env cfg) cfg ''GET''
      ''/peers'' None) (\<lambda>body. alift (dec body))) (get_runtime_peers_local env cfg)"
    by (rule as_local_decode [OF assms(1,2)]) (simp add: dec_def json_get_def all)
  then show ?thesis using assms by (simp add: get_runtime_peers_def split dec_def)
qed


definition example_iso :: "instant \<Rightarrow> string" where
  "example_iso t = (if t < 0 then ''-'' else ''+'') @ nat_str (nat \<bar>t\<bar>)"

definition example_iso_parse :: "string \<Rightarrow> instant option" where
  "example_iso_parse s =
     (case s of [] \<Rightarrow> None | c # ds \<Rightarrow> map_option (\<lambda>n. if c = CHR ''-'' then - n else n) (py_int ds))"

lemma example_iso_codec: "\<forall>t. example_iso_parse (example_iso t) = Some t \<and> example_iso t \<noteq> []"
  by (simp add: example_iso_parse_def example_iso_def)


end
