(* ===== verification/Py_Json_Indent.thy ===== *)
theory Py_Json_Indent
  imports Py_Json_Text
begin

text \<open>
  \<open>json.dumps(value, indent=2, sort_keys=True)\<close>, and that \<open>json.loads\<close> reads it back: a value is followed by
  a comma, a closing bracket or the line break before one.
\<close>

definition line_indent :: "nat \<Rightarrow> string" where
  "line_indent k = CHR 0x0A # replicate (2 * k) CHR '' ''"

fun dumps_indent :: "nat \<Rightarrow> json \<Rightarrow> string" where
  "dumps_indent k (JList xs) =
     (if xs = [] then ''[]''
      else ''['' @ line_indent (Suc k) @ join ('','' @ line_indent (Suc k)) (map (dumps_indent (Suc k)) xs)
             @ line_indent k @ '']'')"
| "dumps_indent k (JObj kvs) =
     (if kvs = [] then ''{}''
      else ''{'' @ line_indent (Suc k)
             @ join ('','' @ line_indent (Suc k)) (map snd (sort_key fst
                 (map (\<lambda>(key, v). (key, dump_str key @ '': '' @ dumps_indent (Suc k) v)) kvs)))
             @ line_indent k @ ''}'')"
| "dumps_indent k j = json_dumps j"

definition json_dumps_indent :: "json \<Rightarrow> string" where
  "json_dumps_indent j = dumps_indent 0 j"

subsection \<open>Reading what was printed\<close>

lemma skip_ws_line_indent: "skip_ws (line_indent k @ s) = skip_ws s"
proof -
  have "dropWhile (\<lambda>c. code_of c \<in> {32, 9, 10, 13}) (replicate n CHR '' '' @ s) = dropWhile (\<lambda>c. code_of c \<in> {32, 9, 10, 13}) s" for n
    by (induction n) (simp_all add: code_of_def)
  then show ?thesis by (simp add: skip_ws_def line_indent_def code_of_def)
qed

lemma skip_ws_space: "skip_ws (CHR '' '' # s) = skip_ws s"
  by (simp add: skip_ws_def code_of_def)

lemma delimited_line_indent: "delimited (line_indent k @ s)"
  by (simp add: delimited_def line_indent_def)

lemma dumps_indent_start: "printable j \<Longrightarrow> \<exists>c t. dumps_indent k j = c # t \<and> value_start c"
  using json_dumps_start [of j] by (cases j) (auto simp: value_start_def simp del: json_dumps.simps)

definition indent_pair :: "nat \<Rightarrow> string \<times> json \<Rightarrow> string" where
  "indent_pair k kv = dump_str (fst kv) @ '': '' @ dumps_indent k (snd kv)"

lemma indented_start:
  assumes "xs \<noteq> []" and "\<And>x. x \<in> set xs \<Longrightarrow> \<exists>c t. f x = c # t \<and> value_start c"
  shows "\<exists>c t. join d (map f xs) @ s = c # t \<and> value_start c"
proof -
  obtain u where "join d (map f xs) = f (hd xs) @ u"
    using assms(1) join_prefix [of "map f xs" d] by (auto simp: hd_map)
  moreover obtain c t where "f (hd xs) = c # t" "value_start c" using assms hd_in_set by blast
  ultimately show ?thesis by simp
qed

lemma skip_ws_indented:
  assumes "xs \<noteq> []" and "\<And>x. x \<in> set xs \<Longrightarrow> \<exists>c t. f x = c # t \<and> value_start c"
  shows "skip_ws (line_indent k @ join d (map f xs) @ s) = join d (map f xs) @ s"
proof -
  obtain c t where "join d (map f xs) @ s = c # t" "value_start c" using indented_start [of xs f d s] assms by blast
  then show ?thesis unfolding skip_ws_line_indent using value_start_ws by metis
qed

lemma scan_items_indent:
  assumes "\<And>x n r. x \<in> set xs \<Longrightarrow> 2 * length (dumps_indent (Suc k) x) < n \<Longrightarrow> delimited r \<Longrightarrow>
      scan_value fl hook n (dumps_indent (Suc k) x @ r) = Some (x, r)"
    and "xs \<noteq> []" and "2 * length (join ('','' @ line_indent (Suc k)) (map (dumps_indent (Suc k)) xs)) + 2 \<le> n"
    and "\<forall>x\<in>set xs. printable x"
  shows "scan_items fl hook n (join ('','' @ line_indent (Suc k)) (map (dumps_indent (Suc k)) xs) @ line_indent k @ CHR '']'' # r)
      = Some (xs, r)"
  using assms
proof (induction xs arbitrary: n)
  case (Cons x xs)
  let ?f = "dumps_indent (Suc k)" and ?sep = "'','' @ line_indent (Suc k)"
  from Cons.prems(3) obtain m where n: "n = Suc m" by (cases n) auto
  show ?case
  proof (cases "xs = []")
    case True
    have "scan_value fl hook m (?f x @ line_indent k @ CHR '']'' # r) = Some (x, line_indent k @ CHR '']'' # r)"
      using Cons.prems(1,3) n True by (intro Cons.prems(1)) (auto simp: delimited_line_indent)
    then show ?thesis by (simp add: n True skip_ws_line_indent delimited_ws)
  next
    case False
    let ?rest = "join ?sep (map ?f xs) @ line_indent k @ CHR '']'' # r"
    have len: "2 * length (?f x) < m" "2 * length (join ?sep (map ?f xs)) + 2 \<le> m"
      using Cons.prems(3) n False by (simp_all add: join_Cons)
    have v: "scan_value fl hook m (?f x @ CHR '','' # line_indent (Suc k) @ ?rest) = Some (x, CHR '','' # line_indent (Suc k) @ ?rest)"
      using len by (intro Cons.prems(1)) (auto simp: delimited_def)
    have i: "scan_items fl hook m ?rest = Some (xs, r)"
      using Cons.prems False len by (intro Cons.IH) auto
    have "skip_ws (line_indent (Suc k) @ ?rest) = ?rest"
      using Cons.prems(4) by (intro skip_ws_indented False dumps_indent_start) auto
    with v i show ?thesis by (simp add: n False join_Cons delimited_ws)
  qed
qed simp

lemma scan_pairs_indent:
  assumes "\<And>key x n r. (key, x) \<in> set kvs \<Longrightarrow> 2 * length (dumps_indent (Suc k) x) < n \<Longrightarrow> delimited r \<Longrightarrow>
      scan_value fl hook n (dumps_indent (Suc k) x @ r) = Some (x, r)"
    and "kvs \<noteq> []" and "2 * length (join ('','' @ line_indent (Suc k)) (map (indent_pair (Suc k)) kvs)) + 2 \<le> n"
    and "\<forall>kv\<in>set kvs. printable (snd kv)"
  shows "scan_pairs fl hook n (join ('','' @ line_indent (Suc k)) (map (indent_pair (Suc k)) kvs) @ line_indent k @ CHR ''}'' # r)
      = Some (kvs, r)"
  using assms
proof (induction kvs arbitrary: n)
  case (Cons kv kvs)
  let ?f = "indent_pair (Suc k)" and ?sep = "'','' @ line_indent (Suc k)"
  obtain key x where kv: "kv = (key, x)" by (cases kv)
  from Cons.prems(3) obtain m where n: "n = Suc m" by (cases n) auto
  from Cons.prems(4) kv have "printable x" by simp
  then obtain c t where x: "dumps_indent (Suc k) x = c # t" "value_start c"
    using dumps_indent_start by blast
  have ws: "skip_ws (CHR '' '' # dumps_indent (Suc k) x @ q) = dumps_indent (Suc k) x @ q" for q
    using value_start_ws [OF x(2)] x(1) by (simp add: skip_ws_space)
  have colon: "skip_ws (CHR '':'' # q) = CHR '':'' # q" for q by (simp add: skip_ws_def code_of_def)
  have scan_key: "scan_str (concat (map escape_char key) @ CHR 0x22 # CHR '':'' # q) = Some (key, CHR '':'' # q)" for q
    by (rule scan_dump_str)
  show ?case
  proof (cases "kvs = []")
    case True
    have "scan_value fl hook m (dumps_indent (Suc k) x @ line_indent k @ CHR ''}'' # r) = Some (x, line_indent k @ CHR ''}'' # r)"
      using Cons.prems(1,3) n True kv by (intro Cons.prems(1)) (auto simp: delimited_line_indent indent_pair_def)
    then show ?thesis
      by (simp add: n True kv indent_pair_def dump_str_def scan_key colon ws skip_ws_line_indent delimited_ws)
  next
    case False
    let ?rest = "join ?sep (map ?f kvs) @ line_indent k @ CHR ''}'' # r"
    have len: "2 * length (dumps_indent (Suc k) x) < m" "2 * length (join ?sep (map ?f kvs)) + 2 \<le> m"
      using Cons.prems(3) n False kv by (simp_all add: join_Cons indent_pair_def [of _ "(key, x)"])
    have v: "scan_value fl hook m (dumps_indent (Suc k) x @ CHR '','' # line_indent (Suc k) @ ?rest)
        = Some (x, CHR '','' # line_indent (Suc k) @ ?rest)"
      using len kv by (intro Cons.prems(1)) (auto simp: delimited_def)
    have i: "scan_pairs fl hook m ?rest = Some (kvs, r)"
      using Cons.prems False len by (intro Cons.IH) auto
    have "skip_ws (line_indent (Suc k) @ ?rest) = ?rest"
      by (rule skip_ws_indented [OF False]) (simp add: indent_pair_def dump_str_def value_start_def)
    with v i show ?thesis
      by (simp add: n False kv join_Cons indent_pair_def [of _ "(key, x)"] dump_str_def scan_key colon ws delimited_ws)
  qed
qed simp

lemma dumps_indent_obj:
  assumes "sorted (map fst kvs)" and "kvs \<noteq> []"
  shows "dumps_indent k (JObj kvs) = ''{'' @ line_indent (Suc k)
    @ join ('','' @ line_indent (Suc k)) (map (indent_pair (Suc k)) kvs) @ line_indent k @ ''}''"
proof -
  let ?m = "map (\<lambda>kv. (fst kv, indent_pair (Suc k) kv)) kvs"
  have m: "map (\<lambda>(key, v). (key, dump_str key @ '': '' @ dumps_indent (Suc k) v)) kvs = ?m"
    by (simp add: indent_pair_def case_prod_unfold)
  have "sort_key fst ?m = ?m" using assms by (intro sort_key_id_if_sorted) (simp add: comp_def)
  then show ?thesis using assms(2) unfolding dumps_indent.simps m by (simp add: comp_def)
qed

lemma scan_value_indent:
  assumes "keeps_distinct hook"
  shows "printable j \<Longrightarrow> 2 * length (dumps_indent k j) < n \<Longrightarrow> delimited r \<Longrightarrow>
    scan_value fl hook n (dumps_indent k j @ r) = Some (j, r)"
proof (induction j arbitrary: k n r)
  case (JList xs)
  then obtain m where n: "n = Suc m" by (cases n) auto
  show ?case
  proof (cases "xs = []")
    case True
    then show ?thesis by (simp add: n skip_ws_def code_of_def)
  next
    case False
    define t' where "t' = join ('','' @ line_indent (Suc k)) (map (dumps_indent (Suc k)) xs) @ line_indent k @ CHR '']'' # r"
    have d: "dumps_indent k (JList xs) @ r = CHR ''['' # line_indent (Suc k) @ t'" using False by (simp add: t'_def)
    have i: "scan_items fl hook m t' = Some (xs, r)"
      unfolding t'_def using JList False n by (intro scan_items_indent) auto
    have p: "\<exists>c t. dumps_indent (Suc k) x = c # t \<and> value_start c" if "x \<in> set xs" for x
      using that JList.prems(1) by (intro dumps_indent_start) auto
    have w: "skip_ws (line_indent (Suc k) @ t') = t'" unfolding t'_def by (rule skip_ws_indented [OF False p])
    obtain c t where c: "t' = c # t" "value_start c"
      unfolding t'_def using indented_start [of xs "dumps_indent (Suc k)"] False p by blast
    then have "c \<noteq> CHR '']''" using value_start_ws by blast
    then show ?thesis unfolding d using i w by (simp add: n c(1))
  qed
next
  case (JObj kvs)
  then obtain m where n: "n = Suc m" by (cases n) auto
  have h: "hook kvs = Some (JObj kvs)" using assms JObj.prems(1) by (simp add: keeps_distinct_def)
  show ?case
  proof (cases "kvs = []")
    case True
    with h show ?thesis by (simp add: n skip_ws_def code_of_def)
  next
    case False
    define t' where "t' = join ('','' @ line_indent (Suc k)) (map (indent_pair (Suc k)) kvs) @ line_indent k @ CHR ''}'' # r"
    have d: "dumps_indent k (JObj kvs) @ r = CHR ''{'' # line_indent (Suc k) @ t'"
      using dumps_indent_obj [OF _ False] JObj.prems(1) by (simp add: t'_def)
    have "scan_value fl hook n' (dumps_indent (Suc k) x @ r') = Some (x, r')"
      if "(key, x) \<in> set kvs" "2 * length (dumps_indent (Suc k) x) < n'" "delimited r'" for key x n' r'
      using JObj.IH [of "(key, x)" x "Suc k" n' r'] that JObj.prems(1) by force
    then have i: "scan_pairs fl hook m t' = Some (kvs, r)"
      unfolding t'_def using JObj.prems False n dumps_indent_obj [OF _ False, of k] by (intro scan_pairs_indent) auto
    have p: "\<exists>c t. indent_pair (Suc k) kv = c # t \<and> value_start c" for kv
      by (simp add: indent_pair_def dump_str_def value_start_def)
    have w: "skip_ws (line_indent (Suc k) @ t') = t'" unfolding t'_def by (rule skip_ws_indented [OF False p])
    obtain c t where c: "t' = c # t" "value_start c"
      unfolding t'_def using indented_start [of kvs "indent_pair (Suc k)"] False p by blast
    then have "c \<noteq> CHR ''}''" using value_start_ws by blast
    then show ?thesis unfolding d using i w h by (simp add: n c(1))
  qed
qed (simp_all add: scan_value_dumps [OF assms] del: json_dumps.simps)

lemma dumps_indent_sort_keys: "dumps_indent k (sort_keys j) = dumps_indent k j"
proof (induction j arbitrary: k)
  case (JList xs)
  then have "map (\<lambda>x. dumps_indent (Suc k) (sort_keys x)) xs = map (dumps_indent (Suc k)) xs" by (intro map_cong) auto
  then show ?case by (simp only: sort_keys.simps dumps_indent.simps map_map comp_def map_is_Nil_conv)
next
  case (JObj kvs)
  have e: "map (\<lambda>(key, v). (key, dump_str key @ '': '' @ dumps_indent (Suc k) v)) kvs
      = map (\<lambda>kv. (fst kv, indent_pair (Suc k) kv)) kvs" for kvs
    by (simp add: indent_pair_def case_prod_unfold)
  have i: "indent_pair (Suc k) (fst kv, sort_keys (snd kv)) = indent_pair (Suc k) kv" if "kv \<in> set kvs" for kv
    using JObj [of kv "snd kv"] that by (cases kv) (simp add: indent_pair_def)
  have m: "map (\<lambda>(key, v). (key, sort_keys v)) kvs = map (\<lambda>kv. (fst kv, sort_keys (snd kv))) kvs"
    by (simp add: case_prod_unfold)
  show ?case
  proof (cases "kvs = []")
    case False
    let ?ks = "sort_key fst (map (\<lambda>kv. (fst kv, sort_keys (snd kv))) kvs)"
    have "?ks \<noteq> []" using False by (metis length_sort length_map length_0_conv)
    then have "dumps_indent k (sort_keys (JObj kvs)) = ''{'' @ line_indent (Suc k)
        @ join ('','' @ line_indent (Suc k)) (map (indent_pair (Suc k)) ?ks) @ line_indent k @ ''}''"
      unfolding sort_keys.simps m by (intro dumps_indent_obj) (rule sorted_sort_key)
    also have "map (indent_pair (Suc k)) ?ks = map (indent_pair (Suc k)) (sort_key fst kvs)"
      using i by (simp add: sort_key_map)
    finally show ?thesis using False by (simp only: dumps_indent.simps e) (simp add: sort_key_map comp_def)
  qed simp
qed simp_all

lemma json_indent_roundtrip:
  assumes "keeps_distinct hook" and "plain_json j"
  shows "json_loads fl hook (json_dumps_indent j) = Some (sort_keys j)"
proof -
  let ?s = "sort_keys j"
  have p: "printable ?s" by (rule printable_sort_keys [OF assms(2)])
  obtain c t where "dumps_indent 0 ?s = c # t" "value_start c" using dumps_indent_start [OF p] by blast
  then have "skip_ws (dumps_indent 0 ?s) = dumps_indent 0 ?s" using value_start_ws by simp
  moreover have "scan_value fl hook (Suc (2 * length (dumps_indent 0 ?s))) (dumps_indent 0 ?s @ []) = Some (?s, [])"
    by (rule scan_value_indent [OF assms(1) p]) (simp_all add: delimited_def)
  ultimately show ?thesis by (simp add: json_loads_def skip_ws_def json_dumps_indent_def dumps_indent_sort_keys)
qed

end
