(* ===== verification/Backup_Rows.thy ===== *)
theory Backup_Rows
  imports Firmware Device_Backup Rate_Limit Py_Json_Indent
begin

text \<open>
  The rows of a Hub backup, \<open>dashboard/app/services/backup_service.py\<close> up to \<open>deserialize_model_row\<close>: the
  columns of the nine exported tables as \<open>models.py\<close> declares them, a row as the list of its cells in that order,
  and its JSON form. How a timestamp is printed and read is an argument (\<open>iso_print\<close>, \<open>iso_parser\<close>). A value of
  a text column that is not a string is kept as it is (\<open>Raw\<close>); what the database makes of it is a parameter of
  the database.
\<close>

datatype column_type = ColUuid | ColDateTime | ColInteger | ColBoolean | ColInet | ColText | ColString nat

record column =
  col_name :: string
  col_type :: column_type
  col_nullable :: bool

definition col :: "string \<Rightarrow> column_type \<Rightarrow> bool \<Rightarrow> column" where
  "col n t nullable = \<lparr>col_name = n, col_type = t, col_nullable = nullable\<rparr>"

lemma col_simps [simp]: "col_name (col n t b) = n" "col_type (col n t b) = t" "col_nullable (col n t b) = b"
  by (simp_all add: col_def)

datatype cell = Null | Text string | Uid uuid | Num int | Flag bool | Time instant | Raw json

definition opt :: "('a \<Rightarrow> cell) \<Rightarrow> 'a option \<Rightarrow> cell" where
  "opt f x = (case x of None \<Rightarrow> Null | Some v \<Rightarrow> f v)"

fun as_text :: "cell \<Rightarrow> string" where "as_text (Text s) = s" | "as_text _ = []"
fun as_id :: "cell \<Rightarrow> uuid" where "as_id (Uid i) = i" | "as_id _ = 0"
fun as_num :: "cell \<Rightarrow> int" where "as_num (Num i) = i" | "as_num _ = 0"
fun as_flag :: "cell \<Rightarrow> bool" where "as_flag (Flag b) = b" | "as_flag _ = False"
fun as_time :: "cell \<Rightarrow> instant" where "as_time (Time t) = t" | "as_time _ = 0"

definition as_opt :: "(cell \<Rightarrow> 'a) \<Rightarrow> cell \<Rightarrow> 'a option" where
  "as_opt f c = (if c = Null then None else Some (f c))"

lemma as_opt_opt [simp]:
  "as_opt as_text (opt Text s) = s" "as_opt as_id (opt Uid i) = i" "as_opt as_num (opt Num n) = n"
  "as_opt as_time (opt Time t) = t"
  by (simp_all add: as_opt_def opt_def split: option.splits)

subsection \<open>The exported tables\<close>

definition user_columns :: "column list" where
  "user_columns = [
     col ''id'' ColUuid False,
     col ''email'' (ColString 320) False,
     col ''password_hash'' ColText False,
     col ''first_name'' (ColString 120) True,
     col ''last_name'' (ColString 120) True,
     col ''auth_provider'' (ColString 30) True,
     col ''role'' (ColString 30) False,
     col ''mfa_enabled'' ColBoolean False,
     col ''mfa_secret'' ColText True,
     col ''created_at'' ColDateTime False]"

definition user_row :: "user \<Rightarrow> cell list" where
  "user_row r = [
     Uid (usr_id r),
     Text (usr_email r),
     Text (usr_password_hash r),
     opt Text (usr_first_name r),
     opt Text (usr_last_name r),
     opt Text (usr_auth_provider r),
     Text (usr_role r),
     Flag (usr_mfa_enabled r),
     opt Text (usr_mfa_secret r),
     Time (usr_created_at r)]"

definition user_of_row :: "cell list \<Rightarrow> user" where
  "user_of_row c = \<lparr>
     usr_id = as_id (c ! 0),
     usr_email = as_text (c ! 1),
     usr_password_hash = as_text (c ! 2),
     usr_first_name = as_opt as_text (c ! 3),
     usr_last_name = as_opt as_text (c ! 4),
     usr_auth_provider = as_opt as_text (c ! 5),
     usr_role = as_text (c ! 6),
     usr_mfa_enabled = as_flag (c ! 7),
     usr_mfa_secret = as_opt as_text (c ! 8),
     usr_created_at = as_time (c ! 9)\<rparr>"

definition integration_settings_columns :: "column list" where
  "integration_settings_columns = [
     col ''id'' ColInteger False,
     col ''smtp_enabled'' ColBoolean False,
     col ''smtp_host'' (ColString 255) True,
     col ''smtp_port'' ColInteger True,
     col ''smtp_username'' (ColString 320) True,
     col ''smtp_password'' ColText True,
     col ''smtp_from'' (ColString 320) True,
     col ''graph_enabled'' ColBoolean False,
     col ''graph_tenant_id'' (ColString 255) True,
     col ''graph_client_id'' (ColString 255) True,
     col ''graph_client_secret'' ColText True,
     col ''graph_sender'' (ColString 320) True,
     col ''microsoft_enabled'' ColBoolean False,
     col ''microsoft_tenant_id'' (ColString 255) True,
     col ''microsoft_client_id'' (ColString 255) True,
     col ''microsoft_client_secret'' ColText True,
     col ''microsoft_audience'' (ColString 255) True,
     col ''microsoft_authority'' (ColString 255) True,
     col ''microsoft_admin_group_name'' (ColString 255) True,
     col ''microsoft_admin_group_id'' (ColString 255) True,
     col ''microsoft_user_group_name'' (ColString 255) True,
     col ''microsoft_user_group_id'' (ColString 255) True,
     col ''ad_enabled'' ColBoolean False,
     col ''ad_host'' (ColString 255) True,
     col ''ad_base_dn'' (ColString 500) True,
     col ''ad_bind_dn'' (ColString 500) True,
     col ''admin_login_allowlist'' ColText True,
     col ''branding_logo_url'' ColText True,
     col ''notify_on_offline'' ColBoolean False,
     col ''notify_on_backup_overdue'' ColBoolean False,
     col ''notify_on_license_expiring'' ColBoolean False,
     col ''notify_on_firmware_available'' ColBoolean False,
     col ''notify_on_repeated_auth_failures'' ColBoolean False,
     col ''updated_at'' ColDateTime False]"

definition integration_settings_row :: "integration_settings \<Rightarrow> cell list" where
  "integration_settings_row r = [
     Num (ints_id r),
     Flag (ints_smtp_enabled r),
     opt Text (ints_smtp_host r),
     opt Num (ints_smtp_port r),
     opt Text (ints_smtp_username r),
     opt Text (ints_smtp_password r),
     opt Text (ints_smtp_from r),
     Flag (ints_graph_enabled r),
     opt Text (ints_graph_tenant_id r),
     opt Text (ints_graph_client_id r),
     opt Text (ints_graph_client_secret r),
     opt Text (ints_graph_sender r),
     Flag (ints_microsoft_enabled r),
     opt Text (ints_microsoft_tenant_id r),
     opt Text (ints_microsoft_client_id r),
     opt Text (ints_microsoft_client_secret r),
     opt Text (ints_microsoft_audience r),
     opt Text (ints_microsoft_authority r),
     opt Text (ints_microsoft_admin_group_name r),
     opt Text (ints_microsoft_admin_group_id r),
     opt Text (ints_microsoft_user_group_name r),
     opt Text (ints_microsoft_user_group_id r),
     Flag (ints_ad_enabled r),
     opt Text (ints_ad_host r),
     opt Text (ints_ad_base_dn r),
     opt Text (ints_ad_bind_dn r),
     opt Text (ints_admin_login_allowlist r),
     opt Text (ints_branding_logo_url r),
     Flag (ints_notify_on_offline r),
     Flag (ints_notify_on_backup_overdue r),
     Flag (ints_notify_on_license_expiring r),
     Flag (ints_notify_on_firmware_available r),
     Flag (ints_notify_on_repeated_auth_failures r),
     Time (ints_updated_at r)]"

definition integration_settings_of_row :: "cell list \<Rightarrow> integration_settings" where
  "integration_settings_of_row c = \<lparr>
     ints_id = as_num (c ! 0),
     ints_smtp_enabled = as_flag (c ! 1),
     ints_smtp_host = as_opt as_text (c ! 2),
     ints_smtp_port = as_opt as_num (c ! 3),
     ints_smtp_username = as_opt as_text (c ! 4),
     ints_smtp_password = as_opt as_text (c ! 5),
     ints_smtp_from = as_opt as_text (c ! 6),
     ints_graph_enabled = as_flag (c ! 7),
     ints_graph_tenant_id = as_opt as_text (c ! 8),
     ints_graph_client_id = as_opt as_text (c ! 9),
     ints_graph_client_secret = as_opt as_text (c ! 10),
     ints_graph_sender = as_opt as_text (c ! 11),
     ints_microsoft_enabled = as_flag (c ! 12),
     ints_microsoft_tenant_id = as_opt as_text (c ! 13),
     ints_microsoft_client_id = as_opt as_text (c ! 14),
     ints_microsoft_client_secret = as_opt as_text (c ! 15),
     ints_microsoft_audience = as_opt as_text (c ! 16),
     ints_microsoft_authority = as_opt as_text (c ! 17),
     ints_microsoft_admin_group_name = as_opt as_text (c ! 18),
     ints_microsoft_admin_group_id = as_opt as_text (c ! 19),
     ints_microsoft_user_group_name = as_opt as_text (c ! 20),
     ints_microsoft_user_group_id = as_opt as_text (c ! 21),
     ints_ad_enabled = as_flag (c ! 22),
     ints_ad_host = as_opt as_text (c ! 23),
     ints_ad_base_dn = as_opt as_text (c ! 24),
     ints_ad_bind_dn = as_opt as_text (c ! 25),
     ints_admin_login_allowlist = as_opt as_text (c ! 26),
     ints_branding_logo_url = as_opt as_text (c ! 27),
     ints_notify_on_offline = as_flag (c ! 28),
     ints_notify_on_backup_overdue = as_flag (c ! 29),
     ints_notify_on_license_expiring = as_flag (c ! 30),
     ints_notify_on_firmware_available = as_flag (c ! 31),
     ints_notify_on_repeated_auth_failures = as_flag (c ! 32),
     ints_updated_at = as_time (c ! 33)\<rparr>"

definition company_columns :: "column list" where
  "company_columns = [
     col ''id'' ColUuid False,
     col ''name'' (ColString 200) False,
     col ''created_at'' ColDateTime False]"

definition company_row :: "company \<Rightarrow> cell list" where
  "company_row r = [
     Uid (com_id r),
     Text (com_name r),
     Time (com_created_at r)]"

definition company_of_row :: "cell list \<Rightarrow> company" where
  "company_of_row c = \<lparr>
     com_id = as_id (c ! 0),
     com_name = as_text (c ! 1),
     com_created_at = as_time (c ! 2)\<rparr>"

definition company_user_columns :: "column list" where
  "company_user_columns = [
     col ''company_id'' ColUuid False,
     col ''user_id'' ColUuid False,
     col ''role'' (ColString 20) False,
     col ''created_at'' ColDateTime False]"

definition company_user_row :: "company_user \<Rightarrow> cell list" where
  "company_user_row r = [
     Uid (cu_company_id r),
     Uid (cu_user_id r),
     Text (cu_role r),
     Time (cu_created_at r)]"

definition company_user_of_row :: "cell list \<Rightarrow> company_user" where
  "company_user_of_row c = \<lparr>
     cu_company_id = as_id (c ! 0),
     cu_user_id = as_id (c ! 1),
     cu_role = as_text (c ! 2),
     cu_created_at = as_time (c ! 3)\<rparr>"

definition enrollment_code_columns :: "column list" where
  "enrollment_code_columns = [
     col ''id'' ColUuid False,
     col ''company_id'' ColUuid False,
     col ''code_hash'' ColText False,
     col ''expires_at'' ColDateTime False,
     col ''used_at'' ColDateTime True,
     col ''created_by'' ColUuid True,
     col ''created_at'' ColDateTime False]"

definition enrollment_code_row :: "enrollment_code \<Rightarrow> cell list" where
  "enrollment_code_row r = [
     Uid (ec_id r),
     Uid (ec_company_id r),
     Text (ec_code_hash r),
     Time (ec_expires_at r),
     opt Time (ec_used_at r),
     opt Uid (ec_created_by r),
     Time (ec_created_at r)]"

definition enrollment_code_of_row :: "cell list \<Rightarrow> enrollment_code" where
  "enrollment_code_of_row c = \<lparr>
     ec_id = as_id (c ! 0),
     ec_company_id = as_id (c ! 1),
     ec_code_hash = as_text (c ! 2),
     ec_expires_at = as_time (c ! 3),
     ec_used_at = as_opt as_time (c ! 4),
     ec_created_by = as_opt as_id (c ! 5),
     ec_created_at = as_time (c ! 6)\<rparr>"

definition device_columns :: "column list" where
  "device_columns = [
     col ''id'' ColUuid False,
     col ''company_id'' ColUuid False,
     col ''name'' (ColString 200) True,
     col ''hostname'' (ColString 255) False,
     col ''opnsense_version'' (ColString 80) True,
     col ''plugin_version'' (ColString 80) True,
     col ''license_type'' (ColString 30) True,
     col ''license_expires_at'' ColDateTime True,
     col ''wg_public_key'' (ColString 80) False,
     col ''wg_tunnel_ip'' ColInet False,
     col ''device_token_hash'' ColText False,
     col ''device_token_issued_at'' ColDateTime False,
     col ''device_token_expires_at'' ColDateTime False,
     col ''status'' (ColString 30) False,
     col ''health_missed_checks'' ColInteger False,
     col ''health_success_checks'' ColInteger False,
     col ''firmware_status'' (ColString 30) False,
     col ''firmware_update_available'' ColBoolean False,
     col ''firmware_update_type'' (ColString 30) True,
     col ''firmware_current_version'' (ColString 80) True,
     col ''firmware_available_version'' (ColString 80) True,
     col ''firmware_update_count'' ColInteger False,
     col ''firmware_reboot_required'' ColBoolean False,
     col ''firmware_status_message'' ColText True,
     col ''firmware_checked_at'' ColDateTime True,
     col ''firmware_check_requested_at'' ColDateTime True,
     col ''firmware_check_request_reason'' (ColString 30) True,
     col ''backup_enabled'' ColBoolean False,
     col ''backup_retention_count'' ColInteger False,
     col ''backup_interval_value'' ColInteger False,
     col ''backup_interval_unit'' (ColString 20) False,
     col ''backup_interval_hours'' ColInteger False,
     col ''backup_last_requested_at'' ColDateTime True,
     col ''backup_last_uploaded_at'' ColDateTime True,
     col ''email_notifications_enabled'' ColBoolean False,
     col ''email_notification_recipient'' (ColString 320) True,
     col ''email_notify_on_warning'' ColBoolean False,
     col ''email_notify_on_critical'' ColBoolean False,
     col ''email_notify_on_backup_overdue'' ColBoolean False,
     col ''email_notify_on_license_expiring'' ColBoolean False,
     col ''email_notify_on_firmware_available'' ColBoolean False,
     col ''email_last_notified_status'' (ColString 30) True,
     col ''email_last_notified_at'' ColDateTime True,
     col ''backup_overdue_notified_at'' ColDateTime True,
     col ''license_expiring_notified_at'' ColDateTime True,
     col ''firmware_available_notified_at'' ColDateTime True,
     col ''runbook_notes'' ColText True,
     col ''runbook_owner'' (ColString 200) True,
     col ''runbook_contact'' (ColString 320) True,
     col ''runbook_site'' (ColString 200) True,
     col ''support_contract_expires_at'' ColDateTime True,
     col ''escalation_hint'' ColText True,
     col ''maintenance_until'' ColDateTime True,
     col ''health_acknowledged_at'' ColDateTime True,
     col ''health_acknowledged_note'' ColText True,
     col ''health_acknowledged_by'' ColUuid True,
     col ''last_seen_at'' ColDateTime True,
     col ''revoked_at'' ColDateTime True,
     col ''created_at'' ColDateTime False]"

definition device_row :: "device \<Rightarrow> cell list" where
  "device_row r = [
     Uid (dev_id r),
     Uid (dev_company_id r),
     opt Text (dev_name r),
     Text (dev_hostname r),
     opt Text (dev_opnsense_version r),
     opt Text (dev_plugin_version r),
     opt Text (dev_license_type r),
     opt Time (dev_license_expires_at r),
     Text (dev_wg_public_key r),
     Text (dev_wg_tunnel_ip r),
     Text (dev_device_token_hash r),
     Time (dev_device_token_issued_at r),
     Time (dev_device_token_expires_at r),
     Text (dev_status r),
     Num (dev_health_missed_checks r),
     Num (dev_health_success_checks r),
     Text (dev_firmware_status r),
     Flag (dev_firmware_update_available r),
     opt Text (dev_firmware_update_type r),
     opt Text (dev_firmware_current_version r),
     opt Text (dev_firmware_available_version r),
     Num (dev_firmware_update_count r),
     Flag (dev_firmware_reboot_required r),
     opt Text (dev_firmware_status_message r),
     opt Time (dev_firmware_checked_at r),
     opt Time (dev_firmware_check_requested_at r),
     opt Text (dev_firmware_check_request_reason r),
     Flag (dev_backup_enabled r),
     Num (dev_backup_retention_count r),
     Num (dev_backup_interval_value r),
     Text (dev_backup_interval_unit r),
     Num (dev_backup_interval_hours r),
     opt Time (dev_backup_last_requested_at r),
     opt Time (dev_backup_last_uploaded_at r),
     Flag (dev_email_notifications_enabled r),
     opt Text (dev_email_notification_recipient r),
     Flag (dev_email_notify_on_warning r),
     Flag (dev_email_notify_on_critical r),
     Flag (dev_email_notify_on_backup_overdue r),
     Flag (dev_email_notify_on_license_expiring r),
     Flag (dev_email_notify_on_firmware_available r),
     opt Text (dev_email_last_notified_status r),
     opt Time (dev_email_last_notified_at r),
     opt Time (dev_backup_overdue_notified_at r),
     opt Time (dev_license_expiring_notified_at r),
     opt Time (dev_firmware_available_notified_at r),
     opt Text (dev_runbook_notes r),
     opt Text (dev_runbook_owner r),
     opt Text (dev_runbook_contact r),
     opt Text (dev_runbook_site r),
     opt Time (dev_support_contract_expires_at r),
     opt Text (dev_escalation_hint r),
     opt Time (dev_maintenance_until r),
     opt Time (dev_health_acknowledged_at r),
     opt Text (dev_health_acknowledged_note r),
     opt Uid (dev_health_acknowledged_by r),
     opt Time (dev_last_seen_at r),
     opt Time (dev_revoked_at r),
     Time (dev_created_at r)]"

definition device_of_row :: "cell list \<Rightarrow> device" where
  "device_of_row c = \<lparr>
     dev_id = as_id (c ! 0),
     dev_company_id = as_id (c ! 1),
     dev_name = as_opt as_text (c ! 2),
     dev_hostname = as_text (c ! 3),
     dev_opnsense_version = as_opt as_text (c ! 4),
     dev_plugin_version = as_opt as_text (c ! 5),
     dev_license_type = as_opt as_text (c ! 6),
     dev_license_expires_at = as_opt as_time (c ! 7),
     dev_wg_public_key = as_text (c ! 8),
     dev_wg_tunnel_ip = as_text (c ! 9),
     dev_device_token_hash = as_text (c ! 10),
     dev_device_token_issued_at = as_time (c ! 11),
     dev_device_token_expires_at = as_time (c ! 12),
     dev_status = as_text (c ! 13),
     dev_health_missed_checks = as_num (c ! 14),
     dev_health_success_checks = as_num (c ! 15),
     dev_firmware_status = as_text (c ! 16),
     dev_firmware_update_available = as_flag (c ! 17),
     dev_firmware_update_type = as_opt as_text (c ! 18),
     dev_firmware_current_version = as_opt as_text (c ! 19),
     dev_firmware_available_version = as_opt as_text (c ! 20),
     dev_firmware_update_count = as_num (c ! 21),
     dev_firmware_reboot_required = as_flag (c ! 22),
     dev_firmware_status_message = as_opt as_text (c ! 23),
     dev_firmware_checked_at = as_opt as_time (c ! 24),
     dev_firmware_check_requested_at = as_opt as_time (c ! 25),
     dev_firmware_check_request_reason = as_opt as_text (c ! 26),
     dev_backup_enabled = as_flag (c ! 27),
     dev_backup_retention_count = as_num (c ! 28),
     dev_backup_interval_value = as_num (c ! 29),
     dev_backup_interval_unit = as_text (c ! 30),
     dev_backup_interval_hours = as_num (c ! 31),
     dev_backup_last_requested_at = as_opt as_time (c ! 32),
     dev_backup_last_uploaded_at = as_opt as_time (c ! 33),
     dev_email_notifications_enabled = as_flag (c ! 34),
     dev_email_notification_recipient = as_opt as_text (c ! 35),
     dev_email_notify_on_warning = as_flag (c ! 36),
     dev_email_notify_on_critical = as_flag (c ! 37),
     dev_email_notify_on_backup_overdue = as_flag (c ! 38),
     dev_email_notify_on_license_expiring = as_flag (c ! 39),
     dev_email_notify_on_firmware_available = as_flag (c ! 40),
     dev_email_last_notified_status = as_opt as_text (c ! 41),
     dev_email_last_notified_at = as_opt as_time (c ! 42),
     dev_backup_overdue_notified_at = as_opt as_time (c ! 43),
     dev_license_expiring_notified_at = as_opt as_time (c ! 44),
     dev_firmware_available_notified_at = as_opt as_time (c ! 45),
     dev_runbook_notes = as_opt as_text (c ! 46),
     dev_runbook_owner = as_opt as_text (c ! 47),
     dev_runbook_contact = as_opt as_text (c ! 48),
     dev_runbook_site = as_opt as_text (c ! 49),
     dev_support_contract_expires_at = as_opt as_time (c ! 50),
     dev_escalation_hint = as_opt as_text (c ! 51),
     dev_maintenance_until = as_opt as_time (c ! 52),
     dev_health_acknowledged_at = as_opt as_time (c ! 53),
     dev_health_acknowledged_note = as_opt as_text (c ! 54),
     dev_health_acknowledged_by = as_opt as_id (c ! 55),
     dev_last_seen_at = as_opt as_time (c ! 56),
     dev_revoked_at = as_opt as_time (c ! 57),
     dev_created_at = as_time (c ! 58)\<rparr>"

definition device_backup_columns :: "column list" where
  "device_backup_columns = [
     col ''id'' ColUuid False,
     col ''device_id'' ColUuid False,
     col ''filename'' (ColString 255) False,
     col ''backup_format'' (ColString 64) False,
     col ''encrypted_payload'' ColText False,
     col ''created_at'' ColDateTime False]"

definition device_backup_row :: "device_backup \<Rightarrow> cell list" where
  "device_backup_row r = [
     Uid (dbk_id r),
     Uid (dbk_device_id r),
     Text (dbk_filename r),
     Text (dbk_backup_format r),
     Text (dbk_encrypted_payload r),
     Time (dbk_created_at r)]"

definition device_backup_of_row :: "cell list \<Rightarrow> device_backup" where
  "device_backup_of_row c = \<lparr>
     dbk_id = as_id (c ! 0),
     dbk_device_id = as_id (c ! 1),
     dbk_filename = as_text (c ! 2),
     dbk_backup_format = as_text (c ! 3),
     dbk_encrypted_payload = as_text (c ! 4),
     dbk_created_at = as_time (c ! 5)\<rparr>"

definition device_event_columns :: "column list" where
  "device_event_columns = [
     col ''id'' ColUuid False,
     col ''device_id'' ColUuid False,
     col ''event_type'' (ColString 80) False,
     col ''message'' ColText True,
     col ''created_at'' ColDateTime False]"

definition device_event_row :: "device_event \<Rightarrow> cell list" where
  "device_event_row r = [
     Uid (ev_id r),
     Uid (ev_device_id r),
     Text (ev_event_type r),
     opt Text (ev_message r),
     Time (ev_created_at r)]"

definition device_event_of_row :: "cell list \<Rightarrow> device_event" where
  "device_event_of_row c = \<lparr>
     ev_id = as_id (c ! 0),
     ev_device_id = as_id (c ! 1),
     ev_event_type = as_text (c ! 2),
     ev_message = as_opt as_text (c ! 3),
     ev_created_at = as_time (c ! 4)\<rparr>"

definition audit_log_columns :: "column list" where
  "audit_log_columns = [
     col ''id'' ColUuid False,
     col ''user_id'' ColUuid True,
     col ''company_id'' ColUuid True,
     col ''device_id'' ColUuid True,
     col ''action'' (ColString 120) False,
     col ''ip_address'' ColInet True,
     col ''user_agent'' ColText True,
     col ''created_at'' ColDateTime False]"

definition audit_log_row :: "audit_log \<Rightarrow> cell list" where
  "audit_log_row r = [
     Uid (al_id r),
     opt Uid (al_user_id r),
     opt Uid (al_company_id r),
     opt Uid (al_device_id r),
     Text (al_action r),
     opt Text (al_ip_address r),
     opt Text (al_user_agent r),
     Time (al_created_at r)]"

definition audit_log_of_row :: "cell list \<Rightarrow> audit_log" where
  "audit_log_of_row c = \<lparr>
     al_id = as_id (c ! 0),
     al_user_id = as_opt as_id (c ! 1),
     al_company_id = as_opt as_id (c ! 2),
     al_device_id = as_opt as_id (c ! 3),
     al_action = as_text (c ! 4),
     al_ip_address = as_opt as_text (c ! 5),
     al_user_agent = as_opt as_text (c ! 6),
     al_created_at = as_time (c ! 7)\<rparr>"


definition backup_table_models :: "(string \<times> column list) list" where
  "backup_table_models = [
     (''users'', user_columns),
     (''integration_settings'', integration_settings_columns),
     (''companies'', company_columns),
     (''company_users'', company_user_columns),
     (''enrollment_codes'', enrollment_code_columns),
     (''devices'', device_columns),
     (''device_backups'', device_backup_columns),
     (''device_events'', device_event_columns),
     (''audit_logs'', audit_log_columns)]"

text \<open>The rows of every exported table, in the order of the tables, and the database that such rows make up.\<close>

definition database_rows :: "hub_db \<Rightarrow> (string \<times> cell list list) list" where
  "database_rows d = [
     (''users'', map user_row (users d)),
     (''integration_settings'', map integration_settings_row (integration_rows d)),
     (''companies'', map company_row (companies d)),
     (''company_users'', map company_user_row (company_users d)),
     (''enrollment_codes'', map enrollment_code_row (enrollment_codes d)),
     (''devices'', map device_row (devices d)),
     (''device_backups'', map device_backup_row (device_backups d)),
     (''device_events'', map device_event_row (device_events d)),
     (''audit_logs'', map audit_log_row (audit_logs d))]"

definition rows_of :: "(string \<times> cell list list) list \<Rightarrow> string \<Rightarrow> cell list list" where
  "rows_of t n = (case map_of t n of None \<Rightarrow> [] | Some rs \<Rightarrow> rs)"

definition load_rows :: "(string \<times> cell list list) list \<Rightarrow> hub_db" where
  "load_rows t = empty_db\<lparr>
     users := map user_of_row (rows_of t ''users''),
     integration_rows := map integration_settings_of_row (rows_of t ''integration_settings''),
     companies := map company_of_row (rows_of t ''companies''),
     company_users := map company_user_of_row (rows_of t ''company_users''),
     enrollment_codes := map enrollment_code_of_row (rows_of t ''enrollment_codes''),
     devices := map device_of_row (rows_of t ''devices''),
     device_backups := map device_backup_of_row (rows_of t ''device_backups''),
     device_events := map device_event_of_row (rows_of t ''device_events''),
     audit_logs := map audit_log_of_row (rows_of t ''audit_logs'')\<rparr>"

lemma row_inverse:
  "user_of_row (user_row r0) = r0"
  "integration_settings_of_row (integration_settings_row r1) = r1"
  "company_of_row (company_row r2) = r2"
  "company_user_of_row (company_user_row r3) = r3"
  "enrollment_code_of_row (enrollment_code_row r4) = r4"
  "device_of_row (device_row r5) = r5"
  "device_backup_of_row (device_backup_row r6) = r6"
  "device_event_of_row (device_event_row r7) = r7"
  "audit_log_of_row (audit_log_row r8) = r8"
  by (simp_all add: user_of_row_def user_row_def integration_settings_of_row_def integration_settings_row_def company_of_row_def company_row_def company_user_of_row_def company_user_row_def enrollment_code_of_row_def enrollment_code_row_def device_of_row_def device_row_def device_backup_of_row_def device_backup_row_def device_event_of_row_def device_event_row_def audit_log_of_row_def audit_log_row_def)

lemma load_database_rows:
  "load_rows (database_rows d) = d\<lparr>pending_mfa_logins := [], sessions := [], dashboard_filters := [],
     attention_acks := [], proxy_sessions := []\<rparr>"
proof -
  have m: "map (\<lambda>x. f (g x)) xs = xs" if "\<And>x. f (g x) = x" for f g and xs :: "'a list"
    using that by (simp add: map_idI)
  show ?thesis
    by (simp add: load_rows_def database_rows_def rows_of_def empty_db_def comp_def row_inverse)
qed

subsection \<open>The JSON form of a row\<close>

fun backup_json_value :: "(instant \<Rightarrow> string) \<Rightarrow> cell \<Rightarrow> json" where
  "backup_json_value iso_print Null = JNull"
| "backup_json_value iso_print (Text s) = JStr s"
| "backup_json_value iso_print (Uid i) = JStr (uuid_str i)"
| "backup_json_value iso_print (Num n) = JInt n"
| "backup_json_value iso_print (Flag b) = JBool b"
| "backup_json_value iso_print (Time t) = JStr (iso_print t)"
| "backup_json_value iso_print (Raw j) = j"

definition serialize_model_row :: "(instant \<Rightarrow> string) \<Rightarrow> column list \<Rightarrow> cell list \<Rightarrow> (string \<times> json) list" where
  "serialize_model_row iso_print cols cells = zip (map col_name cols) (map (backup_json_value iso_print) cells)"

definition parse_backup_datetime :: "iso_parser \<Rightarrow> string \<Rightarrow> instant res" where
  "parse_backup_datetime parse_iso value = (case parse_iso value of None \<Rightarrow> Inl ValueError | Some t \<Rightarrow> Inr t)"

definition parse_backup_bool :: "json \<Rightarrow> bool res" where
  "parse_backup_bool value =
     (case value of
        JBool b \<Rightarrow> Inr b
      | JInt i \<Rightarrow> if i \<in> {0, 1} then Inr (i = 1)
                  else Inl (HTTPException 400 ''backup archive contains an invalid boolean value'')
      | _ \<Rightarrow> Inl (HTTPException 400 ''backup archive contains an invalid boolean value''))"

definition deserialize_column :: "iso_parser \<Rightarrow> column_type \<Rightarrow> json option \<Rightarrow> cell res" where
  "deserialize_column parse_iso t raw_value =
     (if raw_value = None \<or> raw_value = Some JNull then Inr Null
      else let v = the raw_value in
        case t of
          ColDateTime \<Rightarrow> rbind (parse_backup_datetime parse_iso (py_str v)) (\<lambda>x. Inr (Time x))
        | ColInteger \<Rightarrow> (case py_int (py_str v) of None \<Rightarrow> Inl ValueError | Some n \<Rightarrow> Inr (Num n))
        | ColBoolean \<Rightarrow> rbind (parse_backup_bool v) (\<lambda>b. Inr (Flag b))
        | ColUuid \<Rightarrow> (case parse_uuid (py_str v) of None \<Rightarrow> Inl ValueError | Some i \<Rightarrow> Inr (Uid i))
        | _ \<Rightarrow> Inr (case v of JStr s \<Rightarrow> Text s | _ \<Rightarrow> Raw v))"

definition deserialize_model_row :: "iso_parser \<Rightarrow> column list \<Rightarrow> (string \<times> json) list \<Rightarrow> cell list res" where
  "deserialize_model_row parse_iso cols payload =
     rmap_list (\<lambda>c. deserialize_column parse_iso (col_type c) (map_of payload (col_name c))) cols"

text \<open>What PostgreSQL accepts in a column: the type, the length, the width of an integer, no null where none is
  allowed; \<open>inet_syntax\<close> says which texts are addresses.\<close>

definition cell_fits :: "(string \<Rightarrow> bool) \<Rightarrow> column \<Rightarrow> cell \<Rightarrow> bool" where
  "cell_fits inet_syntax c v =
     (case v of
        Null \<Rightarrow> col_nullable c
      | Text s \<Rightarrow> (case col_type c of
            ColText \<Rightarrow> True | ColString n \<Rightarrow> length s \<le> n | ColInet \<Rightarrow> inet_syntax s | _ \<Rightarrow> False)
      | Uid i \<Rightarrow> col_type c = ColUuid \<and> i < 16 ^ 32
      | Num n \<Rightarrow> col_type c = ColInteger \<and> - (2 ^ 31) \<le> n \<and> n < 2 ^ 31
      | Flag b \<Rightarrow> col_type c = ColBoolean
      | Time t \<Rightarrow> col_type c = ColDateTime
      | Raw j \<Rightarrow> False)"

definition row_fits :: "(string \<Rightarrow> bool) \<Rightarrow> column list \<Rightarrow> cell list \<Rightarrow> bool" where
  "row_fits inet_syntax cols cells = list_all2 (cell_fits inet_syntax) cols cells"

lemma column_roundtrip:
  assumes "cell_fits inet c v" and "\<And>t. parse_iso (iso_print t) = Some t"
  shows "deserialize_column parse_iso (col_type c) (Some (backup_json_value iso_print v)) = Inr v"
  using assms
  by (cases v) (auto simp: cell_fits_def deserialize_column_def parse_backup_datetime_def parse_backup_bool_def
      parse_uuid_str Let_def py_int_int_str split: column_type.splits)

lemma row_roundtrip_aux:
  assumes "\<And>t. parse_iso (iso_print t) = Some t" and "row_fits inet cols cells" and "distinct (map col_name cols)"
    and "\<And>c. c \<in> set cols \<Longrightarrow> map_of payload (col_name c) = map_of (serialize_model_row iso_print cols cells) (col_name c)"
  shows "deserialize_model_row parse_iso cols payload = Inr cells"
proof -
  have "rmap_list (\<lambda>c. deserialize_column parse_iso (col_type c) (map_of payload (col_name c))) cs = Inr vs"
    if "list_all2 (\<lambda>c v. cell_fits inet c v \<and> map_of payload (col_name c) = Some (backup_json_value iso_print v)) cs vs" for cs vs
    using that by (induction cs vs rule: list_all2_induct) (auto simp: column_roundtrip assms(1))
  moreover have "list_all2 (\<lambda>c v. cell_fits inet c v \<and> map_of payload (col_name c) = Some (backup_json_value iso_print v)) cols cells"
  proof (rule list_all2_all_nthI)
    show l: "length cols = length cells" using assms(2) by (simp add: row_fits_def list_all2_lengthD)
    fix n assume n: "n < length cols"
    have "map_of (serialize_model_row iso_print cols cells) (map col_name cols ! n) = Some (map (backup_json_value iso_print) cells ! n)"
      unfolding serialize_model_row_def using assms(3) l n by (intro map_of_zip_nth) auto
    then show "cell_fits inet (cols ! n) (cells ! n) \<and>
        map_of payload (col_name (cols ! n)) = Some (backup_json_value iso_print (cells ! n))"
      using assms(2,4) n l by (simp add: row_fits_def list_all2_nthD)
  qed
  ultimately show ?thesis by (simp add: deserialize_model_row_def)
qed

text \<open>A row is read back from its JSON form, in whatever order its members come.\<close>

lemma row_roundtrip:
  assumes "\<And>t. parse_iso (iso_print t) = Some t" and "row_fits inet cols cells" and "distinct (map col_name cols)"
  shows "deserialize_model_row parse_iso cols (serialize_model_row iso_print cols cells) = Inr cells"
  by (rule row_roundtrip_aux [OF assms]) simp

lemma backup_columns_distinct: "(n, cols) \<in> set backup_table_models \<Longrightarrow> distinct (map col_name cols)"
  unfolding backup_table_models_def
  by (auto simp: user_columns_def integration_settings_columns_def company_columns_def company_user_columns_def enrollment_code_columns_def device_columns_def device_backup_columns_def device_event_columns_def audit_log_columns_def)

end
