(* ===== verification/Backup_Service.thy ===== *)
theory Backup_Service
  imports Backup_Rows Wg_Agent
begin

text \<open>
  \<open>dashboard/app/services/backup_service.py\<close>: the validation of a Hub backup, its encryption and archive, export,
  restore and what follows a restore. An archive is what \<open>zipfile\<close> makes of named members; reading a member
  gives its content or raises. The database that runs the statements is a record: which cells a column
  accepts and what it stores for a value of a text column that is not a string. The staging database is one of its own.
  The files of the Hub are the branding directory, the key file and the temporary files, by a number.
\<close>

definition BACKUP_FORMAT_VERSION :: int where "BACKUP_FORMAT_VERSION = 2"

definition ENCRYPTED_BACKUP_FORMAT :: string where
  "ENCRYPTED_BACKUP_FORMAT = ''opnhub-encrypted-backup-v1''"

definition BACKUP_TABLE_NAMES :: "string list" where
  "BACKUP_TABLE_NAMES = map fst backup_table_models"

definition ALLOWED_BACKUP_ARCHIVE_MEMBERS :: "string list" where
  "ALLOWED_BACKUP_ARCHIVE_MEMBERS = [''manifest.json'', ''data.json'', ''wireguard/server.key'',
     ''branding/logo.png'', ''branding/logo.jpg'', ''branding/logo.webp'']"

definition ALLOWED_USER_ROLES :: "string list" where
  "ALLOWED_USER_ROLES = [''user'', ''administrator'']"

definition ALLOWED_COMPANY_USER_ROLES :: "string list" where
  "ALLOWED_COMPANY_USER_ROLES = [''viewer'', ''admin'', ''owner'']"

definition ALLOWED_DEVICE_STATUSES :: "string list" where
  "ALLOWED_DEVICE_STATUSES =
     [''pending'', ''online'', ''offline'', ''warning'', ''critical'', ''revoked'', ''unknown'']"

definition ALLOWED_FIRMWARE_STATUSES :: "string list" where
  "ALLOWED_FIRMWARE_STATUSES = [''unknown'', ''none'', ''update'', ''upgrade'', ''error'']"

record backup_db =
  bd_accepts :: "column \<Rightarrow> cell \<Rightarrow> bool"
  bd_adapt :: "json \<Rightarrow> string option"

record zip_info =
  zi_filename :: string
  zi_file_size :: int
  zi_content :: "string res"

record backup_env =
  be_cfg :: settings
  be_iso :: iso_parser
  be_iso_print :: "instant \<Rightarrow> string"
  be_aware :: iso_aware
  be_float :: float_reader
  be_kdf :: "string \<Rightarrow> string \<Rightarrow> int \<Rightarrow> string"
  be_fernet :: fernet
  be_zip :: "(string \<times> string) list \<Rightarrow> string"
  be_unzip :: "string \<Rightarrow> zip_info list option"
  be_database :: backup_db
  be_staging :: backup_db
  be_create_all :: "unit res"

type_synonym backup_row = "(string \<times> json) list"

type_synonym backup_data = "(string \<times> json) list"

definition bad :: "string \<Rightarrow> exn" where
  "bad detail = HTTPException 400 detail"

text \<open>Checks in a row: the first that raises decides.\<close>

definition all_ok :: "unit res list \<Rightarrow> unit res" where
  "all_ok rs = rfor_each (\<lambda>r. r) rs"

lemma all_ok_iff: "all_ok rs = Inr u \<longleftrightarrow> (\<forall>r\<in>set rs. r = Inr ())"
  by (simp add: all_ok_def rfor_each_Inr_iff)

subsection \<open>The shape of the data\<close>

definition missing_names :: "string list \<Rightarrow> string list \<Rightarrow> string list" where
  "missing_names expected present = sort (remdups (filter (\<lambda>n. n \<notin> set present) expected))"

definition names_ok :: "string list \<Rightarrow> string \<Rightarrow> unit res" where
  "names_ok names detail = ensure (names = []) (bad (detail @ join '', '' names))"

definition is_null :: "json option \<Rightarrow> bool" where
  "is_null v \<longleftrightarrow> v = None \<or> v = Some JNull"

definition validate_backup_row_shape :: "string \<Rightarrow> column list \<Rightarrow> backup_row \<Rightarrow> unit res" where
  "validate_backup_row_shape table_name cols row =
     (let expected = map col_name cols; present = map fst row;
          table = ''backup table '' @ [CHR 0x27] @ table_name @ [CHR 0x27]
      in all_ok
        [names_ok (missing_names expected present) (table @ '' is missing required fields: ''),
         names_ok (missing_names present expected) (table @ '' contains unexpected fields: ''),
         names_ok (sort (map col_name (filter (\<lambda>c. \<not> col_nullable c \<and> is_null (map_of row (col_name c))) cols)))
           (table @ '' contains null required fields: '')])"

text \<open>\<open>isinstance(value, int)\<close> and its value; \<open>True\<close> is an \<open>int\<close>.\<close>

fun int_value :: "json \<Rightarrow> int option" where
  "int_value (JInt i) = Some i"
| "int_value (JBool b) = Some (if b then 1 else 0)"
| "int_value _ = None"

fun py_len :: "json \<Rightarrow> int res" where
  "py_len (JStr s) = Inr (int (length s))"
| "py_len (JList xs) = Inr (int (length xs))"
| "py_len (JObj kvs) = Inr (int (length kvs))"
| "py_len _ = Inl TypeError"

definition validate_backup_manifest :: "(string \<times> json) list \<Rightarrow> backup_data \<Rightarrow> unit res" where
  "validate_backup_manifest manifest data =
     (case map_of manifest ''tables'' of
        Some (JObj tables) \<Rightarrow>
          rbind (names_ok (missing_names BACKUP_TABLE_NAMES (map fst tables))
            ''backup archive manifest is missing table counts: '') (\<lambda>_.
          rbind (names_ok (missing_names (map fst tables) BACKUP_TABLE_NAMES)
            ''backup archive manifest contains unexpected table counts: '') (\<lambda>_.
          rfor_each (\<lambda>n.
            let table = '' count for '' @ [CHR 0x27] @ n @ [CHR 0x27] in
            case int_value (field tables n) of
              None \<Rightarrow> Inl (bad (''backup archive manifest'' @ table @ '' is invalid''))
            | Some expected \<Rightarrow>
                if expected < 0 then Inl (bad (''backup archive manifest'' @ table @ '' is invalid''))
                else rbind (py_len (field data n)) (\<lambda>actual.
                  ensure (expected = actual)
                    (bad (''backup archive manifest'' @ table @ '' does not match data.json'')))) BACKUP_TABLE_NAMES))
      | _ \<Rightarrow> Inl (bad ''backup archive manifest is missing table counts''))"

definition validate_backup_tables_present :: "backup_data \<Rightarrow> unit res" where
  "validate_backup_tables_present data =
     all_ok
       [names_ok (missing_names BACKUP_TABLE_NAMES (map fst data)) ''backup archive data is missing required tables: '',
        names_ok (missing_names (map fst data) BACKUP_TABLE_NAMES) ''backup archive data contains unexpected tables: '']"

subsection \<open>Single fields\<close>

definition backup_uuid :: "json \<Rightarrow> string \<Rightarrow> uuid res" where
  "backup_uuid v detail = (case parse_uuid (py_str v) of None \<Rightarrow> Inl (bad detail) | Some i \<Rightarrow> Inr i)"

definition ensure_string_max_length :: "json \<Rightarrow> string \<Rightarrow> nat \<Rightarrow> unit res" where
  "ensure_string_max_length v field_name maximum =
     ensure (v = JNull \<or> length (py_str v) \<le> maximum)
       (bad (field_name @ '' exceeds the maximum length of '' @ nat_str maximum))"

definition validate_private_key :: "string \<Rightarrow> unit res" where
  "validate_private_key value =
     ensure (wg_key_re (strip value)) (bad ''backup archive contains an invalid WireGuard private key'')"

definition validate_restore_tunnel_ip :: "settings \<Rightarrow> json \<Rightarrow> string list \<Rightarrow> string res" where
  "validate_restore_tunnel_ip cfg v seen =
     (case ip_address (strip (py_str v)) of
        None \<Rightarrow> Inl (bad ''backup archive contains an invalid device tunnel IP'')
      | Some parsed \<Rightarrow>
          rbind (get_validated_hub_wireguard_config cfg) (\<lambda>validated.
          case parsed of
            V6 _ _ \<Rightarrow> Inl (bad ''device tunnel IP must be IPv4'')
          | V4 a \<Rightarrow>
              rbind (all_ok
                [ensure (in_net4 a (vc_network validated)) (bad ''device tunnel IP must be inside HUB_WG_CIDR''),
                 ensure (a \<noteq> vc_hub_ip validated \<and> a \<noteq> n4_addr (vc_network validated)
                     \<and> a \<noteq> broadcast4 (vc_network validated))
                   (bad ''device tunnel IP is not a usable host address''),
                 ensure (show_ip parsed \<notin> set seen) (bad ''backup archive contains duplicate device tunnel IPs'')])
              (\<lambda>_. Inr (show_ip parsed))))"

text \<open>\<open>row.get(key) or alt\<close>, and \<open>str(value).strip().lower()\<close>.\<close>

definition get_or :: "backup_row \<Rightarrow> string \<Rightarrow> json \<Rightarrow> json" where
  "get_or row key alt = (let v = field row key in if json_true v then v else alt)"

definition norm :: "json \<Rightarrow> string" where
  "norm v = lower (strip (py_str v))"

definition null_or_in :: "json \<Rightarrow> string list \<Rightarrow> bool" where
  "null_or_in v allowed \<longleftrightarrow> v = JNull \<or> norm v \<in> set allowed"

definition int_between :: "json \<Rightarrow> int \<Rightarrow> int \<Rightarrow> string \<Rightarrow> unit res" where
  "int_between v lo hi detail =
     (case py_int (py_str v) of None \<Rightarrow> Inl ValueError | Some n \<Rightarrow> ensure (lo \<le> n \<and> n \<le> hi) (bad detail))"

definition refers_to :: "json \<Rightarrow> string \<Rightarrow> uuid list \<Rightarrow> string \<Rightarrow> unit res" where
  "refers_to v invalid ids missing =
     rbind (backup_uuid v invalid) (\<lambda>i. ensure (i \<in> set ids) (bad missing))"

definition null_or_refers_to :: "json \<Rightarrow> string \<Rightarrow> uuid list \<Rightarrow> string \<Rightarrow> unit res" where
  "null_or_refers_to v invalid ids missing = (if v = JNull then Inr () else refers_to v invalid ids missing)"

subsection \<open>The rows of each table\<close>

definition validate_user_row :: "backup_row \<Rightarrow> unit res" where
  "validate_user_row row = all_ok
     [ensure (norm (get_or row ''role'' (JStr [])) \<in> set ALLOWED_USER_ROLES)
        (bad ''backup archive contains an invalid user role''),
      ensure (null_or_in (field row ''auth_provider'') [''microsoft'', ''local_ad''])
        (bad ''backup archive contains an invalid auth provider''),
      ensure_string_max_length (field row ''email'') ''user email'' 320,
      ensure_string_max_length (field row ''first_name'') ''user first name'' 120,
      ensure_string_max_length (field row ''last_name'') ''user last name'' 120]"

definition validate_company_user_row :: "uuid list \<Rightarrow> uuid list \<Rightarrow> backup_row \<Rightarrow> unit res" where
  "validate_company_user_row company_ids user_ids row =
     (let missing = ''backup archive contains a company membership with a missing user or company'' in
      all_ok
        [refers_to (field row ''company_id'') ''backup archive contains an invalid company membership company id''
           company_ids missing,
         refers_to (field row ''user_id'') ''backup archive contains an invalid company membership user id''
           user_ids missing,
         ensure (norm (get_or row ''role'' (JStr [])) \<in> set ALLOWED_COMPANY_USER_ROLES)
           (bad ''backup archive contains an invalid company role'')])"

definition validate_device_limits :: "backup_row \<Rightarrow> unit res" where
  "validate_device_limits row = all_ok
     [int_between (get_or row ''backup_retention_count'' (JInt 3)) 1 10 ''backup retention count is out of range'',
      int_between (get_or row ''backup_interval_value'' (JInt 24)) 1 999 ''backup interval value is out of range'',
      ensure (norm (get_or row ''backup_interval_unit'' (JStr ''hours'')) \<in> {''hours'', ''days'', ''months''})
        (bad ''backup interval unit must be hours, days, or months''),
      int_between (get_or row ''backup_interval_hours'' (JInt 24)) 1 720 ''backup interval hours is out of range'',
      ensure_string_max_length (field row ''hostname'') ''device hostname'' 255,
      ensure_string_max_length (field row ''name'') ''device name'' 200,
      ensure_string_max_length (field row ''email_notification_recipient'') ''device email notification recipient'' 320,
      ensure_string_max_length (field row ''runbook_owner'') ''runbook owner'' 200,
      ensure_string_max_length (field row ''runbook_contact'') ''runbook contact'' 320,
      ensure_string_max_length (field row ''runbook_site'') ''runbook site'' 200,
      ensure_string_max_length (field row ''firmware_current_version'') ''firmware current version'' 80,
      ensure_string_max_length (field row ''firmware_available_version'') ''firmware available version'' 80,
      ensure_string_max_length (field row ''firmware_status_message'') ''firmware status message'' 500]"

text \<open>One device, given the tunnel addresses of those before it; the result adds its own.\<close>

definition validate_device_row :: "settings \<Rightarrow> uuid list \<Rightarrow> string list \<Rightarrow> backup_row \<Rightarrow> string list res" where
  "validate_device_row cfg company_ids seen row =
     rbind (refers_to (field row ''company_id'') ''backup archive contains an invalid device company id'' company_ids
       ''backup archive contains a device with a missing company'') (\<lambda>_.
     rbind (validate_public_key (strip (py_str (get_or row ''wg_public_key'' (JStr []))))) (\<lambda>_.
     rbind (validate_restore_tunnel_ip cfg (field row ''wg_tunnel_ip'') seen) (\<lambda>normalized.
     rbind (all_ok
       [ensure (norm (get_or row ''status'' (JStr [])) \<in> set ALLOWED_DEVICE_STATUSES)
          (bad ''backup archive contains an invalid device status''),
        ensure (norm (get_or row ''firmware_status'' (JStr ''unknown'')) \<in> set ALLOWED_FIRMWARE_STATUSES)
          (bad ''backup archive contains an invalid firmware status''),
        ensure (null_or_in (field row ''firmware_update_type'') [''update'', ''upgrade''])
          (bad ''backup archive contains an invalid firmware update type''),
        ensure (null_or_in (field row ''firmware_check_request_reason'') [''manual'', ''scheduled''])
          (bad ''backup archive contains an invalid firmware request reason''),
        ensure (null_or_in (field row ''license_type'') [''community'', ''business''])
          (bad ''backup archive contains an invalid license type''),
        validate_device_limits row]) (\<lambda>_.
       Inr (seen @ [normalized])))))"

fun validate_device_rows :: "settings \<Rightarrow> uuid list \<Rightarrow> string list \<Rightarrow> backup_row list \<Rightarrow> unit res" where
  "validate_device_rows cfg company_ids seen [] = Inr ()"
| "validate_device_rows cfg company_ids seen (row # rows) =
     rbind (validate_device_row cfg company_ids seen row) (\<lambda>seen'. validate_device_rows cfg company_ids seen' rows)"

definition legacy_archive :: exn where
  "legacy_archive = bad ''legacy Hub archives containing plaintext firewall backups are not supported''"

text \<open>Membership in a set of texts: a list or an object is not hashable.\<close>

definition format_supported :: "json \<Rightarrow> bool res" where
  "format_supported v =
     (case v of
        JList _ \<Rightarrow> Inl TypeError
      | JObj _ \<Rightarrow> Inl TypeError
      | _ \<Rightarrow> Inr (v \<in> {JStr encrypted_format, JStr plaintext_format}))"

definition set_field :: "string \<Rightarrow> json \<Rightarrow> backup_row \<Rightarrow> backup_row" where
  "set_field key v row = map (\<lambda>(k, x). (k, if k = key then v else x)) row"

definition validate_stored_backup :: "backup_env \<Rightarrow> uuid list \<Rightarrow> backup_row \<Rightarrow> backup_row res" where
  "validate_stored_backup env device_ids row =
     rbind (backup_uuid (field row ''device_id'') ''backup archive contains an invalid stored backup device id'') (\<lambda>i.
     rbind (all_ok
       [ensure (i \<in> set device_ids) (bad ''backup archive contains a stored backup with a missing device''),
        ensure_string_max_length (field row ''filename'') ''backup filename'' 255,
        ensure (''content'' \<notin> set (map fst row)) legacy_archive]) (\<lambda>_.
     rbind (format_supported (field row ''backup_format'')) (\<lambda>supported.
     rbind (ensure supported (bad ''backup archive contains an unsupported firewall backup format'')) (\<lambda>_.
     case field row ''encrypted_payload'' of
       JStr payload \<Rightarrow>
         (case json_loads (be_float env) dict_hook payload of
            None \<Rightarrow> Inl (bad ''backup archive contains an invalid stored firewall backup'')
          | Some envelope \<Rightarrow>
              rbind (if field row ''backup_format'' = JStr plaintext_format
                     then validate_plaintext_device_backup (be_aware env) envelope i
                     else validate_encrypted_device_backup (be_aware env) envelope i)
                (\<lambda>canonical. Inr (set_field ''encrypted_payload'' (JStr canonical) row)))
     | _ \<Rightarrow> Inl (bad ''backup archive contains an invalid stored firewall backup'')))))"

definition validate_event_row :: "uuid list \<Rightarrow> backup_row \<Rightarrow> unit res" where
  "validate_event_row device_ids row = all_ok
     [refers_to (field row ''device_id'') ''backup archive contains an invalid device event device id'' device_ids
        ''backup archive contains a device event with a missing device'',
      ensure_string_max_length (field row ''event_type'') ''device event type'' 80,
      ensure_string_max_length (field row ''message'') ''device event message'' 1000]"

definition validate_audit_row :: "uuid list \<Rightarrow> uuid list \<Rightarrow> uuid list \<Rightarrow> backup_row \<Rightarrow> unit res" where
  "validate_audit_row user_ids company_ids device_ids row = all_ok
     [null_or_refers_to (field row ''user_id'') ''backup archive contains an invalid audit log user id'' user_ids
        ''backup archive contains an audit log with a missing user'',
      null_or_refers_to (field row ''company_id'') ''backup archive contains an invalid audit log company id'' company_ids
        ''backup archive contains an audit log with a missing company'',
      null_or_refers_to (field row ''device_id'') ''backup archive contains an invalid audit log device id'' device_ids
        ''backup archive contains an audit log with a missing device'',
      ensure_string_max_length (field row ''action'') ''audit action'' 120,
      ensure_string_max_length (field row ''user_agent'') ''audit user agent'' 500]"

definition validate_code_row :: "uuid list \<Rightarrow> uuid list \<Rightarrow> backup_row \<Rightarrow> unit res" where
  "validate_code_row company_ids user_ids row = all_ok
     [refers_to (field row ''company_id'') ''backup archive contains an invalid enrollment code company id'' company_ids
        ''backup archive contains an enrollment code with a missing company'',
      null_or_refers_to (field row ''created_by'') ''backup archive contains an invalid enrollment code creator id'' user_ids
        ''backup archive contains an enrollment code with a missing creator'']"

subsection \<open>The whole archive\<close>

definition validate_table_row :: "backup_env \<Rightarrow> string \<Rightarrow> column list \<Rightarrow> json \<Rightarrow> unit res" where
  "validate_table_row env table_name cols v =
     (case v of
        JObj row \<Rightarrow>
          if table_name = ''device_backups'' \<and> ''content'' \<in> set (map fst row) then Inl legacy_archive
          else rbind (validate_backup_row_shape table_name cols row) (\<lambda>_.
            rbind (deserialize_model_row (be_iso env) cols row) (\<lambda>_. Inr ()))
      | _ \<Rightarrow> Inl (bad (''backup table '' @ [CHR 0x27] @ table_name @ [CHR 0x27] @ '' contains an invalid row'')))"

definition validate_table :: "backup_env \<Rightarrow> backup_data \<Rightarrow> string \<times> column list \<Rightarrow> unit res" where
  "validate_table env data = (\<lambda>(table_name, cols).
     case field data table_name of
       JList rows \<Rightarrow> rfor_each (validate_table_row env table_name cols) rows
     | _ \<Rightarrow> Inl (bad (''backup table '' @ [CHR 0x27] @ table_name @ [CHR 0x27] @ '' is invalid'')))"

definition validate_table_shapes :: "backup_env \<Rightarrow> backup_data \<Rightarrow> unit res" where
  "validate_table_shapes env data =
     (case rfor_each (validate_table env data) backup_table_models of
        Inl e \<Rightarrow> Inl (if e \<in> {TypeError, ValueError, KeyError}
                     then bad ''backup archive contains invalid table data'' else e)
      | Inr u \<Rightarrow> Inr u)"

fun members_of :: "json \<Rightarrow> backup_row" where
  "members_of (JObj row) = row"
| "members_of _ = []"

definition rows_in :: "backup_data \<Rightarrow> string \<Rightarrow> backup_row list" where
  "rows_in data table_name = (case field data table_name of JList rows \<Rightarrow> map members_of rows | _ \<Rightarrow> [])"

definition table_ids :: "backup_data \<Rightarrow> string \<Rightarrow> string \<Rightarrow> uuid list res" where
  "table_ids data table_name detail = rmap_list (\<lambda>row. backup_uuid (field row ''id'') detail) (rows_in data table_name)"

definition validate_logo :: "settings \<Rightarrow> (string \<times> string) option \<Rightarrow> unit res" where
  "validate_logo cfg logo_file =
     (case logo_file of
        None \<Rightarrow> Inr ()
      | Some (logo_name, logo_content) \<Rightarrow>
          rbind (detect_image_extension logo_content) (\<lambda>extension. all_ok
            [ensure (logo_name = ''logo'' @ extension) (bad ''backup archive branding logo filename is invalid''),
             ensure (int (length logo_content) \<le> cfg_branding_logo_max_bytes cfg)
               (bad ''backup archive branding logo exceeds the allowed size'')]))"

text \<open>The result is the data with every stored firewall backup in its canonical form, as the code leaves it.\<close>

definition validate_backup_data ::
  "backup_env \<Rightarrow> backup_data \<Rightarrow> (string \<times> string) option \<Rightarrow> string option \<Rightarrow> backup_data res" where
  "validate_backup_data env data logo_file wireguard_private_key =
     rbind (validate_backup_tables_present data) (\<lambda>_.
     rbind (validate_table_shapes env data) (\<lambda>_.
     rbind (ensure (case rows_in data ''integration_settings'' of
               [row] \<Rightarrow> py_str (field row ''id'') = ''1'' | _ \<Rightarrow> False)
       (bad ''backup archive must contain exactly one integration settings row with id=1'')) (\<lambda>_.
     rbind (table_ids data ''users'' ''backup archive contains an invalid user id'') (\<lambda>user_ids.
     rbind (table_ids data ''companies'' ''backup archive contains an invalid company id'') (\<lambda>company_ids.
     rbind (table_ids data ''devices'' ''backup archive contains an invalid device id'') (\<lambda>device_ids.
     rbind (rfor_each validate_user_row (rows_in data ''users'')) (\<lambda>_.
     rbind (rfor_each (\<lambda>row. ensure_string_max_length (field row ''name'') ''company name'' 200)
       (rows_in data ''companies'')) (\<lambda>_.
     rbind (rfor_each (validate_company_user_row company_ids user_ids) (rows_in data ''company_users'')) (\<lambda>_.
     rbind (validate_device_rows (be_cfg env) company_ids [] (rows_in data ''devices'')) (\<lambda>_.
     rbind (rmap_list (validate_stored_backup env device_ids) (rows_in data ''device_backups'')) (\<lambda>backups.
     rbind (rfor_each (validate_event_row device_ids) (rows_in data ''device_events'')) (\<lambda>_.
     rbind (rfor_each (validate_audit_row user_ids company_ids device_ids) (rows_in data ''audit_logs'')) (\<lambda>_.
     rbind (rfor_each (validate_code_row company_ids user_ids) (rows_in data ''enrollment_codes'')) (\<lambda>_.
     rbind (validate_logo (be_cfg env) logo_file) (\<lambda>_.
     rbind (case wireguard_private_key of None \<Rightarrow> Inr () | Some k \<Rightarrow> validate_private_key k) (\<lambda>_.
       Inr (set_field ''device_backups'' (JList (map JObj backups)) data)))))))))))))))))"

subsection \<open>Writing the rows into a database\<close>

text \<open>The constraints that \<open>models.py\<close> declares on the nine tables: primary keys, unique columns, foreign keys, the check
  on the format of a backup.\<close>

definition refers :: "'a option \<Rightarrow> 'a list \<Rightarrow> bool" where
  "refers x ids = (case x of None \<Rightarrow> True | Some i \<Rightarrow> i \<in> set ids)"

definition unique_keys :: "hub_db \<Rightarrow> bool" where
  "unique_keys d \<longleftrightarrow>
     distinct (map usr_id (users d)) \<and> distinct (map usr_email (users d))
   \<and> distinct (map ints_id (integration_rows d)) \<and> distinct (map com_id (companies d))
   \<and> distinct (map (\<lambda>r. (cu_company_id r, cu_user_id r)) (company_users d))
   \<and> distinct (map ec_id (enrollment_codes d)) \<and> distinct (map dev_id (devices d))
   \<and> distinct (map dev_wg_public_key (devices d)) \<and> distinct (map dev_wg_tunnel_ip (devices d))
   \<and> distinct (map dbk_id (device_backups d)) \<and> distinct (map ev_id (device_events d))
   \<and> distinct (map al_id (audit_logs d))"

definition foreign_keys :: "hub_db \<Rightarrow> bool" where
  "foreign_keys d \<longleftrightarrow>
     (let user_ids = map usr_id (users d); company_ids = map com_id (companies d); device_ids = map dev_id (devices d) in
      list_all (\<lambda>r. cu_company_id r \<in> set company_ids \<and> cu_user_id r \<in> set user_ids) (company_users d)
    \<and> list_all (\<lambda>r. ec_company_id r \<in> set company_ids \<and> refers (ec_created_by r) user_ids) (enrollment_codes d)
    \<and> list_all (\<lambda>r. dev_company_id r \<in> set company_ids \<and> refers (dev_health_acknowledged_by r) user_ids) (devices d)
    \<and> list_all (\<lambda>r. dbk_device_id r \<in> set device_ids) (device_backups d)
    \<and> list_all (\<lambda>r. ev_device_id r \<in> set device_ids) (device_events d)
    \<and> list_all (\<lambda>r. refers (al_user_id r) user_ids \<and> refers (al_company_id r) company_ids
          \<and> refers (al_device_id r) device_ids) (audit_logs d))"

definition integrity :: "hub_db \<Rightarrow> bool" where
  "integrity d \<longleftrightarrow> unique_keys d \<and> foreign_keys d
     \<and> list_all (\<lambda>r. dbk_backup_format r \<in> {encrypted_format, plaintext_format}) (device_backups d)"

definition stored_cell :: "backup_db \<Rightarrow> column \<Rightarrow> cell \<Rightarrow> cell res" where
  "stored_cell db c v =
     (case v of
        Raw j \<Rightarrow> (case bd_adapt db j of None \<Rightarrow> Inl (ExternalError ''ProgrammingError'') | Some s \<Rightarrow> Inr (Text s))
      | _ \<Rightarrow> if bd_accepts db c v then Inr v else Inl (ExternalError ''DataError''))"

fun stored_row :: "backup_db \<Rightarrow> column list \<Rightarrow> cell list \<Rightarrow> cell list res" where
  "stored_row db (c # cs) (v # vs) =
     rbind (stored_cell db c v) (\<lambda>x. rbind (stored_row db cs vs) (\<lambda>xs. Inr (x # xs)))"
| "stored_row db cs vs = Inr []"

text \<open>Adding the rows of one table after the other, each with a flush: the tables written, and what stopped it.\<close>

fun insert_tables ::
  "backup_db \<Rightarrow> iso_parser \<Rightarrow> backup_data \<Rightarrow> (string \<times> cell list list) list \<Rightarrow> (string \<times> column list) list
     \<Rightarrow> unit res \<times> (string \<times> cell list list) list" where
  "insert_tables db parse_iso data done [] = (Inr (), done)"
| "insert_tables db parse_iso data done ((table_name, cols) # rest) =
     (case rmap_list (deserialize_model_row parse_iso cols) (rows_in data table_name) of
        Inl e \<Rightarrow> (Inl e, done)
      | Inr rows \<Rightarrow>
          (case rmap_list (stored_row db cols) rows of
             Inl e \<Rightarrow> (Inl e, done)
           | Inr stored \<Rightarrow>
               let done' = done @ [(table_name, stored)] in
               if integrity (load_rows done') then insert_tables db parse_iso data done' rest
               else (Inl IntegrityError, done')))"

definition sqlalchemy_error :: "exn \<Rightarrow> bool" where
  "sqlalchemy_error e \<longleftrightarrow>
     e \<in> {IntegrityError, ExternalError ''ProgrammingError'', ExternalError ''DataError''}"

definition validate_backup_data_in_staging :: "backup_env \<Rightarrow> backup_data \<Rightarrow> unit res" where
  "validate_backup_data_in_staging env data =
     rbind (be_create_all env) (\<lambda>_.
     case fst (insert_tables (be_staging env) (be_iso env) data [] backup_table_models) of
       Inl e \<Rightarrow> Inl (if sqlalchemy_error e then bad ''backup archive failed staging database validation'' else e)
     | Inr u \<Rightarrow> Inr u)"

text \<open>\<open>restore_backup_bundle\<close>: the deletes empty the named tables, and through their foreign keys the pending sign-ins, the
  filters and the acknowledgements of the users.\<close>

definition restore_backup_bundle ::
  "backup_env \<Rightarrow> backup_data \<Rightarrow> (string \<times> string) option \<Rightarrow> string option \<Rightarrow> (db_session, unit) act" where
  "restore_backup_bundle env data logo_file wireguard_private_key =
     abind (alift (validate_backup_data env data logo_file wireguard_private_key)) (\<lambda>data'.
     aseq (alift (validate_backup_data_in_staging env data')) (\<lambda>s.
       case insert_tables (be_database env) (be_iso env) data' [] backup_table_models of
         (r, rows) \<Rightarrow> (r, s\<lparr>work := load_rows rows\<rparr>)))"

subsection \<open>Encryption\<close>

definition derive_backup_key :: "backup_env \<Rightarrow> string \<Rightarrow> string \<Rightarrow> int \<Rightarrow> string" where
  "derive_backup_key env passphrase salt iterations = urlsafe_b64encode (be_kdf env passphrase salt iterations)"

definition encrypt_backup_payload :: "backup_env \<Rightarrow> string \<Rightarrow> nat \<Rightarrow> string \<Rightarrow> string \<Rightarrow> string" where
  "encrypt_backup_payload env salt nonce content passphrase =
     (let token = f_encrypt (be_fernet env) (derive_backup_key env passphrase salt 390000) nonce content in
      json_dumps_indent (JObj [(''format'', JStr ENCRYPTED_BACKUP_FORMAT), (''salt'', JStr (b64encode salt)),
        (''iterations'', JInt 390000), (''ciphertext'', JStr token)]))"

definition equals_int :: "json \<Rightarrow> int \<Rightarrow> bool" where
  "equals_int v n =
     (case v of JFloat r t \<Rightarrow> r = int_str n @ ''.0'' | _ \<Rightarrow> int_value v = Some n)"

definition wrong_passphrase :: exn where
  "wrong_passphrase = bad ''backup passphrase is invalid or the archive is corrupted''"

text \<open>Bytes that are no ASCII text are no JSON text here.\<close>

definition decrypt_backup_payload :: "backup_env \<Rightarrow> string \<Rightarrow> string option \<Rightarrow> string res" where
  "decrypt_backup_payload env content passphrase =
     (case (if list_all (\<lambda>c. code_of c < 128) content then json_loads (be_float env) dict_hook content else None) of
        Some (JObj envelope) \<Rightarrow>
          if field envelope ''format'' \<noteq> JStr ENCRYPTED_BACKUP_FORMAT then Inr content
          else if set (map fst envelope) \<noteq> {''format'', ''salt'', ''iterations'', ''ciphertext''}
          then Inl (bad ''encrypted backup envelope is invalid'')
          else if \<not> equals_int (field envelope ''iterations'') 390000
          then Inl (bad ''encrypted backup KDF parameters are invalid'')
          else if \<not> nonempty passphrase then Inl (bad ''backup archive requires a passphrase'')
          else
            (case (field envelope ''salt'', field envelope ''ciphertext'') of
               (JStr salt_value, JStr ciphertext_value) \<Rightarrow>
                 (case b64decode_strict salt_value of
                    None \<Rightarrow> Inl wrong_passphrase
                  | Some salt \<Rightarrow>
                      if length salt \<noteq> 16
                         \<or> int (length ciphertext_value) > cfg_max_backup_restore_bytes (be_cfg env) * 2
                         \<or> \<not> list_all (\<lambda>c. code_of c < 128) ciphertext_value then Inl wrong_passphrase
                      else (case f_decrypt (be_fernet env) (derive_backup_key env (the passphrase) salt 390000)
                                ciphertext_value of
                          None \<Rightarrow> Inl wrong_passphrase
                        | Some plain \<Rightarrow> Inr plain))
             | _ \<Rightarrow> Inl wrong_passphrase)
      | _ \<Rightarrow> Inr content)"

subsection \<open>Archive and export\<close>

definition validate_backup_archive_members :: "settings \<Rightarrow> zip_info list \<Rightarrow> unit res" where
  "validate_backup_archive_members cfg infos =
     (let names = map zi_filename infos; files = filter (\<lambda>i. \<not> endswith (zi_filename i) ''/'') infos in
      rbind (all_ok
        [ensure (int (length infos) \<le> cfg_max_backup_restore_entries cfg) (bad ''backup archive contains too many files''),
         ensure ({''manifest.json'', ''data.json''} \<subseteq> set names) (bad ''backup archive is missing required files''),
         names_ok (missing_names names ALLOWED_BACKUP_ARCHIVE_MEMBERS) ''backup archive contains unexpected files: ''])
      (\<lambda>_. rfor_each (\<lambda>n.
        let info = files ! n in all_ok
          [ensure (\<not> startswith (zi_filename info) ''/'' \<and> \<not> startswith (zi_filename info) [CHR 0x5C]
               \<and> ''..'' \<notin> set (split_on CHR ''/'' (zi_filename info)))
             (bad ''backup archive contains an invalid member path''),
           ensure (zi_file_size info \<le> cfg_max_backup_restore_file_bytes cfg)
             (bad (''backup archive member '' @ [CHR 0x27] @ zi_filename info @ [CHR 0x27] @ '' exceeds the allowed size'')),
           ensure (sum_list (map zi_file_size (take (Suc n) files)) \<le> cfg_max_backup_restore_total_uncompressed_bytes cfg)
             (bad ''backup archive is too large after decompression'')]) [0..<length files]))"

record hub_files =
  hf_branding :: directory
  hf_key :: "string option"
  hf_temps :: "(nat \<times> string) list"
  hf_next :: nat

text \<open>\<open>Path(path).name\<close>.\<close>

definition path_name :: "string \<Rightarrow> string" where
  "path_name p = last (split_on CHR ''/'' (rstrip_chars ''/'' p))"

definition build_backup_manifest :: "backup_env \<Rightarrow> instant \<Rightarrow> hub_files \<Rightarrow> (string \<times> nat) list \<Rightarrow> json" where
  "build_backup_manifest env now files counts =
     JObj [(''format_version'', JInt BACKUP_FORMAT_VERSION), (''created_at'', JStr (be_iso_print env now)),
       (''app_name'', JStr (cfg_app_name (be_cfg env))),
       (''tables'', JObj (map (\<lambda>(n, k). (n, JInt (int k))) counts)),
       (''includes'', JObj
          [(''branding_logo'', case uploaded_logo_path (hf_branding files) of None \<Rightarrow> JNull | Some n \<Rightarrow> JStr n),
           (''wireguard_private_key'',
              if hf_key files = None then JNull else JStr (path_name (cfg_wg_server_private_key_path (be_cfg env))))])]"

definition export_stamp :: "instant \<Rightarrow> string" where
  "export_stamp t =
     (case civil_from_days (utc_day t) of (y, m, d) \<Rightarrow>
        zfill 4 (int_str y) @ pad2 m @ pad2 d @ ''-'' @ pad2 (t div 3600000000 mod 24) @ pad2 (t div 60000000 mod 60)
          @ pad2 (t div 1000000 mod 60))"

definition exported_rows :: "backup_env \<Rightarrow> hub_db \<Rightarrow> string \<times> column list \<Rightarrow> backup_row list" where
  "exported_rows env db = (\<lambda>(table_name, cols).
     map (serialize_model_row (be_iso_print env) cols) (rows_of (database_rows db) table_name))"

definition exported_data :: "backup_env \<Rightarrow> hub_db \<Rightarrow> backup_data" where
  "exported_data env db = map (\<lambda>t. (fst t, JList (map JObj (exported_rows env db t)))) backup_table_models"

definition logo_member :: "directory \<Rightarrow> (string \<times> string) list res" where
  "logo_member d =
     (case uploaded_logo_path d of
        None \<Rightarrow> Inr []
      | Some n \<Rightarrow>
          (case (case d of None \<Rightarrow> None | Some es \<Rightarrow> map_of es n) of
             Some (File content) \<Rightarrow> Inr [(''branding/'' @ n, content)]
           | _ \<Rightarrow> Inl OSError))"

definition export_members :: "backup_env \<Rightarrow> instant \<Rightarrow> hub_files \<Rightarrow> hub_db \<Rightarrow> (string \<times> string) list res" where
  "export_members env now files db =
     rbind (logo_member (hf_branding files)) (\<lambda>logo.
       Inr ([(''manifest.json'', json_dumps_indent (build_backup_manifest env now files
               (map (\<lambda>t. (fst t, length (exported_rows env db t))) backup_table_models))),
             (''data.json'', json_dumps_indent (JObj (exported_data env db)))]
          @ logo
          @ (case hf_key files of None \<Rightarrow> [] | Some k \<Rightarrow> [(''wireguard/server.key'', k)])))"

definition export_backup_bundle ::
  "backup_env \<Rightarrow> instant \<Rightarrow> string \<Rightarrow> nat \<Rightarrow> hub_files \<Rightarrow> hub_db \<Rightarrow> string option
     \<Rightarrow> (string \<times> string \<times> string) res" where
  "export_backup_bundle env now salt nonce files db passphrase =
     (let cfg = be_cfg env;
          stored_payload_characters = sum_list (map (\<lambda>b. int (length (dbk_encrypted_payload b))) (device_backups db));
          estimated = stored_payload_characters * 2 + int (length (device_backups db)) * 1024;
          base_filename = ''opnsense-hub-backup-'' @ export_stamp now
      in
      if estimated > min (cfg_max_backup_restore_file_bytes cfg) (cfg_max_backup_restore_total_uncompressed_bytes cfg)
      then Inl (bad ''stored firewall backups exceed the configured Hub archive restore limits; increase MAX_BACKUP_RESTORE_FILE_BYTES and MAX_BACKUP_RESTORE_TOTAL_UNCOMPRESSED_BYTES before exporting'')
      else
      rbind (export_members env now files db) (\<lambda>members.
      rbind (all_ok
        [ensure (int (length members) \<le> cfg_max_backup_restore_entries cfg
             \<and> list_all (\<lambda>m. int (length (snd m)) \<le> cfg_max_backup_restore_file_bytes cfg) members)
           (bad ''current Hub data exceeds the configured per-file restore limits; increase the backup restore limits before exporting''),
         ensure (sum_list (map (\<lambda>m. int (length (snd m))) members) \<le> cfg_max_backup_restore_total_uncompressed_bytes cfg)
           (bad ''current Hub data exceeds the configured total restore limit; increase the backup restore limits before exporting''),
         ensure (int (length (be_zip env members)) \<le> cfg_max_backup_restore_bytes cfg)
           (bad ''current Hub data exceeds the configured backup file limit; increase the backup restore limits before exporting'')])
      (\<lambda>_.
        if or_empty passphrase \<noteq> [] \<and> strip (or_empty passphrase) \<noteq> [] then
          let encrypted = encrypt_backup_payload env salt nonce (be_zip env members) (strip (or_empty passphrase)) in
          rbind (ensure (int (length encrypted) \<le> cfg_max_backup_restore_bytes cfg)
            (bad ''encrypted Hub backup exceeds the configured backup file limit; increase the backup restore limits before exporting''))
          (\<lambda>_. Inr (encrypted, base_filename @ ''.opnhub'', ''application/octet-stream''))
        else Inr (be_zip env members, base_filename @ ''.zip'', ''application/zip''))))"

subsection \<open>Reading an archive\<close>

text \<open>\<open>archive.read(name)\<close>: the last member of that name.\<close>

definition zip_member :: "zip_info list \<Rightarrow> string \<Rightarrow> string res" where
  "zip_member infos name =
     (case find (\<lambda>i. zi_filename i = name) (rev infos) of None \<Rightarrow> Inl KeyError | Some i \<Rightarrow> zi_content i)"

definition archive_json :: "backup_env \<Rightarrow> zip_info list \<Rightarrow> string \<Rightarrow> json res" where
  "archive_json env infos name =
     (case zip_member infos name of
        Inl e \<Rightarrow> Inl (if e = KeyError then bad ''backup archive is missing required files'' else e)
      | Inr text \<Rightarrow>
          (case json_loads (be_float env) dict_hook text of
             None \<Rightarrow> Inl (bad ''backup archive contains invalid JSON'')
           | Some v \<Rightarrow> Inr v))"

definition is_logo_member :: "string \<Rightarrow> bool" where
  "is_logo_member n \<longleftrightarrow> startswith n ''branding/logo.'' \<and> \<not> endswith n ''/''"

definition archive_logo :: "zip_info list \<Rightarrow> (string \<times> string) option res" where
  "archive_logo infos =
     (case find is_logo_member (map zi_filename infos) of
        None \<Rightarrow> Inr None
      | Some n \<Rightarrow> rbind (zip_member infos n) (\<lambda>content. Inr (Some (last (split_on CHR ''/'' n), content))))"

definition archive_key :: "zip_info list \<Rightarrow> string option res" where
  "archive_key infos =
     (if ''wireguard/server.key'' \<in> set (map zi_filename infos)
      then rbind (zip_member infos ''wireguard/server.key'') (\<lambda>k. Inr (Some k)) else Inr None)"

record parsed_bundle =
  pb_manifest :: "(string \<times> json) list"
  pb_data :: backup_data
  pb_logo :: "(string \<times> string) option"
  pb_key :: "string option"

definition parse_backup_bundle :: "backup_env \<Rightarrow> string \<Rightarrow> string option \<Rightarrow> parsed_bundle res" where
  "parse_backup_bundle env content passphrase =
     (if int (length content) > cfg_max_backup_restore_bytes (be_cfg env)
      then Inl (bad ''backup file exceeds the maximum allowed size'')
      else rbind (decrypt_backup_payload env content passphrase) (\<lambda>decrypted.
        case be_unzip env decrypted of
          None \<Rightarrow> Inl (bad ''backup file must be a valid zip archive'')
        | Some infos \<Rightarrow>
            rbind (validate_backup_archive_members (be_cfg env) infos) (\<lambda>_.
            rbind (archive_json env infos ''manifest.json'') (\<lambda>manifest_json.
            rbind (archive_json env infos ''data.json'') (\<lambda>data_json.
            case (manifest_json, data_json) of
              (JObj manifest, JObj data) \<Rightarrow>
                if \<not> equals_int (field manifest ''format_version'') BACKUP_FORMAT_VERSION
                then Inl (bad ''backup archive format version is not supported'')
                else
                  rbind (validate_backup_tables_present data) (\<lambda>_.
                  rbind (validate_backup_manifest manifest data) (\<lambda>_.
                  rbind (archive_logo infos) (\<lambda>logo_file.
                  rbind (archive_key infos) (\<lambda>wireguard_key.
                  rbind (validate_backup_data env data logo_file wireguard_key) (\<lambda>data'.
                    Inr \<lparr>pb_manifest = manifest, pb_data = data', pb_logo = logo_file, pb_key = wireguard_key\<rparr>)))))
            | _ \<Rightarrow> Inl (bad ''backup archive has an invalid structure''))))))"

subsection \<open>Files\<close>

record restore_file_stage =
  rs_logo_temp :: "nat option"
  rs_logo_extension :: "string option"
  rs_clear_logo :: bool
  rs_key_temp :: "nat option"

text \<open>\<open>_write_staged_file\<close>, when the disk takes it.\<close>

definition write_staged_file :: "string \<Rightarrow> hub_files \<Rightarrow> nat \<times> hub_files" where
  "write_staged_file content f =
     (hf_next f, f\<lparr>hf_temps := hf_temps f @ [(hf_next f, content)], hf_next := hf_next f + 1\<rparr>)"

definition make_directory :: "hub_files \<Rightarrow> hub_files" where
  "make_directory f = f\<lparr>hf_branding := (case hf_branding f of None \<Rightarrow> Some [] | d \<Rightarrow> d)\<rparr>"

definition stage_restore_files ::
  "(string \<times> string) option \<Rightarrow> string option \<Rightarrow> (hub_files, restore_file_stage) act" where
  "stage_restore_files logo_file wireguard_private_key =
     abind (case logo_file of
         None \<Rightarrow> aret (None, None)
       | Some (logo_name, logo_content) \<Rightarrow>
           abind (alift (detect_image_extension logo_content)) (\<lambda>extension f.
             if logo_name \<noteq> ''logo'' @ extension
             then (Inl (bad ''backup archive branding logo filename is invalid''), f)
             else case write_staged_file logo_content (make_directory f) of
               (t, f') \<Rightarrow> (Inr (Some t, Some extension), f')))
     (\<lambda>(logo_temp, logo_extension) f.
        case (case wireguard_private_key of
                None \<Rightarrow> (None, f)
              | Some k \<Rightarrow> (case write_staged_file (strip k @ [CHR 0x0A]) f of (t, f') \<Rightarrow> (Some t, f'))) of
          (key_temp, f') \<Rightarrow>
            (Inr \<lparr>rs_logo_temp = logo_temp, rs_logo_extension = logo_extension, rs_clear_logo = (logo_file = None),
                  rs_key_temp = key_temp\<rparr>, f'))"

definition drop_temp :: "nat option \<Rightarrow> hub_files \<Rightarrow> hub_files" where
  "drop_temp t f = f\<lparr>hf_temps := filter (\<lambda>e. Some (fst e) \<noteq> t) (hf_temps f)\<rparr>"

definition cleanup_staged_restore_files :: "restore_file_stage \<Rightarrow> hub_files \<Rightarrow> hub_files" where
  "cleanup_staged_restore_files stage f = drop_temp (rs_key_temp stage) (drop_temp (rs_logo_temp stage) f)"

text \<open>Unlinking the other logos, in the order of the directory; a directory cannot be unlinked.\<close>

fun unlink_logos :: "string \<Rightarrow> (string \<times> dir_entry) list \<Rightarrow> unit res \<times> (string \<times> dir_entry) list" where
  "unlink_logos target [] = (Inr (), [])"
| "unlink_logos target ((n, e) # es) =
     (if startswith n ''logo.'' \<and> n \<noteq> target then
        (if e = Subdir then (Inl OSError, (n, e) # es) else unlink_logos target es)
      else (case unlink_logos target es of (r, es') \<Rightarrow> (r, (n, e) # es')))"

definition apply_staged_restore_files :: "restore_file_stage \<Rightarrow> (hub_files, unit) act" where
  "apply_staged_restore_files stage =
     aseq (\<lambda>f.
       case (rs_logo_temp stage, rs_logo_extension stage) of
         (Some t, Some extension) \<Rightarrow>
           (let target = ''logo'' @ extension; d = (case hf_branding f of None \<Rightarrow> [] | Some es \<Rightarrow> es) in
            case unlink_logos target d of
              (Inl e, d') \<Rightarrow> (Inl e, f\<lparr>hf_branding := Some d'\<rparr>)
            | (Inr _, d') \<Rightarrow>
                (case map_of (hf_temps f) t of
                   None \<Rightarrow> (Inl OSError, f\<lparr>hf_branding := Some d'\<rparr>)
                 | Some content \<Rightarrow>
                     if map_of d' target = Some Subdir then (Inl OSError, f\<lparr>hf_branding := Some d'\<rparr>)
                     else (Inr (), drop_temp (Some t) (f\<lparr>hf_branding := Some (AList.update target (File content) d')\<rparr>))))
       | _ \<Rightarrow> (Inr (), if rs_clear_logo stage then f\<lparr>hf_branding := clear_uploaded_logo (hf_branding f)\<rparr> else f))
     (\<lambda>f.
       case rs_key_temp stage of
         None \<Rightarrow> (Inr (), f)
       | Some t \<Rightarrow>
           (case map_of (hf_temps f) t of
              None \<Rightarrow> (Inl OSError, f)
            | Some content \<Rightarrow> (Inr (), drop_temp (Some t) (f\<lparr>hf_key := Some content\<rparr>))))"

subsection \<open>The tunnel after a restore\<close>

definition expected_peers :: "hub_db \<Rightarrow> (string \<times> string) list" where
  "expected_peers db = fold (\<lambda>(k, ip) d. AList.update k ip d) (active_peers db) []"

definition reconcile_wireguard_after_restore ::
  "iso_parser \<Rightarrow> 'w wg_env \<Rightarrow> settings \<Rightarrow> hub_db \<Rightarrow> ('w wg_world, unit) act" where
  "reconcile_wireguard_after_restore parse_iso we cfg db =
     aseq (bootstrap_wireguard we cfg db)
     (abind (get_runtime_peers parse_iso we cfg) (\<lambda>runtime_peers.
        aseq (afor (\<lambda>p. if rp_public_key p \<notin> set (map fst (expected_peers db))
                        then remove_peer we cfg (rp_public_key p) else aret ()) runtime_peers)
          (afor (\<lambda>(k, ip). add_peer we cfg k ip) (expected_peers db))))"

end
