(* ===== verification/Backup_Facts.thy ===== *)
theory Backup_Facts
  imports Backup_Service
begin

text \<open>
  What a Hub backup gives back. A JSON object represents a row if it has the members that the export writes, in
  whatever order; on data that represents a database, every check of the restore comes down to a condition on the
  rows of that database (\<open>restorable\<close>), and the rows that are written are those that were exported.
\<close>

subsection \<open>Data that represents a database\<close>

definition represents_row :: "(instant \<Rightarrow> string) \<Rightarrow> column list \<Rightarrow> backup_row \<Rightarrow> cell list \<Rightarrow> bool" where
  "represents_row ps cols row cells \<longleftrightarrow>
     set (map fst row) = set (map col_name cols)
   \<and> (\<forall>c\<in>set cols. map_of row (col_name c) = map_of (serialize_model_row ps cols cells) (col_name c))"

definition represents :: "(instant \<Rightarrow> string) \<Rightarrow> hub_db \<Rightarrow> backup_data \<Rightarrow> bool" where
  "represents ps db data \<longleftrightarrow>
     set (map fst data) = set BACKUP_TABLE_NAMES
   \<and> (\<forall>(n, cols)\<in>set backup_table_models. \<exists>rows. field data n = JList (map JObj rows)
        \<and> list_all2 (represents_row ps cols) rows (rows_of (database_rows db) n))"

definition rows_fit :: "(string \<Rightarrow> bool) \<Rightarrow> hub_db \<Rightarrow> bool" where
  "rows_fit inet db \<longleftrightarrow> (\<forall>(n, cols)\<in>set backup_table_models. list_all (row_fits inet cols) (rows_of (database_rows db) n))"

definition table_represented ::
  "(instant \<Rightarrow> string) \<Rightarrow> backup_data \<Rightarrow> string \<Rightarrow> column list \<Rightarrow> ('a \<Rightarrow> cell list) \<Rightarrow> 'a list \<Rightarrow> bool" where
  "table_represented ps data n cols f xs \<longleftrightarrow> list_all2 (\<lambda>row x. represents_row ps cols row (f x)) (rows_in data n) xs"

lemma rows_in_JObj: "field data n = JList (map JObj rows) \<Longrightarrow> rows_in data n = rows"
  by (simp add: rows_in_def comp_def)

lemma represents_tables:
  assumes "represents ps db data"
  shows "table_represented ps data ''users'' user_columns user_row (users db)"
    "table_represented ps data ''integration_settings'' integration_settings_columns integration_settings_row (integration_rows db)"
    "table_represented ps data ''companies'' company_columns company_row (companies db)"
    "table_represented ps data ''company_users'' company_user_columns company_user_row (company_users db)"
    "table_represented ps data ''enrollment_codes'' enrollment_code_columns enrollment_code_row (enrollment_codes db)"
    "table_represented ps data ''devices'' device_columns device_row (devices db)"
    "table_represented ps data ''device_backups'' device_backup_columns device_backup_row (device_backups db)"
    "table_represented ps data ''device_events'' device_event_columns device_event_row (device_events db)"
    "table_represented ps data ''audit_logs'' audit_log_columns audit_log_row (audit_logs db)"
proof -
  have t: "table_represented ps data n cols f xs"
    if n: "(n, cols) \<in> set backup_table_models" and r: "rows_of (database_rows db) n = map f xs"
    for n cols and f :: "'x \<Rightarrow> cell list" and xs
  proof -
    obtain rows where rows: "field data n = JList (map JObj rows)"
        "list_all2 (represents_row ps cols) rows (rows_of (database_rows db) n)"
      using assms n unfolding represents_def by fastforce
    then show ?thesis using r
      unfolding table_represented_def rows_in_JObj [OF rows(1)] by (simp add: list_all2_map2)
  qed
  show "table_represented ps data ''users'' user_columns user_row (users db)"
    "table_represented ps data ''integration_settings'' integration_settings_columns integration_settings_row (integration_rows db)"
    "table_represented ps data ''companies'' company_columns company_row (companies db)"
    "table_represented ps data ''company_users'' company_user_columns company_user_row (company_users db)"
    "table_represented ps data ''enrollment_codes'' enrollment_code_columns enrollment_code_row (enrollment_codes db)"
    "table_represented ps data ''devices'' device_columns device_row (devices db)"
    "table_represented ps data ''device_backups'' device_backup_columns device_backup_row (device_backups db)"
    "table_represented ps data ''device_events'' device_event_columns device_event_row (device_events db)"
    "table_represented ps data ''audit_logs'' audit_log_columns audit_log_row (audit_logs db)"
    by (rule t; simp add: backup_table_models_def rows_of_def database_rows_def)+
qed

lemma rows_fit_tables:
  assumes "rows_fit inet db"
  shows "u \<in> set (users db) \<Longrightarrow> row_fits inet user_columns (user_row u)"
    "i \<in> set (integration_rows db) \<Longrightarrow> row_fits inet integration_settings_columns (integration_settings_row i)"
    "c \<in> set (companies db) \<Longrightarrow> row_fits inet company_columns (company_row c)"
    "m \<in> set (company_users db) \<Longrightarrow> row_fits inet company_user_columns (company_user_row m)"
    "e \<in> set (enrollment_codes db) \<Longrightarrow> row_fits inet enrollment_code_columns (enrollment_code_row e)"
    "d \<in> set (devices db) \<Longrightarrow> row_fits inet device_columns (device_row d)"
    "b \<in> set (device_backups db) \<Longrightarrow> row_fits inet device_backup_columns (device_backup_row b)"
    "v \<in> set (device_events db) \<Longrightarrow> row_fits inet device_event_columns (device_event_row v)"
    "a \<in> set (audit_logs db) \<Longrightarrow> row_fits inet audit_log_columns (audit_log_row a)"
proof -
  have t: "row_fits inet cols (f x)"
    if "(n, cols) \<in> set backup_table_models" "rows_of (database_rows db) n = map f xs" "x \<in> set xs" for n cols f x xs
    using assms that unfolding rows_fit_def by (fastforce simp: list_all_iff)
  note s = backup_table_models_def rows_of_def database_rows_def
  show "u \<in> set (users db) \<Longrightarrow> row_fits inet user_columns (user_row u)"
    by (rule t [of "''users''"]) (simp_all add: s)
  show "i \<in> set (integration_rows db) \<Longrightarrow> row_fits inet integration_settings_columns (integration_settings_row i)"
    by (rule t [of "''integration_settings''"]) (simp_all add: s)
  show "c \<in> set (companies db) \<Longrightarrow> row_fits inet company_columns (company_row c)"
    by (rule t [of "''companies''"]) (simp_all add: s)
  show "m \<in> set (company_users db) \<Longrightarrow> row_fits inet company_user_columns (company_user_row m)"
    by (rule t [of "''company_users''"]) (simp_all add: s)
  show "e \<in> set (enrollment_codes db) \<Longrightarrow> row_fits inet enrollment_code_columns (enrollment_code_row e)"
    by (rule t [of "''enrollment_codes''"]) (simp_all add: s)
  show "d \<in> set (devices db) \<Longrightarrow> row_fits inet device_columns (device_row d)"
    by (rule t [of "''devices''"]) (simp_all add: s)
  show "b \<in> set (device_backups db) \<Longrightarrow> row_fits inet device_backup_columns (device_backup_row b)"
    by (rule t [of "''device_backups''"]) (simp_all add: s)
  show "v \<in> set (device_events db) \<Longrightarrow> row_fits inet device_event_columns (device_event_row v)"
    by (rule t [of "''device_events''"]) (simp_all add: s)
  show "a \<in> set (audit_logs db) \<Longrightarrow> row_fits inet audit_log_columns (audit_log_row a)"
    by (rule t [of "''audit_logs''"]) (simp_all add: s)
qed

lemma represented_for_each:
  assumes "table_represented ps data n cols f xs"
    and "\<And>row x. x \<in> set xs \<Longrightarrow> represents_row ps cols row (f x) \<Longrightarrow> check row = Inr ()"
  shows "rfor_each check (rows_in data n) = Inr ()"
proof -
  have "check row = Inr ()" if "row \<in> set (rows_in data n)" for row
    using assms that unfolding table_represented_def by (metis in_set_conv_nth list_all2_conv_all_nth)
  then show ?thesis by (simp add: rfor_each_Inr_iff)
qed

lemma represented_map:
  assumes "table_represented ps data n cols f xs"
    and "\<And>row x. x \<in> set xs \<Longrightarrow> represents_row ps cols row (f x) \<Longrightarrow> g row = Inr (h x)"
  shows "rmap_list g (rows_in data n) = Inr (map h xs)"
proof -
  have "rmap_list g rows = Inr (map h ys)"
    if "list_all2 (\<lambda>row x. represents_row ps cols row (f x)) rows ys" "set ys \<subseteq> set xs" for rows ys
    using that by (induction rows ys rule: list_all2_induct) (auto simp: assms(2))
  with assms(1) show ?thesis by (simp add: table_represented_def)
qed

subsection \<open>The members of a row\<close>

definition text_json :: "string option \<Rightarrow> json" where
  "text_json v = (case v of None \<Rightarrow> JNull | Some s \<Rightarrow> JStr s)"

definition uuid_json :: "uuid option \<Rightarrow> json" where
  "uuid_json v = (case v of None \<Rightarrow> JNull | Some i \<Rightarrow> JStr (uuid_str i))"

lemma json_of_opt [simp]:
  "backup_json_value ps (opt Text v) = text_json v" "backup_json_value ps (opt Uid i) = uuid_json i"
  by (simp_all add: opt_def text_json_def uuid_json_def split: option.split)

lemma represented_field:
  "represents_row ps cols row cells \<Longrightarrow> n \<in> set (map col_name cols) \<Longrightarrow>
     field row n = field (serialize_model_row ps cols cells) n"
  by (auto simp: represents_row_def field_def)

lemmas row_eval = serialize_model_row_def field_def

lemma user_fields:
  assumes "represents_row ps user_columns row (user_row u)"
  shows "field row ''id'' = JStr (uuid_str (usr_id u))" "field row ''role'' = JStr (usr_role u)"
    "field row ''auth_provider'' = text_json (usr_auth_provider u)" "field row ''email'' = JStr (usr_email u)"
    "field row ''first_name'' = text_json (usr_first_name u)" "field row ''last_name'' = text_json (usr_last_name u)"
  by (rule trans [OF represented_field [OF assms]]; simp add: user_columns_def user_row_def row_eval)+

lemma integration_fields:
  assumes "represents_row ps integration_settings_columns row (integration_settings_row r)"
  shows "field row ''id'' = JInt (ints_id r)"
  by (rule trans [OF represented_field [OF assms]]; simp add: integration_settings_columns_def integration_settings_row_def row_eval)

lemma company_fields:
  assumes "represents_row ps company_columns row (company_row r)"
  shows "field row ''id'' = JStr (uuid_str (com_id r))" "field row ''name'' = JStr (com_name r)"
  by (rule trans [OF represented_field [OF assms]]; simp add: company_columns_def company_row_def row_eval)+

lemma company_user_fields:
  assumes "represents_row ps company_user_columns row (company_user_row r)"
  shows "field row ''company_id'' = JStr (uuid_str (cu_company_id r))"
    "field row ''user_id'' = JStr (uuid_str (cu_user_id r))" "field row ''role'' = JStr (cu_role r)"
  by (rule trans [OF represented_field [OF assms]]; simp add: company_user_columns_def company_user_row_def row_eval)+

lemma enrollment_code_fields:
  assumes "represents_row ps enrollment_code_columns row (enrollment_code_row r)"
  shows "field row ''company_id'' = JStr (uuid_str (ec_company_id r))"
    "field row ''created_by'' = uuid_json (ec_created_by r)"
  by (rule trans [OF represented_field [OF assms]]; simp add: enrollment_code_columns_def enrollment_code_row_def row_eval)+

lemma device_backup_fields:
  assumes "represents_row ps device_backup_columns row (device_backup_row r)"
  shows "field row ''device_id'' = JStr (uuid_str (dbk_device_id r))" "field row ''filename'' = JStr (dbk_filename r)"
    "field row ''backup_format'' = JStr (dbk_backup_format r)"
    "field row ''encrypted_payload'' = JStr (dbk_encrypted_payload r)"
  by (rule trans [OF represented_field [OF assms]]; simp add: device_backup_columns_def device_backup_row_def row_eval)+

lemma device_event_fields:
  assumes "represents_row ps device_event_columns row (device_event_row r)"
  shows "field row ''device_id'' = JStr (uuid_str (ev_device_id r))" "field row ''event_type'' = JStr (ev_event_type r)"
    "field row ''message'' = text_json (ev_message r)"
  by (rule trans [OF represented_field [OF assms]]; simp add: device_event_columns_def device_event_row_def row_eval)+

lemma audit_log_fields:
  assumes "represents_row ps audit_log_columns row (audit_log_row r)"
  shows "field row ''user_id'' = uuid_json (al_user_id r)" "field row ''company_id'' = uuid_json (al_company_id r)"
    "field row ''device_id'' = uuid_json (al_device_id r)" "field row ''action'' = JStr (al_action r)"
    "field row ''user_agent'' = text_json (al_user_agent r)"
  by (rule trans [OF represented_field [OF assms]]; simp add: audit_log_columns_def audit_log_row_def row_eval)+

lemma device_fields:
  assumes "represents_row ps device_columns row (device_row d)"
  shows "field row ''id'' = JStr (uuid_str (dev_id d))" "field row ''company_id'' = JStr (uuid_str (dev_company_id d))"
    "field row ''wg_public_key'' = JStr (dev_wg_public_key d)" "field row ''wg_tunnel_ip'' = JStr (dev_wg_tunnel_ip d)"
    "field row ''status'' = JStr (dev_status d)" "field row ''firmware_status'' = JStr (dev_firmware_status d)"
    "field row ''firmware_update_type'' = text_json (dev_firmware_update_type d)"
    "field row ''firmware_check_request_reason'' = text_json (dev_firmware_check_request_reason d)"
    "field row ''license_type'' = text_json (dev_license_type d)"
    "field row ''backup_retention_count'' = JInt (dev_backup_retention_count d)"
    "field row ''backup_interval_value'' = JInt (dev_backup_interval_value d)"
    "field row ''backup_interval_unit'' = JStr (dev_backup_interval_unit d)"
    "field row ''backup_interval_hours'' = JInt (dev_backup_interval_hours d)"
  by (rule trans [OF represented_field [OF assms]]; simp add: device_columns_def device_row_def row_eval)+

lemma device_text_fields:
  assumes "represents_row ps device_columns row (device_row d)"
  shows "field row ''hostname'' = JStr (dev_hostname d)" "field row ''name'' = text_json (dev_name d)"
    "field row ''email_notification_recipient'' = text_json (dev_email_notification_recipient d)"
    "field row ''runbook_owner'' = text_json (dev_runbook_owner d)"
    "field row ''runbook_contact'' = text_json (dev_runbook_contact d)"
    "field row ''runbook_site'' = text_json (dev_runbook_site d)"
    "field row ''firmware_current_version'' = text_json (dev_firmware_current_version d)"
    "field row ''firmware_available_version'' = text_json (dev_firmware_available_version d)"
    "field row ''firmware_status_message'' = text_json (dev_firmware_status_message d)"
  by (rule trans [OF represented_field [OF assms]]; simp add: device_columns_def device_row_def row_eval)+

subsection \<open>Databases that can be restored\<close>

definition norm_in :: "string \<Rightarrow> string list \<Rightarrow> bool" where
  "norm_in s allowed \<longleftrightarrow> lower (strip s) \<in> set allowed"

definition none_or :: "('a \<Rightarrow> bool) \<Rightarrow> 'a option \<Rightarrow> bool" where
  "none_or p v = (case v of None \<Rightarrow> True | Some x \<Rightarrow> p x)"

definition restorable_user :: "user \<Rightarrow> bool" where
  "restorable_user u \<longleftrightarrow> norm_in (usr_role u) ALLOWED_USER_ROLES
     \<and> none_or (\<lambda>s. norm_in s [''microsoft'', ''local_ad'']) (usr_auth_provider u)"

text \<open>The tunnel address as the restore writes it down.\<close>

definition tunnel_text :: "device \<Rightarrow> string" where
  "tunnel_text d = (case ip_address (strip (dev_wg_tunnel_ip d)) of None \<Rightarrow> [] | Some p \<Rightarrow> show_ip p)"

definition restorable_tunnel :: "settings \<Rightarrow> device \<Rightarrow> bool" where
  "restorable_tunnel cfg d \<longleftrightarrow>
     (\<exists>vc a. get_validated_hub_wireguard_config cfg = Inr vc \<and> ip_address (strip (dev_wg_tunnel_ip d)) = Some (V4 a)
        \<and> usable_host vc a \<and> a \<noteq> vc_hub_ip vc)"

definition restorable_device :: "settings \<Rightarrow> device \<Rightarrow> bool" where
  "restorable_device cfg d \<longleftrightarrow>
     wg_key_re (strip (dev_wg_public_key d)) \<and> restorable_tunnel cfg d
   \<and> norm_in (dev_status d) ALLOWED_DEVICE_STATUSES \<and> norm_in (dev_firmware_status d) ALLOWED_FIRMWARE_STATUSES
   \<and> none_or (\<lambda>s. norm_in s [''update'', ''upgrade'']) (dev_firmware_update_type d)
   \<and> none_or (\<lambda>s. norm_in s [''manual'', ''scheduled'']) (dev_firmware_check_request_reason d)
   \<and> none_or (\<lambda>s. norm_in s [''community'', ''business'']) (dev_license_type d)
   \<and> 1 \<le> dev_backup_retention_count d \<and> dev_backup_retention_count d \<le> 10
   \<and> 1 \<le> dev_backup_interval_value d \<and> dev_backup_interval_value d \<le> 999
   \<and> norm_in (dev_backup_interval_unit d) [''hours'', ''days'', ''months'']
   \<and> 1 \<le> dev_backup_interval_hours d \<and> dev_backup_interval_hours d \<le> 720
   \<and> none_or (\<lambda>s. length s \<le> 500) (dev_firmware_status_message d)"

text \<open>A stored backup in its canonical form, of its own device.\<close>

definition stored_backup_valid :: "backup_env \<Rightarrow> device_backup \<Rightarrow> bool" where
  "stored_backup_valid env b \<longleftrightarrow>
     (\<exists>v. json_loads (be_float env) dict_hook (dbk_encrypted_payload b) = Some v
        \<and> (if dbk_backup_format b = plaintext_format
           then validate_plaintext_device_backup (be_aware env) v (dbk_device_id b)
           else validate_encrypted_device_backup (be_aware env) v (dbk_device_id b)) = Inr (dbk_encrypted_payload b))"

definition restorable :: "backup_env \<Rightarrow> hub_db \<Rightarrow> bool" where
  "restorable env db \<longleftrightarrow>
     map ints_id (integration_rows db) = [1]
   \<and> list_all restorable_user (users db)
   \<and> list_all (\<lambda>m. norm_in (cu_role m) ALLOWED_COMPANY_USER_ROLES) (company_users db)
   \<and> list_all (restorable_device (be_cfg env)) (devices db) \<and> distinct (map tunnel_text (devices db))
   \<and> list_all (stored_backup_valid env) (device_backups db)
   \<and> list_all (\<lambda>v. none_or (\<lambda>s. length s \<le> 1000) (ev_message v)) (device_events db)
   \<and> list_all (\<lambda>a. none_or (\<lambda>s. length s \<le> 500) (al_user_agent a)) (audit_logs db)"

lemma ensure_True [simp]: "ensure True e = Inr ()"
  by (simp add: ensure_def)

lemma all_ok_simps [simp]: "all_ok [] = Inr ()" "all_ok (r # rs) = rbind r (\<lambda>_. all_ok rs)"
  by (simp_all add: all_ok_def)

lemma max_length_ok:
  "length s \<le> n \<Longrightarrow> ensure_string_max_length (JStr s) name n = Inr ()"
  "none_or (\<lambda>s. length s \<le> n) v \<Longrightarrow> ensure_string_max_length (text_json v) name n = Inr ()"
  by (auto simp: ensure_string_max_length_def text_json_def none_or_def split: option.splits)

lemma norm_or_empty [simp]: "norm (if json_true (JStr s) then JStr s else JStr []) = lower (strip s)"
  by (simp add: norm_def)

lemma null_or_in_text: "none_or (\<lambda>s. norm_in s allowed) v \<Longrightarrow> null_or_in (text_json v) allowed"
  by (auto simp: null_or_in_def text_json_def none_or_def norm_in_def norm_def split: option.splits)

lemma backup_uuid_ok: "i < 16 ^ 32 \<Longrightarrow> backup_uuid (JStr (uuid_str i)) detail = Inr i"
  by (simp add: backup_uuid_def parse_uuid_str)

lemma refers_to_ok:
  "i < 16 ^ 32 \<Longrightarrow> i \<in> set ids \<Longrightarrow> refers_to (JStr (uuid_str i)) invalid ids missing = Inr ()"
  "none_or (\<lambda>i. i < 16 ^ 32) v \<Longrightarrow> refers v ids \<Longrightarrow> null_or_refers_to (uuid_json v) invalid ids missing = Inr ()"
  by (auto simp: refers_to_def null_or_refers_to_def backup_uuid_ok uuid_json_def refers_def none_or_def split: option.splits)

lemma int_between_ok: "lo \<le> n \<Longrightarrow> n \<le> hi \<Longrightarrow> int_between (JInt n) lo hi detail = Inr ()"
  by (simp add: int_between_def py_int_int_str)

lemma fits_col:
  "cell_fits inet (col n t b) (Text s) \<Longrightarrow> t = ColString k \<Longrightarrow> length s \<le> k"
  "cell_fits inet (col n t b) (opt Text v) \<Longrightarrow> t = ColString k \<Longrightarrow> none_or (\<lambda>s. length s \<le> k) v"
  "cell_fits inet (col n t b) (Uid i) \<Longrightarrow> i < 16 ^ 32"
  "cell_fits inet (col n t b) (opt Uid j) \<Longrightarrow> none_or (\<lambda>i. i < 16 ^ 32) j"
  by (auto simp: cell_fits_def opt_def none_or_def split: option.splits)

lemma user_fits:
  assumes "row_fits inet user_columns (user_row u)"
  shows "usr_id u < 16 ^ 32" "length (usr_email u) \<le> 320" "none_or (\<lambda>s. length s \<le> 120) (usr_first_name u)"
    "none_or (\<lambda>s. length s \<le> 120) (usr_last_name u)"
  using assms unfolding row_fits_def user_columns_def user_row_def by (auto dest: fits_col)

lemma company_fits:
  assumes "row_fits inet company_columns (company_row c)"
  shows "com_id c < 16 ^ 32" "length (com_name c) \<le> 200"
  using assms unfolding row_fits_def company_columns_def company_row_def by (auto dest: fits_col)

lemma company_user_fits:
  assumes "row_fits inet company_user_columns (company_user_row m)"
  shows "cu_company_id m < 16 ^ 32" "cu_user_id m < 16 ^ 32"
  using assms unfolding row_fits_def company_user_columns_def company_user_row_def by (auto dest: fits_col)

lemma enrollment_code_fits:
  assumes "row_fits inet enrollment_code_columns (enrollment_code_row e)"
  shows "ec_company_id e < 16 ^ 32" "none_or (\<lambda>i. i < 16 ^ 32) (ec_created_by e)"
  using assms unfolding row_fits_def enrollment_code_columns_def enrollment_code_row_def by (auto dest: fits_col)

lemma device_backup_fits:
  assumes "row_fits inet device_backup_columns (device_backup_row b)"
  shows "dbk_device_id b < 16 ^ 32" "length (dbk_filename b) \<le> 255"
  using assms unfolding row_fits_def device_backup_columns_def device_backup_row_def by (auto dest: fits_col)

lemma device_event_fits:
  assumes "row_fits inet device_event_columns (device_event_row v)"
  shows "ev_device_id v < 16 ^ 32" "length (ev_event_type v) \<le> 80"
  using assms unfolding row_fits_def device_event_columns_def device_event_row_def by (auto dest: fits_col)

lemma audit_log_fits:
  assumes "row_fits inet audit_log_columns (audit_log_row a)"
  shows "none_or (\<lambda>i. i < 16 ^ 32) (al_user_id a)" "none_or (\<lambda>i. i < 16 ^ 32) (al_company_id a)"
    "none_or (\<lambda>i. i < 16 ^ 32) (al_device_id a)" "length (al_action a) \<le> 120"
  using assms unfolding row_fits_def audit_log_columns_def audit_log_row_def by (auto dest: fits_col)

lemma device_fits:
  assumes "row_fits inet device_columns (device_row d)"
  shows "dev_id d < 16 ^ 32" "dev_company_id d < 16 ^ 32" "length (dev_hostname d) \<le> 255"
    "none_or (\<lambda>s. length s \<le> 200) (dev_name d)"
    "none_or (\<lambda>s. length s \<le> 320) (dev_email_notification_recipient d)"
    "none_or (\<lambda>s. length s \<le> 200) (dev_runbook_owner d)" "none_or (\<lambda>s. length s \<le> 320) (dev_runbook_contact d)"
    "none_or (\<lambda>s. length s \<le> 200) (dev_runbook_site d)"
    "none_or (\<lambda>s. length s \<le> 80) (dev_firmware_current_version d)"
    "none_or (\<lambda>s. length s \<le> 80) (dev_firmware_available_version d)"
  using assms unfolding row_fits_def device_columns_def device_row_def list_all2_Cons
  by (auto dest: fits_col)

subsection \<open>The checks of the restore on represented rows\<close>

lemma user_row_valid:
  assumes "represents_row ps user_columns row (user_row u)" and "row_fits inet user_columns (user_row u)"
    and "restorable_user u"
  shows "validate_user_row row = Inr ()"
  using assms(3) user_fits [OF assms(2)]
  unfolding validate_user_row_def get_or_def Let_def user_fields [OF assms(1)] restorable_user_def
  by (simp add: max_length_ok null_or_in_text norm_in_def norm_or_empty [unfolded json_true.simps])

lemma company_user_row_valid:
  assumes "represents_row ps company_user_columns row (company_user_row m)"
    and "row_fits inet company_user_columns (company_user_row m)"
    and "norm_in (cu_role m) ALLOWED_COMPANY_USER_ROLES" "cu_company_id m \<in> set company_ids" "cu_user_id m \<in> set user_ids"
  shows "validate_company_user_row company_ids user_ids row = Inr ()"
  using assms(3-5) company_user_fits [OF assms(2)]
  unfolding validate_company_user_row_def get_or_def Let_def company_user_fields [OF assms(1)]
  by (simp add: refers_to_ok norm_in_def norm_or_empty [unfolded json_true.simps])

lemma event_row_valid:
  assumes "represents_row ps device_event_columns row (device_event_row v)"
    and "row_fits inet device_event_columns (device_event_row v)"
    and "none_or (\<lambda>s. length s \<le> 1000) (ev_message v)" "ev_device_id v \<in> set device_ids"
  shows "validate_event_row device_ids row = Inr ()"
  using assms(3-4) device_event_fits [OF assms(2)]
  unfolding validate_event_row_def device_event_fields [OF assms(1)] by (simp add: refers_to_ok max_length_ok)

lemma audit_row_valid:
  assumes "represents_row ps audit_log_columns row (audit_log_row a)"
    and "row_fits inet audit_log_columns (audit_log_row a)"
    and "none_or (\<lambda>s. length s \<le> 500) (al_user_agent a)" "refers (al_user_id a) user_ids"
      "refers (al_company_id a) company_ids" "refers (al_device_id a) device_ids"
  shows "validate_audit_row user_ids company_ids device_ids row = Inr ()"
  using assms(3-6) audit_log_fits [OF assms(2)]
  unfolding validate_audit_row_def audit_log_fields [OF assms(1)] by (simp add: refers_to_ok max_length_ok)

lemma code_row_valid:
  assumes "represents_row ps enrollment_code_columns row (enrollment_code_row e)"
    and "row_fits inet enrollment_code_columns (enrollment_code_row e)"
    and "ec_company_id e \<in> set company_ids" "refers (ec_created_by e) user_ids"
  shows "validate_code_row company_ids user_ids row = Inr ()"
  using assms(3-4) enrollment_code_fits [OF assms(2)]
  unfolding validate_code_row_def enrollment_code_fields [OF assms(1)] by (simp add: refers_to_ok)

lemma norm_or_alt:
  assumes "norm_in s allowed" and "[] \<notin> set allowed"
  shows "norm (if json_true (JStr s) then JStr s else JStr alt) = lower (strip s)"
    "norm (if json_true (JStr s) then JStr s else JStr alt) \<in> set allowed"
proof -
  have "lower (strip []) = []" by (simp add: strip_def lstrip_def rstrip_def lower_def)
  then have "s \<noteq> []" using assms unfolding norm_in_def by metis
  then show "norm (if json_true (JStr s) then JStr s else JStr alt) = lower (strip s)" by (simp add: norm_def)
  with assms(1) show "norm (if json_true (JStr s) then JStr s else JStr alt) \<in> set allowed" by (simp add: norm_in_def)
qed

lemma device_limits_valid:
  assumes "represents_row ps device_columns row (device_row d)" and "row_fits inet device_columns (device_row d)"
    and "restorable_device cfg d"
  shows "validate_device_limits row = Inr ()"
proof -
  have n: "json_true (JInt (dev_backup_retention_count d))" "json_true (JInt (dev_backup_interval_value d))"
    "json_true (JInt (dev_backup_interval_hours d))"
    using assms(3) by (auto simp: restorable_device_def)
  have u: "norm (if json_true (JStr (dev_backup_interval_unit d)) then JStr (dev_backup_interval_unit d) else JStr ''hours'')
      \<in> {''hours'', ''days'', ''months''}"
    using norm_or_alt(2) [of "dev_backup_interval_unit d" "[''hours'', ''days'', ''months'']"] assms(3)
    by (simp add: restorable_device_def)
  show ?thesis
    using assms(3) u device_fits [OF assms(2)]
    unfolding validate_device_limits_def get_or_def Let_def device_fields [OF assms(1)] device_text_fields [OF assms(1)] n if_True
      restorable_device_def
    by (simp add: int_between_ok max_length_ok)
qed

lemma tunnel_valid:
  assumes "restorable_tunnel cfg d" "tunnel_text d \<notin> set seen"
  shows "validate_restore_tunnel_ip cfg (JStr (dev_wg_tunnel_ip d)) seen = Inr (tunnel_text d)"
  using assms by (auto simp: restorable_tunnel_def validate_restore_tunnel_ip_def tunnel_text_def usable_host_def)


lemma device_row_valid:
  assumes "represents_row ps device_columns row (device_row d)" and "row_fits inet device_columns (device_row d)"
    and "restorable_device cfg d" "dev_company_id d \<in> set company_ids" "tunnel_text d \<notin> set seen"
  shows "validate_device_row cfg company_ids seen row = Inr (seen @ [tunnel_text d])"
proof -
  have k: "py_str (if json_true (JStr (dev_wg_public_key d)) then JStr (dev_wg_public_key d) else JStr []) = dev_wg_public_key d"
    by simp
  have f: "norm (if json_true (JStr (dev_firmware_status d)) then JStr (dev_firmware_status d) else JStr ''unknown'')
      \<in> set ALLOWED_FIRMWARE_STATUSES"
    using assms(3) by (intro norm_or_alt) (simp_all add: restorable_device_def ALLOWED_FIRMWARE_STATUSES_def)
  have t: "restorable_tunnel cfg d" using assms(3) by (simp add: restorable_device_def)
  show ?thesis
    using assms(3,4) f device_fits(2) [OF assms(2)] device_limits_valid [OF assms(1-3)] tunnel_valid [OF t assms(5)]
    unfolding validate_device_row_def get_or_def Let_def device_fields [OF assms(1)] k norm_or_empty restorable_device_def
    by (simp add: refers_to_ok null_or_in_text validate_public_key_def norm_in_def)
qed

lemma device_rows_valid:
  assumes "list_all2 (\<lambda>row d. represents_row ps device_columns row (device_row d)) rows ds"
    and "\<And>d. d \<in> set ds \<Longrightarrow> row_fits inet device_columns (device_row d) \<and> restorable_device cfg d
           \<and> dev_company_id d \<in> set company_ids"
    and "distinct (seen @ map tunnel_text ds)"
  shows "validate_device_rows cfg company_ids seen rows = Inr ()"
  using assms
proof (induction rows ds arbitrary: seen rule: list_all2_induct)
  case (Cons row rows d ds)
  have "validate_device_row cfg company_ids seen row = Inr (seen @ [tunnel_text d])"
    using Cons by (intro device_row_valid) auto
  then show ?case using Cons by simp
qed simp

lemma set_field_same:
  assumes "map_of row key = Some v"
  shows "map_of (set_field key v row) k = map_of row k" "map fst (set_field key v row) = map fst row"
proof -
  have "map_of (set_field key v row) k = map_option (\<lambda>x. if k = key then v else x) (map_of row k)"
    by (induction row) (auto simp: set_field_def)
  then show "map_of (set_field key v row) k = map_of row k" using assms by (cases "map_of row k") auto
  show "map fst (set_field key v row) = map fst row" by (simp add: set_field_def case_prod_unfold comp_def)
qed

lemma stored_backup_row_valid:
  assumes "represents_row ps device_backup_columns row (device_backup_row b)"
    and "row_fits inet device_backup_columns (device_backup_row b)"
    and "stored_backup_valid env b" "dbk_device_id b \<in> set device_ids"
    and "dbk_backup_format b \<in> {encrypted_format, plaintext_format}"
  shows "\<exists>row'. validate_stored_backup env device_ids row = Inr row'
     \<and> represents_row ps device_backup_columns row' (device_backup_row b)"
proof -
  let ?row = "set_field ''encrypted_payload'' (JStr (dbk_encrypted_payload b)) row"
  have names: "set (map fst row) = set (map col_name device_backup_columns)" using assms(1) by (simp add: represents_row_def)
  then have c: "''content'' \<notin> fst ` set row" by (simp add: device_backup_columns_def)
  obtain v where v: "json_loads (be_float env) dict_hook (dbk_encrypted_payload b) = Some v"
      "(if dbk_backup_format b = plaintext_format
        then validate_plaintext_device_backup (be_aware env) v (dbk_device_id b)
        else validate_encrypted_device_backup (be_aware env) v (dbk_device_id b)) = Inr (dbk_encrypted_payload b)"
    using assms(3) by (auto simp: stored_backup_valid_def)
  have "validate_stored_backup env device_ids row = Inr ?row"
    using assms(4,5) c v device_backup_fits [OF assms(2)]
    unfolding validate_stored_backup_def device_backup_fields [OF assms(1)] format_supported_def
    by (auto simp: backup_uuid_ok max_length_ok)
  moreover have "map_of row ''encrypted_payload'' = Some (JStr (dbk_encrypted_payload b))"
    using device_backup_fields(4) [OF assms(1)] by (simp add: field_def split: option.splits)
  then have "represents_row ps device_backup_columns ?row (device_backup_row b)"
    using assms(1) set_field_same unfolding represents_row_def by metis
  ultimately show ?thesis by blast
qed

end
