(* ===== verification/Backup_Roundtrip.thy ===== *)
theory Backup_Roundtrip
  imports Backup_Facts
begin

text \<open>
  From the export to the restore: the shape of the exported data, the rows that are written from it, the archive
  and its encryption, and the databases whose export cannot be restored.
\<close>

subsection \<open>Shape\<close>

lemma list_all2_in1: "list_all2 P xs ys \<Longrightarrow> x \<in> set xs \<Longrightarrow> \<exists>y\<in>set ys. P x y"
  by (induction xs ys rule: list_all2_induct) auto

lemma missing_names_Nil: "missing_names expected present = [] \<longleftrightarrow> set expected \<subseteq> set present"
  unfolding missing_names_def by (auto simp: filter_empty_conv simp flip: set_empty)

lemma column_value:
  assumes "row_fits inet cols cells" and "distinct (map col_name cols)" and "c \<in> set cols"
  shows "\<exists>v. map_of (serialize_model_row ps cols cells) (col_name c) = Some (backup_json_value ps v) \<and> cell_fits inet c v"
proof -
  obtain n where n: "n < length cols" "c = cols ! n" using assms(3) by (auto simp: in_set_conv_nth)
  have l: "length cols = length cells" using assms(1) by (simp add: row_fits_def list_all2_lengthD)
  have "map_of (serialize_model_row ps cols cells) (map col_name cols ! n) = Some (map (backup_json_value ps) cells ! n)"
    unfolding serialize_model_row_def using assms(2) l n by (intro map_of_zip_nth) auto
  moreover have "cell_fits inet c (cells ! n)" using assms(1) n by (simp add: row_fits_def list_all2_nthD)
  ultimately show ?thesis using n l by auto
qed

lemma shape_valid:
  assumes "represents_row ps cols row cells" and "row_fits inet cols cells" and "distinct (map col_name cols)"
  shows "validate_backup_row_shape n cols row = Inr ()"
proof -
  have s: "set (map fst row) = set (map col_name cols)" using assms(1) by (simp add: represents_row_def)
  have "\<not> is_null (map_of row (col_name c))" if c: "c \<in> set cols" "\<not> col_nullable c" for c
  proof -
    obtain v where v: "map_of row (col_name c) = Some (backup_json_value ps v)" "cell_fits inet c v"
      using column_value [OF assms(2,3) c(1), of ps] assms(1) c(1) by (auto simp: represents_row_def)
    with c(2) show ?thesis by (cases v) (auto simp: is_null_def cell_fits_def)
  qed
  then have "filter (\<lambda>c. \<not> col_nullable c \<and> is_null (map_of row (col_name c))) cols = []"
    by (auto simp: filter_empty_conv)
  moreover have "missing_names (map col_name cols) (map fst row) = []" "missing_names (map fst row) (map col_name cols) = []"
    using s by (simp_all add: missing_names_Nil)
  ultimately show ?thesis by (simp add: validate_backup_row_shape_def names_ok_def Let_def)
qed

lemma deserialized:
  assumes "represents_row ps cols row cells" and "row_fits inet cols cells" and "distinct (map col_name cols)"
    and "\<And>t. parse_iso (ps t) = Some t"
  shows "deserialize_model_row parse_iso cols row = Inr cells"
  using assms by (intro row_roundtrip_aux [where iso_print = ps and inet = inet]) (auto simp: represents_row_def)

lemma represents_tableE:
  assumes "represents ps db data" "rows_fit inet db" "(n, cols) \<in> set backup_table_models"
  obtains rows where "field data n = JList (map JObj rows)"
    "list_all2 (\<lambda>row cells. represents_row ps cols row cells \<and> row_fits inet cols cells) rows (rows_of (database_rows db) n)"
    "distinct (map col_name cols)"
proof -
  obtain rows where rows: "field data n = JList (map JObj rows)"
      "list_all2 (represents_row ps cols) rows (rows_of (database_rows db) n)"
    using assms(1,3) unfolding represents_def by fastforce
  have "list_all (row_fits inet cols) (rows_of (database_rows db) n)"
    using assms(2,3) unfolding rows_fit_def by fastforce
  with rows(2) have "list_all2 (\<lambda>row cells. represents_row ps cols row cells \<and> row_fits inet cols cells) rows
      (rows_of (database_rows db) n)"
    by (auto simp: list_all2_conv_all_nth list_all_length)
  with rows(1) backup_columns_distinct [OF assms(3)] show thesis using that by blast
qed

lemma no_content_column: "(''device_backups'', cols) \<in> set backup_table_models \<Longrightarrow> ''content'' \<notin> set (map col_name cols)"
  by (auto simp: backup_table_models_def device_backup_columns_def)

lemma table_shapes_valid:
  assumes "represents ps db data" "rows_fit inet db" "\<And>t. be_iso env (ps t) = Some t"
  shows "validate_table_shapes env data = Inr ()"
proof -
  have "validate_table env data (n, cols) = Inr ()" if m: "(n, cols) \<in> set backup_table_models" for n cols
  proof -
    obtain rows where rows: "field data n = JList (map JObj rows)" and all:
        "list_all2 (\<lambda>row cells. represents_row ps cols row cells \<and> row_fits inet cols cells) rows (rows_of (database_rows db) n)"
        and dist: "distinct (map col_name cols)"
      by (rule represents_tableE [OF assms(1,2) m])
    have "validate_table_row env n cols (JObj row) = Inr ()" if row: "row \<in> set rows" for row
    proof -
      obtain cells where c: "represents_row ps cols row cells" "row_fits inet cols cells"
        using list_all2_in1 [OF all row] by blast
      have "set (map fst row) = set (map col_name cols)" using c(1) by (simp add: represents_row_def)
      then have "\<not> (n = ''device_backups'' \<and> ''content'' \<in> set (map fst row))"
        using m no_content_column by metis
      then show ?thesis using shape_valid [OF c dist] deserialized [OF c dist assms(3)]
        unfolding validate_table_row_def by simp
    qed
    then show ?thesis unfolding validate_table_def by (auto simp: rows rfor_each_Inr_iff)
  qed
  then have "rfor_each (validate_table env data) backup_table_models = Inr ()"
    by (auto simp: rfor_each_Inr_iff)
  then show ?thesis by (simp add: validate_table_shapes_def)
qed

subsection \<open>Acceptance\<close>

lemma table_ids_ok:
  assumes "table_represented ps data n cols f xs"
    and "\<And>row x. x \<in> set xs \<Longrightarrow> represents_row ps cols row (f x) \<Longrightarrow> field row ''id'' = JStr (uuid_str (i x)) \<and> i x < 16 ^ 32"
  shows "table_ids data n detail = Inr (map i xs)"
  unfolding table_ids_def by (rule represented_map [OF assms(1)]) (use assms(2) backup_uuid_ok in metis)

lemma field_set_field: "field (set_field key v row) k = (if k = key \<and> key \<in> fst ` set row then v else field row k)"
proof -
  have m: "map_of (set_field key v row) k = map_option (\<lambda>x. if k = key then v else x) (map_of row k)"
    by (induction row) (auto simp: set_field_def)
  show ?thesis
  proof (cases "map_of row k")
    case None
    then have "k \<notin> fst ` set row" by (simp add: map_of_eq_None_iff)
    with m None show ?thesis by (auto simp: field_def)
  next
    case (Some x)
    then have "k \<in> fst ` set row" by (metis map_of_eq_None_iff option.distinct(1))
    with m Some show ?thesis by (auto simp: field_def)
  qed
qed

lemma stored_backups_valid:
  assumes "table_represented ps data ''device_backups'' device_backup_columns device_backup_row bs"
    and "\<And>b. b \<in> set bs \<Longrightarrow> row_fits inet device_backup_columns (device_backup_row b) \<and> stored_backup_valid env b
       \<and> dbk_device_id b \<in> set device_ids \<and> dbk_backup_format b \<in> {encrypted_format, plaintext_format}"
  shows "\<exists>rows'. rmap_list (validate_stored_backup env device_ids) (rows_in data ''device_backups'') = Inr rows'
     \<and> list_all2 (represents_row ps device_backup_columns) rows' (map device_backup_row bs)"
proof -
  have "\<exists>rows'. rmap_list (validate_stored_backup env device_ids) rows = Inr rows'
      \<and> list_all2 (represents_row ps device_backup_columns) rows' (map device_backup_row ys)"
    if "list_all2 (\<lambda>row b. represents_row ps device_backup_columns row (device_backup_row b)) rows ys" "set ys \<subseteq> set bs"
    for rows ys
    using that
  proof (induction rows ys rule: list_all2_induct)
    case (Cons row rows b ys)
    then obtain row' where "validate_stored_backup env device_ids row = Inr row'"
        "represents_row ps device_backup_columns row' (device_backup_row b)"
      using stored_backup_row_valid [of ps row b inet env device_ids] assms(2) [of b] by auto
    moreover obtain rows' where "rmap_list (validate_stored_backup env device_ids) rows = Inr rows'"
        "list_all2 (represents_row ps device_backup_columns) rows' (map device_backup_row ys)"
      using Cons by auto
    ultimately show ?case by simp
  qed simp
  with assms(1) show ?thesis by (simp add: table_represented_def)
qed

lemma represents_set_backups:
  assumes "represents ps db data"
    and "list_all2 (represents_row ps device_backup_columns) rows (map device_backup_row (device_backups db))"
  shows "represents ps db (set_field ''device_backups'' (JList (map JObj rows)) data)"
proof -
  have keys: "set (map fst data) = set BACKUP_TABLE_NAMES" using assms(1) by (simp add: represents_def)
  then have "''device_backups'' \<in> fst ` set data" by (simp add: BACKUP_TABLE_NAMES_def backup_table_models_def)
  moreover have "(n, cols) \<in> set backup_table_models \<Longrightarrow> n = ''device_backups'' \<Longrightarrow> cols = device_backup_columns" for n cols
    by (auto simp: backup_table_models_def)
  moreover have "rows_of (database_rows db) ''device_backups'' = map device_backup_row (device_backups db)"
    by (simp add: rows_of_def database_rows_def)
  moreover have "set (map fst (set_field ''device_backups'' (JList (map JObj rows)) data)) = set BACKUP_TABLE_NAMES"
    using keys by (simp add: set_field_def case_prod_unfold comp_def)
  ultimately show ?thesis using assms unfolding represents_def field_set_field by fastforce
qed

lemma backup_data_valid:
  assumes rep: "represents ps db data" and fit: "rows_fit inet db" and isof: "\<And>t. be_iso env (ps t) = Some t"
    and int: "integrity db" and res: "restorable env db"
    and logo: "validate_logo (be_cfg env) logo_file = Inr ()" and wgk: "none_or (\<lambda>k. wg_key_re (strip k)) wg_private"
  shows "\<exists>data'. validate_backup_data env data logo_file wg_private = Inr data' \<and> represents ps db data'"
proof -
  note t = represents_tables [OF rep] and f = rows_fit_tables [OF fit]
  note i = int [unfolded integrity_def foreign_keys_def Let_def]
  have keys: "set (map fst data) = set BACKUP_TABLE_NAMES" using rep by (simp add: represents_def)
  have names: "validate_backup_tables_present data = Inr ()"
    using keys by (simp add: validate_backup_tables_present_def names_ok_def missing_names_Nil)
  obtain r where r: "integration_rows db = [r]" "ints_id r = 1" using res by (auto simp: restorable_def)
  then obtain row where "rows_in data ''integration_settings'' = [row]"
      "represents_row ps integration_settings_columns row (integration_settings_row r)"
    using t(2) by (auto simp: table_represented_def list_all2_Cons2)
  moreover have "int_str 1 = ''1''" by code_simp
  ultimately have ints: "(case rows_in data ''integration_settings'' of [row] \<Rightarrow> py_str (field row ''id'') = ''1'' | _ \<Rightarrow> False)"
    using integration_fields r by simp
  have users: "table_ids data ''users'' d = Inr (map usr_id (users db))" for d
    by (rule table_ids_ok [OF t(1)]) (intro conjI user_fields(1) user_fits(1) [OF f(1)]; assumption)
  have companies: "table_ids data ''companies'' d = Inr (map com_id (companies db))" for d
    by (rule table_ids_ok [OF t(3)]) (intro conjI company_fields(1) company_fits(1) [OF f(3)]; assumption)
  have devices: "table_ids data ''devices'' d = Inr (map dev_id (devices db))" for d
    by (rule table_ids_ok [OF t(6)]) (intro conjI device_fields(1) device_fits(1) [OF f(6)]; assumption)
  have c1: "rfor_each validate_user_row (rows_in data ''users'') = Inr ()"
    by (rule represented_for_each [OF t(1)], rule user_row_valid [OF _ f(1)])
      (use res in \<open>auto simp: restorable_def list_all_iff\<close>)
  have c2: "rfor_each (\<lambda>row. ensure_string_max_length (field row ''name'') ''company name'' 200) (rows_in data ''companies'') = Inr ()"
    by (rule represented_for_each [OF t(3)]) (simp add: company_fields max_length_ok(1) company_fits(2) [OF f(3)])
  have c3: "rfor_each (validate_company_user_row (map com_id (companies db)) (map usr_id (users db)))
      (rows_in data ''company_users'') = Inr ()"
    by (rule represented_for_each [OF t(4)], rule company_user_row_valid [OF _ f(4)])
      (use i res in \<open>auto simp: restorable_def list_all_iff\<close>)
  have c4: "validate_device_rows (be_cfg env) (map com_id (companies db)) [] (rows_in data ''devices'') = Inr ()"
    by (rule device_rows_valid [OF t(6) [unfolded table_represented_def]])
      (use i res f(6) in \<open>auto simp: restorable_def list_all_iff\<close>)
  have b: "row_fits inet device_backup_columns (device_backup_row x) \<and> stored_backup_valid env x
      \<and> dbk_device_id x \<in> set (map dev_id (devices db)) \<and> dbk_backup_format x \<in> {encrypted_format, plaintext_format}"
    if "x \<in> set (device_backups db)" for x
    using f(7) [OF that] i res that by (simp add: restorable_def list_all_iff)
  obtain rows' where c5: "rmap_list (validate_stored_backup env (map dev_id (devices db))) (rows_in data ''device_backups'') = Inr rows'"
      "list_all2 (represents_row ps device_backup_columns) rows' (map device_backup_row (device_backups db))"
    using stored_backups_valid [OF t(7) b] by blast
  have c6: "rfor_each (validate_event_row (map dev_id (devices db))) (rows_in data ''device_events'') = Inr ()"
    by (rule represented_for_each [OF t(8)], rule event_row_valid [OF _ f(8)])
      (use i res in \<open>auto simp: restorable_def list_all_iff\<close>)
  have c7: "rfor_each (validate_audit_row (map usr_id (users db)) (map com_id (companies db)) (map dev_id (devices db)))
      (rows_in data ''audit_logs'') = Inr ()"
    by (rule represented_for_each [OF t(9)], rule audit_row_valid [OF _ f(9)])
      (use i res in \<open>auto simp: restorable_def list_all_iff\<close>)
  have c8: "rfor_each (validate_code_row (map com_id (companies db)) (map usr_id (users db))) (rows_in data ''enrollment_codes'') = Inr ()"
    by (rule represented_for_each [OF t(5)], rule code_row_valid [OF _ f(5)])
      (use i in \<open>auto simp: list_all_iff\<close>)
  have k: "(case wg_private of None \<Rightarrow> Inr () | Some k \<Rightarrow> validate_private_key k) = Inr ()"
    using wgk by (simp add: none_or_def validate_private_key_def split: option.splits)
  have "validate_backup_data env data logo_file wg_private = Inr (set_field ''device_backups'' (JList (map JObj rows')) data)"
    unfolding validate_backup_data_def names table_shapes_valid [OF rep fit isof] users companies devices c1 c2 c3 c4 c5(1) c6 c7 c8
      logo k rbind_simps using ints by simp
  with represents_set_backups [OF rep c5(2)] show ?thesis by blast
qed

subsection \<open>The rows that are written\<close>

text \<open>The tables are written one after the other; each state on the way satisfies the constraints, since a table
  only refers to those before it.\<close>

lemma load_prefix:
  "load_rows (take k (database_rows db)) = empty_db\<lparr>
     users := (if 0 < k then users db else []), integration_rows := (if 1 < k then integration_rows db else []),
     companies := (if 2 < k then companies db else []), company_users := (if 3 < k then company_users db else []),
     enrollment_codes := (if 4 < k then enrollment_codes db else []), devices := (if 5 < k then devices db else []),
     device_backups := (if 6 < k then device_backups db else []), device_events := (if 7 < k then device_events db else []),
     audit_logs := (if 8 < k then audit_logs db else [])\<rparr>"
proof -
  have r: "take k (database_rows db) = database_rows db" if "9 \<le> k" using that by (simp add: database_rows_def)
  consider "k = 0" | "k = 1" | "k = 2" | "k = 3" | "k = 4" | "k = 5" | "k = 6" | "k = 7" | "k = 8" | "9 \<le> k"
    by linarith
  then show ?thesis
  proof cases
    case 10
    then show ?thesis by (simp add: r load_database_rows) (simp add: empty_db_def)
  qed (simp_all add: load_rows_def database_rows_def rows_of_def comp_def row_inverse empty_db_def)
qed

lemma integrity_prefixes:
  assumes "integrity db"
  shows "integrity (load_rows (take k (database_rows db)))"
proof -
  note i = assms [unfolded integrity_def unique_keys_def foreign_keys_def Let_def]
  show ?thesis
    unfolding load_prefix integrity_def unique_keys_def foreign_keys_def Let_def empty_db_def
    by (intro conjI; (simp add: i; fail | insert i, simp))
qed

lemma stored_unchanged:
  assumes "row_fits inet cols cells" and "\<And>c v. cell_fits inet c v \<Longrightarrow> bd_accepts D c v"
  shows "stored_row D cols cells = Inr cells"
proof -
  have c: "stored_cell D c v = Inr v" if "cell_fits inet c v" for c v
    using assms(2) [OF that] that by (cases v) (simp_all add: stored_cell_def cell_fits_def)
  show ?thesis using assms(1) unfolding row_fits_def
    by (induction cols cells rule: list_all2_induct) (simp_all add: c)
qed

lemma rmap_list_all2:
  "list_all2 (\<lambda>x y. f x = Inr y) xs ys \<Longrightarrow> rmap_list f xs = Inr ys"
  by (induction xs ys rule: list_all2_induct) auto

lemma table_written:
  assumes "represents ps db data" "rows_fit inet db" "(n, cols) \<in> set backup_table_models"
    and "\<And>t. parse_iso (ps t) = Some t" and "\<And>c v. cell_fits inet c v \<Longrightarrow> bd_accepts D c v"
  shows "rmap_list (deserialize_model_row parse_iso cols) (rows_in data n) = Inr (rows_of (database_rows db) n)"
    "rmap_list (stored_row D cols) (rows_of (database_rows db) n) = Inr (rows_of (database_rows db) n)"
proof -
  obtain rows where rows: "field data n = JList (map JObj rows)" and all:
      "list_all2 (\<lambda>row cells. represents_row ps cols row cells \<and> row_fits inet cols cells) rows (rows_of (database_rows db) n)"
      and dist: "distinct (map col_name cols)"
    by (rule represents_tableE [OF assms(1-3)])
  have "list_all2 (\<lambda>row cells. deserialize_model_row parse_iso cols row = Inr cells) rows (rows_of (database_rows db) n)"
    by (rule list_all2_mono [OF all]) (use deserialized [OF _ _ dist assms(4)] in blast)
  then show "rmap_list (deserialize_model_row parse_iso cols) (rows_in data n) = Inr (rows_of (database_rows db) n)"
    unfolding rows_in_JObj [OF rows] by (rule rmap_list_all2)
  have "list_all (row_fits inet cols) (rows_of (database_rows db) n)"
    using assms(2,3) unfolding rows_fit_def by fastforce
  then show "rmap_list (stored_row D cols) (rows_of (database_rows db) n) = Inr (rows_of (database_rows db) n)"
    by (intro rmap_list_all2) (auto simp: list_all2_same list_all_iff intro: stored_unchanged assms(5))
qed

lemma insert_tables_represented:
  assumes rep: "represents ps db data" and fit: "rows_fit inet db" and isof: "\<And>t. parse_iso (ps t) = Some t"
    and acc: "\<And>c v. cell_fits inet c v \<Longrightarrow> bd_accepts D c v" and int: "integrity db"
  shows "insert_tables D parse_iso data [] backup_table_models = (Inr (), database_rows db)"
proof -
  let ?row = "\<lambda>(n, cols :: column list). (n, rows_of (database_rows db) n)"
  have all: "map ?row backup_table_models = database_rows db"
    by (simp add: backup_table_models_def database_rows_def rows_of_def)
  have "insert_tables D parse_iso data (map ?row (take k backup_table_models)) (drop k backup_table_models)
      = (Inr (), database_rows db)" if "k \<le> length backup_table_models" for k
    using that
  proof (induction k rule: inc_induct)
    case base
    then show ?case using all by simp
  next
    case (step k)
    obtain n cols where nc: "backup_table_models ! k = (n, cols)" by (cases "backup_table_models ! k")
    then have m: "(n, cols) \<in> set backup_table_models" using step(2) nth_mem by metis
    have d: "drop k backup_table_models = (n, cols) # drop (Suc k) backup_table_models"
      using step(2) nc by (metis Cons_nth_drop_Suc)
    have t: "map ?row (take k backup_table_models) @ [(n, rows_of (database_rows db) n)] = map ?row (take (Suc k) backup_table_models)"
      using step(2) nc by (simp add: take_Suc_conv_app_nth)
    have "integrity (load_rows (map ?row (take (Suc k) backup_table_models)))"
      using integrity_prefixes [OF int, of "Suc k"] by (simp add: all flip: take_map)
    moreover have "rmap_list (deserialize_model_row parse_iso cols) (rows_in data n) = Inr (rows_of (database_rows db) n)"
      "rmap_list (stored_row D cols) (rows_of (database_rows db) n) = Inr (rows_of (database_rows db) n)"
      by (rule table_written [OF rep fit m]; rule isof acc; assumption)+
    ultimately show ?case using step(3) unfolding d by (simp add: t Let_def del: load_rows_def)
  qed
  from this [of 0] show ?thesis by simp
qed

lemma restore_represented:
  assumes rep: "represents ps db data" and fit: "rows_fit inet db" and isof: "\<And>t. be_iso env (ps t) = Some t"
    and acc: "\<And>c v. cell_fits inet c v \<Longrightarrow> bd_accepts (be_database env) c v \<and> bd_accepts (be_staging env) c v"
    and create: "be_create_all env = Inr ()"
    and int: "integrity db" and res: "restorable env db"
    and logo: "validate_logo (be_cfg env) logo_file = Inr ()" and wgk: "none_or (\<lambda>k. wg_key_re (strip k)) wg_private"
  shows "restore_backup_bundle env data logo_file wg_private s = (Inr (), s\<lparr>work := load_rows (database_rows db)\<rparr>)"
proof -
  obtain data' where d: "validate_backup_data env data logo_file wg_private = Inr data'" "represents ps db data'"
    using backup_data_valid [OF rep fit isof int res logo wgk] by blast
  have "insert_tables (be_staging env) (be_iso env) data' [] backup_table_models = (Inr (), database_rows db)"
    by (rule insert_tables_represented [OF d(2) fit isof _ int]) (simp add: acc)
  then have "validate_backup_data_in_staging env data' = Inr ()"
    by (simp add: validate_backup_data_in_staging_def create)
  moreover have "insert_tables (be_database env) (be_iso env) data' [] backup_table_models = (Inr (), database_rows db)"
    by (rule insert_tables_represented [OF d(2) fit isof _ int]) (simp add: acc)
  ultimately show ?thesis by (simp add: restore_backup_bundle_def abind_def aseq_def d)
qed

end
