(* ===== verification/Backup_Archive.thy ===== *)
theory Backup_Archive
  imports Backup_Roundtrip
begin

text \<open>
  The text, the archive and the encryption of an export are undone by the reader, so that a restore gives back
  the exported tables; and what keeps an export from being restored.
\<close>

subsection \<open>The exported data in sorted form\<close>

lemma map_of_sorted:
  assumes "distinct (map fst kvs)"
  shows "map_of (sort_key fst (map (\<lambda>(k, v). (k, g v)) kvs)) k = map_option g (map_of kvs k)"
proof -
  let ?m = "map (\<lambda>(k, v). (k, g v)) kvs"
  have d: "distinct (map fst ?m)" using assms by (simp add: case_prod_unfold comp_def)
  then have "map_of (sort_key fst ?m) = map_of ?m"
    by (subst map_of_inject_set) (simp_all add: distinct_sort_key)
  moreover have "map_of ?m k = map_option g (map_of kvs k)" by (induction kvs) auto
  ultimately show ?thesis by simp
qed

lemma names_of_sorted: "set (map fst (sort_key fst (map (\<lambda>(k, v). (k, g v)) kvs))) = set (map fst kvs)"
  by (simp add: case_prod_unfold image_comp comp_def)

definition scalar :: "json \<Rightarrow> bool" where
  "scalar v = (case v of JList _ \<Rightarrow> False | JObj _ \<Rightarrow> False | JFloat _ _ \<Rightarrow> False | _ \<Rightarrow> True)"

lemma scalar_sorted: "scalar v \<Longrightarrow> sort_keys v = v" "scalar v \<Longrightarrow> plain_json v"
  by (cases v; simp add: scalar_def)+

lemma fit_scalar: "cell_fits inet c v \<Longrightarrow> scalar (backup_json_value ps v)"
  by (cases v) (simp_all add: cell_fits_def scalar_def)

definition sorted_row :: "backup_row \<Rightarrow> backup_row" where
  "sorted_row row = sort_key fst (map (\<lambda>(k, v). (k, sort_keys v)) row)"

lemma serialized:
  assumes "row_fits inet cols cells" and "distinct (map col_name cols)"
  shows "distinct (map fst (serialize_model_row ps cols cells))"
    "set (map fst (serialize_model_row ps cols cells)) = set (map col_name cols)"
    "\<forall>kv\<in>set (serialize_model_row ps cols cells). scalar (snd kv)"
proof -
  have l: "length cols = length cells" using assms(1) by (simp add: row_fits_def list_all2_lengthD)
  then have m: "map fst (serialize_model_row ps cols cells) = map col_name cols" by (simp add: serialize_model_row_def)
  then show "distinct (map fst (serialize_model_row ps cols cells))"
    "set (map fst (serialize_model_row ps cols cells)) = set (map col_name cols)" using assms(2) by simp_all
  have "scalar (backup_json_value ps v)" if v: "v \<in> set cells" for v
  proof -
    obtain n where n: "n < length cells" "v = cells ! n" using v by (auto simp: in_set_conv_nth)
    with assms(1) have "cell_fits inet (cols ! n) v" by (simp add: row_fits_def list_all2_nthD2)
    then show ?thesis by (rule fit_scalar)
  qed
  then show "\<forall>kv\<in>set (serialize_model_row ps cols cells). scalar (snd kv)"
    by (force simp: serialize_model_row_def dest: set_zip_rightD)
qed

lemma sorted_row_represents:
  assumes "row_fits inet cols cells" and "distinct (map col_name cols)"
  shows "represents_row ps cols (sorted_row (serialize_model_row ps cols cells)) cells"
proof -
  let ?row = "serialize_model_row ps cols cells"
  note s = serialized [OF assms, of ps]
  have "map_of (sorted_row ?row) k = map_of ?row k" for k
  proof -
    have "map_of (sorted_row ?row) k = map_option sort_keys (map_of ?row k)"
      unfolding sorted_row_def by (rule map_of_sorted [OF s(1)])
    also have "\<dots> = map_of ?row k" using s(3) by (cases "map_of ?row k") (auto simp: scalar_sorted dest!: map_of_SomeD)
    finally show ?thesis .
  qed
  moreover have "set (map fst (sorted_row ?row)) = set (map col_name cols)"
    using s(2) by (simp add: sorted_row_def case_prod_unfold image_comp comp_def)
  ultimately show ?thesis by (simp add: represents_row_def)
qed

definition sorted_data :: "backup_env \<Rightarrow> hub_db \<Rightarrow> backup_data" where
  "sorted_data env db = sort_key fst (map (\<lambda>(k, v). (k, sort_keys v)) (exported_data env db))"

lemma exported_data_names: "map fst (exported_data env db) = BACKUP_TABLE_NAMES" "distinct BACKUP_TABLE_NAMES"
  by (simp add: exported_data_def BACKUP_TABLE_NAMES_def comp_def)
    (simp add: BACKUP_TABLE_NAMES_def backup_table_models_def)

lemma sorted_data_field:
  assumes "(n, cols) \<in> set backup_table_models"
  shows "field (sorted_data env db) n = JList (map JObj (map sorted_row (exported_rows env db (n, cols))))"
proof -
  have "distinct (map fst (exported_data env db))" using exported_data_names by simp
  moreover have "map_of (exported_data env db) n = Some (JList (map JObj (exported_rows env db (n, cols))))"
    using calculation assms by (intro map_of_is_SomeI) (force simp: exported_data_def)+
  ultimately show ?thesis
    by (simp add: sorted_data_def field_def map_of_sorted sorted_row_def)
qed

lemma sorted_data_represents:
  assumes "rows_fit inet db"
  shows "represents (be_iso_print env) db (sorted_data env db)"
proof -
  have "\<exists>rows. field (sorted_data env db) n = JList (map JObj rows)
      \<and> list_all2 (represents_row (be_iso_print env) cols) rows (rows_of (database_rows db) n)"
    if m: "(n, cols) \<in> set backup_table_models" for n cols
  proof (intro exI conjI)
    show "field (sorted_data env db) n = JList (map JObj (map sorted_row (exported_rows env db (n, cols))))"
      by (rule sorted_data_field [OF m])
    have "list_all (row_fits inet cols) (rows_of (database_rows db) n)"
      using assms m unfolding rows_fit_def by fastforce
    then show "list_all2 (represents_row (be_iso_print env) cols) (map sorted_row (exported_rows env db (n, cols)))
        (rows_of (database_rows db) n)"
      by (auto simp: exported_rows_def list_all2_map1 list_all2_same list_all_iff
          intro: sorted_row_represents backup_columns_distinct [OF m])
  qed
  moreover have "set (map fst (sorted_data env db)) = set BACKUP_TABLE_NAMES"
    unfolding sorted_data_def names_of_sorted exported_data_names(1) ..
  ultimately show ?thesis by (auto simp: represents_def)
qed

lemma exported_data_plain:
  assumes "rows_fit inet db"
  shows "plain_json (JObj (exported_data env db))"
proof -
  have "plain_json (JObj row)" if m: "(n, cols) \<in> set backup_table_models" and r: "row \<in> set (exported_rows env db (n, cols))"
    for n cols row
  proof -
    obtain cells where c: "row = serialize_model_row (be_iso_print env) cols cells" "cells \<in> set (rows_of (database_rows db) n)"
      using r by (auto simp: exported_rows_def)
    have "row_fits inet cols cells" using assms m c(2) unfolding rows_fit_def by (fastforce simp: list_all_iff)
    note s = serialized [OF this backup_columns_distinct [OF m], of "be_iso_print env"]
    show ?thesis using s(1,3) by (auto simp: c(1) scalar_sorted)
  qed
  moreover have "distinct (map fst (exported_data env db))" using exported_data_names by simp
  ultimately show ?thesis by (auto simp: exported_data_def)
qed

lemma data_text_read:
  assumes "rows_fit inet db"
  shows "json_loads fl dict_hook (json_dumps_indent (JObj (exported_data env db))) = Some (JObj (sorted_data env db))"
  using json_indent_roundtrip [OF dict_hook_distinct exported_data_plain [OF assms], of fl]
  by (simp add: sorted_data_def)

subsection \<open>The manifest\<close>

definition table_counts :: "backup_env \<Rightarrow> hub_db \<Rightarrow> (string \<times> nat) list" where
  "table_counts env db = map (\<lambda>t. (fst t, length (exported_rows env db t))) backup_table_models"

lemma table_counts_names: "map fst (table_counts env db) = BACKUP_TABLE_NAMES"
  by (simp add: table_counts_def BACKUP_TABLE_NAMES_def comp_def)

lemma manifest_plain: "plain_json (build_backup_manifest env now files (table_counts env db))"
  using table_counts_names [of env db] exported_data_names(2)
  by (auto simp: build_backup_manifest_def case_prod_unfold comp_def split: option.split)

lemma manifest_read:
  obtains manifest where
    "json_loads fl dict_hook (json_dumps_indent (build_backup_manifest env now files (table_counts env db))) = Some (JObj manifest)"
    "field manifest ''format_version'' = JInt 2"
    "\<exists>tables. map_of manifest ''tables'' = Some (JObj tables) \<and> set (map fst tables) = set BACKUP_TABLE_NAMES
       \<and> (\<forall>t\<in>set backup_table_models. field tables (fst t) = JInt (int (length (exported_rows env db t))))"
proof -
  let ?tables = "map (\<lambda>(n, k). (n, JInt (int k))) (table_counts env db)"
  obtain kvs where kvs: "build_backup_manifest env now files (table_counts env db) = JObj kvs"
      "distinct (map fst kvs)" "map_of kvs ''format_version'' = Some (JInt 2)" "map_of kvs ''tables'' = Some (JObj ?tables)"
    by (simp add: build_backup_manifest_def BACKUP_FORMAT_VERSION_def)
  let ?m = "sort_key fst (map (\<lambda>(k, v). (k, sort_keys v)) kvs)"
  let ?t = "sort_key fst (map (\<lambda>(k, v). (k, sort_keys v)) ?tables)"
  have d: "distinct (map fst ?tables)"
    using exported_data_names(2) table_counts_names [of env db] by (simp add: case_prod_unfold comp_def)
  have "json_loads fl dict_hook (json_dumps_indent (JObj kvs)) = Some (JObj ?m)"
    using json_indent_roundtrip [OF dict_hook_distinct manifest_plain, of fl env now files db] kvs(1) by simp
  moreover have "field ?m ''format_version'' = JInt 2" using kvs(3) unfolding field_def map_of_sorted [OF kvs(2)] by simp
  moreover have "map_of ?m ''tables'' = Some (JObj ?t)" using kvs(4) unfolding map_of_sorted [OF kvs(2)] by simp
  moreover have "set (map fst ?t) = set BACKUP_TABLE_NAMES"
    unfolding names_of_sorted table_counts_names [of env db, symmetric] by (simp add: case_prod_unfold image_comp comp_def)
  moreover have "field ?t (fst t) = JInt (int (length (exported_rows env db t)))" if "t \<in> set backup_table_models" for t
  proof -
    have "map_of ?tables (fst t) = Some (JInt (int (length (exported_rows env db t))))"
      using d that by (intro map_of_is_SomeI) (force simp: table_counts_def)+
    then show ?thesis unfolding field_def map_of_sorted [OF d] by simp
  qed
  ultimately show thesis using that kvs(1) by metis
qed

lemma manifest_valid:
  assumes "map_of manifest ''tables'' = Some (JObj tables)" "set (map fst tables) = set BACKUP_TABLE_NAMES"
    and "\<forall>t\<in>set backup_table_models. field tables (fst t) = JInt (int (length (exported_rows env db t)))"
  shows "validate_backup_manifest manifest (sorted_data env db) = Inr ()"
proof -
  have "int_value (field tables n) = Some (int (length (exported_rows env db (n, cols))))
      \<and> py_len (field (sorted_data env db) n) = Inr (int (length (exported_rows env db (n, cols))))"
    if "(n, cols) \<in> set backup_table_models" for n cols
    using assms(3) that sorted_data_field [OF that, of env db] by auto
  then show ?thesis using assms(1,2)
    by (auto simp: validate_backup_manifest_def names_ok_def missing_names_Nil rfor_each_Inr_iff BACKUP_TABLE_NAMES_def)
qed

subsection \<open>The archive\<close>

definition zip_infos :: "(string \<times> string) list \<Rightarrow> zip_info list" where
  "zip_infos ms = map (\<lambda>m. \<lparr>zi_filename = fst m, zi_file_size = int (length (snd m)), zi_content = Inr (snd m)\<rparr>) ms"

text \<open>What \<open>zipfile\<close> and Fernet promise: an archive with distinct names is read back and starts with the letters PK; a
  token decrypts under its key and is ASCII text.\<close>

definition archive_laws :: "backup_env \<Rightarrow> bool" where
  "archive_laws env \<longleftrightarrow>
     (\<forall>ms. distinct (map fst ms) \<longrightarrow> be_unzip env (be_zip env ms) = Some (zip_infos ms))
   \<and> (\<forall>m ms. startswith (be_zip env (m # ms)) ''PK'')
   \<and> (\<forall>k n m. f_decrypt (be_fernet env) k (f_encrypt (be_fernet env) k n m) = Some m)
   \<and> (\<forall>k n m. list_all (\<lambda>c. code_of c < 128) (f_encrypt (be_fernet env) k n m))"

definition stored_logo :: "directory \<Rightarrow> (string \<times> string) option" where
  "stored_logo d =
     (case uploaded_logo_path d of
        None \<Rightarrow> None
      | Some n \<Rightarrow> (case map_of (the d) n of Some (File c) \<Rightarrow> Some (n, c) | _ \<Rightarrow> None))"

lemma logo_member_Inr:
  assumes "logo_member d = Inr logo"
  shows "logo = (case stored_logo d of None \<Rightarrow> [] | Some (n, c) \<Rightarrow> [(''branding/'' @ n, c)])"
    "stored_logo d = Some (n, c) \<Longrightarrow> n \<in> {''logo.png'', ''logo.jpg'', ''logo.webp''}"
proof -
  show "logo = (case stored_logo d of None \<Rightarrow> [] | Some (n, c) \<Rightarrow> [(''branding/'' @ n, c)])"
  proof (cases d)
    case None
    then show ?thesis using assms by (simp add: logo_member_def stored_logo_def uploaded_logo_path_def)
  next
    case (Some es)
    then show ?thesis using assms
      by (auto simp: logo_member_def stored_logo_def split: option.splits dir_entry.splits)
  qed
  have "uploaded_logo_path d = Some n \<Longrightarrow> n \<in> {''logo.png'', ''logo.jpg'', ''logo.webp''}" for n
    by (cases d) (simp_all add: uploaded_logo_path_def split: if_splits)
  then show "stored_logo d = Some (n, c) \<Longrightarrow> n \<in> {''logo.png'', ''logo.jpg'', ''logo.webp''}"
    by (auto simp: stored_logo_def split: option.splits dir_entry.splits)
qed

lemma zip_member_in:
  assumes "distinct (map fst ms)" "(n, c) \<in> set ms"
  shows "zip_member (zip_infos ms) n = Inr c"
proof -
  let ?P = "\<lambda>i. zi_filename i = n"
  obtain i where i: "find ?P (rev (zip_infos ms)) = Some i"
    using assms(2) by (cases "find ?P (rev (zip_infos ms))") (force simp: find_None_iff zip_infos_def)+
  then obtain m where m: "m \<in> set ms" "i = \<lparr>zi_filename = fst m, zi_file_size = int (length (snd m)), zi_content = Inr (snd m)\<rparr>"
      "fst m = n"
    by (auto simp: find_Some_iff zip_infos_def rev_map rev_nth)
  then have "snd m = c" using assms by (metis eq_key_imp_eq_value prod.collapse)
  with m(2) show ?thesis by (simp add: zip_member_def i)
qed

lemma logo_member_names:
  "is_logo_member ''branding/logo.png'' \<and> is_logo_member ''branding/logo.jpg'' \<and> is_logo_member ''branding/logo.webp''
   \<and> \<not> is_logo_member ''manifest.json'' \<and> \<not> is_logo_member ''data.json'' \<and> \<not> is_logo_member ''wireguard/server.key''"
  unfolding is_logo_member_def endswith_def by simp

lemma logo_names_split:
  "last (split_on CHR ''/'' ''branding/logo.png'') = ''logo.png''"
  "last (split_on CHR ''/'' ''branding/logo.jpg'') = ''logo.jpg''"
  "last (split_on CHR ''/'' ''branding/logo.webp'') = ''logo.webp''"
  by simp_all

definition member_list :: "backup_env \<Rightarrow> instant \<Rightarrow> hub_files \<Rightarrow> hub_db \<Rightarrow> (string \<times> string) list" where
  "member_list env now files db =
     [(''manifest.json'', json_dumps_indent (build_backup_manifest env now files (table_counts env db))),
      (''data.json'', json_dumps_indent (JObj (exported_data env db)))]
     @ (case stored_logo (hf_branding files) of None \<Rightarrow> [] | Some (n, c) \<Rightarrow> [(''branding/'' @ n, c)])
     @ (case hf_key files of None \<Rightarrow> [] | Some k \<Rightarrow> [(''wireguard/server.key'', k)])"

lemma export_members_Inr:
  assumes "export_members env now files db = Inr members"
  shows "members = member_list env now files db"
    "stored_logo (hf_branding files) = Some (n, c) \<Longrightarrow> n \<in> {''logo.png'', ''logo.jpg'', ''logo.webp''}"
proof -
  obtain logo where l: "logo_member (hf_branding files) = Inr logo"
    using assms by (auto simp: export_members_def rbind_Inr_iff)
  then show "members = member_list env now files db"
    using assms logo_member_Inr(1) [OF l] by (simp add: export_members_def member_list_def table_counts_def)
  show "stored_logo (hf_branding files) = Some (n, c) \<Longrightarrow> n \<in> {''logo.png'', ''logo.jpg'', ''logo.webp''}"
    by (rule logo_member_Inr(2) [OF l])
qed

lemma member_list_names:
  assumes "\<And>n c. stored_logo (hf_branding files) = Some (n, c) \<Longrightarrow> n \<in> {''logo.png'', ''logo.jpg'', ''logo.webp''}"
  shows "distinct (map fst (member_list env now files db))"
    "set (map fst (member_list env now files db)) \<subseteq> set ALLOWED_BACKUP_ARCHIVE_MEMBERS"
    "archive_logo (zip_infos (member_list env now files db)) = Inr (stored_logo (hf_branding files))"
    "archive_key (zip_infos (member_list env now files db)) = Inr (hf_key files)"
proof -
  consider "stored_logo (hf_branding files) = None"
    | n c where "stored_logo (hf_branding files) = Some (n, c)" "n \<in> {''logo.png'', ''logo.jpg'', ''logo.webp''}"
    using assms by (cases "stored_logo (hf_branding files)") auto
  note logo = this
  show d: "distinct (map fst (member_list env now files db))"
    by (rule logo) (auto simp: member_list_def split: option.split)
  show "set (map fst (member_list env now files db)) \<subseteq> set ALLOWED_BACKUP_ARCHIVE_MEMBERS"
    by (rule logo) (auto simp: member_list_def ALLOWED_BACKUP_ARCHIVE_MEMBERS_def split: option.split)
  note member = zip_member_in [OF d]
  have names: "map zi_filename (zip_infos ms) = map fst ms" for ms by (simp add: zip_infos_def comp_def)
  show "archive_key (zip_infos (member_list env now files db)) = Inr (hf_key files)"
  proof (cases "hf_key files")
    case None
    have "''wireguard/server.key'' \<notin> set (map fst (member_list env now files db))"
      by (rule logo) (auto simp: member_list_def None)
    then show ?thesis unfolding archive_key_def names by (simp add: None)
  next
    case (Some k)
    then have m: "(''wireguard/server.key'', k) \<in> set (member_list env now files db)" by (simp add: member_list_def)
    then have "''wireguard/server.key'' \<in> set (map fst (member_list env now files db))" by force
    then show ?thesis unfolding archive_key_def names member [OF m] by (simp add: Some)
  qed
  show "archive_logo (zip_infos (member_list env now files db)) = Inr (stored_logo (hf_branding files))"
  proof (rule logo)
    assume l: "stored_logo (hf_branding files) = None"
    have "find is_logo_member (map fst (member_list env now files db)) = None"
      by (simp add: member_list_def l logo_member_names split: option.split)
    then show ?thesis unfolding archive_logo_def names by (simp add: l)
  next
    fix n c
    assume l: "stored_logo (hf_branding files) = Some (n, c)" and n: "n \<in> {''logo.png'', ''logo.jpg'', ''logo.webp''}"
    have f: "find is_logo_member (map fst (member_list env now files db)) = Some (''branding/'' @ n)"
      using n by (auto simp: member_list_def l logo_member_names)
    have m: "(''branding/'' @ n, c) \<in> set (member_list env now files db)" by (simp add: member_list_def l)
    have "last (split_on CHR ''/'' (''branding/'' @ n)) = n" using n logo_names_split by auto
    then show ?thesis unfolding archive_logo_def names f option.case member [OF m] by (simp add: l)
  qed
qed

lemma archive_members_valid:
  assumes "int (length ms) \<le> cfg_max_backup_restore_entries cfg"
    and "list_all (\<lambda>m. int (length (snd m)) \<le> cfg_max_backup_restore_file_bytes cfg) ms"
    and "sum_list (map (\<lambda>m. int (length (snd m))) ms) \<le> cfg_max_backup_restore_total_uncompressed_bytes cfg"
    and "{''manifest.json'', ''data.json''} \<subseteq> set (map fst ms)" "set (map fst ms) \<subseteq> set ALLOWED_BACKUP_ARCHIVE_MEMBERS"
  shows "validate_backup_archive_members cfg (zip_infos ms) = Inr ()"
proof -
  have ok: "\<not> endswith n ''/'' \<and> \<not> startswith n ''/'' \<and> \<not> startswith n [CHR 0x5C] \<and> ''..'' \<notin> set (split_on CHR ''/'' n)"
    if "n \<in> set ALLOWED_BACKUP_ARCHIVE_MEMBERS" for n
    using that unfolding ALLOWED_BACKUP_ARCHIVE_MEMBERS_def endswith_def by auto
  have files: "filter (\<lambda>i. \<not> endswith (zi_filename i) ''/'') (zip_infos ms) = zip_infos ms"
    using assms(5) ok by (intro filter_True) (auto simp: zip_infos_def)
  have names: "map zi_filename (zip_infos ms) = map fst ms" by (simp add: zip_infos_def comp_def)
  have sum: "sum_list (map zi_file_size (take k (zip_infos ms))) \<le> cfg_max_backup_restore_total_uncompressed_bytes cfg" for k
  proof -
    have m: "map zi_file_size (take k (zip_infos ms)) = take k (map (\<lambda>m. int (length (snd m))) ms)"
      by (simp add: zip_infos_def take_map comp_def)
    have "0 \<le> sum_list (drop k (map (\<lambda>m. int (length (snd m))) ms))"
      by (rule sum_list_nonneg) (auto dest!: in_set_dropD)
    moreover have "sum_list (map (\<lambda>m. int (length (snd m))) ms)
        = sum_list (take k (map (\<lambda>m. int (length (snd m))) ms)) + sum_list (drop k (map (\<lambda>m. int (length (snd m))) ms))"
      by (metis append_take_drop_id sum_list_append)
    ultimately show ?thesis using assms(3) unfolding m by linarith
  qed
  have each: "ms ! k \<in> set ms" if "k < length ms" for k using that by simp
  have "rfor_each (\<lambda>n. let info = zip_infos ms ! n in all_ok
          [ensure (\<not> startswith (zi_filename info) ''/'' \<and> \<not> startswith (zi_filename info) [CHR 0x5C]
               \<and> ''..'' \<notin> set (split_on CHR ''/'' (zi_filename info)))
             (bad ''backup archive contains an invalid member path''),
           ensure (zi_file_size info \<le> cfg_max_backup_restore_file_bytes cfg)
             (bad (''backup archive member '' @ [CHR 0x27] @ zi_filename info @ [CHR 0x27] @ '' exceeds the allowed size'')),
           ensure (sum_list (map zi_file_size (take (Suc n) (zip_infos ms))) \<le> cfg_max_backup_restore_total_uncompressed_bytes cfg)
             (bad ''backup archive is too large after decompression'')]) [0..<length (zip_infos ms)] = Inr ()"
  proof (unfold rfor_each_Inr_iff, intro ballI)
    fix k assume "k \<in> set [0..<length (zip_infos ms)]"
    then have k: "k < length ms" by (simp add: zip_infos_def)
    then have i: "zip_infos ms ! k = \<lparr>zi_filename = fst (ms ! k), zi_file_size = int (length (snd (ms ! k))), zi_content = Inr (snd (ms ! k))\<rparr>"
      by (simp add: zip_infos_def)
    have "fst (ms ! k) \<in> set ALLOWED_BACKUP_ARCHIVE_MEMBERS" using each [OF k] assms(5) by auto
    note o = ok [OF this]
    have "int (length (snd (ms ! k))) \<le> cfg_max_backup_restore_file_bytes cfg"
      using each [OF k] assms(2) by (auto simp: list_all_iff)
    then show "(let info = zip_infos ms ! k in all_ok
          [ensure (\<not> startswith (zi_filename info) ''/'' \<and> \<not> startswith (zi_filename info) [CHR 0x5C]
               \<and> ''..'' \<notin> set (split_on CHR ''/'' (zi_filename info)))
             (bad ''backup archive contains an invalid member path''),
           ensure (zi_file_size info \<le> cfg_max_backup_restore_file_bytes cfg)
             (bad (''backup archive member '' @ [CHR 0x27] @ zi_filename info @ [CHR 0x27] @ '' exceeds the allowed size'')),
           ensure (sum_list (map zi_file_size (take (Suc k) (zip_infos ms))) \<le> cfg_max_backup_restore_total_uncompressed_bytes cfg)
             (bad ''backup archive is too large after decompression'')]) = Inr ()"
      using o sum [of "Suc k"] unfolding i Let_def by simp
  qed
  then show ?thesis
    using assms(1,4,5) unfolding validate_backup_archive_members_def files names Let_def
    by (simp add: names_ok_def missing_names_Nil zip_infos_def)
qed

subsection \<open>The envelope of a passphrase\<close>

abbreviation ascii :: "string \<Rightarrow> bool" where
  "ascii s \<equiv> list_all (\<lambda>c. code_of c < 128) s"

lemma ascii_hex_char: "d < 16 \<Longrightarrow> code_of (hex_char d) < 128"
  by (simp add: code_of_hex_char)

lemma ascii_escape: "ascii (escape_char c)"
proof -
  have "code_of c < 256" by (rule code_of_lt)
  then have "code_of c div 16 < 16" "code_of c mod 16 < 16" by auto
  with ascii_hex_char have h: "code_of (hex_char (code_of c div 16)) < 128" "code_of (hex_char (code_of c mod 16)) < 128" by blast+
  show ?thesis using h unfolding escape_char_def Let_def by (auto simp: code_of_def)
qed

lemma ascii_concat: "(\<And>x. x \<in> set xs \<Longrightarrow> ascii x) \<Longrightarrow> ascii (concat xs)"
  by (induction xs) auto

lemma ascii_join: "ascii d \<Longrightarrow> (\<And>x. x \<in> set xs \<Longrightarrow> ascii x) \<Longrightarrow> ascii (join d xs)"
  by (induction d xs rule: join.induct) auto

lemma ascii_dump_str: "ascii (dump_str s)"
proof -
  have "ascii (concat (map escape_char s))" by (rule ascii_concat) (auto simp: ascii_escape simp del: list_all_iff)
  then show ?thesis by (simp add: dump_str_def code_of_def)
qed

lemma ascii_line_indent: "ascii (line_indent k)"
  by (simp add: line_indent_def list_all_iff code_of_def)

lemma dumps_indent_flat:
  assumes "sorted (map fst kvs)" and "kvs \<noteq> []" and "\<forall>kv\<in>set kvs. ascii (dumps_indent 1 (snd kv))"
  shows "ascii (dumps_indent 0 (JObj kvs))"
    "kv \<in> set kvs \<Longrightarrow> length (dumps_indent 1 (snd kv)) \<le> length (dumps_indent 0 (JObj kvs))"
proof -
  have i: "ascii (indent_pair 1 kv)" if "kv \<in> set kvs" for kv
    using assms(3) that ascii_dump_str by (simp add: indent_pair_def code_of_def del: list_all_iff)
  have "ascii ('','' @ line_indent 1)" using ascii_line_indent [of 1] by (simp add: code_of_def)
  then have j: "ascii (join ('','' @ line_indent 1) (map (indent_pair 1) kvs))"
    by (rule ascii_join) (use i in auto)
  show "ascii (dumps_indent 0 (JObj kvs))"
    using j ascii_line_indent [of 1] ascii_line_indent [of 0]
    unfolding dumps_indent_obj [OF assms(1,2)] One_nat_def [symmetric] by (simp add: code_of_def)
  have l: "length x \<le> length (join d xs)" if "x \<in> set xs" for x d and xs :: "string list"
    using that by (induction d xs rule: join.induct) auto
  assume "kv \<in> set kvs"
  then have "length (indent_pair 1 kv) \<le> length (join ('','' @ line_indent 1) (map (indent_pair 1) kvs))"
    by (intro l) simp
  then show "length (dumps_indent 1 (snd kv)) \<le> length (dumps_indent 0 (JObj kvs))"
    unfolding dumps_indent_obj [OF assms(1,2)] One_nat_def [symmetric] by (simp add: indent_pair_def)
qed

definition envelope_of :: "string \<Rightarrow> string \<Rightarrow> (string \<times> json) list" where
  "envelope_of salt token = [(''ciphertext'', JStr token), (''format'', JStr ENCRYPTED_BACKUP_FORMAT),
     (''iterations'', JInt 390000), (''salt'', JStr (b64encode salt))]"

lemma envelope_sorted:
  "sort_keys (JObj [(''format'', JStr ENCRYPTED_BACKUP_FORMAT), (''salt'', JStr (b64encode salt)),
     (''iterations'', JInt 390000), (''ciphertext'', JStr token)]) = JObj (envelope_of salt token)"
  by (simp add: envelope_of_def less_char_def of_char_def)

lemma envelope_keys_sorted: "sorted (map fst (envelope_of salt token))"
  by (simp add: envelope_of_def less_char_def of_char_def)

lemma ascii_int_str: "ascii (int_str i)"
proof -
  have "ascii (nat_str n)" for n
    using nat_str_digits [of n] by (auto simp: list_all_iff is_digit_def Let_def)
  then show ?thesis by (simp add: int_str_def code_of_def)
qed

lemma dump_str_length_ge: "length s \<le> length (dump_str s)"
proof -
  have "1 \<le> length (escape_char c)" for c by (simp add: escape_char_def Let_def)
  then have "length s \<le> length (concat (map escape_char s))"
  proof (induction s)
    case (Cons a s)
    then show ?case using \<open>\<And>c. 1 \<le> length (escape_char c)\<close> [of a] by (simp; linarith)
  qed simp
  then show ?thesis by (simp add: dump_str_def)
qed

lemma decrypt_encrypt:
  assumes laws: "archive_laws env" and salt: "length salt = 16" and pass: "nonempty (Some pass)"
    and size: "int (length (encrypt_backup_payload env salt nonce content pass)) \<le> cfg_max_backup_restore_bytes (be_cfg env)"
  shows "decrypt_backup_payload env (encrypt_backup_payload env salt nonce content pass) (Some pass) = Inr content"
proof -
  define token where "token = f_encrypt (be_fernet env) (derive_backup_key env pass salt 390000) nonce content"
  let ?j = "JObj [(''format'', JStr ENCRYPTED_BACKUP_FORMAT), (''salt'', JStr (b64encode salt)),
     (''iterations'', JInt 390000), (''ciphertext'', JStr token)]"
  have env_text: "encrypt_backup_payload env salt nonce content pass = dumps_indent 0 (JObj (envelope_of salt token))"
    unfolding encrypt_backup_payload_def Let_def token_def [symmetric] json_dumps_indent_def envelope_sorted [symmetric]
      dumps_indent_sort_keys ..
  have flat: "\<forall>kv\<in>set (envelope_of salt token). ascii (dumps_indent 1 (snd kv))"
    using ascii_dump_str ascii_int_str by (simp add: envelope_of_def)
  have ne: "envelope_of salt token \<noteq> []" by (simp add: envelope_of_def)
  note d = dumps_indent_flat [OF envelope_keys_sorted ne flat]
  have "length token \<le> length (dumps_indent 0 (JObj (envelope_of salt token)))"
    using d(2) [of "(''ciphertext'', JStr token)"] dump_str_length_ge [of token] by (simp add: envelope_of_def)
  then have len: "\<not> int (length token) > cfg_max_backup_restore_bytes (be_cfg env) * 2"
    using size unfolding env_text by linarith
  have "json_loads (be_float env) dict_hook (json_dumps_indent ?j) = Some (sort_keys ?j)"
    by (rule json_indent_roundtrip [OF dict_hook_distinct]) simp
  then have read: "json_loads (be_float env) dict_hook (dumps_indent 0 (JObj (envelope_of salt token))) = Some (JObj (envelope_of salt token))"
    unfolding json_dumps_indent_def envelope_sorted [symmetric] dumps_indent_sort_keys .
  have f: "field (envelope_of salt token) ''format'' = JStr ENCRYPTED_BACKUP_FORMAT"
    "field (envelope_of salt token) ''iterations'' = JInt 390000" "field (envelope_of salt token) ''salt'' = JStr (b64encode salt)"
    "field (envelope_of salt token) ''ciphertext'' = JStr token"
    "set (map fst (envelope_of salt token)) = {''format'', ''salt'', ''iterations'', ''ciphertext''}"
    by (auto simp: envelope_of_def field_def)
  have t: "f_decrypt (be_fernet env) (derive_backup_key env pass salt 390000) token = Some content" "ascii token"
    using laws by (auto simp: archive_laws_def token_def)
  show ?thesis
    using f t len salt pass d(1) unfolding env_text decrypt_backup_payload_def
    by (simp only: read if_True option.case json.case) (simp add: equals_int_def)
qed

lemma plain_zip_unchanged:
  assumes "startswith content ''PK''"
  shows "decrypt_backup_payload env content passphrase = Inr content"
proof -
  obtain s where s: "content = CHR ''P'' # s" using assms by (cases content) auto
  have d: "\<not> is_digit CHR ''P''" by (simp add: is_digit_def code_of_def)
  have "scan_number fl (CHR ''P'' # s) = None" for fl using d by (simp add: scan_number_def scan_digits_def)
  then have "scan_value fl hook (Suc n) (CHR ''P'' # s) = None" for fl hook n by (simp add: scan_word_def)
  then have "json_loads fl hook content = None" for fl hook
    by (simp add: json_loads_def s skip_ws_def code_of_def del: scan_value.simps)
  then show ?thesis by (simp add: decrypt_backup_payload_def)
qed

subsection \<open>Export and restore\<close>

text \<open>The laws of what the Hub calls: archives and Fernet, timestamps that are read back, a staging schema that can be created, and
  databases that accept what fits the columns.\<close>

definition backup_laws :: "backup_env \<Rightarrow> (string \<Rightarrow> bool) \<Rightarrow> bool" where
  "backup_laws env inet \<longleftrightarrow> archive_laws env \<and> (\<forall>t. be_iso env (be_iso_print env t) = Some t)
     \<and> be_create_all env = Inr ()
     \<and> (\<forall>c v. cell_fits inet c v \<longrightarrow> bd_accepts (be_database env) c v \<and> bd_accepts (be_staging env) c v)"

definition restorable_files :: "settings \<Rightarrow> hub_files \<Rightarrow> bool" where
  "restorable_files cfg files \<longleftrightarrow> validate_logo cfg (stored_logo (hf_branding files)) = Inr ()
     \<and> none_or (\<lambda>k. wg_key_re (strip k)) (hf_key files)"

definition kept_tables :: "hub_db \<Rightarrow> hub_db" where
  "kept_tables db = db\<lparr>pending_mfa_logins := [], sessions := [], dashboard_filters := [], attention_acks := [],
     proxy_sessions := []\<rparr>"

lemma export_Inr:
  assumes "export_backup_bundle env now salt nonce files db passphrase = Inr (bundle, name, media)"
  defines "members \<equiv> member_list env now files db" and "cfg \<equiv> be_cfg env"
  shows "export_members env now files db = Inr members"
    "int (length members) \<le> cfg_max_backup_restore_entries cfg"
    "list_all (\<lambda>m. int (length (snd m)) \<le> cfg_max_backup_restore_file_bytes cfg) members"
    "sum_list (map (\<lambda>m. int (length (snd m))) members) \<le> cfg_max_backup_restore_total_uncompressed_bytes cfg"
    "int (length bundle) \<le> cfg_max_backup_restore_bytes cfg"
    "case clean_optional passphrase of None \<Rightarrow> bundle = be_zip env members
       | Some p \<Rightarrow> bundle = encrypt_backup_payload env salt nonce (be_zip env members) p"
proof -
  obtain ms where m: "export_members env now files db = Inr ms"
    using assms(1) by (auto simp: export_backup_bundle_def Let_def rbind_Inr_iff split: if_splits)
  have ms: "ms = members" unfolding members_def by (rule export_members_Inr(1) [OF m])
  show "export_members env now files db = Inr members" using m ms by simp
  show "int (length members) \<le> cfg_max_backup_restore_entries cfg"
    "list_all (\<lambda>m. int (length (snd m)) \<le> cfg_max_backup_restore_file_bytes cfg) members"
    "sum_list (map (\<lambda>m. int (length (snd m))) members) \<le> cfg_max_backup_restore_total_uncompressed_bytes cfg"
    "int (length bundle) \<le> cfg_max_backup_restore_bytes cfg"
    using assms(1) unfolding export_backup_bundle_def Let_def m ms cfg_def
    by (auto simp: rbind_Inr_iff split: if_splits)
  have c: "clean_optional passphrase = (if or_empty passphrase \<noteq> [] \<and> strip (or_empty passphrase) \<noteq> []
      then Some (strip (or_empty passphrase)) else None)"
    by (cases passphrase) (auto simp: clean_optional_def or_empty_def Let_def strip_def lstrip_def rstrip_def)
  show "case clean_optional passphrase of None \<Rightarrow> bundle = be_zip env members
       | Some p \<Rightarrow> bundle = encrypt_backup_payload env salt nonce (be_zip env members) p"
    using assms(1) unfolding export_backup_bundle_def Let_def m ms c
    by (auto simp: rbind_Inr_iff split: if_splits)
qed

lemma decrypted_export:
  assumes "archive_laws env" "length salt = 16"
    and "export_backup_bundle env now salt nonce files db passphrase = Inr (bundle, name, media)"
  shows "decrypt_backup_payload env bundle (clean_optional passphrase) = Inr (be_zip env (member_list env now files db))"
proof (cases "clean_optional passphrase")
  case None
  have "startswith (be_zip env (member_list env now files db)) ''PK''"
    using assms(1) by (auto simp: archive_laws_def member_list_def)
  then show ?thesis using export_Inr(6) [OF assms(3)] plain_zip_unchanged by (simp add: None)
next
  case (Some p)
  have "p \<noteq> []" using Some by (rule clean_optional_nonempty)
  then have "nonempty (Some p)" by simp
  then show ?thesis
    using export_Inr(5,6) [OF assms(3)] decrypt_encrypt [OF assms(1,2)] by (simp add: Some)
qed

text \<open>Parsing an export comes down to the validation of its data.\<close>

lemma parse_export:
  assumes laws: "archive_laws env" and fit: "rows_fit inet db" and salt: "length salt = 16"
    and export: "export_backup_bundle env now salt nonce files db passphrase = Inr (bundle, name, media)"
  shows "\<exists>manifest. parse_backup_bundle env bundle (clean_optional passphrase) =
     rbind (validate_backup_data env (sorted_data env db) (stored_logo (hf_branding files)) (hf_key files)) (\<lambda>data'.
       Inr \<lparr>pb_manifest = manifest, pb_data = data', pb_logo = stored_logo (hf_branding files), pb_key = hf_key files\<rparr>)"
proof -
  let ?ms = "member_list env now files db"
  note e = export_Inr [OF export]
  have logo: "\<And>n c. stored_logo (hf_branding files) = Some (n, c) \<Longrightarrow> n \<in> {''logo.png'', ''logo.jpg'', ''logo.webp''}"
    by (rule export_members_Inr(2) [OF e(1)])
  have n: "distinct (map fst ?ms)" "set (map fst ?ms) \<subseteq> set ALLOWED_BACKUP_ARCHIVE_MEMBERS"
    "archive_logo (zip_infos ?ms) = Inr (stored_logo (hf_branding files))" "archive_key (zip_infos ?ms) = Inr (hf_key files)"
    by (rule member_list_names; erule logo)+
  obtain manifest tables where m:
      "json_loads (be_float env) dict_hook (json_dumps_indent (build_backup_manifest env now files (table_counts env db)))
        = Some (JObj manifest)"
      "field manifest ''format_version'' = JInt 2" "map_of manifest ''tables'' = Some (JObj tables)"
      "set (map fst tables) = set BACKUP_TABLE_NAMES"
      "\<forall>t\<in>set backup_table_models. field tables (fst t) = JInt (int (length (exported_rows env db t)))"
    by (rule manifest_read [of "be_float env" env now files db]) blast
  have unzip: "be_unzip env (be_zip env ?ms) = Some (zip_infos ?ms)" using laws n(1) by (simp add: archive_laws_def)
  have req: "{''manifest.json'', ''data.json''} \<subseteq> set (map fst ?ms)" by (simp add: member_list_def)
  note valid = archive_members_valid [OF e(2-4) req n(2)]
  have ins: "(''manifest.json'', json_dumps_indent (build_backup_manifest env now files (table_counts env db))) \<in> set ?ms"
    "(''data.json'', json_dumps_indent (JObj (exported_data env db))) \<in> set ?ms"
    by (simp_all add: member_list_def)
  have z: "zip_member (zip_infos ?ms) ''manifest.json'' = Inr (json_dumps_indent (build_backup_manifest env now files (table_counts env db)))"
    "zip_member (zip_infos ?ms) ''data.json'' = Inr (json_dumps_indent (JObj (exported_data env db)))"
    using zip_member_in [OF n(1) ins(1)] zip_member_in [OF n(1) ins(2)] .
  have j: "archive_json env (zip_infos ?ms) ''manifest.json'' = Inr (JObj manifest)"
    "archive_json env (zip_infos ?ms) ''data.json'' = Inr (JObj (sorted_data env db))"
    unfolding archive_json_def z by (simp_all add: m(1) data_text_read [OF fit])
  have t: "validate_backup_tables_present (sorted_data env db) = Inr ()"
    using sorted_data_represents [OF fit, of env]
    by (simp add: represents_def validate_backup_tables_present_def names_ok_def missing_names_Nil)
  have size: "\<not> int (length bundle) > cfg_max_backup_restore_bytes (be_cfg env)" using e(5) by simp
  have v: "equals_int (field manifest ''format_version'') BACKUP_FORMAT_VERSION"
    by (simp add: m(2) equals_int_def BACKUP_FORMAT_VERSION_def)
  show ?thesis
    unfolding parse_backup_bundle_def decrypted_export [OF laws salt export] rbind_simps unzip option.case valid j prod.case json.case
      t manifest_valid [OF m(3-5)] n(3,4)
    using size v by auto
qed

text \<open>A backup that the Hub exports, with or without a passphrase, is accepted by the Hub when the exported database is
  restorable (\<open>restorable\<close>: the conditions of the restore on the rows), and restoring it gives back every exported table exactly;
  sessions, pending sign-ins, proxy authorizations, filters and acknowledgements are gone. The logo and the key come back as they
  were stored.\<close>

theorem hub_backup_roundtrip:
  assumes "backup_laws env inet" "rows_fit inet db" "integrity db" "restorable env db" "restorable_files (be_cfg env) files"
    and "length salt = 16"
    and "export_backup_bundle env now salt nonce files db passphrase = Inr (bundle, name, media)"
  shows "\<exists>pb. parse_backup_bundle env bundle (clean_optional passphrase) = Inr pb
     \<and> pb_logo pb = stored_logo (hf_branding files) \<and> pb_key pb = hf_key files
     \<and> (\<forall>s. restore_backup_bundle env (pb_data pb) (pb_logo pb) (pb_key pb) s = (Inr (), s\<lparr>work := kept_tables db\<rparr>))"
proof -
  have laws: "archive_laws env" "\<And>t. be_iso env (be_iso_print env t) = Some t" "be_create_all env = Inr ()"
    "\<And>c v. cell_fits inet c v \<Longrightarrow> bd_accepts (be_database env) c v \<and> bd_accepts (be_staging env) c v"
    using assms(1) by (auto simp: backup_laws_def)
  have files: "validate_logo (be_cfg env) (stored_logo (hf_branding files)) = Inr ()" "none_or (\<lambda>k. wg_key_re (strip k)) (hf_key files)"
    using assms(5) by (simp_all add: restorable_files_def)
  obtain data' where d: "validate_backup_data env (sorted_data env db) (stored_logo (hf_branding files)) (hf_key files) = Inr data'"
      "represents (be_iso_print env) db data'"
    using backup_data_valid [OF sorted_data_represents [OF assms(2)] assms(2) laws(2) assms(3,4) files] by blast
  obtain manifest where p: "parse_backup_bundle env bundle (clean_optional passphrase) = Inr \<lparr>pb_manifest = manifest,
      pb_data = data', pb_logo = stored_logo (hf_branding files), pb_key = hf_key files\<rparr>"
    using parse_export [OF laws(1) assms(2,6,7)] d(1) by auto
  have "restore_backup_bundle env data' (stored_logo (hf_branding files)) (hf_key files) s = (Inr (), s\<lparr>work := kept_tables db\<rparr>)" for s
    using restore_represented [OF d(2) assms(2) laws(2,4,3) assms(3,4) files]
    unfolding load_database_rows kept_tables_def [symmetric] .
  with p show ?thesis by simp
qed

subsection \<open>Exports that cannot be restored\<close>

lemma audit_row_refused:
  assumes "represents_row ps audit_log_columns row (audit_log_row a)" and "al_user_agent a = Some ua" "500 < length ua"
  shows "validate_audit_row user_ids company_ids device_ids row \<noteq> Inr ()"
  using assms(2,3) unfolding validate_audit_row_def audit_log_fields [OF assms(1)]
  by (simp add: all_ok_iff text_json_def ensure_string_max_length_def del: all_ok_simps)

lemma device_row_refused:
  assumes "represents_row ps device_columns row (device_row d)" and "720 < dev_backup_interval_hours d"
  shows "validate_device_row cfg company_ids seen row \<noteq> Inr seen'"
proof -
  have "validate_device_limits row \<noteq> Inr ()"
    using assms(2) unfolding validate_device_limits_def get_or_def Let_def device_fields [OF assms(1)]
    by (simp add: all_ok_iff int_between_def py_int_int_str del: all_ok_simps)
  then show ?thesis by (auto simp: validate_device_row_def rbind_Inr_iff all_ok_iff simp del: all_ok_simps)
qed

lemma device_rows_refused:
  "row \<in> set rows \<Longrightarrow> (\<And>seen seen'. validate_device_row cfg company_ids seen row \<noteq> Inr seen') \<Longrightarrow>
    validate_device_rows cfg company_ids seen rows \<noteq> Inr ()"
  by (induction rows arbitrary: seen) (auto simp: rbind_Inr_iff)

lemma represented_row_of:
  "table_represented ps data n cols f xs \<Longrightarrow> x \<in> set xs \<Longrightarrow> \<exists>row\<in>set (rows_in data n). represents_row ps cols row (f x)"
  unfolding table_represented_def by (metis in_set_conv_nth list_all2_conv_all_nth)

lemma unrestorable_refused:
  assumes rep: "represents ps db data"
    and bad: "(\<exists>d\<in>set (devices db). 720 < dev_backup_interval_hours d)
       \<or> (\<exists>a\<in>set (audit_logs db). \<exists>ua. al_user_agent a = Some ua \<and> 500 < length ua)"
  shows "validate_backup_data env data logo_file wg_private \<noteq> Inr data'"
proof
  assume v: "validate_backup_data env data logo_file wg_private = Inr data'"
  from bad show False
  proof
    assume "\<exists>d\<in>set (devices db). 720 < dev_backup_interval_hours d"
    then obtain d where d: "d \<in> set (devices db)" "720 < dev_backup_interval_hours d" by blast
    obtain row where "row \<in> set (rows_in data ''devices'')" "represents_row ps device_columns row (device_row d)"
      using represented_row_of [OF represents_tables(6) [OF rep] d(1)] by blast
    then have "validate_device_rows (be_cfg env) ids [] (rows_in data ''devices'') \<noteq> Inr ()" for ids
      using device_row_refused d(2) by (intro device_rows_refused) auto
    with v show False by (auto simp: validate_backup_data_def rbind_Inr_iff)
  next
    assume "\<exists>a\<in>set (audit_logs db). \<exists>ua. al_user_agent a = Some ua \<and> 500 < length ua"
    then obtain a ua where a: "a \<in> set (audit_logs db)" "al_user_agent a = Some ua" "500 < length ua" by blast
    obtain row where "row \<in> set (rows_in data ''audit_logs'')" "represents_row ps audit_log_columns row (audit_log_row a)"
      using represented_row_of [OF represents_tables(9) [OF rep] a(1)] by blast
    then have "rfor_each (validate_audit_row us cs ds) (rows_in data ''audit_logs'') \<noteq> Inr ()" for us cs ds
      using audit_row_refused a(2,3) unfolding rfor_each_Inr_iff by blast
    with v show False by (auto simp: validate_backup_data_def rbind_Inr_iff)
  qed
qed

end
