(* ===== verification/Backup_Limits.thy ===== *)
theory Backup_Limits
  imports Backup_Archive Device_Api
begin

text \<open>
  Rows that the Hub itself writes and its restore refuses; and an example of an archive, with the laws of the
  components it needs proved for simple stand-ins.
\<close>

lemma settings_row_hours:
  assumes "backup_settings_row t enabled retention value unit d0 = Inr d"
  shows "dev_backup_interval_hours d = max 1 (backup_interval_delta d div 3600000000)"
proof -
  note row = assms [unfolded backup_settings_row_def rbind_Inr_iff Let_def sum.inject]
  have m: "dev_backup_interval_hours (snd (mark_device_backup_requested t x)) = dev_backup_interval_hours x"
    "dev_backup_interval_value (snd (mark_device_backup_requested t x)) = dev_backup_interval_value x"
    "dev_backup_interval_unit (snd (mark_device_backup_requested t x)) = dev_backup_interval_unit x" for x
    by (simp_all add: mark_device_backup_requested_def)
  have c: "backup_interval_delta x = backup_interval_delta y"
    if "dev_backup_interval_value x = dev_backup_interval_value y" "dev_backup_interval_unit x = dev_backup_interval_unit y" for x y
    using that by (simp add: backup_interval_delta_def)
  from row show ?thesis
    by (elim exE conjE, elim subst)
      (auto simp: m intro!: arg_cong [where f = "\<lambda>x. max 1 (x div 3600000000)"] c)
qed

text \<open>C28. An export cannot be restored, although the Hub made it from what it stored itself: if the form of the backup settings
  accepted an interval of more than 720 hours (31 days, two months), or if the audit log recorded a request with a User-Agent of more
  than 500 characters, the restore refuses the whole archive.\<close>

theorem export_not_restorable:
  assumes "archive_laws env" "rows_fit inet db" "length salt = 16"
    and "export_backup_bundle env now salt nonce files db passphrase = Inr (bundle, name, media)"
    and "(\<exists>d0 d. backup_settings_row t enabled retention value unit d0 = Inr d
            \<and> 720 < backup_interval_delta d div 3600000000 \<and> d \<in> set (devices db))
       \<or> (\<exists>rq s s'. write_audit (be_cfg env) t (Some rq) ''auth.login'' u c i s = (True, s')
            \<and> 500 < length (the (rq_headers rq ''user-agent'')) \<and> rq_headers rq ''user-agent'' \<noteq> None
            \<and> set (audit_logs (work s')) \<subseteq> set (audit_logs db))"
  shows "\<exists>e. parse_backup_bundle env bundle (clean_optional passphrase) = Inl e"
proof -
  have bad: "(\<exists>d\<in>set (devices db). 720 < dev_backup_interval_hours d)
       \<or> (\<exists>a\<in>set (audit_logs db). \<exists>ua. al_user_agent a = Some ua \<and> 500 < length ua)"
    using assms(5)
  proof
    assume "\<exists>d0 d. backup_settings_row t enabled retention value unit d0 = Inr d
        \<and> 720 < backup_interval_delta d div 3600000000 \<and> d \<in> set (devices db)"
    then obtain d0 d where d: "backup_settings_row t enabled retention value unit d0 = Inr d"
        "720 < backup_interval_delta d div 3600000000" "d \<in> set (devices db)" by blast
    have "720 < dev_backup_interval_hours d" using d(2) by (simp add: settings_row_hours [OF d(1)])
    with d(3) show ?thesis by blast
  next
    assume "\<exists>rq s s'. write_audit (be_cfg env) t (Some rq) ''auth.login'' u c i s = (True, s')
        \<and> 500 < length (the (rq_headers rq ''user-agent'')) \<and> rq_headers rq ''user-agent'' \<noteq> None
        \<and> set (audit_logs (work s')) \<subseteq> set (audit_logs db)"
    then obtain rq s s' ua where w: "write_audit (be_cfg env) t (Some rq) ''auth.login'' u c i s = (True, s')"
        "rq_headers rq ''user-agent'' = Some ua" "500 < length ua" "set (audit_logs (work s')) \<subseteq> set (audit_logs db)" by auto
    from w(1,2) have "\<exists>a\<in>set (audit_logs (work s')). al_user_agent a = Some ua"
      by (auto simp: write_audit_def fresh_uuid_def split: if_splits)
    with w(3,4) show ?thesis by blast
  qed
  obtain manifest where p: "parse_backup_bundle env bundle (clean_optional passphrase) =
     rbind (validate_backup_data env (sorted_data env db) (stored_logo (hf_branding files)) (hf_key files)) (\<lambda>data'.
       Inr \<lparr>pb_manifest = manifest, pb_data = data', pb_logo = stored_logo (hf_branding files), pb_key = hf_key files\<rparr>)"
    using parse_export [OF assms(1-4)] by blast
  show ?thesis
  proof (cases "validate_backup_data env (sorted_data env db) (stored_logo (hf_branding files)) (hf_key files)")
    case (Inr data')
    then show ?thesis using unrestorable_refused [OF sorted_data_represents [OF assms(2)] bad] by blast
  qed (simp add: p)
qed

subsection \<open>An example\<close>

definition example_zip :: "(string \<times> string) list \<Rightarrow> string" where
  "example_zip ms = ''PK'' @ json_dumps_indent (JList (map (\<lambda>m. JList [JStr (fst m), JStr (snd m)]) ms))"

fun example_member :: "json \<Rightarrow> zip_info" where
  "example_member (JList [JStr n, JStr c]) = \<lparr>zi_filename = n, zi_file_size = int (length c), zi_content = Inr c\<rparr>"
| "example_member _ = \<lparr>zi_filename = [], zi_file_size = 0, zi_content = Inl KeyError\<rparr>"

definition example_unzip :: "string \<Rightarrow> zip_info list option" where
  "example_unzip s =
     (case json_loads (\<lambda>_. JNull) dict_hook (drop 2 s) of Some (JList vs) \<Rightarrow> Some (map example_member vs) | _ \<Rightarrow> None)"

definition example_backup_env :: "settings \<Rightarrow> backup_env" where
  "example_backup_env cfg = \<lparr>be_cfg = cfg, be_iso = py_int, be_iso_print = int_str, be_aware = (\<lambda>_. Some True),
     be_float = (\<lambda>_. JNull), be_kdf = (\<lambda>p s n. p),
     be_fernet = \<lparr>f_sha256 = id, f_encrypt = (\<lambda>k n m. b64encode m), f_decrypt = (\<lambda>k t. b64decode_strict t)\<rparr>,
     be_zip = example_zip, be_unzip = example_unzip,
     be_database = \<lparr>bd_accepts = (\<lambda>_ _. True), bd_adapt = (\<lambda>_. None)\<rparr>,
     be_staging = \<lparr>bd_accepts = (\<lambda>_ _. True), bd_adapt = (\<lambda>_. None)\<rparr>, be_create_all = Inr ()\<rparr>"

lemma example_zip_law: "example_unzip (example_zip ms) = Some (zip_infos ms)"
proof -
  let ?j = "JList (map (\<lambda>m. JList [JStr (fst m), JStr (snd m)]) ms)"
  have "json_loads (\<lambda>_. JNull) dict_hook (json_dumps_indent ?j) = Some (sort_keys ?j)"
    by (rule json_indent_roundtrip [OF dict_hook_distinct]) auto
  moreover have "sort_keys ?j = ?j" by (simp add: comp_def)
  ultimately show ?thesis by (simp add: example_unzip_def example_zip_def zip_infos_def comp_def del: sort_keys.simps)
qed

lemma ascii_b64encode: "ascii (b64encode s)"
proof (rule b64encode_shape [of s])
  fix body pads
  assume s: "b64encode s = body @ replicate pads CHR ''=''" "\<forall>c\<in>set body. b64_val c \<noteq> None"
  have "code_of c < 128" if "b64_val c \<noteq> None" for c
    using that by (auto simp: b64_val_def Let_def split: if_splits)
  then show ?thesis using s by (auto simp: list_all_iff code_of_def)
qed

lemma example_laws: "archive_laws (example_backup_env cfg)" "backup_laws (example_backup_env cfg) (\<lambda>_. True)"
  using ascii_b64encode example_zip_law
  by (simp_all add: backup_laws_def archive_laws_def example_backup_env_def example_zip_def py_int_int_str)

definition example_user :: user where
  "example_user = \<lparr>usr_id = 1, usr_email = ''a@b.c'', usr_password_hash = ''h'', usr_first_name = None, usr_last_name = Some ''n'',
     usr_auth_provider = None, usr_role = ''administrator'', usr_mfa_enabled = False, usr_mfa_secret = None, usr_created_at = 0\<rparr>"

definition example_backup_device :: device where
  "example_backup_device = (default_device 3 0)\<lparr>dev_company_id := 2, dev_hostname := ''fw'',
     dev_wg_public_key := replicate 43 CHR ''A'' @ ''='', dev_wg_tunnel_ip := ''100.96.0.2'', dev_device_token_hash := ''t''\<rparr>"

definition example_hub :: hub_db where
  "example_hub = empty_db\<lparr>users := [example_user], integration_rows := [default_integration 0],
     companies := [\<lparr>com_id = 2, com_name = ''c'', com_created_at = 0\<rparr>],
     company_users := [\<lparr>cu_company_id = 2, cu_user_id = 1, cu_role = ''owner'', cu_created_at = 0\<rparr>],
     devices := [example_backup_device]\<rparr>"

definition example_hub_files :: hub_files where
  "example_hub_files = \<lparr>hf_branding = None, hf_key = Some (replicate 43 CHR ''B'' @ ''=''), hf_temps = [], hf_next = 0\<rparr>"

text \<open>Limits that are large enough for the example.\<close>

definition example_limit :: "hub_db \<Rightarrow> int" where
  "example_limit db =
     (let ms = member_list (example_backup_env default_settings) 0 example_hub_files db;
          z = example_zip ms in
      sum_list (map (\<lambda>m. int (length (snd m))) ms) + int (length z)
        + int (length (encrypt_backup_payload (example_backup_env default_settings) (replicate 16 CHR ''s'') 0 z ''pw'')))"

definition example_limits :: "hub_db \<Rightarrow> settings" where
  "example_limits db = default_settings\<lparr>cfg_max_backup_restore_bytes := example_limit db,
     cfg_max_backup_restore_total_uncompressed_bytes := example_limit db,
     cfg_max_backup_restore_file_bytes := example_limit db\<rparr>"

lemma example_members:
  "member_list (example_backup_env (example_limits db)) 0 example_hub_files db
     = member_list (example_backup_env default_settings) 0 example_hub_files db"
proof -
  have m: "build_backup_manifest (example_backup_env (example_limits db)) = build_backup_manifest (example_backup_env default_settings)"
    by (intro ext) (simp add: build_backup_manifest_def example_backup_env_def example_limits_def)
  have e: "exported_rows (example_backup_env (example_limits db)) = exported_rows (example_backup_env default_settings)"
    by (intro ext) (simp add: exported_rows_def example_backup_env_def)
  show ?thesis by (simp add: member_list_def m table_counts_def exported_data_def e)
qed

lemma member_sum:
  "m \<in> set ms \<Longrightarrow> int (length (snd m)) \<le> sum_list (map (\<lambda>m. int (length (snd m))) ms)"
  "0 \<le> sum_list (map (\<lambda>m. int (length (snd m))) (ms :: (string \<times> string) list))"
proof -
  show n: "0 \<le> sum_list (map (\<lambda>m. int (length (snd m))) (ms :: (string \<times> string) list))" for ms
    by (rule sum_list_nonneg) auto
  show "m \<in> set ms \<Longrightarrow> int (length (snd m)) \<le> sum_list (map (\<lambda>m. int (length (snd m))) ms)"
    using n by (induction ms) (auto simp: add_increasing add_increasing2)
qed

lemma example_export:
  assumes "device_backups db = []"
  shows "\<exists>bundle. export_backup_bundle (example_backup_env (example_limits db)) 0 (replicate 16 CHR ''s'') 0 example_hub_files db
     (Some ''pw'') = Inr (bundle, ''opnsense-hub-backup-'' @ export_stamp 0 @ ''.opnhub'', ''application/octet-stream'')"
proof -
  let ?env = "example_backup_env (example_limits db)" and ?ms = "member_list (example_backup_env default_settings) 0 example_hub_files db"
  let ?L = "example_limit db"
  have m: "export_members ?env 0 example_hub_files db = Inr ?ms"
    unfolding example_members [symmetric]
    by (simp add: export_members_def member_list_def logo_member_def stored_logo_def uploaded_logo_path_def
        example_hub_files_def table_counts_def)
  have enc: "encrypt_backup_payload ?env s n z p = encrypt_backup_payload (example_backup_env default_settings) s n z p" for s n z p
    by (simp add: encrypt_backup_payload_def derive_backup_key_def example_backup_env_def)
  have zip: "be_zip ?env = example_zip" by (simp add: example_backup_env_def)
  have l: "sum_list (map (\<lambda>m. int (length (snd m))) ?ms) \<le> ?L" "int (length (example_zip ?ms)) \<le> ?L" "0 \<le> ?L"
    "int (length (encrypt_backup_payload (example_backup_env default_settings) (replicate 16 CHR ''s'') 0 (example_zip ?ms) ''pw'')) \<le> ?L"
    using member_sum(2) [of ?ms] by (simp_all add: example_limit_def Let_def)
  have each: "list_all (\<lambda>m. int (length (snd m)) \<le> ?L) ?ms"
    using member_sum(1) [of _ ?ms] l(1) by (auto simp: list_all_iff intro: order_trans)
  have len: "int (length ?ms) \<le> 16" by (simp add: member_list_def stored_logo_def uploaded_logo_path_def example_hub_files_def)
  have c: "be_cfg ?env = example_limits db" by (simp add: example_backup_env_def)
  have f: "cfg_max_backup_restore_bytes (example_limits db) = ?L" "cfg_max_backup_restore_file_bytes (example_limits db) = ?L"
    "cfg_max_backup_restore_total_uncompressed_bytes (example_limits db) = ?L"
    "cfg_max_backup_restore_entries (example_limits db) = 16"
    by (simp_all add: example_limits_def default_settings_def)
  have p: "or_empty (Some ''pw'') \<noteq> [] \<and> strip (or_empty (Some ''pw'')) \<noteq> []" "strip (or_empty (Some ''pw'')) = ''pw''"
    by code_simp+
  show ?thesis
    unfolding export_backup_bundle_def Let_def c f m rbind_simps zip enc p(2) assms
    using l each len p(1) by simp
qed


lemma example_integrity: "integrity example_hub"
  by (simp add: integrity_def unique_keys_def foreign_keys_def example_hub_def empty_db_def example_user_def
      example_backup_device_def default_device_def refers_def)

lemma example_device_restorable: "restorable_device (example_limits db) example_backup_device"
proof -
  let ?vc = "\<lparr>vc_network = \<lparr>n4_addr = 1684013056, n4_prefix = 16\<rparr>, vc_hub_ip = 1684013057, vc_hub_prefix = 16\<rparr>"
  have c: "cfg_hub_wg_cidr (example_limits db) = ''100.96.0.0/16''" "cfg_hub_wg_address (example_limits db) = ''100.96.0.1/16''"
    "cfg_allow_broad_wg_cidr (example_limits db) = False"
    by (simp_all add: example_limits_def default_settings_def)
  have "get_validated_hub_wireguard_config (example_limits db) = Inr ?vc"
    unfolding get_validated_hub_wireguard_config_def c
    by (simp add: validate_hub_wireguard_config_def ip_network_def
        ip_interface_def parse_addr_prefix4_def parse_ipv4_def parse_octet_def ipv4_of_octets_def
        make_prefix4_def prefix_of_string_def mk_net4_def in_net4_def netmask4_def broadcast4_def str_eval mask_eq_exp_minus_1)
  moreover have "strip ''100.96.0.2'' = ''100.96.0.2''" by code_simp
  moreover have "ip_address ''100.96.0.2'' = Some (V4 1684013058)"
    by (simp add: str_eval mask_eq_exp_minus_1 ip_address_def parse_ipv4_def parse_octet_def ipv4_of_octets_def)
  moreover have "usable_host ?vc 1684013058"
    by (simp add: usable_host_def in_net4_def netmask4_def broadcast4_def mask_eq_exp_minus_1)
  ultimately have "restorable_tunnel (example_limits db) example_backup_device"
    by (simp add: restorable_tunnel_def example_backup_device_def default_device_def)
  moreover have "wg_key_re (strip (replicate 43 CHR ''A'' @ ''=''))" by code_simp
  moreover have "norm_in ''pending'' ALLOWED_DEVICE_STATUSES \<and> norm_in ''unknown'' ALLOWED_FIRMWARE_STATUSES
      \<and> norm_in ''hours'' [''hours'', ''days'', ''months'']" by code_simp
  ultimately show ?thesis by (simp add: restorable_device_def example_backup_device_def default_device_def none_or_def)
qed

lemma example_restorable: "restorable (example_backup_env (example_limits example_hub)) example_hub"
proof -
  have "be_cfg (example_backup_env (example_limits example_hub)) = example_limits example_hub"
    by (simp add: example_backup_env_def)
  moreover have "norm_in ''administrator'' ALLOWED_USER_ROLES \<and> norm_in ''owner'' ALLOWED_COMPANY_USER_ROLES" by code_simp
  moreover have "restorable_device (example_limits example_hub) example_backup_device" by (rule example_device_restorable)
  ultimately show ?thesis
    unfolding restorable_def
    by (simp add: restorable_user_def example_user_def none_or_def default_integration_def example_hub_def empty_db_def)
qed

text \<open>The device after its owner chose a backup every two months.\<close>

definition two_month_device :: device where
  "two_month_device = example_backup_device\<lparr>dev_backup_retention_count := 3, dev_backup_interval_value := 2,
     dev_backup_interval_unit := ''months'', dev_backup_interval_hours := 1440\<rparr>"

lemmas example_rows =
  database_rows_def Backup_Rows.rows_of_def row_fits_def cell_fits_def opt_def col_def
  user_columns_def user_row_def integration_settings_columns_def integration_settings_row_def company_columns_def
  company_row_def company_user_columns_def company_user_row_def device_columns_def device_row_def
  example_user_def example_backup_device_def default_device_def default_integration_def example_hub_def empty_db_def

lemma example_fit: "rows_fit (\<lambda>_. True) example_hub"
  by (simp add: rows_fit_def backup_table_models_def example_rows)

lemma two_month_fit: "rows_fit (\<lambda>_. True) (example_hub\<lparr>devices := [two_month_device]\<rparr>)"
  by (simp add: rows_fit_def backup_table_models_def two_month_device_def example_rows)

lemma two_month_form: "backup_settings_row 0 None ''3'' ''2'' ''months'' example_backup_device = Inr two_month_device"
proof -
  have p: "parse_bounded_int ''3'' ''backup retention count'' 1 10 = Inr 3" "parse_bounded_int ''2'' ''backup interval value'' 1 999 = Inr 2"
    "parse_backup_interval_unit ''months'' = Inr ''months''" "lower ''months'' = ''months''"
    by code_simp+
  show ?thesis
    unfolding backup_settings_row_def p rbind_simps Let_def
    by (simp add: two_month_device_def example_backup_device_def default_device_def backup_interval_delta_def p(4) time_defs)
qed

lemma example_files: "restorable_files (example_limits example_hub) example_hub_files"
proof -
  have "wg_key_re (strip (replicate 43 CHR ''B'' @ ''=''))" by code_simp
  then show ?thesis
  by (simp add: restorable_files_def example_hub_files_def stored_logo_def uploaded_logo_path_def validate_logo_def none_or_def)
qed


theorem hub_backup_roundtrip_witness:
  "\<exists>bundle name media pb.
     export_backup_bundle (example_backup_env (example_limits example_hub)) 0 (replicate 16 CHR ''s'') 0 example_hub_files example_hub
       (Some ''pw'') = Inr (bundle, name, media)
   \<and> parse_backup_bundle (example_backup_env (example_limits example_hub)) bundle (clean_optional (Some ''pw'')) = Inr pb
   \<and> (\<forall>s. restore_backup_bundle (example_backup_env (example_limits example_hub)) (pb_data pb) (pb_logo pb) (pb_key pb) s
          = (Inr (), s\<lparr>work := kept_tables example_hub\<rparr>))"
proof -
  let ?env = "example_backup_env (example_limits example_hub)"
  have "device_backups example_hub = []" by (simp add: example_hub_def empty_db_def)
  then obtain blob where e: "export_backup_bundle ?env 0 (replicate 16 CHR ''s'') 0 example_hub_files example_hub (Some ''pw'')
      = Inr (blob, ''opnsense-hub-backup-'' @ export_stamp 0 @ ''.opnhub'', ''application/octet-stream'')"
    using example_export by blast
  have "restorable_files (be_cfg ?env) example_hub_files" using example_files by (simp add: example_backup_env_def)
  from hub_backup_roundtrip [OF example_laws(2) example_fit example_integrity example_restorable this _ e] e
  show ?thesis by (auto simp del: replicate.simps)
qed

theorem export_not_restorable_witness:
  "\<exists>bundle name media e.
     export_backup_bundle (example_backup_env (example_limits (example_hub\<lparr>devices := [two_month_device]\<rparr>))) 0
       (replicate 16 CHR ''s'') 0 example_hub_files (example_hub\<lparr>devices := [two_month_device]\<rparr>) (Some ''pw'') = Inr (bundle, name, media)
   \<and> parse_backup_bundle (example_backup_env (example_limits (example_hub\<lparr>devices := [two_month_device]\<rparr>))) bundle
       (clean_optional (Some ''pw'')) = Inl e"
proof -
  let ?db = "example_hub\<lparr>devices := [two_month_device]\<rparr>"
  let ?env = "example_backup_env (example_limits ?db)"
  have "device_backups ?db = []" by (simp add: example_hub_def empty_db_def)
  then obtain blob where e: "export_backup_bundle ?env 0 (replicate 16 CHR ''s'') 0 example_hub_files ?db (Some ''pw'')
      = Inr (blob, ''opnsense-hub-backup-'' @ export_stamp 0 @ ''.opnhub'', ''application/octet-stream'')"
    using example_export by blast
  have "lower ''months'' = ''months''" by code_simp
  then have "720 < backup_interval_delta two_month_device div 3600000000"
    by (simp add: backup_interval_delta_def two_month_device_def time_defs)
  with two_month_form have "\<exists>d0 d. backup_settings_row 0 None ''3'' ''2'' ''months'' d0 = Inr d
      \<and> 720 < backup_interval_delta d div 3600000000 \<and> d \<in> set (devices ?db)"
    by (intro exI conjI) auto
  then have "\<exists>err. parse_backup_bundle ?env blob (clean_optional (Some ''pw'')) = Inl err"
    by (intro export_not_restorable [OF example_laws(1) two_month_fit _ e] disjI1; assumption?) simp
  with e show ?thesis by blast
qed

end
