(* ===== verification/Log_Retention.thy ===== *)
theory Log_Retention
  imports Hardening Backup_Limits "HOL-Library.Multiset"
begin

text \<open>
  \<open>dashboard/app/services/log_retention.py\<close>: the retention of the audit log and of the device events, its
  sweep, and the archive of old rows. A sweep runs on a table given as a record (its rows, the
  identifier and the time of a row), with the answer of \<open>ORDER BY created_at\<close> as a parameter, since rows of one
  instant come in any order. The sweep is a loop that may not end, so its value is an option; \<open>retention_sweep\<close> shows
  that it ends. \<open>log_retention_loop\<close>, which sleeps and sweeps for ever, is not modelled.
\<close>

subsection \<open>Configuration and cut-offs\<close>

record log_retention_config =
  lr_enabled :: bool
  lr_run_on_startup :: bool
  lr_audit_log_retention_days :: int
  lr_device_event_retention_days :: int
  lr_sweep_interval_hours :: int
  lr_delete_batch_size :: int
  lr_audit_log_min_retention_days :: int
  lr_device_event_min_retention_days :: int

definition clamp :: "int \<Rightarrow> int \<Rightarrow> int \<Rightarrow> int" where
  "clamp value lo hi = max lo (min value hi)"

definition log_retention_config_of :: "settings \<Rightarrow> log_retention_config" where
  "log_retention_config_of st =
     (let production = is_production st in
      \<lparr>lr_enabled = cfg_log_retention_enabled st,
       lr_run_on_startup = cfg_log_retention_run_on_startup st,
       lr_audit_log_retention_days =
         (if production then cfg_audit_log_retention_days st
          else max (cfg_audit_log_retention_days st) (cfg_audit_log_min_retention_days st)),
       lr_device_event_retention_days =
         (if production then cfg_device_event_retention_days st
          else max (cfg_device_event_retention_days st) (cfg_device_event_min_retention_days st)),
       lr_sweep_interval_hours =
         (if production then cfg_log_retention_sweep_interval_hours st
          else clamp (cfg_log_retention_sweep_interval_hours st) 1 MAX_LOG_RETENTION_SWEEP_INTERVAL_HOURS),
       lr_delete_batch_size =
         (if production then cfg_log_retention_delete_batch_size st
          else clamp (cfg_log_retention_delete_batch_size st) 1 MAX_LOG_RETENTION_DELETE_BATCH_SIZE),
       lr_audit_log_min_retention_days = cfg_audit_log_min_retention_days st,
       lr_device_event_min_retention_days = cfg_device_event_min_retention_days st\<rparr>)"

text \<open>\<open>now - timedelta(days=n)\<close>: a \<open>timedelta\<close> has at most 999999999 days, and a \<open>datetime\<close> lies in the years 1 to 9999.\<close>

definition overflow :: exn where
  "overflow = ExternalError ''OverflowError''"

definition minus_days :: "instant \<Rightarrow> int \<Rightarrow> instant res" where
  "minus_days now n =
     (if \<bar>n\<bar> > 999999999 then Inl overflow
      else let t = now - days n in
        if - 62135596800000000 \<le> t \<and> t < 253402300800000000 then Inr t else Inl overflow)"

definition log_retention_cutoffs :: "instant \<Rightarrow> log_retention_config \<Rightarrow> (instant \<times> instant) res" where
  "log_retention_cutoffs now config =
     rbind (minus_days now (lr_audit_log_retention_days config)) (\<lambda>audit.
     rbind (minus_days now (lr_device_event_retention_days config)) (\<lambda>events. Inr (audit, events)))"

subsection \<open>The two tables\<close>

record 'r log_model =
  lm_rows :: "hub_db \<Rightarrow> 'r list"
  lm_put :: "'r list \<Rightarrow> hub_db \<Rightarrow> hub_db"
  lm_id :: "'r \<Rightarrow> uuid"
  lm_created :: "'r \<Rightarrow> instant"

definition audit_log_model :: "audit_log log_model" where
  "audit_log_model = \<lparr>lm_rows = audit_logs, lm_put = (\<lambda>rs db. db\<lparr>audit_logs := rs\<rparr>), lm_id = al_id, lm_created = al_created_at\<rparr>"

definition device_event_model :: "device_event log_model" where
  "device_event_model =
     \<lparr>lm_rows = device_events, lm_put = (\<lambda>rs db. db\<lparr>device_events := rs\<rparr>), lm_id = ev_id, lm_created = ev_created_at\<rparr>"

record table_retention_summary =
  ts_total_rows :: nat
  ts_oldest_row_at :: "instant option"
  ts_rows_older_than_cutoff :: nat
  ts_cutoff_at :: instant

definition table_retention_summary_of :: "'r log_model \<Rightarrow> hub_db \<Rightarrow> instant \<Rightarrow> table_retention_summary" where
  "table_retention_summary_of m db cutoff_at =
     (let times = map (lm_created m) (lm_rows m db) in
      \<lparr>ts_total_rows = length times,
       ts_oldest_row_at = (case times of [] \<Rightarrow> None | t # ts \<Rightarrow> Some (fold min ts t)),
       ts_rows_older_than_cutoff = length (filter (\<lambda>t. t < cutoff_at) times),
       ts_cutoff_at = cutoff_at\<rparr>)"

definition get_log_retention_summary ::
  "settings \<Rightarrow> instant \<Rightarrow> hub_db \<Rightarrow> (log_retention_config \<times> table_retention_summary \<times> table_retention_summary) res" where
  "get_log_retention_summary st now db =
     (let config = log_retention_config_of st in
      rbind (log_retention_cutoffs now config) (\<lambda>(audit, events).
        Inr (config, table_retention_summary_of audit_log_model db audit,
             table_retention_summary_of device_event_model db events)))"

subsection \<open>The sweep\<close>

definition older :: "'r log_model \<Rightarrow> instant \<Rightarrow> hub_db \<Rightarrow> 'r list" where
  "older m cutoff_at db = filter (\<lambda>r. lm_created m r < cutoff_at) (lm_rows m db)"

definition delete_ids :: "'r log_model \<Rightarrow> uuid list \<Rightarrow> hub_db \<Rightarrow> hub_db" where
  "delete_ids m ids db = lm_put m (filter (\<lambda>r. lm_id m r \<notin> set ids) (lm_rows m db)) db"

text \<open>\<open>order_by\<close> is what the database answers to \<open>ORDER BY created_at\<close>.\<close>

partial_function (option) delete_rows_in_batches ::
  "'r log_model \<Rightarrow> ('r list \<Rightarrow> 'r list) \<Rightarrow> instant \<Rightarrow> nat \<Rightarrow> nat \<Rightarrow> db_session \<Rightarrow> (nat \<times> db_session) option" where
  "delete_rows_in_batches m order_by cutoff_at batch_size deleted_rows s =
     (let ids = map (lm_id m) (take batch_size (order_by (older m cutoff_at (work s)))) in
      if ids = [] then Some (deleted_rows, s)
      else let s' = commit (s\<lparr>work := delete_ids m ids (work s)\<rparr>); deleted = deleted_rows + length ids in
        if length ids < batch_size then Some (deleted, s')
        else delete_rows_in_batches m order_by cutoff_at batch_size deleted s')"

record log_retention_result =
  rr_skipped :: bool
  rr_reason :: "string option"
  rr_audit_logs_deleted :: nat
  rr_device_events_deleted :: nat
  rr_audit_logs_cutoff_at :: instant
  rr_device_events_cutoff_at :: instant

text \<open>PostgreSQL refuses a negative \<open>LIMIT\<close>.\<close>

definition run_log_retention_once ::
  "settings \<Rightarrow> (audit_log list \<Rightarrow> audit_log list) \<Rightarrow> (device_event list \<Rightarrow> device_event list) \<Rightarrow> instant \<Rightarrow> db_session
     \<Rightarrow> (log_retention_result res \<times> db_session) option" where
  "run_log_retention_once st order_audit order_events now s =
     (let config = log_retention_config_of st; batch = lr_delete_batch_size config in
      case log_retention_cutoffs now config of
        Inl e \<Rightarrow> Some (Inl e, s)
      | Inr (audit_cutoff, event_cutoff) \<Rightarrow>
          if \<not> lr_enabled config then
            Some (Inr \<lparr>rr_skipped = True, rr_reason = Some ''disabled'', rr_audit_logs_deleted = 0, rr_device_events_deleted = 0,
                       rr_audit_logs_cutoff_at = audit_cutoff, rr_device_events_cutoff_at = event_cutoff\<rparr>, s)
          else if batch < 0 then Some (Inl (ExternalError ''DataError''), s)
          else
            (case delete_rows_in_batches device_event_model order_events event_cutoff (nat batch) 0 s of
               None \<Rightarrow> None
             | Some (events_deleted, s1) \<Rightarrow>
                 (case delete_rows_in_batches audit_log_model order_audit audit_cutoff (nat batch) 0 s1 of
                    None \<Rightarrow> None
                  | Some (audit_deleted, s2) \<Rightarrow>
                      Some (Inr \<lparr>rr_skipped = False, rr_reason = None, rr_audit_logs_deleted = audit_deleted,
                                 rr_device_events_deleted = events_deleted, rr_audit_logs_cutoff_at = audit_cutoff,
                                 rr_device_events_cutoff_at = event_cutoff\<rparr>, s2))))"

subsection \<open>Archives of old rows\<close>

record log_archive_selection =
  as_cutoff_at :: instant
  as_include_audit_logs :: bool
  as_include_device_events :: bool

text \<open>\<open>parse_local\<close> reads an ISO date or date-time, a naive one in the time zone of the application.\<close>

definition parse_log_archive_cutoff :: "(string \<Rightarrow> instant option) \<Rightarrow> string \<Rightarrow> instant res" where
  "parse_log_archive_cutoff parse_local v =
     (let raw_value = strip v in
      if raw_value = [] then Inl (HTTPException 400 ''archive cutoff timestamp is required'')
      else (case parse_local raw_value of
              None \<Rightarrow> Inl (HTTPException 400 ''archive cutoff timestamp must be a valid date or date-time'')
            | Some t \<Rightarrow> Inr t))"

definition create_log_archive_selection ::
  "(string \<Rightarrow> instant option) \<Rightarrow> string \<Rightarrow> bool \<Rightarrow> bool \<Rightarrow> log_archive_selection res" where
  "create_log_archive_selection parse_local cutoff_value include_audit_logs include_device_events =
     (if \<not> include_audit_logs \<and> \<not> include_device_events
      then Inl (HTTPException 400 ''select audit logs, device events, or both before exporting'')
      else rbind (parse_log_archive_cutoff parse_local cutoff_value) (\<lambda>cutoff_at.
        Inr \<lparr>as_cutoff_at = cutoff_at, as_include_audit_logs = include_audit_logs,
             as_include_device_events = include_device_events\<rparr>))"

text \<open>\<open>csv.DictWriter\<close>: a field with a comma, a quote or a line break is quoted, and its quotes are doubled; \<open>None\<close> is empty.\<close>

definition csv_special :: "char \<Rightarrow> bool" where
  "csv_special c \<longleftrightarrow> c \<in> {CHR '','', CHR 0x22, CHR 0x0D, CHR 0x0A}"

definition csv_quoted :: "string \<Rightarrow> string" where
  "csv_quoted s = CHR 0x22 # concat (map (\<lambda>c. if c = CHR 0x22 then [c, c] else [c]) s) @ [CHR 0x22]"

definition csv_field :: "string \<Rightarrow> string" where
  "csv_field s = (if list_ex csv_special s then csv_quoted s else s)"

definition csv_text :: "json \<Rightarrow> string" where
  "csv_text v = (if v = JNull then [] else py_str v)"

definition csv_line :: "string list \<Rightarrow> string" where
  "csv_line values = join '','' (map csv_field values) @ [CHR 0x0D, CHR 0x0A]"

definition csv_bytes :: "backup_row list \<Rightarrow> string" where
  "csv_bytes rows =
     (case rows of
        [] \<Rightarrow> []
      | first # _ \<Rightarrow>
          (let fieldnames = map fst first in
           csv_line fieldnames @ concat (map (\<lambda>row. csv_line (map (\<lambda>k. csv_text (field row k)) fieldnames)) rows)))"

definition archive_manifest :: "backup_env \<Rightarrow> instant \<Rightarrow> log_archive_selection \<Rightarrow> nat \<Rightarrow> nat \<Rightarrow> json" where
  "archive_manifest env now sel audit_log_count device_event_count =
     JObj [(''format_version'', JInt 1), (''created_at'', JStr (be_iso_print env now)),
       (''selected_cutoff_at'', JStr (be_iso_print env (as_cutoff_at sel))),
       (''included_tables'', JList ((if as_include_audit_logs sel then [JStr ''audit_logs''] else [])
          @ (if as_include_device_events sel then [JStr ''device_events''] else []))),
       (''row_counts'', JObj [(''audit_logs'', JInt (int audit_log_count)), (''device_events'', JInt (int device_event_count))]),
       (''app_name'', JStr (cfg_app_name (be_cfg env))), (''app_version'', JNull)]"

text \<open>The rows up to the cut-off, in the order of the database, when their table is selected.\<close>

definition archived_rows :: "'r log_model \<Rightarrow> ('r list \<Rightarrow> 'r list) \<Rightarrow> bool \<Rightarrow> instant \<Rightarrow> hub_db \<Rightarrow> 'r list" where
  "archived_rows m order_by selected cutoff_at db =
     (if selected then order_by (filter (\<lambda>r. lm_created m r \<le> cutoff_at) (lm_rows m db)) else [])"

definition log_archive_members ::
  "backup_env \<Rightarrow> (audit_log list \<Rightarrow> audit_log list) \<Rightarrow> (device_event list \<Rightarrow> device_event list) \<Rightarrow> instant \<Rightarrow> hub_db
     \<Rightarrow> log_archive_selection \<Rightarrow> json \<times> (string \<times> string) list" where
  "log_archive_members env order_audit order_events now db sel =
     (let audit = map (\<lambda>r. serialize_model_row (be_iso_print env) audit_log_columns (audit_log_row r))
            (archived_rows audit_log_model order_audit (as_include_audit_logs sel) (as_cutoff_at sel) db);
          events = map (\<lambda>r. serialize_model_row (be_iso_print env) device_event_columns (device_event_row r))
            (archived_rows device_event_model order_events (as_include_device_events sel) (as_cutoff_at sel) db);
          manifest = archive_manifest env now sel (length audit) (length events)
      in (manifest,
          [(''manifest.json'', json_dumps_indent manifest)]
          @ (if as_include_audit_logs sel then [(''audit_logs.csv'', csv_bytes audit)] else [])
          @ (if as_include_device_events sel then [(''device_events.csv'', csv_bytes events)] else [])))"

definition export_log_archive ::
  "backup_env \<Rightarrow> (audit_log list \<Rightarrow> audit_log list) \<Rightarrow> (device_event list \<Rightarrow> device_event list) \<Rightarrow> instant \<Rightarrow> string \<Rightarrow> nat \<Rightarrow> hub_db
     \<Rightarrow> log_archive_selection \<Rightarrow> string option \<Rightarrow> string \<times> string \<times> string \<times> json" where
  "export_log_archive env order_audit order_events now salt nonce db sel passphrase =
     (case log_archive_members env order_audit order_events now db sel of
        (manifest, members) \<Rightarrow>
          (let archive_name = ''opnsense-hub-log-archive-'' @ export_stamp now; raw_archive = be_zip env members in
           if or_empty passphrase \<noteq> [] \<and> strip (or_empty passphrase) \<noteq> [] then
             (encrypt_backup_payload env salt nonce raw_archive (strip (or_empty passphrase)),
              archive_name @ ''.opnhub'', ''application/octet-stream'', manifest)
           else (raw_archive, archive_name @ ''.zip'', ''application/zip'', manifest)))"

subsection \<open>A sweep ends and deletes what is too old\<close>

definition swept :: "'r log_model \<Rightarrow> instant \<Rightarrow> hub_db \<Rightarrow> hub_db" where
  "swept m cutoff db = lm_put m (filter (\<lambda>r. \<not> lm_created m r < cutoff) (lm_rows m db)) db"

text \<open>\<open>ORDER BY\<close> loses and invents no row.\<close>

definition reorders :: "('r list \<Rightarrow> 'r list) \<Rightarrow> bool" where
  "reorders order_by \<longleftrightarrow> (\<forall>rs. mset (order_by rs) = mset rs)"

locale log_table =
  fixes m :: "'r log_model"
  assumes rows_put: "lm_rows m (lm_put m rs db) = rs"
    and put_put: "lm_put m rs (lm_put m rs' db) = lm_put m rs db"
    and put_rows: "lm_put m (lm_rows m db) db = db"
begin

lemma taken_batch:
  assumes ord: "reorders order_by" and dist: "distinct (map (lm_id m) (lm_rows m db))"
    and ids: "ids = map (lm_id m) (take n (order_by (older m cutoff db)))"
  shows "length (older m cutoff (delete_ids m ids db)) = length (older m cutoff db) - n"
    "length ids = min n (length (older m cutoff db))"
    "filter (\<lambda>r. \<not> lm_created m r < cutoff) (lm_rows m (delete_ids m ids db))
      = filter (\<lambda>r. \<not> lm_created m r < cutoff) (lm_rows m db)"
    "distinct (map (lm_id m) (lm_rows m (delete_ids m ids db)))"
proof -
  note ord = ord [unfolded reorders_def, rule_format]
  let ?old = "older m cutoff db" and ?d = "take n (order_by (older m cutoff db))" and ?r = "drop n (order_by (older m cutoff db))"
  have l: "length (order_by ?old) = length ?old" using ord [of ?old] by (metis size_mset)
  then show "length ids = min n (length ?old)" by (simp add: ids)
  have "distinct (map (lm_id m) ?old)" using dist by (simp add: older_def distinct_map inj_on_def)
  moreover have "mset (map (lm_id m) (order_by ?old)) = mset (map (lm_id m) ?old)" using ord by simp
  ultimately have "distinct (map (lm_id m) (order_by ?old))" using mset_eq_imp_distinct_iff by blast
  then have "distinct (map (lm_id m) ?d @ map (lm_id m) ?r)" by (metis append_take_drop_id map_append)
  then have "set (map (lm_id m) ?d) \<inter> set (map (lm_id m) ?r) = {}" by (simp only: distinct_append)
  then have rest: "\<forall>r\<in>set ?r. lm_id m r \<notin> set ids" unfolding ids by auto
  have "mset (filter (\<lambda>r. lm_id m r \<notin> set ids) ?old) = mset (filter (\<lambda>r. lm_id m r \<notin> set ids) (order_by ?old))"
    using ord [of ?old] by simp
  also have "filter (\<lambda>r. lm_id m r \<notin> set ids) (order_by ?old)
      = filter (\<lambda>r. lm_id m r \<notin> set ids) ?d @ filter (\<lambda>r. lm_id m r \<notin> set ids) ?r"
    by (simp only: filter_append [symmetric] append_take_drop_id)
  also have "filter (\<lambda>r. lm_id m r \<notin> set ids) ?d = []" by (auto simp: filter_empty_conv ids)
  also have "filter (\<lambda>r. lm_id m r \<notin> set ids) ?r = ?r" using rest by (auto simp: filter_id_conv)
  finally have "mset (filter (\<lambda>r. lm_id m r \<notin> set ids) ?old) = mset ?r" by simp
  then have "length (filter (\<lambda>r. lm_id m r \<notin> set ids) ?old) = length ?r" by (rule mset_eq_length)
  moreover have "older m cutoff (delete_ids m ids db) = filter (\<lambda>r. lm_id m r \<notin> set ids) ?old"
    by (simp add: older_def delete_ids_def rows_put conj_commute)
  ultimately show "length (older m cutoff (delete_ids m ids db)) = length ?old - n" using l by simp
  have "lm_created m r < cutoff" if r: "r \<in> set (lm_rows m db)" "lm_id m r \<in> set ids" for r
  proof -
    obtain d where d: "d \<in> set ?d" "lm_id m d = lm_id m r" using r(2) by (auto simp: ids)
    have "d \<in> set (order_by ?old)" using d(1) by (rule in_set_takeD)
    then have "d \<in> set ?old" using mset_eq_setD [OF ord [of ?old]] by simp
    then have "d \<in> set (lm_rows m db)" "lm_created m d < cutoff" by (simp_all add: older_def)
    with d(2) r(1) dist show ?thesis by (auto simp: distinct_map inj_on_def)
  qed
  then show "filter (\<lambda>r. \<not> lm_created m r < cutoff) (lm_rows m (delete_ids m ids db))
      = filter (\<lambda>r. \<not> lm_created m r < cutoff) (lm_rows m db)"
    by (auto simp: delete_ids_def rows_put intro: filter_cong)
  show "distinct (map (lm_id m) (lm_rows m (delete_ids m ids db)))"
    using dist by (simp add: delete_ids_def rows_put distinct_map inj_on_def)
qed

lemma nothing_old: "older m cutoff db = [] \<Longrightarrow> swept m cutoff db = db"
  by (simp add: swept_def older_def filter_empty_conv put_rows)

lemma swept_batch: 
  assumes "filter (\<lambda>r. \<not> lm_created m r < cutoff) (lm_rows m (delete_ids m ids db))
      = filter (\<lambda>r. \<not> lm_created m r < cutoff) (lm_rows m db)"
  shows "swept m cutoff (delete_ids m ids db) = swept m cutoff db"
  using assms by (simp add: swept_def delete_ids_def put_put rows_put)

lemma sweep_ends:
  assumes "1 \<le> batch" and "reorders order_by"
  shows "distinct (map (lm_id m) (lm_rows m (work s))) \<Longrightarrow>
    delete_rows_in_batches m order_by cutoff batch n s
      = Some (n + length (older m cutoff (work s)),
              if older m cutoff (work s) = [] then s else commit (s\<lparr>work := swept m cutoff (work s)\<rparr>))"
proof (induction "length (older m cutoff (work s))" arbitrary: n s rule: less_induct)
  case less
  let ?old = "older m cutoff (work s)"
  define ids where ids: "ids = map (lm_id m) (take batch (order_by ?old))"
  note t = taken_batch [OF assms(2) less.prems ids]
  show ?case
  proof (cases "?old = []")
    case True
    then have "mset (order_by ?old) = {#}" using assms(2) unfolding reorders_def by (metis mset.simps(1))
    with True show ?thesis by (subst delete_rows_in_batches.simps) simp
  next
    case False
    let ?s = "commit (s\<lparr>work := delete_ids m ids (work s)\<rparr>)"
    have ne: "ids \<noteq> []" using False t(2) assms(1) by (cases ids) (auto simp: min_def split: if_splits)
    have step: "delete_rows_in_batches m order_by cutoff batch n s =
        (if length ids < batch then Some (n + length ids, ?s)
         else delete_rows_in_batches m order_by cutoff batch (n + length ids) ?s)"
      using ne by (subst delete_rows_in_batches.simps) (simp add: ids Let_def)
    have w: "work ?s = delete_ids m ids (work s)" by (simp add: commit_def)
    show ?thesis
    proof (cases "length ids < batch")
      case True
      then have "older m cutoff (delete_ids m ids (work s)) = []" "length ids = length ?old" using t(1,2) by auto
      then have "swept m cutoff (work s) = delete_ids m ids (work s)" using nothing_old swept_batch [OF t(3)] by metis
      then show ?thesis using False True \<open>length ids = length ?old\<close> by (simp add: step)
    next
      case more: False
      have len: "length ids = batch" "length (older m cutoff (work ?s)) = length ?old - batch" "batch \<le> length ?old"
        using more t(1,2) by (auto simp: w)
      then have less': "length (older m cutoff (work ?s)) < length ?old" using assms(1) by simp
      have "delete_rows_in_batches m order_by cutoff batch (n + length ids) ?s
        = Some (n + length ids + length (older m cutoff (work ?s)),
              if older m cutoff (work ?s) = [] then ?s else commit (?s\<lparr>work := swept m cutoff (work ?s)\<rparr>))"
        by (rule less.hyps [OF less']) (use t(4) in \<open>simp add: w\<close>)
      moreover have "swept m cutoff (work ?s) = swept m cutoff (work s)" unfolding w by (rule swept_batch [OF t(3)])
      moreover have "older m cutoff (work ?s) = [] \<Longrightarrow> swept m cutoff (work s) = delete_ids m ids (work s)"
        using nothing_old swept_batch [OF t(3)] w by metis
      ultimately show ?thesis using False more len by (auto simp: step commit_def)
    qed
  qed
qed

lemma sweep_commits:
  assumes "1 \<le> batch" "reorders order_by" "distinct (map (lm_id m) (lm_rows m (work s)))" "committed s = work s"
  shows "delete_rows_in_batches m order_by cutoff batch n s
    = Some (n + length (older m cutoff (work s)), commit (s\<lparr>work := swept m cutoff (work s)\<rparr>))"
proof -
  have "s = commit (s\<lparr>work := swept m cutoff (work s)\<rparr>)" if "older m cutoff (work s) = []"
    using assms(4) by (simp add: nothing_old [OF that] commit_def)
  then show ?thesis using sweep_ends [OF assms(1,2,3), of cutoff n] by (simp split: if_splits)
qed

end

interpretation audit: log_table audit_log_model
  by unfold_locales (simp_all add: audit_log_model_def)

interpretation events: log_table device_event_model
  by unfold_locales (simp_all add: device_event_model_def)

lemma retention_limits:
  assumes "is_production st \<longrightarrow> retention_errors st = []" and "cfg_log_retention_enabled st"
  shows "cfg_audit_log_min_retention_days st \<le> lr_audit_log_retention_days (log_retention_config_of st)"
    "cfg_device_event_min_retention_days st \<le> lr_device_event_retention_days (log_retention_config_of st)"
    "1 \<le> lr_delete_batch_size (log_retention_config_of st)"
  using assms
  by (auto simp: log_retention_config_of_def Let_def retention_errors_def err_def err_span_def clamp_def max_defs split: if_splits)

lemma minus_days_Inr: "minus_days now n = Inr t \<Longrightarrow> t = now - days n"
  by (auto simp: minus_days_def Let_def split: if_splits)

lemma days_mono: "m \<le> n \<Longrightarrow> days m \<le> days n"
  by (simp add: days_def)

lemma swept_tables [simp]:
  "swept audit_log_model c db = db\<lparr>audit_logs := filter (\<lambda>a. c \<le> al_created_at a) (audit_logs db)\<rparr>"
  "swept device_event_model c db = db\<lparr>device_events := filter (\<lambda>v. c \<le> ev_created_at v) (device_events db)\<rparr>"
  by (simp_all add: swept_def audit_log_model_def device_event_model_def not_less)

lemma older_tables [simp]:
  "older audit_log_model c db = filter (\<lambda>a. al_created_at a < c) (audit_logs db)"
  "older device_event_model c db = filter (\<lambda>v. ev_created_at v < c) (device_events db)"
  by (simp_all add: older_def audit_log_model_def device_event_model_def)

text \<open>The database after a sweep with these cut-offs.\<close>

definition swept_logs :: "instant \<Rightarrow> instant \<Rightarrow> hub_db \<Rightarrow> hub_db" where
  "swept_logs audit_cutoff event_cutoff db =
     db\<lparr>audit_logs := filter (\<lambda>a. audit_cutoff \<le> al_created_at a) (audit_logs db),
        device_events := filter (\<lambda>v. event_cutoff \<le> ev_created_at v) (device_events db)\<rparr>"

lemma sweep_result:
  assumes "reorders order_audit" "reorders order_events"
    and "distinct (map al_id (audit_logs (work s)))" "distinct (map ev_id (device_events (work s)))"
    and "committed s = work s" "1 \<le> lr_delete_batch_size (log_retention_config_of st)" "cfg_log_retention_enabled st"
    and cut: "log_retention_cutoffs now (log_retention_config_of st) = Inr (ac, ec)"
  shows "run_log_retention_once st order_audit order_events now s =
     Some (Inr \<lparr>rr_skipped = False, rr_reason = None,
                rr_audit_logs_deleted = length (filter (\<lambda>a. al_created_at a < ac) (audit_logs (work s))),
                rr_device_events_deleted = length (filter (\<lambda>v. ev_created_at v < ec) (device_events (work s))),
                rr_audit_logs_cutoff_at = ac, rr_device_events_cutoff_at = ec\<rparr>,
           commit (s\<lparr>work := swept_logs ac ec (work s)\<rparr>))"
proof -
  let ?b = "nat (lr_delete_batch_size (log_retention_config_of st))"
  let ?s1 = "commit (s\<lparr>work := swept device_event_model ec (work s)\<rparr>)"
  have b: "1 \<le> ?b" using assms(6) by simp
  have d: "distinct (map (lm_id device_event_model) (lm_rows device_event_model (work s)))"
    using assms(4) by (simp add: device_event_model_def)
  have e: "delete_rows_in_batches device_event_model order_events ec ?b 0 s
      = Some (length (older device_event_model ec (work s)), ?s1)"
    using events.sweep_commits [OF b assms(2) d assms(5), of ec 0] by simp
  have d': "distinct (map (lm_id audit_log_model) (lm_rows audit_log_model (work ?s1)))"
    using assms(3) by (simp add: audit_log_model_def commit_def)
  have a: "delete_rows_in_batches audit_log_model order_audit ac ?b 0 ?s1
      = Some (length (older audit_log_model ac (work ?s1)), commit (?s1\<lparr>work := swept audit_log_model ac (work ?s1)\<rparr>))"
    using audit.sweep_commits [OF b assms(1) d', of ac 0] by (simp add: commit_def)
  have "lr_enabled (log_retention_config_of st)" using assms(7) by (simp add: log_retention_config_of_def Let_def)
  moreover have "\<not> lr_delete_batch_size (log_retention_config_of st) < 0" using assms(6) by simp
  ultimately show ?thesis
    unfolding run_log_retention_once_def Let_def cut
    by (simp add: e a del: swept_tables older_tables) (simp add: commit_def swept_logs_def)
qed

text \<open>C31. The sweep of the logs ends, whatever order the database gives to rows of one time and for every accepted batch
  size: it deletes exactly the rows older than the cut-offs, from both tables, counts them, and leaves all of it committed; with a
  cut-off that is no date it changes nothing. A row younger than the minimal retention is never deleted.\<close>

theorem retention_sweep:
  assumes "reorders order_audit" "reorders order_events" "unique_keys (work s)" "committed s = work s"
    and "is_production st \<longrightarrow> retention_errors st = []" "cfg_log_retention_enabled st"
  shows "\<exists>r s'. run_log_retention_once st order_audit order_events now s = Some (r, s')
     \<and> (case log_retention_cutoffs now (log_retention_config_of st) of
          Inl e \<Rightarrow> r = Inl e \<and> s' = s
        | Inr (ac, ec) \<Rightarrow>
            r = Inr \<lparr>rr_skipped = False, rr_reason = None,
                rr_audit_logs_deleted = length (filter (\<lambda>a. al_created_at a < ac) (audit_logs (work s))),
                rr_device_events_deleted = length (filter (\<lambda>v. ev_created_at v < ec) (device_events (work s))),
                rr_audit_logs_cutoff_at = ac, rr_device_events_cutoff_at = ec\<rparr>
          \<and> s' = commit (s\<lparr>work := swept_logs ac ec (work s)\<rparr>)
          \<and> ac \<le> now - days (cfg_audit_log_min_retention_days st)
          \<and> ec \<le> now - days (cfg_device_event_min_retention_days st))"
proof (cases "log_retention_cutoffs now (log_retention_config_of st)")
  case (Inl e)
  then show ?thesis by (simp add: run_log_retention_once_def Let_def)
next
  case (Inr c)
  obtain ac ec where c: "log_retention_cutoffs now (log_retention_config_of st) = Inr (ac, ec)" using Inr by (cases c) simp
  note l = retention_limits [OF assms(5,6)]
  have "minus_days now (lr_audit_log_retention_days (log_retention_config_of st)) = Inr ac"
    "minus_days now (lr_device_event_retention_days (log_retention_config_of st)) = Inr ec"
    using c by (auto simp: log_retention_cutoffs_def rbind_Inr_iff)
  then have "ac \<le> now - days (cfg_audit_log_min_retention_days st)" "ec \<le> now - days (cfg_device_event_min_retention_days st)"
    using days_mono [OF l(1)] days_mono [OF l(2)] by (auto dest!: minus_days_Inr)
  moreover have "distinct (map al_id (audit_logs (work s)))" "distinct (map ev_id (device_events (work s)))"
    using assms(3) by (simp_all add: unique_keys_def)
  note sweep_result [OF assms(1,2) this assms(4) l(3) assms(6) c]
  ultimately show ?thesis by (simp add: c)
qed

definition example_audit :: "uuid \<Rightarrow> instant \<Rightarrow> audit_log" where
  "example_audit i t = \<lparr>al_id = i, al_user_id = None, al_company_id = None, al_device_id = None, al_action = ''auth.login.failed'',
     al_ip_address = None, al_user_agent = Some ''curl, \"8\"'', al_created_at = t\<rparr>"

definition example_logs :: db_session where
  "example_logs = (let db = empty_db\<lparr>audit_logs := [example_audit 1 1600000000000000, example_audit 2 1699999999000000]\<rparr>
     in \<lparr>committed = db, work = db, uuid_supply = 3\<rparr>)"

lemma example_cutoffs:
  "log_retention_cutoffs 1700000000000000 (log_retention_config_of default_settings) = Inr (1668464000000000, 1692224000000000)"
proof -
  have "cfg_audit_log_retention_days default_settings = 365" "cfg_device_event_retention_days default_settings = 90"
    "cfg_audit_log_min_retention_days default_settings = 30" "cfg_device_event_min_retention_days default_settings = 7"
    by (simp_all add: default_settings_def)
  then have "lr_audit_log_retention_days (log_retention_config_of default_settings) = 365"
    "lr_device_event_retention_days (log_retention_config_of default_settings) = 90"
    by (simp_all add: log_retention_config_of_def Let_def)
  then show ?thesis by (simp add: log_retention_cutoffs_def minus_days_def days_def)
qed

lemma example_logs_ok: "unique_keys (work example_logs)" "committed example_logs = work example_logs"
  "is_production default_settings \<longrightarrow> retention_errors default_settings = []" "cfg_log_retention_enabled default_settings"
proof -
  show "unique_keys (work example_logs)" "committed example_logs = work example_logs"
    by (simp_all add: example_logs_def Let_def unique_keys_def empty_db_def example_audit_def)
  show "is_production default_settings \<longrightarrow> retention_errors default_settings = []" "cfg_log_retention_enabled default_settings"
    by (simp_all add: is_production_def default_settings_def retention_errors_def max_defs)
qed

lemma reorders_id: "reorders id"
  by (simp add: reorders_def)

theorem retention_sweep_witness:
  "\<exists>r s'. run_log_retention_once default_settings id id 1700000000000000 example_logs = Some (r, s')
     \<and> audit_logs (committed s') = [example_audit 2 1699999999000000]"
proof -
  have "swept_logs 1668464000000000 1692224000000000 (work example_logs)
      = empty_db\<lparr>audit_logs := [example_audit 2 1699999999000000]\<rparr>"
    by (simp add: swept_logs_def example_logs_def Let_def example_audit_def empty_db_def)
  then show ?thesis
    using retention_sweep [OF reorders_id reorders_id example_logs_ok, of 1700000000000000]
    by (auto simp: example_cutoffs commit_def)
qed

subsection \<open>The archive holds what the sweep deletes\<close>


definition example_selection :: log_archive_selection where
  "example_selection = \<lparr>as_cutoff_at = 1700000000000000, as_include_audit_logs = True, as_include_device_events = True\<rparr>"

definition example_log_archive :: "settings \<Rightarrow> string \<times> string \<times> string \<times> json" where
  "example_log_archive cfg = export_log_archive (example_backup_env cfg) id id 1700000000000000 (replicate 16 CHR ''s'') 0
     (work example_logs) example_selection (Some ''pw'')"

definition example_archive_settings :: settings where
  "example_archive_settings =
     default_settings\<lparr>cfg_max_backup_restore_bytes := int (length (fst (example_log_archive default_settings)))\<rparr>"

lemma example_log_archive_same: "example_log_archive example_archive_settings = example_log_archive default_settings"
proof -
  have n: "cfg_app_name example_archive_settings = cfg_app_name default_settings" by (simp add: example_archive_settings_def)
  let ?e = "example_backup_env example_archive_settings" and ?d = "example_backup_env default_settings"
  have m: "archive_manifest ?e = archive_manifest ?d"
    by (intro ext) (simp add: archive_manifest_def example_backup_env_def n)
  have e: "encrypt_backup_payload ?e = encrypt_backup_payload ?d"
    by (intro ext) (simp add: encrypt_backup_payload_def derive_backup_key_def example_backup_env_def)
  have r: "be_iso_print ?e = be_iso_print ?d" "be_zip ?e = be_zip ?d" by (simp_all add: example_backup_env_def)
  show ?thesis unfolding example_log_archive_def export_log_archive_def log_archive_members_def m e r ..
qed


end
