(* ===== verification/Settings_Router.thy ===== *)
theory Settings_Router
  imports Mfa Identity Notifications Rate_Limit Py_Url Log_Retention
begin

text \<open>
  The administration of the Hub: \<open>dashboard/app/routers/settings.py\<close>. A handler takes the environment, what it
  draws at random, the request with its user and the form, and runs on the database session, the files, the
  WireGuard world, the mail world and the rate limiter. \<open>handled\<close> adds what \<open>get_db\<close> does when the request is
  over. A page is the section it shows with what depends on the request: the status, the result of a backup
  check and the summary of the log retention; the lists of companies, users, sessions, the notices and the network
  section are read-only presentation and left out, but rendering a page creates the settings row when it is missing.
\<close>

record ('w, 'm, 'r) settings_world =
  sw_db :: db_session
  sw_files :: hub_files
  sw_wg :: "'w wg_world"
  sw_mail :: 'm
  sw_limits :: "buckets \<times> 'r"

record ('w, 'm, 'r) settings_env =
  se_crypto :: crypto
  se_notify :: notify_ctx
  se_mail :: "'m mail_env"
  se_redis :: "'r redis_client"
  se_backend :: backend
  se_wg :: "'w wg_env"
  se_backup :: backup_env
  se_order_audit :: "audit_log list \<Rightarrow> audit_log list"
  se_order_events :: "device_event list \<Rightarrow> device_event list"
  se_newest :: "audit_log list \<Rightarrow> audit_log option"
  se_parse_local :: "string \<Rightarrow> instant option"
  se_qr_svg :: "string \<Rightarrow> string"
  se_exn_text :: "exn \<Rightarrow> string"

record settings_input =
  si_now :: instant
  si_request :: request
  si_user :: user
  si_salt :: string
  si_random :: string
  si_nonces :: "nat \<times> nat"

abbreviation settings_cfg :: "('w, 'm, 'r) settings_env \<Rightarrow> settings" where
  "settings_cfg env \<equiv> nc_cfg (se_notify env)"

abbreviation settings_fernet :: "('w, 'm, 'r) settings_env \<Rightarrow> fernet" where
  "settings_fernet env \<equiv> nc_fernet (se_notify env)"

text \<open>The backup service with the settings and the Fernet of the router.\<close>

definition backup_of :: "('w, 'm, 'r) settings_env \<Rightarrow> backup_env" where
  "backup_of env = (se_backup env)\<lparr>be_cfg := settings_cfg env, be_fernet := settings_fernet env\<rparr>"

record backup_check =
  bk_ok :: bool
  bk_filename :: string
  bk_message :: string
  bk_manifest :: "(string \<times> json) list"
  bk_tables :: "(string \<times> int) list"
  bk_includes :: "bool \<times> bool"

datatype settings_body =
    NoBody
  | SettingsBody string "backup_check option" "(log_retention_config \<times> table_retention_summary \<times> table_retention_summary) option"
  | MfaBody uuid "string option" "string option" "string option"
  | Attachment string string string
  | LogoImage string string

record settings_reply =
  sr_status :: int
  sr_location :: "string option"
  sr_body :: settings_body
  sr_deleted_cookies :: "string list"

definition redirect :: "string \<Rightarrow> settings_reply" where
  "redirect target = \<lparr>sr_status = 303, sr_location = Some target, sr_body = NoBody, sr_deleted_cookies = []\<rparr>"

definition attachment :: "string \<Rightarrow> string \<Rightarrow> string \<Rightarrow> settings_reply" where
  "attachment content media_type filename =
     \<lparr>sr_status = 200, sr_location = None, sr_body = Attachment content media_type filename, sr_deleted_cookies = []\<rparr>"

subsection \<open>Parts of the world\<close>

definition on_db :: "(db_session, 'a) act \<Rightarrow> (('w, 'm, 'r) settings_world, 'a) act" where
  "on_db m = (\<lambda>w. case m (sw_db w) of (r, s) \<Rightarrow> (r, w\<lparr>sw_db := s\<rparr>))"

definition on_files :: "(hub_files, 'a) act \<Rightarrow> (('w, 'm, 'r) settings_world, 'a) act" where
  "on_files m = (\<lambda>w. case m (sw_files w) of (r, f) \<Rightarrow> (r, w\<lparr>sw_files := f\<rparr>))"

definition on_wg :: "('w wg_world, 'a) act \<Rightarrow> (('w, 'm, 'r) settings_world, 'a) act" where
  "on_wg m = (\<lambda>w. case m (sw_wg w) of (r, g) \<Rightarrow> (r, w\<lparr>sw_wg := g\<rparr>))"

definition handled :: "(('w, 'm, 'r) settings_world, 'a) act \<Rightarrow> (('w, 'm, 'r) settings_world, 'a) act" where
  "handled handler = (\<lambda>w. case handler w of (r, w') \<Rightarrow> (r, w'\<lparr>sw_db := rollback (sw_db w')\<rparr>))"

text \<open>\<open>write_audit\<close> with the commit that follows it.\<close>

definition audited :: "('w, 'm, 'r) settings_env \<Rightarrow> settings_input \<Rightarrow> string \<Rightarrow> uuid option \<Rightarrow> uuid option \<Rightarrow> db_session \<Rightarrow> db_session" where
  "audited env inp action user_id company_id s =
     snd (write_audit (settings_cfg env) (si_now inp) (Some (si_request inp)) action user_id company_id None s)"

definition audit_commit :: "('w, 'm, 'r) settings_env \<Rightarrow> settings_input \<Rightarrow> string \<Rightarrow> db_session \<Rightarrow> db_session" where
  "audit_commit env inp action s = commit (audited env inp action (Some (usr_id (si_user inp))) None s)"

definition security_alert ::
  "('w, 'm, 'r) settings_env \<Rightarrow> settings_input \<Rightarrow> string \<Rightarrow> string \<Rightarrow> (('w, 'm, 'r) settings_world, unit) act" where
  "security_alert env inp subject body = (\<lambda>w.
     case send_security_alert_email (se_mail env) (se_notify env) (si_now inp) subject body (sw_db w, sw_mail w) of
       (_, s, m) \<Rightarrow> (Inr (), w\<lparr>sw_db := s, sw_mail := m\<rparr>))"

text \<open>What every change of the settings is: an administrator's, a change of the tables or an error, an audit row, a commit.\<close>

definition admin_change ::
  "('w, 'm, 'r) settings_env \<Rightarrow> settings_input \<Rightarrow> string \<Rightarrow> settings_reply \<Rightarrow> (db_session, uuid option) act
     \<Rightarrow> (('w, 'm, 'r) settings_world, settings_reply) act" where
  "admin_change env inp action reply change =
     aseq (alift (require_admin (si_user inp)))
       (on_db (abind change (\<lambda>company_id s.
          (Inr reply, commit (audited env inp action (Some (usr_id (si_user inp))) company_id s)))))"

subsection \<open>Pages\<close>

definition settings_sections :: "string list" where
  "settings_sections = [''manage-companies'', ''manage-users'', ''email-settings'', ''microsoft-365'', ''local-ad'',
     ''branding'', ''backup'', ''retention'', ''security'', ''network'']"

definition render_settings ::
  "('w, 'm, 'r) settings_env \<Rightarrow> settings_input \<Rightarrow> string \<Rightarrow> int \<Rightarrow> backup_check option \<Rightarrow> (db_session, settings_reply) act" where
  "render_settings env inp section status check = (\<lambda>s.
     case get_or_create_integration_settings (si_now inp) s of
       (_, s') \<Rightarrow>
         (rbind (if section = ''retention''
                 then rbind (get_log_retention_summary (settings_cfg env) (si_now inp) (work s')) (\<lambda>x. Inr (Some x))
                 else Inr None) (\<lambda>summary.
            Inr \<lparr>sr_status = status, sr_location = None, sr_body = SettingsBody section check summary, sr_deleted_cookies = []\<rparr>),
          s'))"

definition settings_redirect :: "settings_input \<Rightarrow> settings_reply res" where
  "settings_redirect inp = rbind (require_admin (si_user inp)) (\<lambda>_. Inr (redirect ''/settings/manage-companies''))"

definition settings_page ::
  "('w, 'm, 'r) settings_env \<Rightarrow> settings_input \<Rightarrow> string \<Rightarrow> (('w, 'm, 'r) settings_world, settings_reply) act" where
  "settings_page env inp section =
     aseq (alift (require_admin (si_user inp)))
       (if section \<notin> set settings_sections then araise not_found
        else on_db (render_settings env inp section 200 None))"

subsection \<open>Users\<close>

definition external_auth_provider_for_user :: "('w, 'm, 'r) settings_env \<Rightarrow> hub_db \<Rightarrow> user \<Rightarrow> string option" where
  "external_auth_provider_for_user env db u =
     (let provider = strip (or_empty (usr_auth_provider u)) in
      if provider \<noteq> [] then Some provider
      else
        let action = map_option al_action (se_newest env (filter (\<lambda>a. al_user_id a = Some (usr_id u)
              \<and> al_action a \<in> {''auth.microsoft.login'', ''auth.local_ad.login''}) (audit_logs db)))
        in if action = Some ''auth.microsoft.login'' then Some ''microsoft''
           else if action = Some ''auth.local_ad.login'' then Some ''local_ad'' else None)"

record user_form =
  uf_email :: string
  uf_password :: string
  uf_first_name :: string
  uf_last_name :: string
  uf_role :: string

definition form_role :: "user_form \<Rightarrow> string" where
  "form_role f = (if uf_role f \<in> {''user'', ''administrator''} then uf_role f else ''user'')"

definition weak_password :: exn where
  "weak_password = HTTPException 400 ''password must be at least 12 characters and include letters and numbers''"

definition email_exists :: exn where
  "email_exists = HTTPException 400 ''email already exists''"

definition insert_user :: "('w, 'm, 'r) settings_env \<Rightarrow> settings_input \<Rightarrow> user_form \<Rightarrow> (db_session, uuid option) act" where
  "insert_user env inp f = (\<lambda>s0.
     let normalized_email = strip (lower (uf_email f)) in
     if normalized_email = [] \<or> uf_password f = []
     then (Inl (HTTPException 400 ''email and password are required''), s0)
     else if \<not> password_is_strong_enough (uf_password f) then (Inl weak_password, s0)
     else if list_ex (\<lambda>r. usr_email r = normalized_email) (users (work s0)) then (Inl email_exists, s0)
     else (case fresh_uuid s0 of (i, s) \<Rightarrow>
       (Inr None, s\<lparr>work := (work s)\<lparr>users := users (work s) @
          [\<lparr>usr_id = i, usr_email = normalized_email,
            usr_password_hash = hash_secret (se_crypto env) (si_salt inp) (uf_password f),
            usr_first_name = clean_optional (Some (uf_first_name f)), usr_last_name = clean_optional (Some (uf_last_name f)),
            usr_auth_provider = None, usr_role = form_role f, usr_mfa_enabled = False, usr_mfa_secret = None,
            usr_created_at = si_now inp\<rparr>]\<rparr>\<rparr>)))"

definition create_user ::
  "('w, 'm, 'r) settings_env \<Rightarrow> settings_input \<Rightarrow> user_form \<Rightarrow> (('w, 'm, 'r) settings_world, settings_reply) act" where
  "create_user env inp f =
     admin_change env inp ''settings.user.create'' (redirect ''/settings/manage-users?status=user-created'') (insert_user env inp f)"

definition put_user :: "user \<Rightarrow> hub_db \<Rightarrow> hub_db" where
  "put_user u db = db\<lparr>users := update_where (\<lambda>r. usr_id r = usr_id u) (\<lambda>_. u) (users db)\<rparr>"

text \<open>A form of one user; nothing is found under an unknown identifier.\<close>

definition change_user :: "uuid \<Rightarrow> (hub_db \<Rightarrow> user \<Rightarrow> user res) \<Rightarrow> (db_session, uuid option) act" where
  "change_user i change = (\<lambda>s.
     case get_user (work s) i of
       None \<Rightarrow> (Inl not_found, s)
     | Some target \<Rightarrow>
         (case change (work s) target of
            Inl e \<Rightarrow> (Inl e, s)
          | Inr u \<Rightarrow> (Inr None, s\<lparr>work := put_user u (work s)\<rparr>)))"

definition edited_user ::
  "('w, 'm, 'r) settings_env \<Rightarrow> settings_input \<Rightarrow> user_form \<Rightarrow> hub_db \<Rightarrow> user \<Rightarrow> user res" where
  "edited_user env inp f db target =
     (if external_auth_provider_for_user env db target \<noteq> None
      then Inl (HTTPException 400 ''users managed by Microsoft 365 or Local AD cannot be edited here'')
      else
        let normalized_email = strip (lower (uf_email f)) in
        if list_ex (\<lambda>r. usr_email r = normalized_email \<and> usr_id r \<noteq> usr_id target) (users db) then Inl email_exists
        else
          let u = target\<lparr>usr_email := normalized_email, usr_first_name := clean_optional (Some (uf_first_name f)),
                usr_last_name := clean_optional (Some (uf_last_name f)), usr_role := form_role f\<rparr>
          in if strip (uf_password f) = [] then Inr u
             else if \<not> password_is_strong_enough (uf_password f) then Inl weak_password
             else Inr (u\<lparr>usr_password_hash := hash_secret (se_crypto env) (si_salt inp) (uf_password f)\<rparr>))"

definition update_user ::
  "('w, 'm, 'r) settings_env \<Rightarrow> settings_input \<Rightarrow> uuid \<Rightarrow> user_form \<Rightarrow> (('w, 'm, 'r) settings_world, settings_reply) act" where
  "update_user env inp i f =
     admin_change env inp ''settings.user.update'' (redirect ''/settings/manage-users?status=user-updated'')
       (change_user i (edited_user env inp f))"

definition mfa_managed_elsewhere :: exn where
  "mfa_managed_elsewhere =
     HTTPException 400 ''users managed by Microsoft 365 or Local AD must configure MFA with their identity provider''"

definition render_user_mfa ::
  "('w, 'm, 'r) settings_env \<Rightarrow> user \<Rightarrow> int \<Rightarrow> string option \<Rightarrow> string option \<Rightarrow> settings_reply res" where
  "render_user_mfa env managed status error setup_secret =
     (if \<not> local_user_supports_hub_mfa managed then Inl mfa_managed_elsewhere
      else
        rbind (if setup_secret = None \<and> \<not> usr_mfa_enabled managed
               then decrypt_secret (settings_fernet env) (settings_cfg env) (usr_mfa_secret managed)
               else Inr setup_secret) (\<lambda>secret.
          Inr \<lparr>sr_status = status, sr_location = None,
               sr_body = MfaBody (usr_id managed) error secret
                 (if nonempty secret then Some (totp_qr_code_data_url (se_qr_svg env) (the secret) (usr_email managed)) else None),
               sr_deleted_cookies = []\<rparr>))"

definition manage_user_mfa_page ::
  "('w, 'm, 'r) settings_env \<Rightarrow> settings_input \<Rightarrow> uuid \<Rightarrow> string option \<Rightarrow> (('w, 'm, 'r) settings_world, settings_reply) act" where
  "manage_user_mfa_page env inp i setup_secret =
     aseq (alift (require_admin (si_user inp)))
       (on_db (\<lambda>s. (case get_user (work s) i of
            None \<Rightarrow> Inl not_found
          | Some managed \<Rightarrow> render_user_mfa env managed 200 None setup_secret, s)))"

text \<open>The form that begins the set-up shows a new secret, drawn at random.\<close>

definition begin_manage_user_mfa ::
  "('w, 'm, 'r) settings_env \<Rightarrow> settings_input \<Rightarrow> uuid \<Rightarrow> (('w, 'm, 'r) settings_world, settings_reply) act" where
  "begin_manage_user_mfa env inp i = manage_user_mfa_page env inp i (Some (si_random inp))"

definition apply_manage_user_mfa ::
  "('w, 'm, 'r) settings_env \<Rightarrow> settings_input \<Rightarrow> uuid \<Rightarrow> string \<Rightarrow> (('w, 'm, 'r) settings_world, settings_reply) act" where
  "apply_manage_user_mfa env inp i secret =
     (case clean_optional (Some secret) of
        None \<Rightarrow>
          aseq (alift (require_admin (si_user inp)))
            (on_db (\<lambda>s. (case get_user (work s) i of
                 None \<Rightarrow> Inl not_found
               | Some managed \<Rightarrow> render_user_mfa env managed 400 (Some ''A valid MFA secret is required'') None, s)))
      | Some normalized_secret \<Rightarrow>
          admin_change env inp ''settings.user.mfa.apply'' (redirect ''/settings/manage-users?status=user-updated'')
            (change_user i (\<lambda>_ managed.
               if \<not> local_user_supports_hub_mfa managed then Inl mfa_managed_elsewhere
               else Inr (managed\<lparr>usr_mfa_secret := encrypt_secret (settings_fernet env) (settings_cfg env)
                          (fst (si_nonces inp)) (Some normalized_secret), usr_mfa_enabled := False\<rparr>))))"

definition disable_manage_user_mfa ::
  "('w, 'm, 'r) settings_env \<Rightarrow> settings_input \<Rightarrow> uuid \<Rightarrow> (('w, 'm, 'r) settings_world, settings_reply) act" where
  "disable_manage_user_mfa env inp i =
     admin_change env inp ''settings.user.mfa.disable'' (redirect ''/settings/manage-users?status=user-updated'')
       (change_user i (\<lambda>_ managed.
          if \<not> local_user_supports_hub_mfa managed then Inl mfa_managed_elsewhere
          else Inr (managed\<lparr>usr_mfa_secret := None, usr_mfa_enabled := False\<rparr>)))"

text \<open>Deleting a user: the foreign keys delete the rows that belong to it and clear the references to it.\<close>

definition delete_user_row :: "uuid \<Rightarrow> hub_db \<Rightarrow> hub_db" where
  "delete_user_row i db =
     (let gone = map ses_id (filter (\<lambda>r. ses_user_id r = i) (sessions db)) in
      db\<lparr>users := filter (\<lambda>r. usr_id r \<noteq> i) (users db),
         pending_mfa_logins := filter (\<lambda>r. pml_user_id r \<noteq> i) (pending_mfa_logins db),
         sessions := filter (\<lambda>r. ses_user_id r \<noteq> i) (sessions db),
         company_users := filter (\<lambda>r. cu_user_id r \<noteq> i) (company_users db),
         dashboard_filters := filter (\<lambda>r. udf_user_id r \<noteq> i) (dashboard_filters db),
         attention_acks := filter (\<lambda>r. uaa_user_id r \<noteq> i) (attention_acks db),
         proxy_sessions := filter (\<lambda>r. dps_user_id r \<noteq> i
           \<and> (case dps_dashboard_session_id r of None \<Rightarrow> True | Some x \<Rightarrow> x \<notin> set gone)) (proxy_sessions db),
         enrollment_codes := update_where (\<lambda>r. ec_created_by r = Some i) (\<lambda>r. r\<lparr>ec_created_by := None\<rparr>) (enrollment_codes db),
         devices := update_where (\<lambda>r. dev_health_acknowledged_by r = Some i)
           (\<lambda>r. r\<lparr>dev_health_acknowledged_by := None\<rparr>) (devices db),
         audit_logs := update_where (\<lambda>r. al_user_id r = Some i) (\<lambda>r. r\<lparr>al_user_id := None\<rparr>) (audit_logs db)\<rparr>)"

definition delete_user ::
  "('w, 'm, 'r) settings_env \<Rightarrow> settings_input \<Rightarrow> uuid \<Rightarrow> (('w, 'm, 'r) settings_world, settings_reply) act" where
  "delete_user env inp i =
     admin_change env inp ''settings.user.delete'' (redirect ''/settings/manage-users?status=user-deleted'') (\<lambda>s.
       if i = usr_id (si_user inp) then (Inl (HTTPException 400 ''you cannot delete your own user''), s)
       else case get_user (work s) i of
         None \<Rightarrow> (Inl not_found, s)
       | Some target \<Rightarrow>
           if usr_email target = lower (cfg_initial_admin_email (settings_cfg env))
           then (Inl (HTTPException 400 ''the default administrator user cannot be deleted''), s)
           else (Inr None, s\<lparr>work := delete_user_row (usr_id target) (work s)\<rparr>))"

subsection \<open>Integrations\<close>

definition put_integration :: "integration_settings \<Rightarrow> hub_db \<Rightarrow> hub_db" where
  "put_integration r db = db\<lparr>integration_rows := update_where (\<lambda>x. ints_id x = 1) (\<lambda>_. r) (integration_rows db)\<rparr>"

definition change_integration ::
  "settings_input \<Rightarrow> (integration_settings \<Rightarrow> integration_settings res) \<Rightarrow> (db_session, uuid option) act" where
  "change_integration inp change = (\<lambda>s0.
     case get_or_create_integration_settings (si_now inp) s0 of
       (ints, s) \<Rightarrow>
         (case change ints of
            Inl e \<Rightarrow> (Inl e, s)
          | Inr r \<Rightarrow> (Inr None, s\<lparr>work := put_integration (r\<lparr>ints_id := ints_id ints, ints_updated_at := si_now inp\<rparr>) (work s)\<rparr>)))"

record mail_form =
  mf_smtp_enabled :: "string option"
  mf_smtp_host :: string
  mf_smtp_port :: string
  mf_smtp_username :: string
  mf_smtp_password :: string
  mf_smtp_from :: string
  mf_graph_enabled :: "string option"
  mf_graph_tenant_id :: string
  mf_graph_client_id :: string
  mf_graph_client_secret :: string
  mf_graph_sender :: string

definition email_row ::
  "('w, 'm, 'r) settings_env \<Rightarrow> settings_input \<Rightarrow> mail_form \<Rightarrow> integration_settings \<Rightarrow> integration_settings res" where
  "email_row env inp f r =
     (let use_smtp = (mf_smtp_enabled f = Some ''on''); fe = settings_fernet env; cfg = settings_cfg env in
      rbind (if strip (mf_smtp_port f) = [] then Inr None
             else case py_int (mf_smtp_port f) of None \<Rightarrow> Inl ValueError | Some n \<Rightarrow> Inr (Some n)) (\<lambda>port.
        Inr (r\<lparr>ints_smtp_enabled := use_smtp, ints_graph_enabled := (mf_graph_enabled f = Some ''on'' \<and> \<not> use_smtp),
          ints_smtp_host := clean_optional (Some (mf_smtp_host f)), ints_smtp_port := port,
          ints_smtp_username := clean_optional (Some (mf_smtp_username f)),
          ints_smtp_from := clean_optional (Some (mf_smtp_from f)),
          ints_graph_tenant_id := clean_optional (Some (mf_graph_tenant_id f)),
          ints_graph_client_id := clean_optional (Some (mf_graph_client_id f)),
          ints_graph_sender := clean_optional (Some (mf_graph_sender f)),
          ints_smtp_password := store_secret fe cfg (fst (si_nonces inp)) (ints_smtp_password r) (Some (mf_smtp_password f)),
          ints_graph_client_secret := store_secret fe cfg (snd (si_nonces inp)) (ints_graph_client_secret r)
            (Some (mf_graph_client_secret f))\<rparr>)))"

definition update_email_settings ::
  "('w, 'm, 'r) settings_env \<Rightarrow> settings_input \<Rightarrow> mail_form \<Rightarrow> (('w, 'm, 'r) settings_world, settings_reply) act" where
  "update_email_settings env inp f =
     admin_change env inp ''settings.email.update'' (redirect ''/settings/email-settings?status=email-saved'')
       (change_integration inp (email_row env inp f))"

record microsoft_form =
  ms_enabled :: "string option"
  ms_tenant_id :: string
  ms_client_id :: string
  ms_client_secret :: string
  ms_audience :: string
  ms_authority :: string
  ms_admin_group_name :: string
  ms_admin_group_id :: string
  ms_user_group_name :: string
  ms_user_group_id :: string

definition microsoft_row ::
  "('w, 'm, 'r) settings_env \<Rightarrow> settings_input \<Rightarrow> microsoft_form \<Rightarrow> integration_settings \<Rightarrow> integration_settings res" where
  "microsoft_row env inp f r =
     Inr (r\<lparr>ints_microsoft_enabled := (ms_enabled f = Some ''on''),
       ints_microsoft_tenant_id := clean_optional (Some (ms_tenant_id f)),
       ints_microsoft_client_id := clean_optional (Some (ms_client_id f)),
       ints_microsoft_client_secret := store_secret (settings_fernet env) (settings_cfg env) (fst (si_nonces inp))
         (ints_microsoft_client_secret r) (Some (ms_client_secret f)),
       ints_microsoft_audience := clean_optional (Some (ms_audience f)),
       ints_microsoft_authority := clean_optional (Some (ms_authority f)),
       ints_microsoft_admin_group_name := clean_optional (Some (ms_admin_group_name f)),
       ints_microsoft_admin_group_id := clean_optional (Some (ms_admin_group_id f)),
       ints_microsoft_user_group_name := clean_optional (Some (ms_user_group_name f)),
       ints_microsoft_user_group_id := clean_optional (Some (ms_user_group_id f))\<rparr>)"

definition update_microsoft_settings ::
  "('w, 'm, 'r) settings_env \<Rightarrow> settings_input \<Rightarrow> microsoft_form \<Rightarrow> (('w, 'm, 'r) settings_world, settings_reply) act" where
  "update_microsoft_settings env inp f =
     admin_change env inp ''settings.microsoft.update'' (redirect ''/settings/microsoft-365?status=microsoft-saved'')
       (change_integration inp (microsoft_row env inp f))"

record ad_form =
  adf_enabled :: "string option"
  adf_host :: string
  adf_base_dn :: string
  adf_bind_dn :: string

definition local_ad_row :: "ad_form \<Rightarrow> integration_settings \<Rightarrow> integration_settings res" where
  "local_ad_row f r =
     Inr (r\<lparr>ints_ad_enabled := (adf_enabled f = Some ''on''), ints_ad_host := clean_optional (Some (adf_host f)),
       ints_ad_base_dn := clean_optional (Some (adf_base_dn f)), ints_ad_bind_dn := clean_optional (Some (adf_bind_dn f))\<rparr>)"

definition update_local_ad_settings ::
  "('w, 'm, 'r) settings_env \<Rightarrow> settings_input \<Rightarrow> ad_form \<Rightarrow> (('w, 'm, 'r) settings_world, settings_reply) act" where
  "update_local_ad_settings env inp f =
     admin_change env inp ''settings.local_ad.update'' (redirect ''/settings/local-ad?status=local-ad-saved'')
       (change_integration inp (local_ad_row f))"

definition update_security_settings ::
  "('w, 'm, 'r) settings_env \<Rightarrow> settings_input \<Rightarrow> string \<Rightarrow> (('w, 'm, 'r) settings_world, settings_reply) act" where
  "update_security_settings env inp allowlist =
     (case parse_allowlist_entries (Some allowlist) of
        (valid_entries, invalid_entries) \<Rightarrow>
          admin_change env inp ''settings.security.update'' (redirect ''/settings/security?status=security-saved'')
            (if invalid_entries \<noteq> []
             then araise (HTTPException 400 (''invalid admin login allowlist entries: '' @ join '', '' invalid_entries))
             else change_integration inp (\<lambda>r. Inr (r\<lparr>ints_admin_login_allowlist :=
                    (if valid_entries = [] then None else Some (join [CHR 0x0A] valid_entries))\<rparr>))))"

definition revoke_admin_session ::
  "('w, 'm, 'r) settings_env \<Rightarrow> settings_input \<Rightarrow> uuid \<Rightarrow> (('w, 'm, 'r) settings_world, settings_reply) act" where
  "revoke_admin_session env inp i =
     aseq (alift (require_admin (si_user inp)))
       (on_db (\<lambda>s.
          case get_session_token (work s) i of
            None \<Rightarrow> (Inl not_found, s)
          | Some target \<Rightarrow>
              if ses_revoked_at target \<noteq> None then (Inl not_found, s)
              else
                (case session_from_request (se_crypto env) (settings_cfg env) (si_now inp) (si_request inp) (work s) of
                   Inl e \<Rightarrow> (Inl e, s)
                 | Inr current_session \<Rightarrow>
                     (Inr (if ses_id target = ses_id current_session
                           then (redirect ''/login'')\<lparr>sr_deleted_cookies := [cfg_session_cookie_name (settings_cfg env)]\<rparr>
                           else redirect ''/settings/security?status=session-revoked''),
                      audit_commit env inp ''settings.session.revoke''
                        (s\<lparr>work := revoke_session_token (si_now inp) target (work s)\<rparr>)))))"

subsection \<open>Branding\<close>

definition branding_logo :: "hub_files \<Rightarrow> settings_reply res" where
  "branding_logo f =
     (case uploaded_logo_path (hf_branding f) of
        None \<Rightarrow> Inl not_found
      | Some n \<Rightarrow>
          Inr \<lparr>sr_status = 200, sr_location = None, sr_body = LogoImage n
                 (if endswith n ''.png'' then ''image/png'' else if endswith n ''.jpg'' then ''image/jpeg'' else ''image/webp''),
               sr_deleted_cookies = []\<rparr>)"

definition validate_branding_logo_url :: "string \<Rightarrow> string option res" where
  "validate_branding_logo_url v =
     (case clean_optional (Some v) of
        None \<Rightarrow> Inr None
      | Some normalized \<Rightarrow>
          (case urlparse normalized of
             None \<Rightarrow> Inl ValueError
           | Some parsed \<Rightarrow>
               if url_scheme parsed \<noteq> ''https'' \<or> url_netloc parsed = []
               then Inl (HTTPException 400 ''branding logo URL must be an absolute HTTPS URL'')
               else Inr (Some normalized)))"

record upload_file =
  up_filename :: string
  up_content_type :: string
  up_content :: string

text \<open>The message of a \<open>BrandingError\<close> becomes the detail of a 400.\<close>

fun branding_400 :: "'a res \<Rightarrow> 'a res" where
  "branding_400 (Inl (BrandingError m)) = Inl (HTTPException 400 m)"
| "branding_400 r = r"

definition update_branding_settings ::
  "('w, 'm, 'r) settings_env \<Rightarrow> settings_input \<Rightarrow> string \<Rightarrow> string option \<Rightarrow> upload_file option
     \<Rightarrow> (('w, 'm, 'r) settings_world, settings_reply) act" where
  "update_branding_settings env inp logo_url remove_logo file =
     aseq (alift (require_admin (si_user inp)))
     (abind (on_db (\<lambda>s0. case get_or_create_integration_settings (si_now inp) s0 of (ints, s) \<Rightarrow> (Inr ints, s))) (\<lambda>ints.
      abind (alift (validate_branding_logo_url logo_url)) (\<lambda>url.
      abind (if remove_logo = Some ''on''
             then on_files (\<lambda>f. (Inr None, f\<lparr>hf_branding := clear_uploaded_logo (hf_branding f)\<rparr>))
             else case file of
               None \<Rightarrow> aret url
             | Some up \<Rightarrow>
                 if up_filename up = [] then aret url
                 else abind (alift (branding_400 (validate_branding_upload (up_content_type up) (up_content up)
                        (cfg_branding_logo_max_bytes (settings_cfg env))))) (\<lambda>(extension, _).
                   on_files (\<lambda>f. (Inr url, f\<lparr>hf_branding := snd (save_uploaded_logo (hf_branding f) extension (up_content up))\<rparr>))))
        (\<lambda>final_url. on_db (\<lambda>s.
           (Inr (redirect ''/settings/branding?status=branding-saved''),
            audit_commit env inp ''settings.branding.update''
              (s\<lparr>work := put_integration (ints\<lparr>ints_branding_logo_url := final_url, ints_updated_at := si_now inp\<rparr>) (work s)\<rparr>)))))))"

subsection \<open>Companies\<close>

definition company_name_required :: exn where
  "company_name_required = HTTPException 400 ''company name is required''"

definition create_settings_company ::
  "('w, 'm, 'r) settings_env \<Rightarrow> settings_input \<Rightarrow> string \<Rightarrow> (('w, 'm, 'r) settings_world, settings_reply) act" where
  "create_settings_company env inp name =
     admin_change env inp ''settings.company.create'' (redirect ''/settings/manage-companies?status=company-created'') (\<lambda>s0.
       if strip name = [] then (Inl company_name_required, s0)
       else (case fresh_uuid s0 of (i, s) \<Rightarrow>
         (Inr (Some i), s\<lparr>work := (work s)\<lparr>
            companies := companies (work s) @ [\<lparr>com_id = i, com_name = strip name, com_created_at = si_now inp\<rparr>],
            company_users := company_users (work s) @
              [\<lparr>cu_company_id = i, cu_user_id = usr_id (si_user inp), cu_role = ''owner'', cu_created_at = si_now inp\<rparr>]\<rparr>\<rparr>)))"

definition update_company ::
  "('w, 'm, 'r) settings_env \<Rightarrow> settings_input \<Rightarrow> uuid \<Rightarrow> string \<Rightarrow> (('w, 'm, 'r) settings_world, settings_reply) act" where
  "update_company env inp i name =
     admin_change env inp ''settings.company.update'' (redirect ''/settings/manage-companies?status=company-updated'') (\<lambda>s.
       case get_company (work s) i of
         None \<Rightarrow> (Inl not_found, s)
       | Some c \<Rightarrow>
           if strip name = [] then (Inl company_name_required, s)
           else (Inr (Some (com_id c)), s\<lparr>work := (work s)\<lparr>companies :=
              update_where (\<lambda>r. com_id r = com_id c) (\<lambda>r. r\<lparr>com_name := strip name\<rparr>) (companies (work s))\<rparr>\<rparr>))"

text \<open>Deleting a company: its firewalls with what belongs to them, its codes and members; the filters and audit rows that name it
  or its firewalls stay without them.\<close>

definition delete_company_row :: "uuid \<Rightarrow> hub_db \<Rightarrow> hub_db" where
  "delete_company_row i db =
     (let gone = map dev_id (filter (\<lambda>d. dev_company_id d = i) (devices db)) in
      db\<lparr>companies := filter (\<lambda>c. com_id c \<noteq> i) (companies db),
         company_users := filter (\<lambda>r. cu_company_id r \<noteq> i) (company_users db),
         dashboard_filters := update_where (\<lambda>r. udf_company_id r = Some i) (\<lambda>r. r\<lparr>udf_company_id := None\<rparr>) (dashboard_filters db),
         enrollment_codes := filter (\<lambda>r. ec_company_id r \<noteq> i) (enrollment_codes db),
         devices := filter (\<lambda>d. dev_company_id d \<noteq> i) (devices db),
         proxy_sessions := filter (\<lambda>r. dps_device_id r \<notin> set gone) (proxy_sessions db),
         device_backups := filter (\<lambda>r. dbk_device_id r \<notin> set gone) (device_backups db),
         device_events := filter (\<lambda>r. ev_device_id r \<notin> set gone) (device_events db),
         audit_logs := map (\<lambda>r. r\<lparr>al_company_id := (if al_company_id r = Some i then None else al_company_id r),
             al_device_id := (case al_device_id r of None \<Rightarrow> None | Some d \<Rightarrow> if d \<in> set gone then None else Some d)\<rparr>) (audit_logs db)\<rparr>)"

definition delete_company ::
  "('w, 'm, 'r) settings_env \<Rightarrow> settings_input \<Rightarrow> uuid \<Rightarrow> (('w, 'm, 'r) settings_world, settings_reply) act" where
  "delete_company env inp i =
     aseq (alift (require_admin (si_user inp))) (\<lambda>w.
       case get_company (work (sw_db w)) i of
         None \<Rightarrow> (Inl not_found, w)
       | Some c \<Rightarrow>
           aseq (on_wg (afor (\<lambda>d. if dev_revoked_at d = None then remove_peer (se_wg env) (settings_cfg env) (dev_wg_public_key d)
                                  else aret ())
                   (filter (\<lambda>d. dev_company_id d = com_id c) (devices (work (sw_db w))))))
             (on_db (\<lambda>s. case audited env inp ''settings.company.delete'' (Some (usr_id (si_user inp))) (Some (com_id c)) s of
                s' \<Rightarrow> (Inr (redirect ''/settings/manage-companies?status=company-deleted''),
                       commit (s'\<lparr>work := delete_company_row (com_id c) (work s')\<rparr>)))) w)"

end
