(* ===== verification/Settings_Restore.thy ===== *)
theory Settings_Restore
  imports Settings_Router
begin

text \<open>
  Backup, restore and log retention in \<open>dashboard/app/routers/settings.py\<close>. A restore is several transactions and
  two changes outside the database: the staged files and, after the commit, the files and the peers.
\<close>

subsection \<open>Export and retention\<close>

definition export_settings_backup ::
  "('w, 'm, 'r) settings_env \<Rightarrow> settings_input \<Rightarrow> string \<Rightarrow> (('w, 'm, 'r) settings_world, settings_reply) act" where
  "export_settings_backup env inp passphrase =
     aseq (alift (require_admin (si_user inp))) (\<lambda>w.
       case export_backup_bundle (backup_of env) (si_now inp) (si_salt inp) (fst (si_nonces inp)) (sw_files w) (work (sw_db w))
              (clean_optional (Some passphrase)) of
         Inl e \<Rightarrow> (Inl e, w)
       | Inr (bundle, filename, media_type) \<Rightarrow>
           (Inr (attachment bundle media_type filename),
            w\<lparr>sw_db := audit_commit env inp ''settings.backup.export'' (sw_db w)\<rparr>))"

text \<open>The sweep is a loop, so the handler has the value \<open>None\<close> when it does not end.\<close>

definition run_retention_cleanup ::
  "('w, 'm, 'r) settings_env \<Rightarrow> settings_input \<Rightarrow> ('w, 'm, 'r) settings_world
     \<Rightarrow> (settings_reply res \<times> ('w, 'm, 'r) settings_world) option" where
  "run_retention_cleanup env inp w =
     (case require_admin (si_user inp) of
        Inl e \<Rightarrow> Some (Inl e, w)
      | Inr _ \<Rightarrow>
          (case run_log_retention_once (settings_cfg env) (se_order_audit env) (se_order_events env) (si_now inp) (sw_db w) of
             None \<Rightarrow> None
           | Some (Inl e, s) \<Rightarrow> Some (Inl e, w\<lparr>sw_db := s\<rparr>)
           | Some (Inr result, s) \<Rightarrow>
               Some (Inr (redirect (''/settings/retention?status='' @
                       (if rr_skipped result then ''retention-cleanup-skipped'' else ''retention-cleanup-ran''))),
                     w\<lparr>sw_db := audit_commit env inp ''settings.retention.cleanup'' s\<rparr>)))"

definition export_retention_archive ::
  "('w, 'm, 'r) settings_env \<Rightarrow> settings_input \<Rightarrow> string \<Rightarrow> string option \<Rightarrow> string option \<Rightarrow> string
     \<Rightarrow> (('w, 'm, 'r) settings_world, settings_reply) act" where
  "export_retention_archive env inp cutoff_at include_audit_logs include_device_events passphrase =
     aseq (alift (require_admin (si_user inp)))
     (abind (alift (create_log_archive_selection (se_parse_local env) cutoff_at (include_audit_logs = Some ''on'')
        (include_device_events = Some ''on''))) (\<lambda>selection w.
       case export_log_archive (backup_of env) (se_order_audit env) (se_order_events env) (si_now inp) (si_salt inp)
              (fst (si_nonces inp)) (work (sw_db w)) selection (clean_optional (Some passphrase)) of
         (archive, filename, media_type, _) \<Rightarrow>
           (Inr (attachment archive media_type filename),
            w\<lparr>sw_db := audit_commit env inp ''settings.retention.export'' (sw_db w)\<rparr>)))"

subsection \<open>Verification\<close>

text \<open>An upload: \<open>rd\<close> reads from it, \<open>u\<close> is what it reads.\<close>

record 'u backup_form =
  bf_read :: "nat \<Rightarrow> 'u \<Rightarrow> string \<times> 'u"
  bf_upload :: 'u
  bf_filename :: "string option"
  bf_passphrase :: string
  bf_confirmation :: string

definition shown_filename :: "'u backup_form \<Rightarrow> string" where
  "shown_filename f = (if nonempty (bf_filename f) then the (bf_filename f) else ''backup file'')"

definition failed_check :: "'u backup_form \<Rightarrow> string \<Rightarrow> backup_check" where
  "failed_check f message =
     \<lparr>bk_ok = False, bk_filename = shown_filename f, bk_message = message, bk_manifest = [], bk_tables = [], bk_includes = (False, False)\<rparr>"

definition passed_check :: "'u backup_form \<Rightarrow> parsed_bundle \<Rightarrow> backup_check" where
  "passed_check f b =
     \<lparr>bk_ok = True, bk_filename = shown_filename f, bk_message = ''Backup integrity check passed.'',
      bk_manifest = pb_manifest b,
      bk_tables = map (\<lambda>(n, v). (n, case v of JList rows \<Rightarrow> int (length rows) | _ \<Rightarrow> 0)) (pb_data b),
      bk_includes = (pb_logo b \<noteq> None, nonempty (pb_key b))\<rparr>"

definition read_backup_upload :: "settings \<Rightarrow> 'u backup_form \<Rightarrow> string res" where
  "read_backup_upload cfg f = read_upload_limited (bf_read f) (bf_upload f) (cfg_max_backup_restore_bytes cfg) ''backup file''"

definition verify_settings_backup ::
  "('w, 'm, 'r) settings_env \<Rightarrow> settings_input \<Rightarrow> 'u backup_form \<Rightarrow> (('w, 'm, 'r) settings_world, settings_reply) act" where
  "verify_settings_backup env inp f =
     aseq (alift (require_admin (si_user inp)))
     (abind (alift (read_backup_upload (settings_cfg env) f)) (\<lambda>content.
      if content = [] then araise (HTTPException 400 ''backup file is required'')
      else
        (case parse_backup_bundle (backup_of env) content (clean_optional (Some (bf_passphrase f))) of
           Inr b \<Rightarrow>
             on_db (\<lambda>s. render_settings env inp ''backup'' 200 (Some (passed_check f b))
                (audit_commit env inp ''settings.backup.verify'' s))
         | Inl (HTTPException c d) \<Rightarrow> on_db (render_settings env inp ''backup'' 400 (Some (failed_check f d)))
         | Inl e \<Rightarrow> araise e)))"

subsection \<open>Restore\<close>

definition RESTORE_CONFIRMATION_PHRASE :: string where
  "RESTORE_CONFIRMATION_PHRASE = ''RESTORE HUB''"

definition exn_detail :: "('w, 'm, 'r) settings_env \<Rightarrow> exn \<Rightarrow> string" where
  "exn_detail env e = (case e of HTTPException c d \<Rightarrow> d | _ \<Rightarrow> se_exn_text env e)"

definition is_http :: "exn \<Rightarrow> bool" where
  "is_http e = (case e of HTTPException c d \<Rightarrow> True | _ \<Rightarrow> False)"

definition restore_limited ::
  "('w, 'm, 'r) settings_env \<Rightarrow> settings_input \<Rightarrow> (('w, 'm, 'r) settings_world, unit) act" where
  "restore_limited env inp = (\<lambda>w.
     case apply_rate_limit (settings_cfg env) (se_redis env) (se_backend env) (si_now inp) (si_request inp) ''backup-restore''
            (uuid_str (usr_id (si_user inp))) (cfg_rate_limit_backup_restore_attempts (settings_cfg env))
            (cfg_rate_limit_backup_restore_window_seconds (settings_cfg env)) (sw_limits w) of
       (Inr _, l) \<Rightarrow> (Inr (), w\<lparr>sw_limits := l\<rparr>)
     | (Inl (HTTPException c d), l) \<Rightarrow>
         aseq (security_alert env inp ''[OPNsense Hub] Security event: backup restore rate limited''
                 (''Backup restore requests were rate limited for '' @ usr_email (si_user inp) @ ''.''))
           (araise (HTTPException c d))
           (w\<lparr>sw_limits := l, sw_db := audit_commit env inp ''settings.backup.restore.rate_limited'' (sw_db w)\<rparr>)
     | (Inl e, l) \<Rightarrow> (Inl e, w\<lparr>sw_limits := l\<rparr>))"

text \<open>The transaction of the restore, with the staged files it leaves.\<close>

definition restore_transaction ::
  "('w, 'm, 'r) settings_env \<Rightarrow> settings_input \<Rightarrow> string \<Rightarrow> string option
     \<Rightarrow> (('w, 'm, 'r) settings_world, restore_file_stage) act" where
  "restore_transaction env inp content passphrase =
     abind (alift (parse_backup_bundle (backup_of env) content passphrase)) (\<lambda>b.
     abind (on_files (stage_restore_files (pb_logo b) (pb_key b))) (\<lambda>stage w.
       case on_db (restore_backup_bundle (backup_of env) (pb_data b) (pb_logo b) (pb_key b)) w of
         (Inl e, w') \<Rightarrow> (Inl e, w'\<lparr>sw_files := cleanup_staged_restore_files stage (sw_files w')\<rparr>)
       | (Inr _, w') \<Rightarrow>
           (Inr stage, w'\<lparr>sw_db := (case audited env inp ''settings.backup.restore'' None None (sw_db w') of s \<Rightarrow>
              commit (s\<lparr>work := (work s)\<lparr>sessions := [], proxy_sessions :=
                filter (\<lambda>r. dps_dashboard_session_id r = None) (proxy_sessions (work s))\<rparr>\<rparr>))\<rparr>)))"

definition restore_failed ::
  "('w, 'm, 'r) settings_env \<Rightarrow> settings_input \<Rightarrow> 'u backup_form \<Rightarrow> exn \<Rightarrow> (('w, 'm, 'r) settings_world, settings_reply) act" where
  "restore_failed env inp f e =
     aseq (on_db (\<lambda>s. (Inr (), audit_commit env inp ''settings.backup.restore.failed'' (rollback s))))
     (aseq (security_alert env inp ''[OPNsense Hub] Security event: backup restore failed''
              (''Backup restore failed for '' @ usr_email (si_user inp) @ '': '' @ exn_detail env e))
       (on_db (render_settings env inp ''backup'' (if is_http e then 400 else 500)
          (Some (failed_check f (if is_http e then exn_detail env e else ''Backup restore failed: '' @ exn_detail env e))))))"

text \<open>After the commit: the files, then the peers.\<close>

definition restore_follow_up ::
  "('w, 'm, 'r) settings_env \<Rightarrow> restore_file_stage \<Rightarrow> (('w, 'm, 'r) settings_world, unit) act" where
  "restore_follow_up env stage =
     aseq (on_files (apply_staged_restore_files stage))
       (\<lambda>w. on_wg (reconcile_wireguard_after_restore (be_iso (se_backup env)) (se_wg env) (settings_cfg env) (work (sw_db w))) w)"

definition follow_up_failed ::
  "('w, 'm, 'r) settings_env \<Rightarrow> settings_input \<Rightarrow> 'u backup_form \<Rightarrow> exn \<Rightarrow> (('w, 'm, 'r) settings_world, settings_reply) act" where
  "follow_up_failed env inp f e =
     aseq (security_alert env inp ''[OPNsense Hub] Security event: backup restore follow-up failed''
             (''Backup restore committed for '' @ usr_email (si_user inp)
               @ '', but post-commit reconciliation failed: '' @ exn_detail env e))
       (on_db (render_settings env inp ''backup'' 500
          (Some (failed_check f (''Backup restore committed, but post-commit reconciliation failed: '' @ exn_detail env e)))))"

definition restore_settings_backup ::
  "('w, 'm, 'r) settings_env \<Rightarrow> settings_input \<Rightarrow> 'u backup_form \<Rightarrow> (('w, 'm, 'r) settings_world, settings_reply) act" where
  "restore_settings_backup env inp f =
     aseq (alift (require_admin (si_user inp)))
     (aseq (restore_limited env inp)
       (if strip (bf_confirmation f) \<noteq> RESTORE_CONFIRMATION_PHRASE then
          on_db (\<lambda>s. render_settings env inp ''backup'' 400
            (Some (failed_check f (''Type '' @ [CHR 0x22] @ RESTORE_CONFIRMATION_PHRASE @ [CHR 0x22]
              @ '' to confirm replacing this Hub configuration.'')))
            (audit_commit env inp ''settings.backup.restore.failed'' s))
        else
          abind (alift (read_backup_upload (settings_cfg env) f)) (\<lambda>content.
            if content = [] then
              on_db (\<lambda>s. (Inl (HTTPException 400 ''backup file is required''),
                          audit_commit env inp ''settings.backup.restore.failed'' s))
            else (\<lambda>w.
              case restore_transaction env inp content (clean_optional (Some (bf_passphrase f))) w of
                (Inl e, w1) \<Rightarrow> restore_failed env inp f e w1
              | (Inr stage, w1) \<Rightarrow>
                  (case restore_follow_up env stage w1 of
                     (Inl e, w2) \<Rightarrow> follow_up_failed env inp f e w2
                   | (Inr _, w2) \<Rightarrow>
                       (Inr ((redirect ''/login'')\<lparr>sr_deleted_cookies := [cfg_session_cookie_name (settings_cfg env)]\<rparr>), w2))))))"

end
