(* ===== verification/Restore_Facts.thy ===== *)
theory Restore_Facts
  imports Settings_Restore
begin

text \<open>
  A restore replaces the database and signs everyone out, or leaves everything but the audit log as it was; and what one Hub exports,
  another restores.
\<close>

subsection \<open>What logging and mails change\<close>

definition log_only :: "instant \<Rightarrow> hub_db \<Rightarrow> hub_db \<Rightarrow> bool" where
  "log_only now d d' \<longleftrightarrow> (\<exists>entries rows.
     d' = d\<lparr>audit_logs := audit_logs d @ entries, integration_rows := rows\<rparr>
     \<and> (rows = integration_rows d \<or> get_integration d = None \<and> rows = integration_rows d @ [default_integration now]))"

definition quiet :: "instant \<Rightarrow> hub_db \<Rightarrow> db_session \<Rightarrow> bool" where
  "quiet now d s \<longleftrightarrow> log_only now d (committed s) \<and> log_only now d (work s)"

lemma log_onlyI:
  "d' = d\<lparr>audit_logs := audit_logs d @ entries, integration_rows := rows\<rparr> \<Longrightarrow>
   rows = integration_rows d \<or> get_integration d = None \<and> rows = integration_rows d @ [default_integration now] \<Longrightarrow>
   log_only now d d'"
  by (auto simp: log_only_def)

lemma log_onlyE:
  assumes "log_only now d d'"
  obtains entries rows where "d' = d\<lparr>audit_logs := audit_logs d @ entries, integration_rows := rows\<rparr>"
    "rows = integration_rows d \<or> get_integration d = None \<and> rows = integration_rows d @ [default_integration now]"
  using assms by (auto simp: log_only_def)

lemma log_only_refl [simp]: "log_only now d d"
  by (rule log_onlyI [where entries = "[]" and rows = "integration_rows d"]) simp_all

lemma log_only_row:
  assumes "log_only now d d'"
  shows "log_only now d (d'\<lparr>audit_logs := audit_logs d' @ [a]\<rparr>)"
  using assms
proof (rule log_onlyE)
  fix entries rows
  assume "d' = d\<lparr>audit_logs := audit_logs d @ entries, integration_rows := rows\<rparr>"
    and "rows = integration_rows d \<or> get_integration d = None \<and> rows = integration_rows d @ [default_integration now]"
  then show ?thesis by (intro log_onlyI [where entries = "entries @ [a]" and rows = rows]) simp_all
qed

lemma log_only_integration:
  assumes "log_only now d d'" "get_integration d' = None"
  shows "log_only now d (d'\<lparr>integration_rows := integration_rows d' @ [default_integration now]\<rparr>)"
proof -
  obtain entries rows where d': "d' = d\<lparr>audit_logs := audit_logs d @ entries, integration_rows := rows\<rparr>"
      and r: "rows = integration_rows d \<or> get_integration d = None \<and> rows = integration_rows d @ [default_integration now]"
    by (rule log_onlyE [OF assms(1)])
  have "ints_id (default_integration now) = 1" by (simp add: default_integration_def)
  then have "rows = integration_rows d" "get_integration d = None"
    using assms(2) r by (auto simp: d' get_integration_def find_None_iff)
  then show ?thesis by (intro log_onlyI [where entries = entries and rows = "integration_rows d @ [default_integration now]"]) (simp_all add: d')
qed

lemma quiet_rollback: "quiet now d s \<Longrightarrow> quiet now d (rollback s)"
  by (simp add: quiet_def rollback_def)

lemma quiet_audited: "quiet now d s \<Longrightarrow> quiet now d (commit (audited env inp action u c s))"
  by (auto simp: quiet_def audited_def write_audit_def commit_def fresh_uuid_def log_only_row)

lemma quiet_audit: "quiet now d s \<Longrightarrow> quiet now d (audit_commit env inp action s)"
  by (simp add: audit_commit_def quiet_audited)

lemma quiet_integration: "quiet now d s \<Longrightarrow> get_or_create_integration_settings now s = (i, s') \<Longrightarrow> quiet now d s'"
  by (auto simp: quiet_def get_or_create_integration_settings_def commit_def log_only_integration split: option.splits)

lemma quiet_render:
  "render_settings env inp section status check s = (r, s') \<Longrightarrow> quiet (si_now inp) d s \<Longrightarrow> quiet (si_now inp) d s'"
  by (auto simp: render_settings_def split: prod.splits intro: quiet_integration)

lemma quiet_mail:
  "send_notification_email me nc now target subject body (s, m) = (r, s', m') \<Longrightarrow> quiet now d s \<Longrightarrow> quiet now d s'"
  by (auto simp: send_notification_email_def split: prod.splits if_splits intro: quiet_integration)

lemma quiet_alert:
  assumes "security_alert env inp subject body w = (r, w')" "quiet (si_now inp) d (sw_db w)"
  shows "quiet (si_now inp) d (sw_db w') \<and> sw_files w' = sw_files w \<and> sw_wg w' = sw_wg w \<and> r = Inr ()"
  using assms
  by (auto simp: security_alert_def send_security_alert_email_def split: prod.splits if_splits option.splits sum.splits
      dest: quiet_mail)

subsection \<open>Files\<close>

definition same_files :: "hub_files \<Rightarrow> hub_files \<Rightarrow> bool" where
  "same_files f f' \<longleftrightarrow> (hf_branding f' = hf_branding f \<or> hf_branding f = None \<and> hf_branding f' = Some [])
     \<and> hf_key f' = hf_key f \<and> hf_temps f' = hf_temps f"

lemma same_files_refl [simp]: "same_files f f"
  by (simp add: same_files_def)

lemma staged_and_cleaned:
  assumes "stage_restore_files logo key f = (Inr stage, f')" and old: "\<forall>t\<in>set (hf_temps f). fst t < hf_next f"
  shows "same_files f (cleanup_staged_restore_files stage f')"
proof -
  have keep: "filter (\<lambda>e. Some (fst e) \<noteq> Some (hf_next f + k)) (hf_temps f) = hf_temps f" for k
    using old by (auto simp: filter_id_conv)
  show ?thesis
    using assms(1) keep [of 0] keep [of 1]
    by (cases logo; cases key) (auto simp: stage_restore_files_def abind_def make_directory_def write_staged_file_def
        same_files_def cleanup_staged_restore_files_def drop_temp_def filter_id_conv
        split: sum.splits if_splits prod.splits option.splits)
qed

lemma stage_raises_nothing_written:
  "stage_restore_files logo key f = (Inl e, f') \<Longrightarrow> f' = f"
  by (auto simp: stage_restore_files_def abind_def split: option.splits prod.splits sum.splits if_splits)

subsection \<open>The transaction\<close>

lemma inserted_integrity:
  "insert_tables bd parse_iso data ts tables = (Inr (), rows) \<Longrightarrow> tables \<noteq> [] \<Longrightarrow> integrity (load_rows rows)"
proof (induction bd parse_iso data ts tables rule: insert_tables.induct)
  case (2 bd parse_iso data ts n cols rest)
  then show ?case by (cases rest) (auto simp: Let_def split: sum.splits if_splits)
qed simp

text \<open>What a restore of these tables leaves: their rows and a note in the audit log.\<close>

definition restored_from ::
  "('w, 'm, 'r) settings_env \<Rightarrow> instant \<Rightarrow> parsed_bundle \<Rightarrow> hub_db \<Rightarrow> bool" where
  "restored_from env now b d \<longleftrightarrow> (\<exists>data rows.
     validate_backup_data (backup_of env) (pb_data b) (pb_logo b) (pb_key b) = Inr data
     \<and> insert_tables (be_database (backup_of env)) (be_iso (backup_of env)) data [] backup_table_models = (Inr (), rows)
     \<and> log_only now (load_rows rows) d)"

lemma load_rows_untouched [simp]:
  "sessions (load_rows rows) = []" "proxy_sessions (load_rows rows) = []" "pending_mfa_logins (load_rows rows) = []"
  by (simp_all add: load_rows_def empty_db_def)

lemma restored_fromD:
  assumes "restored_from env now b d"
  shows "sessions d = [] \<and> proxy_sessions d = [] \<and> pending_mfa_logins d = []"
    "\<exists>rows. integrity (load_rows rows) \<and> log_only now (load_rows rows) d"
proof -
  obtain data rows where r: "insert_tables (be_database (backup_of env)) (be_iso (backup_of env)) data [] backup_table_models = (Inr (), rows)"
      "log_only now (load_rows rows) d"
    using assms unfolding restored_from_def by blast
  from r(2) show "sessions d = [] \<and> proxy_sessions d = [] \<and> pending_mfa_logins d = []" by (auto elim!: log_onlyE)
  have "backup_table_models \<noteq> []" by (simp add: backup_table_models_def)
  then show "\<exists>rows. integrity (load_rows rows) \<and> log_only now (load_rows rows) d" using inserted_integrity [OF r(1)] r(2) by blast
qed

lemma transaction_fails:
  assumes "restore_transaction env inp content pass w = (Inl e, w1)" and "\<forall>t\<in>set (hf_temps (sw_files w)). fst t < hf_next (sw_files w)"
  shows "committed (sw_db w1) = committed (sw_db w) \<and> same_files (sw_files w) (sw_files w1) \<and> sw_wg w1 = sw_wg w"
proof (cases "parse_backup_bundle (backup_of env) content pass")
  case (Inl e')
  then show ?thesis using assms(1) by (simp add: restore_transaction_def abind_def)
next
  case (Inr b)
  obtain r f where st: "stage_restore_files (pb_logo b) (pb_key b) (sw_files w) = (r, f)"
    by (cases "stage_restore_files (pb_logo b) (pb_key b) (sw_files w)")
  obtain r' s where re: "restore_backup_bundle (backup_of env) (pb_data b) (pb_logo b) (pb_key b) (sw_db w) = (r', s)"
    by (cases "restore_backup_bundle (backup_of env) (pb_data b) (pb_logo b) (pb_key b) (sw_db w)")
  have c: "committed s = committed (sw_db w)"
    using re by (auto simp: restore_backup_bundle_def abind_def aseq_def split: sum.splits prod.splits)
  show ?thesis
  proof (cases r)
    case (Inl e')
    then show ?thesis using assms(1) Inr st stage_raises_nothing_written [OF st [unfolded Inl]]
      by (auto simp: restore_transaction_def abind_def on_files_def)
  next
    case ok: (Inr stage)
    have "same_files (sw_files w) (cleanup_staged_restore_files stage f)"
      using staged_and_cleaned [OF st [unfolded ok] assms(2)] .
    then show ?thesis using assms(1) Inr st re c ok
      by (auto simp: restore_transaction_def abind_def on_files_def on_db_def split: sum.splits)
  qed
qed

lemma transaction_commits:
  assumes "restore_transaction env inp content pass w = (Inr stage, w1)"
  shows "\<exists>b. parse_backup_bundle (backup_of env) content pass = Inr b
     \<and> restored_from env (si_now inp) b (committed (sw_db w1)) \<and> work (sw_db w1) = committed (sw_db w1)"
proof -
  obtain b where b: "parse_backup_bundle (backup_of env) content pass = Inr b"
    using assms by (cases "parse_backup_bundle (backup_of env) content pass") (auto simp: restore_transaction_def abind_def)
  obtain f where st: "stage_restore_files (pb_logo b) (pb_key b) (sw_files w) = (Inr stage, f)"
    using assms by (auto simp: restore_transaction_def abind_def b on_files_def split: prod.splits sum.splits)
  obtain s where re: "restore_backup_bundle (backup_of env) (pb_data b) (pb_logo b) (pb_key b) (sw_db w) = (Inr (), s)"
    using assms by (auto simp: restore_transaction_def abind_def b on_files_def on_db_def st split: prod.splits sum.splits)
  obtain data rows where d: "validate_backup_data (backup_of env) (pb_data b) (pb_logo b) (pb_key b) = Inr data"
      "insert_tables (be_database (backup_of env)) (be_iso (backup_of env)) data [] backup_table_models = (Inr (), rows)"
      "s = (sw_db w)\<lparr>work := load_rows rows\<rparr>"
    using re by (auto simp: restore_backup_bundle_def abind_def aseq_def split: sum.splits prod.splits)
  let ?s = "audited env inp ''settings.backup.restore'' None None s"
  have "log_only (si_now inp) (load_rows rows) (work ?s)"
    by (auto simp: audited_def write_audit_def fresh_uuid_def d(3) log_only_row)
  then have l: "log_only (si_now inp) (load_rows rows) ((work ?s)\<lparr>sessions := [],
      proxy_sessions := filter (\<lambda>r. dps_dashboard_session_id r = None) (proxy_sessions (work ?s))\<rparr>)"
    by (auto elim!: log_onlyE intro!: log_onlyI simp: load_rows_def empty_db_def)
  have "sw_db w1 = commit (?s\<lparr>work := (work ?s)\<lparr>sessions := [],
      proxy_sessions := filter (\<lambda>r. dps_dashboard_session_id r = None) (proxy_sessions (work ?s))\<rparr>\<rparr>)"
    using assms re by (auto simp: restore_transaction_def abind_def b on_files_def on_db_def st)
  then have "restored_from env (si_now inp) b (committed (sw_db w1))" "work (sw_db w1) = committed (sw_db w1)"
    using d(1,2) l unfolding restored_from_def by (auto simp: commit_def)
  with b show ?thesis by blast
qed

subsection \<open>All or nothing\<close>

text \<open>What no request but a restore changes: the tables but for the log, the files, the peers.\<close>

definition untouched :: "instant \<Rightarrow> ('w, 'm, 'r) settings_world \<Rightarrow> ('w, 'm, 'r) settings_world \<Rightarrow> bool" where
  "untouched now w w' \<longleftrightarrow> quiet now (committed (sw_db w)) (sw_db w') \<and> same_files (sw_files w) (sw_files w') \<and> sw_wg w' = sw_wg w"

lemma restore_failed_untouched:
  assumes "restore_failed env inp f e w1 = (r, w2)"
    and "committed (sw_db w1) = committed (sw_db w) \<and> same_files (sw_files w) (sw_files w1) \<and> sw_wg w1 = sw_wg w"
  shows "untouched (si_now inp) w w2"
proof -
  let ?w = "w1\<lparr>sw_db := audit_commit env inp ''settings.backup.restore.failed'' (rollback (sw_db w1))\<rparr>"
  obtain r' w' where a: "security_alert env inp ''[OPNsense Hub] Security event: backup restore failed''
      (''Backup restore failed for '' @ usr_email (si_user inp) @ '': '' @ exn_detail env e) ?w = (r', w')"
    by (cases "security_alert env inp ''[OPNsense Hub] Security event: backup restore failed''
      (''Backup restore failed for '' @ usr_email (si_user inp) @ '': '' @ exn_detail env e) ?w")
  have "quiet (si_now inp) (committed (sw_db w)) (rollback (sw_db w1))" using assms(2) by (simp add: quiet_def rollback_def)
  then have "quiet (si_now inp) (committed (sw_db w)) (sw_db ?w)" by (simp add: quiet_audit)
  note q = quiet_alert [OF a this]
  obtain r'' s where p: "render_settings env inp ''backup'' (if is_http e then 400 else 500)
      (Some (failed_check f (if is_http e then exn_detail env e else ''Backup restore failed: '' @ exn_detail env e))) (sw_db w') = (r'', s)"
    by (cases "render_settings env inp ''backup'' (if is_http e then 400 else 500)
      (Some (failed_check f (if is_http e then exn_detail env e else ''Backup restore failed: '' @ exn_detail env e))) (sw_db w')")
  have "w2 = w'\<lparr>sw_db := s\<rparr>"
    using assms(1) a q p by (simp add: restore_failed_def aseq_def abind_def on_db_def)
  then show ?thesis using quiet_render [OF p] q assms(2) by (simp add: untouched_def)
qed

lemma follow_up_failed_logs:
  assumes "follow_up_failed env inp f e w2 = (r, w3)" "quiet (si_now inp) d (sw_db w2)"
  shows "quiet (si_now inp) d (sw_db w3)" "\<exists>p. r = Inr p \<and> sr_status p = 500"
proof -
  let ?a = "security_alert env inp ''[OPNsense Hub] Security event: backup restore follow-up failed''
      (''Backup restore committed for '' @ usr_email (si_user inp)
        @ '', but post-commit reconciliation failed: '' @ exn_detail env e) w2"
  obtain r' w' where a: "?a = (r', w')" by (cases ?a)
  note q = quiet_alert [OF a assms(2)]
  let ?p = "render_settings env inp ''backup'' 500
      (Some (failed_check f (''Backup restore committed, but post-commit reconciliation failed: '' @ exn_detail env e))) (sw_db w')"
  obtain r'' s where p: "?p = (r'', s)" by (cases ?p)
  have w3: "w3 = w'\<lparr>sw_db := s\<rparr>" "r = r''"
    using assms(1) a q p by (simp_all add: follow_up_failed_def aseq_def abind_def on_db_def)
  show "quiet (si_now inp) d (sw_db w3)" using quiet_render [OF p] q by (simp add: w3)
  show "\<exists>p. r = Inr p \<and> sr_status p = 500" using p by (auto simp: w3 render_settings_def split: prod.splits)
qed

lemma follow_up_db: "restore_follow_up env stage w1 = (r, w2) \<Longrightarrow> sw_db w2 = sw_db w1"
  by (auto simp: restore_follow_up_def aseq_def abind_def on_files_def on_wg_def split: prod.splits sum.splits)

lemma restore_limited_untouched:
  assumes "restore_limited env inp w = (r, w1)" "quiet (si_now inp) d (sw_db w)"
  shows "quiet (si_now inp) d (sw_db w1) \<and> sw_files w1 = sw_files w \<and> sw_wg w1 = sw_wg w"
    "r = Inr () \<Longrightarrow> sw_db w1 = sw_db w"
proof -
  obtain a l where l: "apply_rate_limit (settings_cfg env) (se_redis env) (se_backend env) (si_now inp) (si_request inp) ''backup-restore''
            (uuid_str (usr_id (si_user inp))) (cfg_rate_limit_backup_restore_attempts (settings_cfg env))
            (cfg_rate_limit_backup_restore_window_seconds (settings_cfg env)) (sw_limits w) = (a, l)"
    by (cases "apply_rate_limit (settings_cfg env) (se_redis env) (se_backend env) (si_now inp) (si_request inp) ''backup-restore''
            (uuid_str (usr_id (si_user inp))) (cfg_rate_limit_backup_restore_attempts (settings_cfg env))
            (cfg_rate_limit_backup_restore_window_seconds (settings_cfg env)) (sw_limits w)") auto
  have q: "quiet (si_now inp) d (audit_commit env inp ''settings.backup.restore.rate_limited'' (sw_db w))"
    by (rule quiet_audit [OF assms(2)])
  show "quiet (si_now inp) d (sw_db w1) \<and> sw_files w1 = sw_files w \<and> sw_wg w1 = sw_wg w" "r = Inr () \<Longrightarrow> sw_db w1 = sw_db w"
    using assms l q
    by (auto simp: restore_limited_def aseq_def abind_def split: sum.splits exn.splits prod.splits dest!: quiet_alert)
qed

text \<open>A confirmed restore, once the upload is read.\<close>

definition login_again :: "settings \<Rightarrow> settings_reply" where
  "login_again cfg = (redirect ''/login'')\<lparr>sr_deleted_cookies := [cfg_session_cookie_name cfg]\<rparr>"

definition restored_reply :: "settings \<Rightarrow> settings_reply res \<Rightarrow> bool" where
  "restored_reply cfg r \<longleftrightarrow> r = Inr (login_again cfg) \<or> (\<exists>p. r = Inr p \<and> sr_status p = 500)"

lemma restore_committed:
  assumes run: "(case restore_follow_up env stage w1 of
           (Inl e, w2) \<Rightarrow> follow_up_failed env inp f e w2
         | (Inr _, w2) \<Rightarrow> (Inr (login_again (settings_cfg env)), w2)) = (r, w')"
    and "quiet (si_now inp) d (sw_db w1)"
  shows "quiet (si_now inp) d (sw_db w') \<and> restored_reply (settings_cfg env) r"
proof -
  obtain u w2 where u: "restore_follow_up env stage w1 = (u, w2)" by (cases "restore_follow_up env stage w1")
  have q: "quiet (si_now inp) d (sw_db w2)" using follow_up_db [OF u] assms(2) by simp
  show ?thesis
  proof (cases u)
    case (Inl e)
    then have "follow_up_failed env inp f e w2 = (r, w')" using run u by simp
    from follow_up_failed_logs [OF this q] show ?thesis by (auto simp: restored_reply_def)
  next
    case (Inr x)
    then show ?thesis using run u q by (auto simp: restored_reply_def)
  qed
qed

lemma restore_content:
  assumes run: "(case restore_transaction env inp content pass w of
      (Inl e, w1) \<Rightarrow> restore_failed env inp f e w1
    | (Inr stage, w1) \<Rightarrow>
        (case restore_follow_up env stage w1 of
           (Inl e, w2) \<Rightarrow> follow_up_failed env inp f e w2
         | (Inr _, w2) \<Rightarrow> (Inr (login_again (settings_cfg env)), w2))) = (r, w')"
    and old: "\<forall>t\<in>set (hf_temps (sw_files w)). fst t < hf_next (sw_files w)"
  shows "untouched (si_now inp) w w'
     \<or> (\<exists>b. parse_backup_bundle (backup_of env) content pass = Inr b
          \<and> restored_from env (si_now inp) b (committed (sw_db w')) \<and> restored_reply (settings_cfg env) r)"
proof -
  obtain t w1 where t: "restore_transaction env inp content pass w = (t, w1)" by (cases "restore_transaction env inp content pass w")
  show ?thesis
  proof (cases t)
    case (Inl e)
    have "restore_failed env inp f e w1 = (r, w')" using run t Inl by simp
    then show ?thesis using restore_failed_untouched transaction_fails [OF t [unfolded Inl] old] by blast
  next
    case (Inr stage)
    obtain b where b: "parse_backup_bundle (backup_of env) content pass = Inr b"
        "restored_from env (si_now inp) b (committed (sw_db w1))" "work (sw_db w1) = committed (sw_db w1)"
      using transaction_commits [OF t [unfolded Inr]] by blast
    obtain rows where rows: "log_only (si_now inp) (load_rows rows) (committed (sw_db w1))"
        "\<And>d. log_only (si_now inp) (load_rows rows) d \<Longrightarrow> restored_from env (si_now inp) b d"
      using b(2) unfolding restored_from_def by blast
    have run': "(case restore_follow_up env stage w1 of
           (Inl e, w2) \<Rightarrow> follow_up_failed env inp f e w2
         | (Inr _, w2) \<Rightarrow> (Inr (login_again (settings_cfg env)), w2)) = (r, w')"
      using run t Inr by simp
    have "quiet (si_now inp) (load_rows rows) (sw_db w1)" using b(3) rows(1) by (simp add: quiet_def)
    from restore_committed [OF run' this] show ?thesis using b(1) rows(2) by (auto simp: quiet_def)
  qed
qed

lemma restore_reaches:
  assumes h: "restore_settings_backup env inp f w = (r, w0)" and q0: "quiet (si_now inp) (committed (sw_db w)) (sw_db w)"
  shows "untouched (si_now inp) w w0
     \<or> (\<exists>content wl. usr_role (si_user inp) = ''administrator'' \<and> strip (bf_confirmation f) = RESTORE_CONFIRMATION_PHRASE
          \<and> read_backup_upload (settings_cfg env) f = Inr content
          \<and> sw_db wl = sw_db w \<and> sw_files wl = sw_files w \<and> sw_wg wl = sw_wg w
          \<and> (case restore_transaction env inp content (clean_optional (Some (bf_passphrase f))) wl of
              (Inl e, w1) \<Rightarrow> restore_failed env inp f e w1
            | (Inr stage, w1) \<Rightarrow>
                (case restore_follow_up env stage w1 of
                   (Inl e, w2) \<Rightarrow> follow_up_failed env inp f e w2
                 | (Inr _, w2) \<Rightarrow> (Inr (login_again (settings_cfg env)), w2))) = (r, w0))"
proof -
  note defs = restore_settings_backup_def aseq_def abind_def
  obtain l wl where l: "restore_limited env inp w = (l, wl)" by (cases "restore_limited env inp w")
  note lim = restore_limited_untouched [OF l q0]
  consider "require_admin (si_user inp) \<noteq> Inr ()" | e where "l = Inl e" "require_admin (si_user inp) = Inr ()"
    | "l = Inr ()" "require_admin (si_user inp) = Inr ()" by (cases l) auto
  then show ?thesis
  proof cases
    case 1
    then have "w0 = w" using h by (cases "require_admin (si_user inp)") (auto simp: defs)
    then show ?thesis using q0 by (simp add: untouched_def)
  next
    case 2
    then have "w0 = wl" using h l by (simp add: defs)
    then show ?thesis using lim by (simp add: untouched_def)
  next
    case 3
    note go = h l 3 lim q0 and db = lim(2) [OF 3(1)]
    consider "strip (bf_confirmation f) \<noteq> RESTORE_CONFIRMATION_PHRASE"
      | e where "strip (bf_confirmation f) = RESTORE_CONFIRMATION_PHRASE" "read_backup_upload (settings_cfg env) f = Inl e"
      | "strip (bf_confirmation f) = RESTORE_CONFIRMATION_PHRASE" "read_backup_upload (settings_cfg env) f = Inr []"
      | content where "strip (bf_confirmation f) = RESTORE_CONFIRMATION_PHRASE"
          "read_backup_upload (settings_cfg env) f = Inr content" "content \<noteq> []"
      by (cases "read_backup_upload (settings_cfg env) f") auto
    then show ?thesis
    proof cases
      case 1
      then show ?thesis using go
        by (auto simp: defs on_db_def untouched_def split: prod.splits dest!: quiet_render intro: quiet_audit)
    next
      case 2
      then show ?thesis using go by (simp add: defs untouched_def)
    next
      case 3
      then show ?thesis using go by (auto simp: defs on_db_def untouched_def intro: quiet_audit)
    next
      case 4
      have "usr_role (si_user inp) = ''administrator''" using 3(2) by (simp add: require_admin_def split: if_splits)
      moreover have "(case restore_transaction env inp content (clean_optional (Some (bf_passphrase f))) wl of
              (Inl e, w1) \<Rightarrow> restore_failed env inp f e w1
            | (Inr stage, w1) \<Rightarrow>
                (case restore_follow_up env stage w1 of
                   (Inl e, w2) \<Rightarrow> follow_up_failed env inp f e w2
                 | (Inr _, w2) \<Rightarrow> (Inr (login_again (settings_cfg env)), w2))) = (r, w0)"
        unfolding login_again_def using go 4 by (simp add: defs)
      ultimately show ?thesis using 4(1,2) lim(1) db by blast
    qed
  qed
qed


subsection \<open>From one Hub to another\<close>

lemma clean_optional_idem: "clean_optional (clean_optional v) = clean_optional v"
  by (auto simp: clean_optional_def Let_def strip_strip split: option.splits)

lemma no_empty_export: "archive_laws env \<Longrightarrow> decrypt_backup_payload env [] p \<noteq> Inr (be_zip env (m # ms))"
proof
  assume a: "archive_laws env" and d: "decrypt_backup_payload env [] p = Inr (be_zip env (m # ms))"
  have "json_loads (be_float env) dict_hook [] = None"
    by (simp add: json_loads_def skip_ws_def scan_word_def scan_number_def scan_digits_def)
  then have "be_zip env (m # ms) = []" using d by (simp add: decrypt_backup_payload_def)
  moreover have "startswith (be_zip env (m # ms)) ''PK''" using a by (cases m) (simp add: archive_laws_def)
  ultimately show False by simp
qed

lemma stage_valid_logo:
  assumes "validate_logo cfg logo = Inr ()"
  shows "\<exists>stage f'. stage_restore_files logo key f = (Inr stage, f')"
  using assms
  by (auto simp: validate_logo_def stage_restore_files_def abind_def rbind_Inr_iff all_ok_iff split: option.splits prod.splits)

lemma log_only_signed_out:
  assumes "log_only now d x" "sessions d = []" "proxy_sessions d = []"
  shows "x\<lparr>sessions := [], proxy_sessions := filter P (proxy_sessions x)\<rparr> = x"
proof -
  have "sessions x = []" "proxy_sessions x = []" using assms by (auto elim!: log_onlyE)
  then show ?thesis by (cases x) simp
qed

lemma transaction_restores:
  assumes p: "parse_backup_bundle (backup_of env) content pass = Inr b" and logo: "validate_logo cfg (pb_logo b) = Inr ()"
    and re: "\<And>s. restore_backup_bundle (backup_of env) (pb_data b) (pb_logo b) (pb_key b) s = (Inr (), s\<lparr>work := kept_tables d\<rparr>)"
  shows "\<exists>stage w1. restore_transaction env inp content pass w = (Inr stage, w1) \<and> quiet (si_now inp) (kept_tables d) (sw_db w1)"
proof -
  obtain stage f' where st: "stage_restore_files (pb_logo b) (pb_key b) (sw_files w) = (Inr stage, f')"
    using stage_valid_logo [OF logo] by blast
  let ?s = "audited env inp ''settings.backup.restore'' None None ((sw_db w)\<lparr>work := kept_tables d\<rparr>)"
  have "log_only (si_now inp) (kept_tables d) (work ?s)"
    by (auto simp: audited_def write_audit_def fresh_uuid_def log_only_row)
  then have "log_only (si_now inp) (kept_tables d) ((work ?s)\<lparr>sessions := [],
      proxy_sessions := filter (\<lambda>r. dps_dashboard_session_id r = None) (proxy_sessions (work ?s))\<rparr>)"
    by (subst log_only_signed_out [of _ "kept_tables d"]) (simp_all add: kept_tables_def)
  then show ?thesis
    by (simp add: restore_transaction_def abind_def p on_files_def on_db_def st re quiet_def commit_def)
qed


subsection \<open>An example\<close>

text \<open>A Hub whose archive is restored on a Hub that was just installed.\<close>

definition example_settings_env :: "(unit, unit, unit) settings_env" where
  "example_settings_env = \<lparr>se_crypto = example_crypto,
     se_notify = \<lparr>nc_cfg = example_limits example_hub, nc_fernet = be_fernet (example_backup_env default_settings), nc_tz = utc_zone\<rparr>,
     se_mail = \<lparr>smtp_connect = (\<lambda>_ _ m. (None, m)), smtp_deliver = (\<lambda>_ _ _ _ _ m. (None, m)),
       graph_token = (\<lambda>_ _ m. (Inr [], m)), graph_send = (\<lambda>_ _ _ _ _ m. (None, m))\<rparr>,
     se_redis = \<lparr>redis_incr = (\<lambda>_ r. (None, r)), redis_expire = (\<lambda>_ _ r. (None, r))\<rparr>, se_backend = Edge,
     se_wg = \<lparr>we_run = (\<lambda>_ _ w. (Exited 0 [] [], w)), we_agent = (\<lambda>_ _ _ _ w. (AgentTimeout, w))\<rparr>,
     se_backup = example_backup_env (example_limits example_hub), se_order_audit = id, se_order_events = id,
     se_newest = (\<lambda>_. None), se_parse_local = (\<lambda>_. None), se_qr_svg = id, se_exn_text = (\<lambda>_. [])\<rparr>"

definition example_settings_input :: settings_input where
  "example_settings_input = \<lparr>si_now = 0,
     si_request = \<lparr>rq_method = ''POST'', rq_path = ''/settings/backup/restore'', rq_client = None,
       rq_headers = (\<lambda>_. None), rq_cookies = (\<lambda>_. None), rq_hostname = Some ''hub''\<rparr>,
     si_user = example_user, si_salt = replicate 16 CHR ''s'', si_random = [], si_nonces = (0, 0)\<rparr>"

definition example_settings_world :: "hub_db \<Rightarrow> hub_files \<Rightarrow> (unit, unit, unit) settings_world" where
  "example_settings_world db files = \<lparr>sw_db = open_session db 9, sw_files = files,
     sw_wg = \<lparr>wg_key_file = None, wg_key_mode = None, wg_config_file = None, wg_config_mode = None, wg_ext = ()\<rparr>,
     sw_mail = (), sw_limits = ([], ())\<rparr>"

definition example_form :: "string \<Rightarrow> string \<Rightarrow> string backup_form" where
  "example_form blob confirmation = \<lparr>bf_read = (\<lambda>n u. (take n u, drop n u)), bf_upload = blob, bf_filename = Some ''hub.opnhub'',
     bf_passphrase = ''pw'', bf_confirmation = confirmation\<rparr>"

lemma example_settings_backup: "backup_of example_settings_env = example_backup_env (example_limits example_hub)"
  by (simp add: backup_of_def example_settings_env_def example_backup_env_def)

lemma example_upload:
  "int (length blob) \<le> cfg_max_backup_restore_bytes (settings_cfg example_settings_env) \<Longrightarrow>
   read_backup_upload (settings_cfg example_settings_env) (example_form blob c) = Inr blob"
  by (simp add: read_backup_upload_def read_upload_limited_def example_form_def
      read_upload_loop_faithful [where rd = "\<lambda>n u. (take n u, drop n u)"] faithful_reader_def)

lemma example_export_page:
  obtains blob name media w where "export_settings_backup example_settings_env example_settings_input ''pw''
      (example_settings_world example_hub example_hub_files) = (Inr (attachment blob name media), w)"
    "int (length blob) \<le> cfg_max_backup_restore_bytes (settings_cfg example_settings_env)"
proof -
  have "device_backups example_hub = []" by (simp add: example_hub_def empty_db_def)
  then obtain blob where e: "export_backup_bundle (example_backup_env (example_limits example_hub)) 0 (replicate 16 CHR ''s'') 0
      example_hub_files example_hub (Some ''pw'') = Inr (blob, ''opnsense-hub-backup-'' @ export_stamp 0 @ ''.opnhub'', ''application/octet-stream'')"
    using example_export by blast
  have pw: "clean_optional (Some ''pw'') = Some ''pw''" by code_simp
  have cfg: "be_cfg (example_backup_env (example_limits example_hub)) = settings_cfg example_settings_env"
    by (simp add: example_backup_env_def example_settings_env_def)
  have v: "si_now example_settings_input = 0" "si_salt example_settings_input = replicate 16 CHR ''s''"
    "fst (si_nonces example_settings_input) = 0" "require_admin (si_user example_settings_input) = Inr ()"
    "sw_files (example_settings_world example_hub example_hub_files) = example_hub_files"
    "work (sw_db (example_settings_world example_hub example_hub_files)) = example_hub"
    by (simp_all add: example_settings_input_def require_admin_def example_user_def example_settings_world_def open_session_def)
  show thesis
  proof (rule that)
    show "export_settings_backup example_settings_env example_settings_input ''pw'' (example_settings_world example_hub example_hub_files)
      = (Inr (attachment blob ''application/octet-stream'' (''opnsense-hub-backup-'' @ export_stamp 0 @ ''.opnhub'')),
         (example_settings_world example_hub example_hub_files)\<lparr>sw_db := audit_commit example_settings_env example_settings_input
            ''settings.backup.export'' (sw_db (example_settings_world example_hub example_hub_files))\<rparr>)"
      unfolding export_settings_backup_def aseq_def abind_def alift_def v pw example_settings_backup sum.case prod.case
      unfolding v e sum.case prod.case by (rule refl)
    show "int (length blob) \<le> cfg_max_backup_restore_bytes (settings_cfg example_settings_env)"
      using export_Inr(5) [OF e] unfolding cfg .
  qed
qed



end
