(* ===== verification/Settings_Facts.thy ===== *)
theory Settings_Facts
  imports Settings_Router
begin

text \<open>
  The forms of the settings keep the keys of the database, also those of the tables that a backup leaves out: what belongs to
  a deleted user or company goes with it.
\<close>

subsection \<open>The keys of the schema\<close>

text \<open>\<open>integrity\<close> holds the constraints of the tables in a backup; these are the foreign keys of the others.\<close>

definition signed_in_keys :: "hub_db \<Rightarrow> bool" where
  "signed_in_keys d \<longleftrightarrow>
     (let user_ids = map usr_id (users d); device_ids = map dev_id (devices d) in
      list_all (\<lambda>r. pml_user_id r \<in> set user_ids) (pending_mfa_logins d)
    \<and> list_all (\<lambda>r. ses_user_id r \<in> set user_ids) (sessions d)
    \<and> list_all (\<lambda>r. udf_user_id r \<in> set user_ids \<and> refers (udf_company_id r) (map com_id (companies d))) (dashboard_filters d)
    \<and> list_all (\<lambda>r. uaa_user_id r \<in> set user_ids) (attention_acks d)
    \<and> list_all (\<lambda>r. dps_user_id r \<in> set user_ids \<and> dps_device_id r \<in> set device_ids
          \<and> refers (dps_dashboard_session_id r) (map ses_id (sessions d))) (proxy_sessions d))"

definition keys_hold :: "hub_db \<Rightarrow> bool" where
  "keys_hold d \<longleftrightarrow> integrity d \<and> signed_in_keys d"

text \<open>The identifiers to come are new, and the user of the request is stored.\<close>

definition keyed :: "user \<Rightarrow> db_session \<Rightarrow> bool" where
  "keyed a s \<longleftrightarrow> keys_hold (work s) \<and> usr_id a \<in> set (map usr_id (users (work s)))
     \<and> list_all (\<lambda>r. usr_id r < uuid_supply s) (users (work s))
     \<and> list_all (\<lambda>r. com_id r < uuid_supply s) (companies (work s))
     \<and> list_all (\<lambda>r. al_id r < uuid_supply s) (audit_logs (work s))"

lemmas key_defs = keys_hold_def integrity_def unique_keys_def foreign_keys_def signed_in_keys_def Let_def list_all_iff

lemma refers_simps [simp]:
  "refers None ids" "refers (Some i) ids \<longleftrightarrow> i \<in> set ids"
  by (simp_all add: refers_def)

lemma refers_mono: "refers x ids \<Longrightarrow> set ids \<subseteq> set ids' \<Longrightarrow> refers x ids'"
  by (auto simp: refers_def split: option.splits)

lemma map_update_where: "(\<And>x. P x \<Longrightarrow> f (g x) = f x) \<Longrightarrow> map f (update_where P g xs) = map f xs"
  by (induction xs) (auto simp: update_where_def)

lemma keyed_audited:
  assumes "keyed a s" "a = si_user inp" "refers c (map com_id (companies (work s)))"
  shows "keyed a (audited env inp action (Some (usr_id a)) c s)"
  using assms by (auto simp: keyed_def audited_def write_audit_def fresh_uuid_def key_defs less_Suc_eq)

subsection \<open>Rows that are added and changed\<close>

lemma keys_add_user:
  "keys_hold d \<Longrightarrow> usr_id u \<notin> set (map usr_id (users d)) \<Longrightarrow> usr_email u \<notin> set (map usr_email (users d)) \<Longrightarrow>
   keys_hold (d\<lparr>users := users d @ [u]\<rparr>)"
  by (auto simp: key_defs intro: refers_mono)

lemma emails_put_user:
  assumes "distinct (map usr_email xs)" "distinct (map usr_id xs)" "\<forall>r\<in>set xs. usr_email r = usr_email u \<longrightarrow> usr_id r = usr_id u"
  shows "distinct (map usr_email (update_where (\<lambda>r. usr_id r = usr_id u) (\<lambda>_. u) xs))"
proof -
  have "inj_on usr_email (set xs)" "inj_on usr_id (set xs)" "distinct xs" using assms(1,2) by (simp_all add: distinct_map)
  then have "inj_on (\<lambda>r. if usr_id r = usr_id u then usr_email u else usr_email r) (set xs)"
    using assms(3) by (auto simp: inj_on_def split: if_splits)
  moreover have "map usr_email (update_where (\<lambda>r. usr_id r = usr_id u) (\<lambda>_. u) xs)
      = map (\<lambda>r. if usr_id r = usr_id u then usr_email u else usr_email r) xs" by (simp add: update_where_def)
  ultimately show ?thesis using \<open>distinct xs\<close> by (simp add: distinct_map)
qed

lemma keys_put_user:
  assumes "keys_hold d" "\<forall>r\<in>set (users d). usr_email r = usr_email u \<longrightarrow> usr_id r = usr_id u"
  shows "keys_hold (put_user u d)"
proof -
  have "map usr_id (update_where (\<lambda>r. usr_id r = usr_id u) (\<lambda>_. u) (users d)) = map usr_id (users d)"
    by (rule map_update_where) simp
  with assms emails_put_user [of "users d" u] show ?thesis by (simp add: key_defs put_user_def del: set_map)
qed

lemma keys_company:
  "keys_hold d \<Longrightarrow> i \<notin> set (map com_id (companies d)) \<Longrightarrow> j \<in> set (map usr_id (users d)) \<Longrightarrow>
   keys_hold (d\<lparr>companies := companies d @ [\<lparr>com_id = i, com_name = n, com_created_at = t\<rparr>],
     company_users := company_users d @ [\<lparr>cu_company_id = i, cu_user_id = j, cu_role = ''owner'', cu_created_at = t\<rparr>]\<rparr>)"
  by (auto simp: key_defs intro: refers_mono)

lemma keys_rename_company:
  "keys_hold d \<Longrightarrow> keys_hold (d\<lparr>companies := update_where P (\<lambda>r. r\<lparr>com_name := n\<rparr>) (companies d)\<rparr>)"
proof -
  have "map com_id (update_where P (\<lambda>r. r\<lparr>com_name := n\<rparr>) (companies d)) = map com_id (companies d)"
    by (rule map_update_where) simp
  then show "keys_hold d \<Longrightarrow> ?thesis" by (simp add: key_defs del: set_map)
qed

lemma keys_integration:
  assumes "keys_hold d" "map ints_id rows = map ints_id (integration_rows d)
      \<or> get_integration d = None \<and> rows = integration_rows d @ [default_integration now]"
  shows "keys_hold (d\<lparr>integration_rows := rows\<rparr>)"
proof -
  have "ints_id (default_integration now) = 1" by (simp add: default_integration_def)
  then have "distinct (map ints_id rows)"
    using assms by (auto simp: key_defs get_integration_def find_None_iff)
  then show ?thesis using assms(1) by (simp add: key_defs del: set_map)
qed

subsection \<open>Rows that are deleted\<close>

lemma refers_iff: "refers x ids \<longleftrightarrow> (\<forall>i. x = Some i \<longrightarrow> i \<in> set ids)"
  by (auto simp: refers_def split: option.splits)

lemma image_key_removed: "f ` {r \<in> A. f r \<noteq> i} = f ` A - {i}"
  by auto

lemma image_filtered:
  "x \<in> f ` A \<Longrightarrow> x \<notin> f ` {r \<in> A. P r} \<Longrightarrow> x \<in> f ` {r \<in> A. \<not> P r}"
  by auto

lemma keys_delete_user:
  assumes "keys_hold d"
  shows "keys_hold (delete_user_row i d)"
proof -
  have m: "map ec_id (update_where (\<lambda>r. ec_created_by r = Some i) (\<lambda>r. r\<lparr>ec_created_by := None\<rparr>) xs) = map ec_id xs"
    "map al_id (update_where (\<lambda>r. al_user_id r = Some i) (\<lambda>r. r\<lparr>al_user_id := None\<rparr>) as) = map al_id as"
    "map dev_id (update_where (\<lambda>r. dev_health_acknowledged_by r = Some i) (\<lambda>r. r\<lparr>dev_health_acknowledged_by := None\<rparr>) ds) = map dev_id ds"
    "map dev_wg_public_key (update_where (\<lambda>r. dev_health_acknowledged_by r = Some i) (\<lambda>r. r\<lparr>dev_health_acknowledged_by := None\<rparr>) ds)
      = map dev_wg_public_key ds"
    "map dev_wg_tunnel_ip (update_where (\<lambda>r. dev_health_acknowledged_by r = Some i) (\<lambda>r. r\<lparr>dev_health_acknowledged_by := None\<rparr>) ds)
      = map dev_wg_tunnel_ip ds" for xs as ds
    by (rule map_update_where, simp)+
  have "unique_keys (delete_user_row i d)"
    using assms by (simp add: keys_hold_def integrity_def unique_keys_def delete_user_row_def Let_def m distinct_map_filter del: set_map)
  moreover have "foreign_keys (delete_user_row i d)"
    using assms unfolding keys_hold_def integrity_def foreign_keys_def delete_user_row_def Let_def
    by (auto simp: m list_all_iff set_update_where refers_iff image_key_removed)
  moreover have "signed_in_keys (delete_user_row i d)"
    using assms unfolding keys_hold_def signed_in_keys_def delete_user_row_def Let_def
    by (auto simp: m list_all_iff refers_iff image_key_removed split: option.split intro: image_filtered)
  ultimately show ?thesis using assms by (simp add: keys_hold_def integrity_def delete_user_row_def Let_def)
qed

lemma keys_delete_company:
  assumes "keys_hold d"
  shows "keys_hold (delete_company_row i d)"
proof -
  have "unique_keys (delete_company_row i d)"
    using assms by (simp add: keys_hold_def integrity_def unique_keys_def delete_company_row_def Let_def comp_def distinct_map_filter del: set_map)
  moreover have "foreign_keys (delete_company_row i d)"
    using assms unfolding keys_hold_def integrity_def foreign_keys_def delete_company_row_def Let_def
    by (auto simp: list_all_iff refers_iff image_key_removed split: option.split if_splits intro: image_filtered)
  moreover have "signed_in_keys (delete_company_row i d)"
    using assms unfolding keys_hold_def signed_in_keys_def delete_company_row_def Let_def
    by (auto simp: list_all_iff set_update_where refers_iff image_key_removed intro: image_filtered)
  ultimately show ?thesis using assms by (simp add: keys_hold_def integrity_def delete_company_row_def Let_def list_all_iff)
qed

subsection \<open>Requests\<close>

text \<open>A change of the tables that keeps the keys, whether it succeeds or not; a company it names exists.\<close>

definition keeps :: "user \<Rightarrow> (db_session, uuid option) act \<Rightarrow> bool" where
  "keeps a change \<longleftrightarrow> (\<forall>s. keyed a s \<longrightarrow> keys_hold (committed s) \<longrightarrow>
     (case change s of
        (Inl e, s') \<Rightarrow> keys_hold (committed s')
      | (Inr c, s') \<Rightarrow> keys_hold (committed s') \<and> keyed a s' \<and> refers c (map com_id (companies (work s')))))"

lemma keepsI:
  assumes "\<And>s r s'. keyed a s \<Longrightarrow> keys_hold (committed s) \<Longrightarrow> change s = (r, s') \<Longrightarrow>
    keys_hold (committed s') \<and> (\<forall>c. r = Inr c \<longrightarrow> keyed a s' \<and> refers c (map com_id (companies (work s'))))"
  shows "keeps a change"
  unfolding keeps_def
proof (intro allI impI)
  fix s
  assume s: "keyed a s" "keys_hold (committed s)"
  obtain r s' where c: "change s = (r, s')" by (cases "change s")
  from assms [OF s c] show "case change s of
      (Inl e, s') \<Rightarrow> keys_hold (committed s')
    | (Inr c, s') \<Rightarrow> keys_hold (committed s') \<and> keyed a s' \<and> refers c (map com_id (companies (work s')))"
    unfolding c by (cases r) simp_all
qed

lemma find_in: "find P xs = Some x \<Longrightarrow> x \<in> set xs \<and> P x"
  by (auto simp: find_Some_iff)

lemma keyed_put_user:
  assumes "keyed a s" "usr_id u = usr_id t" "\<forall>r\<in>set (users (work s)). usr_email r = usr_email u \<longrightarrow> usr_id r = usr_id u"
  shows "keyed a (s\<lparr>work := put_user u (work s)\<rparr>)"
proof -
  have m: "map usr_id (users (put_user u (work s))) = map usr_id (users (work s))"
    unfolding put_user_def by (simp del: map_map) (rule map_update_where, simp)
  have "list_all (\<lambda>i. i < uuid_supply s) (map usr_id (users (work s)))" using assms(1) by (simp add: keyed_def list_all_iff)
  then have "list_all (\<lambda>r. usr_id r < uuid_supply s) (users (put_user u (work s)))"
    unfolding m [symmetric] by (simp add: list_all_iff)
  moreover have "keys_hold (put_user u (work s))" using assms(1,3) by (intro keys_put_user) (simp_all add: keyed_def)
  moreover have "usr_id a \<in> set (map usr_id (users (put_user u (work s))))" unfolding m using assms(1) by (simp add: keyed_def)
  ultimately show ?thesis using assms(1) by (simp add: keyed_def put_user_def del: set_map)
qed

lemma keeps_change_user:
  assumes "\<And>d t u. keys_hold d \<Longrightarrow> t \<in> set (users d) \<Longrightarrow> change d t = Inr u \<Longrightarrow>
    usr_id u = usr_id t \<and> (\<forall>r\<in>set (users d). usr_email r = usr_email u \<longrightarrow> usr_id r = usr_id u)"
  shows "keeps a (change_user i change)"
proof (rule keepsI)
  fix s r s'
  assume s: "keyed a s" "keys_hold (committed s)" "change_user i change s = (r, s')"
  show "keys_hold (committed s') \<and> (\<forall>c. r = Inr c \<longrightarrow> keyed a s' \<and> refers c (map com_id (companies (work s'))))"
  proof (cases "get_user (work s) i")
    case None
    then show ?thesis using s by (auto simp: change_user_def)
  next
    case (Some t)
    then have t: "t \<in> set (users (work s))" by (simp add: get_user_def find_in)
    show ?thesis
    proof (cases "change (work s) t")
      case (Inl e)
      then show ?thesis using s Some by (auto simp: change_user_def)
    next
      case (Inr u)
      have "keys_hold (work s)" using s(1) by (simp add: keyed_def)
      note c = assms [OF this t Inr]
      then have "keyed a (s\<lparr>work := put_user u (work s)\<rparr>)" using s(1) by (intro keyed_put_user) auto
      then show ?thesis using s Some Inr by (auto simp: change_user_def)
    qed
  qed
qed

lemma keeps_edited_user: "keeps a (change_user i (edited_user env inp f))"
  by (rule keeps_change_user) (auto simp: edited_user_def Let_def list_ex_iff split: if_splits)

lemma keeps_same_email:
  assumes "\<And>d t u. change d t = Inr u \<Longrightarrow> usr_id u = usr_id t \<and> usr_email u = usr_email t"
  shows "keeps a (change_user i change)"
proof (rule keeps_change_user)
  fix d t u
  assume a: "keys_hold d" "t \<in> set (users d)" "change d t = Inr u"
  from a(1) have "inj_on usr_email (set (users d))" by (simp add: key_defs distinct_map)
  with a(2) assms [OF a(3)] show "usr_id u = usr_id t \<and> (\<forall>r\<in>set (users d). usr_email r = usr_email u \<longrightarrow> usr_id r = usr_id u)"
    by (auto simp: inj_on_def)
qed

lemma keeps_insert_user: "keeps a (insert_user env inp f)"
proof (rule keepsI)
  fix s r s'
  assume s: "keyed a s" "keys_hold (committed s)" "insert_user env inp f s = (r, s')"
  show "keys_hold (committed s') \<and> (\<forall>c. r = Inr c \<longrightarrow> keyed a s' \<and> refers c (map com_id (companies (work s'))))"
  proof (cases r)
    case (Inl e)
    then show ?thesis using s by (auto simp: insert_user_def Let_def fresh_uuid_def split: if_splits)
  next
    case (Inr c)
    define u where "u = last (users (work s'))"
    have u: "work s' = (work s)\<lparr>users := users (work s) @ [u]\<rparr>" "usr_id u = uuid_supply s" "c = None"
        "usr_email u \<notin> set (map usr_email (users (work s)))" "uuid_supply s' = Suc (uuid_supply s)" "committed s' = committed s"
      using s(3) Inr by (auto simp: u_def insert_user_def Let_def fresh_uuid_def list_ex_iff split: if_splits)
    have k: "keys_hold (work s)" "usr_id u \<notin> set (map usr_id (users (work s)))"
      using s(1) u(2) by (auto simp: keyed_def list_all_iff)
    have "keys_hold (work s')" unfolding u(1) by (rule keys_add_user [OF k u(4)])
    moreover have "users (work s') = users (work s) @ [u]" "companies (work s') = companies (work s)"
      "audit_logs (work s') = audit_logs (work s)" by (simp_all add: u(1))
    ultimately have "keyed a s'" using s(1) u(2,5) by (auto simp: keyed_def list_all_iff less_Suc_eq)
    then show ?thesis using s(2) u(3,6) Inr by simp
  qed
qed

lemma keeps_change_integration: "keeps a (change_integration inp change)"
proof (rule keepsI)
  fix s r s'
  assume s: "keyed a s" "keys_hold (committed s)" "change_integration inp change s = (r, s')"
  obtain ints s1 where g: "get_or_create_integration_settings (si_now inp) s = (ints, s1)"
    by (cases "get_or_create_integration_settings (si_now inp) s")
  have "keyed a s1 \<and> keys_hold (committed s1)"
    using s(1,2) g keys_integration [of "work s" "integration_rows (work s) @ [default_integration (si_now inp)]" "si_now inp"]
    by (auto simp: get_or_create_integration_settings_def keyed_def split: option.splits)
  moreover have "ints_id ints = 1"
    using g by (auto simp: get_or_create_integration_settings_def get_integration_def default_integration_def dest: find_in split: option.splits)
  moreover have "keys_hold (put_integration (x\<lparr>ints_id := 1, ints_updated_at := t\<rparr>) d)" if "keys_hold d" for x t d
    unfolding put_integration_def by (rule keys_integration [OF that], rule disjI1, rule map_update_where) simp
  ultimately show "keys_hold (committed s') \<and> (\<forall>c. r = Inr c \<longrightarrow> keyed a s' \<and> refers c (map com_id (companies (work s'))))"
    using s(3) g by (auto simp: change_integration_def keyed_def put_integration_def split: sum.splits)
qed

lemma keeps_create_company:
  "keeps (si_user inp) (\<lambda>s0. if strip name = [] then (Inl company_name_required, s0)
     else (case fresh_uuid s0 of (i, s) \<Rightarrow>
       (Inr (Some i), s\<lparr>work := (work s)\<lparr>
          companies := companies (work s) @ [\<lparr>com_id = i, com_name = strip name, com_created_at = si_now inp\<rparr>],
          company_users := company_users (work s) @
            [\<lparr>cu_company_id = i, cu_user_id = usr_id (si_user inp), cu_role = ''owner'', cu_created_at = si_now inp\<rparr>]\<rparr>\<rparr>)))"
proof (rule keepsI)
  fix s r s'
  assume s: "keyed (si_user inp) s" "keys_hold (committed s)"
    and c: "(if strip name = [] then (Inl company_name_required, s)
     else (case fresh_uuid s of (i, s) \<Rightarrow>
       (Inr (Some i), s\<lparr>work := (work s)\<lparr>
          companies := companies (work s) @ [\<lparr>com_id = i, com_name = strip name, com_created_at = si_now inp\<rparr>],
          company_users := company_users (work s) @
            [\<lparr>cu_company_id = i, cu_user_id = usr_id (si_user inp), cu_role = ''owner'', cu_created_at = si_now inp\<rparr>]\<rparr>\<rparr>))) = (r, s')"
  have "uuid_supply s \<notin> set (map com_id (companies (work s)))" using s(1) by (auto simp: keyed_def list_all_iff)
  with s(1) have "keys_hold ((work s)\<lparr>
      companies := companies (work s) @ [\<lparr>com_id = uuid_supply s, com_name = strip name, com_created_at = si_now inp\<rparr>],
      company_users := company_users (work s) @ [\<lparr>cu_company_id = uuid_supply s, cu_user_id = usr_id (si_user inp),
        cu_role = ''owner'', cu_created_at = si_now inp\<rparr>]\<rparr>)"
    by (intro keys_company) (simp_all add: keyed_def)
  then show "keys_hold (committed s') \<and> (\<forall>c. r = Inr c \<longrightarrow> keyed (si_user inp) s' \<and> refers c (map com_id (companies (work s'))))"
    using s c by (auto simp: fresh_uuid_def keyed_def list_all_iff less_Suc_eq split: if_splits)
qed

lemma keeps_rename_company:
  "keeps a (\<lambda>s. case get_company (work s) i of
       None \<Rightarrow> (Inl not_found, s)
     | Some c \<Rightarrow>
         if strip name = [] then (Inl company_name_required, s)
         else (Inr (Some (com_id c)), s\<lparr>work := (work s)\<lparr>companies :=
            update_where (\<lambda>r. com_id r = com_id c) (\<lambda>r. r\<lparr>com_name := strip name\<rparr>) (companies (work s))\<rparr>\<rparr>))"
proof (rule keepsI)
  have m: "map com_id (update_where P (\<lambda>r. r\<lparr>com_name := n\<rparr>) xs) = map com_id xs" for P n xs
    by (rule map_update_where) simp
  have l: "list_all (\<lambda>r. com_id r < k) (update_where P (\<lambda>r. r\<lparr>com_name := n\<rparr>) xs) \<longleftrightarrow> list_all (\<lambda>r. com_id r < k) xs" for P n xs k
    using arg_cong [OF m [of P n xs], of "list_all (\<lambda>j. j < k)"] by (simp add: list_all_iff)
  fix s r s'
  assume s: "keyed a s" "keys_hold (committed s)"
    and c: "(case get_company (work s) i of
       None \<Rightarrow> (Inl not_found, s)
     | Some c \<Rightarrow>
         if strip name = [] then (Inl company_name_required, s)
         else (Inr (Some (com_id c)), s\<lparr>work := (work s)\<lparr>companies :=
            update_where (\<lambda>r. com_id r = com_id c) (\<lambda>r. r\<lparr>com_name := strip name\<rparr>) (companies (work s))\<rparr>\<rparr>)) = (r, s')"
  then show "keys_hold (committed s') \<and> (\<forall>c. r = Inr c \<longrightarrow> keyed a s' \<and> refers c (map com_id (companies (work s'))))"
    by (auto simp: keyed_def keys_rename_company l m get_company_def dest: find_in split: option.splits if_splits simp del: set_map)
      (auto dest!: find_in)
qed

lemma keyed_delete_user:
  "keyed a s \<Longrightarrow> usr_id a \<noteq> i \<Longrightarrow> keyed a (s\<lparr>work := delete_user_row i (work s)\<rparr>)"
  by (auto simp: keyed_def keys_delete_user) (auto simp: delete_user_row_def Let_def list_all_iff set_update_where)

lemma keeps_delete_user:
  "keeps (si_user inp) (\<lambda>s.
       if i = usr_id (si_user inp) then (Inl (HTTPException 400 ''you cannot delete your own user''), s)
       else case get_user (work s) i of
         None \<Rightarrow> (Inl not_found, s)
       | Some target \<Rightarrow>
           if usr_email target = lower (cfg_initial_admin_email (settings_cfg env))
           then (Inl (HTTPException 400 ''the default administrator user cannot be deleted''), s)
           else (Inr None, s\<lparr>work := delete_user_row (usr_id target) (work s)\<rparr>))"
  by (rule keepsI) (auto simp: get_user_def dest!: find_in intro: keyed_delete_user split: if_splits option.splits)

text \<open>The forms of users, companies and integrations.\<close>

inductive settings_form ::
  "('w, 'm, 'r) settings_env \<Rightarrow> settings_input \<Rightarrow> (('w, 'm, 'r) settings_world, settings_reply) act \<Rightarrow> bool"
  for env inp where
  "settings_form env inp (create_user env inp f)"
| "settings_form env inp (update_user env inp i f)"
| "settings_form env inp (apply_manage_user_mfa env inp i secret)"
| "settings_form env inp (disable_manage_user_mfa env inp i)"
| "settings_form env inp (delete_user env inp i)"
| "settings_form env inp (update_email_settings env inp mail)"
| "settings_form env inp (update_microsoft_settings env inp ms)"
| "settings_form env inp (update_local_ad_settings env inp ad)"
| "settings_form env inp (update_security_settings env inp allowlist)"
| "settings_form env inp (create_settings_company env inp name)"
| "settings_form env inp (update_company env inp i name)"
| "settings_form env inp (delete_company env inp i)"

lemma admin_change_keeps:
  assumes "keeps (si_user inp) change" "keyed (si_user inp) (sw_db w)" "keys_hold (committed (sw_db w))"
    and "admin_change env inp action reply change w = (r, w')"
  shows "keys_hold (committed (sw_db w'))"
proof (cases "require_admin (si_user inp)")
  case (Inl e)
  then show ?thesis using assms(3,4) by (simp add: admin_change_def aseq_def abind_def alift_def)
next
  case (Inr x)
  obtain q s where c: "change (sw_db w) = (q, s)" by (cases "change (sw_db w)")
  note k = assms(1) [unfolded keeps_def, rule_format, OF assms(2,3), unfolded c prod.case]
  show ?thesis
  proof (cases q)
    case (Inl e)
    then show ?thesis using k c Inr assms(4) by (auto simp: admin_change_def aseq_def abind_def alift_def on_db_def)
  next
    case ok: (Inr comp)
    then have "keyed (si_user inp) (audited env inp action (Some (usr_id (si_user inp))) comp s)"
      using k by (intro keyed_audited) auto
    moreover have "w' = w\<lparr>sw_db := commit (audited env inp action (Some (usr_id (si_user inp))) comp s)\<rparr>"
      using c Inr ok assms(4) by (simp add: admin_change_def aseq_def abind_def alift_def on_db_def)
    ultimately show ?thesis by (simp add: keyed_def)
  qed
qed

lemma rendered_mfa_keeps:
  "aseq (alift (require_admin (si_user inp)))
     (on_db (\<lambda>s. (case get_user (work s) i of None \<Rightarrow> Inl not_found | Some managed \<Rightarrow> render_user_mfa env managed st e sec, s))) w
     = (r, w') \<Longrightarrow> sw_db w' = sw_db w"
  by (auto simp: aseq_def abind_def alift_def on_db_def split: sum.splits)

lemma removed_peers_db:
  "on_wg m w = (r, w') \<Longrightarrow> sw_db w' = sw_db w"
  by (auto simp: on_wg_def split: prod.splits)

lemma delete_company_keeps:
  assumes "keyed (si_user inp) (sw_db w)" "keys_hold (committed (sw_db w))" "delete_company env inp i w = (r, w')"
  shows "keys_hold (committed (sw_db w'))"
proof -
  consider e where "require_admin (si_user inp) = Inl e" | "require_admin (si_user inp) = Inr ()" "get_company (work (sw_db w)) i = None"
    | c where "require_admin (si_user inp) = Inr ()" "get_company (work (sw_db w)) i = Some c"
    by (cases "require_admin (si_user inp)"; cases "get_company (work (sw_db w)) i") auto
  then show ?thesis
  proof cases
    case (3 c)
    let ?m = "on_wg (afor (\<lambda>d. if dev_revoked_at d = None then remove_peer (se_wg env) (settings_cfg env) (dev_wg_public_key d)
        else aret ()) (filter (\<lambda>d. dev_company_id d = com_id c) (devices (work (sw_db w)))))"
    obtain q w1 where m: "?m w = (q, w1)" by (cases "?m w")
    have db: "sw_db w1 = sw_db w" using removed_peers_db [OF m] .
    let ?s = "audited env inp ''settings.company.delete'' (Some (usr_id (si_user inp))) (Some (com_id c)) (sw_db w)"
    have "com_id c \<in> set (map com_id (companies (work (sw_db w))))" using 3(2) by (auto simp: get_company_def dest!: find_in)
    then have "keyed (si_user inp) ?s" by (intro keyed_audited [OF assms(1) refl]) simp
    then have "keys_hold (work ?s)" unfolding keyed_def by (rule conjunct1)
    then have "keys_hold (delete_company_row (com_id c) (work ?s))" by (rule keys_delete_company)
    then show ?thesis using assms(2,3) 3 m db
      by (cases q) (auto simp: delete_company_def aseq_def abind_def alift_def on_db_def)
  qed (use assms(2,3) in \<open>simp_all add: delete_company_def aseq_def abind_def alift_def\<close>)
qed

lemma settings_form_keeps:
  assumes "settings_form env inp h" "keyed (si_user inp) (sw_db w)" "keys_hold (committed (sw_db w))" "h w = (r, w')"
  shows "keys_hold (committed (sw_db w'))"
  using assms(1)
proof cases
  case (2 i f)
  show ?thesis using admin_change_keeps [OF keeps_edited_user assms(2,3)] assms(4) unfolding 2 update_user_def by blast
next
  case (3 i secret)
  have "keeps (si_user inp) (change_user i (\<lambda>_ managed. if \<not> local_user_supports_hub_mfa managed then Inl mfa_managed_elsewhere
      else Inr (managed\<lparr>usr_mfa_secret := x, usr_mfa_enabled := False\<rparr>)))" for x
    by (rule keeps_same_email) (auto split: if_splits)
  note k = admin_change_keeps [OF this assms(2,3)]
  show ?thesis
  proof (cases "clean_optional (Some secret)")
    case None
    have "sw_db w' = sw_db w" by (rule rendered_mfa_keeps [OF assms(4) [unfolded 3 apply_manage_user_mfa_def None option.case]])
    then show ?thesis using assms(3) by simp
  next
    case (Some n)
    then show ?thesis using k assms(4) unfolding 3 apply_manage_user_mfa_def Some option.case by blast
  qed
next
  case (4 i)
  have "keeps (si_user inp) (change_user i (\<lambda>_ managed. if \<not> local_user_supports_hub_mfa managed then Inl mfa_managed_elsewhere
      else Inr (managed\<lparr>usr_mfa_secret := None, usr_mfa_enabled := False\<rparr>)))"
    by (rule keeps_same_email) (auto split: if_splits)
  from admin_change_keeps [OF this assms(2,3)] show ?thesis using assms(4) unfolding 4 disable_manage_user_mfa_def by blast
next
  case (9 allowlist)
  have "keeps (si_user inp) (araise e)" for e by (rule keepsI) (auto simp: araise_def)
  then have "keeps (si_user inp) (if bad then araise e else change_integration inp c)" for bad e c
    using keeps_change_integration by simp
  note k = admin_change_keeps [OF this assms(2,3)]
  obtain valid invalid where p: "parse_allowlist_entries (Some allowlist) = (valid, invalid)"
    by (cases "parse_allowlist_entries (Some allowlist)")
  show ?thesis by (rule k [OF assms(4) [unfolded 9 update_security_settings_def p prod.case]])
next
  case (12 i)
  then show ?thesis using delete_company_keeps assms(2-4) by blast
next
  case (1 f)
  show ?thesis using admin_change_keeps [OF keeps_insert_user assms(2,3)] assms(4) unfolding 1 create_user_def by blast
next
  case (5 i)
  show ?thesis using admin_change_keeps [OF keeps_delete_user assms(2,3)] assms(4) unfolding 5 delete_user_def by blast
next
  case (6 mail)
  show ?thesis using admin_change_keeps [OF keeps_change_integration assms(2,3)] assms(4) unfolding 6 update_email_settings_def by blast
next
  case (7 ms)
  show ?thesis using admin_change_keeps [OF keeps_change_integration assms(2,3)] assms(4) unfolding 7 update_microsoft_settings_def by blast
next
  case (8 ad)
  show ?thesis using admin_change_keeps [OF keeps_change_integration assms(2,3)] assms(4) unfolding 8 update_local_ad_settings_def by blast
next
  case (10 name)
  show ?thesis using admin_change_keeps [OF keeps_create_company assms(2,3)] assms(4) unfolding 10 create_settings_company_def by blast
next
  case (11 i name)
  show ?thesis using admin_change_keeps [OF keeps_rename_company assms(2,3)] assms(4) unfolding 11 update_company_def by blast
qed

lemma settings_form_refused:
  assumes "settings_form env inp h" "usr_role (si_user inp) \<noteq> ''administrator''"
  shows "h w = (Inl (HTTPException 403 ''administrator access required''), w)"
proof -
  have r: "require_admin (si_user inp) = Inl (HTTPException 403 ''administrator access required'')"
    using assms(2) by (simp add: require_admin_def)
  show ?thesis using assms(1)
    by cases (simp_all add: r admin_change_def aseq_def abind_def alift_def create_user_def update_user_def apply_manage_user_mfa_def
      disable_manage_user_mfa_def delete_user_def update_email_settings_def update_microsoft_settings_def
      update_local_ad_settings_def update_security_settings_def create_settings_company_def update_company_def delete_company_def
      split: option.split prod.split)
qed

text \<open>C33. The forms of the settings for users, integrations and companies keep every key of the database, whatever they are given
  and however they end: unique keys stay unique and no stored reference dangles, so nothing of a deleted user or company
  stays behind, no session, pending sign-in, filter, backup or membership; and without the role of an administrator a form is refused
  and changes nothing.\<close>

theorem settings_forms_keep_keys:
  assumes "settings_form env inp h" "committed (sw_db w) = work (sw_db w)" "keyed (si_user inp) (sw_db w)" "handled h w = (r, w')"
  shows "keys_hold (committed (sw_db w')) \<and> work (sw_db w') = committed (sw_db w')
     \<and> (usr_role (si_user inp) \<noteq> ''administrator'' \<longrightarrow>
          r = Inl (HTTPException 403 ''administrator access required'') \<and> w' = w)"
proof -
  obtain w1 where h: "h w = (r, w1)" and w': "w' = w1\<lparr>sw_db := rollback (sw_db w1)\<rparr>"
    using assms(4) by (auto simp: handled_def split: prod.splits)
  have "keys_hold (committed (sw_db w))" using assms(2,3) by (simp add: keyed_def)
  note k = settings_form_keeps [OF assms(1,3) this h]
  have "rollback (sw_db w) = sw_db w" using assms(2) by (simp add: rollback_def)
  then show ?thesis using k settings_form_refused [OF assms(1), of w] h by (auto simp: w')
qed

text \<open>An administrator deletes a user who is signed in, with a saved filter and a code of theirs.\<close>

definition example_keyed_hub :: hub_db where
  "example_keyed_hub = example_hub\<lparr>users := [example_user, example_user\<lparr>usr_id := 4, usr_email := ''b@b.c''\<rparr>],
     dashboard_filters := [\<lparr>udf_id = 5, udf_user_id = 4, udf_name = ''f'', udf_company_id = Some 2, udf_status = None, udf_created_at = 0\<rparr>],
     enrollment_codes := [\<lparr>ec_id = 6, ec_company_id = 2, ec_code_hash = ''h'', ec_expires_at = 1, ec_used_at = None,
       ec_created_by = Some 4, ec_created_at = 0\<rparr>]\<rparr>"

definition example_admin_env :: "(unit, unit, unit) settings_env" where
  "example_admin_env = \<lparr>se_crypto = example_crypto,
     se_notify = \<lparr>nc_cfg = default_settings, nc_fernet = example_fernet, nc_tz = utc_zone\<rparr>,
     se_mail = \<lparr>smtp_connect = (\<lambda>_ _ m. (None, m)), smtp_deliver = (\<lambda>_ _ _ _ _ m. (None, m)),
       graph_token = (\<lambda>_ _ m. (Inr [], m)), graph_send = (\<lambda>_ _ _ _ _ m. (None, m))\<rparr>,
     se_redis = \<lparr>redis_incr = (\<lambda>_ r. (None, r)), redis_expire = (\<lambda>_ _ r. (None, r))\<rparr>, se_backend = Edge,
     se_wg = \<lparr>we_run = (\<lambda>_ _ w. (Exited 0 [] [], w)), we_agent = (\<lambda>_ _ _ _ w. (AgentTimeout, w))\<rparr>,
     se_backup = example_backup_env default_settings, se_order_audit = id, se_order_events = id,
     se_newest = (\<lambda>_. None), se_parse_local = (\<lambda>_. None), se_qr_svg = id, se_exn_text = (\<lambda>_. [])\<rparr>"

definition example_admin_input :: settings_input where
  "example_admin_input = \<lparr>si_now = 0, si_request = \<lparr>rq_method = ''POST'', rq_path = ''/settings/users/4/delete'', rq_client = None,
       rq_headers = (\<lambda>_. None), rq_cookies = (\<lambda>_. None), rq_hostname = Some ''hub''\<rparr>,
     si_user = example_user, si_salt = [], si_random = [], si_nonces = (0, 0)\<rparr>"

definition example_admin_world :: "(unit, unit, unit) settings_world" where
  "example_admin_world = \<lparr>sw_db = open_session example_keyed_hub 9, sw_files = example_hub_files,
     sw_wg = \<lparr>wg_key_file = None, wg_key_mode = None, wg_config_file = None, wg_config_mode = None, wg_ext = ()\<rparr>,
     sw_mail = (), sw_limits = ([], ())\<rparr>"

lemma example_keyed: "keyed (si_user example_admin_input) (sw_db example_admin_world)"
  by (simp add: keyed_def key_defs example_admin_input_def example_admin_world_def open_session_def example_keyed_hub_def
      example_hub_def empty_db_def example_user_def example_backup_device_def default_device_def)

theorem settings_forms_keep_keys_witness:
  "\<exists>r w'. handled (delete_user example_admin_env example_admin_input 4) example_admin_world = (r, w')
     \<and> keys_hold (committed (sw_db w'))"
proof -
  obtain r w' where h: "handled (delete_user example_admin_env example_admin_input 4) example_admin_world = (r, w')"
    by (cases "handled (delete_user example_admin_env example_admin_input 4) example_admin_world")
  have "committed (sw_db example_admin_world) = work (sw_db example_admin_world)"
    by (simp add: example_admin_world_def open_session_def)
  from settings_forms_keep_keys [OF settings_form.intros(5) this example_keyed h] h show ?thesis by blast
qed

end
