(* ===== verification/Dashboard.thy ===== *)
theory Dashboard
  imports Firmware Device_Tokens Access "HOL-Library.List_Lexorder" "HOL-Library.Char_ord" "HOL-Library.Product_Lexorder"
begin

text \<open>
  The figures of the dashboard, \<open>dashboard/app/dashboard.py\<close>: from the rows that a user may see to the lists and
  counts of the page. ORDER BY and the printing of timestamps are fields of \<open>dash_env\<close>; the sorting in Python is
  \<open>sort_key\<close>, which is stable. The chart of the states (floating-point percentages) is left out.
\<close>

record dash_env =
  dx_cfg :: settings
  dx_iso :: "instant \<Rightarrow> string"
  dx_companies_by_name :: "company list \<Rightarrow> company list"
  dx_devices_by_company :: "(company \<times> device) list \<Rightarrow> (company \<times> device) list"
  dx_devices_by_hostname :: "device list \<Rightarrow> device list"
  dx_events_newest :: "device_event list \<Rightarrow> device_event list"
  dx_audit_newest :: "audit_log list \<Rightarrow> audit_log list"
  dx_codes_newest :: "enrollment_code list \<Rightarrow> enrollment_code list"
  dx_filters_newest :: "user_dashboard_filter list \<Rightarrow> user_dashboard_filter list"

subsection \<open>What a user may see\<close>

definition is_member :: "hub_db \<Rightarrow> user \<Rightarrow> uuid \<Rightarrow> bool" where
  "is_member db u i = list_ex (\<lambda>r. cu_company_id r = i \<and> cu_user_id r = usr_id u) (company_users db)"

definition accessible_companies_for_user :: "dash_env \<Rightarrow> hub_db \<Rightarrow> user \<Rightarrow> company list" where
  "accessible_companies_for_user env db u =
     dx_companies_by_name env (filter (\<lambda>c. is_global_admin u \<or> is_member db u (com_id c)) (companies db))"

text \<open>The join of the firewalls with their companies, in the order of the query.\<close>

definition accessible_devices_for_user :: "dash_env \<Rightarrow> hub_db \<Rightarrow> user \<Rightarrow> device list" where
  "accessible_devices_for_user env db u =
     map snd (dx_devices_by_company env (concat (map (\<lambda>d. case get_company db (dev_company_id d) of
         None \<Rightarrow> []
       | Some c \<Rightarrow> if is_global_admin u \<or> is_member db u (dev_company_id d) then [(c, d)] else []) (devices db))))"

subsection \<open>The state of one firewall\<close>

definition normalized_status :: "settings \<Rightarrow> instant \<Rightarrow> device \<Rightarrow> string" where
  "normalized_status cfg now d =
     (if dev_revoked_at d \<noteq> None \<or> lower (dev_status d) = ''revoked'' then ''revoked''
      else
        let status = lower (if dev_status d = [] then ''unknown'' else dev_status d) in
        if status = ''offline'' then ''critical''
        else if status \<in> {''online'', ''warning'', ''critical''} then
          (case dev_last_seen_at d of
             None \<Rightarrow> status
           | Some seen \<Rightarrow>
               let age = now - seen; every = max 1 (cfg_firewall_health_check_interval_seconds cfg) in
               if seconds (every * max 1 (cfg_firewall_health_critical_misses cfg)) \<le> age then ''critical''
               else if seconds (every * max 1 (cfg_firewall_health_warning_misses cfg)) \<le> age \<and> status = ''online''
               then ''warning'' else status)
        else ''other'')"

definition active_device :: "settings \<Rightarrow> instant \<Rightarrow> device \<Rightarrow> bool" where
  "active_device cfg now d = (normalized_status cfg now d \<noteq> ''revoked'')"

definition capitalize :: "string \<Rightarrow> string" where
  "capitalize s = (case s of [] \<Rightarrow> [] | c # cs \<Rightarrow> upper_char c # lower cs)"

definition interval_display :: "device \<Rightarrow> string" where
  "interval_display d =
     int_str (max 1 (if dev_backup_interval_value d = 0 then 1 else dev_backup_interval_value d)) @ '' ''
       @ capitalize (if dev_backup_interval_unit d = [] then ''hours'' else dev_backup_interval_unit d)"

record backup_status =
  bs_label :: string
  bs_class :: string
  bs_actionable :: bool

definition dashboard_backup_status :: "instant \<Rightarrow> device \<Rightarrow> backup_status" where
  "dashboard_backup_status now d =
     (if \<not> dev_backup_enabled d then \<lparr>bs_label = ''Disabled'', bs_class = ''text-muted'', bs_actionable = False\<rparr>
      else if backup_request_pending d then \<lparr>bs_label = ''Pending'', bs_class = ''text-warning'', bs_actionable = True\<rparr>
      else if dev_backup_last_uploaded_at d = None then
        \<lparr>bs_label = ''Never backed up'', bs_class = ''text-danger'', bs_actionable = True\<rparr>
      else if backup_due now d then \<lparr>bs_label = ''Overdue'', bs_class = ''text-danger'', bs_actionable = True\<rparr>
      else \<lparr>bs_label = ''OK'', bs_class = ''text-success'', bs_actionable = False\<rparr>)"

record firmware_state =
  fst_label :: string
  fst_class :: string
  fst_attention :: bool

definition firmware_status_of :: "device \<Rightarrow> string" where
  "firmware_status_of d = lower (if dev_firmware_status d = [] then ''unknown'' else dev_firmware_status d)"

definition dashboard_firmware_status :: "settings \<Rightarrow> instant \<Rightarrow> device \<Rightarrow> firmware_state" where
  "dashboard_firmware_status cfg now d =
     (let status = firmware_status_of d in
      if status = ''none'' then \<lparr>fst_label = ''Up to date'', fst_class = ''text-success'', fst_attention = False\<rparr>
      else if status = ''update'' then \<lparr>fst_label = ''Updates available'', fst_class = ''text-info'', fst_attention = True\<rparr>
      else if status = ''upgrade'' then \<lparr>fst_label = ''Upgrade available'', fst_class = ''text-warning'', fst_attention = True\<rparr>
      else if status = ''error'' then \<lparr>fst_label = ''Check failed'', fst_class = ''text-danger'', fst_attention = True\<rparr>
      else \<lparr>fst_label = ''Unknown'', fst_class = ''text-muted'', fst_attention = active_device cfg now d\<rparr>)"

record license_status =
  ls_label :: string
  ls_days_left :: "int option"
  ls_expired :: bool
  ls_expiring_soon :: bool

definition dashboard_license_status :: "instant \<Rightarrow> device \<Rightarrow> license_status" where
  "dashboard_license_status now d =
     (if lower (or_empty (dev_license_type d)) \<noteq> ''business'' then
        \<lparr>ls_label = ''Community'', ls_days_left = None, ls_expired = False, ls_expiring_soon = False\<rparr>
      else case dev_license_expires_at d of
        None \<Rightarrow> \<lparr>ls_label = ''Business'', ls_days_left = None, ls_expired = False, ls_expiring_soon = False\<rparr>
      | Some t \<Rightarrow>
          let days_left = utc_day t - utc_day now in
          \<lparr>ls_label = ''Business'', ls_days_left = Some days_left, ls_expired = days_left < 0, ls_expiring_soon = days_left \<le> 30\<rparr>)"

definition status_filter_matches :: "settings \<Rightarrow> instant \<Rightarrow> device \<Rightarrow> string option \<Rightarrow> bool" where
  "status_filter_matches cfg now d status_filter =
     (\<not> nonempty status_filter \<or> normalized_status cfg now d = lower (the status_filter))"

subsection \<open>Attention items\<close>

datatype key_part = NoPart | BoolPart bool | TimePart instant | TextPart string

fun attention_key_part :: "(instant \<Rightarrow> string) \<Rightarrow> key_part \<Rightarrow> string" where
  "attention_key_part show_time NoPart = ''none''"
| "attention_key_part show_time (BoolPart b) = (if b then ''true'' else ''false'')"
| "attention_key_part show_time (TimePart t) = show_time t"
| "attention_key_part show_time (TextPart s) = s"

definition attention_key :: "dash_env \<Rightarrow> key_part list \<Rightarrow> string" where
  "attention_key env parts = join '':'' (map (attention_key_part (dx_iso env)) parts)"

definition time_part :: "instant option \<Rightarrow> key_part" where
  "time_part t = (case t of None \<Rightarrow> NoPart | Some x \<Rightarrow> TimePart x)"

definition text_part :: "string option \<Rightarrow> key_part" where
  "text_part s = (case s of None \<Rightarrow> NoPart | Some x \<Rightarrow> TextPart x)"

definition device_part :: "device \<Rightarrow> key_part" where
  "device_part d = TextPart (uuid_str (dev_id d))"

record attention_item =
  att_key :: string
  att_severity :: string
  att_category :: string
  att_firewall :: string
  att_company :: string
  att_description :: string
  att_action :: string
  att_link :: string

definition build_attention_item ::
  "string \<Rightarrow> string \<Rightarrow> string \<Rightarrow> string option \<Rightarrow> string option \<Rightarrow> string \<Rightarrow> string \<Rightarrow> string \<Rightarrow> attention_item" where
  "build_attention_item key severity category firewall company description action link =
     \<lparr>att_key = key, att_severity = severity, att_category = category,
      att_firewall = (if nonempty firewall then the firewall else ''-''),
      att_company = (if nonempty company then the company else ''-''),
      att_description = description, att_action = action, att_link = link\<rparr>"

definition device_link :: "device \<Rightarrow> string" where
  "device_link d = ''/devices/'' @ uuid_str (dev_id d)"

definition severity_order :: "string \<Rightarrow> int" where
  "severity_order s = (if s = ''critical'' then 0 else if s = ''warning'' then 1 else 2)"

definition status_sort_key :: "settings \<Rightarrow> instant \<Rightarrow> device \<Rightarrow> int \<times> string" where
  "status_sort_key cfg now d =
     (severity_order (if normalized_status cfg now d = ''critical'' then ''critical'' else ''warning''), lower (dev_hostname d))"

subsection \<open>The filters\<close>

record dash_filters =
  df_company_id :: "string option"
  df_status :: "string option"

definition selected_company :: "dash_filters \<Rightarrow> string" where
  "selected_company f = strip (or_empty (df_company_id f))"

definition selected_status :: "dash_filters \<Rightarrow> string" where
  "selected_status f = lower (strip (or_empty (df_status f)))"

definition filtered_devices :: "dash_env \<Rightarrow> instant \<Rightarrow> hub_db \<Rightarrow> user \<Rightarrow> dash_filters \<Rightarrow> device list" where
  "filtered_devices env now db u f =
     filter (\<lambda>d. (selected_company f = [] \<or> uuid_str (dev_company_id d) = selected_company f)
         \<and> status_filter_matches (dx_cfg env) now d (if selected_status f = [] then None else Some (selected_status f)))
       (accessible_devices_for_user env db u)"

definition filtered_companies :: "dash_env \<Rightarrow> instant \<Rightarrow> hub_db \<Rightarrow> user \<Rightarrow> dash_filters \<Rightarrow> company list" where
  "filtered_companies env now db u f =
     filter (\<lambda>c. com_id c \<in> set (map dev_company_id (filtered_devices env now db u f)) \<or> uuid_str (com_id c) = selected_company f)
       (accessible_companies_for_user env db u)"

text \<open>The timestamp of the last change that the page would show.\<close>

definition newest_at :: "instant list \<Rightarrow> instant list" where
  "newest_at ts = (case ts of [] \<Rightarrow> [] | t # rest \<Rightarrow> [foldr max rest t])"

definition device_timestamps :: "device \<Rightarrow> instant list" where
  "device_timestamps d =
     dev_created_at d # concat (map (\<lambda>t. case t of None \<Rightarrow> [] | Some x \<Rightarrow> [x])
       [dev_last_seen_at d, dev_backup_last_requested_at d, dev_backup_last_uploaded_at d, dev_firmware_checked_at d,
        dev_firmware_check_requested_at d, dev_health_acknowledged_at d, dev_revoked_at d])"

definition dashboard_revision_token :: "dash_env \<Rightarrow> instant \<Rightarrow> hub_db \<Rightarrow> user \<Rightarrow> dash_filters \<Rightarrow> string" where
  "dashboard_revision_token env now db u f =
     (let ds = filtered_devices env now db u f; ids = map dev_id ds;
          timestamps = concat (map device_timestamps ds)
            @ (if ids = [] then []
               else newest_at (map ev_created_at (filter (\<lambda>e. ev_device_id e \<in> set ids) (device_events db)))
                 @ newest_at (map al_created_at (filter (\<lambda>a. \<exists>i\<in>set ids. al_device_id a = Some i) (audit_logs db))))
            @ newest_at (map udf_created_at (filter (\<lambda>r. udf_user_id r = usr_id u) (dashboard_filters db)))
            @ newest_at (map uaa_created_at (filter (\<lambda>r. uaa_user_id r = usr_id u) (attention_acks db)))
      in case newest_at timestamps of [] \<Rightarrow> ''0'' | t # _ \<Rightarrow> dx_iso env t)"

subsection \<open>The rows of the page\<close>

text \<open>What the page is built from: the environment, the instant, the tables, the user and the filters.\<close>

record dash_view =
  dv_env :: dash_env
  dv_now :: instant
  dv_db :: hub_db
  dv_user :: user
  dv_filters :: dash_filters

abbreviation view_cfg :: "dash_view \<Rightarrow> settings" where
  "view_cfg v \<equiv> dx_cfg (dv_env v)"

definition shown_devices :: "dash_view \<Rightarrow> device list" where
  "shown_devices v = filtered_devices (dv_env v) (dv_now v) (dv_db v) (dv_user v) (dv_filters v)"

definition shown_active :: "dash_view \<Rightarrow> device list" where
  "shown_active v = filter (active_device (view_cfg v) (dv_now v)) (shown_devices v)"

definition device_company :: "dash_view \<Rightarrow> device \<Rightarrow> company option" where
  "device_company v d = get_company (dv_db v) (dev_company_id d)"

definition company_name_of :: "dash_view \<Rightarrow> device \<Rightarrow> string option" where
  "company_name_of v d = map_option com_name (device_company v d)"

definition warning_critical_devices :: "dash_view \<Rightarrow> device list" where
  "warning_critical_devices v =
     sort_key (status_sort_key (view_cfg v) (dv_now v))
       (filter (\<lambda>d. normalized_status (view_cfg v) (dv_now v) d \<in> {''warning'', ''critical''}
          \<and> \<not> maintenance_window_active (dv_now v) d) (shown_active v))"

record backup_entry =
  bke_device :: device
  bke_company :: "company option"
  bke_status :: backup_status
  bke_retention :: int
  bke_interval :: string
  bke_link :: string

definition backup_entries :: "dash_view \<Rightarrow> backup_entry list" where
  "backup_entries v =
     map (\<lambda>d. \<lparr>bke_device = d, bke_company = device_company v d, bke_status = dashboard_backup_status (dv_now v) d,
         bke_retention = dev_backup_retention_count d, bke_interval = interval_display d, bke_link = device_link d\<rparr>)
       (filter (\<lambda>d. bs_label (dashboard_backup_status (dv_now v) d)
           \<in> {''Overdue'', ''Never backed up'', ''Pending'', ''Disabled''}) (shown_active v))"

definition later_upload :: "device \<Rightarrow> device option \<Rightarrow> device option" where
  "later_upload d best =
     (case dev_backup_last_uploaded_at d of
        None \<Rightarrow> best
      | Some t \<Rightarrow>
          (case best of
             None \<Rightarrow> Some d
           | Some b \<Rightarrow> (case dev_backup_last_uploaded_at b of None \<Rightarrow> Some d | Some t' \<Rightarrow> if t' < t then Some d else best)))"

definition count_where :: "('a \<Rightarrow> bool) \<Rightarrow> 'a list \<Rightarrow> int" where
  "count_where p xs = int (length (filter p xs))"

record backup_summary =
  bsm_enabled :: int
  bsm_disabled :: int
  bsm_overdue :: int
  bsm_never :: int
  bsm_last :: "device option"

definition backup_summary_of :: "dash_view \<Rightarrow> backup_summary" where
  "backup_summary_of v =
     (let ds = shown_active v; label = (\<lambda>d. bs_label (dashboard_backup_status (dv_now v) d)) in
      \<lparr>bsm_enabled = count_where dev_backup_enabled ds, bsm_disabled = count_where (\<lambda>d. \<not> dev_backup_enabled d) ds,
       bsm_overdue = count_where (\<lambda>d. label d = ''Overdue'') ds, bsm_never = count_where (\<lambda>d. label d = ''Never backed up'') ds,
       bsm_last = fold later_upload ds None\<rparr>)"

record firmware_summary =
  fsm_up_to_date :: int
  fsm_updates :: int
  fsm_upgrades :: int
  fsm_check_failed :: int
  fsm_unknown :: int

definition firmware_summary_of :: "dash_view \<Rightarrow> firmware_summary" where
  "firmware_summary_of v =
     (let n = (\<lambda>p. count_where (\<lambda>d. p (firmware_status_of d)) (shown_active v)) in
      \<lparr>fsm_up_to_date = n (\<lambda>s. s = ''none''), fsm_updates = n (\<lambda>s. s = ''update''), fsm_upgrades = n (\<lambda>s. s = ''upgrade''),
       fsm_check_failed = n (\<lambda>s. s = ''error''), fsm_unknown = n (\<lambda>s. s \<notin> {''none'', ''update'', ''upgrade'', ''error''})\<rparr>)"

record firmware_entry =
  fe_device :: device
  fe_company :: "company option"
  fe_firmware :: firmware_state
  fe_link :: string

definition firmware_attention_rows :: "dash_view \<Rightarrow> firmware_entry list" where
  "firmware_attention_rows v =
     map (\<lambda>d. \<lparr>fe_device = d, fe_company = device_company v d,
         fe_firmware = dashboard_firmware_status (view_cfg v) (dv_now v) d, fe_link = device_link d\<rparr>)
       (filter (\<lambda>d. firmware_status_of d \<in> {''update'', ''upgrade'', ''error'', ''unknown''} \<or> dev_firmware_reboot_required d)
         (shown_active v))"

record license_summary =
  lsm_business :: int
  lsm_community :: int
  lsm_expired :: int
  lsm_within_30 :: int
  lsm_within_7 :: int

definition days_within :: "instant \<Rightarrow> int \<Rightarrow> device \<Rightarrow> bool" where
  "days_within now n d = (case ls_days_left (dashboard_license_status now d) of None \<Rightarrow> False | Some k \<Rightarrow> k \<le> n)"

definition license_summary_of :: "dash_view \<Rightarrow> license_summary" where
  "license_summary_of v =
     (let ds = shown_active v; ls = dashboard_license_status (dv_now v) in
      \<lparr>lsm_business = count_where (\<lambda>d. ls_label (ls d) = ''Business'') ds,
       lsm_community = count_where (\<lambda>d. ls_label (ls d) \<noteq> ''Business'') ds,
       lsm_expired = count_where (\<lambda>d. ls_days_left (ls d) \<noteq> None \<and> ls_expired (ls d)) ds,
       lsm_within_30 = count_where (\<lambda>d. ls_days_left (ls d) \<noteq> None \<and> ls_expiring_soon (ls d)) ds,
       lsm_within_7 = count_where (days_within (dv_now v) 7) ds\<rparr>)"

record license_entry =
  le_device :: device
  le_company :: "company option"
  le_status :: license_status
  le_link :: string

definition license_rows :: "dash_view \<Rightarrow> license_entry list" where
  "license_rows v =
     sort_key (\<lambda>r. (if ls_expired (le_status r) then 0 else 1 :: int, the (ls_days_left (le_status r)), lower (dev_hostname (le_device r))))
       (map (\<lambda>d. \<lparr>le_device = d, le_company = device_company v d, le_status = dashboard_license_status (dv_now v) d,
           le_link = device_link d\<rparr>) (filter (days_within (dv_now v) 30) (shown_active v)))"

subsection \<open>Events\<close>

record event_entry =
  ee_event :: device_event
  ee_device :: device
  ee_company :: "company option"
  ee_link :: string
  ee_key :: "string option"

text \<open>The events of the firewalls shown, the newest first, with the firewall among all that the user may see.\<close>

definition shown_events :: "dash_view \<Rightarrow> (device_event \<Rightarrow> bool) \<Rightarrow> device_event list" where
  "shown_events v p =
     (let ids = map dev_id (shown_devices v) in
      if ids = [] then []
      else dx_events_newest (dv_env v) (filter (\<lambda>e. ev_device_id e \<in> set ids \<and> p e) (device_events (dv_db v))))"

definition lookup_device :: "dash_view \<Rightarrow> uuid \<Rightarrow> device option" where
  "lookup_device v i = find (\<lambda>d. dev_id d = i) (rev (accessible_devices_for_user (dv_env v) (dv_db v) (dv_user v)))"

definition event_entries :: "dash_view \<Rightarrow> (device_event \<Rightarrow> string option) \<Rightarrow> device_event list \<Rightarrow> event_entry list" where
  "event_entries v key es =
     concat (map (\<lambda>e. case lookup_device v (ev_device_id e) of
         None \<Rightarrow> []
       | Some d \<Rightarrow> [\<lparr>ee_event = e, ee_device = d, ee_company = device_company v d, ee_link = device_link d, ee_key = key e\<rparr>]) es)"

definition acknowledged_attention_keys :: "dash_view \<Rightarrow> string list" where
  "acknowledged_attention_keys v =
     map uaa_attention_key (filter (\<lambda>r. uaa_user_id r = usr_id (dv_user v)) (attention_acks (dv_db v)))"

definition failure_key :: "dash_view \<Rightarrow> device_event \<Rightarrow> string" where
  "failure_key v e = attention_key (dv_env v) [TextPart ''notifications'', TextPart ''email-failure-event'', TextPart (uuid_str (ev_id e))]"

definition notification_failure_rows :: "dash_view \<Rightarrow> event_entry list" where
  "notification_failure_rows v =
     event_entries v (\<lambda>e. Some (failure_key v e))
       (filter (\<lambda>e. failure_key v e \<notin> set (acknowledged_attention_keys v))
         (shown_events v (\<lambda>e. ev_event_type e = ''email_notification_failed'')))"

definition recent_events :: "dash_view \<Rightarrow> event_entry list" where
  "recent_events v = event_entries v (\<lambda>_. None) (take 25 (shown_events v (\<lambda>_. True)))"

definition recent_health :: "dash_view \<Rightarrow> event_entry list" where
  "recent_health v =
     filter (\<lambda>r. ev_event_type (ee_event r) = ''health_check'' \<and> \<not> ev_created_at (ee_event r) < dv_now v - hours 24) (recent_events v)"

definition event_text :: "event_entry \<Rightarrow> string" where
  "event_text r = lower (or_empty (ev_message (ee_event r)))"

definition recently_offline :: "dash_view \<Rightarrow> event_entry list" where
  "recently_offline v =
     take 5 (filter (\<lambda>r. contains_str (event_text r) ''unreachable'' \<and> active_device (view_cfg v) (dv_now v) (ee_device r)
        \<and> \<not> maintenance_window_active (dv_now v) (ee_device r)) (recent_health v))"

definition recovered_recently :: "dash_view \<Rightarrow> event_entry list" where
  "recovered_recently v =
     take 5 (filter (\<lambda>r. contains_str (event_text r) ''reachable''
        \<and> normalized_status (view_cfg v) (dv_now v) (ee_device r) = ''online'') (recent_health v))"

definition missed_checks :: "dash_view \<Rightarrow> device list" where
  "missed_checks v =
     take 5 (sort_key (\<lambda>d. (- dev_health_missed_checks d, lower (dev_hostname d)))
       (filter (\<lambda>d. 0 < dev_health_missed_checks d \<and> \<not> maintenance_window_active (dv_now v) d) (shown_active v)))"

subsection \<open>What needs attention\<close>

definition health_items :: "dash_view \<Rightarrow> attention_item list" where
  "health_items v =
     map (\<lambda>d. let status = normalized_status (view_cfg v) (dv_now v) d in
         build_attention_item (attention_key (dv_env v) [TextPart ''health'', device_part d, TextPart status])
           (if status = ''critical'' then ''critical'' else ''warning'') ''Health'' (Some (dev_hostname d)) (company_name_of v d)
           (''Firewall status is '' @ status @ ''.'') ''Review firewall details'' (device_link d))
       (warning_critical_devices v)"

definition backup_items :: "dash_view \<Rightarrow> attention_item list" where
  "backup_items v =
     map (\<lambda>r. let label = bs_label (bke_status r); d = bke_device r in
         build_attention_item
           (attention_key (dv_env v) [TextPart ''backup'', device_part d, TextPart label, time_part (dev_backup_last_uploaded_at d)])
           (if label = ''Overdue'' then ''warning'' else ''info'') ''Backups'' (Some (dev_hostname d)) (map_option com_name (bke_company r))
           (''Backup status is '' @ lower label @ ''.'') ''Review backup settings'' (bke_link r))
       (filter (\<lambda>r. bs_label (bke_status r) \<in> {''Overdue'', ''Never backed up''}) (backup_entries v))"

definition firmware_items :: "dash_view \<Rightarrow> attention_item list" where
  "firmware_items v =
     map (\<lambda>r. let label = fst_label (fe_firmware r); d = fe_device r in
         build_attention_item
           (attention_key (dv_env v) [TextPart ''firmware'', device_part d, TextPart (dev_firmware_status d),
              text_part (dev_firmware_available_version d), BoolPart (dev_firmware_reboot_required d)])
           (if label \<in> {''Check failed'', ''Upgrade available''} then ''warning'' else ''info'') ''Firmware''
           (Some (dev_hostname d)) (map_option com_name (fe_company r))
           (''Firmware state: '' @ label @ ''.'') ''Review firmware details'' (fe_link r))
       (firmware_attention_rows v)"

definition license_items :: "dash_view \<Rightarrow> attention_item list" where
  "license_items v =
     map (\<lambda>r. let d = le_device r; st = le_status r in
         build_attention_item
           (attention_key (dv_env v) [TextPart ''license'', device_part d, time_part (dev_license_expires_at d), BoolPart (ls_expired st)])
           (if ls_expired st then ''critical'' else ''warning'') ''License'' (Some (dev_hostname d)) (map_option com_name (le_company r))
           (if ls_expired st then ''License expired.''
            else ''License expires in '' @ int_str (the (ls_days_left st)) @ '' days.'')
           ''Review firewall details'' (le_link r))
       (license_rows v)"

definition enrollment_items :: "dash_view \<Rightarrow> attention_item list" where
  "enrollment_items v =
     map (\<lambda>d. build_attention_item (attention_key (dv_env v) [TextPart ''enrollment'', device_part d, TextPart ''never-seen''])
         ''info'' ''Enrollment'' (Some (dev_hostname d)) (company_name_of v d)
         ''Firewall has never been seen after enrollment.'' ''Review firewall details'' (device_link d))
       (filter (\<lambda>d. dev_last_seen_at d = None) (shown_active v))"

definition email_ready :: "dash_view \<Rightarrow> bool" where
  "email_ready v = email_settings_configured (get_integration (dv_db v))"

definition enabled_notification_devices :: "dash_view \<Rightarrow> device list" where
  "enabled_notification_devices v = filter dev_email_notifications_enabled (shown_active v)"

definition hub_email_items :: "dash_view \<Rightarrow> attention_item list" where
  "hub_email_items v =
     (if enabled_notification_devices v \<noteq> [] \<and> \<not> email_ready v then
        [build_attention_item (attention_key (dv_env v) [TextPart ''notifications'', TextPart ''hub-email-settings-missing'',
             TextPart (int_str (int (length (enabled_notification_devices v))))])
           ''warning'' ''Notifications'' None None
           ''Hub email settings are not configured while firewall notifications are enabled.''
           ''Open Hub email settings'' ''/settings/email-settings'']
      else [])"

definition failure_items :: "dash_view \<Rightarrow> attention_item list" where
  "failure_items v =
     (case notification_failure_rows v of
        [] \<Rightarrow> []
      | first # _ \<Rightarrow>
          (let n = int_str (int (length (notification_failure_rows v))) in
           [build_attention_item (attention_key (dv_env v) [TextPart ''notifications'', TextPart ''email-failures'', TextPart n,
                TimePart (ev_created_at (ee_event first))])
              ''warning'' ''Notifications'' None None (n @ '' email notification send failures were recorded.'')
              ''Review recent events'' ''#dashboard-recent-events-card'']))"

definition attention_candidates :: "dash_view \<Rightarrow> attention_item list" where
  "attention_candidates v =
     health_items v @ backup_items v @ firmware_items v @ license_items v @ enrollment_items v @ hub_email_items v @ failure_items v"

definition attention_items :: "dash_view \<Rightarrow> attention_item list" where
  "attention_items v =
     sort_key (\<lambda>i. (severity_order (att_severity i), att_category i, att_firewall i))
       (filter (\<lambda>i. att_key i \<notin> set (acknowledged_attention_keys v)) (attention_candidates v))"

subsection \<open>The page\<close>

record company_figures =
  cf_company :: company
  cf_firewalls :: int
  cf_online :: int
  cf_warning :: int
  cf_critical :: int
  cf_revoked :: int
  cf_backups_overdue :: int
  cf_firmware_attention :: int
  cf_licenses_expiring :: int

definition company_figures_of :: "dash_view \<Rightarrow> company \<Rightarrow> company_figures" where
  "company_figures_of v c =
     (let cfg = view_cfg v; now = dv_now v;
          ds = filter (\<lambda>d. dev_company_id d = com_id c) (shown_devices v); active = filter (active_device cfg now) ds;
          n = (\<lambda>s. count_where (\<lambda>d. normalized_status cfg now d = s) ds) in
      \<lparr>cf_company = c, cf_firewalls = int (length ds), cf_online = n ''online'', cf_warning = n ''warning'',
       cf_critical = n ''critical'', cf_revoked = n ''revoked'',
       cf_backups_overdue = count_where (\<lambda>d. bs_label (dashboard_backup_status now d) = ''Overdue'') active,
       cf_firmware_attention = count_where (\<lambda>d. fst_attention (dashboard_firmware_status cfg now d)) active,
       cf_licenses_expiring = count_where (days_within now 30) active\<rparr>)"

definition company_overview :: "dash_view \<Rightarrow> company_figures list" where
  "company_overview v =
     map (company_figures_of v)
       (filter (\<lambda>c. list_ex (\<lambda>d. dev_company_id d = com_id c) (shown_devices v) \<or> selected_company (dv_filters v) \<noteq> [])
         (filtered_companies (dv_env v) (dv_now v) (dv_db v) (dv_user v) (dv_filters v)))"

record dash_summary =
  dsm_total :: int
  dsm_online :: int
  dsm_warning :: int
  dsm_critical :: int
  dsm_revoked :: int
  dsm_other :: int
  dsm_backups_overdue :: int
  dsm_firmware_updates :: int
  dsm_firmware_upgrades :: int
  dsm_firmware_failures :: int
  dsm_licenses_expiring :: int
  dsm_email_failures :: int

definition dash_summary_of :: "dash_view \<Rightarrow> dash_summary" where
  "dash_summary_of v =
     (let n = (\<lambda>s. count_where (\<lambda>d. normalized_status (view_cfg v) (dv_now v) d = s) (shown_devices v)) in
      \<lparr>dsm_total = int (length (shown_devices v)), dsm_online = n ''online'', dsm_warning = n ''warning'',
       dsm_critical = n ''critical'', dsm_revoked = n ''revoked'', dsm_other = n ''other'',
       dsm_backups_overdue = bsm_overdue (backup_summary_of v), dsm_firmware_updates = fsm_updates (firmware_summary_of v),
       dsm_firmware_upgrades = fsm_upgrades (firmware_summary_of v), dsm_firmware_failures = fsm_check_failed (firmware_summary_of v),
       dsm_licenses_expiring = lsm_within_30 (license_summary_of v),
       dsm_email_failures = int (length (notification_failure_rows v))\<rparr>)"

record notification_health =
  nh_configured :: bool
  nh_enabled :: int
  nh_missing_recipient :: int
  nh_last_sent :: "(device_event \<times> device option) option"
  nh_failures :: "event_entry list"

definition notification_health_of :: "dash_view \<Rightarrow> notification_health" where
  "notification_health_of v =
     \<lparr>nh_configured = email_ready v, nh_enabled = int (length (enabled_notification_devices v)),
      nh_missing_recipient = count_where (\<lambda>d. \<not> nonempty (dev_email_notification_recipient d)) (enabled_notification_devices v),
      nh_last_sent = (case shown_events v (\<lambda>e. ev_event_type e = ''email_notification_sent'') of
          [] \<Rightarrow> None | e # _ \<Rightarrow> Some (e, lookup_device v (ev_device_id e))),
      nh_failures = notification_failure_rows v\<rparr>"

record dash_context =
  dc_filter_companies :: "company list"
  dc_summary :: dash_summary
  dc_recently_offline :: "event_entry list"
  dc_most_missed :: "device list"
  dc_recovered_recently :: "event_entry list"
  dc_warning_critical :: "device list"
  dc_backup_summary :: backup_summary
  dc_backup_rows :: "backup_entry list"
  dc_firmware_summary :: firmware_summary
  dc_firmware_rows :: "firmware_entry list"
  dc_recent_events :: "event_entry list"
  dc_attention_items :: "attention_item list"
  dc_company_overview :: "company_figures list"
  dc_license_summary :: license_summary
  dc_license_rows :: "license_entry list"
  dc_notification_health :: notification_health
  dc_filtered_devices :: "device list"
  dc_maintenance_count :: int
  dc_hostnames :: "string list"
  dc_company_names :: "string list"

definition build_dashboard_context :: "dash_view \<Rightarrow> dash_context" where
  "build_dashboard_context v =
     (let cs = accessible_companies_for_user (dv_env v) (dv_db v) (dv_user v);
          ds = accessible_devices_for_user (dv_env v) (dv_db v) (dv_user v) in
      \<lparr>dc_filter_companies = cs, dc_summary = dash_summary_of v,
       dc_recently_offline = recently_offline v, dc_most_missed = missed_checks v, dc_recovered_recently = recovered_recently v,
       dc_warning_critical = take 10 (warning_critical_devices v),
       dc_backup_summary = backup_summary_of v, dc_backup_rows = backup_entries v,
       dc_firmware_summary = firmware_summary_of v, dc_firmware_rows = firmware_attention_rows v,
       dc_recent_events = recent_events v, dc_attention_items = attention_items v, dc_company_overview = company_overview v,
       dc_license_summary = license_summary_of v, dc_license_rows = license_rows v,
       dc_notification_health = notification_health_of v, dc_filtered_devices = shown_devices v,
       dc_maintenance_count = count_where (maintenance_window_active (dv_now v)) (shown_active v),
       dc_hostnames = sort (remdups (map dev_hostname ds)), dc_company_names = map com_name cs\<rparr>)"

end
