(* ===== verification/Dashboard_Router.thy ===== *)
theory Dashboard_Router
  imports Dashboard Log_Retention Rate_Limit
begin

text \<open>
  \<open>dashboard/app/routers/dashboard.py\<close> and \<open>routers/companies.py\<close>: the dashboard, its saved filters and
  acknowledgements, the CSV export, the actions on several firewalls, the company pages and the enrollment codes. A
  page is the value its template is given. The database refuses a row that names a company it does not hold.
\<close>

record dash_input =
  di_now :: instant
  di_request :: request
  di_user :: user

datatype dash_body =
    DashRedirect string
  | DashPage dash_context string "user_dashboard_filter list" "(string \<times> string) option"
  | DashRevision string
  | DashCsv string
  | CompaniesPage "(company \<times> device list \<times> bool) list" "(string \<times> string) option"
  | AuditPage "(audit_log \<times> user option \<times> company option \<times> device option \<times> string) list"

definition in_session :: "(db_session, 'a) act \<Rightarrow> (db_session, 'a) act" where
  "in_session m = (\<lambda>s. case m s of (r, s') \<Rightarrow> (r, rollback s'))"

definition dash_audit :: "dash_env \<Rightarrow> dash_input \<Rightarrow> string \<Rightarrow> uuid option \<Rightarrow> uuid option \<Rightarrow> db_session \<Rightarrow> db_session" where
  "dash_audit env inp action company_id device_id s =
     snd (write_audit (dx_cfg env) (di_now inp) (Some (di_request inp)) action (Some (usr_id (di_user inp))) company_id device_id s)"

definition commit_naming :: "uuid option \<Rightarrow> 'a \<Rightarrow> (db_session, 'a) act" where
  "commit_naming company_id r = (\<lambda>s.
     case company_id of
       Some i \<Rightarrow> if get_company (work s) i = None then (Inl IntegrityError, s) else (Inr r, commit s)
     | None \<Rightarrow> (Inr r, commit s))"

definition query_url :: "string \<Rightarrow> (string \<times> string option) list \<Rightarrow> string" where
  "query_url path params =
     (let filtered = map (\<lambda>(k, v). (k, the v)) (filter (\<lambda>(k, v). nonempty v) params) in
      if filtered = [] then path else path @ ''?'' @ urlencode filtered)"

definition some_text :: "string \<Rightarrow> string option" where
  "some_text s = (if s = [] then None else Some s)"

subsection \<open>The dashboard\<close>

definition dash_view_of :: "dash_env \<Rightarrow> dash_input \<Rightarrow> dash_filters \<Rightarrow> hub_db \<Rightarrow> dash_view" where
  "dash_view_of env inp f db = \<lparr>dv_env = env, dv_now = di_now inp, dv_db = db, dv_user = di_user inp, dv_filters = f\<rparr>"

definition revision_of :: "dash_env \<Rightarrow> dash_input \<Rightarrow> dash_filters \<Rightarrow> hub_db \<Rightarrow> string" where
  "revision_of env inp f db = dashboard_revision_token env (di_now inp) db (di_user inp) f"

definition saved_dashboard_filters :: "dash_env \<Rightarrow> hub_db \<Rightarrow> user \<Rightarrow> user_dashboard_filter list" where
  "saved_dashboard_filters env db u = dx_filters_newest env (filter (\<lambda>r. udf_user_id r = usr_id u) (dashboard_filters db))"

definition dashboard_toast :: "string option \<Rightarrow> (string \<times> string) option" where
  "dashboard_toast r =
     (if r = Some ''filter-saved'' then Some (''Dashboard filter saved.'', ''success'')
      else if r = Some ''filter-deleted'' then Some (''Dashboard filter deleted.'', ''success'')
      else if r = Some ''devices-exported'' then Some (''Dashboard export ready.'', ''info'')
      else if r = Some ''attention-acknowledged'' then Some (''Attention item acknowledged.'', ''success'')
      else None)"

definition dashboard_page :: "dash_env \<Rightarrow> dash_input \<Rightarrow> dash_filters \<Rightarrow> string option \<Rightarrow> (db_session, dash_body) act" where
  "dashboard_page env inp f r = (\<lambda>s.
     (Inr (DashPage (build_dashboard_context (dash_view_of env inp f (work s))) (revision_of env inp f (work s))
        (saved_dashboard_filters env (work s) (di_user inp)) (dashboard_toast r)), s))"

definition dashboard_updates :: "dash_env \<Rightarrow> dash_input \<Rightarrow> dash_filters \<Rightarrow> (db_session, dash_body) act" where
  "dashboard_updates env inp f = (\<lambda>s. (Inr (DashRevision (revision_of env inp f (work s))), s))"

definition save_dashboard_filter ::
  "dash_env \<Rightarrow> dash_input \<Rightarrow> string \<Rightarrow> string \<Rightarrow> string \<Rightarrow> (db_session, dash_body) act" where
  "save_dashboard_filter env inp name company_id status = (\<lambda>s0.
     let filter_name = strip name; u = di_user inp in
     if filter_name = [] then (Inl (HTTPException 400 ''filter name is required''), s0)
     else
       case (if strip company_id = [] then Inr None
             else case parse_uuid company_id of None \<Rightarrow> Inl ValueError | Some i \<Rightarrow> Inr (Some i)) of
         Inl e \<Rightarrow> (Inl e, s0)
       | Inr company_uuid \<Rightarrow>
           (case (case company_uuid of None \<Rightarrow> Inr True | Some i \<Rightarrow> has_company_access (work s0) u i ''viewer'') of
              Inl e \<Rightarrow> (Inl e, s0)
            | Inr False \<Rightarrow> (Inl not_found, s0)
            | Inr True \<Rightarrow>
                (case fresh_uuid s0 of (i, s) \<Rightarrow>
                   commit_naming company_uuid
                     (DashRedirect (query_url ''/dashboard'' [(''company_id'', some_text (strip company_id)),
                        (''status'', some_text (lower (strip status))), (''result'', Some ''filter-saved'')]))
                     (dash_audit env inp ''dashboard.filter.save'' company_uuid None
                        (s\<lparr>work := (work s)\<lparr>dashboard_filters := dashboard_filters (work s) @
                           [\<lparr>udf_id = i, udf_user_id = usr_id u, udf_name = take 120 filter_name, udf_company_id = company_uuid,
                             udf_status = some_text (take 30 (lower (strip status))), udf_created_at = di_now inp\<rparr>]\<rparr>\<rparr>)))))"

definition delete_dashboard_filter :: "dash_env \<Rightarrow> dash_input \<Rightarrow> uuid \<Rightarrow> (db_session, dash_body) act" where
  "delete_dashboard_filter env inp i = (\<lambda>s.
     case find (\<lambda>r. udf_id r = i) (dashboard_filters (work s)) of
       None \<Rightarrow> (Inl not_found, s)
     | Some saved \<Rightarrow>
         if udf_user_id saved \<noteq> usr_id (di_user inp) then (Inl not_found, s)
         else
           (case dash_audit env inp ''dashboard.filter.delete'' (udf_company_id saved) None s of s' \<Rightarrow>
              (Inr (DashRedirect (query_url ''/dashboard'' [(''company_id'', map_option uuid_str (udf_company_id saved)),
                 (''status'', udf_status saved), (''result'', Some ''filter-deleted'')])),
               commit (s'\<lparr>work := (work s')\<lparr>dashboard_filters := filter (\<lambda>r. udf_id r \<noteq> i) (dashboard_filters (work s'))\<rparr>\<rparr>))))"

definition acknowledge_dashboard_attention ::
  "dash_env \<Rightarrow> dash_input \<Rightarrow> string \<Rightarrow> string \<Rightarrow> string \<Rightarrow> (db_session, dash_body) act" where
  "acknowledge_dashboard_attention env inp key company_id status = (\<lambda>s0.
     let normalized_key = take 255 (strip key); u = di_user inp in
     if normalized_key = [] then (Inl (HTTPException 400 ''attention key is required''), s0)
     else
       let s1 = (if list_ex (\<lambda>r. uaa_user_id r = usr_id u \<and> uaa_attention_key r = normalized_key) (attention_acks (work s0)) then s0
                 else case fresh_uuid s0 of (i, s) \<Rightarrow> s\<lparr>work := (work s)\<lparr>attention_acks := attention_acks (work s) @
                   [\<lparr>uaa_id = i, uaa_user_id = usr_id u, uaa_attention_key = normalized_key, uaa_created_at = di_now inp\<rparr>]\<rparr>\<rparr>)
       in (Inr (DashRedirect (query_url ''/dashboard'' [(''company_id'', some_text (strip company_id)),
             (''status'', some_text (lower (strip status))), (''result'', Some ''attention-acknowledged'')])),
           commit (dash_audit env inp ''dashboard.attention.acknowledge'' None None s1)))"

definition csv_row :: "dash_env \<Rightarrow> instant \<Rightarrow> hub_db \<Rightarrow> device \<Rightarrow> string list" where
  "csv_row env now db d =
     (let at = (\<lambda>t. case t of None \<Rightarrow> [] | Some x \<Rightarrow> dx_iso env x) in
      [(case get_company db (dev_company_id d) of None \<Rightarrow> [] | Some c \<Rightarrow> com_name c), dev_hostname d, dev_status d,
       bs_label (dashboard_backup_status now d), fst_label (dashboard_firmware_status (dx_cfg env) now d), device_license_label d,
       at (dev_license_expires_at d), at (dev_last_seen_at d), at (dev_maintenance_until d)])"

definition export_dashboard_devices_csv :: "dash_env \<Rightarrow> dash_input \<Rightarrow> dash_filters \<Rightarrow> (db_session, dash_body) act" where
  "export_dashboard_devices_csv env inp f = (\<lambda>s.
     let content = csv_line [''company'', ''hostname'', ''status'', ''backup_status'', ''firmware_status'', ''license'',
             ''license_expires_at'', ''last_seen_at'', ''maintenance_until'']
           @ concat (map (\<lambda>d. csv_line (csv_row env (di_now inp) (work s) d)) (shown_devices (dash_view_of env inp f (work s))))
     in case (if \<not> nonempty (df_company_id f) then Inr None
              else case parse_uuid (the (df_company_id f)) of None \<Rightarrow> Inl ValueError | Some i \<Rightarrow> Inr (Some i)) of
          Inl e \<Rightarrow> (Inl e, s)
        | Inr company_uuid \<Rightarrow>
            commit_naming company_uuid (DashCsv content)
              (dash_audit env inp ''dashboard.export.devices_csv'' company_uuid None s))"

subsection \<open>The companies\<close>

definition companies_toast :: "string option \<Rightarrow> (string \<times> string) option" where
  "companies_toast r =
     (if r = Some ''bulk-backup-requested'' then Some (''Bulk backup requested for selected firewalls.'', ''success'')
      else if r = Some ''bulk-firmware-requested'' then Some (''Bulk firmware check requested for selected firewalls.'', ''success'')
      else None)"

definition companies_page :: "dash_env \<Rightarrow> dash_input \<Rightarrow> string option \<Rightarrow> (db_session, dash_body) act" where
  "companies_page env inp r = (\<lambda>s.
     let db = work s; u = di_user inp; cs = accessible_companies_for_user env db u; ids = map com_id cs;
         ds = (if ids = [] then [] else dx_devices_by_hostname env (filter (\<lambda>d. dev_company_id d \<in> set ids) (devices db)))
     in (rbind (rmap_list (\<lambda>c. rbind (has_company_access db u (com_id c) ''admin'') (\<lambda>admin.
           Inr (c, filter (\<lambda>d. dev_company_id d = com_id c) ds, admin))) cs) (\<lambda>rows. Inr (CompaniesPage rows (companies_toast r))), s))"

text \<open>The actions on several firewalls: each in turn, with its audit row, and one commit for all.\<close>

definition mark_requested :: "dash_input \<Rightarrow> string \<Rightarrow> device \<Rightarrow> device" where
  "mark_requested inp action d =
     (if action = ''request-backup'' then d\<lparr>dev_backup_last_requested_at := Some (di_now inp)\<rparr>
      else d\<lparr>dev_firmware_check_requested_at := Some (di_now inp), dev_firmware_check_request_reason := Some ''manual''\<rparr>)"

fun bulk_devices :: "dash_env \<Rightarrow> dash_input \<Rightarrow> string \<Rightarrow> device list \<Rightarrow> (db_session, unit) act" where
  "bulk_devices env inp action [] s = (Inr (), s)"
| "bulk_devices env inp action (d # ds) s =
     (case has_company_access (work s) (di_user inp) (dev_company_id d) ''admin'' of
        Inl e \<Rightarrow> (Inl e, s)
      | Inr False \<Rightarrow> (Inl not_found, s)
      | Inr True \<Rightarrow>
          if dev_revoked_at d \<noteq> None then bulk_devices env inp action ds s
          else bulk_devices env inp action ds
            (dash_audit env inp
               (if action = ''request-backup'' then ''device.backup.request_now'' else ''device.firmware.check.request_now'')
               (Some (dev_company_id d)) (Some (dev_id d)) (s\<lparr>work := put_device (mark_requested inp action d) (work s)\<rparr>)))"

definition selected_ids :: "string list \<Rightarrow> uuid list res" where
  "selected_ids device_ids =
     rbind (rmap_list (\<lambda>t. case parse_uuid t of None \<Rightarrow> Inl (HTTPException 400 ''invalid device id'') | Some i \<Rightarrow> Inr i) device_ids)
       (\<lambda>ids. Inr (rev (remdups (rev ids))))"

definition bulk_device_action :: "dash_env \<Rightarrow> dash_input \<Rightarrow> string \<Rightarrow> string list \<Rightarrow> (db_session, dash_body) act" where
  "bulk_device_action env inp action device_ids =
     (if action \<notin> {''request-backup'', ''request-firmware-check''} then araise (HTTPException 400 ''unsupported bulk action'')
      else abind (alift (selected_ids device_ids)) (\<lambda>ids s.
        if ids = [] then (Inl (HTTPException 400 ''select at least one firewall''), s)
        else
          let found = dx_devices_by_hostname env (filter (\<lambda>d. dev_id d \<in> set ids) (devices (work s))) in
          if length found \<noteq> length ids then (Inl not_found, s)
          else case bulk_devices env inp action found s of
            (Inl e, s') \<Rightarrow> (Inl e, s')
          | (Inr _, s') \<Rightarrow>
              (Inr (DashRedirect (query_url ''/companies'' [(''result'', Some
                 (if action = ''request-backup'' then ''bulk-backup-requested'' else ''bulk-firmware-requested''))])), commit s')))"

definition audit_action_labels :: "(string \<times> string) list" where
  "audit_action_labels =
     [(''device.enroll'', ''Firewall added''), (''device.revoke'', ''Firewall revoked''), (''device.delete_revoked'', ''Firewall removed''),
      (''device.view'', ''Firewall viewed''), (''device.proxy.open'', ''Firewall UI opened''),
      (''dashboard.attention.acknowledge'', ''Dashboard attention acknowledged'')]"

definition audit_logs_page :: "dash_env \<Rightarrow> dash_input \<Rightarrow> (db_session, dash_body) act" where
  "audit_logs_page env inp = aseq (alift (require_admin (di_user inp))) (\<lambda>s.
     let db = work s in
     (Inr (AuditPage (map (\<lambda>e. (e, Option.bind (al_user_id e) (get_user db), Option.bind (al_company_id e) (get_company db),
           Option.bind (al_device_id e) (get_device db),
           (case map_of audit_action_labels (al_action e) of None \<Rightarrow> al_action e | Some l \<Rightarrow> l)))
        (take 500 (dx_audit_newest env (filter (\<lambda>e. al_action e \<in> set (map fst audit_action_labels)) (audit_logs db)))))), s))"

end
