(* ===== verification/Companies.thy ===== *)
theory Companies
  imports Dashboard_Router
begin

text \<open>
  \<open>dashboard/app/routers/companies.py\<close>: the companies of a user, a new company, the page of one company with its
  figures, risks and timeline, and enrollment codes.
\<close>

definition COMPANY_TIMELINE_LIMIT :: nat where
  "COMPANY_TIMELINE_LIMIT = 12"

definition company_audit_action_labels :: "(string \<times> string) list" where
  "company_audit_action_labels =
     [(''device.enroll'', ''Firewall added''), (''device.revoke'', ''Firewall revoked''),
      (''device.runbook.update'', ''Runbook updated''), (''device.health_acknowledge'', ''Health issue acknowledged''),
      (''device.health_acknowledge.clear'', ''Health acknowledgement cleared''),
      (''device.backup.request_now'', ''Backup requested'')]"

definition list_companies :: "dash_env \<Rightarrow> dash_input \<Rightarrow> hub_db \<Rightarrow> json" where
  "list_companies env inp db =
     JList (map (\<lambda>c. JObj [(''id'', JStr (uuid_str (com_id c))), (''name'', JStr (com_name c)),
         (''created_at'', JStr (dx_iso env (com_created_at c)))])
       (accessible_companies_for_user env db (di_user inp)))"

definition create_company :: "dash_env \<Rightarrow> dash_input \<Rightarrow> string \<Rightarrow> (db_session, dash_body) act" where
  "create_company env inp name = aseq (alift (require_admin (di_user inp))) (\<lambda>s0.
     case fresh_uuid s0 of (i, s) \<Rightarrow>
       (Inr (DashRedirect (''/companies/'' @ uuid_str i)),
        commit (dash_audit env inp ''company.create'' (Some i) None (s\<lparr>work := (work s)\<lparr>
          companies := companies (work s) @ [\<lparr>com_id = i, com_name = strip name, com_created_at = di_now inp\<rparr>],
          company_users := company_users (work s) @
            [\<lparr>cu_company_id = i, cu_user_id = usr_id (di_user inp), cu_role = ''owner'', cu_created_at = di_now inp\<rparr>]\<rparr>\<rparr>))))"

subsection \<open>The page of a company\<close>

text \<open>\<open>s.title()\<close> and \<open>s.replace(c, " ")\<close>.\<close>

fun title_from :: "bool \<Rightarrow> string \<Rightarrow> string" where
  "title_from inside [] = []"
| "title_from inside (c # cs) = (if inside then lower_char c else upper_char c) # title_from (is_alpha c) cs"

definition spaced :: "char list \<Rightarrow> string \<Rightarrow> string" where
  "spaced cs s = map (\<lambda>c. if c \<in> set cs then CHR '' '' else c) s"

record timeline_entry =
  te_title :: string
  te_detail :: string
  te_timestamp :: instant
  te_actor :: string
  te_source :: string

definition event_timeline :: "device list \<Rightarrow> device_event \<Rightarrow> timeline_entry" where
  "event_timeline ds e =
     \<lparr>te_title = title_from False (spaced ''_'' (ev_event_type e)),
      te_detail = (if nonempty (ev_message e) then the (ev_message e) else ''Firewall activity recorded.''),
      te_timestamp = ev_created_at e,
      te_actor = (case find (\<lambda>d. dev_id d = ev_device_id e) ds of None \<Rightarrow> ''Firewall'' | Some d \<Rightarrow> dev_hostname d),
      te_source = ''event''\<rparr>"

definition audit_timeline :: "hub_db \<Rightarrow> audit_log \<Rightarrow> timeline_entry" where
  "audit_timeline db e =
     \<lparr>te_title = (case map_of company_audit_action_labels (al_action e) of
          Some l \<Rightarrow> l | None \<Rightarrow> title_from False (spaced ''._'' (al_action e))),
      te_detail = ''Administrative activity recorded in the audit log.'', te_timestamp = al_created_at e,
      te_actor = (case Option.bind (al_user_id e) (get_user db) of None \<Rightarrow> ''Hub user'' | Some u \<Rightarrow> usr_email u),
      te_source = ''audit''\<rparr>"

definition company_timeline :: "dash_env \<Rightarrow> hub_db \<Rightarrow> company \<Rightarrow> device list \<Rightarrow> timeline_entry list" where
  "company_timeline env db c ds =
     (let ids = map dev_id ds;
          recent_events = (if ids = [] then [] else take COMPANY_TIMELINE_LIMIT
            (dx_events_newest env (filter (\<lambda>e. ev_device_id e \<in> set ids) (device_events db))));
          recent_audit = (if ids = [] then [] else take COMPANY_TIMELINE_LIMIT
            (dx_audit_newest env (filter (\<lambda>e. al_company_id e = Some (com_id c) \<and> al_device_id e \<noteq> None
               \<and> al_action e \<noteq> ''device.view'') (audit_logs db))))
      in take COMPANY_TIMELINE_LIMIT
           (sort_key (\<lambda>t. - te_timestamp t) (map (event_timeline ds) recent_events @ map (audit_timeline db) recent_audit)))"

record risky_device =
  rk_device :: device
  rk_status :: string
  rk_backup :: backup_status
  rk_firmware :: firmware_state
  rk_license :: license_status
  rk_count :: int

definition risk_of :: "settings \<Rightarrow> instant \<Rightarrow> device \<Rightarrow> risky_device" where
  "risk_of cfg now d =
     (let status = normalized_status cfg now d; b = dashboard_backup_status now d; f = dashboard_firmware_status cfg now d;
          l = dashboard_license_status now d; one = (\<lambda>p. if p then 1 else 0 :: int) in
      \<lparr>rk_device = d, rk_status = status, rk_backup = b, rk_firmware = f, rk_license = l,
       rk_count = one (status \<in> {''warning'', ''critical''}) + one (bs_label b \<in> {''Overdue'', ''Never backed up''})
         + one (fst_attention f) + one (ls_expired l \<or> ls_expiring_soon l)\<rparr>)"

definition risky_devices :: "settings \<Rightarrow> instant \<Rightarrow> device list \<Rightarrow> risky_device list" where
  "risky_devices cfg now ds =
     sort_key (\<lambda>r. (- rk_count r, lower (dev_hostname (rk_device r)))) (filter (\<lambda>r. 0 < rk_count r) (map (risk_of cfg now) ds))"

record company_page =
  cp_company :: company
  cp_devices :: "device list"
  cp_codes :: "enrollment_code list"
  cp_figures :: company_figures
  cp_last_contact :: "instant list"
  cp_risky :: "risky_device list"
  cp_timeline :: "timeline_entry list"
  cp_can_manage :: bool

definition company_summary :: "settings \<Rightarrow> instant \<Rightarrow> company \<Rightarrow> device list \<Rightarrow> company_figures" where
  "company_summary cfg now c ds =
     (let active = filter (active_device cfg now) ds; n = (\<lambda>s. count_where (\<lambda>d. normalized_status cfg now d = s) ds) in
      \<lparr>cf_company = c, cf_firewalls = int (length ds), cf_online = n ''online'', cf_warning = n ''warning'',
       cf_critical = n ''critical'', cf_revoked = n ''revoked'',
       cf_backups_overdue = count_where (\<lambda>d. bs_label (dashboard_backup_status now d) = ''Overdue'') active,
       cf_firmware_attention = count_where (\<lambda>d. fst_attention (dashboard_firmware_status cfg now d)) active,
       cf_licenses_expiring = count_where (\<lambda>d. ls_expired (dashboard_license_status now d)
         \<or> ls_expiring_soon (dashboard_license_status now d)) active\<rparr>)"

definition company_detail :: "dash_env \<Rightarrow> dash_input \<Rightarrow> uuid \<Rightarrow> hub_db \<Rightarrow> company_page res" where
  "company_detail env inp i db =
     rbind (require_company db (di_user inp) i ''viewer'') (\<lambda>c.
     rbind (has_company_access db (di_user inp) (com_id c) ''admin'') (\<lambda>manage.
       let ds = dx_devices_by_hostname env (filter (\<lambda>d. dev_company_id d = com_id c) (devices db)) in
       Inr \<lparr>cp_company = c, cp_devices = ds,
         cp_codes = take 5 (dx_codes_newest env (filter (\<lambda>r. ec_company_id r = com_id c) (enrollment_codes db))),
         cp_figures = company_summary (dx_cfg env) (di_now inp) c ds,
         cp_last_contact = newest_at (concat (map (\<lambda>d. case dev_last_seen_at d of None \<Rightarrow> [] | Some t \<Rightarrow> [t]) ds)),
         cp_risky = risky_devices (dx_cfg env) (di_now inp) ds,
         cp_timeline = company_timeline env db c ds, cp_can_manage = manage\<rparr>))"

definition company_json :: "dash_input \<Rightarrow> uuid \<Rightarrow> hub_db \<Rightarrow> json res" where
  "company_json inp i db =
     rbind (require_company db (di_user inp) i ''viewer'') (\<lambda>c.
       Inr (JObj [(''id'', JStr (uuid_str (com_id c))), (''name'', JStr (com_name c))]))"

subsection \<open>Enrollment codes\<close>

record 'r company_world =
  cw_db :: db_session
  cw_limits :: "buckets \<times> 'r"

record 'r code_env =
  cx_crypto :: crypto
  cx_dash :: dash_env
  cx_redis :: "'r redis_client"
  cx_backend :: backend
  cx_tz :: time_zone

text \<open>The draws of \<open>random_otp\<close> and the salt of the hash are arguments; the answer shows the code once.\<close>

record code_answer =
  ca_code :: string
  ca_company :: string
  ca_expires_at :: instant
  ca_json :: "json option"

definition create_enrollment_code ::
  "'r code_env \<Rightarrow> dash_input \<Rightarrow> (nat \<Rightarrow> nat) \<Rightarrow> string \<Rightarrow> uuid \<Rightarrow> ('r company_world, code_answer) act" where
  "create_enrollment_code env inp choice salt i = (\<lambda>w0.
     let cfg = dx_cfg (cx_dash env); now = di_now inp; u = di_user inp in
     case require_company (work (cw_db w0)) u i ''admin'' of
       Inl e \<Rightarrow> (Inl e, w0)
     | Inr c \<Rightarrow>
         (case apply_rate_limit cfg (cx_redis env) (cx_backend env) now (di_request inp) ''enrollment-code'' (uuid_str (com_id c))
                 (cfg_rate_limit_enrollment_code_attempts cfg) (cfg_rate_limit_enrollment_code_window_seconds cfg) (cw_limits w0) of
            (Inl e, l) \<Rightarrow> (Inl e, w0\<lparr>cw_limits := l\<rparr>)
          | (Inr _, l) \<Rightarrow>
              (let code = random_otp choice; expires_at = now + minutes (cfg_otp_ttl_minutes cfg) in
               case fresh_uuid (cw_db w0) of (n, s) \<Rightarrow>
                 (Inr \<lparr>ca_code = code, ca_company = com_name c, ca_expires_at = expires_at,
                    ca_json = (if contains_str (or_empty (rq_headers (di_request inp) ''accept'')) ''application/json''
                      then Some (JObj [(''code'', JStr code), (''company'', JStr (com_name c)),
                        (''expires_at'', JStr (dx_iso (cx_dash env) expires_at)),
                        (''expires_at_display'', JStr (format_datetime (cx_tz env) (Some expires_at) True))]) else None)\<rparr>,
                  w0\<lparr>cw_limits := l, cw_db := commit (dash_audit (cx_dash env) inp ''enrollment_code.create'' (Some (com_id c)) None
                    (s\<lparr>work := (work s)\<lparr>enrollment_codes := enrollment_codes (work s) @
                       [\<lparr>ec_id = n, ec_company_id = com_id c, ec_code_hash = hash_secret (cx_crypto env) salt code,
                         ec_expires_at = expires_at, ec_used_at = None, ec_created_by = Some (usr_id u), ec_created_at = now\<rparr>]\<rparr>\<rparr>))\<rparr>))))"

end
