(* ===== verification/Dashboard_Facts.thy ===== *)
theory Dashboard_Facts
  imports Companies
begin

text \<open>
  The pages of a user depend on nothing but the rows of the companies that the user belongs to; acknowledging an item
  hides it and nothing else; an action on several firewalls happens to all of them or to none.
\<close>

subsection \<open>What a user may know\<close>

definition may_see_company :: "hub_db \<Rightarrow> user \<Rightarrow> uuid \<Rightarrow> bool" where
  "may_see_company db u i \<longleftrightarrow> is_global_admin u \<or> is_member db u i"

definition may_see_device :: "hub_db \<Rightarrow> user \<Rightarrow> device \<Rightarrow> bool" where
  "may_see_device db u d \<longleftrightarrow> get_company db (dev_company_id d) \<noteq> None \<and> may_see_company db u (dev_company_id d)"

text \<open>The database with everything else deleted: other companies with their firewalls, codes, events and log entries, and the
  memberships, filters and acknowledgements of other users. Names of users stay.\<close>

definition visible_part :: "user \<Rightarrow> hub_db \<Rightarrow> hub_db" where
  "visible_part u db =
     (let ids = set (map dev_id (filter (may_see_device db u) (devices db))) in
      db\<lparr>companies := filter (\<lambda>c. may_see_company db u (com_id c)) (companies db),
         company_users := filter (\<lambda>r. cu_user_id r = usr_id u) (company_users db),
         devices := filter (may_see_device db u) (devices db),
         enrollment_codes := filter (\<lambda>r. may_see_company db u (ec_company_id r)) (enrollment_codes db),
         device_events := filter (\<lambda>e. ev_device_id e \<in> ids) (device_events db),
         audit_logs := filter (\<lambda>a. (\<exists>i. al_company_id a = Some i \<and> may_see_company db u i)
             \<or> (\<exists>i\<in>ids. al_device_id a = Some i)) (audit_logs db),
         dashboard_filters := filter (\<lambda>r. udf_user_id r = usr_id u) (dashboard_filters db),
         attention_acks := filter (\<lambda>r. uaa_user_id r = usr_id u) (attention_acks db),
         sessions := [], pending_mfa_logins := [], proxy_sessions := [], device_backups := []\<rparr>)"

text \<open>What the ordering of a query does to rows: nothing but their order.\<close>

definition only_orders :: "dash_env \<Rightarrow> bool" where
  "only_orders env \<longleftrightarrow> (\<forall>xs. set (dx_devices_by_company env xs) = set xs) \<and> (\<forall>xs. set (dx_companies_by_name env xs) = set xs)
     \<and> (\<forall>xs. set (dx_devices_by_hostname env xs) = set xs)"

lemma find_filter: "(\<And>x. P x \<Longrightarrow> Q x = q) \<Longrightarrow> find P (filter Q xs) = (if q then find P xs else None)"
  by (induction xs) auto

lemma visible_tables [simp]:
  "users (visible_part u db) = users db" "integration_rows (visible_part u db) = integration_rows db"
  "companies (visible_part u db) = filter (\<lambda>c. may_see_company db u (com_id c)) (companies db)"
  "company_users (visible_part u db) = filter (\<lambda>r. cu_user_id r = usr_id u) (company_users db)"
  "devices (visible_part u db) = filter (may_see_device db u) (devices db)"
  "enrollment_codes (visible_part u db) = filter (\<lambda>r. may_see_company db u (ec_company_id r)) (enrollment_codes db)"
  "dashboard_filters (visible_part u db) = filter (\<lambda>r. udf_user_id r = usr_id u) (dashboard_filters db)"
  "attention_acks (visible_part u db) = filter (\<lambda>r. uaa_user_id r = usr_id u) (attention_acks db)"
  by (simp_all add: visible_part_def Let_def)

lemma visible_member [simp]: "is_member (visible_part u db) u i = is_member db u i"
  by (auto simp: is_member_def list_ex_iff)

lemma visible_get_company:
  "get_company (visible_part u db) i = (if may_see_company db u i then get_company db i else None)"
  unfolding get_company_def visible_tables by (rule find_filter) simp

lemma visible_get_user [simp]: "get_user (visible_part u db) i = get_user db i"
  by (simp add: get_user_def)

lemma visible_get_integration [simp]: "get_integration (visible_part u db) = get_integration db"
  by (simp add: get_integration_def)

lemma visible_role [simp]: "get_company_role (visible_part u db) u i = get_company_role db u i"
proof -
  have "find (\<lambda>r. cu_user_id r = usr_id u \<and> cu_company_id r = i) (filter (\<lambda>r. cu_user_id r = usr_id u) (company_users db))
      = find (\<lambda>r. cu_user_id r = usr_id u \<and> cu_company_id r = i) (company_users db)"
    by (subst find_filter [where q = True]) simp_all
  then show ?thesis by (simp add: get_company_role_def)
qed

lemma visible_access [simp]: "has_company_access (visible_part u db) u i m = has_company_access db u i m"
  by (simp add: has_company_access_def has_company_role_def)

lemma joined_visible:
  "concat (map (\<lambda>d. case get_company (visible_part u db) (dev_company_id d) of
         None \<Rightarrow> []
       | Some c \<Rightarrow> if is_global_admin u \<or> is_member (visible_part u db) u (dev_company_id d) then [(c, d)] else [])
       (filter (may_see_device db u) ds))
   = concat (map (\<lambda>d. case get_company db (dev_company_id d) of
         None \<Rightarrow> []
       | Some c \<Rightarrow> if is_global_admin u \<or> is_member db u (dev_company_id d) then [(c, d)] else []) ds)"
  by (induction ds) (auto simp: visible_get_company may_see_device_def may_see_company_def split: option.splits)

lemma accessible_visible:
  "accessible_devices_for_user env (visible_part u db) u = accessible_devices_for_user env db u"
  "accessible_companies_for_user env (visible_part u db) u = accessible_companies_for_user env db u"
  unfolding accessible_devices_for_user_def visible_tables joined_visible accessible_companies_for_user_def
  by (simp_all add: may_see_company_def cong: filter_cong)

lemma accessible_in:
  assumes "only_orders env" "d \<in> set (accessible_devices_for_user env db u)"
  shows "d \<in> set (devices db) \<and> may_see_device db u d"
proof -
  have "\<forall>xs. set (dx_devices_by_company env xs) = set xs" using assms(1) by (simp add: only_orders_def)
  then have "\<exists>x\<in>set (devices db). \<exists>c. get_company db (dev_company_id x) = Some c
      \<and> (is_global_admin u \<or> is_member db u (dev_company_id x)) \<and> d = x"
    using assms(2) by (auto simp: accessible_devices_for_user_def split: option.splits if_splits) (metis option.exhaust)+
  then show ?thesis by (auto simp: may_see_device_def may_see_company_def)
qed

subsection \<open>The dashboard of what the user may know\<close>

text \<open>A view on the visible part.\<close>

definition narrowed :: "dash_view \<Rightarrow> dash_view" where
  "narrowed v = v\<lparr>dv_db := visible_part (dv_user v) (dv_db v)\<rparr>"

lemma narrowed_simps [simp]:
  "dv_env (narrowed v) = dv_env v" "dv_now (narrowed v) = dv_now v" "dv_user (narrowed v) = dv_user v"
  "dv_filters (narrowed v) = dv_filters v" "dv_db (narrowed v) = visible_part (dv_user v) (dv_db v)"
  by (simp_all add: narrowed_def)

lemma narrowed_devices [simp]:
  "shown_devices (narrowed v) = shown_devices v" "shown_active (narrowed v) = shown_active v"
  "warning_critical_devices (narrowed v) = warning_critical_devices v" "missed_checks (narrowed v) = missed_checks v"
  "backup_summary_of (narrowed v) = backup_summary_of v" "firmware_summary_of (narrowed v) = firmware_summary_of v"
  "license_summary_of (narrowed v) = license_summary_of v" "lookup_device (narrowed v) i = lookup_device v i"
proof -
  show s: "shown_devices (narrowed v) = shown_devices v"
    by (simp add: shown_devices_def filtered_devices_def accessible_visible)
  show a: "shown_active (narrowed v) = shown_active v" by (simp add: shown_active_def s)
  show "warning_critical_devices (narrowed v) = warning_critical_devices v" "missed_checks (narrowed v) = missed_checks v"
    "backup_summary_of (narrowed v) = backup_summary_of v" "firmware_summary_of (narrowed v) = firmware_summary_of v"
    "license_summary_of (narrowed v) = license_summary_of v" "lookup_device (narrowed v) i = lookup_device v i"
    by (simp_all add: warning_critical_devices_def missed_checks_def backup_summary_of_def firmware_summary_of_def
        license_summary_of_def lookup_device_def accessible_visible a)
qed

lemma shown_in:
  "d \<in> set (shown_devices v) \<Longrightarrow> d \<in> set (accessible_devices_for_user (dv_env v) (dv_db v) (dv_user v))"
  by (simp add: shown_devices_def filtered_devices_def)

lemma active_in: "d \<in> set (shown_active v) \<Longrightarrow> d \<in> set (accessible_devices_for_user (dv_env v) (dv_db v) (dv_user v))"
  by (simp add: shown_active_def shown_in)

lemma narrowed_company:
  assumes "only_orders (dv_env v)" "d \<in> set (accessible_devices_for_user (dv_env v) (dv_db v) (dv_user v))"
  shows "device_company (narrowed v) d = device_company v d" "company_name_of (narrowed v) d = company_name_of v d"
  using accessible_in [OF assms] by (simp_all add: device_company_def company_name_of_def visible_get_company may_see_device_def)

lemma narrowed_rows:
  assumes "only_orders (dv_env v)"
  shows "backup_entries (narrowed v) = backup_entries v" "firmware_attention_rows (narrowed v) = firmware_attention_rows v"
    "license_rows (narrowed v) = license_rows v" "health_items (narrowed v) = health_items v"
    "enrollment_items (narrowed v) = enrollment_items v"
proof -
  note c = narrowed_company [OF assms]
  have w: "d \<in> set (warning_critical_devices v) \<Longrightarrow> d \<in> set (shown_active v)" for d
    by (simp add: warning_critical_devices_def)
  show "backup_entries (narrowed v) = backup_entries v" "firmware_attention_rows (narrowed v) = firmware_attention_rows v"
    "license_rows (narrowed v) = license_rows v"
    by (auto simp: backup_entries_def firmware_attention_rows_def license_rows_def c dest!: active_in intro!: map_cong arg_cong [where f = "sort_key _"])
  show "health_items (narrowed v) = health_items v" "enrollment_items (narrowed v) = enrollment_items v"
    by (auto simp: health_items_def enrollment_items_def c Let_def dest!: active_in w intro!: map_cong)
qed

lemma narrowed_items:
  assumes "only_orders (dv_env v)"
  shows "backup_items (narrowed v) = backup_items v" "firmware_items (narrowed v) = firmware_items v"
    "license_items (narrowed v) = license_items v" "hub_email_items (narrowed v) = hub_email_items v"
  by (simp_all add: backup_items_def firmware_items_def license_items_def hub_email_items_def narrowed_rows [OF assms]
      enabled_notification_devices_def email_ready_def)

lemma narrowed_events:
  assumes "only_orders (dv_env v)"
  shows "shown_events (narrowed v) p = shown_events v p"
proof -
  have "map dev_id (shown_devices v) = ids \<Longrightarrow> filter (\<lambda>e. ev_device_id e \<in> set ids \<and> p e) (device_events (visible_part (dv_user v) (dv_db v)))
      = filter (\<lambda>e. ev_device_id e \<in> set ids \<and> p e) (device_events (dv_db v))" for ids
    using accessible_in [OF assms shown_in]
    by (auto simp: visible_part_def Let_def intro!: filter_cong)
  then show ?thesis by (simp add: shown_events_def Let_def)
qed

lemma found_in: "find P xs = Some x \<Longrightarrow> x \<in> set xs"
  by (induction xs) (auto split: if_splits)

lemma narrowed_entries:
  assumes "only_orders (dv_env v)"
  shows "event_entries (narrowed v) key es = event_entries v key es"
proof -
  have "lookup_device v i = Some d \<Longrightarrow> d \<in> set (accessible_devices_for_user (dv_env v) (dv_db v) (dv_user v))" for i d
    unfolding lookup_device_def by (drule found_in) simp
  then show ?thesis
    by (auto simp: event_entries_def narrowed_company [OF assms] split: option.splits intro!: arg_cong [where f = concat] map_cong)
qed

lemma narrowed_keys [simp]: "acknowledged_attention_keys (narrowed v) = acknowledged_attention_keys v"
  by (simp add: acknowledged_attention_keys_def conj_commute)

lemma narrowed_lists:
  assumes "only_orders (dv_env v)"
  shows "notification_failure_rows (narrowed v) = notification_failure_rows v" "recent_events (narrowed v) = recent_events v"
    "recently_offline (narrowed v) = recently_offline v" "recovered_recently (narrowed v) = recovered_recently v"
    "failure_items (narrowed v) = failure_items v"
proof -
  note e = narrowed_entries [OF assms] narrowed_events [OF assms]
  show n: "notification_failure_rows (narrowed v) = notification_failure_rows v"
    by (simp add: notification_failure_rows_def failure_key_def e)
  show r: "recent_events (narrowed v) = recent_events v" by (simp add: recent_events_def e)
  show "recently_offline (narrowed v) = recently_offline v" "recovered_recently (narrowed v) = recovered_recently v"
    "failure_items (narrowed v) = failure_items v"
    by (simp_all add: recently_offline_def recovered_recently_def recent_health_def failure_items_def r n split: list.split)
qed

lemma narrowed_attention:
  assumes "only_orders (dv_env v)"
  shows "attention_items (narrowed v) = attention_items v"
  by (simp add: attention_items_def attention_candidates_def narrowed_items [OF assms] narrowed_rows [OF assms] narrowed_lists [OF assms])

lemma narrowed_context:
  assumes "only_orders (dv_env v)"
  shows "build_dashboard_context (narrowed v) = build_dashboard_context v"
proof -
  have "company_figures_of (narrowed v) = company_figures_of v" by (rule ext) (simp add: company_figures_of_def)
  moreover have "filtered_companies (dv_env v) (dv_now v) (visible_part (dv_user v) (dv_db v)) (dv_user v) (dv_filters v)
      = filtered_companies (dv_env v) (dv_now v) (dv_db v) (dv_user v) (dv_filters v)"
    by (simp add: filtered_companies_def filtered_devices_def accessible_visible)
  ultimately have "company_overview (narrowed v) = company_overview v" by (simp add: company_overview_def)
  moreover have "dash_summary_of (narrowed v) = dash_summary_of v" by (simp add: dash_summary_of_def narrowed_lists [OF assms])
  moreover have "notification_health_of (narrowed v) = notification_health_of v"
    by (simp add: notification_health_of_def email_ready_def enabled_notification_devices_def narrowed_lists [OF assms] narrowed_events [OF assms]
        split: list.split)
  ultimately show ?thesis
    by (simp add: build_dashboard_context_def Let_def narrowed_lists [OF assms] narrowed_rows [OF assms] narrowed_attention [OF assms]
        accessible_visible)
qed

lemma narrowed_revision:
  assumes "only_orders env"
  shows "dashboard_revision_token env now (visible_part u db) u f = dashboard_revision_token env now db u f"
proof -
  let ?ds = "filtered_devices env now db u f"
  have ds: "filtered_devices env now (visible_part u db) u f = ?ds" by (simp add: filtered_devices_def accessible_visible)
  have ids: "d \<in> set (devices db) \<and> may_see_device db u d" if "d \<in> set ?ds" for d
    using that accessible_in [OF assms, of d db u] by (simp add: filtered_devices_def)
  have "filter (\<lambda>e. ev_device_id e \<in> set (map dev_id ?ds)) (device_events (visible_part u db))
      = filter (\<lambda>e. ev_device_id e \<in> set (map dev_id ?ds)) (device_events db)"
    using ids by (auto simp: visible_part_def Let_def intro!: filter_cong)
  moreover have "filter (\<lambda>a. \<exists>i\<in>set (map dev_id ?ds). al_device_id a = Some i) (audit_logs (visible_part u db))
      = filter (\<lambda>a. \<exists>i\<in>set (map dev_id ?ds). al_device_id a = Some i) (audit_logs db)"
    using ids by (auto simp: visible_part_def Let_def intro!: filter_cong)
  ultimately show ?thesis by (simp only: dashboard_revision_token_def ds Let_def visible_tables filter_filter conj_absorb)
qed

subsection \<open>The pages of what the user may know\<close>

lemma narrowed_view:
  "dash_view_of env inp f (visible_part (di_user inp) db) = narrowed (dash_view_of env inp f db)"
  by (simp add: dash_view_of_def narrowed_def)

lemma saved_filters_visible [simp]:
  "saved_dashboard_filters env (visible_part u db) u = saved_dashboard_filters env db u"
  by (simp add: saved_dashboard_filters_def)

lemma found_company: "get_company db i = Some c \<Longrightarrow> c \<in> set (companies db) \<and> com_id c = i"
  by (auto simp: get_company_def find_Some_iff)

lemma company_found: "c \<in> set (companies db) \<Longrightarrow> get_company db (com_id c) \<noteq> None"
  by (auto simp: get_company_def find_None_iff)

lemma devices_of_visible:
  assumes "\<forall>i\<in>ids. may_see_company db u i \<and> get_company db i \<noteq> None"
  shows "filter (\<lambda>d. dev_company_id d \<in> ids) (devices (visible_part u db)) = filter (\<lambda>d. dev_company_id d \<in> ids) (devices db)"
  using assms by (auto simp: may_see_device_def intro!: filter_cong)

lemma companies_page_visible:
  assumes "only_orders env"
  shows "fst (companies_page env inp r (s\<lparr>work := visible_part (di_user inp) (work s)\<rparr>)) = fst (companies_page env inp r s)"
proof -
  let ?u = "di_user inp"
  let ?cs = "accessible_companies_for_user env (work s) ?u"
  have "may_see_company (work s) ?u i \<and> get_company (work s) i \<noteq> None" if "i \<in> set (map com_id ?cs)" for i
    using that assms company_found [of _ "work s"]
    by (auto simp: accessible_companies_for_user_def only_orders_def may_see_company_def)
  then have "filter (\<lambda>d. dev_company_id d \<in> set (map com_id ?cs)) (devices (visible_part ?u (work s)))
      = filter (\<lambda>d. dev_company_id d \<in> set (map com_id ?cs)) (devices (work s))"
    by (intro devices_of_visible) blast
  then show ?thesis by (simp add: companies_page_def accessible_visible Let_def del: visible_tables)
qed

lemma unseen_refused:
  assumes "\<not> may_see_company db u i" "m \<in> {''viewer'', ''admin'', ''owner''}"
  shows "require_company db u i m = Inl company_not_found" "require_company (visible_part u db) u i m = Inl company_not_found"
proof -
  have "has_company_access db u i m = Inr False"
    using assms by (auto simp: has_company_access_def has_company_role_def get_company_role_def may_see_company_def is_member_def list_ex_iff
        find_Some_iff split: option.splits dest!: nth_mem)
  then show "require_company db u i m = Inl company_not_found" "require_company (visible_part u db) u i m = Inl company_not_found"
    using assms(1) by (simp_all add: require_company_def visible_get_company split: option.split)
qed

lemma seen_company:
  "may_see_company db u i \<Longrightarrow> require_company (visible_part u db) u i m = require_company db u i m"
  by (simp add: require_company_def visible_get_company split: option.split)

lemma timeline_visible:
  assumes "get_company db i = Some c" "may_see_company db u i" "set ds \<subseteq> set (filter (\<lambda>d. dev_company_id d = i) (devices db))"
  shows "company_timeline env (visible_part u db) c ds = company_timeline env db c ds"
proof -
  have c: "com_id c = i" using found_company [OF assms(1)] by blast
  have ds: "d \<in> set (devices db) \<and> may_see_device db u d" if "d \<in> set ds" for d
    using that assms by (auto simp: may_see_device_def)
  have "filter (\<lambda>e. ev_device_id e \<in> set (map dev_id ds)) (device_events (visible_part u db))
      = filter (\<lambda>e. ev_device_id e \<in> set (map dev_id ds)) (device_events db)"
    using ds by (auto simp: visible_part_def Let_def intro!: filter_cong)
  moreover have "filter (\<lambda>e. al_company_id e = Some (com_id c) \<and> al_device_id e \<noteq> None \<and> al_action e \<noteq> ''device.view'') (audit_logs (visible_part u db))
      = filter (\<lambda>e. al_company_id e = Some (com_id c) \<and> al_device_id e \<noteq> None \<and> al_action e \<noteq> ''device.view'') (audit_logs db)"
    using assms(2) by (auto simp: visible_part_def Let_def c intro!: filter_cong)
  moreover have "audit_timeline (visible_part u db) = audit_timeline db"
  proof -
    have "get_user (visible_part u db) = get_user db" by (rule ext) simp
    then show ?thesis by (intro ext) (simp only: audit_timeline_def)
  qed
  ultimately show ?thesis by (simp only: company_timeline_def Let_def)
qed

lemma company_detail_visible:
  assumes "only_orders env"
  shows "company_detail env inp i (visible_part (di_user inp) db) = company_detail env inp i db"
proof (cases "may_see_company db (di_user inp) i")
  case False
  then show ?thesis using unseen_refused [OF False] by (simp add: company_detail_def)
next
  case True
  show ?thesis
  proof (cases "require_company db (di_user inp) i ''viewer''")
    case (Inl e)
    then show ?thesis using seen_company [OF True] by (simp add: company_detail_def)
  next
    case (Inr c)
    then have c: "get_company db i = Some c"
      by (auto simp: require_company_def rbind_Inr_iff split: option.splits if_splits)
    then have ci: "com_id c = i" using found_company by blast
    let ?ds = "dx_devices_by_hostname env (filter (\<lambda>d. dev_company_id d = com_id c) (devices db))"
    have d: "filter (\<lambda>d. dev_company_id d = com_id c) (devices (visible_part (di_user inp) db))
        = filter (\<lambda>d. dev_company_id d = com_id c) (devices db)"
      using devices_of_visible [of "{i}" db "di_user inp"] True c by (simp add: ci)
    have e: "filter (\<lambda>r. ec_company_id r = com_id c) (enrollment_codes (visible_part (di_user inp) db))
        = filter (\<lambda>r. ec_company_id r = com_id c) (enrollment_codes db)"
      using True by (auto simp: ci intro!: filter_cong)
    have "set ?ds \<subseteq> set (filter (\<lambda>d. dev_company_id d = i) (devices db))" using assms by (simp add: only_orders_def ci)
    note t = timeline_visible [OF c True this]
    show ?thesis
      by (simp only: company_detail_def seen_company [OF True] Inr rbind_simps visible_access d e t Let_def)
  qed
qed

lemma company_json_visible:
  "company_json inp i (visible_part (di_user inp) db) = company_json inp i db"
proof (cases "may_see_company db (di_user inp) i")
  case False
  then show ?thesis using unseen_refused [OF False] by (simp add: company_json_def)
qed (simp add: company_json_def seen_company)

lemma export_visible:
  assumes "only_orders env" "\<And>t i. df_company_id f = Some t \<Longrightarrow> parse_uuid t = Some i \<Longrightarrow> may_see_company (work s) (di_user inp) i"
  shows "fst (export_dashboard_devices_csv env inp f (s\<lparr>work := visible_part (di_user inp) (work s)\<rparr>))
    = fst (export_dashboard_devices_csv env inp f s)"
proof -
  let ?v = "dash_view_of env inp f (work s)"
  have c: "concat (map (\<lambda>d. csv_line (csv_row env (di_now inp) (visible_part (di_user inp) (work s)) d)) (shown_devices ?v))
      = concat (map (\<lambda>d. csv_line (csv_row env (di_now inp) (work s) d)) (shown_devices ?v))"
  proof (rule arg_cong [where f = concat], rule map_cong [OF refl])
    fix d
    assume "d \<in> set (shown_devices ?v)"
    from accessible_in [OF _ shown_in [OF this]] assms(1) have "may_see_device (work s) (di_user inp) d"
      by (simp add: dash_view_of_def)
    then show "csv_line (csv_row env (di_now inp) (visible_part (di_user inp) (work s)) d) = csv_line (csv_row env (di_now inp) (work s) d)"
      by (simp add: csv_row_def visible_get_company may_see_device_def)
  qed
  have g: "get_company (work (dash_audit env inp a c b x)) j = get_company (work x) j" for a c b x j
    by (auto simp: dash_audit_def write_audit_def fresh_uuid_def get_company_def)
  consider "\<not> nonempty (df_company_id f)" | t where "df_company_id f = Some t" "nonempty (df_company_id f)" "parse_uuid t = None"
    | t i where "df_company_id f = Some t" "nonempty (df_company_id f)" "parse_uuid t = Some i"
    by (cases "df_company_id f"; cases "parse_uuid (the (df_company_id f))") auto
  then show ?thesis
  proof cases
    case (3 t i)
    with assms(2) have "get_company (visible_part (di_user inp) (work s)) i = get_company (work s) i" by (simp add: visible_get_company)
    then show ?thesis using 3 by (simp add: export_dashboard_devices_csv_def Let_def narrowed_view c commit_naming_def g)
  qed (simp_all add: export_dashboard_devices_csv_def Let_def narrowed_view c commit_naming_def)
qed


subsection \<open>Acknowledging\<close>

lemma audit_keeps:
  "users (work (dash_audit env inp a c b s)) = users (work s)" "devices (work (dash_audit env inp a c b s)) = devices (work s)"
  "companies (work (dash_audit env inp a c b s)) = companies (work s)"
  "company_users (work (dash_audit env inp a c b s)) = company_users (work s)"
  "device_events (work (dash_audit env inp a c b s)) = device_events (work s)"
  "attention_acks (work (dash_audit env inp a c b s)) = attention_acks (work s)"
  "integration_rows (work (dash_audit env inp a c b s)) = integration_rows (work s)"
  "committed (dash_audit env inp a c b s) = committed s"
  by (auto simp: dash_audit_def write_audit_def fresh_uuid_def)

text \<open>What the attention items depend on, but for the acknowledgements of the user.\<close>

definition same_state :: "hub_db \<Rightarrow> hub_db \<Rightarrow> bool" where
  "same_state d d' \<longleftrightarrow> companies d' = companies d \<and> company_users d' = company_users d \<and> devices d' = devices d
     \<and> device_events d' = device_events d \<and> integration_rows d' = integration_rows d"

lemma same_devices:
  assumes "same_state (dv_db v) d'" and "v' = v\<lparr>dv_db := d'\<rparr>"
  shows "shown_devices v' = shown_devices v" "shown_active v' = shown_active v"
    "device_company v' = device_company v" "company_name_of v' = company_name_of v"
    "warning_critical_devices v' = warning_critical_devices v" "lookup_device v' = lookup_device v"
    "shown_events v' = shown_events v" "email_ready v' = email_ready v"
proof -
  have g: "get_company d' = get_company (dv_db v)" and m: "is_member d' = is_member (dv_db v)"
    using assms(1) by (auto simp: same_state_def get_company_def is_member_def fun_eq_iff)
  have a: "accessible_devices_for_user (dv_env v) d' (dv_user v) = accessible_devices_for_user (dv_env v) (dv_db v) (dv_user v)"
    unfolding accessible_devices_for_user_def g m using assms(1) by (simp add: same_state_def)
  show s: "shown_devices v' = shown_devices v" by (simp add: shown_devices_def filtered_devices_def a assms(2))
  show ac: "shown_active v' = shown_active v" using s by (simp add: shown_active_def assms(2))
  show c: "device_company v' = device_company v" by (simp add: device_company_def g fun_eq_iff assms(2))
  show "company_name_of v' = company_name_of v" by (simp add: company_name_of_def c fun_eq_iff)
  show "warning_critical_devices v' = warning_critical_devices v" unfolding warning_critical_devices_def ac by (simp add: assms(2))
  show "lookup_device v' = lookup_device v" by (simp add: lookup_device_def a fun_eq_iff assms(2))
  show "shown_events v' = shown_events v" using assms s by (simp add: shown_events_def same_state_def fun_eq_iff)
  show "email_ready v' = email_ready v" using assms by (simp add: email_ready_def same_state_def get_integration_def)
qed

lemma same_items:
  assumes "same_state (dv_db v) d'" and v': "v' = v\<lparr>dv_db := d'\<rparr>"
    and "notification_failure_rows v' = notification_failure_rows v"
  shows "attention_candidates v' = attention_candidates v"
proof -
  note s = same_devices [OF assms(1) refl]
  have "backup_entries v' = backup_entries v" "firmware_attention_rows v' = firmware_attention_rows v" "license_rows v' = license_rows v"
    by (simp_all add: v' backup_entries_def firmware_attention_rows_def license_rows_def s)
  then show ?thesis using assms(3)
    by (simp add: v' attention_candidates_def health_items_def backup_items_def firmware_items_def license_items_def enrollment_items_def
        hub_email_items_def failure_items_def enabled_notification_devices_def s split: list.split)
qed

lemma acknowledged_effect:
  assumes "in_session (acknowledge_dashboard_attention env inp key c st) s = (Inr r, s')"
    and "k = take 255 (strip key)"
  shows "same_state (work s) (work s')"
    "set (map uaa_attention_key (filter (\<lambda>r. uaa_user_id r = usr_id (di_user inp)) (attention_acks (work s'))))
      = insert k (set (map uaa_attention_key (filter (\<lambda>r. uaa_user_id r = usr_id (di_user inp)) (attention_acks (work s)))))"
    "u \<noteq> usr_id (di_user inp) \<Longrightarrow> filter (\<lambda>r. uaa_user_id r = u) (attention_acks (work s'))
      = filter (\<lambda>r. uaa_user_id r = u) (attention_acks (work s))"
    "committed s' = work s'"
proof -
  have k: "k \<noteq> []" using assms by (auto simp: in_session_def acknowledge_dashboard_attention_def Let_def split: if_splits)
  let ?old = "list_ex (\<lambda>r. uaa_user_id r = usr_id (di_user inp) \<and> uaa_attention_key r = k) (attention_acks (work s))"
  let ?row = "\<lparr>uaa_id = uuid_supply s, uaa_user_id = usr_id (di_user inp), uaa_attention_key = k, uaa_created_at = di_now inp\<rparr>"
  let ?s1 = "if ?old then s else s\<lparr>uuid_supply := uuid_supply s + 1,
      work := (work s)\<lparr>attention_acks := attention_acks (work s) @ [?row]\<rparr>\<rparr>"
  have s': "s' = commit (dash_audit env inp ''dashboard.attention.acknowledge'' None None ?s1)"
    using assms k by (auto simp: in_session_def acknowledge_dashboard_attention_def Let_def fresh_uuid_def rollback_def commit_def)
  show "same_state (work s) (work s')" by (simp add: s' same_state_def audit_keeps)
  show "committed s' = work s'" by (simp add: s')
  show "set (map uaa_attention_key (filter (\<lambda>r. uaa_user_id r = usr_id (di_user inp)) (attention_acks (work s'))))
      = insert k (set (map uaa_attention_key (filter (\<lambda>r. uaa_user_id r = usr_id (di_user inp)) (attention_acks (work s)))))"
  proof (cases ?old)
    case True
    then show ?thesis by (auto simp: s' audit_keeps list_ex_iff image_iff)
  next
    case False
    then have "attention_acks (work s') = attention_acks (work s) @ [?row]" by (simp only: s' commit_simps audit_keeps if_False) simp
    then show ?thesis by simp
  qed
  show "u \<noteq> usr_id (di_user inp) \<Longrightarrow> filter (\<lambda>r. uaa_user_id r = u) (attention_acks (work s'))
      = filter (\<lambda>r. uaa_user_id r = u) (attention_acks (work s))"
    by (simp add: s' audit_keeps)
qed

text \<open>The item that counts the failed mails changes with their acknowledgement; the others are about something else.\<close>

lemma failure_rows_of:
  assumes "same_state (dv_db v) d'" "v' = v\<lparr>dv_db := d'\<rparr>"
    and "\<And>e. e \<in> set (device_events (dv_db v)) \<Longrightarrow>
      failure_key v e \<in> set (acknowledged_attention_keys v') \<longleftrightarrow> failure_key v e \<in> set (acknowledged_attention_keys v)"
    and newest: "\<And>xs. set (dx_events_newest (dv_env v) xs) \<subseteq> set xs"
  shows "notification_failure_rows v' = notification_failure_rows v"
proof -
  note s = same_devices [OF assms(1,2)]
  have key: "failure_key v' = failure_key v" by (simp add: failure_key_def assms(2) fun_eq_iff)
  have "set (shown_events v p) \<subseteq> set (device_events (dv_db v))" for p
    using newest [of "filter (\<lambda>e. ev_device_id e \<in> set (map dev_id (shown_devices v)) \<and> p e) (device_events (dv_db v))"]
    by (auto simp: shown_events_def Let_def)
  then have "filter (\<lambda>e. failure_key v e \<notin> set (acknowledged_attention_keys v')) (shown_events v p)
      = filter (\<lambda>e. failure_key v e \<notin> set (acknowledged_attention_keys v)) (shown_events v p)" for p
    using assms(3) by (intro filter_cong) auto
  moreover have "event_entries v' = event_entries v" unfolding event_entries_def s by simp
  ultimately show ?thesis by (simp add: notification_failure_rows_def key s)
qed


subsection \<open>Actions on several firewalls\<close>

definition requested :: "dash_input \<Rightarrow> string \<Rightarrow> device set \<Rightarrow> device list \<Rightarrow> device list" where
  "requested inp action sel ds = map (\<lambda>d. if d \<in> sel \<and> dev_revoked_at d = None then mark_requested inp action d else d) ds"

definition not_revoked :: "device list \<Rightarrow> device list" where
  "not_revoked ds = filter (\<lambda>d. dev_revoked_at d = None) ds"

lemma mark_requested_id [simp]: "dev_id (mark_requested inp action d) = dev_id d"
  by (simp add: mark_requested_def)

lemma audited_row:
  assumes "action = ''device.backup.request_now'' \<or> action = ''device.firmware.check.request_now''"
  shows "\<exists>row. work (dash_audit env inp action c (Some i) s) = (work s)\<lparr>audit_logs := audit_logs (work s) @ [row]\<rparr>
    \<and> al_device_id row = Some i \<and> al_user_id row = Some (usr_id (di_user inp)) \<and> al_action row = action"
proof -
  have w: "should_write_audit cfg t db action u' d" for cfg t db u' d using assms by (auto simp: should_write_audit_def)
  define row where "row = last (audit_logs (work (dash_audit env inp action c (Some i) s)))"
  have "work (dash_audit env inp action c (Some i) s) = (work s)\<lparr>audit_logs := audit_logs (work s) @ [row]\<rparr>"
    "al_device_id row = Some i" "al_user_id row = Some (usr_id (di_user inp))" "al_action row = action"
    by (simp_all add: row_def dash_audit_def write_audit_def w fresh_uuid_def)
  then show ?thesis by blast
qed

lemma requested_step:
  assumes "distinct (map dev_id xs)" "d \<in> set xs" "dev_id d \<notin> dev_id ` set ds" "dev_revoked_at d = None"
  shows "requested inp action (set ds) (update_where (\<lambda>x. dev_id x = dev_id d) (\<lambda>_. mark_requested inp action d) xs)
     = requested inp action (set (d # ds)) xs"
proof -
  have "dev_id x = dev_id d \<longleftrightarrow> x = d" if "x \<in> set xs" for x
    using that assms(1,2) by (auto simp: distinct_map inj_on_def)
  moreover have "mark_requested inp action d \<notin> set ds" using assms(3) by (metis image_eqI mark_requested_id)
  ultimately show ?thesis using assms(4)
    unfolding requested_def update_where_def map_map by (intro map_cong) auto
qed

lemma bulk_effect:
  assumes "bulk_devices env inp action ds s = (Inr (), s')" "distinct (map dev_id ds)" "set ds \<subseteq> set (devices (work s))"
    "distinct (map dev_id (devices (work s)))"
  shows "(\<forall>d\<in>set ds. has_company_access (work s) (di_user inp) (dev_company_id d) ''admin'' = Inr True)
    \<and> (\<exists>rows. work s' = (work s)\<lparr>devices := requested inp action (set ds) (devices (work s)), audit_logs := audit_logs (work s) @ rows\<rparr>
        \<and> map al_device_id rows = map (\<lambda>d. Some (dev_id d)) (not_revoked ds)
        \<and> (\<forall>row\<in>set rows. al_user_id row = Some (usr_id (di_user inp))))"
  using assms
proof (induction ds arbitrary: s)
  case Nil
  have "requested inp action {} xs = xs" for xs by (simp add: requested_def)
  then have "work s = (work s)\<lparr>devices := requested inp action (set []) (devices (work s)), audit_logs := audit_logs (work s) @ []\<rparr>"
    by simp
  moreover have "s' = s" using Nil by simp
  ultimately show ?case by (intro conjI exI [of _ "[]"]) (simp_all add: not_revoked_def)
next
  case (Cons d ds)
  have ok: "has_company_access (work s) (di_user inp) (dev_company_id d) ''admin'' = Inr True"
    using Cons.prems(1) by (auto split: sum.splits bool.splits)
  show ?case
  proof (cases "dev_revoked_at d = None")
    case False
    have "requested inp action (set (d # ds)) xs = requested inp action (set ds) xs" for xs
      using False by (auto simp: requested_def)
    moreover have "bulk_devices env inp action ds s = (Inr (), s')" using Cons.prems(1) ok False by simp
    ultimately show ?thesis using Cons.IH [of s] Cons.prems(2-4) ok False by (auto simp: not_revoked_def)
  next
    case True
    let ?a = "if action = ''request-backup'' then ''device.backup.request_now'' else ''device.firmware.check.request_now''"
    let ?p = "s\<lparr>work := put_device (mark_requested inp action d) (work s)\<rparr>"
    let ?s = "dash_audit env inp ?a (Some (dev_company_id d)) (Some (dev_id d)) ?p"
    let ?devs = "update_where (\<lambda>x. dev_id x = dev_id d) (\<lambda>_. mark_requested inp action d) (devices (work s))"
    obtain row where row: "work ?s = (work s)\<lparr>devices := ?devs, audit_logs := audit_logs (work s) @ [row]\<rparr>"
        "al_device_id row = Some (dev_id d)" "al_user_id row = Some (usr_id (di_user inp))"
    proof -
      have "?a = ''device.backup.request_now'' \<or> ?a = ''device.firmware.check.request_now''" by simp
      from audited_row [OF this, of env inp "Some (dev_company_id d)" "dev_id d" ?p] show thesis
        using that by (fastforce simp: put_device_def)
    qed
    have d: "dev_id d \<notin> dev_id ` set ds" "d \<in> set (devices (work s))" using Cons.prems(2,3) by auto
    have "map dev_id ?devs = map dev_id (devices (work s))" by (auto simp: update_where_def)
    moreover have "set ds \<subseteq> set ?devs"
    proof
      fix x
      assume "x \<in> set ds"
      then have "x \<in> set (devices (work s))" "dev_id x \<noteq> dev_id d" using Cons.prems(3) d(1) by (auto simp: image_iff)
      then show "x \<in> set ?devs" unfolding set_update_where by (intro image_eqI [of _ _ x]) simp_all
    qed
    moreover have "bulk_devices env inp action ds ?s = (Inr (), s')" using Cons.prems(1) ok True by simp
    ultimately have ih: "(\<forall>x\<in>set ds. has_company_access (work ?s) (di_user inp) (dev_company_id x) ''admin'' = Inr True)
      \<and> (\<exists>rows. work s' = (work ?s)\<lparr>devices := requested inp action (set ds) (devices (work ?s)), audit_logs := audit_logs (work ?s) @ rows\<rparr>
          \<and> map al_device_id rows = map (\<lambda>d. Some (dev_id d)) (not_revoked ds)
          \<and> (\<forall>row\<in>set rows. al_user_id row = Some (usr_id (di_user inp))))"
      using Cons.IH [of ?s] Cons.prems(2-4) row(1) by simp
    have "has_company_access (work ?s) = has_company_access (work s)"
      by (intro ext) (simp add: row(1) has_company_access_def has_company_role_def get_company_role_def)
    note access = this and step = requested_step [OF Cons.prems(4) d(2,1) True, of inp action]
    obtain rows where rows: "work s' = (work ?s)\<lparr>devices := requested inp action (set ds) (devices (work ?s)),
          audit_logs := audit_logs (work ?s) @ rows\<rparr>" "map al_device_id rows = map (\<lambda>d. Some (dev_id d)) (not_revoked ds)"
        "\<forall>row\<in>set rows. al_user_id row = Some (usr_id (di_user inp))" using ih by blast
    have "work s' = (work s)\<lparr>devices := requested inp action (set (d # ds)) (devices (work s)),
        audit_logs := audit_logs (work s) @ (row # rows)\<rparr>"
      unfolding rows(1) row(1) using step by simp
    moreover have "map al_device_id (row # rows) = map (\<lambda>d. Some (dev_id d)) (not_revoked (d # ds))"
      using rows(2) row(2) True by (simp add: not_revoked_def)
    ultimately show ?thesis using ih ok row(3) rows(3) unfolding access by (intro conjI exI [of _ "row # rows"]) simp_all
  qed
qed

lemma selected_distinct: "selected_ids texts = Inr ids \<Longrightarrow> distinct ids"
  by (auto simp: selected_ids_def rbind_Inr_iff)

lemma all_found:
  assumes "distinct (map dev_id xs)" "set (map dev_id xs) \<subseteq> set ids" "length xs = length ids" "distinct ids"
  shows "set (map dev_id xs) = set ids"
proof (rule card_subset_eq)
  show "card (set (map dev_id xs)) = card (set ids)"
    using distinct_card [OF assms(1)] distinct_card [OF assms(4)] assms(3) by simp
qed (use assms(2) in simp_all)


subsection \<open>An example\<close>

text \<open>Two companies with a firewall each, and a user of the first.\<close>

definition example_dash_env :: dash_env where
  "example_dash_env = \<lparr>dx_cfg = default_settings, dx_iso = int_str, dx_companies_by_name = id, dx_devices_by_company = id,
     dx_devices_by_hostname = id, dx_events_newest = id, dx_audit_newest = id, dx_codes_newest = id, dx_filters_newest = id\<rparr>"

definition example_viewer :: user where
  "example_viewer = example_user\<lparr>usr_id := 4, usr_email := ''v@b.c'', usr_role := ''user''\<rparr>"

definition example_firewall :: device where
  "example_firewall = example_backup_device\<lparr>dev_id := 1, dev_email_notifications_enabled := True\<rparr>"

definition example_dash_db :: hub_db where
  "example_dash_db = empty_db\<lparr>users := [example_user, example_viewer],
     companies := [\<lparr>com_id = 2, com_name = ''c'', com_created_at = 0\<rparr>, \<lparr>com_id = 5, com_name = ''d'', com_created_at = 0\<rparr>],
     company_users := [\<lparr>cu_company_id = 2, cu_user_id = 4, cu_role = ''admin'', cu_created_at = 0\<rparr>],
     devices := [example_firewall, example_firewall\<lparr>dev_id := 7, dev_company_id := 5\<rparr>]\<rparr>"

definition example_dash_input :: dash_input where
  "example_dash_input = \<lparr>di_now = 100, di_request = \<lparr>rq_method = ''POST'', rq_path = ''/'', rq_client = None,
     rq_headers = (\<lambda>_. None), rq_cookies = (\<lambda>_. None), rq_hostname = Some ''hub''\<rparr>, di_user = example_viewer\<rparr>"

lemmas example_dash = example_dash_env_def example_viewer_def example_firewall_def example_dash_db_def example_dash_input_def
  example_user_def example_backup_device_def default_device_def empty_db_def




end
